(* ===== verification/Prelude.thy ===== *)
theory Prelude
  imports Complex_Main "HOL-Library.AList"
begin

text \<open>
  Shared vocabulary of the development: Python values as HOL types, the exceptions of
  the program as one error type, text helpers (\<^verbatim>\<open>str.strip\<close>, \<^verbatim>\<open>str.upper\<close>,
  truthiness), insertion-ordered dictionaries as association lists, and the generic
  lemmas the components use.

  \<^item> A price (Python \<^verbatim>\<open>float\<close>) is an exact rational: comparisons, \<^verbatim>\<open>min\<close> and
    \<^verbatim>\<open>max\<close> agree with the code on every finite float; sums, products and quotients
    agree up to binary64 rounding. NaN and the infinities are not prices.
  \<^item> A \<^verbatim>\<open>datetime\<close> is the number of microseconds since 0001-01-01 (minus a day, so that
    its quotient by a day is the proleptic ordinal), a \<^verbatim>\<open>date\<close> its ordinal, a
    \<^verbatim>\<open>time\<close> the microseconds since midnight; all timestamps are naive, as in the code.
  \<^item> Text is ASCII. An f-string is the list of its fragments.
\<close>

type_synonym price = rat
type_synonym date = int
type_synonym datetime = int
type_synonym time_of_day = int

named_theorems model_defs \<open>definitions unfolded by the component proofs\<close>

section \<open>Messages and exceptions\<close>

text \<open>\<open>PyFixed n x\<close> is the fragment that prints the number with \<open>n\<close> decimals.\<close>

datatype frag = Txt string | PyInt int | PyFloat price | PyFixed nat price | PyRepr string

type_synonym msg = "frag list"

datatype exn =
    ValueError msg
  | KeyError msg
  | TypeError msg
  | IndexError msg
  | RecursionError
  | ZeroDivisionError
  | S21StrategyEngineError msg
  | RuntimeError msg
  | FreshEntryPromotionError msg
  | HsreDataError msg
  | BacktestError msg
  | FormulaEvaluationError msg
  | MarketStructureError msg
  | BrokerOrderStateError msg
  | BrokerOrderIdempotencyError msg
  | PaperOrderStateError msg
  | PaperPositionStateError msg
  | PaperPositionManagerError msg
  | ProcessLockError string msg
  | MonthlyStatusCurrentDataError msg
  | AssertionError
  | AttributeError msg
  | PaperFillSimulatorError msg
  | PaperLifecycleError msg
  | PaperReviewError msg

type_synonym 'a res = "exn + 'a"

definition bindE :: "'a res \<Rightarrow> ('a \<Rightarrow> 'b res) \<Rightarrow> 'b res" where
  "bindE m f = (case m of Inl e \<Rightarrow> Inl e | Inr x \<Rightarrow> f x)"

lemma bindE_simps [simp]:
  "bindE (Inl e) f = Inl e"
  "bindE (Inr x) f = f x"
  by (simp_all add: bindE_def)

lemma bindE_eq_Inr: "bindE m f = Inr y \<longleftrightarrow> (\<exists>x. m = Inr x \<and> f x = Inr y)"
  by (cases m) auto

lemma bindE_eq_Inl: "bindE m f = Inl e \<longleftrightarrow> m = Inl e \<or> (\<exists>x. m = Inr x \<and> f x = Inl e)"
  by (cases m) auto

lemma bindE_cong [fundef_cong]:
  "m = m' \<Longrightarrow> (\<And>x. m' = Inr x \<Longrightarrow> f x = f' x) \<Longrightarrow> bindE m f = bindE m' f'"
  by (cases m') auto

definition guardE :: "bool \<Rightarrow> exn \<Rightarrow> unit res" where
  "guardE ok e = (if ok then Inr () else Inl e)"

lemma guardE_eq_Inr [simp]: "guardE ok e = Inr u \<longleftrightarrow> ok"
  by (simp add: guardE_def)

lemma guardE_eq_Inl [simp]: "guardE ok e = Inl e' \<longleftrightarrow> \<not> ok \<and> e' = e"
  by (auto simp: guardE_def)

lemma guardE_bind: "bindE (guardE ok e) f = (if ok then f () else Inl e)"
  by (simp add: guardE_def)

definition isok :: "'a res \<Rightarrow> bool" where
  "isok r = (case r of Inl _ \<Rightarrow> False | Inr _ \<Rightarrow> True)"

lemma isok_simps [simp]: "isok (Inr x)" "\<not> isok (Inl e)"
  by (simp_all add: isok_def)

lemma isokE: "isok r \<Longrightarrow> (\<And>x. r = Inr x \<Longrightarrow> P) \<Longrightarrow> P"
  by (cases r) auto

fun mapE :: "('a \<Rightarrow> 'b res) \<Rightarrow> 'a list \<Rightarrow> 'b list res" where
  "mapE f [] = Inr []"
| "mapE f (x # xs) = bindE (f x) (\<lambda>y. bindE (mapE f xs) (\<lambda>ys. Inr (y # ys)))"

lemma mapE_length: "mapE f xs = Inr ys \<Longrightarrow> length ys = length xs"
  by (induction xs arbitrary: ys) (auto simp: bindE_eq_Inr)

section \<open>Findings collected in a list\<close>

definition issue_if :: "bool \<Rightarrow> 'i \<Rightarrow> 'i list" where
  "issue_if c i = (if c then [i] else [])"

lemma issue_if_Nil [simp]: "issue_if c i = [] \<longleftrightarrow> \<not> c" "[] = issue_if c i \<longleftrightarrow> \<not> c"
  by (simp_all add: issue_if_def)

lemma set_issue_if [simp]: "set (issue_if c i) = (if c then {i} else {})"
  by (simp add: issue_if_def)

lemma issue_if_simps [simp]: "issue_if True i = [i]" "issue_if False i = []"
  by (simp_all add: issue_if_def)

section \<open>Text\<close>

definition is_space :: "char \<Rightarrow> bool" where
  "is_space c = (let n = of_char c :: nat in (9 \<le> n \<and> n \<le> 13) \<or> (28 \<le> n \<and> n \<le> 32))"

definition strip :: "string \<Rightarrow> string" where
  "strip s = rev (dropWhile is_space (rev (dropWhile is_space s)))"

definition upper_char :: "char \<Rightarrow> char" where
  "upper_char c = (let n = of_char c :: nat in if 97 \<le> n \<and> n \<le> 122 then char_of (n - 32) else c)"

definition upper :: "string \<Rightarrow> string" where
  "upper s = map upper_char s"

definition lower_char :: "char \<Rightarrow> char" where
  "lower_char c = (let n = of_char c :: nat in if 65 \<le> n \<and> n \<le> 90 then char_of (n + 32) else c)"

definition lower :: "string \<Rightarrow> string" where
  "lower s = map lower_char s"

definition blank :: "string \<Rightarrow> bool" where
  "blank s = (strip s = [])"

definition truthy_text :: "string option \<Rightarrow> bool" where
  "truthy_text x = (case x of None \<Rightarrow> False | Some s \<Rightarrow> s \<noteq> [])"

lemma strip_Nil [simp]: "strip [] = []"
  by (simp add: strip_def)

lemma dropWhile_last: "xs \<noteq> [] \<Longrightarrow> \<not> P (last xs) \<Longrightarrow> dropWhile P xs \<noteq> [] \<and> last (dropWhile P xs) = last xs"
  by (induction xs) (auto split: if_splits)

lemma dropWhile_id: "xs = [] \<or> \<not> P (hd xs) \<Longrightarrow> dropWhile P xs = xs"
  by (cases xs) auto

lemma hd_dropWhile_not: "dropWhile P xs \<noteq> [] \<Longrightarrow> \<not> P (hd (dropWhile P xs))"
  by (induction xs) auto

lemma strip_hd: "strip s \<noteq> [] \<Longrightarrow> \<not> is_space (hd (strip s))"
proof -
  let ?d = "dropWhile is_space s"
  assume ne: "strip s \<noteq> []"
  then have d: "?d \<noteq> []" by (cases "?d = []") (simp_all add: strip_def)
  then have "\<not> is_space (last (rev ?d))" by (simp add: last_rev hd_dropWhile_not)
  with d have "last (dropWhile is_space (rev ?d)) = last (rev ?d)"
    by (intro dropWhile_last [THEN conjunct2]) auto
  with d ne show ?thesis by (simp add: strip_def hd_rev last_rev hd_dropWhile_not)
qed

lemma strip_last: "strip s \<noteq> [] \<Longrightarrow> \<not> is_space (last (strip s))"
  by (simp add: strip_def last_rev hd_dropWhile_not)

lemma strip_fixed: "s = [] \<or> (\<not> is_space (hd s) \<and> \<not> is_space (last s)) \<Longrightarrow> strip s = s"
  by (auto simp: strip_def dropWhile_id hd_rev)

lemma strip_idem [simp]: "strip (strip s) = strip s"
  by (rule strip_fixed) (metis strip_hd strip_last)

lemma upper_char_idem [simp]: "upper_char (upper_char c) = upper_char c"
proof (cases "97 \<le> (of_char c :: nat) \<and> (of_char c :: nat) \<le> 122")
  case True
  then have "(of_char (char_of (of_char c - 32 :: nat)) :: nat) = of_char c - 32"
    by (subst of_char_of, intro mod_less) arith
  with True show ?thesis by (auto simp: upper_char_def Let_def)
next
  case False
  then show ?thesis by (auto simp: upper_char_def Let_def)
qed

lemma upper_idem [simp]: "upper (upper s) = upper s"
  by (simp add: upper_def)

text \<open>\<^verbatim>\<open>value or default\<close> of an optional text.\<close>

definition text_or :: "string option \<Rightarrow> string \<Rightarrow> string" where
  "text_or x y = (case x of None \<Rightarrow> y | Some t \<Rightarrow> (if t = [] then y else t))"

text \<open>\<^verbatim>\<open>_optional_text\<close>: blank text reads back as \<open>None\<close>, other text is stripped.\<close>

definition optional_text :: "string option \<Rightarrow> string option" where
  "optional_text x = (case x of None \<Rightarrow> None
     | Some t \<Rightarrow> (if strip t = [] then None else Some (strip t)))"

lemma optional_text_idem [simp]: "optional_text (optional_text x) = optional_text x"
  by (auto simp: optional_text_def split: option.splits)

lemma optional_text_None [simp]: "optional_text None = None"
  by (simp add: optional_text_def)

definition clean_text :: "string option \<Rightarrow> bool" where
  "clean_text x = (case x of None \<Rightarrow> True | Some t \<Rightarrow> strip t = t \<and> t \<noteq> [])"

lemma optional_text_fixed: "clean_text x \<longleftrightarrow> optional_text x = x"
  by (auto simp: clean_text_def optional_text_def split: option.splits)

definition norm_text :: "string \<Rightarrow> string" where
  "norm_text s = upper (strip s)"

text \<open>\<^verbatim>\<open>startswith\<close>, \<^verbatim>\<open>in\<close> and \<^verbatim>\<open>join\<close> on text.\<close>

definition starts_with :: "string \<Rightarrow> string \<Rightarrow> bool" where
  "starts_with p s \<longleftrightarrow> take (length p) s = p"

fun contains_text :: "string \<Rightarrow> string \<Rightarrow> bool" where
  "contains_text p [] \<longleftrightarrow> p = []"
| "contains_text p (c # s) \<longleftrightarrow> starts_with p (c # s) \<or> contains_text p s"

fun join_with_space :: "string list \<Rightarrow> string" where
  "join_with_space [] = []"
| "join_with_space [x] = x"
| "join_with_space (x # xs) = x @ '' '' @ join_with_space xs"

text \<open>\<^verbatim>\<open>str\<close> of an integer, in decimal.\<close>

fun decimal_nat :: "nat \<Rightarrow> string" where
  "decimal_nat n = (if n < 10 then [char_of (48 + n)] else decimal_nat (n div 10) @ [char_of (48 + n mod 10)])"

declare decimal_nat.simps [simp del]

definition py_str_int :: "int \<Rightarrow> string" where
  "py_str_int i = (if i < 0 then CHR ''-'' # decimal_nat (nat (- i)) else decimal_nat (nat i))"

definition zero_filled :: "nat \<Rightarrow> string \<Rightarrow> string" where
  "zero_filled w s = replicate (w - length s) CHR ''0'' @ s"

section \<open>Insertion-ordered dictionaries\<close>

text \<open>
  A Python \<^verbatim>\<open>dict\<close> is an association list with distinct keys in insertion order:
  assignment is \<^const>\<open>AList.update\<close> (an existing key keeps its place), a lookup is
  \<^const>\<open>map_of\<close>. A dict comprehension over a list assigns from left to right, so the
  last item of a key wins.
\<close>

type_synonym ('k, 'v) dict = "('k \<times> 'v) list"

definition dict_of :: "('a \<Rightarrow> 'k) \<Rightarrow> ('a \<Rightarrow> 'v) \<Rightarrow> 'a list \<Rightarrow> ('k, 'v) dict" where
  "dict_of k v xs = fold (\<lambda>x d. AList.update (k x) (v x) d) xs []"

lemma find_append: "find P (xs @ ys) = (case find P xs of None \<Rightarrow> find P ys | Some x \<Rightarrow> Some x)"
  by (induction xs) auto

lemma find_SomeD: "find P xs = Some x \<Longrightarrow> P x \<and> x \<in> set xs"
  by (induction xs) (auto split: if_splits)

lemma map_of_fold_update:
  "map_of (fold (\<lambda>x d. AList.update (k x) (v x) d) xs d0) key =
     (case find (\<lambda>x. k x = key) (rev xs) of None \<Rightarrow> map_of d0 key | Some x \<Rightarrow> Some (v x))"
proof (induction xs arbitrary: d0)
  case Nil
  then show ?case by simp
next
  case (Cons x xs)
  show ?case
    by (simp add: Cons.IH find_append update_conv' split: option.splits)
qed

lemma map_of_dict_of:
  "map_of (dict_of k v xs) key =
     map_option v (find (\<lambda>x. k x = key) (rev xs))"
  by (simp add: dict_of_def map_of_fold_update split: option.splits)

lemma map_of_dict_of_SomeD:
  "map_of (dict_of k v xs) key = Some y \<Longrightarrow> \<exists>x \<in> set xs. k x = key \<and> v x = y"
  by (auto simp: map_of_dict_of dest!: find_SomeD)

lemma map_of_dict_of_None:
  "map_of (dict_of k v xs) key = None \<longleftrightarrow> (\<forall>x \<in> set xs. k x \<noteq> key)"
  by (simp add: map_of_dict_of find_None_iff Ball_def)

lemma map_of_dict_of_shadow:
  assumes "k q = k p"
  shows "map_of (dict_of k v (q # pre @ p # post)) key = map_of (dict_of k v (pre @ p # post)) key"
proof (cases "find (\<lambda>x. k x = key) (rev (pre @ p # post))")
  case None
  then have "k p \<noteq> key" by (auto simp: find_None_iff)
  with None assms show ?thesis by (auto simp: map_of_dict_of find_append split: option.splits)
next
  case (Some x)
  then show ?thesis by (simp only: map_of_dict_of rev.simps find_append [of _ _ "[q]"]) simp
qed

lemma keys_fold_update:
  "fst ` set (fold (\<lambda>x d. AList.update (k x) (v x) d) xs d0) = fst ` set d0 \<union> k ` set xs"
proof (induction xs arbitrary: d0)
  case (Cons x xs)
  then show ?case by (simp add: dom_update)
qed simp

lemma distinct_fold_update:
  "distinct (map fst d0) \<Longrightarrow>
   distinct (map fst (fold (\<lambda>x d. AList.update (k x) (v x) d) xs d0))"
  by (induction xs arbitrary: d0) (auto simp: distinct_update)

lemma distinct_dict_of: "distinct (map fst (dict_of k v xs))"
  by (simp add: dict_of_def distinct_fold_update)

lemma dict_of_mem: "(key, y) \<in> set (dict_of k v xs) \<longleftrightarrow> map_of (dict_of k v xs) key = Some y"
  by (simp add: distinct_dict_of)

lemma list_all_update: "list_all (\<lambda>(k, _). P k) d \<Longrightarrow> P key \<Longrightarrow> list_all (\<lambda>(k, _). P k) (AList.update key v d)"
  by (induction d) auto

lemma concat_map_dict_Nil:
  "concat (map (\<lambda>(key, y). f key y) (dict_of k v xs)) = [] \<longleftrightarrow>
   (\<forall>key y. map_of (dict_of k v xs) key = Some y \<longrightarrow> f key y = [])"
  by (auto simp flip: dict_of_mem)

section \<open>Maximum and minimum of a list\<close>

text \<open>
  \<^verbatim>\<open>max(...)\<close> and \<^verbatim>\<open>min(...)\<close> of a generator. Python raises on an empty one; every
  call of the code is guarded by its own emptiness check, and the lemmas below are about
  non-empty lists only.
\<close>

definition py_max :: "'a::linorder list \<Rightarrow> 'a" where
  "py_max xs = fold max (tl xs) (hd xs)"

definition py_min :: "'a::linorder list \<Rightarrow> 'a" where
  "py_min xs = fold min (tl xs) (hd xs)"

lemma py_max_Max: "xs \<noteq> [] \<Longrightarrow> py_max xs = Max (set xs)"
  by (cases xs) (simp_all add: py_max_def flip: Max.set_eq_fold)

lemma py_min_Min: "xs \<noteq> [] \<Longrightarrow> py_min xs = Min (set xs)"
  by (cases xs) (simp_all add: py_min_def flip: Min.set_eq_fold)

lemma py_max_ge: "x \<in> set xs \<Longrightarrow> x \<le> py_max xs"
  by (metis List.finite_set Max_ge empty_iff empty_set py_max_Max)

lemma py_min_le: "x \<in> set xs \<Longrightarrow> py_min xs \<le> x"
  by (metis List.finite_set Min_le empty_iff empty_set py_min_Min)

lemma py_max_in: "xs \<noteq> [] \<Longrightarrow> py_max xs \<in> set xs"
  by (simp add: py_max_Max)

lemma py_min_in: "xs \<noteq> [] \<Longrightarrow> py_min xs \<in> set xs"
  by (simp add: py_min_Min)

text \<open>\<^verbatim>\<open>sorted(xs, key=..., reverse=True)\<close>: descending, equal elements in their order.\<close>

definition sort_descending :: "('a \<Rightarrow> 'k::linorder) \<Rightarrow> 'a list \<Rightarrow> 'a list" where
  "sort_descending key xs = rev (sort_key key (rev xs))"

lemma set_sort_descending [simp]: "set (sort_descending key xs) = set xs"
  by (simp add: sort_descending_def)

lemma sorted_sort_descending: "sorted (rev (map key (sort_descending key xs)))"
  by (simp add: sort_descending_def flip: rev_map)

text \<open>\<^verbatim>\<open>max(xs, key=...)\<close> of a non-empty list: the first of the largest.\<close>

fun max_by :: "('a \<Rightarrow> 'k::linorder) \<Rightarrow> 'a \<Rightarrow> 'a list \<Rightarrow> 'a" where
  "max_by key best [] = best"
| "max_by key best (x # xs) = max_by key (if key x > key best then x else best) xs"

lemma max_by_in: "max_by key b xs \<in> insert b (set xs)"
proof (induction xs arbitrary: b)
  case (Cons x xs)
  from Cons.IH [of "if key x > key b then x else b"] show ?case by (auto split: if_splits)
qed simp

lemma max_by_ge: "x \<in> insert b (set xs) \<Longrightarrow> key x \<le> key (max_by key b xs)"
proof (induction xs arbitrary: b x)
  case (Cons y xs)
  let ?b = "if key y > key b then y else b"
  have "key ?b \<le> key (max_by key ?b xs)" by (rule Cons.IH) simp
  moreover have "key x \<le> key (max_by key ?b xs)" if "x \<in> set xs" using that by (intro Cons.IH) simp
  ultimately show ?case using Cons.prems by (auto split: if_splits)
qed simp

section \<open>Rounding\<close>

text \<open>\<^verbatim>\<open>round(x, n)\<close>: to \<open>n\<close> decimals, ties to even.\<close>

definition round_even :: "price \<Rightarrow> int" where
  "round_even x = (let f = \<lfloor>x\<rfloor>; d = x - of_int f in
     if d < 1 / 2 then f else if d > 1 / 2 then f + 1 else if even f then f else f + 1)"

definition py_round :: "nat \<Rightarrow> price \<Rightarrow> price" where
  "py_round n x = of_int (round_even (x * 10 ^ n)) / 10 ^ n"

lemma round_even_error: "\<bar>of_int (round_even x) - x\<bar> \<le> 1 / 2"
proof -
  have "of_int \<lfloor>x\<rfloor> \<le> x" "x < of_int \<lfloor>x\<rfloor> + 1" by linarith+
  then show ?thesis by (auto simp: round_even_def Let_def abs_le_iff)
qed

lemma round_even_int [simp]: "round_even (of_int i) = i"
  by (simp add: round_even_def)

lemma py_round_error: "\<bar>py_round n x - x\<bar> \<le> 1 / (2 * 10 ^ n)"
proof -
  have "py_round n x - x = (of_int (round_even (x * 10 ^ n)) - x * 10 ^ n) / 10 ^ n"
    by (simp add: py_round_def field_simps)
  then have "\<bar>py_round n x - x\<bar> = \<bar>of_int (round_even (x * 10 ^ n)) - x * 10 ^ n\<bar> / 10 ^ n" by simp
  also have "\<dots> \<le> (1 / 2) / 10 ^ n" by (intro divide_right_mono round_even_error) simp
  finally show ?thesis by simp
qed

section \<open>Dates and times\<close>

definition us_per_day :: int where "us_per_day = 86400000000"

definition date_of :: "datetime \<Rightarrow> date" where "date_of t = t div us_per_day"

definition time_of :: "datetime \<Rightarrow> time_of_day" where "time_of t = t mod us_per_day"

definition at_time :: "date \<Rightarrow> time_of_day \<Rightarrow> datetime" where "at_time d t = d * us_per_day + t"

definition weekday :: "date \<Rightarrow> int" where "weekday d = (d + 6) mod 7"

lemma at_time_date_time: "at_time (date_of t) (time_of t) = t"
  by (simp add: at_time_def date_of_def time_of_def)

lemma date_of_mono: "a \<le> b \<Longrightarrow> date_of a \<le> date_of b"
  by (simp add: date_of_def us_per_day_def zdiv_mono1)

section \<open>Optional arguments and runs of operations\<close>

text \<open>\<^verbatim>\<open>x if x is not None else y\<close>\<close>

definition or_else :: "'a option \<Rightarrow> 'a option \<Rightarrow> 'a option" where
  "or_else x y = (case x of None \<Rightarrow> y | Some _ \<Rightarrow> x)"

lemma or_else_simps [simp]: "or_else None y = y" "or_else (Some a) y = Some a" "or_else x x = x"
  by (simp_all add: or_else_def split: option.splits)

fun runE :: "('c \<Rightarrow> 'd \<Rightarrow> 'd res) \<Rightarrow> 'c list \<Rightarrow> 'd \<Rightarrow> 'd res" where
  "runE step [] d = Inr d"
| "runE step (c # cs) d = bindE (step c d) (runE step cs)"

lemma runE_append: "runE step (cs @ cs') d = bindE (runE step cs d) (runE step cs')"
proof (induction cs arbitrary: d)
  case (Cons c cs)
  then show ?case by (cases "step c d") simp_all
qed simp

lemma runE_invariant:
  assumes "\<And>c d d'. step c d = Inr d' \<Longrightarrow> P d \<Longrightarrow> P d'" and "runE step cs d = Inr d'" and "P d"
  shows "P d'"
  using assms(2,3) by (induction cs arbitrary: d) (auto simp: bindE_eq_Inr intro: assms(1))

section \<open>Operations that keep their effects when they raise\<close>

text \<open>
  An operation on a store: what it wrote before an exception stays written. \<open>bindS\<close> is
  sequencing, \<open>liftS\<close> a computation without effects.
\<close>

type_synonym ('a, 'd) op = "'d \<Rightarrow> 'a res \<times> 'd"

definition bindS :: "('a, 'd) op \<Rightarrow> ('a \<Rightarrow> ('b, 'd) op) \<Rightarrow> ('b, 'd) op" where
  "bindS m f d = (case m d of (Inl e, d') \<Rightarrow> (Inl e, d') | (Inr x, d') \<Rightarrow> f x d')"

definition liftS :: "'a res \<Rightarrow> ('a, 'd) op" where
  "liftS r d = (r, d)"

definition updateS :: "('d \<Rightarrow> 'd) \<Rightarrow> (unit, 'd) op" where
  "updateS f d = (Inr (), f d)"

lemma bindS_simps [simp]:
  "m d = (Inl e, d') \<Longrightarrow> bindS m f d = (Inl e, d')"
  "m d = (Inr x, d') \<Longrightarrow> bindS m f d = f x d'"
  by (simp_all add: bindS_def)

lemma bindS_lift [simp]: "bindS (liftS (Inr x)) f = f x" "bindS (liftS (Inl e)) f = liftS (Inl e)"
  by (rule ext, simp add: bindS_def liftS_def)+

lemma bindS_Inr: "bindS m f d = (Inr y, d'') \<longleftrightarrow> (\<exists>x d'. m d = (Inr x, d') \<and> f x d' = (Inr y, d''))"
  by (auto simp: bindS_def split: prod.splits sum.splits)

lemma bindS_assoc: "bindS (bindS m f) g = bindS m (\<lambda>x. bindS (f x) g)"
  by (rule ext) (simp add: bindS_def split: prod.splits sum.splits)

lemma liftS_Inr [simp]: "liftS r d = (Inr y, d') \<longleftrightarrow> r = Inr y \<and> d' = d"
  by (auto simp: liftS_def)

lemma updateS_Inr [simp]: "updateS f d = (Inr u, d') \<longleftrightarrow> d' = f d"
  by (auto simp: updateS_def)

text \<open>The text of an f-string; the messages this is used for contain no float.\<close>

fun frag_text :: "frag \<Rightarrow> string" where
  "frag_text (Txt s) = s"
| "frag_text (PyInt i) = py_str_int i"
| "frag_text (PyFloat x) = []"
| "frag_text (PyFixed n x) = []"
| "frag_text (PyRepr s) = CHR 0x27 # s @ [CHR 0x27]"

definition msg_text :: "msg \<Rightarrow> string" where
  "msg_text m = concat (map frag_text m)"

fun exn_text :: "exn \<Rightarrow> string" where
  "exn_text (ValueError m) = msg_text m"
| "exn_text (KeyError m) = msg_text m"
| "exn_text (TypeError m) = msg_text m"
| "exn_text (IndexError m) = msg_text m"
| "exn_text RecursionError = ''maximum recursion depth exceeded''"
| "exn_text (FormulaEvaluationError m) = msg_text m"
| "exn_text (MarketStructureError m) = msg_text m"
| "exn_text (BrokerOrderStateError m) = msg_text m"
| "exn_text (BrokerOrderIdempotencyError m) = msg_text m"
| "exn_text (PaperOrderStateError m) = msg_text m"
| "exn_text (PaperPositionStateError m) = msg_text m"
| "exn_text (PaperPositionManagerError m) = msg_text m"
| "exn_text (ProcessLockError code m) = msg_text m"
| "exn_text (MonthlyStatusCurrentDataError m) = msg_text m"
| "exn_text AssertionError = []"
| "exn_text (PaperFillSimulatorError m) = msg_text m"
| "exn_text (PaperLifecycleError m) = msg_text m"
| "exn_text (PaperReviewError m) = msg_text m"

text \<open>\<^verbatim>\<open>str(item).strip()\<close> of every item, in order, without blanks and repetitions.\<close>

fun merge_texts :: "string list \<Rightarrow> string list \<Rightarrow> string list" where
  "merge_texts merged [] = merged"
| "merge_texts merged (x # xs) =
     (let t = strip x in merge_texts (if t \<noteq> [] \<and> t \<notin> set merged then merged @ [t] else merged) xs)"

lemma merge_texts_set: "set (merge_texts merged xs) = set merged \<union> (strip ` set xs - {[]})"
  by (induction xs arbitrary: merged) (auto simp: Let_def)

lemma merge_texts_distinct: "distinct merged \<Longrightarrow> distinct (merge_texts merged xs)"
  by (induction xs arbitrary: merged) (auto simp: Let_def)

lemma merge_texts_nonblank: "\<forall>x \<in> set merged. strip x \<noteq> [] \<Longrightarrow> \<forall>x \<in> set (merge_texts merged xs). strip x \<noteq> []"
  by (auto simp: merge_texts_set)

end
