(* ===== verification/Domain.thy ===== *)
theory Domain
  imports Prelude
begin

text \<open>
  The value types of \<^verbatim>\<open>src/tfis/domain\<close> and \<^verbatim>\<open>src/tfis/market_structure/ohlc.py\<close>: the
  enumerations, the validated dataclasses and their \<^verbatim>\<open>__post_init__\<close> checks. A
  constructor call that validates is \<open>mk_T r\<close>: the record with the arguments goes in,
  the normalised record or the exception comes out, with the checks in the code's order.
  The \<^verbatim>\<open>isinstance\<close> checks are what the HOL types say. Record fields carry a prefix
  where several classes of the code use one field name.
\<close>

section \<open>Enumerations (enums.py)\<close>

datatype segment = FUTURES | OPTIONS_BUY | OPTIONS_SELL | EQUITY

datatype monthly_status = BULL | BULL_CF | BEAR | BEAR_CF | UNKNOWN

datatype option_type = CALL | PUT

datatype expiry_type = WEEKLY | MONTHLY

datatype rollover_policy = T_MINUS_1 | T_MINUS_2

fun option_type_value :: "option_type \<Rightarrow> string" where
  "option_type_value CALL = ''CALL''"
| "option_type_value PUT = ''PUT''"

fun monthly_status_value :: "monthly_status \<Rightarrow> string" where
  "monthly_status_value BULL = ''BULL''"
| "monthly_status_value BULL_CF = ''BULL_CF''"
| "monthly_status_value BEAR = ''BEAR''"
| "monthly_status_value BEAR_CF = ''BEAR_CF''"
| "monthly_status_value UNKNOWN = ''UNKNOWN''"

fun expiry_type_value :: "expiry_type \<Rightarrow> string" where
  "expiry_type_value WEEKLY = ''WEEKLY''"
| "expiry_type_value MONTHLY = ''MONTHLY''"

fun rollover_policy_value :: "rollover_policy \<Rightarrow> string" where
  "rollover_policy_value T_MINUS_1 = ''T_MINUS_1''"
| "rollover_policy_value T_MINUS_2 = ''T_MINUS_2''"

section \<open>Field checks\<close>

definition require_text :: "string \<Rightarrow> string \<Rightarrow> string res" where
  "require_text name v =
     (if strip v = [] then Inl (ValueError [Txt name, Txt '' must be a non-empty string''])
      else Inr (strip v))"

definition require_non_negative_int :: "string \<Rightarrow> int \<Rightarrow> unit res" where
  "require_non_negative_int name v =
     guardE (\<not> v < 0) (ValueError [Txt name, Txt '' must be non-negative''])"

definition validate_optional_price :: "string \<Rightarrow> price option \<Rightarrow> unit res" where
  "validate_optional_price name v = (case v of None \<Rightarrow> Inr ()
     | Some x \<Rightarrow> guardE (\<not> x < 0) (ValueError [Txt name, Txt '' must be non-negative when provided'']))"

definition nonneg_opt :: "price option \<Rightarrow> bool" where
  "nonneg_opt v = (case v of None \<Rightarrow> True | Some x \<Rightarrow> 0 \<le> x)"

lemma nonneg_opt_simps [simp]: "nonneg_opt None" "nonneg_opt (Some x) \<longleftrightarrow> 0 \<le> x"
  by (simp_all add: nonneg_opt_def)

lemma validate_optional_price_ok [simp]:
  "validate_optional_price name v = Inr u \<longleftrightarrow> nonneg_opt v"
  by (cases v) (auto simp: validate_optional_price_def)

fun check_all :: "unit res list \<Rightarrow> unit res" where
  "check_all [] = Inr ()"
| "check_all (c # cs) = bindE c (\<lambda>_. check_all cs)"

lemma check_all_ok: "check_all cs = Inr u \<longleftrightarrow> (\<forall>c \<in> set cs. c = Inr ())"
  by (induction cs) (auto simp: bindE_eq_Inr)

section \<open>Market levels (market_levels.py)\<close>

record market_levels =
  previous_month_high :: "price option"
  previous_month_low :: "price option"
  previous_week_high :: "price option"
  previous_week_low :: "price option"
  d2hh :: "price option"
  d2ll :: "price option"
  d3hh :: "price option"
  d3ll :: "price option"
  d4hh :: "price option"
  d4ll :: "price option"
  current_day_high :: "price option"
  current_day_low :: "price option"

definition validate_order :: "string \<Rightarrow> string \<Rightarrow> price option \<Rightarrow> price option \<Rightarrow> unit res" where
  "validate_order high_name low_name high low = (case (high, low) of
       (Some h, Some l) \<Rightarrow> guardE (\<not> h < l)
          (ValueError [Txt high_name, Txt '' must be greater than or equal to '', Txt low_name])
     | _ \<Rightarrow> Inr ())"

definition ordered_opt :: "price option \<Rightarrow> price option \<Rightarrow> bool" where
  "ordered_opt high low = (case (high, low) of (Some h, Some l) \<Rightarrow> l \<le> h | _ \<Rightarrow> True)"

lemma validate_order_ok [simp]: "validate_order hname lname h l = Inr u \<longleftrightarrow> ordered_opt h l"
  by (auto simp: validate_order_def ordered_opt_def split: option.splits)

definition mk_market_levels :: "market_levels \<Rightarrow> market_levels res" where
  "mk_market_levels m = bindE (check_all
     [validate_optional_price ''previous_month_high'' (previous_month_high m),
      validate_optional_price ''previous_month_low'' (previous_month_low m),
      validate_optional_price ''previous_week_high'' (previous_week_high m),
      validate_optional_price ''previous_week_low'' (previous_week_low m),
      validate_optional_price ''d2hh'' (d2hh m),
      validate_optional_price ''d2ll'' (d2ll m),
      validate_optional_price ''d3hh'' (d3hh m),
      validate_optional_price ''d3ll'' (d3ll m),
      validate_optional_price ''d4hh'' (d4hh m),
      validate_optional_price ''d4ll'' (d4ll m),
      validate_optional_price ''current_day_high'' (current_day_high m),
      validate_optional_price ''current_day_low'' (current_day_low m),
      validate_order ''previous_month_high'' ''previous_month_low'' (previous_month_high m) (previous_month_low m),
      validate_order ''previous_week_high'' ''previous_week_low'' (previous_week_high m) (previous_week_low m),
      validate_order ''current_day_high'' ''current_day_low'' (current_day_high m) (current_day_low m)])
     (\<lambda>_. Inr m)"

definition wf_market_levels :: "market_levels \<Rightarrow> bool" where
  "wf_market_levels m \<longleftrightarrow>
     list_all nonneg_opt [previous_month_high m, previous_month_low m, previous_week_high m,
       previous_week_low m, d2hh m, d2ll m, d3hh m, d3ll m, d4hh m, d4ll m, current_day_high m,
       current_day_low m] \<and>
     ordered_opt (previous_month_high m) (previous_month_low m) \<and>
     ordered_opt (previous_week_high m) (previous_week_low m) \<and>
     ordered_opt (current_day_high m) (current_day_low m)"

lemma mk_market_levels_ok: "mk_market_levels m = Inr m' \<longleftrightarrow> m' = m \<and> wf_market_levels m"
  by (auto simp: mk_market_levels_def wf_market_levels_def bindE_eq_Inr check_all_ok)

section \<open>Candles (ohlc.py)\<close>

record ohlc_bar =
  bar_timestamp :: datetime
  bar_open :: price
  bar_high :: price
  bar_low :: price
  bar_close :: price
  bar_volume :: "price option"

definition validate_non_negative :: "string \<Rightarrow> price option \<Rightarrow> unit res" where
  "validate_non_negative name v = (case v of None \<Rightarrow> Inr ()
     | Some x \<Rightarrow> guardE (\<not> x < 0) (ValueError [Txt name, Txt '' must be non-negative'']))"

definition mk_ohlc_bar :: "ohlc_bar \<Rightarrow> ohlc_bar res" where
  "mk_ohlc_bar b = bindE (check_all
     [validate_non_negative ''open'' (Some (bar_open b)),
      validate_non_negative ''high'' (Some (bar_high b)),
      validate_non_negative ''low'' (Some (bar_low b)),
      validate_non_negative ''close'' (Some (bar_close b)),
      validate_non_negative ''volume'' (bar_volume b),
      guardE (\<not> bar_high b < bar_low b)
        (ValueError [Txt ''high must be greater than or equal to low'']),
      guardE (\<not> (bar_high b < bar_open b \<or> bar_high b < bar_close b))
        (ValueError [Txt ''high must be greater than or equal to open and close'']),
      guardE (\<not> (bar_low b > bar_open b \<or> bar_low b > bar_close b))
        (ValueError [Txt ''low must be less than or equal to open and close''])])
     (\<lambda>_. Inr b)"

definition wf_bar :: "ohlc_bar \<Rightarrow> bool" where
  "wf_bar b \<longleftrightarrow> 0 \<le> bar_low b \<and> bar_low b \<le> bar_open b \<and> bar_open b \<le> bar_high b \<and>
     bar_low b \<le> bar_close b \<and> bar_close b \<le> bar_high b \<and> nonneg_opt (bar_volume b)"

lemma mk_ohlc_bar_ok: "mk_ohlc_bar b = Inr b' \<longleftrightarrow> b' = b \<and> wf_bar b"
  by (cases "bar_volume b")
    (auto simp: mk_ohlc_bar_def wf_bar_def validate_non_negative_def bindE_eq_Inr)

section \<open>Trade plans and instruments (trade_plan.py, instruments.py)\<close>

record trade_plan =
  tp_strategy_code :: string
  tp_symbol :: string
  tp_option_type :: "option_type option"
  tp_start_strike :: "int option"
  tp_end_strike :: "int option"
  tp_ideal_premium :: "price option"
  tp_minimum_premium :: "price option"
  tp_entry_price :: price
  tp_stoploss_price :: price
  tp_target_price :: price

definition mk_trade_plan :: "trade_plan \<Rightarrow> trade_plan res" where
  "mk_trade_plan p = bindE (check_all
     [guardE (\<not> (tp_strategy_code p = [] \<or> strip (tp_strategy_code p) = []))
        (ValueError [Txt ''strategy_code must be a non-empty string'']),
      guardE (\<not> (tp_symbol p = [] \<or> strip (tp_symbol p) = []))
        (ValueError [Txt ''symbol must be a non-empty string'']),
      validate_optional_price ''start_strike'' (map_option of_int (tp_start_strike p)),
      validate_optional_price ''end_strike'' (map_option of_int (tp_end_strike p)),
      validate_optional_price ''ideal_premium'' (tp_ideal_premium p),
      validate_optional_price ''minimum_premium'' (tp_minimum_premium p),
      validate_optional_price ''entry_price'' (Some (tp_entry_price p)),
      validate_optional_price ''stoploss_price'' (Some (tp_stoploss_price p)),
      validate_optional_price ''target_price'' (Some (tp_target_price p))])
     (\<lambda>_. Inr p)"

definition wf_trade_plan :: "trade_plan \<Rightarrow> bool" where
  "wf_trade_plan p \<longleftrightarrow> strip (tp_strategy_code p) \<noteq> [] \<and> strip (tp_symbol p) \<noteq> [] \<and>
     nonneg_opt (map_option of_int (tp_start_strike p)) \<and>
     nonneg_opt (map_option of_int (tp_end_strike p)) \<and>
     nonneg_opt (tp_ideal_premium p) \<and> nonneg_opt (tp_minimum_premium p) \<and>
     0 \<le> tp_entry_price p \<and> 0 \<le> tp_stoploss_price p \<and> 0 \<le> tp_target_price p"

lemma mk_trade_plan_ok: "mk_trade_plan p = Inr p' \<longleftrightarrow> p' = p \<and> wf_trade_plan p"
  by (auto simp: mk_trade_plan_def wf_trade_plan_def bindE_eq_Inr)

record instrument_ref =
  ir_symbol :: string
  ir_segment :: segment

definition mk_instrument_ref :: "instrument_ref \<Rightarrow> instrument_ref res" where
  "mk_instrument_ref i =
     (if ir_symbol i = [] \<or> strip (ir_symbol i) = []
      then Inl (ValueError [Txt ''symbol must be a non-empty string''])
      else Inr i)"

section \<open>Strategy rules (strategy_rule.py)\<close>

record strategy_expiry_policy =
  ep_expiry_type :: expiry_type
  ep_rollover_policy :: rollover_policy
  ep_forced_close_time :: "time_of_day option"
  ep_no_carry_past_expiry :: bool

record strategy_rule =
  sr_strategy_code :: string
  sr_unique_code :: string
  sr_symbol :: string
  sr_segment :: segment
  sr_expiry_policy :: strategy_expiry_policy
  sr_allowed_monthly_statuses :: "monthly_status list"
  sr_option_type :: "option_type option"
  sr_entry_time :: time_of_day
  sr_recalculation_time :: time_of_day
  sr_start_strike_formula :: string
  sr_end_strike_formula :: string
  sr_ideal_premium_formula :: string
  sr_minimum_premium_formula :: string
  sr_minimum_oi :: int
  sr_entry_formula :: string
  sr_target_formula :: string
  sr_stoploss_formula :: string
  sr_carry_forward_allowed :: bool
  sr_parameters :: "(string, price) dict"
  sr_allow_fresh_entry_with_open_position :: bool

fun normalize_parameters :: "(string, price) dict \<Rightarrow> (string, price) dict \<Rightarrow> (string, price) dict res" where
  "normalize_parameters acc [] = Inr acc"
| "normalize_parameters acc ((key, v) # items) =
     (if strip key = [] then Inl (ValueError [Txt ''parameter names must be non-empty strings''])
      else normalize_parameters (AList.update (strip key) v acc) items)"

definition mk_strategy_rule :: "strategy_rule \<Rightarrow> strategy_rule res" where
  "mk_strategy_rule r =
     bindE (require_text ''strategy_code'' (sr_strategy_code r)) (\<lambda>code.
     bindE (require_text ''unique_code'' (sr_unique_code r)) (\<lambda>unique.
     bindE (require_text ''symbol'' (sr_symbol r)) (\<lambda>sym.
     bindE (guardE (sr_allowed_monthly_statuses r \<noteq> [])
       (ValueError [Txt ''allowed_monthly_statuses must not be empty''])) (\<lambda>_.
     bindE (require_text ''start_strike_formula'' (sr_start_strike_formula r)) (\<lambda>start_f.
     bindE (require_text ''end_strike_formula'' (sr_end_strike_formula r)) (\<lambda>end_f.
     bindE (require_text ''ideal_premium_formula'' (sr_ideal_premium_formula r)) (\<lambda>ideal_f.
     bindE (require_text ''minimum_premium_formula'' (sr_minimum_premium_formula r)) (\<lambda>min_f.
     bindE (require_text ''entry_formula'' (sr_entry_formula r)) (\<lambda>entry_f.
     bindE (require_text ''target_formula'' (sr_target_formula r)) (\<lambda>target_f.
     bindE (require_text ''stoploss_formula'' (sr_stoploss_formula r)) (\<lambda>stop_f.
     bindE (require_non_negative_int ''minimum_oi'' (sr_minimum_oi r)) (\<lambda>_.
     bindE (normalize_parameters [] (sr_parameters r)) (\<lambda>params.
     bindE (guardE (\<not> (sr_segment r \<in> {OPTIONS_BUY, OPTIONS_SELL} \<and> sr_option_type r = None))
       (ValueError [Txt ''option_type is required for option segments''])) (\<lambda>_.
     bindE (guardE (\<not> (sr_segment r \<in> {FUTURES, EQUITY} \<and> sr_option_type r \<noteq> None))
       (ValueError [Txt ''option_type must be omitted for non-option segments''])) (\<lambda>_.
     Inr (r\<lparr>sr_strategy_code := code, sr_unique_code := unique, sr_symbol := sym,
       sr_start_strike_formula := start_f, sr_end_strike_formula := end_f,
       sr_ideal_premium_formula := ideal_f, sr_minimum_premium_formula := min_f,
       sr_entry_formula := entry_f, sr_target_formula := target_f, sr_stoploss_formula := stop_f,
       sr_parameters := params\<rparr>))))))))))))))))"

definition is_option_segment :: "segment \<Rightarrow> bool" where
  "is_option_segment s \<longleftrightarrow> s \<in> {OPTIONS_BUY, OPTIONS_SELL}"

lemma require_text_ok: "require_text n v = Inr t \<longleftrightarrow> t = strip v \<and> strip v \<noteq> []"
  by (auto simp: require_text_def)

lemma require_non_negative_int_ok [simp]: "require_non_negative_int n v = Inr u \<longleftrightarrow> 0 \<le> v"
  by (auto simp: require_non_negative_int_def)

lemma normalize_parameters_keys:
  assumes "normalize_parameters acc items = Inr d"
    and "\<And>k. k \<in> fst ` set acc \<Longrightarrow> strip k = k \<and> k \<noteq> []"
    and "k \<in> fst ` set d"
  shows "strip k = k \<and> k \<noteq> []"
  using assms
proof (induction acc items rule: normalize_parameters.induct)
  case (2 acc key v items)
  from "2.prems"(1) have ne: "strip key \<noteq> []"
    and rest: "normalize_parameters (AList.update (strip key) v acc) items = Inr d"
    by (simp_all split: if_splits)
  show ?case
  proof (rule "2.IH" [OF ne rest])
    fix k' assume "k' \<in> fst ` set (AList.update (strip key) v acc)"
    then show "strip k' = k' \<and> k' \<noteq> []" using ne "2.prems"(2) [of k'] by (auto simp: dom_update)
  qed (rule "2.prems"(3))
qed simp

lemma normalize_parameters_distinct:
  "normalize_parameters acc items = Inr d \<Longrightarrow> distinct (map fst acc) \<Longrightarrow> distinct (map fst d)"
proof (induction acc items rule: normalize_parameters.induct)
  case (2 acc key v items)
  then show ?case by (simp add: distinct_update split: if_splits)
qed simp

definition wf_strategy_rule :: "strategy_rule \<Rightarrow> bool" where
  "wf_strategy_rule r \<longleftrightarrow>
     list_all (\<lambda>t. strip t = t \<and> t \<noteq> []) [sr_strategy_code r, sr_unique_code r, sr_symbol r,
       sr_start_strike_formula r, sr_end_strike_formula r, sr_ideal_premium_formula r,
       sr_minimum_premium_formula r, sr_entry_formula r, sr_target_formula r, sr_stoploss_formula r] \<and>
     sr_allowed_monthly_statuses r \<noteq> [] \<and> 0 \<le> sr_minimum_oi r \<and>
     (\<forall>k \<in> fst ` set (sr_parameters r). strip k = k \<and> k \<noteq> []) \<and>
     distinct (map fst (sr_parameters r)) \<and>
     (is_option_segment (sr_segment r) \<longleftrightarrow> sr_option_type r \<noteq> None)"

lemma mk_strategy_rule_wf:
  assumes "mk_strategy_rule r = Inr r'"
  shows "wf_strategy_rule r'"
proof -
  from assms obtain params where
    texts: "strip (sr_strategy_code r) \<noteq> []" "strip (sr_unique_code r) \<noteq> []" "strip (sr_symbol r) \<noteq> []"
      "strip (sr_start_strike_formula r) \<noteq> []" "strip (sr_end_strike_formula r) \<noteq> []"
      "strip (sr_ideal_premium_formula r) \<noteq> []" "strip (sr_minimum_premium_formula r) \<noteq> []"
      "strip (sr_entry_formula r) \<noteq> []" "strip (sr_target_formula r) \<noteq> []"
      "strip (sr_stoploss_formula r) \<noteq> []"
    and rest: "sr_allowed_monthly_statuses r \<noteq> []" "0 \<le> sr_minimum_oi r"
      "is_option_segment (sr_segment r) \<longleftrightarrow> sr_option_type r \<noteq> None"
    and params: "normalize_parameters [] (sr_parameters r) = Inr params"
    and r': "r' = r\<lparr>sr_strategy_code := strip (sr_strategy_code r),
       sr_unique_code := strip (sr_unique_code r), sr_symbol := strip (sr_symbol r),
       sr_start_strike_formula := strip (sr_start_strike_formula r),
       sr_end_strike_formula := strip (sr_end_strike_formula r),
       sr_ideal_premium_formula := strip (sr_ideal_premium_formula r),
       sr_minimum_premium_formula := strip (sr_minimum_premium_formula r),
       sr_entry_formula := strip (sr_entry_formula r),
       sr_target_formula := strip (sr_target_formula r),
       sr_stoploss_formula := strip (sr_stoploss_formula r), sr_parameters := params\<rparr>"
    unfolding mk_strategy_rule_def is_option_segment_def
    by (cases "sr_segment r") (simp_all add: bindE_eq_Inr require_text_ok, (elim conjE exE, simp)+)
  have "strip k = k \<and> k \<noteq> []" if "k \<in> fst ` set params" for k
    by (rule normalize_parameters_keys [OF params]) (use that in auto)
  moreover have "distinct (map fst params)"
    by (rule normalize_parameters_distinct [OF params]) simp
  ultimately show ?thesis using texts rest by (simp add: wf_strategy_rule_def r')
qed

end
