(* ===== verification/Formulas.thy ===== *)
theory Formulas
  imports Domain
begin

text \<open>
  The formula mini-language of \<^verbatim>\<open>src/tfis/formulas/formula_engine.py\<close>: the tokenizer, the
  recursive-descent parser that evaluates while it parses, and \<^verbatim>\<open>FormulaEngine.evaluate\<close>.
  The parser's cursor \<^verbatim>\<open>_index\<close> into \<^verbatim>\<open>_tokens\<close> is the list of the tokens still to be
  read; reading past its end is Python's \<^verbatim>\<open>IndexError\<close>. The mutually recursive
  methods take one unit of fuel per call (and per turn of a \<^verbatim>\<open>while\<close> loop); theory
  \<open>FormulaSpec\<close> proves that \<open>formula_fuel\<close> is always enough. The fuel has no counterpart in the code: this
  is the parser on an interpreter without a recursion limit. Theory \<open>FormulaStack\<close> runs the same methods
  under Python's limit and says what it changes.
\<close>

section \<open>Tokens\<close>

datatype token_kind =
  NUMBER | NAME | LPAREN | RPAREN | COMMA | PLUS | MINUS | STAR | PERCENT | EOF

datatype token = Token (tok_kind: token_kind) (tok_value: string)

fun kind_name :: "token_kind \<Rightarrow> string" where
  "kind_name NUMBER = ''NUMBER''"
| "kind_name NAME = ''NAME''"
| "kind_name LPAREN = ''LPAREN''"
| "kind_name RPAREN = ''RPAREN''"
| "kind_name COMMA = ''COMMA''"
| "kind_name PLUS = ''PLUS''"
| "kind_name MINUS = ''MINUS''"
| "kind_name STAR = ''STAR''"
| "kind_name PERCENT = ''PERCENT''"
| "kind_name EOF = ''EOF''"

definition is_digit :: "char \<Rightarrow> bool" where
  "is_digit c = (let n = of_char c :: nat in 48 \<le> n \<and> n \<le> 57)"

definition is_name_start :: "char \<Rightarrow> bool" where
  "is_name_start c = (let n = of_char c :: nat in
     (65 \<le> n \<and> n \<le> 90) \<or> (97 \<le> n \<and> n \<le> 122) \<or> n = 95)"

definition is_name_char :: "char \<Rightarrow> bool" where
  "is_name_char c = (is_name_start c \<or> is_digit c)"

text \<open>The regular expression \<^verbatim>\<open>\d+(?:\.\d+)?\<close>: the match and what follows it.\<close>

definition scan_number :: "string \<Rightarrow> string \<times> string" where
  "scan_number s = (let ds = takeWhile is_digit s; r = dropWhile is_digit s in
     (case r of
        c # d # r' \<Rightarrow> (if c = CHR ''.'' \<and> is_digit d
                     then (ds @ c # takeWhile is_digit (d # r'), dropWhile is_digit (d # r'))
                     else (ds, r))
      | _ \<Rightarrow> (ds, r)))"

definition punctuation :: "char \<Rightarrow> token_kind option" where
  "punctuation c =
     (if c = CHR ''('' then Some LPAREN
      else if c = CHR '')'' then Some RPAREN
      else if c = CHR '','' then Some COMMA
      else if c = CHR ''+'' then Some PLUS
      else if c = CHR ''-'' then Some MINUS
      else if c = CHR ''*'' then Some STAR
      else if c = CHR ''%'' then Some PERCENT
      else None)"

lemma length_dropWhile_le: "length (dropWhile P xs) \<le> length xs"
  by (induction xs) auto

lemma scan_number_digit:
  assumes "is_digit c"
  shows "length (snd (scan_number (c # cs))) \<le> length cs"
proof -
  let ?r = "dropWhile is_digit cs"
  have r: "length ?r \<le> length cs" by (rule length_dropWhile_le)
  have "length (snd (scan_number (c # cs))) \<le> length ?r"
  proof (cases "\<exists>x y r'. ?r = x # y # r'")
    case True
    then obtain x y r' where "?r = x # y # r'" by blast
    then show ?thesis
      using assms length_dropWhile_le [of is_digit r'] by (auto simp: scan_number_def Let_def)
  next
    case False
    then show ?thesis using assms by (auto simp: scan_number_def Let_def split: list.splits)
  qed
  with r show ?thesis by (rule order_trans [rotated])
qed

lemma length_dropWhile_less: "length (dropWhile P cs) < Suc (length cs)"
  by (induction cs) auto

function tokenize_from :: "nat \<Rightarrow> string \<Rightarrow> token list res" where
  "tokenize_from pos [] = Inr [Token EOF []]"
| "tokenize_from pos (c # cs) =
     (if is_space c then
        (let rest = dropWhile is_space cs
         in tokenize_from (pos + (length (c # cs) - length rest)) rest)
      else if is_digit c then
        (let (num, rest) = scan_number (c # cs)
         in bindE (tokenize_from (pos + length num) rest) (\<lambda>ts. Inr (Token NUMBER num # ts)))
      else if is_name_start c then
        (let name = c # takeWhile is_name_char cs; rest = dropWhile is_name_char cs
         in bindE (tokenize_from (pos + length name) rest) (\<lambda>ts. Inr (Token NAME name # ts)))
      else (case punctuation c of
          Some k \<Rightarrow> bindE (tokenize_from (pos + 1) cs) (\<lambda>ts. Inr (Token k [c] # ts))
        | None \<Rightarrow> Inl (FormulaEvaluationError
            [Txt ''Unsupported token near position '', PyInt (int pos), Txt '': '', Txt (c # cs)])))"
  by pat_completeness auto
termination
proof (relation "measure (\<lambda>(pos, s). length s)", goal_cases)
  case (3 pos c cs x num rest)
  then show ?case using scan_number_digit [of c cs] by (metis case_prod_conv in_measure le_imp_less_Suc length_Cons snd_conv)
qed (auto simp: length_dropWhile_less)

definition tokenize :: "string \<Rightarrow> token list res" where
  "tokenize s = tokenize_from 0 s"

text \<open>\<^verbatim>\<open>float(token.value)\<close> on the digits of a NUMBER token.\<close>

definition digit_value :: "char \<Rightarrow> rat" where
  "digit_value c = of_nat (of_char c - 48)"

definition number_value :: "string \<Rightarrow> price" where
  "number_value s =
     (let whole = takeWhile is_digit s; frac = drop 1 (dropWhile is_digit s)
      in fold (\<lambda>c acc. acc * 10 + digit_value c) whole 0
         + foldr (\<lambda>c acc. (acc + digit_value c) / 10) frac 0)"

section \<open>The evaluation environment\<close>

text \<open>
  A runtime value is absent (\<^verbatim>\<open>None\<close>), a number, or a mapping of aliases to numbers.
  \<^verbatim>\<open>float(x)\<close> of anything but a number raises \<^verbatim>\<open>TypeError\<close>.
\<close>

datatype py_value = PNone | PNum price | PDict "(string, price) dict"

record formula_env =
  fe_levels :: market_levels
  fe_runtime :: "(string, py_value) dict"
  fe_params :: "(string, price) dict"

definition to_float :: "py_value \<Rightarrow> price res" where
  "to_float v = (case v of PNum x \<Rightarrow> Inr x
     | _ \<Rightarrow> Inl (TypeError [Txt ''float() argument must be a string or a real number'']))"

definition runtime_get :: "(string, py_value) dict \<Rightarrow> string \<Rightarrow> py_value" where
  "runtime_get d k = (case map_of d k of None \<Rightarrow> PNone | Some v \<Rightarrow> v)"

definition FUNCTIONS :: "string list" where
  "FUNCTIONS = [''MIN'', ''MAX'', ''ROUND_UP'', ''ROUND_DOWN'', ''PARAM'']"

definition OPTION_ALIAS_NAMES :: "string list" where
  "OPTION_ALIAS_NAMES = [''OPT_PRV_2DHH'', ''OPT_PRV_2DLL'', ''OPT_PRV_3DHH'', ''OPT_PRV_3DLL'']"

definition ALIAS_TO_MARKET_LEVEL :: "(string \<times> (market_levels \<Rightarrow> price option)) list" where
  "ALIAS_TO_MARKET_LEVEL =
     [(''PRV_2DHH'', d2hh), (''PRV_2DLL'', d2ll), (''PRV_3DHH'', d3hh), (''PRV_3DLL'', d3ll),
      (''PRV_4DHH'', d4hh), (''PRV_4DLL'', d4ll), (''CDHH'', current_day_high),
      (''CDLL'', current_day_low)]"

definition resolve_option_container ::
  "(string, py_value) dict \<Rightarrow> string \<Rightarrow> string \<Rightarrow> price option res" where
  "resolve_option_container rt container_name alias =
     (case runtime_get rt container_name of
        PNone \<Rightarrow> Inr None
      | PNum _ \<Rightarrow> Inl (FormulaEvaluationError
          [Txt ''runtime_values['', PyRepr container_name, Txt ''] must be a mapping''])
      | PDict d \<Rightarrow> Inr (map_of d alias))"

definition resolve_option_alias :: "formula_env \<Rightarrow> string \<Rightarrow> price res" where
  "resolve_option_alias env alias =
     (case runtime_get (fe_runtime env) alias of
        PNone \<Rightarrow>
          bindE (resolve_option_container (fe_runtime env) ''OPT_LEVELS'' alias) (\<lambda>r1.
          (case r1 of Some x \<Rightarrow> Inr x
           | None \<Rightarrow> bindE (resolve_option_container (fe_runtime env) ''OPTION_LEVELS'' alias) (\<lambda>r2.
              (case r2 of Some x \<Rightarrow> Inr x
               | None \<Rightarrow> Inl (FormulaEvaluationError [Txt ''Missing option reference: '', Txt alias])))))
      | v \<Rightarrow> to_float v)"

definition resolve_alias :: "formula_env \<Rightarrow> string \<Rightarrow> price res" where
  "resolve_alias env name =
     (let alias = upper name in
      if alias = ''ENTRY'' then
        (case runtime_get (fe_runtime env) ''ENTRY'' of
           PNone \<Rightarrow> Inl (FormulaEvaluationError [Txt ''ENTRY is not available in runtime_values''])
         | v \<Rightarrow> to_float v)
      else if alias \<in> set OPTION_ALIAS_NAMES then resolve_option_alias env alias
      else (case map_of ALIAS_TO_MARKET_LEVEL alias of
          None \<Rightarrow> Inl (FormulaEvaluationError [Txt ''Unsupported reference: '', Txt alias])
        | Some field \<Rightarrow> (case field (fe_levels env) of
              None \<Rightarrow> Inl (FormulaEvaluationError
                [Txt ''Market level '', Txt alias, Txt '' is not available''])
            | Some x \<Rightarrow> Inr x)))"

definition resolve_parameter :: "formula_env \<Rightarrow> string \<Rightarrow> price res" where
  "resolve_parameter env name = (case map_of (fe_params env) name of
       None \<Rightarrow> Inl (FormulaEvaluationError [Txt ''Missing parameter: '', Txt name])
     | Some x \<Rightarrow> Inr x)"

text \<open>\<^verbatim>\<open>ROUND_UP\<close> and \<^verbatim>\<open>ROUND_DOWN\<close>: to a multiple of a positive \<^verbatim>\<open>strike_step\<close>, else to an integer.\<close>

definition round_value :: "formula_env \<Rightarrow> bool \<Rightarrow> price \<Rightarrow> price" where
  "round_value env up v = (case map_of (fe_params env) ''strike_step'' of
       Some step \<Rightarrow> (if step > 0
          then (if up then of_int \<lceil>v / step\<rceil> * step else of_int \<lfloor>v / step\<rfloor> * step)
          else (if up then of_int \<lceil>v\<rceil> else of_int \<lfloor>v\<rfloor>))
     | None \<Rightarrow> (if up then of_int \<lceil>v\<rceil> else of_int \<lfloor>v\<rfloor>))"

section \<open>The parser\<close>

type_synonym 'a parse = "('a \<times> token list) res"

definition current :: "token list \<Rightarrow> token res" where
  "current ts = (case ts of [] \<Rightarrow> Inl (IndexError [Txt ''list index out of range'']) | t # _ \<Rightarrow> Inr t)"

definition advance :: "token list \<Rightarrow> token parse" where
  "advance ts = (case ts of [] \<Rightarrow> Inl (IndexError [Txt ''list index out of range''])
     | t # ts' \<Rightarrow> Inr (t, ts'))"

definition expect :: "token_kind \<Rightarrow> token list \<Rightarrow> token parse" where
  "expect k ts = bindE (current ts) (\<lambda>t.
     if tok_kind t \<noteq> k
     then Inl (FormulaEvaluationError [Txt ''Expected token '', Txt (kind_name k), Txt '', got '',
       Txt (kind_name (tok_kind t)), Txt '' ('', Txt (tok_value t), Txt '')''])
     else advance ts)"

text \<open>
  The recursive methods of \<^verbatim>\<open>_FormulaParser\<close>. A call of \<^verbatim>\<open>self._parse_x(...)\<close> is
  \<open>self (Call_x ...)\<close>; a turn of a \<^verbatim>\<open>while\<close> loop is a call of the loop on its
  accumulator. \<open>run_parser\<close> ties the knot.
\<close>

datatype parser_call =
    Parse_expression
  | Expression_loop price
  | Parse_term
  | Term_loop price
  | Parse_primary
  | Parse_multiplier
  | Parse_function_call
  | Parse_adjustment price

type_synonym parser_self = "parser_call \<Rightarrow> token list \<Rightarrow> price parse"

definition parse_expression :: "parser_self \<Rightarrow> token list \<Rightarrow> price parse" where
  "parse_expression self ts =
     bindE (self Parse_term ts) (\<lambda>(v, ts1). self (Expression_loop v) ts1)"

definition expression_loop :: "parser_self \<Rightarrow> price \<Rightarrow> token list \<Rightarrow> price parse" where
  "expression_loop self v ts =
     bindE (current ts) (\<lambda>t.
       if tok_kind t \<in> {PLUS, MINUS} then
         bindE (advance ts) (\<lambda>(oper, ts1).
         bindE (self (Parse_adjustment v) ts1) (\<lambda>(delta, ts2).
           self (Expression_loop (if tok_kind oper = PLUS then v + delta else v - delta)) ts2))
       else Inr (v, ts))"

definition parse_term :: "parser_self \<Rightarrow> token list \<Rightarrow> price parse" where
  "parse_term self ts = bindE (self Parse_primary ts) (\<lambda>(v, ts1). self (Term_loop v) ts1)"

definition term_loop :: "parser_self \<Rightarrow> price \<Rightarrow> token list \<Rightarrow> price parse" where
  "term_loop self v ts =
     bindE (current ts) (\<lambda>t.
       if tok_kind t = STAR then
         bindE (advance ts) (\<lambda>(_, ts1).
         bindE (self Parse_multiplier ts1) (\<lambda>(m, ts2). self (Term_loop (v * m)) ts2))
       else Inr (v, ts))"

definition parse_primary :: "parser_self \<Rightarrow> formula_env \<Rightarrow> token list \<Rightarrow> price parse" where
  "parse_primary self env ts =
     bindE (current ts) (\<lambda>t.
       if tok_kind t = NAME then
         (if upper (tok_value t) \<in> set FUNCTIONS then self Parse_function_call ts
          else bindE (advance ts) (\<lambda>(_, ts1).
               bindE (resolve_alias env (tok_value t)) (\<lambda>v. Inr (v, ts1))))
       else if tok_kind t = NUMBER then
         bindE (advance ts) (\<lambda>(_, ts1). Inr (number_value (tok_value t), ts1))
       else if tok_kind t = LPAREN then
         bindE (advance ts) (\<lambda>(_, ts1).
         bindE (self Parse_expression ts1) (\<lambda>(v, ts2).
         bindE (expect RPAREN ts2) (\<lambda>(_, ts3). Inr (v, ts3))))
       else Inl (FormulaEvaluationError [Txt ''Unexpected token in formula: '', Txt (tok_value t)]))"

definition parse_multiplier :: "parser_self \<Rightarrow> token list \<Rightarrow> price parse" where
  "parse_multiplier self ts =
     bindE (self Parse_primary ts) (\<lambda>(v, ts1).
     bindE (current ts1) (\<lambda>t.
       if tok_kind t = PERCENT then bindE (advance ts1) (\<lambda>(_, ts2). Inr (v / 100, ts2))
       else Inr (v, ts1)))"

definition parse_function_call :: "parser_self \<Rightarrow> formula_env \<Rightarrow> token list \<Rightarrow> price parse" where
  "parse_function_call self env ts =
     bindE (expect NAME ts) (\<lambda>(nt, ts1).
     bindE (expect LPAREN ts1) (\<lambda>(_, ts2).
     (let name = upper (tok_value nt) in
      if name = ''MIN'' \<or> name = ''MAX'' then
        bindE (self Parse_expression ts2) (\<lambda>(l, ts3).
        bindE (expect COMMA ts3) (\<lambda>(_, ts4).
        bindE (self Parse_expression ts4) (\<lambda>(r, ts5).
        bindE (expect RPAREN ts5) (\<lambda>(_, ts6).
          Inr (if name = ''MIN'' then min l r else max l r, ts6)))))
      else if name = ''ROUND_UP'' \<or> name = ''ROUND_DOWN'' then
        bindE (self Parse_expression ts2) (\<lambda>(v, ts3).
        bindE (expect RPAREN ts3) (\<lambda>(_, ts4). Inr (round_value env (name = ''ROUND_UP'') v, ts4)))
      else if name = ''PARAM'' then
        bindE (expect NAME ts2) (\<lambda>(pt, ts3).
        bindE (expect RPAREN ts3) (\<lambda>(_, ts4).
        bindE (resolve_parameter env (tok_value pt)) (\<lambda>v. Inr (v, ts4))))
      else Inl (FormulaEvaluationError [Txt ''Unsupported function: '', Txt name]))))"

definition parse_adjustment :: "parser_self \<Rightarrow> price \<Rightarrow> token list \<Rightarrow> price parse" where
  "parse_adjustment self base ts =
     bindE (current ts) (\<lambda>t.
     bindE (if tok_kind t = NUMBER then
              bindE (advance ts) (\<lambda>(nt, ts1). Inr (number_value (tok_value nt), ts1))
            else if tok_kind t = NAME \<and> upper (tok_value t) = ''PARAM'' then
              self Parse_function_call ts
            else Inl (FormulaEvaluationError
              [Txt ''Expected numeric adjustment or PARAM(...), got '', Txt (kind_name (tok_kind t)),
               Txt '' ('', Txt (tok_value t), Txt '')''])) (\<lambda>(number, ts2).
     bindE (current ts2) (\<lambda>t2.
       if tok_kind t2 = PERCENT
       then bindE (advance ts2) (\<lambda>(_, ts3). Inr (base * (number / 100), ts3))
       else Inr (number, ts2))))"

primrec run_parser :: "nat \<Rightarrow> formula_env \<Rightarrow> parser_self" where
  "run_parser 0 env call = (\<lambda>ts. Inl RecursionError)"
| "run_parser (Suc n) env call = (\<lambda>ts. (case call of
       Parse_expression \<Rightarrow> parse_expression (run_parser n env) ts
     | Expression_loop v \<Rightarrow> expression_loop (run_parser n env) v ts
     | Parse_term \<Rightarrow> parse_term (run_parser n env) ts
     | Term_loop v \<Rightarrow> term_loop (run_parser n env) v ts
     | Parse_primary \<Rightarrow> parse_primary (run_parser n env) env ts
     | Parse_multiplier \<Rightarrow> parse_multiplier (run_parser n env) ts
     | Parse_function_call \<Rightarrow> parse_function_call (run_parser n env) env ts
     | Parse_adjustment base \<Rightarrow> parse_adjustment (run_parser n env) base ts))"

definition formula_fuel :: "token list \<Rightarrow> nat" where
  "formula_fuel ts = 5 * length ts + 5"

definition parse_formula :: "formula_env \<Rightarrow> string \<Rightarrow> token list \<Rightarrow> price res" where
  "parse_formula env formula ts =
     (if formula = [] then Inl (FormulaEvaluationError [Txt ''Formula must be a non-empty string''])
      else bindE (run_parser (formula_fuel ts) env Parse_expression ts) (\<lambda>(v, ts1).
           bindE (current ts1) (\<lambda>t.
             if tok_kind t \<noteq> EOF
             then Inl (FormulaEvaluationError [Txt ''Unexpected token at end of formula: '', Txt (tok_value t)])
             else Inr v)))"

text \<open>
  \<^verbatim>\<open>FormulaEngine.evaluate\<close>: \<^verbatim>\<open>runtime_values['PARAMS']\<close> overrides the parameters; the
  constructor strips and tokenizes, then \<^verbatim>\<open>parse\<close> runs.
\<close>

definition merge_parameters ::
  "(string, price) dict \<Rightarrow> (string, py_value) dict \<Rightarrow> (string, price) dict res" where
  "merge_parameters params rt = (case runtime_get rt ''PARAMS'' of
       PNone \<Rightarrow> Inr params
     | PNum _ \<Rightarrow> Inl (FormulaEvaluationError [Txt ''runtime_values['', PyRepr ''PARAMS'', Txt ''] must be a mapping''])
     | PDict d \<Rightarrow> Inr (fold (\<lambda>(k, v) acc. AList.update k v acc) d params))"

definition evaluate_formula ::
  "string \<Rightarrow> market_levels \<Rightarrow> (string, py_value) dict \<Rightarrow> (string, price) dict \<Rightarrow> price res" where
  "evaluate_formula formula levels rt params =
     bindE (merge_parameters params rt) (\<lambda>merged.
     bindE (tokenize (strip formula)) (\<lambda>ts.
       parse_formula \<lparr>fe_levels = levels, fe_runtime = rt, fe_params = merged\<rparr> (strip formula) ts))"

end
