(* ===== verification/FormulaSpec.thy ===== *)
theory FormulaSpec
  imports Formulas
begin

text \<open>
  What the formula parser promises. \<open>parser_total\<close>: on every token list that ends with
  its EOF token, \<open>formula_fuel\<close> is enough and the cursor never runs off the list.
  \<open>expr\<close> is the abstract syntax of the mini-language with a compositional evaluation;
  \<open>run_parser_complete\<close> and \<open>run_parser_sound\<close> say that the parser evaluates exactly the
  token lists this grammar generates, to the value the abstract syntax has.
\<close>

section \<open>Totality\<close>

fun eof_terminated :: "token list \<Rightarrow> bool" where
  "eof_terminated [] = False"
| "eof_terminated [t] = (tok_kind t = EOF)"
| "eof_terminated (t # ts) = (tok_kind t \<noteq> EOF \<and> eof_terminated ts)"

lemma eof_terminated_Cons:
  "eof_terminated (t # ts) \<longleftrightarrow> (if ts = [] then tok_kind t = EOF else tok_kind t \<noteq> EOF \<and> eof_terminated ts)"
  by (cases ts) auto

lemma eof_terminated_ConsD: "eof_terminated (t # ts) \<Longrightarrow> tok_kind t \<noteq> EOF \<Longrightarrow> eof_terminated ts"
  by (cases ts) auto

lemma punctuation_not_EOF: "punctuation c = Some k \<Longrightarrow> k \<noteq> EOF"
  by (auto simp: punctuation_def split: if_splits)

lemma eof_terminated_push: "tok_kind t \<noteq> EOF \<Longrightarrow> eof_terminated ts \<Longrightarrow> eof_terminated (t # ts)"
  by (cases ts) auto

lemma tokenize_from_eof: "tokenize_from pos s = Inr ts \<Longrightarrow> eof_terminated ts"
proof (induction s arbitrary: pos ts rule: length_induct)
  case (1 s)
  have IH: "length s' < length s \<Longrightarrow> tokenize_from pos' s' = Inr us \<Longrightarrow> eof_terminated us" for pos' s' us
    using "1.IH" by blast
  show ?case
  proof (cases s)
    case (Cons c cs)
    obtain num rest where sn: "scan_number (c # cs) = (num, rest)" by fastforce
    have num: "is_digit c \<Longrightarrow> length rest < length s"
      using scan_number_digit [of c cs] by (simp add: sn Cons)
    from "1.prems" num show ?thesis
      by (auto simp: Cons sn Let_def bindE_eq_Inr length_dropWhile_less dest: punctuation_not_EOF
          intro!: eof_terminated_push elim!: IH [rotated] split: if_splits option.splits)
  qed (use "1.prems" in auto)
qed

definition is_formula_error :: "exn \<Rightarrow> bool" where
  "is_formula_error e = (case e of FormulaEvaluationError _ \<Rightarrow> True | TypeError _ \<Rightarrow> True | _ \<Rightarrow> False)"

definition well_parsed :: "nat \<Rightarrow> token list \<Rightarrow> 'a parse \<Rightarrow> bool" where
  "well_parsed k ts r = (case r of Inl e \<Rightarrow> is_formula_error e
     | Inr (v, ts') \<Rightarrow> eof_terminated ts' \<and> length ts' + k \<le> length ts)"

lemma well_parsed_Inr [simp]:
  "well_parsed k ts (Inr (v, ts')) \<longleftrightarrow> eof_terminated ts' \<and> length ts' + k \<le> length ts"
  by (simp add: well_parsed_def)

lemma well_parsed_error [simp]:
  "well_parsed k ts (Inl (FormulaEvaluationError m))" "well_parsed k ts (Inl (TypeError m))"
  by (simp_all add: well_parsed_def is_formula_error_def)

lemma well_parsed_bind:
  assumes "well_parsed k ts m"
    and "\<And>v ts1. m = Inr (v, ts1) \<Longrightarrow> eof_terminated ts1 \<Longrightarrow> length ts1 + k \<le> length ts \<Longrightarrow>
      well_parsed k' ts (f (v, ts1))"
  shows "well_parsed k' ts (bindE m f)"
proof (cases m)
  case (Inr x)
  moreover obtain v ts1 where "x = (v, ts1)" by (cases x)
  ultimately show ?thesis using assms by simp
qed (use assms in \<open>simp add: well_parsed_def\<close>)

lemma well_parsed_bind_value:
  assumes "\<And>e. m = Inl e \<Longrightarrow> is_formula_error e" and "\<And>v. m = Inr v \<Longrightarrow> well_parsed k ts (f v)"
  shows "well_parsed k ts (bindE m f)"
  using assms by (cases m) (auto simp: well_parsed_def)

lemma well_parsed_weaken: "well_parsed k' ts' r \<Longrightarrow> length ts' + k \<le> length ts + k' \<Longrightarrow> well_parsed k ts r"
  by (auto simp: well_parsed_def split: sum.splits)

lemma bind_current: "eof_terminated ts \<Longrightarrow> bindE (current ts) f = f (hd ts)"
  by (cases ts) (auto simp: current_def)

lemma advance_eof: "eof_terminated ts \<Longrightarrow> advance ts = Inr (hd ts, tl ts)"
  by (cases ts) (auto simp: advance_def)

lemma eof_terminated_tl:
  "eof_terminated ts \<Longrightarrow> tok_kind (hd ts) \<noteq> EOF \<Longrightarrow> eof_terminated (tl ts) \<and> Suc (length (tl ts)) = length ts"
  by (cases ts) (auto dest: eof_terminated_ConsD)

lemma expect_well_parsed: "eof_terminated ts \<Longrightarrow> k \<noteq> EOF \<Longrightarrow> well_parsed 1 ts (expect k ts)"
  using eof_terminated_tl [of ts] by (auto simp: expect_def bind_current advance_eof)

lemma to_float_error: "to_float v = Inl e \<Longrightarrow> is_formula_error e"
  by (auto simp: to_float_def is_formula_error_def split: py_value.splits)

lemma resolve_option_container_error: "resolve_option_container rt c a = Inl e \<Longrightarrow> is_formula_error e"
  by (auto simp: resolve_option_container_def is_formula_error_def split: py_value.splits)

lemma resolve_option_alias_error: "resolve_option_alias env a = Inl e \<Longrightarrow> is_formula_error e"
  by (auto simp: resolve_option_alias_def bindE_eq_Inl is_formula_error_def [of "FormulaEvaluationError _"]
      dest: to_float_error resolve_option_container_error split: py_value.splits option.splits)

lemma resolve_alias_error:
  assumes "resolve_alias env a = Inl e"
  shows "is_formula_error e"
proof (cases "upper a = ''ENTRY''")
  case True
  with assms show ?thesis
    by (auto simp: resolve_alias_def is_formula_error_def [of "FormulaEvaluationError _"]
        dest: to_float_error split: py_value.splits)
next
  case False
  show ?thesis
  proof (cases "upper a \<in> set OPTION_ALIAS_NAMES")
    case True
    with assms False show ?thesis by (auto simp: resolve_alias_def dest: resolve_option_alias_error)
  next
    case not_option: False
    with assms False show ?thesis
      by (auto simp: resolve_alias_def Let_def is_formula_error_def split: option.splits)
  qed
qed

lemma resolve_parameter_error: "resolve_parameter env a = Inl e \<Longrightarrow> is_formula_error e"
  by (auto simp: resolve_parameter_def is_formula_error_def split: option.splits)

lemma alias_bind:
  "(\<And>v. well_parsed k ts (f v)) \<Longrightarrow> well_parsed k ts (bindE (resolve_alias env a) f)"
  by (rule well_parsed_bind_value) (auto dest: resolve_alias_error)

lemma parameter_bind:
  "(\<And>v. well_parsed k ts (f v)) \<Longrightarrow> well_parsed k ts (bindE (resolve_parameter env a) f)"
  by (rule well_parsed_bind_value) (auto dest: resolve_parameter_error)

text \<open>
  The fuel a call needs on top of five units per token, and the tokens it is sure to read.
\<close>

fun call_rank :: "parser_call \<Rightarrow> nat" where
  "call_rank Parse_expression = 4"
| "call_rank (Expression_loop v) = 0"
| "call_rank Parse_term = 3"
| "call_rank (Term_loop v) = 0"
| "call_rank Parse_primary = 2"
| "call_rank Parse_multiplier = 3"
| "call_rank Parse_function_call = 1"
| "call_rank (Parse_adjustment b) = 2"

fun call_reads :: "parser_call \<Rightarrow> nat" where
  "call_reads (Expression_loop v) = 0"
| "call_reads (Term_loop v) = 0"
| "call_reads _ = 1"

definition total_self :: "nat \<Rightarrow> parser_self \<Rightarrow> bool" where
  "total_self n self \<longleftrightarrow> (\<forall>call ts. eof_terminated ts \<longrightarrow> 5 * length ts + call_rank call < n \<longrightarrow>
     well_parsed (call_reads call) ts (self call ts))"

lemma total_selfD:
  "total_self n self \<Longrightarrow> eof_terminated ts \<Longrightarrow> 5 * length ts + call_rank call < n \<Longrightarrow>
   well_parsed (call_reads call) ts (self call ts)"
  by (simp add: total_self_def)

lemma self_bind:
  assumes "total_self n self" and "eof_terminated ts1" and "5 * length ts1 + call_rank call < n"
    and "length ts1 + k \<le> length ts + call_reads call"
    and "\<And>v ts2. eof_terminated ts2 \<Longrightarrow> length ts2 + call_reads call \<le> length ts1 \<Longrightarrow>
      well_parsed k' ts (f (v, ts2))"
  shows "well_parsed k' ts (bindE (self call ts1) f)"
  using total_selfD [OF assms(1-3)] assms(5) by (cases "self call ts1") (auto simp: well_parsed_def)

lemma self_tail:
  "total_self n self \<Longrightarrow> eof_terminated ts1 \<Longrightarrow> 5 * length ts1 + call_rank call < n \<Longrightarrow>
   length ts1 + k \<le> length ts + call_reads call \<Longrightarrow> well_parsed k ts (self call ts1)"
  by (rule well_parsed_weaken [OF total_selfD]) auto

lemma expect_bind:
  assumes "eof_terminated ts1" and "k \<noteq> EOF"
    and "\<And>t ts2. eof_terminated ts2 \<Longrightarrow> Suc (length ts2) \<le> length ts1 \<Longrightarrow> well_parsed k' ts (f (t, ts2))"
  shows "well_parsed k' ts (bindE (expect k ts1) f)"
  using expect_well_parsed [OF assms(1,2)] assms(3) by (cases "expect k ts1") (auto simp: well_parsed_def)

lemma step_bind:
  assumes "eof_terminated ts1" and "tok_kind (hd ts1) \<noteq> EOF"
    and "\<And>ts2. eof_terminated ts2 \<Longrightarrow> Suc (length ts2) = length ts1 \<Longrightarrow> well_parsed k ts (f (hd ts1, ts2))"
  shows "well_parsed k ts (bindE (advance ts1) f)"
  using assms eof_terminated_tl [of ts1] by (simp add: advance_eof)

lemma percent_suffix:
  assumes "eof_terminated ts1" and "Suc (length ts1) \<le> length ts"
  shows "well_parsed 1 ts (bindE (current ts1) (\<lambda>t2.
     if tok_kind t2 = PERCENT then bindE (advance ts1) (\<lambda>(_, ts3). Inr (x, ts3)) else Inr (y, ts1)))"
  using assms eof_terminated_tl [of ts1] by (auto simp: bind_current advance_eof)

lemma parse_adjustment_total:
  assumes "total_self n self" and "eof_terminated ts" and "5 * length ts + 1 < n"
  shows "well_parsed 1 ts (parse_adjustment self base ts)"
proof -
  have call: "well_parsed 1 ts (self Parse_function_call ts)"
    using total_selfD [OF assms(1,2), of Parse_function_call] assms(3) by simp
  show ?thesis
    unfolding parse_adjustment_def bind_current [OF assms(2)]
    using assms(2) call eof_terminated_tl [of ts]
    by (intro well_parsed_bind [where k = 1]) (auto simp: advance_eof intro!: percent_suffix [simplified])
qed

lemma parse_function_call_total:
  assumes "total_self n self" and "eof_terminated ts" and "5 * length ts < n"
  shows "well_parsed 1 ts (parse_function_call self env ts)"
  unfolding parse_function_call_def Let_def
  using assms
  by (intro expect_bind) (auto intro!: expect_bind self_bind [where k = 0] parameter_bind)

lemma run_parser_total: "total_self n (run_parser n env)"
proof (induction n)
  case 0
  show ?case by (simp add: total_self_def)
next
  case (Suc n)
  note IH = this
  have fc: "well_parsed 1 ts (parse_function_call (run_parser n env) env ts)"
    if "eof_terminated ts" "5 * length ts < n" for ts
    using IH that by (rule parse_function_call_total)
  show ?case
    unfolding total_self_def
  proof (intro allI impI)
    fix call ts
    assume ts: "eof_terminated ts" and fuel: "5 * length ts + call_rank call < Suc n"
    note rules = self_bind [OF IH, where k = 0] self_tail [OF IH] step_bind expect_bind
    show "well_parsed (call_reads call) ts (run_parser (Suc n) env call ts)"
    proof (cases call)
      case Parse_expression
      then show ?thesis using ts fuel
        by (auto simp: parse_expression_def intro!: rules)
    next
      case (Expression_loop v)
      then show ?thesis using ts fuel
        by (auto simp: expression_loop_def bind_current intro!: rules)
    next
      case Parse_term
      then show ?thesis using ts fuel
        by (auto simp: parse_term_def intro!: rules)
    next
      case (Term_loop v)
      then show ?thesis using ts fuel
        by (auto simp: term_loop_def bind_current intro!: rules)
    next
      case Parse_primary
      then show ?thesis using ts fuel
        by (auto simp: parse_primary_def bind_current
            intro!: rules alias_bind)
    next
      case Parse_multiplier
      then show ?thesis using ts fuel
        by (auto simp: parse_multiplier_def bind_current intro!: rules)
    next
      case Parse_function_call
      then show ?thesis using ts fuel fc by simp
    next
      case (Parse_adjustment b)
      then show ?thesis using ts fuel parse_adjustment_total [OF IH ts, of b] by simp
    qed
  qed
qed

section \<open>Abstract syntax\<close>

text \<open>
  \<open>Expr t as\<close> is a term followed by adjustments \<^verbatim>\<open>+ n\<close>, \<^verbatim>\<open>- n %\<close>, \<^verbatim>\<open>+ PARAM(p) %\<close>; an
  adjustment is a number or a \<^verbatim>\<open>PARAM\<close> call and never a product or a bracket. Names keep
  their spelling, because the code compares their upper case.
\<close>

datatype amount = Amount_num string | Amount_param string string

datatype adjustment = Adjustment (adds: bool) amount (adj_pct: bool)

datatype expr = Expr trm "adjustment list"
  and trm = Term prim mults
  and mults = MNil | MCons prim bool mults
  and prim = Alias string | Num string | Paren expr | Fn2 string expr expr
    | Fn1 string expr | ParamOf string string

abbreviation "tLPAREN \<equiv> Token LPAREN ''(''"
abbreviation "tRPAREN \<equiv> Token RPAREN '')''"
abbreviation "tCOMMA \<equiv> Token COMMA '',''"
abbreviation "tPLUS \<equiv> Token PLUS ''+''"
abbreviation "tMINUS \<equiv> Token MINUS ''-''"
abbreviation "tSTAR \<equiv> Token STAR ''*''"
abbreviation "tPERCENT \<equiv> Token PERCENT ''%''"

fun toks_amount :: "amount \<Rightarrow> token list" where
  "toks_amount (Amount_num d) = [Token NUMBER d]"
| "toks_amount (Amount_param f p) = [Token NAME f, tLPAREN, Token NAME p, tRPAREN]"

fun toks_adj :: "adjustment \<Rightarrow> token list" where
  "toks_adj (Adjustment pl a pct) =
     (if pl then tPLUS else tMINUS) # toks_amount a @ issue_if pct tPERCENT"

definition toks_adjs :: "adjustment list \<Rightarrow> token list" where
  "toks_adjs as = concat (map toks_adj as)"

fun toks_expr :: "expr \<Rightarrow> token list"
  and toks_trm :: "trm \<Rightarrow> token list"
  and toks_mults :: "mults \<Rightarrow> token list"
  and toks_prim :: "prim \<Rightarrow> token list"
where
  "toks_expr (Expr t as) = toks_trm t @ toks_adjs as"
| "toks_trm (Term p ms) = toks_prim p @ toks_mults ms"
| "toks_mults MNil = []"
| "toks_mults (MCons p pct ms) = tSTAR # toks_prim p @ issue_if pct tPERCENT @ toks_mults ms"
| "toks_prim (Alias a) = [Token NAME a]"
| "toks_prim (Num d) = [Token NUMBER d]"
| "toks_prim (Paren e) = tLPAREN # toks_expr e @ [tRPAREN]"
| "toks_prim (Fn2 f l r) = Token NAME f # tLPAREN # toks_expr l @ tCOMMA # toks_expr r @ [tRPAREN]"
| "toks_prim (Fn1 f e) = Token NAME f # tLPAREN # toks_expr e @ [tRPAREN]"
| "toks_prim (ParamOf f p) = [Token NAME f, tLPAREN, Token NAME p, tRPAREN]"

fun wf_amount :: "amount \<Rightarrow> bool" where
  "wf_amount (Amount_num d) = True"
| "wf_amount (Amount_param f p) = (upper f = ''PARAM'')"

fun wf_adj :: "adjustment \<Rightarrow> bool" where
  "wf_adj (Adjustment pl a pct) = wf_amount a"

fun wf_expr :: "expr \<Rightarrow> bool"
  and wf_trm :: "trm \<Rightarrow> bool"
  and wf_mults :: "mults \<Rightarrow> bool"
  and wf_prim :: "prim \<Rightarrow> bool"
where
  "wf_expr (Expr t as) = (wf_trm t \<and> list_all wf_adj as)"
| "wf_trm (Term p ms) = (wf_prim p \<and> wf_mults ms)"
| "wf_mults MNil = True"
| "wf_mults (MCons p pct ms) = (wf_prim p \<and> wf_mults ms)"
| "wf_prim (Alias a) = (upper a \<notin> set FUNCTIONS)"
| "wf_prim (Num d) = True"
| "wf_prim (Paren e) = wf_expr e"
| "wf_prim (Fn2 f l r) = ((upper f = ''MIN'' \<or> upper f = ''MAX'') \<and> wf_expr l \<and> wf_expr r)"
| "wf_prim (Fn1 f e) = ((upper f = ''ROUND_UP'' \<or> upper f = ''ROUND_DOWN'') \<and> wf_expr e)"
| "wf_prim (ParamOf f p) = (upper f = ''PARAM'')"

section \<open>Evaluation of the abstract syntax\<close>

fun eval_amount :: "formula_env \<Rightarrow> amount \<Rightarrow> price res" where
  "eval_amount env (Amount_num d) = Inr (number_value d)"
| "eval_amount env (Amount_param f p) = resolve_parameter env p"

fun apply_adj :: "bool \<Rightarrow> bool \<Rightarrow> price \<Rightarrow> price \<Rightarrow> price" where
  "apply_adj pl pct v n =
     (let delta = (if pct then v * (n / 100) else n) in if pl then v + delta else v - delta)"

fun eval_adjs :: "formula_env \<Rightarrow> price \<Rightarrow> adjustment list \<Rightarrow> price res" where
  "eval_adjs env v [] = Inr v"
| "eval_adjs env v (Adjustment pl a pct # as) =
     bindE (eval_amount env a) (\<lambda>n. eval_adjs env (apply_adj pl pct v n) as)"

fun eval_expr :: "formula_env \<Rightarrow> expr \<Rightarrow> price res"
  and eval_trm :: "formula_env \<Rightarrow> trm \<Rightarrow> price res"
  and eval_mults :: "formula_env \<Rightarrow> price \<Rightarrow> mults \<Rightarrow> price res"
  and eval_prim :: "formula_env \<Rightarrow> prim \<Rightarrow> price res"
where
  "eval_expr env (Expr t as) = bindE (eval_trm env t) (\<lambda>v. eval_adjs env v as)"
| "eval_trm env (Term p ms) = bindE (eval_prim env p) (\<lambda>v. eval_mults env v ms)"
| "eval_mults env v MNil = Inr v"
| "eval_mults env v (MCons p pct ms) =
     bindE (eval_prim env p) (\<lambda>m. eval_mults env (v * (if pct then m / 100 else m)) ms)"
| "eval_prim env (Alias a) = resolve_alias env a"
| "eval_prim env (Num d) = Inr (number_value d)"
| "eval_prim env (Paren e) = eval_expr env e"
| "eval_prim env (Fn2 f l r) = bindE (eval_expr env l) (\<lambda>a. bindE (eval_expr env r) (\<lambda>b.
     Inr (if upper f = ''MIN'' then min a b else max a b)))"
| "eval_prim env (Fn1 f e) = bindE (eval_expr env e) (\<lambda>a. Inr (round_value env (upper f = ''ROUND_UP'') a))"
| "eval_prim env (ParamOf f p) = resolve_parameter env p"

section \<open>The parser evaluates every sentence of the grammar\<close>

definition follows :: "token_kind set \<Rightarrow> token list \<Rightarrow> bool" where
  "follows ks rest \<longleftrightarrow> rest \<noteq> [] \<and> tok_kind (hd rest) \<notin> ks"

lemma current_Cons [simp]: "current (t # ts) = Inr t"
  by (simp add: current_def)

lemma advance_Cons [simp]: "advance (t # ts) = Inr (t, ts)"
  by (simp add: advance_def)

lemma expect_Cons [simp]: "expect (tok_kind t) (t # ts) = Inr (t, ts)"
  by (simp add: expect_def)

lemma expect_Token [simp]: "expect k (Token k v # ts) = Inr (Token k v, ts)"
  by (simp add: expect_def)

lemma follows_current: "follows ks rest \<Longrightarrow> current rest = Inr (hd rest)"
  by (cases rest) (auto simp: follows_def)

lemma run_param_call:
  assumes "upper f = ''PARAM''"
  shows "parse_function_call self env (Token NAME f # tLPAREN # Token NAME p # tRPAREN # rest)
    = bindE (resolve_parameter env p) (\<lambda>v. Inr (v, rest))"
  using assms by (simp add: parse_function_call_def)

lemma run_adjustment:
  assumes "wf_amount a" and "1 < n" and "rest \<noteq> []" and "\<not> pct \<longrightarrow> tok_kind (hd rest) \<noteq> PERCENT"
  shows "run_parser n env (Parse_adjustment v) (toks_amount a @ issue_if pct tPERCENT @ rest)
    = bindE (eval_amount env a) (\<lambda>k. Inr (if pct then v * (k / 100) else k, rest))"
proof -
  obtain m where n: "n = Suc (Suc m)" using less_imp_Suc_add [OF assms(2)] by auto
  obtain t ts where rest: "rest = t # ts" using assms(3) by (cases rest) auto
  show ?thesis
  proof (cases a)
    case (Amount_num d)
    then show ?thesis using assms(4) by (cases pct) (auto simp: n rest parse_adjustment_def)
  next
    case (Amount_param f p)
    then have f: "upper f = ''PARAM''" using assms(1) by simp
    show ?thesis using assms(4)
      by (cases pct; cases "resolve_parameter env p")
        (auto simp: n rest Amount_param f parse_adjustment_def run_param_call)
  qed
qed

lemma hd_toks_adjs: "rest \<noteq> [] \<Longrightarrow> toks_adjs as @ rest \<noteq> [] \<and>
  (tok_kind (hd (toks_adjs as @ rest)) = tok_kind (hd rest) \<or>
   tok_kind (hd (toks_adjs as @ rest)) \<in> {PLUS, MINUS})"
proof (cases as)
  case (Cons a as')
  then show ?thesis by (cases a) (simp add: toks_adjs_def)
qed (simp add: toks_adjs_def)

lemma run_adjustments:
  assumes "list_all wf_adj as" and "5 * length (toks_adjs as) < n"
    and "follows {PLUS, MINUS, PERCENT} rest"
  shows "run_parser n env (Expression_loop v) (toks_adjs as @ rest)
    = bindE (eval_adjs env v as) (\<lambda>w. Inr (w, rest))"
  using assms
proof (induction as arbitrary: n v)
  case Nil
  then obtain m where "n = Suc m" by (cases n) auto
  moreover have "current rest = Inr (hd rest)" using Nil(3) by (rule follows_current)
  ultimately show ?case using Nil(3) by (simp add: toks_adjs_def expression_loop_def follows_def)
next
  case (Cons a as)
  obtain pl am pct where a: "a = Adjustment pl am pct" by (cases a)
  from Cons.prems obtain m where n: "n = Suc m" by (cases n) auto
  have len: "1 \<le> length (toks_amount am)" by (cases am) auto
  have ne: "toks_adjs as @ rest \<noteq> []" and pc: "tok_kind (hd (toks_adjs as @ rest)) \<noteq> PERCENT"
    using hd_toks_adjs [of rest as] Cons.prems(3) by (auto simp: follows_def)
  have adj: "run_parser m env (Parse_adjustment v) (toks_amount am @ issue_if pct tPERCENT @ toks_adjs as @ rest)
    = bindE (eval_amount env am) (\<lambda>k. Inr (if pct then v * (k / 100) else k, toks_adjs as @ rest))"
    using Cons.prems(1,2) len ne pc by (intro run_adjustment) (auto simp: a n toks_adjs_def)
  have IH: "run_parser m env (Expression_loop w) (toks_adjs as @ rest)
    = bindE (eval_adjs env w as) (\<lambda>w. Inr (w, rest))" for w
    using Cons.prems len by (intro Cons.IH) (auto simp: a n toks_adjs_def)
  have "toks_adjs (a # as) @ rest =
      (if pl then tPLUS else tMINUS) # toks_amount am @ issue_if pct tPERCENT @ toks_adjs as @ rest"
    by (simp add: a toks_adjs_def)
  then show ?case
    by (cases "eval_amount env am"; cases pl) (simp_all add: a n expression_loop_def adj IH)
qed

lemma hd_toks_mults: "rest \<noteq> [] \<Longrightarrow> toks_mults ms @ rest \<noteq> [] \<and>
  (tok_kind (hd (toks_mults ms @ rest)) = tok_kind (hd rest) \<or> tok_kind (hd (toks_mults ms @ rest)) = STAR)"
  by (cases ms) auto

lemma run_prim_mults:
  "wf_expr e \<Longrightarrow> 5 * length (toks_expr e) + 4 < n \<Longrightarrow> follows {PLUS, MINUS, PERCENT, STAR} rest \<Longrightarrow>
     run_parser n env Parse_expression (toks_expr e @ rest) = bindE (eval_expr env e) (\<lambda>v. Inr (v, rest))"
  "wf_trm t \<Longrightarrow> 5 * length (toks_trm t) + 3 < n \<Longrightarrow> follows {PERCENT, STAR} rest \<Longrightarrow>
     run_parser n env Parse_term (toks_trm t @ rest) = bindE (eval_trm env t) (\<lambda>v. Inr (v, rest))"
  "wf_mults ms \<Longrightarrow> 5 * length (toks_mults ms) < n \<Longrightarrow> follows {PERCENT, STAR} rest \<Longrightarrow>
     run_parser n env (Term_loop v) (toks_mults ms @ rest) = bindE (eval_mults env v ms) (\<lambda>v. Inr (v, rest))"
  "wf_prim p \<Longrightarrow> 5 * length (toks_prim p) + 2 < n \<Longrightarrow>
     run_parser n env Parse_primary (toks_prim p @ rest) = bindE (eval_prim env p) (\<lambda>v. Inr (v, rest))"
proof (induction e and t and ms and p arbitrary: n rest and n rest and n rest v and n rest
    rule: expr.induct trm.induct mults.induct prim.induct)
  case (Expr t as)
  then obtain m where n: "n = Suc m" by (cases n) auto
  have "follows {PERCENT, STAR} (toks_adjs as @ rest)"
    using hd_toks_adjs [of rest as] Expr.prems(3) by (auto simp: follows_def)
  then have t: "run_parser m env Parse_term (toks_trm t @ toks_adjs as @ rest)
      = bindE (eval_trm env t) (\<lambda>v. Inr (v, toks_adjs as @ rest))"
    using Expr.prems by (intro Expr.IH) (auto simp: n)
  have as: "run_parser m env (Expression_loop v) (toks_adjs as @ rest)
      = bindE (eval_adjs env v as) (\<lambda>w. Inr (w, rest))" for v
    using Expr.prems by (intro run_adjustments) (auto simp: n follows_def)
  show ?case by (cases "eval_trm env t") (simp_all add: n parse_expression_def t as)
next
  case (Term p ms)
  then obtain m where n: "n = Suc m" by (cases n) auto
  have p: "run_parser m env Parse_primary (toks_prim p @ toks_mults ms @ rest)
      = bindE (eval_prim env p) (\<lambda>v. Inr (v, toks_mults ms @ rest))"
    using Term.prems by (intro Term.IH(1)) (auto simp: n)
  have ms: "run_parser m env (Term_loop v) (toks_mults ms @ rest)
      = bindE (eval_mults env v ms) (\<lambda>w. Inr (w, rest))" for v
    using Term.prems by (intro Term.IH(2)) (auto simp: n)
  show ?case by (cases "eval_prim env p") (simp_all add: n parse_term_def p ms)
next
  case MNil
  then obtain m where n: "n = Suc m" by (cases n) auto
  show ?case using MNil.prems(3) follows_current [OF MNil.prems(3)]
    by (simp add: n term_loop_def follows_def)
next
  case (MCons p pct ms)
  then obtain m where n: "n = Suc (Suc m)" by (cases n; cases "n - 1") auto
  let ?rest = "toks_mults ms @ rest"
  have ne: "follows {PERCENT} ?rest"
    using hd_toks_mults [of rest ms] MCons.prems(3) by (auto simp: follows_def)
  have p: "run_parser m env Parse_primary (toks_prim p @ issue_if pct tPERCENT @ ?rest)
      = bindE (eval_prim env p) (\<lambda>v. Inr (v, issue_if pct tPERCENT @ ?rest))"
    using MCons.prems by (intro MCons.IH(1)) (auto simp: n)
  have mult: "run_parser (Suc m) env Parse_multiplier (toks_prim p @ issue_if pct tPERCENT @ ?rest)
      = bindE (eval_prim env p) (\<lambda>k. Inr (if pct then k / 100 else k, ?rest))"
    using ne follows_current [OF ne]
    by (cases "eval_prim env p"; cases pct) (simp_all add: parse_multiplier_def p [simplified] follows_def, use p in simp_all)
  have ms: "run_parser (Suc m) env (Term_loop w) ?rest = bindE (eval_mults env w ms) (\<lambda>w. Inr (w, rest))" for w
    using MCons.prems by (intro MCons.IH(2)) (auto simp: n)
  have "toks_mults (MCons p pct ms) @ rest = tSTAR # toks_prim p @ issue_if pct tPERCENT @ ?rest" by simp
  then show ?case
    by (cases "eval_prim env p")
      (simp_all add: n term_loop_def mult ms run_parser.simps(2) [of "Suc m"] del: run_parser.simps(2) split del: if_split)
next
  case (Alias a)
  then obtain m where n: "n = Suc m" by (cases n) auto
  from Alias show ?case by (simp add: n parse_primary_def)
next
  case (Num d)
  then obtain m where n: "n = Suc m" by (cases n) auto
  show ?case by (simp add: n parse_primary_def)
next
  case (Paren e)
  then obtain m where n: "n = Suc m" by (cases n) auto
  have e: "run_parser m env Parse_expression (toks_expr e @ tRPAREN # rest)
      = bindE (eval_expr env e) (\<lambda>v. Inr (v, tRPAREN # rest))"
    using Paren.prems by (intro Paren.IH) (auto simp: n follows_def)
  show ?case by (cases "eval_expr env e") (simp_all add: n parse_primary_def e)
next
  case (Fn2 f l r)
  then obtain m where n: "n = Suc (Suc m)" by (cases n; cases "n - 1") auto
  have l: "run_parser m env Parse_expression (toks_expr l @ tCOMMA # toks_expr r @ tRPAREN # rest)
      = bindE (eval_expr env l) (\<lambda>v. Inr (v, tCOMMA # toks_expr r @ tRPAREN # rest))"
    using Fn2.prems by (intro Fn2.IH(1)) (auto simp: n follows_def)
  have r: "run_parser m env Parse_expression (toks_expr r @ tRPAREN # rest)
      = bindE (eval_expr env r) (\<lambda>v. Inr (v, tRPAREN # rest))"
    using Fn2.prems by (intro Fn2.IH(2)) (auto simp: n follows_def)
  show ?case using Fn2.prems(1)
    by (cases "eval_expr env l"; cases "eval_expr env r")
      (auto simp: n parse_primary_def FUNCTIONS_def parse_function_call_def l r)
next
  case (Fn1 f e)
  then obtain m where n: "n = Suc (Suc m)" by (cases n; cases "n - 1") auto
  have e: "run_parser m env Parse_expression (toks_expr e @ tRPAREN # rest)
      = bindE (eval_expr env e) (\<lambda>v. Inr (v, tRPAREN # rest))"
    using Fn1.prems by (intro Fn1.IH) (auto simp: n follows_def)
  show ?case using Fn1.prems(1)
    by (cases "eval_expr env e") (auto simp: n parse_primary_def FUNCTIONS_def parse_function_call_def e)
next
  case (ParamOf f p)
  then obtain m where n: "n = Suc (Suc m)" by (cases n; cases "n - 1") auto
  show ?case using ParamOf.prems(1) by (simp add: n parse_primary_def FUNCTIONS_def run_param_call)
qed

section \<open>Every accepted token list is a sentence of the grammar\<close>

definition canonical :: "token \<Rightarrow> bool" where
  "canonical t \<longleftrightarrow> tok_kind t \<in> {NUMBER, NAME, EOF} \<or>
     t \<in> {tLPAREN, tRPAREN, tCOMMA, tPLUS, tMINUS, tSTAR, tPERCENT}"

lemma canonicalD:
  "canonical t \<Longrightarrow> tok_kind t = LPAREN \<Longrightarrow> t = tLPAREN"
  "canonical t \<Longrightarrow> tok_kind t = RPAREN \<Longrightarrow> t = tRPAREN"
  "canonical t \<Longrightarrow> tok_kind t = COMMA \<Longrightarrow> t = tCOMMA"
  "canonical t \<Longrightarrow> tok_kind t = PLUS \<Longrightarrow> t = tPLUS"
  "canonical t \<Longrightarrow> tok_kind t = MINUS \<Longrightarrow> t = tMINUS"
  "canonical t \<Longrightarrow> tok_kind t = STAR \<Longrightarrow> t = tSTAR"
  "canonical t \<Longrightarrow> tok_kind t = PERCENT \<Longrightarrow> t = tPERCENT"
  by (auto simp: canonical_def)

lemma token_eta: "tok_kind t = k \<Longrightarrow> t = Token k (tok_value t)"
  by (cases t) simp

fun parsed :: "formula_env \<Rightarrow> parser_call \<Rightarrow> token list \<Rightarrow> price \<Rightarrow> token list \<Rightarrow> bool" where
  "parsed env Parse_expression ts v rest =
     (\<exists>e. wf_expr e \<and> ts = toks_expr e @ rest \<and> eval_expr env e = Inr v)"
| "parsed env (Expression_loop v0) ts v rest =
     (\<exists>as. list_all wf_adj as \<and> ts = toks_adjs as @ rest \<and> eval_adjs env v0 as = Inr v)"
| "parsed env Parse_term ts v rest =
     (\<exists>t. wf_trm t \<and> ts = toks_trm t @ rest \<and> eval_trm env t = Inr v)"
| "parsed env (Term_loop v0) ts v rest =
     (\<exists>ms. wf_mults ms \<and> ts = toks_mults ms @ rest \<and> eval_mults env v0 ms = Inr v)"
| "parsed env Parse_primary ts v rest =
     (\<exists>p. wf_prim p \<and> ts = toks_prim p @ rest \<and> eval_prim env p = Inr v)"
| "parsed env Parse_multiplier ts v rest =
     (\<exists>p pct w. wf_prim p \<and> ts = toks_prim p @ issue_if pct tPERCENT @ rest \<and>
        eval_prim env p = Inr w \<and> v = (if pct then w / 100 else w))"
| "parsed env Parse_function_call ts v rest =
     (\<exists>p f. wf_prim p \<and> ts = toks_prim p @ rest \<and> eval_prim env p = Inr v \<and>
        hd ts = Token NAME f \<and> (upper f = ''PARAM'' \<longrightarrow> (\<exists>q. p = ParamOf f q)))"
| "parsed env (Parse_adjustment base) ts v rest =
     (\<exists>a pct k. wf_amount a \<and> ts = toks_amount a @ issue_if pct tPERCENT @ rest \<and>
        eval_amount env a = Inr k \<and> v = (if pct then base * (k / 100) else k))"

definition sound_self :: "formula_env \<Rightarrow> parser_self \<Rightarrow> bool" where
  "sound_self env self \<longleftrightarrow> (\<forall>call ts v rest. self call ts = Inr (v, rest) \<longrightarrow>
     list_all canonical ts \<longrightarrow> parsed env call ts v rest)"

lemma sound_selfD:
  "sound_self env self \<Longrightarrow> self call ts = Inr (v, rest) \<Longrightarrow> list_all canonical ts \<Longrightarrow> parsed env call ts v rest"
  by (simp add: sound_self_def)

lemma current_eq_Inr: "current ts = Inr t \<longleftrightarrow> (\<exists>r. ts = t # r)"
  by (cases ts) (auto simp: current_def)

lemma advance_eq_Inr: "advance ts = Inr (t, r) \<longleftrightarrow> ts = t # r"
  by (cases ts) (auto simp: advance_def)

lemma expect_eq_Inr: "expect k ts = Inr (t, r) \<longleftrightarrow> ts = t # r \<and> tok_kind t = k"
  by (cases ts) (auto simp: expect_def current_def bindE_eq_Inr)

lemmas parser_steps = bindE_eq_Inr current_eq_Inr advance_eq_Inr expect_eq_Inr

lemma sound_expression:
  assumes "sound_self env self" and "parse_expression self ts = Inr (v, rest)" and can: "list_all canonical ts"
  shows "parsed env Parse_expression ts v rest"
proof -
  from assms(2) obtain w ts1 where t: "self Parse_term ts = Inr (w, ts1)"
    and l: "self (Expression_loop w) ts1 = Inr (v, rest)"
    by (auto simp: parse_expression_def parser_steps)
  from sound_selfD [OF assms(1) t can] obtain t' where t': "wf_trm t'" "ts = toks_trm t' @ ts1" "eval_trm env t' = Inr w"
    by auto
  with can have "list_all canonical ts1" by simp
  from sound_selfD [OF assms(1) l this] obtain as where "list_all wf_adj as" "ts1 = toks_adjs as @ rest"
    "eval_adjs env w as = Inr v"
    by auto
  with t' show ?thesis by (auto intro!: exI [of _ "Expr t' as"])
qed

lemma sound_expression_loop:
  assumes "sound_self env self" and run: "expression_loop self v0 ts = Inr (v, rest)" and can: "list_all canonical ts"
  shows "parsed env (Expression_loop v0) ts v rest"
proof -
  from run obtain t r where ts: "ts = t # r" by (auto simp: expression_loop_def parser_steps)
  show ?thesis
  proof (cases "tok_kind t \<in> {PLUS, MINUS}")
    case False
    with run show ?thesis
      by (auto simp: ts expression_loop_def toks_adjs_def intro!: exI [of _ "[]"])
  next
    case True
    define pl where "pl \<longleftrightarrow> tok_kind t = PLUS"
    from run True obtain delta r2 where a: "self (Parse_adjustment v0) r = Inr (delta, r2)"
      and l: "self (Expression_loop (if pl then v0 + delta else v0 - delta)) r2 = Inr (v, rest)"
      by (auto simp: ts expression_loop_def parser_steps pl_def)
    from can have r: "list_all canonical r" by (simp add: ts)
    from sound_selfD [OF assms(1) a r] obtain am pct k where am: "wf_amount am"
      "r = toks_amount am @ issue_if pct tPERCENT @ r2" "eval_amount env am = Inr k"
      "delta = (if pct then v0 * (k / 100) else k)"
      by auto
    with r have r2: "list_all canonical r2" by simp
    from sound_selfD [OF assms(1) l r2] obtain as where as: "list_all wf_adj as" "r2 = toks_adjs as @ rest"
      "eval_adjs env (if pl then v0 + delta else v0 - delta) as = Inr v"
      by auto
    have "t = (if pl then tPLUS else tMINUS)"
      using True can by (auto simp: ts pl_def dest: canonicalD)
    then have "ts = toks_adjs (Adjustment pl am pct # as) @ rest"
      by (simp add: ts am(2) as(2) toks_adjs_def)
    moreover have "eval_adjs env v0 (Adjustment pl am pct # as) = Inr v"
      using as(3) am(4) by (cases pct; cases pl) (simp_all add: am(3))
    moreover have "list_all wf_adj (Adjustment pl am pct # as)" using am(1) as(1) by simp
    ultimately show ?thesis
      by (simp only: parsed.simps) (rule exI [of _ "Adjustment pl am pct # as"], simp)
  qed
qed

lemma sound_term:
  assumes "sound_self env self" and "parse_term self ts = Inr (v, rest)" and can: "list_all canonical ts"
  shows "parsed env Parse_term ts v rest"
proof -
  from assms(2) obtain w ts1 where t: "self Parse_primary ts = Inr (w, ts1)"
    and l: "self (Term_loop w) ts1 = Inr (v, rest)"
    by (auto simp: parse_term_def parser_steps)
  from sound_selfD [OF assms(1) t can] obtain p where p: "wf_prim p" "ts = toks_prim p @ ts1" "eval_prim env p = Inr w"
    by auto
  with can have "list_all canonical ts1" by simp
  from sound_selfD [OF assms(1) l this] obtain ms where "wf_mults ms" "ts1 = toks_mults ms @ rest"
    "eval_mults env w ms = Inr v"
    by auto
  with p show ?thesis by (auto intro!: exI [of _ "Term p ms"])
qed

lemma sound_term_loop:
  assumes "sound_self env self" and run: "term_loop self v0 ts = Inr (v, rest)" and can: "list_all canonical ts"
  shows "parsed env (Term_loop v0) ts v rest"
proof -
  from run obtain t r where ts: "ts = t # r" by (auto simp: term_loop_def parser_steps)
  show ?thesis
  proof (cases "tok_kind t = STAR")
    case False
    with run show ?thesis by (auto simp: ts term_loop_def intro!: exI [of _ MNil])
  next
    case True
    with run obtain m r2 where a: "self Parse_multiplier r = Inr (m, r2)"
      and l: "self (Term_loop (v0 * m)) r2 = Inr (v, rest)"
      by (auto simp: ts term_loop_def parser_steps)
    from can have r: "list_all canonical r" by (simp add: ts)
    from sound_selfD [OF assms(1) a r] obtain p pct w where p: "wf_prim p"
      "r = toks_prim p @ issue_if pct tPERCENT @ r2" "eval_prim env p = Inr w" "m = (if pct then w / 100 else w)"
      by auto
    with r have r2: "list_all canonical r2" by simp
    from sound_selfD [OF assms(1) l r2] obtain ms where "wf_mults ms" "r2 = toks_mults ms @ rest"
      "eval_mults env (v0 * m) ms = Inr v"
      by auto
    moreover have "t = tSTAR" using True can by (auto simp: ts dest: canonicalD)
    ultimately show ?thesis using p by (auto simp: ts intro!: exI [of _ "MCons p pct ms"])
  qed
qed

lemma sound_primary:
  assumes "sound_self env self" and run: "parse_primary self env ts = Inr (v, rest)" and can: "list_all canonical ts"
  shows "parsed env Parse_primary ts v rest"
proof -
  from run obtain t r where ts: "ts = t # r" by (auto simp: parse_primary_def parser_steps)
  consider (call) "tok_kind t = NAME" "upper (tok_value t) \<in> set FUNCTIONS"
    | (ref) "tok_kind t = NAME" "upper (tok_value t) \<notin> set FUNCTIONS"
    | (num) "tok_kind t = NUMBER" | (paren) "tok_kind t = LPAREN"
    using run by (auto simp: ts parse_primary_def split: if_splits)
  then show ?thesis
  proof cases
    case call
    with run have "self Parse_function_call ts = Inr (v, rest)" by (simp add: ts parse_primary_def)
    from sound_selfD [OF assms(1) this can] show ?thesis by auto
  next
    case ref
    with run show ?thesis
      by (auto simp: ts parse_primary_def parser_steps dest: token_eta intro!: exI [of _ "Alias (tok_value t)"])
  next
    case num
    with run show ?thesis
      by (auto simp: ts parse_primary_def parser_steps dest: token_eta intro!: exI [of _ "Num (tok_value t)"])
  next
    case paren
    with run obtain t2 r2 where e: "self Parse_expression r = Inr (v, t2 # r2)" "tok_kind t2 = RPAREN" "rest = r2"
      by (auto simp: ts parse_primary_def parser_steps)
    from can have r: "list_all canonical r" by (simp add: ts)
    from sound_selfD [OF assms(1) e(1) r] obtain e' where e': "wf_expr e'" "r = toks_expr e' @ t2 # r2" "eval_expr env e' = Inr v"
      by auto
    with r have "canonical t2" by simp
    then have "t2 = tRPAREN" using e(2) by (rule canonicalD)
    moreover have "t = tLPAREN" using paren can by (auto simp: ts dest: canonicalD)
    ultimately show ?thesis using e' e(3) by (auto simp: ts intro!: exI [of _ "Paren e'"])
  qed
qed

lemma sound_multiplier:
  assumes "sound_self env self" and run: "parse_multiplier self ts = Inr (v, rest)" and can: "list_all canonical ts"
  shows "parsed env Parse_multiplier ts v rest"
proof -
  from run obtain w t r where p: "self Parse_primary ts = Inr (w, t # r)"
    and k: "(if tok_kind t = PERCENT then v = w / 100 \<and> rest = r else v = w \<and> rest = t # r)"
    by (auto simp: parse_multiplier_def parser_steps split: if_splits)
  from sound_selfD [OF assms(1) p can] obtain p' where p': "wf_prim p'" "ts = toks_prim p' @ t # r" "eval_prim env p' = Inr w"
    by auto
  with can have "tok_kind t = PERCENT \<Longrightarrow> t = tPERCENT" by (auto dest: canonicalD)
  with p' k show ?thesis
    by (cases "tok_kind t = PERCENT") (auto intro!: exI [of _ p'] exI [of _ "tok_kind t = PERCENT"])
qed

lemma sound_adjustment:
  assumes "sound_self env self" and run: "parse_adjustment self base ts = Inr (v, rest)" and can: "list_all canonical ts"
  shows "parsed env (Parse_adjustment base) ts v rest"
proof -
  from run obtain t r where ts: "ts = t # r" by (auto simp: parse_adjustment_def parser_steps)
  have "\<exists>a k t2 r2. wf_amount a \<and> ts = toks_amount a @ t2 # r2 \<and> eval_amount env a = Inr k \<and>
      (if tok_kind t2 = PERCENT then v = base * (k / 100) \<and> rest = r2 else v = k \<and> rest = t2 # r2)"
  proof (cases "tok_kind t = NUMBER")
    case True
    with run obtain t2 r2 where "r = t2 # r2"
      "(if tok_kind t2 = PERCENT then v = base * (number_value (tok_value t) / 100) \<and> rest = r2
        else v = number_value (tok_value t) \<and> rest = t2 # r2)"
      by (auto simp: ts parse_adjustment_def parser_steps split: if_splits)
    with token_eta [OF True] show ?thesis
      by (intro exI [of _ "Amount_num (tok_value t)"]) (auto simp: ts)
  next
    case False
    with run obtain k t2 r2 where c: "tok_kind t = NAME" "upper (tok_value t) = ''PARAM''"
      and f: "self Parse_function_call ts = Inr (k, t2 # r2)"
      and k: "if tok_kind t2 = PERCENT then v = base * (k / 100) \<and> rest = r2 else v = k \<and> rest = t2 # r2"
      by (auto simp: ts parse_adjustment_def parser_steps split: if_splits)
    from sound_selfD [OF assms(1) f can] c(2) obtain q where "wf_prim (ParamOf (tok_value t) q)"
      "ts = toks_prim (ParamOf (tok_value t) q) @ t2 # r2" "eval_prim env (ParamOf (tok_value t) q) = Inr k"
      by (auto simp: ts)
    with k show ?thesis by (intro exI [of _ "Amount_param (tok_value t) q"]) auto
  qed
  then obtain a k t2 r2 where a: "wf_amount a" "ts = toks_amount a @ t2 # r2" "eval_amount env a = Inr k"
    "if tok_kind t2 = PERCENT then v = base * (k / 100) \<and> rest = r2 else v = k \<and> rest = t2 # r2"
    by blast
  with can have "tok_kind t2 = PERCENT \<Longrightarrow> t2 = tPERCENT" by (auto dest: canonicalD)
  with a show ?thesis
    by (cases "tok_kind t2 = PERCENT") (auto intro!: exI [of _ a] exI [of _ "tok_kind t2 = PERCENT"])
qed

lemma sound_function_call:
  assumes "sound_self env self" and run: "parse_function_call self env ts = Inr (v, rest)" and can: "list_all canonical ts"
  shows "parsed env Parse_function_call ts v rest"
proof -
  from run obtain nt lt r where ts: "ts = nt # lt # r" and nt: "tok_kind nt = NAME" and lt: "tok_kind lt = LPAREN"
    by (auto simp: parse_function_call_def parser_steps)
  define f where "f = tok_value nt"
  have nt': "nt = Token NAME f" using token_eta [OF nt] by (simp add: f_def)
  have lt': "lt = tLPAREN" and r: "list_all canonical r" using can lt by (auto simp: ts dest: canonicalD)
  consider (minmax) "upper f = ''MIN'' \<or> upper f = ''MAX''"
    | (rounding) "upper f = ''ROUND_UP'' \<or> upper f = ''ROUND_DOWN''" | (param) "upper f = ''PARAM''"
    using run by (auto simp: ts nt' lt' parse_function_call_def Let_def split: if_splits)
  then show ?thesis
  proof cases
    case minmax
    with run obtain a ct r2 b rt where l: "self Parse_expression r = Inr (a, ct # r2)" and ct: "tok_kind ct = COMMA"
      and e: "self Parse_expression r2 = Inr (b, rt # rest)" and rt: "tok_kind rt = RPAREN"
      and v: "v = (if upper f = ''MIN'' then min a b else max a b)"
      by (auto simp: ts nt' lt' parse_function_call_def parser_steps)
    from sound_selfD [OF assms(1) l r] obtain e1 where e1: "wf_expr e1" "r = toks_expr e1 @ ct # r2" "eval_expr env e1 = Inr a"
      by auto
    with r have r2: "list_all canonical r2" and ct': "ct = tCOMMA" using ct by (auto dest: canonicalD)
    from sound_selfD [OF assms(1) e r2] obtain e2 where e2: "wf_expr e2" "r2 = toks_expr e2 @ rt # rest" "eval_expr env e2 = Inr b"
      by auto
    with r2 have "rt = tRPAREN" using rt by (auto dest: canonicalD)
    with minmax e1 e2 ct' v show ?thesis
      by (auto simp: ts nt' lt' intro!: exI [of _ "Fn2 f e1 e2"])
  next
    case rounding
    with run obtain a rt where l: "self Parse_expression r = Inr (a, rt # rest)" and rt: "tok_kind rt = RPAREN"
      and v: "v = round_value env (upper f = ''ROUND_UP'') a"
      by (auto simp: ts nt' lt' parse_function_call_def parser_steps)
    from sound_selfD [OF assms(1) l r] obtain e1 where e1: "wf_expr e1" "r = toks_expr e1 @ rt # rest" "eval_expr env e1 = Inr a"
      by auto
    with r have "rt = tRPAREN" using rt by (auto dest: canonicalD)
    with rounding e1 v show ?thesis
      by (auto simp: ts nt' lt' intro!: exI [of _ "Fn1 f e1"])
  next
    case param
    with run obtain pt rt where r': "r = pt # rt # rest" and pt: "tok_kind pt = NAME" and rt: "tok_kind rt = RPAREN"
      and v: "resolve_parameter env (tok_value pt) = Inr v"
      by (auto simp: ts nt' lt' parse_function_call_def parser_steps)
    from r have "rt = tRPAREN" using rt by (auto simp: r' dest: canonicalD)
    with param v token_eta [OF pt] show ?thesis
      by (auto simp: ts nt' lt' r' intro!: exI [of _ "ParamOf f (tok_value pt)"])
  qed
qed

lemma run_parser_sound: "sound_self env (run_parser n env)"
proof (induction n)
  case 0
  show ?case by (simp add: sound_self_def)
next
  case (Suc n)
  show ?case
    unfolding sound_self_def
  proof (intro allI impI)
    fix call ts v rest
    assume "run_parser (Suc n) env call ts = Inr (v, rest)" and "list_all canonical ts"
    then show "parsed env call ts v rest"
      using sound_expression [OF Suc] sound_expression_loop [OF Suc] sound_term [OF Suc] sound_term_loop [OF Suc]
        sound_primary [OF Suc] sound_multiplier [OF Suc] sound_function_call [OF Suc] sound_adjustment [OF Suc]
      by (cases call) (simp_all del: parsed.simps)
  qed
qed

section \<open>The tokenizer\<close>

lemma punctuation_canonical: "punctuation c = Some k \<Longrightarrow> canonical (Token k [c])"
  by (auto simp: punctuation_def canonical_def split: if_splits)

lemma tokenize_from_canonical: "tokenize_from pos s = Inr ts \<Longrightarrow> list_all canonical ts"
proof (induction s arbitrary: pos ts rule: length_induct)
  case (1 s)
  have IH: "length s' < length s \<Longrightarrow> tokenize_from pos' s' = Inr us \<Longrightarrow> list_all canonical us" for pos' s' us
    using "1.IH" by blast
  have can: "canonical (Token NUMBER d)" "canonical (Token NAME d)" "canonical (Token EOF d)" for d
    by (simp_all add: canonical_def)
  show ?case
  proof (cases s)
    case (Cons c cs)
    obtain num rest where sn: "scan_number (c # cs) = (num, rest)" by fastforce
    have num: "is_digit c \<Longrightarrow> length rest < length s"
      using scan_number_digit [of c cs] by (simp add: sn Cons)
    from "1.prems" num show ?thesis
      by (auto simp: Cons sn Let_def bindE_eq_Inr length_dropWhile_less can dest: punctuation_canonical
          elim!: IH [rotated] split: if_splits option.splits)
  qed (use "1.prems" can in auto)
qed

lemma tokenize_from_error: "tokenize_from pos s = Inl err \<Longrightarrow> is_formula_error err"
proof (induction s arbitrary: pos rule: length_induct)
  case (1 s)
  have IH: "length s' < length s \<Longrightarrow> tokenize_from pos' s' = Inl err \<Longrightarrow> is_formula_error err" for pos' s'
    using "1.IH" by blast
  show ?case
  proof (cases s)
    case (Cons c cs)
    obtain num rest where sn: "scan_number (c # cs) = (num, rest)" by fastforce
    have num: "is_digit c \<Longrightarrow> length rest < length s"
      using scan_number_digit [of c cs] by (simp add: sn Cons)
    from "1.prems" num show ?thesis
      by (auto simp: Cons sn Let_def bindE_eq_Inl length_dropWhile_less is_formula_error_def [of "FormulaEvaluationError _"]
          elim!: IH [rotated] split: if_splits option.splits)
  qed (use "1.prems" in auto)
qed

lemma eof_terminated_last: "eof_terminated ts \<Longrightarrow> ts = us @ t # ws \<Longrightarrow> tok_kind t = EOF \<Longrightarrow> ws = []"
proof (induction us arbitrary: ts)
  case Nil
  then show ?case by (cases ws) auto
next
  case (Cons u us)
  then show ?case by (cases "us @ t # ws") auto
qed

lemma parse_formula_sound:
  assumes "parse_formula env f ts = Inr v" and "list_all canonical ts" and "eof_terminated ts"
  shows "\<exists>e d. wf_expr e \<and> ts = toks_expr e @ [Token EOF d] \<and> eval_expr env e = Inr v"
proof -
  from assms(1) obtain t r where p: "run_parser (formula_fuel ts) env Parse_expression ts = Inr (v, t # r)"
    and t: "tok_kind t = EOF"
    by (auto simp: parse_formula_def parser_steps split: if_splits)
  from sound_selfD [OF run_parser_sound p assms(2)] obtain e where
    e: "wf_expr e" "ts = toks_expr e @ t # r" "eval_expr env e = Inr v" by auto
  moreover from eof_terminated_last [OF assms(3) e(2) t] have "r = []" .
  ultimately show ?thesis using token_eta [OF t] by metis
qed

lemma parse_formula_complete:
  assumes "f \<noteq> []" and "wf_expr e"
  shows "parse_formula env f (toks_expr e @ [Token EOF d]) = eval_expr env e"
proof -
  have "run_parser (formula_fuel (toks_expr e @ [Token EOF d])) env Parse_expression (toks_expr e @ [Token EOF d])
      = bindE (eval_expr env e) (\<lambda>v. Inr (v, [Token EOF d]))"
    using assms(2) by (intro run_prim_mults(1)) (auto simp: formula_fuel_def follows_def)
  with assms(1) show ?thesis by (cases "eval_expr env e") (simp_all add: parse_formula_def)
qed

lemma parse_formula_total:
  assumes "eof_terminated ts" and "parse_formula env f ts = Inl err"
  shows "is_formula_error err"
proof (cases "run_parser (formula_fuel ts) env Parse_expression ts")
  case (Inl e)
  with assms total_selfD [OF run_parser_total assms(1), of Parse_expression "formula_fuel ts" env]
  show ?thesis by (auto simp: parse_formula_def formula_fuel_def well_parsed_def is_formula_error_def [of "FormulaEvaluationError _"] split: if_splits)
next
  case (Inr x)
  obtain v r where x: "x = (v, r)" by (cases x)
  from total_selfD [OF run_parser_total assms(1), of Parse_expression "formula_fuel ts" env] Inr x
  have "eof_terminated r" by (simp add: formula_fuel_def)
  with assms(2) Inr x show ?thesis
    by (auto simp: parse_formula_def bind_current is_formula_error_def split: if_splits)
qed


section \<open>Round trip of the tokenizer\<close>

text \<open>Token texts the tokenizer can produce, and their rendering, one blank after each.\<close>

definition number_text :: "string \<Rightarrow> bool" where
  "number_text v \<longleftrightarrow> (\<exists>ds. ds \<noteq> [] \<and> list_all is_digit ds \<and>
     (v = ds \<or> (\<exists>fs. fs \<noteq> [] \<and> list_all is_digit fs \<and> v = ds @ CHR ''.'' # fs)))"

definition name_text :: "string \<Rightarrow> bool" where
  "name_text v \<longleftrightarrow> v \<noteq> [] \<and> is_name_start (hd v) \<and> list_all is_name_char (tl v)"

definition lexical :: "token \<Rightarrow> bool" where
  "lexical t \<longleftrightarrow> (case tok_kind t of
       NUMBER \<Rightarrow> number_text (tok_value t)
     | NAME \<Rightarrow> name_text (tok_value t)
     | EOF \<Rightarrow> False
     | k \<Rightarrow> canonical t)"

definition render :: "token list \<Rightarrow> string" where
  "render ts = concat (map (\<lambda>t. tok_value t @ '' '') ts)"

lemma takeWhile_stop: "list_all P xs \<Longrightarrow> \<not> P y \<Longrightarrow> takeWhile P (xs @ y # ys) = xs"
  by (induction xs) auto

lemma dropWhile_stop: "list_all P xs \<Longrightarrow> \<not> P y \<Longrightarrow> dropWhile P (xs @ y # ys) = y # ys"
  by (induction xs) auto

lemma char_classes [simp]:
  "\<not> is_digit CHR '' ''" "\<not> is_digit CHR ''.''" "\<not> is_name_char CHR '' ''" "is_space CHR '' ''"
  by (simp_all add: is_digit_def is_name_char_def is_name_start_def is_space_def)

lemma scan_number_render:
  assumes "number_text v"
  shows "scan_number (v @ '' '' @ s) = (v, '' '' @ s)"
proof -
  from assms obtain ds where ds: "ds \<noteq> []" "list_all is_digit ds"
    and v: "v = ds \<or> (\<exists>fs. fs \<noteq> [] \<and> list_all is_digit fs \<and> v = ds @ CHR ''.'' # fs)"
    by (auto simp: number_text_def)
  from v show ?thesis
  proof (elim disjE exE conjE)
    assume "v = ds"
    then show ?thesis using ds takeWhile_stop [of is_digit ds "CHR '' ''" s] dropWhile_stop [of is_digit ds "CHR '' ''" s]
      by (cases s) (simp_all add: scan_number_def)
  next
    fix fs assume fs: "fs \<noteq> []" "list_all is_digit fs" and v: "v = ds @ CHR ''.'' # fs"
    obtain d fs' where d: "fs = d # fs'" using fs(1) by (cases fs) auto
    show ?thesis
      using ds fs takeWhile_stop [of is_digit ds "CHR ''.''" "fs @ '' '' @ s"]
        dropWhile_stop [of is_digit ds "CHR ''.''" "fs @ '' '' @ s"]
        takeWhile_stop [of is_digit fs' "CHR '' ''" s] dropWhile_stop [of is_digit fs' "CHR '' ''" s]
      by (simp add: scan_number_def v d)
  qed
qed

lemma digit_not_space: "is_digit c \<Longrightarrow> \<not> is_space c"
  by (auto simp: is_digit_def is_space_def Let_def)

lemma name_start_class: "is_name_start c \<Longrightarrow> \<not> is_space c \<and> \<not> is_digit c"
  by (auto simp: is_name_start_def is_digit_def is_space_def Let_def)

lemma tokenize_blank: "tokenize_from pos ('' '' @ s) =
    tokenize_from (pos + (length ('' '' @ s) - length (dropWhile is_space s))) (dropWhile is_space s)"
  by (simp add: Let_def)

declare tokenize_from.simps [simp del]

lemma lexical_cases:
  assumes "lexical t"
  obtains (num) v where "t = Token NUMBER v" "number_text v"
    | (name) v where "t = Token NAME v" "name_text v"
    | (punct) k c where "t = Token k [c]" "punctuation c = Some k" "\<not> is_space c" "\<not> is_digit c" "\<not> is_name_start c"
  using assms
  by (cases t; cases "tok_kind t")
    (auto simp: lexical_def canonical_def punctuation_def is_space_def is_digit_def is_name_start_def)

lemma number_text_hd: "number_text v \<Longrightarrow> \<exists>c cs. v = c # cs \<and> is_digit c"
  by (auto simp: number_text_def neq_Nil_conv)

lemma lexical_hd: "lexical t \<Longrightarrow> \<exists>c cs. tok_value t = c # cs \<and> \<not> is_space c"
proof (erule lexical_cases)
  fix v assume "t = Token NUMBER v" "number_text v"
  then show ?thesis using number_text_hd [of v] by (auto dest: digit_not_space)
qed (auto simp: name_text_def neq_Nil_conv dest: name_start_class)

lemma render_no_space: "list_all lexical ts \<Longrightarrow> dropWhile is_space (render ts) = render ts"
  by (cases ts) (auto simp: render_def dest!: lexical_hd)

lemma tokenize_from_render:
  "list_all lexical ts \<Longrightarrow> tokenize_from pos (render ts) = Inr (ts @ [Token EOF []])"
proof (induction ts arbitrary: pos)
  case Nil
  show ?case by (simp add: render_def tokenize_from.simps)
next
  case (Cons t ts)
  then have lex: "lexical t" and ts: "list_all lexical ts" by simp_all
  have r: "render (t # ts) = tok_value t @ '' '' @ render ts" by (simp add: render_def)
  have rest: "tokenize_from q ('' '' @ render ts) = Inr (ts @ [Token EOF []])" for q
    by (subst tokenize_blank) (simp only: render_no_space [OF ts] Cons.IH [OF ts])
  from lex show ?case
  proof (cases rule: lexical_cases)
    case (num v)
    then obtain c cs where v: "v = c # cs" and c: "is_digit c" using number_text_hd by blast
    have "scan_number (c # cs @ '' '' @ render ts) = (v, '' '' @ render ts)"
      using scan_number_render [OF num(2)] by (simp add: v)
    with num(1) c rest show ?thesis
      unfolding r by (simp add: v digit_not_space tokenize_from.simps(2) [of pos c "cs @ CHR '' '' # render ts"])
  next
    case (name v)
    then obtain c cs where v: "v = c # cs" and c: "is_name_start c" and cs: "list_all is_name_char cs"
      by (cases v) (auto simp: name_text_def)
    have "takeWhile is_name_char (cs @ '' '' @ render ts) = cs"
      "dropWhile is_name_char (cs @ '' '' @ render ts) = '' '' @ render ts"
      using takeWhile_stop [OF cs] dropWhile_stop [OF cs] by simp_all
    with name(1) c rest name_start_class [OF c] show ?thesis
      unfolding r by (simp add: v Let_def tokenize_from.simps(2) [of pos c "cs @ CHR '' '' # render ts"])
  next
    case (punct k c)
    with rest show ?thesis unfolding r by (simp add: tokenize_from.simps(2) [of pos c "CHR '' '' # render ts"])
  qed
qed

section \<open>Properties\<close>

lemma toks_prim_nonempty: "toks_prim p \<noteq> []"
  by (cases p) simp_all

lemma toks_expr_nonempty: "toks_expr e \<noteq> []"
proof (cases e)
  case (Expr t as)
  then show ?thesis by (cases t) (simp add: toks_prim_nonempty)
qed

text \<open>
  C3: \<^verbatim>\<open>FormulaEngine.evaluate\<close> accepts exactly the formulas whose tokens are a sentence of
  the abstract grammar, and the value it computes while parsing is the value of that
  sentence: a term adjusted from left to right, products before adjustments, a percent
  adjustment taken of the value so far.
\<close>
theorem evaluate_formula_iff:
  "evaluate_formula f levels rt params = Inr v \<longleftrightarrow>
     (\<exists>merged e d. merge_parameters params rt = Inr merged \<and> wf_expr e \<and>
        tokenize (strip f) = Inr (toks_expr e @ [Token EOF d]) \<and>
        eval_expr \<lparr>fe_levels = levels, fe_runtime = rt, fe_params = merged\<rparr> e = Inr v)"
  (is "?lhs \<longleftrightarrow> ?rhs")
proof
  assume ?lhs
  then obtain merged ts where m: "merge_parameters params rt = Inr merged"
    and ts: "tokenize (strip f) = Inr ts"
    and p: "parse_formula \<lparr>fe_levels = levels, fe_runtime = rt, fe_params = merged\<rparr> (strip f) ts = Inr v"
    by (auto simp: evaluate_formula_def bindE_eq_Inr)
  from parse_formula_sound [OF p] ts m show ?rhs
    by (auto simp: tokenize_def dest: tokenize_from_canonical tokenize_from_eof)
next
  assume ?rhs
  then obtain merged e d where m: "merge_parameters params rt = Inr merged" and e: "wf_expr e"
    and ts: "tokenize (strip f) = Inr (toks_expr e @ [Token EOF d])"
    and v: "eval_expr \<lparr>fe_levels = levels, fe_runtime = rt, fe_params = merged\<rparr> e = Inr v" by blast
  have "strip f \<noteq> []" using ts toks_expr_nonempty [of e] by (auto simp: tokenize_def tokenize_from.simps)
  from parse_formula_complete [OF this e] m ts v show ?lhs by (simp add: evaluate_formula_def)
qed

lemma evaluate_formula_errors:
  assumes "evaluate_formula f levels rt params = Inl e"
  shows "is_formula_error e"
proof -
  have tok: "tokenize_from pos s = Inl err \<Longrightarrow> is_formula_error err" for pos s err
    by (rule tokenize_from_error)
  have merge: "merge_parameters params rt = Inl err \<Longrightarrow> is_formula_error err" for err
    by (auto simp: merge_parameters_def is_formula_error_def split: py_value.splits)
  from assms show ?thesis
    by (auto simp: evaluate_formula_def bindE_eq_Inl tokenize_def
        dest: tok merge intro: parse_formula_total [OF tokenize_from_eof])
qed

text \<open>
  The tokenizer reads back what is printed: rendering any list of well-formed tokens
  with a blank after each and tokenizing the text gives the same tokens and the EOF token.
\<close>
theorem tokenize_render:
  "list_all lexical ts \<Longrightarrow> tokenize (render ts) = Inr (ts @ [Token EOF []])"
  by (simp add: tokenize_def tokenize_from_render)

theorem tokenize_render_witness:
  "tokenize ''PRV_2DHH + 2.5 % '' =
     Inr [Token NAME ''PRV_2DHH'', Token PLUS ''+'', Token NUMBER ''2.5'', Token PERCENT ''%'', Token EOF []]"
proof -
  have "number_text ''2.5''"
    unfolding number_text_def
    by (rule exI [of _ "''2''"]) (auto simp: is_digit_def intro!: exI [of _ "''5''"])
  then have "list_all lexical [Token NAME ''PRV_2DHH'', Token PLUS ''+'', Token NUMBER ''2.5'', Token PERCENT ''%'']"
    by (simp add: lexical_def name_text_def canonical_def is_name_start_def is_name_char_def is_digit_def)
  from tokenize_render [OF this] show ?thesis by (simp add: render_def)
qed

text \<open>
  \<^verbatim>\<open>ROUND_UP\<close> and \<^verbatim>\<open>ROUND_DOWN\<close> with a positive \<^verbatim>\<open>strike_step\<close> give a multiple of the
  step within one step of the argument, above it and below it respectively.
\<close>
theorem round_value_on_grid:
  assumes "map_of (fe_params env) ''strike_step'' = Some step" and "0 < step"
  shows "(\<exists>k. round_value env True v = of_int k * step) \<and> v \<le> round_value env True v \<and>
      round_value env True v < v + step \<and>
    (\<exists>k. round_value env False v = of_int k * step) \<and> round_value env False v \<le> v \<and>
      v < round_value env False v + step"
proof -
  have up: "v / step \<le> of_int \<lceil>v / step\<rceil>" "of_int \<lceil>v / step\<rceil> < v / step + 1"
    and down: "of_int \<lfloor>v / step\<rfloor> \<le> v / step" "v / step < of_int \<lfloor>v / step\<rfloor> + 1"
    using ceiling_correct [of "v / step"] by linarith+
  have v: "v / step * step = v" using assms(2) by simp
  have "v \<le> of_int \<lceil>v / step\<rceil> * step" "of_int \<lceil>v / step\<rceil> * step < v + step"
    "of_int \<lfloor>v / step\<rfloor> * step \<le> v" "v < of_int \<lfloor>v / step\<rfloor> * step + step"
    using mult_right_mono [OF up(1), of step] mult_strict_right_mono [OF up(2), of step]
      mult_right_mono [OF down(1), of step] mult_strict_right_mono [OF down(2), of step] assms(2)
    by (simp_all add: v distrib_right)
  with assms show ?thesis by (auto simp: round_value_def)
qed

theorem round_value_on_grid_witness:
  "round_value \<lparr>fe_levels = undefined, fe_runtime = [], fe_params = [(''strike_step'', 50)]\<rparr> True 22013 = 22050 \<and>
   (\<exists>k. round_value \<lparr>fe_levels = undefined, fe_runtime = [], fe_params = [(''strike_step'', 50)]\<rparr> True 22013 = of_int k * 50)"
proof -
  let ?env = "\<lparr>fe_levels = undefined, fe_runtime = [], fe_params = [(''strike_step'', 50)]\<rparr> :: formula_env"
  have "map_of (fe_params ?env) ''strike_step'' = Some 50" by simp
  from round_value_on_grid [OF this, of 22013] have "\<exists>k. round_value ?env True 22013 = of_int k * 50" by simp
  moreover have "round_value ?env True 22013 = 22050"
    by (simp add: round_value_def ceiling_unique [of 441 "22013 / 50 :: rat", simplified])
  ultimately show ?thesis by simp
qed

end
