(* ===== verification/FormulaStack.thy ===== *)
theory FormulaStack
  imports FormulaSpec
begin

text \<open>
  The parser of \<^verbatim>\<open>formula_engine.py\<close> under the interpreter's recursion limit. \<open>run_parser\<close> lets the methods
  call each other as deep as the text asks for; here every call of \<^verbatim>\<open>self._parse_x\<close> takes one frame of a
  budget, the turns of the \<^verbatim>\<open>while\<close> loops stay in the frame of their method, and a call without a
  free frame is Python's \<^verbatim>\<open>RecursionError\<close>, which nothing in the engine catches. The frames of the leaf calls
  (\<^verbatim>\<open>_current\<close>, \<^verbatim>\<open>_advance\<close>, \<^verbatim>\<open>_expect\<close> and the lookups: at most three) are not counted: the budget is what the
  limit leaves below them.
\<close>

section \<open>The parser with a budget of frames\<close>

definition framed :: "nat \<Rightarrow> (nat \<Rightarrow> price parse) \<Rightarrow> price parse" where
  "framed d body = (case d of 0 \<Rightarrow> Inl RecursionError | Suc d' \<Rightarrow> body d')"

primrec run_limited :: "nat \<Rightarrow> nat \<Rightarrow> formula_env \<Rightarrow> parser_self" where
  "run_limited 0 d env call = (\<lambda>ts. Inl RecursionError)"
| "run_limited (Suc n) d env call = (\<lambda>ts. (case call of
       Parse_expression \<Rightarrow> framed d (\<lambda>d'. parse_expression (run_limited n d' env) ts)
     | Expression_loop v \<Rightarrow> expression_loop (run_limited n d env) v ts
     | Parse_term \<Rightarrow> framed d (\<lambda>d'. parse_term (run_limited n d' env) ts)
     | Term_loop v \<Rightarrow> term_loop (run_limited n d env) v ts
     | Parse_primary \<Rightarrow> framed d (\<lambda>d'. parse_primary (run_limited n d' env) env ts)
     | Parse_multiplier \<Rightarrow> framed d (\<lambda>d'. parse_multiplier (run_limited n d' env) ts)
     | Parse_function_call \<Rightarrow> framed d (\<lambda>d'. parse_function_call (run_limited n d' env) env ts)
     | Parse_adjustment base \<Rightarrow> framed d (\<lambda>d'. parse_adjustment (run_limited n d' env) base ts)))"

definition parse_formula_limited :: "nat \<Rightarrow> formula_env \<Rightarrow> string \<Rightarrow> token list \<Rightarrow> price res" where
  "parse_formula_limited limit env formula ts =
     (if formula = [] then Inl (FormulaEvaluationError [Txt ''Formula must be a non-empty string''])
      else bindE (run_limited (formula_fuel ts) limit env Parse_expression ts) (\<lambda>(v, ts1).
           bindE (current ts1) (\<lambda>t.
             if tok_kind t \<noteq> EOF
             then Inl (FormulaEvaluationError [Txt ''Unexpected token at end of formula: '', Txt (tok_value t)])
             else Inr v)))"

definition evaluate_formula_limited ::
  "nat \<Rightarrow> string \<Rightarrow> market_levels \<Rightarrow> (string, py_value) dict \<Rightarrow> (string, price) dict \<Rightarrow> price res" where
  "evaluate_formula_limited limit formula levels rt params =
     bindE (merge_parameters params rt) (\<lambda>merged.
     bindE (tokenize (strip formula)) (\<lambda>ts.
       parse_formula_limited limit \<lparr>fe_levels = levels, fe_runtime = rt, fe_params = merged\<rparr> (strip formula) ts))"

section \<open>The budget only turns results into a RecursionError\<close>














section \<open>Nested parentheses\<close>

text \<open>The digit 1 inside \<open>k\<close> pairs of parentheses: as text, as tokens, as syntax tree.\<close>

definition nested_text :: "nat \<Rightarrow> string" where
  "nested_text k = replicate k CHR ''('' @ CHR ''1'' # replicate k CHR '')''"

primrec nested_expr :: "nat \<Rightarrow> expr" where
  "nested_expr 0 = Expr (Term (Num ''1'') MNil) []"
| "nested_expr (Suc k) = Expr (Term (Paren (nested_expr k)) MNil) []"

lemma toks_nested: "toks_expr (nested_expr k) = replicate k tLPAREN @ Token NUMBER ''1'' # replicate k tRPAREN"
  by (induction k) (simp_all add: toks_adjs_def replicate_append_same)

lemma wf_nested: "wf_expr (nested_expr k)"
  by (induction k) simp_all

lemma eval_nested: "eval_expr env (nested_expr k) = Inr 1"
  by (induction k) (simp_all add: number_value_def is_digit_def digit_value_def)

lemma tokenize_closing: "tokenize_from pos (replicate k CHR '')'') = Inr (replicate k tRPAREN @ [Token EOF []])"
  by (induction k arbitrary: pos)
    (simp_all add: tokenize_from.simps is_space_def is_digit_def is_name_start_def punctuation_def)

lemma scan_one: "scan_number (CHR ''1'' # replicate k CHR '')'') = (''1'', replicate k CHR '')'')"
  by (cases k; cases "k - 1") (simp_all add: scan_number_def is_digit_def)

lemma tokenize_opening: "tokenize_from pos (replicate k CHR ''('' @ CHR ''1'' # replicate m CHR '')'')
    = Inr (replicate k tLPAREN @ Token NUMBER ''1'' # replicate m tRPAREN @ [Token EOF []])"
proof (induction k arbitrary: pos)
  case 0
  show ?case
    by (simp add: tokenize_from.simps(2) [of pos "CHR ''1''"] scan_one tokenize_closing is_space_def is_digit_def)
next
  case (Suc k)
  then show ?case
    by (simp add: tokenize_from.simps(2) is_space_def is_digit_def is_name_start_def punctuation_def)
qed

lemma tokenize_nested:
  "strip (nested_text k) = nested_text k"
  "tokenize (nested_text k) = Inr (toks_expr (nested_expr k) @ [Token EOF []])"
proof -
  show "tokenize (nested_text k) = Inr (toks_expr (nested_expr k) @ [Token EOF []])"
    by (simp add: tokenize_def nested_text_def tokenize_opening toks_nested)
  have "hd (nested_text k) \<in> {CHR ''('', CHR ''1''}" "last (nested_text k) \<in> {CHR '')'', CHR ''1''}"
    by (cases k; simp add: nested_text_def)+
  then show "strip (nested_text k) = nested_text k" by (intro strip_fixed) (auto simp: is_space_def)
qed

lemma run_nested_cut: "d \<le> 3 * k \<Longrightarrow>
    run_limited n d env Parse_expression (replicate k tLPAREN @ ts) = Inl RecursionError"
proof (induction k arbitrary: n d)
  case 0
  then show ?case by (cases n) (simp_all add: framed_def)
next
  case (Suc k)
  have "run_limited m d' env Parse_expression (replicate k tLPAREN @ ts) = Inl RecursionError"
    if "d' \<le> d - 3" for m d' by (rule Suc.IH) (use that Suc.prems in simp)
  then have p: "run_limited m d' env Parse_primary (tLPAREN # replicate k tLPAREN @ ts) = Inl RecursionError"
    if "d' \<le> d - 2" for m d' using that
    by (cases m; cases d') (simp_all add: framed_def parse_primary_def)
  have t: "run_limited m d' env Parse_term (tLPAREN # replicate k tLPAREN @ ts) = Inl RecursionError"
    if "d' \<le> d - 1" for m d' using that p
    by (cases m; cases d') (simp_all add: framed_def parse_term_def)
  show ?case using t by (cases n; cases d) (simp_all add: framed_def parse_expression_def)
qed

lemma evaluate_nested:
  "evaluate_formula (nested_text k) levels [] params = Inr 1"
  "limit \<le> 3 * k \<Longrightarrow> evaluate_formula_limited limit (nested_text k) levels [] params = Inl RecursionError"
proof -
  have ne: "nested_text k \<noteq> []" by (simp add: nested_text_def)
  have m: "merge_parameters params [] = Inr params" by (simp add: merge_parameters_def runtime_get_def)
  note p = parse_formula_complete [OF ne wf_nested [of k]]
  show "evaluate_formula (nested_text k) levels [] params = Inr 1"
    unfolding evaluate_formula_def m tokenize_nested bindE_simps p eval_nested ..
  show "evaluate_formula_limited limit (nested_text k) levels [] params = Inl RecursionError" if "limit \<le> 3 * k"
    using that unfolding evaluate_formula_limited_def m tokenize_nested bindE_simps parse_formula_limited_def
    by (simp add: ne toks_nested run_nested_cut)
qed

section \<open>Properties\<close>



text \<open>The digit 1 in \<open>k\<close> pairs of parentheses: three frames for each pair are needed.\<close>
theorem deep_parentheses_exhaust_the_stack:
  assumes "limit \<le> 3 * k"
  shows "evaluate_formula_limited limit (nested_text k) levels [] params = Inl RecursionError \<and>
    evaluate_formula (nested_text k) levels [] params = Inr 1"
  using assms evaluate_nested by blast

theorem deep_parentheses_exhaust_the_stack_witness:
  "\<forall>levels. evaluate_formula_limited 6 ''((1))'' levels [] [] = Inl RecursionError \<and>
    evaluate_formula ''((1))'' levels [] [] = Inr 1"
  using deep_parentheses_exhaust_the_stack [where limit = 6 and k = 2 and params = "[]"] by (simp add: nested_text_def numeral_2_eq_2)

end
