(* ===== verification/Idempotency.thy ===== *)
theory Idempotency
  imports Prelude
begin

text \<open>
  \<^verbatim>\<open>src/tfis/broker/broker_order_idempotency.py\<close>: client order ids are reserved in an
  append-only registry before any order is routed, so that a retry of the same trade attempt
  does not send a second order. The registry file is the list of its records. The SHA-256 of
  \<^verbatim>\<open>hashlib\<close> is the parameter \<open>sha\<close> (the hex digest of a text). Fields of
  \<^verbatim>\<open>BrokerOrderIdempotencyKey\<close> carry the prefix \<open>ik_\<close>, of
  \<^verbatim>\<open>BrokerOrderReservation\<close> \<open>rs_\<close>, of the result \<open>rr_\<close>.
\<close>

section \<open>Keys and client order ids\<close>

datatype reservation_status = RESERVED | CONSUMED | RELEASED

record idempotency_key =
  ik_provider :: string
  ik_strategy_code :: string
  ik_strategy_branch :: string
  ik_trade_id :: string
  ik_order_role :: string
  ik_attempt :: int

fun join_bar :: "string list \<Rightarrow> string" where
  "join_bar [] = []"
| "join_bar [x] = x"
| "join_bar (x # y # xs) = x @ CHR ''|'' # join_bar (y # xs)"

definition key_parts :: "idempotency_key \<Rightarrow> string list" where
  "key_parts k = [ik_provider k, ik_strategy_code k, ik_strategy_branch k, ik_trade_id k,
     ik_order_role k, py_str_int (ik_attempt k)]"

definition normalized :: "idempotency_key \<Rightarrow> string res" where
  "normalized k =
     (if ik_attempt k \<le> 0 then Inl (BrokerOrderIdempotencyError [Txt ''attempt must be positive''])
      else if list_ex (\<lambda>v. strip v = []) (key_parts k)
        then Inl (BrokerOrderIdempotencyError [Txt ''idempotency key values are required''])
      else Inr (join_bar (map (\<lambda>v. upper (strip v)) (key_parts k))))"

definition token_char :: "char \<Rightarrow> bool" where
  "token_char c = (let n = of_char c :: nat in (65 \<le> n \<and> n \<le> 90) \<or> (48 \<le> n \<and> n \<le> 57))"

definition compact_token :: "string \<Rightarrow> nat \<Rightarrow> string res" where
  "compact_token v max_length =
     (let token = filter token_char (upper v)
      in if token = [] then Inl (BrokerOrderIdempotencyError [Txt ''client order id token is empty''])
         else Inr (take max_length token))"

definition build_broker_client_order_id :: "(string \<Rightarrow> string) \<Rightarrow> idempotency_key \<Rightarrow> string res" where
  "build_broker_client_order_id sha k =
     bindE (normalized k) (\<lambda>n. let digest = take 16 (upper (sha n)) in
     bindE (compact_token (ik_strategy_code k) 8) (\<lambda>strategy.
     bindE (compact_token (ik_order_role k) 10) (\<lambda>role.
       Inr (''TFIS-'' @ strategy @ ''-'' @ role @ ''-'' @ digest))))"

section \<open>The registry\<close>

record reservation =
  rs_artifact_version :: int
  rs_idempotency_key :: string
  rs_provider :: string
  rs_strategy_code :: string
  rs_strategy_branch :: string
  rs_trade_id :: string
  rs_order_role :: string
  rs_attempt :: int
  rs_client_order_id :: string
  rs_status :: reservation_status
  rs_reserved_at :: datetime
  rs_last_updated_at :: datetime
  rs_broker_order_state_path :: "string option"
  rs_message :: "string option"

type_synonym registry = "reservation list"

record reservation_result =
  rr_reservation :: reservation
  rr_created :: bool
  rr_duplicate_prevented :: bool
  rr_message :: string

text \<open>
  The loop of \<^verbatim>\<open>reserve\<close>: the first record of the key decides (a released one ends the
  search), and an active record of another key with the same client id is a collision.
\<close>

fun find_reservation :: "string \<Rightarrow> string \<Rightarrow> registry \<Rightarrow> reservation option res" where
  "find_reservation key cid [] = Inr None"
| "find_reservation key cid (r # rs) =
     (if rs_idempotency_key r = key then (if rs_status r = RELEASED then Inr None else Inr (Some r))
      else if rs_client_order_id r = cid \<and> rs_idempotency_key r \<noteq> key \<and> rs_status r \<noteq> RELEASED
        then Inl (BrokerOrderIdempotencyError
          [Txt ''client_order_id collision with a different idempotency key''])
      else find_reservation key cid rs)"

definition new_reservation :: "idempotency_key \<Rightarrow> string \<Rightarrow> string \<Rightarrow> datetime \<Rightarrow> reservation" where
  "new_reservation k key cid t = \<lparr>
     rs_artifact_version = 1, rs_idempotency_key = key, rs_provider = ik_provider k,
     rs_strategy_code = ik_strategy_code k, rs_strategy_branch = ik_strategy_branch k,
     rs_trade_id = ik_trade_id k, rs_order_role = ik_order_role k, rs_attempt = ik_attempt k,
     rs_client_order_id = cid, rs_status = RESERVED, rs_reserved_at = t, rs_last_updated_at = t,
     rs_broker_order_state_path = None,
     rs_message = Some ''Broker order client id reserved before any routing attempt.''\<rparr>"

definition reserve ::
  "(string \<Rightarrow> string) \<Rightarrow> idempotency_key \<Rightarrow> datetime \<Rightarrow> registry \<Rightarrow> (reservation_result \<times> registry) res" where
  "reserve sha k t records =
     bindE (normalized k) (\<lambda>key.
     bindE (build_broker_client_order_id sha k) (\<lambda>cid.
     bindE (find_reservation key cid records) (\<lambda>found.
     case found of
       Some r \<Rightarrow> Inr (\<lparr>rr_reservation = r, rr_created = False, rr_duplicate_prevented = True,
         rr_message = ''Broker order reservation already exists for this idempotency key; duplicate routing must be skipped.''\<rparr>,
         records)
     | None \<Rightarrow> let r = new_reservation k key cid t in
         Inr (\<lparr>rr_reservation = r, rr_created = True, rr_duplicate_prevented = False,
           rr_message = ''Broker order client id reserved.''\<rparr>, records @ [r]))))"

definition latest_by_key :: "registry \<Rightarrow> (string, reservation) dict" where
  "latest_by_key records = dict_of rs_idempotency_key (\<lambda>r. r) records"

definition mark_consumed :: "string \<Rightarrow> datetime \<Rightarrow> string \<Rightarrow> registry \<Rightarrow> (reservation \<times> registry) res" where
  "mark_consumed key t path records =
     (case map_of (latest_by_key records) key of
       None \<Rightarrow> Inl (BrokerOrderIdempotencyError [Txt ''reservation is missing''])
     | Some r \<Rightarrow> let u = r\<lparr>rs_status := CONSUMED, rs_last_updated_at := t,
           rs_broker_order_state_path := Some path,
           rs_message := Some ''Broker order reservation consumed by persisted broker order state.''\<rparr>
         in Inr (u, records @ [u]))"

text \<open>What a client does to a registry: the two operations of the store.\<close>

datatype registry_call = Reserve idempotency_key datetime | MarkConsumed string datetime string

fun registry_step :: "(string \<Rightarrow> string) \<Rightarrow> registry_call \<Rightarrow> registry \<Rightarrow> registry res" where
  "registry_step sha (Reserve k t) rs = bindE (reserve sha k t rs) (\<lambda>(_, rs'). Inr rs')"
| "registry_step sha (MarkConsumed key t path) rs = bindE (mark_consumed key t path rs) (\<lambda>(_, rs'). Inr rs')"

text \<open>A caller that stops on errors and one that goes on; the registry is untouched by a failed call.\<close>

fun registry_run :: "(string \<Rightarrow> string) \<Rightarrow> registry_call list \<Rightarrow> registry \<Rightarrow> registry" where
  "registry_run sha [] rs = rs"
| "registry_run sha (c # cs) rs =
     registry_run sha cs (case registry_step sha c rs of Inl _ \<Rightarrow> rs | Inr rs' \<Rightarrow> rs')"

section \<open>Lemmas\<close>

lemma find_reservation_append:
  "find_reservation key cid rs = Inr (Some r) \<Longrightarrow> find_reservation key cid (rs @ xs) = Inr (Some r)"
  by (induction rs) (auto split: if_splits)

lemma find_reservation_unreleased:
  "find_reservation key cid rs = Inr None \<Longrightarrow> \<forall>r \<in> set rs. rs_idempotency_key r = key \<longrightarrow> rs_status r \<noteq> RELEASED \<Longrightarrow>
   (\<forall>r \<in> set rs. rs_idempotency_key r \<noteq> key) \<and>
   (rs_idempotency_key r' = key \<longrightarrow> rs_status r' \<noteq> RELEASED \<longrightarrow> find_reservation key cid (rs @ [r']) = Inr (Some r'))"
  by (induction rs) (auto split: if_splits)

lemma find_reservation_mem: "find_reservation key cid rs = Inr (Some r) \<Longrightarrow>
    r \<in> set rs \<and> rs_idempotency_key r = key \<and> rs_status r \<noteq> RELEASED"
  by (induction rs) (auto split: if_splits)

lemma new_reservation_fields [simp]:
  "rs_idempotency_key (new_reservation k key cid t) = key" "rs_status (new_reservation k key cid t) = RESERVED"
  "rs_client_order_id (new_reservation k key cid t) = cid"
  by (simp_all add: new_reservation_def)

lemma build_normalized: "build_broker_client_order_id sha k = Inr cid \<Longrightarrow> \<exists>key. normalized k = Inr key"
  by (auto simp: build_broker_client_order_id_def bindE_eq_Inr)

lemma reserve_ok:
  "reserve sha k t rs = Inr (res, rs') \<longleftrightarrow> (\<exists>key cid found. normalized k = Inr key \<and>
     build_broker_client_order_id sha k = Inr cid \<and> find_reservation key cid rs = Inr found \<and>
     (case found of
        Some r \<Rightarrow> rs' = rs \<and> rr_reservation res = r \<and> \<not> rr_created res \<and> rr_duplicate_prevented res \<and>
          rr_message res = ''Broker order reservation already exists for this idempotency key; duplicate routing must be skipped.''
      | None \<Rightarrow> rs' = rs @ [rr_reservation res] \<and> rr_reservation res = new_reservation k key cid t \<and>
          rr_created res \<and> \<not> rr_duplicate_prevented res \<and> rr_message res = ''Broker order client id reserved.''))"
  by (cases res) (auto simp: reserve_def bindE_eq_Inr Let_def split: option.splits)

lemma latest_by_key_mem:
  "map_of (latest_by_key rs) key = Some r \<Longrightarrow> r \<in> set rs \<and> rs_idempotency_key r = key"
  by (auto simp: latest_by_key_def dest: map_of_dict_of_SomeD)

lemma latest_by_key_append:
  "map_of (latest_by_key (rs @ [r])) key = (if rs_idempotency_key r = key then Some r else map_of (latest_by_key rs) key)"
  by (simp add: latest_by_key_def map_of_dict_of)

lemma mark_consumed_ok:
  "mark_consumed key t path rs = Inr (u, rs') \<Longrightarrow> rs' = rs @ [u] \<and> rs_idempotency_key u = key \<and> rs_status u = CONSUMED \<and>
     rs_broker_order_state_path u = Some path \<and> (\<exists>r \<in> set rs. rs_idempotency_key r = key)"
  by (auto simp: mark_consumed_def Let_def split: option.splits dest!: latest_by_key_mem)

text \<open>The registry only grows, and the two operations write no released record.\<close>

lemma registry_step_grows:
  assumes "registry_step sha c rs = Inr rs'"
  shows "\<exists>xs. rs' = rs @ xs \<and> (\<forall>r \<in> set xs. rs_status r \<noteq> RELEASED)"
proof (cases c)
  case (Reserve k t)
  with assms show ?thesis
    by (auto simp: bindE_eq_Inr reserve_ok new_reservation_def split: option.splits)
next
  case (MarkConsumed key t path)
  with assms show ?thesis by (auto simp: bindE_eq_Inr dest!: mark_consumed_ok)
qed

lemma registry_run_grows:
  "\<exists>xs. registry_run sha cs rs = rs @ xs \<and> (\<forall>r \<in> set xs. rs_status r \<noteq> RELEASED)"
proof (induction cs arbitrary: rs)
  case (Cons c cs)
  show ?case
  proof (cases "registry_step sha c rs")
    case (Inl e)
    then show ?thesis using Cons.IH by simp
  next
    case (Inr rs1)
    from registry_step_grows [OF Inr] obtain xs where
      1: "rs1 = rs @ xs" "\<forall>r \<in> set xs. rs_status r \<noteq> RELEASED" by blast
    from Cons.IH [of rs1] obtain ys where
      "registry_run sha cs rs1 = rs1 @ ys" "\<forall>r \<in> set ys. rs_status r \<noteq> RELEASED" by blast
    with 1 Inr show ?thesis by (intro exI [of _ "xs @ ys"]) auto
  qed
qed simp

text \<open>At most one reservation is created for every key.\<close>

definition reservations_of :: "string \<Rightarrow> registry \<Rightarrow> registry" where
  "reservations_of key rs = filter (\<lambda>r. rs_idempotency_key r = key \<and> rs_status r = RESERVED) rs"

definition opened_first :: "registry \<Rightarrow> bool" where
  "opened_first rs \<longleftrightarrow> (\<forall>r \<in> set rs. rs_status r \<noteq> RELEASED) \<and>
     (\<forall>key. length (reservations_of key rs) \<le> 1 \<and>
       ((\<exists>r \<in> set rs. rs_idempotency_key r = key) \<longrightarrow> length (reservations_of key rs) = 1))"

lemma reservations_of_append [simp]: "reservations_of key (xs @ ys) = reservations_of key xs @ reservations_of key ys"
  by (simp add: reservations_of_def)

lemma reservations_of_Nil_iff: "reservations_of key rs = [] \<longleftrightarrow> (\<forall>r \<in> set rs. rs_idempotency_key r = key \<longrightarrow> rs_status r \<noteq> RESERVED)"
  by (auto simp: reservations_of_def filter_empty_conv)

lemma opened_first_Nil: "opened_first []"
  by (simp add: opened_first_def reservations_of_def)

lemma opened_first_step:
  assumes step: "registry_step sha c rs = Inr rs'" and inv: "opened_first rs"
  shows "opened_first rs'"
proof (cases c)
  case (Reserve k t)
  with step obtain res where r: "reserve sha k t rs = Inr (res, rs')" by (auto simp: bindE_eq_Inr)
  then obtain key cid found where f: "find_reservation key cid rs = Inr found"
    and c: "case found of Some r \<Rightarrow> rs' = rs | None \<Rightarrow> rs' = rs @ [new_reservation k key cid t]"
    by (auto simp: reserve_ok split: option.splits)
  show ?thesis
  proof (cases found)
    case None
    from inv have "\<forall>r \<in> set rs. rs_idempotency_key r \<noteq> key"
      using find_reservation_unreleased [of key cid rs undefined] f None by (auto simp: opened_first_def)
    then have "reservations_of key rs = []" by (simp add: reservations_of_Nil_iff)
    with inv c None show ?thesis
      by (auto simp: opened_first_def) (auto simp: reservations_of_def)
  qed (use inv c in simp)
next
  case (MarkConsumed key t path)
  with step obtain u where "mark_consumed key t path rs = Inr (u, rs')" by (auto simp: bindE_eq_Inr)
  from mark_consumed_ok [OF this] inv show ?thesis
    by (auto simp: opened_first_def) (auto simp: reservations_of_def)
qed

lemma opened_first_run: "opened_first rs \<Longrightarrow> opened_first (registry_run sha cs rs)"
  by (induction cs arbitrary: rs) (auto simp: opened_first_step split: sum.splits)

text \<open>A key is its parts: no separator inside a part, so the parts can be read back.\<close>

lemma split_at_bar:
  assumes "CHR ''|'' \<notin> set x" "CHR ''|'' \<notin> set y" "x @ CHR ''|'' # r = y @ CHR ''|'' # s"
  shows "x = y \<and> r = s"
proof -
  have "takeWhile (\<lambda>c. c \<noteq> CHR ''|'') (x @ CHR ''|'' # r) = x"
    and "takeWhile (\<lambda>c. c \<noteq> CHR ''|'') (y @ CHR ''|'' # s) = y"
    using assms(1,2) by (subst takeWhile_append2; auto)+
  with assms(3) show ?thesis by auto
qed

lemma join_bar_inj:
  "length xs = length ys \<Longrightarrow> \<forall>x \<in> set xs \<union> set ys. CHR ''|'' \<notin> set x \<Longrightarrow> join_bar xs = join_bar ys \<Longrightarrow> xs = ys"
proof (induction xs arbitrary: ys rule: join_bar.induct)
  case (2 x)
  then show ?case by (cases ys) auto
next
  case (3 x y xs)
  from "3.prems"(1) obtain a b zs where ys: "ys = a # b # zs" by (cases ys; cases "tl ys") auto
  with 3 have "x = a \<and> join_bar (y # xs) = join_bar (b # zs)" by (intro split_at_bar) auto
  moreover have "y # xs = b # zs" by (rule "3.IH") (use "3.prems" ys calculation in auto)
  ultimately show ?case using ys by simp
qed simp

definition digits_value :: "string \<Rightarrow> nat" where
  "digits_value s = fold (\<lambda>c v. 10 * v + (of_char c - 48)) s 0"

lemma digits_value_decimal: "digits_value (decimal_nat n) = n"
proof (induction n rule: decimal_nat.induct)
  case (1 n)
  have char: "of_char (char_of (48 + d)) = (48 + d :: nat)" if "d < 10" for d :: nat
    using that by simp
  show ?case
  proof (cases "n < 10")
    case True
    then show ?thesis by (simp add: decimal_nat.simps [of n] digits_value_def)
  next
    case False
    have "digits_value (decimal_nat n) = 10 * digits_value (decimal_nat (n div 10)) + n mod 10"
      using char [of "n mod 10"] False by (subst decimal_nat.simps) (simp add: digits_value_def)
    with 1 [OF False] show ?thesis by simp
  qed
qed

lemma decimal_digits: "c \<in> set (decimal_nat n) \<Longrightarrow> \<exists>d < 10. c = char_of (48 + d :: nat)"
proof (induction n rule: decimal_nat.induct)
  case (1 n)
  show ?case
  proof (cases "n < 10")
    case False
    with 1 show ?thesis by (subst (asm) (2) decimal_nat.simps) (force intro: exI [of _ "n mod 10"])
  qed (use 1 in \<open>auto simp: decimal_nat.simps [of n]\<close>)
qed

lemma decimal_nonempty: "decimal_nat n \<noteq> []"
  by (simp add: decimal_nat.simps [of n])

lemma digit_plain: "d < 10 \<Longrightarrow> \<not> is_space (char_of (48 + d :: nat)) \<and>
    upper_char (char_of (48 + d :: nat)) = char_of (48 + d) \<and> char_of (48 + d :: nat) \<noteq> CHR ''|''"
proof -
  assume d: "d < 10"
  then have "of_char (char_of (48 + d)) = (48 + d :: nat)" by simp
  moreover from this d have "char_of (48 + d :: nat) \<noteq> CHR ''|''" by force
  ultimately show ?thesis using d by (auto simp: is_space_def upper_char_def Let_def)
qed

lemma bar_not_digit: "CHR ''|'' \<notin> set (decimal_nat n)"
  using decimal_digits [of "CHR ''|''" n] digit_plain by metis

lemma upper_strip_decimal: "upper (strip (decimal_nat n)) = decimal_nat n"
proof -
  have "\<not> is_space (hd (decimal_nat n)) \<and> \<not> is_space (last (decimal_nat n))"
    using decimal_digits [of "hd (decimal_nat n)" n] decimal_digits [of "last (decimal_nat n)" n] digit_plain
    by (auto simp: decimal_nonempty)
  then have "strip (decimal_nat n) = decimal_nat n" by (simp add: strip_fixed)
  moreover have "upper (decimal_nat n) = decimal_nat n"
    unfolding upper_def using decimal_digits digit_plain by (intro map_idI) metis
  ultimately show ?thesis by simp
qed

definition text_parts :: "idempotency_key \<Rightarrow> string list" where
  "text_parts k = map (\<lambda>v. upper (strip v))
     [ik_provider k, ik_strategy_code k, ik_strategy_branch k, ik_trade_id k, ik_order_role k]"

definition barless :: "idempotency_key \<Rightarrow> bool" where
  "barless k \<longleftrightarrow> list_all (\<lambda>v. CHR ''|'' \<notin> set v) (text_parts k)"

lemma normalized_ok: "normalized k = Inr key \<longleftrightarrow> 0 < ik_attempt k \<and> [] \<notin> strip ` set (key_parts k) \<and>
    key = join_bar (text_parts k @ [decimal_nat (nat (ik_attempt k))])"
  by (auto simp: normalized_def list_ex_iff key_parts_def text_parts_def py_str_int_def upper_strip_decimal)

lemma barless_parts: "barless k \<Longrightarrow> x \<in> set (text_parts k @ [decimal_nat n]) \<Longrightarrow> CHR ''|'' \<notin> set x"
  using bar_not_digit by (auto simp: barless_def list_all_iff)

text \<open>A created reservation is what every later search of its key finds.\<close>

lemma reserve_created:
  assumes "reserve sha k t records = Inr (res, records')" and "rr_created res"
    and "filter (\<lambda>r. rs_status r = RELEASED) records = []"
  obtains key cid where "rr_reservation res = new_reservation k key cid t"
    and "\<And>t2 xs. reserve sha k t2 (records' @ xs) = Inr (\<lparr>rr_reservation = rr_reservation res, rr_created = False,
      rr_duplicate_prevented = True,
      rr_message = ''Broker order reservation already exists for this idempotency key; duplicate routing must be skipped.''\<rparr>,
      records' @ xs)"
proof -
  from assms(1,2) obtain key cid where key: "normalized k = Inr key"
    and cid: "build_broker_client_order_id sha k = Inr cid" and none: "find_reservation key cid records = Inr None"
    and records': "records' = records @ [rr_reservation res]" and new: "rr_reservation res = new_reservation k key cid t"
    by (auto simp: reserve_ok split: option.splits)
  have "find_reservation key cid records' = Inr (Some (rr_reservation res))"
    unfolding records' using assms(3) find_reservation_unreleased [OF none, of "rr_reservation res"] new
    by (auto simp: filter_empty_conv)
  then have "find_reservation key cid (records' @ xs) = Inr (Some (rr_reservation res))" for xs
    by (rule find_reservation_append)
  with key cid new show ?thesis by (intro that [of key cid]) (simp_all add: reserve_def)
qed

section \<open>Properties\<close>

text \<open>
  Once a reservation was created for a key, every later \<^verbatim>\<open>reserve\<close> of that key returns the
  same reservation, reports that a duplicate was prevented and writes nothing, whatever
  reservations and consumptions of any keys came in between, failed calls included.
\<close>
theorem reserve_prevents_duplicates:
  assumes "reserve sha k t records = Inr (res, records')" and "rr_created res"
    and "filter (\<lambda>r. rs_status r = RELEASED) records = []"
  shows "\<exists>again. reserve sha k t2 (registry_run sha cs records') = Inr (again, registry_run sha cs records') \<and>
    rr_reservation again = rr_reservation res \<and> \<not> rr_created again \<and> rr_duplicate_prevented again"
proof -
  obtain xs where "registry_run sha cs records' = records' @ xs" using registry_run_grows by blast
  with assms show ?thesis by (auto elim: reserve_created)
qed

definition demo_key :: idempotency_key where
  "demo_key = \<lparr>ik_provider = ''FYERS'', ik_strategy_code = ''S23'', ik_strategy_branch = ''BULL'',
     ik_trade_id = ''T1'', ik_order_role = ''ENTRY'', ik_attempt = 1\<rparr>"

definition demo_sha :: "string \<Rightarrow> string" where
  "demo_sha s = ''0a1b2c3d4e5f60718293a4b5c6d7e8f9''"

lemma demo_reserved: "reserve demo_sha demo_key 0 [] = Inr (\<lparr>
     rr_reservation = new_reservation demo_key ''FYERS|S23|BULL|T1|ENTRY|1'' ''TFIS-S23-ENTRY-0A1B2C3D4E5F6071'' 0,
     rr_created = True, rr_duplicate_prevented = False, rr_message = ''Broker order client id reserved.''\<rparr>,
   [new_reservation demo_key ''FYERS|S23|BULL|T1|ENTRY|1'' ''TFIS-S23-ENTRY-0A1B2C3D4E5F6071'' 0])"
  by code_simp

theorem reserve_prevents_duplicates_witness:
  "\<exists>res records'. reserve demo_sha demo_key 0 [] = Inr (res, records') \<and>
    (\<exists>again. reserve demo_sha demo_key 9 (registry_run demo_sha [MarkConsumed ''FYERS|S23|BULL|T1|ENTRY|1'' 3 ''p''] records')
      = Inr (again, registry_run demo_sha [MarkConsumed ''FYERS|S23|BULL|T1|ENTRY|1'' 3 ''p''] records') \<and>
      rr_reservation again = rr_reservation res \<and> \<not> rr_created again \<and> rr_duplicate_prevented again)"
  using reserve_prevents_duplicates [OF demo_reserved, of 9 "[MarkConsumed ''FYERS|S23|BULL|T1|ENTRY|1'' 3 ''p'']"] demo_reserved
  by auto

text \<open>
  C7: whatever calls reach a registry that starts empty, it holds exactly one created
  reservation for every key that occurs in it, and no released one.
\<close>
theorem one_reservation_per_key:
  "length (reservations_of key (registry_run sha cs [])) =
     (if key \<in> rs_idempotency_key ` set (registry_run sha cs []) then 1 else 0) \<and>
   RELEASED \<notin> rs_status ` set (registry_run sha cs [])"
proof -
  let ?rs = "registry_run sha cs []"
  have inv: "opened_first ?rs" by (rule opened_first_run [OF opened_first_Nil])
  have "reservations_of key ?rs = []" if "key \<notin> rs_idempotency_key ` set ?rs"
    using that by (auto simp: reservations_of_Nil_iff)
  with inv show ?thesis by (auto simp: opened_first_def)
qed

text \<open>
  The normalised key identifies the trade attempt: for keys without the separator
  \<^verbatim>\<open>|\<close> two accepted keys have the same text exactly when their parts agree up to case and
  surrounding white space and their attempts are equal.
\<close>
theorem normalized_key_identifies:
  assumes "normalized k1 = Inr n1" and "normalized k2 = Inr n2" and "barless k1" and "barless k2"
  shows "n1 = n2 \<longleftrightarrow> text_parts k1 = text_parts k2 \<and> ik_attempt k1 = ik_attempt k2"
proof
  let ?p = "\<lambda>k. text_parts k @ [decimal_nat (nat (ik_attempt k))]"
  assume "n1 = n2"
  with assms(1,2) have "join_bar (?p k1) = join_bar (?p k2)" by (simp add: normalized_ok)
  moreover have "length (?p k1) = length (?p k2)" by (simp add: text_parts_def)
  moreover have "\<forall>x \<in> set (?p k1) \<union> set (?p k2). CHR ''|'' \<notin> set x"
    using barless_parts assms(3,4) by blast
  ultimately have eq: "?p k1 = ?p k2" by (intro join_bar_inj)
  then have "decimal_nat (nat (ik_attempt k1)) = decimal_nat (nat (ik_attempt k2))" by simp
  then have "nat (ik_attempt k1) = nat (ik_attempt k2)" by (metis digits_value_decimal)
  with eq assms(1,2) show "text_parts k1 = text_parts k2 \<and> ik_attempt k1 = ik_attempt k2"
    by (auto simp: normalized_ok)
next
  assume "text_parts k1 = text_parts k2 \<and> ik_attempt k1 = ik_attempt k2"
  with assms(1,2) show "n1 = n2" by (simp add: normalized_ok)
qed

theorem normalized_key_identifies_witness:
  "text_parts demo_key \<noteq> text_parts (demo_key\<lparr>ik_trade_id := ''T2''\<rparr>) \<and>
   normalized demo_key \<noteq> normalized (demo_key\<lparr>ik_trade_id := ''T2''\<rparr>)"
proof -
  have 1: "normalized demo_key = Inr ''FYERS|S23|BULL|T1|ENTRY|1''" by code_simp
  have 2: "normalized (demo_key\<lparr>ik_trade_id := ''T2''\<rparr>) = Inr ''FYERS|S23|BULL|T2|ENTRY|1''" by code_simp
  have 3: "barless demo_key" "barless (demo_key\<lparr>ik_trade_id := ''T2''\<rparr>)" by code_simp+
  show ?thesis unfolding 1 2 using normalized_key_identifies [OF 1 2 3] by simp
qed

text \<open>
  \<^verbatim>\<open>reserve\<close> answers with the first record of the key: after a reservation was consumed it
  still returns the record of status RESERVED, while the latest record is the CONSUMED one.
\<close>
theorem reserve_returns_stale_record:
  assumes "reserve sha k t records = Inr (res, records')" and "rr_created res"
    and "filter (\<lambda>r. rs_status r = RELEASED) records = []"
    and "mark_consumed (rs_idempotency_key (rr_reservation res)) t' path records' = Inr (u, records'')"
  shows "\<exists>again. reserve sha k t2 records'' = Inr (again, records'') \<and>
    rs_status (rr_reservation again) = RESERVED \<and>
    map_option rs_status (map_of (latest_by_key records'') (rs_idempotency_key (rr_reservation res))) = Some CONSUMED"
proof -
  from mark_consumed_ok [OF assms(4)] have "records'' = records' @ [u]" by simp
  with assms(1-3) mark_consumed_ok [OF assms(4)] show ?thesis
    by (auto simp: latest_by_key_append elim: reserve_created)
qed

theorem reserve_returns_stale_record_witness:
  "\<exists>records' u records''. mark_consumed ''FYERS|S23|BULL|T1|ENTRY|1'' 3 ''p'' records' = Inr (u, records'') \<and>
    (\<exists>again. reserve demo_sha demo_key 9 records'' = Inr (again, records'') \<and> rs_status (rr_reservation again) = RESERVED)"
proof -
  let ?r = "new_reservation demo_key ''FYERS|S23|BULL|T1|ENTRY|1'' ''TFIS-S23-ENTRY-0A1B2C3D4E5F6071'' 0"
  obtain u records'' where c: "mark_consumed ''FYERS|S23|BULL|T1|ENTRY|1'' 3 ''p'' [?r] = Inr (u, records'')"
    by (auto simp: mark_consumed_def Let_def latest_by_key_def dict_of_def)
  with reserve_returns_stale_record [OF demo_reserved, of 3 "''p''" u records'' 9] show ?thesis by auto
qed

end
