(* ===== verification/Calendar.thy ===== *)
theory Calendar
  imports Prelude
begin

text \<open>
  The part of the standard library's \<^verbatim>\<open>datetime\<close> the program uses beyond comparison and
  subtraction: year, month and day of a date, the ISO week, and \<^verbatim>\<open>isoformat\<close>. A date is its
  proleptic Gregorian ordinal (1 is 0001-01-01).
\<close>

section \<open>Year, month, day\<close>

definition is_leap :: "int \<Rightarrow> bool" where
  "is_leap y \<longleftrightarrow> y mod 4 = 0 \<and> (y mod 100 \<noteq> 0 \<or> y mod 400 = 0)"

definition days_before_year :: "int \<Rightarrow> int" where
  "days_before_year y = (let z = y - 1 in z * 365 + z div 4 - z div 100 + z div 400)"

definition days_before_month :: "bool \<Rightarrow> int \<Rightarrow> int" where
  "days_before_month leap m =
     (if m \<le> 1 then 0 else if m = 2 then 31 else
      (if m = 3 then 59 else if m = 4 then 90 else if m = 5 then 120 else if m = 6 then 151 else
       if m = 7 then 181 else if m = 8 then 212 else if m = 9 then 243 else if m = 10 then 273 else
       if m = 11 then 304 else if m = 12 then 334 else 365) + (if leap then 1 else 0))"

text \<open>The year of an ordinal and the day within it, by 400-, 100-, 4- and 1-year cycles.\<close>

definition year_and_day :: "date \<Rightarrow> int \<times> int" where
  "year_and_day n =
     (let n0 = n - 1; n400 = n0 div 146097; n1 = n0 mod 146097;
          n100 = n1 div 36524; n2 = n1 mod 36524;
          n4 = n2 div 1461; n3 = n2 mod 1461;
          y1 = n3 div 365; r = n3 mod 365;
          year = n400 * 400 + 1 + n100 * 100 + n4 * 4 + y1
      in if y1 = 4 \<or> n100 = 4 then (year - 1, 365) else (year, r))"

definition month_of_day :: "bool \<Rightarrow> int \<Rightarrow> int" where
  "month_of_day leap r =
     (if r < days_before_month leap 2 then 1 else if r < days_before_month leap 3 then 2 else
      if r < days_before_month leap 4 then 3 else if r < days_before_month leap 5 then 4 else
      if r < days_before_month leap 6 then 5 else if r < days_before_month leap 7 then 6 else
      if r < days_before_month leap 8 then 7 else if r < days_before_month leap 9 then 8 else
      if r < days_before_month leap 10 then 9 else if r < days_before_month leap 11 then 10 else
      if r < days_before_month leap 12 then 11 else 12)"

definition ymd_of :: "date \<Rightarrow> int \<times> int \<times> int" where
  "ymd_of n = (let (y, r) = year_and_day n; m = month_of_day (is_leap y) r
     in (y, m, r - days_before_month (is_leap y) m + 1))"

definition ordinal :: "int \<Rightarrow> int \<Rightarrow> int \<Rightarrow> date" where
  "ordinal y m d = days_before_year y + days_before_month (is_leap y) m + d"

definition year_of :: "date \<Rightarrow> int" where "year_of n = fst (ymd_of n)"
definition month_of :: "date \<Rightarrow> int" where "month_of n = fst (snd (ymd_of n))"
definition day_of :: "date \<Rightarrow> int" where "day_of n = snd (snd (ymd_of n))"

lemma year_and_day_ordinal: "days_before_year (fst (year_and_day n)) + snd (year_and_day n) + 1 = n"
proof -
  define n0 where "n0 = n - 1"
  define a where "a = n0 div 146097"
  define n1 where "n1 = n0 mod 146097"
  define b where "b = n1 div 36524"
  define n2 where "n2 = n1 mod 36524"
  define c where "c = n2 div 1461"
  define n3 where "n3 = n2 mod 1461"
  define y1 where "y1 = n3 div 365"
  define r where "r = n3 mod 365"
  have n1: "0 \<le> n1" "n1 < 146097" by (simp_all add: n1_def)
  have b: "0 \<le> b" "b \<le> 4" using n1 by (simp_all add: b_def)
  have n2: "0 \<le> n2" "n2 < 36524" "n1 = 36524 * b + n2" by (simp_all add: n2_def b_def)
  have c: "0 \<le> c" "c \<le> 24" using n2(1,2) by (simp_all add: c_def)
  have n3: "0 \<le> n3" "n3 < 1461" "n2 = 1461 * c + n3" by (simp_all add: n3_def c_def)
  have y1: "0 \<le> y1" "y1 \<le> 4" using n3(1,2) by (simp_all add: y1_def)
  have r: "0 \<le> r" "r < 365" "n3 = 365 * y1 + r" by (simp_all add: r_def y1_def)
  have n: "n = 146097 * a + n1 + 1" by (simp add: a_def n1_def n0_def)
  have b4: "n2 = 0" if "b = 4" using that n1 n2 by simp
  have y4: "r = 0" if "y1 = 4" using that n3 r by simp
  define year where "year = a * 400 + 1 + b * 100 + c * 4 + y1"
  have yd: "year_and_day n = (if y1 = 4 \<or> b = 4 then (year - 1, 365) else (year, r))"
    by (simp add: year_and_day_def Let_def n0_def a_def n1_def b_def n2_def c_def n3_def y1_def r_def year_def)
  show ?thesis
  proof (cases "y1 = 4 \<or> b = 4")
    case False
    then have lt: "y1 \<le> 3" "b \<le> 3" using y1 b by auto
    have "(year - 1) div 4 = a * 100 + b * 25 + c" using lt y1(1) by (simp add: year_def)
    moreover have "(year - 1) div 100 = a * 4 + b" using lt y1(1) c by (simp add: year_def)
    moreover have "(year - 1) div 400 = a" using lt y1(1) c b(1) by (simp add: year_def)
    ultimately have "days_before_year year = (year - 1) * 365 + (a * 100 + b * 25 + c) - (a * 4 + b) + a"
      by (simp add: days_before_year_def Let_def)
    with False show ?thesis unfolding yd using n n2 n3 r by (simp add: year_def)
  next
    case True
    have z: "c = 0 \<and> y1 = 0 \<and> r = 0" if "b = 4" using b4 [OF that] n3 r c y1 by auto
    have "(year - 2) div 4 = a * 100 + b * 25 + c - (if b = 4 then 1 else 0)" using True z by (auto simp: year_def)
    moreover have "(year - 2) div 100 = a * 4 + b - (if b = 4 then 1 else 0)"
      using True z c by (cases "b = 4") (auto simp: year_def)
    moreover have "(year - 2) div 400 = a" using True z c b by (cases "b = 4") (auto simp: year_def)
    ultimately have "days_before_year (year - 1) = (year - 2) * 365 +
        (a * 100 + b * 25 + c - (if b = 4 then 1 else 0)) - (a * 4 + b - (if b = 4 then 1 else 0)) + a"
      by (simp add: days_before_year_def Let_def)
    with True show ?thesis unfolding yd using n n2 n3 r z y4 by (auto simp: year_def)
  qed
qed

lemma ordinal_ymd_of: "ordinal (year_of n) (month_of n) (day_of n) = n"
  using year_and_day_ordinal [of n]
  by (simp add: ordinal_def year_of_def month_of_def day_of_def ymd_of_def Let_def split_def)

text \<open>The year and the day are determined by the ordinal, so a date built from its parts has them.\<close>

definition year_length :: "int \<Rightarrow> int" where "year_length y = (if is_leap y then 366 else 365)"

lemma days_before_next_year: "days_before_year (y + 1) = days_before_year y + year_length y"
proof -
  have d: "(x + 1) div k = x div k + (if (x + 1) mod k = 0 then 1 else 0)" if k: "0 < k" for x k :: int
  proof -
    have x: "x = k * (x div k) + x mod k" "0 \<le> x mod k" "x mod k < k" using k by simp_all
    show ?thesis
    proof (cases "x mod k + 1 = k")
      case True
      then have "x + 1 = k * (x div k + 1) + 0" using x(1) unfolding distrib_left by linarith
      then have "(x + 1) div k = x div k + 1" "(x + 1) mod k = 0"
        using k by (auto intro!: int_div_pos_eq int_mod_pos_eq)
      then show ?thesis by simp
    next
      case False
      then have "x + 1 = k * (x div k) + (x mod k + 1)" "x mod k + 1 < k" using x by simp_all
      then have "(x + 1) div k = x div k" "(x + 1) mod k = x mod k + 1"
        using x(2) k int_div_pos_eq [of "x + 1" k "x div k" "x mod k + 1"]
          int_mod_pos_eq [of "x + 1" k "x div k" "x mod k + 1"] by simp_all
      then show ?thesis using x(2) by simp
    qed
  qed
  have q: "y div 4 = (y - 1) div 4 + (if y mod 4 = 0 then 1 else 0)"
    "y div 100 = (y - 1) div 100 + (if y mod 100 = 0 then 1 else 0)"
    "y div 400 = (y - 1) div 400 + (if y mod 400 = 0 then 1 else 0)"
    by (rule d [of 4 "y - 1", simplified diff_add_cancel], simp)
      (rule d [of 100 "y - 1", simplified diff_add_cancel], simp,
       rule d [of 400 "y - 1", simplified diff_add_cancel], simp)
  have m: "y mod 400 = 0 \<Longrightarrow> y mod 100 = 0" "y mod 100 = 0 \<Longrightarrow> y mod 4 = 0"
    using dvd_trans [of 100 400 y] dvd_trans [of 4 100 y] by (simp_all add: mod_eq_0_iff_dvd)
  have len: "year_length y = 365 + (if y mod 4 = 0 then 1 else 0) - (if y mod 100 = 0 then 1 else 0) +
      (if y mod 400 = 0 then 1 else 0)"
  proof -
    have b: "(if A \<and> (\<not> B \<or> C) then 366 else 365 :: int) =
        365 + (if A then 1 else 0) - (if B then 1 else 0) + (if C then 1 else 0)"
      if "C \<Longrightarrow> B" "B \<Longrightarrow> A" for A B C
      using that by (cases A; cases B; cases C) simp_all
    show ?thesis unfolding year_length_def is_leap_def by (rule b [OF m])
  qed
  have sum: "y * 365 + (a4 + e4) - (a100 + e100) + (a400 + e400) =
      (y - 1) * 365 + a4 - a100 + a400 + (365 + e4 - e100 + e400)" for a4 a100 a400 e4 e100 e400 :: int
    by simp
  have "days_before_year (y + 1) = y * 365 + y div 4 - y div 100 + y div 400"
    by (simp add: days_before_year_def Let_def)
  also have "\<dots> = (y - 1) * 365 + (y - 1) div 4 - (y - 1) div 100 + (y - 1) div 400 + year_length y"
    unfolding len q by (rule sum)
  also have "\<dots> = days_before_year y + year_length y" by (simp add: days_before_year_def Let_def)
  finally show ?thesis .
qed

lemma day_in_year: "0 \<le> snd (year_and_day n) \<and> snd (year_and_day n) < year_length (fst (year_and_day n))"
proof -
  define n1 where "n1 = (n - 1) mod 146097"
  define b where "b = n1 div 36524"
  define n2 where "n2 = n1 mod 36524"
  define c where "c = n2 div 1461"
  define n3 where "n3 = n2 mod 1461"
  define y1 where "y1 = n3 div 365"
  define a where "a = (n - 1) div 146097"
  have n1: "0 \<le> n1" "n1 < 146097" by (simp_all add: n1_def)
  have b: "0 \<le> b" "b \<le> 4" using n1 by (simp_all add: b_def)
  have n2: "0 \<le> n2" "n2 < 36524" "n1 = 36524 * b + n2" by (simp_all add: n2_def b_def)
  have c: "0 \<le> c" "c \<le> 24" using n2(1,2) by (simp_all add: c_def)
  have n3: "0 \<le> n3" "n3 < 1461" "n2 = 1461 * c + n3" by (simp_all add: n3_def c_def)
  have y1: "0 \<le> y1" "y1 \<le> 4" "365 * y1 \<le> n3" using n3(1,2) by (simp_all add: y1_def)
  define year where "year = a * 400 + 1 + b * 100 + c * 4 + y1"
  have yd: "year_and_day n = (if y1 = 4 \<or> b = 4 then (year - 1, 365) else (year, n3 mod 365))"
    by (simp add: year_and_day_def Let_def a_def n1_def b_def n2_def c_def n3_def y1_def year_def)
  have "is_leap (year - 1)" if "y1 = 4 \<or> b = 4"
  proof (cases "b = 4")
    case True
    then have "n2 = 0" using n1 n2 by simp
    then have "year - 1 = (a + 1) * 400" using True n3 c y1 by (simp add: year_def)
    then show ?thesis by (simp add: is_leap_def)
  next
    case False
    with that b have b3: "b \<le> 3" and y4: "y1 = 4" by auto
    then have "c \<le> 23" using n2 n3 y1 by simp
    moreover have "(year - 1) mod 4 = 0" using y4 by (simp add: year_def)
    moreover have "year - 1 = 100 * (a * 4 + b) + (c * 4 + 4)" using y4 by (simp add: year_def)
    then have "(year - 1) mod 100 = c * 4 + 4" using \<open>c \<le> 23\<close> c
      int_mod_pos_eq [of "year - 1" 100 "a * 4 + b" "c * 4 + 4"] by simp
    ultimately show ?thesis using c by (simp add: is_leap_def)
  qed
  then show ?thesis by (auto simp: yd year_length_def)
qed

lemma days_before_year_mono: "y < y' \<Longrightarrow> days_before_year y + year_length y \<le> days_before_year y'"
proof (induction "nat (y' - y)" arbitrary: y)
  case (Suc k)
  show ?case
  proof (cases "y + 1 = y'")
    case True
    then show ?thesis using days_before_next_year [of y] by simp
  next
    case False
    with Suc.prems Suc.hyps(2) have "days_before_year (y + 1) + year_length (y + 1) \<le> days_before_year y'"
      by (intro Suc.hyps(1)) auto
    then show ?thesis using days_before_next_year [of y] by (simp add: year_length_def split: if_splits)
  qed
qed simp

lemma year_and_day_unique:
  assumes "0 \<le> r" and "r < year_length y"
  shows "year_and_day (days_before_year y + r + 1) = (y, r)"
proof -
  let ?n = "days_before_year y + r + 1"
  obtain y' r' where yr: "year_and_day ?n = (y', r')" by (cases "year_and_day ?n")
  have eq: "days_before_year y' + r' = days_before_year y + r" and r': "0 \<le> r'" "r' < year_length y'"
    using year_and_day_ordinal [of ?n] day_in_year [of ?n] by (simp_all add: yr)
  have "y = y'"
  proof (rule ccontr)
    assume "y \<noteq> y'"
    then consider "y < y'" | "y' < y" by linarith
    then show False
      by cases (use days_before_year_mono eq assms r' in \<open>force+\<close>)
  qed
  with eq yr show ?thesis by simp
qed

lemma month_of_day_bounds:
  "0 \<le> r \<Longrightarrow> r < (if leap then 366 else 365) \<Longrightarrow> 1 \<le> month_of_day leap r \<and> month_of_day leap r \<le> 12 \<and>
     days_before_month leap (month_of_day leap r) \<le> r \<and> r < days_before_month leap (month_of_day leap r + 1)"
proof -
  assume r: "0 \<le> r" "r < (if leap then 366 else 365)"
  have ends: "days_before_month leap 1 = 0" "days_before_month leap 13 = (if leap then 366 else 365)"
    by (simp_all add: days_before_month_def)
  show ?thesis
    unfolding month_of_day_def using r by (simp add: ends not_less split: if_split)
qed

lemma month_cases: "1 \<le> m \<Longrightarrow> m \<le> 12 \<Longrightarrow> m \<in> {1,2,3,4,5,6,7,8,9,10,11,12 :: int}"
  by (simp only: insert_iff empty_iff) presburger

lemma month_of_day_unique:
  "1 \<le> m \<Longrightarrow> m \<le> 12 \<Longrightarrow> days_before_month leap m \<le> r \<Longrightarrow> r < days_before_month leap (m + 1) \<Longrightarrow> month_of_day leap r = m"
proof -
  assume m: "1 \<le> m" "m \<le> 12" and r: "days_before_month leap m \<le> r" "r < days_before_month leap (m + 1)"
  from month_cases [OF m] consider "m = 1" | "m = 2" | "m = 3" | "m = 4" | "m = 5" | "m = 6" | "m = 7" | "m = 8" | "m = 9"
    | "m = 10" | "m = 11" | "m = 12" by auto
  then show ?thesis using r by cases (simp_all add: month_of_day_def days_before_month_def split: if_splits)
qed

text \<open>The number of days of a month, and the first day of the month of a date and of the next one.\<close>

definition month_length :: "bool \<Rightarrow> int \<Rightarrow> int" where
  "month_length leap m = days_before_month leap (m + 1) - days_before_month leap m"

lemma ymd_bounds: "1 \<le> month_of n \<and> month_of n \<le> 12 \<and> 1 \<le> day_of n \<and> day_of n \<le> month_length (is_leap (year_of n)) (month_of n)"
proof -
  obtain y r where yr: "year_and_day n = (y, r)" by (cases "year_and_day n")
  with day_in_year [of n] have "0 \<le> r" "r < (if is_leap y then 366 else 365)" by (auto simp: year_length_def)
  from month_of_day_bounds [OF this] show ?thesis
    by (simp add: yr ymd_of_def Let_def month_of_def day_of_def year_of_def month_length_def)
qed

lemma ymd_of_ordinal:
  assumes "1 \<le> m" "m \<le> 12" "1 \<le> d" "d \<le> month_length (is_leap y) m"
  shows "ymd_of (ordinal y m d) = (y, m, d)"
proof -
  let ?l = "is_leap y" and ?r = "days_before_month (is_leap y) m + (d - 1)"
  have r: "days_before_month ?l m \<le> ?r" "?r < days_before_month ?l (m + 1)"
    using assms by (simp_all add: month_length_def)
  from month_cases [OF assms(1,2)] have b: "0 \<le> days_before_month ?l m" "days_before_month ?l (m + 1) \<le> year_length y"
    by (auto simp: days_before_month_def year_length_def)
  have "year_and_day (days_before_year y + ?r + 1) = (y, ?r)"
    using r b by (intro year_and_day_unique) auto
  moreover have "days_before_year y + ?r + 1 = ordinal y m d" by (simp add: ordinal_def)
  ultimately show ?thesis using month_of_day_unique [OF assms(1,2) r] by (simp add: ymd_of_def Let_def)
qed

definition month_start :: "date \<Rightarrow> date" where
  "month_start n = ordinal (year_of n) (month_of n) 1"

definition next_month_start :: "date \<Rightarrow> date" where
  "next_month_start n = (if month_of n = 12 then ordinal (year_of n + 1) 1 1
     else ordinal (year_of n) (month_of n + 1) 1)"

lemma month_length_bounds: "1 \<le> m \<Longrightarrow> m \<le> 12 \<Longrightarrow> 28 \<le> month_length leap m \<and> month_length leap m \<le> 31"
proof -
  assume "1 \<le> m" "m \<le> 12"
  from month_cases [OF this] show ?thesis by (cases leap) (auto simp: month_length_def days_before_month_def)
qed

lemma next_month_start_eq:
  "next_month_start n = month_start n + month_length (is_leap (year_of n)) (month_of n)"
proof (cases "month_of n = 12")
  case True
  then show ?thesis using days_before_next_year [of "year_of n"]
    by (simp add: next_month_start_def month_start_def ordinal_def month_length_def days_before_month_def year_length_def)
next
  case False
  then show ?thesis by (simp add: next_month_start_def month_start_def ordinal_def month_length_def)
qed

lemma month_start_day: "n = month_start n + day_of n - 1"
  using ordinal_ymd_of [of n] by (simp add: month_start_def ordinal_def)

lemma month_start_le: "month_start n \<le> n" "n < next_month_start n" "28 \<le> next_month_start n - month_start n"
  using ymd_bounds [of n] month_start_day [of n] month_length_bounds [of "month_of n" "is_leap (year_of n)"]
  by (auto simp: next_month_start_eq)

lemma same_month:
  assumes "month_start n \<le> x" and "x < next_month_start n"
  shows "year_of x = year_of n \<and> month_of x = month_of n \<and> month_start x = month_start n"
proof -
  let ?d = "x - month_start n + 1"
  have "x = ordinal (year_of n) (month_of n) ?d" by (simp add: month_start_def ordinal_def)
  moreover have "1 \<le> ?d" "?d \<le> month_length (is_leap (year_of n)) (month_of n)"
    using assms by (simp_all add: next_month_start_eq)
  ultimately have "ymd_of x = (year_of n, month_of n, ?d)" using ymd_bounds [of n] ymd_of_ordinal by metis
  then show ?thesis by (simp add: year_of_def month_of_def month_start_def)
qed

text \<open>\<^verbatim>\<open>(t.year, t.month)\<close> grows with the date.\<close>

definition month_key :: "datetime \<Rightarrow> int \<times> int" where
  "month_key t = (year_of (date_of t), month_of (date_of t))"

lemma month_of_day_mono: "r \<le> r' \<Longrightarrow> month_of_day leap r \<le> month_of_day leap r'"
  by (cases leap) (simp_all add: month_of_day_def days_before_month_def)

lemma month_key_mono:
  assumes "t \<le> t'"
  shows "fst (month_key t) < fst (month_key t') \<or> fst (month_key t) = fst (month_key t') \<and> snd (month_key t) \<le> snd (month_key t')"
proof -
  let ?n = "date_of t" and ?m = "date_of t'"
  have le: "?n \<le> ?m" using assms by (rule date_of_mono)
  have eq: "days_before_year (year_of ?n) + snd (year_and_day ?n) + 1 = ?n" "days_before_year (year_of ?m) + snd (year_and_day ?m) + 1 = ?m"
    using year_and_day_ordinal by (simp_all add: year_of_def ymd_of_def split_def Let_def)
  have r: "0 \<le> snd (year_and_day ?n)" "snd (year_and_day ?m) < year_length (year_of ?m)"
    using day_in_year by (simp_all add: year_of_def ymd_of_def split_def Let_def)
  have "\<not> year_of ?m < year_of ?n" using days_before_year_mono [of "year_of ?m" "year_of ?n"] eq r le by linarith
  moreover have "month_of ?n \<le> month_of ?m" if "year_of ?n = year_of ?m"
  proof -
    from that eq le have "snd (year_and_day ?n) \<le> snd (year_and_day ?m)" by simp
    from month_of_day_mono [OF this] that show ?thesis by (simp add: month_of_def year_of_def ymd_of_def split_def Let_def)
  qed
  ultimately show ?thesis by (auto simp: month_key_def)
qed

section \<open>ISO weeks\<close>

definition iso_week1_monday :: "int \<Rightarrow> date" where
  "iso_week1_monday y = (let first = ordinal y 1 1; wd = weekday first; monday = first - wd
     in if wd > 3 then monday + 7 else monday)"

text \<open>\<^verbatim>\<open>d.isocalendar()[:2]\<close>: the ISO year and week.\<close>

definition iso_year_week :: "date \<Rightarrow> int \<times> int" where
  "iso_year_week n =
     (let y = year_of n; w1 = iso_week1_monday y; week = (n - w1) div 7
      in if week < 0 then (y - 1, (n - iso_week1_monday (y - 1)) div 7 + 1)
         else if week \<ge> 52 \<and> n \<ge> iso_week1_monday (y + 1) then (y + 1, 1)
         else (y, week + 1))"

section \<open>isoformat\<close>

text \<open>The last \<open>w\<close> decimal digits of a number.\<close>

primrec padded :: "nat \<Rightarrow> nat \<Rightarrow> string" where
  "padded 0 n = []"
| "padded (Suc w) n = padded w (n div 10) @ [char_of (48 + n mod 10)]"

definition isoformat_date :: "date \<Rightarrow> string" where
  "isoformat_date n = padded 4 (nat (year_of n)) @ ''-'' @ padded 2 (nat (month_of n)) @ ''-'' @ padded 2 (nat (day_of n))"

definition isoformat :: "datetime \<Rightarrow> string" where
  "isoformat t = (let us = time_of t; s = us div 1000000; f = us mod 1000000 in
     isoformat_date (date_of t) @ ''T'' @ padded 2 (nat (s div 3600)) @ '':'' @
     padded 2 (nat (s div 60 mod 60)) @ '':'' @ padded 2 (nat (s mod 60)) @
     (if f = 0 then [] else ''.'' @ padded 6 (nat f)))"

text \<open>
  \<^verbatim>\<open>date.fromisoformat\<close> of the form \<^verbatim>\<open>YYYY-MM-DD\<close>, the one the program writes; any other text
  raises (the basic and week forms of later Python versions are not modelled).
\<close>

definition is_decimal_digit :: "char \<Rightarrow> bool" where
  "is_decimal_digit c = (let n = of_char c :: nat in 48 \<le> n \<and> n \<le> 57)"

definition decimal_value :: "string \<Rightarrow> int" where
  "decimal_value ds = fold (\<lambda>c acc. acc * 10 + (of_char c - 48)) ds 0"

definition date_of_parts :: "int \<Rightarrow> int \<Rightarrow> int \<Rightarrow> date res" where
  "date_of_parts y m d = (if 1 \<le> y \<and> 1 \<le> m \<and> m \<le> 12 \<and> 1 \<le> d \<and> d \<le> month_length (is_leap y) m
     then Inr (ordinal y m d) else Inl (ValueError [Txt ''date out of range'']))"

definition date_fromisoformat :: "string \<Rightarrow> date res" where
  "date_fromisoformat s =
     (if length s = 10 \<and> s ! 4 = CHR ''-'' \<and> s ! 7 = CHR ''-'' \<and>
         list_all is_decimal_digit (take 4 s @ take 2 (drop 5 s) @ drop 8 s)
      then date_of_parts (decimal_value (take 4 s)) (decimal_value (take 2 (drop 5 s))) (decimal_value (drop 8 s))
      else Inl (ValueError [Txt ''Invalid isoformat string: '', PyRepr s]))"

end
