(* ===== verification/Validation.thy ===== *)
theory Validation
  imports Prelude
begin

text \<open>
  The contract the live-readiness validators share: a validator collects issues and reports
  \<^verbatim>\<open>PASS\<close> exactly when it found none, with the issues and their number. \<open>ok\<close> is what the
  validator accepts; \<open>no_issue_iff\<close> is the law each validator proves for its own checks.
\<close>

definition verdict :: "'i list \<Rightarrow> string" where
  "verdict issues = (if issues \<noteq> [] then ''FAIL'' else ''PASS'')"

lemma verdict_PASS [simp]: "verdict issues = ''PASS'' \<longleftrightarrow> issues = []"
  by (simp add: verdict_def)

lemma verdict_FAIL [simp]: "verdict issues = ''FAIL'' \<longleftrightarrow> issues \<noteq> []"
  by (simp add: verdict_def)

locale validator =
  fixes issues :: "'a \<Rightarrow> 'i list"
    and validate :: "'a \<Rightarrow> 'v"
    and status :: "'v \<Rightarrow> string"
    and listed :: "'v \<Rightarrow> 'i list"
    and ok :: "'a \<Rightarrow> bool"
  assumes status_validate: "status (validate a) = verdict (issues a)"
    and listed_validate: "listed (validate a) = issues a"
    and no_issue_iff: "issues a = [] \<longleftrightarrow> ok a"
begin

lemma passes_iff: "status (validate a) = ''PASS'' \<longleftrightarrow> ok a"
  by (simp add: status_validate no_issue_iff)

lemma fails_iff: "status (validate a) = ''FAIL'' \<longleftrightarrow> \<not> ok a"
  by (simp add: status_validate no_issue_iff)

lemma fails_with_reason: "\<not> ok a \<Longrightarrow> listed (validate a) \<noteq> []"
  by (simp add: listed_validate no_issue_iff)

end

end
