(* ===== verification/LiveControls.thy ===== *)
theory LiveControls
  imports Calendar Validation
begin

text \<open>
  \<^verbatim>\<open>src/tfis/broker/live_operator_controls.py\<close>: the operator's approval of live mode and the
  kill switch, each a state file rewritten by its operations, with an audit log both append
  to. Fields of \<^verbatim>\<open>LiveOperatorApproval\<close> carry the prefix \<open>la_\<close>, of
  \<^verbatim>\<open>LiveKillSwitchState\<close> \<open>ks_\<close>, of the events \<open>ce_\<close>, of the validation \<open>cv_\<close>.
\<close>

datatype control_action = APPROVE_LIVE_MODE | ACTIVATE_KILL_SWITCH | CLEAR_KILL_SWITCH

fun control_action_value :: "control_action \<Rightarrow> string" where
  "control_action_value APPROVE_LIVE_MODE = ''APPROVE_LIVE_MODE''"
| "control_action_value ACTIVATE_KILL_SWITCH = ''ACTIVATE_KILL_SWITCH''"
| "control_action_value CLEAR_KILL_SWITCH = ''CLEAR_KILL_SWITCH''"

record live_approval =
  la_approved :: bool
  la_approved_by :: "string option"
  la_approved_at :: "datetime option"
  la_expires_at :: "datetime option"
  la_reason :: "string option"
  la_audit_event_id :: "string option"

record kill_switch_state =
  ks_available :: bool
  ks_active :: bool
  ks_updated_at :: "datetime option"
  ks_updated_by :: "string option"
  ks_reason :: "string option"
  ks_audit_event_id :: "string option"

record control_event =
  ce_event_id :: string
  ce_action :: control_action
  ce_occurred_at :: datetime
  ce_actor :: string
  ce_reason :: string

record control_issue =
  ci_code :: string
  ci_message :: string

record control_validation =
  cv_status :: string
  cv_issue_count :: nat
  cv_issues :: "control_issue list"
  cv_message :: msg

section \<open>Validation\<close>

abbreviation control_issue :: "string \<Rightarrow> string \<Rightarrow> control_issue" where
  "control_issue c m \<equiv> \<lparr>ci_code = c, ci_message = m\<rparr>"

definition control_issues :: "live_approval \<Rightarrow> kill_switch_state \<Rightarrow> datetime \<Rightarrow> control_issue list" where
  "control_issues a k now =
     issue_if (\<not> la_approved a)
       (control_issue ''LIVE_OPERATOR_APPROVAL_MISSING'' ''Explicit operator live-mode approval is missing.'') @
     issue_if (\<not> truthy_text (la_approved_by a))
       (control_issue ''LIVE_OPERATOR_APPROVER_MISSING'' ''Live-mode approval must record an approver.'') @
     issue_if (la_approved_at a = None)
       (control_issue ''LIVE_OPERATOR_APPROVAL_TIMESTAMP_MISSING'' ''Live-mode approval timestamp is missing.'') @
     issue_if (case la_expires_at a of None \<Rightarrow> True | Some t \<Rightarrow> t \<le> now)
       (control_issue ''LIVE_OPERATOR_APPROVAL_EXPIRED'' ''Live-mode approval is missing an unexpired expiry timestamp.'') @
     issue_if (\<not> truthy_text (la_reason a))
       (control_issue ''LIVE_OPERATOR_APPROVAL_REASON_MISSING'' ''Live-mode approval must include a reason.'') @
     issue_if (\<not> truthy_text (la_audit_event_id a))
       (control_issue ''LIVE_OPERATOR_APPROVAL_AUDIT_MISSING'' ''Live-mode approval must be backed by an audit event.'') @
     issue_if (\<not> ks_available k)
       (control_issue ''LIVE_KILL_SWITCH_UNAVAILABLE'' ''A live kill switch must be available before live routing.'') @
     issue_if (ks_active k)
       (control_issue ''LIVE_KILL_SWITCH_ACTIVE'' ''Live kill switch is active; live routing must remain blocked.'') @
     issue_if (\<not> truthy_text (ks_audit_event_id k))
       (control_issue ''LIVE_KILL_SWITCH_AUDIT_MISSING'' ''Live kill-switch state must be backed by an audit event.'')"

definition validate_live_operator_controls ::
  "live_approval \<Rightarrow> kill_switch_state \<Rightarrow> datetime \<Rightarrow> control_validation" where
  "validate_live_operator_controls a k now =
     (let issues = control_issues a k now in
      \<lparr>cv_status = verdict issues, cv_issue_count = length issues, cv_issues = issues,
       cv_message = (if issues \<noteq> []
         then [PyInt (int (length issues)), Txt '' live operator-control issue(s) detected.'']
         else [Txt ''Live operator approval is explicit, unexpired, audited, and the kill switch is available.''])\<rparr>)"

section \<open>The store\<close>

record control_directory =
  cd_approval :: "live_approval option"
  cd_kill_switch :: "kill_switch_state option"
  cd_events :: "control_event list"

definition control_event_id :: "control_action \<Rightarrow> string \<Rightarrow> datetime \<Rightarrow> string" where
  "control_event_id action actor t = control_action_value action @ '':'' @ isoformat t @ '':'' @ actor"

definition append_control_event ::
  "control_action \<Rightarrow> string \<Rightarrow> string \<Rightarrow> datetime \<Rightarrow> control_directory \<Rightarrow> (control_event \<times> control_directory) res" where
  "append_control_event action actor reason t d =
     (if strip actor = [] then Inl (ValueError [Txt ''actor is required''])
      else if strip reason = [] then Inl (ValueError [Txt ''reason is required''])
      else let e = \<lparr>ce_event_id = control_event_id action actor t, ce_action = action,
                    ce_occurred_at = t, ce_actor = actor, ce_reason = reason\<rparr>
           in Inr (e, d\<lparr>cd_events := cd_events d @ [e]\<rparr>))"

definition approve_live_mode ::
  "string \<Rightarrow> string \<Rightarrow> datetime \<Rightarrow> datetime \<Rightarrow> control_directory \<Rightarrow> (live_approval \<times> control_directory) res" where
  "approve_live_mode actor reason t expires d =
     bindE (append_control_event APPROVE_LIVE_MODE actor reason t d) (\<lambda>(e, d').
       let a = \<lparr>la_approved = True, la_approved_by = Some actor, la_approved_at = Some t,
                la_expires_at = Some expires, la_reason = Some reason, la_audit_event_id = Some (ce_event_id e)\<rparr>
       in Inr (a, d'\<lparr>cd_approval := Some a\<rparr>))"

definition switch_state :: "bool \<Rightarrow> string \<Rightarrow> string \<Rightarrow> datetime \<Rightarrow> control_event \<Rightarrow> kill_switch_state" where
  "switch_state active actor reason t e = \<lparr>ks_available = True, ks_active = active, ks_updated_at = Some t,
     ks_updated_by = Some actor, ks_reason = Some reason, ks_audit_event_id = Some (ce_event_id e)\<rparr>"

definition activate_kill_switch ::
  "string \<Rightarrow> string \<Rightarrow> datetime \<Rightarrow> control_directory \<Rightarrow> (kill_switch_state \<times> control_directory) res" where
  "activate_kill_switch actor reason t d =
     bindE (append_control_event ACTIVATE_KILL_SWITCH actor reason t d) (\<lambda>(e, d').
       let k = switch_state True actor reason t e in Inr (k, d'\<lparr>cd_kill_switch := Some k\<rparr>))"

definition clear_kill_switch ::
  "string \<Rightarrow> string \<Rightarrow> datetime \<Rightarrow> control_directory \<Rightarrow> (kill_switch_state \<times> control_directory) res" where
  "clear_kill_switch actor reason t d =
     bindE (append_control_event CLEAR_KILL_SWITCH actor reason t d) (\<lambda>(e, d').
       let k = switch_state False actor reason t e in Inr (k, d'\<lparr>cd_kill_switch := Some k\<rparr>))"

text \<open>Reading a missing file raises \<^verbatim>\<open>FileNotFoundError\<close>, here \<open>None\<close>.\<close>

definition loaded_approval :: "live_approval \<Rightarrow> live_approval" where
  "loaded_approval a = a\<lparr>la_approved_by := optional_text (la_approved_by a),
     la_reason := optional_text (la_reason a), la_audit_event_id := optional_text (la_audit_event_id a)\<rparr>"

definition load_approval :: "control_directory \<Rightarrow> live_approval option" where
  "load_approval d = map_option loaded_approval (cd_approval d)"

definition loaded_kill_switch :: "kill_switch_state \<Rightarrow> kill_switch_state" where
  "loaded_kill_switch k = k\<lparr>ks_updated_by := optional_text (ks_updated_by k),
     ks_reason := optional_text (ks_reason k), ks_audit_event_id := optional_text (ks_audit_event_id k)\<rparr>"

definition load_kill_switch :: "control_directory \<Rightarrow> kill_switch_state option" where
  "load_kill_switch d = map_option loaded_kill_switch (cd_kill_switch d)"

text \<open>The calls an operator makes; a call that raises leaves the directory as it was.\<close>

datatype control_call =
    Approve string string datetime datetime
  | Activate string string datetime
  | ClearSwitch string string datetime

fun control_step :: "control_call \<Rightarrow> control_directory \<Rightarrow> control_directory res" where
  "control_step (Approve actor reason t expires) d =
     bindE (approve_live_mode actor reason t expires d) (\<lambda>(_, d'). Inr d')"
| "control_step (Activate actor reason t) d = bindE (activate_kill_switch actor reason t d) (\<lambda>(_, d'). Inr d')"
| "control_step (ClearSwitch actor reason t) d = bindE (clear_kill_switch actor reason t d) (\<lambda>(_, d'). Inr d')"

fun control_run :: "control_call list \<Rightarrow> control_directory \<Rightarrow> control_directory" where
  "control_run [] d = d"
| "control_run (c # cs) d = control_run cs (case control_step c d of Inl _ \<Rightarrow> d | Inr d' \<Rightarrow> d')"

fun is_clear :: "control_call \<Rightarrow> bool" where
  "is_clear (ClearSwitch _ _ _) = True"
| "is_clear _ = False"

section \<open>What the validator accepts\<close>

definition controls_ok :: "live_approval \<times> kill_switch_state \<times> datetime \<Rightarrow> bool" where
  "controls_ok = (\<lambda>(a, k, now). la_approved a \<and> truthy_text (la_approved_by a) \<and> la_approved_at a \<noteq> None \<and>
     (\<exists>t. la_expires_at a = Some t \<and> now < t) \<and> truthy_text (la_reason a) \<and> truthy_text (la_audit_event_id a) \<and>
     ks_available k \<and> \<not> ks_active k \<and> truthy_text (ks_audit_event_id k))"

interpretation controls: validator "\<lambda>(a, k, now). control_issues a k now"
  "\<lambda>(a, k, now). validate_live_operator_controls a k now" cv_status cv_issues controls_ok
  by unfold_locales
    (auto simp: validate_live_operator_controls_def Let_def control_issues_def controls_ok_def not_le
      split: option.splits)

lemma controls_pass: "cv_status (validate_live_operator_controls a k now) = ''PASS'' \<longleftrightarrow> controls_ok (a, k, now)"
  using controls.passes_iff [of "(a, k, now)"] by simp

section \<open>What the store keeps\<close>

lemma optional_text_nonblank [simp]: "strip t \<noteq> [] \<Longrightarrow> optional_text (Some t) = Some (strip t)"
  by (simp add: optional_text_def)

lemma truthy_strip: "\<not> is_space c \<Longrightarrow> truthy_text (optional_text (Some (c # s)))"
proof -
  assume "\<not> is_space c"
  then have "strip (c # s) \<noteq> []" by (simp add: strip_def)
  then show ?thesis by (simp add: truthy_text_def)
qed

lemma truthy_event_id: "truthy_text (optional_text (Some (control_event_id action actor t)))"
  by (cases action) (simp_all add: control_event_id_def truthy_strip is_space_def)

lemma append_control_event_ok:
  "append_control_event action actor reason t d = Inr (e, d') \<longleftrightarrow> strip actor \<noteq> [] \<and> strip reason \<noteq> [] \<and>
     e = \<lparr>ce_event_id = control_event_id action actor t, ce_action = action, ce_occurred_at = t,
          ce_actor = actor, ce_reason = reason\<rparr> \<and> d' = d\<lparr>cd_events := cd_events d @ [e]\<rparr>"
  by (auto simp: append_control_event_def Let_def)

definition switch_on :: "control_directory \<Rightarrow> bool" where
  "switch_on d \<longleftrightarrow> (\<exists>k. load_kill_switch d = Some k \<and> ks_active k)"

lemma activate_switch_on: "activate_kill_switch actor reason t d = Inr (k, d') \<Longrightarrow> switch_on d'"
  by (auto simp: activate_kill_switch_def bindE_eq_Inr append_control_event_ok Let_def switch_on_def
      load_kill_switch_def loaded_kill_switch_def switch_state_def)

lemma switch_on_step: "control_step c d = Inr d' \<Longrightarrow> \<not> is_clear c \<Longrightarrow> switch_on d \<Longrightarrow> switch_on d'"
proof (cases c)
  case (Approve actor reason t expires)
  then show "control_step c d = Inr d' \<Longrightarrow> switch_on d \<Longrightarrow> switch_on d'"
    by (auto simp: bindE_eq_Inr approve_live_mode_def append_control_event_ok Let_def switch_on_def load_kill_switch_def)
qed (auto simp: bindE_eq_Inr activate_switch_on)

lemma switch_on_run: "switch_on d \<Longrightarrow> list_all (\<lambda>c. \<not> is_clear c) cs \<Longrightarrow> switch_on (control_run cs d)"
  by (induction cs arbitrary: d) (auto simp: switch_on_step split: sum.splits)

lemma switch_on_blocks: "switch_on d \<Longrightarrow> load_kill_switch d = Some k \<Longrightarrow> \<not> controls_ok (a, k, now)"
  by (auto simp: switch_on_def controls_ok_def)

section \<open>Properties\<close>

text \<open>
  An active kill switch keeps blocking: after a successful activation no sequence of
  operator calls without a clear, approvals included, makes the operator controls pass.
\<close>
theorem kill_switch_blocks:
  assumes "activate_kill_switch actor reason t d = Inr (k0, d1)" and "list_all (\<lambda>c. \<not> is_clear c) cs"
    and "load_approval (control_run cs d1) = Some a"
  shows "\<exists>k. load_kill_switch (control_run cs d1) = Some k \<and>
    cv_status (validate_live_operator_controls a k now) = ''FAIL''"
proof -
  have on: "switch_on (control_run cs d1)" by (rule switch_on_run [OF activate_switch_on [OF assms(1)] assms(2)])
  then obtain k where k: "load_kill_switch (control_run cs d1) = Some k" by (auto simp: switch_on_def)
  moreover have "\<not> controls_ok (a, k, now)" by (rule switch_on_blocks [OF on k])
  ultimately show ?thesis using controls.fails_iff [of "(a, k, now)"] by simp
qed

definition no_controls :: control_directory where
  "no_controls = \<lparr>cd_approval = None, cd_kill_switch = None, cd_events = []\<rparr>"

theorem kill_switch_blocks_witness:
  "\<exists>d1 a k. load_approval (control_run [Approve ''ops'' ''go live'' 5 900] d1) = Some a \<and>
    load_kill_switch (control_run [Approve ''ops'' ''go live'' 5 900] d1) = Some k \<and>
    cv_status (validate_live_operator_controls a k 10) = ''FAIL''"
proof -
  have s: "strip ''ops'' \<noteq> []" "strip ''go live'' \<noteq> []" "strip ''halt'' \<noteq> []" by code_simp+
  obtain k0 d1 where 1: "activate_kill_switch ''ops'' ''halt'' 0 no_controls = Inr (k0, d1)"
    using s by (auto simp: activate_kill_switch_def append_control_event_def Let_def)
  obtain a where 2: "load_approval (control_run [Approve ''ops'' ''go live'' 5 900] d1) = Some a"
    using s by (auto simp: approve_live_mode_def append_control_event_def Let_def load_approval_def)
  have 3: "list_all (\<lambda>c. \<not> is_clear c) [Approve ''ops'' ''go live'' 5 900]" by simp
  from kill_switch_blocks [OF 1 3 2, of 10] 2 show ?thesis by blast
qed

text \<open>
  An approval followed by a clear of the kill switch, both by a named actor with a
  reason, is what makes the controls pass, up to and not including the expiry time; both
  calls are in the audit log in order.
\<close>
theorem approved_and_cleared_passes:
  assumes "approve_live_mode actor reason t expires d = Inr (a0, d1)"
    and "clear_kill_switch actor' reason' t' d1 = Inr (k0, d2)"
  shows "\<exists>a k. load_approval d2 = Some a \<and> load_kill_switch d2 = Some k \<and>
    cv_status (validate_live_operator_controls a k now) = (if now < expires then ''PASS'' else ''FAIL'') \<and>
    map ce_action (cd_events d2) = map ce_action (cd_events d) @ [APPROVE_LIVE_MODE, CLEAR_KILL_SWITCH]"
proof -
  from assms have d2: "load_approval d2 = Some (loaded_approval a0)"
      "load_kill_switch d2 = Some (loaded_kill_switch k0)"
      "map ce_action (cd_events d2) = map ce_action (cd_events d) @ [APPROVE_LIVE_MODE, CLEAR_KILL_SWITCH]"
    by (auto simp: approve_live_mode_def clear_kill_switch_def bindE_eq_Inr append_control_event_ok Let_def
        load_approval_def load_kill_switch_def)
  from assms have "controls_ok (loaded_approval a0, loaded_kill_switch k0, now) \<longleftrightarrow> now < expires"
    by (auto simp: approve_live_mode_def clear_kill_switch_def bindE_eq_Inr append_control_event_ok Let_def
        controls_ok_def loaded_approval_def loaded_kill_switch_def switch_state_def truthy_event_id)
      (simp_all add: truthy_text_def)
  with d2 controls.passes_iff [of "(loaded_approval a0, loaded_kill_switch k0, now)"]
    controls.fails_iff [of "(loaded_approval a0, loaded_kill_switch k0, now)"] show ?thesis by simp
qed

theorem approved_and_cleared_passes_witness:
  "\<exists>d2 a k. load_approval d2 = Some a \<and> load_kill_switch d2 = Some k \<and>
    cv_status (validate_live_operator_controls a k 10) = ''PASS''"
proof -
  have s: "strip ''ops'' \<noteq> []" "strip ''go live'' \<noteq> []" by code_simp+
  obtain a0 d1 where 1: "approve_live_mode ''ops'' ''go live'' 5 900 no_controls = Inr (a0, d1)"
    using s by (auto simp: approve_live_mode_def append_control_event_def Let_def)
  obtain k0 d2 where 2: "clear_kill_switch ''ops'' ''go live'' 6 d1 = Inr (k0, d2)"
    using s by (auto simp: clear_kill_switch_def append_control_event_def Let_def)
  from approved_and_cleared_passes [OF 1 2, of 10] obtain a k where
    "load_approval d2 = Some a" "load_kill_switch d2 = Some k"
    "cv_status (validate_live_operator_controls a k 10) = (if (10::int) < 900 then ''PASS'' else ''FAIL'')" by blast
  then show ?thesis by (intro exI [of _ d2] exI [of _ a] exI [of _ k]) simp
qed

end
