(* ===== verification/EvidenceStore.thy ===== *)
theory EvidenceStore
  imports Prelude
begin

text \<open>
  The contract of a durable store in which every operation loads, computes and commits: a
  directory holds one state file that each operation rewrites and one append-only event log.
  \<open>load\<close> reads the state file back (\<open>norm\<close> is what reading does to the text fields),
  \<open>commit\<close> writes the state and appends an event. The broker order store interprets it; the
  paper order and position stores have operations of another shape (appending without a
  rewrite, keeping what was written before an error) and are treated on their own.
\<close>

locale evidence_store =
  fixes load :: "'d \<Rightarrow> 's res"
    and log_of :: "'d \<Rightarrow> 'e list"
    and commit :: "'s \<Rightarrow> 'e \<Rightarrow> 'd \<Rightarrow> 'd"
    and norm :: "'s \<Rightarrow> 's"
  assumes load_commit: "load (commit s e d) = Inr (norm s)"
    and log_commit: "log_of (commit s e d) = log_of d @ [e]"
    and norm_idem: "norm (norm s) = norm s"
begin

lemma update_loads:
  assumes "bindE (load d) (\<lambda>s. bindE (f s) (\<lambda>(s', e). Inr (commit s' e d))) = Inr d'"
  shows "\<exists>s s' e. load d = Inr s \<and> f s = Inr (s', e) \<and> load d' = Inr (norm s') \<and> log_of d' = log_of d @ [e]"
  using assms by (auto simp: bindE_eq_Inr load_commit log_commit)

lemma run_extends_log:
  assumes upd: "\<And>c d. step c d = bindE (load d) (\<lambda>s. bindE (f c s) (\<lambda>(s', e). Inr (commit s' e d)))"
    and "runE step cs d = Inr d'"
  shows "\<exists>es. length es = length cs \<and> log_of d' = log_of d @ es"
  using assms(2)
proof (induction cs arbitrary: d)
  case (Cons c cs)
  from Cons.prems obtain d1 where d1: "step c d = Inr d1" and run: "runE step cs d1 = Inr d'"
    by (auto simp: bindE_eq_Inr)
  from d1 obtain e where "log_of d1 = log_of d @ [e]"
    unfolding upd by (auto dest: update_loads)
  with Cons.IH [OF run] show ?case by (metis append.assoc append_Cons append_Nil length_Cons)
qed simp

lemma run_preserves:
  assumes upd: "\<And>c d. step c d = bindE (load d) (\<lambda>s. bindE (f c s) (\<lambda>(s', e). Inr (commit s' e d)))"
    and keep: "\<And>c s s' e. P s \<Longrightarrow> Q c \<Longrightarrow> f c s = Inr (s', e) \<Longrightarrow> P (norm s')"
    and "runE step cs d = Inr d'" and "list_all Q cs" and "load d = Inr s" and "P s"
  shows "\<exists>s'. load d' = Inr s' \<and> P s'"
  using assms(3-6)
proof (induction cs arbitrary: d s)
  case (Cons c cs)
  from Cons.prems(1) obtain d1 where d1: "step c d = Inr d1" and run: "runE step cs d1 = Inr d'"
    by (auto simp: bindE_eq_Inr)
  from d1 Cons.prems(3) obtain s1 e where s1: "f c s = Inr (s1, e)" and l1: "load d1 = Inr (norm s1)"
    using update_loads [OF d1 [unfolded upd]] by auto
  have "P (norm s1)" using keep [OF Cons.prems(4) _ s1] Cons.prems(2) by simp
  from Cons.IH [OF run _ l1 this] Cons.prems(2) show ?case by simp
qed simp

lemma run_never_fails:
  assumes upd: "\<And>c d. step c d = bindE (load d) (\<lambda>s. bindE (f c s) (\<lambda>(s', e). Inr (commit s' e d)))"
    and total: "\<And>c s. \<exists>r. f c s = Inr r" and "load d = Inr s"
  shows "\<exists>d'. runE step cs d = Inr d'"
  using assms(3)
proof (induction cs arbitrary: d s)
  case (Cons c cs)
  from total [of c s] obtain s1 e where "f c s = Inr (s1, e)" by (metis prod.exhaust)
  with Cons.prems have "step c d = Inr (commit s1 e d)" by (simp add: upd)
  with Cons.IH [OF load_commit] show ?case by simp
qed simp

end

end
