(* ===== verification/BrokerOrders.thy ===== *)
theory BrokerOrders
  imports EvidenceStore
begin

text \<open>
  \<^verbatim>\<open>src/tfis/broker/broker_order_state.py\<close>: the durable order-state machine of a broker
  order. A state directory is its state file and its event log; \<^verbatim>\<open>create_intent\<close> starts
  an order and \<^verbatim>\<open>record_event\<close> applies one broker event. Fields of \<^verbatim>\<open>BrokerOrderState\<close>
  carry the prefix \<open>bo_\<close>, of \<^verbatim>\<open>BrokerOrderEvent\<close> \<open>be_\<close>, the arguments of
  \<^verbatim>\<open>record_event\<close> \<open>in_\<close>. The JSON text of a file is not modelled: the file holds the
  record, and reading it back applies what \<^verbatim>\<open>load_state\<close> does to the fields.
\<close>

section \<open>Statuses\<close>

datatype order_status =
    ST_INTENT_CREATED | ST_SUBMITTED | ST_PENDING | ST_ACKNOWLEDGED | ST_OPEN
  | ST_PARTIALLY_FILLED | ST_FILLED | ST_REJECTED | ST_STALE | ST_CANCEL_REQUESTED
  | ST_CANCELLED | ST_CANCEL_REJECTED | ST_CANCEL_FAILED | ST_MODIFY_REQUESTED
  | ST_MODIFIED | ST_MODIFY_REJECTED | ST_MODIFY_FAILED | ST_EXPIRED | ST_UNKNOWN

datatype order_event_type =
    EV_INTENT_CREATED | EV_SUBMITTED | EV_PENDING | EV_ACKNOWLEDGED | EV_STATUS_SYNCED
  | EV_PARTIALLY_FILLED | EV_FILLED | EV_REJECTED | EV_STALE | EV_CANCEL_REQUESTED
  | EV_CANCELLED | EV_CANCEL_REJECTED | EV_CANCEL_FAILED | EV_MODIFY_REQUESTED
  | EV_MODIFIED | EV_MODIFY_REJECTED | EV_MODIFY_FAILED | EV_EXPIRED | EV_UNKNOWN

fun order_status_value :: "order_status \<Rightarrow> string" where
  "order_status_value ST_INTENT_CREATED = ''INTENT_CREATED''"
| "order_status_value ST_SUBMITTED = ''SUBMITTED''"
| "order_status_value ST_PENDING = ''PENDING''"
| "order_status_value ST_ACKNOWLEDGED = ''ACKNOWLEDGED''"
| "order_status_value ST_OPEN = ''OPEN''"
| "order_status_value ST_PARTIALLY_FILLED = ''PARTIALLY_FILLED''"
| "order_status_value ST_FILLED = ''FILLED''"
| "order_status_value ST_REJECTED = ''REJECTED''"
| "order_status_value ST_STALE = ''STALE''"
| "order_status_value ST_CANCEL_REQUESTED = ''CANCEL_REQUESTED''"
| "order_status_value ST_CANCELLED = ''CANCELLED''"
| "order_status_value ST_CANCEL_REJECTED = ''CANCEL_REJECTED''"
| "order_status_value ST_CANCEL_FAILED = ''CANCEL_FAILED''"
| "order_status_value ST_MODIFY_REQUESTED = ''MODIFY_REQUESTED''"
| "order_status_value ST_MODIFIED = ''MODIFIED''"
| "order_status_value ST_MODIFY_REJECTED = ''MODIFY_REJECTED''"
| "order_status_value ST_MODIFY_FAILED = ''MODIFY_FAILED''"
| "order_status_value ST_EXPIRED = ''EXPIRED''"
| "order_status_value ST_UNKNOWN = ''UNKNOWN''"

text \<open>The argument \<^verbatim>\<open>BrokerOrderLifecycleStatus | str | None\<close>.\<close>

datatype status_arg = Status order_status | StatusText string | NoStatus

fun normalized_status :: "status_arg \<Rightarrow> string" where
  "normalized_status (Status s) = order_status_value s"
| "normalized_status (StatusText t) = strip t"
| "normalized_status NoStatus = []"

definition broker_order_is_terminal :: "status_arg \<Rightarrow> bool" where
  "broker_order_is_terminal a \<longleftrightarrow> normalized_status a \<in>
     set (map order_status_value [ST_FILLED, ST_REJECTED, ST_CANCELLED, ST_EXPIRED])"

definition broker_order_requires_operator_attention :: "status_arg \<Rightarrow> bool" where
  "broker_order_requires_operator_attention a \<longleftrightarrow> normalized_status a \<in>
     set (map order_status_value [ST_REJECTED, ST_STALE, ST_CANCEL_REJECTED, ST_CANCEL_FAILED,
       ST_MODIFY_REJECTED, ST_MODIFY_FAILED, ST_UNKNOWN])"

section \<open>State and events\<close>

record broker_order_state =
  bo_artifact_version :: int
  bo_provider :: string
  bo_strategy_code :: string
  bo_strategy_branch :: string
  bo_symbol :: string
  bo_order_role :: string
  bo_side :: string
  bo_quantity :: int
  bo_product_type :: string
  bo_order_type :: string
  bo_status :: order_status
  bo_client_order_id :: string
  bo_created_at :: datetime
  bo_last_updated_at :: datetime
  bo_broker_order_id :: "string option"
  bo_exchange_order_id :: "string option"
  bo_exchange_status :: "string option"
  bo_submitted_at :: "datetime option"
  bo_acknowledged_at :: "datetime option"
  bo_cancel_requested_at :: "datetime option"
  bo_modify_requested_at :: "datetime option"
  bo_modified_at :: "datetime option"
  bo_rejected_at :: "datetime option"
  bo_cancelled_at :: "datetime option"
  bo_filled_at :: "datetime option"
  bo_last_status_at :: "datetime option"
  bo_filled_quantity :: int
  bo_remaining_quantity :: "int option"
  bo_average_fill_price :: "price option"
  bo_limit_price :: "price option"
  bo_trigger_price :: "price option"
  bo_rejection_code :: "string option"
  bo_rejection_message :: "string option"
  bo_cancel_reason :: "string option"
  bo_modify_reason :: "string option"
  bo_last_event_type :: "order_event_type option"
  bo_last_message :: "string option"
  bo_provenance_source_ids :: "string list"

record broker_order_event =
  be_artifact_version :: int
  be_timestamp :: datetime
  be_event_type :: order_event_type
  be_status :: order_status
  be_provider :: string
  be_client_order_id :: string
  be_broker_order_id :: "string option"
  be_exchange_order_id :: "string option"
  be_exchange_status :: "string option"
  be_message :: string
  be_filled_quantity :: "int option"
  be_remaining_quantity :: "int option"
  be_average_fill_price :: "price option"
  be_rejection_code :: "string option"
  be_rejection_message :: "string option"
  be_source_id :: "string option"

record order_directory =
  od_state :: "broker_order_state option"
  od_events :: "broker_order_event list"

definition ARTIFACT_VERSION :: int where "ARTIFACT_VERSION = 1"

section \<open>Reading and writing the directory\<close>

definition loaded_order :: "broker_order_state \<Rightarrow> broker_order_state" where
  "loaded_order s = s\<lparr>
     bo_broker_order_id := optional_text (bo_broker_order_id s),
     bo_exchange_order_id := optional_text (bo_exchange_order_id s),
     bo_exchange_status := optional_text (bo_exchange_status s),
     bo_rejection_code := optional_text (bo_rejection_code s),
     bo_rejection_message := optional_text (bo_rejection_message s),
     bo_cancel_reason := optional_text (bo_cancel_reason s),
     bo_modify_reason := optional_text (bo_modify_reason s),
     bo_last_message := optional_text (bo_last_message s)\<rparr>"

definition load_order :: "order_directory \<Rightarrow> broker_order_state res" where
  "load_order d = (case od_state d of
       None \<Rightarrow> Inl (BrokerOrderStateError [Txt ''Missing broker order state''])
     | Some s \<Rightarrow> Inr (loaded_order s))"

definition save_order :: "broker_order_state \<Rightarrow> order_directory \<Rightarrow> order_directory" where
  "save_order s d = d\<lparr>od_state := Some s\<rparr>"

definition append_order_event :: "broker_order_event \<Rightarrow> order_directory \<Rightarrow> order_directory" where
  "append_order_event e d = d\<lparr>od_events := od_events d @ [e]\<rparr>"

definition loaded_order_event :: "broker_order_event \<Rightarrow> broker_order_event" where
  "loaded_order_event e = e\<lparr>
     be_broker_order_id := optional_text (be_broker_order_id e),
     be_exchange_order_id := optional_text (be_exchange_order_id e),
     be_exchange_status := optional_text (be_exchange_status e),
     be_rejection_code := optional_text (be_rejection_code e),
     be_rejection_message := optional_text (be_rejection_message e),
     be_source_id := optional_text (be_source_id e)\<rparr>"

definition load_order_events :: "order_directory \<Rightarrow> broker_order_event list" where
  "load_order_events d = map loaded_order_event (od_events d)"

section \<open>Creating the intent\<close>

record intent_args =
  ia_provider :: string
  ia_strategy_code :: string
  ia_strategy_branch :: string
  ia_symbol :: string
  ia_order_role :: string
  ia_side :: string
  ia_quantity :: int
  ia_product_type :: string
  ia_order_type :: string
  ia_client_order_id :: string
  ia_created_at :: datetime
  ia_limit_price :: "price option"
  ia_trigger_price :: "price option"
  ia_provenance_source_ids :: "string list"

definition intent_texts :: "intent_args \<Rightarrow> (string \<times> string) list" where
  "intent_texts a =
     [(''provider'', ia_provider a), (''strategy_code'', ia_strategy_code a),
      (''strategy_branch'', ia_strategy_branch a), (''symbol'', ia_symbol a),
      (''order_role'', ia_order_role a), (''side'', ia_side a),
      (''product_type'', ia_product_type a), (''order_type'', ia_order_type a),
      (''client_order_id'', ia_client_order_id a)]"

fun require_texts :: "(string \<times> string) list \<Rightarrow> unit res" where
  "require_texts [] = Inr ()"
| "require_texts ((name, v) # rest) =
     (if strip v = [] then Inl (BrokerOrderStateError [Txt name, Txt '' is required''])
      else require_texts rest)"

definition intent_message :: string where
  "intent_message = ''Broker order intent was persisted; no broker routing has been attempted.''"

definition intent_state :: "intent_args \<Rightarrow> broker_order_state" where
  "intent_state a = \<lparr>
     bo_artifact_version = ARTIFACT_VERSION,
     bo_provider = ia_provider a, bo_strategy_code = ia_strategy_code a,
     bo_strategy_branch = ia_strategy_branch a, bo_symbol = ia_symbol a,
     bo_order_role = ia_order_role a, bo_side = ia_side a, bo_quantity = ia_quantity a,
     bo_product_type = ia_product_type a, bo_order_type = ia_order_type a,
     bo_status = ST_INTENT_CREATED, bo_client_order_id = ia_client_order_id a,
     bo_created_at = ia_created_at a, bo_last_updated_at = ia_created_at a,
     bo_broker_order_id = None, bo_exchange_order_id = None, bo_exchange_status = None,
     bo_submitted_at = None, bo_acknowledged_at = None, bo_cancel_requested_at = None,
     bo_modify_requested_at = None, bo_modified_at = None, bo_rejected_at = None,
     bo_cancelled_at = None, bo_filled_at = None, bo_last_status_at = None,
     bo_filled_quantity = 0, bo_remaining_quantity = Some (ia_quantity a),
     bo_average_fill_price = None, bo_limit_price = ia_limit_price a,
     bo_trigger_price = ia_trigger_price a, bo_rejection_code = None,
     bo_rejection_message = None, bo_cancel_reason = None, bo_modify_reason = None,
     bo_last_event_type = Some EV_INTENT_CREATED, bo_last_message = Some intent_message,
     bo_provenance_source_ids = ia_provenance_source_ids a\<rparr>"

definition intent_event :: "intent_args \<Rightarrow> broker_order_event" where
  "intent_event a = \<lparr>
     be_artifact_version = ARTIFACT_VERSION, be_timestamp = ia_created_at a,
     be_event_type = EV_INTENT_CREATED, be_status = bo_status (intent_state a),
     be_provider = ia_provider a, be_client_order_id = ia_client_order_id a,
     be_broker_order_id = None, be_exchange_order_id = None, be_exchange_status = None,
     be_message = (case bo_last_message (intent_state a) of None \<Rightarrow> [] | Some m \<Rightarrow> m),
     be_filled_quantity = None, be_remaining_quantity = Some (ia_quantity a),
     be_average_fill_price = None, be_rejection_code = None, be_rejection_message = None,
     be_source_id = None\<rparr>"

definition create_intent ::
  "intent_args \<Rightarrow> order_directory \<Rightarrow> (broker_order_state \<times> order_directory) res" where
  "create_intent a d =
     (if ia_quantity a \<le> 0 then Inl (BrokerOrderStateError [Txt ''quantity must be positive''])
      else bindE (require_texts (intent_texts a)) (\<lambda>_.
        Inr (intent_state a, append_order_event (intent_event a) (save_order (intent_state a) d))))"

section \<open>Recording an event\<close>

record event_args =
  in_event_type :: order_event_type
  in_status :: order_status
  in_timestamp :: datetime
  in_message :: string
  in_broker_order_id :: "string option"
  in_exchange_order_id :: "string option"
  in_exchange_status :: "string option"
  in_filled_quantity :: "int option"
  in_remaining_quantity :: "int option"
  in_average_fill_price :: "price option"
  in_limit_price :: "price option"
  in_trigger_price :: "price option"
  in_rejection_code :: "string option"
  in_rejection_message :: "string option"
  in_cancel_reason :: "string option"
  in_modify_reason :: "string option"
  in_source_id :: "string option"

definition final_filled :: "event_args \<Rightarrow> broker_order_state \<Rightarrow> int" where
  "final_filled a s = (case in_filled_quantity a of None \<Rightarrow> bo_filled_quantity s | Some q \<Rightarrow> q)"

definition final_remaining :: "event_args \<Rightarrow> broker_order_state \<Rightarrow> int option" where
  "final_remaining a s =
     (let r = (if in_remaining_quantity a = None \<and> in_filled_quantity a \<noteq> None
               then Some (max (bo_quantity s - final_filled a s) 0)
               else in_remaining_quantity a)
      in (case r of None \<Rightarrow> bo_remaining_quantity s | Some q \<Rightarrow> Some q))"

definition stamp :: "bool \<Rightarrow> datetime \<Rightarrow> datetime option \<Rightarrow> datetime option" where
  "stamp c t old = (if c then Some t else old)"

definition recorded_state :: "event_args \<Rightarrow> broker_order_state \<Rightarrow> broker_order_state" where
  "recorded_state a s = s\<lparr>
     bo_status := in_status a,
     bo_broker_order_id := or_else (in_broker_order_id a) (bo_broker_order_id s),
     bo_exchange_order_id := or_else (in_exchange_order_id a) (bo_exchange_order_id s),
     bo_exchange_status := or_else (in_exchange_status a) (bo_exchange_status s),
     bo_submitted_at := stamp (in_event_type a = EV_SUBMITTED) (in_timestamp a) (bo_submitted_at s),
     bo_acknowledged_at :=
       stamp (in_event_type a = EV_ACKNOWLEDGED) (in_timestamp a) (bo_acknowledged_at s),
     bo_cancel_requested_at :=
       stamp (in_event_type a = EV_CANCEL_REQUESTED) (in_timestamp a) (bo_cancel_requested_at s),
     bo_modify_requested_at :=
       stamp (in_event_type a = EV_MODIFY_REQUESTED) (in_timestamp a) (bo_modify_requested_at s),
     bo_modified_at := stamp (in_event_type a = EV_MODIFIED) (in_timestamp a) (bo_modified_at s),
     bo_rejected_at := stamp (in_event_type a = EV_REJECTED) (in_timestamp a) (bo_rejected_at s),
     bo_cancelled_at := stamp (in_event_type a = EV_CANCELLED) (in_timestamp a) (bo_cancelled_at s),
     bo_filled_at := stamp (in_status a = ST_FILLED) (in_timestamp a) (bo_filled_at s),
     bo_last_status_at := Some (in_timestamp a),
     bo_filled_quantity := final_filled a s,
     bo_remaining_quantity := final_remaining a s,
     bo_average_fill_price := or_else (in_average_fill_price a) (bo_average_fill_price s),
     bo_limit_price := or_else (in_limit_price a) (bo_limit_price s),
     bo_trigger_price := or_else (in_trigger_price a) (bo_trigger_price s),
     bo_rejection_code := or_else (in_rejection_code a) (bo_rejection_code s),
     bo_rejection_message := or_else (in_rejection_message a) (bo_rejection_message s),
     bo_cancel_reason := or_else (in_cancel_reason a) (bo_cancel_reason s),
     bo_modify_reason := or_else (in_modify_reason a) (bo_modify_reason s),
     bo_last_updated_at := in_timestamp a,
     bo_last_event_type := Some (in_event_type a),
     bo_last_message := Some (in_message a)\<rparr>"

definition recorded_event :: "event_args \<Rightarrow> broker_order_state \<Rightarrow> broker_order_event" where
  "recorded_event a s = \<lparr>
     be_artifact_version = ARTIFACT_VERSION, be_timestamp = in_timestamp a,
     be_event_type = in_event_type a, be_status = in_status a,
     be_provider = bo_provider s, be_client_order_id = bo_client_order_id s,
     be_broker_order_id = bo_broker_order_id s, be_exchange_order_id = bo_exchange_order_id s,
     be_exchange_status = bo_exchange_status s, be_message = in_message a,
     be_filled_quantity = Some (bo_filled_quantity s),
     be_remaining_quantity = bo_remaining_quantity s,
     be_average_fill_price = bo_average_fill_price s,
     be_rejection_code = bo_rejection_code s, be_rejection_message = bo_rejection_message s,
     be_source_id = in_source_id a\<rparr>"

definition record_event ::
  "event_args \<Rightarrow> order_directory \<Rightarrow> (broker_order_state \<times> broker_order_event \<times> order_directory) res" where
  "record_event a d = bindE (load_order d) (\<lambda>s0.
     let s = recorded_state a s0; e = recorded_event a s
     in Inr (s, e, append_order_event e (save_order s d)))"

definition record_event_dir :: "event_args \<Rightarrow> order_directory \<Rightarrow> order_directory res" where
  "record_event_dir a d = bindE (record_event a d) (\<lambda>(s, e, d'). Inr d')"

section \<open>Discovery\<close>

text \<open>
  \<^verbatim>\<open>BrokerOrderStateDiscovery.find_orders\<close> over the candidate directories in the sorted
  order \<^verbatim>\<open>broker_order_state_candidate_paths\<close> lists them in; unreadable ones are skipped.
\<close>

definition find_orders ::
  "(string \<times> order_directory) list \<Rightarrow> string option \<Rightarrow> string option \<Rightarrow> (string \<times> broker_order_state) list" where
  "find_orders dirs provider strategy_code = concat (map (\<lambda>(path, d).
     (case load_order d of
        Inl _ \<Rightarrow> []
      | Inr s \<Rightarrow> (if provider \<noteq> None \<and> provider \<noteq> Some (bo_provider s) then []
                else if strategy_code \<noteq> None \<and> strategy_code \<noteq> Some (bo_strategy_code s) then []
                else [(path, s)]))) dirs)"

section \<open>The store keeps the contract\<close>

lemma load_save [simp]: "load_order (append_order_event e (save_order s d)) = Inr (loaded_order s)"
  by (simp add: load_order_def append_order_event_def save_order_def)

lemma log_save [simp]: "od_events (append_order_event e (save_order s d)) = od_events d @ [e]"
  by (simp add: append_order_event_def save_order_def)

lemma loaded_order_idem [simp]: "loaded_order (loaded_order s) = loaded_order s"
  by (simp add: loaded_order_def)

interpretation bo: evidence_store load_order od_events
  "\<lambda>s e d. append_order_event e (save_order s d)" loaded_order
  by unfold_locales simp_all

definition recorded :: "event_args \<Rightarrow> broker_order_state \<Rightarrow> (broker_order_state \<times> broker_order_event) res" where
  "recorded a s = Inr (recorded_state a s, recorded_event a (recorded_state a s))"

lemma record_event_dir_update:
  "record_event_dir a d = bindE (load_order d) (\<lambda>s. bindE (recorded a s)
     (\<lambda>(s', e). Inr (append_order_event e (save_order s' d))))"
  by (cases "load_order d") (simp_all add: record_event_dir_def record_event_def recorded_def Let_def)

lemma create_intent_ok:
  "create_intent a d = Inr (s, d') \<longleftrightarrow> 0 < ia_quantity a \<and> (\<forall>(n, v) \<in> set (intent_texts a). strip v \<noteq> []) \<and>
     s = intent_state a \<and> d' = append_order_event (intent_event a) (save_order (intent_state a) d)"
proof -
  have texts: "require_texts xs = Inr () \<longleftrightarrow> (\<forall>(n, v) \<in> set xs. strip v \<noteq> [])" for xs
    by (induction xs rule: require_texts.induct) auto
  show ?thesis by (auto simp: create_intent_def bindE_eq_Inr texts)
qed

section \<open>What one event does\<close>

text \<open>The fields no event writes: who the order belongs to and what was ordered.\<close>

definition order_identity :: "broker_order_state \<Rightarrow> (string list \<times> int \<times> datetime)" where
  "order_identity s = ([bo_provider s, bo_strategy_code s, bo_strategy_branch s, bo_symbol s, bo_order_role s,
     bo_side s, bo_product_type s, bo_order_type s, bo_client_order_id s], bo_quantity s, bo_created_at s)"

lemma order_identity_recorded [simp]: "order_identity (recorded_state a s) = order_identity s"
  by (simp add: order_identity_def recorded_state_def)

lemma order_identity_loaded [simp]: "order_identity (loaded_order s) = order_identity s"
  by (simp add: order_identity_def loaded_order_def)

lemma loaded_order_fields [simp]:
  "bo_status (loaded_order s) = bo_status s" "bo_quantity (loaded_order s) = bo_quantity s"
  "bo_filled_quantity (loaded_order s) = bo_filled_quantity s"
  "bo_remaining_quantity (loaded_order s) = bo_remaining_quantity s"
  "bo_last_event_type (loaded_order s) = bo_last_event_type s"
  "bo_last_updated_at (loaded_order s) = bo_last_updated_at s"
  "bo_provider (loaded_order s) = bo_provider s"
  "bo_client_order_id (loaded_order s) = bo_client_order_id s"
  by (simp_all add: loaded_order_def)

lemma recorded_state_fields [simp]:
  "bo_status (recorded_state a s) = in_status a" "bo_quantity (recorded_state a s) = bo_quantity s"
  "bo_filled_quantity (recorded_state a s) = final_filled a s"
  "bo_remaining_quantity (recorded_state a s) = final_remaining a s"
  "bo_last_event_type (recorded_state a s) = Some (in_event_type a)"
  "bo_last_updated_at (recorded_state a s) = in_timestamp a"
  by (simp_all add: recorded_state_def)

text \<open>
  The quantities add up: with \<open>reports_fill n a\<close> an event reports nothing about quantities or
  a cumulative fill between 0 and the ordered quantity, and leaves the rest to the store.
\<close>

definition reports_fill :: "int \<Rightarrow> event_args \<Rightarrow> bool" where
  "reports_fill n a \<longleftrightarrow> in_remaining_quantity a = None \<and>
     (case in_filled_quantity a of None \<Rightarrow> True | Some q \<Rightarrow> 0 \<le> q \<and> q \<le> n)"

definition balanced :: "int \<Rightarrow> broker_order_state \<Rightarrow> bool" where
  "balanced n s \<longleftrightarrow> bo_quantity s = n \<and> 0 \<le> bo_filled_quantity s \<and>
     bo_remaining_quantity s = Some (n - bo_filled_quantity s) \<and> bo_filled_quantity s \<le> n"

lemma balanced_recorded: "balanced n s \<Longrightarrow> reports_fill n a \<Longrightarrow> balanced n (recorded_state a s)"
  by (auto simp: balanced_def reports_fill_def final_filled_def final_remaining_def split: option.splits)

lemma balanced_loaded [simp]: "balanced n (loaded_order s) \<longleftrightarrow> balanced n s"
  by (simp add: balanced_def)

lemma balanced_intent: "0 < ia_quantity a \<Longrightarrow> balanced (ia_quantity a) (intent_state a)"
  by (simp add: balanced_def intent_state_def)

text \<open>
  The abstract order: what a reader of the event log sees, (type, status, time) of every
  event in turn. \<open>log_view\<close> projects a log, \<open>report\<close> the arguments of one call.
\<close>

type_synonym order_report = "order_event_type \<times> order_status \<times> datetime"

definition log_view :: "broker_order_event list \<Rightarrow> order_report list" where
  "log_view es = map (\<lambda>e. (be_event_type e, be_status e, be_timestamp e)) es"

definition report :: "event_args \<Rightarrow> order_report" where
  "report a = (in_event_type a, in_status a, in_timestamp a)"

definition state_view :: "broker_order_state \<Rightarrow> order_event_type option \<times> order_status \<times> datetime" where
  "state_view s = (bo_last_event_type s, bo_status s, bo_last_updated_at s)"

text \<open>The state file shows the last event of the log, and the log is about this order.\<close>

definition consistent :: "order_directory \<Rightarrow> bool" where
  "consistent d \<longleftrightarrow> (case od_state d of None \<Rightarrow> True
     | Some s \<Rightarrow> od_events d \<noteq> [] \<and>
         (let e = last (od_events d) in
            state_view s = (Some (be_event_type e), be_status e, be_timestamp e) \<and>
            be_client_order_id e = bo_client_order_id s \<and> be_provider e = bo_provider s))"

lemma record_event_dir_ok:
  "record_event_dir a d = Inr d' \<longleftrightarrow> (\<exists>s. load_order d = Inr s \<and>
     d' = append_order_event (recorded_event a (recorded_state a s)) (save_order (recorded_state a s) d))"
  by (auto simp: record_event_dir_update bindE_eq_Inr recorded_def)

lemma consistent_commit:
  "consistent (append_order_event (recorded_event a (recorded_state a s)) (save_order (recorded_state a s) d))"
  by (simp add: consistent_def append_order_event_def save_order_def recorded_event_def state_view_def Let_def)

lemma log_view_run:
  assumes "runE record_event_dir cs d = Inr d'"
  shows "log_view (od_events d') = log_view (od_events d) @ map report cs"
  using assms
proof (induction cs arbitrary: d)
  case (Cons a cs)
  from Cons.prems obtain d1 where d1: "record_event_dir a d = Inr d1" and run: "runE record_event_dir cs d1 = Inr d'"
    by (auto simp: bindE_eq_Inr)
  then obtain s where "d1 = append_order_event (recorded_event a (recorded_state a s)) (save_order (recorded_state a s) d)"
    by (auto simp: record_event_dir_ok)
  then have "log_view (od_events d1) = log_view (od_events d) @ [report a]"
    by (simp add: log_view_def report_def recorded_event_def)
  with Cons.IH [OF run] show ?case by simp
qed simp

lemma record_run_succeeds:
  assumes "load_order d = Inr s"
  shows "\<exists>d'. runE record_event_dir cs d = Inr d'"
  by (rule bo.run_never_fails [where step = record_event_dir and f = recorded,
        OF record_event_dir_update _ assms]) (simp add: recorded_def)

lemma record_run_preserves:
  assumes "\<And>a s. P s \<Longrightarrow> Q a \<Longrightarrow> P (loaded_order (recorded_state a s))"
    and "runE record_event_dir cs d = Inr d'" and "list_all Q cs" and "load_order d = Inr s" and "P s"
  shows "\<exists>s'. load_order d' = Inr s' \<and> P s'"
proof (rule bo.run_preserves [where step = record_event_dir and f = recorded and P = P and Q = Q,
      OF record_event_dir_update _ assms(2-5)])
  fix c s s' e
  assume "P s" "Q c" "recorded c s = Inr (s', e)"
  then show "P (loaded_order s')" using assms(1) by (auto simp: recorded_def)
qed

section \<open>Properties\<close>

text \<open>
  C5: after an intent is created, any sequence of broker events that report cumulative fills
  between 0 and the ordered quantity, and leave the remaining quantity to the store, succeeds, and in the state read back filled and
  remaining quantity add up to the ordered quantity, which never changes.
\<close>
theorem order_quantities_balance:
  assumes "create_intent a d0 = Inr (s0, d)" and "list_all (reports_fill (ia_quantity a)) cs"
  shows "\<exists>d' s. runE record_event_dir cs d = Inr d' \<and> load_order d' = Inr s \<and>
    bo_quantity s = ia_quantity a \<and> 0 \<le> bo_filled_quantity s \<and> bo_filled_quantity s \<le> ia_quantity a \<and>
    bo_remaining_quantity s = Some (ia_quantity a - bo_filled_quantity s)"
proof -
  let ?n = "ia_quantity a"
  from assms(1) have load: "load_order d = Inr (loaded_order (intent_state a))" and n: "0 < ?n"
    by (auto simp: create_intent_ok)
  from record_run_succeeds [OF load] obtain d' where run: "runE record_event_dir cs d = Inr d'" by blast
  have "balanced ?n (loaded_order (intent_state a))" by (simp add: balanced_intent [OF n])
  from record_run_preserves [where P = "balanced ?n", OF _ run assms(2) load this] balanced_recorded
  obtain s where "load_order d' = Inr s" "balanced ?n s" by auto
  with run show ?thesis by (auto simp: balanced_def)
qed

definition demo_intent :: intent_args where
  "demo_intent = \<lparr>ia_provider = ''FYERS'', ia_strategy_code = ''S23'', ia_strategy_branch = ''BULL_CALL'',
     ia_symbol = ''NIFTY'', ia_order_role = ''ENTRY'', ia_side = ''SELL'', ia_quantity = 75,
     ia_product_type = ''NRML'', ia_order_type = ''LIMIT'', ia_client_order_id = ''TFIS-1'',
     ia_created_at = 0, ia_limit_price = None, ia_trigger_price = None, ia_provenance_source_ids = []\<rparr>"

definition demo_fill :: "int \<Rightarrow> order_status \<Rightarrow> event_args" where
  "demo_fill q st = \<lparr>in_event_type = EV_PARTIALLY_FILLED, in_status = st, in_timestamp = 5, in_message = ''fill'',
     in_broker_order_id = None, in_exchange_order_id = None, in_exchange_status = None,
     in_filled_quantity = Some q, in_remaining_quantity = None, in_average_fill_price = None,
     in_limit_price = None, in_trigger_price = None, in_rejection_code = None, in_rejection_message = None,
     in_cancel_reason = None, in_modify_reason = None, in_source_id = None\<rparr>"

definition empty_directory :: order_directory where
  "empty_directory = \<lparr>od_state = None, od_events = []\<rparr>"

lemma demo_texts: "\<forall>(n, v) \<in> set (intent_texts demo_intent). strip v \<noteq> []"
  by (simp add: intent_texts_def demo_intent_def strip_def is_space_def)

lemma demo_created: "create_intent demo_intent empty_directory = Inr (intent_state demo_intent,
    append_order_event (intent_event demo_intent) (save_order (intent_state demo_intent) empty_directory))"
  using demo_texts by (simp add: create_intent_ok) (simp add: demo_intent_def)

theorem order_quantities_balance_witness:
  "\<exists>d' s. runE record_event_dir [demo_fill 25 ST_PARTIALLY_FILLED, demo_fill 75 ST_FILLED]
      (append_order_event (intent_event demo_intent) (save_order (intent_state demo_intent) empty_directory)) = Inr d' \<and>
    load_order d' = Inr s \<and> bo_quantity s = 75 \<and> bo_remaining_quantity s = Some (75 - bo_filled_quantity s)"
proof -
  have q: "ia_quantity demo_intent = 75" by (simp add: demo_intent_def)
  have fills: "list_all (reports_fill (ia_quantity demo_intent)) [demo_fill 25 ST_PARTIALLY_FILLED, demo_fill 75 ST_FILLED]"
    by (simp add: reports_fill_def demo_fill_def q)
  from order_quantities_balance [OF demo_created fills] show ?thesis unfolding q by blast
qed

text \<open>
  C6: the event log is the history of the order: after a run of \<^verbatim>\<open>record_event\<close> calls it is
  the old log with the reported type, status and time of every call appended in order, the
  state file shows the last report, and the identity of the order is the one before the run.
\<close>
theorem order_log_is_history:
  assumes "runE record_event_dir (cs @ [a]) d = Inr d'"
  shows "log_view (od_events d') = log_view (od_events d) @ map report cs @ [report a] \<and> consistent d' \<and>
    (\<exists>s s'. load_order d = Inr s \<and> load_order d' = Inr s' \<and> order_identity s' = order_identity s \<and>
       state_view s' = (Some (in_event_type a), in_status a, in_timestamp a))"
proof -
  from assms obtain d1 where run: "runE record_event_dir cs d = Inr d1" and last: "record_event_dir a d1 = Inr d'"
    by (auto simp: runE_append bindE_eq_Inr)
  from last obtain s1 where s1: "load_order d1 = Inr s1"
    and d': "d' = append_order_event (recorded_event a (recorded_state a s1)) (save_order (recorded_state a s1) d1)"
    by (auto simp: record_event_dir_ok)
  have "\<exists>s. load_order d = Inr s"
    using assms by (cases cs) (auto simp: bindE_eq_Inr record_event_dir_ok)
  then obtain s where s: "load_order d = Inr s" by blast
  have "\<exists>s'. load_order d1 = Inr s' \<and> order_identity s' = order_identity s"
    by (rule record_run_preserves [where Q = "\<lambda>_. True", OF _ run _ s]) (simp_all add: list_all_iff)
  with s1 have "order_identity s1 = order_identity s" by simp
  then show ?thesis
    using log_view_run [OF assms] s consistent_commit [of a s1 d1]
    by (simp add: d' state_view_def)
qed

theorem order_log_is_history_witness:
  "\<exists>d'. log_view (od_events d') = [(EV_INTENT_CREATED, ST_INTENT_CREATED, 0)] @
      map report [demo_fill 25 ST_PARTIALLY_FILLED] @ [report (demo_fill 75 ST_FILLED)] \<and> consistent d'"
proof -
  let ?d = "append_order_event (intent_event demo_intent) (save_order (intent_state demo_intent) empty_directory)"
  obtain d' where "runE record_event_dir ([demo_fill 25 ST_PARTIALLY_FILLED] @ [demo_fill 75 ST_FILLED]) ?d = Inr d'"
    using record_run_succeeds [OF load_save] by blast
  from order_log_is_history [OF this]
  have "log_view (od_events d') = log_view (od_events ?d) @
      map report [demo_fill 25 ST_PARTIALLY_FILLED] @ [report (demo_fill 75 ST_FILLED)]" and c: "consistent d'"
    by blast+
  moreover have "log_view (od_events ?d) = [(EV_INTENT_CREATED, ST_INTENT_CREATED, 0)]"
    by (simp add: log_view_def empty_directory_def intent_event_def intent_state_def demo_intent_def)
  ultimately show ?thesis by (intro exI [of _ d']) simp
qed

text \<open>
  What is saved is what is read back exactly when every optional text field is absent or
  is non-blank text without surrounding white space; in every other case one reading
  normalises it and reading again changes nothing.
\<close>
theorem order_state_round_trip:
  "(load_order (save_order s d) = Inr s \<longleftrightarrow>
      list_all clean_text [bo_broker_order_id s, bo_exchange_order_id s, bo_exchange_status s, bo_rejection_code s,
        bo_rejection_message s, bo_cancel_reason s, bo_modify_reason s, bo_last_message s]) \<and>
   load_order (save_order (loaded_order s) d) = load_order (save_order s d)"
proof -
  have "loaded_order s = s \<longleftrightarrow> list_all clean_text [bo_broker_order_id s, bo_exchange_order_id s,
      bo_exchange_status s, bo_rejection_code s, bo_rejection_message s, bo_cancel_reason s,
      bo_modify_reason s, bo_last_message s]"
    by (cases s) (simp add: loaded_order_def optional_text_fixed)
  then show ?thesis by (simp add: load_order_def save_order_def)
qed

text \<open>
  A terminal status does not protect an order: \<^verbatim>\<open>record_event\<close> applies the status of
  every event in every state, so a filled, rejected, cancelled or expired order takes the
  next event like any other.
\<close>
theorem terminal_status_not_guarded:
  assumes "load_order d = Inr s" and "broker_order_is_terminal (Status (bo_status s))"
  shows "\<exists>s' e d'. record_event a d = Inr (s', e, d') \<and> bo_status s' = in_status a"
  using assms by (simp add: record_event_def Let_def)

theorem terminal_status_not_guarded_witness:
  "\<exists>s' e d'. record_event (demo_fill 10 ST_OPEN)
     (save_order ((intent_state demo_intent)\<lparr>bo_status := ST_FILLED\<rparr>) empty_directory) = Inr (s', e, d') \<and>
     bo_status s' = ST_OPEN"
proof -
  have load: "load_order (save_order ((intent_state demo_intent)\<lparr>bo_status := ST_FILLED\<rparr>) empty_directory)
      = Inr (loaded_order ((intent_state demo_intent)\<lparr>bo_status := ST_FILLED\<rparr>))"
    by (simp add: load_order_def save_order_def)
  have "broker_order_is_terminal (Status (bo_status (loaded_order ((intent_state demo_intent)\<lparr>bo_status := ST_FILLED\<rparr>))))"
    by (simp add: broker_order_is_terminal_def)
  from terminal_status_not_guarded [OF load this, of "demo_fill 10 ST_OPEN"] show ?thesis
    by (simp add: demo_fill_def)
qed

end
