(* ===== verification/Reconciliation.thy ===== *)
theory Reconciliation
  imports BrokerOrders
begin

text \<open>
  \<^verbatim>\<open>src/tfis/broker/broker_reconciliation.py\<close>: comparison of what TFIS expects (positions and
  broker orders) with what the broker reports. Fields of \<^verbatim>\<open>TfisPositionExpectation\<close> carry the
  prefix \<open>pe_\<close>, of \<^verbatim>\<open>BrokerPositionSnapshot\<close> \<open>ps_\<close>, of \<^verbatim>\<open>BrokerOrderBookSnapshot\<close> \<open>ob_\<close>,
  of \<^verbatim>\<open>BrokerReconciliationConflict\<close> \<open>cf_\<close>, of the result \<open>br_\<close>.
\<close>

datatype reconciliation_scope = PRE_STARTUP | DURING_SUPERVISION | AFTER_RESTART

datatype reconciliation_status = REC_PASS | REC_FAIL

fun scope_value :: "reconciliation_scope \<Rightarrow> string" where
  "scope_value PRE_STARTUP = ''PRE_STARTUP''"
| "scope_value DURING_SUPERVISION = ''DURING_SUPERVISION''"
| "scope_value AFTER_RESTART = ''AFTER_RESTART''"

record position_expectation =
  pe_provider :: string
  pe_strategy_code :: string
  pe_strategy_branch :: string
  pe_symbol :: string
  pe_expected_quantity :: int
  pe_expected_average_price :: "price option"
  pe_source_path :: "string option"

record position_snapshot =
  ps_provider :: string
  ps_symbol :: string
  ps_quantity :: int
  ps_average_price :: "price option"
  ps_source_id :: "string option"

record order_book_snapshot =
  ob_provider :: string
  ob_client_order_id :: "string option"
  ob_broker_order_id :: "string option"
  ob_symbol :: string
  ob_exchange_status :: "string option"
  ob_filled_quantity :: "int option"
  ob_remaining_quantity :: "int option"
  ob_average_fill_price :: "price option"
  ob_source_id :: "string option"

record conflict =
  cf_code :: string
  cf_provider :: string
  cf_symbol :: "string option"
  cf_client_order_id :: "string option"
  cf_message :: msg

record reconciliation_result =
  br_scope :: reconciliation_scope
  br_status :: reconciliation_status
  br_expected_position_count :: nat
  br_broker_position_count :: nat
  br_expected_order_count :: nat
  br_broker_order_count :: nat
  br_conflict_count :: nat
  br_conflicts :: "conflict list"
  br_message :: msg

section \<open>Positions\<close>

type_synonym position_key = "string \<times> string"

definition expected_by_key :: "position_expectation list \<Rightarrow> (position_key, position_expectation) dict" where
  "expected_by_key xs = dict_of (\<lambda>x. (norm_text (pe_provider x), norm_text (pe_symbol x))) (\<lambda>x. x)
     (filter (\<lambda>x. pe_expected_quantity x \<noteq> 0) xs)"

definition broker_by_key :: "position_snapshot list \<Rightarrow> (position_key, position_snapshot) dict" where
  "broker_by_key xs = dict_of (\<lambda>x. (norm_text (ps_provider x), norm_text (ps_symbol x))) (\<lambda>x. x)
     (filter (\<lambda>x. ps_quantity x \<noteq> 0) xs)"

definition position_conflict :: "string \<Rightarrow> string \<Rightarrow> string \<Rightarrow> msg \<Rightarrow> conflict" where
  "position_conflict code provider symbol m = \<lparr>cf_code = code, cf_provider = provider,
     cf_symbol = Some symbol, cf_client_order_id = None, cf_message = m\<rparr>"

definition price_frag :: "price option \<Rightarrow> frag" where
  "price_frag p = (case p of None \<Rightarrow> Txt ''None'' | Some x \<Rightarrow> PyFloat x)"

definition prices_differ :: "price \<Rightarrow> price option \<Rightarrow> price option \<Rightarrow> bool" where
  "prices_differ tol a b = (case (a, b) of (Some x, Some y) \<Rightarrow> \<bar>x - y\<bar> > tol | _ \<Rightarrow> False)"

definition expected_position_conflicts ::
  "price \<Rightarrow> position_expectation \<Rightarrow> position_snapshot option \<Rightarrow> conflict list" where
  "expected_position_conflicts tol e b = (case b of
     None \<Rightarrow> [position_conflict ''BROKER_POSITION_MISSING'' (pe_provider e) (pe_symbol e)
       [Txt ''TFIS expects an open position, but broker truth has no matching non-zero position.'']]
   | Some p \<Rightarrow>
       issue_if (ps_quantity p \<noteq> pe_expected_quantity e)
         (position_conflict ''BROKER_POSITION_QUANTITY_MISMATCH'' (pe_provider e) (pe_symbol e)
           [Txt ''TFIS position quantity does not match broker truth: expected='', PyInt (pe_expected_quantity e),
            Txt '' actual='', PyInt (ps_quantity p), Txt ''.'']) @
       issue_if (prices_differ tol (pe_expected_average_price e) (ps_average_price p))
         (position_conflict ''BROKER_POSITION_AVERAGE_PRICE_MISMATCH'' (pe_provider e) (pe_symbol e)
           [Txt ''TFIS position average price does not match broker truth: expected='',
            price_frag (pe_expected_average_price e), Txt '' actual='', price_frag (ps_average_price p), Txt ''.'']))"

definition reconcile_positions ::
  "price \<Rightarrow> position_expectation list \<Rightarrow> position_snapshot list \<Rightarrow> conflict list" where
  "reconcile_positions tol es bs =
     (let ed = expected_by_key es; bd = broker_by_key bs in
      concat (map (\<lambda>(key, e). expected_position_conflicts tol e (map_of bd key)) ed) @
      concat (map (\<lambda>(key, b). if map_of ed key \<noteq> None then []
        else [position_conflict ''BROKER_POSITION_UNEXPECTED'' (ps_provider b) (ps_symbol b)
          [Txt ''Broker truth has a non-zero position that TFIS does not expect.'']]) bd))"

section \<open>Orders\<close>

definition by_client_id :: "order_book_snapshot list \<Rightarrow> (string, order_book_snapshot) dict" where
  "by_client_id xs = dict_of (\<lambda>x. the (ob_client_order_id x)) (\<lambda>x. x) (filter (\<lambda>x. ob_client_order_id x \<noteq> None) xs)"

definition by_order_id :: "order_book_snapshot list \<Rightarrow> (string, order_book_snapshot) dict" where
  "by_order_id xs = dict_of (\<lambda>x. the (ob_broker_order_id x)) (\<lambda>x. x) (filter (\<lambda>x. ob_broker_order_id x \<noteq> None) xs)"

definition order_conflict :: "string \<Rightarrow> broker_order_state \<Rightarrow> msg \<Rightarrow> conflict" where
  "order_conflict code s m = \<lparr>cf_code = code, cf_provider = bo_provider s, cf_symbol = Some (bo_symbol s),
     cf_client_order_id = Some (bo_client_order_id s), cf_message = m\<rparr>"

definition matching_order ::
  "(string, order_book_snapshot) dict \<Rightarrow> (string, order_book_snapshot) dict \<Rightarrow> broker_order_state \<Rightarrow>
   order_book_snapshot option" where
  "matching_order cd od s = (case map_of cd (bo_client_order_id s) of
     Some b \<Rightarrow> Some b
   | None \<Rightarrow> (case bo_broker_order_id s of None \<Rightarrow> None | Some i \<Rightarrow> map_of od i))"

definition statuses_differ :: "string option \<Rightarrow> string option \<Rightarrow> bool" where
  "statuses_differ a b = (case (a, b) of
     (Some x, Some y) \<Rightarrow> x \<noteq> [] \<and> y \<noteq> [] \<and> norm_text x \<noteq> norm_text y | _ \<Rightarrow> False)"

definition expected_order_conflicts :: "broker_order_state \<Rightarrow> order_book_snapshot option \<Rightarrow> conflict list" where
  "expected_order_conflicts s b = (case b of
     None \<Rightarrow> issue_if (bo_status s \<noteq> ST_INTENT_CREATED \<and> bo_status s \<noteq> ST_EXPIRED)
       (order_conflict ''BROKER_ORDER_MISSING'' s
         [Txt ''TFIS has broker order state, but broker order-book truth has no matching order.''])
   | Some o' \<Rightarrow>
       issue_if (statuses_differ (bo_exchange_status s) (ob_exchange_status o'))
         (order_conflict ''BROKER_ORDER_EXCHANGE_STATUS_MISMATCH'' s
           [Txt ''TFIS broker order exchange status does not match broker truth: expected='',
            Txt (the (bo_exchange_status s)), Txt '' actual='', Txt (the (ob_exchange_status o')), Txt ''.'']) @
       issue_if (ob_filled_quantity o' \<noteq> None \<and> ob_filled_quantity o' \<noteq> Some (bo_filled_quantity s))
         (order_conflict ''BROKER_ORDER_FILLED_QUANTITY_MISMATCH'' s
           [Txt ''TFIS broker order filled quantity does not match broker truth: expected='',
            PyInt (bo_filled_quantity s), Txt '' actual='', PyInt (the (ob_filled_quantity o')), Txt ''.'']))"

definition reconcile_orders :: "broker_order_state list \<Rightarrow> order_book_snapshot list \<Rightarrow> conflict list" where
  "reconcile_orders es bs = (let cd = by_client_id bs; od = by_order_id bs in
     concat (map (\<lambda>s. expected_order_conflicts s (matching_order cd od s)) es))"

section \<open>The reconciliation\<close>

record reconciliation_args =
  ra_scope :: reconciliation_scope
  ra_expected_positions :: "position_expectation list"
  ra_broker_positions :: "position_snapshot list"
  ra_expected_orders :: "broker_order_state list"
  ra_broker_orders :: "order_book_snapshot list"
  ra_price_tolerance :: price

definition reconcile_broker_truth :: "reconciliation_args \<Rightarrow> reconciliation_result" where
  "reconcile_broker_truth a =
     (let conflicts = reconcile_positions (ra_price_tolerance a) (ra_expected_positions a) (ra_broker_positions a) @
            reconcile_orders (ra_expected_orders a) (ra_broker_orders a)
      in \<lparr>br_scope = ra_scope a,
          br_status = (if conflicts \<noteq> [] then REC_FAIL else REC_PASS),
          br_expected_position_count = length (ra_expected_positions a),
          br_broker_position_count = length (ra_broker_positions a),
          br_expected_order_count = length (ra_expected_orders a),
          br_broker_order_count = length (ra_broker_orders a),
          br_conflict_count = length conflicts, br_conflicts = conflicts,
          br_message = (if conflicts \<noteq> []
            then [PyInt (int (length conflicts)), Txt '' broker truth conflict(s) detected for '', Txt (scope_value (ra_scope a))]
            else [Txt ''TFIS expectations agree with broker truth for '', Txt (scope_value (ra_scope a))])\<rparr>)"

section \<open>What agreement means\<close>

text \<open>The books of both sides as functions of the key; a later row of a key replaces an earlier one.\<close>

definition positions_agree :: "price \<Rightarrow> position_expectation option \<Rightarrow> position_snapshot option \<Rightarrow> bool" where
  "positions_agree tol e b = (case (e, b) of
     (None, None) \<Rightarrow> True
   | (Some x, Some y) \<Rightarrow> ps_quantity y = pe_expected_quantity x \<and>
       \<not> prices_differ tol (pe_expected_average_price x) (ps_average_price y)
   | _ \<Rightarrow> False)"

definition order_agrees :: "order_book_snapshot list \<Rightarrow> broker_order_state \<Rightarrow> bool" where
  "order_agrees bs s = (case matching_order (by_client_id bs) (by_order_id bs) s of
     None \<Rightarrow> bo_status s \<in> {ST_INTENT_CREATED, ST_EXPIRED}
   | Some b \<Rightarrow> \<not> statuses_differ (bo_exchange_status s) (ob_exchange_status b) \<and>
       (case ob_filled_quantity b of None \<Rightarrow> True | Some q \<Rightarrow> q = bo_filled_quantity s))"

lemma expected_position_conflicts_Nil:
  "expected_position_conflicts tol e b = [] \<longleftrightarrow> positions_agree tol (Some e) b"
  by (auto simp: expected_position_conflicts_def positions_agree_def split: option.splits)

lemma expected_order_conflicts_Nil:
  "expected_order_conflicts s (matching_order (by_client_id bs) (by_order_id bs) s) = [] \<longleftrightarrow> order_agrees bs s"
  by (auto simp: expected_order_conflicts_def order_agrees_def split: option.splits)

lemma reconcile_positions_Nil:
  "reconcile_positions tol es bs = [] \<longleftrightarrow>
   (\<forall>key. positions_agree tol (map_of (expected_by_key es) key) (map_of (broker_by_key bs) key))"
proof -
  let ?ed = "expected_by_key es" and ?bd = "broker_by_key bs"
  have "reconcile_positions tol es bs = [] \<longleftrightarrow>
      (\<forall>key x. map_of ?ed key = Some x \<longrightarrow> positions_agree tol (Some x) (map_of ?bd key)) \<and>
      (\<forall>key. map_of ?ed key = None \<longrightarrow> map_of ?bd key = None)"
    unfolding reconcile_positions_def Let_def append_is_Nil_conv expected_by_key_def broker_by_key_def concat_map_dict_Nil
      expected_position_conflicts_Nil by simp
  also have "\<dots> \<longleftrightarrow> (\<forall>key. positions_agree tol (map_of ?ed key) (map_of ?bd key))"
  proof -
    have "positions_agree tol (map_of ?ed key) (map_of ?bd key) \<longleftrightarrow>
        (\<forall>x. map_of ?ed key = Some x \<longrightarrow> positions_agree tol (Some x) (map_of ?bd key)) \<and>
        (map_of ?ed key = None \<longrightarrow> map_of ?bd key = None)" for key
      by (cases "map_of ?ed key"; cases "map_of ?bd key") (auto simp: positions_agree_def)
    then show ?thesis by (simp only: all_conj_distrib)
  qed
  finally show ?thesis .
qed

lemma reconcile_orders_Nil: "reconcile_orders es bs = [] \<longleftrightarrow> list_all (order_agrees bs) es"
  by (auto simp: reconcile_orders_def Let_def expected_order_conflicts_Nil list_all_iff)

section \<open>Properties\<close>

text \<open>
  C8: reconciliation passes exactly when, for every provider and symbol (up to case and white
  space), both sides have no open position or both have the same quantity with average prices
  within the tolerance where both are known, and every expected order is found at the broker
  with the same exchange status and filled quantity where known, or was never sent or has
  expired.
\<close>
theorem reconcile_passes_iff:
  "br_status (reconcile_broker_truth a) = REC_PASS \<longleftrightarrow>
     (\<forall>key. positions_agree (ra_price_tolerance a)
        (map_of (expected_by_key (ra_expected_positions a)) key)
        (map_of (broker_by_key (ra_broker_positions a)) key)) \<and>
     list_all (order_agrees (ra_broker_orders a)) (ra_expected_orders a)"
proof -
  have "br_status (reconcile_broker_truth a) = REC_PASS \<longleftrightarrow>
      reconcile_positions (ra_price_tolerance a) (ra_expected_positions a) (ra_broker_positions a) = [] \<and>
      reconcile_orders (ra_expected_orders a) (ra_broker_orders a) = []"
    by (simp add: reconcile_broker_truth_def Let_def)
  then show ?thesis by (simp only: reconcile_positions_Nil reconcile_orders_Nil)
qed

text \<open>
  Of several open broker rows with the same provider and symbol only the last one is
  compared: any earlier row of that key, whatever its quantity and price, leaves the outcome
  unchanged, and broker orders that TFIS does not expect are never a conflict.
\<close>
theorem reconcile_ignores_shadowed_rows:
  assumes "ps_quantity p \<noteq> 0" and "norm_text (ps_provider q) = norm_text (ps_provider p)"
    and "norm_text (ps_symbol q) = norm_text (ps_symbol p)" and "ra_broker_positions a = pre @ p # post"
  shows "br_status (reconcile_broker_truth (a\<lparr>ra_broker_positions := q # pre @ p # post\<rparr>)) =
      br_status (reconcile_broker_truth a) \<and>
    br_conflicts (reconcile_broker_truth (a\<lparr>ra_broker_positions := [], ra_expected_positions := [],
      ra_expected_orders := []\<rparr>)) = []"
proof -
  let ?k = "\<lambda>x. (norm_text (ps_provider x), norm_text (ps_symbol x))"
  have "map_of (broker_by_key (q # pre @ p # post)) key = map_of (broker_by_key (pre @ p # post)) key" for key
  proof (cases "ps_quantity q = 0")
    case False
    have "map_of (dict_of ?k (\<lambda>x. x) (q # filter (\<lambda>x. ps_quantity x \<noteq> 0) pre @ p # filter (\<lambda>x. ps_quantity x \<noteq> 0) post)) key =
        map_of (dict_of ?k (\<lambda>x. x) (filter (\<lambda>x. ps_quantity x \<noteq> 0) pre @ p # filter (\<lambda>x. ps_quantity x \<noteq> 0) post)) key"
      by (rule map_of_dict_of_shadow) (simp add: assms(2,3))
    with False assms(1) show ?thesis by (simp add: broker_by_key_def)
  qed (simp add: broker_by_key_def)
  then have "reconcile_positions tol es (q # pre @ p # post) = [] \<longleftrightarrow>
      reconcile_positions tol es (pre @ p # post) = []" for tol es
    by (simp add: reconcile_positions_Nil)
  then show ?thesis using assms(4)
    by (simp add: reconcile_broker_truth_def Let_def reconcile_orders_def)
      (simp add: reconcile_positions_def expected_by_key_def broker_by_key_def dict_of_def)
qed

definition demo_position :: "int \<Rightarrow> position_snapshot" where
  "demo_position q = \<lparr>ps_provider = ''fyers'', ps_symbol = ''NIFTY'', ps_quantity = q,
     ps_average_price = Some 100, ps_source_id = None\<rparr>"

definition demo_expectation :: position_expectation where
  "demo_expectation = \<lparr>pe_provider = ''FYERS'', pe_strategy_code = ''S23'', pe_strategy_branch = ''BULL'',
     pe_symbol = '' nifty'', pe_expected_quantity = 75, pe_expected_average_price = Some 100, pe_source_path = None\<rparr>"

definition demo_args :: reconciliation_args where
  "demo_args = \<lparr>ra_scope = PRE_STARTUP, ra_expected_positions = [demo_expectation],
     ra_broker_positions = [demo_position 75], ra_expected_orders = [], ra_broker_orders = [],
     ra_price_tolerance = 1 / 100\<rparr>"

lemma demo_passes: "br_status (reconcile_broker_truth demo_args) = REC_PASS"
  by code_simp

theorem reconcile_ignores_shadowed_rows_witness:
  "br_status (reconcile_broker_truth (demo_args\<lparr>ra_broker_positions := [demo_position 150, demo_position 75]\<rparr>)) = REC_PASS"
proof -
  have "br_status (reconcile_broker_truth (demo_args\<lparr>ra_broker_positions := demo_position 150 # [] @ demo_position 75 # []\<rparr>)) =
      br_status (reconcile_broker_truth demo_args)"
    by (rule reconcile_ignores_shadowed_rows [THEN conjunct1]) (simp_all add: demo_position_def demo_args_def)
  then show ?thesis using demo_passes by simp
qed

end
