(* ===== verification/LiveValidators.thy ===== *)
theory LiveValidators
  imports Reconciliation Validation
begin

text \<open>
  The remaining readiness validators of \<^verbatim>\<open>src/tfis/broker\<close>: exit protection
  (\<^verbatim>\<open>live_exit_protection.py\<close>, prefix \<open>xp_\<close>/\<open>xr_\<close>), market-event ingress
  (\<^verbatim>\<open>live_market_event_ingress.py\<close>, prefix \<open>mi_\<close>/\<open>me_\<close>) and position recovery
  (\<^verbatim>\<open>live_position_recovery.py\<close>, prefix \<open>rp_\<close>/\<open>rc_\<close>/\<open>sr_\<close>). Each interprets the
  validator contract with the predicate it accepts.
\<close>

record 'subject validation_issue =
  vi_code :: string
  vi_subject :: "'subject option"
  vi_message :: msg

record 'subject validation_result =
  vr_status :: string
  vr_issue_count :: nat
  vr_issues :: "'subject validation_issue list"
  vr_message :: msg

abbreviation issue :: "string \<Rightarrow> 'subject option \<Rightarrow> msg \<Rightarrow> 'subject validation_issue" where
  "issue c x m \<equiv> \<lparr>vi_code = c, vi_subject = x, vi_message = m\<rparr>"

definition validation_of :: "string \<Rightarrow> string \<Rightarrow> 'subject validation_issue list \<Rightarrow> 'subject validation_result" where
  "validation_of failed passed issues = \<lparr>vr_status = verdict issues, vr_issue_count = length issues, vr_issues = issues,
     vr_message = (if issues \<noteq> [] then [PyInt (int (length issues)), Txt failed] else [Txt passed])\<rparr>"

lemma validation_of_simps [simp]:
  "vr_status (validation_of f p issues) = verdict issues"
  "vr_issues (validation_of f p issues) = issues"
  by (simp_all add: validation_of_def)

lemma concat_map_Nil [simp]: "concat (map f xs) = [] \<longleftrightarrow> list_all (\<lambda>x. f x = []) xs"
  by (auto simp: list_all_iff)

section \<open>Exit protection\<close>

datatype exit_rule_type = TARGET | STOPLOSS | FORCED_CLOSE | EMERGENCY_EXIT | KILL_SWITCH

datatype exit_mode = BROKER_SIDE | EVENT_DRIVEN

fun exit_rule_value :: "exit_rule_type \<Rightarrow> string" where
  "exit_rule_value TARGET = ''TARGET''"
| "exit_rule_value STOPLOSS = ''STOPLOSS''"
| "exit_rule_value FORCED_CLOSE = ''FORCED_CLOSE''"
| "exit_rule_value EMERGENCY_EXIT = ''EMERGENCY_EXIT''"
| "exit_rule_value KILL_SWITCH = ''KILL_SWITCH''"

record exit_rule =
  xr_rule_type :: exit_rule_type
  xr_mode :: exit_mode
  xr_enabled :: bool
  xr_price :: "price option"
  xr_trigger_time :: "time_of_day option"
  xr_reason_code :: "string option"

record exit_plan =
  xp_provider :: string
  xp_strategy_code :: string
  xp_strategy_branch :: string
  xp_symbol :: string
  xp_quantity :: int
  xp_created_at :: datetime
  xp_rules :: "exit_rule list"
  xp_market_event_ingress_required :: bool
  xp_operator_approval_required :: bool

definition all_exit_rule_types :: "exit_rule_type list" where
  "all_exit_rule_types = [TARGET, STOPLOSS, FORCED_CLOSE, EMERGENCY_EXIT, KILL_SWITCH]"

definition identity_issues ::
  "string \<Rightarrow> string \<Rightarrow> string \<Rightarrow> string \<Rightarrow> string \<Rightarrow> string \<Rightarrow> 'subject validation_issue list" where
  "identity_issues code suffix provider strategy branch symbol = concat (map (\<lambda>(field, v).
     issue_if (strip v = []) (issue code None [Txt field, Txt suffix]))
     [(''provider'', provider), (''strategy_code'', strategy), (''strategy_branch'', branch), (''symbol'', symbol)])"

definition identity_given :: "string \<Rightarrow> string \<Rightarrow> string \<Rightarrow> string \<Rightarrow> bool" where
  "identity_given provider strategy branch symbol \<longleftrightarrow>
     list_all (\<lambda>v. strip v \<noteq> []) [provider, strategy, branch, symbol]"

lemma identity_issues_Nil [simp]: "identity_issues c s p st b y = [] \<longleftrightarrow> identity_given p st b y"
  by (simp add: identity_issues_def identity_given_def)

definition validate_plan_identity :: "exit_plan \<Rightarrow> exit_rule_type validation_issue list" where
  "validate_plan_identity p =
     identity_issues ''LIVE_EXIT_IDENTITY_MISSING'' '' is required for live exit protection.''
       (xp_provider p) (xp_strategy_code p) (xp_strategy_branch p) (xp_symbol p) @
     issue_if (xp_quantity p = 0)
       (issue ''LIVE_EXIT_QUANTITY_MISSING'' None [Txt ''quantity must be non-zero for live exit protection.''])"

definition rules_by_type :: "exit_plan \<Rightarrow> (exit_rule_type, exit_rule) dict" where
  "rules_by_type p = dict_of xr_rule_type (\<lambda>r. r) (filter xr_enabled (xp_rules p))"

definition price_invalid :: "exit_rule \<Rightarrow> bool" where
  "price_invalid r = (case xr_price r of None \<Rightarrow> True | Some x \<Rightarrow> x \<le> 0)"

definition exit_issues :: "exit_plan \<Rightarrow> exit_rule_type validation_issue list" where
  "exit_issues p = (let rules = rules_by_type p in
     validate_plan_identity p @
     concat (map (\<lambda>t. issue_if (map_of rules t = None)
       (issue ''LIVE_EXIT_RULE_MISSING'' (Some t)
         [Txt ''Live exit protection rule is missing: '', Txt (exit_rule_value t), Txt ''.''])) all_exit_rule_types) @
     issue_if (case map_of rules TARGET of None \<Rightarrow> False | Some r \<Rightarrow> price_invalid r)
       (issue ''LIVE_EXIT_TARGET_PRICE_INVALID'' (Some TARGET)
         [Txt ''Live target protection requires a positive target price.'']) @
     issue_if (case map_of rules STOPLOSS of None \<Rightarrow> False | Some r \<Rightarrow> price_invalid r)
       (issue ''LIVE_EXIT_STOPLOSS_PRICE_INVALID'' (Some STOPLOSS)
         [Txt ''Live stoploss protection requires a positive stoploss price.'']) @
     issue_if (case map_of rules FORCED_CLOSE of None \<Rightarrow> False | Some r \<Rightarrow> xr_trigger_time r = None)
       (issue ''LIVE_EXIT_FORCED_CLOSE_TIME_MISSING'' (Some FORCED_CLOSE)
         [Txt ''Live forced-close protection requires a trigger time.'']) @
     issue_if (\<not> xp_market_event_ingress_required p)
       (issue ''LIVE_EXIT_MARKET_EVENT_INGRESS_NOT_REQUIRED'' None
         [Txt ''Live exit protection must require market-event ingress.'']) @
     issue_if (\<not> xp_operator_approval_required p)
       (issue ''LIVE_EXIT_OPERATOR_APPROVAL_NOT_REQUIRED'' None
         [Txt ''Live exit protection must require operator approval.'']))"

definition validate_live_exit_protection_plan :: "exit_plan \<Rightarrow> exit_rule_type validation_result" where
  "validate_live_exit_protection_plan p = validation_of '' live exit protection issue(s) detected.''
     ''Live exit protection plan includes target, stoploss, forced close, emergency exit, and kill switch rules.''
     (exit_issues p)"

text \<open>The rule of a type that is in force: the last enabled one.\<close>

definition rule_in_force :: "exit_plan \<Rightarrow> exit_rule_type \<Rightarrow> exit_rule option" where
  "rule_in_force p t = find (\<lambda>r. xr_enabled r \<and> xr_rule_type r = t) (rev (xp_rules p))"

definition exit_plan_ok :: "exit_plan \<Rightarrow> bool" where
  "exit_plan_ok p \<longleftrightarrow>
     identity_given (xp_provider p) (xp_strategy_code p) (xp_strategy_branch p) (xp_symbol p) \<and> xp_quantity p \<noteq> 0 \<and>
     (\<exists>r x. rule_in_force p TARGET = Some r \<and> xr_price r = Some x \<and> 0 < x) \<and>
     (\<exists>r x. rule_in_force p STOPLOSS = Some r \<and> xr_price r = Some x \<and> 0 < x) \<and>
     (\<exists>r t. rule_in_force p FORCED_CLOSE = Some r \<and> xr_trigger_time r = Some t) \<and>
     rule_in_force p EMERGENCY_EXIT \<noteq> None \<and> rule_in_force p KILL_SWITCH \<noteq> None \<and>
     xp_market_event_ingress_required p \<and> xp_operator_approval_required p"

lemma find_filter: "find P (filter Q xs) = find (\<lambda>x. Q x \<and> P x) xs"
  by (induction xs) auto

lemma rules_by_type_in_force: "map_of (rules_by_type p) t = rule_in_force p t"
  by (simp add: rules_by_type_def rule_in_force_def map_of_dict_of rev_filter find_filter option.map_ident)

lemma exit_issues_Nil: "exit_issues p = [] \<longleftrightarrow> exit_plan_ok p"
  by (auto simp: exit_issues_def Let_def rules_by_type_in_force exit_plan_ok_def validate_plan_identity_def
      all_exit_rule_types_def price_invalid_def not_le split: option.splits)

interpretation exits: validator exit_issues validate_live_exit_protection_plan vr_status vr_issues exit_plan_ok
  by unfold_locales (simp_all add: validate_live_exit_protection_plan_def exit_issues_Nil)

section \<open>Market-event ingress\<close>

datatype ingress_mode = POLLING | WEBSOCKET | BROKER_EVENT

datatype market_event_type = QUOTE | TRADE | ORDER_UPDATE | POSITION_UPDATE | HEARTBEAT

record market_event =
  me_provider :: string
  me_symbol :: string
  me_event_type :: market_event_type
  me_effective_timestamp :: datetime
  me_received_at :: datetime
  me_source_id :: string
  me_sequence_id :: int

record ingress_snapshot =
  mi_provider :: string
  mi_mode :: ingress_mode
  mi_connected :: bool
  mi_subscribed_symbols :: "string list"
  mi_heartbeat_at :: "datetime option"
  mi_events :: "market_event list"
  mi_reconnect_attempts :: int

definition total_seconds :: "int \<Rightarrow> rat" where "total_seconds us = of_int us / 1000000"

fun validate_event_order ::
  "(string, int \<times> datetime) dict \<Rightarrow> (string \<times> int) list \<Rightarrow> market_event list \<Rightarrow> string validation_issue list" where
  "validate_event_order latest seen [] = []"
| "validate_event_order latest seen (e # es) =
     (let symb = norm_text (me_symbol e); key = (symb, me_sequence_id e) in
      issue_if (key \<in> set seen)
        (issue ''LIVE_MARKET_INGRESS_DUPLICATE_SEQUENCE'' (Some (me_symbol e))
          [Txt ''Duplicate live event sequence for '', Txt (me_symbol e), Txt '': '', PyInt (me_sequence_id e), Txt ''.'']) @
      issue_if (case map_of latest symb of None \<Rightarrow> False
          | Some (s, t) \<Rightarrow> me_sequence_id e < s \<or> me_effective_timestamp e < t)
        (issue ''LIVE_MARKET_INGRESS_NON_MONOTONIC_EVENT'' (Some (me_symbol e))
          [Txt ''Live event sequence is not monotonic for '', Txt (me_symbol e), Txt ''.'']) @
      validate_event_order (AList.update symb (me_sequence_id e, me_effective_timestamp e) latest) (key # seen) es)"

definition ingress_issues ::
  "ingress_snapshot \<Rightarrow> string list \<Rightarrow> datetime \<Rightarrow> rat \<Rightarrow> string validation_issue list" where
  "ingress_issues s required now max_age =
     (let subscribed = map norm_text (mi_subscribed_symbols s);
          event_symbols = map (\<lambda>e. norm_text (me_symbol e)) (mi_events s)
      in issue_if (mi_mode s = POLLING)
           (issue ''LIVE_MARKET_INGRESS_POLLING_MODE'' None
             [Txt ''Live execution requires websocket or broker-event ingress; polling mode is not sufficient.'']) @
         issue_if (\<not> mi_connected s)
           (issue ''LIVE_MARKET_INGRESS_DISCONNECTED'' None [Txt ''Live market-event ingress is not connected.'']) @
         (case mi_heartbeat_at s of
            None \<Rightarrow> [issue ''LIVE_MARKET_INGRESS_HEARTBEAT_MISSING'' None
              [Txt ''Live market-event ingress heartbeat is missing.'']]
          | Some t \<Rightarrow> issue_if (total_seconds (now - t) > max_age)
              (issue ''LIVE_MARKET_INGRESS_HEARTBEAT_STALE'' None
                [Txt ''Live market-event ingress heartbeat is stale.''])) @
         concat (map (\<lambda>symbol.
           issue_if (norm_text symbol \<notin> set subscribed)
             (issue ''LIVE_MARKET_INGRESS_SYMBOL_NOT_SUBSCRIBED'' (Some symbol)
               [Txt ''Required live symbol is not subscribed: '', Txt symbol, Txt ''.'']) @
           issue_if (norm_text symbol \<notin> set event_symbols)
             (issue ''LIVE_MARKET_INGRESS_SYMBOL_EVENT_MISSING'' (Some symbol)
               [Txt ''Required live symbol has no broker-event evidence: '', Txt symbol, Txt ''.''])) required) @
         validate_event_order [] [] (mi_events s))"

definition validate_live_market_event_ingress ::
  "ingress_snapshot \<Rightarrow> string list \<Rightarrow> datetime \<Rightarrow> rat \<Rightarrow> string validation_result" where
  "validate_live_market_event_ingress s required now max_age =
     validation_of '' live market-event ingress issue(s) detected.''
       ''Live market-event ingress evidence is connected, fresh, subscribed, and monotonic.''
       (ingress_issues s required now max_age)"

text \<open>
  What the loop over the events decides: within every symbol the sequence numbers strictly
  increase and the timestamps do not decrease.
\<close>

definition follows_event :: "market_event \<Rightarrow> market_event \<Rightarrow> bool" where
  "follows_event a b \<longleftrightarrow> norm_text (me_symbol a) = norm_text (me_symbol b) \<longrightarrow>
     me_sequence_id a < me_sequence_id b \<and> me_effective_timestamp a \<le> me_effective_timestamp b"

definition events_ordered :: "market_event list \<Rightarrow> bool" where
  "events_ordered es = sorted_wrt follows_event es"

text \<open>The state of the loop after the events \<open>done\<close>: its two dictionaries.\<close>

definition loop_state :: "market_event list \<Rightarrow> (string, int \<times> datetime) dict \<Rightarrow> (string \<times> int) list \<Rightarrow> bool" where
  "loop_state done latest seen \<longleftrightarrow>
     set seen = (\<lambda>e. (norm_text (me_symbol e), me_sequence_id e)) ` set done \<and>
     (\<forall>symb. map_of latest symb = map_option (\<lambda>e. (me_sequence_id e, me_effective_timestamp e))
        (find (\<lambda>e. norm_text (me_symbol e) = symb) (rev done)))"

lemma loop_state_step:
  assumes "loop_state done latest seen"
  shows "loop_state (done @ [e])
    (AList.update (norm_text (me_symbol e)) (me_sequence_id e, me_effective_timestamp e) latest)
    ((norm_text (me_symbol e), me_sequence_id e) # seen)"
  using assms by (auto simp: loop_state_def update_conv')

lemma last_of_symbol_bounds:
  assumes "events_ordered done" and "find (\<lambda>e. norm_text (me_symbol e) = symb) (rev done) = Some l"
    and "x \<in> set done" and "norm_text (me_symbol x) = symb"
  shows "me_sequence_id x \<le> me_sequence_id l \<and> me_effective_timestamp x \<le> me_effective_timestamp l"
  using assms
proof (induction "done" rule: rev_induct)
  case (snoc y ys)
  then show ?case
    by (cases "norm_text (me_symbol y) = symb")
      (auto simp: events_ordered_def sorted_wrt_append follows_event_def intro: less_imp_le)
qed simp

lemma next_event_ok:
  assumes inv: "loop_state done latest seen" and ord: "events_ordered done"
  shows "(norm_text (me_symbol e), me_sequence_id e) \<notin> set seen \<and>
      \<not> (case map_of latest (norm_text (me_symbol e)) of None \<Rightarrow> False
          | Some (s, t) \<Rightarrow> me_sequence_id e < s \<or> me_effective_timestamp e < t) \<longleftrightarrow> events_ordered (done @ [e])"
proof (cases "find (\<lambda>x. norm_text (me_symbol x) = norm_text (me_symbol e)) (rev done)")
  case None
  then have "\<forall>x \<in> set done. norm_text (me_symbol x) \<noteq> norm_text (me_symbol e)"
    by (auto simp: find_None_iff)
  with None inv ord show ?thesis
    by (auto simp: loop_state_def events_ordered_def sorted_wrt_append follows_event_def)
next
  case (Some l)
  then have l: "norm_text (me_symbol l) = norm_text (me_symbol e)" "l \<in> set done" by (auto dest: find_SomeD)
  from inv Some have latest: "map_of latest (norm_text (me_symbol e)) = Some (me_sequence_id l, me_effective_timestamp l)"
    by (simp add: loop_state_def)
  have seen: "(norm_text (me_symbol e), me_sequence_id e) \<notin> set seen \<longleftrightarrow>
      (\<forall>x \<in> set done. norm_text (me_symbol x) = norm_text (me_symbol e) \<longrightarrow> me_sequence_id x \<noteq> me_sequence_id e)"
  proof -
    have s: "set seen = (\<lambda>x. (norm_text (me_symbol x), me_sequence_id x)) ` set done"
      using inv by (simp add: loop_state_def)
    show ?thesis unfolding s image_iff by auto
  qed
  have bounds: "me_sequence_id x \<le> me_sequence_id l \<and> me_effective_timestamp x \<le> me_effective_timestamp l"
    if "x \<in> set done" "norm_text (me_symbol x) = norm_text (me_symbol e)" for x
    by (rule last_of_symbol_bounds [OF ord Some that])
  have "events_ordered (done @ [e]) \<longleftrightarrow> (\<forall>x \<in> set done. follows_event x e)"
    using ord by (simp add: events_ordered_def sorted_wrt_append)
  also have "\<dots> \<longleftrightarrow> me_sequence_id l < me_sequence_id e \<and> me_effective_timestamp l \<le> me_effective_timestamp e"
    using l bounds by (fastforce simp: follows_event_def)
  finally show ?thesis unfolding latest seen using l bounds by fastforce
qed

lemma validate_event_order_Nil:
  "loop_state done latest seen \<Longrightarrow> events_ordered done \<Longrightarrow>
   validate_event_order latest seen es = [] \<longleftrightarrow> events_ordered (done @ es)"
proof (induction es arbitrary: "done" latest seen)
  case (Cons e es)
  note next_ok = next_event_ok [OF Cons.prems, of e]
  show ?case
  proof (cases "events_ordered (done @ [e])")
    case True
    with next_ok Cons.IH [OF loop_state_step [OF Cons.prems(1)] True] show ?thesis by (simp add: Let_def)
  next
    case False
    then have "\<not> events_ordered (done @ e # es)" by (auto simp: events_ordered_def sorted_wrt_append)
    with False next_ok show ?thesis by (auto simp: Let_def)
  qed
qed simp

definition ingress_ok :: "ingress_snapshot \<times> string list \<times> datetime \<times> rat \<Rightarrow> bool" where
  "ingress_ok = (\<lambda>(s, required, now, max_age). mi_mode s \<noteq> POLLING \<and> mi_connected s \<and>
     (\<exists>t. mi_heartbeat_at s = Some t \<and> total_seconds (now - t) \<le> max_age) \<and>
     norm_text ` set required \<subseteq> norm_text ` set (mi_subscribed_symbols s) \<inter> (\<lambda>e. norm_text (me_symbol e)) ` set (mi_events s) \<and>
     events_ordered (mi_events s))"

lemma ingress_issues_Nil: "ingress_issues s required now max_age = [] \<longleftrightarrow> ingress_ok (s, required, now, max_age)"
proof -
  have "validate_event_order [] [] (mi_events s) = [] \<longleftrightarrow> events_ordered (mi_events s)"
    using validate_event_order_Nil [of "[]" "[]" "[]" "mi_events s"]
    by (simp add: loop_state_def events_ordered_def)
  then show ?thesis
    by (cases "mi_heartbeat_at s") (auto simp: ingress_issues_def Let_def ingress_ok_def not_less list_all_iff)
qed

interpretation ingress: validator "\<lambda>(s, required, now, max_age). ingress_issues s required now max_age"
  "\<lambda>(s, required, now, max_age). validate_live_market_event_ingress s required now max_age"
  vr_status vr_issues ingress_ok
  by unfold_locales (auto simp: validate_live_market_event_ingress_def ingress_issues_Nil)

section \<open>Position recovery\<close>

datatype recovery_scenario = OVERNIGHT | EXPIRY | FORCED_CLOSE_CASE | ROLLOVER_REQUIRED | NEXT_DAY_RESUME

datatype recovery_action = RESUME | FORCE_CLOSE | ROLLOVER | BLOCK_STARTUP | NO_ACTION

fun recovery_scenario_value :: "recovery_scenario \<Rightarrow> string" where
  "recovery_scenario_value OVERNIGHT = ''OVERNIGHT''"
| "recovery_scenario_value EXPIRY = ''EXPIRY''"
| "recovery_scenario_value FORCED_CLOSE_CASE = ''FORCED_CLOSE''"
| "recovery_scenario_value ROLLOVER_REQUIRED = ''ROLLOVER_REQUIRED''"
| "recovery_scenario_value NEXT_DAY_RESUME = ''NEXT_DAY_RESUME''"

definition all_recovery_scenarios :: "recovery_scenario list" where
  "all_recovery_scenarios = [OVERNIGHT, EXPIRY, FORCED_CLOSE_CASE, ROLLOVER_REQUIRED, NEXT_DAY_RESUME]"

record recovery_case =
  rc_scenario :: recovery_scenario
  rc_action :: recovery_action
  rc_broker_truth_required :: bool
  rc_broker_reconciliation_required :: bool
  rc_operator_review_required :: bool
  rc_session_date :: date
  rc_evidence_source_id :: string
  rc_reason_code :: string

record recovery_plan =
  rp_provider :: string
  rp_strategy_code :: string
  rp_strategy_branch :: string
  rp_symbol :: string
  rp_created_at :: datetime
  rp_cases :: "recovery_case list"

definition validate_case :: "recovery_case \<Rightarrow> recovery_scenario validation_issue list" where
  "validate_case c = (let sc = rc_scenario c; v = recovery_scenario_value sc in
     issue_if (\<not> rc_broker_truth_required c) (issue ''LIVE_RECOVERY_BROKER_TRUTH_NOT_REQUIRED'' (Some sc)
       [Txt ''Live recovery scenario must require broker truth: '', Txt v, Txt ''.'']) @
     issue_if (\<not> rc_broker_reconciliation_required c) (issue ''LIVE_RECOVERY_RECONCILIATION_NOT_REQUIRED'' (Some sc)
       [Txt ''Live recovery scenario must require broker reconciliation: '', Txt v, Txt ''.'']) @
     issue_if (strip (rc_evidence_source_id c) = []) (issue ''LIVE_RECOVERY_EVIDENCE_SOURCE_MISSING'' (Some sc)
       [Txt ''Live recovery evidence source is missing: '', Txt v, Txt ''.'']) @
     issue_if (strip (rc_reason_code c) = []) (issue ''LIVE_RECOVERY_REASON_CODE_MISSING'' (Some sc)
       [Txt ''Live recovery reason code is missing: '', Txt v, Txt ''.'']) @
     issue_if (sc \<in> {EXPIRY, FORCED_CLOSE_CASE, ROLLOVER_REQUIRED} \<and> \<not> rc_operator_review_required c)
       (issue ''LIVE_RECOVERY_OPERATOR_REVIEW_NOT_REQUIRED'' (Some sc)
         [Txt ''Live recovery scenario must require operator review: '', Txt v, Txt ''.'']))"

definition cases_by_scenario :: "recovery_plan \<Rightarrow> (recovery_scenario, recovery_case) dict" where
  "cases_by_scenario p = dict_of rc_scenario (\<lambda>c. c) (rp_cases p)"

definition recovery_issues :: "recovery_plan \<Rightarrow> recovery_scenario validation_issue list" where
  "recovery_issues p = (let cases = cases_by_scenario p in
     identity_issues ''LIVE_RECOVERY_IDENTITY_MISSING'' '' is required for live position recovery.''
       (rp_provider p) (rp_strategy_code p) (rp_strategy_branch p) (rp_symbol p) @
     concat (map (\<lambda>sc. case map_of cases sc of
         None \<Rightarrow> [issue ''LIVE_RECOVERY_SCENARIO_MISSING'' (Some sc)
           [Txt ''Live recovery scenario is missing: '', Txt (recovery_scenario_value sc), Txt ''.'']]
       | Some c \<Rightarrow> validate_case c) all_recovery_scenarios))"

definition validate_live_position_recovery_plan :: "recovery_plan \<Rightarrow> recovery_scenario validation_result" where
  "validate_live_position_recovery_plan p = validation_of '' live position recovery issue(s) detected.''
     ''Live position recovery plan covers overnight, expiry, forced-close, rollover-required, and next-day resume scenarios from broker truth.''
     (recovery_issues p)"

definition case_ok :: "recovery_case \<Rightarrow> bool" where
  "case_ok c \<longleftrightarrow> rc_broker_truth_required c \<and> rc_broker_reconciliation_required c \<and>
     strip (rc_evidence_source_id c) \<noteq> [] \<and> strip (rc_reason_code c) \<noteq> [] \<and>
     (rc_scenario c \<in> {OVERNIGHT, NEXT_DAY_RESUME} \<or> rc_operator_review_required c)"

definition recovery_plan_ok :: "recovery_plan \<Rightarrow> bool" where
  "recovery_plan_ok p \<longleftrightarrow> identity_given (rp_provider p) (rp_strategy_code p) (rp_strategy_branch p) (rp_symbol p) \<and>
     (\<forall>sc. \<exists>c. find (\<lambda>c. rc_scenario c = sc) (rev (rp_cases p)) = Some c \<and> case_ok c)"

lemma validate_case_Nil [simp]: "validate_case c = [] \<longleftrightarrow> case_ok c"
  by (cases "rc_scenario c") (auto simp: validate_case_def Let_def case_ok_def)

lemma all_recovery_scenarios_UNIV: "set all_recovery_scenarios = UNIV"
  using recovery_scenario.exhaust by (auto simp: all_recovery_scenarios_def)

lemma recovery_issues_Nil: "recovery_issues p = [] \<longleftrightarrow> recovery_plan_ok p"
  by (auto simp: recovery_issues_def Let_def recovery_plan_ok_def cases_by_scenario_def map_of_dict_of option.map_ident
      list_all_iff all_recovery_scenarios_UNIV split: option.splits) (metis option.distinct(1) option.inject)+

interpretation recovery: validator recovery_issues validate_live_position_recovery_plan vr_status vr_issues recovery_plan_ok
  by unfold_locales (simp_all add: validate_live_position_recovery_plan_def recovery_issues_Nil)

section \<open>Startup and resume\<close>

record startup_validation =
  sr_status :: string
  sr_scope :: reconciliation_scope
  sr_expected_open_position_count :: nat
  sr_broker_position_count :: nat
  sr_expected_order_count :: nat
  sr_broker_order_count :: nat
  sr_conflict_count :: nat
  sr_reconciliation :: "reconciliation_result option"
  sr_message :: msg

definition validate_live_position_startup_resume :: "reconciliation_args \<Rightarrow> startup_validation" where
  "validate_live_position_startup_resume a =
     (let open_positions = filter (\<lambda>x. pe_expected_quantity x \<noteq> 0) (ra_expected_positions a) in
      if open_positions \<noteq> [] \<and> ra_broker_positions a = [] then
        \<lparr>sr_status = ''FAIL'', sr_scope = ra_scope a, sr_expected_open_position_count = length open_positions,
         sr_broker_position_count = 0, sr_expected_order_count = length (ra_expected_orders a),
         sr_broker_order_count = length (ra_broker_orders a), sr_conflict_count = length open_positions,
         sr_reconciliation = None,
         sr_message = [Txt ''Broker position truth is required before startup/resume when TFIS expects open or carried live positions.'']\<rparr>
      else
        (let r = reconcile_broker_truth a; status = (if br_status r = REC_PASS then ''PASS'' else ''FAIL'') in
        \<lparr>sr_status = status, sr_scope = ra_scope a, sr_expected_open_position_count = length open_positions,
         sr_broker_position_count = length (ra_broker_positions a), sr_expected_order_count = length (ra_expected_orders a),
         sr_broker_order_count = length (ra_broker_orders a), sr_conflict_count = br_conflict_count r,
         sr_reconciliation = Some r,
         sr_message = (if status = ''PASS''
           then [Txt ''Live startup/resume position expectations agree with supplied broker truth.'']
           else br_message r)\<rparr>))"

lemma missing_broker_positions_fail:
  assumes "filter (\<lambda>x. pe_expected_quantity x \<noteq> 0) es \<noteq> []"
  shows "reconcile_positions tol es [] \<noteq> []"
proof -
  from assms obtain x where x: "x \<in> set (filter (\<lambda>x. pe_expected_quantity x \<noteq> 0) es)" by (cases "filter (\<lambda>x. pe_expected_quantity x \<noteq> 0) es") auto
  let ?key = "(norm_text (pe_provider x), norm_text (pe_symbol x))"
  from x have "map_of (expected_by_key es) ?key \<noteq> None"
    unfolding expected_by_key_def by (subst map_of_dict_of_None) auto
  moreover have "map_of (broker_by_key []) ?key = None" by (simp add: broker_by_key_def dict_of_def)
  ultimately have "\<not> positions_agree tol (map_of (expected_by_key es) ?key) (map_of (broker_by_key []) ?key)"
    by (auto simp: positions_agree_def)
  then show ?thesis by (auto simp: reconcile_positions_Nil)
qed

lemma startup_passes: "sr_status (validate_live_position_startup_resume a) = ''PASS'' \<longleftrightarrow>
    br_status (reconcile_broker_truth a) = REC_PASS"
  using missing_broker_positions_fail [of "ra_expected_positions a" "ra_price_tolerance a"]
  by (auto simp: validate_live_position_startup_resume_def Let_def reconcile_broker_truth_def)

section \<open>Properties\<close>

text \<open>
  An exit-protection plan passes exactly when it names provider, strategy, branch and
  symbol, has a non-zero quantity, its rules in force (the last enabled rule of each type)
  include all five types with a positive target and stop-loss price and a forced-close time,
  and it requires market-event ingress and operator approval.
\<close>
theorem exit_protection_passes_iff:
  "vr_status (validate_live_exit_protection_plan p) = ''PASS'' \<longleftrightarrow> exit_plan_ok p"
  by (rule exits.passes_iff)

text \<open>
  Market-event ingress passes exactly when it is connected and not polling, the heartbeat
  is at most the given age, every required symbol is subscribed and has an event, and within
  every symbol (up to case and white space) sequence numbers strictly increase and effective
  times never decrease over the whole event list.
\<close>
theorem market_ingress_passes_iff:
  "vr_status (validate_live_market_event_ingress s required now max_age) = ''PASS'' \<longleftrightarrow>
     mi_mode s \<noteq> POLLING \<and> mi_connected s \<and>
     (\<exists>t. mi_heartbeat_at s = Some t \<and> total_seconds (now - t) \<le> max_age) \<and>
     norm_text ` set required \<subseteq> norm_text ` set (mi_subscribed_symbols s) \<inter>
       (\<lambda>e. norm_text (me_symbol e)) ` set (mi_events s) \<and>
     sorted_wrt follows_event (mi_events s)"
  using ingress.passes_iff [of "(s, required, now, max_age)"] by (simp add: ingress_ok_def events_ordered_def)

text \<open>
  Startup after a restart passes exactly when the positions and orders reconcile; the
  early exit for missing broker positions fails only what reconciliation fails as well.
\<close>
theorem startup_resume_passes_iff:
  "sr_status (validate_live_position_startup_resume a) = ''PASS'' \<longleftrightarrow>
     (\<forall>key. positions_agree (ra_price_tolerance a)
        (map_of (expected_by_key (ra_expected_positions a)) key)
        (map_of (broker_by_key (ra_broker_positions a)) key)) \<and>
     list_all (order_agrees (ra_broker_orders a)) (ra_expected_orders a)"
proof -
  have "br_status (reconcile_broker_truth a) = REC_PASS \<longleftrightarrow>
      reconcile_positions (ra_price_tolerance a) (ra_expected_positions a) (ra_broker_positions a) = [] \<and>
      reconcile_orders (ra_expected_orders a) (ra_broker_orders a) = []"
    by (simp add: reconcile_broker_truth_def Let_def)
  then show ?thesis by (simp only: startup_passes reconcile_positions_Nil reconcile_orders_Nil)
qed

text \<open>
  A recovery plan passes exactly when its identity is given and, for every scenario, the
  last case of that scenario requires broker truth and reconciliation, names its evidence and
  reason, and requires operator review where a position is closed or rolled over.
\<close>
theorem recovery_plan_passes_iff:
  "vr_status (validate_live_position_recovery_plan p) = ''PASS'' \<longleftrightarrow> recovery_plan_ok p"
  by (rule recovery.passes_iff)

end
