(* ===== verification/LiveGate.thy ===== *)
theory LiveGate
  imports Idempotency LiveControls LiveValidators
begin

text \<open>
  \<^verbatim>\<open>src/tfis/broker/live_execution_gate.py\<close>: the last check before a live order may be
  routed. It reads the outcomes of the other validators, of the reconciliation and of the
  idempotency reservation; it decides nothing on its own beyond their conjunction. Fields of
  \<^verbatim>\<open>LiveExecutionGateDecision\<close> carry the prefix \<open>gd_\<close>, the arguments \<open>ga_\<close>.
\<close>

record gate_issue =
  gi_code :: string
  gi_message :: msg

record gate_decision =
  gd_status :: string
  gd_live_order_allowed :: bool
  gd_issue_count :: nat
  gd_issues :: "gate_issue list"
  gd_message :: msg

record gate_args =
  ga_order_routing_enabled :: bool
  ga_intent_ready :: bool
  ga_reservation :: "reservation_result option"
  ga_operator_controls :: control_validation
  ga_exit_protection :: "exit_rule_type validation_result"
  ga_market_event_ingress :: "string validation_result"
  ga_startup_resume :: startup_validation
  ga_broker_reconciliation :: reconciliation_result

abbreviation gate_issue :: "string \<Rightarrow> msg \<Rightarrow> gate_issue" where
  "gate_issue c m \<equiv> \<lparr>gi_code = c, gi_message = m\<rparr>"

definition require_pass :: "string \<Rightarrow> string \<Rightarrow> msg \<Rightarrow> gate_issue list" where
  "require_pass code status m = issue_if (status \<noteq> ''PASS'') (gate_issue code m)"

definition reservation_issues :: "reservation_result option \<Rightarrow> gate_issue list" where
  "reservation_issues r = (case r of
     None \<Rightarrow> [gate_issue ''LIVE_IDEMPOTENCY_RESERVATION_MISSING''
       [Txt ''A broker-order idempotency reservation is required before routing.'']]
   | Some x \<Rightarrow>
       issue_if (rr_duplicate_prevented x) (gate_issue ''LIVE_IDEMPOTENCY_DUPLICATE_PREVENTED''
         [Txt ''A duplicate broker-order reservation was detected; routing must be skipped.'']) @
       issue_if (rs_status (rr_reservation x) \<noteq> RESERVED) (gate_issue ''LIVE_IDEMPOTENCY_RESERVATION_NOT_ACTIVE''
         [Txt ''The broker-order idempotency reservation is not active.'']))"

definition gate_issues :: "gate_args \<Rightarrow> gate_issue list" where
  "gate_issues a =
     issue_if (\<not> ga_order_routing_enabled a) (gate_issue ''LIVE_ORDER_ROUTING_DISABLED''
       [Txt ''Live order routing is disabled by configuration.'']) @
     issue_if (\<not> ga_intent_ready a) (gate_issue ''LIVE_BROKER_ORDER_STATE_INTENT_MISSING''
       [Txt ''A durable broker-order intent must exist before routing.'']) @
     reservation_issues (ga_reservation a) @
     require_pass ''LIVE_OPERATOR_CONTROLS_NOT_READY'' (cv_status (ga_operator_controls a)) (cv_message (ga_operator_controls a)) @
     require_pass ''LIVE_EXIT_PROTECTION_NOT_READY'' (vr_status (ga_exit_protection a)) (vr_message (ga_exit_protection a)) @
     require_pass ''LIVE_MARKET_EVENT_INGRESS_NOT_READY'' (vr_status (ga_market_event_ingress a))
       (vr_message (ga_market_event_ingress a)) @
     require_pass ''LIVE_STARTUP_RESUME_NOT_READY'' (sr_status (ga_startup_resume a)) (sr_message (ga_startup_resume a)) @
     issue_if (br_status (ga_broker_reconciliation a) \<noteq> REC_PASS)
       (gate_issue ''LIVE_BROKER_RECONCILIATION_NOT_READY'' (br_message (ga_broker_reconciliation a)))"

definition validate_live_execution_gate :: "gate_args \<Rightarrow> gate_decision" where
  "validate_live_execution_gate a =
     (let issues = gate_issues a; live_order_allowed = (issues = []) in
      \<lparr>gd_status = (if live_order_allowed then ''READY_FOR_LIVE_ORDER_ROUTING'' else ''BLOCKED_FOR_LIVE_ORDER_ROUTING''),
       gd_live_order_allowed = live_order_allowed, gd_issue_count = length issues, gd_issues = issues,
       gd_message = (if live_order_allowed
         then [Txt ''All live execution gates passed and live order routing is explicitly enabled.'']
         else [PyInt (int (length issues)), Txt '' live execution gate issue(s) block live order routing.''])\<rparr>)"

section \<open>Properties\<close>

lemma gate_allows:
  "gd_live_order_allowed (validate_live_execution_gate a) \<longleftrightarrow>
     ga_order_routing_enabled a \<and> ga_intent_ready a \<and>
     (\<exists>r. ga_reservation a = Some r \<and> \<not> rr_duplicate_prevented r \<and> rs_status (rr_reservation r) = RESERVED) \<and>
     cv_status (ga_operator_controls a) = ''PASS'' \<and> vr_status (ga_exit_protection a) = ''PASS'' \<and>
     vr_status (ga_market_event_ingress a) = ''PASS'' \<and> sr_status (ga_startup_resume a) = ''PASS'' \<and>
     br_status (ga_broker_reconciliation a) = REC_PASS"
  by (cases "ga_reservation a") (simp_all add: validate_live_execution_gate_def Let_def gate_issues_def
      require_pass_def reservation_issues_def)

text \<open>
  C1: with the outcomes of the program's own validators, a live order is allowed exactly when
  routing is enabled, the intent is stored, the reservation is a fresh active one, the
  operator approval is explicit, unexpired and audited and the kill switch off, exit
  protection is complete, market ingress is live and ordered, and the broker's books agree
  with the expectations both at startup and now.
\<close>
theorem live_order_allowed_iff:
  "gd_live_order_allowed (validate_live_execution_gate
      \<lparr>ga_order_routing_enabled = routing, ga_intent_ready = intent, ga_reservation = res,
       ga_operator_controls = validate_live_operator_controls approval switch now,
       ga_exit_protection = validate_live_exit_protection_plan plan,
       ga_market_event_ingress = validate_live_market_event_ingress snapshot required now max_age,
       ga_startup_resume = validate_live_position_startup_resume startup,
       ga_broker_reconciliation = reconcile_broker_truth current_books\<rparr>) \<longleftrightarrow>
     routing \<and> intent \<and>
     (\<exists>r. res = Some r \<and> \<not> rr_duplicate_prevented r \<and> rs_status (rr_reservation r) = RESERVED) \<and>
     controls_ok (approval, switch, now) \<and> exit_plan_ok plan \<and> ingress_ok (snapshot, required, now, max_age) \<and>
     br_conflicts (reconcile_broker_truth startup) = [] \<and> br_conflicts (reconcile_broker_truth current_books) = []"
proof -
  have "br_status (reconcile_broker_truth x) = REC_PASS \<longleftrightarrow> br_conflicts (reconcile_broker_truth x) = []" for x
    by (simp add: reconcile_broker_truth_def Let_def)
  moreover have "vr_status (validate_live_market_event_ingress snapshot required now max_age) = ''PASS'' \<longleftrightarrow>
      ingress_ok (snapshot, required, now, max_age)"
    using ingress.passes_iff [of "(snapshot, required, now, max_age)"] by simp
  ultimately show ?thesis
    by (simp add: gate_allows controls_pass exits.passes_iff startup_passes)
qed

text \<open>
  C2: no live order is routed twice for one trade attempt: once a reservation was created, a
  retry that asks the registry again, after any number of reservations and consumptions, gets
  an answer that blocks the gate whatever the other outcomes are.
\<close>
theorem retry_is_blocked:
  assumes "reserve sha k t records = Inr (res, records')" and "rr_created res"
    and "filter (\<lambda>r. rs_status r = RELEASED) records = []"
  shows "\<exists>again records''. reserve sha k t2 (registry_run sha cs records') = Inr (again, records'') \<and>
    \<not> gd_live_order_allowed (validate_live_execution_gate (a\<lparr>ga_reservation := Some again\<rparr>))"
proof -
  obtain xs where "registry_run sha cs records' = records' @ xs" using registry_run_grows by blast
  with assms show ?thesis by (auto simp: gate_allows elim: reserve_created)
qed

text \<open>A gate whose other conditions all hold: with the fresh reservation it allows the order.\<close>

definition demo_gate :: "reservation_result \<Rightarrow> gate_args" where
  "demo_gate r = \<lparr>ga_order_routing_enabled = True, ga_intent_ready = True, ga_reservation = Some r,
     ga_operator_controls = \<lparr>cv_status = ''PASS'', cv_issue_count = 0, cv_issues = [], cv_message = []\<rparr>,
     ga_exit_protection = validation_of [] [] [], ga_market_event_ingress = validation_of [] [] [],
     ga_startup_resume = validate_live_position_startup_resume demo_args,
     ga_broker_reconciliation = reconcile_broker_truth demo_args\<rparr>"

lemma demo_gate_open: "gd_live_order_allowed (validate_live_execution_gate (demo_gate r)) \<longleftrightarrow>
    \<not> rr_duplicate_prevented r \<and> rs_status (rr_reservation r) = RESERVED"
  by (simp add: gate_allows demo_gate_def startup_passes demo_passes)

theorem retry_is_blocked_witness:
  "\<exists>first again records''.
     reserve demo_sha demo_key 0 [] = Inr (first, [rr_reservation first]) \<and>
     gd_live_order_allowed (validate_live_execution_gate (demo_gate first)) \<and>
     reserve demo_sha demo_key 9 (registry_run demo_sha [MarkConsumed ''FYERS|S23|BULL|T1|ENTRY|1'' 3 ''p'']
       [rr_reservation first]) = Inr (again, records'') \<and>
     \<not> gd_live_order_allowed (validate_live_execution_gate ((demo_gate first)\<lparr>ga_reservation := Some again\<rparr>))"
proof -
  let ?r = "new_reservation demo_key ''FYERS|S23|BULL|T1|ENTRY|1'' ''TFIS-S23-ENTRY-0A1B2C3D4E5F6071'' 0"
  let ?first = "\<lparr>rr_reservation = ?r, rr_created = True, rr_duplicate_prevented = False,
    rr_message = ''Broker order client id reserved.''\<rparr>"
  have "gd_live_order_allowed (validate_live_execution_gate (demo_gate ?first))"
    unfolding demo_gate_open by simp
  moreover have "reserve demo_sha demo_key 0 [] = Inr (?first, [rr_reservation ?first])"
    using demo_reserved by simp
  moreover obtain again records'' where "reserve demo_sha demo_key 9 (registry_run demo_sha
      [MarkConsumed ''FYERS|S23|BULL|T1|ENTRY|1'' 3 ''p''] [rr_reservation ?first]) = Inr (again, records'')"
    and "\<not> gd_live_order_allowed (validate_live_execution_gate ((demo_gate ?first)\<lparr>ga_reservation := Some again\<rparr>))"
    using retry_is_blocked [OF demo_reserved, of 9 "[MarkConsumed ''FYERS|S23|BULL|T1|ENTRY|1'' 3 ''p'']" "demo_gate ?first"]
    by auto
  ultimately show ?thesis by blast
qed

end
