(* ===== verification/PaperBroker.thy ===== *)
theory PaperBroker
  imports Prelude "HOL-Library.Char_ord" "HOL-Library.List_Lexorder"
begin

text \<open>
  \<^verbatim>\<open>src/tfis/broker/paper_broker.py\<close> with \<^verbatim>\<open>models.py\<close> and the protocols of
  \<^verbatim>\<open>interfaces.py\<close>: the deterministic in-memory broker. The object is the record \<open>paper_broker\<close>
  (prefix \<open>pb_\<close>); an operation that mutates it returns the new object also when it raises.
  Fields of \<^verbatim>\<open>BrokerOrder\<close> carry the prefix \<open>po_\<close>, of \<^verbatim>\<open>BrokerPosition\<close> \<open>bp_\<close>, of
  \<^verbatim>\<open>Quote\<close> \<open>q_\<close>, of \<^verbatim>\<open>BrokerOrderResult\<close> \<open>por_\<close>.
\<close>

section \<open>Models\<close>

datatype order_side = BUY | SELL
datatype order_type = MARKET | LIMIT
datatype product_type = MIS | NRML

record broker_order =
  po_symbol :: string
  po_side :: order_side
  po_quantity :: int
  po_order_type :: order_type
  po_product_type :: product_type
  po_limit_price :: "price option"

record order_result =
  por_order_id :: string
  por_accepted :: bool
  por_status :: string
  por_symbol :: string
  por_filled_quantity :: int

record broker_position =
  bp_symbol :: string
  bp_quantity :: int
  bp_average_price :: price

record quote =
  q_symbol :: string
  q_last_price :: price
  q_bid_price :: "price option"
  q_ask_price :: "price option"
  q_expiry :: "string option"

record paper_broker =
  pb_quotes :: "(string, quote) dict"
  pb_orders :: "broker_order list"
  pb_positions :: "(string, broker_position) dict"
  pb_next_order_id :: int

section \<open>Operations\<close>

definition new_broker :: "quote list \<Rightarrow> paper_broker" where
  "new_broker quotes = \<lparr>pb_quotes = dict_of q_symbol (\<lambda>q. q) quotes, pb_orders = [], pb_positions = [],
     pb_next_order_id = 1\<rparr>"

definition set_quote :: "quote \<Rightarrow> paper_broker \<Rightarrow> paper_broker" where
  "set_quote q b = b\<lparr>pb_quotes := AList.update (q_symbol q) q (pb_quotes b)\<rparr>"

definition get_quote :: "string \<Rightarrow> paper_broker \<Rightarrow> quote res" where
  "get_quote symbol b = (case map_of (pb_quotes b) symbol of
       None \<Rightarrow> Inl (KeyError [Txt ''No quote configured for symbol: '', Txt symbol])
     | Some q \<Rightarrow> Inr q)"

definition get_option_chain :: "string \<Rightarrow> string option \<Rightarrow> paper_broker \<Rightarrow> quote list" where
  "get_option_chain underlying expiry b = sort_key q_symbol
     (filter (\<lambda>q. take (length underlying) (q_symbol q) = underlying \<and> (expiry = None \<or> q_expiry q = expiry))
       (map snd (pb_quotes b)))"

definition resolve_fill_price :: "broker_order \<Rightarrow> paper_broker \<Rightarrow> price res" where
  "resolve_fill_price ord b = (if po_order_type ord = LIMIT then Inr (the (po_limit_price ord))
     else bindE (get_quote (po_symbol ord) b) (\<lambda>q. Inr (q_last_price q)))"

definition signed_quantity :: "broker_order \<Rightarrow> int" where
  "signed_quantity ord = (if po_side ord = BUY then po_quantity ord else - po_quantity ord)"

definition apply_position :: "broker_order \<Rightarrow> price \<Rightarrow> paper_broker \<Rightarrow> paper_broker" where
  "apply_position ord fill_price b =
     (let signed = signed_quantity ord in
      case map_of (pb_positions b) (po_symbol ord) of
        None \<Rightarrow> b\<lparr>pb_positions := AList.update (po_symbol ord)
          \<lparr>bp_symbol = po_symbol ord, bp_quantity = signed, bp_average_price = fill_price\<rparr> (pb_positions b)\<rparr>
      | Some cur \<Rightarrow>
          let new_quantity = bp_quantity cur + signed in
          if new_quantity = 0 then b\<lparr>pb_positions := AList.delete (po_symbol ord) (pb_positions b)\<rparr>
          else
            let average_price =
              (if bp_quantity cur = 0 \<or> (bp_quantity cur > 0) = (signed > 0)
               then (bp_average_price cur * of_int \<bar>bp_quantity cur\<bar> + fill_price * of_int \<bar>signed\<bar>)
                      / of_int \<bar>new_quantity\<bar>
               else bp_average_price cur)
            in b\<lparr>pb_positions := AList.update (po_symbol ord)
                 (cur\<lparr>bp_quantity := new_quantity, bp_average_price := average_price\<rparr>) (pb_positions b)\<rparr>)"

definition order_id :: "int \<Rightarrow> string" where
  "order_id n = ''PAPER-'' @ zero_filled 4 (py_str_int n)"

definition place_order :: "broker_order \<Rightarrow> paper_broker \<Rightarrow> order_result res \<times> paper_broker" where
  "place_order ord b =
     (if po_quantity ord \<le> 0 then (Inl (ValueError [Txt ''order quantity must be positive'']), b)
      else if po_order_type ord = LIMIT \<and> po_limit_price ord = None
        then (Inl (ValueError [Txt ''limit_price is required for limit orders'']), b)
      else let b1 = b\<lparr>pb_orders := pb_orders b @ [ord]\<rparr> in
        case resolve_fill_price ord b1 of
          Inl e \<Rightarrow> (Inl e, b1)
        | Inr fill_price \<Rightarrow>
            let b2 = apply_position ord fill_price b1 in
            (Inr \<lparr>por_order_id = order_id (pb_next_order_id b2), por_accepted = True, por_status = ''ACCEPTED'',
                  por_symbol = po_symbol ord, por_filled_quantity = po_quantity ord\<rparr>,
             b2\<lparr>pb_next_order_id := pb_next_order_id b2 + 1\<rparr>))"

definition get_positions :: "paper_broker \<Rightarrow> broker_position list" where
  "get_positions b = map snd (pb_positions b)"

definition get_orders :: "paper_broker \<Rightarrow> broker_order list" where
  "get_orders b = pb_orders b"

section \<open>The executor contract\<close>

text \<open>
  What a client of the \<^verbatim>\<open>OrderExecutor\<close> and \<^verbatim>\<open>PositionProvider\<close> protocols relies on: an
  accepted order moves the net position of its symbol by its signed quantity and no other,
  a rejected order moves none.
\<close>

locale order_executor =
  fixes place :: "'o \<Rightarrow> 's \<Rightarrow> 'r res \<times> 's"
    and net :: "string \<Rightarrow> 's \<Rightarrow> int"
    and moves :: "'o \<Rightarrow> string \<Rightarrow> int"
  assumes accepted_moves: "place ord s = (Inr r, s') \<Longrightarrow> net symbol s' = net symbol s + moves ord symbol"
    and rejected_keeps: "place ord s = (Inl e, s') \<Longrightarrow> net symbol s' = net symbol s"
begin

fun session :: "'o list \<Rightarrow> 's \<Rightarrow> 'o list \<times> 's" where
  "session [] s = ([], s)"
| "session (ord # ords) s = (case place ord s of
     (Inl e, s') \<Rightarrow> session ords s'
   | (Inr r, s') \<Rightarrow> let (acc, s'') = session ords s' in (ord # acc, s''))"

lemma session_net:
  "session ords s = (acc, s') \<Longrightarrow> net symbol s' = net symbol s + sum_list (map (\<lambda>ord. moves ord symbol) acc)"
proof (induction ords arbitrary: s acc s')
  case (Cons ord ords)
  obtain r s1 where p: "place ord s = (r, s1)" by (cases "place ord s")
  show ?case
  proof (cases r)
    case (Inl e)
    with Cons.prems p Cons.IH [of s1 acc s'] rejected_keeps show ?thesis by simp
  next
    case (Inr x)
    obtain acc1 s2 where "session ords s1 = (acc1, s2)" by (cases "session ords s1")
    with Cons.prems p Inr Cons.IH [of s1 acc1 s2] accepted_moves [of ord s x s1 symbol] show ?thesis by auto
  qed
qed simp

end

definition net_quantity :: "string \<Rightarrow> paper_broker \<Rightarrow> int" where
  "net_quantity symbol b = (case map_of (pb_positions b) symbol of None \<Rightarrow> 0 | Some p \<Rightarrow> bp_quantity p)"

definition position_change :: "broker_order \<Rightarrow> string \<Rightarrow> int" where
  "position_change ord symbol = (if symbol = po_symbol ord then signed_quantity ord else 0)"

lemma apply_position_net:
  "net_quantity symbol (apply_position ord p b) = net_quantity symbol b + position_change ord symbol"
  by (auto simp: apply_position_def net_quantity_def position_change_def Let_def update_conv' delete_conv'
      split: option.splits)

lemma place_order_accepted:
  "place_order ord b = (Inr r, b') \<Longrightarrow> \<exists>p. resolve_fill_price ord b = Inr p \<and>
     pb_positions b' = pb_positions (apply_position ord p b) \<and> 0 < po_quantity ord \<and> por_filled_quantity r = po_quantity ord"
  by (auto simp: place_order_def Let_def resolve_fill_price_def get_quote_def apply_position_def bindE_eq_Inr
      split: if_splits sum.splits option.splits)

lemma place_order_rejected: "place_order ord b = (Inl e, b') \<Longrightarrow> pb_positions b' = pb_positions b"
  by (auto simp: place_order_def Let_def split: if_splits sum.splits)

lemma net_quantity_cong: "pb_positions b = pb_positions c \<Longrightarrow> net_quantity symbol b = net_quantity symbol c"
  by (simp add: net_quantity_def)

interpretation pb: order_executor place_order net_quantity position_change
proof
  fix ord s symbol
  show "place_order ord s = (Inr r, s') \<Longrightarrow> net_quantity symbol s' = net_quantity symbol s + position_change ord symbol"
    for r s'
    by (drule place_order_accepted) (metis net_quantity_cong apply_position_net)
  show "place_order ord s = (Inl e, s') \<Longrightarrow> net_quantity symbol s' = net_quantity symbol s" for e s'
    by (drule place_order_rejected) (rule net_quantity_cong)
qed

text \<open>A session of orders, the accepted ones returned.\<close>

fun trade_session :: "broker_order list \<Rightarrow> paper_broker \<Rightarrow> broker_order list \<times> paper_broker" where
  "trade_session [] b = ([], b)"
| "trade_session (ord # ords) b = (case place_order ord b of
     (Inl e, b') \<Rightarrow> trade_session ords b'
   | (Inr r, b') \<Rightarrow> let (acc, b'') = trade_session ords b' in (ord # acc, b''))"

lemma trade_session_eq: "trade_session ords b = pb.session ords b"
  by (induction ords arbitrary: b) (auto split: prod.splits sum.splits)

text \<open>The positions held: one row per symbol, none of them flat.\<close>

definition positions_ok :: "paper_broker \<Rightarrow> bool" where
  "positions_ok b \<longleftrightarrow> distinct (map fst (pb_positions b)) \<and>
     (\<forall>(symbol, p) \<in> set (pb_positions b). bp_symbol p = symbol \<and> bp_quantity p \<noteq> 0)"

lemma distinct_keys_update: "distinct (map fst d) \<Longrightarrow> distinct (map fst (AList.update k v d))"
  by (simp add: distinct_update)

lemma update_mem: "(k', v') \<in> set (AList.update k v d) \<Longrightarrow> (k', v') = (k, v) \<or> (k', v') \<in> set d"
  by (induction d) (auto split: if_splits)

lemma positions_ok_apply:
  assumes "positions_ok b" and "0 < po_quantity ord"
  shows "positions_ok (apply_position ord p b)"
proof (cases "map_of (pb_positions b) (po_symbol ord)")
  case None
  with assms show ?thesis
    by (auto simp: positions_ok_def apply_position_def Let_def signed_quantity_def distinct_keys_update dest!: update_mem)
next
  case (Some cur)
  then have "bp_symbol cur = po_symbol ord" using assms(1) by (auto simp: positions_ok_def dest!: map_of_SomeD)
  with assms Some show ?thesis
    by (auto simp: positions_ok_def apply_position_def Let_def distinct_keys_update distinct_map_filter AList.delete_eq
        dest!: update_mem)
qed

lemma positions_ok_place: "positions_ok b \<Longrightarrow> positions_ok (snd (place_order ord b))"
proof (cases "place_order ord b")
  case (Pair r b')
  assume ok: "positions_ok b"
  show ?thesis
  proof (cases r)
    case (Inl e)
    with Pair place_order_rejected ok show ?thesis by (auto simp: positions_ok_def)
  next
    case (Inr x)
    with Pair obtain p where "pb_positions b' = pb_positions (apply_position ord p b)" "0 < po_quantity ord"
      by (auto dest!: place_order_accepted)
    with Pair ok positions_ok_apply [of b ord p] show ?thesis by (auto simp: positions_ok_def)
  qed
qed

lemma positions_ok_session: "positions_ok b \<Longrightarrow> positions_ok (snd (trade_session ords b))"
proof (induction ords arbitrary: b)
  case (Cons ord ords)
  from Cons.IH [OF positions_ok_place [OF Cons.prems, of ord]] show ?case
    by (auto split: prod.splits sum.splits)
qed simp

section \<open>Properties\<close>

text \<open>
  C9: after any sequence of orders on a fresh broker, rejected ones included, the net position
  of every symbol is the sum of the signed quantities of its accepted orders, and the broker
  lists a symbol exactly once when that sum is not zero and not at all when it is zero.
\<close>
theorem positions_are_net_of_accepted_orders:
  "net_quantity symbol (snd (trade_session ords (new_broker quotes))) =
     sum_list (map (\<lambda>ord. if po_symbol ord = symbol then signed_quantity ord else 0)
       (fst (trade_session ords (new_broker quotes)))) \<and>
   length (filter (\<lambda>p. bp_symbol p = symbol) (get_positions (snd (trade_session ords (new_broker quotes))))) =
     (if net_quantity symbol (snd (trade_session ords (new_broker quotes))) = 0 then 0 else 1)"
proof -
  let ?b = "snd (trade_session ords (new_broker quotes))"
  have "net_quantity symbol (new_broker quotes) = 0" by (simp add: net_quantity_def new_broker_def)
  then have net: "net_quantity symbol ?b = sum_list (map (\<lambda>ord. position_change ord symbol) (fst (trade_session ords (new_broker quotes))))"
    using pb.session_net [of ords "new_broker quotes" "fst (trade_session ords (new_broker quotes))" ?b symbol]
    by (simp add: trade_session_eq)
  have "positions_ok (new_broker quotes)" by (simp add: positions_ok_def new_broker_def)
  then have ok: "positions_ok ?b" by (rule positions_ok_session)
  have rows: "length (filter (\<lambda>p. bp_symbol p = symbol) (map snd d)) =
      (case map_of d symbol of None \<Rightarrow> 0 | Some p \<Rightarrow> 1)"
    if "distinct (map fst d)" "\<forall>(s, p) \<in> set d. bp_symbol p = s" for d
    using that
  proof (induction d)
    case (Cons x d)
    obtain s p where x: "x = (s, p)" by (cases x)
    have "map_of d s = None" using Cons.prems x by (simp add: map_of_eq_None_iff)
    with Cons x show ?case by auto
  qed simp
  from ok have "length (filter (\<lambda>p. bp_symbol p = symbol) (get_positions ?b)) =
      (if net_quantity symbol ?b = 0 then 0 else 1)"
    unfolding get_positions_def
    by (subst rows) (auto simp: positions_ok_def net_quantity_def dest!: map_of_SomeD split: option.splits)
  moreover have "(\<lambda>ord. position_change ord symbol) = (\<lambda>ord. if po_symbol ord = symbol then signed_quantity ord else 0)"
    by (auto simp: position_change_def)
  ultimately show ?thesis using net by simp
qed

text \<open>
  An accepted order on the same side as the position keeps the cost: the average price
  times the size of the position grows by fill price times quantity.
\<close>
theorem same_side_order_keeps_cost:
  assumes "map_of (pb_positions b) (po_symbol ord) = Some cur" and "bp_quantity cur * signed_quantity ord > 0"
    and "place_order ord b = (Inr r, b')" and "resolve_fill_price ord b = Inr fill"
  shows "\<exists>p. map_of (pb_positions b') (po_symbol ord) = Some p \<and>
    bp_quantity p = bp_quantity cur + signed_quantity ord \<and>
    bp_average_price p * of_int \<bar>bp_quantity p\<bar> =
      bp_average_price cur * of_int \<bar>bp_quantity cur\<bar> + fill * of_int \<bar>signed_quantity ord\<bar>"
proof -
  from assms(2) have side: "(bp_quantity cur > 0) = (signed_quantity ord > 0)"
    and new: "bp_quantity cur + signed_quantity ord \<noteq> 0"
    by (auto simp: zero_less_mult_iff)
  from place_order_accepted [OF assms(3)] assms(4)
  have "pb_positions b' = pb_positions (apply_position ord fill b)" by auto
  with assms(1) side new show ?thesis
    by (simp add: apply_position_def Let_def update_conv')
qed

definition demo_order :: "order_side \<Rightarrow> int \<Rightarrow> price \<Rightarrow> broker_order" where
  "demo_order side n p = \<lparr>po_symbol = ''NIFTY'', po_side = side, po_quantity = n, po_order_type = LIMIT,
     po_product_type = NRML, po_limit_price = Some p\<rparr>"

lemma demo_bought: "place_order (demo_order BUY 75 100) (new_broker []) = (Inr \<lparr>por_order_id = ''PAPER-0001'',
     por_accepted = True, por_status = ''ACCEPTED'', por_symbol = ''NIFTY'', por_filled_quantity = 75\<rparr>,
   \<lparr>pb_quotes = [], pb_orders = [demo_order BUY 75 100],
    pb_positions = [(''NIFTY'', \<lparr>bp_symbol = ''NIFTY'', bp_quantity = 75, bp_average_price = 100\<rparr>)],
    pb_next_order_id = 2\<rparr>)"
  by code_simp

theorem same_side_order_keeps_cost_witness:
  "\<exists>(b' :: paper_broker) p. map_of (pb_positions b') ''NIFTY'' = Some p \<and> bp_quantity p = 150 \<and>
    bp_average_price p * 150 = 100 * 75 + 120 * 75"
proof -
  let ?b = "snd (place_order (demo_order BUY 75 100) (new_broker []))" and ?ord = "demo_order BUY 75 120"
  obtain r b' where 3: "place_order ?ord ?b = (Inr r, b')"
    unfolding demo_bought by (simp add: place_order_def demo_order_def resolve_fill_price_def Let_def)
  have 1: "map_of (pb_positions ?b) (po_symbol ?ord) = Some \<lparr>bp_symbol = ''NIFTY'', bp_quantity = 75, bp_average_price = 100\<rparr>"
    unfolding demo_bought by (simp add: demo_order_def)
  have 2: "bp_quantity \<lparr>bp_symbol = ''NIFTY'', bp_quantity = 75, bp_average_price = 100 :: price\<rparr> * signed_quantity ?ord > 0"
    by (simp add: demo_order_def signed_quantity_def)
  have 4: "resolve_fill_price ?ord ?b = Inr 120" by (simp add: resolve_fill_price_def demo_order_def)
  from same_side_order_keeps_cost [OF 1 2 3 4]
  have "\<exists>p. map_of (pb_positions b') ''NIFTY'' = Some p \<and> bp_quantity p = 150 \<and>
      bp_average_price p * 150 = 100 * 75 + 120 * 75"
    by (auto simp: demo_order_def signed_quantity_def)
  then show ?thesis by blast
qed

text \<open>
  A market order without a quote raises \<^verbatim>\<open>KeyError\<close>, and yet the broker has recorded it
  as an order: the list of orders grows while positions and the order counter stay.
\<close>
theorem failed_market_order_is_recorded:
  assumes "po_order_type ord = MARKET" and "0 < po_quantity ord" and "map_of (pb_quotes b) (po_symbol ord) = None"
  shows "\<exists>m b'. place_order ord b = (Inl (KeyError m), b') \<and> get_orders b' = get_orders b @ [ord] \<and>
    get_positions b' = get_positions b \<and> pb_next_order_id b' = pb_next_order_id b"
  using assms by (simp add: place_order_def Let_def resolve_fill_price_def get_quote_def get_orders_def get_positions_def)

theorem failed_market_order_is_recorded_witness:
  "\<exists>m b'. place_order ((demo_order BUY 75 100)\<lparr>po_order_type := MARKET\<rparr>) (new_broker []) = (Inl (KeyError m), b') \<and>
    get_orders b' = [(demo_order BUY 75 100)\<lparr>po_order_type := MARKET\<rparr>] \<and> get_positions b' = []"
  using failed_market_order_is_recorded [of "(demo_order BUY 75 100)\<lparr>po_order_type := MARKET\<rparr>" "new_broker []"]
  by (auto simp: demo_order_def new_broker_def dict_of_def get_orders_def get_positions_def)

text \<open>
  An order that flips a position to the other side keeps the old average price: the new
  position is booked at the price of the closed one, whatever the fill price is.
\<close>
theorem flipped_position_keeps_old_price:
  assumes "map_of (pb_positions b) (po_symbol ord) = Some cur"
    and "bp_quantity cur * (bp_quantity cur + signed_quantity ord) < 0"
    and "place_order ord b = (Inr r, b')"
  shows "\<exists>p. map_of (pb_positions b') (po_symbol ord) = Some p \<and>
    bp_quantity p = bp_quantity cur + signed_quantity ord \<and> bp_average_price p = bp_average_price cur"
proof -
  from assms(2) have opposite: "\<not> (bp_quantity cur = 0 \<or> (bp_quantity cur > 0) = (signed_quantity ord > 0))"
    and new: "bp_quantity cur + signed_quantity ord \<noteq> 0"
    by (auto simp: mult_less_0_iff)
  from place_order_accepted [OF assms(3)] obtain fill where
    "pb_positions b' = pb_positions (apply_position ord fill b)" by auto
  with assms(1) opposite new show ?thesis
    by (auto simp: apply_position_def Let_def update_conv')
qed

theorem flipped_position_keeps_old_price_witness:
  "\<exists>r b' p. place_order (demo_order SELL 150 130) (snd (place_order (demo_order BUY 75 100) (new_broker []))) = (Inr r, b') \<and>
    map_of (pb_positions b') ''NIFTY'' = Some p \<and> bp_quantity p = - 75 \<and> bp_average_price p = 100"
proof -
  let ?b = "snd (place_order (demo_order BUY 75 100) (new_broker []))" and ?ord = "demo_order SELL 150 130"
  obtain r b' where 3: "place_order ?ord ?b = (Inr r, b')"
    unfolding demo_bought by (simp add: place_order_def demo_order_def resolve_fill_price_def Let_def)
  have 1: "map_of (pb_positions ?b) (po_symbol ?ord) = Some \<lparr>bp_symbol = ''NIFTY'', bp_quantity = 75, bp_average_price = 100\<rparr>"
    unfolding demo_bought by (simp add: demo_order_def)
  have 2: "bp_quantity \<lparr>bp_symbol = ''NIFTY'', bp_quantity = 75, bp_average_price = 100 :: price\<rparr> *
      (bp_quantity \<lparr>bp_symbol = ''NIFTY'', bp_quantity = 75, bp_average_price = 100 :: price\<rparr> + signed_quantity ?ord) < 0"
    by (simp add: demo_order_def signed_quantity_def)
  from flipped_position_keeps_old_price [OF 1 2 3] 3 show ?thesis
    by (auto simp: demo_order_def signed_quantity_def)
qed

end
