(* ===== verification/TradeLifecycle.thy ===== *)
theory TradeLifecycle
  imports Domain "HOL-Library.Multiset"
begin

text \<open>
  \<^verbatim>\<open>src/tfis/backtest/trade_lifecycle.py\<close> and \<^verbatim>\<open>cost_model.py\<close>: the first-pass simulation of
  an option sold at the planned entry over the bars of a day, and the costs applied to its
  result. The loop over the bars is \<open>simulate_loop\<close>, its local variables the record
  \<open>simulation_state\<close> (prefix \<open>ss_\<close>); fields of the result carry \<open>tl_\<close>. It is compared with a
  reference that names the entry bar, the bars held and the exit bar directly.
\<close>

section \<open>The simulator\<close>

datatype eod_exit_policy = MARK_NO_EXIT | SQUARE_OFF_AT_CLOSE | CARRY_FORWARD_PENDING

record trade_lifecycle_result =
  tl_entered :: bool
  tl_entry_price :: "price option"
  tl_exit_price :: "price option"
  tl_entry_timestamp :: "datetime option"
  tl_exit_timestamp :: "datetime option"
  tl_bars_held :: int
  tl_exit_reason :: string
  tl_pnl_points :: "price option"
  tl_max_favorable_excursion :: "price option"
  tl_max_adverse_excursion :: "price option"
  tl_notes :: string
  tl_quantity :: "int option"
  tl_gross_pnl_points :: "price option"
  tl_total_cost_points :: "price option"
  tl_net_pnl_points :: "price option"
  tl_gross_pnl_rupees :: "price option"
  tl_cost_rupees :: "price option"
  tl_net_pnl_rupees :: "price option"
  tl_cumulative_net_pnl_rupees :: "price option"
  tl_drawdown_rupees :: "price option"

record simulation_state =
  ss_entered :: bool
  ss_entry_timestamp :: "datetime option"
  ss_bars_held :: int
  ss_favorable :: price
  ss_adverse :: price

definition price_touched :: "ohlc_bar \<Rightarrow> price \<Rightarrow> bool" where
  "price_touched b p \<longleftrightarrow> bar_low b \<le> p \<and> p \<le> bar_high b"

definition update_excursions :: "price \<Rightarrow> ohlc_bar \<Rightarrow> simulation_state \<Rightarrow> simulation_state" where
  "update_excursions entry b s = s\<lparr>ss_favorable := max (ss_favorable s) (max 0 (entry - bar_low b)),
     ss_adverse := max (ss_adverse s) (max 0 (bar_high b - entry))\<rparr>"

definition no_entry_result :: "string \<Rightarrow> trade_lifecycle_result" where
  "no_entry_result notes = \<lparr>tl_entered = False, tl_entry_price = None, tl_exit_price = None,
     tl_entry_timestamp = None, tl_exit_timestamp = None, tl_bars_held = 0, tl_exit_reason = ''NO_ENTRY'',
     tl_pnl_points = None, tl_max_favorable_excursion = None, tl_max_adverse_excursion = None, tl_notes = notes,
     tl_quantity = None, tl_gross_pnl_points = None, tl_total_cost_points = None, tl_net_pnl_points = None,
     tl_gross_pnl_rupees = None, tl_cost_rupees = None, tl_net_pnl_rupees = None,
     tl_cumulative_net_pnl_rupees = None, tl_drawdown_rupees = None\<rparr>"

definition held_result :: "trade_plan \<Rightarrow> simulation_state \<Rightarrow> string \<Rightarrow> string \<Rightarrow> trade_lifecycle_result" where
  "held_result plan s reason notes = (no_entry_result notes)\<lparr>tl_entered := True,
     tl_entry_price := Some (tp_entry_price plan), tl_entry_timestamp := ss_entry_timestamp s,
     tl_bars_held := ss_bars_held s, tl_exit_reason := reason,
     tl_max_favorable_excursion := Some (ss_favorable s), tl_max_adverse_excursion := Some (ss_adverse s)\<rparr>"

definition exit_result ::
  "trade_plan \<Rightarrow> price \<Rightarrow> datetime \<Rightarrow> simulation_state \<Rightarrow> string \<Rightarrow> string \<Rightarrow> trade_lifecycle_result" where
  "exit_result plan exit_price exit_timestamp s reason notes = (held_result plan s reason notes)\<lparr>
     tl_exit_price := Some exit_price, tl_exit_timestamp := Some exit_timestamp,
     tl_pnl_points := Some (tp_entry_price plan - exit_price)\<rparr>"

definition both_notes :: "bool \<Rightarrow> string" where
  "both_notes entry_bar = (if entry_bar
     then ''Entry and both exit thresholds were touched in the same bar; conservative stoploss result applied''
     else ''Both target and stoploss thresholds were touched in the same bar; conservative stoploss result applied'')"

text \<open>The exit checks of one bar, on the entry bar or after; \<open>Inl\<close> is a return from the loop.\<close>

definition check_exits :: "trade_plan \<Rightarrow> bool \<Rightarrow> ohlc_bar \<Rightarrow> simulation_state \<Rightarrow> trade_lifecycle_result + simulation_state" where
  "check_exits plan entry_bar b s =
     (let stop_hit = bar_high b \<ge> tp_stoploss_price plan; target_hit = bar_low b \<le> tp_target_price plan in
      if stop_hit \<and> target_hit
      then Inl (exit_result plan (tp_stoploss_price plan) (bar_timestamp b) s ''STOPLOSS_HIT'' (both_notes entry_bar))
      else if stop_hit
      then Inl (exit_result plan (tp_stoploss_price plan) (bar_timestamp b) s ''STOPLOSS_HIT''
        (if entry_bar then ''Stoploss threshold hit on the entry bar'' else ''Stoploss threshold hit after entry''))
      else if target_hit
      then Inl (exit_result plan (tp_target_price plan) (bar_timestamp b) s ''TARGET_HIT''
        (if entry_bar then ''Target threshold hit on the entry bar'' else ''Target threshold hit after entry''))
      else Inr s)"

definition simulate_bar :: "trade_plan \<Rightarrow> ohlc_bar \<Rightarrow> simulation_state \<Rightarrow> trade_lifecycle_result + simulation_state" where
  "simulate_bar plan b s =
     (if \<not> ss_entered s then
        (if \<not> price_touched b (tp_entry_price plan) then Inr s
         else check_exits plan True b (update_excursions (tp_entry_price plan) b
           (s\<lparr>ss_entered := True, ss_entry_timestamp := Some (bar_timestamp b), ss_bars_held := 1\<rparr>)))
      else check_exits plan False b (update_excursions (tp_entry_price plan) b (s\<lparr>ss_bars_held := ss_bars_held s + 1\<rparr>)))"

fun simulate_loop :: "trade_plan \<Rightarrow> ohlc_bar list \<Rightarrow> simulation_state \<Rightarrow> trade_lifecycle_result + simulation_state" where
  "simulate_loop plan [] s = Inr s"
| "simulate_loop plan (b # bs) s = (case simulate_bar plan b s of Inl r \<Rightarrow> Inl r | Inr s' \<Rightarrow> simulate_loop plan bs s')"

definition initial_simulation :: simulation_state where
  "initial_simulation = \<lparr>ss_entered = False, ss_entry_timestamp = None, ss_bars_held = 0, ss_favorable = 0, ss_adverse = 0\<rparr>"

definition end_of_day :: "eod_exit_policy \<Rightarrow> trade_plan \<Rightarrow> ohlc_bar \<Rightarrow> simulation_state \<Rightarrow> trade_lifecycle_result" where
  "end_of_day policy plan last_bar s =
     (if \<not> ss_entered s then no_entry_result ''Entry price was never touched by the intraday option bars''
      else if policy = SQUARE_OFF_AT_CLOSE
      then exit_result plan (bar_close last_bar) (bar_timestamp last_bar) s ''EOD_SQUARE_OFF''
        ''Entry was hit and the position was squared off at the last available intraday close''
      else if policy = CARRY_FORWARD_PENDING
      then held_result plan s ''CARRY_FORWARD_PENDING'' ''Entry was hit but next-day carry-forward simulation is not implemented yet''
      else held_result plan s ''NO_EXIT''
        ''Entry was hit but neither target nor stoploss was reached; marked as no-exit diagnostic state'')"

definition simulate :: "eod_exit_policy \<Rightarrow> trade_plan \<Rightarrow> ohlc_bar list \<Rightarrow> trade_lifecycle_result" where
  "simulate policy plan intraday_option_bars =
     (let bars = sort_key bar_timestamp intraday_option_bars in
      if bars = [] then no_entry_result ''No intraday option bars were provided for this candidate date''
      else case simulate_loop plan bars initial_simulation of
          Inl r \<Rightarrow> r
        | Inr s \<Rightarrow> end_of_day policy plan (last bars) s)"

section \<open>The cost model\<close>

record cost_model =
  cm_slippage_points_per_side :: price
  cm_brokerage_points_per_trade :: price
  cm_other_cost_points_per_trade :: price

definition mk_cost_model :: "cost_model \<Rightarrow> cost_model res" where
  "mk_cost_model m = bindE (check_all
     [guardE (\<not> cm_slippage_points_per_side m < 0) (ValueError [Txt ''slippage_points_per_side must be non-negative'']),
      guardE (\<not> cm_brokerage_points_per_trade m < 0) (ValueError [Txt ''brokerage_points_per_trade must be non-negative'']),
      guardE (\<not> cm_other_cost_points_per_trade m < 0) (ValueError [Txt ''other_cost_points_per_trade must be non-negative''])])
     (\<lambda>_. Inr m)"

definition total_cost_points :: "cost_model \<Rightarrow> price" where
  "total_cost_points m = cm_brokerage_points_per_trade m + cm_other_cost_points_per_trade m + 2 * cm_slippage_points_per_side m"

definition apply_with_quantity :: "cost_model \<Rightarrow> trade_lifecycle_result \<Rightarrow> int option \<Rightarrow> trade_lifecycle_result" where
  "apply_with_quantity m r quantity = (case tl_pnl_points r of
     None \<Rightarrow> r\<lparr>tl_quantity := quantity, tl_gross_pnl_points := None, tl_total_cost_points := None,
       tl_net_pnl_points := None, tl_gross_pnl_rupees := None, tl_cost_rupees := None, tl_net_pnl_rupees := None\<rparr>
   | Some gross \<Rightarrow>
       (let total = total_cost_points m; net = gross - total; rupees = (\<lambda>x. map_option (\<lambda>q. x * of_int q) quantity) in
        r\<lparr>tl_quantity := quantity, tl_gross_pnl_points := Some gross, tl_total_cost_points := Some total,
          tl_net_pnl_points := Some net, tl_gross_pnl_rupees := rupees gross, tl_cost_rupees := rupees total,
          tl_net_pnl_rupees := rupees net\<rparr>))"

definition apply_costs :: "cost_model \<Rightarrow> trade_lifecycle_result \<Rightarrow> trade_lifecycle_result" where
  "apply_costs m r = apply_with_quantity m r (tl_quantity r)"

section \<open>The reference\<close>

definition hits_exit :: "trade_plan \<Rightarrow> ohlc_bar \<Rightarrow> bool" where
  "hits_exit plan b \<longleftrightarrow> bar_high b \<ge> tp_stoploss_price plan \<or> bar_low b \<le> tp_target_price plan"

text \<open>From the first bar that touches the entry up to and including the first that hits an exit.\<close>

definition from_entry :: "trade_plan \<Rightarrow> ohlc_bar list \<Rightarrow> ohlc_bar list" where
  "from_entry plan = dropWhile (\<lambda>b. \<not> price_touched b (tp_entry_price plan))"

fun upto_first :: "('a \<Rightarrow> bool) \<Rightarrow> 'a list \<Rightarrow> 'a list" where
  "upto_first P [] = []"
| "upto_first P (x # xs) = (if P x then [x] else x # upto_first P xs)"

definition held_bars :: "trade_plan \<Rightarrow> ohlc_bar list \<Rightarrow> ohlc_bar list" where
  "held_bars plan bars = upto_first (hits_exit plan) (from_entry plan bars)"

definition best_run :: "trade_plan \<Rightarrow> ohlc_bar list \<Rightarrow> price" where
  "best_run plan held = Max (insert 0 ((\<lambda>b. tp_entry_price plan - bar_low b) ` set held))"

definition worst_run :: "trade_plan \<Rightarrow> ohlc_bar list \<Rightarrow> price" where
  "worst_run plan held = Max (insert 0 ((\<lambda>b. bar_high b - tp_entry_price plan) ` set held))"

definition exit_of :: "eod_exit_policy \<Rightarrow> trade_plan \<Rightarrow> ohlc_bar \<Rightarrow> price option \<times> string" where
  "exit_of policy plan x =
     (if bar_high x \<ge> tp_stoploss_price plan then (Some (tp_stoploss_price plan), ''STOPLOSS_HIT'')
      else if bar_low x \<le> tp_target_price plan then (Some (tp_target_price plan), ''TARGET_HIT'')
      else case policy of SQUARE_OFF_AT_CLOSE \<Rightarrow> (Some (bar_close x), ''EOD_SQUARE_OFF'')
        | CARRY_FORWARD_PENDING \<Rightarrow> (None, ''CARRY_FORWARD_PENDING'')
        | MARK_NO_EXIT \<Rightarrow> (None, ''NO_EXIT''))"

definition reference_trade :: "eod_exit_policy \<Rightarrow> trade_plan \<Rightarrow> ohlc_bar list \<Rightarrow> trade_lifecycle_result" where
  "reference_trade policy plan bars =
     (let held = held_bars plan bars in
      if held = [] then no_entry_result []
      else let (exit_price, reason) = exit_of policy plan (last held) in
        (no_entry_result [])\<lparr>tl_entered := True, tl_entry_price := Some (tp_entry_price plan),
          tl_exit_price := exit_price, tl_entry_timestamp := Some (bar_timestamp (hd held)),
          tl_exit_timestamp := map_option (\<lambda>_. bar_timestamp (last held)) exit_price,
          tl_bars_held := int (length held), tl_exit_reason := reason,
          tl_pnl_points := map_option (\<lambda>p. tp_entry_price plan - p) exit_price,
          tl_max_favorable_excursion := Some (best_run plan held),
          tl_max_adverse_excursion := Some (worst_run plan held)\<rparr>)"

section \<open>The loop and the reference\<close>

definition holding :: "trade_plan \<Rightarrow> ohlc_bar list \<Rightarrow> simulation_state" where
  "holding plan held = \<lparr>ss_entered = True, ss_entry_timestamp = Some (bar_timestamp (hd held)),
     ss_bars_held = int (length held), ss_favorable = best_run plan held, ss_adverse = worst_run plan held\<rparr>"

lemma runs_snoc:
  "best_run plan (held @ [b]) = max (best_run plan held) (max 0 (tp_entry_price plan - bar_low b))"
  "worst_run plan (held @ [b]) = max (worst_run plan held) (max 0 (bar_high b - tp_entry_price plan))"
proof -
  have snoc: "Max (insert 0 (f ` set (held @ [b]))) = max (Max (insert 0 (f ` set held))) (max 0 (f b))"
    for f :: "ohlc_bar \<Rightarrow> price"
  proof -
    have "Max (insert 0 (f ` set (held @ [b]))) = max (f b) (Max (insert 0 (f ` set held)))"
      by (simp add: insert_commute [of 0 "f b"] del: Max_insert) (rule Max_insert; simp)
    moreover have "0 \<le> Max (insert 0 (f ` set held))" by simp
    ultimately show ?thesis by linarith
  qed
  show "best_run plan (held @ [b]) = max (best_run plan held) (max 0 (tp_entry_price plan - bar_low b))"
    and "worst_run plan (held @ [b]) = max (worst_run plan held) (max 0 (bar_high b - tp_entry_price plan))"
    unfolding best_run_def worst_run_def by (rule snoc)+
qed

lemma holding_snoc: "held \<noteq> [] \<Longrightarrow>
    update_excursions (tp_entry_price plan) b ((holding plan held)\<lparr>ss_bars_held := ss_bars_held (holding plan held) + 1\<rparr>) =
    holding plan (held @ [b])"
  by (simp add: holding_def update_excursions_def runs_snoc)

lemma holding_entry:
  "update_excursions (tp_entry_price plan) b (initial_simulation\<lparr>ss_entered := True,
     ss_entry_timestamp := Some (bar_timestamp b), ss_bars_held := 1\<rparr>) = holding plan [b]"
  by (simp add: holding_def update_excursions_def initial_simulation_def best_run_def worst_run_def max.commute)

definition exit_at :: "trade_plan \<Rightarrow> ohlc_bar list \<Rightarrow> string \<Rightarrow> trade_lifecycle_result" where
  "exit_at plan held notes = (let x = last held; (p, reason) = exit_of MARK_NO_EXIT plan x in
     exit_result plan (the p) (bar_timestamp x) (holding plan held) reason notes)"

lemma check_exits_hit:
  "hits_exit plan b \<Longrightarrow> \<exists>notes. check_exits plan e b (holding plan (held @ [b])) = Inl (exit_at plan (held @ [b]) notes)"
  by (auto simp: check_exits_def hits_exit_def exit_at_def exit_of_def Let_def)

lemma check_exits_miss: "\<not> hits_exit plan b \<Longrightarrow> check_exits plan e b s = Inr s"
  by (simp add: check_exits_def hits_exit_def Let_def)

lemma upto_first_all: "\<not> list_ex P xs \<Longrightarrow> upto_first P xs = xs"
  by (induction xs) auto

lemma upto_first_Nil [simp]: "upto_first P xs = [] \<longleftrightarrow> xs = []"
  by (cases xs) simp_all

lemma last_upto_first: "list_ex P xs \<Longrightarrow> P (last (upto_first P xs))"
  by (induction xs) auto

lemma set_upto_first: "set (upto_first P xs) \<subseteq> set xs"
  by (induction xs) auto

lemma loop_holding:
  assumes "held \<noteq> []"
  shows "if list_ex (hits_exit plan) bs
    then \<exists>notes. simulate_loop plan bs (holding plan held) = Inl (exit_at plan (held @ upto_first (hits_exit plan) bs) notes)
    else simulate_loop plan bs (holding plan held) = Inr (holding plan (held @ bs))"
  using assms
proof (induction bs arbitrary: held)
  case (Cons b bs)
  have step: "simulate_bar plan b (holding plan held) = check_exits plan False b (holding plan (held @ [b]))"
    using Cons.prems holding_snoc [of held plan b] by (simp add: simulate_bar_def) (simp add: holding_def)
  show ?case
  proof (cases "hits_exit plan b")
    case True
    then show ?thesis using check_exits_hit [OF True, of False held] by (auto simp: step)
  next
    case False
    with Cons.IH [of "held @ [b]"] show ?thesis by (auto simp: step check_exits_miss split: if_splits)
  qed
qed simp

lemma loop_entry:
  "(case from_entry plan bars of
      [] \<Rightarrow> simulate_loop plan bars initial_simulation = Inr initial_simulation
    | _ \<Rightarrow> if list_ex (hits_exit plan) (from_entry plan bars)
        then \<exists>notes. simulate_loop plan bars initial_simulation = Inl (exit_at plan (held_bars plan bars) notes)
        else simulate_loop plan bars initial_simulation = Inr (holding plan (from_entry plan bars)))"
proof (induction bars)
  case (Cons b bars)
  show ?case
  proof (cases "price_touched b (tp_entry_price plan)")
    case False
    then have "simulate_loop plan (b # bars) initial_simulation = simulate_loop plan bars initial_simulation"
      by (simp add: simulate_bar_def initial_simulation_def)
    moreover have "from_entry plan (b # bars) = from_entry plan bars" "held_bars plan (b # bars) = held_bars plan bars"
      using False by (simp_all add: from_entry_def held_bars_def)
    ultimately show ?thesis using Cons.IH by (simp only:)
  next
    case True
    have "\<not> ss_entered initial_simulation" by (simp add: initial_simulation_def)
    then have step: "simulate_bar plan b initial_simulation = check_exits plan True b (holding plan [b])"
      using True by (simp add: simulate_bar_def holding_entry)
    show ?thesis
    proof (cases "hits_exit plan b")
      case hit: True
      with True show ?thesis using check_exits_hit [OF hit, of True "[]"]
        by (auto simp: step from_entry_def held_bars_def)
    next
      case False
      with True loop_holding [of "[b]" plan bars] show ?thesis
        by (auto simp: step check_exits_miss from_entry_def held_bars_def split: if_splits)
    qed
  qed
qed (simp add: from_entry_def)

lemma last_from_entry: "from_entry plan bars \<noteq> [] \<Longrightarrow> last (from_entry plan bars) = last bars"
  unfolding from_entry_def by (induction bars) (auto split: if_splits)

lemma reference_notes [simp]: "tl_notes (reference_trade policy plan bars) = []"
  by (simp add: reference_trade_def Let_def no_entry_result_def split: prod.splits)

lemma exit_at_reference:
  assumes "held_bars plan bars \<noteq> []" and "hits_exit plan (last (held_bars plan bars))"
  shows "(exit_at plan (held_bars plan bars) notes)\<lparr>tl_notes := []\<rparr> = reference_trade policy plan bars"
  using assms by (auto simp: exit_at_def reference_trade_def exit_of_def hits_exit_def exit_result_def held_result_def
      holding_def no_entry_result_def Let_def)

lemma end_of_day_reference:
  assumes "from_entry plan bars \<noteq> []" and "\<not> list_ex (hits_exit plan) (from_entry plan bars)"
  shows "(end_of_day policy plan (last bars) (holding plan (from_entry plan bars)))\<lparr>tl_notes := []\<rparr> =
    reference_trade policy plan bars"
proof -
  have held: "held_bars plan bars = from_entry plan bars"
    using assms(2) by (simp add: held_bars_def upto_first_all)
  have "last bars \<in> set (from_entry plan bars)" using assms(1) last_from_entry by (metis last_in_set)
  with assms(2) have "\<not> hits_exit plan (last bars)" by (auto simp: list_ex_iff)
  with assms(1) held show ?thesis
    by (cases policy) (simp_all add: reference_trade_def end_of_day_def exit_of_def hits_exit_def exit_result_def
        held_result_def holding_def no_entry_result_def last_from_entry Let_def)
qed

lemma simulate_reference:
  "(simulate policy plan bars)\<lparr>tl_notes := []\<rparr> = reference_trade policy plan (sort_key bar_timestamp bars)"
proof -
  let ?bars = "sort_key bar_timestamp bars"
  show ?thesis
  proof (cases "from_entry plan ?bars")
    case Nil
    then have "held_bars plan ?bars = []" by (simp add: held_bars_def)
    then have ref: "reference_trade policy plan ?bars = no_entry_result []" by (simp add: reference_trade_def)
    from loop_entry [of plan ?bars] Nil have "simulate_loop plan ?bars initial_simulation = Inr initial_simulation" by simp
    then show ?thesis unfolding ref
      by (simp add: simulate_def Let_def end_of_day_def initial_simulation_def no_entry_result_def)
  next
    case (Cons b bs)
    then have ne: "?bars \<noteq> []" "from_entry plan ?bars \<noteq> []" by (auto simp: from_entry_def)
    show ?thesis
    proof (cases "list_ex (hits_exit plan) (from_entry plan ?bars)")
      case True
      with loop_entry [of plan ?bars] Cons obtain m where
        "simulate_loop plan ?bars initial_simulation = Inl (exit_at plan (held_bars plan ?bars) m)" by auto
      moreover have "held_bars plan ?bars \<noteq> []" "hits_exit plan (last (held_bars plan ?bars))"
        using ne(2) last_upto_first [OF True] by (simp_all add: held_bars_def)
      ultimately show ?thesis using ne(1) exit_at_reference [of plan ?bars m policy]
        by (simp add: simulate_def Let_def)
    next
      case False
      with loop_entry [of plan ?bars] Cons have
        "simulate_loop plan ?bars initial_simulation = Inr (holding plan (from_entry plan ?bars))" by simp
      with ne(1) end_of_day_reference [OF ne(2) False, of policy] show ?thesis
        by (simp add: simulate_def Let_def)
    qed
  qed
qed

lemma simulate_reference_fields:
  "tl_pnl_points (simulate policy plan bars) = tl_pnl_points (reference_trade policy plan (sort_key bar_timestamp bars))"
  "tl_max_favorable_excursion (simulate policy plan bars) = tl_max_favorable_excursion (reference_trade policy plan (sort_key bar_timestamp bars))"
  "tl_max_adverse_excursion (simulate policy plan bars) = tl_max_adverse_excursion (reference_trade policy plan (sort_key bar_timestamp bars))"
  by (simp_all flip: simulate_reference [of policy plan bars])

lemma runs_bound: "b \<in> set held \<Longrightarrow> tp_entry_price plan - bar_low b \<le> best_run plan held"
    "b \<in> set held \<Longrightarrow> bar_high b - tp_entry_price plan \<le> worst_run plan held"
    "0 \<le> best_run plan held" "0 \<le> worst_run plan held"
  by (simp_all add: best_run_def worst_run_def)

lemma held_bars_subset: "set (held_bars plan bars) \<subseteq> set bars"
  unfolding held_bars_def from_entry_def using set_upto_first set_dropWhileD by fastforce

lemma reference_bounds:
  assumes "list_all wf_bar bars" and "tp_target_price plan \<le> tp_entry_price plan" and "tp_entry_price plan \<le> tp_stoploss_price plan"
    and "tl_pnl_points (reference_trade policy plan bars) = Some p"
  shows "\<exists>f a. tl_max_favorable_excursion (reference_trade policy plan bars) = Some f \<and>
    tl_max_adverse_excursion (reference_trade policy plan bars) = Some a \<and> - a \<le> p \<and> p \<le> f"
proof -
  let ?held = "held_bars plan bars" and ?x = "last (held_bars plan bars)"
  have ne: "?held \<noteq> []" using assms(4) by (auto simp: reference_trade_def no_entry_result_def)
  then have x: "?x \<in> set ?held" by simp
  with assms(1) held_bars_subset [of plan bars] have wf: "wf_bar ?x" by (auto simp: list_all_iff)
  note bounds = runs_bound(1,2) [OF x, of plan] runs_bound(3,4) [of plan ?held]
  obtain e where e: "exit_of policy plan ?x = (Some e, snd (exit_of policy plan ?x))" and p: "p = tp_entry_price plan - e"
    using assms(4) ne by (auto simp: reference_trade_def Let_def split: prod.splits)
  have "- worst_run plan ?held \<le> p \<and> p \<le> best_run plan ?held"
    using e bounds wf assms(2,3) unfolding p
    by (auto simp: exit_of_def wf_bar_def split: if_splits eod_exit_policy.splits)
  with ne show ?thesis by (auto simp: reference_trade_def Let_def split: prod.splits)
qed

lemma mk_cost_model_ok: "mk_cost_model m = Inr m' \<longleftrightarrow> m' = m \<and> 0 \<le> cm_slippage_points_per_side m \<and>
    0 \<le> cm_brokerage_points_per_trade m \<and> 0 \<le> cm_other_cost_points_per_trade m"
  by (auto simp: mk_cost_model_def bindE_eq_Inr)

section \<open>Properties\<close>

text \<open>
  C16: the simulation of a day is the reference trade over the bars in time order: entered at
  the first bar whose range holds the entry, held up to the first bar from there on that
  reaches the stop-loss or the target, the stop-loss taken when both are reached; the bars
  held, the time stamps, the points and the two excursions are those of the held bars (only
  the note differs).
\<close>
theorem simulation_is_reference_trade:
  "(simulate policy plan bars)\<lparr>tl_notes := []\<rparr> = reference_trade policy plan (sort_key bar_timestamp bars)"
  by (rule simulate_reference)

text \<open>
  Over valid bars and a plan with the target below and the stop-loss above the entry, the
  points booked by a closed simulated trade lie between its adverse and its favourable
  excursion, and after costs the net points lie between them less the cost and are never
  above the gross points; the rupee amounts are the points times the quantity.
\<close>
theorem booked_points_bounded:
  assumes "list_all wf_bar bars" and "tp_target_price plan \<le> tp_entry_price plan" and "tp_entry_price plan \<le> tp_stoploss_price plan"
    and "mk_cost_model m = Inr m" and "tl_pnl_points (simulate policy plan bars) = Some gross"
  shows "\<exists>f a net. tl_max_favorable_excursion (simulate policy plan bars) = Some f \<and>
    tl_max_adverse_excursion (simulate policy plan bars) = Some a \<and> - a \<le> gross \<and> gross \<le> f \<and>
    tl_net_pnl_points (apply_with_quantity m (simulate policy plan bars) (Some q)) = Some net \<and>
    - a - total_cost_points m \<le> net \<and> net \<le> gross \<and>
    tl_net_pnl_rupees (apply_with_quantity m (simulate policy plan bars) (Some q)) = Some (net * of_int q)"
proof -
  have "list_all wf_bar (sort_key bar_timestamp bars)" using assms(1) by (simp add: list_all_iff)
  from reference_bounds [OF this assms(2,3)] assms(5) obtain f a where
    "tl_max_favorable_excursion (simulate policy plan bars) = Some f"
    "tl_max_adverse_excursion (simulate policy plan bars) = Some a" "- a \<le> gross" "gross \<le> f"
    unfolding simulate_reference_fields by blast
  moreover have "0 \<le> total_cost_points m" using assms(4) by (simp add: mk_cost_model_ok total_cost_points_def)
  ultimately show ?thesis using assms(5) by (simp add: apply_with_quantity_def Let_def)
qed

definition demo_plan :: trade_plan where
  "demo_plan = \<lparr>tp_strategy_code = ''S23'', tp_symbol = ''NIFTY'', tp_option_type = Some PUT, tp_start_strike = None,
     tp_end_strike = None, tp_ideal_premium = None, tp_minimum_premium = None, tp_entry_price = 100,
     tp_stoploss_price = 130, tp_target_price = 40\<rparr>"

definition demo_day :: "ohlc_bar list" where
  "demo_day = [\<lparr>bar_timestamp = 2, bar_open = 100, bar_high = 135, bar_low = 98, bar_close = 120, bar_volume = None\<rparr>,
     \<lparr>bar_timestamp = 1, bar_open = 110, bar_high = 112, bar_low = 99, bar_close = 100, bar_volume = None\<rparr>]"

definition demo_costs :: cost_model where
  "demo_costs = \<lparr>cm_slippage_points_per_side = 1, cm_brokerage_points_per_trade = 1 / 2, cm_other_cost_points_per_trade = 0\<rparr>"

lemma demo_stopped: "tl_pnl_points (simulate MARK_NO_EXIT demo_plan demo_day) = Some (-30)"
  by code_simp

theorem booked_points_bounded_witness:
  "\<exists>a. tl_max_adverse_excursion (simulate MARK_NO_EXIT demo_plan demo_day) = Some a \<and> - a \<le> - 30 \<and>
    tl_net_pnl_rupees (apply_with_quantity demo_costs (simulate MARK_NO_EXIT demo_plan demo_day) (Some 75)) \<noteq> None"
proof -
  have "list_all wf_bar demo_day" "tp_target_price demo_plan \<le> tp_entry_price demo_plan"
    "tp_entry_price demo_plan \<le> tp_stoploss_price demo_plan" "mk_cost_model demo_costs = Inr demo_costs" by code_simp+
  from booked_points_bounded [OF this demo_stopped, of 75] show ?thesis by auto
qed

text \<open>
  The order in which the bars are given does not matter when their time stamps differ.
\<close>
theorem simulation_ignores_input_order:
  assumes "mset bars = mset bars'" and "distinct (map bar_timestamp bars)"
  shows "simulate policy plan bars = simulate policy plan bars'"
proof -
  have "inj_on bar_timestamp (set bars)" using assms(2) by (simp add: distinct_map)
  with assms(1) have "sort_key bar_timestamp bars = sort_key bar_timestamp bars'"
    by (intro sort_key_inj_key_eq) simp_all
  then show ?thesis by (simp add: simulate_def)
qed

theorem simulation_ignores_input_order_witness:
  "simulate MARK_NO_EXIT demo_plan demo_day = simulate MARK_NO_EXIT demo_plan (rev demo_day)"
proof -
  have "distinct (map bar_timestamp demo_day)" by code_simp
  then show ?thesis by (intro simulation_ignores_input_order) simp_all
qed

end
