(* ===== verification/StrategyPipeline.thy ===== *)
theory StrategyPipeline
  imports FormulaSpec PaperBroker
begin

text \<open>
  From a strategy rule to a risk decision: \<^verbatim>\<open>strategy/strategy_evaluator.py\<close> (the seven
  formulas of a rule become a trade plan), \<^verbatim>\<open>execution/order_plan.py\<close> and
  \<^verbatim>\<open>order_planner.py\<close> (the plan becomes an order intent), \<^verbatim>\<open>risk/risk_policy.py\<close> and
  their composition \<^verbatim>\<open>strategy/offline_pipeline.py\<close>. Fields of \<^verbatim>\<open>OrderIntent\<close> carry
  the prefix \<open>oi2_\<close>, of the risk decision \<open>rd_\<close>, of the policy \<open>rp_\<close>.
\<close>

section \<open>The evaluator\<close>

text \<open>\<^verbatim>\<open>int(x)\<close> of a float truncates towards zero.\<close>

definition py_int :: "price \<Rightarrow> int" where
  "py_int x = (if 0 \<le> x then \<lfloor>x\<rfloor> else \<lceil>x\<rceil>)"

type_synonym runtime_values = "(string, py_value) dict"

definition evaluate_rule :: "strategy_rule \<Rightarrow> market_levels \<Rightarrow> runtime_values \<Rightarrow> trade_plan res" where
  "evaluate_rule rule levels runtime =
     (let engine = (\<lambda>formula inputs. evaluate_formula formula levels inputs (sr_parameters rule)) in
      bindE (engine (sr_start_strike_formula rule) runtime) (\<lambda>start_strike.
      bindE (engine (sr_end_strike_formula rule) runtime) (\<lambda>end_strike.
      bindE (engine (sr_ideal_premium_formula rule) runtime) (\<lambda>ideal_premium.
      bindE (engine (sr_minimum_premium_formula rule) runtime) (\<lambda>minimum_premium.
      bindE (engine (sr_entry_formula rule) runtime) (\<lambda>entry_price.
      let inputs = AList.update ''ENTRY'' (PNum entry_price) runtime in
      bindE (engine (sr_target_formula rule) inputs) (\<lambda>target_price.
      bindE (engine (sr_stoploss_formula rule) inputs) (\<lambda>stoploss_price.
      mk_trade_plan \<lparr>tp_strategy_code = sr_strategy_code rule, tp_symbol = sr_symbol rule,
        tp_option_type = sr_option_type rule, tp_start_strike = Some (py_int start_strike),
        tp_end_strike = Some (py_int end_strike), tp_ideal_premium = Some ideal_premium,
        tp_minimum_premium = Some minimum_premium, tp_entry_price = entry_price,
        tp_stoploss_price = stoploss_price, tp_target_price = target_price\<rparr>))))))))"

section \<open>The planner\<close>

record order_intent =
  oi2_strategy_code :: string
  oi2_symbol :: string
  oi2_option_type :: "option_type option"
  oi2_side :: order_side
  oi2_quantity :: int
  oi2_order_type :: order_type
  oi2_product_type :: product_type
  oi2_reference_price :: price
  oi2_reason :: string

definition mk_order_intent :: "order_intent \<Rightarrow> order_intent res" where
  "mk_order_intent i = bindE (check_all
     [guardE (\<not> (oi2_strategy_code i = [] \<or> strip (oi2_strategy_code i) = []))
        (ValueError [Txt ''strategy_code must be a non-empty string'']),
      guardE (\<not> (oi2_symbol i = [] \<or> strip (oi2_symbol i) = [])) (ValueError [Txt ''symbol must be a non-empty string'']),
      guardE (\<not> oi2_quantity i \<le> 0) (ValueError [Txt ''quantity must be positive'']),
      guardE (\<not> oi2_reference_price i < 0) (ValueError [Txt ''reference_price must be non-negative'']),
      guardE (\<not> (oi2_reason i = [] \<or> strip (oi2_reason i) = [])) (ValueError [Txt ''reason must be a non-empty string''])])
     (\<lambda>_. Inr i)"

definition build_order_intent :: "trade_plan \<Rightarrow> int \<Rightarrow> order_intent res" where
  "build_order_intent plan lot_size =
     (if lot_size \<le> 0 then Inl (ValueError [Txt ''lot_size must be positive''])
      else if tp_option_type plan \<notin> {Some CALL, Some PUT} then Inl (ValueError
        [Txt ''OrderPlanner currently supports option trade plans with CALL or PUT option_type only''])
      else mk_order_intent \<lparr>oi2_strategy_code = tp_strategy_code plan, oi2_symbol = tp_symbol plan,
        oi2_option_type = tp_option_type plan, oi2_side = SELL, oi2_quantity = lot_size, oi2_order_type = MARKET,
        oi2_product_type = MIS, oi2_reference_price = tp_entry_price plan,
        oi2_reason = ''Planned options-sell entry intent from TradePlan''\<rparr>)"

section \<open>The risk policy\<close>

record risk_policy =
  rp_max_lots_per_trade :: int
  rp_max_trades_per_day :: int
  rp_allow_short_options :: bool
  rp_paper_only :: bool

text \<open>The dictionary \<^verbatim>\<open>checks\<close> has these keys in every decision.\<close>

record risk_checks =
  rc_policy :: risk_policy
  rc_trades_taken_today :: int
  rc_requested_quantity :: int
  rc_side :: order_side

record risk_decision =
  rd_approved :: bool
  rd_reason :: string
  rd_checks :: risk_checks

definition evaluate_order :: "risk_policy \<Rightarrow> order_intent \<Rightarrow> int \<Rightarrow> risk_decision" where
  "evaluate_order p i trades_taken_today =
     (let checks = \<lparr>rc_policy = p, rc_trades_taken_today = trades_taken_today,
            rc_requested_quantity = oi2_quantity i, rc_side = oi2_side i\<rparr>;
          decide = (\<lambda>approved reason. \<lparr>rd_approved = approved, rd_reason = reason, rd_checks = checks\<rparr>) in
      if oi2_quantity i \<le> 0 then decide False ''Rejected: lot size must be positive''
      else if oi2_quantity i > rp_max_lots_per_trade p then decide False ''Rejected: lot size exceeds max_lots_per_trade''
      else if trades_taken_today \<ge> rp_max_trades_per_day p then decide False ''Rejected: max_trades_per_day reached''
      else if oi2_side i = SELL \<and> oi2_option_type i \<noteq> None \<and> \<not> rp_allow_short_options p
      then decide False ''Rejected: short options are disabled''
      else decide True ''Approved'')"

section \<open>The pipeline\<close>

record pipeline_result =
  pl_trade_plan :: trade_plan
  pl_order_intent :: order_intent
  pl_risk_decision :: risk_decision

definition offline_pipeline ::
  "risk_policy \<Rightarrow> strategy_rule \<Rightarrow> market_levels \<Rightarrow> runtime_values \<Rightarrow> int \<Rightarrow> int \<Rightarrow> pipeline_result res" where
  "offline_pipeline policy rule levels runtime lot_size trades_taken_today =
     bindE (evaluate_rule rule levels runtime) (\<lambda>plan.
     bindE (build_order_intent plan lot_size) (\<lambda>intent.
     Inr \<lparr>pl_trade_plan = plan, pl_order_intent = intent,
       pl_risk_decision = evaluate_order policy intent trades_taken_today\<rparr>))"

section \<open>Lemmas of the parts\<close>

lemma mk_order_intent_ok: "mk_order_intent i = Inr i' \<longleftrightarrow> i' = i \<and> strip (oi2_strategy_code i) \<noteq> [] \<and>
    strip (oi2_symbol i) \<noteq> [] \<and> 0 < oi2_quantity i \<and> 0 \<le> oi2_reference_price i \<and> strip (oi2_reason i) \<noteq> []"
  by (auto simp: mk_order_intent_def bindE_eq_Inr check_all_ok)

lemma evaluate_order_approved: "rd_approved (evaluate_order p i n) \<longleftrightarrow> 0 < oi2_quantity i \<and>
    oi2_quantity i \<le> rp_max_lots_per_trade p \<and> n < rp_max_trades_per_day p \<and>
    \<not> (oi2_side i = SELL \<and> oi2_option_type i \<noteq> None \<and> \<not> rp_allow_short_options p)"
  by (simp add: evaluate_order_def Let_def)

text \<open>The plan of a rule in terms of its formulas.\<close>

definition plan_of :: "strategy_rule \<Rightarrow> market_levels \<Rightarrow> runtime_values \<Rightarrow> trade_plan \<Rightarrow> bool" where
  "plan_of rule levels runtime plan \<longleftrightarrow>
     (let value = (\<lambda>inputs formula. evaluate_formula (formula rule) levels inputs (sr_parameters rule));
          with_entry = AList.update ''ENTRY'' (PNum (tp_entry_price plan)) runtime in
      (\<exists>start. value runtime sr_start_strike_formula = Inr start \<and> tp_start_strike plan = Some (py_int start)) \<and>
      (\<exists>end. value runtime sr_end_strike_formula = Inr end \<and> tp_end_strike plan = Some (py_int end)) \<and>
      (\<exists>ideal. value runtime sr_ideal_premium_formula = Inr ideal \<and> tp_ideal_premium plan = Some ideal) \<and>
      (\<exists>low. value runtime sr_minimum_premium_formula = Inr low \<and> tp_minimum_premium plan = Some low) \<and>
      value runtime sr_entry_formula = Inr (tp_entry_price plan) \<and>
      value with_entry sr_target_formula = Inr (tp_target_price plan) \<and>
      value with_entry sr_stoploss_formula = Inr (tp_stoploss_price plan) \<and>
      tp_strategy_code plan = sr_strategy_code rule \<and> tp_symbol plan = sr_symbol rule \<and>
      tp_option_type plan = sr_option_type rule \<and> wf_trade_plan plan)"

lemma evaluate_rule_ok: "evaluate_rule rule levels runtime = Inr plan \<longleftrightarrow> plan_of rule levels runtime plan"
  unfolding evaluate_rule_def plan_of_def Let_def bindE_eq_Inr mk_trade_plan_ok
  by (cases plan) auto

lemma build_order_intent_ok: "build_order_intent plan lot = Inr i \<longleftrightarrow> 0 < lot \<and> tp_option_type plan \<noteq> None \<and>
    i = \<lparr>oi2_strategy_code = tp_strategy_code plan, oi2_symbol = tp_symbol plan,
        oi2_option_type = tp_option_type plan, oi2_side = SELL, oi2_quantity = lot, oi2_order_type = MARKET,
        oi2_product_type = MIS, oi2_reference_price = tp_entry_price plan,
        oi2_reason = ''Planned options-sell entry intent from TradePlan''\<rparr> \<and>
    strip (tp_strategy_code plan) \<noteq> [] \<and> strip (tp_symbol plan) \<noteq> [] \<and> 0 \<le> tp_entry_price plan"
proof -
  have "strip ''Planned options-sell entry intent from TradePlan'' = ''Planned options-sell entry intent from TradePlan''"
    by (rule strip_fixed) (simp add: is_space_def)
  then have "strip ''Planned options-sell entry intent from TradePlan'' \<noteq> []" by simp
  moreover have "o' \<in> {Some CALL, Some PUT} \<longleftrightarrow> o' \<noteq> None" for o' :: "option_type option"
  proof (cases o')
    case (Some t)
    then show ?thesis by (cases t) simp_all
  qed simp
  ultimately show ?thesis by (auto simp: build_order_intent_def mk_order_intent_ok)
qed

lemma offline_pipeline_ok: "offline_pipeline policy rule levels runtime lot trades = Inr r \<longleftrightarrow>
    plan_of rule levels runtime (pl_trade_plan r) \<and> build_order_intent (pl_trade_plan r) lot = Inr (pl_order_intent r) \<and>
    pl_risk_decision r = evaluate_order policy (pl_order_intent r) trades"
proof -
  obtain plan i rd where r: "r = \<lparr>pl_trade_plan = plan, pl_order_intent = i, pl_risk_decision = rd\<rparr>" by (cases r)
  show ?thesis unfolding offline_pipeline_def bindE_eq_Inr evaluate_rule_ok r by auto
qed

lemma plan_ofD: "plan_of rule levels runtime plan \<Longrightarrow> tp_option_type plan = sr_option_type rule \<and>
    strip (tp_strategy_code plan) \<noteq> [] \<and> strip (tp_symbol plan) \<noteq> [] \<and> 0 \<le> tp_entry_price plan"
  by (auto simp: plan_of_def Let_def wf_trade_plan_def)

section \<open>Properties\<close>

text \<open>
  The offline pipeline approves an order exactly when the seven formulas of the rule give
  a valid trade plan (target and stop-loss evaluated with the entry just computed), the rule
  is for an option, the lot size is positive and within the bound of the policy, the day's
  trade count is below its bound and short options are allowed; the intent is then a market
  sell of the lot size at the planned entry.
\<close>
theorem pipeline_approves_iff:
  "(\<exists>r. offline_pipeline policy rule levels runtime lot trades = Inr r \<and> rd_approved (pl_risk_decision r) \<and>
      pl_trade_plan r = plan \<and> oi2_side (pl_order_intent r) = SELL \<and> oi2_quantity (pl_order_intent r) = lot \<and>
      oi2_reference_price (pl_order_intent r) = tp_entry_price plan) \<longleftrightarrow>
    plan_of rule levels runtime plan \<and> sr_option_type rule \<noteq> None \<and> 0 < lot \<and>
    lot \<le> rp_max_lots_per_trade policy \<and> trades < rp_max_trades_per_day policy \<and> rp_allow_short_options policy"
  (is "?lhs \<longleftrightarrow> ?rhs")
proof
  assume ?lhs
  then obtain r where "offline_pipeline policy rule levels runtime lot trades = Inr r"
    and "rd_approved (pl_risk_decision r)" and p: "pl_trade_plan r = plan" by blast
  then have r: "plan_of rule levels runtime plan"
    and i: "build_order_intent plan lot = Inr (pl_order_intent r)"
    and approved: "rd_approved (evaluate_order policy (pl_order_intent r) trades)"
    unfolding offline_pipeline_ok by simp_all
  from i have "oi2_quantity (pl_order_intent r) = lot" "oi2_side (pl_order_intent r) = SELL"
    "oi2_option_type (pl_order_intent r) = tp_option_type plan" "tp_option_type plan \<noteq> None" "0 < lot"
    unfolding build_order_intent_ok by (metis order_intent.select_convs)+
  with r approved show ?rhs by (auto simp: evaluate_order_approved dest: plan_ofD)
next
  assume ?rhs
  then obtain i where i: "build_order_intent plan lot = Inr i"
    using plan_ofD [of rule levels runtime plan] by (auto simp: build_order_intent_ok)
  with \<open>?rhs\<close> show ?lhs
    by (intro exI [of _ "\<lparr>pl_trade_plan = plan, pl_order_intent = i, pl_risk_decision = evaluate_order policy i trades\<rparr>"])
      (auto simp: offline_pipeline_ok build_order_intent_ok evaluate_order_approved)
qed

text \<open>
  Whatever the rule, the levels and the runtime values, the pipeline returns or raises one
  of the documented errors: a formula or type error of the engine or the \<^verbatim>\<open>ValueError\<close> of a
  rejected plan or intent.
\<close>
theorem pipeline_errors:
  "case offline_pipeline policy rule levels runtime lot trades of
     Inr r \<Rightarrow> rd_reason (pl_risk_decision r) \<noteq> []
   | Inl e \<Rightarrow> is_formula_error e \<or> (\<exists>m. e = ValueError m)"
proof (cases "offline_pipeline policy rule levels runtime lot trades")
  case (Inl e)
  have check: "check_all cs = Inl e \<Longrightarrow> Inl e \<in> set cs" for cs :: "unit res list" and e
    by (induction cs) (auto simp: bindE_eq_Inl)
  have plan: "mk_trade_plan p = Inl e \<Longrightarrow> \<exists>m. e = ValueError m" for p e
    by (auto simp: mk_trade_plan_def bindE_eq_Inl validate_optional_price_def guardE_eq_Inl
        dest!: check split: option.splits)
  have intent: "build_order_intent p lot = Inl e \<Longrightarrow> \<exists>m. e = ValueError m" for p e
    by (auto simp: build_order_intent_def mk_order_intent_def bindE_eq_Inl guardE_eq_Inl dest!: check split: if_splits)
  from Inl show ?thesis
    by (auto simp: offline_pipeline_def evaluate_rule_def Let_def bindE_eq_Inl
        dest: evaluate_formula_errors plan intent)
next
  case (Inr r)
  then show ?thesis by (auto simp: offline_pipeline_def bindE_eq_Inr evaluate_order_def Let_def)
qed

text \<open>
  The flag \<^verbatim>\<open>paper_only\<close> is only reported: it never changes whether an order is approved.
\<close>
theorem paper_only_not_enforced:
  "rd_approved (evaluate_order (p\<lparr>rp_paper_only := b\<rparr>) i n) = rd_approved (evaluate_order p i n) \<and>
   rd_reason (evaluate_order (p\<lparr>rp_paper_only := b\<rparr>) i n) = rd_reason (evaluate_order p i n)"
  by (auto simp: evaluate_order_def Let_def)

end
