(* ===== verification/NormalizedEvents.thy ===== *)
theory NormalizedEvents
  imports Domain
begin

text \<open>
  The market events of \<^verbatim>\<open>src/tfis/normalized_events.py\<close> the order and position components
  read: the envelope (prefix \<open>en_\<close>), the quote (\<open>sq_\<close>) and the bar (\<open>sb_\<close>) of the selected
  contract, the option chain (\<open>ch_\<close>) with its contracts (\<open>oc_\<close>), and the trade plan (\<open>te_\<close>).
\<close>

datatype paper_event_type =
    UNDERLYING_QUOTE | UNDERLYING_SNAPSHOT | OPTION_CHAIN_SNAPSHOT | SELECTED_CONTRACT_QUOTE
  | SELECTED_CONTRACT_BAR | CALENDAR_CONTEXT | MONTHLY_STATUS_INPUT | PAPER_SESSION_CONFIG
  | COST_SLIPPAGE_SETTINGS | TRADE_PLAN_INPUT

record event_envelope =
  en_event_type :: paper_event_type
  en_session_date :: date
  en_effective_timestamp :: datetime
  en_captured_at :: datetime
  en_timezone :: string
  en_source_type :: string
  en_source_id :: string
  en_synthetic_fixture :: bool
  en_normalized_by :: string
  en_source_sequence :: "int option"
  en_data_quality_flags :: "string list"
  en_integrity_hash :: "string option"

record selected_quote =
  sq_envelope :: event_envelope
  sq_symbol :: string
  sq_option_type :: "option_type option"
  sq_strike :: "price option"
  sq_expiry :: "date option"
  sq_bid :: "price option"
  sq_ask :: "price option"
  sq_ltp :: "price option"
  sq_oi :: "price option"
  sq_volume :: "price option"

record selected_bar =
  sb_envelope :: event_envelope
  sb_symbol :: string
  sb_open :: "price option"
  sb_high :: "price option"
  sb_low :: "price option"
  sb_close :: "price option"
  sb_bar_start :: datetime
  sb_bar_end :: datetime
  sb_volume :: "price option"

record option_contract =
  oc_symbol :: string
  oc_option_type :: "option_type option"
  oc_strike :: "price option"
  oc_expiry :: "date option"
  oc_bid :: "price option"
  oc_ask :: "price option"
  oc_ltp :: "price option"
  oc_oi :: "price option"
  oc_volume :: "price option"

record option_chain =
  ch_envelope :: event_envelope
  ch_underlying_symbol :: string
  ch_expiry :: date
  ch_contracts :: "option_contract list"

record trade_plan_event =
  te_envelope :: event_envelope
  te_strategy_branch :: string
  te_order_side :: string
  te_lots :: "int option"
  te_quantity :: "int option"
  te_planned_entry_price :: "price option"
  te_target_price :: "price option"
  te_stoploss_price :: "price option"
  te_order_reference_time :: "datetime option"
  te_order_reference_label :: string
  te_start_strike :: "price option"
  te_end_strike :: "price option"
  te_ideal_premium :: "price option"
  te_minimum_premium :: "price option"
  te_source_workbook_rule :: "string option"
  te_workbook_row_number :: "int option"
  te_fsl_price :: "price option"

datatype selected_event = QuoteEvent selected_quote | BarEvent selected_bar

fun event_envelope_of :: "selected_event \<Rightarrow> event_envelope" where
  "event_envelope_of (QuoteEvent q) = sq_envelope q"
| "event_envelope_of (BarEvent b) = sb_envelope b"

fun event_symbol :: "selected_event \<Rightarrow> string" where
  "event_symbol (QuoteEvent q) = sq_symbol q"
| "event_symbol (BarEvent b) = sb_symbol b"

end
