(* ===== verification/PaperOrders.thy ===== *)
theory PaperOrders
  imports NormalizedEvents Calendar "HOL-Library.Product_Lexorder"
begin

text \<open>
  \<^verbatim>\<open>src/tfis/paper/order_state.py\<close> and \<^verbatim>\<open>order_finalizer.py\<close>: the paper sell order that waits
  for its entry trigger, its evaluation against the market events of the selected contract,
  and the finaliser that closes untriggered orders after the session cutoff. The JSON text of
  the files is not modelled: a directory holds the record, reading it back applies
  \<^verbatim>\<open>_parse_strategy_parameters\<close>. Fields of \<^verbatim>\<open>PaperOrderState\<close> carry the prefix \<open>os_\<close>, of
  \<^verbatim>\<open>PaperOrderEvent\<close> \<open>oe_\<close>, of \<^verbatim>\<open>PaperOrderDecisionIntent\<close> \<open>oi_\<close>.
\<close>

section \<open>Statuses\<close>

datatype paper_order_status = WAITING_FOR_TRIGGER | ORDER_FILLED | ORDER_NOT_FILLED

fun paper_order_status_value :: "paper_order_status \<Rightarrow> string" where
  "paper_order_status_value WAITING_FOR_TRIGGER = ''PAPER_ORDER_WAITING_FOR_TRIGGER''"
| "paper_order_status_value ORDER_FILLED = ''PAPER_ORDER_FILLED''"
| "paper_order_status_value ORDER_NOT_FILLED = ''PAPER_ORDER_NOT_FILLED''"

text \<open>The argument \<^verbatim>\<open>PaperOrderStatus | str | None\<close>.\<close>

datatype paper_status_arg = OStatus paper_order_status | OText string | ONoStatus

fun normalized_order_status_value :: "paper_status_arg \<Rightarrow> string" where
  "normalized_order_status_value (OStatus s) = paper_order_status_value s"
| "normalized_order_status_value (OText t) = strip t"
| "normalized_order_status_value ONoStatus = []"

definition paper_order_is_waiting_for_trigger :: "paper_status_arg \<Rightarrow> bool" where
  "paper_order_is_waiting_for_trigger a \<longleftrightarrow>
     normalized_order_status_value a = paper_order_status_value WAITING_FOR_TRIGGER"

definition paper_order_is_terminal :: "paper_status_arg \<Rightarrow> bool" where
  "paper_order_is_terminal a \<longleftrightarrow> normalized_order_status_value a \<in>
     {paper_order_status_value ORDER_FILLED, paper_order_status_value ORDER_NOT_FILLED}"

definition paper_order_trade_event_type :: "paper_status_arg \<Rightarrow> string" where
  "paper_order_trade_event_type a = (let n = normalized_order_status_value a in
     if n = paper_order_status_value ORDER_NOT_FILLED then ''ORDER_NOT_FILLED''
     else if n = paper_order_status_value WAITING_FOR_TRIGGER then ''ORDER_WAITING''
     else if n \<noteq> [] then n else ''ORDER'')"

definition paper_order_trade_lifecycle_status :: "paper_status_arg \<Rightarrow> string" where
  "paper_order_trade_lifecycle_status a = (let n = normalized_order_status_value a in
     if n = paper_order_status_value ORDER_NOT_FILLED then ''ORDER_NOT_FILLED''
     else if n = paper_order_status_value WAITING_FOR_TRIGGER then ''ORDER_WAITING_FOR_TRIGGER''
     else n)"

definition paper_order_visible_in_trade_monitor :: "paper_status_arg \<Rightarrow> bool" where
  "paper_order_visible_in_trade_monitor a \<longleftrightarrow> normalized_order_status_value a \<in>
     {paper_order_status_value WAITING_FOR_TRIGGER, paper_order_status_value ORDER_NOT_FILLED}"

definition paper_order_watchable_for_session :: "paper_status_arg \<Rightarrow> date \<Rightarrow> date \<Rightarrow> bool" where
  "paper_order_watchable_for_session a entry_date effective_session_date \<longleftrightarrow>
     paper_order_is_waiting_for_trigger a \<and> entry_date = effective_session_date"

definition paper_order_visible_for_latest_session :: "paper_status_arg \<Rightarrow> date option \<Rightarrow> date option \<Rightarrow> bool" where
  "paper_order_visible_for_latest_session a entry_date latest =
     (if \<not> paper_order_visible_in_trade_monitor a then False
      else if latest = None then True else entry_date = latest)"

section \<open>State and events\<close>

record paper_order_state =
  os_artifact_version :: int
  os_strategy_code :: string
  os_strategy_branch :: string
  os_symbol :: string
  os_selected_contract_symbol :: string
  os_selected_contract_expiry :: date
  os_selected_contract_option_type :: string
  os_selected_contract_strike :: "price option"
  os_expiry_type :: string
  os_rollover_policy :: string
  os_forced_close_time :: "time_of_day option"
  os_no_carry_past_expiry :: bool
  os_order_side :: string
  os_trigger_rule :: string
  os_entry_date :: date
  os_order_timestamp :: datetime
  os_planned_entry_price :: price
  os_target_price :: price
  os_stoploss_price :: price
  os_fsl_price :: "price option"
  os_lots :: int
  os_quantity :: int
  os_status :: paper_order_status
  os_last_updated_timestamp :: datetime
  os_fill_price :: "price option"
  os_fill_timestamp :: "datetime option"
  os_fill_source_kind :: "string option"
  os_fill_source_id :: "string option"
  os_fill_source_effective_timestamp :: "datetime option"
  os_last_market_price :: "price option"
  os_last_market_bid :: "price option"
  os_last_market_ask :: "price option"
  os_last_market_low :: "price option"
  os_last_market_high :: "price option"
  os_last_reason_code :: "string option"
  os_last_message :: "string option"
  os_provenance_source_ids :: "string list"
  os_strategy_parameters :: "(string, price) dict option"
  os_stoploss_reset_buffer_pct :: "price option"
  os_stoploss_reset_orpt_time :: "time_of_day option"
  os_stoploss_reset_rc_time :: "time_of_day option"

record paper_order_event =
  oe_artifact_version :: int
  oe_timestamp :: datetime
  oe_session_date :: date
  oe_status :: paper_order_status
  oe_selected_contract_symbol :: string
  oe_planned_entry_price :: price
  oe_reason_code :: string
  oe_message :: string
  oe_source_kind :: "string option"
  oe_source_id :: "string option"
  oe_source_effective_timestamp :: "datetime option"
  oe_fill_price :: "price option"
  oe_market_price :: "price option"
  oe_bid :: "price option"
  oe_ask :: "price option"
  oe_low :: "price option"
  oe_high :: "price option"

record paper_order_directory =
  od_path :: string
  od_order :: "paper_order_state option"
  od_log :: "paper_order_event list"

definition save_paper_order :: "paper_order_state \<Rightarrow> paper_order_directory \<Rightarrow> paper_order_directory" where
  "save_paper_order s d = d\<lparr>od_order := Some s\<rparr>"

definition append_paper_order_event :: "paper_order_event \<Rightarrow> paper_order_directory \<Rightarrow> paper_order_directory" where
  "append_paper_order_event e d = d\<lparr>od_log := od_log d @ [e]\<rparr>"

fun normalize_order_parameters :: "(string, price) dict \<Rightarrow> (string, price) dict \<Rightarrow> (string, price) dict res" where
  "normalize_order_parameters acc [] = Inr acc"
| "normalize_order_parameters acc ((k, v) # rest) =
     (if strip k = [] then Inl (PaperOrderStateError [Txt ''strategy_parameters keys must be non-empty strings''])
      else normalize_order_parameters (AList.update (strip k) v acc) rest)"

definition order_strategy_parameters :: "(string, price) dict option \<Rightarrow> (string, price) dict option res" where
  "order_strategy_parameters ps = (case ps of None \<Rightarrow> Inr None | Some [] \<Rightarrow> Inr None
     | Some xs \<Rightarrow> bindE (normalize_order_parameters [] xs) (\<lambda>ys. Inr (Some ys)))"

definition load_paper_order :: "paper_order_directory \<Rightarrow> paper_order_state res" where
  "load_paper_order d = (case od_order d of
     None \<Rightarrow> Inl (PaperOrderStateError [Txt ''Missing paper order state: '', Txt (od_path d)])
   | Some s \<Rightarrow> bindE (order_strategy_parameters (os_strategy_parameters s)) (\<lambda>ps.
       Inr (s\<lparr>os_strategy_parameters := ps\<rparr>)))"

section \<open>Creating the order\<close>

record decision_intent =
  oi_status :: string
  oi_session_date :: date
  oi_strategy_code :: string
  oi_strategy_branch :: string
  oi_lots :: int
  oi_quantity :: int
  oi_selected_contract_symbol :: "string option"
  oi_selected_contract_expiry :: "date option"
  oi_selected_contract_strike :: "price option"
  oi_selected_contract_option_type :: "string option"
  oi_planned_entry_price :: "price option"
  oi_target_price :: "price option"
  oi_stoploss_price :: "price option"
  oi_fsl_price :: "price option"

fun join_comma :: "string list \<Rightarrow> string" where
  "join_comma [] = []"
| "join_comma [x] = x"
| "join_comma (x # y # xs) = x @ '', '' @ join_comma (y # xs)"

definition missing_intent_fields :: "decision_intent \<Rightarrow> string list" where
  "missing_intent_fields i = map fst (filter snd
     [(''selected_contract_symbol'', oi_selected_contract_symbol i = None),
      (''selected_contract_expiry'', oi_selected_contract_expiry i = None),
      (''selected_contract_option_type'', oi_selected_contract_option_type i = None),
      (''planned_entry_price'', oi_planned_entry_price i = None),
      (''target_price'', oi_target_price i = None), (''stoploss_price'', oi_stoploss_price i = None)])"

definition validate_ready_intent :: "decision_intent \<Rightarrow> unit res" where
  "validate_ready_intent i =
     (if oi_status i \<noteq> ''READY'' then Inl (PaperOrderStateError
        [Txt ''Cannot create paper order from decision status '', PyRepr (oi_status i), Txt ''.''])
      else if missing_intent_fields i \<noteq> [] then Inl (PaperOrderStateError
        [Txt ''Cannot create paper order; decision summary is missing '', Txt (join_comma (missing_intent_fields i))])
      else Inr ())"

definition waiting_order_state ::
  "strategy_rule \<Rightarrow> decision_intent \<Rightarrow> datetime \<Rightarrow> string list \<Rightarrow> (string, price) dict option \<Rightarrow> paper_order_state" where
  "waiting_order_state r i t prov params = \<lparr>
     os_artifact_version = 1, os_strategy_code = oi_strategy_code i, os_strategy_branch = oi_strategy_branch i,
     os_symbol = sr_symbol r, os_selected_contract_symbol = the (oi_selected_contract_symbol i),
     os_selected_contract_expiry = the (oi_selected_contract_expiry i),
     os_selected_contract_option_type = the (oi_selected_contract_option_type i),
     os_selected_contract_strike = oi_selected_contract_strike i,
     os_expiry_type = expiry_type_value (ep_expiry_type (sr_expiry_policy r)),
     os_rollover_policy = rollover_policy_value (ep_rollover_policy (sr_expiry_policy r)),
     os_forced_close_time = ep_forced_close_time (sr_expiry_policy r),
     os_no_carry_past_expiry = ep_no_carry_past_expiry (sr_expiry_policy r), os_order_side = ''SELL'',
     os_trigger_rule = ''SELL_TRIGGER_WHEN_PREMIUM_AT_OR_BELOW_ENTRY'', os_entry_date = oi_session_date i,
     os_order_timestamp = t, os_planned_entry_price = the (oi_planned_entry_price i),
     os_target_price = the (oi_target_price i), os_stoploss_price = the (oi_stoploss_price i),
     os_fsl_price = oi_fsl_price i, os_lots = oi_lots i, os_quantity = oi_quantity i,
     os_status = WAITING_FOR_TRIGGER, os_last_updated_timestamp = t, os_fill_price = None,
     os_fill_timestamp = None, os_fill_source_kind = None, os_fill_source_id = None,
     os_fill_source_effective_timestamp = None, os_last_market_price = None, os_last_market_bid = None,
     os_last_market_ask = None, os_last_market_low = None, os_last_market_high = None,
     os_last_reason_code = Some ''paper_order_waiting_for_entry_trigger'',
     os_last_message = Some ''READY decision created a paper sell order. The position will open only after selected option premium trades at or below entry.'',
     os_provenance_source_ids = prov, os_strategy_parameters = params,
     os_stoploss_reset_buffer_pct = map_of (sr_parameters r) ''sl_reference_pct'',
     os_stoploss_reset_orpt_time = Some (sr_entry_time r), os_stoploss_reset_rc_time = Some (sr_recalculation_time r)\<rparr>"

definition plain_order_event :: "paper_order_state \<Rightarrow> datetime \<Rightarrow> paper_order_status \<Rightarrow> string \<Rightarrow> string \<Rightarrow> paper_order_event" where
  "plain_order_event s t st reason m = \<lparr>oe_artifact_version = 1, oe_timestamp = t, oe_session_date = os_entry_date s,
     oe_status = st, oe_selected_contract_symbol = os_selected_contract_symbol s,
     oe_planned_entry_price = os_planned_entry_price s, oe_reason_code = reason, oe_message = m,
     oe_source_kind = None, oe_source_id = None, oe_source_effective_timestamp = None, oe_fill_price = None,
     oe_market_price = None, oe_bid = None, oe_ask = None, oe_low = None, oe_high = None\<rparr>"

definition create_waiting_order ::
  "strategy_rule \<Rightarrow> decision_intent \<Rightarrow> datetime \<Rightarrow> string list \<Rightarrow> paper_order_directory \<Rightarrow>
   (paper_order_state \<times> paper_order_directory) res" where
  "create_waiting_order r i t prov d =
     bindE (validate_ready_intent i) (\<lambda>_.
     bindE (order_strategy_parameters (Some (sr_parameters r))) (\<lambda>params.
     let s = waiting_order_state r i t prov params;
         e = plain_order_event s t (os_status s) (the (os_last_reason_code s)) (the (os_last_message s))
     in Inr (s, append_paper_order_event e (save_paper_order s d))))"

section \<open>One market event\<close>

definition evaluate_quote :: "paper_order_state \<Rightarrow> selected_quote \<Rightarrow> paper_order_state \<times> paper_order_event" where
  "evaluate_quote s q =
     (let t = en_effective_timestamp (sq_envelope q);
          market_price = or_else (sq_ltp q) (sq_bid q);
          triggered = (case market_price of None \<Rightarrow> False | Some p \<Rightarrow> p \<le> os_planned_entry_price s);
          fill_price = (if triggered then or_else (sq_bid q) market_price else None);
          status = (if triggered then ORDER_FILLED else WAITING_FOR_TRIGGER);
          reason = (if triggered then ''paper_order_filled_from_quote_entry_trigger'' else ''paper_order_waiting_quote_above_entry'');
          m = (if triggered
            then ''Selected option premium traded at or below entry, so the paper sell order was filled.''
            else ''Selected option premium is still above entry; the paper sell order remains waiting.'')
      in (s\<lparr>os_status := status, os_last_updated_timestamp := t,
            os_fill_price := (if triggered then fill_price else os_fill_price s),
            os_fill_timestamp := (if triggered then Some t else os_fill_timestamp s),
            os_fill_source_kind := (if triggered then Some ''selected_contract_quote'' else os_fill_source_kind s),
            os_fill_source_id := (if triggered then Some (en_source_id (sq_envelope q)) else os_fill_source_id s),
            os_fill_source_effective_timestamp := (if triggered then Some t else os_fill_source_effective_timestamp s),
            os_last_market_price := market_price, os_last_market_bid := sq_bid q, os_last_market_ask := sq_ask q,
            os_last_market_low := None, os_last_market_high := None,
            os_last_reason_code := Some reason, os_last_message := Some m\<rparr>,
          (plain_order_event s t status reason m)\<lparr>oe_source_kind := Some ''selected_contract_quote'',
            oe_source_id := Some (en_source_id (sq_envelope q)), oe_source_effective_timestamp := Some t,
            oe_fill_price := fill_price, oe_market_price := market_price, oe_bid := sq_bid q, oe_ask := sq_ask q\<rparr>))"

definition evaluate_bar :: "paper_order_state \<Rightarrow> selected_bar \<Rightarrow> paper_order_state \<times> paper_order_event" where
  "evaluate_bar s b =
     (let t = sb_bar_end b; eff = en_effective_timestamp (sb_envelope b);
          triggered = (case sb_low b of None \<Rightarrow> False | Some p \<Rightarrow> p \<le> os_planned_entry_price s);
          status = (if triggered then ORDER_FILLED else WAITING_FOR_TRIGGER);
          fill_price = (if triggered then Some (os_planned_entry_price s) else None);
          reason = (if triggered then ''paper_order_filled_from_bar_entry_trigger'' else ''paper_order_waiting_bar_low_above_entry'');
          m = (if triggered
            then ''Selected option bar low reached entry, so the paper sell order was filled.''
            else ''Selected option bar low stayed above entry; the paper sell order remains waiting.'')
      in (s\<lparr>os_status := status, os_last_updated_timestamp := t,
            os_fill_price := (if triggered then fill_price else os_fill_price s),
            os_fill_timestamp := (if triggered then Some t else os_fill_timestamp s),
            os_fill_source_kind := (if triggered then Some ''selected_contract_bar'' else os_fill_source_kind s),
            os_fill_source_id := (if triggered then Some (en_source_id (sb_envelope b)) else os_fill_source_id s),
            os_fill_source_effective_timestamp := (if triggered then Some eff else os_fill_source_effective_timestamp s),
            os_last_market_price := sb_close b, os_last_market_low := sb_low b, os_last_market_high := sb_high b,
            os_last_reason_code := Some reason, os_last_message := Some m\<rparr>,
          (plain_order_event s t status reason m)\<lparr>oe_source_kind := Some ''selected_contract_bar'',
            oe_source_id := Some (en_source_id (sb_envelope b)), oe_source_effective_timestamp := Some eff,
            oe_fill_price := fill_price, oe_market_price := sb_close b, oe_low := sb_low b, oe_high := sb_high b\<rparr>))"

fun evaluate_event :: "paper_order_state \<Rightarrow> selected_event \<Rightarrow> paper_order_state \<times> paper_order_event" where
  "evaluate_event s (QuoteEvent q) = evaluate_quote s q"
| "evaluate_event s (BarEvent b) = evaluate_bar s b"

section \<open>Evaluating and closing the order\<close>

definition event_order :: "selected_event \<Rightarrow> datetime \<times> datetime" where
  "event_order e = (en_effective_timestamp (event_envelope_of e), en_captured_at (event_envelope_of e))"

text \<open>The loop over the sorted events: the state, the last order event and whether it filled.\<close>

fun scan_market_events ::
  "paper_order_state \<Rightarrow> paper_order_event option \<Rightarrow> selected_event list \<Rightarrow> paper_order_state \<times> paper_order_event option" where
  "scan_market_events s last_event [] = (s, last_event)"
| "scan_market_events s last_event (e # es) =
     (if event_symbol e \<noteq> os_selected_contract_symbol s then scan_market_events s last_event es
      else let (s', oe) = evaluate_event s e in
        if os_status s' = ORDER_FILLED then (s', Some oe) else scan_market_events s' (Some oe) es)"

definition already_filled_event :: "paper_order_state \<Rightarrow> datetime \<Rightarrow> paper_order_event" where
  "already_filled_event s t = (plain_order_event s t (os_status s) ''paper_order_already_filled''
     ''Persisted S23 paper order is already filled.'')\<lparr>oe_fill_price := os_fill_price s\<rparr>"

definition evaluate_waiting_order ::
  "selected_event list \<Rightarrow> datetime \<Rightarrow> paper_order_directory \<Rightarrow>
   (paper_order_state \<times> paper_order_event \<times> paper_order_directory) res" where
  "evaluate_waiting_order market_events t d = bindE (load_paper_order d) (\<lambda>s.
     if os_status s = ORDER_FILLED then
       (let e = already_filled_event s t in Inr (s, e, append_paper_order_event e d))
     else
       case scan_market_events s None (sort_key event_order market_events) of
         (s', Some e) \<Rightarrow> Inr (s', e, append_paper_order_event e (save_paper_order s' d))
       | (s', None) \<Rightarrow>
           let e = plain_order_event s t WAITING_FOR_TRIGGER ''paper_order_waiting_no_selected_contract_quote''
                 ''No selected-contract market event was available, so the paper order remains waiting for the entry trigger.'';
               s'' = s'\<lparr>os_last_updated_timestamp := t, os_last_reason_code := Some (oe_reason_code e),
                        os_last_message := Some (oe_message e)\<rparr>
           in Inr (s'', e, append_paper_order_event e (save_paper_order s'' d)))"

definition mark_not_filled ::
  "datetime \<Rightarrow> string \<Rightarrow> string \<Rightarrow> paper_order_directory \<Rightarrow>
   (paper_order_state \<times> paper_order_event \<times> paper_order_directory) res" where
  "mark_not_filled t reason m d = bindE (load_paper_order d) (\<lambda>s.
     if os_status s = ORDER_FILLED then
       (let e = already_filled_event s t in Inr (s, e, append_paper_order_event e d))
     else
       let s' = s\<lparr>os_status := ORDER_NOT_FILLED, os_last_updated_timestamp := t,
             os_last_reason_code := Some reason, os_last_message := Some m\<rparr>;
           e = (plain_order_event s' t (os_status s') reason m)\<lparr>oe_market_price := os_last_market_price s',
             oe_bid := os_last_market_bid s', oe_ask := os_last_market_ask s',
             oe_low := os_last_market_low s', oe_high := os_last_market_high s'\<rparr>
       in Inr (s', e, append_paper_order_event e (save_paper_order s' d)))"

section \<open>Discovery and the finaliser\<close>

text \<open>
  The order directories below the artifact roots, in the sorted order the discovery lists
  them, each with its path; unreadable ones are skipped.
\<close>

type_synonym order_tree = "(string \<times> paper_order_directory) list"

definition find_paper_orders :: "order_tree \<Rightarrow> string option \<Rightarrow> (string \<times> paper_order_state) list" where
  "find_paper_orders tree strategy_code = concat (map (\<lambda>(path, d). case load_paper_order d of
     Inl _ \<Rightarrow> []
   | Inr s \<Rightarrow> (if strategy_code \<noteq> None \<and> norm_text (os_strategy_code s) \<noteq> norm_text (the strategy_code) then []
       else [(path, s)])) tree)"

record finalizer_args =
  fa_session_date :: date
  fa_marked_at :: datetime
  fa_cutoff_time :: time_of_day
  fa_include_prior_sessions :: bool
  fa_allow_before_cutoff :: bool
  fa_dry_run :: bool

record finalizer_decision =
  fd_order_directory :: string
  fd_selected_contract_symbol :: string
  fd_entry_date :: "date option"
  fd_previous_status :: "string option"
  fd_final_status :: "string option"
  fd_action :: string
  fd_reason_code :: string
  fd_message :: string

record finalizer_summary =
  fs_scanned_count :: nat
  fs_finalized_count :: nat
  fs_skipped_count :: nat
  fs_decisions :: "finalizer_decision list"

definition eligible_waiting_state :: "finalizer_args \<Rightarrow> bool \<Rightarrow> paper_order_state \<Rightarrow> string option" where
  "eligible_waiting_state a after_cutoff s =
     (if \<not> paper_order_is_waiting_for_trigger (OStatus (os_status s)) then Some ''paper_order_not_waiting_for_trigger''
      else if os_entry_date s > fa_session_date a then Some ''paper_order_entry_date_after_session''
      else if os_entry_date s < fa_session_date a \<and> \<not> fa_include_prior_sessions a
        then Some ''paper_order_prior_session_not_included''
      else if os_entry_date s = fa_session_date a \<and> \<not> after_cutoff \<and> \<not> fa_allow_before_cutoff a
        then Some ''paper_order_cutoff_not_reached''
      else None)"

definition isoformat_minutes :: "time_of_day \<Rightarrow> string" where
  "isoformat_minutes t = (let s = t div 1000000 in padded 2 (nat (s div 3600)) @ '':'' @ padded 2 (nat (s div 60 mod 60)))"

definition skip_message :: "finalizer_args \<Rightarrow> string \<Rightarrow> paper_order_state \<Rightarrow> string" where
  "skip_message a reason s =
     (if reason = ''paper_order_not_waiting_for_trigger''
      then ''Order status is '' @ paper_order_status_value (os_status s) @ ''; no waiting-order finalization is needed.''
      else if reason = ''paper_order_entry_date_after_session''
      then ''Order entry date '' @ isoformat_date (os_entry_date s) @ '' is after session '' @
        isoformat_date (fa_session_date a) @ ''.''
      else if reason = ''paper_order_prior_session_not_included''
      then ''Order entry date '' @ isoformat_date (os_entry_date s) @ '' is before session '' @
        isoformat_date (fa_session_date a) @ ''; rerun with include-prior to repair older stale orders.''
      else if reason = ''paper_order_cutoff_not_reached''
      then ''Session cutoff '' @ isoformat_minutes (fa_cutoff_time a) @ '' has not been reached.''
      else ''Order was skipped by the finalizer.'')"

definition finalize_message :: string where
  "finalize_message = ''Pending paper entry orders are session-only. The cutoff finalizer found this order still waiting after its entry session cutoff, so it was marked not filled instead of being carried forward.''"

definition finalize_reason :: "finalizer_args \<Rightarrow> paper_order_state \<Rightarrow> string" where
  "finalize_reason a s = (if os_entry_date s < fa_session_date a
     then ''paper_order_expired_untriggered_previous_session_sweeper''
     else ''paper_order_not_triggered_by_cutoff_sweeper'')"

definition finalizer_decision_of ::
  "string \<Rightarrow> paper_order_state \<Rightarrow> string \<Rightarrow> string \<Rightarrow> string \<Rightarrow> string \<Rightarrow> finalizer_decision" where
  "finalizer_decision_of path s final action reason m = \<lparr>fd_order_directory = path,
     fd_selected_contract_symbol = os_selected_contract_symbol s, fd_entry_date = Some (os_entry_date s),
     fd_previous_status = Some (paper_order_status_value (os_status s)), fd_final_status = Some final,
     fd_action = action, fd_reason_code = reason, fd_message = m\<rparr>"

definition finalize_order ::
  "finalizer_args \<Rightarrow> string \<times> paper_order_directory \<Rightarrow> (finalizer_decision option \<times> string \<times> paper_order_directory) res" where
  "finalize_order a = (\<lambda>(path, d). case load_paper_order d of
     Inl _ \<Rightarrow> Inr (None, path, d)
   | Inr s \<Rightarrow> (case eligible_waiting_state a (time_of (fa_marked_at a) \<ge> fa_cutoff_time a) s of
       Some reason \<Rightarrow> Inr (Some (finalizer_decision_of path s (paper_order_status_value (os_status s)) ''SKIPPED''
         reason (skip_message a reason s)), path, d)
     | None \<Rightarrow>
         if fa_dry_run a then Inr (Some (finalizer_decision_of path s (paper_order_status_value ORDER_NOT_FILLED)
           ''WOULD_FINALIZE'' (finalize_reason a s) finalize_message), path, d)
         else bindE (mark_not_filled (fa_marked_at a) (finalize_reason a s) finalize_message d) (\<lambda>(s', e, d').
           Inr (Some (finalizer_decision_of path s (paper_order_status_value (os_status s')) ''FINALIZED''
             (finalize_reason a s) finalize_message), path, d'))))"

definition finalize_orders :: "finalizer_args \<Rightarrow> order_tree \<Rightarrow> (finalizer_summary \<times> order_tree) res" where
  "finalize_orders a tree = bindE (mapE (finalize_order a) tree) (\<lambda>rows.
     let decisions = concat (map (\<lambda>(x, _). case x of None \<Rightarrow> [] | Some y \<Rightarrow> [y]) rows);
         finalized = length (filter (\<lambda>y. fd_action y \<in> {''FINALIZED'', ''WOULD_FINALIZE''}) decisions)
     in Inr (\<lparr>fs_scanned_count = length decisions, fs_finalized_count = finalized,
              fs_skipped_count = length decisions - finalized, fs_decisions = decisions\<rparr>, map snd rows))"

section \<open>One event, and the first that triggers\<close>

text \<open>The price that triggers the sell order, if the event has one.\<close>

fun trigger_price :: "selected_event \<Rightarrow> price option" where
  "trigger_price (QuoteEvent q) = or_else (sq_ltp q) (sq_bid q)"
| "trigger_price (BarEvent b) = sb_low b"

definition triggers :: "price \<Rightarrow> selected_event \<Rightarrow> bool" where
  "triggers entry e \<longleftrightarrow> (\<exists>p. trigger_price e = Some p \<and> p \<le> entry)"

text \<open>The price and time of the fill: the bid of a quote (its market price without one), the planned price for a bar.\<close>

fun fill_of :: "price \<Rightarrow> selected_event \<Rightarrow> price option \<times> datetime" where
  "fill_of entry (QuoteEvent q) = (or_else (sq_bid q) (sq_ltp q), en_effective_timestamp (sq_envelope q))"
| "fill_of entry (BarEvent b) = (Some entry, sb_bar_end b)"

lemma evaluate_event_status:
  "os_status (fst (evaluate_event s e)) = (if triggers (os_planned_entry_price s) e then ORDER_FILLED else WAITING_FOR_TRIGGER)"
  "oe_status (snd (evaluate_event s e)) = os_status (fst (evaluate_event s e))"
  by (cases e; simp add: evaluate_quote_def evaluate_bar_def Let_def triggers_def plain_order_event_def split: option.splits)+

lemma evaluate_event_keeps [simp]:
  "os_selected_contract_symbol (fst (evaluate_event s e)) = os_selected_contract_symbol s"
  "os_planned_entry_price (fst (evaluate_event s e)) = os_planned_entry_price s"
  "os_strategy_parameters (fst (evaluate_event s e)) = os_strategy_parameters s"
  by (cases e; simp add: evaluate_quote_def evaluate_bar_def Let_def)+

lemma evaluate_event_fill:
  "triggers (os_planned_entry_price s) e \<Longrightarrow>
     (os_fill_price (fst (evaluate_event s e)), the (os_fill_timestamp (fst (evaluate_event s e)))) = fill_of (os_planned_entry_price s) e \<and>
     os_fill_timestamp (fst (evaluate_event s e)) \<noteq> None"
  "\<not> triggers (os_planned_entry_price s) e \<Longrightarrow> os_fill_price (fst (evaluate_event s e)) = os_fill_price s"
  by (cases e; auto simp: evaluate_quote_def evaluate_bar_def Let_def triggers_def or_else_def split: option.splits)+

text \<open>The first event of the contract that triggers the order.\<close>

definition first_trigger :: "paper_order_state \<Rightarrow> selected_event list \<Rightarrow> selected_event option" where
  "first_trigger s = find (\<lambda>e. event_symbol e = os_selected_contract_symbol s \<and> triggers (os_planned_entry_price s) e)"

definition follows_contract :: "paper_order_state \<Rightarrow> selected_event list \<Rightarrow> bool" where
  "follows_contract s es \<longleftrightarrow> (\<exists>e \<in> set es. event_symbol e = os_selected_contract_symbol s)"

lemma first_trigger_simps [simp]:
  "first_trigger s [] = None"
  "event_symbol e \<noteq> os_selected_contract_symbol s \<Longrightarrow> first_trigger s (e # es) = first_trigger s es"
  "event_symbol e = os_selected_contract_symbol s \<Longrightarrow> triggers (os_planned_entry_price s) e \<Longrightarrow> first_trigger s (e # es) = Some e"
  "\<not> triggers (os_planned_entry_price s) e \<Longrightarrow> first_trigger s (e # es) = first_trigger s es"
  by (simp_all add: first_trigger_def)

lemma first_trigger_evaluated [simp]: "first_trigger (fst (evaluate_event s e)) es = first_trigger s es"
  by (simp add: first_trigger_def)

lemma follows_contract_simps [simp]:
  "\<not> follows_contract s []"
  "follows_contract s (e # es) \<longleftrightarrow> event_symbol e = os_selected_contract_symbol s \<or> follows_contract s es"
  "follows_contract (fst (evaluate_event s e)) es \<longleftrightarrow> follows_contract s es"
  by (auto simp: follows_contract_def)

lemma scan_step:
  "event_symbol e \<noteq> os_selected_contract_symbol s \<Longrightarrow> scan_market_events s l (e # es) = scan_market_events s l es"
  "event_symbol e = os_selected_contract_symbol s \<Longrightarrow> triggers (os_planned_entry_price s) e \<Longrightarrow>
    scan_market_events s l (e # es) = (fst (evaluate_event s e), Some (snd (evaluate_event s e)))"
  "event_symbol e = os_selected_contract_symbol s \<Longrightarrow> \<not> triggers (os_planned_entry_price s) e \<Longrightarrow>
    scan_market_events s l (e # es) = scan_market_events (fst (evaluate_event s e)) (Some (snd (evaluate_event s e))) es"
  using evaluate_event_status [of s e] by (cases "evaluate_event s e"; simp)+

lemma scan_market_events_fills:
  assumes "first_trigger s es = Some x"
  shows "\<exists>s' e. scan_market_events s l es = (s', Some e) \<and> os_status s' = ORDER_FILLED \<and> oe_status e = ORDER_FILLED \<and>
    (os_fill_price s', the (os_fill_timestamp s')) = fill_of (os_planned_entry_price s) x \<and> os_fill_timestamp s' \<noteq> None"
  using assms
proof (induction es arbitrary: s l)
  case (Cons e es)
  consider (other) "event_symbol e \<noteq> os_selected_contract_symbol s"
    | (fills) "event_symbol e = os_selected_contract_symbol s" "triggers (os_planned_entry_price s) e"
    | (waits) "event_symbol e = os_selected_contract_symbol s" "\<not> triggers (os_planned_entry_price s) e" by blast
  then show ?case
  proof cases
    case other
    with Cons show ?thesis by (simp add: scan_step del: scan_market_events.simps(2))
  next
    case fills
    with Cons.prems have "x = e" by simp
    with fills show ?thesis using evaluate_event_fill(1) [OF fills(2)] by (simp add: scan_step evaluate_event_status del: scan_market_events.simps(2))
  next
    case waits
    with Cons.prems have "first_trigger (fst (evaluate_event s e)) es = Some x" by simp
    from Cons.IH [OF this] waits show ?thesis by (simp add: scan_step del: scan_market_events.simps(2))
  qed
qed simp

lemma scan_market_events_waits:
  assumes "first_trigger s es = None"
  shows "\<exists>s' l'. scan_market_events s l es = (s', l') \<and> os_fill_price s' = os_fill_price s \<and>
    (if follows_contract s es
     then os_status s' = WAITING_FOR_TRIGGER \<and> (\<exists>e. l' = Some e \<and> oe_status e = WAITING_FOR_TRIGGER)
     else s' = s \<and> l' = l)"
  using assms
proof (induction es arbitrary: s l)
  case (Cons e es)
  show ?case
  proof (cases "event_symbol e = os_selected_contract_symbol s")
    case False
    with Cons show ?thesis by (simp add: scan_step del: scan_market_events.simps(2))
  next
    case True
    with Cons.prems have no: "\<not> triggers (os_planned_entry_price s) e" by (auto simp: first_trigger_def)
    let ?s = "fst (evaluate_event s e)" and ?e = "snd (evaluate_event s e)"
    from no Cons.prems have "first_trigger ?s es = None" by simp
    from Cons.IH [OF this, of "Some ?e"] obtain s' l' where
      "scan_market_events ?s (Some ?e) es = (s', l')" "os_fill_price s' = os_fill_price ?s"
      "if follows_contract s es then os_status s' = WAITING_FOR_TRIGGER \<and> (\<exists>e. l' = Some e \<and> oe_status e = WAITING_FOR_TRIGGER)
        else s' = ?s \<and> l' = Some ?e" by auto
    then show ?thesis using True no evaluate_event_fill(2) [OF no] evaluate_event_status [of s e]
      by (cases "follows_contract s es") (simp_all add: scan_step del: scan_market_events.simps(2))
  qed
qed simp

section \<open>Runs of the store\<close>

datatype order_call = Evaluate "selected_event list" datetime | MarkNotFilled datetime string string

fun order_step :: "order_call \<Rightarrow> paper_order_directory \<Rightarrow> paper_order_directory res" where
  "order_step (Evaluate es t) d = bindE (evaluate_waiting_order es t d) (\<lambda>(_, _, d'). Inr d')"
| "order_step (MarkNotFilled t reason m) d = bindE (mark_not_filled t reason m d) (\<lambda>(_, _, d'). Inr d')"

lemma load_keeps_status: "load_paper_order d = Inr s \<Longrightarrow> \<exists>s0. od_order d = Some s0 \<and> os_status s = os_status s0 \<and>
    os_fill_price s = os_fill_price s0 \<and> os_selected_contract_symbol s = os_selected_contract_symbol s0 \<and>
    os_planned_entry_price s = os_planned_entry_price s0 \<and> os_entry_date s = os_entry_date s0"
  by (auto simp: load_paper_order_def bindE_eq_Inr split: option.splits)

lemma filled_step:
  assumes "load_paper_order d = Inr s" and "os_status s = ORDER_FILLED"
  shows "\<exists>e. order_step c d = Inr (append_paper_order_event e d) \<and> oe_status e = ORDER_FILLED \<and> oe_fill_price e = os_fill_price s"
proof -
  obtain t where "order_step c d = Inr (append_paper_order_event (already_filled_event s t) d)"
    using assms by (cases c) (simp_all add: evaluate_waiting_order_def mark_not_filled_def Let_def)
  moreover have "oe_status (already_filled_event s t) = ORDER_FILLED" "oe_fill_price (already_filled_event s t) = os_fill_price s"
    using assms(2) by (simp_all add: already_filled_event_def plain_order_event_def)
  ultimately show ?thesis by blast
qed

lemma load_append [simp]: "load_paper_order (append_paper_order_event e d) = load_paper_order d"
  by (simp add: load_paper_order_def append_paper_order_event_def split: option.splits)

lemma load_save_order: "load_paper_order (save_paper_order s d) =
    bindE (order_strategy_parameters (os_strategy_parameters s)) (\<lambda>ps. Inr (s\<lparr>os_strategy_parameters := ps\<rparr>))"
  by (simp add: load_paper_order_def save_paper_order_def)

section \<open>Properties\<close>

lemma evaluate_waiting_outcome:
  assumes "load_paper_order d = Inr s" and "os_status s \<noteq> ORDER_FILLED"
  shows "\<exists>s' e d'. evaluate_waiting_order es t d = Inr (s', e, d') \<and> od_order d' = Some s' \<and> od_log d' = od_log d @ [e] \<and>
    (case first_trigger s (sort_key event_order es) of
       Some x \<Rightarrow> os_status s' = ORDER_FILLED \<and> oe_status e = ORDER_FILLED \<and>
         (os_fill_price s', the (os_fill_timestamp s')) = fill_of (os_planned_entry_price s) x
     | None \<Rightarrow> os_status s' \<noteq> ORDER_FILLED \<and> oe_status e = WAITING_FOR_TRIGGER \<and> os_fill_price s' = os_fill_price s)"
proof (cases "first_trigger s (sort_key event_order es)")
  case (Some x)
  from scan_market_events_fills [OF this, of None] obtain s' e where
    "scan_market_events s None (sort_key event_order es) = (s', Some e)" "os_status s' = ORDER_FILLED" "oe_status e = ORDER_FILLED"
    "(os_fill_price s', the (os_fill_timestamp s')) = fill_of (os_planned_entry_price s) x" by blast
  with assms Some show ?thesis
    by (simp add: evaluate_waiting_order_def append_paper_order_event_def save_paper_order_def)
next
  case None
  from scan_market_events_waits [OF this, of None] obtain s' l' where
    scan: "scan_market_events s None (sort_key event_order es) = (s', l')" and price: "os_fill_price s' = os_fill_price s"
    and out: "if follows_contract s (sort_key event_order es)
      then os_status s' = WAITING_FOR_TRIGGER \<and> (\<exists>e. l' = Some e \<and> oe_status e = WAITING_FOR_TRIGGER) else s' = s \<and> l' = None" by blast
  show ?thesis
  proof (cases "follows_contract s (sort_key event_order es)")
    case True
    with out obtain e where "l' = Some e" "oe_status e = WAITING_FOR_TRIGGER" "os_status s' = WAITING_FOR_TRIGGER" by auto
    with assms None scan price show ?thesis
      by (simp add: evaluate_waiting_order_def append_paper_order_event_def save_paper_order_def)
  next
    case False
    with out have "s' = s" "l' = None" by simp_all
    with assms None scan show ?thesis
      by (simp add: evaluate_waiting_order_def Let_def append_paper_order_event_def save_paper_order_def plain_order_event_def)
  qed
qed

lemma untriggered_stays_waiting:
  assumes "load_paper_order d = Inr s" and "os_status s = WAITING_FOR_TRIGGER"
    and "first_trigger s (sort_key event_order es) = None" and "evaluate_waiting_order es t d = Inr (s', e, d')"
  shows "os_status s' = WAITING_FOR_TRIGGER \<and> oe_status e = WAITING_FOR_TRIGGER"
proof -
  from scan_market_events_waits [OF assms(3), of None] obtain u l where
    scan: "scan_market_events s None (sort_key event_order es) = (u, l)"
    and out: "if follows_contract s (sort_key event_order es)
      then os_status u = WAITING_FOR_TRIGGER \<and> (\<exists>e. l = Some e \<and> oe_status e = WAITING_FOR_TRIGGER) else u = s \<and> l = None" by blast
  show ?thesis
  proof (cases l)
    case None
    with out have "u = s" by (auto split: if_splits)
    with None scan assms(1,2,4) show ?thesis by (auto simp: evaluate_waiting_order_def Let_def plain_order_event_def)
  next
    case (Some x)
    with out have "os_status u = WAITING_FOR_TRIGGER" "oe_status x = WAITING_FOR_TRIGGER" by (auto split: if_splits)
    with Some scan assms(1,2,4) show ?thesis by (auto simp: evaluate_waiting_order_def)
  qed
qed

text \<open>
  C14: an order that is not filled is filled exactly by the first market event of its contract,
  in the order of effective and capture time, whose price (last traded or bid, a bar's low) is
  at or below the planned entry; it fills at the bid of that quote, or at the planned entry for a bar,
  also one that traded only below it, and at its time, and without such an event it is not filled and has no new fill price.
\<close>
theorem order_fills_at_first_trigger:
  assumes "load_paper_order d = Inr s" and "os_status s \<noteq> ORDER_FILLED"
  shows "\<exists>s' e d'. evaluate_waiting_order es t d = Inr (s', e, d') \<and> od_order d' = Some s' \<and> od_log d' = od_log d @ [e] \<and>
    (case first_trigger s (sort_key event_order es) of
       Some x \<Rightarrow> os_status s' = ORDER_FILLED \<and> oe_status e = ORDER_FILLED \<and>
         (os_fill_price s', the (os_fill_timestamp s')) = fill_of (os_planned_entry_price s) x
     | None \<Rightarrow> os_status s' \<noteq> ORDER_FILLED \<and> oe_status e = WAITING_FOR_TRIGGER \<and> os_fill_price s' = os_fill_price s)"
  by (rule evaluate_waiting_outcome [OF assms])

text \<open>
  A filled order is final: any sequence of evaluations and not-filled marks succeeds,
  leaves the state file as it is, and adds one event per call that reports the fill.
\<close>
theorem filled_order_is_final:
  assumes "load_paper_order d = Inr s" and "os_status s = ORDER_FILLED"
  shows "\<exists>d'. runE order_step cs d = Inr d' \<and> od_order d' = od_order d \<and>
    length (od_log d') = length (od_log d) + length cs \<and>
    list_all (\<lambda>e. oe_status e = ORDER_FILLED \<and> oe_fill_price e = os_fill_price s) (drop (length (od_log d)) (od_log d'))"
proof -
  have "\<exists>d' new. runE order_step cs d = Inr d' \<and> od_order d' = od_order d \<and> od_log d' = od_log d @ new \<and>
      length new = length cs \<and> list_all (\<lambda>e. oe_status e = ORDER_FILLED \<and> oe_fill_price e = os_fill_price s) new"
    using assms(1)
  proof (induction cs arbitrary: d)
    case (Cons c cs)
    from filled_step [OF Cons.prems assms(2), of c] obtain e where
      step: "order_step c d = Inr (append_paper_order_event e d)"
      and e: "oe_status e = ORDER_FILLED" "oe_fill_price e = os_fill_price s" by blast
    have "load_paper_order (append_paper_order_event e d) = Inr s" using Cons.prems by simp
    from Cons.IH [OF this] obtain d' new where
      "runE order_step cs (append_paper_order_event e d) = Inr d'" "od_order d' = od_order d"
      "od_log d' = od_log d @ e # new" "length new = length cs"
      "list_all (\<lambda>e. oe_status e = ORDER_FILLED \<and> oe_fill_price e = os_fill_price s) new"
      by (auto simp: append_paper_order_event_def)
    with step e show ?case by (intro exI [of _ d'] exI [of _ "e # new"]) simp
  qed simp
  then show ?thesis by auto
qed

text \<open>
  An order that was marked not filled, which the program calls terminal, is still
  evaluated like a waiting one: a later event at or below the entry price fills it.
\<close>
theorem not_filled_order_fills_later:
  assumes "load_paper_order d = Inr s" and "os_status s = ORDER_NOT_FILLED"
    and "event_symbol x = os_selected_contract_symbol s" and "triggers (os_planned_entry_price s) x"
  shows "paper_order_is_terminal (OStatus (os_status s)) \<and>
    (\<exists>s' e d'. evaluate_waiting_order [x] t d = Inr (s', e, d') \<and> od_order d' = Some s' \<and> os_status s' = ORDER_FILLED)"
proof -
  obtain s1 oe where ev: "evaluate_event s x = (s1, oe)" by (cases "evaluate_event s x")
  with evaluate_event_status(1) [of s x] assms(4) have "os_status s1 = ORDER_FILLED" by simp
  with ev assms show ?thesis
    by (simp add: evaluate_waiting_order_def save_paper_order_def append_paper_order_event_def paper_order_is_terminal_def)
qed

text \<open>
  A bar fill is booked at the planned entry price even when the whole bar traded below it:
  the fill price is then a price the contract did not reach in that bar.
\<close>
theorem bar_gap_fills_at_untraded_price:
  assumes "sb_high b = Some h" and "sb_low b = Some l" and "l \<le> h" and "h < os_planned_entry_price s"
  shows "os_fill_price (fst (evaluate_event s (BarEvent b))) = Some (os_planned_entry_price s) \<and>
    (\<exists>p. os_fill_price (fst (evaluate_event s (BarEvent b))) = Some p \<and> h < p)"
  using assms by (simp add: evaluate_bar_def Let_def)

lemma mark_not_filled_status:
  "load_paper_order d = Inr s \<Longrightarrow> os_status s \<noteq> ORDER_FILLED \<Longrightarrow>
   \<exists>s' e d'. mark_not_filled t reason m d = Inr (s', e, d') \<and> os_status s' = ORDER_NOT_FILLED \<and> od_order d' = Some s' \<and> od_path d' = od_path d"
  by (simp add: mark_not_filled_def Let_def save_paper_order_def append_paper_order_event_def)

lemma waiting_iff: "paper_order_is_waiting_for_trigger (OStatus st) \<longleftrightarrow> st = WAITING_FOR_TRIGGER"
  by (cases st) (simp_all add: paper_order_is_waiting_for_trigger_def)

definition still_waiting :: "date \<Rightarrow> paper_order_directory \<Rightarrow> bool" where
  "still_waiting session d = (case load_paper_order d of Inl _ \<Rightarrow> False
     | Inr s \<Rightarrow> os_status s = WAITING_FOR_TRIGGER \<and> os_entry_date s \<le> session)"

lemma finalize_order_total: "\<exists>y. finalize_order a x = Inr y"
  using mark_not_filled_status
  by (cases x) (auto simp: finalize_order_def eligible_waiting_state_def waiting_iff bindE_eq_Inr
      split: sum.splits option.splits if_splits; fastforce)

lemma finalize_order_closes:
  assumes "finalize_order a (path, d) = Inr (dec, path', d')" and "fa_include_prior_sessions a" and "\<not> fa_dry_run a"
    and "fa_cutoff_time a \<le> time_of (fa_marked_at a)"
  shows "path' = path \<and> \<not> still_waiting (fa_session_date a) d' \<and> (d' = d \<or> still_waiting (fa_session_date a) d)"
proof (cases "load_paper_order d")
  case (Inl e)
  with assms(1) show ?thesis by (auto simp: finalize_order_def still_waiting_def)
next
  case (Inr s)
  show ?thesis
  proof (cases "eligible_waiting_state a (time_of (fa_marked_at a) \<ge> fa_cutoff_time a) s")
    case (Some r)
    then have "\<not> (os_status s = WAITING_FOR_TRIGGER \<and> os_entry_date s \<le> fa_session_date a)"
      using assms(2,4) by (auto simp: eligible_waiting_state_def waiting_iff split: if_splits)
    with Some Inr assms(1) show ?thesis by (auto simp: finalize_order_def still_waiting_def)
  next
    case None
    then have w: "os_status s = WAITING_FOR_TRIGGER" "os_entry_date s \<le> fa_session_date a"
      by (auto simp: eligible_waiting_state_def waiting_iff split: if_splits)
    from mark_not_filled_status [OF Inr] w obtain s' e d1 where
      m: "mark_not_filled (fa_marked_at a) (finalize_reason a s) finalize_message d = Inr (s', e, d1)"
      "os_status s' = ORDER_NOT_FILLED" "od_order d1 = Some s'" by fastforce
    then have "d' = d1" "path' = path" using None Inr assms(1,3) by (auto simp: finalize_order_def)
    moreover have "\<not> still_waiting (fa_session_date a) d1"
      using m(2,3) by (auto simp: still_waiting_def dest: load_keeps_status split: sum.splits)
    ultimately show ?thesis using w Inr by (simp add: still_waiting_def)
  qed
qed

lemma mapE_total: "(\<And>x. \<exists>y. f x = Inr y) \<Longrightarrow> \<exists>ys. mapE f xs = Inr ys \<and> list_all2 (\<lambda>x y. f x = Inr y) xs ys"
proof (induction xs)
  case (Cons x xs)
  from Cons.prems obtain y where "f x = Inr y" by blast
  with Cons show ?case by fastforce
qed simp

text \<open>
  C15: the finaliser always returns; after the cutoff, with prior sessions included and no dry
  run, no order of the session or an earlier one is left waiting, the tree keeps its
  directories, and a directory that was not waiting is left untouched.
\<close>
theorem finalize_leaves_none_waiting:
  assumes "fa_include_prior_sessions a" and "\<not> fa_dry_run a" and "fa_cutoff_time a \<le> time_of (fa_marked_at a)"
  shows "\<exists>summary tree'. finalize_orders a tree = Inr (summary, tree') \<and> map fst tree' = map fst tree \<and>
    list_all (\<lambda>(path, d). \<not> still_waiting (fa_session_date a) d) tree' \<and>
    list_all2 (\<lambda>(path, d) (path', d'). d' = d \<or> still_waiting (fa_session_date a) d) tree tree'"
proof -
  from mapE_total [of "finalize_order a" tree, OF finalize_order_total] obtain rows where
    rows: "mapE (finalize_order a) tree = Inr rows" and all: "list_all2 (\<lambda>x y. finalize_order a x = Inr y) tree rows" by blast
  have "map fst (map snd rows) = map fst tree \<and>
      list_all (\<lambda>(path, d). \<not> still_waiting (fa_session_date a) d) (map snd rows) \<and>
      list_all2 (\<lambda>(path, d) (path', d'). d' = d \<or> still_waiting (fa_session_date a) d) tree (map snd rows)"
    using all
  proof (induction tree rows rule: list_all2_induct)
    case (Cons x xs y ys)
    obtain path d dec path' d' where xy: "x = (path, d)" "y = (dec, path', d')" by (cases x; cases y) auto
    with Cons finalize_order_closes [of a path d dec path' d'] assms show ?case by auto
  qed simp
  with rows show ?thesis by (simp add: finalize_orders_def Let_def)
qed

section \<open>A concrete order\<close>

definition demo_paper_order :: paper_order_state where
  "demo_paper_order = \<lparr>os_artifact_version = 1, os_strategy_code = ''S23'', os_strategy_branch = ''SELL_PE'',
     os_symbol = ''NIFTY'', os_selected_contract_symbol = ''NIFTY-PE'', os_selected_contract_expiry = 738886,
     os_selected_contract_option_type = ''PE'', os_selected_contract_strike = Some 24000, os_expiry_type = ''WEEKLY'',
     os_rollover_policy = ''NONE'', os_forced_close_time = None, os_no_carry_past_expiry = True, os_order_side = ''SELL'',
     os_trigger_rule = ''SELL_TRIGGER_WHEN_PREMIUM_AT_OR_BELOW_ENTRY'', os_entry_date = 738880,
     os_order_timestamp = (at_time 738880 0), os_planned_entry_price = 100, os_target_price = 40, os_stoploss_price = 130,
     os_fsl_price = None, os_lots = 1, os_quantity = 75, os_status = WAITING_FOR_TRIGGER,
     os_last_updated_timestamp = (at_time 738880 0), os_fill_price = None, os_fill_timestamp = None, os_fill_source_kind = None,
     os_fill_source_id = None, os_fill_source_effective_timestamp = None, os_last_market_price = None,
     os_last_market_bid = None, os_last_market_ask = None, os_last_market_low = None, os_last_market_high = None,
     os_last_reason_code = None, os_last_message = None, os_provenance_source_ids = [], os_strategy_parameters = None,
     os_stoploss_reset_buffer_pct = None, os_stoploss_reset_orpt_time = None, os_stoploss_reset_rc_time = None\<rparr>"

definition demo_order_directory :: "paper_order_state \<Rightarrow> paper_order_directory" where
  "demo_order_directory s = \<lparr>od_path = ''orders/1'', od_order = Some s, od_log = []\<rparr>"

definition demo_envelope :: event_envelope where
  "demo_envelope = \<lparr>en_event_type = SELECTED_CONTRACT_BAR, en_session_date = 738880, en_effective_timestamp = (at_time 738880 60),
     en_captured_at = (at_time 738880 61), en_timezone = ''Asia/Kolkata'', en_source_type = ''FIXTURE'', en_source_id = ''bar-1'',
     en_synthetic_fixture = True, en_normalized_by = ''test'', en_source_sequence = None, en_data_quality_flags = [],
     en_integrity_hash = None\<rparr>"

definition demo_bar :: selected_bar where
  "demo_bar = \<lparr>sb_envelope = demo_envelope, sb_symbol = ''NIFTY-PE'', sb_open = Some 95, sb_high = Some 96,
     sb_low = Some 90, sb_close = Some 92, sb_bar_start = (at_time 738880 0), sb_bar_end = (at_time 738880 60), sb_volume = None\<rparr>"

lemma demo_load [simp]: "load_paper_order (demo_order_directory (demo_paper_order\<lparr>os_status := st\<rparr>)) =
    Inr (demo_paper_order\<lparr>os_status := st\<rparr>)"
  by (simp add: load_paper_order_def demo_order_directory_def demo_paper_order_def order_strategy_parameters_def)

lemma order_fills_at_first_trigger_witness:
  "\<exists>s' e d'. evaluate_waiting_order [BarEvent demo_bar] (at_time 738880 70)
      (demo_order_directory (demo_paper_order\<lparr>os_status := WAITING_FOR_TRIGGER\<rparr>)) = Inr (s', e, d') \<and>
    od_order d' = Some s' \<and> os_status s' = ORDER_FILLED \<and> os_fill_price s' = Some 100"
proof -
  have "first_trigger (demo_paper_order\<lparr>os_status := WAITING_FOR_TRIGGER\<rparr>) (sort_key event_order [BarEvent demo_bar]) = Some (BarEvent demo_bar)"
    by (simp add: first_trigger_def triggers_def demo_paper_order_def demo_bar_def)
  with order_fills_at_first_trigger [OF demo_load [of WAITING_FOR_TRIGGER], of "[BarEvent demo_bar]" "(at_time 738880 70)"]
  show ?thesis by (fastforce simp: demo_paper_order_def)
qed

lemma filled_order_is_final_witness:
  "\<exists>d'. runE order_step [Evaluate [BarEvent demo_bar] (at_time 738880 70), MarkNotFilled (at_time 738880 80) ''cutoff'' ''late'']
      (demo_order_directory (demo_paper_order\<lparr>os_status := ORDER_FILLED\<rparr>)) = Inr d' \<and>
    od_order d' = od_order (demo_order_directory (demo_paper_order\<lparr>os_status := ORDER_FILLED\<rparr>))"
  using filled_order_is_final [OF demo_load [of ORDER_FILLED],
    of "[Evaluate [BarEvent demo_bar] (at_time 738880 70), MarkNotFilled (at_time 738880 80) ''cutoff'' ''late'']"] by auto

lemma not_filled_order_fills_later_witness:
  "\<exists>s' e d'. evaluate_waiting_order [BarEvent demo_bar] (at_time 738880 70)
      (demo_order_directory (demo_paper_order\<lparr>os_status := ORDER_NOT_FILLED\<rparr>)) = Inr (s', e, d') \<and> os_status s' = ORDER_FILLED"
  using not_filled_order_fills_later [OF demo_load [of ORDER_NOT_FILLED], of "BarEvent demo_bar" "(at_time 738880 70)"]
  by (auto simp: triggers_def demo_paper_order_def demo_bar_def)

lemma bar_gap_fills_at_untraded_price_witness:
  "os_fill_price (fst (evaluate_event demo_paper_order (BarEvent demo_bar))) = Some 100 \<and> sb_high demo_bar = Some 96"
  using bar_gap_fills_at_untraded_price [of demo_bar 96 90 demo_paper_order] by (simp add: demo_paper_order_def demo_bar_def)

definition demo_finalizer :: finalizer_args where
  "demo_finalizer = \<lparr>fa_session_date = 738880, fa_marked_at = at_time 738880 40000000000, fa_cutoff_time = 36000000000,
     fa_include_prior_sessions = True, fa_allow_before_cutoff = False, fa_dry_run = False\<rparr>"

lemma finalize_leaves_none_waiting_witness:
  "\<exists>summary tree'. finalize_orders demo_finalizer
      [(''orders/1'', demo_order_directory (demo_paper_order\<lparr>os_status := WAITING_FOR_TRIGGER\<rparr>))] = Inr (summary, tree') \<and>
    list_all (\<lambda>(path, d). \<not> still_waiting 738880 d) tree'"
  using finalize_leaves_none_waiting [of demo_finalizer "[(''orders/1'', demo_order_directory (demo_paper_order\<lparr>os_status := WAITING_FOR_TRIGGER\<rparr>))]"]
  by (auto simp: demo_finalizer_def time_of_def at_time_def us_per_day_def)

end
