(* ===== verification/ExpiryCalendar.thy ===== *)
theory ExpiryCalendar
  imports Domain Calendar
begin

text \<open>
  The calendar half of \<^verbatim>\<open>src/tfis/paper/expiry_governance.py\<close>: the protocol
  \<^verbatim>\<open>ExpiryCalendar\<close> (a record of its methods, \<open>ec_\<close>, and the locale of the laws its clients
  rely on) and \<^verbatim>\<open>DeterministicExpiryCalendar\<close> with its search loops, each with the proof
  that it ends. Dates are ordinals without bounds: where the code steps before year 1 or past year 9999
  Python raises \<^verbatim>\<open>OverflowError\<close> (or \<^verbatim>\<open>ValueError\<close> from the constructor), which is not modelled.
\<close>

section \<open>The deterministic calendar\<close>

type_synonym explicit_expiries = "((expiry_type \<times> date) \<times> date) list"

definition is_trading_day :: "date list \<Rightarrow> date \<Rightarrow> bool" where
  "is_trading_day holidays d \<longleftrightarrow> weekday d < 5 \<and> d \<notin> set holidays"

lemma weekday_range: "0 \<le> weekday d \<and> weekday d < 7"
  by (simp add: weekday_def)

lemma weekday_cases: "weekday d \<in> {0, 1, 2, 3, 4, 5, 6}"
proof -
  have "w \<in> {0, 1, 2, 3, 4, 5, 6}" if "0 \<le> w" "w < 7" for w :: int
    using that by auto
  then show ?thesis using weekday_range by blast
qed

lemma weekday_pred: "weekday (d - 1) = (if weekday d = 0 then 6 else weekday d - 1)"
proof -
  have "weekday (d - 1) = (weekday d - 1) mod 7"
    by (simp add: weekday_def mod_simps algebra_simps)
  then show ?thesis using weekday_cases [of d] by auto
qed

lemma weekday_succ: "weekday (d + 1) = (if weekday d = 6 then 0 else weekday d + 1)"
proof -
  have "weekday (d + 1) = (weekday d + 1) mod 7"
    by (simp add: weekday_def mod_simps algebra_simps)
  then show ?thesis using weekday_cases [of d] by auto
qed

definition first_holiday :: "date list \<Rightarrow> date" where
  "first_holiday holidays = fold min holidays 0"

definition last_holiday :: "date list \<Rightarrow> date" where
  "last_holiday holidays = fold max holidays 0"

lemma first_holiday_le: "d \<in> set holidays \<Longrightarrow> first_holiday holidays \<le> d"
proof -
  have "fold min xs (a :: int) \<le> a \<and> (\<forall>x \<in> set xs. fold min xs a \<le> x)" for xs a
    by (induction xs arbitrary: a) (auto, (meson dual_order.trans min.cobounded1 min.cobounded2)+)
  then show "d \<in> set holidays \<Longrightarrow> ?thesis" unfolding first_holiday_def by blast
qed

lemma last_holiday_ge: "d \<in> set holidays \<Longrightarrow> d \<le> last_holiday holidays"
proof -
  have "a \<le> fold max xs (a :: int) \<and> (\<forall>x \<in> set xs. x \<le> fold max xs a)" for xs a
    by (induction xs arbitrary: a) (auto, (meson dual_order.trans max.cobounded1 max.cobounded2)+)
  then show "d \<in> set holidays \<Longrightarrow> ?thesis" unfolding last_holiday_def by blast
qed

text \<open>\<^verbatim>\<open>while not self.is_trading_day(cursor): cursor -= timedelta(days=1)\<close>\<close>

function trading_day_back :: "date list \<Rightarrow> date \<Rightarrow> date" where
  "trading_day_back holidays d = (if is_trading_day holidays d then d else trading_day_back holidays (d - 1))"
  by auto
termination
proof (relation "measure (\<lambda>(hs, d). if first_holiday hs \<le> d then nat (d - first_holiday hs) + 7 else nat (weekday d))")
  fix holidays d
  assume closed: "\<not> is_trading_day holidays d"
  show "((holidays, d - 1), (holidays, d)) \<in>
      measure (\<lambda>(hs, d). if first_holiday hs \<le> d then nat (d - first_holiday hs) + 7 else nat (weekday d))"
  proof (cases "first_holiday holidays \<le> d")
    case True
    then show ?thesis using weekday_range [of "d - 1"] by auto
  next
    case False
    with closed have "5 \<le> weekday d" using first_holiday_le by (force simp: is_trading_day_def)
    with False show ?thesis by (auto simp: weekday_pred)
  qed
qed simp

declare trading_day_back.simps [simp del]

definition previous_trading_day :: "date list \<Rightarrow> date \<Rightarrow> date" where
  "previous_trading_day holidays d = trading_day_back holidays (d - 1)"

text \<open>\<^verbatim>\<open>_resolve_weekly_expiry\<close>: the next Thursday that is a trading day.\<close>

function weekly_expiry :: "date list \<Rightarrow> date \<Rightarrow> date" where
  "weekly_expiry holidays d =
     (if weekday d = 3 \<and> is_trading_day holidays d then d else weekly_expiry holidays (d + 1))"
  by auto
termination
proof (relation "measure (\<lambda>(hs, d). if d \<le> last_holiday hs then nat (last_holiday hs - d) + 8 else nat ((3 - weekday d) mod 7))")
  fix holidays d
  assume not_yet: "\<not> (weekday d = 3 \<and> is_trading_day holidays d)"
  show "((holidays, d + 1), (holidays, d)) \<in>
      measure (\<lambda>(hs, d). if d \<le> last_holiday hs then nat (last_holiday hs - d) + 8 else nat ((3 - weekday d) mod 7))"
  proof (cases "d \<le> last_holiday holidays")
    case True
    then show ?thesis by auto
  next
    case False
    with not_yet have "weekday d \<noteq> 3" using last_holiday_ge by (force simp: is_trading_day_def)
    then have "(3 - weekday (d + 1)) mod 7 < (3 - weekday d) mod 7"
      using weekday_cases [of d] unfolding weekday_succ by auto
    with False show ?thesis by simp
  qed
qed simp

declare weekly_expiry.simps [simp del]

text \<open>\<^verbatim>\<open>while cursor.weekday() != 3: cursor -= timedelta(days=1)\<close>\<close>

function thursday_back :: "date \<Rightarrow> date" where
  "thursday_back d = (if weekday d = 3 then d else thursday_back (d - 1))"
  by auto
termination
proof (relation "measure (\<lambda>d. nat ((weekday d - 3) mod 7))")
  fix d
  assume "weekday d \<noteq> 3"
  then have "(weekday (d - 1) - 3) mod 7 < (weekday d - 3) mod 7"
    using weekday_cases [of d] unfolding weekday_pred by auto
  then show "(d - 1, d) \<in> measure (\<lambda>d. nat ((weekday d - 3) mod 7))" by simp
qed simp

declare thursday_back.simps [simp del]

text \<open>The last trading day at or before the last Thursday of the month of \<open>d\<close>.\<close>

definition month_expiry :: "date list \<Rightarrow> date \<Rightarrow> date" where
  "month_expiry holidays d = trading_day_back holidays (thursday_back (next_month_start d - 1))"

text \<open>\<^verbatim>\<open>(session_date.replace(day=28) + timedelta(days=4)).replace(day=1)\<close>\<close>

definition following_month :: "date \<Rightarrow> date" where
  "following_month d = month_start (ordinal (year_of d) (month_of d) 28 + 4)"

lemma thursday_back_bounds: "d - 6 \<le> thursday_back d \<and> thursday_back d \<le> d \<and> weekday (thursday_back d) = 3"
proof -
  have "d - (weekday d - 3) mod 7 = thursday_back d \<and> weekday (thursday_back d) = 3" for d
  proof (induction d rule: thursday_back.induct)
    case (1 d)
    show ?case
    proof (cases "weekday d = 3")
      case True
      then show ?thesis by (simp add: thursday_back.simps [of d])
    next
      case False
      then have "(weekday (d - 1) - 3) mod 7 + 1 = (weekday d - 3) mod 7"
        using weekday_cases [of d] unfolding weekday_pred by auto
      with 1 [OF False] False show ?thesis by (simp add: thursday_back.simps [of d])
    qed
  qed
  from this [of d] have "d - (weekday d - 3) mod 7 = thursday_back d" "weekday (thursday_back d) = 3" by auto
  moreover have "0 \<le> (weekday d - 3) mod 7" "(weekday d - 3) mod 7 < 7" by simp_all
  ultimately show ?thesis by linarith
qed

lemma trading_day_back_props:
  "trading_day_back holidays d \<le> d \<and> is_trading_day holidays (trading_day_back holidays d) \<and>
   (\<forall>x. trading_day_back holidays d < x \<and> x \<le> d \<longrightarrow> \<not> is_trading_day holidays x)"
proof (induction holidays d rule: trading_day_back.induct)
  case (1 holidays d)
  show ?case
  proof (cases "is_trading_day holidays d")
    case True
    then show ?thesis by (auto simp: trading_day_back.simps [of holidays d])
  next
    case False
    then have eq: "trading_day_back holidays d = trading_day_back holidays (d - 1)"
      by (simp add: trading_day_back.simps [of holidays d])
    have "x = d \<or> x \<le> d - 1" if "x \<le> d" for x using that by linarith
    with 1 [OF False] False show ?thesis unfolding eq by fastforce
  qed
qed

lemma next_month_start_start: "month_start (next_month_start d) = next_month_start d"
proof (cases "month_of d = 12")
  case True
  then have "ymd_of (next_month_start d) = (year_of d + 1, 1, 1)"
    unfolding next_month_start_def using ymd_of_ordinal [of 1 1 "year_of d + 1"]
      month_length_bounds [of 1 "is_leap (year_of d + 1)"] by simp
  with True show ?thesis by (simp add: month_start_def year_of_def month_of_def next_month_start_def)
next
  case False
  with ymd_bounds [of d] have "1 \<le> month_of d + 1" "month_of d + 1 \<le> 12" by auto
  with False have "ymd_of (next_month_start d) = (year_of d, month_of d + 1, 1)"
    unfolding next_month_start_def using ymd_of_ordinal [of "month_of d + 1" 1 "year_of d"]
      month_length_bounds [of "month_of d + 1" "is_leap (year_of d)"] by simp
  with False show ?thesis by (simp add: month_start_def year_of_def month_of_def next_month_start_def)
qed

lemma following_month_eq: "following_month d = next_month_start d"
proof -
  let ?x = "ordinal (year_of d) (month_of d) 28 + 4"
  have x: "?x = month_start d + 31" by (simp add: month_start_def ordinal_def)
  have len: "next_month_start d \<le> month_start d + 31"
    using month_length_bounds [of "month_of d" "is_leap (year_of d)"] ymd_bounds [of d]
    by (simp add: next_month_start_eq)
  let ?n = "next_month_start d"
  have start: "month_start ?n = ?n" by (rule next_month_start_start)
  have "month_start ?n \<le> ?x" "?x < next_month_start ?n"
    using month_start_le [of d] month_start_le(3) [of ?n] start x len by linarith+
  from same_month [OF this] show ?thesis using start by (simp add: following_month_def)
qed

lemma month_expiry_late:
  assumes "last_holiday holidays < next_month_start d - 7"
  shows "next_month_start d - 7 \<le> month_expiry holidays d"
proof -
  let ?t = "thursday_back (next_month_start d - 1)"
  have t: "next_month_start d - 7 \<le> ?t" "weekday ?t = 3" using thursday_back_bounds [of "next_month_start d - 1"] by auto
  then have "is_trading_day holidays ?t"
    using assms last_holiday_ge [of ?t holidays] by (auto simp: is_trading_day_def)
  then show ?thesis using t by (simp add: month_expiry_def trading_day_back.simps [of holidays ?t])
qed

text \<open>\<^verbatim>\<open>_resolve_monthly_expiry\<close>\<close>

function monthly_expiry :: "date list \<Rightarrow> date \<Rightarrow> date" where
  "monthly_expiry holidays d =
     (let cursor = month_expiry holidays d
      in if cursor \<ge> d then cursor else monthly_expiry holidays (following_month d))"
  by auto
termination
proof (relation "measure (\<lambda>(hs, d). if d \<le> last_holiday hs then nat (last_holiday hs - d) + 2
    else if month_expiry hs d \<ge> d then 0 else 1)")
  fix holidays d
  fix cursor
  assume cursor: "cursor = month_expiry holidays d" and early: "\<not> cursor \<ge> d"
  let ?n = "next_month_start d"
  have after: "d < ?n" by (rule month_start_le)
  have "?n \<le> month_expiry holidays ?n" if "last_holiday holidays < ?n"
  proof -
    have "?n \<le> next_month_start ?n - 7"
    proof -
      have "month_start ?n = ?n" by (rule next_month_start_start)
      then show ?thesis using month_start_le(3) [of ?n] by simp
    qed
    then show ?thesis using month_expiry_late [of holidays ?n] that by simp
  qed
  then show "((holidays, following_month d), (holidays, d)) \<in> measure (\<lambda>(hs, d).
      if d \<le> last_holiday hs then nat (last_holiday hs - d) + 2 else if month_expiry hs d \<ge> d then 0 else 1)"
    using after early cursor by (auto simp: following_month_eq)
qed simp

declare monthly_expiry.simps [simp del]

definition resolve_expiry :: "date list \<Rightarrow> explicit_expiries \<Rightarrow> expiry_type \<Rightarrow> date \<Rightarrow> date" where
  "resolve_expiry holidays explicit ty d = (case map_of explicit (ty, d) of
     Some e \<Rightarrow> e
   | None \<Rightarrow> (case ty of WEEKLY \<Rightarrow> weekly_expiry holidays d | MONTHLY \<Rightarrow> monthly_expiry holidays d))"

text \<open>The counting loop of \<^verbatim>\<open>trading_days_until\<close>.\<close>

function count_trading_days :: "date list \<Rightarrow> date \<Rightarrow> date \<Rightarrow> int \<Rightarrow> int" where
  "count_trading_days holidays cursor expiry days =
     (if cursor \<le> expiry
      then count_trading_days holidays (cursor + 1) expiry (if is_trading_day holidays cursor then days + 1 else days)
      else days)"
  by auto
termination by (relation "measure (\<lambda>(_, cursor, expiry, _). nat (expiry + 1 - cursor))") auto

declare count_trading_days.simps [simp del]

definition trading_days_until :: "date list \<Rightarrow> date \<Rightarrow> date \<Rightarrow> int" where
  "trading_days_until holidays session expiry =
     (if session > expiry then - 1 else count_trading_days holidays (session + 1) expiry 0)"

section \<open>What the loops compute\<close>

lemma count_trading_days_card:
  "count_trading_days holidays cursor expiry days =
     days + int (card {d. cursor \<le> d \<and> d \<le> expiry \<and> is_trading_day holidays d})"
proof (induction holidays cursor expiry days rule: count_trading_days.induct)
  case (1 holidays cursor expiry days)
  let ?S = "\<lambda>c. {d. c \<le> d \<and> d \<le> expiry \<and> is_trading_day holidays d}"
  show ?case
  proof (cases "cursor \<le> expiry")
    case True
    have fin: "finite (?S (cursor + 1))" by (rule finite_subset [of _ "{cursor + 1..expiry}"]) auto
    have "?S cursor = (if is_trading_day holidays cursor then insert cursor (?S (cursor + 1)) else ?S (cursor + 1))"
      using True by (auto simp: le_less)
    then have "card (?S cursor) = (if is_trading_day holidays cursor then 1 else 0) + card (?S (cursor + 1))"
      using fin by simp
    with 1 [OF True] True show ?thesis by (subst count_trading_days.simps) simp
  next
    case False
    then have "?S cursor = {}" by auto
    with False show ?thesis by (simp only: count_trading_days.simps [of _ cursor] if_False card.empty)
  qed
qed

lemma weekly_expiry_props:
  "d \<le> weekly_expiry holidays d \<and> weekday (weekly_expiry holidays d) = 3 \<and> is_trading_day holidays (weekly_expiry holidays d) \<and>
   (\<forall>x. d \<le> x \<and> x < weekly_expiry holidays d \<longrightarrow> \<not> (weekday x = 3 \<and> is_trading_day holidays x))"
proof (induction holidays d rule: weekly_expiry.induct)
  case (1 holidays d)
  show ?case
  proof (cases "weekday d = 3 \<and> is_trading_day holidays d")
    case True
    then show ?thesis by (auto simp: weekly_expiry.simps [of holidays d])
  next
    case False
    then have eq: "weekly_expiry holidays d = weekly_expiry holidays (d + 1)"
      by (simp only: weekly_expiry.simps [of holidays d] if_False)
    have "x = d \<or> d + 1 \<le> x" if "d \<le> x" for x using that by linarith
    with 1 [OF False] False show ?thesis unfolding eq by fastforce
  qed
qed

lemma monthly_expiry_props:
  "d \<le> monthly_expiry holidays d \<and> is_trading_day holidays (monthly_expiry holidays d)"
proof (induction holidays d rule: monthly_expiry.induct)
  case (1 holidays d)
  show ?case
  proof (cases "d \<le> month_expiry holidays d")
    case True
    then show ?thesis using trading_day_back_props
      by (subst (1 2) monthly_expiry.simps) (simp add: month_expiry_def Let_def)
  next
    case False
    then have "monthly_expiry holidays d = monthly_expiry holidays (following_month d)"
      by (subst monthly_expiry.simps) (simp add: Let_def)
    with 1 [OF refl] False month_start_le(2) [of d] show ?thesis by (simp add: following_month_eq)
  qed
qed

section \<open>The protocol\<close>

record expiry_calendar =
  ec_is_trading_day :: "date \<Rightarrow> bool"
  ec_previous_trading_day :: "date \<Rightarrow> date"
  ec_resolve_expiry :: "expiry_type \<Rightarrow> date \<Rightarrow> date"
  ec_trading_days_until :: "date \<Rightarrow> date \<Rightarrow> int"

definition deterministic_calendar :: "date list \<Rightarrow> explicit_expiries \<Rightarrow> expiry_calendar" where
  "deterministic_calendar holidays explicit = \<lparr>ec_is_trading_day = is_trading_day holidays,
     ec_previous_trading_day = previous_trading_day holidays,
     ec_resolve_expiry = resolve_expiry holidays explicit,
     ec_trading_days_until = trading_days_until holidays\<rparr>"

text \<open>What the governance relies on: the count is the number of trading days after the session up to the expiry.\<close>

locale expiry_calendar_laws =
  fixes trading :: "date \<Rightarrow> bool" and until :: "date \<Rightarrow> date \<Rightarrow> int"
  assumes until_past: "e < s \<Longrightarrow> until s e = - 1"
    and until_count: "s \<le> e \<Longrightarrow> until s e = int (card {d. s < d \<and> d \<le> e \<and> trading d})"
begin

lemma until_nonneg: "0 \<le> until s e \<longleftrightarrow> s \<le> e"
  by (cases "s \<le> e") (simp_all add: until_count until_past)

lemma until_self: "until e e = 0"
proof -
  have "{d. e < d \<and> d \<le> e \<and> trading d} = {}" by auto
  then show ?thesis by (simp only: until_count [OF order_refl] card.empty of_nat_0)
qed

lemma until_antimono:
  assumes "s \<le> s'"
  shows "until s' e \<le> until s e"
proof (cases "s' \<le> e")
  case True
  have "finite {d. s < d \<and> d \<le> e \<and> trading d}" by (rule finite_subset [of _ "{s..e}"]) auto
  then have "card {d. s' < d \<and> d \<le> e \<and> trading d} \<le> card {d. s < d \<and> d \<le> e \<and> trading d}"
    by (rule card_mono) (use assms in auto)
  with True assms show ?thesis by (simp add: until_count)
next
  case False
  then show ?thesis using until_nonneg [of s e] until_past [of e s] until_past [of e s']
    by (cases "s \<le> e") auto
qed

end

lemma trading_days_until_count:
  "s \<le> e \<Longrightarrow> trading_days_until holidays s e = int (card {d. s < d \<and> d \<le> e \<and> is_trading_day holidays d})"
proof -
  have "{d. s + 1 \<le> d \<and> d \<le> e \<and> is_trading_day holidays d} = {d. s < d \<and> d \<le> e \<and> is_trading_day holidays d}" by auto
  then show "s \<le> e \<Longrightarrow> ?thesis" by (simp add: trading_days_until_def count_trading_days_card)
qed

interpretation det: expiry_calendar_laws "is_trading_day holidays" "trading_days_until holidays" for holidays
  by unfold_locales (simp_all add: trading_days_until_count, simp add: trading_days_until_def)

section \<open>Properties\<close>

text \<open>
  On dates without the bounds of Python's calendar expiry resolution always ends: without an explicit entry the weekly expiry is the first
  trading Thursday from the session on, the monthly expiry is a trading day not before the
  session, and \<^verbatim>\<open>trading_days_until\<close> counts the trading days after the session up to the
  expiry (and is -1 for a past expiry).
\<close>
theorem deterministic_calendar_resolves:
  "(let w = resolve_expiry holidays [] WEEKLY d; m = resolve_expiry holidays [] MONTHLY d in
      w = (LEAST x. d \<le> x \<and> weekday x = 3 \<and> is_trading_day holidays x) \<and>
      d \<le> m \<and> is_trading_day holidays m) \<and>
   trading_days_until holidays d e =
     (if e < d then - 1 else int (card {x. d < x \<and> x \<le> e \<and> is_trading_day holidays x}))"
proof -
  have "(LEAST x. d \<le> x \<and> weekday x = 3 \<and> is_trading_day holidays x) = weekly_expiry holidays d"
  proof (rule Least_equality)
    show "d \<le> weekly_expiry holidays d \<and> weekday (weekly_expiry holidays d) = 3 \<and>
        is_trading_day holidays (weekly_expiry holidays d)"
      using weekly_expiry_props by blast
    show "weekly_expiry holidays d \<le> y" if "d \<le> y \<and> weekday y = 3 \<and> is_trading_day holidays y" for y
      using weekly_expiry_props [of d holidays] that by (meson not_le)
  qed
  then show ?thesis using monthly_expiry_props [of d holidays]
    by (auto simp: resolve_expiry_def Let_def det.until_past trading_days_until_count)
qed

end
