(* ===== verification/PositionState.thy ===== *)
theory PositionState
  imports Domain
begin

text \<open>
  \<^verbatim>\<open>src/tfis/paper/position_state.py\<close>: the persisted paper position and its lifecycle. A
  session directory is its path, its state file and its event log. The JSON text is not
  modelled: the file holds the record, and reading back applies what
  \<^verbatim>\<open>_state_from_payload\<close> does to the fields and the checks of \<^verbatim>\<open>__post_init__\<close>; the
  order of \<^verbatim>\<open>strategy_parameters\<close> (sorted on disk) is not observed. An operation is an
  \<open>op\<close>: what it wrote before it raised stays. Fields of \<^verbatim>\<open>PaperPositionState\<close> carry the
  prefix \<open>pp_\<close>, of \<^verbatim>\<open>PaperPositionStateEvent\<close> \<open>pv_\<close>, of the directory \<open>pd_\<close>.
\<close>

section \<open>Statuses\<close>

datatype position_status =
    PAPER_POSITION_OPEN | PAPER_POSITION_CARRIED_FORWARD | PAPER_POSITION_RESUMED
  | PAPER_POSITION_CLOSED | PAPER_ROLLOVER_REQUIRED | PAPER_REVERSE_ENTRY_REQUIRED
  | PAPER_FRESH_ENTRY_REQUIRED

datatype position_event_type =
    POSITION_CARRIED_FORWARD | POSITION_RESUMED | POSITION_CLOSED | POSITION_STATE_INVALID
  | EXPIRY_FORCE_CLOSE_REQUIRED | EXPIRY_FORCE_CLOSED | NEXT_EXPIRY_REQUIRED
  | ROLLOVER_POLICY_APPLIED | REVERSE_ENTRY_REQUIRED | FRESH_ENTRY_REQUIRED

fun position_status_value :: "position_status \<Rightarrow> string" where
  "position_status_value PAPER_POSITION_OPEN = ''PAPER_POSITION_OPEN''"
| "position_status_value PAPER_POSITION_CARRIED_FORWARD = ''PAPER_POSITION_CARRIED_FORWARD''"
| "position_status_value PAPER_POSITION_RESUMED = ''PAPER_POSITION_RESUMED''"
| "position_status_value PAPER_POSITION_CLOSED = ''PAPER_POSITION_CLOSED''"
| "position_status_value PAPER_ROLLOVER_REQUIRED = ''PAPER_ROLLOVER_REQUIRED''"
| "position_status_value PAPER_REVERSE_ENTRY_REQUIRED = ''PAPER_REVERSE_ENTRY_REQUIRED''"
| "position_status_value PAPER_FRESH_ENTRY_REQUIRED = ''PAPER_FRESH_ENTRY_REQUIRED''"

text \<open>The argument \<^verbatim>\<open>PaperPositionStateStatus | str | None\<close> of the classifiers.\<close>

datatype position_status_arg = PStatus position_status | PText string | PNoStatus

definition status_in :: "position_status list \<Rightarrow> position_status_arg \<Rightarrow> bool" where
  "status_in xs a = (case a of
     PStatus s \<Rightarrow> s \<in> set xs
   | PText t \<Rightarrow> strip t \<in> set (map position_status_value xs)
   | PNoStatus \<Rightarrow> [] \<in> set (map position_status_value xs))"

definition paper_position_is_active :: "position_status_arg \<Rightarrow> bool" where
  "paper_position_is_active =
     status_in [PAPER_POSITION_OPEN, PAPER_POSITION_CARRIED_FORWARD, PAPER_POSITION_RESUMED]"

definition paper_position_is_no_longer_open :: "position_status_arg \<Rightarrow> bool" where
  "paper_position_is_no_longer_open = status_in [PAPER_POSITION_CLOSED, PAPER_REVERSE_ENTRY_REQUIRED,
     PAPER_FRESH_ENTRY_REQUIRED, PAPER_ROLLOVER_REQUIRED]"

definition paper_position_blocks_new_entry :: "position_status_arg \<Rightarrow> bool" where
  "paper_position_blocks_new_entry = status_in [PAPER_POSITION_OPEN, PAPER_POSITION_CARRIED_FORWARD,
     PAPER_POSITION_RESUMED, PAPER_ROLLOVER_REQUIRED]"

section \<open>The position\<close>

record position_state =
  pp_artifact_version :: int
  pp_strategy_code :: string
  pp_unique_code :: string
  pp_symbol :: string
  pp_option_type :: option_type
  pp_selected_contract_symbol :: string
  pp_expiry_date :: date
  pp_expiry_policy :: strategy_expiry_policy
  pp_entry_date :: date
  pp_entry_timestamp :: datetime
  pp_entry_price :: price
  pp_lots :: int
  pp_quantity :: int
  pp_side :: string
  pp_target_price :: price
  pp_stoploss_price :: price
  pp_fsl_price :: "price option"
  pp_trp_price :: "price option"
  pp_carry_forward_allowed :: bool
  pp_no_carry_past_expiry :: bool
  pp_lifecycle_status :: position_status
  pp_last_updated_timestamp :: datetime
  pp_provenance_source_ids :: "string list"
  pp_strategy_parameters :: "(string, price) dict option"
  pp_stoploss_active :: bool
  pp_stoploss_reset_pending :: bool
  pp_stoploss_reset_session_date :: "date option"
  pp_stoploss_reset_reference_price :: "price option"
  pp_stoploss_reset_buffer_pct :: "price option"
  pp_stoploss_reset_orpt_time :: "time_of_day option"
  pp_stoploss_reset_rc_time :: "time_of_day option"
  pp_stoploss_reset_reason_code :: "string option"

definition position_texts :: "position_state \<Rightarrow> (string \<times> string) list" where
  "position_texts s = [(''strategy_code'', pp_strategy_code s), (''unique_code'', pp_unique_code s),
     (''symbol'', pp_symbol s), (''selected_contract_symbol'', pp_selected_contract_symbol s),
     (''side'', pp_side s)]"

fun check_texts :: "(msg \<Rightarrow> exn) \<Rightarrow> (string \<times> string) list \<Rightarrow> unit res" where
  "check_texts err [] = Inr ()"
| "check_texts err ((name, v) # rest) =
     (if strip v = [] then Inl (err [Txt name, Txt '' must be a non-empty string'']) else check_texts err rest)"

text \<open>\<^verbatim>\<open>PaperPositionState.__post_init__\<close>\<close>

definition mk_position :: "position_state \<Rightarrow> position_state res" where
  "mk_position s =
     bindE (check_texts ValueError (position_texts s)) (\<lambda>_.
     bindE (guardE (\<not> pp_entry_price s \<le> 0) (ValueError [Txt ''entry_price must be positive''])) (\<lambda>_.
     bindE (guardE (\<not> pp_target_price s \<le> 0) (ValueError [Txt ''target_price must be positive''])) (\<lambda>_.
     bindE (guardE (\<not> pp_stoploss_price s \<le> 0) (ValueError [Txt ''stoploss_price must be positive''])) (\<lambda>_.
     bindE (guardE (\<not> pp_lots s \<le> 0) (ValueError [Txt ''lots must be positive''])) (\<lambda>_.
     bindE (guardE (\<not> pp_quantity s \<le> 0) (ValueError [Txt ''quantity must be positive''])) (\<lambda>_.
     bindE (guardE (\<not> list_ex (\<lambda>x. strip x = []) (pp_provenance_source_ids s))
       (ValueError [Txt ''provenance_source_ids must contain non-empty strings''])) (\<lambda>_.
     bindE (guardE (case pp_strategy_parameters s of None \<Rightarrow> True | Some ps \<Rightarrow> list_all (\<lambda>(k, _). strip k \<noteq> []) ps)
       (ValueError [Txt ''strategy_parameters keys must be non-empty strings''])) (\<lambda>_.
     Inr s))))))))"

text \<open>\<^verbatim>\<open>_normalize_strategy_parameters\<close>\<close>

fun normalize_position_parameters :: "(string, price) dict \<Rightarrow> (string, price) dict \<Rightarrow> (string, price) dict res" where
  "normalize_position_parameters acc [] = Inr acc"
| "normalize_position_parameters acc ((k, v) # rest) =
     (if strip k = [] then Inl (PaperPositionStateError [Txt ''strategy_parameters keys must be non-empty strings''])
      else normalize_position_parameters (AList.update (strip k) v acc) rest)"

definition normalize_strategy_parameters :: "(string, price) dict option \<Rightarrow> (string, price) dict option res" where
  "normalize_strategy_parameters ps = (case ps of None \<Rightarrow> Inr None | Some [] \<Rightarrow> Inr None
     | Some xs \<Rightarrow> bindE (normalize_position_parameters [] xs) (\<lambda>ys. Inr (Some ys)))"

definition merge_provenance :: "string list \<Rightarrow> string list \<Rightarrow> string list" where
  "merge_provenance existing new_items = merge_texts [] (existing @ new_items)"

text \<open>
  \<^verbatim>\<open>create_open_position_state\<close>: the arguments are the fields of \<open>a\<close>; version, lifecycle
  status, stop-loss flags and the policy's own carry flag are the operation's.
\<close>

definition create_open_position_state :: "position_state \<Rightarrow> position_state res" where
  "create_open_position_state a =
     bindE (normalize_strategy_parameters (pp_strategy_parameters a)) (\<lambda>params.
     mk_position (a\<lparr>pp_artifact_version := 1,
       pp_expiry_policy := (pp_expiry_policy a)\<lparr>ep_no_carry_past_expiry := pp_no_carry_past_expiry a\<rparr>,
       pp_lifecycle_status := PAPER_POSITION_OPEN, pp_strategy_parameters := params,
       pp_stoploss_active := True, pp_stoploss_reset_pending := False,
       pp_stoploss_reset_session_date := None, pp_stoploss_reset_reference_price := None,
       pp_stoploss_reset_reason_code := None\<rparr>))"

section \<open>The session directory\<close>

record position_event =
  pv_timestamp :: datetime
  pv_event_type :: position_event_type
  pv_strategy_code :: string
  pv_unique_code :: string
  pv_selected_contract_symbol :: string
  pv_lifecycle_status :: "position_status option"
  pv_session_date :: "date option"
  pv_reason_code :: "string option"
  pv_message :: string
  pv_provenance_source_ids :: "string list"

record position_directory =
  pd_path :: string
  pd_state :: "position_state option"
  pd_events :: "position_event list"

definition save_position :: "position_state \<Rightarrow> position_directory \<Rightarrow> position_directory" where
  "save_position s d = d\<lparr>pd_state := Some s\<rparr>"

fun parse_text_tuple :: "string list \<Rightarrow> string list res" where
  "parse_text_tuple [] = Inr []"
| "parse_text_tuple (x # xs) =
     (if strip x = [] then Inl (PaperPositionStateError [Txt ''provenance_source_ids[] must be a non-empty string''])
      else bindE (parse_text_tuple xs) (\<lambda>ys. Inr (strip x # ys)))"

text \<open>\<^verbatim>\<open>_state_from_payload\<close>: texts are stripped, the policy's carry flag is the state's.\<close>

definition position_from_payload :: "position_state \<Rightarrow> position_state res" where
  "position_from_payload s =
     bindE (check_texts PaperPositionStateError (position_texts s)) (\<lambda>_.
     bindE (parse_text_tuple (pp_provenance_source_ids s)) (\<lambda>prov.
     bindE (normalize_strategy_parameters (pp_strategy_parameters s)) (\<lambda>params.
     mk_position (s\<lparr>pp_strategy_code := strip (pp_strategy_code s), pp_unique_code := strip (pp_unique_code s),
       pp_symbol := strip (pp_symbol s), pp_selected_contract_symbol := strip (pp_selected_contract_symbol s),
       pp_side := strip (pp_side s),
       pp_expiry_policy := (pp_expiry_policy s)\<lparr>ep_no_carry_past_expiry := pp_no_carry_past_expiry s\<rparr>,
       pp_provenance_source_ids := prov, pp_strategy_parameters := params,
       pp_stoploss_reset_reason_code := optional_text (pp_stoploss_reset_reason_code s)\<rparr>))))"

definition read_position :: "position_directory \<Rightarrow> position_state res" where
  "read_position d = (case pd_state d of
     None \<Rightarrow> Inl (PaperPositionStateError [Txt ''Persisted paper position state is missing: '', Txt (pd_path d)])
   | Some s \<Rightarrow> position_from_payload s)"

definition event_texts :: "position_event \<Rightarrow> (string \<times> string) list" where
  "event_texts e = [(''strategy_code'', pv_strategy_code e), (''unique_code'', pv_unique_code e),
     (''selected_contract_symbol'', pv_selected_contract_symbol e), (''message'', pv_message e)]"

definition parse_position_event :: "position_event \<Rightarrow> position_event res" where
  "parse_position_event e =
     bindE (check_texts PaperPositionStateError (event_texts e)) (\<lambda>_.
     bindE (parse_text_tuple (pv_provenance_source_ids e)) (\<lambda>prov.
     Inr (e\<lparr>pv_strategy_code := strip (pv_strategy_code e), pv_unique_code := strip (pv_unique_code e),
       pv_selected_contract_symbol := strip (pv_selected_contract_symbol e),
       pv_reason_code := optional_text (pv_reason_code e), pv_message := strip (pv_message e),
       pv_provenance_source_ids := prov\<rparr>)))"

definition load_position_events :: "position_directory \<Rightarrow> position_event list res" where
  "load_position_events d = mapE parse_position_event (pd_events d)"

text \<open>\<^verbatim>\<open>_append_event\<close> reads the whole log first and writes it back with the new event.\<close>

definition append_position_event :: "position_event \<Rightarrow> (unit, position_directory) op" where
  "append_position_event e d = (case load_position_events d of
     Inl x \<Rightarrow> (Inl x, d)
   | Inr es \<Rightarrow> (Inr (), d\<lparr>pd_events := es @ [e]\<rparr>))"

definition invalid_event :: "datetime \<Rightarrow> string \<Rightarrow> position_event" where
  "invalid_event t m = \<lparr>pv_timestamp = t, pv_event_type = POSITION_STATE_INVALID, pv_strategy_code = ''S23'',
     pv_unique_code = ''unknown'', pv_selected_contract_symbol = ''unknown'', pv_lifecycle_status = None,
     pv_session_date = None, pv_reason_code = Some ''invalid_persisted_position_state'', pv_message = m,
     pv_provenance_source_ids = []\<rparr>"

text \<open>\<^verbatim>\<open>load_state\<close>; the clock reading \<^verbatim>\<open>datetime.now()\<close> is the argument \<open>now\<close>.\<close>

definition load_position :: "datetime \<Rightarrow> (position_state, position_directory) op" where
  "load_position now d = (case read_position d of
     Inr s \<Rightarrow> (Inr s, d)
   | Inl e \<Rightarrow> bindS (append_position_event (invalid_event now (''Persisted paper position state is invalid: '' @ exn_text e)))
       (\<lambda>_. liftS (Inl (PaperPositionStateError [Txt (exn_text e)]))) d)"

definition position_event_of ::
  "position_state \<Rightarrow> datetime \<Rightarrow> position_event_type \<Rightarrow> date \<Rightarrow> string option \<Rightarrow> string \<Rightarrow> string list \<Rightarrow> position_event" where
  "position_event_of s t ty session reason m prov = \<lparr>pv_timestamp = t, pv_event_type = ty,
     pv_strategy_code = pp_strategy_code s, pv_unique_code = pp_unique_code s,
     pv_selected_contract_symbol = pp_selected_contract_symbol s,
     pv_lifecycle_status = Some (pp_lifecycle_status s), pv_session_date = Some session,
     pv_reason_code = reason, pv_message = m, pv_provenance_source_ids = prov\<rparr>"

definition invalid_position_event ::
  "position_state \<Rightarrow> datetime \<Rightarrow> date \<Rightarrow> string \<Rightarrow> string \<Rightarrow> string list \<Rightarrow> position_event" where
  "invalid_position_event s t session reason m prov =
     (position_event_of s t POSITION_STATE_INVALID session (Some reason) m prov)\<lparr>pv_lifecycle_status := None\<rparr>"

section \<open>Expiry governance, as the store sees it\<close>

record governance_decision =
  gv_can_carry_forward :: bool
  gv_must_force_close :: bool
  gv_should_select_next_expiry :: bool
  gv_event_types :: "position_event_type list"
  gv_message :: string

text \<open>The argument \<^verbatim>\<open>expiry_governance\<close>: its two methods.\<close>

record governance =
  gn_evaluate_position :: "position_state \<Rightarrow> date \<Rightarrow> time_of_day \<Rightarrow> governance_decision"
  gn_build_events :: "position_state \<Rightarrow> date \<Rightarrow> datetime \<Rightarrow> time_of_day \<Rightarrow> string list \<Rightarrow> position_event list"

fun append_position_events :: "position_event list \<Rightarrow> (unit, position_directory) op" where
  "append_position_events [] = liftS (Inr ())"
| "append_position_events (e # es) = bindS (append_position_event e) (\<lambda>_. append_position_events es)"

definition apply_expiry_governance_gate ::
  "governance \<Rightarrow> position_state \<Rightarrow> date \<Rightarrow> datetime \<Rightarrow> string list \<Rightarrow> (unit, position_directory) op" where
  "apply_expiry_governance_gate g s session t prov =
     (let decision = gn_evaluate_position g s session (time_of t) in
      if gv_can_carry_forward decision then liftS (Inr ())
      else bindS (append_position_events (gn_build_events g s session t (time_of t) prov)) (\<lambda>_.
        liftS (Inl (PaperPositionStateError [Txt (if gv_should_select_next_expiry decision
          then ''Current-expiry continuation is blocked by the configured rollover policy.''
          else ''Current-expiry continuation is blocked by expiry governance.'')]))))"

section \<open>Operations\<close>

text \<open>The common end of the operations: validate the copy, save it, append its event.\<close>

definition commit_position ::
  "position_state \<Rightarrow> (position_state \<Rightarrow> position_event) \<Rightarrow> (position_state, position_directory) op" where
  "commit_position s event =
     bindS (liftS (mk_position s)) (\<lambda>u.
     bindS (updateS (save_position u)) (\<lambda>_.
     bindS (append_position_event (event u)) (\<lambda>_. liftS (Inr u))))"

record continue_texts =
  ct_not_allowed :: string
  ct_reason :: string
  ct_past_event :: string
  ct_past_error :: string

text \<open>What \<^verbatim>\<open>carry_forward\<close> and \<^verbatim>\<open>resume_position\<close> share; they differ in status, event and texts.\<close>

definition continue_position ::
  "continue_texts \<Rightarrow> position_status \<Rightarrow> position_event_type \<Rightarrow> string \<Rightarrow>
   datetime \<Rightarrow> date \<Rightarrow> datetime \<Rightarrow> governance option \<Rightarrow> string list \<Rightarrow> (position_state, position_directory) op" where
  "continue_position tx status ty m now session t g prov =
     bindS (load_position now) (\<lambda>s.
     if \<not> pp_carry_forward_allowed s then liftS (Inl (PaperPositionStateError [Txt (ct_not_allowed tx)]))
     else bindS (case g of None \<Rightarrow> liftS (Inr ()) | Some gov \<Rightarrow> apply_expiry_governance_gate gov s session t prov) (\<lambda>_.
     if session > pp_expiry_date s
     then bindS (append_position_event (invalid_position_event s t session (ct_reason tx) (ct_past_event tx) prov)) (\<lambda>_.
       liftS (Inl (PaperPositionStateError [Txt (ct_past_error tx)])))
     else commit_position (s\<lparr>pp_lifecycle_status := status, pp_last_updated_timestamp := t,
         pp_provenance_source_ids := merge_provenance (pp_provenance_source_ids s) prov\<rparr>)
       (\<lambda>u. position_event_of u t ty session None m prov)))"

definition carry_forward ::
  "datetime \<Rightarrow> date \<Rightarrow> datetime \<Rightarrow> governance option \<Rightarrow> string list \<Rightarrow> (position_state, position_directory) op" where
  "carry_forward = continue_position
     \<lparr>ct_not_allowed = ''Carry-forward is not allowed for this persisted paper position state.'',
      ct_reason = ''carry_forward_past_expiry'',
      ct_past_event = ''Carry-forward was requested after contract expiry, which is not allowed.'',
      ct_past_error = ''Cannot carry the paper position beyond expiry.''\<rparr>
     PAPER_POSITION_CARRIED_FORWARD POSITION_CARRIED_FORWARD ''Paper position state was marked as carried forward.''"

definition resume_position ::
  "datetime \<Rightarrow> date \<Rightarrow> datetime \<Rightarrow> governance option \<Rightarrow> string list \<Rightarrow> (position_state, position_directory) op" where
  "resume_position = continue_position
     \<lparr>ct_not_allowed = ''Carry-forward resume is not allowed for this persisted paper position state.'',
      ct_reason = ''resume_past_expiry'',
      ct_past_event = ''Paper position resume was requested after contract expiry, which is not allowed.'',
      ct_past_error = ''Cannot resume a paper position after expiry has passed.''\<rparr>
     PAPER_POSITION_RESUMED POSITION_RESUMED ''Paper position state was resumed for the new session.''"

definition record_expiry_force_closed ::
  "datetime \<Rightarrow> date \<Rightarrow> datetime \<Rightarrow> string list \<Rightarrow> (unit, position_directory) op" where
  "record_expiry_force_closed now session t prov =
     bindS (load_position now) (\<lambda>s. append_position_event (position_event_of s t EXPIRY_FORCE_CLOSED session
       (Some ''expiry_force_closed'') ''Current-expiry paper exposure was force-closed under expiry governance.'' prov))"

text \<open>
  \<^verbatim>\<open>mark_position_closed\<close> and \<^verbatim>\<open>mark_rollover_required\<close> build a new state from the listed
  fields; the fields they leave out take the defaults of the dataclass.
\<close>

definition ended_position :: "position_state \<Rightarrow> position_status \<Rightarrow> datetime \<Rightarrow> string list \<Rightarrow> position_state" where
  "ended_position s status t prov = s\<lparr>pp_carry_forward_allowed := False, pp_lifecycle_status := status,
     pp_last_updated_timestamp := t,
     pp_provenance_source_ids := merge_provenance (pp_provenance_source_ids s) prov,
     pp_strategy_parameters := None, pp_stoploss_active := True, pp_stoploss_reset_pending := False,
     pp_stoploss_reset_session_date := None, pp_stoploss_reset_reference_price := None,
     pp_stoploss_reset_buffer_pct := None, pp_stoploss_reset_orpt_time := None,
     pp_stoploss_reset_rc_time := None, pp_stoploss_reset_reason_code := None\<rparr>"

definition closed_status :: "bool \<Rightarrow> bool \<Rightarrow> position_status" where
  "closed_status reverse_required fresh_required =
     (if reverse_required then PAPER_REVERSE_ENTRY_REQUIRED
      else if fresh_required then PAPER_FRESH_ENTRY_REQUIRED else PAPER_POSITION_CLOSED)"

definition mark_position_closed ::
  "datetime \<Rightarrow> date \<Rightarrow> datetime \<Rightarrow> string \<Rightarrow> string \<Rightarrow> bool \<Rightarrow> bool \<Rightarrow> string list \<Rightarrow>
   (position_state, position_directory) op" where
  "mark_position_closed now session t reason m reverse_required fresh_required prov =
     bindS (load_position now) (\<lambda>s.
     bindS (commit_position (ended_position s (closed_status reverse_required fresh_required) t prov)
       (\<lambda>u. position_event_of u t POSITION_CLOSED session (Some reason) m prov)) (\<lambda>u.
     bindS (if reverse_required then append_position_event (position_event_of u t REVERSE_ENTRY_REQUIRED session
         (Some ''reverse_entry_after_stoploss_required'')
         ''Stoploss closed the paper position; a fresh opposite-direction S23 decision must be calculated before any reverse paper entry.'' prov)
       else liftS (Inr ())) (\<lambda>_.
     bindS (if fresh_required then append_position_event (position_event_of u t FRESH_ENTRY_REQUIRED session
         (Some ''fresh_entry_after_target_required'')
         ''Target closed the paper position; a fresh S23 decision must be calculated from current market, OI, premium, and expiry data before any new paper entry.'' prov)
       else liftS (Inr ())) (\<lambda>_. liftS (Inr u)))))"

definition mark_rollover_required ::
  "datetime \<Rightarrow> date \<Rightarrow> datetime \<Rightarrow> string \<Rightarrow> string list \<Rightarrow> (position_state, position_directory) op" where
  "mark_rollover_required now session t m prov =
     bindS (load_position now) (\<lambda>s. commit_position (ended_position s PAPER_ROLLOVER_REQUIRED t prov)
       (\<lambda>u. position_event_of u t NEXT_EXPIRY_REQUIRED session (Some ''rollover_required'') m prov))"

definition mark_stoploss_inactive_for_carry_forward ::
  "datetime \<Rightarrow> date \<Rightarrow> datetime \<Rightarrow> price \<Rightarrow> string \<Rightarrow> string \<Rightarrow> string list \<Rightarrow> (position_state, position_directory) op" where
  "mark_stoploss_inactive_for_carry_forward now session t reference reason m prov =
     bindS (load_position now) (\<lambda>s. commit_position
       (s\<lparr>pp_lifecycle_status := PAPER_POSITION_CARRIED_FORWARD, pp_last_updated_timestamp := t,
          pp_stoploss_active := False, pp_stoploss_reset_pending := True,
          pp_stoploss_reset_session_date := Some session, pp_stoploss_reset_reference_price := Some reference,
          pp_stoploss_reset_reason_code := Some reason,
          pp_provenance_source_ids := merge_provenance (pp_provenance_source_ids s) prov\<rparr>)
       (\<lambda>u. position_event_of u t POSITION_CARRIED_FORWARD session (Some reason) m prov))"

definition activate_stoploss_after_reset ::
  "datetime \<Rightarrow> date \<Rightarrow> datetime \<Rightarrow> price \<Rightarrow> price option \<Rightarrow> string \<Rightarrow> string \<Rightarrow> string list \<Rightarrow>
   (position_state, position_directory) op" where
  "activate_stoploss_after_reset now session t stoploss fsl reason m prov =
     bindS (load_position now) (\<lambda>s. commit_position
       (s\<lparr>pp_lifecycle_status := PAPER_POSITION_OPEN, pp_last_updated_timestamp := t,
          pp_stoploss_price := stoploss, pp_fsl_price := fsl, pp_stoploss_active := True,
          pp_stoploss_reset_pending := False, pp_stoploss_reset_session_date := Some session,
          pp_stoploss_reset_reason_code := Some reason,
          pp_provenance_source_ids := merge_provenance (pp_provenance_source_ids s) prov\<rparr>)
       (\<lambda>u. position_event_of u t POSITION_RESUMED session (Some reason) m prov))"

end
