(* ===== verification/PositionLifecycle.thy ===== *)
theory PositionLifecycle
  imports PositionState
begin

text \<open>
  What the position store of \<^verbatim>\<open>src/tfis/paper/position_state.py\<close> guarantees: reading back a
  constructed position, the outcome of every operation on the state file, and the abstract
  lifecycle (may it be carried, which status) that every operation refines. The abstract
  machine is \<open>move_of\<close>, its runs the inductive relation \<open>lifecycle_path\<close>.
\<close>

section \<open>Reading back\<close>

lemma check_texts_ok: "check_texts err xs = Inr () \<longleftrightarrow> list_all (\<lambda>(n, v). strip v \<noteq> []) xs"
  by (induction err xs rule: check_texts.induct) auto

lemma parse_text_tuple_ok: "parse_text_tuple xs = Inr ys \<longleftrightarrow> list_all (\<lambda>x. strip x \<noteq> []) xs \<and> ys = map strip xs"
  by (induction xs arbitrary: ys) (auto simp: bindE_eq_Inr)

definition wf_parameters :: "(string, price) dict option \<Rightarrow> bool" where
  "wf_parameters ps = (case ps of None \<Rightarrow> True | Some xs \<Rightarrow> list_all (\<lambda>(k, _). strip k \<noteq> []) xs)"

definition wf_position :: "position_state \<Rightarrow> bool" where
  "wf_position s \<longleftrightarrow> list_all (\<lambda>(n, v). strip v \<noteq> []) (position_texts s) \<and>
     0 < pp_entry_price s \<and> 0 < pp_target_price s \<and> 0 < pp_stoploss_price s \<and> 0 < pp_lots s \<and> 0 < pp_quantity s \<and>
     list_all (\<lambda>x. strip x \<noteq> []) (pp_provenance_source_ids s) \<and> wf_parameters (pp_strategy_parameters s)"

lemma mk_position_ok: "mk_position s = Inr u \<longleftrightarrow> u = s \<and> wf_position s"
  by (auto simp: mk_position_def bindE_eq_Inr check_texts_ok wf_position_def wf_parameters_def list_ex_iff list_all_iff not_le)

lemma normalize_position_parameters_ok:
  "list_all (\<lambda>(k, _). strip k \<noteq> []) xs \<Longrightarrow> list_all (\<lambda>(k, _). strip k \<noteq> []) acc \<Longrightarrow>
   \<exists>ys. normalize_position_parameters acc xs = Inr ys \<and> list_all (\<lambda>(k, _). strip k \<noteq> []) ys"
proof (induction acc xs rule: normalize_position_parameters.induct)
  case (2 acc k v rest)
  then have "list_all (\<lambda>(k, _). strip k \<noteq> []) (AList.update (strip k) v acc)"
    by (intro list_all_update) auto
  with 2 show ?case by simp
qed simp

lemma normalize_strategy_parameters_ok:
  "wf_parameters ps \<Longrightarrow> \<exists>qs. normalize_strategy_parameters ps = Inr qs \<and> wf_parameters qs"
  using normalize_position_parameters_ok [of "the ps" "[]"]
  by (cases ps; cases "the ps") (auto simp: normalize_strategy_parameters_def wf_parameters_def)

text \<open>A position that was constructed is read back, with its texts stripped.\<close>

lemma read_wf_position:
  assumes "pd_state d = Some s" and "wf_position s"
  shows "\<exists>u. read_position d = Inr u \<and> wf_position u \<and>
    (pp_carry_forward_allowed u, pp_lifecycle_status u, pp_expiry_date u, pp_no_carry_past_expiry u, pp_entry_date u) =
    (pp_carry_forward_allowed s, pp_lifecycle_status s, pp_expiry_date s, pp_no_carry_past_expiry s, pp_entry_date s)"
proof -
  from assms(2) obtain qs where qs: "normalize_strategy_parameters (pp_strategy_parameters s) = Inr qs" "wf_parameters qs"
    using normalize_strategy_parameters_ok by (auto simp: wf_position_def)
  let ?u = "s\<lparr>pp_strategy_code := strip (pp_strategy_code s), pp_unique_code := strip (pp_unique_code s),
       pp_symbol := strip (pp_symbol s), pp_selected_contract_symbol := strip (pp_selected_contract_symbol s),
       pp_side := strip (pp_side s),
       pp_expiry_policy := (pp_expiry_policy s)\<lparr>ep_no_carry_past_expiry := pp_no_carry_past_expiry s\<rparr>,
       pp_provenance_source_ids := map strip (pp_provenance_source_ids s), pp_strategy_parameters := qs,
       pp_stoploss_reset_reason_code := optional_text (pp_stoploss_reset_reason_code s)\<rparr>"
  have wf: "wf_position ?u" using assms(2) qs(2) by (auto simp: wf_position_def position_texts_def list_all_iff)
  have "parse_text_tuple (pp_provenance_source_ids s) = Inr (map strip (pp_provenance_source_ids s))"
    "check_texts PaperPositionStateError (position_texts s) = Inr ()"
    using assms(2) by (auto simp: wf_position_def parse_text_tuple_ok check_texts_ok)
  then have "position_from_payload s = mk_position ?u" using qs(1) by (simp add: position_from_payload_def)
  then have "read_position d = Inr ?u" using assms(1) wf mk_position_ok [of ?u ?u] by (simp add: read_position_def)
  then show ?thesis using wf by (intro exI [of _ ?u]) simp
qed

lemma read_position_wf: "read_position d = Inr s \<Longrightarrow> wf_position s"
  by (auto simp: read_position_def position_from_payload_def bindE_eq_Inr mk_position_ok split: option.splits)

section \<open>Effects of the operations on the state file\<close>

lemma append_keeps_state [simp]: "pd_state (snd (append_position_event e d)) = pd_state d"
  by (simp add: append_position_event_def split: sum.splits)

lemma append_position_events_keeps: "append_position_events es d = (r, d') \<Longrightarrow> pd_state d' = pd_state d"
proof (induction es arbitrary: d)
  case (Cons e es)
  obtain x d1 where a: "append_position_event e d = (x, d1)" by (cases "append_position_event e d")
  then have "pd_state d1 = pd_state d" by (metis append_keeps_state snd_conv)
  with Cons a show ?case by (cases x) auto
qed (simp add: liftS_def)

lemma append_result: "append_position_event e d = (r, d') \<Longrightarrow> pd_state d' = pd_state d"
  by (metis append_keeps_state snd_conv)

lemma load_keeps_state: "load_position now d = (r, d') \<Longrightarrow> pd_state d' = pd_state d"
  by (auto simp: load_position_def bindS_def liftS_def split: sum.splits prod.splits dest: append_result)

lemma load_position_Inr: "load_position now d = (Inr s, d') \<longleftrightarrow> read_position d = Inr s \<and> d' = d"
  by (auto simp: load_position_def bindS_def liftS_def split: sum.splits prod.splits)

lemma gate_keeps_state: "apply_expiry_governance_gate g s session t prov d = (r, d') \<Longrightarrow> pd_state d' = pd_state d"
  by (auto simp: apply_expiry_governance_gate_def Let_def bindS_def liftS_def
      split: sum.splits prod.splits if_splits dest: append_position_events_keeps)

lemma commit_position_state:
  "commit_position s event d = (r, d') \<Longrightarrow>
     (pd_state d' = pd_state d \<and> \<not> isok r) \<or> (pd_state d' = Some s \<and> wf_position s \<and> (\<forall>u. r = Inr u \<longrightarrow> u = s))"
proof (cases "mk_position s")
  case (Inl e)
  then have "commit_position s event d = (Inl e, d)" by (simp add: commit_position_def bindS_def liftS_def)
  then show "commit_position s event d = (r, d') \<Longrightarrow> ?thesis" by auto
next
  case (Inr u)
  then have u: "u = s" "wf_position s" by (auto simp: mk_position_ok)
  assume c: "commit_position s event d = (r, d')"
  obtain x d1 where a: "append_position_event (event s) (save_position s d) = (x, d1)"
    by (cases "append_position_event (event s) (save_position s d)")
  then have "pd_state d1 = Some s" using append_result [OF a] by (simp add: save_position_def)
  moreover have "d' = d1 \<and> (\<forall>v. r = Inr v \<longrightarrow> v = s)"
    using c Inr u a by (cases x) (auto simp: commit_position_def bindS_def liftS_def updateS_def)
  ultimately show ?thesis using u by simp
qed

lemma commit_position_Inr:
  assumes "commit_position s ev d = (Inr u, d1)"
  shows "u = s \<and> pd_state d1 = Some s"
proof -
  have "isok (Inr u :: position_state res)" by simp
  with commit_position_state [OF assms] show ?thesis by blast
qed

section \<open>The abstract lifecycle\<close>

type_synonym lifecycle = "bool \<times> position_status"

definition lifecycle :: "position_state \<Rightarrow> lifecycle" where
  "lifecycle s = (pp_carry_forward_allowed s, pp_lifecycle_status s)"

text \<open>The calls of the lifecycle, with the clock reading and the arguments.\<close>

datatype position_call =
    Carry datetime date datetime "governance option" "string list"
  | Resume datetime date datetime "governance option" "string list"
  | ForceClosed datetime date datetime "string list"
  | CloseCall datetime date datetime string string bool bool "string list"
  | Rollover datetime date datetime string "string list"
  | StoplossInactive datetime date datetime price string string "string list"
  | StoplossReset datetime date datetime price "price option" string string "string list"

fun position_step :: "position_call \<Rightarrow> position_directory \<Rightarrow> position_directory" where
  "position_step (Carry now session t g prov) d = snd (carry_forward now session t g prov d)"
| "position_step (Resume now session t g prov) d = snd (resume_position now session t g prov d)"
| "position_step (ForceClosed now session t prov) d = snd (record_expiry_force_closed now session t prov d)"
| "position_step (CloseCall now session t reason m rv fr prov) d = snd (mark_position_closed now session t reason m rv fr prov d)"
| "position_step (Rollover now session t m prov) d = snd (mark_rollover_required now session t m prov d)"
| "position_step (StoplossInactive now session t p reason m prov) d =
     snd (mark_stoploss_inactive_for_carry_forward now session t p reason m prov d)"
| "position_step (StoplossReset now session t p fsl reason m prov) d =
     snd (activate_stoploss_after_reset now session t p fsl reason m prov d)"

text \<open>Whether a call returns without raising.\<close>

fun position_succeeds :: "position_call \<Rightarrow> position_directory \<Rightarrow> bool" where
  "position_succeeds (Carry now session t g prov) d = isok (fst (carry_forward now session t g prov d))"
| "position_succeeds (Resume now session t g prov) d = isok (fst (resume_position now session t g prov d))"
| "position_succeeds (ForceClosed now session t prov) d = isok (fst (record_expiry_force_closed now session t prov d))"
| "position_succeeds (CloseCall now session t reason m rv fr prov) d =
     isok (fst (mark_position_closed now session t reason m rv fr prov d))"
| "position_succeeds (Rollover now session t m prov) d = isok (fst (mark_rollover_required now session t m prov d))"
| "position_succeeds (StoplossInactive now session t p reason m prov) d =
     isok (fst (mark_stoploss_inactive_for_carry_forward now session t p reason m prov d))"
| "position_succeeds (StoplossReset now session t p fsl reason m prov) d =
     isok (fst (activate_stoploss_after_reset now session t p fsl reason m prov d))"

text \<open>The move of the machine each call makes: carrying and resuming need the carry flag.\<close>

fun move_of :: "position_call \<Rightarrow> lifecycle \<Rightarrow> lifecycle \<Rightarrow> bool" where
  "move_of (Carry _ _ _ _ _) x y \<longleftrightarrow> fst x \<and> y = (True, PAPER_POSITION_CARRIED_FORWARD)"
| "move_of (Resume _ _ _ _ _) x y \<longleftrightarrow> fst x \<and> y = (True, PAPER_POSITION_RESUMED)"
| "move_of (ForceClosed _ _ _ _) x y \<longleftrightarrow> y = x"
| "move_of (CloseCall _ _ _ _ _ rv fr _) x y \<longleftrightarrow> y = (False, closed_status rv fr)"
| "move_of (Rollover _ _ _ _ _) x y \<longleftrightarrow> y = (False, PAPER_ROLLOVER_REQUIRED)"
| "move_of (StoplossInactive _ _ _ _ _ _ _) x y \<longleftrightarrow> y = (fst x, PAPER_POSITION_CARRIED_FORWARD)"
| "move_of (StoplossReset _ _ _ _ _ _ _ _) x y \<longleftrightarrow> y = (fst x, PAPER_POSITION_OPEN)"

text \<open>
  A path of the machine under a list of calls, each with the mark whether it succeeded: a call
  that succeeds makes its move, a call that fails makes it (when only the event log failed) or none.
\<close>

inductive lifecycle_path :: "lifecycle \<Rightarrow> (position_call \<times> bool) list \<Rightarrow> lifecycle \<Rightarrow> bool" where
  stop: "lifecycle_path x [] x"
| moved: "move_of c x y \<Longrightarrow> lifecycle_path y cs z \<Longrightarrow> lifecycle_path x ((c, ok) # cs) z"
| failed: "lifecycle_path x cs z \<Longrightarrow> lifecycle_path x ((c, False) # cs) z"

inductive_simps lifecycle_path_simps [simp]:
  "lifecycle_path x [] z"
  "lifecycle_path x ((c, ok) # cs) z"

lemma move_keeps_carry_off: "move_of c x y \<Longrightarrow> fst y \<Longrightarrow> fst x"
  by (cases c) auto

lemma path_keeps_carry_off: "lifecycle_path x cs z \<Longrightarrow> fst z \<Longrightarrow> fst x"
  by (induction rule: lifecycle_path.induct) (auto dest: move_keeps_carry_off)

definition position_run :: "position_call list \<Rightarrow> position_directory \<Rightarrow> position_directory" where
  "position_run cs d = fold position_step cs d"

primrec position_trace :: "position_call list \<Rightarrow> position_directory \<Rightarrow> (position_call \<times> bool) list" where
  "position_trace [] d = []"
| "position_trace (c # cs) d = (c, position_succeeds c d) # position_trace cs (position_step c d)"

definition file_lifecycle :: "position_directory \<Rightarrow> lifecycle option" where
  "file_lifecycle d = map_option lifecycle (pd_state d)"

text \<open>One step of the abstract machine; none only when the operation fails or the step may stay.\<close>

definition steps_to ::
  "position_directory \<Rightarrow> position_directory \<Rightarrow> bool \<Rightarrow> (lifecycle \<Rightarrow> lifecycle \<Rightarrow> bool) \<Rightarrow> bool" where
  "steps_to d d' ok R \<longleftrightarrow> (pd_state d' = pd_state d \<and> (\<not> ok \<or> (\<forall>x. R x x))) \<or>
     (\<exists>s s'. read_position d = Inr s \<and> pd_state d' = Some s' \<and> wf_position s' \<and> R (lifecycle s) (lifecycle s'))"

lemma steps_toI:
  assumes "bindS (load_position now) (\<lambda>s. commit_position (f s) (ev s)) d = (r, d')"
    and "\<And>s. read_position d = Inr s \<Longrightarrow> R (lifecycle s) (lifecycle (f s))"
  shows "steps_to d d' (isok r) R"
proof (cases "load_position now d")
  case (Pair x d1)
  show ?thesis
  proof (cases x)
    case (Inl e)
    with Pair assms(1) load_keeps_state [OF Pair] show ?thesis by (auto simp: bindS_def steps_to_def)
  next
    case (Inr s)
    with Pair have s: "read_position d = Inr s" "d1 = d" by (auto simp: load_position_Inr)
    with Pair Inr assms(1) have "commit_position (f s) (ev s) d = (r, d')" by (simp add: bindS_def)
    from commit_position_state [OF this] s assms(2) show ?thesis by (auto simp: steps_to_def)
  qed
qed

lemma continue_position_steps:
  assumes "continue_position tx status ty m now session t g prov d = (r, d')"
  shows "steps_to d d' (isok r) (\<lambda>x y. fst x \<and> y = (True, status))"
proof (cases "load_position now d")
  case (Pair x d1)
  show ?thesis
  proof (cases x)
    case (Inl e)
    with Pair assms(1) load_keeps_state [OF Pair] show ?thesis
      by (auto simp: continue_position_def bindS_def steps_to_def)
  next
    case (Inr s)
    with Pair have s: "read_position d = Inr s" "d1 = d" by (auto simp: load_position_Inr)
    show ?thesis
    proof (cases "pp_carry_forward_allowed s")
      case False
      with Pair Inr assms(1) s show ?thesis by (auto simp: continue_position_def bindS_def liftS_def steps_to_def)
    next
      case allowed: True
      let ?gate = "case g of None \<Rightarrow> liftS (Inr ()) | Some gov \<Rightarrow> apply_expiry_governance_gate gov s session t prov"
      obtain y d2 where gate: "?gate d = (y, d2)" by (cases "?gate d")
      then have d2: "pd_state d2 = pd_state d"
        by (auto simp: liftS_def split: option.splits dest: gate_keeps_state)
      show ?thesis
      proof (cases y)
        case (Inl e)
        with Pair Inr assms(1) s allowed gate d2 show ?thesis
          by (auto simp: continue_position_def bindS_def steps_to_def)
      next
        case y: (Inr u)
        show ?thesis
        proof (cases "session > pp_expiry_date s")
          case True
          with Pair Inr y assms(1) s allowed gate d2 have "pd_state d' = pd_state d \<and> \<not> isok r"
            by (auto simp: continue_position_def bindS_def liftS_def split: prod.splits sum.splits dest: append_result)
          then show ?thesis by (simp add: steps_to_def)
        next
          case False
          let ?s' = "s\<lparr>pp_lifecycle_status := status, pp_last_updated_timestamp := t,
            pp_provenance_source_ids := merge_provenance (pp_provenance_source_ids s) prov\<rparr>"
          from False Pair Inr y assms(1) s allowed gate
          have "commit_position ?s' (\<lambda>u. position_event_of u t ty session None m prov) d2 = (r, d')"
            by (simp add: continue_position_def bindS_def)
          from commit_position_state [OF this] d2 s allowed show ?thesis
            by (auto simp: steps_to_def lifecycle_def)
        qed
      qed
    qed
  qed
qed

lemma steps_to_then:
  assumes "bindS m f d = (r, d')" and "\<And>x d1. m d = (x, d1) \<Longrightarrow> steps_to d d1 (isok x) R"
    and "\<And>u d1 r d'. f u d1 = (r, d') \<Longrightarrow> pd_state d' = pd_state d1"
  shows "steps_to d d' (isok r) R"
proof (cases "m d")
  case (Pair x d1)
  from assms(2) [OF Pair] have "steps_to d d1 (isok x) R" .
  moreover have "pd_state d' = pd_state d1 \<and> (isok r \<longrightarrow> isok x)"
    using assms(1) Pair assms(3) by (cases x) (auto simp: bindS_def)
  ultimately show ?thesis by (auto simp: steps_to_def)
qed

lemma optional_append_keeps:
  "bindS (if c then append_position_event e else liftS (Inr ())) (\<lambda>_. k) d1 = (r, d') \<Longrightarrow>
   (\<And>d2 r d'. k d2 = (r, d') \<Longrightarrow> pd_state d' = pd_state d2) \<Longrightarrow> pd_state d' = pd_state d1"
  by (cases "append_position_event e d1")
    (auto simp: bindS_def liftS_def split: if_splits sum.splits dest: append_result)

lemma mark_closed_steps:
  assumes "mark_position_closed now session t reason m rv fr prov d = (r, d')"
  shows "steps_to d d' (isok r) (\<lambda>x y. y = (False, closed_status rv fr))"
proof -
  let ?commit = "\<lambda>s. commit_position (ended_position s (closed_status rv fr) t prov)
    (\<lambda>u. position_event_of u t POSITION_CLOSED session (Some reason) m prov)"
  obtain k where eq: "mark_position_closed now session t reason m rv fr prov =
      bindS (bindS (load_position now) ?commit) k"
    and k: "\<And>u d1 r d'. k u d1 = (r, d') \<Longrightarrow> pd_state d' = pd_state d1"
  proof (rule that)
    show "mark_position_closed now session t reason m rv fr prov = bindS (bindS (load_position now) ?commit)
      (\<lambda>u. bindS (if rv then append_position_event (position_event_of u t REVERSE_ENTRY_REQUIRED session
         (Some ''reverse_entry_after_stoploss_required'')
         ''Stoploss closed the paper position; a fresh opposite-direction S23 decision must be calculated before any reverse paper entry.'' prov)
       else liftS (Inr ())) (\<lambda>_.
     bindS (if fr then append_position_event (position_event_of u t FRESH_ENTRY_REQUIRED session
         (Some ''fresh_entry_after_target_required'')
         ''Target closed the paper position; a fresh S23 decision must be calculated from current market, OI, premium, and expiry data before any new paper entry.'' prov)
       else liftS (Inr ())) (\<lambda>_. liftS (Inr u))))"
      by (simp add: mark_position_closed_def bindS_assoc)
  qed (erule optional_append_keeps, erule optional_append_keeps, simp add: liftS_def)
  show ?thesis
  proof (rule steps_to_then [OF assms [unfolded eq]])
    fix x d1
    assume "bindS (load_position now) ?commit d = (x, d1)"
    then show "steps_to d d1 (isok x) (\<lambda>x y. y = (False, closed_status rv fr))"
      by (rule steps_toI) (simp add: lifecycle_def ended_position_def)
  qed (rule k)
qed

lemma position_step_steps: "steps_to d (position_step c d) (position_succeeds c d) (move_of c)"
proof (cases c)
  case (Carry now session t g prov)
  obtain r d' where e: "carry_forward now session t g prov d = (r, d')" by (cases "carry_forward now session t g prov d")
  from continue_position_steps [OF e [unfolded carry_forward_def]] Carry e show ?thesis by (auto simp: steps_to_def)
next
  case (Resume now session t g prov)
  obtain r d' where e: "resume_position now session t g prov d = (r, d')" by (cases "resume_position now session t g prov d")
  from continue_position_steps [OF e [unfolded resume_position_def]] Resume e show ?thesis by (auto simp: steps_to_def)
next
  case (ForceClosed now session t prov)
  then show ?thesis
    by (auto simp: record_expiry_force_closed_def bindS_def steps_to_def split: prod.splits sum.splits dest: load_keeps_state)
next
  case (CloseCall now session t reason m rv fr prov)
  obtain r d' where e: "mark_position_closed now session t reason m rv fr prov d = (r, d')"
    by (cases "mark_position_closed now session t reason m rv fr prov d")
  from mark_closed_steps [OF e] CloseCall e show ?thesis by (auto simp: steps_to_def)
next
  case (Rollover now session t m prov)
  obtain r d' where e: "mark_rollover_required now session t m prov d = (r, d')"
    by (cases "mark_rollover_required now session t m prov d")
  have "steps_to d d' (isok r) (move_of c)"
    by (rule steps_toI [OF e [unfolded mark_rollover_required_def]])
      (use Rollover in \<open>simp add: lifecycle_def ended_position_def\<close>)
  with Rollover e show ?thesis by simp
next
  case (StoplossInactive now session t p reason m prov)
  obtain r d' where e: "mark_stoploss_inactive_for_carry_forward now session t p reason m prov d = (r, d')"
    by (cases "mark_stoploss_inactive_for_carry_forward now session t p reason m prov d")
  have "steps_to d d' (isok r) (move_of c)"
    by (rule steps_toI [OF e [unfolded mark_stoploss_inactive_for_carry_forward_def]])
      (use StoplossInactive in \<open>simp add: lifecycle_def\<close>)
  with StoplossInactive e show ?thesis by simp
next
  case (StoplossReset now session t p fsl reason m prov)
  obtain r d' where e: "activate_stoploss_after_reset now session t p fsl reason m prov d = (r, d')"
    by (cases "activate_stoploss_after_reset now session t p fsl reason m prov d")
  have "steps_to d d' (isok r) (move_of c)"
    by (rule steps_toI [OF e [unfolded activate_stoploss_after_reset_def]])
      (use StoplossReset in \<open>simp add: lifecycle_def\<close>)
  with StoplossReset e show ?thesis by simp
qed

text \<open>A run is a path of the machine.\<close>

lemma read_position_lifecycle:
  "read_position d = Inr u \<Longrightarrow> pd_state d = Some s \<Longrightarrow> lifecycle u = lifecycle s"
  by (auto simp: read_position_def position_from_payload_def bindE_eq_Inr mk_position_ok lifecycle_def)

lemma position_step_labelled:
  assumes "pd_state d = Some s" and "wf_position s"
  shows "\<exists>s'. pd_state (position_step c d) = Some s' \<and> wf_position s' \<and>
    (move_of c (lifecycle s) (lifecycle s') \<or> (\<not> position_succeeds c d \<and> lifecycle s' = lifecycle s))"
  using position_step_steps [of d c] assms by (cases "lifecycle s") (auto simp: steps_to_def read_position_lifecycle)

lemma position_step_moves:
  assumes "pd_state d = Some s"
  shows "\<exists>s'. pd_state (position_step c d) = Some s' \<and> (s' = s \<or> move_of c (lifecycle s) (lifecycle s'))"
  using position_step_steps [of d c] assms by (auto simp: steps_to_def read_position_lifecycle)

lemma position_run_path:
  "pd_state d = Some s \<Longrightarrow> wf_position s \<Longrightarrow>
   \<exists>s'. pd_state (position_run cs d) = Some s' \<and> wf_position s' \<and> lifecycle_path (lifecycle s) (position_trace cs d) (lifecycle s')"
proof (induction cs arbitrary: d s)
  case (Cons c cs)
  from position_step_labelled [OF Cons.prems, of c] obtain s1 where
    1: "pd_state (position_step c d) = Some s1" "wf_position s1"
      "move_of c (lifecycle s) (lifecycle s1) \<or> (\<not> position_succeeds c d \<and> lifecycle s1 = lifecycle s)" by blast
  from Cons.IH [OF 1(1,2)] obtain s2 where
    2: "pd_state (position_run cs (position_step c d)) = Some s2" "wf_position s2"
      "lifecycle_path (lifecycle s1) (position_trace cs (position_step c d)) (lifecycle s2)" by blast
  from 1(3) 2(3) have "lifecycle_path (lifecycle s) (position_trace (c # cs) d) (lifecycle s2)"
    by (cases "lifecycle s1") (fastforce simp: split_paired_Ex)
  with 2(1,2) show ?case by (simp add: position_run_def)
qed (simp add: position_run_def)

definition ended :: "lifecycle \<Rightarrow> bool" where
  "ended x \<longleftrightarrow> \<not> fst x \<and> paper_position_is_no_longer_open (PStatus (snd x))"

fun moves_stoploss :: "position_call \<Rightarrow> bool" where
  "moves_stoploss (StoplossInactive _ _ _ _ _ _ _) = True"
| "moves_stoploss (StoplossReset _ _ _ _ _ _ _ _) = True"
| "moves_stoploss _ = False"

lemma ended_move: "move_of c x y \<Longrightarrow> \<not> moves_stoploss c \<Longrightarrow> ended x \<Longrightarrow> ended y"
  by (cases c) (auto simp: ended_def paper_position_is_no_longer_open_def status_in_def closed_status_def)

lemma ended_run:
  "pd_state d = Some s \<Longrightarrow> ended (lifecycle s) \<Longrightarrow> list_all (\<lambda>c. \<not> moves_stoploss c) cs \<Longrightarrow>
   \<exists>s'. pd_state (position_run cs d) = Some s' \<and> ended (lifecycle s')"
proof (induction cs arbitrary: d s)
  case (Cons c cs)
  from position_step_moves [OF Cons.prems(1), of c] obtain s1 where
    1: "pd_state (position_step c d) = Some s1" "s1 = s \<or> move_of c (lifecycle s) (lifecycle s1)" by blast
  then have "ended (lifecycle s1)"
    using ended_move [of c "lifecycle s" "lifecycle s1"] Cons.prems(2,3) by (cases "s1 = s") simp_all
  from Cons.IH [OF 1(1) this] Cons.prems(3) show ?case by (simp add: position_run_def)
qed (simp add: position_run_def)

lemma mark_closed_ended:
  assumes "mark_position_closed now session t reason m rv fr prov d = (Inr u, d')"
  shows "pd_state d' = Some u \<and> lifecycle u = (False, closed_status rv fr)"
proof -
  let ?rev = "\<lambda>v. if rv then append_position_event (position_event_of v t REVERSE_ENTRY_REQUIRED session
      (Some ''reverse_entry_after_stoploss_required'')
      ''Stoploss closed the paper position; a fresh opposite-direction S23 decision must be calculated before any reverse paper entry.'' prov)
    else liftS (Inr ())"
  let ?fresh = "\<lambda>v. if fr then append_position_event (position_event_of v t FRESH_ENTRY_REQUIRED session
      (Some ''fresh_entry_after_target_required'')
      ''Target closed the paper position; a fresh S23 decision must be calculated from current market, OI, premium, and expiry data before any new paper entry.'' prov)
    else liftS (Inr ())"
  from assms obtain s d0 v d1 where
    c: "commit_position (ended_position s (closed_status rv fr) t prov)
      (\<lambda>u. position_event_of u t POSITION_CLOSED session (Some reason) m prov) d0 = (Inr v, d1)"
    and rest: "bindS (?rev v) (\<lambda>_. bindS (?fresh v) (\<lambda>_. liftS (Inr v))) d1 = (Inr u, d')"
    unfolding mark_position_closed_def bindS_Inr [of "load_position now"] by (subst (asm) bindS_Inr) blast
  from rest have "u = v" by (auto simp only: bindS_Inr liftS_Inr)
  moreover have "pd_state d' = pd_state d1"
    by (rule optional_append_keeps [OF rest], erule optional_append_keeps, simp add: liftS_def)
  ultimately show ?thesis using commit_position_Inr [OF c] by (simp add: lifecycle_def ended_position_def)
qed

lemma isok_fst: "isok (fst p) \<Longrightarrow> \<exists>x d. p = (Inr x, d)"
  by (cases p) (auto elim: isokE)

text \<open>A position for the witnesses: a sold weekly option of a Tuesday, expiring on the Thursday of the next week.\<close>

definition demo_policy :: strategy_expiry_policy where
  "demo_policy = \<lparr>ep_expiry_type = WEEKLY, ep_rollover_policy = T_MINUS_1, ep_forced_close_time = None,
     ep_no_carry_past_expiry = True\<rparr>"

definition demo_position_state :: position_state where
  "demo_position_state = \<lparr>pp_artifact_version = 1, pp_strategy_code = ''S23'', pp_unique_code = ''U1'',
     pp_symbol = ''NIFTY'', pp_option_type = CALL, pp_selected_contract_symbol = ''NIFTY24'',
     pp_expiry_date = 738896, pp_expiry_policy = demo_policy, pp_entry_date = 738887, pp_entry_timestamp = 0,
     pp_entry_price = 100, pp_lots = 1, pp_quantity = 75, pp_side = ''SELL'', pp_target_price = 50,
     pp_stoploss_price = 150, pp_fsl_price = None, pp_trp_price = None, pp_carry_forward_allowed = True,
     pp_no_carry_past_expiry = True, pp_lifecycle_status = PAPER_POSITION_OPEN,
     pp_last_updated_timestamp = 0, pp_provenance_source_ids = [''src''], pp_strategy_parameters = None,
     pp_stoploss_active = True, pp_stoploss_reset_pending = False, pp_stoploss_reset_session_date = None,
     pp_stoploss_reset_reference_price = None, pp_stoploss_reset_buffer_pct = None,
     pp_stoploss_reset_orpt_time = None, pp_stoploss_reset_rc_time = None, pp_stoploss_reset_reason_code = None\<rparr>"

definition demo_session :: position_directory where
  "demo_session = \<lparr>pd_path = ''s'', pd_state = Some demo_position_state, pd_events = []\<rparr>"

definition demo_close :: "(position_state, position_directory) op" where
  "demo_close = mark_position_closed 0 738890 5 ''target_hit'' ''closed'' False False []"

lemma demo_close_ok: "\<exists>u d1. demo_close demo_session = (Inr u, d1)"
proof -
  have "isok (fst (demo_close demo_session))" by code_simp
  then show ?thesis using isok_fst by blast
qed

section \<open>Properties\<close>

text \<open>
  C10: every run of lifecycle calls, failing ones included, is a path of the lifecycle machine under
  the calls it made: a call that succeeds makes its own move, so carrying and resuming succeed only while the
  carry flag is set and closing and rollover end with the flag cleared; a call that fails makes its
  move or none. From a well-formed position the state file always holds a well-formed position,
  and its carry flag is never set again.
\<close>
theorem position_lifecycle_refines:
  assumes "pd_state d = Some s" and "wf_position s"
  shows "\<exists>s'. pd_state (position_run cs d) = Some s' \<and> wf_position s' \<and>
    lifecycle_path (lifecycle s) (position_trace cs d) (lifecycle s') \<and>
    (pp_carry_forward_allowed s' \<longrightarrow> pp_carry_forward_allowed s)"
proof -
  from position_run_path [OF assms, of cs] obtain s' where
    s': "pd_state (position_run cs d) = Some s'" "wf_position s'"
      "lifecycle_path (lifecycle s) (position_trace cs d) (lifecycle s')" by blast
  from path_keeps_carry_off [OF s'(3)] s' show ?thesis by (auto simp: lifecycle_def)
qed

theorem position_lifecycle_refines_witness:
  "\<exists>s'. pd_state (position_run [CloseCall 0 738890 5 ''target_hit'' ''closed'' False False [], Carry 0 738891 9 None []] demo_session) = Some s' \<and>
    wf_position s' \<and> lifecycle s' = (False, PAPER_POSITION_CLOSED)"
proof -
  let ?cs = "[CloseCall 0 738890 5 ''target_hit'' ''closed'' False False [], Carry 0 738891 9 None []]"
  have "pd_state demo_session = Some demo_position_state" by (simp add: demo_session_def)
  moreover have "wf_position demo_position_state" by code_simp
  ultimately obtain s' where s': "pd_state (position_run ?cs demo_session) = Some s'" "wf_position s'"
    "lifecycle_path (lifecycle demo_position_state) (position_trace ?cs demo_session) (lifecycle s')"
    using position_lifecycle_refines [of demo_session demo_position_state ?cs] by blast
  have "position_succeeds (CloseCall 0 738890 5 ''target_hit'' ''closed'' False False []) demo_session"
    using demo_close_ok by (auto simp: demo_close_def)
  with s'(3) have "lifecycle s' = (False, closed_status False False)" by auto
  with s'(1,2) show ?thesis by (auto simp: closed_status_def)
qed

text \<open>
  A closed position stays closed: after a successful close no run of carry, resume,
  force-close, close and rollover calls makes it active or lets it be carried again.
\<close>
theorem closed_position_stays_closed:
  assumes "mark_position_closed now session t reason m rv fr prov d = (Inr u, d1)"
    and "list_all (\<lambda>c. \<not> moves_stoploss c) cs"
  shows "\<exists>s. pd_state (position_run cs d1) = Some s \<and> \<not> pp_carry_forward_allowed s \<and>
    \<not> paper_position_is_active (PStatus (pp_lifecycle_status s))"
proof -
  have u: "pd_state d1 = Some u" "lifecycle u = (False, closed_status rv fr)"
    using mark_closed_ended [OF assms(1)] by auto
  then have "ended (lifecycle u)"
    by (simp add: ended_def closed_status_def paper_position_is_no_longer_open_def status_in_def)
  from ended_run [OF u(1) this assms(2)] show ?thesis
    by (auto simp: ended_def lifecycle_def paper_position_is_no_longer_open_def paper_position_is_active_def status_in_def)
qed

theorem closed_position_stays_closed_witness:
  "\<exists>u d1 s. demo_close demo_session = (Inr u, d1) \<and>
    pd_state (position_run [Carry 0 738891 7 None [], Resume 0 738892 8 None []] d1) = Some s \<and>
    \<not> paper_position_is_active (PStatus (pp_lifecycle_status s))"
proof -
  obtain u d1 where 1: "demo_close demo_session = (Inr u, d1)" using demo_close_ok by blast
  have 2: "list_all (\<lambda>c. \<not> moves_stoploss c) [Carry 0 738891 7 None [], Resume 0 738892 8 None []]" by simp
  from closed_position_stays_closed [OF 1 [unfolded demo_close_def] 2] 1 show ?thesis by blast
qed

text \<open>
  A stop-loss reset is not guarded: \<^verbatim>\<open>activate_stoploss_after_reset\<close> on a position that
  was closed makes its status \<^verbatim>\<open>PAPER_POSITION_OPEN\<close> again, so it counts as active and blocks
  new entries.
\<close>
theorem stoploss_reset_reopens_closed_position:
  assumes "mark_position_closed now session t reason m rv fr prov d = (Inr u, d1)"
    and "activate_stoploss_after_reset now2 session2 t2 stoploss fsl reason2 m2 prov2 d1 = (Inr v, d2)"
  shows "\<not> paper_position_is_active (PStatus (pp_lifecycle_status u)) \<and>
    paper_position_is_active (PStatus (pp_lifecycle_status v)) \<and>
    paper_position_blocks_new_entry (PStatus (pp_lifecycle_status v)) \<and> pd_state d2 = Some v"
proof -
  from assms(2) have "pp_lifecycle_status v = PAPER_POSITION_OPEN" "pd_state d2 = Some v"
    by (auto simp: activate_stoploss_after_reset_def bindS_Inr dest!: commit_position_Inr)
  moreover have "pp_lifecycle_status u = closed_status rv fr"
    using mark_closed_ended [OF assms(1)] by (simp add: lifecycle_def)
  ultimately show ?thesis
    by (simp add: closed_status_def paper_position_is_active_def paper_position_blocks_new_entry_def status_in_def)
qed

theorem stoploss_reset_reopens_closed_position_witness:
  "\<exists>u d1 v d2. demo_close demo_session = (Inr u, d1) \<and>
    activate_stoploss_after_reset 0 738891 8 140 None ''reset'' ''stoploss reset'' [] d1 = (Inr v, d2) \<and>
    \<not> paper_position_is_active (PStatus (pp_lifecycle_status u)) \<and>
    paper_position_is_active (PStatus (pp_lifecycle_status v))"
proof -
  let ?reset = "activate_stoploss_after_reset 0 738891 8 140 None ''reset'' ''stoploss reset'' []"
  obtain u d1 where 1: "demo_close demo_session = (Inr u, d1)" using demo_close_ok by blast
  have "isok (fst (?reset (snd (demo_close demo_session))))" by code_simp
  then obtain v d2 where 2: "?reset d1 = (Inr v, d2)" using isok_fst [of "?reset d1"] by (auto simp: 1)
  from stoploss_reset_reopens_closed_position [OF 1 [unfolded demo_close_def] 2] 1 2 show ?thesis by blast
qed

end
