(* ===== verification/ExpiryGovernance.thy ===== *)
theory ExpiryGovernance
  imports ExpiryCalendar PositionLifecycle
begin

text \<open>
  The governance half of \<^verbatim>\<open>src/tfis/paper/expiry_governance.py\<close>: \<^verbatim>\<open>PaperExpiryGovernance\<close>
  over any calendar (the argument \<open>c\<close>, its methods the fields \<open>ec_\<close>), and what it means for
  carrying a position through \<^verbatim>\<open>PaperPositionStateStore\<close>.
\<close>

section \<open>PaperExpiryGovernance\<close>

definition rollover_threshold :: "rollover_policy \<Rightarrow> int" where
  "rollover_threshold p = (if p = T_MINUS_1 then 1 else 2)"

definition position_may_continue_to_expiry :: "expiry_calendar \<Rightarrow> position_state \<Rightarrow> bool" where
  "position_may_continue_to_expiry c p \<longleftrightarrow>
     ec_trading_days_until c (pp_entry_date p) (pp_expiry_date p)
       \<ge> rollover_threshold (ep_rollover_policy (pp_expiry_policy p)) + 1"

definition should_select_next_expiry_for_policy ::
  "expiry_calendar \<Rightarrow> strategy_expiry_policy \<Rightarrow> date \<Rightarrow> date \<Rightarrow> position_state option \<Rightarrow> bool" where
  "should_select_next_expiry_for_policy c policy session current_expiry position =
     (if (case position of None \<Rightarrow> False | Some p \<Rightarrow> position_may_continue_to_expiry c p) then False
      else if session \<ge> current_expiry then True
      else ec_trading_days_until c session current_expiry \<le> rollover_threshold (ep_rollover_policy policy))"

text \<open>The argument \<^verbatim>\<open>StrategyRule | StrategyExpiryPolicy | PaperPositionState\<close>.\<close>

datatype expiry_subject = Rule strategy_rule | Policy strategy_expiry_policy | Position position_state

fun extract_policy :: "expiry_subject \<Rightarrow> strategy_expiry_policy" where
  "extract_policy (Rule r) = sr_expiry_policy r"
| "extract_policy (Policy p) = p"
| "extract_policy (Position s) = pp_expiry_policy s"

definition resolve_expiry_date :: "expiry_calendar \<Rightarrow> expiry_subject \<Rightarrow> date \<Rightarrow> date" where
  "resolve_expiry_date c x session = (case x of
     Position s \<Rightarrow> pp_expiry_date s
   | _ \<Rightarrow> ec_resolve_expiry c (ep_expiry_type (extract_policy x)) session)"

definition should_select_next_expiry :: "expiry_calendar \<Rightarrow> expiry_subject \<Rightarrow> date \<Rightarrow> bool" where
  "should_select_next_expiry c x session =
     should_select_next_expiry_for_policy c (extract_policy x) session (resolve_expiry_date c x session)
       (case x of Position s \<Rightarrow> Some s | _ \<Rightarrow> None)"

definition can_carry_forward :: "expiry_calendar \<Rightarrow> position_state \<Rightarrow> date \<Rightarrow> bool" where
  "can_carry_forward c p session =
     (if \<not> pp_carry_forward_allowed p then False
      else if pp_no_carry_past_expiry p \<and> session \<ge> pp_expiry_date p then False
      else if should_select_next_expiry_for_policy c (pp_expiry_policy p) session (pp_expiry_date p) (Some p) then False
      else True)"

definition past_forced_close_time :: "position_state \<Rightarrow> time_of_day \<Rightarrow> bool" where
  "past_forced_close_time p now = (case ep_forced_close_time (pp_expiry_policy p) of
     None \<Rightarrow> True | Some t \<Rightarrow> now \<ge> t)"

definition must_force_close :: "expiry_calendar \<Rightarrow> position_state \<Rightarrow> date \<Rightarrow> time_of_day \<Rightarrow> bool" where
  "must_force_close c p session now =
     (if pp_no_carry_past_expiry p \<and> session > pp_expiry_date p then True
      else if session = pp_expiry_date p then past_forced_close_time p now
      else if should_select_next_expiry_for_policy c (pp_expiry_policy p) session (pp_expiry_date p) (Some p)
        then past_forced_close_time p now
      else False)"

fun join_space :: "string list \<Rightarrow> string" where
  "join_space [] = []"
| "join_space [x] = x"
| "join_space (x # y # xs) = x @ CHR '' '' # join_space (y # xs)"

definition evaluate_position :: "expiry_calendar \<Rightarrow> position_state \<Rightarrow> date \<Rightarrow> time_of_day \<Rightarrow> governance_decision" where
  "evaluate_position c p session now =
     (let should_next = should_select_next_expiry c (Position p) session;
          force_close = must_force_close c p session now;
          messages =
            (if should_next then [''Current expiry is inside the configured rollover window.''] else []) @
            (if force_close then [''Current-expiry exposure must be force-closed under expiry governance.''] else [])
      in \<lparr>gv_can_carry_forward = can_carry_forward c p session,
          gv_must_force_close = force_close, gv_should_select_next_expiry = should_next,
          gv_event_types = (if should_next then [ROLLOVER_POLICY_APPLIED, NEXT_EXPIRY_REQUIRED] else []) @
            (if force_close then [EXPIRY_FORCE_CLOSE_REQUIRED] else []),
          gv_message = join_space (if messages = [] then [''Carry-forward remains allowed for the current expiry.'']
            else messages)\<rparr>)"

text \<open>The dictionary of \<^verbatim>\<open>_reason_code_for_event\<close>; the decision produces no other type.\<close>

definition reason_code_for_event :: "position_event_type \<Rightarrow> string option" where
  "reason_code_for_event = map_of
     [(EXPIRY_FORCE_CLOSE_REQUIRED, ''expiry_force_close_required''), (EXPIRY_FORCE_CLOSED, ''expiry_force_closed''),
      (NEXT_EXPIRY_REQUIRED, ''next_expiry_required''), (ROLLOVER_POLICY_APPLIED, ''rollover_policy_applied'')]"

definition build_events ::
  "expiry_calendar \<Rightarrow> position_state \<Rightarrow> date \<Rightarrow> datetime \<Rightarrow> time_of_day \<Rightarrow> string list \<Rightarrow> position_event list" where
  "build_events c p session t now prov =
     (let decision = evaluate_position c p session now in
      map (\<lambda>ty. position_event_of p t ty session (reason_code_for_event ty) (gv_message decision) prov)
        (gv_event_types decision))"

definition expiry_governance :: "expiry_calendar \<Rightarrow> governance" where
  "expiry_governance c = \<lparr>gn_evaluate_position = evaluate_position c, gn_build_events = build_events c\<rparr>"

definition build_paper_expiry_governance :: "string \<Rightarrow> expiry_calendar option \<Rightarrow> governance res" where
  "build_paper_expiry_governance strategy_code calendar =
     (let shared = (case calendar of None \<Rightarrow> deterministic_calendar [] [] | Some c \<Rightarrow> c) in
      if norm_text strategy_code \<in> {''S21'', ''S23''} then Inr (expiry_governance shared)
      else Inl (ValueError [Txt ''Unsupported paper expiry governance strategy code: '', Txt strategy_code]))"

lemma reason_codes_defined: "ty \<in> set (gv_event_types (evaluate_position c p session now)) \<Longrightarrow> reason_code_for_event ty \<noteq> None"
  by (auto simp: evaluate_position_def Let_def reason_code_for_event_def split: if_splits)

section \<open>When a position may be carried\<close>

text \<open>
  The rule the governance implements, in terms of the calendar: the position was entered
  early enough to run to its expiry, or it is still further from expiry than the rollover
  window.
\<close>

definition outside_rollover_window :: "expiry_calendar \<Rightarrow> position_state \<Rightarrow> date \<Rightarrow> bool" where
  "outside_rollover_window c p session \<longleftrightarrow>
     (let threshold = rollover_threshold (ep_rollover_policy (pp_expiry_policy p)) in
      ec_trading_days_until c (pp_entry_date p) (pp_expiry_date p) > threshold \<or>
      (session < pp_expiry_date p \<and> ec_trading_days_until c session (pp_expiry_date p) > threshold))"

lemma should_next_iff:
  "should_select_next_expiry_for_policy c (pp_expiry_policy p) session (pp_expiry_date p) (Some p) \<longleftrightarrow>
     \<not> outside_rollover_window c p session"
  by (auto simp: should_select_next_expiry_for_policy_def position_may_continue_to_expiry_def outside_rollover_window_def Let_def)

lemma can_carry_iff:
  "can_carry_forward c p session \<longleftrightarrow> pp_carry_forward_allowed p \<and>
     \<not> (pp_no_carry_past_expiry p \<and> pp_expiry_date p \<le> session) \<and> outside_rollover_window c p session"
  by (simp add: can_carry_forward_def should_next_iff)

lemma rollover_threshold_pos: "1 \<le> rollover_threshold p"
  by (simp add: rollover_threshold_def)

section \<open>Carrying through the store\<close>

definition log_readable :: "position_directory \<Rightarrow> bool" where
  "log_readable d \<longleftrightarrow> isok (load_position_events d)"

lemma mapE_ok: "isok (mapE f xs) \<longleftrightarrow> list_all (\<lambda>x. isok (f x)) xs"
proof (induction xs)
  case (Cons x xs)
  then show ?case by (cases "f x"; cases "mapE f xs") auto
qed simp

lemma log_readable_iff: "log_readable d \<longleftrightarrow> list_all (\<lambda>e. isok (parse_position_event e)) (pd_events d)"
  by (simp add: log_readable_def load_position_events_def mapE_ok)

lemma append_readable: "log_readable d \<Longrightarrow> \<exists>d'. append_position_event e d = (Inr (), d')"
  by (auto simp: append_position_event_def log_readable_def elim!: isokE)

lemma commit_position_succeeds:
  assumes "log_readable d" and "wf_position s"
  shows "\<exists>d'. commit_position s ev d = (Inr s, d')"
proof -
  have "log_readable (save_position s d)" using assms(1) by (simp add: log_readable_iff save_position_def)
  from append_readable [OF this, of "ev s"] obtain d' where "append_position_event (ev s) (save_position s d) = (Inr (), d')"
    by blast
  then show ?thesis using assms(2) mk_position_ok [of s s]
    by (simp add: commit_position_def bindS_def liftS_def updateS_def)
qed

lemma wf_continued:
  "wf_position s \<Longrightarrow> wf_position (s\<lparr>pp_lifecycle_status := st, pp_last_updated_timestamp := t,
     pp_provenance_source_ids := merge_provenance (pp_provenance_source_ids s) prov\<rparr>)"
  by (simp add: wf_position_def position_texts_def merge_provenance_def list_all_iff merge_texts_set)
    (auto simp: merge_texts_set)

lemma continue_position_outcome:
  assumes read: "read_position d = Inr s" and log: "log_readable d"
  shows "(\<exists>u d'. continue_position tx status ty m now session t g prov d = (Inr u, d')) \<longleftrightarrow>
    pp_carry_forward_allowed s \<and> session \<le> pp_expiry_date s \<and>
    (case g of None \<Rightarrow> True | Some gov \<Rightarrow> gv_can_carry_forward (gn_evaluate_position gov s session (time_of t)))"
    (is "?L \<longleftrightarrow> ?R")
proof -
  have load: "load_position now d = (Inr s, d)" using read by (simp add: load_position_Inr)
  let ?gate = "case g of None \<Rightarrow> liftS (Inr ()) | Some gov \<Rightarrow> apply_expiry_governance_gate gov s session t prov"
  have gate: "(\<exists>d1. ?gate d = (Inr (), d1)) \<longleftrightarrow>
      (case g of None \<Rightarrow> True | Some gov \<Rightarrow> gv_can_carry_forward (gn_evaluate_position gov s session (time_of t)))"
    by (auto simp: apply_expiry_governance_gate_def Let_def bindS_Inr split: option.splits)
  have same: "d1 = d" if "?gate d = (Inr (), d1)" for d1
    using that by (auto simp: apply_expiry_governance_gate_def Let_def bindS_Inr split: option.splits if_splits)
  have eq: "continue_position tx status ty m now session t g prov d =
      (if \<not> pp_carry_forward_allowed s then (Inl (PaperPositionStateError [Txt (ct_not_allowed tx)]), d)
       else bindS ?gate (\<lambda>_. if session > pp_expiry_date s
         then bindS (append_position_event (invalid_position_event s t session (ct_reason tx) (ct_past_event tx) prov)) (\<lambda>_.
           liftS (Inl (PaperPositionStateError [Txt (ct_past_error tx)])))
         else commit_position (s\<lparr>pp_lifecycle_status := status, pp_last_updated_timestamp := t,
             pp_provenance_source_ids := merge_provenance (pp_provenance_source_ids s) prov\<rparr>)
           (\<lambda>u. position_event_of u t ty session None m prov)) d)"
    using load by (simp add: continue_position_def bindS_def liftS_def)
  show ?thesis
  proof
    assume ?L
    then show ?R using gate unfolding eq by (auto simp: bindS_Inr split: if_splits)
  next
    assume R: ?R
    with gate obtain d1 where "?gate d = (Inr (), d1)" by blast
    moreover have "\<exists>d'. commit_position (s\<lparr>pp_lifecycle_status := status, pp_last_updated_timestamp := t,
         pp_provenance_source_ids := merge_provenance (pp_provenance_source_ids s) prov\<rparr>)
         (\<lambda>u. position_event_of u t ty session None m prov) d = (Inr (s\<lparr>pp_lifecycle_status := status,
           pp_last_updated_timestamp := t,
           pp_provenance_source_ids := merge_provenance (pp_provenance_source_ids s) prov\<rparr>), d')"
      by (rule commit_position_succeeds [OF log wf_continued [OF read_position_wf [OF read]]])
    ultimately show ?L using R same unfolding eq by (auto simp: bindS_Inr)
  qed
qed

section \<open>Properties\<close>

text \<open>
  C23: with the governance of the code on the deterministic calendar, \<^verbatim>\<open>carry_forward\<close> succeeds
  exactly when the position is flagged for carrying, its expiry has not passed (not even
  reached, when carrying past expiry is forbidden), and it either had more trading days from
  entry to expiry than the rollover threshold or still has more than the threshold left.
\<close>
theorem carry_forward_succeeds_iff:
  assumes "read_position d = Inr s" and "log_readable d"
  shows "(\<exists>u d'. carry_forward now session t (Some (expiry_governance (deterministic_calendar holidays explicit))) prov d = (Inr u, d')) \<longleftrightarrow>
    pp_carry_forward_allowed s \<and> session \<le> pp_expiry_date s \<and>
    \<not> (pp_no_carry_past_expiry s \<and> session = pp_expiry_date s) \<and>
    (let threshold = rollover_threshold (ep_rollover_policy (pp_expiry_policy s)) in
       trading_days_until holidays (pp_entry_date s) (pp_expiry_date s) > threshold \<or>
       trading_days_until holidays session (pp_expiry_date s) > threshold)"
proof -
  let ?c = "deterministic_calendar holidays explicit"
  have days: "ec_trading_days_until ?c = trading_days_until holidays" by (simp add: deterministic_calendar_def)
  have self: "trading_days_until holidays e e = 0" for e by (rule det.until_self)
  have win: "outside_rollover_window ?c s session \<longleftrightarrow>
      trading_days_until holidays (pp_entry_date s) (pp_expiry_date s) > rollover_threshold (ep_rollover_policy (pp_expiry_policy s)) \<or>
      trading_days_until holidays session (pp_expiry_date s) > rollover_threshold (ep_rollover_policy (pp_expiry_policy s))"
    if "session \<le> pp_expiry_date s"
    using that self [of session] rollover_threshold_pos [of "ep_rollover_policy (pp_expiry_policy s)"]
    by (auto simp: outside_rollover_window_def Let_def days le_less)
  show ?thesis
    unfolding carry_forward_def continue_position_outcome [OF assms]
    using win by (auto simp: expiry_governance_def evaluate_position_def Let_def can_carry_iff)
qed

theorem carry_forward_succeeds_iff_witness:
  "(\<exists>u d'. carry_forward 0 738890 (at_time 738890 36000000000)
     (Some (expiry_governance (deterministic_calendar [] []))) [] demo_session = (Inr u, d')) \<and>
   \<not> (\<exists>u d'. carry_forward 0 738896 (at_time 738896 36000000000)
     (Some (expiry_governance (deterministic_calendar [] []))) [] demo_session = (Inr u, d'))"
proof -
  have 1: "read_position demo_session = Inr demo_position_state" by code_simp
  have 2: "log_readable demo_session" by (simp add: log_readable_iff demo_session_def)
  have 3: "trading_days_until [] 738887 738896 = 7" by code_simp
  have f: "pp_carry_forward_allowed demo_position_state" "pp_no_carry_past_expiry demo_position_state"
    "pp_expiry_date demo_position_state = 738896" "pp_entry_date demo_position_state = 738887"
    "ep_rollover_policy (pp_expiry_policy demo_position_state) = T_MINUS_1"
    by (simp_all add: demo_position_state_def demo_policy_def)
  show ?thesis
    by (simp only: carry_forward_succeeds_iff [OF 1 2] f) (simp add: 3 rollover_threshold_def)
qed

text \<open>
  A position that may not be carried past its expiry is never both carried and
  force-closed, and on every session after the expiry the governance demands the close.
\<close>
theorem carry_and_force_close_exclusive:
  assumes "pp_no_carry_past_expiry p"
  shows "\<not> (gv_can_carry_forward (evaluate_position c p session now) \<and> gv_must_force_close (evaluate_position c p session now)) \<and>
    (gv_must_force_close (evaluate_position c p session now) \<or> session \<le> pp_expiry_date p)"
  using assms by (auto simp: evaluate_position_def Let_def can_carry_iff must_force_close_def should_next_iff)

theorem carry_and_force_close_exclusive_witness:
  "\<not> (gv_can_carry_forward (evaluate_position (deterministic_calendar [] []) demo_position_state 738896 0) \<and>
      gv_must_force_close (evaluate_position (deterministic_calendar [] []) demo_position_state 738896 0))"
proof -
  have "pp_no_carry_past_expiry demo_position_state" by (simp add: demo_position_state_def)
  from carry_and_force_close_exclusive [OF this] show ?thesis by blast
qed

text \<open>
  Without the carry ban the governance forgets an expired position: once a position had
  enough trading days at entry, on every session after its expiry no close is demanded, no
  next expiry is selected, and (with the carry flag) carrying is reported as allowed.
\<close>
theorem expired_position_not_closed:
  assumes "\<not> pp_no_carry_past_expiry p" and "pp_carry_forward_allowed p" and "pp_expiry_date p < session"
    and "position_may_continue_to_expiry c p"
  shows "evaluate_position c p session now = \<lparr>gv_can_carry_forward = True, gv_must_force_close = False,
    gv_should_select_next_expiry = False, gv_event_types = [],
    gv_message = ''Carry-forward remains allowed for the current expiry.''\<rparr>"
  using assms by (simp add: evaluate_position_def Let_def can_carry_forward_def must_force_close_def
      should_select_next_expiry_def resolve_expiry_date_def should_select_next_expiry_for_policy_def)

theorem expired_position_not_closed_witness:
  "gv_must_force_close (evaluate_position (deterministic_calendar [] [])
     (demo_position_state\<lparr>pp_no_carry_past_expiry := False\<rparr>) 738900 0) = False \<and>
   pp_expiry_date (demo_position_state\<lparr>pp_no_carry_past_expiry := False\<rparr>) < 738900"
proof -
  let ?p = "demo_position_state\<lparr>pp_no_carry_past_expiry := False\<rparr>"
  have 1: "\<not> pp_no_carry_past_expiry ?p" "pp_carry_forward_allowed ?p" "pp_expiry_date ?p < 738900"
    by (simp_all add: demo_position_state_def)
  have 2: "position_may_continue_to_expiry (deterministic_calendar [] []) ?p" by code_simp
  from expired_position_not_closed [OF 1 2] 1 show ?thesis by simp
qed

end
