(* ===== verification/TradeLedger.thy ===== *)
theory TradeLedger
  imports PositionState Calendar "HOL-Library.Char_ord" "HOL-Library.List_Lexorder" "HOL-Library.Sublist" "HOL-Library.Multiset"
begin

text \<open>
  \<^verbatim>\<open>src/tfis/paper/trade_ledger.py\<close>: the classification of ledger rows (terminal, open,
  action required), the selection of the rows a monitor shows, and the append-only ledger
  itself. A row of the ledger carries the prefix \<open>lr_\<close>; the protocol the selection functions
  read is \<open>monitor_row\<close> (prefix \<open>mr_\<close>). The file lock around an append is not modelled here:
  one append is atomic.
\<close>

section \<open>Classification\<close>

datatype ledger_event_type = LEDGER_OPEN | LEDGER_HOLD | LEDGER_CLOSE | LEDGER_ACTION_REQUIRED

fun ledger_event_type_value :: "ledger_event_type \<Rightarrow> string" where
  "ledger_event_type_value LEDGER_OPEN = ''OPEN''"
| "ledger_event_type_value LEDGER_HOLD = ''HOLD''"
| "ledger_event_type_value LEDGER_CLOSE = ''CLOSE''"
| "ledger_event_type_value LEDGER_ACTION_REQUIRED = ''ACTION_REQUIRED''"

definition open_manager_statuses :: "string list" where
  "open_manager_statuses = [''PAPER_POSITION_OPENED'', ''PAPER_POSITION_HELD'']"

definition close_manager_statuses :: "string list" where
  "close_manager_statuses = [''PAPER_POSITION_TARGET_HIT'', ''PAPER_POSITION_STOPLOSS_HIT'',
     ''PAPER_POSITION_FORCE_CLOSED'', ''PAPER_POSITION_FRESH_ENTRY_REQUIRED'', ''PAPER_POSITION_REVERSE_ENTRY_REQUIRED'']"

definition display_terminal_statuses :: "string list" where
  "display_terminal_statuses = [''PAPER_POSITION_TARGET_HIT'', ''PAPER_POSITION_STOPLOSS_HIT'',
     ''PAPER_POSITION_FORCE_CLOSED'', ''PAPER_POSITION_ALREADY_CLOSED'']"

text \<open>\<^verbatim>\<open>str(x or "").upper()\<close>\<close>

definition upper_or_empty :: "string option \<Rightarrow> string" where
  "upper_or_empty x = (case x of None \<Rightarrow> [] | Some s \<Rightarrow> upper s)"

definition manager_status_is_open :: "string option \<Rightarrow> bool" where
  "manager_status_is_open m \<longleftrightarrow> upper_or_empty m \<in> set open_manager_statuses"

definition manager_status_is_terminal :: "string option \<Rightarrow> bool" where
  "manager_status_is_terminal m \<longleftrightarrow> upper_or_empty m \<in> set display_terminal_statuses"

definition manager_status_is_lifecycle_terminal :: "string option \<Rightarrow> bool" where
  "manager_status_is_lifecycle_terminal m \<longleftrightarrow> upper_or_empty m \<in> set (close_manager_statuses @
     [''PAPER_POSITION_ROLLOVER_REQUIRED'', ''PAPER_POSITION_ALREADY_CLOSED''])"

definition paper_trade_is_terminal :: "string option \<Rightarrow> string option \<Rightarrow> string option \<Rightarrow> bool" where
  "paper_trade_is_terminal event_type lifecycle_status manager_status \<longleftrightarrow>
     upper_or_empty event_type = ''CLOSE'' \<or> sublist ''CLOSED'' (upper_or_empty lifecycle_status) \<or>
     manager_status_is_terminal manager_status"

definition paper_trade_is_open :: "string option \<Rightarrow> string option \<Rightarrow> bool" where
  "paper_trade_is_open lifecycle_status manager_status \<longleftrightarrow>
     sublist ''OPEN'' (upper_or_empty lifecycle_status) \<or> manager_status_is_open manager_status"

definition event_type_for_manager_status :: "string option \<Rightarrow> ledger_event_type" where
  "event_type_for_manager_status m =
     (let n = upper_or_empty m in
      if n = ''PAPER_POSITION_OPENED'' then LEDGER_OPEN
      else if n = ''PAPER_POSITION_HELD'' then LEDGER_HOLD
      else if n \<in> set close_manager_statuses then LEDGER_CLOSE
      else LEDGER_ACTION_REQUIRED)"

definition paper_trade_action_required :: "bool \<Rightarrow> bool \<Rightarrow> bool \<Rightarrow> bool" where
  "paper_trade_action_required fresh reverse rollover \<longleftrightarrow> fresh \<or> reverse \<or> rollover"

section \<open>Rows a monitor shows\<close>

record monitor_row =
  mr_trade_id :: string
  mr_strategy_code :: string
  mr_session_date :: "date option"
  mr_event_timestamp :: "datetime option"
  mr_event_type :: string
  mr_lifecycle_status :: string
  mr_manager_status :: string
  mr_fresh_entry_required :: bool
  mr_reverse_entry_required :: bool
  mr_rollover_required :: bool

definition row_is_terminal :: "monitor_row \<Rightarrow> bool" where
  "row_is_terminal r = paper_trade_is_terminal (Some (mr_event_type r)) (Some (mr_lifecycle_status r)) (Some (mr_manager_status r))"

datatype status_kind = Kind_closed | Kind_action | Kind_not_filled | Kind_waiting | Kind_open | Kind_neutral

definition paper_trade_status_kind ::
  "string option \<Rightarrow> string option \<Rightarrow> string option \<Rightarrow> bool \<Rightarrow> bool \<Rightarrow> bool \<Rightarrow> status_kind" where
  "paper_trade_status_kind lifecycle_status manager_status event_type fresh reverse rollover =
     (let m = upper_or_empty manager_status; l = upper_or_empty lifecycle_status in
      if paper_trade_is_terminal event_type lifecycle_status manager_status then Kind_closed
      else if paper_trade_action_required fresh reverse rollover then Kind_action
      else if m = ''PAPER_ORDER_NOT_FILLED'' \<or> l = ''ORDER_NOT_FILLED'' then Kind_not_filled
      else if m = ''PAPER_ORDER_WAITING_FOR_TRIGGER'' \<or> l = ''ORDER_WAITING_FOR_TRIGGER'' then Kind_waiting
      else if paper_trade_is_open lifecycle_status manager_status then Kind_open
      else Kind_neutral)"

definition row_status_kind :: "monitor_row \<Rightarrow> status_kind" where
  "row_status_kind r = paper_trade_status_kind (Some (mr_lifecycle_status r)) (Some (mr_manager_status r))
     (Some (mr_event_type r)) (mr_fresh_entry_required r) (mr_reverse_entry_required r) (mr_rollover_required r)"

definition visible_for_latest_session :: "date option \<Rightarrow> monitor_row \<Rightarrow> bool" where
  "visible_for_latest_session latest r = (case latest of
     None \<Rightarrow> True
   | Some day \<Rightarrow>
       (let kind = row_status_kind r;
            effective = (case mr_session_date r of Some d \<Rightarrow> Some d | None \<Rightarrow> map_option date_of (mr_event_timestamp r)) in
        if effective = Some day then kind \<noteq> Kind_closed
        else if (case effective of None \<Rightarrow> False | Some d \<Rightarrow> d > day) then False
        else kind \<in> {Kind_open, Kind_action}))"

text \<open>\<^verbatim>\<open>item.event_timestamp.isoformat() if item.event_timestamp else ""\<close>\<close>

definition timestamp_key :: "monitor_row \<Rightarrow> string" where
  "timestamp_key r = (case mr_event_timestamp r of None \<Rightarrow> [] | Some t \<Rightarrow> isoformat t)"

definition select_display_row :: "monitor_row list \<Rightarrow> monitor_row" where
  "select_display_row rows =
     (let terminal = filter row_is_terminal rows; candidates = (if terminal \<noteq> [] then terminal else rows)
      in max_by timestamp_key (hd candidates) (tl candidates))"

text \<open>\<^verbatim>\<open>grouped.setdefault(key, []).append(row)\<close> for every row.\<close>

fun group_rows :: "('a \<Rightarrow> 'k) \<Rightarrow> 'a list \<Rightarrow> ('k, 'a list) dict \<Rightarrow> ('k, 'a list) dict" where
  "group_rows key [] d = d"
| "group_rows key (r # rs) d =
     group_rows key rs (AList.update (key r) ((case map_of d (key r) of None \<Rightarrow> [] | Some xs \<Rightarrow> xs) @ [r]) d)"

definition latest_active_rows :: "monitor_row list \<Rightarrow> date option \<Rightarrow> monitor_row list" where
  "latest_active_rows rows latest =
     (let latest_by_trade = map (\<lambda>(_, trade_rows). select_display_row trade_rows) (group_rows mr_trade_id rows [])
      in sort_descending timestamp_key (filter (visible_for_latest_session latest) latest_by_trade))"

definition requires_current_session :: "date \<Rightarrow> monitor_row \<Rightarrow> bool" where
  "requires_current_session day r =
     (if row_status_kind r \<notin> {Kind_waiting, Kind_not_filled} then False
      else \<not> (case mr_event_timestamp r of None \<Rightarrow> False | Some t \<Rightarrow> date_of t = day))"

definition effective_session :: "date option \<Rightarrow> date option \<Rightarrow> date option" where
  "effective_session latest anchor =
     (if anchor \<noteq> None \<and> (latest = None \<or> the latest < the anchor) then anchor else latest)"

definition latest_monitor_rows :: "monitor_row list \<Rightarrow> date option \<Rightarrow> date option \<Rightarrow> bool \<Rightarrow> monitor_row list" where
  "latest_monitor_rows rows latest anchor include_terminal =
     (let effective = effective_session latest anchor;
          filtered = (case effective of None \<Rightarrow> rows | Some day \<Rightarrow> filter (\<lambda>r. \<not> requires_current_session day r) rows);
          latest_rows = latest_active_rows filtered effective
      in if include_terminal then latest_rows else filter (\<lambda>r. \<not> row_is_terminal r) latest_rows)"

fun close_by_trade :: "monitor_row list \<Rightarrow> (string \<times> string, monitor_row) dict \<Rightarrow> (string \<times> string, monitor_row) dict" where
  "close_by_trade [] d = d"
| "close_by_trade (r # rs) d =
     (if upper (mr_event_type r) \<noteq> ''CLOSE'' then close_by_trade rs d
      else let key = (upper (mr_strategy_code r), mr_trade_id r) in
        if (case map_of d key of None \<Rightarrow> True | Some current \<Rightarrow>
              (case mr_event_timestamp r of None \<Rightarrow> False | Some t \<Rightarrow>
                 (case mr_event_timestamp current of None \<Rightarrow> True | Some u \<Rightarrow> t > u)))
        then close_by_trade rs (AList.update key r d) else close_by_trade rs d)"

definition latest_historical_close_rows :: "monitor_row list \<Rightarrow> monitor_row list" where
  "latest_historical_close_rows rows = sort_descending timestamp_key (map snd (close_by_trade rows []))"

record summary_counts =
  sc_unique_trades :: nat
  sc_open_positions :: nat
  sc_action_required :: nat
  sc_closed_trades :: nat

definition paper_trade_summary_counts :: "monitor_row list \<Rightarrow> summary_counts" where
  "paper_trade_summary_counts rows =
     (let count = (\<lambda>k. length (filter (\<lambda>r. row_status_kind r = k) rows))
      in \<lparr>sc_unique_trades = length rows, sc_open_positions = count Kind_open,
          sc_action_required = count Kind_action, sc_closed_trades = count Kind_closed\<rparr>)"

section \<open>The ledger\<close>

record ledger_row =
  lr_artifact_version :: int
  lr_event_timestamp :: datetime
  lr_event_type :: ledger_event_type
  lr_trade_id :: string
  lr_strategy_id :: string
  lr_strategy_code :: string
  lr_strategy_branch :: string
  lr_symbol :: string
  lr_option_type :: string
  lr_selected_contract_symbol :: string
  lr_expiry_date :: date
  lr_side :: string
  lr_lots :: int
  lr_quantity :: int
  lr_entry_date :: date
  lr_entry_timestamp :: datetime
  lr_entry_price :: price
  lr_target_price :: price
  lr_stoploss_price :: price
  lr_fsl_price :: "price option"
  lr_trp_price :: "price option"
  lr_session_date :: date
  lr_lifecycle_status :: string
  lr_manager_status :: string
  lr_reason_code :: string
  lr_message :: string
  lr_exit_timestamp :: "datetime option"
  lr_current_price :: "price option"
  lr_current_bid :: "price option"
  lr_current_ask :: "price option"
  lr_exit_price :: "price option"
  lr_gross_points :: "price option"
  lr_gross_pnl :: "price option"
  lr_source_kind :: "string option"
  lr_source_id :: "string option"
  lr_source_effective_timestamp :: "datetime option"
  lr_fresh_entry_required :: bool
  lr_reverse_entry_required :: bool
  lr_rollover_required :: bool
  lr_state_directory :: "string option"

text \<open>\<^verbatim>\<open>strftime("%Y%m%dT%H%M%S")\<close>\<close>

definition compact_timestamp :: "datetime \<Rightarrow> string" where
  "compact_timestamp t = (let d = date_of t; s = time_of t div 1000000 in
     padded 4 (nat (year_of d)) @ padded 2 (nat (month_of d)) @ padded 2 (nat (day_of d)) @ ''T'' @
     padded 2 (nat (s div 3600)) @ padded 2 (nat (s div 60 mod 60)) @ padded 2 (nat (s mod 60)))"

definition trade_id_for_state :: "position_state \<Rightarrow> string" where
  "trade_id_for_state s = pp_strategy_code s @ ''-'' @ pp_unique_code s @ ''-'' @ pp_selected_contract_symbol s @ ''-'' @
     compact_timestamp (pp_entry_timestamp s)"

text \<open>
  The arguments of \<^verbatim>\<open>build_row\<close> beside the position (prefix \<open>ra_\<close>): the manager's event,
  spread over keyword arguments in the code.
\<close>

record row_args =
  ra_event_timestamp :: datetime
  ra_event_type :: ledger_event_type
  ra_session_date :: date
  ra_manager_status :: string
  ra_reason_code :: string
  ra_message :: string
  ra_exit_timestamp :: "datetime option"
  ra_current_price :: "price option"
  ra_current_bid :: "price option"
  ra_current_ask :: "price option"
  ra_exit_price :: "price option"
  ra_source_kind :: "string option"
  ra_source_id :: "string option"
  ra_source_effective_timestamp :: "datetime option"
  ra_fresh_entry_required :: bool
  ra_reverse_entry_required :: bool
  ra_rollover_required :: bool
  ra_state_directory :: "string option"

definition build_row :: "position_state \<Rightarrow> row_args \<Rightarrow> ledger_row" where
  "build_row s a =
     (let reference = or_else (ra_exit_price a) (ra_current_price a);
          gross_points = map_option (\<lambda>p. pp_entry_price s - p) reference
      in \<lparr>lr_artifact_version = 1, lr_event_timestamp = ra_event_timestamp a, lr_event_type = ra_event_type a,
          lr_trade_id = trade_id_for_state s, lr_strategy_id = pp_strategy_code s @ '':'' @ pp_unique_code s,
          lr_strategy_code = pp_strategy_code s, lr_strategy_branch = pp_unique_code s, lr_symbol = pp_symbol s,
          lr_option_type = option_type_value (pp_option_type s),
          lr_selected_contract_symbol = pp_selected_contract_symbol s, lr_expiry_date = pp_expiry_date s,
          lr_side = pp_side s, lr_lots = pp_lots s, lr_quantity = pp_quantity s, lr_entry_date = pp_entry_date s,
          lr_entry_timestamp = pp_entry_timestamp s, lr_entry_price = pp_entry_price s,
          lr_target_price = pp_target_price s, lr_stoploss_price = pp_stoploss_price s, lr_fsl_price = pp_fsl_price s,
          lr_trp_price = pp_trp_price s, lr_session_date = ra_session_date a,
          lr_lifecycle_status = position_status_value (pp_lifecycle_status s),
          lr_manager_status = ra_manager_status a, lr_reason_code = ra_reason_code a, lr_message = ra_message a,
          lr_exit_timestamp = ra_exit_timestamp a, lr_current_price = ra_current_price a,
          lr_current_bid = ra_current_bid a, lr_current_ask = ra_current_ask a, lr_exit_price = ra_exit_price a,
          lr_gross_points = gross_points,
          lr_gross_pnl = map_option (\<lambda>g. g * of_int (pp_quantity s)) gross_points,
          lr_source_kind = ra_source_kind a, lr_source_id = ra_source_id a,
          lr_source_effective_timestamp = ra_source_effective_timestamp a,
          lr_fresh_entry_required = ra_fresh_entry_required a,
          lr_reverse_entry_required = ra_reverse_entry_required a,
          lr_rollover_required = ra_rollover_required a, lr_state_directory = ra_state_directory a\<rparr>)"

text \<open>The ledger of the session directory and the global one.\<close>

record trade_ledgers =
  tr_session :: "ledger_row list"
  tr_global :: "ledger_row list"

definition append_ledger_row :: "ledger_row \<Rightarrow> trade_ledgers \<Rightarrow> trade_ledgers" where
  "append_ledger_row r l = l\<lparr>tr_session := tr_session l @ [r], tr_global := tr_global l @ [r]\<rparr>"

text \<open>A ledger row as the monitor reads it back.\<close>

definition monitor_row_of :: "ledger_row \<Rightarrow> monitor_row" where
  "monitor_row_of r = \<lparr>mr_trade_id = lr_trade_id r, mr_strategy_code = lr_strategy_code r,
     mr_session_date = Some (lr_session_date r), mr_event_timestamp = Some (lr_event_timestamp r),
     mr_event_type = ledger_event_type_value (lr_event_type r), mr_lifecycle_status = lr_lifecycle_status r,
     mr_manager_status = lr_manager_status r, mr_fresh_entry_required = lr_fresh_entry_required r,
     mr_reverse_entry_required = lr_reverse_entry_required r, mr_rollover_required = lr_rollover_required r\<rparr>"

section \<open>Lemmas about selection\<close>

definition display_candidates :: "monitor_row list \<Rightarrow> monitor_row list" where
  "display_candidates rows = (if filter row_is_terminal rows \<noteq> [] then filter row_is_terminal rows else rows)"

lemma select_display_row_max:
  assumes "rows \<noteq> []"
  shows "select_display_row rows \<in> set (display_candidates rows)"
    and "r \<in> set (display_candidates rows) \<Longrightarrow> timestamp_key r \<le> timestamp_key (select_display_row rows)"
proof -
  have ne: "display_candidates rows \<noteq> []" using assms by (simp add: display_candidates_def)
  have sel: "select_display_row rows = max_by timestamp_key (hd (display_candidates rows)) (tl (display_candidates rows))"
    by (simp add: select_display_row_def display_candidates_def Let_def)
  have set: "insert (hd (display_candidates rows)) (set (tl (display_candidates rows))) = set (display_candidates rows)"
    using ne by (cases "display_candidates rows") simp_all
  show "select_display_row rows \<in> set (display_candidates rows)"
    unfolding sel using max_by_in [of timestamp_key "hd (display_candidates rows)" "tl (display_candidates rows)"] set by simp
  show "timestamp_key r \<le> timestamp_key (select_display_row rows)" if "r \<in> set (display_candidates rows)"
    unfolding sel using that set by (intro max_by_ge) simp
qed

lemma map_of_group_rows: "map_of (group_rows key rs d) k =
    (case filter (\<lambda>r. key r = k) rs of [] \<Rightarrow> map_of d k
     | xs \<Rightarrow> Some ((case map_of d k of None \<Rightarrow> [] | Some ys \<Rightarrow> ys) @ xs))"
  by (induction rs arbitrary: d) (auto simp: update_conv' split: list.splits option.splits)

lemma distinct_group_rows: "distinct (map fst d) \<Longrightarrow> distinct (map fst (group_rows key rs d))"
  by (induction rs arbitrary: d) (simp_all add: distinct_update)

lemma group_rows_mem: "(k, xs) \<in> set (group_rows key rs []) \<longleftrightarrow> xs = filter (\<lambda>r. key r = k) rs \<and> xs \<noteq> []"
proof -
  have "(k, xs) \<in> set (group_rows key rs []) \<longleftrightarrow> map_of (group_rows key rs []) k = Some xs"
    by (simp add: distinct_group_rows)
  then show ?thesis by (auto simp: map_of_group_rows split: list.splits)
qed

lemma distinct_sort_descending [simp]: "distinct (map f (sort_descending key xs)) \<longleftrightarrow> distinct (map f xs)"
proof -
  have "mset (map f (sort_descending key xs)) = mset (map f xs)" by (simp add: sort_descending_def)
  then show ?thesis by (metis mset_eq_imp_distinct_iff)
qed

lemma selected_trade_id:
  assumes "(k, xs) \<in> set (group_rows mr_trade_id rows [])"
  shows "mr_trade_id (select_display_row xs) = k"
proof -
  from assms have "set (display_candidates xs) \<subseteq> {r. mr_trade_id r = k}" "xs \<noteq> []"
    by (auto simp: group_rows_mem display_candidates_def)
  with select_display_row_max(1) [of xs] show ?thesis by blast
qed

lemma latest_by_trade_ids:
  "map mr_trade_id (map (\<lambda>(_, xs). select_display_row xs) (group_rows mr_trade_id rows [])) = map fst (group_rows mr_trade_id rows [])"
  by (auto simp: selected_trade_id)

section \<open>Properties\<close>

text \<open>
  The rows the trade monitor calls active are one row per trade, newest first, and
  exactly the display rows of the trades that are visible for the latest session; the display
  row of a trade is a row of it with the largest time stamp, among its terminal rows when it
  has one, so a trade that was closed is never shown by one of its earlier open rows.
\<close>
theorem active_rows_one_per_trade:
  "distinct (map mr_trade_id (latest_active_rows rows latest)) \<and>
   sorted (rev (map timestamp_key (latest_active_rows rows latest))) \<and>
   (\<forall>r. r \<in> set (latest_active_rows rows latest) \<longleftrightarrow>
      r \<in> set rows \<and> visible_for_latest_session latest r \<and>
      r = select_display_row (filter (\<lambda>x. mr_trade_id x = mr_trade_id r) rows)) \<and>
   (\<forall>k. k \<in> mr_trade_id ` set rows \<longrightarrow> (let own = filter (\<lambda>x. mr_trade_id x = k) rows; r = select_display_row own in
      r \<in> set own \<and> ((\<exists>x \<in> set own. row_is_terminal x) \<longrightarrow> row_is_terminal r) \<and>
      (\<forall>x \<in> set own. row_is_terminal x = row_is_terminal r \<longrightarrow> timestamp_key x \<le> timestamp_key r)))"
proof (intro conjI allI impI)
  let ?groups = "group_rows mr_trade_id rows []"
  have "distinct (map mr_trade_id (map (\<lambda>(_, xs). select_display_row xs) ?groups))"
    unfolding latest_by_trade_ids by (simp add: distinct_group_rows)
  then show "distinct (map mr_trade_id (latest_active_rows rows latest))"
    by (simp add: latest_active_rows_def Let_def distinct_map_filter)
  show "sorted (rev (map timestamp_key (latest_active_rows rows latest)))"
    unfolding latest_active_rows_def Let_def by (rule sorted_sort_descending)
next
  fix r
  show "r \<in> set (latest_active_rows rows latest) \<longleftrightarrow>
      r \<in> set rows \<and> visible_for_latest_session latest r \<and>
      r = select_display_row (filter (\<lambda>x. mr_trade_id x = mr_trade_id r) rows)" (is "?l \<longleftrightarrow> ?r")
  proof
    assume ?l
    then obtain k xs where g: "(k, xs) \<in> set (group_rows mr_trade_id rows [])" and r: "r = select_display_row xs"
      and v: "visible_for_latest_session latest r" by (auto simp: latest_active_rows_def Let_def)
    from selected_trade_id [OF g] r have "mr_trade_id r = k" by simp
    moreover from g have xs: "xs = filter (\<lambda>x. mr_trade_id x = k) rows" "xs \<noteq> []" unfolding group_rows_mem by blast+
    moreover have "r \<in> set rows"
      using select_display_row_max(1) [OF xs(2)] r xs(1) by (auto simp: display_candidates_def split: if_splits)
    ultimately show ?r using r v by simp
  next
    assume ?r
    then have "(mr_trade_id r, filter (\<lambda>x. mr_trade_id x = mr_trade_id r) rows) \<in> set (group_rows mr_trade_id rows [])"
      by (auto simp: group_rows_mem filter_empty_conv)
    with \<open>?r\<close> show ?l by (force simp: latest_active_rows_def Let_def)
  qed
next
  fix k assume "k \<in> mr_trade_id ` set rows"
  then have ne: "filter (\<lambda>x. mr_trade_id x = k) rows \<noteq> []" by (auto simp: filter_empty_conv)
  show "let own = filter (\<lambda>x. mr_trade_id x = k) rows; r = select_display_row own in
      r \<in> set own \<and> ((\<exists>x \<in> set own. row_is_terminal x) \<longrightarrow> row_is_terminal r) \<and>
      (\<forall>x \<in> set own. row_is_terminal x = row_is_terminal r \<longrightarrow> timestamp_key x \<le> timestamp_key r)"
    using select_display_row_max [OF ne] unfolding Let_def
    by (auto simp: display_candidates_def filter_empty_conv split: if_splits)
qed

definition demo_row :: "int \<Rightarrow> string \<Rightarrow> string \<Rightarrow> monitor_row" where
  "demo_row minute event lifecycle = \<lparr>mr_trade_id = ''T1'', mr_strategy_code = ''S23'', mr_session_date = Some 738880,
     mr_event_timestamp = Some (at_time 738880 (minute * 60000000)), mr_event_type = event, mr_lifecycle_status = lifecycle,
     mr_manager_status = [], mr_fresh_entry_required = False, mr_reverse_entry_required = False,
     mr_rollover_required = False\<rparr>"

theorem active_rows_one_per_trade_witness:
  "row_is_terminal (select_display_row (filter (\<lambda>x. mr_trade_id x = ''T1'')
     [demo_row 560 ''CLOSE'' ''PAPER_POSITION_CLOSED'', demo_row 570 ''HOLD'' ''PAPER_POSITION_OPEN'']))"
proof -
  let ?rows = "[demo_row 560 ''CLOSE'' ''PAPER_POSITION_CLOSED'', demo_row 570 ''HOLD'' ''PAPER_POSITION_OPEN'']"
  have "row_is_terminal (demo_row 560 ''CLOSE'' ''PAPER_POSITION_CLOSED'')"
    by (simp add: row_is_terminal_def paper_trade_is_terminal_def demo_row_def upper_or_empty_def upper_def upper_char_def)
  moreover have "mr_trade_id (demo_row 560 ''CLOSE'' ''PAPER_POSITION_CLOSED'') = ''T1''" by (simp add: demo_row_def)
  ultimately show ?thesis using active_rows_one_per_trade [of ?rows None] unfolding Let_def by auto
qed

end
