(* ===== verification/PositionManager.thy ===== *)
theory PositionManager
  imports PaperOrders ExpiryGovernance TradeLedger
begin

text \<open>
  \<^verbatim>\<open>src/tfis/paper/position_manager.py\<close>: opening a paper position and managing it across
  sessions from the market events of its contract. The session directory is that of the
  position store, with the manager's own event log, its summary file and the two trade
  ledgers (prefix \<open>md_\<close>); the mirror store is the default \<^verbatim>\<open>NullPaperLiveStateStore\<close>, which
  does nothing. Fields of \<^verbatim>\<open>PaperPositionManagerEvent\<close> carry \<open>me_\<close>, the arguments of
  \<^verbatim>\<open>process_session\<close> \<open>sa_\<close>; \<open>sa_now\<close> is the clock the store reads for a broken state file.
\<close>

section \<open>Events and the session directory\<close>

datatype manager_status =
    MS_OPENED | MS_HELD | MS_TARGET_HIT | MS_STOPLOSS_HIT | MS_FORCE_CLOSED | MS_ROLLOVER_REQUIRED
  | MS_REVERSE_ENTRY_REQUIRED | MS_FRESH_ENTRY_REQUIRED | MS_ALREADY_CLOSED | MS_NO_MARKET_DATA

fun manager_status_value :: "manager_status \<Rightarrow> string" where
  "manager_status_value MS_OPENED = ''PAPER_POSITION_OPENED''"
| "manager_status_value MS_HELD = ''PAPER_POSITION_HELD''"
| "manager_status_value MS_TARGET_HIT = ''PAPER_POSITION_TARGET_HIT''"
| "manager_status_value MS_STOPLOSS_HIT = ''PAPER_POSITION_STOPLOSS_HIT''"
| "manager_status_value MS_FORCE_CLOSED = ''PAPER_POSITION_FORCE_CLOSED''"
| "manager_status_value MS_ROLLOVER_REQUIRED = ''PAPER_POSITION_ROLLOVER_REQUIRED''"
| "manager_status_value MS_REVERSE_ENTRY_REQUIRED = ''PAPER_POSITION_REVERSE_ENTRY_REQUIRED''"
| "manager_status_value MS_FRESH_ENTRY_REQUIRED = ''PAPER_POSITION_FRESH_ENTRY_REQUIRED''"
| "manager_status_value MS_ALREADY_CLOSED = ''PAPER_POSITION_ALREADY_CLOSED''"
| "manager_status_value MS_NO_MARKET_DATA = ''PAPER_POSITION_NO_MARKET_DATA''"

record manager_event =
  me_artifact_version :: int
  me_timestamp :: datetime
  me_session_date :: date
  me_status :: manager_status
  me_selected_contract_symbol :: string
  me_reason_code :: string
  me_message :: string
  me_current_price :: "price option"
  me_current_bid :: "price option"
  me_current_ask :: "price option"
  me_exit_price :: "price option"
  me_source_kind :: "string option"
  me_source_id :: "string option"
  me_source_effective_timestamp :: "datetime option"
  me_target_price :: "price option"
  me_stop_price :: "price option"
  me_reverse_entry_required :: bool
  me_fresh_entry_required :: bool
  me_rollover_required :: bool

record manager_result =
  mg_session_date :: date
  mg_status :: manager_status
  mg_state :: position_state
  mg_event :: manager_event

record manager_directory =
  md_store :: position_directory
  md_events :: "manager_event list"
  md_summary :: "manager_result option"
  md_ledgers :: trade_ledgers

type_synonym 'a manager_op = "('a, manager_directory) op"

text \<open>An operation of the position store, run in the manager's directory.\<close>

definition storeS :: "('a, position_directory) op \<Rightarrow> 'a manager_op" where
  "storeS m d = (case m (md_store d) of (r, s) \<Rightarrow> (r, d\<lparr>md_store := s\<rparr>))"

definition plain_manager_event ::
  "datetime \<Rightarrow> date \<Rightarrow> manager_status \<Rightarrow> position_state \<Rightarrow> string \<Rightarrow> string \<Rightarrow> manager_event" where
  "plain_manager_event t session status s reason m = \<lparr>me_artifact_version = 1, me_timestamp = t,
     me_session_date = session, me_status = status,
     me_selected_contract_symbol = pp_selected_contract_symbol s, me_reason_code = reason, me_message = m,
     me_current_price = None, me_current_bid = None, me_current_ask = None, me_exit_price = None,
     me_source_kind = None, me_source_id = None, me_source_effective_timestamp = None, me_target_price = None,
     me_stop_price = None, me_reverse_entry_required = False, me_fresh_entry_required = False,
     me_rollover_required = False\<rparr>"

text \<open>\<^verbatim>\<open>_persist_result\<close>\<close>

definition manager_row :: "string \<Rightarrow> date \<Rightarrow> position_state \<Rightarrow> manager_event \<Rightarrow> ledger_row" where
  "manager_row path session s e = build_row s \<lparr>ra_event_timestamp = me_timestamp e,
     ra_event_type = event_type_for_manager_status (Some (manager_status_value (me_status e))),
     ra_session_date = session, ra_manager_status = manager_status_value (me_status e),
     ra_reason_code = me_reason_code e, ra_message = me_message e,
     ra_exit_timestamp = (case me_exit_price e of None \<Rightarrow> None | Some _ \<Rightarrow> Some (me_timestamp e)),
     ra_current_price = me_current_price e, ra_current_bid = me_current_bid e, ra_current_ask = me_current_ask e,
     ra_exit_price = me_exit_price e, ra_source_kind = me_source_kind e, ra_source_id = me_source_id e,
     ra_source_effective_timestamp = me_source_effective_timestamp e,
     ra_fresh_entry_required = me_fresh_entry_required e, ra_reverse_entry_required = me_reverse_entry_required e,
     ra_rollover_required = me_rollover_required e, ra_state_directory = Some path\<rparr>"

definition persist_result :: "date \<Rightarrow> position_state \<Rightarrow> manager_event \<Rightarrow> manager_result manager_op" where
  "persist_result session s e d =
     (let r = \<lparr>mg_session_date = session, mg_status = me_status e, mg_state = s, mg_event = e\<rparr> in
      (Inr r, d\<lparr>md_events := md_events d @ [e], md_summary := Some r,
        md_ledgers := append_ledger_row (manager_row (pd_path (md_store d)) session s e) (md_ledgers d)\<rparr>))"

section \<open>Prices and references\<close>

definition effective_stop_price :: "position_state \<Rightarrow> price" where
  "effective_stop_price s = (case pp_fsl_price s of None \<Rightarrow> pp_stoploss_price s | Some f \<Rightarrow> min (pp_stoploss_price s) f)"

record market_reference =
  rf_price :: "price option"
  rf_bid :: "price option"
  rf_ask :: "price option"
  rf_kind :: "string option"
  rf_id :: "string option"
  rf_timestamp :: "datetime option"

fun reference_of :: "selected_event \<Rightarrow> market_reference" where
  "reference_of (QuoteEvent q) = \<lparr>rf_price = or_else (sq_ltp q) (or_else (sq_bid q) (sq_ask q)), rf_bid = sq_bid q,
     rf_ask = sq_ask q, rf_kind = Some ''selected_contract_quote'', rf_id = Some (en_source_id (sq_envelope q)),
     rf_timestamp = Some (en_effective_timestamp (sq_envelope q))\<rparr>"
| "reference_of (BarEvent b) = \<lparr>rf_price = sb_close b, rf_bid = None, rf_ask = None,
     rf_kind = Some ''selected_contract_bar'', rf_id = Some (en_source_id (sb_envelope b)),
     rf_timestamp = Some (en_effective_timestamp (sb_envelope b))\<rparr>"

definition no_reference :: market_reference where
  "no_reference = \<lparr>rf_price = None, rf_bid = None, rf_ask = None, rf_kind = None, rf_id = None, rf_timestamp = None\<rparr>"

definition own_events :: "position_state \<Rightarrow> selected_event list \<Rightarrow> selected_event list" where
  "own_events s es = filter (\<lambda>e. event_symbol e = pp_selected_contract_symbol s) (sort_key event_order es)"

definition latest_market_reference :: "position_state \<Rightarrow> selected_event list \<Rightarrow> market_reference" where
  "latest_market_reference s es = (case rev (own_events s es) of [] \<Rightarrow> no_reference | e # _ \<Rightarrow> reference_of e)"

fun exit_source :: "price \<Rightarrow> selected_event \<Rightarrow> (price \<times> string \<times> string \<times> datetime) option" where
  "exit_source slip (QuoteEvent q) = map_option (\<lambda>p. (p + slip, ''selected_contract_quote'',
     en_source_id (sq_envelope q), en_effective_timestamp (sq_envelope q))) (or_else (sq_ask q) (sq_ltp q))"
| "exit_source slip (BarEvent b) = map_option (\<lambda>p. (p + slip, ''selected_contract_bar'',
     en_source_id (sb_envelope b), en_effective_timestamp (sb_envelope b))) (sb_close b)"

definition latest_exit_price :: "price \<Rightarrow> position_state \<Rightarrow> selected_event list \<Rightarrow> (price \<times> string \<times> string \<times> datetime) option" where
  "latest_exit_price slip s es = (case List.map_filter (exit_source slip) (rev (own_events s es)) of [] \<Rightarrow> None | x # _ \<Rightarrow> Some x)"

text \<open>Hour and minute of a time of day.\<close>

definition minute_of :: "time_of_day \<Rightarrow> int \<times> int" where
  "minute_of t = (t div 3600000000, t div 60000000 mod 60)"

definition bar_high_for_minute :: "position_state \<Rightarrow> selected_event list \<Rightarrow> time_of_day \<Rightarrow> price option" where
  "bar_high_for_minute s es target =
     (let highs = List.map_filter (\<lambda>e. case e of QuoteEvent _ \<Rightarrow> None
            | BarEvent b \<Rightarrow> (if minute_of (time_of (sb_bar_start b)) = minute_of target \<or>
                 minute_of (time_of (sb_bar_end b)) = minute_of target then sb_high b else None)) (own_events s es)
      in if highs = [] then None else Some (py_max highs))"

section \<open>Exits\<close>

definition exit_manager_event ::
  "date \<Rightarrow> datetime \<Rightarrow> manager_status \<Rightarrow> position_state \<Rightarrow> string \<Rightarrow> string \<Rightarrow> price \<Rightarrow> string \<Rightarrow> string \<Rightarrow> datetime \<Rightarrow>
   price \<Rightarrow> manager_event" where
  "exit_manager_event session t status s reason m exit_price kind src source_time stop =
     (plain_manager_event t session status s reason m)\<lparr>me_exit_price := Some exit_price, me_source_kind := Some kind,
       me_source_id := Some src, me_source_effective_timestamp := Some source_time,
       me_target_price := Some (pp_target_price s), me_stop_price := Some stop\<rparr>"

definition stop_status :: "bool \<Rightarrow> manager_status" where
  "stop_status allow_reverse = (if allow_reverse then MS_REVERSE_ENTRY_REQUIRED else MS_STOPLOSS_HIT)"

definition exit_on_quote :: "price \<Rightarrow> position_state \<Rightarrow> date \<Rightarrow> bool \<Rightarrow> bool \<Rightarrow> selected_quote \<Rightarrow> manager_event option" where
  "exit_on_quote slip s session allow_reverse stop_enabled q =
     (case or_else (sq_ask q) (sq_ltp q) of None \<Rightarrow> None
      | Some reference \<Rightarrow>
          (let stop = effective_stop_price s; t = en_effective_timestamp (sq_envelope q);
               quoted = (\<lambda>e. e\<lparr>me_current_price := sq_ltp q, me_current_bid := sq_bid q, me_current_ask := sq_ask q\<rparr>) in
           if stop_enabled \<and> reference \<ge> stop then
             Some ((quoted (exit_manager_event session t (stop_status allow_reverse) s ''stoploss_or_fsl_hit''
               ''Selected-contract quote breached stoploss/FSL. The paper position was closed; reverse entry requires a fresh opposite S23 decision.''
               (max stop reference + slip) ''selected_contract_quote'' (en_source_id (sq_envelope q)) t stop))
               \<lparr>me_reverse_entry_required := allow_reverse\<rparr>)
           else if reference \<le> pp_target_price s then
             Some ((quoted (exit_manager_event session t MS_FRESH_ENTRY_REQUIRED s ''target_hit''
               ''Selected-contract quote proved target hit. The paper position was closed; a fresh S23 position must be recalculated from current market data before any new entry.''
               (max (pp_target_price s) reference + slip) ''selected_contract_quote'' (en_source_id (sq_envelope q)) t stop))
               \<lparr>me_fresh_entry_required := True\<rparr>)
           else None))"

definition exit_on_bar :: "price \<Rightarrow> position_state \<Rightarrow> date \<Rightarrow> bool \<Rightarrow> bool \<Rightarrow> selected_bar \<Rightarrow> manager_event option" where
  "exit_on_bar slip s session allow_reverse stop_enabled b =
     (case (sb_high b, sb_low b) of
        (Some high, Some low) \<Rightarrow>
          (let stop = effective_stop_price s; stop_hit = stop_enabled \<and> high \<ge> stop;
               target_hit = low \<le> pp_target_price s; t = en_effective_timestamp (sb_envelope b) in
           if stop_hit then
             Some ((exit_manager_event session (sb_bar_end b) (stop_status allow_reverse) s
               (if target_hit then ''same_bar_target_stop_conflict_stoploss_wins'' else ''stoploss_or_fsl_hit'')
               ''Selected-contract bar breached stoploss/FSL. If target was also possible in the same bar, stoploss wins conservatively. Reverse entry requires a fresh opposite S23 decision.''
               (stop + slip) ''selected_contract_bar'' (en_source_id (sb_envelope b)) t stop)
               \<lparr>me_current_price := sb_close b, me_reverse_entry_required := allow_reverse\<rparr>)
           else if target_hit then
             Some ((exit_manager_event session (sb_bar_end b) MS_FRESH_ENTRY_REQUIRED s ''target_hit''
               ''Selected-contract bar proved target hit. The paper position was closed; a fresh S23 position must be recalculated from current market data before any new entry.''
               (pp_target_price s + slip) ''selected_contract_bar'' (en_source_id (sb_envelope b)) t stop)
               \<lparr>me_current_price := sb_close b, me_fresh_entry_required := True\<rparr>)
           else None)
      | _ \<Rightarrow> None)"

fun exit_on_event :: "price \<Rightarrow> position_state \<Rightarrow> date \<Rightarrow> bool \<Rightarrow> bool \<Rightarrow> selected_event \<Rightarrow> manager_event option" where
  "exit_on_event slip s session allow_reverse stop_enabled (QuoteEvent q) =
     exit_on_quote slip s session allow_reverse stop_enabled q"
| "exit_on_event slip s session allow_reverse stop_enabled (BarEvent b) =
     exit_on_bar slip s session allow_reverse stop_enabled b"

fun first_exit :: "(selected_event \<Rightarrow> manager_event option) \<Rightarrow> selected_event list \<Rightarrow> manager_event option" where
  "first_exit f [] = None"
| "first_exit f (e # es) = (case f e of Some x \<Rightarrow> Some x | None \<Rightarrow> first_exit f es)"

record session_args =
  sa_now :: datetime
  sa_session_date :: date
  sa_market_events :: "selected_event list"
  sa_evaluated_at :: datetime
  sa_governance :: "governance option"
  sa_allow_reverse :: bool
  sa_provenance :: "string list"

definition first_exit_event :: "price \<Rightarrow> session_args \<Rightarrow> position_state \<Rightarrow> bool \<Rightarrow> manager_event option" where
  "first_exit_event slip a s stop_enabled =
     first_exit (exit_on_event slip s (sa_session_date a) (sa_allow_reverse a) stop_enabled) (own_events s (sa_market_events a))"

section \<open>Messages with prices\<close>

text \<open>\<^verbatim>\<open>f"{x:.2f}"\<close>: two decimals, ties to even.\<close>

definition fixed2 :: "price \<Rightarrow> string" where
  "fixed2 x = (let n = nat (round_even (\<bar>x\<bar> * 100)) in
     (if x < 0 then ''-'' else []) @ py_str_int (int (n div 100)) @ ''.'' @ padded 2 (n mod 100))"

section \<open>The stop-loss reset of the next day\<close>

definition pending_stoploss_reset :: "position_state \<Rightarrow> date \<Rightarrow> bool" where
  "pending_stoploss_reset s session \<longleftrightarrow> pp_stoploss_reset_pending s \<and> \<not> pp_stoploss_active s \<and>
     session > (case pp_stoploss_reset_session_date s of None \<Rightarrow> pp_entry_date s | Some d \<Rightarrow> d)"

definition clock_time :: "int \<Rightarrow> int \<Rightarrow> int \<Rightarrow> time_of_day" where
  "clock_time h m sec = ((h * 60 + m) * 60 + sec) * 1000000"

definition held_event ::
  "position_state \<Rightarrow> session_args \<Rightarrow> string \<Rightarrow> string \<Rightarrow> market_reference \<Rightarrow> price option \<Rightarrow> manager_event" where
  "held_event s a reason m r stop =
     (plain_manager_event (case rf_timestamp r of None \<Rightarrow> sa_evaluated_at a | Some t \<Rightarrow> t) (sa_session_date a) MS_HELD s reason m)
     \<lparr>me_current_price := rf_price r, me_current_bid := rf_bid r, me_current_ask := rf_ask r,
      me_source_kind := rf_kind r, me_source_id := rf_id r, me_source_effective_timestamp := rf_timestamp r,
      me_target_price := Some (pp_target_price s), me_stop_price := stop\<rparr>"

definition reset_buffer_pct :: "position_state \<Rightarrow> price" where
  "reset_buffer_pct s = (case pp_stoploss_reset_buffer_pct s of Some p \<Rightarrow> p
     | None \<Rightarrow> (case pp_strategy_parameters s of None \<Rightarrow> 0
         | Some ps \<Rightarrow> (case map_of ps ''sl_reference_pct'' of None \<Rightarrow> 0 | Some p \<Rightarrow> p)))"

definition revised_stop :: "position_state \<Rightarrow> price \<Rightarrow> price" where
  "revised_stop s rc_high = rc_high * (1 + reset_buffer_pct s / 100)"

text \<open>\<^verbatim>\<open>_evaluate_next_day_stoploss_reset\<close>: a held event, or the updated position.\<close>

definition evaluate_stoploss_reset ::
  "session_args \<Rightarrow> position_state \<Rightarrow> (manager_event option \<times> position_state) manager_op" where
  "evaluate_stoploss_reset a s =
     (let orpt = (case pp_stoploss_reset_orpt_time s of None \<Rightarrow> clock_time 9 24 59 | Some t \<Rightarrow> t);
          rc = (case pp_stoploss_reset_rc_time s of None \<Rightarrow> clock_time 9 29 59 | Some t \<Rightarrow> t);
          now = time_of (sa_evaluated_at a); r = latest_market_reference s (sa_market_events a);
          original = pp_stoploss_price s;
          held = (\<lambda>reason m. liftS (Inr (Some (held_event s a reason m r None), s)));
          activate = (\<lambda>stop reason m. bindS (storeS (activate_stoploss_after_reset (sa_now a) (sa_session_date a)
            (sa_evaluated_at a) stop None reason m (sa_provenance a))) (\<lambda>s'. liftS (Inr (None, s')))) in
      if now < orpt then held ''carry_forward_stoploss_waiting_for_orpt''
        ''Carried S23 position has target active, but stoploss remains inactive until ORPT before the next-day SL reset check.''
      else case bar_high_for_minute s (sa_market_events a) (clock_time 9 15 0) of
        None \<Rightarrow> held ''carry_forward_stoploss_waiting_for_0915_high''
          ''Carried S23 position needs the 09:15 selected-option high to decide whether the original SL was missed. Stoploss remains inactive; target remains active.''
      | Some open_high \<Rightarrow>
          if open_high \<le> original then activate original ''carry_forward_stoploss_not_missed_orpt_activated''
            (''09:15 high '' @ fixed2 open_high @ '' did not exceed original SL '' @ fixed2 original @
             ''; stoploss is active again from ORPT.'')
          else if now < rc then held ''carry_forward_stoploss_missed_waiting_for_rc''
            (''09:15 high '' @ fixed2 open_high @ '' exceeded original SL '' @ fixed2 original @
             ''. TFIS is waiting until RC to set the revised SL from the RC high plus the configured buffer.'')
          else case bar_high_for_minute s (sa_market_events a) rc of
            None \<Rightarrow> held ''carry_forward_stoploss_waiting_for_rc_high''
              ''09:15 high exceeded the original SL, but the RC selected-option high is not available yet. Stoploss remains inactive; target remains active.''
          | Some rc_high \<Rightarrow> activate (revised_stop s rc_high) ''carry_forward_stoploss_recalculated_from_rc_high''
              (''09:15 high '' @ fixed2 open_high @ '' exceeded original SL '' @ fixed2 original @ ''; revised SL = RC high '' @
               fixed2 rc_high @ '' + '' @ fixed2 (reset_buffer_pct s) @ ''% = '' @ fixed2 (revised_stop s rc_high) @ ''.''))"

section \<open>Closing and carrying at the end of the day\<close>

definition force_close_event :: "price \<Rightarrow> session_args \<Rightarrow> position_state \<Rightarrow> string \<Rightarrow> manager_event" where
  "force_close_event slip a s m =
     (let x = latest_exit_price slip s (sa_market_events a); price = map_option fst x;
          t = map_option (\<lambda>(_, _, _, t). t) x in
      (plain_manager_event (case t of None \<Rightarrow> sa_evaluated_at a | Some t \<Rightarrow> t) (sa_session_date a) MS_FORCE_CLOSED s
         ''expiry_force_close'' m)
      \<lparr>me_current_price := price, me_exit_price := price, me_source_kind := map_option (\<lambda>(_, k, _, _). k) x,
       me_source_id := map_option (\<lambda>(_, _, i, _). i) x, me_source_effective_timestamp := t,
       me_target_price := Some (pp_target_price s), me_stop_price := Some (effective_stop_price s)\<rparr>)"

definition continuation_event :: "price \<Rightarrow> session_args \<Rightarrow> position_state \<Rightarrow> manager_event option" where
  "continuation_event slip a s =
     (if time_of (sa_evaluated_at a) < clock_time 15 0 0 then None
      else let r = latest_market_reference s (sa_market_events a) in
        case rf_price r of None \<Rightarrow> None
        | Some price \<Rightarrow>
            (let t = (case rf_timestamp r of None \<Rightarrow> sa_evaluated_at a | Some t \<Rightarrow> t); stop = pp_stoploss_price s in
             if price > stop then
               Some ((exit_manager_event (sa_session_date a) t MS_FORCE_CLOSED s ''s23_1500_close_above_original_sl''
                 ''At or after 15:00, selected option price was above the original S23 stoploss, so the paper position was squared off at CMP.''
                 (price + slip) (text_or (rf_kind r) ''selected_contract_market_data'') (text_or (rf_id r) ''unknown'') t stop)
                 \<lparr>me_current_price := Some price, me_current_bid := rf_bid r, me_current_ask := rf_ask r\<rparr>)
             else
               Some ((plain_manager_event t (sa_session_date a) MS_HELD s ''s23_1500_carry_forward_stop_inactive''
                 ''At or after 15:00, selected option price was not above the original S23 stoploss. Position is carried forward; overnight stoploss is inactive and must be recalculated on the next trading day.'')
                 \<lparr>me_current_price := Some price, me_current_bid := rf_bid r, me_current_ask := rf_ask r,
                  me_source_kind := rf_kind r, me_source_id := rf_id r, me_source_effective_timestamp := Some t,
                  me_target_price := Some (pp_target_price s), me_stop_price := Some stop\<rparr>)))"

section \<open>process_session\<close>

definition close_with :: "session_args \<Rightarrow> manager_event \<Rightarrow> manager_result manager_op" where
  "close_with a e = bindS (storeS (mark_position_closed (sa_now a) (sa_session_date a) (me_timestamp e) (me_reason_code e)
       (me_message e) (me_reverse_entry_required e) (me_fresh_entry_required e) (sa_provenance a)))
     (\<lambda>s. persist_result (sa_session_date a) s e)"

definition already_closed_event :: "session_args \<Rightarrow> position_state \<Rightarrow> manager_event" where
  "already_closed_event a s = plain_manager_event (sa_evaluated_at a) (sa_session_date a) MS_ALREADY_CLOSED s
     ''position_not_open'' ''Persisted S23 paper position is no longer open.''"

definition rollover_event :: "session_args \<Rightarrow> position_state \<Rightarrow> manager_event" where
  "rollover_event a s = (plain_manager_event (sa_evaluated_at a) (sa_session_date a) MS_ROLLOVER_REQUIRED s
     ''rollover_required_before_session_processing''
     ''Current contract entered the rollover window. Close/reselect using the next weekly expiry before continuing paper exposure.'')
     \<lparr>me_rollover_required := True\<rparr>"

definition idle_event :: "session_args \<Rightarrow> position_state \<Rightarrow> manager_event" where
  "idle_event a s =
     (let r = latest_market_reference s (sa_market_events a);
          (status, reason, m) = (if sa_market_events a = []
            then (MS_NO_MARKET_DATA, ''missing_selected_contract_market_data'',
              ''No selected-contract market events were available; the open paper position remains unchanged and must be resumed with fresh data.'')
            else (MS_HELD, ''no_exit_threshold_hit'',
              ''No target, stoploss, FSL, expiry, or rollover condition was hit; the paper position remains open for the next session.'')) in
      (plain_manager_event (sa_evaluated_at a) (sa_session_date a) status s reason m)
      \<lparr>me_current_price := rf_price r, me_current_bid := rf_bid r, me_current_ask := rf_ask r,
       me_source_kind := rf_kind r, me_source_id := rf_id r, me_source_effective_timestamp := rf_timestamp r,
       me_target_price := Some (pp_target_price s),
       me_stop_price := (if pp_stoploss_active s then Some (effective_stop_price s) else None)\<rparr>)"

definition forced_close :: "price \<Rightarrow> session_args \<Rightarrow> governance_decision option \<Rightarrow> position_state \<Rightarrow> manager_event option" where
  "forced_close slip a decision s = (case decision of None \<Rightarrow> None
     | Some x \<Rightarrow> if gv_must_force_close x then Some (force_close_event slip a s (gv_message x)) else None)"

text \<open>From the exit check of the whole session to the end of \<^verbatim>\<open>process_session\<close>.\<close>

definition continue_session ::
  "price \<Rightarrow> session_args \<Rightarrow> governance_decision option \<Rightarrow> position_state \<Rightarrow> manager_result manager_op" where
  "continue_session slip a decision s =
     (case first_exit_event slip a s (pp_stoploss_active s) of
        Some e \<Rightarrow> close_with a e
      | None \<Rightarrow> case forced_close slip a decision s of
        Some e \<Rightarrow> close_with a e
      | None \<Rightarrow> case continuation_event slip a s of
        Some e \<Rightarrow> (if me_exit_price e \<noteq> None then close_with a e
          else bindS (storeS (mark_stoploss_inactive_for_carry_forward (sa_now a) (sa_session_date a) (me_timestamp e)
                 (pp_stoploss_price s) (me_reason_code e) (me_message e) (sa_provenance a)))
               (\<lambda>s'. persist_result (sa_session_date a) s' e))
      | None \<Rightarrow> persist_result (sa_session_date a) s (idle_event a s))"

definition process_open_session ::
  "price \<Rightarrow> session_args \<Rightarrow> governance_decision option \<Rightarrow> position_state \<Rightarrow> manager_result manager_op" where
  "process_open_session slip a decision s =
     (if pending_stoploss_reset s (sa_session_date a) then
        (case first_exit_event slip a s False of
           Some e \<Rightarrow> close_with a e
         | None \<Rightarrow> bindS (evaluate_stoploss_reset a s) (\<lambda>(event, s').
             case event of
               Some e \<Rightarrow> (if \<not> pp_stoploss_active s' then persist_result (sa_session_date a) s' e
                 else continue_session slip a decision s')
             | None \<Rightarrow> continue_session slip a decision s'))
      else continue_session slip a decision s)"

definition process_session :: "price \<Rightarrow> session_args \<Rightarrow> manager_result manager_op" where
  "process_session slip a =
     bindS (storeS (load_position (sa_now a))) (\<lambda>s.
     if paper_position_is_no_longer_open (PStatus (pp_lifecycle_status s))
     then persist_result (sa_session_date a) s (already_closed_event a s)
     else let decision = map_option (\<lambda>g. gn_evaluate_position g s (sa_session_date a) (time_of (sa_evaluated_at a))) (sa_governance a) in
       if (case decision of None \<Rightarrow> False | Some x \<Rightarrow> gv_should_select_next_expiry x)
       then bindS (storeS (mark_rollover_required (sa_now a) (sa_session_date a) (sa_evaluated_at a)
              (gv_message (the decision)) (sa_provenance a)))
            (\<lambda>s'. persist_result (sa_session_date a) s' (rollover_event a s'))
       else process_open_session slip a decision s)"

section \<open>Opening\<close>

definition parse_option_type :: "string \<Rightarrow> option_type option" where
  "parse_option_type t = find (\<lambda>x. option_type_value x = t) [CALL, PUT]"

definition parse_expiry_type :: "string \<Rightarrow> expiry_type option" where
  "parse_expiry_type t = find (\<lambda>x. expiry_type_value x = t) [WEEKLY, MONTHLY]"

definition parse_rollover_policy :: "string \<Rightarrow> rollover_policy option" where
  "parse_rollover_policy t = find (\<lambda>x. rollover_policy_value x = t) [T_MINUS_1, T_MINUS_2]"

definition opened_event :: "datetime \<Rightarrow> date \<Rightarrow> string \<Rightarrow> string \<Rightarrow> position_state \<Rightarrow> manager_event" where
  "opened_event t session reason m s = (plain_manager_event t session MS_OPENED s reason m)
     \<lparr>me_target_price := Some (pp_target_price s), me_stop_price := Some (effective_stop_price s)\<rparr>"

definition rule_or :: "strategy_rule option \<Rightarrow> (strategy_rule \<Rightarrow> 'a) \<Rightarrow> 'a \<Rightarrow> 'a" where
  "rule_or rule f other = (case rule of None \<Rightarrow> other | Some r \<Rightarrow> f r)"

text \<open>The position of a filled order; what a rule, when given, overrides.\<close>

definition position_of_order ::
  "strategy_rule option \<Rightarrow> paper_order_state \<Rightarrow> price \<Rightarrow> datetime \<Rightarrow> option_type \<Rightarrow> expiry_type \<Rightarrow> rollover_policy \<Rightarrow>
   string list \<Rightarrow> position_state" where
  "position_of_order rule o' fill_price fill_time ty expiry rollover prov =
     (let no_carry = rule_or rule (\<lambda>r. ep_no_carry_past_expiry (sr_expiry_policy r)) (os_no_carry_past_expiry o') in
      \<lparr>pp_artifact_version = 1, pp_strategy_code = os_strategy_code o', pp_unique_code = os_strategy_branch o',
       pp_symbol = rule_or rule sr_symbol (os_symbol o'), pp_option_type = ty,
       pp_selected_contract_symbol = os_selected_contract_symbol o', pp_expiry_date = os_selected_contract_expiry o',
       pp_expiry_policy = \<lparr>ep_expiry_type = expiry, ep_rollover_policy = rollover,
         ep_forced_close_time = rule_or rule (\<lambda>r. ep_forced_close_time (sr_expiry_policy r)) (os_forced_close_time o'),
         ep_no_carry_past_expiry = no_carry\<rparr>,
       pp_entry_date = os_entry_date o', pp_entry_timestamp = fill_time, pp_entry_price = fill_price,
       pp_lots = os_lots o', pp_quantity = os_quantity o', pp_side = os_order_side o',
       pp_target_price = os_target_price o', pp_stoploss_price = os_stoploss_price o', pp_fsl_price = os_fsl_price o',
       pp_trp_price = None, pp_carry_forward_allowed = True, pp_no_carry_past_expiry = no_carry,
       pp_lifecycle_status = PAPER_POSITION_OPEN, pp_last_updated_timestamp = fill_time, pp_provenance_source_ids = prov,
       pp_strategy_parameters = rule_or rule (\<lambda>r. Some (sr_parameters r)) (os_strategy_parameters o'),
       pp_stoploss_active = True, pp_stoploss_reset_pending = False, pp_stoploss_reset_session_date = None,
       pp_stoploss_reset_reference_price = None,
       pp_stoploss_reset_buffer_pct = or_else (rule_or rule (\<lambda>r. map_of (sr_parameters r) ''sl_reference_pct'') None)
         (os_stoploss_reset_buffer_pct o'),
       pp_stoploss_reset_orpt_time = rule_or rule (\<lambda>r. Some (sr_entry_time r)) (os_stoploss_reset_orpt_time o'),
       pp_stoploss_reset_rc_time = rule_or rule (\<lambda>r. Some (sr_recalculation_time r)) (os_stoploss_reset_rc_time o'),
       pp_stoploss_reset_reason_code = None\<rparr>)"

definition open_from_filled_order ::
  "strategy_rule option \<Rightarrow> paper_order_state \<Rightarrow> string list \<Rightarrow> manager_result manager_op" where
  "open_from_filled_order rule o' prov =
     (if os_status o' \<noteq> ORDER_FILLED then liftS (Inl (PaperPositionManagerError
        [Txt ''Cannot open paper position from an S23 paper order that is not filled.'']))
      else case (os_fill_price o', os_fill_timestamp o') of
        (Some fill_price, Some fill_time) \<Rightarrow>
          (case parse_option_type (os_selected_contract_option_type o') of
             None \<Rightarrow> liftS (Inl (PaperPositionManagerError
               [Txt ''Unsupported selected option type: '', Txt (os_selected_contract_option_type o')]))
           | Some ty \<Rightarrow>
             (case (case rule of Some r \<Rightarrow> Some (ep_expiry_type (sr_expiry_policy r)) | None \<Rightarrow> parse_expiry_type (os_expiry_type o'),
                    case rule of Some r \<Rightarrow> Some (ep_rollover_policy (sr_expiry_policy r))
                      | None \<Rightarrow> parse_rollover_policy (os_rollover_policy o')) of
                (Some expiry, Some rollover) \<Rightarrow>
                  bindS (liftS (create_open_position_state (position_of_order rule o' fill_price fill_time ty expiry rollover prov))) (\<lambda>s.
                  bindS (storeS (updateS (save_position s))) (\<lambda>_.
                  persist_result (os_entry_date o') s
                    ((opened_event fill_time (os_entry_date o') ''paper_position_opened_from_filled_order''
                       ''S23 paper order filled; persisted as an open multi-day paper position.'' s)
                     \<lparr>me_source_kind := os_fill_source_kind o', me_source_id := os_fill_source_id o',
                      me_source_effective_timestamp := os_fill_source_effective_timestamp o'\<rparr>)))
              | _ \<Rightarrow> liftS (Inl (PaperPositionManagerError [Txt ''Unsupported expiry policy in filled paper order.'']))))
      | _ \<Rightarrow> liftS (Inl (PaperPositionManagerError
          [Txt ''Cannot open paper position from filled order without fill price and timestamp.''])))"

text \<open>\<^verbatim>\<open>_validate_ready_summary\<close> and \<^verbatim>\<open>open_from_live_decision\<close>; the expiry text of the summary is parsed already.\<close>

definition validate_ready_summary :: "decision_intent \<Rightarrow> unit res" where
  "validate_ready_summary i =
     (if oi_status i \<noteq> ''READY'' then Inl (PaperPositionManagerError
        [Txt ''Cannot open paper position from decision status '', PyRepr (oi_status i), Txt ''.''])
      else if missing_intent_fields i \<noteq> [] then Inl (PaperPositionManagerError
        [Txt ''Cannot open paper position; decision summary is missing '', Txt (join_comma (missing_intent_fields i))])
      else Inr ())"

definition position_of_decision :: "strategy_rule \<Rightarrow> decision_intent \<Rightarrow> option_type \<Rightarrow> datetime \<Rightarrow> string list \<Rightarrow> position_state" where
  "position_of_decision r i ty opened_at prov =
     \<lparr>pp_artifact_version = 1, pp_strategy_code = oi_strategy_code i, pp_unique_code = oi_strategy_branch i,
      pp_symbol = sr_symbol r, pp_option_type = ty, pp_selected_contract_symbol = the (oi_selected_contract_symbol i),
      pp_expiry_date = the (oi_selected_contract_expiry i), pp_expiry_policy = sr_expiry_policy r,
      pp_entry_date = oi_session_date i, pp_entry_timestamp = opened_at, pp_entry_price = the (oi_planned_entry_price i),
      pp_lots = oi_lots i, pp_quantity = oi_quantity i, pp_side = ''SELL'', pp_target_price = the (oi_target_price i),
      pp_stoploss_price = the (oi_stoploss_price i), pp_fsl_price = oi_fsl_price i, pp_trp_price = None,
      pp_carry_forward_allowed = True, pp_no_carry_past_expiry = ep_no_carry_past_expiry (sr_expiry_policy r),
      pp_lifecycle_status = PAPER_POSITION_OPEN, pp_last_updated_timestamp = opened_at, pp_provenance_source_ids = prov,
      pp_strategy_parameters = Some (sr_parameters r), pp_stoploss_active = True, pp_stoploss_reset_pending = False,
      pp_stoploss_reset_session_date = None, pp_stoploss_reset_reference_price = None,
      pp_stoploss_reset_buffer_pct = map_of (sr_parameters r) ''sl_reference_pct'',
      pp_stoploss_reset_orpt_time = Some (sr_entry_time r), pp_stoploss_reset_rc_time = Some (sr_recalculation_time r),
      pp_stoploss_reset_reason_code = None\<rparr>"

definition open_from_live_decision ::
  "strategy_rule \<Rightarrow> decision_intent \<Rightarrow> datetime \<Rightarrow> string list \<Rightarrow> manager_result manager_op" where
  "open_from_live_decision r i opened_at prov =
     bindS (liftS (validate_ready_summary i)) (\<lambda>_.
     case parse_option_type (the (oi_selected_contract_option_type i)) of
       None \<Rightarrow> liftS (Inl (PaperPositionManagerError
         [Txt ''Unsupported selected option type: '', Txt (the (oi_selected_contract_option_type i))]))
     | Some ty \<Rightarrow>
         bindS (liftS (create_open_position_state (position_of_decision r i ty opened_at prov))) (\<lambda>s.
         bindS (storeS (updateS (save_position s))) (\<lambda>_.
         persist_result (oi_session_date i) s (opened_event opened_at (oi_session_date i)
           ''paper_position_opened_from_ready_decision''
           ''S23 READY decision was persisted as an open multi-day paper position.'' s))))"

end
