(* ===== verification/ManagerSpec.thy ===== *)
theory ManagerSpec
  imports PositionManager
begin

text \<open>
  What the position manager guarantees: a trade is booked closed at most once over any
  sequence of sessions, the exit of a session is the first breach in time order with the
  stop-loss before the target, a filled order opens the position it describes; and what its
  next-day stop-loss reset does with the bar that caused it.
\<close>

section \<open>Store operations inside the manager\<close>

lemma storeS_Inr: "storeS m d = (Inr x, d') \<longleftrightarrow> (\<exists>s. m (md_store d) = (Inr x, s) \<and> d' = d\<lparr>md_store := s\<rparr>)"
  by (auto simp: storeS_def split: prod.splits)

lemma storeS_result: "storeS m d = (r, d') \<Longrightarrow> \<exists>s. m (md_store d) = (r, s) \<and> d' = d\<lparr>md_store := s\<rparr>"
  by (auto simp: storeS_def split: prod.splits)

lemma load_inside: "storeS (load_position now) d = (Inr s, d') \<longleftrightarrow> read_position (md_store d) = Inr s \<and> d' = d"
  by (auto simp: storeS_Inr load_position_Inr)

definition file_closed :: "manager_directory \<Rightarrow> bool" where
  "file_closed d \<longleftrightarrow> (\<exists>s. pd_state (md_store d) = Some s \<and> paper_position_is_no_longer_open (PStatus (pp_lifecycle_status s)))"

lemma closed_status_not_open: "paper_position_is_no_longer_open (PStatus (closed_status rv fr))"
  by (simp add: closed_status_def paper_position_is_no_longer_open_def status_in_def)

lemma read_closed_iff: "read_position (md_store d) = Inr s \<Longrightarrow>
    file_closed d \<longleftrightarrow> paper_position_is_no_longer_open (PStatus (pp_lifecycle_status s))"
proof -
  assume r: "read_position (md_store d) = Inr s"
  then obtain s0 where "pd_state (md_store d) = Some s0" by (auto simp: read_position_def split: option.splits)
  with read_position_lifecycle [OF r this] show ?thesis by (simp add: file_closed_def lifecycle_def)
qed

section \<open>Ledger rows\<close>

definition close_rows :: "manager_directory \<Rightarrow> ledger_row list" where
  "close_rows d = filter (\<lambda>r. lr_event_type r = LEDGER_CLOSE) (tr_session (md_ledgers d))"

definition books_close :: "manager_event \<Rightarrow> bool" where
  "books_close e \<longleftrightarrow> event_type_for_manager_status (Some (manager_status_value (me_status e))) = LEDGER_CLOSE"

lemma books_close_iff: "books_close e \<longleftrightarrow>
    me_status e \<in> {MS_TARGET_HIT, MS_STOPLOSS_HIT, MS_FORCE_CLOSED, MS_FRESH_ENTRY_REQUIRED, MS_REVERSE_ENTRY_REQUIRED}"
  by (cases "me_status e")
    (simp_all add: books_close_def event_type_for_manager_status_def upper_or_empty_def upper_def upper_char_def
      close_manager_statuses_def Let_def)

text \<open>One call adds at most one row to the ledger, and a closing row only with a closed file.\<close>

definition books_once :: "manager_directory \<Rightarrow> manager_directory \<Rightarrow> bool" where
  "books_once d d' \<longleftrightarrow> (\<exists>rows. tr_session (md_ledgers d') = tr_session (md_ledgers d) @ rows \<and> length rows \<le> 1 \<and>
     ((\<exists>r \<in> set rows. lr_event_type r = LEDGER_CLOSE) \<longrightarrow> file_closed d'))"

lemma books_once_same: "md_ledgers d' = md_ledgers d \<Longrightarrow> books_once d d'"
  by (simp add: books_once_def)

lemma books_once_persist: "\<not> books_close e \<or> file_closed d \<Longrightarrow> books_once d (snd (persist_result session s e d))"
  by (auto simp: books_once_def persist_result_def append_ledger_row_def manager_row_def build_row_def
      books_close_def file_closed_def Let_def)

lemma books_once_store:
  assumes "\<And>x d1. storeS m d = (Inr x, d1) \<Longrightarrow> books_once d1 (snd (f x d1))"
  shows "books_once d (snd (bindS (storeS m) f d))"
proof (cases "storeS m d")
  case (Pair r d1)
  with storeS_result [OF Pair] have same: "md_ledgers d1 = md_ledgers d" by auto
  show ?thesis
  proof (cases r)
    case (Inl e)
    with Pair same show ?thesis by (simp add: books_once_same)
  next
    case (Inr x)
    with Pair assms [of x d1] same show ?thesis by (simp add: books_once_def)
  qed
qed

lemma books_once_close: "books_once d (snd (close_with a e d))"
  unfolding close_with_def
proof (rule books_once_store, rule books_once_persist, rule disjI2)
  fix x d1
  assume "storeS (mark_position_closed (sa_now a) (sa_session_date a) (me_timestamp e) (me_reason_code e) (me_message e)
    (me_reverse_entry_required e) (me_fresh_entry_required e) (sa_provenance a)) d = (Inr x, d1)"
  then show "file_closed d1"
    by (auto simp: storeS_Inr file_closed_def lifecycle_def closed_status_not_open dest!: mark_closed_ended)
qed

lemma plain_books [simp]:
  "me_status (plain_manager_event t session st s reason m) = st"
  by (simp add: plain_manager_event_def)

lemma quiet_events [simp]:
  "\<not> books_close (held_event s a reason m r stop)" "\<not> books_close (already_closed_event a s)"
  "\<not> books_close (rollover_event a s)" "\<not> books_close (idle_event a s)"
  by (simp_all add: books_close_iff held_event_def already_closed_event_def rollover_event_def idle_event_def Let_def split: prod.splits)

lemma quiet_continuation: "continuation_event slip a s = Some e \<Longrightarrow> me_exit_price e = None \<Longrightarrow> \<not> books_close e"
  by (auto simp: continuation_event_def Let_def books_close_iff exit_manager_event_def split: if_splits option.splits)

lemma books_once_continue: "books_once d (snd (continue_session slip a decision s d))"
  unfolding continue_session_def
  by (auto simp: books_once_close quiet_continuation
      intro!: books_once_persist books_once_store split: option.splits)

lemma reset_keeps_ledgers: "evaluate_stoploss_reset a s d = (r, d') \<Longrightarrow> md_ledgers d' = md_ledgers d"
  by (auto simp: evaluate_stoploss_reset_def Let_def liftS_def bindS_def
      split: if_splits option.splits prod.splits sum.splits dest!: storeS_result)

lemma reset_event_quiet: "evaluate_stoploss_reset a s d = (Inr (Some e, s'), d') \<Longrightarrow> \<not> books_close e"
  by (auto simp: evaluate_stoploss_reset_def Let_def bindS_Inr split: if_splits option.splits)

lemma books_once_open: "books_once d (snd (process_open_session slip a decision s d))"
proof (cases "pending_stoploss_reset s (sa_session_date a) \<and> first_exit_event slip a s False = None")
  case False
  then show ?thesis by (auto simp: process_open_session_def books_once_close books_once_continue split: option.splits)
next
  case True
  obtain r d1 where e: "evaluate_stoploss_reset a s d = (r, d1)" by (cases "evaluate_stoploss_reset a s d")
  note same = reset_keeps_ledgers [OF e]
  show ?thesis
  proof (cases r)
    case (Inl x)
    with True e same show ?thesis by (simp add: process_open_session_def books_once_same)
  next
    case (Inr p)
    obtain ev s' where p: "p = (ev, s')" by (cases p)
    have "books_once d1 (snd (case ev of Some e \<Rightarrow> (if \<not> pp_stoploss_active s' then persist_result (sa_session_date a) s' e
        else continue_session slip a decision s') d1 | None \<Rightarrow> continue_session slip a decision s' d1))"
      using reset_event_quiet [of a s d _ s' d1] e Inr p
      by (auto simp: books_once_continue intro!: books_once_persist split: option.splits)
    with True e Inr p same show ?thesis
      by (simp add: process_open_session_def books_once_def split: option.splits if_splits)
  qed
qed

lemma books_once_process: "books_once d (snd (process_session slip a d))"
  unfolding process_session_def
proof (rule books_once_store)
  fix s d1
  show "books_once d1 (snd ((if paper_position_is_no_longer_open (PStatus (pp_lifecycle_status s))
     then persist_result (sa_session_date a) s (already_closed_event a s)
     else let decision = map_option (\<lambda>g. gn_evaluate_position g s (sa_session_date a) (time_of (sa_evaluated_at a))) (sa_governance a) in
       if (case decision of None \<Rightarrow> False | Some x \<Rightarrow> gv_should_select_next_expiry x)
       then bindS (storeS (mark_rollover_required (sa_now a) (sa_session_date a) (sa_evaluated_at a)
              (gv_message (the decision)) (sa_provenance a)))
            (\<lambda>s'. persist_result (sa_session_date a) s' (rollover_event a s'))
       else process_open_session slip a decision s) d1))"
    by (auto simp: Let_def books_once_open intro!: books_once_persist books_once_store)
qed

text \<open>A closed file: the session only reports it.\<close>

lemma closed_session:
  assumes "file_closed d"
  shows "pd_state (md_store (snd (process_session slip a d))) = pd_state (md_store d) \<and>
    close_rows (snd (process_session slip a d)) = close_rows d"
proof (cases "storeS (load_position (sa_now a)) d")
  case (Pair r d1)
  then obtain st where st: "load_position (sa_now a) (md_store d) = (r, st)" "d1 = d\<lparr>md_store := st\<rparr>"
    by (blast dest: storeS_result)
  show ?thesis
  proof (cases r)
    case (Inl e)
    with Pair st load_keeps_state [OF st(1)] show ?thesis by (simp add: process_session_def close_rows_def)
  next
    case (Inr s)
    with Pair load_inside have read: "read_position (md_store d) = Inr s" "d1 = d" by (auto simp: load_inside)
    with assms read_closed_iff have "paper_position_is_no_longer_open (PStatus (pp_lifecycle_status s))" by blast
    then have eq: "process_session slip a d = persist_result (sa_session_date a) s (already_closed_event a s) d"
      using Pair Inr read(2) by (simp add: process_session_def)
    have "lr_event_type (manager_row path (sa_session_date a) s (already_closed_event a s)) \<noteq> LEDGER_CLOSE" for path
      using quiet_events(2) [of a s] by (simp add: books_close_def manager_row_def build_row_def Let_def)
    then show ?thesis unfolding eq
      by (simp add: persist_result_def close_rows_def append_ledger_row_def Let_def)
  qed
qed

definition manager_run :: "price \<Rightarrow> session_args list \<Rightarrow> manager_directory \<Rightarrow> manager_directory" where
  "manager_run slip as d = fold (\<lambda>a d. snd (process_session slip a d)) as d"

definition booked_ok :: "manager_directory \<Rightarrow> bool" where
  "booked_ok d \<longleftrightarrow> length (close_rows d) \<le> 1 \<and> (close_rows d \<noteq> [] \<longrightarrow> file_closed d)"

lemma booked_ok_step: "booked_ok d \<Longrightarrow> booked_ok (snd (process_session slip a d))"
proof (cases "close_rows d = []")
  case False
  assume "booked_ok d"
  with False have "file_closed d" "length (close_rows d) \<le> 1" by (simp_all add: booked_ok_def)
  with closed_session [OF this(1), of slip a] show ?thesis by (simp add: booked_ok_def file_closed_def)
next
  case True
  from books_once_process [of d slip a] obtain rows where
    rows: "tr_session (md_ledgers (snd (process_session slip a d))) = tr_session (md_ledgers d) @ rows" "length rows \<le> 1"
    "(\<exists>r \<in> set rows. lr_event_type r = LEDGER_CLOSE) \<longrightarrow> file_closed (snd (process_session slip a d))"
    unfolding books_once_def by blast
  then have cr: "close_rows (snd (process_session slip a d)) = filter (\<lambda>r. lr_event_type r = LEDGER_CLOSE) rows"
    using True by (simp add: close_rows_def)
  moreover have "length (filter (\<lambda>r. lr_event_type r = LEDGER_CLOSE) rows) \<le> 1"
    using rows(2) length_filter_le [of "\<lambda>r. lr_event_type r = LEDGER_CLOSE" rows] by linarith
  ultimately show ?thesis using rows(2,3) by (auto simp: booked_ok_def filter_empty_conv)
qed

lemma manager_run_Cons [simp]: "manager_run slip (a # as) d = manager_run slip as (snd (process_session slip a d))"
  "manager_run slip [] d = d"
  by (simp_all add: manager_run_def)

lemma booked_ok_run: "booked_ok d \<Longrightarrow> booked_ok (manager_run slip as d)"
  by (induction as arbitrary: d) (simp_all add: booked_ok_step)

lemma file_closed_run: "file_closed d \<Longrightarrow> file_closed (manager_run slip as d) \<and> close_rows (manager_run slip as d) = close_rows d"
proof (induction as arbitrary: d)
  case (Cons a as)
  with closed_session [OF Cons.prems, of slip a] have "file_closed (snd (process_session slip a d))"
    by (simp add: file_closed_def)
  with Cons.IH [OF this] closed_session [OF Cons.prems, of slip a] show ?case by simp
qed simp

section \<open>The first breach\<close>

text \<open>What breaches the stop-loss, what reaches the target, and the price the exit is booked at.\<close>

fun stop_breached :: "position_state \<Rightarrow> selected_event \<Rightarrow> bool" where
  "stop_breached s (QuoteEvent q) \<longleftrightarrow> (case or_else (sq_ask q) (sq_ltp q) of None \<Rightarrow> False | Some p \<Rightarrow> effective_stop_price s \<le> p)"
| "stop_breached s (BarEvent b) \<longleftrightarrow> (case (sb_high b, sb_low b) of (Some h, Some l) \<Rightarrow> effective_stop_price s \<le> h | _ \<Rightarrow> False)"

fun target_reached :: "position_state \<Rightarrow> selected_event \<Rightarrow> bool" where
  "target_reached s (QuoteEvent q) \<longleftrightarrow> (case or_else (sq_ask q) (sq_ltp q) of None \<Rightarrow> False | Some p \<Rightarrow> p \<le> pp_target_price s)"
| "target_reached s (BarEvent b) \<longleftrightarrow> (case (sb_high b, sb_low b) of (Some h, Some l) \<Rightarrow> l \<le> pp_target_price s | _ \<Rightarrow> False)"

fun booked_at :: "price \<Rightarrow> price \<Rightarrow> selected_event \<Rightarrow> price" where
  "booked_at slip bound (QuoteEvent q) = max bound (the (or_else (sq_ask q) (sq_ltp q))) + slip"
| "booked_at slip bound (BarEvent b) = bound + slip"

definition stops :: "position_state \<Rightarrow> selected_event \<Rightarrow> bool" where
  "stops s e \<longleftrightarrow> pp_stoploss_active s \<and> stop_breached s e"

definition exit_price_of :: "price \<Rightarrow> position_state \<Rightarrow> selected_event \<Rightarrow> price" where
  "exit_price_of slip s e = booked_at slip (if stops s e then effective_stop_price s else pp_target_price s) e"

lemma exit_on_event_None:
  "exit_on_event slip s session allow (pp_stoploss_active s) e = None \<longleftrightarrow> \<not> (stops s e \<or> target_reached s e)"
  by (cases e) (auto simp: stops_def exit_on_quote_def exit_on_bar_def Let_def split: option.splits)

lemma exit_on_event_Some:
  assumes "exit_on_event slip s session allow (pp_stoploss_active s) e = Some x"
  shows "me_exit_price x = Some (exit_price_of slip s e)"
    and "me_reverse_entry_required x = (stops s e \<and> allow)" and "me_fresh_entry_required x = (\<not> stops s e)"
    and "strip (me_message x) \<noteq> []"
proof -
  have "me_exit_price x = Some (exit_price_of slip s e) \<and> me_reverse_entry_required x = (stops s e \<and> allow) \<and>
      me_fresh_entry_required x = (\<not> stops s e)"
    using assms
    by (cases e) (auto simp: stops_def exit_price_of_def exit_on_quote_def exit_on_bar_def Let_def exit_manager_event_def
      plain_manager_event_def split: option.splits if_splits)
  then show "me_exit_price x = Some (exit_price_of slip s e)" "me_reverse_entry_required x = (stops s e \<and> allow)"
    "me_fresh_entry_required x = (\<not> stops s e)" by simp_all
  show "strip (me_message x) \<noteq> []"
    using assms
    by (cases e) (auto simp: exit_on_quote_def exit_on_bar_def Let_def exit_manager_event_def
      plain_manager_event_def strip_fixed is_space_def split: option.splits if_splits)
qed

lemma exit_on_event_status:
  assumes "exit_on_event slip s session allow (pp_stoploss_active s) e = Some x"
  shows "me_status x = (if stops s e then stop_status allow else MS_FRESH_ENTRY_REQUIRED)"
    and "me_stop_price x = Some (effective_stop_price s)"
  using assms
  by (cases e; auto simp: stops_def exit_on_quote_def exit_on_bar_def Let_def exit_manager_event_def
      plain_manager_event_def split: option.splits if_splits)+

lemma exit_without_stop: "exit_on_event slip s session allow False e = None \<longleftrightarrow> \<not> target_reached s e"
  by (cases e) (auto simp: exit_on_quote_def exit_on_bar_def Let_def split: option.splits)

lemma first_exit_find: "first_exit f es = (case find (\<lambda>e. f e \<noteq> None) es of None \<Rightarrow> None | Some e \<Rightarrow> f e)"
  by (induction es) (auto split: option.splits)

lemma first_exit_event_find:
  "first_exit_event slip a s (pp_stoploss_active s) =
     (case find (\<lambda>e. stops s e \<or> target_reached s e) (own_events s (sa_market_events a)) of None \<Rightarrow> None
      | Some e \<Rightarrow> exit_on_event slip s (sa_session_date a) (sa_allow_reverse a) (pp_stoploss_active s) e)"
  by (simp add: first_exit_event_def first_exit_find exit_on_event_None)

section \<open>Closing succeeds\<close>

lemma wf_ended: "wf_position s \<Longrightarrow> wf_position (ended_position s st t prov)"
  by (auto simp: wf_position_def position_texts_def merge_provenance_def list_all_iff merge_texts_set ended_position_def wf_parameters_def)

lemma isok_iff: "isok r \<longleftrightarrow> (\<exists>x. r = Inr x)"
  by (cases r) simp_all

lemma parse_position_event_Inr: "parse_position_event e = Inr e' \<longleftrightarrow>
    list_all (\<lambda>(n, v). strip v \<noteq> []) (event_texts e) \<and> list_all (\<lambda>x. strip x \<noteq> []) (pv_provenance_source_ids e) \<and>
    e' = e\<lparr>pv_strategy_code := strip (pv_strategy_code e), pv_unique_code := strip (pv_unique_code e),
       pv_selected_contract_symbol := strip (pv_selected_contract_symbol e),
       pv_reason_code := optional_text (pv_reason_code e), pv_message := strip (pv_message e),
       pv_provenance_source_ids := map strip (pv_provenance_source_ids e)\<rparr>"
  unfolding parse_position_event_def bindE_eq_Inr parse_text_tuple_ok by (auto simp: check_texts_ok)

lemma parse_position_event_isok: "isok (parse_position_event e) \<longleftrightarrow>
    list_all (\<lambda>(n, v). strip v \<noteq> []) (event_texts e) \<and> list_all (\<lambda>x. strip x \<noteq> []) (pv_provenance_source_ids e)"
  unfolding isok_iff parse_position_event_Inr by blast

lemma readable_event:
  assumes "wf_position u" and "strip m \<noteq> []" and "list_all (\<lambda>x. strip x \<noteq> []) prov"
  shows "isok (parse_position_event (position_event_of u t ty session reason m prov))"
  using assms by (simp add: parse_position_event_isok position_event_of_def event_texts_def wf_position_def position_texts_def)

lemma parsed_readable: "parse_position_event e = Inr e' \<Longrightarrow> isok (parse_position_event e')"
  by (auto simp: parse_position_event_Inr parse_position_event_isok event_texts_def list_all_iff)

lemma parsed_log_readable: "mapE parse_position_event es = Inr es' \<Longrightarrow> list_all (\<lambda>e. isok (parse_position_event e)) es'"
  by (induction es arbitrary: es') (auto simp: bindE_eq_Inr parsed_readable)

lemma append_ok:
  assumes "log_readable d" and "isok (parse_position_event e)"
  shows "\<exists>d'. append_position_event e d = (Inr (), d') \<and> log_readable d' \<and> pd_state d' = pd_state d \<and> pd_path d' = pd_path d"
proof -
  from assms(1) obtain es where es: "load_position_events d = Inr es" by (auto simp: log_readable_def elim: isokE)
  then have "list_all (\<lambda>e. isok (parse_position_event e)) es"
    unfolding load_position_events_def by (rule parsed_log_readable)
  with es assms(2) show ?thesis by (simp add: append_position_event_def log_readable_iff)
qed

lemma mark_closed_succeeds:
  assumes "read_position d = Inr s" and "log_readable d" and "strip m \<noteq> []" and "list_all (\<lambda>x. strip x \<noteq> []) prov"
  shows "\<exists>d'. mark_position_closed now session t reason m rv fr prov d = (Inr (ended_position s (closed_status rv fr) t prov), d')"
proof -
  let ?u = "ended_position s (closed_status rv fr) t prov"
  have wf: "wf_position ?u" using wf_ended [OF read_position_wf [OF assms(1)]] .
  note readable = readable_event [OF wf _ assms(4), of _ t _ session]
  have "log_readable (save_position ?u d)" using assms(2) by (simp add: log_readable_iff save_position_def)
  from append_ok [OF this readable [OF assms(3)], of POSITION_CLOSED "Some reason"] obtain d1 where
    1: "append_position_event (position_event_of ?u t POSITION_CLOSED session (Some reason) m prov) (save_position ?u d) = (Inr (), d1)"
    "log_readable d1" by blast
  then have c: "commit_position ?u (\<lambda>u. position_event_of u t POSITION_CLOSED session (Some reason) m prov) d = (Inr ?u, d1)"
    using wf mk_position_ok [of ?u ?u] by (simp add: commit_position_def bindS_def liftS_def updateS_def)
  let ?rev_text = "''Stoploss closed the paper position; a fresh opposite-direction S23 decision must be calculated before any reverse paper entry.''"
  let ?fresh_text = "''Target closed the paper position; a fresh S23 decision must be calculated from current market, OI, premium, and expiry data before any new paper entry.''"
  have texts: "strip ?rev_text \<noteq> []" "strip ?fresh_text \<noteq> []" by (simp_all add: strip_fixed is_space_def)
  let ?rev = "if rv then append_position_event (position_event_of ?u t REVERSE_ENTRY_REQUIRED session
      (Some ''reverse_entry_after_stoploss_required'') ?rev_text prov) else liftS (Inr ())"
  obtain d2 where 2: "?rev d1 = (Inr (), d2)" "log_readable d2"
    using append_ok [OF 1(2) readable [OF texts(1)]] 1(2) by (cases rv) (auto simp: liftS_def)
  let ?fresh = "if fr then append_position_event (position_event_of ?u t FRESH_ENTRY_REQUIRED session
      (Some ''fresh_entry_after_target_required'') ?fresh_text prov) else liftS (Inr ())"
  obtain d3 where 3: "?fresh d2 = (Inr (), d3)"
    using append_ok [OF 2(2) readable [OF texts(2)]] by (cases fr) (auto simp: liftS_def)
  have load: "load_position now d = (Inr s, d)" using assms(1) by (simp add: load_position_Inr)
  have "mark_position_closed now session t reason m rv fr prov d =
      bindS ?rev (\<lambda>_. bindS ?fresh (\<lambda>_. liftS (Inr ?u))) d1"
    unfolding mark_position_closed_def
      bindS_simps(2) [where m = "load_position now" and d = d, OF load]
      bindS_simps(2) [where m = "commit_position ?u (\<lambda>u. position_event_of u t POSITION_CLOSED session (Some reason) m prov)"
        and d = d, OF c] ..
  also have "\<dots> = (Inr ?u, d3)"
    unfolding bindS_simps(2) [where m = ?rev and d = d1, OF 2(1)] bindS_simps(2) [where m = ?fresh and d = d2, OF 3]
    by (simp add: liftS_def)
  finally show ?thesis by blast
qed

lemma close_with_succeeds:
  assumes "read_position (md_store d) = Inr s" and "log_readable (md_store d)" and "strip (me_message e) \<noteq> []"
    and "list_all (\<lambda>x. strip x \<noteq> []) (sa_provenance a)"
  shows "\<exists>r d'. close_with a e d = (Inr r, d') \<and> file_closed d' \<and> mg_event r = e \<and> mg_status r = me_status e \<and>
    pp_lifecycle_status (mg_state r) = closed_status (me_reverse_entry_required e) (me_fresh_entry_required e) \<and>
    lr_gross_pnl (last (tr_session (md_ledgers d'))) =
      map_option (\<lambda>p. (pp_entry_price s - p) * of_int (pp_quantity s)) (or_else (me_exit_price e) (me_current_price e))"
proof -
  let ?m = "mark_position_closed (sa_now a) (sa_session_date a) (me_timestamp e) (me_reason_code e) (me_message e)
    (me_reverse_entry_required e) (me_fresh_entry_required e) (sa_provenance a)"
  let ?u = "ended_position s (closed_status (me_reverse_entry_required e) (me_fresh_entry_required e)) (me_timestamp e) (sa_provenance a)"
  from mark_closed_succeeds [OF assms] obtain d1 where m: "?m (md_store d) = (Inr ?u, d1)" by blast
  then have "storeS ?m d = (Inr ?u, d\<lparr>md_store := d1\<rparr>)" by (simp add: storeS_def)
  then have eq: "close_with a e d = persist_result (sa_session_date a) ?u e (d\<lparr>md_store := d1\<rparr>)"
    unfolding close_with_def by (simp add: bindS_def)
  have closed: "file_closed (d\<lparr>md_store := d1\<rparr>)"
    using mark_closed_ended [OF m] by (simp add: file_closed_def lifecycle_def closed_status_not_open)
  show ?thesis unfolding eq using closed
    by (auto simp: persist_result_def Let_def file_closed_def append_ledger_row_def manager_row_def build_row_def
        ended_position_def option.map_comp comp_def)
qed

text \<open>The reset from the RC bar, up to the exit check of the session.\<close>

definition reset_position :: "session_args \<Rightarrow> position_state \<Rightarrow> price \<Rightarrow> string \<Rightarrow> position_state" where
  "reset_position a s stop reason = s\<lparr>pp_lifecycle_status := PAPER_POSITION_OPEN,
     pp_last_updated_timestamp := sa_evaluated_at a, pp_stoploss_price := stop, pp_fsl_price := None,
     pp_stoploss_active := True, pp_stoploss_reset_pending := False,
     pp_stoploss_reset_session_date := Some (sa_session_date a), pp_stoploss_reset_reason_code := Some reason,
     pp_provenance_source_ids := merge_provenance (pp_provenance_source_ids s) (sa_provenance a)\<rparr>"

lemma strip_nonblank: "t \<noteq> [] \<Longrightarrow> \<not> is_space (hd t) \<Longrightarrow> strip t \<noteq> []"
  by (cases t) (auto simp: strip_def)

lemma activate_succeeds:
  assumes "read_position d = Inr s" and "log_readable d" and "0 < stop" and "strip m \<noteq> []"
    and "list_all (\<lambda>x. strip x \<noteq> []) (sa_provenance a)"
  shows "\<exists>d'. activate_stoploss_after_reset (sa_now a) (sa_session_date a) (sa_evaluated_at a) stop None reason m (sa_provenance a) d =
      (Inr (reset_position a s stop reason), d') \<and> log_readable d' \<and> (\<exists>u. read_position d' = Inr u)"
proof -
  let ?u = "reset_position a s stop reason"
  let ?ev = "\<lambda>u. position_event_of u (sa_evaluated_at a) POSITION_RESUMED (sa_session_date a) (Some reason) m (sa_provenance a)"
  have wf: "wf_position ?u" using read_position_wf [OF assms(1)] assms(3)
    by (auto simp: wf_position_def position_texts_def merge_provenance_def list_all_iff merge_texts_set reset_position_def wf_parameters_def)
  have "log_readable (save_position ?u d)" using assms(2) by (simp add: log_readable_iff save_position_def)
  from append_ok [OF this readable_event [OF wf assms(4,5)]] obtain d1 where
    1: "append_position_event (?ev ?u) (save_position ?u d) = (Inr (), d1)" "log_readable d1"
    "pd_state d1 = pd_state (save_position ?u d)" by blast
  then have "commit_position ?u ?ev d = (Inr ?u, d1)"
    using wf mk_position_ok [of ?u ?u] by (simp add: commit_position_def bindS_def liftS_def updateS_def)
  moreover have load: "load_position (sa_now a) d = (Inr s, d)" using assms(1) by (simp add: load_position_Inr)
  ultimately have "activate_stoploss_after_reset (sa_now a) (sa_session_date a) (sa_evaluated_at a) stop None reason m (sa_provenance a) d = (Inr ?u, d1)"
    unfolding activate_stoploss_after_reset_def bindS_simps(2) [where m = "load_position (sa_now a)" and d = d, OF load]
    by (simp add: reset_position_def)
  moreover have "\<exists>u. read_position d1 = Inr u"
    using read_wf_position [of d1 ?u] 1(3) wf by (auto simp: save_position_def)
  ultimately show ?thesis using 1(2) by blast
qed

section \<open>Opening a position\<close>

lemma normalize_position_parameters_keys:
  "normalize_position_parameters acc xs = Inr ys \<Longrightarrow> list_all (\<lambda>(k, _). strip k \<noteq> []) xs"
  by (induction acc xs arbitrary: ys rule: normalize_position_parameters.induct) (auto split: if_splits)

lemma normalize_strategy_parameters_keys: "normalize_strategy_parameters ps = Inr qs \<Longrightarrow> wf_parameters ps"
  using normalize_position_parameters_keys [of "[]" "the ps"]
  by (cases ps; cases "the ps") (auto simp: normalize_strategy_parameters_def wf_parameters_def bindE_eq_Inr)

text \<open>What \<^verbatim>\<open>create_open_position_state\<close> demands of its arguments is that they form a position.\<close>

lemma create_open_iff: "isok (create_open_position_state a) \<longleftrightarrow> wf_position a"
proof (cases "normalize_strategy_parameters (pp_strategy_parameters a)")
  case (Inl e)
  then have "\<not> wf_parameters (pp_strategy_parameters a)" using normalize_strategy_parameters_ok by fastforce
  with Inl show ?thesis by (simp add: create_open_position_state_def wf_position_def isok_iff bindE_eq_Inr)
next
  case (Inr qs)
  with normalize_strategy_parameters_keys normalize_strategy_parameters_ok
  have "wf_parameters (pp_strategy_parameters a)" "wf_parameters qs" by fastforce+
  with Inr show ?thesis
    by (simp add: create_open_position_state_def isok_iff bindE_eq_Inr mk_position_ok)
      (simp add: wf_position_def position_texts_def)
qed

lemma create_open_fields:
  assumes "create_open_position_state a = Inr s"
  shows "pp_entry_price s = pp_entry_price a" and "pp_quantity s = pp_quantity a" and "pp_stoploss_price s = pp_stoploss_price a"
    and "pp_target_price s = pp_target_price a" and "pp_selected_contract_symbol s = pp_selected_contract_symbol a"
    and "pp_lifecycle_status s = PAPER_POSITION_OPEN" and "pp_stoploss_active s" and "wf_position s"
  using assms by (auto simp: create_open_position_state_def bindE_eq_Inr mk_position_ok)

definition order_openable :: "strategy_rule option \<Rightarrow> paper_order_state \<Rightarrow> string list \<Rightarrow> bool" where
  "order_openable rule o' prov \<longleftrightarrow> os_status o' = ORDER_FILLED \<and> os_fill_timestamp o' \<noteq> None \<and>
     (case os_fill_price o' of None \<Rightarrow> False | Some p \<Rightarrow> 0 < p) \<and>
     parse_option_type (os_selected_contract_option_type o') \<noteq> None \<and>
     (rule \<noteq> None \<or> parse_expiry_type (os_expiry_type o') \<noteq> None \<and> parse_rollover_policy (os_rollover_policy o') \<noteq> None) \<and>
     0 < os_target_price o' \<and> 0 < os_stoploss_price o' \<and> 0 < os_lots o' \<and> 0 < os_quantity o' \<and>
     list_all (\<lambda>x. strip x \<noteq> []) ([os_strategy_code o', os_strategy_branch o', rule_or rule sr_symbol (os_symbol o'),
       os_selected_contract_symbol o', os_order_side o'] @ prov) \<and>
     wf_parameters (rule_or rule (\<lambda>r. Some (sr_parameters r)) (os_strategy_parameters o'))"

lemma wf_position_of_order:
  "wf_position (position_of_order rule o' p t ty expiry rollover prov) \<longleftrightarrow> 0 < p \<and>
     0 < os_target_price o' \<and> 0 < os_stoploss_price o' \<and> 0 < os_lots o' \<and> 0 < os_quantity o' \<and>
     list_all (\<lambda>x. strip x \<noteq> []) ([os_strategy_code o', os_strategy_branch o', rule_or rule sr_symbol (os_symbol o'),
       os_selected_contract_symbol o', os_order_side o'] @ prov) \<and>
     wf_parameters (rule_or rule (\<lambda>r. Some (sr_parameters r)) (os_strategy_parameters o'))"
  by (auto simp: wf_position_def position_texts_def position_of_order_def Let_def)

text \<open>The position a filled order is turned into, once its texts are parsed.\<close>

definition order_position :: "strategy_rule option \<Rightarrow> paper_order_state \<Rightarrow> string list \<Rightarrow> position_state" where
  "order_position rule o' prov = position_of_order rule o' (the (os_fill_price o')) (the (os_fill_timestamp o'))
     (the (parse_option_type (os_selected_contract_option_type o')))
     (rule_or rule (\<lambda>r. ep_expiry_type (sr_expiry_policy r)) (the (parse_expiry_type (os_expiry_type o'))))
     (rule_or rule (\<lambda>r. ep_rollover_policy (sr_expiry_policy r)) (the (parse_rollover_policy (os_rollover_policy o')))) prov"

definition opening_event :: "paper_order_state \<Rightarrow> position_state \<Rightarrow> manager_event" where
  "opening_event o' s = (opened_event (the (os_fill_timestamp o')) (os_entry_date o') ''paper_position_opened_from_filled_order''
       ''S23 paper order filled; persisted as an open multi-day paper position.'' s)
     \<lparr>me_source_kind := os_fill_source_kind o', me_source_id := os_fill_source_id o',
      me_source_effective_timestamp := os_fill_source_effective_timestamp o'\<rparr>"

lemma open_from_filled_order_cases:
  "(order_openable rule o' prov \<and> (\<exists>s. create_open_position_state (order_position rule o' prov) = Inr s \<and>
      open_from_filled_order rule o' prov d = persist_result (os_entry_date o') s (opening_event o' s)
        (d\<lparr>md_store := save_position s (md_store d)\<rparr>))) \<or>
   (\<not> order_openable rule o' prov \<and> (\<exists>e. open_from_filled_order rule o' prov d = (Inl e, d)))"
proof (cases "os_status o' = ORDER_FILLED \<and> os_fill_price o' \<noteq> None \<and> os_fill_timestamp o' \<noteq> None \<and>
    parse_option_type (os_selected_contract_option_type o') \<noteq> None \<and>
    (rule \<noteq> None \<or> parse_expiry_type (os_expiry_type o') \<noteq> None \<and> parse_rollover_policy (os_rollover_policy o') \<noteq> None)")
  case False
  then have "\<exists>e. open_from_filled_order rule o' prov d = (Inl e, d)"
    by (auto simp: open_from_filled_order_def liftS_def split: option.splits)
  moreover have "\<not> order_openable rule o' prov" using False by (auto simp: order_openable_def)
  ultimately show ?thesis by blast
next
  case True
  let ?a = "order_position rule o' prov"
  have run: "open_from_filled_order rule o' prov = bindS (liftS (create_open_position_state ?a)) (\<lambda>s.
      bindS (storeS (updateS (save_position s))) (\<lambda>_. persist_result (os_entry_date o') s (opening_event o' s)))"
    using True by (auto simp: open_from_filled_order_def order_position_def opening_event_def rule_or_def split: option.split)
  have able: "order_openable rule o' prov \<longleftrightarrow> wf_position ?a"
    using True by (auto simp: order_openable_def order_position_def wf_position_of_order)
  show ?thesis
  proof (cases "create_open_position_state ?a")
    case (Inl e)
    then have "\<not> wf_position ?a" using create_open_iff [of ?a] by simp
    moreover have "open_from_filled_order rule o' prov d = (Inl e, d)"
      unfolding run using Inl by (simp add: bindS_def liftS_def)
    ultimately show ?thesis using able by blast
  next
    case (Inr s)
    then have "wf_position ?a" using create_open_iff [of ?a] by simp
    moreover have "open_from_filled_order rule o' prov d = persist_result (os_entry_date o') s (opening_event o' s)
        (d\<lparr>md_store := save_position s (md_store d)\<rparr>)"
      unfolding run using Inr by (simp add: bindS_def liftS_def storeS_def updateS_def)
    ultimately show ?thesis using able Inr by blast
  qed
qed

section \<open>Properties\<close>

text \<open>
  C13: a filled order is opened exactly when it carries a fill price and time, known option,
  expiry and rollover types, positive prices, lots and quantity and no blank text; the position
  is then open with an active stop-loss, at the fill price, quantity, stop-loss and target of the
  order, and is booked by one opening row. Otherwise an error is raised and nothing is written.
\<close>
theorem filled_order_opens_iff:
  shows "case open_from_filled_order rule o' prov d of
      (Inr r, d') \<Rightarrow> order_openable rule o' prov \<and> (\<exists>s row. mg_state r = s \<and> pd_state (md_store d') = Some s \<and>
        pp_entry_price s = the (os_fill_price o') \<and> pp_quantity s = os_quantity o' \<and>
        pp_stoploss_price s = os_stoploss_price o' \<and> pp_target_price s = os_target_price o' \<and>
        pp_selected_contract_symbol s = os_selected_contract_symbol o' \<and>
        pp_lifecycle_status s = PAPER_POSITION_OPEN \<and> pp_stoploss_active s \<and>
        tr_session (md_ledgers d') = tr_session (md_ledgers d) @ [row] \<and> lr_event_type row = LEDGER_OPEN)
    | (Inl e, d') \<Rightarrow> \<not> order_openable rule o' prov \<and> d' = d"
proof -
  have opened: "event_type_for_manager_status (Some ''PAPER_POSITION_OPENED'') = LEDGER_OPEN" by code_simp
  from open_from_filled_order_cases [of rule o' prov d] show ?thesis
  proof (elim disjE conjE exE)
    fix s assume able: "order_openable rule o' prov" and s: "create_open_position_state (order_position rule o' prov) = Inr s"
      and run: "open_from_filled_order rule o' prov d = persist_result (os_entry_date o') s (opening_event o' s)
        (d\<lparr>md_store := save_position s (md_store d)\<rparr>)"
    show ?thesis unfolding run using able create_open_fields [OF s]
      by (simp add: persist_result_def Let_def append_ledger_row_def manager_row_def build_row_def opening_event_def
          opened_event_def plain_manager_event_def opened save_position_def order_position_def position_of_order_def)
  qed simp
qed

text \<open>
  C12: over any sequence of sessions, successful or failing, the ledger of a position gets at
  most one closing row; it is only written when the state file shows the position closed, and
  no later session adds another.
\<close>
theorem position_closed_at_most_once:
  assumes "close_rows d = []"
  shows "length (close_rows (manager_run slip as d)) \<le> 1 \<and>
    (close_rows (manager_run slip as d) \<noteq> [] \<longrightarrow> file_closed (manager_run slip as d) \<and>
      close_rows (manager_run slip bs (manager_run slip as d)) = close_rows (manager_run slip as d))"
proof -
  have "booked_ok (manager_run slip as d)" using assms by (intro booked_ok_run) (simp add: booked_ok_def)
  then show ?thesis using file_closed_run by (auto simp: booked_ok_def)
qed

text \<open>What the governance, when there is one, says of the position in this session.\<close>

definition session_decision :: "session_args \<Rightarrow> position_state \<Rightarrow> governance_decision option" where
  "session_decision a s =
     map_option (\<lambda>g. gn_evaluate_position g s (sa_session_date a) (time_of (sa_evaluated_at a))) (sa_governance a)"

definition asks_next_expiry :: "session_args \<Rightarrow> position_state \<Rightarrow> bool" where
  "asks_next_expiry a s = (case session_decision a s of None \<Rightarrow> False | Some x \<Rightarrow> gv_should_select_next_expiry x)"

definition forces_close :: "session_args \<Rightarrow> position_state \<Rightarrow> bool" where
  "forces_close a s = (case session_decision a s of None \<Rightarrow> False | Some x \<Rightarrow> gv_must_force_close x)"

definition decision_has_text :: "session_args \<Rightarrow> position_state \<Rightarrow> bool" where
  "decision_has_text a s = (case session_decision a s of None \<Rightarrow> True | Some x \<Rightarrow> strip (gv_message x) \<noteq> [])"

lemma session_continues:
  assumes "read_position (md_store d) = Inr s" and "\<not> paper_position_is_no_longer_open (PStatus (pp_lifecycle_status s))"
    and "\<not> asks_next_expiry a s" and "\<not> pending_stoploss_reset s (sa_session_date a)"
  shows "process_session slip a d = continue_session slip a (session_decision a s) s d"
proof -
  have "storeS (load_position (sa_now a)) d = (Inr s, d)" using assms(1) by (simp add: load_inside)
  then show ?thesis unfolding process_session_def using assms(2-4)
    by (auto simp: process_open_session_def bindS_def Let_def asks_next_expiry_def session_decision_def split: option.splits)
qed

lemma session_exits_on_event:
  assumes "read_position (md_store d) = Inr s" and "log_readable (md_store d)"
    and "\<not> paper_position_is_no_longer_open (PStatus (pp_lifecycle_status s))"
    and "case map_option (\<lambda>g. gn_evaluate_position g s (sa_session_date a) (time_of (sa_evaluated_at a))) (sa_governance a) of
      None \<Rightarrow> True | Some x \<Rightarrow> \<not> gv_should_select_next_expiry x"
    and "\<not> pending_stoploss_reset s (sa_session_date a)" and "list_all (\<lambda>x. strip x \<noteq> []) (sa_provenance a)"
    and "find (\<lambda>e. stops s e \<or> target_reached s e) (own_events s (sa_market_events a)) = Some e"
  shows "\<exists>r d'. process_session slip a d = (Inr r, d') \<and> file_closed d' \<and>
        pp_lifecycle_status (mg_state r) =
          (if stops s e then closed_status (sa_allow_reverse a) False else closed_status False True) \<and>
        me_exit_price (mg_event r) = Some (exit_price_of slip s e) \<and>
        mg_status r = (if stops s e then stop_status (sa_allow_reverse a) else MS_FRESH_ENTRY_REQUIRED) \<and>
        lr_gross_pnl (last (tr_session (md_ledgers d'))) =
          Some ((pp_entry_price s - exit_price_of slip s e) * of_int (pp_quantity s))"
proof -
  have "storeS (load_position (sa_now a)) d = (Inr s, d)" using assms(1) by (simp add: load_inside)
  then obtain decision where session: "process_session slip a d = continue_session slip a decision s d"
    unfolding process_session_def using assms(3-5) by (auto simp: process_open_session_def bindS_def split: option.splits)
  from assms(7) have "stops s e \<or> target_reached s e" by (auto dest: find_SomeD)
  then obtain x where x: "exit_on_event slip s (sa_session_date a) (sa_allow_reverse a) (pp_stoploss_active s) e = Some x"
    using exit_on_event_None by (metis option.exhaust)
  with assms(7) have "first_exit_event slip a s (pp_stoploss_active s) = Some x" by (simp add: first_exit_event_find)
  then have "process_session slip a d = close_with a x d" unfolding session by (simp add: continue_session_def)
  with close_with_succeeds [OF assms(1,2) exit_on_event_Some(4) [OF x] assms(6)] exit_on_event_Some(1-3) [OF x]
    exit_on_event_status(1) [OF x]
  show ?thesis by auto
qed

lemma session_exit_cases:
  assumes "read_position (md_store d) = Inr s" and "log_readable (md_store d)"
    and "\<not> paper_position_is_no_longer_open (PStatus (pp_lifecycle_status s))"
    and "\<not> asks_next_expiry a s" and "decision_has_text a s" and "\<not> pending_stoploss_reset s (sa_session_date a)"
    and "list_all (\<lambda>x. strip x \<noteq> []) (sa_provenance a)"
  shows "case find (\<lambda>e. stops s e \<or> target_reached s e) (own_events s (sa_market_events a)) of
      Some e \<Rightarrow> (\<exists>r d'. process_session slip a d = (Inr r, d') \<and> file_closed d' \<and>
        pp_lifecycle_status (mg_state r) =
          (if stops s e then closed_status (sa_allow_reverse a) False else closed_status False True) \<and>
        me_exit_price (mg_event r) = Some (exit_price_of slip s e) \<and>
        lr_gross_pnl (last (tr_session (md_ledgers d'))) =
          Some ((pp_entry_price s - exit_price_of slip s e) * of_int (pp_quantity s)))
    | None \<Rightarrow> if forces_close a s
        then \<exists>r d'. process_session slip a d = (Inr r, d') \<and> file_closed d' \<and> mg_status r = MS_FORCE_CLOSED
        else time_of (sa_evaluated_at a) < clock_time 15 0 0 \<longrightarrow>
          (\<exists>r d'. process_session slip a d = (Inr r, d') \<and> md_store d' = md_store d \<and> mg_status r \<in> {MS_HELD, MS_NO_MARKET_DATA})"
proof (cases "find (\<lambda>e. stops s e \<or> target_reached s e) (own_events s (sa_market_events a))")
  case (Some e)
  have "case map_option (\<lambda>g. gn_evaluate_position g s (sa_session_date a) (time_of (sa_evaluated_at a))) (sa_governance a) of
      None \<Rightarrow> True | Some x \<Rightarrow> \<not> gv_should_select_next_expiry x"
    using assms(4) by (simp add: asks_next_expiry_def session_decision_def split: option.splits)
  from session_exits_on_event [OF assms(1-3) this assms(6,7) Some, of slip] Some show ?thesis by auto
next
  case None
  have eq: "process_session slip a d = continue_session slip a (session_decision a s) s d"
    by (rule session_continues [OF assms(1,3,4,6)])
  from None have first: "first_exit_event slip a s (pp_stoploss_active s) = None" by (simp add: first_exit_event_find)
  show ?thesis
  proof (cases "forces_close a s")
    case True
    then obtain x where x: "session_decision a s = Some x" "gv_must_force_close x"
      by (auto simp: forces_close_def split: option.splits)
    let ?e = "force_close_event slip a s (gv_message x)"
    have "process_session slip a d = close_with a ?e d" unfolding eq
      using x first by (simp add: continue_session_def forced_close_def)
    moreover have "strip (me_message ?e) \<noteq> []" "me_status ?e = MS_FORCE_CLOSED"
      using assms(5) x(1) by (simp_all add: decision_has_text_def force_close_event_def Let_def plain_manager_event_def)
    ultimately show ?thesis using close_with_succeeds [OF assms(1,2) _ assms(7), of ?e] None True by auto
  next
    case False
    then have "forced_close slip a (session_decision a s) s = None"
      by (auto simp: forced_close_def forces_close_def split: option.splits)
    then have "process_session slip a d = persist_result (sa_session_date a) s (idle_event a s) d"
      if "time_of (sa_evaluated_at a) < clock_time 15 0 0"
      unfolding eq using first that by (simp add: continue_session_def continuation_event_def)
    then show ?thesis using None False
      by (auto simp: persist_result_def Let_def idle_event_def split: prod.splits)
  qed
qed

text \<open>
  C11: a session of an open position, for which the governance, when there is one, does not ask for the next
  expiry and no stop-loss reset is pending, closes it at the first event of its contract in time order
  that breaches the active stop-loss (the lower of stop-loss and FSL) or reaches the target,
  the stop-loss winning over the target; the exit is booked at that level (or the worse quote)
  plus slippage, and the ledger row carries the profit of that exit. Without such an event the position is closed
  when the governance forces it; otherwise, before 15:00, the session leaves the position file and its log as
  they are. The event log is readable, and the provenance and the governance's message are not blank.
\<close>
theorem session_exits_at_first_breach:
  assumes "read_position (md_store d) = Inr s" and "log_readable (md_store d)"
    and "\<not> paper_position_is_no_longer_open (PStatus (pp_lifecycle_status s))"
    and "\<not> asks_next_expiry a s" and "decision_has_text a s" and "\<not> pending_stoploss_reset s (sa_session_date a)"
    and "list_all (\<lambda>x. strip x \<noteq> []) (sa_provenance a)"
  shows "case find (\<lambda>e. stops s e \<or> target_reached s e) (own_events s (sa_market_events a)) of
      Some e \<Rightarrow> (\<exists>r d'. process_session slip a d = (Inr r, d') \<and> file_closed d' \<and>
        pp_lifecycle_status (mg_state r) =
          (if stops s e then closed_status (sa_allow_reverse a) False else closed_status False True) \<and>
        me_exit_price (mg_event r) = Some (exit_price_of slip s e) \<and>
        lr_gross_pnl (last (tr_session (md_ledgers d'))) =
          Some ((pp_entry_price s - exit_price_of slip s e) * of_int (pp_quantity s)))
    | None \<Rightarrow> if forces_close a s
        then \<exists>r d'. process_session slip a d = (Inr r, d') \<and> file_closed d' \<and> mg_status r = MS_FORCE_CLOSED
        else time_of (sa_evaluated_at a) < clock_time 15 0 0 \<longrightarrow>
          (\<exists>r d'. process_session slip a d = (Inr r, d') \<and> md_store d' = md_store d \<and> mg_status r \<in> {MS_HELD, MS_NO_MARKET_DATA})"
  by (rule session_exit_cases [OF assms])

text \<open>
  The next-day reset and the bar that caused it: when the 09:15 bar exceeded the original
  stop-loss, the RC bar gives a revised stop at or below that bar's high, and no event reaches
  the target, the session that sets the revised stop closes the position at once, because the
  events of the whole day, the 09:15 bar among them, are checked against the new stop.
\<close>
theorem stoploss_reset_exits_on_earlier_bar:
  assumes "read_position (md_store d) = Inr s" and "log_readable (md_store d)"
    and "\<not> paper_position_is_no_longer_open (PStatus (pp_lifecycle_status s))"
    and "sa_governance a = None" and "pending_stoploss_reset s (sa_session_date a)"
    and "list_all (\<lambda>x. strip x \<noteq> []) (sa_provenance a)"
    and "\<not> list_ex (target_reached s) (own_events s (sa_market_events a))"
    and "pp_stoploss_reset_orpt_time s = Some orpt" and "pp_stoploss_reset_rc_time s = Some rc"
    and "orpt \<le> time_of (sa_evaluated_at a)" and "rc \<le> time_of (sa_evaluated_at a)"
    and "bar_high_for_minute s (sa_market_events a) (clock_time 9 15 0) = Some open_high" and "pp_stoploss_price s < open_high"
    and "bar_high_for_minute s (sa_market_events a) rc = Some rc_high"
    and "0 < revised_stop s rc_high" and "revised_stop s rc_high \<le> open_high"
    and "BarEvent b \<in> set (own_events s (sa_market_events a))" and "sb_high b = Some open_high" and "sb_low b \<noteq> None"
  shows "\<exists>r d'. process_session slip a d = (Inr r, d') \<and> file_closed d' \<and>
    mg_status r = stop_status (sa_allow_reverse a) \<and> me_stop_price (mg_event r) = Some (revised_stop s rc_high)"
proof -
  let ?s = "reset_position a s (revised_stop s rc_high) ''carry_forward_stoploss_recalculated_from_rc_high''"
  let ?m = "''09:15 high '' @ fixed2 open_high @ '' exceeded original SL '' @ fixed2 (pp_stoploss_price s) @ ''; revised SL = RC high '' @
      fixed2 rc_high @ '' + '' @ fixed2 (reset_buffer_pct s) @ ''% = '' @ fixed2 (revised_stop s rc_high) @ ''.''"
  let ?events = "own_events s (sa_market_events a)"
  have "strip ?m \<noteq> []" by (rule strip_nonblank) (simp_all add: is_space_def)
  from activate_succeeds [OF assms(1,2,15) this assms(6)] obtain d1 where
    act: "activate_stoploss_after_reset (sa_now a) (sa_session_date a) (sa_evaluated_at a) (revised_stop s rc_high) None
      ''carry_forward_stoploss_recalculated_from_rc_high'' ?m (sa_provenance a) (md_store d) = (Inr ?s, d1)"
    and d1: "log_readable d1" and "\<exists>u. read_position d1 = Inr u" by blast
  then obtain u where u: "read_position d1 = Inr u" by blast
  let ?d = "d\<lparr>md_store := d1\<rparr>"
  have reset: "evaluate_stoploss_reset a s d = (Inr (None, ?s), ?d)"
    using assms(8-14) act by (simp add: evaluate_stoploss_reset_def Let_def bindS_def liftS_def storeS_def)
  have "find (target_reached s) ?events = None" using assms(7) by (simp add: find_None_iff list_ex_iff)
  then have "first_exit_event slip a s False = None"
    by (simp add: first_exit_event_def first_exit_find exit_without_stop)
  moreover have "storeS (load_position (sa_now a)) d = (Inr s, d)" using assms(1) by (simp add: load_inside)
  ultimately have session: "process_session slip a d = continue_session slip a None ?s ?d"
    unfolding process_session_def using assms(3-5) reset by (simp add: process_open_session_def bindS_def)
  have same: "own_events ?s (sa_market_events a) = ?events" by (simp add: own_events_def reset_position_def)
  have target: "target_reached ?s e = target_reached s e" for e by (cases e) (simp_all add: reset_position_def split: option.split)
  have "stops ?s (BarEvent b)" using assms(16,18,19)
    by (auto simp: stops_def reset_position_def effective_stop_price_def)
  with assms(17) have "find (\<lambda>e. stops ?s e \<or> target_reached ?s e) ?events \<noteq> None" by (auto simp: find_None_iff)
  then obtain e where e: "find (\<lambda>e. stops ?s e \<or> target_reached ?s e) ?events = Some e" by blast
  then have "stops ?s e" using find_SomeD [OF e] target assms(7) by (auto simp: list_ex_iff)
  then obtain x where x: "exit_on_event slip ?s (sa_session_date a) (sa_allow_reverse a) (pp_stoploss_active ?s) e = Some x"
    using exit_on_event_None by (metis option.exhaust)
  have "process_session slip a d = close_with a x ?d"
    unfolding session using e x same by (simp add: continue_session_def first_exit_event_find)
  with close_with_succeeds [of ?d u x a] u d1 exit_on_event_Some(4) [OF x] assms(6)
  obtain r d' where "process_session slip a d = (Inr r, d')" "file_closed d'" "mg_event r = x" "mg_status r = me_status x"
    by (auto simp: close_with_def persist_result_def bindS_def Let_def split: prod.splits sum.splits)
  moreover have "effective_stop_price ?s = revised_stop s rc_high" by (simp add: effective_stop_price_def reset_position_def)
  ultimately show ?thesis using exit_on_event_status [OF x] \<open>stops ?s e\<close> by auto
qed

section \<open>Witnesses\<close>

definition demo_manager :: "position_state \<Rightarrow> manager_directory" where
  "demo_manager s = \<lparr>md_store = \<lparr>pd_path = ''s'', pd_state = Some s, pd_events = []\<rparr>, md_events = [], md_summary = None,
     md_ledgers = \<lparr>tr_session = [], tr_global = []\<rparr>\<rparr>"

definition minute_bar :: "int \<Rightarrow> int \<Rightarrow> price \<Rightarrow> selected_bar" where
  "minute_bar h m high = demo_bar\<lparr>sb_symbol := ''NIFTY24'', sb_high := Some high, sb_low := Some 120, sb_close := Some 130,
     sb_bar_start := at_time 738890 (clock_time h m 0), sb_bar_end := at_time 738890 (clock_time h m 59)\<rparr>"

definition demo_session_day :: "selected_event list \<Rightarrow> session_args" where
  "demo_session_day es = \<lparr>sa_now = 0, sa_session_date = 738890, sa_market_events = es,
     sa_evaluated_at = at_time 738890 (clock_time 9 30 0), sa_governance = None, sa_allow_reverse = False, sa_provenance = []\<rparr>"

definition demo_pending :: position_state where
  "demo_pending = demo_position_state\<lparr>pp_stoploss_active := False, pp_stoploss_reset_pending := True,
     pp_stoploss_reset_buffer_pct := Some 10, pp_stoploss_reset_orpt_time := Some (clock_time 9 24 59),
     pp_stoploss_reset_rc_time := Some (clock_time 9 29 0)\<rparr>"

lemmas demo_day_defs = demo_manager_def demo_session_day_def minute_bar_def demo_pending_def demo_position_state_def demo_bar_def
  clock_time_def at_time_def us_per_day_def time_of_def

lemma demo_read: "read_position (md_store (demo_manager demo_position_state)) = Inr demo_position_state"
  "read_position (md_store (demo_manager demo_pending)) = Inr demo_pending"
  by code_simp+

lemma demo_log: "log_readable (md_store (demo_manager s))"
  by (simp add: log_readable_iff demo_manager_def)

lemma demo_open: "\<not> paper_position_is_no_longer_open (PStatus (pp_lifecycle_status demo_position_state))"
  "\<not> paper_position_is_no_longer_open (PStatus (pp_lifecycle_status demo_pending))"
  by code_simp+

lemma position_closed_at_most_once_witness:
  "length (close_rows (manager_run 0 [demo_session_day [BarEvent (minute_bar 9 20 160)], demo_session_day []] (demo_manager demo_position_state))) \<le> 1"
  using position_closed_at_most_once [of "demo_manager demo_position_state" 0
    "[demo_session_day [BarEvent (minute_bar 9 20 160)], demo_session_day []]"]
  by (simp add: close_rows_def demo_manager_def)

lemma session_exits_at_first_breach_witness:
  "\<exists>r d'. process_session 1 (demo_session_day [BarEvent (minute_bar 9 20 160)]) (demo_manager demo_position_state) = (Inr r, d') \<and>
    file_closed d' \<and> me_exit_price (mg_event r) = Some 151 \<and>
    lr_gross_pnl (last (tr_session (md_ledgers d'))) = Some (- 3825)"
proof -
  let ?e = "BarEvent (minute_bar 9 20 160)"
  have e: "stops demo_position_state ?e" "own_events demo_position_state (sa_market_events (demo_session_day [?e])) = [?e]"
    by (simp_all add: stops_def own_events_def effective_stop_price_def demo_day_defs)
  have "exit_price_of 1 demo_position_state ?e = 151"
    using e(1) by (simp add: exit_price_of_def effective_stop_price_def demo_position_state_def)
  moreover have "\<not> asks_next_expiry (demo_session_day [?e]) demo_position_state" "decision_has_text (demo_session_day [?e]) demo_position_state"
    "\<not> pending_stoploss_reset demo_position_state (sa_session_date (demo_session_day [?e]))"
    "list_all (\<lambda>x. strip x \<noteq> []) (sa_provenance (demo_session_day [?e]))"
    by (simp_all add: pending_stoploss_reset_def asks_next_expiry_def decision_has_text_def session_decision_def demo_day_defs)
  ultimately show ?thesis
    using session_exits_at_first_breach [OF demo_read(1) demo_log demo_open(1), of "demo_session_day [?e]" 1] e
    by (fastforce simp: demo_position_state_def)
qed

lemma stoploss_reset_exits_on_earlier_bar_witness:
  "\<exists>r d'. process_session 0 (demo_session_day [BarEvent (minute_bar 9 15 160), BarEvent (minute_bar 9 29 140)]) (demo_manager demo_pending)
      = (Inr r, d') \<and> file_closed d' \<and> mg_status r = MS_STOPLOSS_HIT \<and> me_stop_price (mg_event r) = Some 154"
proof -
  let ?b = "minute_bar 9 15 160" and ?c = "minute_bar 9 29 140"
  let ?a = "demo_session_day [BarEvent ?b, BarEvent ?c]"
  have own: "set (own_events demo_pending (sa_market_events ?a)) = {BarEvent ?b, BarEvent ?c}"
    by (auto simp: own_events_def demo_day_defs)
  have high: "bar_high_for_minute demo_pending (sa_market_events ?a) (clock_time 9 15 0) = Some 160"
    "bar_high_for_minute demo_pending (sa_market_events ?a) (clock_time 9 29 0) = Some 140" by code_simp+
  have stop: "revised_stop demo_pending 140 = 154"
    by (simp add: revised_stop_def reset_buffer_pct_def demo_pending_def)
  have pending: "sa_governance ?a = None" "pending_stoploss_reset demo_pending (sa_session_date ?a)"
    "list_all (\<lambda>x. strip x \<noteq> []) (sa_provenance ?a)"
    by (simp_all add: pending_stoploss_reset_def demo_day_defs)
  have times: "pp_stoploss_reset_orpt_time demo_pending = Some (clock_time 9 24 59)"
    "pp_stoploss_reset_rc_time demo_pending = Some (clock_time 9 29 0)"
    "clock_time 9 24 59 \<le> time_of (sa_evaluated_at ?a)" "clock_time 9 29 0 \<le> time_of (sa_evaluated_at ?a)"
    by (simp_all add: demo_day_defs)
  have "\<not> list_ex (target_reached demo_pending) (own_events demo_pending (sa_market_events ?a))"
    unfolding list_ex_iff own by (simp add: demo_day_defs)
  moreover have "BarEvent ?b \<in> set (own_events demo_pending (sa_market_events ?a))" by (simp add: own)
  ultimately show ?thesis
    using stoploss_reset_exits_on_earlier_bar [OF demo_read(2) demo_log demo_open(2) pending _ times high(1) _ high(2), where b = ?b]
    by (simp add: stop stop_status_def) (simp add: demo_day_defs)
qed

end
