(* ===== verification/ContractSelection.thy ===== *)
theory ContractSelection
  imports NormalizedEvents Calendar "HOL-Library.Char_ord" "HOL-Library.List_Lexorder"
begin

text \<open>
  \<^verbatim>\<open>src/tfis/paper/contract_selection.py\<close>: the option contract a session trades. Each contract
  of the chain passes a chain of filters or is counted under the reason it fails; the rest is
  searched from the start strike to the end strike, for the ideal premium first and the minimum
  premium second; the expiries of a request are tried in order. Fields of the request carry the
  prefix \<open>cr_\<close>, of the result \<open>cs_\<close>, of the loop over the chain \<open>sn_\<close>.
\<close>

section \<open>Request and result\<close>

datatype selection_failure =
    OPTION_CHAIN_MISSING | NO_CONTRACT_IN_STRIKE_RANGE | MISSING_CONTRACT_OI | MINIMUM_OI_NOT_MET
  | MINIMUM_PREMIUM_NOT_MET | NO_CONTRACT_SELECTED

record selection_request =
  cr_underlying_symbol :: string
  cr_expiry_date :: date
  cr_option_type :: "option_type option"
  cr_start_strike :: price
  cr_end_strike :: price
  cr_ideal_premium :: price
  cr_minimum_premium :: price
  cr_minimum_oi :: price
  cr_fallback_expiry_dates :: "date list"

definition require_plan_price :: "string \<Rightarrow> price option \<Rightarrow> price res" where
  "require_plan_price name v = (case v of Some x \<Rightarrow> Inr x
     | None \<Rightarrow> Inl (ValueError [Txt (''trade_plan.'' @ name @ '' is required for contract selection'')]))"

definition request_from_strategy ::
  "strategy_rule \<Rightarrow> trade_plan_event \<Rightarrow> date \<Rightarrow> string option \<Rightarrow> selection_request res" where
  "request_from_strategy rule plan expiry underlying =
     bindE (require_plan_price ''start_strike'' (te_start_strike plan)) (\<lambda>start.
     bindE (require_plan_price ''end_strike'' (te_end_strike plan)) (\<lambda>stop.
     bindE (require_plan_price ''ideal_premium'' (te_ideal_premium plan)) (\<lambda>ideal.
     bindE (require_plan_price ''minimum_premium'' (te_minimum_premium plan)) (\<lambda>minimum.
     Inr \<lparr>cr_underlying_symbol = text_or underlying (sr_symbol rule), cr_expiry_date = expiry,
       cr_option_type = sr_option_type rule, cr_start_strike = start, cr_end_strike = stop,
       cr_ideal_premium = ideal, cr_minimum_premium = minimum, cr_minimum_oi = of_int (sr_minimum_oi rule),
       cr_fallback_expiry_dates = []\<rparr>))))"

definition strike_lower_bound :: "selection_request \<Rightarrow> price" where
  "strike_lower_bound r = min (cr_start_strike r) (cr_end_strike r)"

definition strike_upper_bound :: "selection_request \<Rightarrow> price" where
  "strike_upper_bound r = max (cr_start_strike r) (cr_end_strike r)"

record selection_ranking =
  rk_premium_distance :: price
  rk_oi_used :: price
  rk_tie_break_strike :: price
  rk_tie_break_symbol :: string

record selection_result =
  cs_selected :: bool
  cs_failure_code :: "selection_failure option"
  cs_selection_reason :: string
  cs_selected_contract_symbol :: "string option"
  cs_expiry_date :: "date option"
  cs_strike :: "price option"
  cs_option_type :: "option_type option"
  cs_premium_used :: "price option"
  cs_oi_used :: "price option"
  cs_ranked_candidate_count :: nat
  cs_rejected_candidate_counts :: "(string, nat) dict"
  cs_ranking :: "selection_ranking option"
  cs_selected_contract :: "option_contract option"
  cs_attempted_expiries :: "date list"

section \<open>The filters\<close>

definition count_of :: "('k, nat) dict \<Rightarrow> 'k \<Rightarrow> nat" where
  "count_of d k = (case map_of d k of None \<Rightarrow> 0 | Some n \<Rightarrow> n)"

definition add_count :: "'k \<Rightarrow> nat \<Rightarrow> ('k, nat) dict \<Rightarrow> ('k, nat) dict" where
  "add_count k n d = AList.update k (count_of d k + n) d"

definition bump :: "string \<Rightarrow> (string, nat) dict \<Rightarrow> (string, nat) dict" where
  "bump reason rejected = add_count reason 1 rejected"

record chain_scan =
  sn_rejected :: "(string, nat) dict"
  sn_strike_filtered :: bool
  sn_missing_oi_seen :: bool
  sn_minimum_oi_failure :: bool
  sn_minimum_premium_failure :: bool
  sn_candidates :: "option_contract list"

definition initial_scan :: chain_scan where
  "initial_scan = \<lparr>sn_rejected = [], sn_strike_filtered = False, sn_missing_oi_seen = False,
     sn_minimum_oi_failure = False, sn_minimum_premium_failure = False, sn_candidates = []\<rparr>"

definition reject :: "string \<Rightarrow> chain_scan \<Rightarrow> chain_scan" where
  "reject reason s = s\<lparr>sn_rejected := bump reason (sn_rejected s)\<rparr>"

definition scan_contract :: "selection_request \<Rightarrow> option_chain \<Rightarrow> date \<Rightarrow> option_contract \<Rightarrow> chain_scan \<Rightarrow> chain_scan" where
  "scan_contract r ch expiry c s =
     (if ch_underlying_symbol ch \<noteq> cr_underlying_symbol r then reject ''underlying_mismatch'' s
      else if oc_expiry c \<noteq> Some expiry then reject ''expiry_mismatch'' s
      else if oc_option_type c \<noteq> cr_option_type r then reject ''option_type_mismatch'' s
      else case oc_strike c of None \<Rightarrow> reject ''missing_strike'' s
      | Some k \<Rightarrow>
        if \<not> (strike_lower_bound r \<le> k \<and> k \<le> strike_upper_bound r)
        then reject ''strike_out_of_range'' (s\<lparr>sn_strike_filtered := True\<rparr>)
        else case oc_ltp c of None \<Rightarrow> reject ''missing_premium'' s
        | Some p \<Rightarrow>
          if p < cr_minimum_premium r then reject ''minimum_premium_not_met'' (s\<lparr>sn_minimum_premium_failure := True\<rparr>)
          else case oc_oi c of None \<Rightarrow> reject ''missing_oi'' (s\<lparr>sn_missing_oi_seen := True\<rparr>)
          | Some q \<Rightarrow>
            if q < cr_minimum_oi r then reject ''minimum_oi_not_met'' (s\<lparr>sn_minimum_oi_failure := True\<rparr>)
            else s\<lparr>sn_candidates := sn_candidates s @ [c]\<rparr>)"

definition scan_chain :: "selection_request \<Rightarrow> option_chain \<Rightarrow> date \<Rightarrow> chain_scan" where
  "scan_chain r ch expiry = fold (scan_contract r ch expiry) (ch_contracts ch) initial_scan"

section \<open>The selection\<close>

text \<open>\<^verbatim>\<open>_failure\<close>: \<^verbatim>\<open>dict(sorted(items))\<close> orders the counts by reason.\<close>

definition selection_failed ::
  "selection_failure \<Rightarrow> string \<Rightarrow> (string, nat) dict \<Rightarrow> date list \<Rightarrow> selection_result" where
  "selection_failed code reason rejected attempted =
     \<lparr>cs_selected = False, cs_failure_code = Some code, cs_selection_reason = reason,
      cs_selected_contract_symbol = None, cs_expiry_date = None, cs_strike = None, cs_option_type = None,
      cs_premium_used = None, cs_oi_used = None, cs_ranked_candidate_count = 0,
      cs_rejected_candidate_counts = sort_key fst rejected, cs_ranking = None, cs_selected_contract = None,
      cs_attempted_expiries = attempted\<rparr>"

definition no_candidate :: "chain_scan \<Rightarrow> selection_result" where
  "no_candidate s =
     (if sn_missing_oi_seen s then selection_failed MISSING_CONTRACT_OI
        ''Option-chain candidates in the strike range are missing OI.'' (sn_rejected s) []
      else if sn_minimum_oi_failure s then selection_failed MINIMUM_OI_NOT_MET
        ''Option-chain candidates in the strike range do not meet minimum OI.'' (sn_rejected s) []
      else if sn_minimum_premium_failure s then selection_failed MINIMUM_PREMIUM_NOT_MET
        ''Option-chain candidates in the strike range do not meet minimum premium.'' (sn_rejected s) []
      else if sn_strike_filtered s then selection_failed NO_CONTRACT_IN_STRIKE_RANGE
        ''No option-chain contracts fall inside the requested strike range.'' (sn_rejected s) []
      else selection_failed NO_CONTRACT_SELECTED
        ''No option-chain contract satisfied the runtime selection filters.'' (sn_rejected s) [])"

definition strike_key :: "option_contract \<Rightarrow> price" where
  "strike_key c = (case oc_strike c of None \<Rightarrow> 0 | Some k \<Rightarrow> k)"

definition ordered_by_search_direction :: "option_contract list \<Rightarrow> price \<Rightarrow> price \<Rightarrow> option_contract list" where
  "ordered_by_search_direction cs start stop =
     (if start > stop then sort_descending strike_key cs else sort_key strike_key cs)"

text \<open>\<^verbatim>\<open>contract.ltp >= bound\<close>; the candidates all have a premium.\<close>

definition premium_at_least :: "price \<Rightarrow> option_contract \<Rightarrow> bool" where
  "premium_at_least bound c = (case oc_ltp c of None \<Rightarrow> False | Some p \<Rightarrow> p \<ge> bound)"

definition pick :: "selection_request \<Rightarrow> option_contract list \<Rightarrow> option_contract \<times> string" where
  "pick r order = (case find (premium_at_least (cr_ideal_premium r)) order of
       Some c \<Rightarrow> (c, ''Selected first strike meeting ideal premium in rule-sheet search order.'')
     | None \<Rightarrow> (the (find (premium_at_least (cr_minimum_premium r)) order),
         ''Selected first strike meeting minimum premium in rule-sheet search order.''))"

definition or_zero :: "price option \<Rightarrow> price" where
  "or_zero x = (case x of None \<Rightarrow> 0 | Some v \<Rightarrow> v)"

definition select_for_expiry :: "selection_request \<Rightarrow> option_chain \<Rightarrow> date \<Rightarrow> selection_result" where
  "select_for_expiry r ch expiry =
     (let s = scan_chain r ch expiry in
      if sn_candidates s = [] then no_candidate s
      else let (c, reason) = pick r (ordered_by_search_direction (sn_candidates s) (cr_start_strike r) (cr_end_strike r)) in
       \<lparr>cs_selected = True, cs_failure_code = None, cs_selection_reason = reason,
        cs_selected_contract_symbol = Some (oc_symbol c), cs_expiry_date = oc_expiry c, cs_strike = oc_strike c,
        cs_option_type = oc_option_type c, cs_premium_used = oc_ltp c, cs_oi_used = oc_oi c,
        cs_ranked_candidate_count = length (sn_candidates s), cs_rejected_candidate_counts = sn_rejected s,
        cs_ranking = Some \<lparr>rk_premium_distance = \<bar>or_zero (oc_ltp c) - cr_ideal_premium r\<bar>, rk_oi_used = or_zero (oc_oi c),
          rk_tie_break_strike = or_zero (oc_strike c), rk_tie_break_symbol = oc_symbol c\<rparr>,
        cs_selected_contract = Some c, cs_attempted_expiries = [expiry]\<rparr>)"

definition expiry_search_order :: "selection_request \<Rightarrow> date list" where
  "expiry_search_order r =
     fold (\<lambda>e ordered. if e \<in> set ordered then ordered else ordered @ [e]) (cr_expiry_date r # cr_fallback_expiry_dates r) []"

definition selected_at :: "date list \<Rightarrow> date \<Rightarrow> selection_result \<Rightarrow> selection_result" where
  "selected_at expiries expiry result =
     (if expiry \<noteq> hd expiries
      then result\<lparr>cs_attempted_expiries := expiries, cs_selection_reason := cs_selection_reason result @
         '' Near expiry '' @ isoformat_date (hd expiries) @ '' failed; '' @
         ''selected fallback expiry '' @ isoformat_date expiry @ ''.''\<rparr>
      else result\<lparr>cs_attempted_expiries := expiries\<rparr>)"

definition merge_counts :: "selection_result list \<Rightarrow> (string, nat) dict" where
  "merge_counts results = fold (\<lambda>result merged. fold (\<lambda>(reason, n) m. add_count reason n m)
     (cs_rejected_candidate_counts result) merged) results []"

definition failure_code_or_none_selected :: "selection_result \<Rightarrow> selection_failure" where
  "failure_code_or_none_selected result =
     (case cs_failure_code result of None \<Rightarrow> NO_CONTRACT_SELECTED | Some code \<Rightarrow> code)"

fun join_reasons :: "string list \<Rightarrow> string" where
  "join_reasons [] = []"
| "join_reasons [x] = x"
| "join_reasons (x # y # xs) = x @ ''; '' @ join_reasons (y # xs)"

definition all_failed :: "date list \<Rightarrow> selection_result list \<Rightarrow> selection_result" where
  "all_failed expiries results =
     (if length results = 1
      then let failed = hd results in selection_failed (failure_code_or_none_selected failed) (cs_selection_reason failed)
        (cs_rejected_candidate_counts failed) expiries
      else selection_failed (failure_code_or_none_selected (last results))
        (join_reasons (map cs_selection_reason results)) (merge_counts results) expiries)"

text \<open>The loop over the expiries, with the results that failed so far.\<close>

fun try_expiries ::
  "selection_request \<Rightarrow> option_chain \<Rightarrow> date list \<Rightarrow> selection_result list \<Rightarrow> date list \<Rightarrow> selection_result" where
  "try_expiries r ch expiries failed [] = all_failed expiries failed"
| "try_expiries r ch expiries failed (e # es) =
     (let result = select_for_expiry r ch e in
      if cs_selected result then selected_at expiries e result
      else try_expiries r ch expiries (failed @ [result]) es)"

definition select_contract :: "selection_request \<Rightarrow> option_chain option \<Rightarrow> selection_result" where
  "select_contract r snapshot =
     (case snapshot of
        None \<Rightarrow> selection_failed OPTION_CHAIN_MISSING ''Runtime selection requires a non-empty normalized option chain.'' [] []
      | Some ch \<Rightarrow>
          if ch_contracts ch = []
          then selection_failed OPTION_CHAIN_MISSING ''Runtime selection requires a non-empty normalized option chain.'' [] []
          else try_expiries r ch (expiry_search_order r) [] (expiry_search_order r))"

section \<open>What a candidate is\<close>

definition eligible :: "selection_request \<Rightarrow> option_chain \<Rightarrow> date \<Rightarrow> option_contract \<Rightarrow> bool" where
  "eligible r ch expiry c \<longleftrightarrow>
     ch_underlying_symbol ch = cr_underlying_symbol r \<and> oc_expiry c = Some expiry \<and> oc_option_type c = cr_option_type r \<and>
     (case oc_strike c of None \<Rightarrow> False | Some k \<Rightarrow> strike_lower_bound r \<le> k \<and> k \<le> strike_upper_bound r) \<and>
     premium_at_least (cr_minimum_premium r) c \<and>
     (case oc_oi c of None \<Rightarrow> False | Some q \<Rightarrow> cr_minimum_oi r \<le> q)"

definition total :: "('k, nat) dict \<Rightarrow> nat" where
  "total d = sum_list (map snd d)"

lemma total_simps [simp]: "total [] = 0" "total (x # d) = snd x + total d"
  by (simp_all add: total_def)

lemma total_add_count [simp]: "total (add_count k n d) = total d + n"
proof -
  have "total (AList.update k (count_of d k + n) d) = total d + n"
  proof (induction d)
    case (Cons x d)
    then show ?case by (cases x) (simp add: count_of_def)
  qed (simp add: count_of_def)
  then show ?thesis by (simp add: add_count_def)
qed

lemma total_sort [simp]: "total (sort_key f d) = total d"
proof -
  have "total (insort_key f x d) = snd x + total d" for x and d :: "('a, nat) dict"
    by (induction d) simp_all
  then show ?thesis by (induction d) simp_all
qed

lemma scan_contract_eligible:
  "eligible r ch e c \<Longrightarrow> scan_contract r ch e c s = s\<lparr>sn_candidates := sn_candidates s @ [c]\<rparr>"
  by (auto simp: eligible_def scan_contract_def premium_at_least_def split: option.splits)

lemma scan_contract_rejected:
  "\<not> eligible r ch e c \<Longrightarrow> sn_candidates (scan_contract r ch e c s) = sn_candidates s \<and>
     total (sn_rejected (scan_contract r ch e c s)) = Suc (total (sn_rejected s))"
  by (auto simp: eligible_def scan_contract_def premium_at_least_def reject_def bump_def split: option.splits)

lemma scan_contracts:
  "sn_candidates (fold (scan_contract r ch e) cs s) = sn_candidates s @ filter (eligible r ch e) cs \<and>
   total (sn_rejected (fold (scan_contract r ch e) cs s)) + length (filter (eligible r ch e) cs) =
     total (sn_rejected s) + length cs"
proof (induction cs arbitrary: s)
  case (Cons c cs)
  then show ?case
    by (cases "eligible r ch e c") (auto simp: scan_contract_eligible scan_contract_rejected)
qed simp

lemma scan_chain_candidates [simp]: "sn_candidates (scan_chain r ch e) = filter (eligible r ch e) (ch_contracts ch)"
  using scan_contracts [of r ch e "ch_contracts ch" initial_scan] by (simp add: scan_chain_def initial_scan_def)

lemma scan_chain_total:
  "total (sn_rejected (scan_chain r ch e)) + length (filter (eligible r ch e) (ch_contracts ch)) = length (ch_contracts ch)"
  using scan_contracts [of r ch e "ch_contracts ch" initial_scan]
  by (simp add: scan_chain_def initial_scan_def)

section \<open>The search order\<close>

definition meets_ideal :: "selection_request \<Rightarrow> option_contract \<Rightarrow> bool" where
  "meets_ideal r c = premium_at_least (cr_ideal_premium r) c"

definition precedes :: "selection_request \<Rightarrow> option_contract \<Rightarrow> option_contract \<Rightarrow> bool" where
  "precedes r c d \<longleftrightarrow> (if cr_start_strike r > cr_end_strike r then strike_key c > strike_key d else strike_key c < strike_key d)"

text \<open>A contract outranks another: it meets the ideal premium alone, or the search meets it first.\<close>

definition outranks :: "selection_request \<Rightarrow> option_contract \<Rightarrow> option_contract \<Rightarrow> bool" where
  "outranks r c d \<longleftrightarrow> meets_ideal r c \<and> \<not> meets_ideal r d \<or> meets_ideal r c = meets_ideal r d \<and> precedes r c d"

lemma find_first_key:
  fixes key :: "'a \<Rightarrow> 'k::linorder"
  shows "sorted (map key xs) \<Longrightarrow> find P xs = Some x \<Longrightarrow> y \<in> set xs \<Longrightarrow> P y \<Longrightarrow> key x \<le> key y"
    and "sorted (rev (map key xs)) \<Longrightarrow> find P xs = Some x \<Longrightarrow> y \<in> set xs \<Longrightarrow> P y \<Longrightarrow> key y \<le> key x"
  by (induction xs) (auto simp: sorted_append split: if_splits)

lemma find_in_search_order:
  assumes "find P (ordered_by_search_direction cs (cr_start_strike r) (cr_end_strike r)) = Some c" and "d \<in> set cs" and "P d"
  shows "\<not> precedes r d c"
  using assms find_first_key(1) [of strike_key "sort_key strike_key cs" P c d]
    find_first_key(2) [of strike_key "sort_descending strike_key cs" P c d] sorted_sort_descending [of strike_key cs]
  by (auto simp: ordered_by_search_direction_def precedes_def not_less split: if_splits)

lemma set_search_order [simp]: "set (ordered_by_search_direction cs a b) = set cs"
  by (simp add: ordered_by_search_direction_def)

lemma pick_outranked:
  assumes "cs \<noteq> []" and "\<And>d. d \<in> set cs \<Longrightarrow> premium_at_least (cr_minimum_premium r) d"
    and "pick r (ordered_by_search_direction cs (cr_start_strike r) (cr_end_strike r)) = (c, reason)"
  shows "c \<in> set cs" and "\<forall>d \<in> set cs. \<not> outranks r d c"
proof -
  let ?o = "ordered_by_search_direction cs (cr_start_strike r) (cr_end_strike r)"
  have "c \<in> set cs \<and> (\<forall>d \<in> set cs. \<not> outranks r d c)"
  proof (cases "find (meets_ideal r) ?o")
    case (Some x)
    then have x: "find (premium_at_least (cr_ideal_premium r)) ?o = Some x" by (simp add: meets_ideal_def [abs_def])
    with assms(3) have "x = c" by (simp add: pick_def)
    with Some find_in_search_order [OF Some] find_SomeD [OF Some] show ?thesis by (auto simp: outranks_def)
  next
    case None
    then have none: "\<forall>d \<in> set cs. \<not> meets_ideal r d" by (auto simp: find_None_iff)
    from assms(1,2) have "find (premium_at_least (cr_minimum_premium r)) ?o \<noteq> None" by (auto simp: find_None_iff neq_Nil_conv)
    then obtain x where x: "find (premium_at_least (cr_minimum_premium r)) ?o = Some x" by blast
    with assms(3) None have "x = c" by (simp add: pick_def meets_ideal_def [abs_def])
    with x find_in_search_order [OF x] find_SomeD [OF x] none assms(2) show ?thesis by (auto simp: outranks_def)
  qed
  then show "c \<in> set cs" and "\<forall>d \<in> set cs. \<not> outranks r d c" by blast+
qed

section \<open>The expiries\<close>

lemma no_candidate_result [simp]:
  "\<not> cs_selected (no_candidate s)" "cs_failure_code (no_candidate s) \<noteq> None" "cs_ranked_candidate_count (no_candidate s) = 0"
  "total (cs_rejected_candidate_counts (no_candidate s)) = total (sn_rejected s)"
  by (simp_all add: no_candidate_def selection_failed_def)

lemma select_for_expiry_selected:
  "cs_selected (select_for_expiry r ch e) \<longleftrightarrow> list_ex (eligible r ch e) (ch_contracts ch)"
  by (auto simp: select_for_expiry_def Let_def list_ex_iff filter_empty_conv split: prod.splits)

lemma select_for_expiry_total:
  "total (cs_rejected_candidate_counts (select_for_expiry r ch e)) + cs_ranked_candidate_count (select_for_expiry r ch e)
     = length (ch_contracts ch)"
  using scan_chain_total [of r ch e] by (auto simp: select_for_expiry_def Let_def split: prod.splits)

definition is_best :: "selection_request \<Rightarrow> option_chain \<Rightarrow> date \<Rightarrow> option_contract \<Rightarrow> bool" where
  "is_best r ch e c \<longleftrightarrow> c \<in> set (ch_contracts ch) \<and> eligible r ch e c \<and>
     list_all (\<lambda>d. \<not> outranks r d c) (filter (eligible r ch e) (ch_contracts ch))"

lemma select_for_expiry_best:
  assumes "list_ex (eligible r ch e) (ch_contracts ch)"
  shows "\<exists>c. cs_selected_contract (select_for_expiry r ch e) = Some c \<and>
    cs_expiry_date (select_for_expiry r ch e) = Some e \<and> is_best r ch e c"
proof -
  let ?cs = "filter (eligible r ch e) (ch_contracts ch)"
  from assms have ne: "?cs \<noteq> []" by (simp add: filter_empty_conv list_ex_iff)
  obtain c reason where p: "pick r (ordered_by_search_direction ?cs (cr_start_strike r) (cr_end_strike r)) = (c, reason)"
    by (cases "pick r (ordered_by_search_direction ?cs (cr_start_strike r) (cr_end_strike r))")
  have "premium_at_least (cr_minimum_premium r) d" if "d \<in> set ?cs" for d using that by (simp add: eligible_def)
  from pick_outranked [OF ne this p] have "is_best r ch e c" by (auto simp: is_best_def list_all_iff)
  with ne p show ?thesis by (auto simp: select_for_expiry_def Let_def eligible_def is_best_def)
qed

lemma selected_at_fields [simp]:
  "cs_selected (selected_at es e x) = cs_selected x" "cs_selected_contract (selected_at es e x) = cs_selected_contract x"
  "cs_expiry_date (selected_at es e x) = cs_expiry_date x"
  by (simp_all add: selected_at_def)

lemma all_failed_result [simp]: "\<not> cs_selected (all_failed es xs)" "cs_failure_code (all_failed es xs) \<noteq> None"
  "cs_attempted_expiries (all_failed es xs) = es"
  by (simp_all add: all_failed_def selection_failed_def Let_def)

lemma total_merge: "total (fold (\<lambda>(reason, n) m. add_count reason n m) xs m) = total m + total xs"
  by (induction xs arbitrary: m) auto

lemma total_merge_counts: "total (merge_counts results) = sum_list (map (total \<circ> cs_rejected_candidate_counts) results)"
proof -
  have "total (fold (\<lambda>result merged. fold (\<lambda>(reason, n) m. add_count reason n m) (cs_rejected_candidate_counts result) merged) results m)
      = total m + sum_list (map (total \<circ> cs_rejected_candidate_counts) results)" for m
    by (induction results arbitrary: m) (simp_all add: total_merge)
  from this [of "[]"] show ?thesis by (simp add: merge_counts_def)
qed

lemma all_failed_total:
  "total (cs_rejected_candidate_counts (all_failed es xs)) = sum_list (map (total \<circ> cs_rejected_candidate_counts) xs)"
  by (cases xs) (auto simp: all_failed_def selection_failed_def Let_def total_merge_counts length_Suc_conv)

lemma try_expiries_none:
  "find (\<lambda>e. list_ex (eligible r ch e) (ch_contracts ch)) es = None \<Longrightarrow>
   try_expiries r ch expiries failed es = all_failed expiries (failed @ map (select_for_expiry r ch) es)"
  by (induction es arbitrary: failed) (auto simp: select_for_expiry_selected split: if_splits)

lemma try_expiries_some:
  "find (\<lambda>e. list_ex (eligible r ch e) (ch_contracts ch)) es = Some e \<Longrightarrow>
   try_expiries r ch expiries failed es = selected_at expiries e (select_for_expiry r ch e)"
  by (induction es arbitrary: failed) (auto simp: select_for_expiry_selected split: if_splits)

lemma find_const_False [simp]: "find (\<lambda>_. False) xs = None"
  by (simp add: find_None_iff)

section \<open>Properties\<close>

text \<open>
  C17: the selector takes the first expiry of the request, in order and without repetitions, at
  which the chain has an eligible contract, and there a contract no other eligible one outranks:
  one that meets the ideal premium before one that does not, then the first from the start strike
  to the end strike. It fails with a failure code exactly when no expiry has an eligible contract.
\<close>
theorem selection_is_first_in_search_order:
  shows "case find (\<lambda>e. list_ex (eligible r ch e) (ch_contracts ch)) (expiry_search_order r) of
      Some e \<Rightarrow> cs_selected (select_contract r (Some ch)) \<and> cs_expiry_date (select_contract r (Some ch)) = Some e \<and>
        (\<exists>c. cs_selected_contract (select_contract r (Some ch)) = Some c \<and> is_best r ch e c)
    | None \<Rightarrow> \<not> cs_selected (select_contract r (Some ch)) \<and> cs_failure_code (select_contract r (Some ch)) \<noteq> None"
proof (cases "find (\<lambda>e. list_ex (eligible r ch e) (ch_contracts ch)) (expiry_search_order r)")
  case None
  then show ?thesis
    by (simp add: select_contract_def try_expiries_none del: not_None_eq) (simp add: selection_failed_def)
next
  case (Some e)
  then have some: "list_ex (eligible r ch e) (ch_contracts ch)" by (auto dest: find_SomeD)
  then have "ch_contracts ch \<noteq> []" by auto
  with Some have "select_contract r (Some ch) = selected_at (expiry_search_order r) e (select_for_expiry r ch e)"
    by (simp add: select_contract_def try_expiries_some)
  with Some some select_for_expiry_best [OF some] show ?thesis by (auto simp: select_for_expiry_selected)
qed

text \<open>
  No contract is lost: at one expiry the rejected contracts, counted by reason, and the
  ranked candidates add up to the chain, and a request that fails at every expiry reports each
  contract once per expiry tried.
\<close>
theorem rejections_account_for_chain:
  shows "total (cs_rejected_candidate_counts (select_for_expiry r ch e)) + cs_ranked_candidate_count (select_for_expiry r ch e)
      = length (ch_contracts ch) \<and>
    (cs_selected (select_contract r (Some ch)) \<or>
      total (cs_rejected_candidate_counts (select_contract r (Some ch))) =
        length (cs_attempted_expiries (select_contract r (Some ch))) * length (ch_contracts ch))"
proof (cases "find (\<lambda>e. list_ex (eligible r ch e) (ch_contracts ch)) (expiry_search_order r)")
  case None
  let ?es = "expiry_search_order r"
  have "total (cs_rejected_candidate_counts (select_for_expiry r ch x)) = length (ch_contracts ch)" if "x \<in> set ?es" for x
  proof -
    from None that have "\<not> list_ex (eligible r ch x) (ch_contracts ch)" by (auto simp: find_None_iff)
    then have "filter (eligible r ch x) (ch_contracts ch) = []" by (simp add: filter_empty_conv list_ex_iff)
    then show ?thesis using select_for_expiry_total [of r ch x] by (simp add: select_for_expiry_def)
  qed
  then have "sum_list (map (total \<circ> cs_rejected_candidate_counts) (map (select_for_expiry r ch) ?es)) =
      sum_list (map (\<lambda>_. length (ch_contracts ch)) ?es)"
    unfolding map_map by (intro arg_cong [where f = sum_list] map_cong) auto
  then have "total (cs_rejected_candidate_counts (all_failed ?es (map (select_for_expiry r ch) ?es))) =
      length ?es * length (ch_contracts ch)"
    unfolding all_failed_total by (simp add: sum_list_triv)
  with None show ?thesis
    by (simp add: select_contract_def try_expiries_none select_for_expiry_total) (simp add: selection_failed_def)
next
  case (Some e')
  then have some: "list_ex (eligible r ch e') (ch_contracts ch)" by (auto dest: find_SomeD)
  then have "ch_contracts ch \<noteq> []" by auto
  with Some some show ?thesis
    by (simp add: select_contract_def try_expiries_some select_for_expiry_selected select_for_expiry_total)
qed

end
