(* ===== verification/MonthlyStatus.thy ===== *)
theory MonthlyStatus
  imports Domain
begin

text \<open>
  The monthly market status: \<^verbatim>\<open>thresholds.py\<close>, \<^verbatim>\<open>decision_table.py\<close> and \<^verbatim>\<open>status_engine.py\<close>
  of \<^verbatim>\<open>src/tfis/monthly_status\<close>. The engine's table of thresholds, which the code reads from a
  YAML file, is the argument \<open>ts\<close>. Fields of the thresholds carry the prefix \<open>mt_\<close>, of the
  reference levels \<open>rl_\<close>, of a candidate row \<open>dc_\<close>, of a result \<open>ms_\<close>.
\<close>

section \<open>Thresholds and reference levels\<close>

record status_thresholds =
  mt_instrument_group :: string
  mt_a_pct :: price
  mt_b_pct :: price
  mt_c_pct :: price

definition mk_status_thresholds :: "status_thresholds \<Rightarrow> status_thresholds res" where
  "mk_status_thresholds t =
     (if strip (mt_instrument_group t) = [] then Inl (ValueError [Txt ''instrument_group must be a non-empty string''])
      else if mt_a_pct t < 0 then Inl (ValueError [Txt ''a_pct must be non-negative''])
      else if mt_b_pct t < 0 then Inl (ValueError [Txt ''b_pct must be non-negative''])
      else if mt_c_pct t < 0 then Inl (ValueError [Txt ''c_pct must be non-negative''])
      else Inr t)"

record reference_levels =
  rl_PMH :: price
  rl_PML :: price
  rl_CMH :: price
  rl_CML :: price
  rl_PWH :: price
  rl_PWL :: price
  rl_CWH :: price
  rl_CWL :: price
  rl_current_price :: price

definition pct_above :: "price \<Rightarrow> price \<Rightarrow> price" where
  "pct_above base pct = base * (1 + pct / 100)"

definition pct_below :: "price \<Rightarrow> price \<Rightarrow> price" where
  "pct_below base pct = base * (1 - pct / 100)"

section \<open>The decision table\<close>

record decision_candidate =
  dc_candidate_status :: monthly_status
  dc_trigger_name :: string
  dc_threshold_value :: "price option"
  dc_condition_met :: "bool option"
  dc_confidence :: string
  dc_notes :: string

definition mk_candidate :: "decision_candidate \<Rightarrow> decision_candidate res" where
  "mk_candidate c =
     (if dc_candidate_status c = UNKNOWN
      then Inl (ValueError [Txt ''candidate_status must be a directional monthly status''])
      else if dc_confidence c \<notin> {''HIGH'', ''MEDIUM'', ''LOW''}
      then Inl (ValueError [Txt ''confidence must be one of HIGH, MEDIUM, or LOW''])
      else if strip (dc_trigger_name c) = [] then Inl (ValueError [Txt ''trigger_name must be a non-empty string''])
      else Inr c)"

definition candidate ::
  "monthly_status \<Rightarrow> string \<Rightarrow> price \<Rightarrow> bool \<Rightarrow> string \<Rightarrow> string \<Rightarrow> decision_candidate" where
  "candidate s trigger threshold met confidence note =
     \<lparr>dc_candidate_status = s, dc_trigger_name = trigger, dc_threshold_value = Some threshold,
      dc_condition_met = Some met, dc_confidence = confidence, dc_notes = note\<rparr>"

text \<open>\<^verbatim>\<open>_build_cf_candidate\<close>; the direction is a Boolean (\<open>True\<close> for above).\<close>

definition cf_candidate ::
  "monthly_status \<Rightarrow> string \<Rightarrow> price \<Rightarrow> price option \<Rightarrow> price \<Rightarrow> bool \<Rightarrow> string \<Rightarrow> string \<Rightarrow> decision_candidate" where
  "cf_candidate s trigger current base pct upward resolved missing =
     (case base of
        None \<Rightarrow> \<lparr>dc_candidate_status = s, dc_trigger_name = trigger, dc_threshold_value = None,
          dc_condition_met = None, dc_confidence = ''LOW'', dc_notes = missing\<rparr>
      | Some b \<Rightarrow> if upward
          then candidate s trigger (pct_above b pct) (current \<ge> pct_above b pct) ''MEDIUM'' resolved
          else candidate s trigger (pct_below b pct) (current \<le> pct_below b pct) ''MEDIUM'' resolved)"

type_synonym threshold_table = "(string, status_thresholds) dict"

definition thresholds_for :: "threshold_table \<Rightarrow> string \<Rightarrow> status_thresholds res" where
  "thresholds_for ts g = (case map_of ts g of Some t \<Rightarrow> Inr t
     | None \<Rightarrow> Inl (KeyError [Txt ''No monthly-status thresholds configured for instrument group: '', Txt g]))"

definition bull_threshold :: "status_thresholds \<Rightarrow> reference_levels \<Rightarrow> price" where
  "bull_threshold t l = pct_above (rl_PMH l) (mt_a_pct t)"

definition bear_threshold :: "status_thresholds \<Rightarrow> reference_levels \<Rightarrow> price" where
  "bear_threshold t l = pct_below (rl_PML l) (mt_a_pct t)"

definition bull_cf_threshold :: "status_thresholds \<Rightarrow> reference_levels \<Rightarrow> price" where
  "bull_cf_threshold t l = pct_above (bull_threshold t l) (mt_b_pct t)"

definition bear_cf_threshold :: "status_thresholds \<Rightarrow> reference_levels \<Rightarrow> price" where
  "bear_cf_threshold t l = pct_below (bear_threshold t l) (mt_b_pct t)"

definition reversal_bull_threshold :: "status_thresholds \<Rightarrow> reference_levels \<Rightarrow> price" where
  "reversal_bull_threshold t l = pct_above (max (rl_PWH l) (rl_CWH l)) (mt_c_pct t)"

definition reversal_bear_threshold :: "status_thresholds \<Rightarrow> reference_levels \<Rightarrow> price" where
  "reversal_bear_threshold t l = pct_below (min (rl_PWL l) (rl_CWL l)) (mt_c_pct t)"

definition build_candidates ::
  "threshold_table \<Rightarrow> string \<Rightarrow> reference_levels \<Rightarrow> price option \<Rightarrow> price option \<Rightarrow> decision_candidate list res" where
  "build_candidates ts g l bullish bearish =
     bindE (thresholds_for ts g) (\<lambda>t. let price = rl_current_price l in mapE mk_candidate
       [candidate BULL ''BULL_A_THRESHOLD'' (bull_threshold t l) (price \<ge> bull_threshold t l) ''HIGH''
          ''Diagnostic BULL candidate from PMH plus a-percent threshold.'',
        candidate BEAR ''BEAR_A_THRESHOLD'' (bear_threshold t l) (price \<le> bear_threshold t l) ''HIGH''
          ''Diagnostic BEAR candidate from PML minus a-percent threshold.'',
        cf_candidate BULL_CF ''BULL_CF_B_THRESHOLD'' price bullish (mt_b_pct t) True
          ''Diagnostic BULL_CF candidate from bullish reference plus b-percent threshold.''
          ''Bullish reference value is not available yet; BULL_CF remains unresolved until the future engine defines or provides it.'',
        cf_candidate BEAR_CF ''BEAR_CF_B_THRESHOLD'' price bearish (mt_b_pct t) False
          ''Diagnostic BEAR_CF candidate from bearish reference minus b-percent threshold.''
          ''Bearish reference value is not available yet; BEAR_CF remains unresolved until the future engine defines or provides it.'',
        candidate BULL ''REVERSAL_BULL_C_THRESHOLD'' (reversal_bull_threshold t l) (price \<ge> reversal_bull_threshold t l)
          ''MEDIUM'' ''Diagnostic reversal BULL candidate from MAX(PWH, CWH) plus c-percent threshold.'',
        candidate BEAR ''REVERSAL_BEAR_C_THRESHOLD'' (reversal_bear_threshold t l) (price \<le> reversal_bear_threshold t l)
          ''MEDIUM'' ''Diagnostic reversal BEAR candidate from MIN(PWL, CWL) minus c-percent threshold.''])"

section \<open>The engine\<close>

record status_result =
  ms_status :: monthly_status
  ms_trigger_name :: string
  ms_threshold_value :: "price option"
  ms_reversal_dominated :: bool
  ms_candidates :: "decision_candidate list"
  ms_notes :: string

definition classify_monthly_structure :: "threshold_table \<Rightarrow> string \<Rightarrow> reference_levels \<Rightarrow> status_result res" where
  "classify_monthly_structure ts g l =
     bindE (thresholds_for ts g) (\<lambda>t.
     bindE (build_candidates ts g l (Some (bull_threshold t l)) (Some (bear_threshold t l))) (\<lambda>cs.
     let bull_cf = rl_CMH l \<ge> bull_cf_threshold t l; bear_cf = rl_CML l \<le> bear_cf_threshold t l;
         bull = rl_CMH l \<ge> bull_threshold t l; bear = rl_CML l \<le> bear_threshold t l; price = rl_current_price l;
         result = (\<lambda>s trigger threshold note. Inr \<lparr>ms_status = s, ms_trigger_name = trigger,
           ms_threshold_value = threshold, ms_reversal_dominated = False, ms_candidates = cs, ms_notes = note\<rparr>) in
     if bull_cf \<and> \<not> bear_cf then result BULL_CF ''BULL_CF_B_THRESHOLD'' (Some (bull_cf_threshold t l))
       ''Current month high breached the bullish confirmation threshold derived from PMH plus a-percent and the second b-percent expansion.''
     else if bear_cf \<and> \<not> bull_cf then result BEAR_CF ''BEAR_CF_B_THRESHOLD'' (Some (bear_cf_threshold t l))
       ''Current month low breached the bearish confirmation threshold derived from PML minus a-percent and the second b-percent contraction.''
     else if bull \<and> \<not> bear then result BULL ''BULL_A_THRESHOLD'' (Some (bull_threshold t l))
       ''Current month high breached the bullish threshold derived from PMH plus a-percent.''
     else if bear \<and> \<not> bull then result BEAR ''BEAR_A_THRESHOLD'' (Some (bear_threshold t l))
       ''Current month low breached the bearish threshold derived from PML minus a-percent.''
     else if (bull_cf \<or> bear_cf \<or> bull \<or> bear) \<and> price \<ge> bull_threshold t l \<and> price > bear_threshold t l
     then result BULL ''AMBIGUOUS_MONTHLY_RANGE_BULL'' (Some (bull_threshold t l))
       ''Current month breached both bullish and bearish monthly ranges; current price sits above the bullish threshold, so the direct monthly structure is treated as bullish.''
     else if (bull_cf \<or> bear_cf \<or> bull \<or> bear) \<and> price \<le> bear_threshold t l \<and> price < bull_threshold t l
     then result BEAR ''AMBIGUOUS_MONTHLY_RANGE_BEAR'' (Some (bear_threshold t l))
       ''Current month breached both bullish and bearish monthly ranges; current price sits below the bearish threshold, so the direct monthly structure is treated as bearish.''
     else result UNKNOWN ''NO_MONTHLY_TRIGGER'' None
       ''Current month did not decisively breach the previous month's bullish or bearish monthly thresholds.''))"

definition classify :: "threshold_table \<Rightarrow> string \<Rightarrow> reference_levels \<Rightarrow> status_result res" where
  "classify ts g l = classify_monthly_structure ts g l"

text \<open>What the current price makes of an effective status: status, trigger, threshold, reversal, note.\<close>

fun transition ::
  "status_thresholds \<Rightarrow> reference_levels \<Rightarrow> monthly_status \<Rightarrow> monthly_status \<times> string \<times> price option \<times> bool \<times> string" where
  "transition t l UNKNOWN = (UNKNOWN, ''NO_EFFECTIVE_MONTHLY_STATUS'', None, False,
     ''Current month remained UNKNOWN and no historical monthly status could be borrowed.'')"
| "transition t l BULL =
     (if rl_current_price l \<le> reversal_bear_threshold t l then
        (BEAR, ''REVERSAL_BEAR_C_THRESHOLD'', Some (reversal_bear_threshold t l), True,
         ''Effective bullish monthly status reversed to bearish because current price broke below MIN(PWL, CWL) by c-percent.'')
      else if rl_current_price l \<ge> bull_cf_threshold t l then
        (BULL_CF, ''BULL_CF_B_THRESHOLD'', Some (bull_cf_threshold t l), False,
         ''Effective bullish monthly status advanced to bullish confirmed because current price crossed the bullish confirmation threshold.'')
      else (BULL, ''BULL_CONTINUES'', Some (bull_threshold t l), False, ''Effective bullish monthly status remains bullish.''))"
| "transition t l BULL_CF =
     (if rl_current_price l \<le> bear_threshold t l then
        (BEAR, ''BEAR_A_THRESHOLD'', Some (bear_threshold t l), True,
         ''Effective bullish confirmed monthly status reversed to bearish because current price fell below PML by a-percent.'')
      else (BULL_CF, ''BULL_CF_CONTINUES'', Some (bull_cf_threshold t l), False,
         ''Effective bullish confirmed monthly status remains bullish confirmed.''))"
| "transition t l BEAR =
     (if rl_current_price l \<ge> reversal_bull_threshold t l then
        (BULL, ''REVERSAL_BULL_C_THRESHOLD'', Some (reversal_bull_threshold t l), True,
         ''Effective bearish monthly status reversed to bullish because current price broke above MAX(PWH, CWH) by c-percent.'')
      else if rl_current_price l \<le> bear_cf_threshold t l then
        (BEAR_CF, ''BEAR_CF_B_THRESHOLD'', Some (bear_cf_threshold t l), False,
         ''Effective bearish monthly status advanced to bearish confirmed because current price crossed the bearish confirmation threshold.'')
      else (BEAR, ''BEAR_CONTINUES'', Some (bear_threshold t l), False, ''Effective bearish monthly status remains bearish.''))"
| "transition t l BEAR_CF =
     (if rl_current_price l \<ge> bull_threshold t l then
        (BULL, ''BULL_A_THRESHOLD'', Some (bull_threshold t l), True,
         ''Effective bearish confirmed monthly status reversed to bullish because current price rose above PMH by a-percent.'')
      else (BEAR_CF, ''BEAR_CF_CONTINUES'', Some (bear_cf_threshold t l), False,
         ''Effective bearish confirmed monthly status remains bearish confirmed.''))"

definition apply_transitions ::
  "threshold_table \<Rightarrow> string \<Rightarrow> reference_levels \<Rightarrow> monthly_status \<Rightarrow> status_result res" where
  "apply_transitions ts g l effective =
     bindE (thresholds_for ts g) (\<lambda>t.
     bindE (build_candidates ts g l (Some (bull_threshold t l)) (Some (bear_threshold t l))) (\<lambda>cs.
     let (s, trigger, threshold, reversed, note) = transition t l effective in
     Inr \<lparr>ms_status = s, ms_trigger_name = trigger, ms_threshold_value = threshold, ms_reversal_dominated = reversed,
       ms_candidates = cs, ms_notes = note\<rparr>))"

section \<open>The candidate rows\<close>

fun bullish :: "monthly_status \<Rightarrow> bool" where
  "bullish BULL \<longleftrightarrow> True"
| "bullish BULL_CF \<longleftrightarrow> True"
| "bullish _ \<longleftrightarrow> False"

text \<open>A row says of the current price what its status and threshold say.\<close>

definition row_sound :: "price \<Rightarrow> decision_candidate \<Rightarrow> bool" where
  "row_sound price c \<longleftrightarrow> dc_condition_met c = map_option
     (\<lambda>v. if bullish (dc_candidate_status c) then v \<le> price else price \<le> v) (dc_threshold_value c)"

lemma build_candidates_cases:
  "(map_of ts g = None \<and> build_candidates ts g l x y = Inl (KeyError
      [Txt ''No monthly-status thresholds configured for instrument group: '', Txt g])) \<or>
   (\<exists>t cs. map_of ts g = Some t \<and> build_candidates ts g l x y = Inr cs \<and>
      map dc_candidate_status cs = [BULL, BEAR, BULL_CF, BEAR_CF, BULL, BEAR] \<and>
      list_all (row_sound (rl_current_price l)) cs)"
proof (cases "map_of ts g")
  case None
  then show ?thesis by (simp add: build_candidates_def thresholds_for_def)
next
  case (Some t)
  have "mk_candidate (candidate s n v b q m) = Inr (candidate s n v b q m)"
    if "s \<noteq> UNKNOWN" "q = ''HIGH'' \<or> q = ''MEDIUM''" "n \<noteq> []" "\<not> is_space (hd n)" "\<not> is_space (last n)" for s n v b q m
    using that by (auto simp: mk_candidate_def candidate_def strip_fixed)
  moreover have "mk_candidate (cf_candidate s n p v a b q m) = Inr (cf_candidate s n p v a b q m)"
    if "s \<noteq> UNKNOWN" "n \<noteq> []" "\<not> is_space (hd n)" "\<not> is_space (last n)" for s n p v a b q m
    using that by (auto simp: mk_candidate_def candidate_def cf_candidate_def strip_fixed split: option.split)
  ultimately show ?thesis using Some
    by (auto simp: build_candidates_def thresholds_for_def Let_def is_space_def row_sound_def candidate_def cf_candidate_def
        split: option.splits)
qed

lemma build_candidates_ok: "map_of ts g = Some t \<Longrightarrow> \<exists>cs. build_candidates ts g l x y = Inr cs"
  using build_candidates_cases [of ts g l x y] by auto

section \<open>Breaches of the monthly range\<close>

text \<open>How far the month went up or down: not at all, past the first or past the second threshold.\<close>

definition up_breach :: "status_thresholds \<Rightarrow> reference_levels \<Rightarrow> nat" where
  "up_breach t l = (if rl_CMH l < bull_threshold t l then 0 else if rl_CMH l < bull_cf_threshold t l then 1 else 2)"

definition down_breach :: "status_thresholds \<Rightarrow> reference_levels \<Rightarrow> nat" where
  "down_breach t l = (if rl_CML l > bear_threshold t l then 0 else if rl_CML l > bear_cf_threshold t l then 1 else 2)"

definition tie_status :: "status_thresholds \<Rightarrow> reference_levels \<Rightarrow> monthly_status" where
  "tie_status t l = (if bull_threshold t l \<le> rl_current_price l \<and> bear_threshold t l < rl_current_price l then BULL
     else if rl_current_price l \<le> bear_threshold t l \<and> rl_current_price l < bull_threshold t l then BEAR else UNKNOWN)"

definition structure_status :: "status_thresholds \<Rightarrow> reference_levels \<Rightarrow> monthly_status" where
  "structure_status t l = (let up = up_breach t l; down = down_breach t l in
     if up > down then (if up = 2 then BULL_CF else BULL)
     else if down > up then (if down = 2 then BEAR_CF else BEAR)
     else if up = 0 then UNKNOWN else tie_status t l)"

definition sane :: "status_thresholds \<Rightarrow> reference_levels \<Rightarrow> bool" where
  "sane t l \<longleftrightarrow> 0 \<le> mt_a_pct t \<and> mt_a_pct t \<le> 100 \<and> 0 \<le> mt_b_pct t \<and> 0 \<le> rl_PMH l \<and> 0 \<le> rl_PML l"

lemma cf_beyond:
  assumes "sane t l"
  shows "bull_threshold t l \<le> bull_cf_threshold t l" and "bear_cf_threshold t l \<le> bear_threshold t l"
proof -
  from assms have "0 \<le> bull_threshold t l * mt_b_pct t" "0 \<le> bear_threshold t l * mt_b_pct t"
    by (auto simp: sane_def bull_threshold_def bear_threshold_def pct_above_def pct_below_def)
  then show "bull_threshold t l \<le> bull_cf_threshold t l" and "bear_cf_threshold t l \<le> bear_threshold t l"
    by (simp_all add: bull_cf_threshold_def bear_cf_threshold_def pct_above_def pct_below_def algebra_simps)
qed

lemma classify_status:
  assumes "map_of ts g = Some t" and "sane t l"
  shows "\<exists>r. classify ts g l = Inr r \<and> ms_status r = structure_status t l \<and> \<not> ms_reversal_dominated r"
proof -
  obtain cs where "build_candidates ts g l (Some (bull_threshold t l)) (Some (bear_threshold t l)) = Inr cs"
    using build_candidates_ok [OF assms(1)] by blast
  with assms(1) cf_beyond [OF assms(2)] show ?thesis
    by (auto simp: classify_def classify_monthly_structure_def thresholds_for_def Let_def structure_status_def
        up_breach_def down_breach_def tie_status_def not_less)
qed

section \<open>The status machine\<close>

inductive status_step :: "status_thresholds \<Rightarrow> reference_levels \<Rightarrow> monthly_status \<Rightarrow> monthly_status \<Rightarrow> bool"
  for t l where
  bull_reverses: "rl_current_price l \<le> reversal_bear_threshold t l \<Longrightarrow> status_step t l BULL BEAR"
| bull_confirms: "reversal_bear_threshold t l < rl_current_price l \<Longrightarrow> bull_cf_threshold t l \<le> rl_current_price l \<Longrightarrow>
    status_step t l BULL BULL_CF"
| bull_stays: "reversal_bear_threshold t l < rl_current_price l \<Longrightarrow> rl_current_price l < bull_cf_threshold t l \<Longrightarrow>
    status_step t l BULL BULL"
| bull_cf_reverses: "rl_current_price l \<le> bear_threshold t l \<Longrightarrow> status_step t l BULL_CF BEAR"
| bull_cf_stays: "bear_threshold t l < rl_current_price l \<Longrightarrow> status_step t l BULL_CF BULL_CF"
| bear_reverses: "reversal_bull_threshold t l \<le> rl_current_price l \<Longrightarrow> status_step t l BEAR BULL"
| bear_confirms: "rl_current_price l < reversal_bull_threshold t l \<Longrightarrow> rl_current_price l \<le> bear_cf_threshold t l \<Longrightarrow>
    status_step t l BEAR BEAR_CF"
| bear_stays: "rl_current_price l < reversal_bull_threshold t l \<Longrightarrow> bear_cf_threshold t l < rl_current_price l \<Longrightarrow>
    status_step t l BEAR BEAR"
| bear_cf_reverses: "bull_threshold t l \<le> rl_current_price l \<Longrightarrow> status_step t l BEAR_CF BULL"
| bear_cf_stays: "rl_current_price l < bull_threshold t l \<Longrightarrow> status_step t l BEAR_CF BEAR_CF"

inductive_simps status_step_simps: "status_step t l UNKNOWN s" "status_step t l BULL s" "status_step t l BULL_CF s"
  "status_step t l BEAR s" "status_step t l BEAR_CF s"

lemma transition_steps:
  "effective \<noteq> UNKNOWN \<Longrightarrow> status_step t l effective s \<longleftrightarrow> s = fst (transition t l effective)"
  by (cases effective) (auto simp: status_step_simps)

lemma transition_reversal:
  "fst (snd (snd (snd (transition t l effective)))) \<longleftrightarrow> bullish effective \<noteq> bullish (fst (transition t l effective))"
  by (cases effective) auto

lemma apply_transitions_status:
  assumes "map_of ts g = Some t"
  shows "\<exists>r. apply_transitions ts g l effective = Inr r \<and> ms_status r = fst (transition t l effective) \<and>
    ms_reversal_dominated r = fst (snd (snd (snd (transition t l effective))))"
proof -
  obtain cs where "build_candidates ts g l (Some (bull_threshold t l)) (Some (bear_threshold t l)) = Inr cs"
    using build_candidates_ok [OF assms] by blast
  with assms show ?thesis by (auto simp: apply_transitions_def thresholds_for_def split: prod.splits)
qed

text \<open>The statuses a run of sessions goes through, each session with its own levels.\<close>

fun status_run :: "threshold_table \<Rightarrow> string \<Rightarrow> reference_levels list \<Rightarrow> monthly_status \<Rightarrow> monthly_status list res" where
  "status_run ts g [] s = Inr [s]"
| "status_run ts g (l # ls) s = bindE (apply_transitions ts g l s) (\<lambda>r.
     bindE (status_run ts g ls (ms_status r)) (\<lambda>ss. Inr (s # ss)))"

text \<open>The moves of one session, whatever the levels.\<close>

definition status_move :: "monthly_status \<Rightarrow> monthly_status \<Rightarrow> bool" where
  "status_move s s' \<longleftrightarrow> (s, s') \<in> {(BULL, BULL), (BULL, BULL_CF), (BULL, BEAR), (BULL_CF, BULL_CF), (BULL_CF, BEAR),
     (BEAR, BEAR), (BEAR, BEAR_CF), (BEAR, BULL), (BEAR_CF, BEAR_CF), (BEAR_CF, BULL)}"

lemma transition_moves: "s \<noteq> UNKNOWN \<Longrightarrow> status_move s (fst (transition t l s))"
  by (cases s) (auto simp: status_move_def)

lemma status_move_directional: "status_move s s' \<Longrightarrow> s' \<noteq> UNKNOWN"
  by (auto simp: status_move_def)

lemma status_run_moves:
  "map_of ts g = Some t \<Longrightarrow> s \<noteq> UNKNOWN \<Longrightarrow> \<exists>ss. status_run ts g ls s = Inr (s # ss) \<and> length ss = length ls \<and>
     successively status_move (s # ss)"
proof (induction ls arbitrary: s)
  case (Cons l ls)
  obtain r where r: "apply_transitions ts g l s = Inr r" "ms_status r = fst (transition t l s)"
    using apply_transitions_status [OF Cons.prems(1)] by blast
  with transition_moves [OF Cons.prems(2)] have m: "status_move s (ms_status r)" by simp
  with Cons.IH [OF Cons.prems(1) status_move_directional [OF m]] r(1) show ?case by auto
qed simp

section \<open>Properties\<close>

text \<open>
  The decision table has its six rows in a fixed order of directional statuses, each row
  states of the current price exactly what its threshold says, and only an unknown instrument
  group raises.
\<close>
theorem candidate_rows_sound:
  shows "case build_candidates ts g l x y of
      Inl e \<Rightarrow> map_of ts g = None \<and> e = KeyError [Txt ''No monthly-status thresholds configured for instrument group: '', Txt g]
    | Inr cs \<Rightarrow> map_of ts g \<noteq> None \<and> map dc_candidate_status cs = [BULL, BEAR, BULL_CF, BEAR_CF, BULL, BEAR] \<and>
        list_all (row_sound (rl_current_price l)) cs"
  using build_candidates_cases [of ts g l x y] by auto

text \<open>
  With non-negative percentages (the first at most 100) and prices, the month is classified
  by the stronger breach: the direction that went past more of its thresholds wins, confirmed
  when it went past both; no breach is UNKNOWN, and equal breaches are decided by the current price.
\<close>
theorem structure_is_stronger_breach:
  assumes "map_of ts g = Some t" and "sane t l"
  shows "\<exists>r. classify ts g l = Inr r \<and> ms_status r = structure_status t l"
  using classify_status [OF assms] by blast

text \<open>
  C18: the price transitions are the status machine: from a directional status the engine takes
  the one step the rules allow at the price, a reversal tested before a confirmation, and reports a reversal exactly when the direction
  changes; over any sessions the status stays directional, and a confirmed status is entered
  only from its own direction.
\<close>
theorem transitions_are_status_machine:
  assumes "map_of ts g = Some t" and "s \<noteq> UNKNOWN"
  shows "(\<exists>r. apply_transitions ts g l s = Inr r \<and> status_step t l s (ms_status r) \<and>
      (\<forall>s'. status_step t l s s' \<longrightarrow> s' = ms_status r) \<and> (ms_reversal_dominated r \<longleftrightarrow> bullish s \<noteq> bullish (ms_status r))) \<and>
    (\<exists>ss. status_run ts g ls s = Inr (s # ss) \<and> length ss = length ls \<and> successively status_move (s # ss))"
  using apply_transitions_status [OF assms(1)] transition_steps [OF assms(2)] transition_reversal
    status_run_moves [OF assms] by metis

section \<open>Witnesses\<close>

definition demo_thresholds :: threshold_table where
  "demo_thresholds = [(''nifty'', \<lparr>mt_instrument_group = ''nifty'', mt_a_pct = 1, mt_b_pct = 2, mt_c_pct = 1\<rparr>)]"

definition demo_levels :: "price \<Rightarrow> reference_levels" where
  "demo_levels price = \<lparr>rl_PMH = 100, rl_PML = 80, rl_CMH = 104, rl_CML = 90, rl_PWH = 103, rl_PWL = 95, rl_CWH = 104,
     rl_CWL = 96, rl_current_price = price\<rparr>"

lemmas demo_status_defs = demo_thresholds_def demo_levels_def sane_def bull_threshold_def bear_threshold_def
  bull_cf_threshold_def bear_cf_threshold_def reversal_bear_threshold_def reversal_bull_threshold_def pct_above_def pct_below_def

lemma structure_is_stronger_breach_witness:
  "\<exists>r. classify demo_thresholds ''nifty'' (demo_levels 103) = Inr r \<and> ms_status r = BULL_CF"
proof -
  obtain t where t: "map_of demo_thresholds ''nifty'' = Some t" by (simp add: demo_thresholds_def)
  then have "sane t (demo_levels 103)" by (auto simp: demo_status_defs)
  moreover from t have "structure_status t (demo_levels 103) = BULL_CF"
    by (auto simp: demo_status_defs structure_status_def up_breach_def down_breach_def)
  ultimately show ?thesis using structure_is_stronger_breach [OF t, of "demo_levels 103"] by simp
qed

lemma transitions_are_status_machine_witness:
  "\<exists>r. apply_transitions demo_thresholds ''nifty'' (demo_levels 90) BULL = Inr r \<and> ms_reversal_dominated r \<and> ms_status r = BEAR"
proof -
  obtain t where t: "map_of demo_thresholds ''nifty'' = Some t" by (simp add: demo_thresholds_def)
  then have "status_step t (demo_levels 90) BULL BEAR" by (auto simp: status_step_simps demo_status_defs)
  with transitions_are_status_machine [OF t, of BULL "demo_levels 90"] show ?thesis by fastforce
qed

end
