(* ===== verification/MonthlyLookback.thy ===== *)
theory MonthlyLookback
  imports MonthlyStatus Calendar "HOL-Library.Product_Lexorder"
begin

text \<open>
  \<^verbatim>\<open>src/tfis/monthly_status/lookback.py\<close>, and the reference levels of \<^verbatim>\<open>current_data.py\<close>: an
  UNKNOWN month borrows its status from the latest earlier month that has one. Fields of a
  lookback window carry the prefix \<open>lw_\<close>, of a trace entry \<open>rt_\<close> (its nine price fields are
  the one field \<open>rt_levels\<close>), of the resolution \<open>lk_\<close>, of a historical bar \<open>hs_\<close>.
\<close>

section \<open>The resolver\<close>

definition mk_runtime_config :: "int \<Rightarrow> int res" where
  "mk_runtime_config limit = (if limit < 0
     then Inl (ValueError [Txt ''max_monthly_status_lookback_windows must be non-negative'']) else Inr limit)"

record lookback_window =
  lw_window_label :: string
  lw_reference_timestamp :: datetime
  lw_context_month_label :: string
  lw_context_week_label :: string
  lw_levels :: reference_levels

record trace_entry =
  rt_lookback_index :: nat
  rt_window_label :: string
  rt_reference_timestamp :: datetime
  rt_context_month_label :: string
  rt_context_week_label :: string
  rt_levels :: reference_levels
  rt_status :: monthly_status
  rt_normalized_status :: "monthly_status option"
  rt_trigger_name :: string
  rt_threshold_value :: "price option"
  rt_notes :: string
  rt_used_for_resolution :: bool

record resolution_result =
  lk_current_window_result :: status_result
  lk_borrowed_window_result :: "status_result option"
  lk_resolved_result :: status_result
  lk_trace :: "trace_entry list"
  lk_lookback_used :: bool
  lk_reason :: string
  lk_checked_lookback_windows :: nat

definition context_month_label :: "datetime \<Rightarrow> string" where
  "context_month_label t = padded 4 (nat (year_of (date_of t))) @ ''-'' @ padded 2 (nat (month_of (date_of t)))"

definition iso_week_key :: "datetime \<Rightarrow> int \<times> int" where
  "iso_week_key t = iso_year_week (date_of t)"

definition context_week_label :: "datetime \<Rightarrow> string" where
  "context_week_label t = (let (y, w) = iso_week_key t in padded 4 (nat y) @ ''-W'' @ padded 2 (nat w))"

definition normalize_lookback_status :: "monthly_status \<Rightarrow> monthly_status option" where
  "normalize_lookback_status s = (if s = UNKNOWN then None else Some s)"

definition entry_of_window :: "nat \<Rightarrow> lookback_window \<Rightarrow> status_result \<Rightarrow> trace_entry" where
  "entry_of_window i w r = \<lparr>rt_lookback_index = i, rt_window_label = lw_window_label w,
     rt_reference_timestamp = lw_reference_timestamp w, rt_context_month_label = lw_context_month_label w,
     rt_context_week_label = lw_context_week_label w, rt_levels = lw_levels w, rt_status = ms_status r,
     rt_normalized_status = normalize_lookback_status (ms_status r), rt_trigger_name = ms_trigger_name r,
     rt_threshold_value = ms_threshold_value r, rt_notes = ms_notes r,
     rt_used_for_resolution = (normalize_lookback_status (ms_status r) \<noteq> None)\<rparr>"

definition current_window :: "datetime \<Rightarrow> reference_levels \<Rightarrow> lookback_window" where
  "current_window t l = \<lparr>lw_window_label = ''current'', lw_reference_timestamp = t,
     lw_context_month_label = context_month_label t, lw_context_week_label = context_week_label t, lw_levels = l\<rparr>"

definition borrowed_result :: "lookback_window \<Rightarrow> status_result \<Rightarrow> status_result \<Rightarrow> status_result" where
  "borrowed_result w borrowed x = x\<lparr>ms_trigger_name := ''LOOKBACK::'' @ ms_trigger_name x,
     ms_notes := ''Current month remained UNKNOWN, so TFIS borrowed the monthly status from '' @ lw_window_label w @
       '' ('' @ lw_context_month_label w @ '' / '' @ lw_context_week_label w @
       '') where the historical context classified as '' @ monthly_status_value (ms_status borrowed) @
       '', then applied today's current-price transition rules.''\<rparr>"

text \<open>The loop over the windows after \<open>checked\<close> of them, with the trace so far.\<close>

fun lookback_loop ::
  "threshold_table \<Rightarrow> string \<Rightarrow> reference_levels \<Rightarrow> status_result \<Rightarrow> trace_entry list \<Rightarrow> nat \<Rightarrow> lookback_window list \<Rightarrow>
   resolution_result res" where
  "lookback_loop ts g l current trace checked [] = Inr \<lparr>lk_current_window_result = current,
     lk_borrowed_window_result = None, lk_resolved_result = current, lk_trace = trace, lk_lookback_used = False,
     lk_reason = ''Current month remained UNKNOWN and no historical monthly/weekly context resolved within the safe lookback limit.'',
     lk_checked_lookback_windows = checked\<rparr>"
| "lookback_loop ts g l current trace checked (w # ws) =
     bindE (classify ts g (lw_levels w)) (\<lambda>r.
     let n = Suc checked; trace' = trace @ [entry_of_window n w r] in
     case normalize_lookback_status (ms_status r) of
       None \<Rightarrow> lookback_loop ts g l current trace' n ws
     | Some s \<Rightarrow> bindE (apply_transitions ts g l s) (\<lambda>x. Inr \<lparr>lk_current_window_result = current,
         lk_borrowed_window_result = Some r, lk_resolved_result = borrowed_result w r x, lk_trace = trace',
         lk_lookback_used = True,
         lk_reason = ''Resolved from prior month/week context because the current month's direct monthly structure was UNKNOWN.'',
         lk_checked_lookback_windows = n\<rparr>))"

definition resolve_status ::
  "threshold_table \<Rightarrow> int \<Rightarrow> string \<Rightarrow> reference_levels \<Rightarrow> datetime \<Rightarrow> lookback_window list \<Rightarrow> int option \<Rightarrow>
   resolution_result res" where
  "resolve_status ts config g l t windows limit =
     bindE (classify ts g l) (\<lambda>r.
     let trace = [entry_of_window 0 (current_window t l) r] in
     if ms_status r \<noteq> UNKNOWN then
       bindE (apply_transitions ts g l (ms_status r)) (\<lambda>x. Inr \<lparr>lk_current_window_result = r,
         lk_borrowed_window_result = None, lk_resolved_result = x, lk_trace = trace, lk_lookback_used = False,
         lk_reason = ''Current month resolved directly from monthly structure rules.'', lk_checked_lookback_windows = 0\<rparr>)
     else let allowed = (case limit of None \<Rightarrow> config | Some n \<Rightarrow> max 0 n) in
       lookback_loop ts g l r trace 0 (take (nat allowed) windows))"

section \<open>Windows from historical bars\<close>

record historical_bar =
  hs_timestamp :: datetime
  hs_high :: price
  hs_low :: price
  hs_close :: price
  hs_open :: "price option"

abbreviation bar_month :: "historical_bar \<Rightarrow> int \<times> int" where
  "bar_month b \<equiv> month_key (hs_timestamp b)"

abbreviation bar_week :: "historical_bar \<Rightarrow> int \<times> int" where
  "bar_week b \<equiv> iso_week_key (hs_timestamp b)"

definition month_anchor_timestamp :: "historical_bar list \<Rightarrow> int \<times> int \<Rightarrow> datetime" where
  "month_anchor_timestamp bars key = py_max (map hs_timestamp (filter (\<lambda>b. bar_month b = key) bars))"

text \<open>
  The levels of given bars at a time; \<open>sorted({...})[-1]\<close> of a non-empty set is its maximum. The
  two callers differ in the bar that gives the current price.
\<close>

definition levels_of ::
  "historical_bar list \<Rightarrow> historical_bar list \<Rightarrow> historical_bar list \<Rightarrow> historical_bar list \<Rightarrow> price \<Rightarrow> reference_levels" where
  "levels_of previous_month current_month previous_week current_week price =
     \<lparr>rl_PMH = py_max (map hs_high previous_month), rl_PML = py_min (map hs_low previous_month),
      rl_CMH = py_max (map hs_high current_month), rl_CML = py_min (map hs_low current_month),
      rl_PWH = py_max (map hs_high previous_week), rl_PWL = py_min (map hs_low previous_week),
      rl_CWH = py_max (map hs_high current_week), rl_CWL = py_min (map hs_low current_week),
      rl_current_price = price\<rparr>"

definition levels_for_context_anchor :: "historical_bar list \<Rightarrow> datetime \<Rightarrow> reference_levels option" where
  "levels_for_context_anchor bars anchor =
     (let eligible = filter (\<lambda>b. hs_timestamp b \<le> anchor) bars in
      if eligible = [] then None
      else let current_month = filter (\<lambda>b. bar_month b = month_key anchor) eligible;
               previous_months = filter (\<lambda>k. k < month_key anchor) (map bar_month eligible);
               current_week = filter (\<lambda>b. bar_week b = iso_week_key anchor) eligible;
               previous_weeks = filter (\<lambda>k. k < iso_week_key anchor) (map bar_week eligible) in
        if previous_months = [] \<or> current_month = [] then None
        else if previous_weeks = [] \<or> current_week = [] then None
        else let previous_month = filter (\<lambda>b. bar_month b = py_max previous_months) eligible;
                 previous_week = filter (\<lambda>b. bar_week b = py_max previous_weeks) eligible in
          if previous_month = [] \<or> previous_week = [] then None
          else Some (levels_of previous_month current_month previous_week current_week
            (hs_close (max_by hs_timestamp (hd current_month) (tl current_month)))))"

text \<open>The months with a bar before the reference time, the current one left out.\<close>

definition candidate_months :: "historical_bar list \<Rightarrow> datetime \<Rightarrow> (int \<times> int) list" where
  "candidate_months bars t =
     remdups (map bar_month (filter (\<lambda>b. hs_timestamp b < t \<and> bar_month b \<noteq> month_key t) bars))"

definition window_at :: "historical_bar list \<Rightarrow> nat \<times> (int \<times> int) \<Rightarrow> lookback_window option" where
  "window_at bars = (\<lambda>(index, key). let anchor = month_anchor_timestamp bars key in
     map_option (\<lambda>l. \<lparr>lw_window_label = ''lookback_'' @ py_str_int (int index), lw_reference_timestamp = anchor,
       lw_context_month_label = context_month_label anchor, lw_context_week_label = context_week_label anchor,
       lw_levels = l\<rparr>) (levels_for_context_anchor bars anchor))"

definition build_lookback_windows :: "historical_bar list \<Rightarrow> datetime \<Rightarrow> lookback_window list" where
  "build_lookback_windows historical_bars t =
     (let bars = sort_key hs_timestamp historical_bars in
      if bars = [] then []
      else let months = sort_descending (month_anchor_timestamp bars) (candidate_months bars t) in
        List.map_filter (window_at bars) (enumerate 1 months))"

section \<open>Reference levels of the current day (current_data.py)\<close>

definition derive_reference_levels :: "historical_bar list \<Rightarrow> date \<Rightarrow> reference_levels res" where
  "derive_reference_levels historical_bars as_of =
     (let bars = sort_key hs_timestamp (filter (\<lambda>b. date_of (hs_timestamp b) \<le> as_of) historical_bars) in
      if bars = [] then Inl (MonthlyStatusCurrentDataError [Txt ''No daily bars available up to the review date.''])
      else let now = py_max (map hs_timestamp (filter (\<lambda>b. date_of (hs_timestamp b) \<le> as_of) bars));
               current_month = filter (\<lambda>b. bar_month b = month_key now) bars;
               current_week = filter (\<lambda>b. bar_week b = iso_week_key now) bars;
               previous_months = filter (\<lambda>k. k < month_key now) (map bar_month bars);
               previous_weeks = filter (\<lambda>k. k < iso_week_key now) (map bar_week bars) in
        if previous_months = [] then Inl (MonthlyStatusCurrentDataError [Txt ''Previous month candles are missing.''])
        else if previous_weeks = [] then Inl (MonthlyStatusCurrentDataError [Txt ''Previous week candles are missing.''])
        else if current_month = [] \<or> current_week = []
        then Inl (MonthlyStatusCurrentDataError [Txt ''Current month/week candles are missing.''])
        else Inr (levels_of (filter (\<lambda>b. bar_month b = py_max previous_months) bars) current_month
          (filter (\<lambda>b. bar_week b = py_max previous_weeks) bars) current_week (hs_close (last bars))))"

section \<open>What the resolver borrows\<close>

definition status_of :: "threshold_table \<Rightarrow> string \<Rightarrow> reference_levels \<Rightarrow> monthly_status" where
  "status_of ts g l = (case classify ts g l of Inl _ \<Rightarrow> UNKNOWN | Inr r \<Rightarrow> ms_status r)"

definition directional :: "threshold_table \<Rightarrow> string \<Rightarrow> lookback_window \<Rightarrow> bool" where
  "directional ts g w \<longleftrightarrow> status_of ts g (lw_levels w) \<noteq> UNKNOWN"

lemma classify_ok: "map_of ts g = Some t \<Longrightarrow> \<exists>r. classify ts g l = Inr r \<and> ms_status r = status_of ts g l"
proof -
  assume t: "map_of ts g = Some t"
  obtain cs where "build_candidates ts g l (Some (bull_threshold t l)) (Some (bear_threshold t l)) = Inr cs"
    using build_candidates_ok [OF t] by blast
  with t have "\<exists>r. classify ts g l = Inr r"
    by (auto simp: classify_def classify_monthly_structure_def thresholds_for_def Let_def)
  then show ?thesis by (auto simp: status_of_def)
qed

lemma transition_directional: "s \<noteq> UNKNOWN \<Longrightarrow> fst (transition t l s) \<noteq> UNKNOWN"
  using transition_moves status_move_directional by blast

text \<open>What the loop returns for the windows left to check.\<close>

definition loop_outcome ::
  "threshold_table \<Rightarrow> string \<Rightarrow> status_thresholds \<Rightarrow> reference_levels \<Rightarrow> status_result \<Rightarrow> trace_entry list \<Rightarrow> nat \<Rightarrow>
   lookback_window list \<Rightarrow> resolution_result \<Rightarrow> bool" where
  "loop_outcome ts g t l current trace checked ws r \<longleftrightarrow>
     ms_status (lk_resolved_result r) = (case find (directional ts g) ws of None \<Rightarrow> ms_status current
       | Some w \<Rightarrow> fst (transition t l (status_of ts g (lw_levels w)))) \<and>
     (\<exists>new. lk_trace r = trace @ new \<and> lk_checked_lookback_windows r = checked + length new \<and>
        map rt_window_label new = map lw_window_label (take (length new) ws) \<and> length new \<le> length ws \<and>
        list_all (\<lambda>e. \<not> rt_used_for_resolution e) (butlast new) \<and>
        (find (directional ts g) ws \<noteq> None \<longleftrightarrow> new \<noteq> [] \<and> rt_used_for_resolution (last new)))"

lemma loop_outcomeD:
  assumes "loop_outcome ts g t l current trace checked ws r"
  shows "ms_status (lk_resolved_result r) = (case find (directional ts g) ws of None \<Rightarrow> ms_status current
       | Some w \<Rightarrow> fst (transition t l (status_of ts g (lw_levels w))))"
    and "\<exists>new. lk_trace r = trace @ new \<and> lk_checked_lookback_windows r = checked + length new \<and>
        map rt_window_label new = map lw_window_label (take (length new) ws) \<and> length new \<le> length ws \<and>
        list_all (\<lambda>e. \<not> rt_used_for_resolution e) (butlast new) \<and>
        (find (directional ts g) ws \<noteq> None \<longleftrightarrow> new \<noteq> [] \<and> rt_used_for_resolution (last new))"
  using assms unfolding loop_outcome_def by blast+

lemma entry_used [simp]: "rt_used_for_resolution (entry_of_window n w r) \<longleftrightarrow> ms_status r \<noteq> UNKNOWN"
  "rt_window_label (entry_of_window n w r) = lw_window_label w"
  by (simp_all add: entry_of_window_def normalize_lookback_status_def)

lemma lookback_loop_outcome:
  assumes "map_of ts g = Some t"
  shows "\<exists>r. lookback_loop ts g l current trace checked ws = Inr r \<and> loop_outcome ts g t l current trace checked ws r"
proof (induction ws arbitrary: trace checked)
  case Nil
  then show ?case by (simp add: loop_outcome_def)
next
  case (Cons w ws)
  obtain b where b: "classify ts g (lw_levels w) = Inr b" "ms_status b = status_of ts g (lw_levels w)"
    using classify_ok [OF assms] by blast
  let ?e = "entry_of_window (Suc checked) w b"
  show ?case
  proof (cases "directional ts g w")
    case True
    then have s: "normalize_lookback_status (ms_status b) = Some (ms_status b)"
      by (simp add: directional_def b(2) normalize_lookback_status_def)
    obtain x where x: "apply_transitions ts g l (ms_status b) = Inr x" "ms_status x = fst (transition t l (ms_status b))"
      using apply_transitions_status [OF assms] by blast
    from True b s x show ?thesis
      by (auto simp: loop_outcome_def Let_def borrowed_result_def directional_def intro!: exI [of _ "[?e]"])
  next
    case False
    then have s: "normalize_lookback_status (ms_status b) = None"
      by (simp add: directional_def b(2) normalize_lookback_status_def)
    from Cons.IH [of "trace @ [?e]" "Suc checked"] obtain r where
      run: "lookback_loop ts g l current (trace @ [?e]) (Suc checked) ws = Inr r"
      and out: "loop_outcome ts g t l current (trace @ [?e]) (Suc checked) ws r" by blast
    from loop_outcomeD(2) [OF out] obtain new where new: "lk_trace r = (trace @ [?e]) @ new"
        "lk_checked_lookback_windows r = Suc checked + length new"
        "map rt_window_label new = map lw_window_label (take (length new) ws)" "length new \<le> length ws"
        "list_all (\<lambda>e. \<not> rt_used_for_resolution e) (butlast new)"
        "find (directional ts g) ws \<noteq> None \<longleftrightarrow> new \<noteq> [] \<and> rt_used_for_resolution (last new)"
      by blast
    have "ms_status b = UNKNOWN" using False b(2) by (simp add: directional_def)
    with out False b run s new show ?thesis
      unfolding loop_outcome_def by (intro exI [of _ r] conjI exI [of _ "?e # new"]) (auto simp: Let_def)
  qed
qed

section \<open>No look-ahead\<close>

lemma month_key_le: "t \<le> t' \<Longrightarrow> month_key t \<le> month_key t'"
  using month_key_mono [of t t'] by (auto simp: less_eq_prod_def)

lemma earlier_month_iff: "s < t \<and> month_key s \<noteq> month_key t \<longleftrightarrow> month_key s < month_key t"
proof
  assume "s < t \<and> month_key s \<noteq> month_key t"
  then show "month_key s < month_key t" using month_key_le [of s t] by auto
next
  assume l: "month_key s < month_key t"
  then show "s < t \<and> month_key s \<noteq> month_key t" using month_key_le [of t s] by (cases "s < t") auto
qed

lemma filter_filter_weaker: "(\<And>x. x \<in> set xs \<Longrightarrow> Q x \<Longrightarrow> P x) \<Longrightarrow> filter Q (filter P xs) = filter Q xs"
  by (induction xs) auto

lemma candidate_months_earlier: "candidate_months bars t = remdups (map bar_month (filter (\<lambda>b. bar_month b < month_key t) bars))"
  by (simp add: candidate_months_def earlier_month_iff)

lemma month_anchor_filter:
  "key < k \<Longrightarrow> month_anchor_timestamp (filter (\<lambda>b. bar_month b < k) bars) key = month_anchor_timestamp bars key"
  unfolding month_anchor_timestamp_def by (subst filter_filter_weaker) auto

lemma month_anchor_month:
  "key \<in> bar_month ` set bars \<Longrightarrow> month_key (month_anchor_timestamp bars key) = key"
proof -
  assume "key \<in> bar_month ` set bars"
  then have "map hs_timestamp (filter (\<lambda>b. bar_month b = key) bars) \<noteq> []" by (auto simp: filter_empty_conv)
  then have "month_anchor_timestamp bars key \<in> set (map hs_timestamp (filter (\<lambda>b. bar_month b = key) bars))"
    unfolding month_anchor_timestamp_def by (rule py_max_in)
  then show ?thesis by auto
qed

lemma levels_for_context_anchor_filter:
  assumes "month_key anchor < k"
  shows "levels_for_context_anchor (filter (\<lambda>b. bar_month b < k) bars) anchor = levels_for_context_anchor bars anchor"
proof -
  have "filter (\<lambda>b. hs_timestamp b \<le> anchor) (filter (\<lambda>b. bar_month b < k) bars) = filter (\<lambda>b. hs_timestamp b \<le> anchor) bars"
    by (rule filter_filter_weaker) (use assms month_key_le in \<open>blast intro: le_less_trans\<close>)
  then show ?thesis unfolding levels_for_context_anchor_def by simp
qed

lemma sort_key_agree: "(\<And>x. x \<in> set xs \<Longrightarrow> f x = g x) \<Longrightarrow> sort_key f xs = sort_key g xs"
proof (induction xs)
  case (Cons x xs)
  have "insort_key f x ys = insort_key g x ys" if "\<And>y. y \<in> insert x (set ys) \<Longrightarrow> f y = g y" for ys
    using that by (induction ys) auto
  from this [of "sort_key g xs"] Cons show ?case by simp
qed simp

lemma sort_descending_cong: "(\<And>x. x \<in> set xs \<Longrightarrow> f x = g x) \<Longrightarrow> sort_descending f xs = sort_descending g xs"
  unfolding sort_descending_def by (intro arg_cong [where f = rev] sort_key_agree) auto

lemma map_filter_cong: "(\<And>x. x \<in> set xs \<Longrightarrow> f x = g x) \<Longrightarrow> List.map_filter f xs = List.map_filter g xs"
  by (induction xs) (auto simp: List.map_filter_simps split: option.split)

section \<open>The two derivations of the reference levels\<close>

lemma last_sorted_max: "xs \<noteq> [] \<Longrightarrow> sorted (map f xs) \<Longrightarrow> x \<in> set xs \<Longrightarrow> f x \<le> f (last xs)"
  by (induction xs) auto

lemma max_by_sorted_distinct:
  assumes "xs \<noteq> []" and "sorted (map f xs)" and "distinct (map f xs)"
  shows "max_by f (hd xs) (tl xs) = last xs"
proof -
  have set: "insert (hd xs) (set (tl xs)) = set xs" using assms(1) by (cases xs) auto
  have "f (last xs) \<le> f (max_by f (hd xs) (tl xs))"
    by (rule max_by_ge) (simp add: set assms(1))
  moreover have m: "max_by f (hd xs) (tl xs) \<in> set xs" using max_by_in [of f "hd xs" "tl xs"] set by simp
  ultimately have "f (max_by f (hd xs) (tl xs)) = f (last xs)"
    using last_sorted_max [OF assms(1,2)] by (meson antisym)
  with m assms(1,3) show ?thesis by (metis distinct_map inj_onD last_in_set)
qed

lemma last_filter: "xs \<noteq> [] \<Longrightarrow> P (last xs) \<Longrightarrow> last (filter P xs) = last xs \<and> filter P xs \<noteq> []"
  by (induction xs) (auto split: if_splits)

lemma py_max_last: "xs \<noteq> [] \<Longrightarrow> sorted xs \<Longrightarrow> py_max xs = last xs"
  using last_sorted_max [of xs "\<lambda>x. x"] py_max_ge [of "last xs" xs] py_max_in [of xs] by (simp add: antisym)

text \<open>The levels of sorted bars with distinct times, up to the latest of them.\<close>

lemma levels_at_last:
  assumes "bars \<noteq> []" and "sorted (map hs_timestamp bars)" and "distinct (map hs_timestamp bars)"
  shows "levels_for_context_anchor bars (hs_timestamp (last bars)) =
    (let now = hs_timestamp (last bars); previous_months = filter (\<lambda>k. k < month_key now) (map bar_month bars);
         previous_weeks = filter (\<lambda>k. k < iso_week_key now) (map bar_week bars) in
     if previous_months = [] \<or> previous_weeks = [] then None
     else Some (levels_of (filter (\<lambda>b. bar_month b = py_max previous_months) bars) (filter (\<lambda>b. bar_month b = month_key now) bars)
       (filter (\<lambda>b. bar_week b = py_max previous_weeks) bars) (filter (\<lambda>b. bar_week b = iso_week_key now) bars)
       (hs_close (last bars))))"
proof -
  let ?now = "hs_timestamp (last bars)"
  have all: "filter (\<lambda>b. hs_timestamp b \<le> ?now) bars = bars"
    using last_sorted_max [OF assms(1,2)] by (auto simp: filter_id_conv)
  let ?m = "filter (\<lambda>b. bar_month b = month_key ?now) bars"
  have m: "last ?m = last bars" "?m \<noteq> []" and w: "filter (\<lambda>b. bar_week b = iso_week_key ?now) bars \<noteq> []"
    using last_filter [OF assms(1)] by simp_all
  have "sorted (map hs_timestamp ?m)" "distinct (map hs_timestamp ?m)"
    using assms(2,3) by (simp_all add: sorted_filter distinct_map_filter)
  then have "max_by hs_timestamp (hd ?m) (tl ?m) = last bars" using max_by_sorted_distinct [OF m(2)] m(1) by simp
  moreover have "filter (\<lambda>b. bar_month b = py_max ks) bars \<noteq> []" if "ks \<noteq> []" "set ks \<subseteq> bar_month ` set bars" for ks
    using subsetD [OF that(2) py_max_in [OF that(1)]] by (auto simp: filter_empty_conv)
  moreover have "filter (\<lambda>b. bar_week b = py_max ks) bars \<noteq> []" if "ks \<noteq> []" "set ks \<subseteq> bar_week ` set bars" for ks
    using subsetD [OF that(2) py_max_in [OF that(1)]] by (auto simp: filter_empty_conv)
  ultimately show ?thesis using assms(1) m(2) w unfolding levels_for_context_anchor_def all
    by (auto simp: Let_def)
qed

section \<open>Properties\<close>

text \<open>
  C20: the resolver never fails for a configured group: a directional month moves by today's price,
  an UNKNOWN one borrows from the first directional window within the limit and moves that by
  today's price, and without one it stays UNKNOWN. The trace is the current month and the windows
  checked, in order, and only its last entry can be the one used.
\<close>
theorem lookback_borrows_first_directional:
  assumes "map_of ts g = Some t"
  shows "\<exists>r considered. resolve_status ts config g l now windows limit = Inr r \<and>
    considered = take (nat (case limit of None \<Rightarrow> config | Some n \<Rightarrow> max 0 n)) windows \<and>
    ms_status (lk_resolved_result r) =
      (if status_of ts g l \<noteq> UNKNOWN then fst (transition t l (status_of ts g l))
       else case find (directional ts g) considered of None \<Rightarrow> UNKNOWN
         | Some w \<Rightarrow> fst (transition t l (status_of ts g (lw_levels w)))) \<and>
    lk_checked_lookback_windows r \<le> length considered \<and>
    map rt_window_label (lk_trace r) = ''current'' # map lw_window_label (take (lk_checked_lookback_windows r) considered) \<and>
    list_all (\<lambda>e. \<not> rt_used_for_resolution e) (butlast (lk_trace r)) \<and>
    (rt_used_for_resolution (last (lk_trace r)) \<longleftrightarrow> ms_status (lk_resolved_result r) \<noteq> UNKNOWN)"
proof -
  obtain b where b: "classify ts g l = Inr b" "ms_status b = status_of ts g l" using classify_ok [OF assms] by blast
  let ?ws = "take (nat (case limit of None \<Rightarrow> config | Some n \<Rightarrow> max 0 n)) windows"
  let ?e = "entry_of_window 0 (current_window now l) b"
  show ?thesis
  proof (cases "status_of ts g l = UNKNOWN")
    case False
    obtain x where "apply_transitions ts g l (ms_status b) = Inr x" "ms_status x = fst (transition t l (ms_status b))"
      using apply_transitions_status [OF assms] by blast
    with False b transition_directional [OF False] show ?thesis
      by (simp add: resolve_status_def Let_def current_window_def)
  next
    case True
    obtain r where r: "lookback_loop ts g l b [?e] 0 ?ws = Inr r" "loop_outcome ts g t l b [?e] 0 ?ws r"
      using lookback_loop_outcome [OF assms] by blast
    from loop_outcomeD(2) [OF r(2)] obtain new where new: "lk_trace r = [?e] @ new" "lk_checked_lookback_windows r = 0 + length new"
        "map rt_window_label new = map lw_window_label (take (length new) ?ws)" "length new \<le> length ?ws"
        "list_all (\<lambda>e. \<not> rt_used_for_resolution e) (butlast new)"
        "find (directional ts g) ?ws \<noteq> None \<longleftrightarrow> new \<noteq> [] \<and> rt_used_for_resolution (last new)"
      by blast
    note s = loop_outcomeD(1) [OF r(2)]
    have "ms_status (lk_resolved_result r) \<noteq> UNKNOWN \<longleftrightarrow> find (directional ts g) ?ws \<noteq> None"
      using s True b transition_directional by (auto simp: directional_def split: option.splits dest!: find_SomeD)
    with new True b have "rt_used_for_resolution (last (lk_trace r)) \<longleftrightarrow> ms_status (lk_resolved_result r) \<noteq> UNKNOWN"
      "list_all (\<lambda>e. \<not> rt_used_for_resolution e) (butlast (lk_trace r))" by auto
    moreover have "resolve_status ts config g l now windows limit = Inr r"
      using b True r(1) by (simp add: resolve_status_def Let_def)
    ultimately show ?thesis using s True b new by (auto simp: current_window_def)
  qed
qed

text \<open>
  C19: no look-ahead: the lookback windows built at a time depend only on the bars of the months
  before the month of that time; adding or changing any later bar changes no window.
\<close>
theorem lookback_windows_have_no_lookahead:
  shows "build_lookback_windows bars t = build_lookback_windows (filter (\<lambda>b. bar_month b < month_key t) bars) t"
proof -
  let ?B = "sort_key hs_timestamp bars" and ?P = "\<lambda>b. bar_month b < month_key t"
  let ?F = "filter ?P ?B"
  have F: "sort_key hs_timestamp (filter ?P bars) = ?F" by (simp add: filter_sort)
  have months: "candidate_months ?F t = candidate_months ?B t" by (simp add: candidate_months_earlier)
  have early: "k < month_key t \<and> k \<in> bar_month ` set ?B" if "k \<in> set (candidate_months ?B t)" for k
    using that by (auto simp: candidate_months_earlier)
  have anchor: "month_anchor_timestamp ?F k = month_anchor_timestamp ?B k" if "k \<in> set (candidate_months ?B t)" for k
    using early [OF that] by (simp add: month_anchor_filter)
  have "window_at ?F (i, k) = window_at ?B (i, k)" if "k \<in> set (candidate_months ?B t)" for i k
  proof -
    have "month_key (month_anchor_timestamp ?B k) < month_key t" using early [OF that] by (simp add: month_anchor_month)
    then show ?thesis by (simp add: window_at_def anchor [OF that] levels_for_context_anchor_filter)
  qed
  moreover have order: "sort_descending (month_anchor_timestamp ?F) (candidate_months ?F t) =
      sort_descending (month_anchor_timestamp ?B) (candidate_months ?B t)"
    unfolding months by (rule sort_descending_cong) (rule anchor)
  ultimately have windows: "List.map_filter (window_at ?F) (enumerate 1 (sort_descending (month_anchor_timestamp ?F) (candidate_months ?F t))) =
      List.map_filter (window_at ?B) (enumerate 1 (sort_descending (month_anchor_timestamp ?B) (candidate_months ?B t)))"
    unfolding order by (intro map_filter_cong) (auto simp: enumerate_eq_zip dest!: set_zip_rightD)
  show ?thesis
  proof (cases "?F = []")
    case True
    then have "candidate_months ?B t = []" by (simp add: candidate_months_earlier)
    with True F show ?thesis by (simp add: build_lookback_windows_def Let_def sort_descending_def)
  next
    case False
    then have "?B \<noteq> []" by auto
    with False F windows show ?thesis by (simp add: build_lookback_windows_def Let_def)
  qed
qed

text \<open>
  On bars with distinct times the levels of the current day and those of the lookback agree:
  the former fails exactly when there is no bar up to the day or the latter finds no context at the
  last of them, and otherwise both are the same levels.
\<close>
theorem current_levels_are_context_levels:
  assumes "distinct (map hs_timestamp bars)"
  shows "case derive_reference_levels bars as_of of
      Inr l \<Rightarrow> \<exists>b bs. sort_key hs_timestamp (filter (\<lambda>b. date_of (hs_timestamp b) \<le> as_of) bars) = bs @ [b] \<and>
        levels_for_context_anchor (bs @ [b]) (hs_timestamp b) = Some l
    | Inl e \<Rightarrow> (let known = sort_key hs_timestamp (filter (\<lambda>b. date_of (hs_timestamp b) \<le> as_of) bars) in
        known = [] \<or> levels_for_context_anchor known (hs_timestamp (last known)) = None)"
proof (cases "sort_key hs_timestamp (filter (\<lambda>b. date_of (hs_timestamp b) \<le> as_of) bars) = []")
  case True
  then show ?thesis by (simp add: derive_reference_levels_def Let_def)
next
  case False
  define K where "K = sort_key hs_timestamp (filter (\<lambda>b. date_of (hs_timestamp b) \<le> as_of) bars)"
  have K: "K \<noteq> []" "sorted (map hs_timestamp K)" "distinct (map hs_timestamp K)"
    using False assms by (simp_all add: K_def distinct_map inj_on_def)
  have upto: "filter (\<lambda>b. date_of (hs_timestamp b) \<le> as_of) K = K" by (auto simp: K_def filter_id_conv)
  have now: "py_max (map hs_timestamp K) = hs_timestamp (last K)" using K(1,2) by (simp add: py_max_last last_map)
  have ne: "filter (\<lambda>b. bar_month b = month_key (hs_timestamp (last K))) K \<noteq> []"
    "filter (\<lambda>b. bar_week b = iso_week_key (hs_timestamp (last K))) K \<noteq> []" using last_filter [OF K(1)] by simp_all
  obtain bs b where bs: "K = bs @ [b]" using K(1) by (metis rev_exhaust)
  have "derive_reference_levels bars as_of = (case levels_for_context_anchor K (hs_timestamp (last K)) of
      Some l \<Rightarrow> Inr l | None \<Rightarrow> Inl (if filter (\<lambda>k. k < month_key (hs_timestamp (last K))) (map bar_month K) = []
        then MonthlyStatusCurrentDataError [Txt ''Previous month candles are missing.'']
        else MonthlyStatusCurrentDataError [Txt ''Previous week candles are missing.'']))"
    using K(1) ne unfolding derive_reference_levels_def K_def [symmetric] levels_at_last [OF K]
    by (simp add: Let_def upto now)
  then show ?thesis unfolding K_def [symmetric] using bs by (auto simp: Let_def split: option.split)
qed

section \<open>Witnesses\<close>

definition demo_window :: "string \<Rightarrow> price \<Rightarrow> lookback_window" where
  "demo_window name high = \<lparr>lw_window_label = name, lw_reference_timestamp = 0, lw_context_month_label = ''2023-12'',
     lw_context_week_label = ''2023-W52'', lw_levels = (demo_levels 100)\<lparr>rl_CMH := high\<rparr>\<rparr>"

lemma demo_statuses:
  "status_of demo_thresholds ''nifty'' ((demo_levels 94)\<lparr>rl_CMH := 100\<rparr>) = UNKNOWN"
  "status_of demo_thresholds ''nifty'' ((demo_levels 100)\<lparr>rl_CMH := 100\<rparr>) = UNKNOWN"
  "status_of demo_thresholds ''nifty'' ((demo_levels 100)\<lparr>rl_CMH := 102\<rparr>) = BULL"
  by code_simp+

lemma lookback_borrows_first_directional_witness:
  "\<exists>r. resolve_status demo_thresholds 6 ''nifty'' ((demo_levels 94)\<lparr>rl_CMH := 100\<rparr>) 0
      [demo_window ''lookback_1'' 100, demo_window ''lookback_2'' 102] None = Inr r \<and>
    ms_status (lk_resolved_result r) = BEAR"
proof -
  let ?l = "(demo_levels 94)\<lparr>rl_CMH := 100\<rparr>" and ?ws = "[demo_window ''lookback_1'' 100, demo_window ''lookback_2'' 102]"
  obtain t where t: "map_of demo_thresholds ''nifty'' = Some t" by (simp add: demo_thresholds_def)
  then have "fst (transition t ?l BULL) = BEAR" by (auto simp: demo_status_defs)
  moreover have "find (directional demo_thresholds ''nifty'') ?ws = Some (demo_window ''lookback_2'' 102)"
    by (simp add: directional_def demo_window_def demo_statuses)
  moreover have "status_of demo_thresholds ''nifty'' (lw_levels (demo_window ''lookback_2'' 102)) = BULL"
    by (simp add: demo_window_def demo_statuses)
  ultimately show ?thesis
    using lookback_borrows_first_directional [OF t, where config = 6 and l = ?l and now = 0 and limit = None and windows = ?ws] by (auto simp: demo_statuses)
qed

definition demo_day_bar :: "date \<Rightarrow> price \<Rightarrow> historical_bar" where
  "demo_day_bar d x = \<lparr>hs_timestamp = at_time d 0, hs_high = x + 5, hs_low = x - 5, hs_close = x, hs_open = None\<rparr>"

lemma demo_keys: "month_key (at_time 738886 0) = (2024, 1)" "month_key (at_time 738850 0) = (2023, 11)"
    "iso_week_key (at_time 738886 0) = (2024, 1)" "iso_week_key (at_time 738850 0) = (2023, 47)"
  by (code_simp, code_simp, code_simp, code_simp)

lemma demo_derived:
  assumes "bar_month b = (2024, 1)" and "bar_week b = (2024, 1)" and "bar_month c = (2023, 11)" and "bar_week c = (2023, 47)"
    and "hs_timestamp c \<le> hs_timestamp b" and "date_of (hs_timestamp b) \<le> d" and "date_of (hs_timestamp c) \<le> d"
  shows "derive_reference_levels [c, b] d = Inr (levels_of [c] [b] [c] [b] (hs_close b))"
  using assms by (simp add: derive_reference_levels_def py_max_def Let_def)

lemma current_levels_are_context_levels_witness:
  "levels_for_context_anchor [demo_day_bar 738850 90, demo_day_bar 738886 100] (hs_timestamp (demo_day_bar 738886 100)) = Some
     \<lparr>rl_PMH = 95, rl_PML = 85, rl_CMH = 105, rl_CML = 95, rl_PWH = 95, rl_PWL = 85, rl_CWH = 105, rl_CWL = 95, rl_current_price = 100\<rparr>"
proof -
  let ?b = "demo_day_bar 738886 100" and ?c = "demo_day_bar 738850 90"
  have times: "hs_timestamp ?c < hs_timestamp ?b" "date_of (hs_timestamp ?b) = 738886" "date_of (hs_timestamp ?c) = 738850"
    by (simp_all add: demo_day_bar_def at_time_def us_per_day_def date_of_def)
  have keys: "bar_month ?b = (2024, 1)" "bar_week ?b = (2024, 1)" "bar_month ?c = (2023, 11)" "bar_week ?c = (2023, 47)"
    by (simp_all add: demo_day_bar_def demo_keys)
  from times have d: "distinct (map hs_timestamp [?c, ?b])" and s: "sort_key hs_timestamp (filter (\<lambda>b. date_of (hs_timestamp b) \<le> 738886) [?c, ?b]) = [?c] @ [?b]"
    by simp_all
  have r: "derive_reference_levels [?c, ?b] 738886 = Inr (levels_of [?c] [?b] [?c] [?b] (hs_close ?b))"
    by (rule demo_derived [OF keys]) (use times in simp_all)
  from current_levels_are_context_levels [OF d, of 738886] show ?thesis unfolding r s
    by (simp add: levels_of_def py_max_def py_min_def) (simp add: demo_day_bar_def)
qed

end
