(* ===== verification/MarketStructure.thy ===== *)
theory MarketStructure
  imports Domain Calendar "HOL-Library.Product_Lexorder"
begin

text \<open>
  \<^verbatim>\<open>src/tfis/market_structure/structure_calculator.py\<close>: the market levels of a day from daily
  bars and the intraday bars of the running day. The latest daily bar is the running day and is
  left out of every completed-day level.
\<close>

section \<open>The calculator\<close>

definition bar_day :: "ohlc_bar \<Rightarrow> date" where
  "bar_day b = date_of (bar_timestamp b)"

definition high_low :: "ohlc_bar list \<Rightarrow> price \<times> price" where
  "high_low bars = (py_max (map bar_high bars), py_min (map bar_low bars))"

definition resolve_current_day_levels :: "date \<Rightarrow> ohlc_bar \<Rightarrow> ohlc_bar list option \<Rightarrow> price \<times> price" where
  "resolve_current_day_levels current_day latest intraday =
     (let matching = (case intraday of None \<Rightarrow> [] | Some bars \<Rightarrow> filter (\<lambda>b. bar_day b = current_day) bars) in
      if matching \<noteq> [] then high_low matching else (bar_high latest, bar_low latest))"

definition week_key :: "ohlc_bar \<Rightarrow> int \<times> int" where
  "week_key b = iso_year_week (bar_day b)"

definition bar_month_key :: "ohlc_bar \<Rightarrow> int \<times> int" where
  "bar_month_key b = (year_of (bar_day b), month_of (bar_day b))"

text \<open>
  The levels of the latest period other than the current one; the week and the month of
  \<^verbatim>\<open>_completed_previous_week_levels\<close> and \<^verbatim>\<open>_completed_previous_month_levels\<close> are its keys.
\<close>

definition completed_previous_levels ::
  "(ohlc_bar \<Rightarrow> int \<times> int) \<Rightarrow> ohlc_bar list \<Rightarrow> int \<times> int \<Rightarrow> price option \<times> price option" where
  "completed_previous_levels key daily current =
     (let matching = filter (\<lambda>b. key b \<noteq> current) daily in
      if matching = [] then (None, None)
      else let latest = py_max (map key matching); bars = filter (\<lambda>b. key b = latest) matching in
        if bars = [] then (None, None) else map_prod Some Some (high_low bars))"

definition last_n :: "nat \<Rightarrow> 'a list \<Rightarrow> 'a list" where
  "last_n n xs = drop (length xs - n) xs"

definition build_market_levels :: "ohlc_bar list \<Rightarrow> ohlc_bar list option \<Rightarrow> market_levels res" where
  "build_market_levels daily_bars intraday_bars =
     (if daily_bars = [] then Inl (MarketStructureError [Txt ''daily_bars must not be empty''])
      else let daily = sort_key bar_timestamp daily_bars; latest = last daily; previous = butlast daily in
        if length previous < 4 then Inl (MarketStructureError
          [Txt ''At least 4 previous daily bars are required to compute 4DHH/4DLL''])
        else let current_day = bar_day latest;
            (day_high, day_low) = resolve_current_day_levels current_day latest intraday_bars;
            (month_high, month_low) = completed_previous_levels bar_month_key daily (year_of current_day, month_of current_day);
            (week_high, week_low) = completed_previous_levels week_key daily (iso_year_week current_day);
            (h2, l2) = high_low (last_n 2 previous); (h3, l3) = high_low (last_n 3 previous);
            (h4, l4) = high_low (last_n 4 previous) in
          mk_market_levels \<lparr>previous_month_high = month_high, previous_month_low = month_low,
            previous_week_high = week_high, previous_week_low = week_low, d2hh = Some h2, d2ll = Some l2,
            d3hh = Some h3, d3ll = Some l3, d4hh = Some h4, d4ll = Some l4,
            current_day_high = Some day_high, current_day_low = Some day_low\<rparr>)"

section \<open>Highs and lows of well-formed bars\<close>

lemma high_low_wf:
  assumes "bars \<noteq> []" and "list_all wf_bar bars"
  shows "0 \<le> snd (high_low bars)" and "snd (high_low bars) \<le> fst (high_low bars)"
proof -
  from assms(1) obtain b where b: "b \<in> set bars" "py_min (map bar_low bars) = bar_low b"
    using py_min_in [of "map bar_low bars"] by auto
  with assms(2) have wf: "wf_bar b" by (simp add: list_all_iff)
  then show "0 \<le> snd (high_low bars)" using b(2) by (simp add: high_low_def wf_bar_def)
  have "bar_low b \<le> bar_high b" using wf by (auto simp: wf_bar_def)
  also have "\<dots> \<le> py_max (map bar_high bars)" using b(1) by (intro py_max_ge) simp
  finally show "snd (high_low bars) \<le> fst (high_low bars)" using b(2) by (simp add: high_low_def)
qed

lemma high_low_mono:
  assumes "xs \<noteq> []" and "set xs \<subseteq> set ys"
  shows "fst (high_low xs) \<le> fst (high_low ys)" and "snd (high_low ys) \<le> snd (high_low xs)"
  using py_max_in [of "map bar_high xs"] py_min_in [of "map bar_low xs"] assms
  by (auto simp: high_low_def intro!: py_max_ge py_min_le)

lemma last_n_subset: "m \<le> n \<Longrightarrow> set (last_n m xs) \<subseteq> set (last_n n xs)"
  by (simp add: last_n_def set_drop_subset_set_drop)

lemma last_n_ne: "xs \<noteq> [] \<Longrightarrow> 0 < n \<Longrightarrow> last_n n xs \<noteq> []"
  by (cases xs) (auto simp: last_n_def)

lemma last_n_all: "list_all P xs \<Longrightarrow> list_all P (last_n n xs)"
  by (auto simp: last_n_def list_all_iff dest: in_set_dropD)

lemma completed_levels_wf:
  assumes "list_all wf_bar daily" and "completed_previous_levels key daily current = (h, l)"
  shows "nonneg_opt h \<and> nonneg_opt l \<and> ordered_opt h l"
proof (cases "h = None")
  case True
  with assms(2) show ?thesis
    by (auto simp: completed_previous_levels_def Let_def nonneg_opt_def ordered_opt_def map_prod_def split: if_splits prod.splits)
next
  case False
  with assms(2) obtain bars where bars: "bars \<noteq> []" "set bars \<subseteq> set daily" "h = Some (fst (high_low bars))" "l = Some (snd (high_low bars))"
    by (fastforce simp: completed_previous_levels_def Let_def map_prod_def split: if_splits prod.splits)
  from bars(2) assms(1) have "list_all wf_bar bars" by (auto simp: list_all_iff)
  from high_low_wf [OF bars(1) this] show ?thesis unfolding bars(3,4) nonneg_opt_def ordered_opt_def by simp
qed

lemma current_levels_wf:
  assumes "wf_bar latest" and "case intraday of None \<Rightarrow> True | Some bars \<Rightarrow> list_all wf_bar bars"
  shows "0 \<le> snd (resolve_current_day_levels d latest intraday) \<and>
    snd (resolve_current_day_levels d latest intraday) \<le> fst (resolve_current_day_levels d latest intraday)"
proof -
  let ?m = "case intraday of None \<Rightarrow> [] | Some bars \<Rightarrow> filter (\<lambda>b. bar_day b = d) bars"
  have "list_all wf_bar ?m" using assms(2) by (auto simp: list_all_iff split: option.splits)
  with high_low_wf [of ?m] assms(1) show ?thesis
    by (auto simp: resolve_current_day_levels_def Let_def wf_bar_def)
qed

section \<open>The running day\<close>

text \<open>The ten levels of completed days.\<close>

definition completed :: "market_levels \<Rightarrow> market_levels" where
  "completed m = m\<lparr>current_day_high := None, current_day_low := None\<rparr>"

lemma sort_key_latest: "(\<And>x. x \<in> set bs \<Longrightarrow> f x \<le> f b) \<Longrightarrow> sort_key f (bs @ [b]) = sort_key f bs @ [b]"
proof (induction bs)
  case (Cons x xs)
  have "insort_key f x (ys @ [b]) = insort_key f x ys @ [b]" for ys
    using Cons.prems [of x] by (induction ys) auto
  with Cons show ?case by simp
qed simp

lemma completed_levels_running_day:
  "key b = current \<Longrightarrow> completed_previous_levels key (xs @ [b]) current = completed_previous_levels key xs current"
  by (simp add: completed_previous_levels_def)

lemma build_market_levels_snoc:
  assumes "\<And>x. x \<in> set bs \<Longrightarrow> bar_timestamp x \<le> bar_timestamp b" and "build_market_levels (bs @ [b]) intraday = Inr m"
  shows "completed m = (let previous = sort_key bar_timestamp bs;
      months = completed_previous_levels bar_month_key previous (bar_month_key b);
      weeks = completed_previous_levels week_key previous (week_key b) in
      \<lparr>previous_month_high = fst months, previous_month_low = snd months,
       previous_week_high = fst weeks, previous_week_low = snd weeks,
       d2hh = Some (fst (high_low (last_n 2 previous))), d2ll = Some (snd (high_low (last_n 2 previous))),
       d3hh = Some (fst (high_low (last_n 3 previous))), d3ll = Some (snd (high_low (last_n 3 previous))),
       d4hh = Some (fst (high_low (last_n 4 previous))), d4ll = Some (snd (high_low (last_n 4 previous))),
       current_day_high = None, current_day_low = None\<rparr>)"
proof -
  have sorted: "sort_key bar_timestamp (bs @ [b]) = sort_key bar_timestamp bs @ [b]" using assms(1) by (rule sort_key_latest)
  have keys: "(year_of (bar_day b), month_of (bar_day b)) = bar_month_key b" "iso_year_week (bar_day b) = week_key b"
    by (simp_all add: bar_month_key_def week_key_def)
  from assms(2) show ?thesis unfolding build_market_levels_def sorted
    by (simp add: Let_def keys completed_levels_running_day split: if_splits prod.splits)
      (simp add: mk_market_levels_ok completed_def)
qed

section \<open>Success\<close>

definition levels_record :: "(price option \<times> price option) \<Rightarrow> (price option \<times> price option) \<Rightarrow> ohlc_bar list \<Rightarrow> price \<times> price \<Rightarrow> market_levels" where
  "levels_record months weeks previous today =
     \<lparr>previous_month_high = fst months, previous_month_low = snd months,
      previous_week_high = fst weeks, previous_week_low = snd weeks,
      d2hh = Some (fst (high_low (last_n 2 previous))), d2ll = Some (snd (high_low (last_n 2 previous))),
      d3hh = Some (fst (high_low (last_n 3 previous))), d3ll = Some (snd (high_low (last_n 3 previous))),
      d4hh = Some (fst (high_low (last_n 4 previous))), d4ll = Some (snd (high_low (last_n 4 previous))),
      current_day_high = Some (fst today), current_day_low = Some (snd today)\<rparr>"

lemma build_market_levels_sorted:
  assumes "sort_key bar_timestamp daily = previous @ [latest]" and "4 \<le> length previous"
  shows "build_market_levels daily intraday = mk_market_levels (levels_record
     (completed_previous_levels bar_month_key (previous @ [latest]) (year_of (bar_day latest), month_of (bar_day latest)))
     (completed_previous_levels week_key (previous @ [latest]) (iso_year_week (bar_day latest)))
     previous (resolve_current_day_levels (bar_day latest) latest intraday))"
proof -
  from assms(1) have "daily \<noteq> []" by auto
  then show ?thesis using assms(2) unfolding build_market_levels_def assms(1)
    by (simp add: Let_def split_def levels_record_def)
qed

lemma levels_record_wf:
  assumes "list_all wf_bar previous" and "previous \<noteq> []" and "0 \<le> snd today" and "snd today \<le> fst today"
    and "nonneg_opt (fst ms) \<and> nonneg_opt (snd ms) \<and> ordered_opt (fst ms) (snd ms)"
    and "nonneg_opt (fst ws) \<and> nonneg_opt (snd ws) \<and> ordered_opt (fst ws) (snd ws)"
  shows "wf_market_levels (levels_record ms ws previous today)"
proof -
  have n: "0 \<le> snd (high_low (last_n k previous))" "0 \<le> fst (high_low (last_n k previous))" if "0 < k" for k
    using high_low_wf [OF last_n_ne [OF assms(2) that] last_n_all [OF assms(1)]] by linarith+
  have "0 \<le> fst today" using assms(3,4) by linarith
  then show ?thesis using n [of 2] n [of 3] n [of 4] assms(3-6)
    by (simp add: levels_record_def wf_market_levels_def) (simp add: nonneg_opt_def ordered_opt_def)
qed

lemma build_market_levels_succeeds:
  assumes "list_all wf_bar daily" and "case intraday of None \<Rightarrow> True | Some bars \<Rightarrow> list_all wf_bar bars" and "5 \<le> length daily"
  shows "\<exists>previous latest ms ws. sort_key bar_timestamp daily = previous @ [latest] \<and> 4 \<le> length previous \<and>
    wf_market_levels (levels_record ms ws previous (resolve_current_day_levels (bar_day latest) latest intraday)) \<and>
    build_market_levels daily intraday = Inr (levels_record ms ws previous (resolve_current_day_levels (bar_day latest) latest intraday))"
proof -
  from assms(3) have "sort_key bar_timestamp daily \<noteq> []" by (cases daily) auto
  then obtain previous latest where s: "sort_key bar_timestamp daily = previous @ [latest]" by (metis rev_exhaust)
  then have "length (previous @ [latest]) = length daily" by (metis length_sort)
  with assms(3) have len: "4 \<le> length previous" "previous \<noteq> []" by auto
  have wf: "list_all wf_bar (previous @ [latest])" using assms(1) unfolding s [symmetric] by (simp add: list_all_iff)
  let ?ms = "completed_previous_levels bar_month_key (previous @ [latest]) (year_of (bar_day latest), month_of (bar_day latest))"
  let ?ws = "completed_previous_levels week_key (previous @ [latest]) (iso_year_week (bar_day latest))"
  have "wf_market_levels (levels_record ?ms ?ws previous (resolve_current_day_levels (bar_day latest) latest intraday))"
    using wf len(2) current_levels_wf [OF _ assms(2), of latest "bar_day latest"]
      completed_levels_wf [OF wf, of bar_month_key _ "fst ?ms" "snd ?ms"] completed_levels_wf [OF wf, of week_key _ "fst ?ws" "snd ?ws"]
    by (intro levels_record_wf) simp_all
  with s len(1) build_market_levels_sorted [OF s len(1), of intraday] mk_market_levels_ok show ?thesis by metis
qed

section \<open>Properties\<close>

text \<open>
  On at least five well-formed daily bars the calculator succeeds with well-formed levels; the
  2-, 3- and 4-day highs and lows are the extremes of the last completed days, so they enclose
  one another; the running day's levels come from its intraday bars when there are any. Fewer
  bars raise.
\<close>
theorem market_levels_of_completed_days:
  assumes "list_all wf_bar daily" and "case intraday of None \<Rightarrow> True | Some bars \<Rightarrow> list_all wf_bar bars"
  shows "case build_market_levels daily intraday of
      Inl e \<Rightarrow> length daily < 5 \<and> (\<exists>m. e = MarketStructureError m)
    | Inr m \<Rightarrow> 5 \<le> length daily \<and> wf_market_levels m \<and>
        (\<exists>previous latest. sort_key bar_timestamp daily = previous @ [latest] \<and>
          d2hh m = Some (Max (bar_high ` set (last_n 2 previous))) \<and> d2ll m = Some (Min (bar_low ` set (last_n 2 previous))) \<and>
          d3hh m = Some (Max (bar_high ` set (last_n 3 previous))) \<and> d3ll m = Some (Min (bar_low ` set (last_n 3 previous))) \<and>
          d4hh m = Some (Max (bar_high ` set (last_n 4 previous))) \<and> d4ll m = Some (Min (bar_low ` set (last_n 4 previous))) \<and>
          the (d2hh m) \<le> the (d3hh m) \<and> the (d3hh m) \<le> the (d4hh m) \<and> the (d4ll m) \<le> the (d3ll m) \<and> the (d3ll m) \<le> the (d2ll m) \<and>
          (current_day_high m, current_day_low m) = map_prod Some Some (resolve_current_day_levels (bar_day latest) latest intraday))"
proof (cases "5 \<le> length daily")
  case False
  then show ?thesis by (auto simp: build_market_levels_def Let_def)
next
  case True
  from build_market_levels_succeeds [OF assms True] obtain previous latest ms ws where
    s: "sort_key bar_timestamp daily = previous @ [latest]" "4 \<le> length previous"
    and m: "wf_market_levels (levels_record ms ws previous (resolve_current_day_levels (bar_day latest) latest intraday))"
      "build_market_levels daily intraday = Inr (levels_record ms ws previous (resolve_current_day_levels (bar_day latest) latest intraday))" by blast
  let ?n = "\<lambda>n. high_low (last_n n previous)"
  have ne: "previous \<noteq> []" using s(2) by auto
  have mono: "fst (?n i) \<le> fst (?n k)" "snd (?n k) \<le> snd (?n i)" if "0 < i" "i \<le> k" for i k
    using high_low_mono [OF last_n_ne [OF ne that(1)] last_n_subset [OF that(2)]] by auto
  have ext: "fst (?n k) = Max (bar_high ` set (last_n k previous))" "snd (?n k) = Min (bar_low ` set (last_n k previous))" if "0 < k" for k
    using last_n_ne [OF ne that] by (simp_all add: high_low_def py_max_Max py_min_Min)
  show ?thesis using True m s(1) mono [of 2 3] mono [of 3 4]
    by (simp add: levels_record_def ext map_prod_def split_def)
qed

text \<open>
  C21: no completed-day level looks at the running day: two runs that differ in the prices of the
  latest daily bar and in the intraday bars give the same ten levels.
\<close>
theorem completed_levels_ignore_running_day:
  assumes "\<And>x. x \<in> set bs \<Longrightarrow> bar_timestamp x \<le> bar_timestamp b" and "bar_timestamp b' = bar_timestamp b"
    and "build_market_levels (bs @ [b]) intraday = Inr m" and "build_market_levels (bs @ [b']) intraday' = Inr m'"
  shows "completed m = completed m'"
proof -
  have "bar_month_key b' = bar_month_key b" "week_key b' = week_key b"
    using assms(2) by (simp_all add: bar_month_key_def week_key_def bar_day_def)
  moreover have "bar_timestamp x \<le> bar_timestamp b'" if "x \<in> set bs" for x using assms(1,2) that by simp
  ultimately show ?thesis
    using build_market_levels_snoc [of bs b', OF _ assms(4)] build_market_levels_snoc [OF assms(1,3)] by simp
qed

section \<open>Witnesses\<close>

definition demo_daily :: "date \<Rightarrow> price \<Rightarrow> ohlc_bar" where
  "demo_daily d x = \<lparr>bar_timestamp = at_time d 0, bar_open = x, bar_high = x + 2, bar_low = x - 2, bar_close = x, bar_volume = None\<rparr>"

definition demo_days :: "ohlc_bar list" where
  "demo_days = [demo_daily 738880 100, demo_daily 738881 101, demo_daily 738882 104, demo_daily 738883 99]"

lemma demo_days_wf: "list_all wf_bar (demo_days @ [demo_daily 738886 x])" if "2 \<le> x"
  using that by (simp add: demo_days_def demo_daily_def wf_bar_def nonneg_opt_def)

lemma market_levels_of_completed_days_witness:
  "\<exists>m. build_market_levels (demo_days @ [demo_daily 738886 150]) None = Inr m \<and> d2hh m = Some 106"
proof -
  have s: "sort_key bar_timestamp (demo_days @ [demo_daily 738886 150]) = demo_days @ [demo_daily 738886 150]"
    by (simp add: demo_days_def demo_daily_def at_time_def us_per_day_def)
  have h: "Max (bar_high ` set (last_n 2 demo_days)) = 106" by (simp add: last_n_def demo_days_def) (simp add: demo_daily_def)
  show ?thesis
    using market_levels_of_completed_days [OF demo_days_wf, of 150 None]
    unfolding s by (auto simp: h demo_days_def [THEN arg_cong [where f = length]] split: sum.splits)
qed

lemma completed_levels_ignore_running_day_witness:
  "\<exists>m m'. build_market_levels (demo_days @ [demo_daily 738886 150]) None = Inr m \<and>
    build_market_levels (demo_days @ [demo_daily 738886 90]) None = Inr m' \<and> completed m = completed m'"
proof -
  have ok: "\<exists>m. build_market_levels (demo_days @ [demo_daily 738886 x]) None = Inr m" if "2 \<le> x" for x
    using build_market_levels_succeeds [OF demo_days_wf [OF that], of None] by (auto simp: demo_days_def)
  obtain m m' where m: "build_market_levels (demo_days @ [demo_daily 738886 150]) None = Inr m"
    "build_market_levels (demo_days @ [demo_daily 738886 90]) None = Inr m'" using ok [of 150] ok [of 90] by auto
  have "bar_timestamp x \<le> bar_timestamp (demo_daily 738886 150)" if "x \<in> set demo_days" for x
    using that by (auto simp: demo_days_def demo_daily_def at_time_def us_per_day_def)
  from completed_levels_ignore_running_day [OF this _ m] m show ?thesis by (simp add: demo_daily_def)
qed

end
