(* ===== verification/Recalculation.thy ===== *)
theory Recalculation
  imports Domain
begin

text \<open>
  \<^verbatim>\<open>src/tfis/strategy/s23_recalculation.py\<close>: the recalculated strikes, premiums and entry of the
  four S23 branches when the entry was missed. Fields of a snapshot carry the prefix \<open>is_\<close>, of
  the input \<open>ri_\<close>, of the result \<open>rr_\<close>.
\<close>

section \<open>Input and result\<close>

record intraday_snapshot =
  is_timestamp :: datetime
  is_spot_low :: price
  is_spot_high :: price
  is_option_low :: price
  is_option_high :: price

record recalculation_input =
  ri_branch_unique_code :: string
  ri_option_type :: option_type
  ri_monthly_status :: monthly_status
  ri_base_trade_plan :: trade_plan
  ri_market_levels :: market_levels
  ri_option_levels :: "(string, price) dict"
  ri_parameters :: "(string, price) dict"
  ri_snapshot_at_orpt :: intraday_snapshot
  ri_snapshot_at_recalc :: intraday_snapshot
  ri_entry_missed :: bool

record recalculation_result =
  rr_recalculated :: bool
  rr_reason :: string
  rr_start_strike :: "int option"
  rr_end_strike :: "int option"
  rr_ideal_premium :: "price option"
  rr_minimum_premium :: "price option"
  rr_entry_price :: "price option"
  rr_source_rule :: "string option"
  rr_audit_notes :: "string list"

definition not_recalculated :: "string \<Rightarrow> string \<Rightarrow> recalculation_result" where
  "not_recalculated reason note = \<lparr>rr_recalculated = False, rr_reason = reason, rr_start_strike = None,
     rr_end_strike = None, rr_ideal_premium = None, rr_minimum_premium = None, rr_entry_price = None,
     rr_source_rule = None, rr_audit_notes = [note]\<rparr>"

section \<open>The engine\<close>

definition require_market_level :: "price option \<Rightarrow> string \<Rightarrow> price res" where
  "require_market_level v name = (case v of Some x \<Rightarrow> Inr x
     | None \<Rightarrow> Inl (ValueError [Txt ''Missing market level for recalculation: '', Txt name]))"

definition require_option_level :: "(string, price) dict \<Rightarrow> string \<Rightarrow> price res" where
  "require_option_level levels name = (case map_of levels name of Some x \<Rightarrow> Inr x
     | None \<Rightarrow> Inl (ValueError [Txt ''Missing option reference for recalculation: '', Txt name]))"

definition required_parameters :: "string list" where
  "required_parameters = [''strike_buffer_pct'', ''ideal_premium_pct'', ''minimum_premium_pct'', ''entry_discount_pct'']"

fun join_names :: "string list \<Rightarrow> string" where
  "join_names [] = []"
| "join_names [x] = x"
| "join_names (x # y # xs) = x @ '', '' @ join_names (y # xs)"

definition require_parameters :: "recalculation_input \<Rightarrow> (string \<Rightarrow> price) res" where
  "require_parameters i =
     (let missing = filter (\<lambda>n. map_of (ri_parameters i) n = None) required_parameters in
      if missing \<noteq> [] then Inl (ValueError [Txt ''Missing S23 recalculation parameter(s): '', Txt (join_names missing)])
      else Inr (\<lambda>n. the (map_of (ri_parameters i) n)))"

definition percent_of :: "price \<Rightarrow> price \<Rightarrow> price" where
  "percent_of base pct = base * (pct / 100)"

definition percent_above :: "price \<Rightarrow> price \<Rightarrow> price" where
  "percent_above base pct = base * (1 + pct / 100)"

definition percent_below :: "price \<Rightarrow> price \<Rightarrow> price" where
  "percent_below base pct = base * (1 - pct / 100)"

text \<open>The two call branches: the trailing low they use, by its level, its name and its option name.\<close>

definition recalculate_call ::
  "recalculation_input \<Rightarrow> price option \<Rightarrow> string \<Rightarrow> string \<Rightarrow> string \<Rightarrow> string \<Rightarrow> recalculation_result res" where
  "recalculate_call i level name option_name reason source =
     bindE (require_parameters i) (\<lambda>param.
     bindE (require_market_level level name) (\<lambda>market.
     let reference = min market (is_spot_low (ri_snapshot_at_recalc i)) in
     bindE (require_option_level (ri_option_levels i) option_name) (\<lambda>opt.
     let entry = min opt (is_option_low (ri_snapshot_at_recalc i)) in
     Inr \<lparr>rr_recalculated = True, rr_reason = reason,
       rr_start_strike = Some \<lfloor>percent_above reference (param ''strike_buffer_pct'')\<rfloor>,
       rr_end_strike = Some (\<lfloor>reference\<rfloor> - 1),
       rr_ideal_premium = Some (percent_of reference (param ''ideal_premium_pct'')),
       rr_minimum_premium = Some (percent_of reference (param ''minimum_premium_pct'')),
       rr_entry_price = Some (percent_below entry (param ''entry_discount_pct'')),
       rr_source_rule = Some source,
       rr_audit_notes = [''Used MIN('' @ name @ '', recalc_spot_low) for strike and premium recalculation.'',
         ''Used MIN('' @ option_name @ '', recalc_option_low) for recalculated entry.'']\<rparr>)))"

text \<open>The two put branches.\<close>

definition recalculate_put ::
  "recalculation_input \<Rightarrow> price option \<Rightarrow> string \<Rightarrow> string \<Rightarrow> string \<Rightarrow> string \<Rightarrow> recalculation_result res" where
  "recalculate_put i level name option_name reason source =
     bindE (require_parameters i) (\<lambda>param.
     bindE (require_market_level level name) (\<lambda>market.
     let strike_reference = max market (is_spot_high (ri_snapshot_at_recalc i));
         premium_reference = min market (is_spot_low (ri_snapshot_at_recalc i)) in
     bindE (require_option_level (ri_option_levels i) option_name) (\<lambda>opt.
     let entry = min opt (is_option_low (ri_snapshot_at_recalc i)) in
     Inr \<lparr>rr_recalculated = True, rr_reason = reason,
       rr_start_strike = Some \<lceil>percent_below strike_reference (param ''strike_buffer_pct'')\<rceil>,
       rr_end_strike = Some (\<lceil>strike_reference\<rceil> + 1),
       rr_ideal_premium = Some (percent_of premium_reference (param ''ideal_premium_pct'')),
       rr_minimum_premium = Some (percent_of premium_reference (param ''minimum_premium_pct'')),
       rr_entry_price = Some (percent_below entry (param ''entry_discount_pct'')),
       rr_source_rule = Some source,
       rr_audit_notes = [''Used MAX('' @ name @ '', recalc_spot_high) for recalculated strike range.'',
         ''Used MIN('' @ name @ '', recalc_spot_low) for recalculated ideal and minimum premium.'',
         ''Used MIN('' @ option_name @ '', recalc_option_low) for recalculated entry.'']\<rparr>)))"

definition BULL_CALL_CODE :: string where "BULL_CALL_CODE = ''NIFTY_OP_SELL_WK_DIFF_2D_3D''"
definition BULL_PUT_CODE :: string where "BULL_PUT_CODE = ''NIFTY_OP_SELL_WK_DIFF_2D_3D_BULL_PUT''"
definition BEAR_CALL_CODE :: string where "BEAR_CALL_CODE = ''NIFTY_OP_SELL_WK_DIFF_2D_3D_BEAR_CALL''"
definition BEAR_PUT_CODE :: string where "BEAR_PUT_CODE = ''NIFTY_OP_SELL_WK_DIFF_2D_3D_BEAR_PUT''"

definition recalculate_bull_call :: "recalculation_input \<Rightarrow> recalculation_result res" where
  "recalculate_bull_call i = recalculate_call i (d3ll (ri_market_levels i)) ''PRV_3DLL'' ''OPT_PRV_3DLL''
     ''s23_bull_call_recalculated'' ''S23_BULL_CALL_RECALC_V1''"

definition recalculate_bear_call :: "recalculation_input \<Rightarrow> recalculation_result res" where
  "recalculate_bear_call i = recalculate_call i (d2ll (ri_market_levels i)) ''PRV_2DLL'' ''OPT_PRV_2DLL''
     ''s23_bear_call_recalculated'' ''S23_BEAR_CALL_RECALC_V1''"

definition recalculate_bull_put :: "recalculation_input \<Rightarrow> recalculation_result res" where
  "recalculate_bull_put i = recalculate_put i (d2hh (ri_market_levels i)) ''PRV_2DHH'' ''OPT_PRV_2DLL''
     ''s23_bull_put_recalculated'' ''S23_BULL_PUT_RECALC_V1''"

definition recalculate_bear_put :: "recalculation_input \<Rightarrow> recalculation_result res" where
  "recalculate_bear_put i = recalculate_put i (d3hh (ri_market_levels i)) ''PRV_3DHH'' ''OPT_PRV_3DLL''
     ''s23_bear_put_recalculated'' ''S23_BEAR_PUT_RECALC_V1''"

definition recalculate :: "recalculation_input \<Rightarrow> recalculation_result res" where
  "recalculate i =
     (if \<not> ri_entry_missed i
      then Inr (not_recalculated ''entry_not_missed'' ''Entry was not marked as missed, so no recalculation was applied.'')
      else if ri_branch_unique_code i = BULL_CALL_CODE then recalculate_bull_call i
      else if ri_branch_unique_code i = BEAR_CALL_CODE then recalculate_bear_call i
      else if ri_branch_unique_code i = BULL_PUT_CODE then recalculate_bull_put i
      else if ri_branch_unique_code i = BEAR_PUT_CODE then recalculate_bear_put i
      else Inr (not_recalculated ''unsupported_branch'' (''Unsupported S23 recalculation branch: '' @ ri_branch_unique_code i)))"

section \<open>Bounds\<close>

text \<open>The reference levels of the branch of an input, its put branches included, and its option level.\<close>

definition put_branch :: "recalculation_input \<Rightarrow> bool" where
  "put_branch i \<longleftrightarrow> ri_branch_unique_code i \<in> {BULL_PUT_CODE, BEAR_PUT_CODE}"

definition branch_level :: "recalculation_input \<Rightarrow> price option" where
  "branch_level i = (let c = ri_branch_unique_code i; m = ri_market_levels i in
     if c = BULL_CALL_CODE then d3ll m else if c = BEAR_CALL_CODE then d2ll m
     else if c = BULL_PUT_CODE then d2hh m else d3hh m)"

definition branch_option_level :: "recalculation_input \<Rightarrow> price option" where
  "branch_option_level i = map_of (ri_option_levels i)
     (if ri_branch_unique_code i \<in> {BULL_CALL_CODE, BEAR_PUT_CODE} then ''OPT_PRV_3DLL'' else ''OPT_PRV_2DLL'')"

definition s23_branch :: "recalculation_input \<Rightarrow> bool" where
  "s23_branch i \<longleftrightarrow> ri_branch_unique_code i \<in> {BULL_CALL_CODE, BEAR_CALL_CODE, BULL_PUT_CODE, BEAR_PUT_CODE}"

lemma codes_distinct [simp]:
  "BULL_CALL_CODE \<noteq> BEAR_CALL_CODE" "BULL_CALL_CODE \<noteq> BULL_PUT_CODE" "BULL_CALL_CODE \<noteq> BEAR_PUT_CODE"
  "BEAR_CALL_CODE \<noteq> BULL_PUT_CODE" "BEAR_CALL_CODE \<noteq> BEAR_PUT_CODE" "BULL_PUT_CODE \<noteq> BEAR_PUT_CODE"
  "BEAR_CALL_CODE \<noteq> BULL_CALL_CODE" "BULL_PUT_CODE \<noteq> BULL_CALL_CODE" "BEAR_PUT_CODE \<noteq> BULL_CALL_CODE"
  "BULL_PUT_CODE \<noteq> BEAR_CALL_CODE" "BEAR_PUT_CODE \<noteq> BEAR_CALL_CODE" "BEAR_PUT_CODE \<noteq> BULL_PUT_CODE"
  by (simp_all add: BULL_CALL_CODE_def BEAR_CALL_CODE_def BULL_PUT_CODE_def BEAR_PUT_CODE_def)

definition configured :: "recalculation_input \<Rightarrow> bool" where
  "configured i \<longleftrightarrow> list_all (\<lambda>n. map_of (ri_parameters i) n \<noteq> None) required_parameters \<and>
     branch_level i \<noteq> None \<and> branch_option_level i \<noteq> None"

definition param_of :: "recalculation_input \<Rightarrow> string \<Rightarrow> price" where
  "param_of i n = (case map_of (ri_parameters i) n of None \<Rightarrow> 0 | Some x \<Rightarrow> x)"

lemma floor_range: "0 \<le> x \<Longrightarrow> 0 \<le> p \<Longrightarrow> \<lfloor>x :: price\<rfloor> - 1 < \<lfloor>percent_above x p\<rfloor>"
proof -
  assume "0 \<le> x" "0 \<le> p"
  then have "x \<le> percent_above x p" by (simp add: percent_above_def algebra_simps)
  then have "\<lfloor>x\<rfloor> \<le> \<lfloor>percent_above x p\<rfloor>" by (rule floor_mono)
  then show ?thesis by simp
qed

lemma percent_below_le: "0 \<le> x \<Longrightarrow> 0 \<le> p \<Longrightarrow> percent_below x p \<le> x"
  by (simp add: percent_below_def algebra_simps)

lemma ceiling_range: "0 \<le> x \<Longrightarrow> 0 \<le> p \<Longrightarrow> \<lceil>percent_below x p\<rceil> < \<lceil>x :: price\<rceil> + 1"
proof -
  assume "0 \<le> x" "0 \<le> p"
  then have "percent_below x p \<le> x" by (rule percent_below_le)
  then have "\<lceil>percent_below x p\<rceil> \<le> \<lceil>x\<rceil>" by (rule ceiling_mono)
  then show ?thesis by simp
qed

text \<open>A recalculation that happened, by its references: \<open>s\<close> for the strikes, \<open>p\<close> the premiums, \<open>e\<close> the entry.\<close>

definition recalculated_from :: "recalculation_input \<Rightarrow> price \<Rightarrow> price \<Rightarrow> price \<Rightarrow> recalculation_result \<Rightarrow> bool" where
  "recalculated_from i s p e r \<longleftrightarrow> rr_recalculated r \<and>
     rr_start_strike r = Some (if put_branch i then \<lceil>percent_below s (param_of i ''strike_buffer_pct'')\<rceil>
       else \<lfloor>percent_above s (param_of i ''strike_buffer_pct'')\<rfloor>) \<and>
     rr_end_strike r = Some (if put_branch i then \<lceil>s\<rceil> + 1 else \<lfloor>s\<rfloor> - 1) \<and>
     rr_ideal_premium r = Some (percent_of p (param_of i ''ideal_premium_pct'')) \<and>
     rr_minimum_premium r = Some (percent_of p (param_of i ''minimum_premium_pct'')) \<and>
     rr_entry_price r = Some (percent_below e (param_of i ''entry_discount_pct''))"

definition parameters_present :: "recalculation_input \<Rightarrow> bool" where
  "parameters_present i \<longleftrightarrow> list_all (\<lambda>n. map_of (ri_parameters i) n \<noteq> None) required_parameters"

lemma require_parameters_if: "require_parameters i = (if parameters_present i then Inr (\<lambda>n. the (map_of (ri_parameters i) n))
    else Inl (ValueError [Txt ''Missing S23 recalculation parameter(s): '',
      Txt (join_names (filter (\<lambda>n. map_of (ri_parameters i) n = None) required_parameters))]))"
  by (auto simp: require_parameters_def parameters_present_def Let_def filter_empty_conv list_all_iff)

lemma present_param: "parameters_present i \<Longrightarrow> n \<in> set required_parameters \<Longrightarrow> the (map_of (ri_parameters i) n) = param_of i n"
  by (auto simp: parameters_present_def param_of_def list_all_iff split: option.splits)

abbreviation spot_low :: "recalculation_input \<Rightarrow> price" where
  "spot_low i \<equiv> is_spot_low (ri_snapshot_at_recalc i)"

lemma recalculate_call_ok:
  assumes "parameters_present i" and "map_of (ri_option_levels i) oname = Some opt" and "\<not> put_branch i"
  shows "\<exists>r. recalculate_call i (Some level) name oname reason source = Inr r \<and> recalculated_from i (min level (spot_low i))
    (min level (spot_low i)) (min opt (is_option_low (ri_snapshot_at_recalc i))) r"
  using assms present_param [OF assms(1)]
  by (simp add: recalculate_call_def require_parameters_if require_market_level_def require_option_level_def Let_def
      recalculated_from_def required_parameters_def)

lemma recalculate_put_ok:
  assumes "parameters_present i" and "map_of (ri_option_levels i) oname = Some opt" and "put_branch i"
  shows "\<exists>r. recalculate_put i (Some level) name oname reason source = Inr r \<and> recalculated_from i
    (max level (is_spot_high (ri_snapshot_at_recalc i))) (min level (spot_low i)) (min opt (is_option_low (ri_snapshot_at_recalc i))) r"
  using assms present_param [OF assms(1)]
  by (simp add: recalculate_put_def require_parameters_if require_market_level_def require_option_level_def Let_def
      recalculated_from_def required_parameters_def)

lemma recalculate_fails:
  assumes "\<not> (parameters_present i \<and> level \<noteq> None \<and> map_of (ri_option_levels i) oname \<noteq> None)"
  shows "\<exists>m. recalculate_call i level name oname reason source = Inl (ValueError m)"
    and "\<exists>m. recalculate_put i level name oname reason source = Inl (ValueError m)"
  using assms by (auto simp: recalculate_call_def recalculate_put_def require_parameters_if require_market_level_def
      require_option_level_def Let_def split: option.split)

definition strike_reference :: "recalculation_input \<Rightarrow> price \<Rightarrow> price" where
  "strike_reference i level = (if put_branch i then max level (is_spot_high (ri_snapshot_at_recalc i)) else min level (spot_low i))"

lemma branch_cases:
  assumes "ri_entry_missed i" and "s23_branch i"
  obtains name oname reason source where "recalculate i = (if put_branch i then recalculate_put i (branch_level i) name oname reason source
      else recalculate_call i (branch_level i) name oname reason source)"
    and "branch_option_level i = map_of (ri_option_levels i) oname"
proof -
  from assms(2) consider "ri_branch_unique_code i = BULL_CALL_CODE" | "ri_branch_unique_code i = BEAR_CALL_CODE"
    | "ri_branch_unique_code i = BULL_PUT_CODE" | "ri_branch_unique_code i = BEAR_PUT_CODE" by (auto simp: s23_branch_def)
  then show thesis
  proof cases
    case 1
    with assms(1) show thesis
      by (intro that [of "''PRV_3DLL''" "''OPT_PRV_3DLL''" "''s23_bull_call_recalculated''" "''S23_BULL_CALL_RECALC_V1''"])
        (simp_all add: recalculate_def recalculate_bull_call_def put_branch_def branch_level_def branch_option_level_def)
  next
    case 2
    with assms(1) show thesis
      by (intro that [of "''PRV_2DLL''" "''OPT_PRV_2DLL''" "''s23_bear_call_recalculated''" "''S23_BEAR_CALL_RECALC_V1''"])
        (simp_all add: recalculate_def recalculate_bear_call_def put_branch_def branch_level_def branch_option_level_def Let_def)
  next
    case 3
    with assms(1) show thesis
      by (intro that [of "''PRV_2DHH''" "''OPT_PRV_2DLL''" "''s23_bull_put_recalculated''" "''S23_BULL_PUT_RECALC_V1''"])
        (simp_all add: recalculate_def recalculate_bull_put_def put_branch_def branch_level_def branch_option_level_def Let_def)
  next
    case 4
    with assms(1) show thesis
      by (intro that [of "''PRV_3DHH''" "''OPT_PRV_3DLL''" "''s23_bear_put_recalculated''" "''S23_BEAR_PUT_RECALC_V1''"])
        (simp_all add: recalculate_def recalculate_bear_put_def put_branch_def branch_level_def branch_option_level_def Let_def)
  qed
qed

lemma recalculate_cases:
  "(\<not> (ri_entry_missed i \<and> s23_branch i) \<and> (\<exists>r. recalculate i = Inr r \<and> \<not> rr_recalculated r)) \<or>
   (ri_entry_missed i \<and> s23_branch i \<and> \<not> configured i \<and> (\<exists>m. recalculate i = Inl (ValueError m))) \<or>
   (ri_entry_missed i \<and> s23_branch i \<and> configured i \<and> (\<exists>r level opt. recalculate i = Inr r \<and>
      branch_level i = Some level \<and> branch_option_level i = Some opt \<and>
      recalculated_from i (strike_reference i level) (min level (spot_low i)) (min opt (is_option_low (ri_snapshot_at_recalc i))) r))"
proof (cases "ri_entry_missed i \<and> s23_branch i")
  case False
  then show ?thesis by (auto simp: recalculate_def s23_branch_def not_recalculated_def)
next
  case True
  then obtain name oname reason source where run: "recalculate i = (if put_branch i then recalculate_put i (branch_level i) name oname reason source
      else recalculate_call i (branch_level i) name oname reason source)" and o: "branch_option_level i = map_of (ri_option_levels i) oname"
    using branch_cases by blast
  have conf: "configured i \<longleftrightarrow> parameters_present i \<and> branch_level i \<noteq> None \<and> map_of (ri_option_levels i) oname \<noteq> None"
    by (simp add: configured_def parameters_present_def o)
  show ?thesis
  proof (cases "configured i")
    case False
    then have "\<exists>m. recalculate i = Inl (ValueError m)"
      using recalculate_fails [of i "branch_level i" oname name reason source] unfolding run conf by simp
    with True False show ?thesis by blast
  next
    case c: True
    then obtain level opt where l: "branch_level i = Some level" "map_of (ri_option_levels i) oname = Some opt" and p: "parameters_present i"
      by (auto simp: conf)
    have "\<exists>r. recalculate i = Inr r \<and>
        recalculated_from i (strike_reference i level) (min level (spot_low i)) (min opt (is_option_low (ri_snapshot_at_recalc i))) r"
      using recalculate_call_ok [OF p l(2), of level name reason source] recalculate_put_ok [OF p l(2), of level name reason source]
      unfolding run l strike_reference_def by simp
    with True c l o show ?thesis by auto
  qed
qed

section \<open>Properties\<close>

text \<open>
  A recalculation happens exactly for a missed entry of one of the four S23 branches whose
  parameters and reference levels are present; a missed entry of such a branch without them
  raises, and any other call returns that nothing was recalculated.
\<close>
theorem recalculation_happens_iff:
  shows "case recalculate i of
      Inl e \<Rightarrow> ri_entry_missed i \<and> s23_branch i \<and> \<not> configured i \<and> (\<exists>m. e = ValueError m)
    | Inr r \<Rightarrow> rr_recalculated r \<longleftrightarrow> ri_entry_missed i \<and> s23_branch i \<and> configured i"
  using recalculate_cases [of i] by (auto simp: recalculated_from_def)

text \<open>
  With non-negative prices and percentages a recalculated strike range is never empty: a call
  range runs downwards from its start, a put range upwards; the entry is at most the trailing
  option low and the option low seen, and the minimum premium is at most the ideal one when its
  percentage is.
\<close>
theorem recalculated_values_bounded:
  assumes "recalculate i = Inr r" and "rr_recalculated r" and "branch_level i = Some level" and "branch_option_level i = Some opt"
    and "0 \<le> level" and "0 \<le> opt" and "0 \<le> is_spot_low (ri_snapshot_at_recalc i)" and "0 \<le> is_option_low (ri_snapshot_at_recalc i)"
    and "0 \<le> param_of i ''strike_buffer_pct''" and "0 \<le> param_of i ''entry_discount_pct''"
    and "param_of i ''minimum_premium_pct'' \<le> param_of i ''ideal_premium_pct''"
  shows "\<exists>start stop ideal minimum entry. rr_start_strike r = Some start \<and> rr_end_strike r = Some stop \<and>
    rr_ideal_premium r = Some ideal \<and> rr_minimum_premium r = Some minimum \<and> rr_entry_price r = Some entry \<and>
    (if put_branch i then start < stop else stop < start) \<and> minimum \<le> ideal \<and>
    entry \<le> opt \<and> entry \<le> is_option_low (ri_snapshot_at_recalc i)"
proof -
  let ?low = "min level (is_spot_low (ri_snapshot_at_recalc i))" and ?e = "min opt (is_option_low (ri_snapshot_at_recalc i))"
  let ?s = "strike_reference i level"
  from recalculate_cases [of i] assms(1-4) have r: "recalculated_from i ?s ?low ?e r" by auto
  have "0 \<le> ?s" "0 \<le> ?low" "0 \<le> ?e" using assms(5-8) by (auto simp: strike_reference_def)
  moreover have "percent_below ?e (param_of i ''entry_discount_pct'') \<le> ?e"
    using \<open>0 \<le> ?e\<close> assms(10) by (rule percent_below_le)
  moreover have "percent_of ?low (param_of i ''minimum_premium_pct'') \<le> percent_of ?low (param_of i ''ideal_premium_pct'')"
    using \<open>0 \<le> ?low\<close> assms(11) unfolding percent_of_def by (intro mult_left_mono divide_right_mono) simp_all
  ultimately show ?thesis
    using r floor_range [of ?s "param_of i ''strike_buffer_pct''"] ceiling_range [of ?s "param_of i ''strike_buffer_pct''"] assms(9)
    by (auto simp: recalculated_from_def min_def split: if_splits)
qed

section \<open>Witness\<close>

definition demo_input :: recalculation_input where
  "demo_input = \<lparr>ri_branch_unique_code = BULL_CALL_CODE, ri_option_type = CALL, ri_monthly_status = BULL,
     ri_base_trade_plan = \<lparr>tp_strategy_code = ''S23'', tp_symbol = ''NIFTY'', tp_option_type = Some CALL, tp_start_strike = Some 24000,
       tp_end_strike = Some 23000, tp_ideal_premium = Some 100, tp_minimum_premium = Some 50, tp_entry_price = 90, tp_stoploss_price = 120,
       tp_target_price = 40\<rparr>,
     ri_market_levels = \<lparr>previous_month_high = None, previous_month_low = None, previous_week_high = None,
       previous_week_low = None, d2hh = None, d2ll = None, d3hh = None, d3ll = Some 23500, d4hh = None, d4ll = None,
       current_day_high = None, current_day_low = None\<rparr>,
     ri_option_levels = [(''OPT_PRV_3DLL'', 110)],
     ri_parameters = [(''strike_buffer_pct'', 2), (''ideal_premium_pct'', 2), (''minimum_premium_pct'', 1), (''entry_discount_pct'', 5)],
     ri_snapshot_at_orpt = \<lparr>is_timestamp = 0, is_spot_low = 23600, is_spot_high = 23700, is_option_low = 100, is_option_high = 130\<rparr>,
     ri_snapshot_at_recalc = \<lparr>is_timestamp = 0, is_spot_low = 23600, is_spot_high = 23700, is_option_low = 100, is_option_high = 130\<rparr>,
     ri_entry_missed = True\<rparr>"

lemma recalculated_values_bounded_witness:
  "\<exists>r start stop. recalculate demo_input = Inr r \<and> rr_start_strike r = Some start \<and> rr_end_strike r = Some stop \<and> stop < start"
proof -
  have b: "branch_level demo_input = Some 23500" "branch_option_level demo_input = Some 110" "\<not> put_branch demo_input"
    "ri_entry_missed demo_input" "s23_branch demo_input" "configured demo_input"
    by (simp_all add: branch_level_def branch_option_level_def put_branch_def s23_branch_def configured_def required_parameters_def demo_input_def)
  with recalculate_cases [of demo_input] obtain r where r: "recalculate demo_input = Inr r" "rr_recalculated r"
    by (auto simp: recalculated_from_def)
  have "\<exists>start stop. rr_start_strike r = Some start \<and> rr_end_strike r = Some stop \<and> stop < start"
    using recalculated_values_bounded [OF r b(1,2)] b(3) by (auto simp: param_of_def demo_input_def)
  with r show ?thesis by blast
qed

end
