(* ===== verification/ProcessLock.thy ===== *)
theory ProcessLock
  imports Prelude
begin

text \<open>
  \<^verbatim>\<open>src/tfis/runtime/process_lock.py\<close>: the lock file that keeps a second instance of a runtime
  from starting. The operating system is a parameter: \<open>os_exists\<close> says whether a process runs,
  \<open>os_created\<close> when it was created. First the functions as one process runs them, then the same
  file operations as a step relation over several processes, where a crash may come anywhere.
  The logger only reports and is left out.
\<close>

section \<open>The lock file\<close>

text \<open>
  \<open>Blank\<close> is a file whose text is empty, no JSON, or no object (it reads as the empty
  dictionary); it carries the process that created it. A pid or creation time that is missing or
  does not parse is \<open>None\<close>.
\<close>

record lock_payload =
  lp_pid :: "int option"
  lp_label :: string
  lp_created_at :: "datetime option"

datatype lock_file = Absent | Blank int | Written lock_payload

fun payload_pid :: "lock_file \<Rightarrow> int option" where
  "payload_pid Absent = None"
| "payload_pid (Blank c) = None"
| "payload_pid (Written p) = lp_pid p"

fun payload_created_at :: "lock_file \<Rightarrow> datetime option" where
  "payload_created_at (Written p) = lp_created_at p"
| "payload_created_at _ = None"

record os_view =
  os_exists :: "int \<Rightarrow> bool"
  os_created :: "int \<Rightarrow> datetime option"

definition pid_reuse_tolerance :: int where
  "pid_reuse_tolerance = 5 * 1000000"

definition process_created_at :: "os_view \<Rightarrow> int \<Rightarrow> datetime option" where
  "process_created_at os pid = (if pid \<le> 0 then None else os_created os pid)"

definition process_matches_payload :: "os_view \<Rightarrow> int \<Rightarrow> lock_file \<Rightarrow> bool" where
  "process_matches_payload os pid f =
     (if pid \<le> 0 then False
      else case payload_created_at f of None \<Rightarrow> True
      | Some locked \<Rightarrow> case process_created_at os pid of None \<Rightarrow> True
        | Some created \<Rightarrow> created \<le> locked + pid_reuse_tolerance)"

section \<open>Acquire and release\<close>

record lock_handle =
  lh_lock_path :: string
  lh_pid :: int
  lh_label :: string

definition pid_text :: "int option \<Rightarrow> frag" where
  "pid_text x = (case x of None \<Rightarrow> Txt ''None'' | Some p \<Rightarrow> PyInt p)"

definition duplicate_error :: "string \<Rightarrow> string \<Rightarrow> string \<Rightarrow> int option \<Rightarrow> int \<Rightarrow> exn" where
  "duplicate_error label what path existing pid = ProcessLockError ''CRITICAL_DUPLICATE_PROCESS_SHUTDOWN''
     [Txt ''CRITICAL_DUPLICATE_PROCESS_SHUTDOWN: '', Txt label, Txt what, Txt ''; lock='', Txt path,
      Txt ''; existing_pid='', pid_text existing, Txt ''; attempted_pid='', PyInt pid]"

definition live_owner :: "os_view \<Rightarrow> int \<Rightarrow> lock_file \<Rightarrow> bool" where
  "live_owner os pid f = (case payload_pid f of None \<Rightarrow> False
     | Some q \<Rightarrow> q \<noteq> pid \<and> os_exists os q \<and> process_matches_payload os q f)"

definition stale_owner :: "os_view \<Rightarrow> int \<Rightarrow> lock_file \<Rightarrow> bool" where
  "stale_owner os pid f = (case payload_pid f of None \<Rightarrow> False
     | Some q \<Rightarrow> q \<noteq> pid \<and> \<not> (os_exists os q \<and> process_matches_payload os q f))"

text \<open>The attempts of \<^verbatim>\<open>acquire_process_lock\<close>; \<open>now\<close> is the clock for \<^verbatim>\<open>created_at\<close>.\<close>

fun acquire_attempts ::
  "nat \<Rightarrow> os_view \<Rightarrow> string \<Rightarrow> string \<Rightarrow> int \<Rightarrow> datetime \<Rightarrow> (lock_handle, lock_file) op" where
  "acquire_attempts 0 os path label pid now f =
     (Inl (duplicate_error label '' duplicate startup blocked after lock race'' path (payload_pid f) pid), f)"
| "acquire_attempts (Suc n) os path label pid now f =
     (if live_owner os pid f
      then (Inl (duplicate_error label '' duplicate startup blocked'' path (payload_pid f) pid), f)
      else let f' = (if stale_owner os pid f then Absent else f) in
        if f' = Absent
        then (Inr \<lparr>lh_lock_path = path, lh_pid = pid, lh_label = label\<rparr>,
              Written \<lparr>lp_pid = Some pid, lp_label = label, lp_created_at = Some now\<rparr>)
        else acquire_attempts n os path label pid now f')"

definition acquire_process_lock :: "os_view \<Rightarrow> string \<Rightarrow> string \<Rightarrow> int \<Rightarrow> datetime \<Rightarrow> (lock_handle, lock_file) op" where
  "acquire_process_lock = acquire_attempts 2"

definition release_lock :: "lock_handle \<Rightarrow> lock_file \<Rightarrow> lock_file" where
  "release_lock h f = (if payload_pid f \<noteq> Some (lh_pid h) then f else Absent)"

section \<open>Several processes\<close>

text \<open>
  Where a process stands in \<^verbatim>\<open>acquire_process_lock\<close> (the number is that of the attempts left)
  and \<^verbatim>\<open>release\<close>. Each step is one file or system operation: a read, the check whether the process read
  from the file runs (\<open>Checking n q\<close> is between the two), an unlink, an exclusive create, a
  write through the descriptor (lost when the file it created is no longer there). A process ends
  by leaving the program outside the lock or by a crash anywhere. As where no creation time of a
  process is known, a running process of the recorded number matches the payload; numbers are not
  given out twice.
\<close>

datatype lock_pc =
    Outside | Reading nat | Checking nat int | Reclaiming nat | Opening nat | Writing | Holding | Releasing | Blocked | Ended | Crashed

record lock_world =
  pw_file :: lock_file
  pw_pc :: "int \<Rightarrow> lock_pc"
  pw_alive :: "int \<Rightarrow> bool"

definition goto :: "int \<Rightarrow> lock_pc \<Rightarrow> lock_world \<Rightarrow> lock_world" where
  "goto p c w = w\<lparr>pw_pc := (pw_pc w)(p := c)\<rparr>"

definition others_lock :: "int \<Rightarrow> lock_world \<Rightarrow> int option" where
  "others_lock p w = (case payload_pid (pw_file w) of None \<Rightarrow> None | Some q \<Rightarrow> if q = p then None else Some q)"

definition own_payload :: "int \<Rightarrow> lock_payload" where
  "own_payload p = \<lparr>lp_pid = Some p, lp_label = [], lp_created_at = None\<rparr>"

inductive lock_step :: "lock_world \<Rightarrow> lock_world \<Rightarrow> bool" where
  start: "pw_pc w p = Outside \<Longrightarrow> pw_alive w p \<Longrightarrow> lock_step w (goto p (Reading 2) w)"
| read_other: "pw_pc w p = Reading (Suc n) \<Longrightarrow> others_lock p w = Some q \<Longrightarrow> lock_step w (goto p (Checking n q) w)"
| check_live: "pw_pc w p = Checking n q \<Longrightarrow> pw_alive w q \<Longrightarrow> lock_step w (goto p Blocked w)"
| check_dead: "pw_pc w p = Checking n q \<Longrightarrow> \<not> pw_alive w q \<Longrightarrow> lock_step w (goto p (Reclaiming n) w)"
| free: "pw_pc w p = Reading (Suc n) \<Longrightarrow> others_lock p w = None \<Longrightarrow> lock_step w (goto p (Opening n) w)"
| exhausted: "pw_pc w p = Reading 0 \<Longrightarrow> lock_step w (goto p Blocked w)"
| unlink: "pw_pc w p = Reclaiming n \<Longrightarrow> lock_step w (goto p (Opening n) (w\<lparr>pw_file := Absent\<rparr>))"
| create: "pw_pc w p = Opening n \<Longrightarrow> pw_file w = Absent \<Longrightarrow> lock_step w (goto p Writing (w\<lparr>pw_file := Blank p\<rparr>))"
| exists: "pw_pc w p = Opening n \<Longrightarrow> pw_file w \<noteq> Absent \<Longrightarrow> lock_step w (goto p (Reading n) w)"
| fd_write: "pw_pc w p = Writing \<Longrightarrow> pw_file w = Blank p \<Longrightarrow> lock_step w (goto p Holding (w\<lparr>pw_file := Written (own_payload p)\<rparr>))"
| fd_write_lost: "pw_pc w p = Writing \<Longrightarrow> pw_file w \<noteq> Blank p \<Longrightarrow> lock_step w (goto p Holding w)"
| release: "pw_pc w p = Holding \<Longrightarrow> payload_pid (pw_file w) = Some p \<Longrightarrow> lock_step w (goto p Releasing w)"
| release_not_own: "pw_pc w p = Holding \<Longrightarrow> payload_pid (pw_file w) \<noteq> Some p \<Longrightarrow> lock_step w (goto p Outside w)"
| released: "pw_pc w p = Releasing \<Longrightarrow> lock_step w (goto p Outside (w\<lparr>pw_file := Absent\<rparr>))"
| finish: "pw_pc w p \<in> {Outside, Blocked} \<Longrightarrow> pw_alive w p \<Longrightarrow> lock_step w (goto p Ended (w\<lparr>pw_alive := (pw_alive w)(p := False)\<rparr>))"
| crash: "pw_alive w p \<Longrightarrow> lock_step w (goto p Crashed (w\<lparr>pw_alive := (pw_alive w)(p := False)\<rparr>))"

definition initial_world :: lock_world where
  "initial_world = \<lparr>pw_file = Absent, pw_pc = (\<lambda>_. Outside), pw_alive = (\<lambda>_. True)\<rparr>"

definition holds :: "lock_world \<Rightarrow> int \<Rightarrow> bool" where
  "holds w p \<longleftrightarrow> pw_alive w p \<and> pw_pc w p \<in> {Holding, Releasing}"

section \<open>The sequential functions\<close>

lemma live_not_stale: "live_owner os pid f \<Longrightarrow> \<not> stale_owner os pid f"
  by (auto simp: live_owner_def stale_owner_def split: option.splits)

lemma stale_not_absent: "stale_owner os pid f \<Longrightarrow> f \<noteq> Absent"
  by (auto simp: stale_owner_def)

lemma absent_not_live: "\<not> live_owner os pid Absent"
  by (simp add: live_owner_def)

text \<open>
  Run alone, the lock is taken exactly when there is no lock file or one whose owner is gone,
  and then names the new owner; otherwise the duplicate-process error is raised and the file
  stays. A lock file without a readable owner, as a crash between create and write leaves it,
  is never reclaimed by any process.
\<close>
theorem acquire_iff_free_or_stale:
  shows "(case acquire_process_lock os path label pid now f of
      (Inr h, f') \<Rightarrow> (f = Absent \<or> stale_owner os pid f) \<and> lh_pid h = pid \<and> payload_pid f' = Some pid \<and>
        release_lock h f' = Absent
    | (Inl e, f') \<Rightarrow> f \<noteq> Absent \<and> \<not> stale_owner os pid f \<and> f' = f \<and>
        (\<exists>m. e = ProcessLockError ''CRITICAL_DUPLICATE_PROCESS_SHUTDOWN'' m)) \<and>
    (\<exists>e. acquire_process_lock os path label pid now (Blank c) = (Inl e, Blank c))"
proof -
  have two: "acquire_process_lock os path label pid now = acquire_attempts (Suc (Suc 0)) os path label pid now"
    by (simp add: acquire_process_lock_def numeral_2_eq_2)
  have blank: "\<not> live_owner os pid (Blank c)" "\<not> stale_owner os pid (Blank c)" by (simp_all add: live_owner_def stale_owner_def)
  show ?thesis unfolding two
    using live_not_stale [of os pid f] stale_not_absent [of os pid f] absent_not_live [of os pid] blank
    by (auto simp: Let_def release_lock_def duplicate_error_def)
qed

section \<open>Mutual exclusion while every process runs\<close>

definition in_section :: "lock_pc \<Rightarrow> bool" where
  "in_section c \<longleftrightarrow> c \<in> {Writing, Holding, Releasing}"

fun owner_of :: "lock_file \<Rightarrow> int option" where
  "owner_of Absent = None"
| "owner_of (Blank c) = Some c"
| "owner_of (Written p) = lp_pid p"

text \<open>Whoever is past the exclusive create owns the file; nobody is about to unlink another's lock.\<close>

definition lock_inv :: "lock_world \<Rightarrow> bool" where
  "lock_inv w \<longleftrightarrow> (\<forall>p. pw_alive w p) \<and> (\<forall>p n. pw_pc w p \<noteq> Reclaiming n) \<and>
     (\<forall>p. in_section (pw_pc w p) \<longleftrightarrow> owner_of (pw_file w) = Some p) \<and>
     (\<forall>p. pw_pc w p = Writing \<longleftrightarrow> pw_file w = Blank p)"

definition no_end_step :: "lock_world \<Rightarrow> lock_world \<Rightarrow> bool" where
  "no_end_step w w' \<longleftrightarrow> lock_step w w' \<and> pw_alive w' = pw_alive w"

lemma lock_inv_initial: "lock_inv initial_world"
  by (simp add: lock_inv_def initial_world_def in_section_def)

lemma owner_unique: "lock_inv w \<Longrightarrow> in_section (pw_pc w p) \<Longrightarrow> in_section (pw_pc w q) \<Longrightarrow> p = q"
  unfolding lock_inv_def by (metis option.inject)

lemma pc_in_section [simp]: "in_section Writing" "in_section Holding" "in_section Releasing" "\<not> in_section Outside"
  "\<not> in_section (Reading n)" "\<not> in_section (Checking n q)" "\<not> in_section (Reclaiming n)" "\<not> in_section (Opening n)" "\<not> in_section Blocked" "\<not> in_section Ended" "\<not> in_section Crashed"
  by (simp_all add: in_section_def)

lemma holding_owner:
  assumes "lock_inv w" and "pw_pc w p = Holding \<or> pw_pc w p = Releasing"
  shows "payload_pid (pw_file w) = Some p"
proof -
  have "in_section (pw_pc w p)" "pw_pc w p \<noteq> Writing" using assms(2) by auto
  with assms(1) have "owner_of (pw_file w) = Some p" "pw_file w \<noteq> Blank p" by (auto simp: lock_inv_def)
  then show ?thesis by (cases "pw_file w") simp_all
qed

lemma lock_inv_goto:
  assumes "lock_inv w" and "\<not> in_section (pw_pc w p)" and "\<not> in_section c" and "\<And>n. c \<noteq> Reclaiming n"
  shows "lock_inv (goto p c w)"
proof -
  from assms(2,3) have "pw_pc w p \<noteq> Writing" "c \<noteq> Writing" by auto
  with assms show ?thesis unfolding lock_inv_def goto_def by auto
qed

lemma lock_inv_step:
  assumes "lock_step w w'" and "pw_alive w' = pw_alive w" and "lock_inv w"
  shows "lock_inv w'"
  using assms
proof (induction rule: lock_step.induct)
  case (check_dead w p n q)
  then show ?case by (simp add: lock_inv_def)
next
  case (unlink w p n)
  then show ?case by (simp add: lock_inv_def)
next
  case (create w p n)
  then have "\<not> in_section (pw_pc w q)" for q by (simp add: lock_inv_def)
  then show ?case using create by (auto simp: lock_inv_def goto_def in_section_def)
next
  case (fd_write w p)
  then have "in_section (pw_pc w q) \<longleftrightarrow> q = p" for q by (auto simp: lock_inv_def)
  then show ?case using fd_write by (auto simp: lock_inv_def goto_def own_payload_def)
next
  case (fd_write_lost w p)
  then show ?case by (simp add: lock_inv_def)
next
  case (release w p)
  then show ?case by (auto simp: lock_inv_def goto_def in_section_def)
next
  case (release_not_own w p)
  then show ?case using holding_owner by simp
next
  case (released w p)
  then have "in_section (pw_pc w q) \<longleftrightarrow> q = p" for q using owner_unique [of w q p] by auto
  then show ?case using released by (auto simp: lock_inv_def goto_def)
next
  case (finish w p)
  from fun_cong [OF finish(3), of p] finish(2) show ?case by (simp add: goto_def)
next
  case (crash w p)
  from fun_cong [OF crash(2), of p] crash(1) show ?case by (simp add: goto_def)
qed (simp_all add: lock_inv_goto)

section \<open>Taking and reclaiming the lock step by step\<close>

lemma two_attempts: "(2 :: nat) = Suc 1"
  by simp

lemma goto_simps [simp]: "pw_file (goto p c w) = pw_file w" "pw_alive (goto p c w) = pw_alive w"
  "pw_pc (goto p c w) q = (if q = p then c else pw_pc w q)"
  by (simp_all add: goto_def)

lemma goto_goto [simp]: "goto p c (goto p d w) = goto p c w"
  by (simp add: goto_def)

lemma goto_file: "goto p c (w\<lparr>pw_file := f\<rparr>) = (goto p c w)\<lparr>pw_file := f\<rparr>"
  by (simp add: goto_def)

definition taken_by :: "int \<Rightarrow> lock_world \<Rightarrow> lock_world" where
  "taken_by p w = goto p Holding (w\<lparr>pw_file := Written (own_payload p)\<rparr>)"

lemma taken_by_simps [simp]: "pw_file (taken_by p w) = Written (own_payload p)" "pw_alive (taken_by p w) = pw_alive w"
  "pw_pc (taken_by p w) q = (if q = p then Holding else pw_pc w q)"
  by (simp_all add: taken_by_def goto_def)

lemma taken_by_goto [simp]: "taken_by p (goto p c w) = taken_by p w" "taken_by p (w\<lparr>pw_file := f\<rparr>) = taken_by p w"
  by (simp_all add: taken_by_def goto_def)

lemma opens_absent:
  assumes "pw_pc w p = Opening n" and "pw_file w = Absent"
  shows "lock_step\<^sup>*\<^sup>* w (taken_by p w)"
proof -
  have "lock_step w (goto p Writing (w\<lparr>pw_file := Blank p\<rparr>))" using assms by (rule create)
  moreover have "lock_step (goto p Writing (w\<lparr>pw_file := Blank p\<rparr>))
      (goto p Holding ((goto p Writing (w\<lparr>pw_file := Blank p\<rparr>))\<lparr>pw_file := Written (own_payload p)\<rparr>))"
    by (rule fd_write) simp_all
  ultimately show ?thesis by (simp add: goto_file taken_by_def)
qed

lemma takes_free_lock:
  assumes "pw_pc w p = Outside" and "pw_alive w p" and "pw_file w = Absent"
  shows "lock_step\<^sup>*\<^sup>* w (taken_by p w)"
proof -
  have "lock_step w (goto p (Reading (Suc 1)) w)" using start [OF assms(1,2)] by (simp add: two_attempts)
  moreover have "lock_step (goto p (Reading (Suc 1)) w) (goto p (Opening 1) w)"
    using free [of "goto p (Reading (Suc 1)) w" p 1] assms(3) by (simp add: others_lock_def)
  moreover have "lock_step\<^sup>*\<^sup>* (goto p (Opening 1) w) (taken_by p w)"
    using opens_absent [of "goto p (Opening 1) w" p 1] assms(3) by (simp add: goto_file)
  ultimately show ?thesis by (meson converse_rtranclp_into_rtranclp)
qed

lemma reads_others_lock:
  assumes "pw_pc w p = Outside" and "pw_alive w p" and "pw_file w = Written (own_payload q)" and "q \<noteq> p"
  shows "lock_step\<^sup>*\<^sup>* w (goto p (Checking 1 q) w)"
proof -
  have "lock_step w (goto p (Reading (Suc 1)) w)" using start [OF assms(1,2)] by (simp add: two_attempts)
  moreover have "lock_step (goto p (Reading (Suc 1)) w) (goto p (Checking 1 q) w)"
    using read_other [of "goto p (Reading (Suc 1)) w" p 1 q] assms(3,4) by (simp add: others_lock_def own_payload_def)
  ultimately show ?thesis by (meson converse_rtranclp_into_rtranclp r_into_rtranclp)
qed


definition gone :: "int \<Rightarrow> lock_world \<Rightarrow> lock_world" where
  "gone p w = goto p Ended (w\<lparr>pw_file := Absent, pw_alive := (pw_alive w)(p := False)\<rparr>)"

lemma gone_simps [simp]: "pw_file (gone p w) = Absent" "pw_alive (gone p w) = (pw_alive w)(p := False)"
  "pw_pc (gone p w) q = (if q = p then Ended else pw_pc w q)"
  by (simp_all add: gone_def goto_def)

lemma releases_and_ends:
  assumes "pw_pc w p = Holding" and "pw_alive w p" and "pw_file w = Written (own_payload p)"
  shows "lock_step\<^sup>*\<^sup>* w (gone p w)"
proof -
  let ?r = "goto p Releasing w"
  let ?o = "goto p Outside (?r\<lparr>pw_file := Absent\<rparr>)"
  have "lock_step w ?r" using assms by (intro release) (simp_all add: own_payload_def)
  moreover have "lock_step ?r ?o" by (rule released) simp
  moreover have "lock_step ?o (goto p Ended (?o\<lparr>pw_alive := (pw_alive ?o)(p := False)\<rparr>))"
    using assms(2) by (intro finish) simp_all
  moreover have "goto p Ended (?o\<lparr>pw_alive := (pw_alive ?o)(p := False)\<rparr>) = gone p w"
    by (simp add: gone_def goto_def)
  ultimately show ?thesis by (simp add: converse_rtranclp_into_rtranclp)
qed

lemma reclaims_lock:
  assumes "pw_pc w p = Reclaiming n"
  shows "lock_step\<^sup>*\<^sup>* w (taken_by p w)"
proof -
  have "lock_step w (goto p (Opening n) (w\<lparr>pw_file := Absent\<rparr>))" using assms by (rule unlink)
  moreover have "lock_step\<^sup>*\<^sup>* (goto p (Opening n) (w\<lparr>pw_file := Absent\<rparr>)) (taken_by p w)"
    using opens_absent [of "goto p (Opening n) (w\<lparr>pw_file := Absent\<rparr>)" p n] by (simp add: goto_file)
  ultimately show ?thesis by (meson converse_rtranclp_into_rtranclp)
qed

section \<open>Runs without a crash\<close>

definition clean_step :: "lock_world \<Rightarrow> lock_world \<Rightarrow> bool" where
  "clean_step w w' \<longleftrightarrow> lock_step w w' \<and> (\<forall>p. pw_pc w' p \<noteq> Crashed)"

lemma crashed_stays: "lock_step w w' \<Longrightarrow> pw_pc w q = Crashed \<Longrightarrow> pw_pc w' q = Crashed"
  by (induction rule: lock_step.induct) (auto simp: goto_def)

text \<open>A crash shows for ever, so a run that ends without one had none.\<close>

lemma clean_run:
  assumes "lock_step\<^sup>*\<^sup>* w w'" and "\<And>p. pw_pc w' p \<noteq> Crashed"
  shows "clean_step\<^sup>*\<^sup>* w w'"
  using assms
proof (induction rule: rtranclp_induct)
  case base
  show ?case by simp
next
  case (step u v)
  from step.prems crashed_stays [OF step.hyps(2)] have "\<And>p. pw_pc u p \<noteq> Crashed" by blast
  then have "clean_step\<^sup>*\<^sup>* w u" by (rule step.IH)
  moreover have "clean_step u v" using step by (simp add: clean_step_def)
  ultimately show ?case by (rule rtranclp.rtrancl_into_rtrancl)
qed

section \<open>Properties of the interleaving\<close>

text \<open>
  As long as no process ends, no two processes hold the lock at the same time, however
  their reads, checks, creates, writes and unlinks interleave.
\<close>
theorem lock_is_exclusive_while_all_run:
  assumes "no_end_step\<^sup>*\<^sup>* initial_world w" and "holds w p" and "holds w q"
  shows "p = q"
proof -
  from assms(1) have "lock_inv w"
    by (induction rule: rtranclp_induct) (auto simp: lock_inv_initial no_end_step_def intro: lock_inv_step)
  then show ?thesis using assms(2,3) owner_unique by (fastforce simp: holds_def)
qed

text \<open>
  The lock is not exclusive even when no process crashes: process 2 reads the lock of process 7,
  7 releases it and exits, process 1 takes the free lock; now 2's check finds that 7 does not run,
  2 unlinks the lock by its path, which is the lock of 1, and both hold it.
\<close>
theorem released_lock_taken_twice:
  shows "\<exists>w. clean_step\<^sup>*\<^sup>* initial_world w \<and> holds w 1 \<and> holds w 2"
proof -
  define w1 where "w1 = taken_by 7 initial_world"
  define w2 where "w2 = goto 2 (Checking 1 7) w1"
  define w3 where "w3 = gone 7 w2"
  define w4 where "w4 = taken_by 1 w3"
  define w5 where "w5 = goto 2 (Reclaiming 1) w4"
  note w = w1_def w2_def w3_def w4_def w5_def initial_world_def
  have "lock_step\<^sup>*\<^sup>* initial_world w1" unfolding w1_def by (rule takes_free_lock) (simp_all add: initial_world_def)
  moreover have "lock_step\<^sup>*\<^sup>* w1 w2" unfolding w2_def by (rule reads_others_lock) (simp_all add: w)
  moreover have "lock_step\<^sup>*\<^sup>* w2 w3" unfolding w3_def by (rule releases_and_ends) (simp_all add: w)
  moreover have "lock_step\<^sup>*\<^sup>* w3 w4" unfolding w4_def by (rule takes_free_lock) (simp_all add: w)
  moreover have "lock_step\<^sup>*\<^sup>* w4 w5" unfolding w5_def by (intro r_into_rtranclp check_dead [where q = 7]) (simp_all add: w)
  moreover have "lock_step\<^sup>*\<^sup>* w5 (taken_by 2 w5)" by (rule reclaims_lock [where n = 1]) (simp add: w5_def)
  ultimately have "lock_step\<^sup>*\<^sup>* initial_world (taken_by 2 w5)" by (meson rtranclp_trans)
  moreover have "pw_pc (taken_by 2 w5) p \<noteq> Crashed" for p by (simp add: w)
  ultimately have "clean_step\<^sup>*\<^sup>* initial_world (taken_by 2 w5)" by (rule clean_run)
  then show ?thesis by (intro exI [of _ "taken_by 2 w5"]) (simp add: holds_def w)
qed


theorem lock_is_exclusive_while_all_run_witness:
  "\<exists>w. no_end_step\<^sup>*\<^sup>* initial_world w \<and> pw_pc w 1 = Reading 2 \<and> (holds w 1 \<and> holds w 2 \<longrightarrow> (1 :: int) = 2)"
proof -
  have "no_end_step initial_world (goto 1 (Reading 2) initial_world)"
    by (simp add: no_end_step_def start initial_world_def)
  then have "no_end_step\<^sup>*\<^sup>* initial_world (goto 1 (Reading 2) initial_world)" by (rule r_into_rtranclp)
  from this lock_is_exclusive_while_all_run [OF this, of 1 2] show ?thesis by (intro exI) auto
qed

end
