(* ===== verification/SessionEvents.thy ===== *)
theory SessionEvents
  imports NormalizedEvents
begin

text \<open>
  The rest of \<^verbatim>\<open>src/tfis/normalized_events.py\<close>: the events a paper session is fed with, the
  states of a session, the result of a validation and the manifest of a session. Prefixes: the
  underlying's quote \<open>uq_\<close> and snapshot \<open>un_\<close>, the calendar context \<open>cx_\<close>, the monthly status
  input \<open>mn_\<close>, the session configuration \<open>pc_\<close>, the cost settings \<open>cc_\<close>, a validation issue \<open>vn_\<close>
  and result \<open>vt_\<close>, a data source \<open>ds_\<close>, the manifest \<open>mf_\<close>.
\<close>

section \<open>Enumerations\<close>

fun event_type_value :: "paper_event_type \<Rightarrow> string" where
  "event_type_value UNDERLYING_QUOTE = ''UNDERLYING_QUOTE''"
| "event_type_value UNDERLYING_SNAPSHOT = ''UNDERLYING_SNAPSHOT''"
| "event_type_value OPTION_CHAIN_SNAPSHOT = ''OPTION_CHAIN_SNAPSHOT''"
| "event_type_value SELECTED_CONTRACT_QUOTE = ''SELECTED_CONTRACT_QUOTE''"
| "event_type_value SELECTED_CONTRACT_BAR = ''SELECTED_CONTRACT_BAR''"
| "event_type_value CALENDAR_CONTEXT = ''CALENDAR_CONTEXT''"
| "event_type_value MONTHLY_STATUS_INPUT = ''MONTHLY_STATUS_INPUT''"
| "event_type_value PAPER_SESSION_CONFIG = ''PAPER_SESSION_CONFIG''"
| "event_type_value COST_SLIPPAGE_SETTINGS = ''COST_SLIPPAGE_SETTINGS''"
| "event_type_value TRADE_PLAN_INPUT = ''TRADE_PLAN_INPUT''"

datatype snapshot_label = PRE_OPEN | AT_0915 | ORPT | RC | EOD_SNAPSHOT

fun snapshot_label_value :: "snapshot_label \<Rightarrow> string" where
  "snapshot_label_value PRE_OPEN = ''PRE_OPEN''"
| "snapshot_label_value AT_0915 = ''0915''"
| "snapshot_label_value ORPT = ''ORPT''"
| "snapshot_label_value RC = ''RC''"
| "snapshot_label_value EOD_SNAPSHOT = ''EOD''"

datatype session_state =
    NOT_STARTED | PRE_MARKET_READY | WAITING_FOR_0915 | WAITING_FOR_ORPT | WAITING_FOR_RC
  | DECISION_READY | ORDER_PLANNED | PAPER_ORDER_OPEN | POSITION_OPEN_STATE | EXIT_PENDING
  | POSITION_CLOSED_STATE | EOD_SQUARE_OFF | SESSION_COMPLETE | NO_TRADE | ABORTED

fun session_state_value :: "session_state \<Rightarrow> string" where
  "session_state_value NOT_STARTED = ''NOT_STARTED''"
| "session_state_value PRE_MARKET_READY = ''PRE_MARKET_READY''"
| "session_state_value WAITING_FOR_0915 = ''WAITING_FOR_0915''"
| "session_state_value WAITING_FOR_ORPT = ''WAITING_FOR_ORPT''"
| "session_state_value WAITING_FOR_RC = ''WAITING_FOR_RC''"
| "session_state_value DECISION_READY = ''DECISION_READY''"
| "session_state_value ORDER_PLANNED = ''ORDER_PLANNED''"
| "session_state_value PAPER_ORDER_OPEN = ''PAPER_ORDER_OPEN''"
| "session_state_value POSITION_OPEN_STATE = ''PAPER_POSITION_OPEN''"
| "session_state_value EXIT_PENDING = ''EXIT_PENDING''"
| "session_state_value POSITION_CLOSED_STATE = ''PAPER_POSITION_CLOSED''"
| "session_state_value EOD_SQUARE_OFF = ''EOD_SQUARE_OFF''"
| "session_state_value SESSION_COMPLETE = ''SESSION_COMPLETE''"
| "session_state_value NO_TRADE = ''NO_TRADE''"
| "session_state_value ABORTED = ''ABORTED''"

datatype readiness_status = IS_READY | IS_NO_TRADE | IS_ABORTED

section \<open>Events\<close>

record underlying_quote =
  uq_envelope :: event_envelope
  uq_symbol :: string
  uq_ltp :: "price option"
  uq_bid :: "price option"
  uq_ask :: "price option"
  uq_volume :: "price option"
  uq_source_latency_ms :: "int option"

record underlying_snapshot =
  un_envelope :: event_envelope
  un_snapshot_label :: snapshot_label
  un_high :: "price option"
  un_low :: "price option"
  un_bar_start :: datetime
  un_bar_end :: datetime
  un_complete :: bool
  un_open :: "price option"
  un_close :: "price option"

record calendar_context =
  cx_envelope :: event_envelope
  cx_is_holiday :: bool
  cx_is_expiry_day :: bool
  cx_weekly_expiry :: "date option"
  cx_market_open :: "time_of_day option"
  cx_market_close :: "time_of_day option"

record monthly_input =
  mn_envelope :: event_envelope
  mn_monthly_status :: "monthly_status option"
  mn_status_source :: string
  mn_reference_date :: "date option"
  mn_threshold_version :: string

record session_config =
  pc_envelope :: event_envelope
  pc_strategy_code :: string
  pc_paper_mode_enabled :: bool
  pc_same_day_square_off_only :: bool
  pc_allow_recalculation :: bool
  pc_allow_current_day_fsl_trp :: bool
  pc_kill_switch_enabled :: bool
  pc_operator_id :: string
  pc_symbol :: string
  pc_contract_cycle :: string
  pc_mode :: string

record cost_settings =
  cc_envelope :: event_envelope
  cc_brokerage_per_lot :: "price option"
  cc_slippage_entry_points :: "price option"
  cc_slippage_exit_points :: "price option"
  cc_spread_buffer_policy :: string
  cc_version_label :: string

datatype paper_event =
    EvUnderlyingQuote underlying_quote
  | EvUnderlyingSnapshot underlying_snapshot
  | EvOptionChain option_chain
  | EvSelectedQuote selected_quote
  | EvSelectedBar selected_bar
  | EvCalendar calendar_context
  | EvMonthlyStatus monthly_input
  | EvConfig session_config
  | EvCosts cost_settings
  | EvTradePlan trade_plan_event

fun envelope_of :: "paper_event \<Rightarrow> event_envelope" where
  "envelope_of (EvUnderlyingQuote e) = uq_envelope e"
| "envelope_of (EvUnderlyingSnapshot e) = un_envelope e"
| "envelope_of (EvOptionChain e) = ch_envelope e"
| "envelope_of (EvSelectedQuote e) = sq_envelope e"
| "envelope_of (EvSelectedBar e) = sb_envelope e"
| "envelope_of (EvCalendar e) = cx_envelope e"
| "envelope_of (EvMonthlyStatus e) = mn_envelope e"
| "envelope_of (EvConfig e) = pc_envelope e"
| "envelope_of (EvCosts e) = cc_envelope e"
| "envelope_of (EvTradePlan e) = te_envelope e"

section \<open>Validation result and manifest\<close>

record validation_note =
  vn_code :: string
  vn_message :: msg
  vn_readiness_status :: readiness_status
  vn_field_name :: "string option"
  vn_event_type :: "paper_event_type option"

record validation_outcome =
  vt_readiness_status :: readiness_status
  vt_issues :: "validation_note list"
  vt_evaluated_state :: session_state
  vt_validated_at :: datetime
  vt_required_snapshot_labels :: "snapshot_label list"
  vt_missing_snapshot_labels :: "snapshot_label list"
  vt_warnings :: "string list"
  vt_no_trade_reasons :: "string list"
  vt_abort_reasons :: "string list"

record data_source_reference =
  ds_event_type :: paper_event_type
  ds_source_type :: string
  ds_source_id :: string
  ds_synthetic_fixture :: bool

record session_manifest =
  mf_strategy_code :: string
  mf_symbol :: string
  mf_contract_cycle :: string
  mf_mode :: string
  mf_session_date :: date
  mf_readiness_status :: readiness_status
  mf_evaluated_state :: session_state
  mf_overlays_enabled :: "string list"
  mf_data_sources :: "data_source_reference list"
  mf_cost_slippage_version :: string
  mf_no_trade_reasons :: "string list"
  mf_abort_reasons :: "string list"
  mf_warnings :: "string list"
  mf_synthetic_fixture_used :: bool
  mf_generated_at :: datetime
  mf_brokerage_per_lot :: "price option"
  mf_slippage_entry_points :: "price option"
  mf_slippage_exit_points :: "price option"
  mf_spread_buffer_policy :: "string option"

end
