(* ===== verification/PaperValidation.thy ===== *)
theory PaperValidation
  imports SessionEvents "HOL-Library.Char_ord" "HOL-Library.List_Lexorder" "HOL-Library.Product_Lexorder"
begin

text \<open>
  \<^verbatim>\<open>src/tfis/paper/validation.py\<close>: the checks of a single event, the readiness of a session and
  the manifest. All datetimes of a run carry the same time zone or none: \<open>aware\<close> says which, and is
  what \<^verbatim>\<open>_is_timezone_aware\<close> answers; the reference time \<open>now\<close> is always given. The issues of a
  check are collected in the code's order with \<open>issue_if\<close>. Fields of the readiness arguments carry
  the prefix \<open>rdi_\<close>.
\<close>

section \<open>Issues and results\<close>

definition ALLOWED_TIMEZONE :: string where "ALLOWED_TIMEZONE = ''Asia/Kolkata''"

definition DEFAULT_MAX_QUOTE_AGE :: int where "DEFAULT_MAX_QUOTE_AGE = 60000000"

definition mk_note :: "string \<Rightarrow> string \<Rightarrow> readiness_status \<Rightarrow> string option \<Rightarrow> paper_event_type option \<Rightarrow> validation_note" where
  "mk_note code message status field event_type =
     \<lparr>vn_code = code, vn_message = [Txt message], vn_readiness_status = status, vn_field_name = field,
      vn_event_type = event_type\<rparr>"

definition build_result ::
  "validation_note list \<Rightarrow> session_state \<Rightarrow> string list \<Rightarrow> datetime \<Rightarrow> snapshot_label list \<Rightarrow> snapshot_label list
     \<Rightarrow> validation_outcome" where
  "build_result issues state warnings now required missing =
     (let abort_reasons = map vn_code (filter (\<lambda>i. vn_readiness_status i = IS_ABORTED) issues);
          no_trade_reasons = map vn_code (filter (\<lambda>i. vn_readiness_status i = IS_NO_TRADE) issues)
      in \<lparr>vt_readiness_status = (if abort_reasons \<noteq> [] then IS_ABORTED else if no_trade_reasons \<noteq> [] then IS_NO_TRADE
             else IS_READY),
          vt_issues = issues, vt_evaluated_state = state, vt_validated_at = now,
          vt_required_snapshot_labels = required, vt_missing_snapshot_labels = missing, vt_warnings = warnings,
          vt_no_trade_reasons = no_trade_reasons, vt_abort_reasons = abort_reasons\<rparr>)"

definition has_text :: "string \<Rightarrow> bool" where
  "has_text t \<longleftrightarrow> strip t \<noteq> []"

section \<open>A single event\<close>

definition validate_envelope :: "bool \<Rightarrow> event_envelope \<Rightarrow> validation_note list" where
  "validate_envelope aware e =
     (let note = (\<lambda>code message field. mk_note code message IS_ABORTED (Some field) (Some (en_event_type e))) in
      (if \<not> has_text (en_timezone e)
         then [note ''missing_timezone'' ''Normalized paper events require a timezone string.'' ''timezone'']
       else issue_if (en_timezone e \<noteq> ALLOWED_TIMEZONE)
         (note ''unsupported_timezone'' ''Normalized S23 paper events must use Asia/Kolkata.'' ''timezone'')) @
      issue_if (\<not> aware)
        (note ''naive_effective_timestamp'' ''effective_timestamp must be timezone-aware.'' ''effective_timestamp'') @
      issue_if (\<not> aware) (note ''naive_captured_at'' ''captured_at must be timezone-aware.'' ''captured_at'') @
      issue_if (date_of (en_effective_timestamp e) \<noteq> en_session_date e)
        (note ''session_date_mismatch'' ''effective_timestamp date must match session_date.'' ''session_date'') @
      issue_if (\<not> has_text (en_source_type e))
        (note ''missing_source_type'' ''Normalized paper events require a source_type.'' ''source_type'') @
      issue_if (\<not> has_text (en_source_id e))
        (note ''missing_source_id'' ''Normalized paper events require a source_id.'' ''source_id'') @
      issue_if (\<not> has_text (en_normalized_by e))
        (note ''missing_normalized_by'' ''Normalized paper events require a normalized_by value.'' ''normalized_by''))"

definition abort_note :: "event_envelope \<Rightarrow> string \<Rightarrow> string \<Rightarrow> string option \<Rightarrow> validation_note" where
  "abort_note e code message field = mk_note code message IS_ABORTED field (Some (en_event_type e))"

text \<open>The loops over \<^verbatim>\<open>required_values.items()\<close>: one issue for each name whose value is missing.\<close>

definition missing_values ::
  "string \<Rightarrow> string \<Rightarrow> paper_event_type \<Rightarrow> (string \<times> bool) list \<Rightarrow> validation_note list" where
  "missing_values prefix requires event_type values =
     map (\<lambda>(name, _). mk_note (prefix @ name) (requires @ name @ ''.'') IS_ABORTED (Some name) (Some event_type))
       (filter (\<lambda>(_, present). \<not> present) values)"

definition validate_underlying_quote :: "underlying_quote \<Rightarrow> validation_note list" where
  "validate_underlying_quote q =
     issue_if (\<not> has_text (uq_symbol q))
       (abort_note (uq_envelope q) ''missing_symbol'' ''Underlying quote requires a symbol.'' (Some ''symbol'')) @
     issue_if (uq_ltp q = None)
       (abort_note (uq_envelope q) ''missing_ltp'' ''Underlying quote requires ltp.'' (Some ''ltp''))"

definition validate_underlying_snapshot :: "bool \<Rightarrow> underlying_snapshot \<Rightarrow> validation_note list" where
  "validate_underlying_snapshot aware s =
     issue_if (un_high s = None)
       (abort_note (un_envelope s) ''missing_high'' ''Underlying snapshot requires high.'' (Some ''high'')) @
     issue_if (un_low s = None)
       (abort_note (un_envelope s) ''missing_low'' ''Underlying snapshot requires low.'' (Some ''low'')) @
     issue_if (\<not> aware)
       (abort_note (un_envelope s) ''naive_snapshot_bar_time''
          ''Snapshot bar_start and bar_end must be timezone-aware.'' None) @
     issue_if (un_bar_end s < un_bar_start s)
       (abort_note (un_envelope s) ''snapshot_time_range_invalid''
          ''Underlying snapshot bar_end must not precede bar_start.'' None)"

definition validate_option_chain_contract :: "option_contract \<Rightarrow> validation_note list" where
  "validate_option_chain_contract c =
     issue_if (\<not> has_text (oc_symbol c))
       (mk_note ''missing_contract_symbol'' ''Option-chain contract rows require a symbol.'' IS_ABORTED
          (Some ''symbol'') (Some OPTION_CHAIN_SNAPSHOT)) @
     missing_values ''missing_contract_'' ''Option-chain contract rows require '' OPTION_CHAIN_SNAPSHOT
       [(''option_type'', oc_option_type c \<noteq> None), (''strike'', oc_strike c \<noteq> None), (''expiry'', oc_expiry c \<noteq> None),
        (''bid'', oc_bid c \<noteq> None), (''ask'', oc_ask c \<noteq> None), (''ltp'', oc_ltp c \<noteq> None), (''oi'', oc_oi c \<noteq> None)]"

definition validate_option_chain :: "option_chain \<Rightarrow> validation_note list" where
  "validate_option_chain ch =
     issue_if (\<not> has_text (ch_underlying_symbol ch))
       (abort_note (ch_envelope ch) ''missing_underlying_symbol''
          ''Option-chain snapshot requires an underlying symbol.'' (Some ''underlying_symbol'')) @
     issue_if (ch_contracts ch = [])
       (mk_note ''missing_option_chain_contracts'' ''Option-chain snapshot requires at least one contract row.''
          IS_NO_TRADE None (Some (en_event_type (ch_envelope ch)))) @
     concat (map validate_option_chain_contract (ch_contracts ch))"

definition validate_selected_quote :: "selected_quote \<Rightarrow> validation_note list" where
  "validate_selected_quote q =
     issue_if (\<not> has_text (sq_symbol q))
       (abort_note (sq_envelope q) ''missing_selected_contract_symbol'' ''Selected contract quote requires a symbol.''
          (Some ''symbol'')) @
     missing_values ''missing_selected_contract_'' ''Selected contract quote requires '' (en_event_type (sq_envelope q))
       [(''option_type'', sq_option_type q \<noteq> None), (''strike'', sq_strike q \<noteq> None), (''expiry'', sq_expiry q \<noteq> None),
        (''bid'', sq_bid q \<noteq> None), (''ask'', sq_ask q \<noteq> None), (''ltp'', sq_ltp q \<noteq> None), (''oi'', sq_oi q \<noteq> None)]"

definition validate_selected_bar :: "bool \<Rightarrow> selected_bar \<Rightarrow> validation_note list" where
  "validate_selected_bar aware b =
     issue_if (\<not> has_text (sb_symbol b))
       (abort_note (sb_envelope b) ''missing_selected_contract_bar_symbol'' ''Selected contract bar requires a symbol.''
          (Some ''symbol'')) @
     missing_values ''missing_selected_contract_bar_'' ''Selected contract bar requires '' (en_event_type (sb_envelope b))
       [(''open'', sb_open b \<noteq> None), (''high'', sb_high b \<noteq> None), (''low'', sb_low b \<noteq> None),
        (''close'', sb_close b \<noteq> None)] @
     issue_if (\<not> aware)
       (abort_note (sb_envelope b) ''naive_selected_contract_bar_time''
          ''Selected contract bar times must be timezone-aware.'' None) @
     issue_if (sb_bar_end b < sb_bar_start b)
       (abort_note (sb_envelope b) ''selected_contract_bar_time_range_invalid''
          ''Selected contract bar_end must not precede bar_start.'' None)"

definition validate_calendar_context :: "calendar_context \<Rightarrow> validation_note list" where
  "validate_calendar_context c =
     issue_if (cx_weekly_expiry c = None)
       (abort_note (cx_envelope c) ''missing_weekly_expiry'' ''Calendar context requires weekly_expiry.''
          (Some ''weekly_expiry'')) @
     issue_if (cx_market_open c = None \<or> cx_market_close c = None)
       (abort_note (cx_envelope c) ''missing_market_hours''
          ''Calendar context requires market_open and market_close.'' None)"

definition validate_monthly_input :: "monthly_input \<Rightarrow> validation_note list" where
  "validate_monthly_input m =
     issue_if (mn_monthly_status m = None)
       (abort_note (mn_envelope m) ''missing_monthly_status'' ''Monthly status input requires a status value.''
          (Some ''monthly_status'')) @
     issue_if (\<not> has_text (mn_status_source m))
       (abort_note (mn_envelope m) ''missing_status_source'' ''Monthly status input requires a status_source.''
          (Some ''status_source'')) @
     issue_if (mn_reference_date m = None)
       (abort_note (mn_envelope m) ''missing_reference_date'' ''Monthly status input requires reference_date.''
          (Some ''reference_date'')) @
     issue_if (\<not> has_text (mn_threshold_version m))
       (abort_note (mn_envelope m) ''missing_threshold_version'' ''Monthly status input requires threshold_version.''
          (Some ''threshold_version''))"

definition validate_paper_config :: "session_config \<Rightarrow> validation_note list" where
  "validate_paper_config c =
     missing_values ''missing_'' ''Paper session config requires '' (en_event_type (pc_envelope c))
       [(''strategy_code'', has_text (pc_strategy_code c)), (''operator_id'', has_text (pc_operator_id c)),
        (''symbol'', has_text (pc_symbol c)), (''contract_cycle'', has_text (pc_contract_cycle c)),
        (''mode'', has_text (pc_mode c))]"

definition validate_cost_settings :: "cost_settings \<Rightarrow> validation_note list" where
  "validate_cost_settings c =
     missing_values ''missing_'' ''Cost settings require '' (en_event_type (cc_envelope c))
       [(''brokerage_per_lot'', cc_brokerage_per_lot c \<noteq> None),
        (''slippage_entry_points'', cc_slippage_entry_points c \<noteq> None),
        (''slippage_exit_points'', cc_slippage_exit_points c \<noteq> None)] @
     issue_if (\<not> has_text (cc_spread_buffer_policy c))
       (abort_note (cc_envelope c) ''missing_spread_buffer_policy'' ''Cost settings require spread_buffer_policy.''
          (Some ''spread_buffer_policy'')) @
     issue_if (\<not> has_text (cc_version_label c))
       (abort_note (cc_envelope c) ''missing_version_label'' ''Cost settings require version_label.''
          (Some ''version_label''))"

text \<open>The loop over the five numbers of a trade plan: missing, or not positive.\<close>

definition positive_values :: "event_envelope \<Rightarrow> (string \<times> price option) list \<Rightarrow> validation_note list" where
  "positive_values e values = concat (map (\<lambda>(name, value). case value of
       None \<Rightarrow> [abort_note e (''missing_'' @ name) (''Trade plan input requires '' @ name @ ''.'') (Some name)]
     | Some x \<Rightarrow> issue_if (x \<le> 0)
         (abort_note e (''invalid_'' @ name) (''Trade plan input requires a positive '' @ name @ ''.'') (Some name)))
     values)"

definition validate_trade_plan :: "bool \<Rightarrow> trade_plan_event \<Rightarrow> validation_note list" where
  "validate_trade_plan aware p =
     missing_values ''missing_'' ''Trade plan input requires '' (en_event_type (te_envelope p))
       [(''strategy_branch'', has_text (te_strategy_branch p)), (''order_side'', has_text (te_order_side p)),
        (''order_reference_label'', has_text (te_order_reference_label p))] @
     issue_if (has_text (te_order_side p) \<and> te_order_side p \<noteq> ''SELL'')
       (abort_note (te_envelope p) ''unsupported_trade_plan_order_side''
          ''The first S23 paper rollout only supports SELL order intents.'' (Some ''order_side'')) @
     positive_values (te_envelope p)
       [(''lots'', map_option rat_of_int (te_lots p)), (''quantity'', map_option rat_of_int (te_quantity p)),
        (''planned_entry_price'', te_planned_entry_price p), (''target_price'', te_target_price p),
        (''stoploss_price'', te_stoploss_price p)] @
     (if te_order_reference_time p = None
        then [abort_note (te_envelope p) ''missing_order_reference_time''
          ''Trade plan input requires order_reference_time.'' (Some ''order_reference_time'')]
      else issue_if (\<not> aware)
        (abort_note (te_envelope p) ''naive_order_reference_time''
          ''Trade plan input order_reference_time must be timezone-aware.'' (Some ''order_reference_time'')))"

fun validate_event_payload :: "bool \<Rightarrow> paper_event \<Rightarrow> validation_note list" where
  "validate_event_payload aware (EvUnderlyingQuote e) = validate_underlying_quote e"
| "validate_event_payload aware (EvUnderlyingSnapshot e) = validate_underlying_snapshot aware e"
| "validate_event_payload aware (EvOptionChain e) = validate_option_chain e"
| "validate_event_payload aware (EvSelectedQuote e) = validate_selected_quote e"
| "validate_event_payload aware (EvSelectedBar e) = validate_selected_bar aware e"
| "validate_event_payload aware (EvCalendar e) = validate_calendar_context e"
| "validate_event_payload aware (EvMonthlyStatus e) = validate_monthly_input e"
| "validate_event_payload aware (EvConfig e) = validate_paper_config e"
| "validate_event_payload aware (EvCosts e) = validate_cost_settings e"
| "validate_event_payload aware (EvTradePlan e) = validate_trade_plan aware e"

definition validate_event :: "bool \<Rightarrow> paper_event \<Rightarrow> datetime \<Rightarrow> validation_outcome" where
  "validate_event aware event now =
     build_result (validate_envelope aware (envelope_of event) @ validate_event_payload aware event) NOT_STARTED
       (en_data_quality_flags (envelope_of event)) now [] []"

section \<open>Readiness of a session\<close>

definition required_labels_for_config :: "session_config \<Rightarrow> snapshot_label list" where
  "required_labels_for_config c =
     (if pc_allow_current_day_fsl_trp c then [AT_0915, ORPT, RC]
      else if pc_allow_recalculation c then [ORPT, RC] else [ORPT])"

text \<open>Missing labels (no complete snapshot) and labels supplied more than once, those in the order of their text.\<close>

definition missing_snapshots :: "underlying_snapshot list \<Rightarrow> snapshot_label list \<Rightarrow> snapshot_label list" where
  "missing_snapshots snapshots required =
     filter (\<lambda>l. \<not> list_ex (\<lambda>s. un_snapshot_label s = l \<and> un_complete s) snapshots) required"

definition duplicate_snapshots :: "underlying_snapshot list \<Rightarrow> snapshot_label list" where
  "duplicate_snapshots snapshots =
     filter (\<lambda>l. length (filter (\<lambda>s. un_snapshot_label s = l) snapshots) > 1)
       (sort_key snapshot_label_value (remdups (map un_snapshot_label snapshots)))"

definition quote_freshness ::
  "bool \<Rightarrow> event_envelope \<Rightarrow> datetime \<Rightarrow> int \<Rightarrow> string \<Rightarrow> validation_note list" where
  "quote_freshness aware e now max_quote_age stale_code =
     (if \<not> aware then [mk_note ''naive_validation_reference_time''
          ''Validation reference time must be timezone-aware.'' IS_ABORTED None None]
      else let age = now - en_effective_timestamp e in
        if age < 0 then [mk_note ''future_quote_timestamp''
          ''Quote effective_timestamp is in the future relative to validation time.'' IS_ABORTED None
          (Some (en_event_type e))]
        else issue_if (age > max_quote_age)
          \<lparr>vn_code = stale_code,
           vn_message = [Txt ''Quote age '', PyFixed 0 (of_int age / 1000000), Txt ''s exceeds allowed freshness.''],
           vn_readiness_status = IS_NO_TRADE, vn_field_name = None, vn_event_type = Some (en_event_type e)\<rparr>)"

record readiness_inputs =
  rdi_calendar :: calendar_context
  rdi_monthly :: monthly_input
  rdi_config :: session_config
  rdi_costs :: cost_settings
  rdi_quote :: underlying_quote
  rdi_snapshots :: "underlying_snapshot list"
  rdi_chain :: "option_chain option"
  rdi_selected :: "selected_quote option"

definition readiness_events :: "readiness_inputs \<Rightarrow> paper_event list" where
  "readiness_events i =
     [EvCalendar (rdi_calendar i), EvMonthlyStatus (rdi_monthly i), EvConfig (rdi_config i), EvCosts (rdi_costs i),
      EvUnderlyingQuote (rdi_quote i)] @ map EvUnderlyingSnapshot (rdi_snapshots i) @
     (case rdi_chain i of None \<Rightarrow> [] | Some c \<Rightarrow> [EvOptionChain c]) @
     (case rdi_selected i of None \<Rightarrow> [] | Some q \<Rightarrow> [EvSelectedQuote q])"

definition scope_issues :: "session_config \<Rightarrow> validation_note list" where
  "scope_issues c =
     issue_if (pc_strategy_code c \<noteq> ''S23'')
       (mk_note ''unsupported_strategy_code'' ''Only S23 is supported by the first paper-mode rollout.''
          IS_NO_TRADE (Some ''strategy_code'') (Some PAPER_SESSION_CONFIG)) @
     issue_if (pc_symbol c \<noteq> ''NIFTY'')
       (mk_note ''unsupported_symbol_scope'' ''Only NIFTY is supported by the first paper-mode rollout.''
          IS_NO_TRADE (Some ''symbol'') (Some PAPER_SESSION_CONFIG)) @
     issue_if (pc_contract_cycle c \<noteq> ''WEEKLY'')
       (mk_note ''unsupported_contract_cycle'' ''Only weekly options are supported by the first paper-mode rollout.''
          IS_NO_TRADE (Some ''contract_cycle'') (Some PAPER_SESSION_CONFIG)) @
     issue_if (lower (pc_mode c) \<noteq> ''paper'')
       (mk_note ''unsupported_mode'' ''Only paper mode is supported by this contract foundation.''
          IS_ABORTED (Some ''mode'') (Some PAPER_SESSION_CONFIG)) @
     issue_if (\<not> pc_paper_mode_enabled c)
       (mk_note ''paper_mode_disabled'' ''Paper mode must be explicitly enabled for S23 paper sessions.''
          IS_ABORTED (Some ''paper_mode_enabled'') (Some PAPER_SESSION_CONFIG))"

definition day_issues :: "calendar_context \<Rightarrow> monthly_input \<Rightarrow> validation_note list" where
  "day_issues c m =
     issue_if (cx_is_holiday c)
       (mk_note ''holiday_session_blocked'' ''Holiday sessions must not trade.'' IS_NO_TRADE None
          (Some CALENDAR_CONTEXT)) @
     issue_if (mn_monthly_status m = Some UNKNOWN)
       (mk_note ''monthly_status_unknown'' ''Monthly status UNKNOWN must result in NO_TRADE.'' IS_NO_TRADE None
          (Some MONTHLY_STATUS_INPUT))"

definition snapshot_issues :: "snapshot_label list \<Rightarrow> snapshot_label list \<Rightarrow> validation_note list" where
  "snapshot_issues duplicates missing =
     map (\<lambda>l. mk_note (''duplicate_snapshot_'' @ snapshot_label_value l)
        (''Multiple '' @ snapshot_label_value l @ '' snapshots were supplied for one S23 paper session.'')
        IS_ABORTED None (Some UNDERLYING_SNAPSHOT)) duplicates @
     map (\<lambda>l. mk_note (''missing_snapshot_'' @ snapshot_label_value l)
        (''Required '' @ snapshot_label_value l @ '' snapshot is missing for the requested S23 paper path.'')
        IS_NO_TRADE None (Some UNDERLYING_SNAPSHOT)) missing"

definition contract_issues ::
  "bool \<Rightarrow> option_chain option \<Rightarrow> selected_quote option \<Rightarrow> datetime \<Rightarrow> int \<Rightarrow> validation_note list" where
  "contract_issues aware chain selected now max_quote_age =
     (case selected of
        None \<Rightarrow> [mk_note ''missing_selected_contract_quote''
          ''Decision-ready paper sessions require a selected contract quote.'' IS_NO_TRADE None
          (Some SELECTED_CONTRACT_QUOTE)]
      | Some q \<Rightarrow> quote_freshness aware (sq_envelope q) now max_quote_age ''stale_selected_contract_quote'') @
     (case chain of
        None \<Rightarrow> [mk_note ''missing_option_chain_snapshot''
          ''Decision-ready paper sessions require an option-chain snapshot.'' IS_NO_TRADE None
          (Some OPTION_CHAIN_SNAPSHOT)]
      | Some c \<Rightarrow> (case selected of None \<Rightarrow> []
          | Some q \<Rightarrow> issue_if (\<not> list_ex (\<lambda>k. oc_symbol k = sq_symbol q) (ch_contracts c))
              (mk_note ''selected_contract_not_in_option_chain''
                 ''The selected contract quote is not present in the supplied option chain.'' IS_NO_TRADE None
                 (Some SELECTED_CONTRACT_QUOTE))))"

definition event_issues :: "bool \<Rightarrow> readiness_inputs \<Rightarrow> datetime \<Rightarrow> validation_note list" where
  "event_issues aware i now = concat (map (\<lambda>e. vt_issues (validate_event aware e now)) (readiness_events i))"

definition readiness_labels :: "session_config \<Rightarrow> snapshot_label list \<Rightarrow> snapshot_label list" where
  "readiness_labels c required = (if required \<noteq> [] then required else required_labels_for_config c)"

definition validate_session_readiness ::
  "bool \<Rightarrow> readiness_inputs \<Rightarrow> datetime \<Rightarrow> int \<Rightarrow> snapshot_label list \<Rightarrow> validation_outcome" where
  "validate_session_readiness aware i now max_quote_age required =
     (let issues = event_issues aware i now;
          warnings = sort (remdups (concat (map (\<lambda>e. vt_warnings (validate_event aware e now)) (readiness_events i))))
      in if list_ex (\<lambda>x. vn_readiness_status x = IS_ABORTED) issues
         then build_result issues DECISION_READY warnings now required []
         else let labels = readiness_labels (rdi_config i) required;
                  missing = missing_snapshots (rdi_snapshots i) labels
           in build_result
                (issues @ scope_issues (rdi_config i) @ day_issues (rdi_calendar i) (rdi_monthly i) @
                 snapshot_issues (duplicate_snapshots (rdi_snapshots i)) missing @
                 quote_freshness aware (uq_envelope (rdi_quote i)) now max_quote_age ''stale_underlying_quote'' @
                 contract_issues aware (rdi_chain i) (rdi_selected i) now max_quote_age)
                DECISION_READY warnings now labels missing)"

section \<open>The manifest\<close>

definition overlays_enabled :: "session_config \<Rightarrow> string list" where
  "overlays_enabled c = (if pc_allow_recalculation c then [''S23_RECALCULATION''] else []) @
     (if pc_allow_current_day_fsl_trp c then [''S23_CURRENT_DAY_FSL_TRP''] else [])"

definition source_reference :: "paper_event \<Rightarrow> data_source_reference" where
  "source_reference event = (let e = envelope_of event in
     \<lparr>ds_event_type = en_event_type e, ds_source_type = en_source_type e, ds_source_id = en_source_id e,
      ds_synthetic_fixture = en_synthetic_fixture e\<rparr>)"

definition collect_data_sources :: "paper_event list \<Rightarrow> data_source_reference list" where
  "collect_data_sources events = map snd (sort_key fst (dict_of
     (\<lambda>event. (event_type_value (en_event_type (envelope_of event)), en_source_id (envelope_of event)))
     source_reference events))"

definition build_manifest ::
  "session_config \<Rightarrow> cost_settings \<Rightarrow> validation_outcome \<Rightarrow> paper_event list \<Rightarrow> datetime \<Rightarrow> session_manifest" where
  "build_manifest config costs v events generated_at =
     (let sources = collect_data_sources events in
      \<lparr>mf_strategy_code = pc_strategy_code config, mf_symbol = pc_symbol config,
       mf_contract_cycle = pc_contract_cycle config, mf_mode = pc_mode config,
       mf_session_date = en_session_date (pc_envelope config),
       mf_readiness_status = vt_readiness_status v, mf_evaluated_state = vt_evaluated_state v,
       mf_overlays_enabled = overlays_enabled config, mf_data_sources = sources,
       mf_cost_slippage_version = cc_version_label costs, mf_no_trade_reasons = vt_no_trade_reasons v,
       mf_abort_reasons = vt_abort_reasons v, mf_warnings = vt_warnings v,
       mf_synthetic_fixture_used = list_ex ds_synthetic_fixture sources, mf_generated_at = generated_at,
       mf_brokerage_per_lot = cc_brokerage_per_lot costs,
       mf_slippage_entry_points = cc_slippage_entry_points costs,
       mf_slippage_exit_points = cc_slippage_exit_points costs,
       mf_spread_buffer_policy = Some (cc_spread_buffer_policy costs)\<rparr>)"

section \<open>What the validator accepts\<close>

lemma build_result_simps [simp]:
  "vt_issues (build_result is st ws now rl ml) = is"
  "vt_warnings (build_result is st ws now rl ml) = ws"
  "vt_required_snapshot_labels (build_result is st ws now rl ml) = rl"
  "vt_missing_snapshot_labels (build_result is st ws now rl ml) = ml"
  "vt_evaluated_state (build_result is st ws now rl ml) = st"
  "vt_validated_at (build_result is st ws now rl ml) = now"
  by (simp_all add: build_result_def Let_def)

text \<open>No check ever records a note with the status \<open>IS_READY\<close>.\<close>

definition blocking :: "validation_note list \<Rightarrow> bool" where
  "blocking is \<longleftrightarrow> list_all (\<lambda>i. vn_readiness_status i \<noteq> IS_READY) is"

lemma blocking_simps [simp]:
  "blocking []" "blocking (a @ b) \<longleftrightarrow> blocking a \<and> blocking b"
  "blocking (i # is) \<longleftrightarrow> vn_readiness_status i \<noteq> IS_READY \<and> blocking is"
  by (auto simp: blocking_def)

lemma blocking_if [simp]: "blocking (issue_if c i) \<longleftrightarrow> (c \<longrightarrow> vn_readiness_status i \<noteq> IS_READY)"
  by (simp add: issue_if_def)

lemma blocking_concat: "(\<And>x. x \<in> set xs \<Longrightarrow> blocking (f x)) \<Longrightarrow> blocking (concat (map f xs))"
  by (induction xs) auto

lemma mk_note_status [simp]: "vn_readiness_status (mk_note c m s f e) = s"
  by (simp add: mk_note_def)

lemma mk_note_code [simp]: "vn_code (mk_note c m s f e) = c"
  by (simp add: mk_note_def)

lemma abort_note_status [simp]: "vn_readiness_status (abort_note e c m f) = IS_ABORTED"
  by (simp add: abort_note_def)

lemma build_result_ready:
  "blocking is \<Longrightarrow> vt_readiness_status (build_result is st ws now rl ml) = IS_READY \<longleftrightarrow> is = []"
  by (cases "is") (auto simp: build_result_def Let_def blocking_def filter_empty_conv list_all_iff
      intro: readiness_status.exhaust)

lemma build_result_aborted:
  "vt_readiness_status (build_result is st ws now rl ml) = IS_ABORTED \<longleftrightarrow>
   list_ex (\<lambda>i. vn_readiness_status i = IS_ABORTED) is"
  by (auto simp: build_result_def Let_def filter_empty_conv list_ex_iff)

lemma missing_values_Nil [simp]: "missing_values p r t vs = [] \<longleftrightarrow> list_all snd vs"
  by (auto simp: missing_values_def filter_empty_conv list_all_iff)

lemma blocking_missing [simp]: "blocking (missing_values p r t vs)"
  by (auto simp: missing_values_def blocking_def list_all_iff)

lemma blocking_positive [simp]: "blocking (positive_values e vs)"
  unfolding positive_values_def
  by (rule blocking_concat) (auto split: option.splits)

lemma positive_values_Nil [simp]:
  "positive_values e vs = [] \<longleftrightarrow> list_all (\<lambda>(n, v). \<exists>x. v = Some x \<and> 0 < x) vs"
  by (auto simp: positive_values_def list_all_iff split: option.splits)

definition envelope_ok :: "event_envelope \<Rightarrow> bool" where
  "envelope_ok e \<longleftrightarrow> en_timezone e = ALLOWED_TIMEZONE \<and> date_of (en_effective_timestamp e) = en_session_date e \<and>
     has_text (en_source_type e) \<and> has_text (en_source_id e) \<and> has_text (en_normalized_by e)"

definition contract_ok :: "option_contract \<Rightarrow> bool" where
  "contract_ok c \<longleftrightarrow> has_text (oc_symbol c) \<and> oc_option_type c \<noteq> None \<and> oc_strike c \<noteq> None \<and> oc_expiry c \<noteq> None \<and>
     oc_bid c \<noteq> None \<and> oc_ask c \<noteq> None \<and> oc_ltp c \<noteq> None \<and> oc_oi c \<noteq> None"

fun payload_ok :: "paper_event \<Rightarrow> bool" where
  "payload_ok (EvUnderlyingQuote q) \<longleftrightarrow> has_text (uq_symbol q) \<and> uq_ltp q \<noteq> None"
| "payload_ok (EvUnderlyingSnapshot s) \<longleftrightarrow> un_high s \<noteq> None \<and> un_low s \<noteq> None \<and> un_bar_start s \<le> un_bar_end s"
| "payload_ok (EvOptionChain c) \<longleftrightarrow> has_text (ch_underlying_symbol c) \<and> ch_contracts c \<noteq> [] \<and> list_all contract_ok (ch_contracts c)"
| "payload_ok (EvSelectedQuote q) \<longleftrightarrow> has_text (sq_symbol q) \<and> sq_option_type q \<noteq> None \<and> sq_strike q \<noteq> None \<and>
     sq_expiry q \<noteq> None \<and> sq_bid q \<noteq> None \<and> sq_ask q \<noteq> None \<and> sq_ltp q \<noteq> None \<and> sq_oi q \<noteq> None"
| "payload_ok (EvSelectedBar b) \<longleftrightarrow> has_text (sb_symbol b) \<and> sb_open b \<noteq> None \<and> sb_high b \<noteq> None \<and> sb_low b \<noteq> None \<and>
     sb_close b \<noteq> None \<and> sb_bar_start b \<le> sb_bar_end b"
| "payload_ok (EvCalendar c) \<longleftrightarrow> cx_weekly_expiry c \<noteq> None \<and> cx_market_open c \<noteq> None \<and> cx_market_close c \<noteq> None"
| "payload_ok (EvMonthlyStatus m) \<longleftrightarrow> mn_monthly_status m \<noteq> None \<and> has_text (mn_status_source m) \<and>
     mn_reference_date m \<noteq> None \<and> has_text (mn_threshold_version m)"
| "payload_ok (EvConfig c) \<longleftrightarrow> has_text (pc_strategy_code c) \<and> has_text (pc_operator_id c) \<and> has_text (pc_symbol c) \<and>
     has_text (pc_contract_cycle c) \<and> has_text (pc_mode c)"
| "payload_ok (EvCosts c) \<longleftrightarrow> cc_brokerage_per_lot c \<noteq> None \<and> cc_slippage_entry_points c \<noteq> None \<and>
     cc_slippage_exit_points c \<noteq> None \<and> has_text (cc_spread_buffer_policy c) \<and> has_text (cc_version_label c)"
| "payload_ok (EvTradePlan p) \<longleftrightarrow> has_text (te_strategy_branch p) \<and> te_order_side p = ''SELL'' \<and>
     has_text (te_order_reference_label p) \<and> (\<exists>l. te_lots p = Some l \<and> 0 < l) \<and> (\<exists>q. te_quantity p = Some q \<and> 0 < q) \<and>
     (\<exists>x. te_planned_entry_price p = Some x \<and> 0 < x) \<and> (\<exists>x. te_target_price p = Some x \<and> 0 < x) \<and>
     (\<exists>x. te_stoploss_price p = Some x \<and> 0 < x) \<and> te_order_reference_time p \<noteq> None"

definition event_ok :: "paper_event \<Rightarrow> bool" where
  "event_ok e \<longleftrightarrow> envelope_ok (envelope_of e) \<and> payload_ok e"

lemma has_text_timezone: "has_text ALLOWED_TIMEZONE"
  by (simp add: has_text_def ALLOWED_TIMEZONE_def strip_def is_space_def)

lemma envelope_issues_Nil: "validate_envelope aware e = [] \<longleftrightarrow> aware \<and> envelope_ok e"
  using has_text_timezone by (auto simp: validate_envelope_def envelope_ok_def Let_def)

lemma blocking_envelope: "blocking (validate_envelope aware e)"
  by (auto simp: validate_envelope_def Let_def)

lemma contract_issues_Nil: "validate_option_chain_contract c = [] \<longleftrightarrow> contract_ok c"
  by (auto simp: validate_option_chain_contract_def contract_ok_def)

lemma blocking_chain: "blocking (validate_option_chain c)"
  by (auto simp: validate_option_chain_def validate_option_chain_contract_def intro!: blocking_concat)

lemmas payload_checks =
  validate_underlying_quote_def validate_underlying_snapshot_def validate_selected_quote_def validate_selected_bar_def
  validate_calendar_context_def validate_monthly_input_def validate_paper_config_def validate_cost_settings_def
  validate_trade_plan_def

lemma blocking_payload: "blocking (validate_event_payload aware e)"
  by (cases e) (auto simp: payload_checks blocking_chain)

lemma chain_issues_Nil: "validate_option_chain c = [] \<longleftrightarrow> payload_ok (EvOptionChain c)"
  by (auto simp: validate_option_chain_def contract_issues_Nil list_all_iff)

lemma trade_plan_issues_Nil: "aware \<Longrightarrow> validate_trade_plan aware p = [] \<longleftrightarrow> payload_ok (EvTradePlan p)"
proof -
  have sell: "has_text ''SELL''" by (simp add: has_text_def strip_def is_space_def)
  assume "aware"
  then show ?thesis using sell by (auto simp: validate_trade_plan_def)
qed

lemma payload_issues_Nil: "aware \<Longrightarrow> validate_event_payload aware e = [] \<longleftrightarrow> payload_ok e"
proof (cases e)
  case (EvOptionChain c)
  then show ?thesis by (simp add: chain_issues_Nil del: payload_ok.simps)
next
  case (EvTradePlan p)
  moreover assume "aware"
  ultimately show ?thesis by (simp add: trade_plan_issues_Nil del: payload_ok.simps)
qed (auto simp: payload_checks not_less)

text \<open>
  An event is ready exactly when its envelope and its payload are complete and the times carry a
  time zone.
\<close>

lemma validate_event_ready_iff:
  "vt_readiness_status (validate_event aware e now) = IS_READY \<longleftrightarrow> aware \<and> event_ok e"
  by (auto simp: validate_event_def build_result_ready blocking_envelope blocking_payload envelope_issues_Nil
      payload_issues_Nil event_ok_def)

lemma event_issues_Nil: "event_issues aware i now = [] \<longleftrightarrow> aware \<and> list_all event_ok (readiness_events i)"
proof -
  have "vt_issues (validate_event aware e now) = [] \<longleftrightarrow> aware \<and> event_ok e" for e
    by (auto simp: validate_event_def envelope_issues_Nil payload_issues_Nil event_ok_def)
  moreover have "readiness_events i \<noteq> []" by (simp add: readiness_events_def)
  ultimately show ?thesis by (cases "readiness_events i") (auto simp: event_issues_def list_all_iff)
qed

lemma blocking_event_issues: "blocking (event_issues aware i now)"
  unfolding event_issues_def
  by (rule blocking_concat) (simp add: validate_event_def blocking_envelope blocking_payload)

lemma blocking_freshness: "blocking (quote_freshness aware e now m c)"
  by (auto simp: quote_freshness_def Let_def)

lemma freshness_Nil:
  "quote_freshness aware e now m c = [] \<longleftrightarrow>
   aware \<and> en_effective_timestamp e \<le> now \<and> now - en_effective_timestamp e \<le> m"
  by (auto simp: quote_freshness_def Let_def)

lemma blocking_snapshot_issues: "blocking (snapshot_issues ds ms)"
  by (auto simp: snapshot_issues_def blocking_def list_all_iff)

lemma blocking_contract_issues: "blocking (contract_issues aware ch s now m)"
  by (auto simp: contract_issues_def blocking_freshness split: option.splits)

lemma duplicates_Nil: "duplicate_snapshots ss = [] \<longleftrightarrow> distinct (map un_snapshot_label ss)"
proof -
  have count: "length (filter (\<lambda>s. un_snapshot_label s = l) ss) = count_list (map un_snapshot_label ss) l" for l
    by (induction ss) auto
  have "(\<forall>x \<in> set xs. \<not> 1 < count_list xs x) \<longleftrightarrow> distinct xs" for xs :: "snapshot_label list"
    by (induction xs) (auto simp: count_list_0_iff split: if_splits)
  from this [of "map un_snapshot_label ss"] show ?thesis
    by (simp add: duplicate_snapshots_def filter_empty_conv count)
qed

lemma missing_Nil:
  "missing_snapshots ss ls = [] \<longleftrightarrow> (\<forall>l \<in> set ls. \<exists>s \<in> set ss. un_snapshot_label s = l \<and> un_complete s)"
  by (auto simp: missing_snapshots_def filter_empty_conv list_ex_iff)

definition fresh :: "datetime \<Rightarrow> int \<Rightarrow> event_envelope \<Rightarrow> bool" where
  "fresh now m e \<longleftrightarrow> en_effective_timestamp e \<le> now \<and> now - en_effective_timestamp e \<le> m"

definition in_scope :: "session_config \<Rightarrow> bool" where
  "in_scope c \<longleftrightarrow> pc_strategy_code c = ''S23'' \<and> pc_symbol c = ''NIFTY'' \<and> pc_contract_cycle c = ''WEEKLY'' \<and>
     lower (pc_mode c) = ''paper'' \<and> pc_paper_mode_enabled c"

lemma scope_issues_Nil: "scope_issues c = [] \<longleftrightarrow> in_scope c" "blocking (scope_issues c)"
  by (auto simp: scope_issues_def in_scope_def)

lemma day_issues_Nil: "day_issues c m = [] \<longleftrightarrow> \<not> cx_is_holiday c \<and> mn_monthly_status m \<noteq> Some UNKNOWN" "blocking (day_issues c m)"
  by (auto simp: day_issues_def)

lemma contract_issues_Nil_iff:
  "contract_issues aware ch sel now m = [] \<longleftrightarrow>
   (\<exists>q c. sel = Some q \<and> ch = Some c \<and> aware \<and> fresh now m (sq_envelope q) \<and>
      (\<exists>k \<in> set (ch_contracts c). oc_symbol k = sq_symbol q))"
  by (cases ch; cases sel) (auto simp: contract_issues_def freshness_Nil fresh_def list_ex_iff)

text \<open>The readiness of a session as one condition on its inputs.\<close>

definition session_ready :: "readiness_inputs \<Rightarrow> datetime \<Rightarrow> int \<Rightarrow> snapshot_label list \<Rightarrow> bool" where
  "session_ready i now m labels \<longleftrightarrow>
     list_all event_ok (readiness_events i) \<and> in_scope (rdi_config i) \<and> \<not> cx_is_holiday (rdi_calendar i) \<and>
     mn_monthly_status (rdi_monthly i) \<noteq> Some UNKNOWN \<and> distinct (map un_snapshot_label (rdi_snapshots i)) \<and>
     (\<forall>l \<in> set labels. \<exists>s \<in> set (rdi_snapshots i). un_snapshot_label s = l \<and> un_complete s) \<and>
     fresh now m (uq_envelope (rdi_quote i)) \<and>
     (\<exists>q c. rdi_selected i = Some q \<and> rdi_chain i = Some c \<and> fresh now m (sq_envelope q) \<and>
        (\<exists>k \<in> set (ch_contracts c). oc_symbol k = sq_symbol q))"

lemma snapshot_issues_Nil: "snapshot_issues ds ms = [] \<longleftrightarrow> ds = [] \<and> ms = []"
  by (simp add: snapshot_issues_def)

text \<open>
  A session is ready exactly when every event is complete, the configuration is in the supported
  scope, the day may trade, every required snapshot is there once and complete, both quotes are
  fresh and the selected contract is a row of the option chain.
\<close>
theorem session_readiness_iff:
  "vt_readiness_status (validate_session_readiness aware i now m required) = IS_READY \<longleftrightarrow>
   aware \<and> session_ready i now m (readiness_labels (rdi_config i) required)"
proof (cases "event_issues aware i now = []")
  case True
  then have "aware" "list_all event_ok (readiness_events i)" by (simp_all add: event_issues_Nil)
  with True have "event_issues True i now = []" by simp
  with \<open>aware\<close> \<open>list_all event_ok (readiness_events i)\<close> show ?thesis
    by (simp add: validate_session_readiness_def Let_def build_result_ready scope_issues_Nil day_issues_Nil
        blocking_freshness blocking_snapshot_issues blocking_contract_issues snapshot_issues_Nil duplicates_Nil missing_Nil
        freshness_Nil contract_issues_Nil_iff session_ready_def fresh_def)
next
  case False
  then have "\<not> (aware \<and> list_all event_ok (readiness_events i))" by (simp add: event_issues_Nil)
  moreover have "vt_readiness_status (validate_session_readiness aware i now m required) \<noteq> IS_READY"
    using False by (auto simp: validate_session_readiness_def Let_def build_result_ready blocking_event_issues scope_issues_Nil
        day_issues_Nil blocking_freshness blocking_snapshot_issues blocking_contract_issues)
  ultimately show ?thesis by (auto simp: session_ready_def)
qed

end
