(* ===== verification/Guardrails.thy ===== *)
theory Guardrails
  imports PaperValidation
begin

text \<open>
  \<^verbatim>\<open>src/tfis/paper/guardrails.py\<close>: the checks that stand between the phases of a paper session.
  Each phase returns the first check that blocks, or nothing; the shells of the later phases call
  the earlier ones on the same arguments. Fields of \<^verbatim>\<open>S23PaperGuardrailSettings\<close> carry the
  prefix \<open>gs_\<close>, of \<^verbatim>\<open>PaperGuardrailDecision\<close> \<open>gr_\<close>, of the keyword arguments the shells pass on
  \<open>gi_\<close>.
\<close>

section \<open>Settings and decisions\<close>

record guardrail_settings =
  gs_global_paper_trading_enabled :: bool
  gs_s23_paper_enabled :: bool
  gs_manual_operator_abort :: bool
  gs_manual_abort_reason :: "string option"
  gs_max_planned_orders_per_session :: int
  gs_enforce_liquidity_checks :: bool
  gs_min_selected_contract_oi :: "price option"
  gs_max_selected_contract_spread_points :: "price option"
  gs_global_paper_execution_enabled :: bool
  gs_s23_paper_execution_enabled :: bool
  gs_manual_operator_abort_after_planning :: bool
  gs_manual_abort_after_planning_reason :: "string option"
  gs_require_operator_review :: bool
  gs_operator_review_completed :: bool
  gs_require_historical_comparison :: bool
  gs_acceptable_comparison_statuses :: "string list"
  gs_require_replay_bundle_validation :: bool
  gs_require_same_day_only_confirmation :: bool
  gs_same_day_only_policy_confirmed :: bool
  gs_manual_operator_abort_before_dispatch :: bool
  gs_manual_abort_before_dispatch_reason :: "string option"
  gs_manual_operator_abort_before_handoff :: bool
  gs_manual_abort_before_handoff_reason :: "string option"
  gs_manual_operator_abort_before_fill :: bool
  gs_manual_abort_before_fill_reason :: "string option"
  gs_manual_operator_abort_during_lifecycle :: bool
  gs_manual_abort_during_lifecycle_reason :: "string option"

definition default_settings :: guardrail_settings where
  "default_settings =
     \<lparr>gs_global_paper_trading_enabled = True, gs_s23_paper_enabled = True, gs_manual_operator_abort = False,
      gs_manual_abort_reason = None, gs_max_planned_orders_per_session = 1, gs_enforce_liquidity_checks = False,
      gs_min_selected_contract_oi = None, gs_max_selected_contract_spread_points = None,
      gs_global_paper_execution_enabled = True, gs_s23_paper_execution_enabled = True,
      gs_manual_operator_abort_after_planning = False, gs_manual_abort_after_planning_reason = None,
      gs_require_operator_review = False, gs_operator_review_completed = True,
      gs_require_historical_comparison = True, gs_acceptable_comparison_statuses = [''MATCH'', ''PARTIAL_MATCH''],
      gs_require_replay_bundle_validation = True, gs_require_same_day_only_confirmation = True,
      gs_same_day_only_policy_confirmed = True, gs_manual_operator_abort_before_dispatch = False,
      gs_manual_abort_before_dispatch_reason = None, gs_manual_operator_abort_before_handoff = False,
      gs_manual_abort_before_handoff_reason = None, gs_manual_operator_abort_before_fill = False,
      gs_manual_abort_before_fill_reason = None, gs_manual_operator_abort_during_lifecycle = False,
      gs_manual_abort_during_lifecycle_reason = None\<rparr>"

record guardrail_decision =
  gr_code :: string
  gr_message :: msg
  gr_readiness_status :: readiness_status
  gr_blocking_event_type :: "paper_event_type option"
  gr_blocking_source_id :: "string option"
  gr_operator_action_required :: "string option"

definition decision_terminal_state :: "guardrail_decision \<Rightarrow> session_state" where
  "decision_terminal_state d = (if gr_readiness_status d = IS_ABORTED then ABORTED else NO_TRADE)"

definition operator_action_for_code :: "string \<Rightarrow> string" where
  "operator_action_for_code code =
    (if code = ''global_paper_trading_disabled'' then
       ''Re-enable global paper trading before starting a new S23 paper session.''
     else if code = ''s23_paper_disabled'' then
       ''Enable S23 paper trading or skip the S23 session for today.''
     else if code \<in> {''manual_operator_abort'', ''session_kill_switch_enabled''} then
       ''Review the operator kill-switch state before starting another S23 paper session.''
     else if code = ''max_planned_orders_per_session_exceeded'' then
       ''Start a fresh S23 paper session before planning another order.''
     else if code = ''paper_mode_disabled'' then
       ''Enable paper mode in the S23 paper-session config.''
     else if starts_with ''missing_snapshot_'' code then
       ''Wait for the required normalized snapshots before planning S23.''
     else if code \<in> {''missing_option_chain_snapshot'', ''selected_contract_not_in_option_chain''} then
       ''Refresh the option chain before attempting to plan S23.''
     else if code = ''missing_selected_contract_quote'' then
       ''Refresh or reselect the chosen contract quote before continuing the S23 paper shell.''
     else if code \<in> {''stale_underlying_quote'', ''stale_selected_contract_quote'', ''stale_ingest_quote'', ''future_ingest_quote_timestamp''} then
       ''Refresh the affected live-paper data source before planning S23.''
     else if code = ''selected_contract_stale_before_execution'' then
       ''Refresh the selected-contract quote before marking the S23 intent ready for any future execution shell.''
     else if code = ''unsupported_continuation_path'' then
       ''Keep same-day square-off enabled until the paper runtime supports multi-session carry-forward and expiry-aware continuation handling.''
     else if code = ''monthly_status_unknown'' then
       ''Wait for a non-UNKNOWN monthly status before planning S23.''
     else if code = ''holiday_session_blocked'' then
       ''Do not start an S23 paper session on a holiday.''
     else if code \<in> {''selected_contract_oi_below_minimum'', ''selected_contract_spread_too_wide''} then
       ''Wait for better liquidity or adjust the configured paper thresholds.''
     else if code = ''session_already_terminal'' then
       ''Start a new S23 paper session before accepting more paper events.''
     else if code = ''global_paper_execution_disabled'' then
       ''Re-enable the global paper execution shell before handing off S23 intents.''
     else if code = ''s23_paper_execution_disabled'' then
       ''Re-enable S23 paper execution-shell readiness before handing off the intent.''
     else if code = ''manual_operator_abort_after_planning'' then
       ''Resolve the operator abort and review the intent shell before any future execution phase.''
     else if code = ''operator_review_incomplete'' then
       ''Complete the operator review before marking the S23 intent ready.''
     else if code = ''duplicate_paper_order_intent_generation'' then
       ''Do not regenerate the same S23 paper order intent; review the persisted intent and journal instead.''
     else if code = ''duplicate_execution_shell_arming_attempt'' then
       ''Do not arm the same S23 execution shell more than once; review the persisted execution journal instead.''
     else if code = ''selected_contract_mismatch_between_order_plan_and_intent'' then
       ''Regenerate or discard the paper intent because it no longer matches the planned selected contract.''
     else if code = ''corrupt_order_intent_artifact'' then
       ''Repair or regenerate the corrupted paper order-intent artifact before continuing.''
     else if code = ''missing_order_intent_artifact'' then
       ''Regenerate the missing paper order-intent artifact before continuing.''
     else if code \<in> {''invalid_replay_bundle'', ''session_artifact_hash_mismatch''} then
       ''Rebuild and revalidate the replay bundle before continuing the S23 execution shell.''
     else if code = ''missing_replay_bundle_validation'' then
       ''Create and validate a replay bundle before arming the S23 execution shell.''
     else if code = ''missing_historical_comparison'' then
       ''Run paper-vs-historical comparison before arming the S23 execution shell.''
     else if code \<in> {''historical_comparison_mismatch'', ''historical_comparison_uncomparable'', ''historical_comparison_not_acceptable''} then
       ''Resolve the paper-vs-historical comparison result before arming the S23 execution shell.''
     else if code = ''same_day_only_policy_not_confirmed'' then
       ''Confirm same-day-only operating policy before arming the S23 execution shell.''
     else if code = ''manual_operator_abort_before_dispatch'' then
       ''Resolve the operator cancel request before attempting to dispatch the S23 paper intent.''
     else if code = ''execution_shell_not_armed_for_dispatch'' then
       ''Arm the S23 execution shell successfully before attempting any dispatch handoff.''
     else if code = ''duplicate_order_intent_dispatch_attempt'' then
       ''Do not dispatch the same S23 paper intent twice; review the persisted dispatch summary instead.''
     else if code = ''session_artifact_mismatch_before_dispatch'' then
       ''Repair or regenerate the paper execution-shell artifacts before dispatching the S23 intent.''
     else if code = ''manual_operator_abort_before_handoff'' then
       ''Resolve the operator cancel request before marking the S23 intent eligible for any future fill simulator.''
     else if code = ''dispatch_shell_not_ready_for_handoff'' then
       ''Dispatch the S23 intent filllessly before attempting the final execution handoff boundary.''
     else if code = ''session_artifact_mismatch_before_handoff'' then
       ''Repair or regenerate the paper execution-shell artifacts before marking final handoff readiness.''
     else if code = ''duplicate_execution_handoff_attempt'' then
       ''Do not mark the same S23 handoff boundary twice; review the persisted handoff summary instead.''
     else if code = ''manual_operator_abort_before_fill'' then
       ''Resolve the operator cancel request before running the S23 Phase 1 paper fill simulator.''
     else if code = ''execution_handoff_not_ready_for_fill'' then
       ''Do not run the paper fill simulator until the final S23 handoff boundary is ready.''
     else if code = ''duplicate_fill_attempt'' then
       ''Do not run the S23 Phase 1 fill simulator twice for the same session; review the persisted fill artifacts instead.''
     else if code = ''selected_contract_mismatch_before_fill'' then
       ''Supply selected-contract market data for the exact planned S23 symbol before running the fill simulator.''
     else if code = ''missing_fill_artifact_for_lifecycle'' then
       ''Complete a valid Phase 1 paper fill before starting the S23 same-day lifecycle loop.''
     else if code = ''paper_fill_not_ready_for_lifecycle'' then
       ''Do not start the S23 lifecycle loop until the paper fill result is PAPER_ORDER_FILLED.''
     else if code = ''duplicate_lifecycle_start'' then
       ''Do not start the S23 lifecycle loop twice for the same session; review the persisted lifecycle artifacts instead.''
     else if code = ''selected_contract_mismatch_before_lifecycle'' then
       ''Repair the selected-contract artifacts so the lifecycle loop uses the exact symbol that was filled.''
     else if code = ''missing_target_price_for_lifecycle'' then
       ''Regenerate the paper order plan so the S23 lifecycle loop has a target price.''
     else if code = ''missing_stoploss_or_fsl_for_lifecycle'' then
       ''Regenerate the paper order plan so the S23 lifecycle loop has a stoploss or FSL threshold.''
     else if code = ''same_day_only_policy_not_confirmed_for_lifecycle'' then
       ''Confirm same-day-only policy before starting the S23 paper lifecycle loop.''
     else ''Review the recorded paper-session guardrail before retrying.'')"

definition mk_decision ::
  "string \<Rightarrow> string \<Rightarrow> readiness_status \<Rightarrow> paper_event_type option \<Rightarrow> string option \<Rightarrow> guardrail_decision" where
  "mk_decision code message status event_type source_id =
     \<lparr>gr_code = code, gr_message = [Txt message], gr_readiness_status = status, gr_blocking_event_type = event_type,
      gr_blocking_source_id = source_id, gr_operator_action_required = Some (operator_action_for_code code)\<rparr>"

abbreviation no_trade :: "string \<Rightarrow> string \<Rightarrow> guardrail_decision option" where
  "no_trade code message \<equiv> Some (mk_decision code message IS_NO_TRADE None None)"

abbreviation abort :: "string \<Rightarrow> string \<Rightarrow> guardrail_decision option" where
  "abort code message \<equiv> Some (mk_decision code message IS_ABORTED None None)"

abbreviation no_trade_on :: "string \<Rightarrow> string \<Rightarrow> paper_event_type \<Rightarrow> guardrail_decision option" where
  "no_trade_on code message event_type \<equiv> Some (mk_decision code message IS_NO_TRADE (Some event_type) None)"

section \<open>Before planning\<close>

type_synonym source_ids = "(paper_event_type, string) dict"

definition first_terminal_issue :: "validation_outcome \<Rightarrow> validation_note option" where
  "first_terminal_issue v =
     (let priority = (if vt_abort_reasons v \<noteq> [] then vt_abort_reasons v else vt_no_trade_reasons v);
          matches = concat (map (\<lambda>code. filter (\<lambda>i. vn_code i = code) (vt_issues v)) priority)
      in if matches \<noteq> [] then Some (hd matches)
         else if vt_issues v \<noteq> [] then Some (hd (vt_issues v)) else None)"

definition classify_validation_block :: "validation_outcome option \<Rightarrow> source_ids \<Rightarrow> guardrail_decision option" where
  "classify_validation_block result ids =
     (case result of None \<Rightarrow> None
      | Some v \<Rightarrow> if vt_readiness_status v = IS_READY then None
          else (case first_terminal_issue v of None \<Rightarrow> None
            | Some i \<Rightarrow> Some
               \<lparr>gr_code = vn_code i, gr_message = vn_message i, gr_readiness_status = vn_readiness_status i,
                gr_blocking_event_type = vn_event_type i,
                gr_blocking_source_id = (case vn_event_type i of None \<Rightarrow> None | Some t \<Rightarrow> map_of ids t),
                gr_operator_action_required = Some (operator_action_for_code (vn_code i))\<rparr>))"

definition decision_for_terminal_event ::
  "session_state \<Rightarrow> paper_event_type option \<Rightarrow> string option \<Rightarrow> guardrail_decision" where
  "decision_for_terminal_event state event_type source_id =
     (if state = ORDER_PLANNED
      then mk_decision ''max_planned_orders_per_session_exceeded''
        ''S23 paper sessions allow at most one planned order per session.'' IS_ABORTED event_type source_id
      else mk_decision ''session_already_terminal''
        ''S23 paper-session input was rejected because the session is already terminal.'' IS_ABORTED event_type source_id)"

definition build_validation_result ::
  "guardrail_decision \<Rightarrow> session_state \<Rightarrow> datetime \<Rightarrow> snapshot_label list \<Rightarrow> snapshot_label list \<Rightarrow> validation_outcome" where
  "build_validation_result d state timestamp required missing =
     \<lparr>vt_readiness_status = gr_readiness_status d,
      vt_issues = [\<lparr>vn_code = gr_code d, vn_message = gr_message d, vn_readiness_status = gr_readiness_status d,
        vn_field_name = None, vn_event_type = gr_blocking_event_type d\<rparr>],
      vt_evaluated_state = state, vt_validated_at = timestamp, vt_required_snapshot_labels = required,
      vt_missing_snapshot_labels = missing, vt_warnings = [],
      vt_no_trade_reasons = (if gr_readiness_status d = IS_NO_TRADE then [gr_code d] else []),
      vt_abort_reasons = (if gr_readiness_status d = IS_ABORTED then [gr_code d] else [])\<rparr>"

definition exceeds_spread :: "guardrail_settings \<Rightarrow> price option \<Rightarrow> price option \<Rightarrow> bool" where
  "exceeds_spread s bid ask = (case (gs_max_selected_contract_spread_points s, bid, ask) of
       (Some limit, Some b, Some a) \<Rightarrow> a - b > limit | _ \<Rightarrow> False)"

definition evaluate_liquidity ::
  "guardrail_settings \<Rightarrow> option_chain \<Rightarrow> selected_quote \<Rightarrow> source_ids \<Rightarrow> guardrail_decision option" where
  "evaluate_liquidity s chain q ids =
     (let block = (\<lambda>code message. Some (mk_decision code message IS_NO_TRADE (Some SELECTED_CONTRACT_QUOTE)
            (map_of ids SELECTED_CONTRACT_QUOTE))) in
      if \<not> gs_enforce_liquidity_checks s then None
      else if (case (gs_min_selected_contract_oi s, sq_oi q) of (Some m, Some oi) \<Rightarrow> oi < m | _ \<Rightarrow> False)
        then block ''selected_contract_oi_below_minimum''
          ''Selected contract open interest is below the configured S23 paper threshold.''
      else if exceeds_spread s (sq_bid q) (sq_ask q)
        then block ''selected_contract_spread_too_wide''
          ''Selected contract spread exceeds the configured S23 paper threshold.''
      else if \<not> list_ex (\<lambda>c. oc_symbol c = sq_symbol q) (ch_contracts chain)
        then block ''selected_contract_not_in_option_chain''
          ''The selected contract quote is not present in the supplied option chain.''
      else None)"

definition planning_limit_decision :: guardrail_decision where
  "planning_limit_decision = mk_decision ''max_planned_orders_per_session_exceeded''
     ''S23 paper sessions allow at most one planned order per session.'' IS_ABORTED None None"

definition evaluate_pre_planning ::
  "guardrail_settings \<Rightarrow> session_config option \<Rightarrow> option_chain option \<Rightarrow> selected_quote option \<Rightarrow>
   validation_outcome option \<Rightarrow> int \<Rightarrow> source_ids \<Rightarrow> guardrail_decision option" where
  "evaluate_pre_planning s config chain selected validation existing_order_plans ids =
     (let on_config = (\<lambda>code message status. Some (mk_decision code message status (Some PAPER_SESSION_CONFIG)
            (map_of ids PAPER_SESSION_CONFIG))) in
      if \<not> gs_global_paper_trading_enabled s
        then on_config ''global_paper_trading_disabled''
          ''Global paper trading is disabled, so S23 planning must abort.'' IS_ABORTED
      else if \<not> gs_s23_paper_enabled s
        then on_config ''s23_paper_disabled'' ''S23 paper trading is disabled for this runtime.'' IS_NO_TRADE
      else if (case config of None \<Rightarrow> False | Some c \<Rightarrow> \<not> pc_paper_mode_enabled c)
        then on_config ''paper_mode_disabled'' ''Paper mode is disabled in the supplied S23 session config.'' IS_ABORTED
      else if (case config of None \<Rightarrow> False | Some c \<Rightarrow> pc_kill_switch_enabled c)
        then on_config ''session_kill_switch_enabled'' ''The S23 paper-session kill switch is engaged.'' IS_ABORTED
      else if gs_manual_operator_abort s
        then Some (mk_decision ''manual_operator_abort''
          (text_or (gs_manual_abort_reason s) ''An operator requested a manual S23 paper-session abort.'')
          IS_ABORTED None (Some ''manual_operator''))
      else if existing_order_plans \<ge> gs_max_planned_orders_per_session s then Some planning_limit_decision
      else case classify_validation_block validation ids of Some d \<Rightarrow> Some d
      | None \<Rightarrow> case (chain, selected) of
          (None, _) \<Rightarrow> no_trade_on ''missing_option_chain_snapshot''
            ''Decision-ready S23 paper sessions require an option-chain snapshot.'' OPTION_CHAIN_SNAPSHOT
        | (Some _, None) \<Rightarrow> no_trade_on ''missing_selected_contract_quote''
            ''Decision-ready S23 paper sessions require a selected contract quote.'' SELECTED_CONTRACT_QUOTE
        | (Some c, Some q) \<Rightarrow> evaluate_liquidity s c q ids)"

section \<open>The shells after planning\<close>

record shell_inputs =
  gi_evaluation_timestamp :: datetime
  gi_max_selected_contract_age :: int
  gi_replay_bundle_validation_performed :: bool
  gi_replay_bundle_valid :: "bool option"
  gi_replay_bundle_errors :: "string list"
  gi_selected_contract_symbol :: "string option"
  gi_selected_contract_effective_timestamp :: "datetime option"
  gi_order_plan_symbol :: "string option"
  gi_intent_symbol :: "string option"
  gi_execution_summary_symbol :: "string option"
  gi_dispatch_summary_symbol :: "string option"
  gi_require_intent_artifact :: bool
  gi_intent_exists :: bool
  gi_intent_artifact_issue :: "string option"
  gi_historical_comparison_performed :: bool
  gi_historical_comparison_status :: "string option"
  gi_execution_shell_status :: "string option"
  gi_dispatch_shell_status :: "string option"
  gi_duplicate_attempt :: bool

text \<open>Two texts that are both given (not empty) and differ.\<close>

definition texts_differ :: "string option \<Rightarrow> string option \<Rightarrow> bool" where
  "texts_differ x y \<longleftrightarrow> truthy_text x \<and> truthy_text y \<and> x \<noteq> y"

definition stale_contract :: "shell_inputs \<Rightarrow> bool" where
  "stale_contract i = (case gi_selected_contract_effective_timestamp i of None \<Rightarrow> False
     | Some t \<Rightarrow> gi_evaluation_timestamp i - t > gi_max_selected_contract_age i)"

definition evaluate_post_planning :: "guardrail_settings \<Rightarrow> shell_inputs \<Rightarrow> guardrail_decision option" where
  "evaluate_post_planning s i =
    (if gs_manual_operator_abort_after_planning s then
       Some (mk_decision ''manual_operator_abort_after_planning''
         (text_or (gs_manual_abort_after_planning_reason s)
            ''An operator aborted the S23 paper execution shell after planning.'') IS_ABORTED None (Some ''manual_operator''))
     else if \<not> gs_global_paper_execution_enabled s then
       no_trade_on ''global_paper_execution_disabled''
         ''Global paper execution-shell readiness is disabled for S23.'' PAPER_SESSION_CONFIG
     else if \<not> gs_s23_paper_execution_enabled s then
       no_trade_on ''s23_paper_execution_disabled''
         ''S23 paper execution-shell readiness is disabled for this runtime.'' PAPER_SESSION_CONFIG
     else if gs_require_operator_review s \<and> \<not> gs_operator_review_completed s then
       no_trade ''operator_review_incomplete''
         ''Operator review must be completed before the S23 execution shell can be marked ready.''
     else if gi_replay_bundle_validation_performed i \<and> gi_replay_bundle_valid i = Some False then
       (if list_ex (\<lambda>e. starts_with ''hash_mismatch:'' e \<or> starts_with ''missing_hashed_artifact:'' e)
             (gi_replay_bundle_errors i)
        then no_trade ''session_artifact_hash_mismatch''
          ''Replay bundle validation found a paper-session artifact hash mismatch.''
        else no_trade ''invalid_replay_bundle'' ''Replay bundle validation failed for the S23 paper session.'')
     else if gi_intent_artifact_issue i = Some ''corrupt_order_intent_artifact'' then
       no_trade ''corrupt_order_intent_artifact''
         ''The persisted paper order-intent artifact is corrupt and blocks execution-shell readiness.''
     else if gi_require_intent_artifact i \<and> gi_intent_artifact_issue i = Some ''missing_order_intent_artifact'' then
       no_trade ''missing_order_intent_artifact''
         ''The paper order-intent artifact is missing and execution-shell readiness is blocked.''
     else if gi_selected_contract_symbol i = None \<or> gi_selected_contract_effective_timestamp i = None then
       no_trade_on ''missing_selected_contract_quote''
         ''Selected contract quote provenance is missing for the post-planning execution shell.'' SELECTED_CONTRACT_QUOTE
     else if stale_contract i then
       no_trade_on ''selected_contract_stale_before_execution''
         ''Selected contract quote is stale before the S23 execution shell can be marked ready.'' SELECTED_CONTRACT_QUOTE
     else if texts_differ (gi_order_plan_symbol i) (gi_intent_symbol i) then
       no_trade_on ''selected_contract_mismatch_between_order_plan_and_intent''
         ''The persisted paper order intent no longer matches the planned selected contract.'' SELECTED_CONTRACT_QUOTE
     else if gi_require_intent_artifact i \<and> \<not> gi_intent_exists i then
       no_trade ''missing_order_intent_artifact''
         ''The paper order-intent artifact is missing and execution-shell readiness is blocked.''
     else if gi_duplicate_attempt i then
       no_trade ''duplicate_paper_order_intent_generation''
         ''Duplicate paper order-intent generation attempts are blocked for one S23 paper session.''
     else None)"

definition comparison_block :: "string option \<Rightarrow> guardrail_decision option" where
  "comparison_block status =
    (if status = Some ''MISMATCH'' then
       no_trade ''historical_comparison_mismatch''
         ''Paper-vs-historical comparison reported a mismatch, so the S23 execution shell cannot be armed.''
     else if status = Some ''UNCOMPARABLE'' then
       no_trade ''historical_comparison_uncomparable''
         ''Paper-vs-historical comparison was uncomparable, so the S23 execution shell cannot be armed.''
     else no_trade ''historical_comparison_not_acceptable''
         ''Paper-vs-historical comparison did not produce an acceptable status for S23 execution-shell arming.'')"

definition comparison_accepted :: "guardrail_settings \<Rightarrow> string option \<Rightarrow> bool" where
  "comparison_accepted s status = (case status of None \<Rightarrow> False | Some t \<Rightarrow> t \<in> set (gs_acceptable_comparison_statuses s))"

definition evaluate_execution_shell :: "guardrail_settings \<Rightarrow> shell_inputs \<Rightarrow> guardrail_decision option" where
  "evaluate_execution_shell s i =
    (case evaluate_post_planning s (i\<lparr>gi_require_intent_artifact := True, gi_duplicate_attempt := False\<rparr>) of
       Some d \<Rightarrow> Some d
     | None \<Rightarrow>
       if gs_require_replay_bundle_validation s \<and> \<not> gi_replay_bundle_validation_performed i then
         no_trade ''missing_replay_bundle_validation''
           ''Replay bundle validation must be completed before the S23 execution shell can be armed.''
       else if gi_duplicate_attempt i then
         no_trade ''duplicate_execution_shell_arming_attempt''
           ''Duplicate execution-shell arming attempts are blocked for one S23 paper session.''
       else if gs_require_historical_comparison s \<and> \<not> gi_historical_comparison_performed i then
         no_trade ''missing_historical_comparison''
           ''Paper-vs-historical comparison must be completed before the S23 execution shell can be armed.''
       else if gs_require_historical_comparison s \<and> \<not> comparison_accepted s (gi_historical_comparison_status i) then
         comparison_block (gi_historical_comparison_status i)
       else if gs_require_same_day_only_confirmation s \<and> \<not> gs_same_day_only_policy_confirmed s then
         no_trade ''same_day_only_policy_not_confirmed''
           ''Same-day-only policy must be confirmed before the S23 execution shell can be armed.''
       else None)"

definition evaluate_dispatch_shell :: "guardrail_settings \<Rightarrow> shell_inputs \<Rightarrow> guardrail_decision option" where
  "evaluate_dispatch_shell s i =
    (if gs_manual_operator_abort_before_dispatch s then
       Some (mk_decision ''manual_operator_abort_before_dispatch''
         (text_or (gs_manual_abort_before_dispatch_reason s)
            ''An operator cancelled the S23 paper intent before dispatch.'') IS_ABORTED None (Some ''manual_operator''))
     else case evaluate_execution_shell s (i\<lparr>gi_duplicate_attempt := False\<rparr>) of
       Some d \<Rightarrow> Some d
     | None \<Rightarrow>
       if gi_execution_shell_status i \<noteq> Some ''EXECUTION_ARMED'' then
         no_trade ''execution_shell_not_armed_for_dispatch''
           ''The S23 execution shell must be armed before the order intent can be dispatched.''
       else if texts_differ (gi_execution_summary_symbol i) (gi_intent_symbol i) then
         no_trade_on ''session_artifact_mismatch_before_dispatch''
           ''Execution-shell artifacts no longer agree on the selected contract before dispatch.'' SELECTED_CONTRACT_QUOTE
       else if gi_duplicate_attempt i then
         no_trade ''duplicate_order_intent_dispatch_attempt''
           ''Duplicate order-intent dispatch attempts are blocked for one S23 paper session.''
       else None)"

definition artifact_symbols :: "shell_inputs \<Rightarrow> string list" where
  "artifact_symbols i = remdups (filter (\<lambda>t. t \<noteq> [])
     (List.map_filter (\<lambda>x. x) [gi_order_plan_symbol i, gi_intent_symbol i, gi_execution_summary_symbol i, gi_dispatch_summary_symbol i]))"

definition evaluate_handoff_shell :: "guardrail_settings \<Rightarrow> shell_inputs \<Rightarrow> guardrail_decision option" where
  "evaluate_handoff_shell s i =
    (if gs_manual_operator_abort_before_handoff s then
       Some (mk_decision ''manual_operator_abort_before_handoff''
         (text_or (gs_manual_abort_before_handoff_reason s)
            ''An operator cancelled the S23 paper intent before the final no-fill handoff boundary.'')
         IS_ABORTED None (Some ''manual_operator''))
     else case evaluate_dispatch_shell s (i\<lparr>gi_duplicate_attempt := False\<rparr>) of
       Some d \<Rightarrow> Some d
     | None \<Rightarrow>
       if gi_dispatch_shell_status i \<noteq> Some ''ORDER_INTENT_DISPATCHED'' then
         no_trade ''dispatch_shell_not_ready_for_handoff''
           ''The S23 paper intent must be filllessly dispatched before final execution handoff readiness can be marked.''
       else if length (artifact_symbols i) > 1 then
         no_trade_on ''session_artifact_mismatch_before_handoff''
           ''Execution-shell artifacts no longer agree on the selected contract before final handoff readiness.''
           SELECTED_CONTRACT_QUOTE
       else if gi_duplicate_attempt i then
         no_trade ''duplicate_execution_handoff_attempt''
           ''Duplicate final execution-handoff attempts are blocked for one S23 paper session.''
       else None)"

definition handoff_not_ready_for_fill :: "guardrail_decision option" where
  "handoff_not_ready_for_fill = abort ''execution_handoff_not_ready_for_fill''
     ''The S23 paper fill simulator requires PAPER_EXECUTION_HANDOFF_READY before any fill or no-fill decision can be recorded.''"

definition evaluate_fill_phase :: "guardrail_settings \<Rightarrow> shell_inputs \<Rightarrow> string option \<Rightarrow> guardrail_decision option" where
  "evaluate_fill_phase s i handoff_shell_status =
    (if gs_manual_operator_abort_before_fill s then
       Some (mk_decision ''manual_operator_abort_before_fill''
         (text_or (gs_manual_abort_before_fill_reason s)
            ''An operator aborted the S23 paper fill simulator before any paper fill was evaluated.'')
         IS_ABORTED None (Some ''manual_operator''))
     else case evaluate_handoff_shell s
         (i\<lparr>gi_selected_contract_effective_timestamp := Some (gi_evaluation_timestamp i), gi_intent_exists := True,
            gi_intent_artifact_issue := None, gi_duplicate_attempt := False\<rparr>) of
       Some d \<Rightarrow> if gr_code d = ''dispatch_shell_not_ready_for_handoff'' then handoff_not_ready_for_fill else Some d
     | None \<Rightarrow>
       if handoff_shell_status \<noteq> Some ''PAPER_EXECUTION_HANDOFF_READY'' then handoff_not_ready_for_fill
       else if gi_duplicate_attempt i then
         abort ''duplicate_fill_attempt'' ''Duplicate Phase 1 paper fill attempts are blocked for one S23 paper session.''
       else None)"

section \<open>Before the lifecycle\<close>

record lifecycle_inputs =
  li_replay_bundle_validation_performed :: bool
  li_replay_bundle_valid :: "bool option"
  li_replay_bundle_errors :: "string list"
  li_fill_status :: "string option"
  li_selected_contract_symbol :: "string option"
  li_fill_selected_contract_symbol :: "string option"
  li_target_price_available :: bool
  li_stoploss_or_fsl_available :: bool
  li_duplicate_lifecycle_attempt :: bool
  li_same_day_only_policy_confirmed :: "bool option"

definition evaluate_lifecycle_phase :: "guardrail_settings \<Rightarrow> lifecycle_inputs \<Rightarrow> guardrail_decision option" where
  "evaluate_lifecycle_phase s i =
    (if li_replay_bundle_validation_performed i \<and> li_replay_bundle_valid i = Some False then
       abort (if contains_text ''hash mismatch'' (lower (join_with_space (li_replay_bundle_errors i)))
              then ''session_artifact_hash_mismatch'' else ''invalid_replay_bundle'')
         ''Replay bundle validation failed, so the S23 same-day lifecycle shell cannot proceed safely.''
     else if li_fill_status i = None then
       abort ''missing_fill_artifact_for_lifecycle''
         ''A persisted paper fill artifact is required before starting the S23 same-day lifecycle loop.''
     else if li_fill_status i \<noteq> Some ''PAPER_ORDER_FILLED'' then
       abort ''paper_fill_not_ready_for_lifecycle''
         ''S23 same-day lifecycle simulation requires a PAPER_ORDER_FILLED outcome.''
     else if li_duplicate_lifecycle_attempt i then
       abort ''duplicate_lifecycle_start''
         ''S23 same-day lifecycle simulation has already been started for this paper session.''
     else if \<not> truthy_text (li_selected_contract_symbol i) \<or> \<not> truthy_text (li_fill_selected_contract_symbol i) \<or>
         li_selected_contract_symbol i \<noteq> li_fill_selected_contract_symbol i then
       abort ''selected_contract_mismatch_before_lifecycle''
         ''The persisted selected contract does not match the paper fill artifact, so lifecycle simulation cannot proceed safely.''
     else if \<not> li_target_price_available i then
       abort ''missing_target_price_for_lifecycle''
         ''The S23 paper lifecycle loop requires a target price before a filled paper order can be monitored.''
     else if \<not> li_stoploss_or_fsl_available i then
       abort ''missing_stoploss_or_fsl_for_lifecycle''
         ''The S23 paper lifecycle loop requires a stoploss or FSL threshold before a filled paper order can be monitored.''
     else if gs_require_same_day_only_confirmation s \<and> li_same_day_only_policy_confirmed i = Some False then
       abort ''same_day_only_policy_not_confirmed_for_lifecycle''
         ''The S23 paper lifecycle loop is restricted to same-day operation and the same-day-only policy was not confirmed.''
     else None)"

section \<open>What the guardrails let through\<close>

lemma mk_decision_simps [simp]:
  "gr_code (mk_decision c m st t i) = c" "gr_readiness_status (mk_decision c m st t i) = st"
  by (simp_all add: mk_decision_def)

lemma comparison_block_neq_None [simp]: "comparison_block status \<noteq> None"
  by (simp add: comparison_block_def)

lemma if_Some_None [simp]: "(if c then Some d else r) = None \<longleftrightarrow> \<not> c \<and> r = None"
  by simp

text \<open>The conditions of each phase alone.\<close>

definition planning_clear :: "guardrail_settings \<Rightarrow> shell_inputs \<Rightarrow> bool" where
  "planning_clear s i \<longleftrightarrow>
     \<not> gs_manual_operator_abort_after_planning s \<and> gs_global_paper_execution_enabled s \<and> gs_s23_paper_execution_enabled s \<and>
     (gs_require_operator_review s \<longrightarrow> gs_operator_review_completed s) \<and>
     \<not> (gi_replay_bundle_validation_performed i \<and> gi_replay_bundle_valid i = Some False) \<and>
     gi_intent_artifact_issue i \<noteq> Some ''corrupt_order_intent_artifact'' \<and>
     gi_selected_contract_symbol i \<noteq> None \<and> gi_selected_contract_effective_timestamp i \<noteq> None \<and> \<not> stale_contract i \<and>
     \<not> texts_differ (gi_order_plan_symbol i) (gi_intent_symbol i)"

definition arming_clear :: "guardrail_settings \<Rightarrow> shell_inputs \<Rightarrow> bool" where
  "arming_clear s i \<longleftrightarrow>
     (gs_require_replay_bundle_validation s \<longrightarrow> gi_replay_bundle_validation_performed i) \<and>
     (gs_require_historical_comparison s \<longrightarrow> gi_historical_comparison_performed i \<and>
        comparison_accepted s (gi_historical_comparison_status i)) \<and>
     (gs_require_same_day_only_confirmation s \<longrightarrow> gs_same_day_only_policy_confirmed s)"

lemma post_planning_clear:
  "evaluate_post_planning s i = None \<longleftrightarrow>
   planning_clear s i \<and> \<not> gi_duplicate_attempt i \<and>
   (gi_require_intent_artifact i \<longrightarrow> gi_intent_exists i \<and> gi_intent_artifact_issue i \<noteq> Some ''missing_order_intent_artifact'')"
  by (simp add: evaluate_post_planning_def planning_clear_def) blast

lemma planning_clear_flags [simp]:
  "planning_clear s (i\<lparr>gi_require_intent_artifact := r\<rparr>) = planning_clear s i"
  "planning_clear s (i\<lparr>gi_duplicate_attempt := d\<rparr>) = planning_clear s i"
  "arming_clear s (i\<lparr>gi_require_intent_artifact := r\<rparr>) = arming_clear s i"
  "arming_clear s (i\<lparr>gi_duplicate_attempt := d\<rparr>) = arming_clear s i"
  by (simp_all add: planning_clear_def arming_clear_def stale_contract_def cong: option.case_cong)

lemma execution_shell_clear:
  "evaluate_execution_shell s i = None \<longleftrightarrow>
   planning_clear s i \<and> arming_clear s i \<and> gi_intent_exists i \<and>
   gi_intent_artifact_issue i \<noteq> Some ''missing_order_intent_artifact'' \<and> \<not> gi_duplicate_attempt i"
  by (cases "evaluate_post_planning s (i\<lparr>gi_require_intent_artifact := True, gi_duplicate_attempt := False\<rparr>)")
    (use post_planning_clear [of s "i\<lparr>gi_require_intent_artifact := True, gi_duplicate_attempt := False\<rparr>"] in
      \<open>auto simp: evaluate_execution_shell_def arming_clear_def simp del: not_None_eq\<close>)

lemma dispatch_shell_clear:
  "evaluate_dispatch_shell s i = None \<longleftrightarrow>
   \<not> gs_manual_operator_abort_before_dispatch s \<and> evaluate_execution_shell s (i\<lparr>gi_duplicate_attempt := False\<rparr>) = None \<and>
   gi_execution_shell_status i = Some ''EXECUTION_ARMED'' \<and>
   \<not> texts_differ (gi_execution_summary_symbol i) (gi_intent_symbol i) \<and> \<not> gi_duplicate_attempt i"
  by (cases "evaluate_execution_shell s (i\<lparr>gi_duplicate_attempt := False\<rparr>)") (auto simp: evaluate_dispatch_shell_def)

lemma handoff_shell_clear:
  "evaluate_handoff_shell s i = None \<longleftrightarrow>
   \<not> gs_manual_operator_abort_before_handoff s \<and> evaluate_dispatch_shell s (i\<lparr>gi_duplicate_attempt := False\<rparr>) = None \<and>
   gi_dispatch_shell_status i = Some ''ORDER_INTENT_DISPATCHED'' \<and> length (artifact_symbols i) \<le> 1 \<and> \<not> gi_duplicate_attempt i"
  by (cases "evaluate_dispatch_shell s (i\<lparr>gi_duplicate_attempt := False\<rparr>)") (auto simp: evaluate_handoff_shell_def)

lemma fill_phase_clear:
  "evaluate_fill_phase s i h = None \<longleftrightarrow>
   \<not> gs_manual_operator_abort_before_fill s \<and>
   evaluate_handoff_shell s (i\<lparr>gi_selected_contract_effective_timestamp := Some (gi_evaluation_timestamp i),
     gi_intent_exists := True, gi_intent_artifact_issue := None, gi_duplicate_attempt := False\<rparr>) = None \<and>
   h = Some ''PAPER_EXECUTION_HANDOFF_READY'' \<and> \<not> gi_duplicate_attempt i"
  by (cases "evaluate_handoff_shell s (i\<lparr>gi_selected_contract_effective_timestamp := Some (gi_evaluation_timestamp i),
     gi_intent_exists := True, gi_intent_artifact_issue := None, gi_duplicate_attempt := False\<rparr>)")
    (auto simp: evaluate_fill_phase_def handoff_not_ready_for_fill_def)

lemma distinct_le_1: "distinct xs \<Longrightarrow> length xs \<le> 1 \<longleftrightarrow> (\<forall>x \<in> set xs. \<forall>y \<in> set xs. x = y)"
  by (cases xs; cases "tl xs") auto

definition named_symbols :: "shell_inputs \<Rightarrow> string set" where
  "named_symbols i = {t. t \<noteq> [] \<and> Some t \<in> {gi_order_plan_symbol i, gi_intent_symbol i, gi_execution_summary_symbol i,
     gi_dispatch_summary_symbol i}}"

lemma artifact_symbols_set: "set (artifact_symbols i) = named_symbols i"
  by (auto simp: artifact_symbols_def named_symbols_def List.map_filter_def split: if_splits)

lemma symbols_agree: "length (artifact_symbols i) \<le> 1 \<longleftrightarrow> (\<forall>a \<in> named_symbols i. \<forall>b \<in> named_symbols i. a = b)"
proof -
  have "distinct (artifact_symbols i)" by (simp add: artifact_symbols_def)
  from distinct_le_1 [OF this] show ?thesis by (simp add: artifact_symbols_set)
qed

lemma texts_differE:
  assumes "texts_differ x y"
  obtains a b where "x = Some a" "y = Some b" "a \<noteq> []" "b \<noteq> []" "a \<noteq> b"
  using assms by (cases x; cases y) (simp_all add: texts_differ_def truthy_text_def)

lemma agreeing_texts:
  assumes "\<forall>a \<in> named_symbols i. \<forall>b \<in> named_symbols i. a = b"
  shows "\<not> texts_differ (gi_order_plan_symbol i) (gi_intent_symbol i)"
    and "\<not> texts_differ (gi_execution_summary_symbol i) (gi_intent_symbol i)"
proof -
  have named: "a \<in> named_symbols i"
    if "a \<noteq> []" "Some a \<in> {gi_order_plan_symbol i, gi_intent_symbol i, gi_execution_summary_symbol i}" for a
    using that by (auto simp: named_symbols_def)
  have agree: "\<not> texts_differ x y"
    if "x \<in> {gi_order_plan_symbol i, gi_intent_symbol i, gi_execution_summary_symbol i}"
      "y \<in> {gi_order_plan_symbol i, gi_intent_symbol i, gi_execution_summary_symbol i}" for x y
  proof
    assume "texts_differ x y"
    then obtain a b where ab: "x = Some a" "y = Some b" "a \<noteq> []" "b \<noteq> []" "a \<noteq> b" by (rule texts_differE)
    with that have "a \<in> named_symbols i" "b \<in> named_symbols i" using named by simp_all
    with assms ab(5) show False by blast
  qed
  show "\<not> texts_differ (gi_order_plan_symbol i) (gi_intent_symbol i)"
    and "\<not> texts_differ (gi_execution_summary_symbol i) (gi_intent_symbol i)"
    by (rule agree; simp)+
qed

text \<open>
  The fill simulator may start exactly when no operator stopped any phase, the execution shell is
  enabled, reviewed, armed, dispatched and handed off, the replay bundle and the comparison are
  accepted, all artifacts name one contract, and no fill was attempted before. The age of the
  contract's quote is no condition: the phase passes its own evaluation time as the quote's time.
\<close>
theorem fill_phase_clear_iff:
  "evaluate_fill_phase s i h = None \<longleftrightarrow>
   \<not> gs_manual_operator_abort_before_fill s \<and> \<not> gs_manual_operator_abort_before_handoff s \<and>
   \<not> gs_manual_operator_abort_before_dispatch s \<and> \<not> gs_manual_operator_abort_after_planning s \<and>
   gs_global_paper_execution_enabled s \<and> gs_s23_paper_execution_enabled s \<and>
   (gs_require_operator_review s \<longrightarrow> gs_operator_review_completed s) \<and>
   \<not> (gi_replay_bundle_validation_performed i \<and> gi_replay_bundle_valid i = Some False) \<and>
   arming_clear s i \<and> gi_selected_contract_symbol i \<noteq> None \<and> 0 \<le> gi_max_selected_contract_age i \<and>
   gi_execution_shell_status i = Some ''EXECUTION_ARMED'' \<and> gi_dispatch_shell_status i = Some ''ORDER_INTENT_DISPATCHED'' \<and>
   h = Some ''PAPER_EXECUTION_HANDOFF_READY'' \<and> (\<forall>a \<in> named_symbols i. \<forall>b \<in> named_symbols i. a = b) \<and>
   \<not> gi_duplicate_attempt i"
proof -
  let ?j = "i\<lparr>gi_selected_contract_effective_timestamp := Some (gi_evaluation_timestamp i), gi_intent_exists := True,
     gi_intent_artifact_issue := None\<rparr>"
  have planning: "planning_clear s ?j \<longleftrightarrow>
     \<not> gs_manual_operator_abort_after_planning s \<and> gs_global_paper_execution_enabled s \<and> gs_s23_paper_execution_enabled s \<and>
     (gs_require_operator_review s \<longrightarrow> gs_operator_review_completed s) \<and>
     \<not> (gi_replay_bundle_validation_performed i \<and> gi_replay_bundle_valid i = Some False) \<and>
     gi_selected_contract_symbol i \<noteq> None \<and> 0 \<le> gi_max_selected_contract_age i \<and>
     \<not> texts_differ (gi_order_plan_symbol i) (gi_intent_symbol i)"
    by (auto simp: planning_clear_def stale_contract_def)
  have arming: "arming_clear s ?j = arming_clear s i" by (simp add: arming_clear_def)
  have names: "artifact_symbols (?j\<lparr>gi_duplicate_attempt := d\<rparr>) = artifact_symbols i" for d
    by (simp add: artifact_symbols_def)
  define same where "same \<longleftrightarrow> (\<forall>a \<in> named_symbols i. \<forall>b \<in> named_symbols i. a = b)"
  have agree: "length (artifact_symbols i) \<le> Suc 0 \<longleftrightarrow> same"
    using symbols_agree [of i] unfolding same_def by simp
  have "same \<Longrightarrow> \<not> texts_differ (gi_order_plan_symbol i) (gi_intent_symbol i)"
    and "same \<Longrightarrow> \<not> texts_differ (gi_execution_summary_symbol i) (gi_intent_symbol i)"
    unfolding same_def by (erule agreeing_texts)+
  then show ?thesis
    unfolding same_def [symmetric]
    by (auto simp: fill_phase_clear handoff_shell_clear dispatch_shell_clear execution_shell_clear planning arming
        agree names simp del: not_None_eq)
qed

lemma contains_text_char: "contains_text p t \<Longrightarrow> c \<in> set p \<Longrightarrow> c \<in> set t"
proof (induction p t rule: contains_text.induct)
  case (2 p d t)
  then show ?case by (metis contains_text.simps(2) in_set_takeD list.set_intros(2) starts_with_def)
qed simp

lemma lower_space: "CHR '' '' \<in> set (lower t) \<Longrightarrow> CHR '' '' \<in> set t"
proof -
  assume "CHR '' '' \<in> set (lower t)"
  then obtain c where c: "c \<in> set t" "lower_char c = CHR '' ''" by (auto simp: lower_def)
  have "c = CHR '' ''"
  proof (cases "65 \<le> (of_char c :: nat) \<and> (of_char c :: nat) \<le> 90")
    case True
    then have "(of_char (lower_char c) :: nat) = of_char c + 32"
      by (simp add: lower_char_def Let_def of_char_of)
    with True c show ?thesis by simp
  next
    case False
    with c show ?thesis by (auto simp: lower_char_def Let_def)
  qed
  with c show ?thesis by simp
qed

text \<open>
  The replay bundle names a changed artifact \<^verbatim>\<open>hash_mismatch:<path>\<close>. The shells report it as a
  hash mismatch; the lifecycle phase looks for the words \<^verbatim>\<open>hash mismatch\<close> with a space and
  reports a merely invalid bundle.
\<close>
theorem lifecycle_misses_hash_mismatch:
  assumes "starts_with ''hash_mismatch:'' e" and "CHR '' '' \<notin> set e"
    and "li_replay_bundle_validation_performed l" "li_replay_bundle_valid l = Some False" "li_replay_bundle_errors l = [e]"
    and "gi_replay_bundle_validation_performed i" "gi_replay_bundle_valid i = Some False" "gi_replay_bundle_errors i = [e]"
    and "\<not> gs_manual_operator_abort_after_planning s" "gs_global_paper_execution_enabled s" "gs_s23_paper_execution_enabled s"
    and "gs_operator_review_completed s"
  shows "map_option gr_code (evaluate_lifecycle_phase s l) = Some ''invalid_replay_bundle'' \<and>
    map_option gr_code (evaluate_post_planning s i) = Some ''session_artifact_hash_mismatch''"
proof -
  have "\<not> contains_text ''hash mismatch'' (lower e)"
    using assms(2) lower_space [of e] contains_text_char [of "''hash mismatch''" "lower e" "CHR '' ''"] by auto
  with assms show ?thesis by (simp add: evaluate_lifecycle_phase_def evaluate_post_planning_def)
qed

definition demo_shell :: shell_inputs where
  "demo_shell = \<lparr>gi_evaluation_timestamp = 100, gi_max_selected_contract_age = 60, gi_replay_bundle_validation_performed = True,
     gi_replay_bundle_valid = Some True, gi_replay_bundle_errors = [], gi_selected_contract_symbol = Some ''X'',
     gi_selected_contract_effective_timestamp = Some 1, gi_order_plan_symbol = Some ''X'', gi_intent_symbol = Some ''X'',
     gi_execution_summary_symbol = Some ''X'', gi_dispatch_summary_symbol = None, gi_require_intent_artifact = False,
     gi_intent_exists = True, gi_intent_artifact_issue = None, gi_historical_comparison_performed = True,
     gi_historical_comparison_status = Some ''MATCH'', gi_execution_shell_status = Some ''EXECUTION_ARMED'',
     gi_dispatch_shell_status = Some ''ORDER_INTENT_DISPATCHED'', gi_duplicate_attempt = False\<rparr>"

text \<open>The quote of the demo inputs is older than the limit: the shells stop, the fill phase goes on.\<close>

lemma fill_phase_clear_iff_witness:
  "evaluate_fill_phase default_settings demo_shell (Some ''PAPER_EXECUTION_HANDOFF_READY'') = None \<and>
   map_option gr_code (evaluate_handoff_shell default_settings demo_shell) = Some ''selected_contract_stale_before_execution''"
proof
  show "evaluate_fill_phase default_settings demo_shell (Some ''PAPER_EXECUTION_HANDOFF_READY'') = None"
    by (subst fill_phase_clear_iff)
      (simp add: default_settings_def demo_shell_def arming_clear_def comparison_accepted_def named_symbols_def)
  show "map_option gr_code (evaluate_handoff_shell default_settings demo_shell) = Some ''selected_contract_stale_before_execution''"
    by code_simp
qed

definition demo_lifecycle :: lifecycle_inputs where
  "demo_lifecycle = \<lparr>li_replay_bundle_validation_performed = True, li_replay_bundle_valid = Some False,
     li_replay_bundle_errors = [''hash_mismatch:paper_fill.json''], li_fill_status = Some ''PAPER_ORDER_FILLED'',
     li_selected_contract_symbol = Some ''X'', li_fill_selected_contract_symbol = Some ''X'', li_target_price_available = True,
     li_stoploss_or_fsl_available = True, li_duplicate_lifecycle_attempt = False, li_same_day_only_policy_confirmed = None\<rparr>"

lemma lifecycle_misses_hash_mismatch_witness:
  "map_option gr_code (evaluate_lifecycle_phase default_settings demo_lifecycle) = Some ''invalid_replay_bundle'' \<and>
   map_option gr_code (evaluate_post_planning default_settings
     (demo_shell\<lparr>gi_replay_bundle_valid := Some False, gi_replay_bundle_errors := [''hash_mismatch:paper_fill.json'']\<rparr>)) =
     Some ''session_artifact_hash_mismatch''"
  by (rule lifecycle_misses_hash_mismatch [where e = "''hash_mismatch:paper_fill.json''"])
    (simp_all add: starts_with_def demo_lifecycle_def demo_shell_def default_settings_def)

end
