(* ===== verification/Orchestrator.thy ===== *)
theory Orchestrator
  imports Guardrails
begin

text \<open>
  \<^verbatim>\<open>src/tfis/paper/orchestrator.py\<close>: the state machine of a paper session. Events come in one at
  a time; each accepted event may advance the state; \<^verbatim>\<open>finalize\<close> plans the one order of the
  session or says why not. The object is the record \<open>session\<close> (prefix \<open>so_\<close>), its collaborators and
  the quote age are the record \<open>orchestrator\<close> (\<open>og_\<close>); fields of an audit entry carry \<open>au_\<close>, of the
  order plan \<open>sp_\<close>, of a snapshot of the session \<open>sv_\<close>.
\<close>

section \<open>State\<close>

record orchestrator =
  og_guardrails :: guardrail_settings
  og_max_quote_age :: int
  og_aware :: bool

record audit_entry =
  au_timestamp :: datetime
  au_previous_state :: session_state
  au_new_state :: session_state
  au_event_type :: "paper_event_type option"
  au_reason :: string
  au_validation_result :: "validation_outcome option"
  au_terminal_code :: "string option"
  au_guardrail_code :: "string option"
  au_guardrail_message :: "msg option"
  au_blocking_event_type :: "paper_event_type option"
  au_blocking_source_id :: "string option"
  au_operator_action_required :: "string option"

record session_order_plan =
  sp_strategy_code :: string
  sp_session_date :: date
  sp_selected_contract_symbol :: string
  sp_selected_contract_option_type :: option_type
  sp_selected_contract_expiry :: date
  sp_selected_contract_ltp :: price
  sp_monthly_status :: "monthly_status option"
  sp_overlays_enabled :: "string list"
  sp_required_snapshot_labels :: "snapshot_label list"
  sp_planning_timestamp :: datetime
  sp_strategy_branch :: "string option"
  sp_order_side :: "string option"
  sp_lots :: "int option"
  sp_quantity :: "int option"
  sp_planned_entry_price :: "price option"
  sp_target_price :: "price option"
  sp_stoploss_price :: "price option"
  sp_start_strike :: "price option"
  sp_end_strike :: "price option"
  sp_ideal_premium :: "price option"
  sp_minimum_premium :: "price option"
  sp_fsl_price :: "price option"
  sp_order_reference_time :: "datetime option"
  sp_order_reference_label :: "string option"
  sp_source_workbook_rule :: "string option"
  sp_workbook_row_number :: "int option"

record session =
  so_state :: session_state
  so_manifest :: "session_manifest option"
  so_latest_validation :: "validation_outcome option"
  so_latest_guardrail :: "guardrail_decision option"
  so_order_plan :: "session_order_plan option"
  so_planned_order_count :: int
  so_audit_events :: "audit_entry list"
  so_calendar :: "calendar_context option"
  so_monthly :: "monthly_input option"
  so_config :: "session_config option"
  so_costs :: "cost_settings option"
  so_quote :: "underlying_quote option"
  so_chain :: "option_chain option"
  so_selected :: "selected_quote option"
  so_trade_plan :: "trade_plan_event option"
  so_snapshots :: "(snapshot_label, underlying_snapshot) dict"
  so_bars :: "(string \<times> datetime \<times> datetime, selected_bar) dict"
  so_accepted :: "paper_event list"

definition new_session :: session where
  "new_session =
     \<lparr>so_state = NOT_STARTED, so_manifest = None, so_latest_validation = None, so_latest_guardrail = None,
      so_order_plan = None, so_planned_order_count = 0, so_audit_events = [], so_calendar = None, so_monthly = None,
      so_config = None, so_costs = None, so_quote = None, so_chain = None, so_selected = None, so_trade_plan = None,
      so_snapshots = [], so_bars = [], so_accepted = []\<rparr>"

record session_view =
  sv_state :: session_state
  sv_manifest :: "session_manifest option"
  sv_audit_events :: "audit_entry list"
  sv_order_plan :: "session_order_plan option"
  sv_selected_contract_quote :: "selected_quote option"
  sv_latest_validation_result :: "validation_outcome option"
  sv_latest_guardrail_decision :: "guardrail_decision option"

definition session_snapshot :: "session \<Rightarrow> session_view" where
  "session_snapshot s =
     \<lparr>sv_state = so_state s, sv_manifest = so_manifest s, sv_audit_events = so_audit_events s,
      sv_order_plan = so_order_plan s, sv_selected_contract_quote = so_selected s,
      sv_latest_validation_result = so_latest_validation s, sv_latest_guardrail_decision = so_latest_guardrail s\<rparr>"

definition is_terminal :: "session_state \<Rightarrow> bool" where
  "is_terminal st \<longleftrightarrow> st \<in> {ORDER_PLANNED, NO_TRADE, ABORTED}"

fun snapshot_order :: "snapshot_label \<Rightarrow> int" where
  "snapshot_order PRE_OPEN = 0"
| "snapshot_order AT_0915 = 1"
| "snapshot_order ORPT = 2"
| "snapshot_order RC = 3"
| "snapshot_order EOD_SNAPSHOT = 4"

text \<open>The labels in the order of the session's phases.\<close>

instantiation snapshot_label :: linorder
begin

definition less_eq_snapshot_label :: "snapshot_label \<Rightarrow> snapshot_label \<Rightarrow> bool" where
  "a \<le> b \<longleftrightarrow> snapshot_order a \<le> snapshot_order b"

definition less_snapshot_label :: "snapshot_label \<Rightarrow> snapshot_label \<Rightarrow> bool" where
  "a < b \<longleftrightarrow> snapshot_order a < snapshot_order b"

instance
proof
  fix a b :: snapshot_label
  show "a \<le> b \<Longrightarrow> b \<le> a \<Longrightarrow> a = b" by (cases a; cases b) (simp_all add: less_eq_snapshot_label_def)
qed (auto simp: less_eq_snapshot_label_def less_snapshot_label_def)

end

section \<open>Recording a transition\<close>

definition has_pre_market_inputs :: "session \<Rightarrow> bool" where
  "has_pre_market_inputs s \<longleftrightarrow> so_calendar s \<noteq> None \<and> so_monthly s \<noteq> None \<and> so_config s \<noteq> None \<and> so_costs s \<noteq> None"

definition has_decision_inputs :: "session \<Rightarrow> bool" where
  "has_decision_inputs s \<longleftrightarrow> so_quote s \<noteq> None \<and> so_chain s \<noteq> None \<and> so_selected s \<noteq> None"

definition required_labels :: "session \<Rightarrow> snapshot_label list" where
  "required_labels s = (case so_config s of None \<Rightarrow> [] | Some c \<Rightarrow> required_labels_for_config c)"

definition missing_labels :: "session \<Rightarrow> snapshot_label list" where
  "missing_labels s = filter (\<lambda>l. map_of (so_snapshots s) l = None) (required_labels s)"

definition ordered_snapshots :: "session \<Rightarrow> underlying_snapshot list" where
  "ordered_snapshots s = map snd (sort_key fst (so_snapshots s))"

definition session_source_ids :: "session \<Rightarrow> source_ids" where
  "session_source_ids s = fold (\<lambda>event ids. let e = envelope_of event in
       if map_of ids (en_event_type e) = None then AList.update (en_event_type e) (en_source_id e) ids else ids)
     (so_accepted s) []"

definition manual_result ::
  "readiness_status \<Rightarrow> session_state \<Rightarrow> datetime \<Rightarrow> snapshot_label list \<Rightarrow> snapshot_label list \<Rightarrow>
   validation_note list \<Rightarrow> validation_note list \<Rightarrow> validation_outcome" where
  "manual_result status state timestamp required missing no_trade_issues abort_issues =
     \<lparr>vt_readiness_status = status, vt_issues = no_trade_issues @ abort_issues, vt_evaluated_state = state,
      vt_validated_at = timestamp, vt_required_snapshot_labels = required, vt_missing_snapshot_labels = missing,
      vt_warnings = [], vt_no_trade_reasons = map vn_code no_trade_issues, vt_abort_reasons = map vn_code abort_issues\<rparr>"

definition refresh_manifest :: "datetime \<Rightarrow> session \<Rightarrow> session" where
  "refresh_manifest generated_at s =
     (case (so_config s, so_costs s, so_latest_validation s) of
        (Some config, Some costs, Some v) \<Rightarrow>
          s\<lparr>so_manifest := Some (build_manifest config costs v (so_accepted s) generated_at)\<rparr>
      | _ \<Rightarrow> s)"

definition record_audit ::
  "datetime \<Rightarrow> session_state \<Rightarrow> session_state \<Rightarrow> paper_event_type option \<Rightarrow> string \<Rightarrow> validation_outcome option \<Rightarrow>
   string option \<Rightarrow> guardrail_decision option \<Rightarrow> session \<Rightarrow> session" where
  "record_audit timestamp previous_state new_state event_type reason result terminal_code decision s =
     s\<lparr>so_audit_events := so_audit_events s @
       [\<lparr>au_timestamp = timestamp, au_previous_state = previous_state, au_new_state = new_state,
         au_event_type = event_type, au_reason = reason, au_validation_result = result,
         au_terminal_code = terminal_code, au_guardrail_code = map_option gr_code decision,
         au_guardrail_message = map_option gr_message decision,
         au_blocking_event_type = (case decision of None \<Rightarrow> None | Some d \<Rightarrow> gr_blocking_event_type d),
         au_blocking_source_id = (case decision of None \<Rightarrow> None | Some d \<Rightarrow> gr_blocking_source_id d),
         au_operator_action_required = (case decision of None \<Rightarrow> None | Some d \<Rightarrow> gr_operator_action_required d)\<rparr>]\<rparr>"

definition transition_to ::
  "session_state \<Rightarrow> datetime \<Rightarrow> paper_event_type option \<Rightarrow> string \<Rightarrow> validation_outcome option \<Rightarrow> string option \<Rightarrow>
   guardrail_decision option \<Rightarrow> session \<Rightarrow> session" where
  "transition_to new_state timestamp event_type reason result terminal_code decision s =
     (let resolved = (if new_state \<in> {NO_TRADE, ABORTED} \<and> decision = None
            then classify_validation_block result (session_source_ids s) else decision);
          latest = (if new_state = ORDER_PLANNED then None
            else if new_state \<in> {NO_TRADE, ABORTED} then resolved else so_latest_guardrail s)
      in record_audit timestamp (so_state s) new_state event_type reason result terminal_code resolved
           (refresh_manifest timestamp
             (s\<lparr>so_state := new_state, so_latest_validation := or_else result (so_latest_validation s),
                so_latest_guardrail := latest\<rparr>)))"

definition first_or :: "string list \<Rightarrow> string \<Rightarrow> string" where
  "first_or reasons fallback = (if reasons \<noteq> [] then hd reasons else fallback)"

section \<open>Advancing the state\<close>

definition build_readiness_result :: "orchestrator \<Rightarrow> datetime \<Rightarrow> session \<Rightarrow> validation_outcome" where
  "build_readiness_result g now s =
     (case (so_calendar s, so_monthly s, so_config s, so_costs s) of
        (Some calendar, Some monthly, Some config, Some costs) \<Rightarrow>
          (case so_quote s of
             None \<Rightarrow> manual_result IS_NO_TRADE (so_state s) now (required_labels s) (missing_labels s)
               [mk_note ''missing_underlying_quote'' ''Decision-ready paper sessions require an underlying quote.''
                  IS_NO_TRADE None (Some UNDERLYING_QUOTE)] []
           | Some quote \<Rightarrow> validate_session_readiness (og_aware g)
               \<lparr>rdi_calendar = calendar, rdi_monthly = monthly, rdi_config = config, rdi_costs = costs, rdi_quote = quote,
                rdi_snapshots = ordered_snapshots s, rdi_chain = so_chain s, rdi_selected = so_selected s\<rparr>
               now (og_max_quote_age g) (required_labels s))
      | _ \<Rightarrow> manual_result IS_ABORTED (so_state s) now [] [] []
          [mk_note ''session_missing_pre_market_inputs''
             ''S23 paper-session readiness requires calendar, status, config, and cost inputs.'' IS_ABORTED None None])"

type_synonym step_target = "session_state option \<times> string \<times> validation_outcome option \<times> string option"

definition stay :: step_target where "stay = (None, [], None, None)"

definition blocked_day :: "datetime \<Rightarrow> session \<Rightarrow> step_target option" where
  "blocked_day now s =
    (if (case so_config s of None \<Rightarrow> False | Some c \<Rightarrow> \<not> pc_same_day_square_off_only c) then
       Some (Some ABORTED, ''unsupported_continuation_path'', Some (manual_result IS_ABORTED PRE_MARKET_READY now [] [] []
         [mk_note ''unsupported_continuation_path''
            ''Strategy-level carry-forward may be valid, but the current S23 paper runtime still requires same-day square-off until multi-session carry-forward handling is implemented.''
            IS_ABORTED (Some ''same_day_square_off_only'') (Some PAPER_SESSION_CONFIG)]),
         Some ''unsupported_continuation_path'')
     else if (case so_calendar s of None \<Rightarrow> False | Some c \<Rightarrow> cx_is_holiday c) then
       Some (Some NO_TRADE, ''holiday_session_blocked'', Some (manual_result IS_NO_TRADE PRE_MARKET_READY now [] []
         [mk_note ''holiday_session_blocked'' ''Holiday sessions must not trade.'' IS_NO_TRADE None (Some CALENDAR_CONTEXT)] []),
         Some ''holiday_session_blocked'')
     else if (case so_monthly s of None \<Rightarrow> False | Some m \<Rightarrow> mn_monthly_status m = Some UNKNOWN) then
       Some (Some NO_TRADE, ''monthly_status_unknown'', Some (manual_result IS_NO_TRADE PRE_MARKET_READY now [] []
         [mk_note ''monthly_status_unknown'' ''Monthly status UNKNOWN must result in NO_TRADE.'' IS_NO_TRADE None
            (Some MONTHLY_STATUS_INPUT)] []), Some ''monthly_status_unknown'')
     else None)"

text \<open>The first required label that has no snapshot, with the state that waits for it.\<close>

definition awaited_state :: "session \<Rightarrow> (session_state \<times> string) option" where
  "awaited_state s =
     (let awaits = (\<lambda>l. l \<in> set (required_labels s) \<and> map_of (so_snapshots s) l = None) in
      if awaits AT_0915 then Some (WAITING_FOR_0915, ''awaiting_0915_snapshot'')
      else if awaits ORPT then Some (WAITING_FOR_ORPT, ''awaiting_orpt_snapshot'')
      else if awaits RC then Some (WAITING_FOR_RC, ''awaiting_rc_snapshot'') else None)"

definition determine_transition :: "orchestrator \<Rightarrow> datetime \<Rightarrow> session \<Rightarrow> step_target" where
  "determine_transition g now s =
     (let waiting = (\<lambda>state. manual_result IS_READY state now (required_labels s) (missing_labels s) [] []) in
      if \<not> has_pre_market_inputs s then stay
      else case blocked_day now s of Some target \<Rightarrow> target
      | None \<Rightarrow> if so_state s = NOT_STARTED
          then (Some PRE_MARKET_READY, ''pre_market_inputs_ready'', Some (waiting PRE_MARKET_READY), None)
          else case awaited_state s of
            Some (state, reason) \<Rightarrow> if so_state s \<noteq> state then (Some state, reason, Some (waiting state), None) else stay
          | None \<Rightarrow> if \<not> has_decision_inputs s then stay
              else let readiness = build_readiness_result g now s in
                if vt_readiness_status readiness = IS_ABORTED
                  then (Some ABORTED, ''session_readiness_aborted'', Some readiness,
                    Some (first_or (vt_abort_reasons readiness) ''session_readiness_aborted''))
                else if vt_readiness_status readiness = IS_NO_TRADE
                  then (Some NO_TRADE, ''session_readiness_no_trade'', Some readiness,
                    Some (first_or (vt_no_trade_reasons readiness) ''session_readiness_no_trade''))
                else if so_state s \<noteq> DECISION_READY
                  then (Some DECISION_READY, ''planning_inputs_ready'', Some readiness, None)
                else stay)"

text \<open>
  What a transition leaves alone: the inputs, so the same target is determined afterwards unless the
  state was \<open>NOT_STARTED\<close>.
\<close>

lemma record_audit_simps [simp]:
  "so_state (record_audit t a b e r v c d s) = so_state s"
  "so_manifest (record_audit t a b e r v c d s) = so_manifest s"
  "so_latest_validation (record_audit t a b e r v c d s) = so_latest_validation s"
  "so_latest_guardrail (record_audit t a b e r v c d s) = so_latest_guardrail s"
  "so_order_plan (record_audit t a b e r v c d s) = so_order_plan s"
  "so_planned_order_count (record_audit t a b e r v c d s) = so_planned_order_count s"
  "so_calendar (record_audit t a b e r v c d s) = so_calendar s"
  "so_monthly (record_audit t a b e r v c d s) = so_monthly s"
  "so_config (record_audit t a b e r v c d s) = so_config s"
  "so_costs (record_audit t a b e r v c d s) = so_costs s"
  "so_quote (record_audit t a b e r v c d s) = so_quote s"
  "so_chain (record_audit t a b e r v c d s) = so_chain s"
  "so_selected (record_audit t a b e r v c d s) = so_selected s"
  "so_trade_plan (record_audit t a b e r v c d s) = so_trade_plan s"
  "so_snapshots (record_audit t a b e r v c d s) = so_snapshots s"
  "so_bars (record_audit t a b e r v c d s) = so_bars s"
  "so_accepted (record_audit t a b e r v c d s) = so_accepted s"
  by (simp_all add: record_audit_def)

lemma refresh_manifest_simps [simp]:
  "so_state (refresh_manifest t s) = so_state s"
  "so_latest_validation (refresh_manifest t s) = so_latest_validation s"
  "so_latest_guardrail (refresh_manifest t s) = so_latest_guardrail s"
  "so_order_plan (refresh_manifest t s) = so_order_plan s"
  "so_planned_order_count (refresh_manifest t s) = so_planned_order_count s"
  "so_audit_events (refresh_manifest t s) = so_audit_events s"
  "so_calendar (refresh_manifest t s) = so_calendar s"
  "so_monthly (refresh_manifest t s) = so_monthly s"
  "so_config (refresh_manifest t s) = so_config s"
  "so_costs (refresh_manifest t s) = so_costs s"
  "so_quote (refresh_manifest t s) = so_quote s"
  "so_chain (refresh_manifest t s) = so_chain s"
  "so_selected (refresh_manifest t s) = so_selected s"
  "so_trade_plan (refresh_manifest t s) = so_trade_plan s"
  "so_snapshots (refresh_manifest t s) = so_snapshots s"
  "so_bars (refresh_manifest t s) = so_bars s"
  "so_accepted (refresh_manifest t s) = so_accepted s"
  by (simp_all add: refresh_manifest_def split: option.split prod.split)

lemma transition_simps [simp]:
  "so_state (transition_to st t e r v c d s) = st"
  "so_order_plan (transition_to st t e r v c d s) = so_order_plan s"
  "so_planned_order_count (transition_to st t e r v c d s) = so_planned_order_count s"
  "so_calendar (transition_to st t e r v c d s) = so_calendar s"
  "so_monthly (transition_to st t e r v c d s) = so_monthly s"
  "so_config (transition_to st t e r v c d s) = so_config s"
  "so_costs (transition_to st t e r v c d s) = so_costs s"
  "so_quote (transition_to st t e r v c d s) = so_quote s"
  "so_chain (transition_to st t e r v c d s) = so_chain s"
  "so_selected (transition_to st t e r v c d s) = so_selected s"
  "so_trade_plan (transition_to st t e r v c d s) = so_trade_plan s"
  "so_snapshots (transition_to st t e r v c d s) = so_snapshots s"
  "so_bars (transition_to st t e r v c d s) = so_bars s"
  "so_accepted (transition_to st t e r v c d s) = so_accepted s"
  by (simp_all add: transition_to_def Let_def)

lemma transition_inputs [simp]:
  "has_pre_market_inputs (transition_to st t e r v c d s) = has_pre_market_inputs s"
  "has_decision_inputs (transition_to st t e r v c d s) = has_decision_inputs s"
  "required_labels (transition_to st t e r v c d s) = required_labels s"
  "missing_labels (transition_to st t e r v c d s) = missing_labels s"
  "ordered_snapshots (transition_to st t e r v c d s) = ordered_snapshots s"
  "blocked_day now (transition_to st t e r v c d s) = blocked_day now s"
  "awaited_state (transition_to st t e r v c d s) = awaited_state s"
  by (simp_all add: has_pre_market_inputs_def has_decision_inputs_def required_labels_def missing_labels_def
      ordered_snapshots_def blocked_day_def awaited_state_def)

lemma transition_readiness [simp]:
  "vt_readiness_status (build_readiness_result g now (transition_to st t e r v c d s)) =
   vt_readiness_status (build_readiness_result g now s)"
  by (simp add: build_readiness_result_def manual_result_def split: option.split)

lemma blocked_day_target: "blocked_day now s = Some (x, r, v, c) \<Longrightarrow> x = Some ABORTED \<or> x = Some NO_TRADE"
  by (auto simp: blocked_day_def split: if_splits)

definition transition_rank :: "orchestrator \<Rightarrow> datetime \<Rightarrow> session \<Rightarrow> nat" where
  "transition_rank g now s =
     (if is_terminal (so_state s) then 0 else if so_state s = NOT_STARTED then 2
      else if fst (determine_transition g now s) = None \<or> fst (determine_transition g now s) = Some (so_state s) then 0
      else 1)"

lemma awaited_states: "awaited_state s = Some (st, r) \<Longrightarrow> st \<in> {WAITING_FOR_0915, WAITING_FOR_ORPT, WAITING_FOR_RC}"
  by (auto simp: awaited_state_def Let_def split: if_splits)

lemma settled_transition:
  assumes "determine_transition g now s = (Some target, r, v, c)" and "so_state s \<noteq> NOT_STARTED"
    and "\<not> is_terminal target"
  shows "fst (determine_transition g now (transition_to target t e r' v' c' d s)) = None"
proof -
  have pre: "has_pre_market_inputs s" and day: "blocked_day now s = None"
    using assms(1,3) blocked_day_target [of now s]
    by (auto simp: determine_transition_def stay_def is_terminal_def split: if_splits option.splits)
  show ?thesis
  proof (cases "awaited_state s")
    case (Some a)
    then obtain st w where a: "awaited_state s = Some (st, w)" by (cases a) auto
    with assms pre day have "target = st" by (auto simp: determine_transition_def Let_def stay_def split: if_splits)
    with a awaited_states [OF a] pre day show ?thesis by (auto simp: determine_transition_def Let_def stay_def)
  next
    case None
    with assms pre day have "target = DECISION_READY" "has_decision_inputs s"
      "vt_readiness_status (build_readiness_result g now s) = IS_READY"
      by (auto simp: determine_transition_def Let_def stay_def is_terminal_def split: if_splits
          intro: readiness_status.exhaust [of "vt_readiness_status (build_readiness_result g now s)"])
    with None pre day show ?thesis by (simp add: determine_transition_def Let_def stay_def)
  qed
qed

lemma target_started:
  assumes "determine_transition g now s = (Some target, r, v, c)"
  shows "target \<noteq> NOT_STARTED"
  using assms blocked_day_target [of now s] awaited_states [of s]
  by (auto simp: determine_transition_def Let_def stay_def split: if_splits option.splits)

lemma rank_decreases:
  assumes "\<not> is_terminal (so_state s)" and "(Some target, r, v, c) = determine_transition g now s" and "target \<noteq> so_state s"
  shows "transition_rank g now (transition_to target t e r' v' c' d s) < transition_rank g now s"
  using assms(1,3) target_started [OF assms(2) [symmetric]] settled_transition [OF assms(2) [symmetric]]
  by (auto simp: transition_rank_def simp flip: assms(2))

text \<open>The \<^verbatim>\<open>while\<close> loop of \<^verbatim>\<open>_advance_state\<close>; it takes at most three turns.\<close>

function advance_state :: "orchestrator \<Rightarrow> datetime \<Rightarrow> paper_event_type option \<Rightarrow> session \<Rightarrow> session" where
  "advance_state g now trigger s =
     (if is_terminal (so_state s) then s
      else case determine_transition g now s of
        (None, _, _, _) \<Rightarrow> s
      | (Some target, reason, result, terminal_code) \<Rightarrow>
          if target = so_state s then s
          else advance_state g now trigger (transition_to target now trigger reason result terminal_code None s))"
  by pat_completeness auto

termination
  by (relation "measure (\<lambda>(g, now, _, s). transition_rank g now s)") (auto intro: rank_decreases)

declare advance_state.simps [simp del]

section \<open>Taking in events\<close>

definition abort_result :: "session \<Rightarrow> datetime \<Rightarrow> string \<Rightarrow> string \<Rightarrow> paper_event_type \<Rightarrow> validation_outcome" where
  "abort_result s now code message event_type =
     manual_result IS_ABORTED (so_state s) now [] [] [] [mk_note code message IS_ABORTED None (Some event_type)]"

definition event_type_of :: "paper_event \<Rightarrow> paper_event_type" where
  "event_type_of e = en_event_type (envelope_of e)"

definition event_type_already_seen :: "session \<Rightarrow> paper_event_type \<Rightarrow> bool" where
  "event_type_already_seen s t \<longleftrightarrow> list_ex (\<lambda>e. event_type_of e = t) (so_accepted s)"

definition bar_key :: "selected_bar \<Rightarrow> string \<times> datetime \<times> datetime" where
  "bar_key b = (sb_symbol b, sb_bar_start b, sb_bar_end b)"

definition latest_seen_order :: "session \<Rightarrow> int" where
  "latest_seen_order s = (if so_snapshots s = [] then -1 else py_max (map (\<lambda>(l, _). snapshot_order l) (so_snapshots s)))"

definition quote_ingest_guard :: "orchestrator \<Rightarrow> session \<Rightarrow> event_envelope \<Rightarrow> datetime \<Rightarrow> validation_outcome option" where
  "quote_ingest_guard g s e now =
     (if now < en_effective_timestamp e then Some (abort_result s now ''future_ingest_quote_timestamp''
        ''Paper quote events must not arrive from the future relative to ingestion time.'' (en_event_type e))
      else if now - en_effective_timestamp e > og_max_quote_age g then Some (abort_result s now ''stale_ingest_quote''
        ''Paper quote event exceeded the allowed freshness window at ingestion time.'' (en_event_type e))
      else None)"

definition repeated_event_guard :: "session \<Rightarrow> paper_event \<Rightarrow> datetime \<Rightarrow> validation_outcome option" where
  "repeated_event_guard s event now =
     (if event_type_already_seen s (event_type_of event)
      then Some (abort_result s now (''duplicate_'' @ lower (event_type_value (event_type_of event)))
        (''Duplicate '' @ event_type_value (event_type_of event) @ '' event received for one S23 paper session.'')
        (event_type_of event))
      else None)"

definition validate_ingest :: "orchestrator \<Rightarrow> session \<Rightarrow> paper_event \<Rightarrow> datetime \<Rightarrow> validation_outcome option" where
  "validate_ingest g s event now =
     (case event of
        EvUnderlyingSnapshot u \<Rightarrow>
          if map_of (so_snapshots s) (un_snapshot_label u) \<noteq> None
          then Some (abort_result s now (''duplicate_snapshot_'' @ snapshot_label_value (un_snapshot_label u))
            (''Duplicate '' @ snapshot_label_value (un_snapshot_label u) @ '' snapshot received for one S23 paper session.'')
            (event_type_of event))
          else if snapshot_order (un_snapshot_label u) < latest_seen_order s
          then Some (abort_result s now ''late_snapshot_out_of_order''
            ''Snapshot events must arrive in non-decreasing session phase order.'' (event_type_of event))
          else None
      | EvSelectedBar b \<Rightarrow>
          if map_of (so_bars s) (bar_key b) \<noteq> None
          then Some (abort_result s now ''duplicate_selected_contract_bar''
            ''Duplicate selected-contract bar received for one S23 paper session.'' (event_type_of event))
          else None
      | EvUnderlyingQuote q \<Rightarrow> (case repeated_event_guard s event now of Some r \<Rightarrow> Some r
          | None \<Rightarrow> quote_ingest_guard g s (uq_envelope q) now)
      | EvSelectedQuote q \<Rightarrow> (case repeated_event_guard s event now of Some r \<Rightarrow> Some r
          | None \<Rightarrow> quote_ingest_guard g s (sq_envelope q) now)
      | _ \<Rightarrow> repeated_event_guard s event now)"

fun store_event :: "paper_event \<Rightarrow> session \<Rightarrow> session" where
  "store_event (EvCalendar e) s = s\<lparr>so_calendar := Some e\<rparr>"
| "store_event (EvMonthlyStatus e) s = s\<lparr>so_monthly := Some e\<rparr>"
| "store_event (EvConfig e) s = s\<lparr>so_config := Some e\<rparr>"
| "store_event (EvCosts e) s = s\<lparr>so_costs := Some e\<rparr>"
| "store_event (EvUnderlyingQuote e) s = s\<lparr>so_quote := Some e\<rparr>"
| "store_event (EvOptionChain e) s = s\<lparr>so_chain := Some e\<rparr>"
| "store_event (EvSelectedQuote e) s = s\<lparr>so_selected := Some e\<rparr>"
| "store_event (EvTradePlan e) s = s\<lparr>so_trade_plan := Some e\<rparr>"
| "store_event (EvUnderlyingSnapshot e) s = s\<lparr>so_snapshots := AList.update (un_snapshot_label e) e (so_snapshots s)\<rparr>"
| "store_event (EvSelectedBar e) s = s\<lparr>so_bars := AList.update (bar_key e) e (so_bars s)\<rparr>"

definition accept_event :: "paper_event \<Rightarrow> session \<Rightarrow> session" where
  "accept_event event s = (let s' = store_event event s in s'\<lparr>so_accepted := so_accepted s' @ [event]\<rparr>)"

definition reject_after_terminal ::
  "datetime \<Rightarrow> paper_event_type option \<Rightarrow> string option \<Rightarrow> string \<Rightarrow> session \<Rightarrow> session" where
  "reject_after_terminal now event_type source_id reason s =
     (let d = decision_for_terminal_event (so_state s) event_type source_id in
      record_audit now (so_state s) (so_state s) event_type reason None (Some (gr_code d)) (Some d)
        (refresh_manifest now (s\<lparr>so_latest_guardrail := Some d\<rparr>)))"

definition ingest_event :: "orchestrator \<Rightarrow> paper_event \<Rightarrow> datetime option \<Rightarrow> session \<Rightarrow> session" where
  "ingest_event g event now0 s =
     (let now = (case now0 of None \<Rightarrow> en_captured_at (envelope_of event) | Some t \<Rightarrow> t);
          event_type = event_type_of event
      in if is_terminal (so_state s)
         then reject_after_terminal now (Some event_type) (Some (en_source_id (envelope_of event)))
           ''event_rejected_after_terminal_state'' s
         else let v = validate_event (og_aware g) event now in
         if vt_readiness_status v = IS_ABORTED
         then transition_to ABORTED now (Some event_type) ''event_validation_failed'' (Some v)
           (Some (first_or (vt_abort_reasons v) ''event_validation_failed'')) None s
         else case validate_ingest g s event now of
           Some r \<Rightarrow> transition_to ABORTED now (Some event_type) ''ingest_guardrail_failed'' (Some r)
             (Some (first_or (vt_abort_reasons r) ''ingest_guardrail_failed'')) None s
         | None \<Rightarrow> advance_state g now (Some event_type) (accept_event event s))"

section \<open>Finalizing\<close>

text \<open>The six assertions of \<^verbatim>\<open>_build_order_plan\<close> raise \<open>AssertionError\<close>.\<close>

definition plan_field :: "(trade_plan_event \<Rightarrow> 'a) \<Rightarrow> session \<Rightarrow> 'a option" where
  "plan_field f s = map_option f (so_trade_plan s)"

definition plan_option :: "(trade_plan_event \<Rightarrow> 'a option) \<Rightarrow> session \<Rightarrow> 'a option" where
  "plan_option f s = (case so_trade_plan s of None \<Rightarrow> None | Some p \<Rightarrow> f p)"

definition build_order_plan :: "datetime \<Rightarrow> session \<Rightarrow> session_order_plan res" where
  "build_order_plan now s =
     (case (so_config s, so_monthly s, so_selected s) of
        (Some config, Some monthly, Some q) \<Rightarrow>
          (case (sq_option_type q, sq_expiry q, sq_ltp q) of
             (Some option_type, Some expiry, Some ltp) \<Rightarrow> Inr
               \<lparr>sp_strategy_code = pc_strategy_code config, sp_session_date = en_session_date (pc_envelope config),
                sp_selected_contract_symbol = sq_symbol q, sp_selected_contract_option_type = option_type,
                sp_selected_contract_expiry = expiry, sp_selected_contract_ltp = ltp,
                sp_monthly_status = mn_monthly_status monthly, sp_overlays_enabled = overlays_enabled config,
                sp_required_snapshot_labels = required_labels s, sp_planning_timestamp = now,
                sp_strategy_branch = plan_field te_strategy_branch s, sp_order_side = plan_field te_order_side s,
                sp_lots = plan_option te_lots s, sp_quantity = plan_option te_quantity s,
                sp_planned_entry_price = plan_option te_planned_entry_price s,
                sp_target_price = plan_option te_target_price s, sp_stoploss_price = plan_option te_stoploss_price s,
                sp_start_strike = plan_option te_start_strike s, sp_end_strike = plan_option te_end_strike s,
                sp_ideal_premium = plan_option te_ideal_premium s,
                sp_minimum_premium = plan_option te_minimum_premium s, sp_fsl_price = plan_option te_fsl_price s,
                sp_order_reference_time = plan_option te_order_reference_time s,
                sp_order_reference_label = plan_field te_order_reference_label s,
                sp_source_workbook_rule = plan_option te_source_workbook_rule s,
                sp_workbook_row_number = plan_option te_workbook_row_number s\<rparr>
           | _ \<Rightarrow> Inl AssertionError)
      | _ \<Rightarrow> Inl AssertionError)"

definition plan_order :: "orchestrator \<Rightarrow> datetime \<Rightarrow> validation_outcome \<Rightarrow> session \<Rightarrow> session res" where
  "plan_order g now readiness s =
     (case evaluate_pre_planning (og_guardrails g) (so_config s) (so_chain s) (so_selected s) (Some readiness)
             (so_planned_order_count s) (session_source_ids s) of
        Some d \<Rightarrow> Inr (transition_to (decision_terminal_state d) now None ''planning_guardrail_blocked''
          (Some (build_validation_result d DECISION_READY now (vt_required_snapshot_labels readiness)
             (vt_missing_snapshot_labels readiness)))
          (Some (gr_code d)) (Some d) s)
      | None \<Rightarrow> bindE (build_order_plan now s) (\<lambda>plan.
          Inr (transition_to ORDER_PLANNED now None ''paper_order_plan_created''
            (Some (manual_result IS_READY ORDER_PLANNED now (vt_required_snapshot_labels readiness) [] [] []))
            None None
            (s\<lparr>so_order_plan := Some plan, so_planned_order_count := so_planned_order_count s + 1\<rparr>))))"

definition finalize_inputs :: "orchestrator \<Rightarrow> datetime \<Rightarrow> session \<Rightarrow> session res" where
  "finalize_inputs g now s =
     (let readiness = build_readiness_result g now s in
      if vt_readiness_status readiness = IS_ABORTED
      then Inr (transition_to ABORTED now None ''session_finalize_aborted'' (Some readiness)
        (Some (first_or (vt_abort_reasons readiness) ''session_finalize_aborted'')) None s)
      else if vt_readiness_status readiness = IS_NO_TRADE
      then Inr (transition_to NO_TRADE now None ''session_finalize_no_trade'' (Some readiness)
        (Some (first_or (vt_no_trade_reasons readiness) ''session_finalize_no_trade'')) None s)
      else plan_order g now readiness
        (if so_state s \<noteq> DECISION_READY
         then transition_to DECISION_READY now None ''planning_inputs_ready'' (Some readiness) None None s else s))"

definition finalize :: "orchestrator \<Rightarrow> datetime \<Rightarrow> session \<Rightarrow> session res" where
  "finalize g now s =
     (if is_terminal (so_state s)
      then Inr (reject_after_terminal now None None ''session_finalize_rejected_after_terminal_state'' s)
      else let s1 = advance_state g now None s in
        if is_terminal (so_state s1) then Inr s1
        else if \<not> has_pre_market_inputs s1
        then Inr (transition_to ABORTED now None ''session_finalize_failed''
          (Some (manual_result IS_ABORTED (so_state s1) now [] [] []
            [mk_note ''session_missing_pre_market_inputs''
               ''S23 paper-session finalize requires calendar, status, config, and cost inputs.'' IS_ABORTED None None]))
          (Some ''session_missing_pre_market_inputs'') None s1)
        else finalize_inputs g now s1)"

text \<open>A call on the session's object. (\<open>finalize\<close> never raises, as \<open>OrchestratorSpec\<close> shows.)\<close>

datatype session_call = Ingest paper_event "datetime option" | Finalize datetime

fun session_step :: "orchestrator \<Rightarrow> session_call \<Rightarrow> session \<Rightarrow> session res" where
  "session_step g (Ingest e now) s = Inr (ingest_event g e now s)"
| "session_step g (Finalize now) s = finalize g now s"

end
