(* ===== verification/OrchestratorSpec.thy ===== *)
theory OrchestratorSpec
  imports Orchestrator
begin

text \<open>
  What a paper session guarantees: finalizing always ends the session; an order is planned exactly
  under the conditions of validator and guardrails; terminal states are final; the audit trail is
  the history of the state and follows the abstract machine \<open>session_move\<close>.
\<close>

section \<open>The loop\<close>

lemma advance_invariant:
  assumes "P s"
    and "\<And>s t r v c. P s \<Longrightarrow> \<not> is_terminal (so_state s) \<Longrightarrow> determine_transition g now s = (Some t, r, v, c) \<Longrightarrow>
      t \<noteq> so_state s \<Longrightarrow> P (transition_to t now trigger r v c None s)"
  shows "P (advance_state g now trigger s)"
  using assms(1)
proof (induction s rule: measure_induct_rule [where f = "transition_rank g now"])
  case (less s)
  show ?case
  proof (cases "is_terminal (so_state s)")
    case True
    with less.prems show ?thesis by (simp add: advance_state.simps [of g now trigger s])
  next
    case False
    obtain target r v c where det: "determine_transition g now s = (target, r, v, c)" by (cases "determine_transition g now s") auto
    show ?thesis
    proof (cases "target = None \<or> target = Some (so_state s)")
      case True
      with False det less.prems show ?thesis by (auto simp: advance_state.simps [of g now trigger s])
    next
      case moving: False
      then obtain t where t: "target = Some t" "t \<noteq> so_state s" by auto
      let ?s = "transition_to t now trigger r v c None s"
      from False det t have "advance_state g now trigger s = advance_state g now trigger ?s"
        by (simp add: advance_state.simps [of g now trigger s])
      moreover from False det t have "P ?s" by (intro assms(2) less.prems) auto
      moreover have "transition_rank g now ?s < transition_rank g now s"
        by (rule rank_decreases) (use False det t in auto)
      ultimately show ?thesis using less.IH by simp
    qed
  qed
qed

text \<open>The loop stops in a terminal state or where no other target is determined.\<close>

lemma advance_settled:
  "is_terminal (so_state (advance_state g now trigger s)) \<or>
   fst (determine_transition g now (advance_state g now trigger s)) \<in> {None, Some (so_state (advance_state g now trigger s))}"
proof (induction s rule: measure_induct_rule [where f = "transition_rank g now"])
  case (less s)
  obtain target r v c where det: "determine_transition g now s = (target, r, v, c)" by (cases "determine_transition g now s") auto
  show ?case
  proof (cases "is_terminal (so_state s) \<or> target = None \<or> target = Some (so_state s)")
    case True
    with det show ?thesis by (auto simp: advance_state.simps [of g now trigger s])
  next
    case False
    then obtain t where t: "target = Some t" "t \<noteq> so_state s" "\<not> is_terminal (so_state s)" by auto
    let ?s = "transition_to t now trigger r v c None s"
    have "transition_rank g now ?s < transition_rank g now s"
      by (rule rank_decreases) (use det t in auto)
    moreover from det t have "advance_state g now trigger s = advance_state g now trigger ?s"
      by (simp add: advance_state.simps [of g now trigger s])
    ultimately show ?thesis using less.IH [of ?s] by simp
  qed
qed

text \<open>What neither a transition nor the loop changes.\<close>

definition same_inputs :: "session \<Rightarrow> session \<Rightarrow> bool" where
  "same_inputs s s' \<longleftrightarrow> so_calendar s' = so_calendar s \<and> so_monthly s' = so_monthly s \<and> so_config s' = so_config s \<and>
     so_costs s' = so_costs s \<and> so_quote s' = so_quote s \<and> so_chain s' = so_chain s \<and> so_selected s' = so_selected s \<and>
     so_trade_plan s' = so_trade_plan s \<and> so_snapshots s' = so_snapshots s \<and> so_bars s' = so_bars s \<and>
     so_accepted s' = so_accepted s"

lemma same_inputs_refl [simp]: "same_inputs s s"
  by (simp add: same_inputs_def)

lemma same_inputs_transition [simp]: "same_inputs s (transition_to st t e r v c d s') = same_inputs s s'"
  by (simp add: same_inputs_def)

lemma same_inputs_advance: "same_inputs s (advance_state g now trigger s)"
  by (rule advance_invariant [where P = "same_inputs s"]) simp_all

lemma same_inputsD:
  assumes "same_inputs s s'"
  shows "has_pre_market_inputs s' = has_pre_market_inputs s" "has_decision_inputs s' = has_decision_inputs s"
    "required_labels s' = required_labels s" "missing_labels s' = missing_labels s" "ordered_snapshots s' = ordered_snapshots s"
    "blocked_day now s' = blocked_day now s" "awaited_state s' = awaited_state s"
    "session_source_ids s' = session_source_ids s" "build_order_plan now s' = build_order_plan now s"
    "vt_readiness_status (build_readiness_result g now s') = vt_readiness_status (build_readiness_result g now s)"
  using assms
  by (simp_all add: same_inputs_def has_pre_market_inputs_def has_decision_inputs_def required_labels_def missing_labels_def
      ordered_snapshots_def blocked_day_def awaited_state_def session_source_ids_def build_order_plan_def plan_field_def
      plan_option_def build_readiness_result_def manual_result_def split: option.split)

lemma target_not_planned:
  assumes "determine_transition g now s = (Some t, r, v, c)"
  shows "t \<noteq> ORDER_PLANNED"
  using assms blocked_day_target [of now s] awaited_states [of s]
  by (auto simp: determine_transition_def Let_def stay_def split: if_splits option.splits)

lemma advance_plan [simp]:
  "so_order_plan (advance_state g now trigger s) = so_order_plan s"
  "so_planned_order_count (advance_state g now trigger s) = so_planned_order_count s"
proof -
  have "so_order_plan (advance_state g now trigger s) = so_order_plan s \<and>
     so_planned_order_count (advance_state g now trigger s) = so_planned_order_count s"
    by (rule advance_invariant [where P = "\<lambda>x. so_order_plan x = so_order_plan s \<and>
      so_planned_order_count x = so_planned_order_count s"]) simp_all
  then show "so_order_plan (advance_state g now trigger s) = so_order_plan s"
    "so_planned_order_count (advance_state g now trigger s) = so_planned_order_count s" by simp_all
qed

lemma advance_not_planned: "so_state s \<noteq> ORDER_PLANNED \<Longrightarrow> so_state (advance_state g now trigger s) \<noteq> ORDER_PLANNED"
  by (rule advance_invariant [where P = "\<lambda>x. so_state x \<noteq> ORDER_PLANNED"]) (auto dest: target_not_planned)

section \<open>When an order is planned\<close>

text \<open>The inputs of a session, once all are there.\<close>

definition inputs_ready :: "orchestrator \<Rightarrow> datetime \<Rightarrow> session \<Rightarrow> bool" where
  "inputs_ready g now s \<longleftrightarrow> og_aware g \<and>
     (case (so_calendar s, so_monthly s, so_config s, so_costs s, so_quote s) of
        (Some calendar, Some monthly, Some config, Some costs, Some quote) \<Rightarrow>
          session_ready \<lparr>rdi_calendar = calendar, rdi_monthly = monthly, rdi_config = config, rdi_costs = costs,
              rdi_quote = quote, rdi_snapshots = ordered_snapshots s, rdi_chain = so_chain s, rdi_selected = so_selected s\<rparr>
            now (og_max_quote_age g) (required_labels_for_config config)
      | _ \<Rightarrow> False)"

lemma required_labels_nonempty [simp]: "required_labels_for_config c \<noteq> []"
  by (simp add: required_labels_for_config_def)

lemma manual_result_status [simp]: "vt_readiness_status (manual_result st x now rl ml ni ai) = st"
  by (simp add: manual_result_def)

lemma readiness_iff: "vt_readiness_status (build_readiness_result g now s) = IS_READY \<longleftrightarrow> inputs_ready g now s"
  by (auto simp: build_readiness_result_def inputs_ready_def session_readiness_iff readiness_labels_def required_labels_def
      split: option.split)

lemma inputs_ready_same: "same_inputs s s' \<Longrightarrow> inputs_ready g now s' = inputs_ready g now s"
  by (simp flip: readiness_iff add: same_inputsD)

lemma inputs_ready_parts:
  assumes "inputs_ready g now s"
  obtains calendar monthly config costs quote chain selected where
    "so_calendar s = Some calendar" "so_monthly s = Some monthly" "so_config s = Some config" "so_costs s = Some costs"
    "so_quote s = Some quote" "so_chain s = Some chain" "so_selected s = Some selected"
    "event_ok (EvSelectedQuote selected)" "in_scope config" "\<not> cx_is_holiday calendar" "mn_monthly_status monthly \<noteq> Some UNKNOWN"
    "fresh now (og_max_quote_age g) (uq_envelope quote)" "fresh now (og_max_quote_age g) (sq_envelope selected)"
    "\<exists>k \<in> set (ch_contracts chain). oc_symbol k = sq_symbol selected"
    "\<forall>l \<in> set (required_labels s). \<exists>u \<in> set (ordered_snapshots s). un_snapshot_label u = l \<and> un_complete u"
proof -
  from assms obtain calendar monthly config costs quote where parts:
    "so_calendar s = Some calendar" "so_monthly s = Some monthly" "so_config s = Some config" "so_costs s = Some costs"
    "so_quote s = Some quote"
    by (auto simp: inputs_ready_def split: option.splits)
  with assms obtain chain selected where "so_chain s = Some chain" "so_selected s = Some selected"
    by (auto simp: inputs_ready_def session_ready_def)
  with assms parts show thesis
    by (intro that) (auto simp: inputs_ready_def session_ready_def readiness_events_def required_labels_def)
qed

lemma ready_has_inputs: "inputs_ready g now s \<Longrightarrow> has_pre_market_inputs s \<and> has_decision_inputs s"
  by (elim inputs_ready_parts) (simp add: has_pre_market_inputs_def has_decision_inputs_def)

text \<open>The assertions of \<^verbatim>\<open>_build_order_plan\<close> hold whenever the inputs are ready.\<close>

lemma plan_is_built:
  assumes "inputs_ready g now s"
  shows "\<exists>p. build_order_plan now s = Inr p"
  using assms by (elim inputs_ready_parts) (auto simp: build_order_plan_def event_ok_def)

text \<open>What the guardrails ask for once the inputs are ready.\<close>

definition planning_allowed :: "orchestrator \<Rightarrow> session \<Rightarrow> bool" where
  "planning_allowed g s \<longleftrightarrow>
     gs_global_paper_trading_enabled (og_guardrails g) \<and> gs_s23_paper_enabled (og_guardrails g) \<and>
     \<not> gs_manual_operator_abort (og_guardrails g) \<and>
     so_planned_order_count s < gs_max_planned_orders_per_session (og_guardrails g) \<and>
     (\<forall>c. so_config s = Some c \<longrightarrow> \<not> pc_kill_switch_enabled c) \<and>
     (gs_enforce_liquidity_checks (og_guardrails g) \<longrightarrow> (\<forall>q. so_selected s = Some q \<longrightarrow>
        (\<forall>m oi. gs_min_selected_contract_oi (og_guardrails g) = Some m \<and> sq_oi q = Some oi \<longrightarrow> m \<le> oi) \<and>
        \<not> exceeds_spread (og_guardrails g) (sq_bid q) (sq_ask q)))"

lemma pre_planning_iff:
  assumes "inputs_ready g now s" and "vt_readiness_status v = IS_READY" and "ids = session_source_ids s"
  shows "evaluate_pre_planning (og_guardrails g) (so_config s) (so_chain s) (so_selected s) (Some v)
      (so_planned_order_count s) ids = None \<longleftrightarrow> planning_allowed g s"
proof -
  from assms(1) obtain config chain q where parts: "so_config s = Some config" "so_chain s = Some chain" "so_selected s = Some q"
    "in_scope config" "\<exists>k \<in> set (ch_contracts chain). oc_symbol k = sq_symbol q"
    by (elim inputs_ready_parts)
  then have "pc_paper_mode_enabled config" "list_ex (\<lambda>c. oc_symbol c = sq_symbol q) (ch_contracts chain)"
    by (auto simp: in_scope_def list_ex_iff)
  moreover have "evaluate_liquidity (og_guardrails g) chain q ids = None \<longleftrightarrow>
      (gs_enforce_liquidity_checks (og_guardrails g) \<longrightarrow>
        (\<forall>m oi. gs_min_selected_contract_oi (og_guardrails g) = Some m \<and> sq_oi q = Some oi \<longrightarrow> m \<le> oi) \<and>
        \<not> exceeds_spread (og_guardrails g) (sq_bid q) (sq_ask q))"
    using \<open>list_ex _ _\<close> by (auto simp: evaluate_liquidity_def Let_def not_less split: option.splits)
  ultimately show ?thesis
    using parts assms(2)
    by (auto simp: evaluate_pre_planning_def classify_validation_block_def planning_allowed_def Let_def not_le)
qed

lemma planning_allowed_same: "same_inputs s s' \<Longrightarrow> so_planned_order_count s' = so_planned_order_count s \<Longrightarrow>
    planning_allowed g s' = planning_allowed g s"
  by (simp add: planning_allowed_def same_inputs_def)

lemma decision_terminal [simp]: "is_terminal (decision_terminal_state d)" "decision_terminal_state d \<noteq> ORDER_PLANNED"
  by (simp_all add: is_terminal_def decision_terminal_state_def)

lemma plan_order_outcome:
  assumes "inputs_ready g now s" and "vt_readiness_status v = IS_READY"
  shows "\<exists>s'. plan_order g now v s = Inr s' \<and> is_terminal (so_state s') \<and>
    (so_state s' = ORDER_PLANNED \<longleftrightarrow> planning_allowed g s)"
proof (cases "planning_allowed g s")
  case True
  with pre_planning_iff [OF assms refl] plan_is_built [OF assms(1)] show ?thesis
    by (auto simp: plan_order_def is_terminal_def)
next
  case False
  with pre_planning_iff [OF assms refl] obtain d where
    "evaluate_pre_planning (og_guardrails g) (so_config s) (so_chain s) (so_selected s) (Some v)
      (so_planned_order_count s) (session_source_ids s) = Some d"
    by auto
  with False show ?thesis by (auto simp: plan_order_def)
qed

lemma finalize_inputs_outcome:
  assumes "\<not> is_terminal (so_state s)"
  shows "\<exists>s'. finalize_inputs g now s = Inr s' \<and> is_terminal (so_state s') \<and>
    (so_state s' = ORDER_PLANNED \<longleftrightarrow> inputs_ready g now s \<and> planning_allowed g s)"
proof (cases "inputs_ready g now s")
  case True
  let ?v = "build_readiness_result g now s"
  have ready: "vt_readiness_status ?v = IS_READY" using True by (simp add: readiness_iff)
  define s1 where "s1 = (if so_state s \<noteq> DECISION_READY
    then transition_to DECISION_READY now None ''planning_inputs_ready'' (Some ?v) None None s else s)"
  have same: "same_inputs s s1" "so_planned_order_count s1 = so_planned_order_count s" by (simp_all add: s1_def)
  with True have "inputs_ready g now s1" by (simp add: inputs_ready_same)
  from plan_order_outcome [OF this ready] True planning_allowed_same [OF same] ready show ?thesis
    by (auto simp: finalize_inputs_def Let_def s1_def)
next
  case False
  then have "vt_readiness_status (build_readiness_result g now s) \<noteq> IS_READY" by (simp add: readiness_iff)
  with False show ?thesis
    by (cases "vt_readiness_status (build_readiness_result g now s)")
      (auto simp: finalize_inputs_def Let_def is_terminal_def)
qed

lemma reject_simps [simp]:
  "so_state (reject_after_terminal now t i r s) = so_state s"
  "so_order_plan (reject_after_terminal now t i r s) = so_order_plan s"
  "so_planned_order_count (reject_after_terminal now t i r s) = so_planned_order_count s"
  "same_inputs s (reject_after_terminal now t i r s')  = same_inputs s s'"
  by (simp_all add: reject_after_terminal_def Let_def same_inputs_def)

lemma finalize_terminal:
  "\<exists>s'. finalize g now s = Inr s' \<and> is_terminal (so_state s')"
proof (cases "is_terminal (so_state s)")
  case True
  then show ?thesis by (simp add: finalize_def)
next
  case False
  let ?s = "advance_state g now None s"
  show ?thesis
    using False finalize_inputs_outcome [of ?s g now]
    by (cases "is_terminal (so_state ?s)"; cases "has_pre_market_inputs ?s")
      (auto simp: finalize_def Let_def is_terminal_def [of ABORTED])
qed

lemma ready_day: "inputs_ready g now s \<Longrightarrow> blocked_day now s = None \<longleftrightarrow> (\<forall>c. so_config s = Some c \<longrightarrow> pc_same_day_square_off_only c)"
  by (elim inputs_ready_parts) (simp add: blocked_day_def)

lemma ready_stays_open:
  assumes "inputs_ready g now s" and "blocked_day now s = None" and "\<not> is_terminal (so_state s)"
  shows "\<not> is_terminal (so_state (advance_state g now trigger s))"
proof -
  let ?P = "\<lambda>x. same_inputs s x \<and> \<not> is_terminal (so_state x)"
  have "?P (advance_state g now trigger s)"
  proof (rule advance_invariant [where P = ?P])
    fix x t r v c
    assume x: "?P x" and det: "determine_transition g now x = (Some t, r, v, c)"
    from x have ready: "vt_readiness_status (build_readiness_result g now x) = IS_READY" "blocked_day now x = None"
      using assms inputs_ready_same [of s x g now] same_inputsD(6) [of s x now] by (simp_all add: readiness_iff)
    with det awaited_states [of x] have "\<not> is_terminal t"
      by (auto simp: determine_transition_def Let_def stay_def is_terminal_def split: if_splits option.splits)
    with x show "?P (transition_to t now trigger r v c None x)" by simp
  qed (use assms in simp)
  then show ?thesis by simp
qed

text \<open>A day that blocks the session has ended it when the loop stops.\<close>

lemma blocked_day_ends:
  assumes "has_pre_market_inputs s" and "blocked_day now s \<noteq> None"
  shows "is_terminal (so_state (advance_state g now trigger s))"
proof -
  let ?x = "advance_state g now trigger s"
  have same: "same_inputs s ?x" by (rule same_inputs_advance)
  with assms obtain t r v c where "blocked_day now ?x = Some (t, r, v, c)" "has_pre_market_inputs ?x"
    by (auto simp: same_inputsD)
  moreover from this(1) have "t = Some ABORTED \<or> t = Some NO_TRADE" by (rule blocked_day_target)
  ultimately show ?thesis
    using advance_settled [of g now trigger s] by (auto simp: determine_transition_def is_terminal_def)
qed

lemma finalize_plans_iff:
  assumes open_session: "\<not> is_terminal (so_state s)" and fin: "finalize g now s = Inr s'"
  shows "so_state s' = ORDER_PLANNED \<longleftrightarrow>
    inputs_ready g now s \<and> (\<forall>c. so_config s = Some c \<longrightarrow> pc_same_day_square_off_only c) \<and> planning_allowed g s"
proof -
  let ?x = "advance_state g now None s"
  have same: "same_inputs s ?x" by (rule same_inputs_advance)
  have open_x: "so_state ?x \<noteq> ORDER_PLANNED"
    using open_session by (intro advance_not_planned) (auto simp: is_terminal_def)
  have allowed: "planning_allowed g ?x = planning_allowed g s" by (intro planning_allowed_same same) simp
  show ?thesis
  proof (cases "is_terminal (so_state ?x)")
    case True
    with fin open_session have "s' = ?x" by (simp add: finalize_def Let_def)
    moreover have "\<not> (inputs_ready g now s \<and> blocked_day now s = None)"
      using True ready_stays_open open_session by blast
    ultimately show ?thesis using open_x ready_day by blast
  next
    case open_loop: False
    show ?thesis
    proof (cases "has_pre_market_inputs ?x")
      case False
      with fin open_session open_loop have "so_state s' = ABORTED" by (auto simp: finalize_def Let_def)
      moreover from False have "\<not> inputs_ready g now s" using ready_has_inputs same by (auto simp: same_inputsD)
      ultimately show ?thesis by simp
    next
      case True
      then have "has_pre_market_inputs s" using same by (simp add: same_inputsD)
      from blocked_day_ends [OF this, of now g None] open_loop have "blocked_day now s = None" by blast
      moreover from True fin open_session open_loop have "finalize_inputs g now ?x = Inr s'"
        by (simp add: finalize_def Let_def)
      ultimately show ?thesis
        using finalize_inputs_outcome [OF open_loop, of g now] ready_day [of g now s]
        by (auto simp: inputs_ready_same [OF same] allowed)
    qed
  qed
qed

text \<open>
  Finalizing a session never raises and always leaves it in a terminal state. From an open session it
  plans an order exactly when the session is ready (complete events, supported scope, trading day,
  complete snapshots, fresh quotes, the contract in the chain), the configuration keeps to same-day
  square-off, and no switch, limit or liquidity check stops it.
\<close>
theorem finalize_decides:
  "\<exists>s'. finalize g now s = Inr s' \<and> is_terminal (so_state s') \<and>
     (\<not> is_terminal (so_state s) \<longrightarrow> (so_state s' = ORDER_PLANNED \<longleftrightarrow>
        inputs_ready g now s \<and> (\<forall>c. so_config s = Some c \<longrightarrow> pc_same_day_square_off_only c) \<and> planning_allowed g s))"
  using finalize_terminal [of g now s] finalize_plans_iff [of s g now] by blast

section \<open>Runs of a session\<close>

lemma terminal_step:
  assumes "session_step g c s = Inr s'" and "is_terminal (so_state s)"
  shows "so_state s' = so_state s \<and> so_order_plan s' = so_order_plan s \<and>
    so_planned_order_count s' = so_planned_order_count s \<and> same_inputs s s' \<and>
    length (so_audit_events s') = Suc (length (so_audit_events s))"
proof -
  have audit: "length (so_audit_events (reject_after_terminal now t i r s)) = Suc (length (so_audit_events s))" for now t i r
    by (simp add: reject_after_terminal_def record_audit_def Let_def)
  show ?thesis
  proof (cases c)
    case (Ingest e now)
    with assms show ?thesis by (auto simp: ingest_event_def Let_def audit)
  next
    case (Finalize now)
    with assms show ?thesis by (auto simp: finalize_def audit)
  qed
qed

text \<open>
  A session that has ended stays as it is: further events and finalizations keep its state, its order
  plan and its inputs, and add one rejection each to the audit trail.
\<close>
theorem terminal_session_is_final:
  assumes "runE (session_step g) calls s = Inr s'" and "is_terminal (so_state s)"
  shows "so_state s' = so_state s \<and> so_order_plan s' = so_order_plan s \<and> same_inputs s s' \<and>
    length (so_audit_events s') = length (so_audit_events s) + length calls"
  using assms
proof (induction calls arbitrary: s)
  case (Cons c calls)
  then obtain s1 where s1: "session_step g c s = Inr s1" "runE (session_step g) calls s1 = Inr s'" by (auto simp: bindE_eq_Inr)
  from terminal_step [OF s1(1) Cons.prems(2)] Cons.IH [OF s1(2)] Cons.prems(2) show ?case
    by (simp add: same_inputs_def)
qed simp

text \<open>What a call that may plan an order does with the plan.\<close>

definition planning_effect :: "datetime \<Rightarrow> session \<Rightarrow> session \<Rightarrow> bool" where
  "planning_effect now s s' \<longleftrightarrow> same_inputs s s' \<and>
    (if so_state s' = ORDER_PLANNED
     then (\<exists>p. build_order_plan now s = Inr p \<and> so_order_plan s' = Some p) \<and>
       so_planned_order_count s' = so_planned_order_count s + 1
     else so_order_plan s' = so_order_plan s \<and> so_planned_order_count s' = so_planned_order_count s)"

lemma planning_effect_same:
  assumes "same_inputs x y" "so_order_plan y = so_order_plan x" "so_planned_order_count y = so_planned_order_count x"
    and "planning_effect now y s'"
  shows "planning_effect now x s'"
proof -
  from assms(1,4) have "same_inputs x s'" by (simp add: planning_effect_def same_inputs_def)
  with assms same_inputsD(9) [OF assms(1)] show ?thesis by (auto simp: planning_effect_def split: if_splits)
qed

lemma plan_order_effect: "plan_order g now v s = Inr s' \<Longrightarrow> planning_effect now s s'"
  by (auto simp: plan_order_def bindE_eq_Inr planning_effect_def same_inputs_def split: option.splits)

lemma transition_effect: "st \<noteq> ORDER_PLANNED \<Longrightarrow> planning_effect now s (transition_to st t e r v c d s)"
  by (simp add: planning_effect_def)

lemma finalize_inputs_effect:
  assumes "finalize_inputs g now s = Inr s'"
  shows "planning_effect now s s'"
proof (cases "vt_readiness_status (build_readiness_result g now s)")
  case IS_READY
  define y where "y = (if so_state s \<noteq> DECISION_READY then transition_to DECISION_READY now None ''planning_inputs_ready''
    (Some (build_readiness_result g now s)) None None s else s)"
  from assms IS_READY have "plan_order g now (build_readiness_result g now s) y = Inr s'"
    by (simp add: finalize_inputs_def Let_def y_def)
  then have "planning_effect now y s'" by (rule plan_order_effect)
  then show ?thesis by (rule planning_effect_same [rotated 3]) (simp_all add: y_def)
qed (use assms in \<open>auto simp: finalize_inputs_def Let_def intro!: transition_effect\<close>)

lemma finalize_effect:
  assumes "finalize g now s = Inr s'" and "\<not> is_terminal (so_state s)"
  shows "planning_effect now s s'"
proof (rule planning_effect_same [where y = "advance_state g now None s"])
  let ?x = "advance_state g now None s"
  show "planning_effect now ?x s'"
  proof (cases "is_terminal (so_state ?x)")
    case True
    with assms have "s' = ?x" by (simp add: finalize_def Let_def)
    moreover from assms(2) have "so_state ?x \<noteq> ORDER_PLANNED"
      by (intro advance_not_planned) (auto simp: is_terminal_def)
    ultimately show ?thesis by (simp add: planning_effect_def)
  next
    case False
    with assms show ?thesis
      by (cases "has_pre_market_inputs ?x")
        (auto simp: finalize_def Let_def intro: finalize_inputs_effect transition_effect)
  qed
qed (simp_all add: same_inputs_advance)

definition planned_contract :: "orchestrator \<Rightarrow> session \<Rightarrow> session_order_plan \<Rightarrow> bool" where
  "planned_contract g s p \<longleftrightarrow> (\<exists>q ch. so_selected s = Some q \<and> so_chain s = Some ch \<and>
     sp_selected_contract_symbol p = sq_symbol q \<and> Some (sp_selected_contract_ltp p) = sq_ltp q \<and>
     fresh (sp_planning_timestamp p) (og_max_quote_age g) (sq_envelope q) \<and>
     (\<exists>k \<in> set (ch_contracts ch). oc_symbol k = sq_symbol q))"

lemma built_plan_contract:
  assumes "build_order_plan now s = Inr p" and "inputs_ready g now s"
  shows "planned_contract g s p"
  using assms(2)
proof (elim inputs_ready_parts)
  fix calendar monthly config costs quote chain selected
  assume parts: "so_monthly s = Some monthly" "so_config s = Some config" "so_chain s = Some chain" "so_selected s = Some selected"
    "fresh now (og_max_quote_age g) (sq_envelope selected)" "\<exists>k \<in> set (ch_contracts chain). oc_symbol k = sq_symbol selected"
  with assms(1) have "sp_selected_contract_symbol p = sq_symbol selected" "Some (sp_selected_contract_ltp p) = sq_ltp selected"
    "sp_planning_timestamp p = now"
    by (auto simp: build_order_plan_def split: option.splits)
  with parts show ?thesis by (simp add: planned_contract_def)
qed

definition plan_matches :: "orchestrator \<Rightarrow> session \<Rightarrow> bool" where
  "plan_matches g s \<longleftrightarrow> (case so_order_plan s of
       None \<Rightarrow> so_state s \<noteq> ORDER_PLANNED \<and> so_planned_order_count s = 0
     | Some p \<Rightarrow> so_state s = ORDER_PLANNED \<and> so_planned_order_count s = 1 \<and> planned_contract g s p)"

lemma plan_matches_step:
  assumes "session_step g c s = Inr s'" and "plan_matches g s"
  shows "plan_matches g s'"
proof (cases "is_terminal (so_state s)")
  case True
  from terminal_step [OF assms(1) True] assms(2) show ?thesis
    by (auto simp: plan_matches_def planned_contract_def same_inputs_def split: option.splits)
next
  case False
  then have no_plan: "so_order_plan s = None" "so_planned_order_count s = 0" "so_state s \<noteq> ORDER_PLANNED"
    using assms(2) by (auto simp: plan_matches_def is_terminal_def split: option.splits)
  show ?thesis
  proof (cases c)
    case (Ingest e now0)
    have "so_order_plan (accept_event e s) = None" "so_planned_order_count (accept_event e s) = 0"
      "so_state (accept_event e s) \<noteq> ORDER_PLANNED"
      using no_plan by (cases e; simp add: accept_event_def)+
    then have "plan_matches g (advance_state g now trigger (accept_event e s))" for now trigger
      using advance_not_planned by (simp add: plan_matches_def)
    moreover have "plan_matches g (transition_to ABORTED now trigger r v tc d s)" for now trigger r v tc d
      using no_plan by (simp add: plan_matches_def)
    ultimately show ?thesis
      using assms(1) False Ingest by (auto simp: ingest_event_def Let_def split: option.splits if_splits)
  next
    case (Finalize now)
    with assms(1) have "finalize g now s = Inr s'" by simp
    from finalize_effect [OF this False] finalize_plans_iff [OF False this] no_plan built_plan_contract [of now s]
    show ?thesis
      by (cases "so_state s' = ORDER_PLANNED")
        (auto simp: plan_matches_def planning_effect_def planned_contract_def same_inputs_def)
  qed
qed

text \<open>
  A session is ready to plan when it is open, its inputs are ready, it keeps to same-day square-off and no
  switch, limit or liquidity check stops it; \<open>planned_at\<close>: some call of the list finalizes such a session.
\<close>

definition planning_ready :: "orchestrator \<Rightarrow> datetime \<Rightarrow> session \<Rightarrow> bool" where
  "planning_ready g now s \<longleftrightarrow> \<not> is_terminal (so_state s) \<and> inputs_ready g now s \<and>
     (\<forall>c. so_config s = Some c \<longrightarrow> pc_same_day_square_off_only c) \<and> planning_allowed g s"

definition planned_at :: "orchestrator \<Rightarrow> session_call list \<Rightarrow> datetime \<Rightarrow> bool" where
  "planned_at g calls now \<longleftrightarrow> (\<exists>pre post s0. calls = pre @ Finalize now # post \<and>
     runE (session_step g) pre new_session = Inr s0 \<and> planning_ready g now s0)"

lemma planned_at_Nil: "\<not> planned_at g [] now"
  by (simp add: planned_at_def)

lemma planned_at_snoc:
  assumes "runE (session_step g) calls new_session = Inr s"
  shows "planned_at g (calls @ [c]) now \<longleftrightarrow> planned_at g calls now \<or> (c = Finalize now \<and> planning_ready g now s)"
    (is "?l \<longleftrightarrow> ?r")
proof
  assume ?l
  then obtain pre post s0 where p: "calls @ [c] = pre @ Finalize now # post"
    "runE (session_step g) pre new_session = Inr s0" "planning_ready g now s0" by (auto simp: planned_at_def)
  show ?r
  proof (cases post rule: rev_cases)
    case Nil
    with p assms show ?thesis by simp
  next
    case (snoc ys y)
    with p show ?thesis by (auto simp: planned_at_def)
  qed
next
  assume ?r
  then show ?l
  proof
    assume "planned_at g calls now"
    then show ?thesis by (fastforce simp: planned_at_def)
  next
    assume "c = Finalize now \<and> planning_ready g now s"
    with assms show ?thesis by (auto simp: planned_at_def)
  qed
qed

text \<open>The plan a call adds, if any: only the finalization of a ready session adds one.\<close>

lemma plan_step:
  assumes "session_step g c s = Inr s'" and "plan_matches g s"
  shows "(\<forall>p. so_order_plan s' = Some p \<longrightarrow> so_order_plan s = Some p \<or>
      (c = Finalize (sp_planning_timestamp p) \<and> planning_ready g (sp_planning_timestamp p) s)) \<and>
    (so_order_plan s' = None \<longrightarrow> so_order_plan s = None \<and> (\<forall>now. \<not> (c = Finalize now \<and> planning_ready g now s)))"
proof (cases "is_terminal (so_state s)")
  case True
  with terminal_step [OF assms(1) True] show ?thesis by (simp add: planning_ready_def)
next
  case False
  have after: "plan_matches g s'" using assms by (rule plan_matches_step)
  have no_plan: "so_order_plan s = None" using assms(2) False by (auto simp: plan_matches_def is_terminal_def split: option.splits)
  show ?thesis
  proof (cases c)
    case (Ingest e now0)
    have "so_order_plan (accept_event e s) = None" using no_plan by (cases e) (simp_all add: accept_event_def)
    with assms(1) Ingest False no_plan have "so_order_plan s' = None"
      by (auto simp: ingest_event_def Let_def split: option.splits if_splits)
    with Ingest no_plan show ?thesis by simp
  next
    case (Finalize now)
    with assms(1) have fin: "finalize g now s = Inr s'" by simp
    have iff: "so_state s' = ORDER_PLANNED \<longleftrightarrow> planning_ready g now s"
      using finalize_plans_iff [OF False fin] False by (simp add: planning_ready_def)
    have "sp_planning_timestamp p = now" if "so_order_plan s' = Some p" for p
      using finalize_effect [OF fin False] that no_plan
      by (auto simp: planning_effect_def build_order_plan_def split: if_splits option.splits)
    with iff after no_plan Finalize show ?thesis by (auto simp: plan_matches_def split: option.splits)
  qed
qed

lemma session_never_raises: "\<exists>s. runE (session_step g) calls x = Inr s"
proof (induction calls arbitrary: x)
  case (Cons c calls)
  have "\<exists>y. session_step g c x = Inr y" using finalize_terminal by (cases c) fastforce+
  then show ?case using Cons by (auto simp: bindE_eq_Inr)
qed simp

lemma plan_history:
  assumes "runE (session_step g) calls new_session = Inr s"
  shows "plan_matches g s \<and> (\<forall>p. so_order_plan s = Some p \<longrightarrow> planned_at g calls (sp_planning_timestamp p)) \<and>
    (so_order_plan s = None \<longrightarrow> (\<forall>now. \<not> planned_at g calls now))"
  using assms
proof (induction calls arbitrary: s rule: rev_induct)
  case Nil
  then show ?case by (auto simp: planned_at_Nil plan_matches_def new_session_def)
next
  case (snoc c calls)
  then obtain u where u: "runE (session_step g) calls new_session = Inr u" "session_step g c u = Inr s"
    by (auto simp: runE_append bindE_eq_Inr)
  from snoc.IH [OF u(1)] plan_step [OF u(2)] plan_matches_step [OF u(2)] show ?case
    by (auto simp: planned_at_snoc [OF u(1)])
qed

text \<open>
  C24: over any calls on a new session at most one order is planned: the session is in the
  state \<open>ORDER_PLANNED\<close> exactly when it has one. It has none exactly when no call of the run finalized a
  session that was ready to plan; the one it has was planned by such a call, at its time, names the
  selected contract, which is a row of the option chain, and carries its price, quoted within the age limit then.
\<close>
theorem session_plans_at_most_one_order:
  "\<exists>s. runE (session_step g) calls new_session = Inr s \<and>
    (case so_order_plan s of
      None \<Rightarrow> so_state s \<noteq> ORDER_PLANNED \<and> so_planned_order_count s = 0 \<and> (\<forall>now. \<not> planned_at g calls now)
    | Some p \<Rightarrow> so_state s = ORDER_PLANNED \<and> so_planned_order_count s = 1 \<and> planned_at g calls (sp_planning_timestamp p) \<and>
        (\<exists>q ch. so_selected s = Some q \<and> so_chain s = Some ch \<and> sp_selected_contract_symbol p = sq_symbol q \<and>
          Some (sp_selected_contract_ltp p) = sq_ltp q \<and>
          fresh (sp_planning_timestamp p) (og_max_quote_age g) (sq_envelope q) \<and>
          (\<exists>k \<in> set (ch_contracts ch). oc_symbol k = sq_symbol q)))"
proof -
  obtain s where s: "runE (session_step g) calls new_session = Inr s" using session_never_raises by blast
  from plan_history [OF s] have "plan_matches g s"
    "so_order_plan s = Some p \<Longrightarrow> planned_at g calls (sp_planning_timestamp p)"
    "so_order_plan s = None \<Longrightarrow> \<not> planned_at g calls now" for p now by auto
  with s show ?thesis
    by (intro exI [of _ s]) (auto simp: plan_matches_def planned_contract_def split: option.split)
qed

section \<open>The audit trail\<close>

fun phase :: "session_state \<Rightarrow> nat" where
  "phase NOT_STARTED = 0"
| "phase PRE_MARKET_READY = 1"
| "phase WAITING_FOR_0915 = 2"
| "phase WAITING_FOR_ORPT = 3"
| "phase WAITING_FOR_RC = 4"
| "phase DECISION_READY = 5"
| "phase _ = 6"

text \<open>
  The abstract session: it starts, waits for ever later snapshots, becomes ready, plans its order from
  there, may stop at any time, and is never left once it has ended.
\<close>

inductive session_move :: "session_state \<Rightarrow> session_state \<Rightarrow> bool" where
  starts: "session_move NOT_STARTED PRE_MARKET_READY"
| advances: "a \<noteq> NOT_STARTED \<Longrightarrow> phase a < phase b \<Longrightarrow> phase b \<le> 5 \<Longrightarrow> session_move a b"
| stops: "\<not> is_terminal a \<Longrightarrow> b \<in> {NO_TRADE, ABORTED} \<Longrightarrow> session_move a b"
| plans: "session_move DECISION_READY ORDER_PLANNED"
| rejects: "is_terminal a \<Longrightarrow> session_move a a"

inductive_simps session_move_from_start: "session_move NOT_STARTED b"
inductive_simps session_move_to_plan: "session_move a ORDER_PLANNED"

fun audit_path :: "session_state \<Rightarrow> audit_entry list \<Rightarrow> session_state \<Rightarrow> bool" where
  "audit_path a [] b \<longleftrightarrow> a = b"
| "audit_path a (e # es) b \<longleftrightarrow> au_previous_state e = a \<and> session_move a (au_new_state e) \<and> audit_path (au_new_state e) es b"

lemma audit_path_snoc:
  "audit_path a (es @ [e]) b \<longleftrightarrow>
   audit_path a es (au_previous_state e) \<and> session_move (au_previous_state e) (au_new_state e) \<and> b = au_new_state e"
  by (induction es arbitrary: a) auto

text \<open>An event whose envelope carries the type of its class.\<close>

fun event_class :: "paper_event \<Rightarrow> paper_event_type" where
  "event_class (EvUnderlyingQuote e) = UNDERLYING_QUOTE"
| "event_class (EvUnderlyingSnapshot e) = UNDERLYING_SNAPSHOT"
| "event_class (EvOptionChain e) = OPTION_CHAIN_SNAPSHOT"
| "event_class (EvSelectedQuote e) = SELECTED_CONTRACT_QUOTE"
| "event_class (EvSelectedBar e) = SELECTED_CONTRACT_BAR"
| "event_class (EvCalendar e) = CALENDAR_CONTEXT"
| "event_class (EvMonthlyStatus e) = MONTHLY_STATUS_INPUT"
| "event_class (EvConfig e) = PAPER_SESSION_CONFIG"
| "event_class (EvCosts e) = COST_SLIPPAGE_SETTINGS"
| "event_class (EvTradePlan e) = TRADE_PLAN_INPUT"

fun well_typed_call :: "session_call \<Rightarrow> bool" where
  "well_typed_call (Ingest e now) \<longleftrightarrow> event_type_of e = event_class e"
| "well_typed_call (Finalize now) \<longleftrightarrow> True"

text \<open>The state the snapshots received so far lead to.\<close>

definition goal_state :: "session \<Rightarrow> session_state" where
  "goal_state s = (case awaited_state s of None \<Rightarrow> DECISION_READY | Some (st, _) \<Rightarrow> st)"

lemma goal_phase: "2 \<le> phase (goal_state s) \<and> phase (goal_state s) \<le> 5"
  by (auto simp: goal_state_def awaited_state_def Let_def)

definition tracked :: "session \<Rightarrow> bool" where
  "tracked s \<longleftrightarrow> audit_path NOT_STARTED (so_audit_events s) (so_state s) \<and>
     (so_config s \<noteq> None \<longrightarrow> event_type_already_seen s PAPER_SESSION_CONFIG)"

definition on_course :: "session \<Rightarrow> bool" where
  "on_course s \<longleftrightarrow> tracked s \<and> (\<not> is_terminal (so_state s) \<longrightarrow>
        so_state s = NOT_STARTED \<or> so_config s \<noteq> None \<and> phase (so_state s) \<le> phase (goal_state s))"

lemma transition_audit:
  "audit_path a (so_audit_events (transition_to st t e r v c d s)) b \<longleftrightarrow>
   audit_path a (so_audit_events s) (so_state s) \<and> session_move (so_state s) st \<and> b = st"
  by (simp add: transition_to_def Let_def record_audit_def audit_path_snoc)

lemma transition_tracked: "tracked s \<Longrightarrow> session_move (so_state s) st \<Longrightarrow> tracked (transition_to st t e r v c d s)"
  by (auto simp: tracked_def transition_audit event_type_already_seen_def)

lemma transition_on_course:
  assumes "on_course s" and "session_move (so_state s) st"
    and "\<not> is_terminal st \<Longrightarrow> so_config s \<noteq> None \<and> phase st \<le> phase (goal_state s)"
  shows "on_course (transition_to st t e r v c d s)"
  using assms transition_tracked by (auto simp: on_course_def goal_state_def)

lemma phase_inj: "phase a = phase b \<Longrightarrow> phase a \<le> 5 \<Longrightarrow> a = b"
  by (cases a; cases b) simp_all

lemma phase_5: "phase a \<le> 5 \<Longrightarrow> \<not> is_terminal a"
  by (cases a) (simp_all add: is_terminal_def)

lemma determined_move:
  assumes det: "determine_transition g now s = (Some t, r, v, c)" and "t \<noteq> so_state s" and on: "on_course s"
    and open_session: "\<not> is_terminal (so_state s)"
  shows "session_move (so_state s) t \<and> (\<not> is_terminal t \<longrightarrow> so_config s \<noteq> None \<and> phase t \<le> phase (goal_state s))"
proof -
  have pre: "has_pre_market_inputs s" using det by (auto simp: determine_transition_def stay_def split: if_splits)
  then have config: "so_config s \<noteq> None" by (simp add: has_pre_market_inputs_def)
  consider (stopped) "t \<in> {NO_TRADE, ABORTED}" | (started) "so_state s = NOT_STARTED" "t = PRE_MARKET_READY"
    | (moved) "so_state s \<noteq> NOT_STARTED" "t = goal_state s"
    using det pre blocked_day_target [of now s]
    by (auto simp: determine_transition_def goal_state_def Let_def stay_def split: if_splits option.splits)
  then show ?thesis
  proof cases
    case stopped
    with open_session show ?thesis by (auto intro: session_move.stops simp: is_terminal_def)
  next
    case started
    with config goal_phase [of s] show ?thesis by (auto intro: session_move.starts)
  next
    case moved
    with on open_session have "phase (so_state s) \<le> phase t" by (auto simp: on_course_def)
    moreover have "phase (so_state s) \<noteq> phase t" using phase_inj [of t "so_state s"] moved assms(2) goal_phase [of s] by auto
    ultimately have "session_move (so_state s) t"
      using moved goal_phase [of s] by (intro session_move.advances) auto
    with moved config show ?thesis by simp
  qed
qed

lemma advance_on_course:
  assumes "on_course s"
  shows "on_course (advance_state g now trigger s)"
  by (rule advance_invariant [where P = on_course], fact)
    (blast intro: transition_on_course dest: determined_move)

lemma abort_on_course: "on_course s \<Longrightarrow> \<not> is_terminal (so_state s) \<Longrightarrow> x \<in> {NO_TRADE, ABORTED} \<Longrightarrow>
    on_course (transition_to x t e r v c d s)"
  by (rule transition_on_course) (auto intro: session_move.stops simp: is_terminal_def)

lemma reject_on_course: "on_course s \<Longrightarrow> is_terminal (so_state s) \<Longrightarrow> on_course (reject_after_terminal now t i r s)"
  by (auto simp: on_course_def tracked_def reject_after_terminal_def Let_def record_audit_def audit_path_snoc
      event_type_already_seen_def refresh_manifest_def goal_state_def awaited_state_def required_labels_def
      intro: session_move.rejects split: option.splits)

lemma snapshots_advance_goal:
  assumes "so_config s' = so_config s" and "\<And>l. map_of (so_snapshots s) l \<noteq> None \<Longrightarrow> map_of (so_snapshots s') l \<noteq> None"
  shows "phase (goal_state s) \<le> phase (goal_state s')"
proof -
  have "required_labels s' = required_labels s" using assms(1) by (simp add: required_labels_def)
  then show ?thesis
    using assms(2) [of AT_0915] assms(2) [of ORPT] assms(2) [of RC]
    by (auto simp: goal_state_def awaited_state_def Let_def)
qed

lemma accept_on_course:
  assumes on: "on_course s" and open_session: "\<not> is_terminal (so_state s)" and typed: "event_type_of e = event_class e"
    and guard: "validate_ingest g s e now = None"
  shows "on_course (accept_event e s)"
proof (cases "\<exists>c. e = EvConfig c")
  case True
  then have "\<not> event_type_already_seen s PAPER_SESSION_CONFIG"
    using guard typed by (auto simp: validate_ingest_def repeated_event_guard_def split: if_splits)
  with on open_session have "so_state s = NOT_STARTED" by (auto simp: on_course_def tracked_def)
  with on True typed show ?thesis by (auto simp: on_course_def tracked_def accept_event_def event_type_already_seen_def)
next
  case False
  let ?s = "accept_event e s"
  have "so_config ?s = so_config s" "so_state ?s = so_state s" "so_audit_events ?s = so_audit_events s"
    using False by (cases e; simp add: accept_event_def)+
  moreover have "so_accepted ?s = so_accepted s @ [e]" by (cases e) (simp_all add: accept_event_def)
  moreover have "phase (goal_state s) \<le> phase (goal_state ?s)"
  proof (rule snapshots_advance_goal)
    show "so_config ?s = so_config s" by fact
    show "map_of (so_snapshots s) l \<noteq> None \<Longrightarrow> map_of (so_snapshots ?s) l \<noteq> None" for l
      by (cases e) (auto simp: accept_event_def update_conv')
  qed
  ultimately show ?thesis using on by (auto simp: on_course_def tracked_def event_type_already_seen_def)
qed

lemma ingest_on_course:
  assumes "on_course s" and "event_type_of e = event_class e"
  shows "on_course (ingest_event g e now0 s)"
  using assms
  by (auto simp: ingest_event_def Let_def split: option.split
      intro!: reject_on_course abort_on_course advance_on_course intro: accept_on_course)

lemma tracked_end: "tracked s \<Longrightarrow> is_terminal (so_state s) \<Longrightarrow> on_course s"
  by (simp add: on_course_def)

lemma plan_order_on_course:
  assumes "tracked s" and "so_state s = DECISION_READY" and "plan_order g now v s = Inr s'"
  shows "on_course s'"
proof -
  have stops: "on_course (transition_to (decision_terminal_state d) t e r w c k s)" for d t e r w c k
    using assms(1,2) by (intro tracked_end transition_tracked session_move.stops)
      (simp_all add: is_terminal_def decision_terminal_state_def)
  have plans: "on_course (transition_to ORDER_PLANNED t e r w c k (s\<lparr>so_order_plan := p, so_planned_order_count := n\<rparr>))"
    for t e r w c k p n
    using assms(1,2) by (intro tracked_end transition_tracked) (auto simp: is_terminal_def tracked_def
        event_type_already_seen_def intro: session_move.plans)
  from assms(3) stops plans show ?thesis by (auto simp: plan_order_def bindE_eq_Inr split: option.splits)
qed

lemma finalize_inputs_on_course:
  assumes on: "on_course s" and open_session: "\<not> is_terminal (so_state s)" and started: "so_state s \<noteq> NOT_STARTED"
    and fin: "finalize_inputs g now s = Inr s'"
  shows "on_course s'"
proof (cases "vt_readiness_status (build_readiness_result g now s)")
  case IS_READY
  define y where "y = (if so_state s \<noteq> DECISION_READY then transition_to DECISION_READY now None ''planning_inputs_ready''
    (Some (build_readiness_result g now s)) None None s else s)"
  have "session_move (so_state s) DECISION_READY" if "so_state s \<noteq> DECISION_READY"
  proof (rule session_move.advances)
    from on open_session started have "phase (so_state s) \<le> 5" using goal_phase [of s] by (auto simp: on_course_def)
    moreover from that phase_inj [of "so_state s" DECISION_READY] have "phase (so_state s) \<noteq> 5" by auto
    ultimately show "phase (so_state s) < phase DECISION_READY" by simp
  qed (use started in simp_all)
  then have "tracked y" "so_state y = DECISION_READY"
    using on by (auto simp: y_def on_course_def intro: transition_tracked)
  moreover from fin IS_READY have "plan_order g now (build_readiness_result g now s) y = Inr s'"
    by (simp add: finalize_inputs_def Let_def y_def)
  ultimately show ?thesis by (rule plan_order_on_course)
qed (use fin abort_on_course [OF on open_session] in \<open>auto simp: finalize_inputs_def Let_def\<close>)

lemma finalize_on_course:
  assumes "on_course s" and "finalize g now s = Inr s'"
  shows "on_course s'"
proof (cases "is_terminal (so_state s)")
  case True
  with assms show ?thesis by (auto simp: finalize_def intro: reject_on_course)
next
  case False
  let ?x = "advance_state g now None s"
  have on: "on_course ?x" using assms(1) by (rule advance_on_course)
  show ?thesis
  proof (cases "is_terminal (so_state ?x) \<or> \<not> has_pre_market_inputs ?x")
    case True
    with assms False on show ?thesis by (auto simp: finalize_def Let_def split: if_splits intro: abort_on_course)
  next
    case inputs: False
    with False assms have fin: "finalize_inputs g now ?x = Inr s'" by (simp add: finalize_def Let_def)
    from inputs have "so_state ?x \<noteq> NOT_STARTED"
      using advance_settled [of g now None s] blocked_day_target [of now ?x]
      by (auto simp: determine_transition_def is_terminal_def split: option.splits)
    from finalize_inputs_on_course [OF on _ this fin] inputs show ?thesis by simp
  qed
qed

text \<open>
  C25: over any calls on a new session whose events carry the type of their class, the audit trail is the
  history of the session's state: each entry starts in the state the previous one ended in, the last
  one ends in the current state, and each is a move of the abstract session. So the session never goes
  back to an earlier phase and plans an order from \<open>DECISION_READY\<close> only.
\<close>
theorem audit_trail_follows_session:
  assumes "runE (session_step g) calls new_session = Inr s" and "list_all well_typed_call calls"
  shows "audit_path NOT_STARTED (so_audit_events s) (so_state s)"
proof -
  have "on_course s'" if "runE (session_step g) calls x = Inr s'" "list_all well_typed_call calls" "on_course x" for calls x s'
    using that
  proof (induction calls arbitrary: x)
    case (Cons c calls)
    then obtain y where y: "session_step g c x = Inr y" "runE (session_step g) calls y = Inr s'" by (auto simp: bindE_eq_Inr)
    with Cons.prems have "on_course y" by (cases c) (auto intro: ingest_on_course finalize_on_course)
    with y Cons show ?case by auto
  qed simp
  moreover have "on_course new_session"
    by (simp add: on_course_def tracked_def new_session_def event_type_already_seen_def)
  ultimately have "on_course s" using assms by blast
  then show ?thesis by (simp add: on_course_def tracked_def)
qed

section \<open>A session\<close>

definition demo_envelope :: "paper_event_type \<Rightarrow> event_envelope" where
  "demo_envelope t = \<lparr>en_event_type = t, en_session_date = 10, en_effective_timestamp = at_time 10 100000000,
     en_captured_at = at_time 10 110000000, en_timezone = ALLOWED_TIMEZONE, en_source_type = ''t'', en_source_id = ''i'',
     en_synthetic_fixture = True, en_normalized_by = ''n'', en_source_sequence = None, en_data_quality_flags = [],
     en_integrity_hash = None\<rparr>"

definition demo_selected :: selected_quote where
  "demo_selected = \<lparr>sq_envelope = demo_envelope SELECTED_CONTRACT_QUOTE, sq_symbol = ''X'', sq_option_type = Some CALL,
     sq_strike = Some 100, sq_expiry = Some 12, sq_bid = Some 50, sq_ask = Some 51, sq_ltp = Some 50, sq_oi = Some 9,
     sq_volume = None\<rparr>"

definition demo_events :: "paper_event list" where
  "demo_events =
    [EvCalendar \<lparr>cx_envelope = demo_envelope CALENDAR_CONTEXT, cx_is_holiday = False, cx_is_expiry_day = False,
       cx_weekly_expiry = Some 12, cx_market_open = Some 1, cx_market_close = Some 2\<rparr>,
     EvMonthlyStatus \<lparr>mn_envelope = demo_envelope MONTHLY_STATUS_INPUT, mn_monthly_status = Some BULL, mn_status_source = ''s'',
       mn_reference_date = Some 1, mn_threshold_version = ''v''\<rparr>,
     EvConfig \<lparr>pc_envelope = demo_envelope PAPER_SESSION_CONFIG, pc_strategy_code = ''S23'', pc_paper_mode_enabled = True,
       pc_same_day_square_off_only = True, pc_allow_recalculation = False, pc_allow_current_day_fsl_trp = False,
       pc_kill_switch_enabled = False, pc_operator_id = ''o'', pc_symbol = ''NIFTY'', pc_contract_cycle = ''WEEKLY'',
       pc_mode = ''paper''\<rparr>,
     EvCosts \<lparr>cc_envelope = demo_envelope COST_SLIPPAGE_SETTINGS, cc_brokerage_per_lot = Some 20,
       cc_slippage_entry_points = Some 1, cc_slippage_exit_points = Some 1, cc_spread_buffer_policy = ''p'',
       cc_version_label = ''v''\<rparr>,
     EvUnderlyingSnapshot \<lparr>un_envelope = demo_envelope UNDERLYING_SNAPSHOT, un_snapshot_label = ORPT, un_high = Some 2,
       un_low = Some 1, un_bar_start = 1, un_bar_end = 2, un_complete = True, un_open = None, un_close = None\<rparr>,
     EvUnderlyingQuote \<lparr>uq_envelope = demo_envelope UNDERLYING_QUOTE, uq_symbol = ''NIFTY'', uq_ltp = Some 100,
       uq_bid = None, uq_ask = None, uq_volume = None, uq_source_latency_ms = None\<rparr>,
     EvOptionChain \<lparr>ch_envelope = demo_envelope OPTION_CHAIN_SNAPSHOT, ch_underlying_symbol = ''NIFTY'', ch_expiry = 12,
       ch_contracts = [\<lparr>oc_symbol = ''X'', oc_option_type = Some CALL, oc_strike = Some 100, oc_expiry = Some 12,
         oc_bid = Some 50, oc_ask = Some 51, oc_ltp = Some 50, oc_oi = Some 9, oc_volume = None\<rparr>]\<rparr>,
     EvSelectedQuote demo_selected]"

definition demo_orchestrator :: orchestrator where
  "demo_orchestrator = \<lparr>og_guardrails = default_settings, og_max_quote_age = DEFAULT_MAX_QUOTE_AGE, og_aware = True\<rparr>"

definition demo_calls :: "session_call list" where
  "demo_calls = map (\<lambda>e. Ingest e None) demo_events @ [Finalize (at_time 10 120000000), Ingest (hd demo_events) None]"

definition demo_final :: session where
  "demo_final = (case runE (session_step demo_orchestrator) demo_calls new_session of Inr s \<Rightarrow> s | Inl _ \<Rightarrow> new_session)"

lemma demo_planned: "so_state demo_final = ORDER_PLANNED \<and> length (so_audit_events demo_final) = 5"
  by code_simp

lemma demo_run: "runE (session_step demo_orchestrator) demo_calls new_session = Inr demo_final"
  using demo_planned by (cases "runE (session_step demo_orchestrator) demo_calls new_session")
    (simp_all add: demo_final_def new_session_def)

lemma demo_well_typed: "list_all well_typed_call demo_calls"
  by code_simp

lemma session_plans_at_most_one_order_witness:
  "\<exists>p q. so_order_plan demo_final = Some p \<and> so_planned_order_count demo_final = 1 \<and> so_selected demo_final = Some q \<and>
     sp_selected_contract_symbol p = sq_symbol q"
  using session_plans_at_most_one_order [of demo_orchestrator demo_calls] demo_run demo_planned by (auto split: option.splits)

lemma audit_trail_follows_session_witness:
  "audit_path NOT_STARTED (so_audit_events demo_final) ORDER_PLANNED \<and> length (so_audit_events demo_final) = 5"
  using audit_trail_follows_session [OF demo_run demo_well_typed] demo_planned by simp

lemma terminal_session_is_final_witness:
  "\<exists>s'. runE (session_step demo_orchestrator) [Finalize 0] demo_final = Inr s' \<and> so_state s' = ORDER_PLANNED \<and>
     length (so_audit_events s') = 6"
proof -
  obtain s' where "finalize demo_orchestrator 0 demo_final = Inr s'" using finalize_terminal by blast
  then have run: "runE (session_step demo_orchestrator) [Finalize 0] demo_final = Inr s'" by simp
  have "is_terminal (so_state demo_final)" using demo_planned by (simp add: is_terminal_def)
  from terminal_session_is_final [OF run this] run demo_planned show ?thesis by simp
qed

lemma finalize_decides_witness:
  "\<exists>s'. finalize demo_orchestrator 0 new_session = Inr s' \<and> is_terminal (so_state s') \<and> so_state s' \<noteq> ORDER_PLANNED"
proof -
  have "\<not> is_terminal (so_state new_session)" "\<not> inputs_ready demo_orchestrator 0 new_session"
    by (simp_all add: new_session_def is_terminal_def inputs_ready_def)
  with finalize_decides [of demo_orchestrator 0 new_session] show ?thesis by auto
qed

end
