(* ===== verification/SessionFiles.thy ===== *)
theory SessionFiles
  imports SessionEvents
begin

text \<open>
  What the fill simulator and the lifecycle simulator read and write: the runtime contracts of
  \<^verbatim>\<open>src/tfis/paper/runtime_contract.py\<close> (prefixes: shell \<open>sh_\<close>, intent \<open>it_\<close>, fill \<open>ft_\<close>), the answer
  of the session reviewer as far as they read it (\<open>rv_\<close>), the decisions they persist (fill \<open>fl_\<close>,
  position \<open>lo_\<close>, lifecycle \<open>ld_\<close>) and the session directory (\<open>xf_\<close>), a record of the contents of its
  files. A file that does not parse is not modelled. The keys \<^verbatim>\<open>fill_*\<close> and \<^verbatim>\<open>lifecycle_*\<close> of the
  execution summary (\<open>ex_\<close>) are always written together from one decision: the summary holds it.
\<close>

section \<open>Runtime contracts and the review\<close>

record trade_shell =
  sh_selected_contract_symbol :: "string option"
  sh_execution_shell_status :: "string option"
  sh_dispatch_shell_status :: "string option"
  sh_handoff_shell_status :: "string option"
  sh_historical_comparison_status :: "string option"

record trade_intent =
  it_side :: string
  it_lots :: int
  it_quantity :: int
  it_planned_entry_price :: price
  it_target_price :: price
  it_stoploss_price :: price
  it_fsl_price :: "price option"
  it_order_reference_time :: datetime
  it_order_reference_label :: string
  it_source_branch :: "string option"
  it_source_workbook_rule :: "string option"
  it_workbook_row_number :: "int option"

record trade_fill =
  ft_status :: string
  ft_selected_contract_symbol :: string
  ft_fill_price :: "price option"
  ft_fill_timestamp :: "datetime option"
  ft_source_kind :: "string option"
  ft_source_type :: "string option"
  ft_source_id :: "string option"

record review_intent =
  ro_handoff_shell_status :: "string option"
  ro_order_side :: "string option"
  ro_lots :: "int option"
  ro_quantity :: "int option"
  ro_planned_entry_price :: "price option"
  ro_target_price :: "price option"
  ro_stoploss_price :: "price option"
  ro_fsl_price :: "price option"
  ro_order_reference_time :: "datetime option"
  ro_order_reference_label :: "string option"
  ro_source_branch :: "string option"
  ro_source_workbook_rule :: "string option"
  ro_workbook_row_number :: "int option"

record review_fill_phase =
  rp_fill_price :: "price option"
  rp_fill_timestamp :: "datetime option"
  rp_source_kind :: "string option"
  rp_source_type :: "string option"
  rp_source_id :: "string option"

record review_summary =
  rv_session_id :: string
  rv_session_date :: date
  rv_strategy_code :: string
  rv_terminal_state :: session_state
  rv_selected_symbol :: "string option"
  rv_selected_option_type :: "string option"
  rv_selected_expiry :: "date option"
  rv_has_order_plan :: bool
  rv_order_intent :: "review_intent option"
  rv_fill_phase :: "review_fill_phase option"
  rv_shell :: "trade_shell option"
  rv_intent :: "trade_intent option"
  rv_fill :: "trade_fill option"
  rv_bundle_validated :: bool
  rv_bundle_valid :: "bool option"
  rv_bundle_errors :: "string list"

section \<open>Decisions\<close>

datatype fill_status = FILL_PENDING | FILLED_ORDER | NOT_FILLED_ORDER | FILL_ABORTED

fun fill_status_value :: "fill_status \<Rightarrow> string" where
  "fill_status_value FILL_PENDING = ''PAPER_ORDER_PENDING''"
| "fill_status_value FILLED_ORDER = ''PAPER_ORDER_FILLED''"
| "fill_status_value NOT_FILLED_ORDER = ''PAPER_ORDER_NOT_FILLED''"
| "fill_status_value FILL_ABORTED = ''PAPER_FILL_ABORTED''"

record fill_decision =
  fl_session_id :: string
  fl_session_date :: date
  fl_strategy_code :: string
  fl_status :: fill_status
  fl_planned_entry_price :: price
  fl_selected_contract_symbol :: string
  fl_selected_contract_option_type :: "string option"
  fl_selected_contract_expiry :: "date option"
  fl_order_reference_time :: "datetime option"
  fl_order_reference_label :: "string option"
  fl_handoff_boundary_timestamp :: datetime
  fl_fill_price :: "price option"
  fl_fill_timestamp :: "datetime option"
  fl_source_kind :: "string option"
  fl_source_type :: "string option"
  fl_source_id :: "string option"
  fl_source_effective_timestamp :: "datetime option"
  fl_spread_points :: "price option"
  fl_slippage_entry_points :: "price option"
  fl_quote_bid :: "price option"
  fl_quote_ask :: "price option"
  fl_quote_ltp :: "price option"
  fl_bar_high :: "price option"
  fl_bar_low :: "price option"
  fl_market_event_count :: nat
  fl_reason_code :: string
  fl_message :: msg
  fl_no_fill_reason :: "string option"
  fl_operator_action_required :: "string option"
  fl_guardrail_code :: "string option"
  fl_guardrail_message :: "msg option"
  fl_blocking_source_id :: "string option"

datatype lifecycle_status =
  LIFECYCLE_OPEN | LIFECYCLE_EXIT_PENDING | LIFECYCLE_CLOSED | LIFECYCLE_EOD | LIFECYCLE_ABORTED

fun lifecycle_status_value :: "lifecycle_status \<Rightarrow> string" where
  "lifecycle_status_value LIFECYCLE_OPEN = ''PAPER_POSITION_OPEN''"
| "lifecycle_status_value LIFECYCLE_EXIT_PENDING = ''PAPER_EXIT_PENDING''"
| "lifecycle_status_value LIFECYCLE_CLOSED = ''PAPER_POSITION_CLOSED''"
| "lifecycle_status_value LIFECYCLE_EOD = ''PAPER_EOD_SQUARE_OFF''"
| "lifecycle_status_value LIFECYCLE_ABORTED = ''PAPER_LIFECYCLE_ABORTED''"

record simulated_position =
  lo_session_id :: string
  lo_session_date :: date
  lo_strategy_code :: string
  lo_status :: lifecycle_status
  lo_selected_contract_symbol :: string
  lo_selected_contract_option_type :: "string option"
  lo_selected_contract_expiry :: "date option"
  lo_side :: string
  lo_lots :: int
  lo_quantity :: int
  lo_entry_price :: price
  lo_target_price :: price
  lo_stoploss_price :: "price option"
  lo_fsl_price :: "price option"
  lo_effective_stop_price :: price
  lo_entry_timestamp :: datetime
  lo_source_branch :: "string option"
  lo_source_workbook_rule :: "string option"
  lo_workbook_row_number :: "int option"
  lo_provenance_source_kind :: "string option"
  lo_provenance_source_type :: "string option"
  lo_provenance_source_id :: "string option"

record lifecycle_decision =
  ld_session_id :: string
  ld_session_date :: date
  ld_strategy_code :: string
  ld_status :: lifecycle_status
  ld_selected_contract_symbol :: string
  ld_selected_contract_option_type :: "string option"
  ld_selected_contract_expiry :: "date option"
  ld_side :: string
  ld_lots :: int
  ld_quantity :: int
  ld_entry_price :: price
  ld_target_price :: price
  ld_stoploss_price :: "price option"
  ld_fsl_price :: "price option"
  ld_effective_stop_price :: price
  ld_entry_timestamp :: datetime
  ld_exit_price :: "price option"
  ld_exit_timestamp :: "datetime option"
  ld_exit_reason_code :: string
  ld_message :: msg
  ld_source_kind :: "string option"
  ld_source_type :: "string option"
  ld_source_id :: "string option"
  ld_source_effective_timestamp :: "datetime option"
  ld_quote_bid :: "price option"
  ld_quote_ask :: "price option"
  ld_quote_ltp :: "price option"
  ld_bar_open :: "price option"
  ld_bar_high :: "price option"
  ld_bar_low :: "price option"
  ld_bar_close :: "price option"
  ld_gross_pnl_rupees :: "price option"
  ld_brokerage_rupees :: "price option"
  ld_net_pnl_rupees :: "price option"
  ld_guardrail_code :: "string option"
  ld_guardrail_message :: "msg option"
  ld_blocking_source_id :: "string option"
  ld_operator_action_required :: "string option"
  ld_warning_flags :: "string list"

section \<open>The session directory\<close>

record journal_row =
  jr_timestamp :: "datetime option"
  jr_event_type :: string
  jr_session_id :: string
  jr_strategy_code :: string
  jr_terminal_state :: session_state
  jr_status :: string
  jr_reason_code :: "string option"
  jr_message :: msg
  jr_selected_contract_symbol :: "string option"
  jr_guardrail_code :: "string option"
  jr_guardrail_message :: "msg option"
  jr_blocking_source_id :: "string option"
  jr_operator_action_required :: "string option"

record lifecycle_row =
  lv_timestamp :: datetime
  lv_event_type :: string
  lv_session_id :: string
  lv_strategy_code :: string
  lv_selected_contract_symbol :: "string option"
  lv_reason_code :: "string option"
  lv_message :: "msg option"
  lv_guardrail_code :: "string option"
  lv_guardrail_message :: "msg option"
  lv_blocking_source_id :: "string option"
  lv_operator_action_required :: "string option"
  lv_source_kind :: "string option"
  lv_source_type :: "string option"
  lv_source_id :: "string option"

record execution_summary =
  ex_status :: "string option"
  ex_selected_contract_symbol :: "string option"
  ex_handoff_shell_status :: "string option"
  ex_execution_shell_status :: "string option"
  ex_dispatch_shell_status :: "string option"
  ex_historical_comparison_status :: "string option"
  ex_fill :: "fill_decision option"
  ex_lifecycle :: "lifecycle_decision option"
  ex_fill_simulated :: bool
  ex_order_placed :: bool
  ex_position_opened :: bool
  ex_position_closed :: bool
  ex_lifecycle_simulated :: bool
  ex_future_fill_simulation_eligible :: bool
  ex_terminal_reason_code :: "string option"
  ex_message :: "msg option"
  ex_guardrail_code :: "string option"
  ex_guardrail_message :: "msg option"
  ex_blocking_source_id :: "string option"
  ex_operator_action_required :: "string option"

record manifest_costs =
  mc_brokerage_per_lot :: "price option"
  mc_slippage_entry_points :: "price option"
  mc_slippage_exit_points :: "price option"

record pnl_summary =
  pn_status :: lifecycle_status
  pn_selected_contract_symbol :: "string option"
  pn_entry_price :: "price option"
  pn_exit_price :: "price option"
  pn_quantity :: int
  pn_lots :: int
  pn_gross_pnl_rupees :: "price option"
  pn_brokerage_rupees :: "price option"
  pn_net_pnl_rupees :: "price option"

record session_files =
  xf_exists :: bool
  xf_manifest :: "manifest_costs option"
  xf_execution_summary :: "execution_summary option"
  xf_execution_journal :: "journal_row list"
  xf_handoff_summary_symbol :: "string option"
  xf_paper_order_pending :: "fill_decision option"
  xf_paper_fill :: "fill_decision option"
  xf_paper_no_fill :: "fill_decision option"
  xf_paper_fill_abort_summary :: "fill_decision option"
  xf_paper_position :: "simulated_position option"
  xf_lifecycle_events :: "lifecycle_row list option"
  xf_paper_exit :: "lifecycle_decision option"
  xf_paper_pnl_summary :: "pnl_summary option"

end
