(* ===== verification/FillSimulator.thy ===== *)
theory FillSimulator
  imports Guardrails SessionFiles "HOL-Library.Product_Lexorder"
begin

text \<open>
  \<^verbatim>\<open>src/tfis/paper/fill_simulator.py\<close>: whether the planned sell order of a session would have filled.
  The simulator's collaborators are the record \<open>fill_simulator\<close> (prefix \<open>fm_\<close>): the reviewer is a
  function of the session directory, as it is injected into the class. The context it loads carries
  \<open>fx_\<close>, the set of artifacts it returns \<open>ar_\<close>. Writing goes to the files of \<open>session_files\<close>; paths in error
  messages are left out.
\<close>

section \<open>The context\<close>

record fill_simulator =
  fm_reviewer :: "session_files \<Rightarrow> review_summary res"
  fm_guardrails :: guardrail_settings
  fm_max_selected_contract_age :: int

record fill_context =
  fx_session_id :: string
  fx_session_date :: date
  fx_strategy_code :: string
  fx_terminal_state :: session_state
  fx_selected_contract_symbol :: string
  fx_selected_contract_option_type :: "string option"
  fx_selected_contract_expiry :: "date option"
  fx_planned_entry_price :: price
  fx_order_reference_time :: "datetime option"
  fx_order_reference_label :: "string option"
  fx_slippage_entry_points :: price
  fx_execution_summary :: execution_summary
  fx_execution_journal :: "journal_row list"
  fx_replay_bundle_valid :: "bool option"
  fx_replay_bundle_validation_performed :: bool
  fx_replay_bundle_errors :: "string list"
  fx_handoff_boundary_timestamp :: datetime
  fx_runtime_shell :: "trade_shell option"

definition fill_error :: "string \<Rightarrow> exn" where
  "fill_error m = PaperFillSimulatorError [Txt m]"

text \<open>\<^verbatim>\<open>except PaperReviewError as exc: raise ... from exc\<close>.\<close>

definition wrap_review_error :: "(msg \<Rightarrow> exn) \<Rightarrow> 'a res \<Rightarrow> 'a res" where
  "wrap_review_error wrap r = (case r of Inl (PaperReviewError m) \<Rightarrow> Inl (wrap m) | _ \<Rightarrow> r)"

definition later_of :: "datetime option \<Rightarrow> datetime option \<Rightarrow> datetime option" where
  "later_of candidate t = (case (t, candidate) of (None, _) \<Rightarrow> candidate | (Some x, None) \<Rightarrow> Some x
     | (Some x, Some c) \<Rightarrow> if x > c then Some x else Some c)"

definition handoff_boundary :: "journal_row list \<Rightarrow> datetime option \<Rightarrow> datetime res" where
  "handoff_boundary rows reference =
     (case fold (\<lambda>row c. if jr_event_type row = ''PAPER_EXECUTION_HANDOFF_READY'' then later_of c (jr_timestamp row) else c)
        rows reference of
        None \<Rightarrow> Inl (fill_error ''Cannot derive a handoff boundary timestamp for Phase 1 fill simulation.'')
      | Some t \<Rightarrow> Inr t)"

definition number_or_zero :: "price option \<Rightarrow> price" where
  "number_or_zero x = (case x of None \<Rightarrow> 0 | Some v \<Rightarrow> v)"

definition load_fill_context :: "fill_simulator \<Rightarrow> session_files \<Rightarrow> fill_context res" where
  "load_fill_context fm d =
     bindE (guardE (xf_exists d) (fill_error ''S23 paper session directory does not exist: '')) (\<lambda>_.
     bindE (wrap_review_error PaperFillSimulatorError (fm_reviewer fm d)) (\<lambda>rv.
     bindE (guardE (rv_strategy_code rv = ''S23'') (PaperFillSimulatorError
       [Txt ''Unsupported strategy for S23 Phase 1 fill simulation: '',
        Txt (if rv_strategy_code rv = [] then ''unknown'' else rv_strategy_code rv)])) (\<lambda>_.
     bindE (guardE (rv_terminal_state rv = ORDER_PLANNED)
       (fill_error ''S23 Phase 1 fill simulation requires an ORDER_PLANNED paper session.'')) (\<lambda>_.
     case rv_order_intent rv of
       None \<Rightarrow> Inl (fill_error ''S23 Phase 1 fill simulation requires a persisted paper order intent.'')
     | Some ro \<Rightarrow>
     bindE (guardE (rv_has_order_plan rv)
       (fill_error ''S23 Phase 1 fill simulation requires a persisted paper order plan.'')) (\<lambda>_.
     bindE (guardE ((case rv_shell rv of Some sh \<Rightarrow> sh_handoff_shell_status sh | None \<Rightarrow> ro_handoff_shell_status ro)
         = Some ''PAPER_EXECUTION_HANDOFF_READY'')
       (fill_error ''S23 Phase 1 fill simulation requires PAPER_EXECUTION_HANDOFF_READY.'')) (\<lambda>_.
     case (case rv_intent rv of Some it \<Rightarrow> Some (it_planned_entry_price it) | None \<Rightarrow> ro_planned_entry_price ro) of
       None \<Rightarrow> Inl (fill_error ''Planned entry price is missing from the S23 paper order intent.'')
     | Some planned \<Rightarrow>
     bindE (guardE (truthy_text (rv_selected_symbol rv))
       (fill_error ''Selected contract symbol is missing from the persisted S23 paper session.'')) (\<lambda>_.
     case xf_manifest d of
       None \<Rightarrow> Inl (fill_error ''Missing required Phase 1 fill artifact: session_manifest.json'')
     | Some manifest \<Rightarrow>
     case xf_execution_summary d of
       None \<Rightarrow> Inl (fill_error ''Missing required Phase 1 fill artifact: execution_summary.json'')
     | Some summary \<Rightarrow>
     let reference = (case rv_intent rv of Some it \<Rightarrow> Some (it_order_reference_time it) | None \<Rightarrow> ro_order_reference_time ro) in
     bindE (handoff_boundary (xf_execution_journal d) reference) (\<lambda>boundary.
     Inr \<lparr>fx_session_id = rv_session_id rv, fx_session_date = rv_session_date rv, fx_strategy_code = rv_strategy_code rv,
       fx_terminal_state = rv_terminal_state rv, fx_selected_contract_symbol = (case rv_selected_symbol rv of None \<Rightarrow> [] | Some t \<Rightarrow> t),
       fx_selected_contract_option_type = rv_selected_option_type rv, fx_selected_contract_expiry = rv_selected_expiry rv,
       fx_planned_entry_price = planned, fx_order_reference_time = reference,
       fx_order_reference_label = (case rv_intent rv of Some it \<Rightarrow> Some (it_order_reference_label it)
         | None \<Rightarrow> ro_order_reference_label ro),
       fx_slippage_entry_points = number_or_zero (mc_slippage_entry_points manifest),
       fx_execution_summary = summary, fx_execution_journal = xf_execution_journal d,
       fx_replay_bundle_valid = rv_bundle_valid rv, fx_replay_bundle_validation_performed = rv_bundle_validated rv,
       fx_replay_bundle_errors = rv_bundle_errors rv, fx_handoff_boundary_timestamp = boundary,
       fx_runtime_shell = rv_shell rv\<rparr>))))))))"

section \<open>Decisions\<close>

definition pending_decision :: "fill_context \<Rightarrow> datetime \<Rightarrow> nat \<Rightarrow> fill_decision" where
  "pending_decision c evaluation_timestamp n =
     \<lparr>fl_session_id = fx_session_id c, fl_session_date = fx_session_date c, fl_strategy_code = fx_strategy_code c,
      fl_status = FILL_PENDING, fl_planned_entry_price = fx_planned_entry_price c,
      fl_selected_contract_symbol = fx_selected_contract_symbol c,
      fl_selected_contract_option_type = fx_selected_contract_option_type c,
      fl_selected_contract_expiry = fx_selected_contract_expiry c, fl_order_reference_time = fx_order_reference_time c,
      fl_order_reference_label = fx_order_reference_label c,
      fl_handoff_boundary_timestamp = fx_handoff_boundary_timestamp c, fl_fill_price = None,
      fl_fill_timestamp = Some evaluation_timestamp, fl_source_kind = None, fl_source_type = None, fl_source_id = None,
      fl_source_effective_timestamp = None, fl_spread_points = None,
      fl_slippage_entry_points = Some (fx_slippage_entry_points c), fl_quote_bid = None, fl_quote_ask = None,
      fl_quote_ltp = None, fl_bar_high = None, fl_bar_low = None, fl_market_event_count = n,
      fl_reason_code = ''paper_order_pending'',
      fl_message = [Txt ''Phase 1 paper fill simulation is evaluating selected-contract market data after the final handoff boundary.''],
      fl_no_fill_reason = None, fl_operator_action_required = None, fl_guardrail_code = None, fl_guardrail_message = None,
      fl_blocking_source_id = None\<rparr>"

text \<open>The fields an event contributes to a decision; \<open>no_source\<close> where there is none.\<close>

record event_source =
  es_kind :: "string option"
  es_type :: "string option"
  es_id :: "string option"
  es_effective_timestamp :: "datetime option"
  es_spread_points :: "price option"
  es_bid :: "price option"
  es_ask :: "price option"
  es_ltp :: "price option"
  es_high :: "price option"
  es_low :: "price option"

definition no_source :: event_source where
  "no_source = \<lparr>es_kind = None, es_type = None, es_id = None, es_effective_timestamp = None, es_spread_points = None,
     es_bid = None, es_ask = None, es_ltp = None, es_high = None, es_low = None\<rparr>"

definition quote_spread :: "selected_quote \<Rightarrow> price option" where
  "quote_spread q = (case (sq_bid q, sq_ask q) of (Some b, Some a) \<Rightarrow> Some (a - b) | _ \<Rightarrow> None)"

definition quote_source :: "selected_quote \<Rightarrow> event_source" where
  "quote_source q = (let e = sq_envelope q in
     \<lparr>es_kind = Some ''selected_contract_quote'', es_type = Some (en_source_type e), es_id = Some (en_source_id e),
      es_effective_timestamp = Some (en_effective_timestamp e), es_spread_points = quote_spread q, es_bid = sq_bid q,
      es_ask = sq_ask q, es_ltp = sq_ltp q, es_high = None, es_low = None\<rparr>)"

definition bar_source :: "selected_bar \<Rightarrow> event_source" where
  "bar_source b = (let e = sb_envelope b in
     \<lparr>es_kind = Some ''selected_contract_bar'', es_type = Some (en_source_type e), es_id = Some (en_source_id e),
      es_effective_timestamp = Some (en_effective_timestamp e), es_spread_points = None, es_bid = None,
      es_ask = None, es_ltp = None, es_high = sb_high b, es_low = sb_low b\<rparr>)"

definition no_fill_decision :: "fill_context \<Rightarrow> string \<Rightarrow> msg \<Rightarrow> event_source \<Rightarrow> nat \<Rightarrow> fill_decision" where
  "no_fill_decision c code message src n =
     (pending_decision c 0 n)
       \<lparr>fl_status := NOT_FILLED_ORDER, fl_fill_timestamp := None, fl_source_kind := es_kind src, fl_source_type := es_type src,
        fl_source_id := es_id src, fl_source_effective_timestamp := es_effective_timestamp src,
        fl_spread_points := es_spread_points src, fl_quote_bid := es_bid src, fl_quote_ask := es_ask src,
        fl_quote_ltp := es_ltp src, fl_bar_high := es_high src, fl_bar_low := es_low src, fl_reason_code := code,
        fl_message := message, fl_no_fill_reason := Some code,
        fl_operator_action_required := Some
          ''Review selected-contract market quality before retrying the paper fill simulator.'',
        fl_guardrail_code := Some code, fl_guardrail_message := Some message, fl_blocking_source_id := es_id src\<rparr>"

definition filled_decision ::
  "fill_context \<Rightarrow> price \<Rightarrow> datetime \<Rightarrow> string \<Rightarrow> string \<Rightarrow> event_source \<Rightarrow> nat \<Rightarrow> fill_decision" where
  "filled_decision c price timestamp code message src n =
     (pending_decision c timestamp n)
       \<lparr>fl_status := FILLED_ORDER, fl_fill_price := Some price, fl_source_kind := es_kind src,
        fl_source_type := es_type src, fl_source_id := es_id src,
        fl_source_effective_timestamp := es_effective_timestamp src, fl_spread_points := es_spread_points src,
        fl_quote_bid := es_bid src, fl_quote_ask := es_ask src, fl_quote_ltp := es_ltp src, fl_bar_high := es_high src,
        fl_bar_low := es_low src, fl_reason_code := code, fl_message := [Txt message]\<rparr>"

definition fill_abort_decision :: "fill_context \<Rightarrow> datetime \<Rightarrow> guardrail_decision \<Rightarrow> nat \<Rightarrow> fill_decision" where
  "fill_abort_decision c evaluation_timestamp d n =
     (pending_decision c evaluation_timestamp n)
       \<lparr>fl_status := FILL_ABORTED, fl_reason_code := gr_code d, fl_message := gr_message d,
        fl_no_fill_reason := Some (gr_code d), fl_operator_action_required := gr_operator_action_required d,
        fl_guardrail_code := Some (gr_code d), fl_guardrail_message := Some (gr_message d),
        fl_blocking_source_id := gr_blocking_source_id d\<rparr>"

section \<open>Market events\<close>

definition evaluate_quote :: "fill_simulator \<Rightarrow> fill_context \<Rightarrow> selected_quote \<Rightarrow> nat \<Rightarrow> fill_decision" where
  "evaluate_quote fm c q n =
     (case sq_bid q of
        None \<Rightarrow> no_fill_decision c ''missing_selected_contract_bid''
          [Txt ''Selected-contract quote did not include a usable bid, so the sell order was not filled.''] (quote_source q) n
      | Some bid \<Rightarrow>
        if exceeds_spread (fm_guardrails fm) (sq_bid q) (sq_ask q) then
          no_fill_decision c ''selected_contract_spread_too_wide_before_fill''
            [Txt ''Selected-contract spread exceeded the configured paper-fill threshold, so the order was not filled.'']
            (quote_source q) n
        else if bid - fx_slippage_entry_points c < fx_planned_entry_price c then
          no_fill_decision c ''planned_entry_not_tradable_on_quote''
            [Txt ''Selected-contract quote never proved a conservative sell fill at or above the planned entry price.'']
            (quote_source q) n
        else filled_decision c (bid - fx_slippage_entry_points c) (en_effective_timestamp (sq_envelope q))
          ''paper_order_filled_from_quote''
          ''A fresh selected-contract quote proved a conservative sell fill at or above the planned entry price.''
          (quote_source q) n)"

definition evaluate_bar :: "fill_context \<Rightarrow> selected_bar \<Rightarrow> nat \<Rightarrow> fill_decision" where
  "evaluate_bar c b n =
     (case sb_high b of
        None \<Rightarrow> no_fill_decision c ''selected_contract_bar_incomplete''
          [Txt ''Selected-contract OHLC data was incomplete, so the paper order was not filled.''] (bar_source b) n
      | Some high \<Rightarrow>
        if high < fx_planned_entry_price c + fx_slippage_entry_points c then
          no_fill_decision c ''planned_entry_not_reached_on_bar''
            [Txt ''Selected-contract OHLC data never proved the planned sell entry was reached conservatively after the handoff boundary.'']
            (bar_source b) n
        else filled_decision c (fx_planned_entry_price c) (sb_bar_end b) ''paper_order_filled_from_bar''
          ''Selected-contract OHLC data proved the planned sell entry was reached conservatively after the handoff boundary.''
          (bar_source b) n)"

fun evaluate_event :: "fill_simulator \<Rightarrow> fill_context \<Rightarrow> nat \<Rightarrow> selected_event \<Rightarrow> fill_decision" where
  "evaluate_event fm c n (QuoteEvent q) = evaluate_quote fm c q n"
| "evaluate_event fm c n (BarEvent b) = evaluate_bar c b n"

fun fill_event_order :: "selected_event \<Rightarrow> datetime \<times> datetime \<times> nat" where
  "fill_event_order (QuoteEvent q) = (en_effective_timestamp (sq_envelope q), en_captured_at (sq_envelope q), 0)"
| "fill_event_order (BarEvent b) = (en_effective_timestamp (sb_envelope b), en_captured_at (sb_envelope b), 1)"

definition mismatch_before_fill :: "event_envelope \<Rightarrow> guardrail_decision" where
  "mismatch_before_fill e =
     \<lparr>gr_code = ''selected_contract_mismatch_before_fill'',
      gr_message = [Txt ''Selected-contract market data does not match the persisted S23 order intent.''],
      gr_readiness_status = IS_ABORTED, gr_blocking_event_type = None, gr_blocking_source_id = Some (en_source_id e),
      gr_operator_action_required = None\<rparr>"

definition stale_event :: "fill_simulator \<Rightarrow> event_envelope \<Rightarrow> bool" where
  "stale_event fm e \<longleftrightarrow> en_captured_at e - en_effective_timestamp e > fm_max_selected_contract_age fm"

text \<open>The loop over the sorted events; \<open>reason\<close> and \<open>message\<close> are those of the last event that did not fill.\<close>

fun fill_loop :: "fill_simulator \<Rightarrow> fill_context \<Rightarrow> nat \<Rightarrow> string \<Rightarrow> msg \<Rightarrow> selected_event list \<Rightarrow> fill_decision" where
  "fill_loop fm c n reason message [] = no_fill_decision c reason message no_source n"
| "fill_loop fm c n reason message (event # events) =
     (let e = event_envelope_of event in
      if event_symbol event \<noteq> fx_selected_contract_symbol c then
        fill_abort_decision c (en_captured_at e) (mismatch_before_fill e) n
      else if en_effective_timestamp e < fx_handoff_boundary_timestamp c then
        fill_loop fm c n ''market_data_before_handoff_boundary''
          [Txt ''Selected-contract market data arrived before the final handoff boundary, so it cannot prove a Phase 1 paper fill.'']
          events
      else if stale_event fm e then
        fill_loop fm c n ''selected_contract_quote_stale_before_fill''
          [Txt ''Selected-contract market data was stale at the point of fill evaluation, so the paper order was not filled.'']
          events
      else let d = evaluate_event fm c n event in
        if fl_status d = FILLED_ORDER then d else fill_loop fm c n (fl_reason_code d) (fl_message d) events)"

definition evaluate_fill_events :: "fill_simulator \<Rightarrow> fill_context \<Rightarrow> selected_event list \<Rightarrow> fill_decision" where
  "evaluate_fill_events fm c events =
     (if events = [] then
        no_fill_decision c ''missing_selected_contract_market_data''
          [Txt ''No selected-contract quote or bar data was supplied after the final handoff boundary, so the paper order was not filled.'']
          no_source 0
      else fill_loop fm c (length events) ''planned_entry_not_tradable''
        [Txt ''The supplied selected-contract market data never proved the planned sell entry was tradable at or above the planned entry price.'']
        (sort_key fill_event_order events))"

section \<open>Persisting\<close>

definition journal_row_of ::
  "fill_context \<Rightarrow> datetime \<Rightarrow> string \<Rightarrow> string \<Rightarrow> string option \<Rightarrow> msg \<Rightarrow> string option \<Rightarrow> string option \<Rightarrow> msg option \<Rightarrow>
   string option \<Rightarrow> string option \<Rightarrow> journal_row" where
  "journal_row_of c timestamp event_type status reason message symbol gcode gmessage source_id action =
     \<lparr>jr_timestamp = Some timestamp, jr_event_type = event_type, jr_session_id = fx_session_id c,
      jr_strategy_code = fx_strategy_code c, jr_terminal_state = fx_terminal_state c, jr_status = status,
      jr_reason_code = reason, jr_message = message, jr_selected_contract_symbol = symbol, jr_guardrail_code = gcode,
      jr_guardrail_message = gmessage, jr_blocking_source_id = source_id, jr_operator_action_required = action\<rparr>"

definition pending_row :: "fill_context \<Rightarrow> fill_decision \<Rightarrow> journal_row" where
  "pending_row c d = journal_row_of c (fl_handoff_boundary_timestamp d) ''PAPER_ORDER_PENDING'' ''PAPER_ORDER_PENDING''
     (Some ''paper_order_pending'') [Txt ''Phase 1 paper fill simulation started after the final handoff boundary.'']
     (Some (fx_selected_contract_symbol c)) None None None None"

definition decision_row :: "fill_context \<Rightarrow> fill_decision \<Rightarrow> journal_row" where
  "decision_row c d = journal_row_of c
     (case or_else (fl_fill_timestamp d) (fl_source_effective_timestamp d) of Some t \<Rightarrow> t | None \<Rightarrow> fl_handoff_boundary_timestamp d)
     (fill_status_value (fl_status d)) (fill_status_value (fl_status d)) (Some (fl_reason_code d)) (fl_message d)
     (Some (fl_selected_contract_symbol d)) (fl_guardrail_code d) (fl_guardrail_message d) (fl_blocking_source_id d)
     (fl_operator_action_required d)"

definition fill_journal :: "fill_context \<Rightarrow> fill_decision \<Rightarrow> bool \<Rightarrow> journal_row list" where
  "fill_journal c d append_pending =
     (let rows = fx_execution_journal c in
      rows @ (if append_pending \<and> (rows = [] \<or> jr_event_type (last rows) \<noteq> ''PAPER_ORDER_PENDING'') then [pending_row c d] else []) @
      [decision_row c d])"

definition fill_summary :: "fill_context \<Rightarrow> fill_decision \<Rightarrow> execution_summary" where
  "fill_summary c d = (fx_execution_summary c)
     \<lparr>ex_status := Some (fill_status_value (fl_status d)), ex_fill := Some d,
      ex_fill_simulated := (fl_status d = FILLED_ORDER), ex_order_placed := False, ex_position_opened := False,
      ex_future_fill_simulation_eligible := False, ex_terminal_reason_code := Some (fl_reason_code d),
      ex_message := Some (fl_message d), ex_guardrail_code := fl_guardrail_code d,
      ex_guardrail_message := fl_guardrail_message d, ex_blocking_source_id := fl_blocking_source_id d,
      ex_operator_action_required := fl_operator_action_required d\<rparr>"

record fill_artifacts =
  ar_paper_order_pending :: bool
  ar_paper_fill :: bool
  ar_paper_no_fill :: bool
  ar_paper_fill_abort_summary :: bool

definition persist_fill :: "fill_context \<Rightarrow> fill_decision \<Rightarrow> bool \<Rightarrow> (fill_artifacts, session_files) op" where
  "persist_fill c d append_pending f =
     (let f1 = f\<lparr>xf_execution_journal := fill_journal c d append_pending, xf_execution_summary := Some (fill_summary c d)\<rparr>;
          f2 = (if fl_status d = FILLED_ORDER
            then f1\<lparr>xf_paper_fill := Some d, xf_paper_no_fill := None, xf_paper_fill_abort_summary := None\<rparr>
            else if fl_status d = NOT_FILLED_ORDER
            then f1\<lparr>xf_paper_fill := None, xf_paper_no_fill := Some d, xf_paper_fill_abort_summary := None\<rparr>
            else f1\<lparr>xf_paper_fill := None, xf_paper_no_fill := None, xf_paper_fill_abort_summary := Some d\<rparr>)
      in (Inr \<lparr>ar_paper_order_pending = (xf_paper_order_pending f2 \<noteq> None), ar_paper_fill = (fl_status d = FILLED_ORDER),
            ar_paper_no_fill = (fl_status d = NOT_FILLED_ORDER),
            ar_paper_fill_abort_summary = (fl_status d \<notin> {FILLED_ORDER, NOT_FILLED_ORDER})\<rparr>, f2))"

section \<open>The simulation\<close>

definition existing_fill_attempt :: "session_files \<Rightarrow> bool" where
  "existing_fill_attempt d \<longleftrightarrow>
     xf_paper_fill d \<noteq> None \<or> xf_paper_no_fill d \<noteq> None \<or> xf_paper_fill_abort_summary d \<noteq> None"

definition evaluation_timestamp :: "datetime option \<Rightarrow> selected_event list \<Rightarrow> datetime \<Rightarrow> datetime" where
  "evaluation_timestamp created_at events fallback = (case created_at of Some t \<Rightarrow> t
     | None \<Rightarrow> fold (\<lambda>e latest. max latest (en_captured_at (event_envelope_of e))) events fallback)"

text \<open>A status of the shell contract, or the one of the execution summary; blank text counts as none.\<close>

definition shell_text :: "fill_context \<Rightarrow> (trade_shell \<Rightarrow> string option) \<Rightarrow> (execution_summary \<Rightarrow> string option) \<Rightarrow> string option" where
  "shell_text c of_shell of_summary =
     (case fx_runtime_shell c of
        Some sh \<Rightarrow> (case of_shell sh of Some t \<Rightarrow> optional_text (Some t) | None \<Rightarrow> optional_text (of_summary (fx_execution_summary c)))
      | None \<Rightarrow> optional_text (of_summary (fx_execution_summary c)))"

definition fill_phase_inputs :: "fill_simulator \<Rightarrow> fill_context \<Rightarrow> session_files \<Rightarrow> datetime \<Rightarrow> shell_inputs" where
  "fill_phase_inputs fm c d now =
     (let symbol = fx_selected_contract_symbol c;
          comparison = shell_text c sh_historical_comparison_status ex_historical_comparison_status in
      \<lparr>gi_evaluation_timestamp = now, gi_max_selected_contract_age = fm_max_selected_contract_age fm,
       gi_replay_bundle_validation_performed = fx_replay_bundle_validation_performed c,
       gi_replay_bundle_valid = fx_replay_bundle_valid c, gi_replay_bundle_errors = fx_replay_bundle_errors c,
       gi_selected_contract_symbol = Some symbol, gi_selected_contract_effective_timestamp = None,
       gi_order_plan_symbol = Some symbol, gi_intent_symbol = Some symbol,
       gi_execution_summary_symbol = Some (text_or (shell_text c sh_selected_contract_symbol ex_selected_contract_symbol) symbol),
       gi_dispatch_summary_symbol = optional_text (xf_handoff_summary_symbol d),
       gi_require_intent_artifact = False, gi_intent_exists = True, gi_intent_artifact_issue = None,
       gi_historical_comparison_performed = (comparison \<noteq> None), gi_historical_comparison_status = comparison,
       gi_execution_shell_status = shell_text c sh_execution_shell_status ex_execution_shell_status,
       gi_dispatch_shell_status = shell_text c sh_dispatch_shell_status ex_dispatch_shell_status,
       gi_duplicate_attempt = existing_fill_attempt d\<rparr>)"

definition simulate_fill ::
  "fill_simulator \<Rightarrow> selected_event list \<Rightarrow> datetime option \<Rightarrow> (fill_artifacts, session_files) op" where
  "simulate_fill fm events created_at =
     (\<lambda>d. bindS (liftS (load_fill_context fm d)) (\<lambda>c.
        let now = evaluation_timestamp created_at events (fx_handoff_boundary_timestamp c) in
        case evaluate_fill_phase (fm_guardrails fm) (fill_phase_inputs fm c d now)
            (shell_text c sh_handoff_shell_status ex_handoff_shell_status) of
          Some g \<Rightarrow> persist_fill c (fill_abort_decision c now g (length events)) False
        | None \<Rightarrow> bindS (updateS (\<lambda>f. f\<lparr>xf_paper_order_pending := Some (pending_decision c now (length events))\<rparr>))
            (\<lambda>_. persist_fill c (evaluate_fill_events fm c events) True)) d)"

section \<open>What a run guarantees\<close>

lemma pending_status [simp]: "fl_fill_price (pending_decision c t n) = None"
  by (simp add: pending_decision_def)

lemma no_fill_simps [simp]:
  "fl_status (no_fill_decision c code m src n) = NOT_FILLED_ORDER" "fl_fill_price (no_fill_decision c code m src n) = None"
  by (simp_all add: no_fill_decision_def)

lemma filled_simps [simp]:
  "fl_status (filled_decision c p t code m src n) = FILLED_ORDER"
  "fl_fill_price (filled_decision c p t code m src n) = Some p"
  "fl_fill_timestamp (filled_decision c p t code m src n) = Some t"
  "fl_selected_contract_symbol (filled_decision c p t code m src n) = fx_selected_contract_symbol c"
  "fl_planned_entry_price (filled_decision c p t code m src n) = fx_planned_entry_price c"
  by (simp_all add: filled_decision_def pending_decision_def)

lemma abort_simps [simp]:
  "fl_status (fill_abort_decision c t g n) = FILL_ABORTED" "fl_fill_price (fill_abort_decision c t g n) = None"
  "fl_guardrail_code (fill_abort_decision c t g n) = Some (gr_code g)"
  by (simp_all add: fill_abort_decision_def)

text \<open>The price and time at which an event proves the sell entry, if it does.\<close>

fun proven_fill :: "fill_simulator \<Rightarrow> fill_context \<Rightarrow> selected_event \<Rightarrow> (price \<times> datetime) option" where
  "proven_fill fm c (QuoteEvent q) = (case sq_bid q of None \<Rightarrow> None
     | Some bid \<Rightarrow> if \<not> exceeds_spread (fm_guardrails fm) (sq_bid q) (sq_ask q) \<and>
           fx_planned_entry_price c \<le> bid - fx_slippage_entry_points c
         then Some (bid - fx_slippage_entry_points c, en_effective_timestamp (sq_envelope q)) else None)"
| "proven_fill fm c (BarEvent b) = (case sb_high b of None \<Rightarrow> None
     | Some high \<Rightarrow> if fx_planned_entry_price c + fx_slippage_entry_points c \<le> high
         then Some (fx_planned_entry_price c, sb_bar_end b) else None)"

definition foreign_event :: "fill_context \<Rightarrow> selected_event \<Rightarrow> bool" where
  "foreign_event c e \<longleftrightarrow> event_symbol e \<noteq> fx_selected_contract_symbol c"

definition tradable :: "fill_simulator \<Rightarrow> fill_context \<Rightarrow> selected_event \<Rightarrow> bool" where
  "tradable fm c e \<longleftrightarrow> fx_handoff_boundary_timestamp c \<le> en_effective_timestamp (event_envelope_of e) \<and>
     \<not> stale_event fm (event_envelope_of e) \<and> proven_fill fm c e \<noteq> None"

lemma proven_fill_price: "proven_fill fm c e = Some (p, t) \<Longrightarrow> fx_planned_entry_price c \<le> p"
  by (cases e) (auto split: option.splits if_splits)

lemma evaluate_event_outcome:
  "case proven_fill fm c e of
     None \<Rightarrow> fl_status (evaluate_event fm c n e) = NOT_FILLED_ORDER
   | Some (p, t) \<Rightarrow> fl_status (evaluate_event fm c n e) = FILLED_ORDER \<and> fl_fill_price (evaluate_event fm c n e) = Some p \<and>
       fl_fill_timestamp (evaluate_event fm c n e) = Some t"
  by (cases e) (auto simp: evaluate_quote_def evaluate_bar_def split: option.split)

definition fill_outcome :: "fill_simulator \<Rightarrow> fill_context \<Rightarrow> selected_event list \<Rightarrow> fill_decision \<Rightarrow> bool" where
  "fill_outcome fm c es d = (case find (\<lambda>e. foreign_event c e \<or> tradable fm c e) es of
       None \<Rightarrow> fl_status d = NOT_FILLED_ORDER \<and> fl_fill_price d = None
     | Some e \<Rightarrow> if foreign_event c e
         then fl_status d = FILL_ABORTED \<and> fl_fill_price d = None \<and>
           fl_guardrail_code d = Some ''selected_contract_mismatch_before_fill''
         else (\<exists>p t. proven_fill fm c e = Some (p, t) \<and> fl_status d = FILLED_ORDER \<and> fl_fill_price d = Some p \<and>
           fl_fill_timestamp d = Some t))"

lemma fill_loop_outcome: "fill_outcome fm c es (fill_loop fm c n reason message es)"
proof (induction es arbitrary: reason message)
  case Nil
  then show ?case by (simp add: fill_outcome_def)
next
  case (Cons e es)
  show ?case
  proof (cases "foreign_event c e")
    case True
    then show ?thesis by (simp add: fill_outcome_def foreign_event_def Let_def mismatch_before_fill_def)
  next
    case own: False
    show ?thesis
    proof (cases "tradable fm c e")
      case True
      with own evaluate_event_outcome [where e = e and n = n and fm = fm and c = c] show ?thesis
        by (auto simp: fill_outcome_def foreign_event_def tradable_def Let_def)
    next
      case False
      have skip: "fill_outcome fm c (e # es) d = fill_outcome fm c es d" for d
        using own False by (simp add: fill_outcome_def)
      have "fl_status (evaluate_event fm c n e) = NOT_FILLED_ORDER" if "proven_fill fm c e = None"
        using evaluate_event_outcome [where e = e and n = n and fm = fm and c = c] that by simp
      with own False Cons.IH show ?thesis
        unfolding skip
        by (cases "proven_fill fm c e") (auto simp: foreign_event_def tradable_def Let_def)
    qed
  qed
qed

text \<open>
  C26: the events, in time order (a quote before a bar of the same times), are searched for the first that
  belongs to another contract or proves the sell entry: after the handoff, not stale, and a bid less
  slippage at or above the planned entry (with an acceptable spread) or a bar whose high reaches the
  entry plus slippage. The first case aborts the fill, the second fills at the proven price and time,
  which is never below the planned entry; without one the order is not filled.
\<close>
theorem fills_at_first_proven_event:
  "case find (\<lambda>e. foreign_event c e \<or> tradable fm c e) (sort_key fill_event_order events) of
     None \<Rightarrow> fl_status (evaluate_fill_events fm c events) = NOT_FILLED_ORDER \<and>
       fl_fill_price (evaluate_fill_events fm c events) = None
   | Some e \<Rightarrow> if foreign_event c e
       then fl_status (evaluate_fill_events fm c events) = FILL_ABORTED \<and>
         fl_fill_price (evaluate_fill_events fm c events) = None
       else (\<exists>p t. proven_fill fm c e = Some (p, t) \<and> fx_planned_entry_price c \<le> p \<and>
         fl_status (evaluate_fill_events fm c events) = FILLED_ORDER \<and>
         fl_fill_price (evaluate_fill_events fm c events) = Some p \<and>
         fl_fill_timestamp (evaluate_fill_events fm c events) = Some t)"
proof (cases "events = []")
  case True
  then show ?thesis by (simp add: evaluate_fill_events_def)
next
  case False
  then have "fill_outcome fm c (sort_key fill_event_order events) (evaluate_fill_events fm c events)"
    by (simp add: evaluate_fill_events_def fill_loop_outcome)
  then show ?thesis
    by (auto simp: fill_outcome_def dest: proven_fill_price split: option.splits if_splits)
qed

lemma persist_fill_files:
  assumes "persist_fill c d ap f = (Inr a, f')"
  shows "xf_paper_fill f' = (if fl_status d = FILLED_ORDER then Some d else None)"
    and "xf_paper_no_fill f' = (if fl_status d = NOT_FILLED_ORDER then Some d else None)"
    and "xf_paper_fill_abort_summary f' = (if fl_status d \<in> {FILLED_ORDER, NOT_FILLED_ORDER} then None else Some d)"
    and "ar_paper_fill a \<longleftrightarrow> fl_status d = FILLED_ORDER"
    and "xf_execution_summary f' = Some (fill_summary c d)" and "xf_paper_order_pending f' = xf_paper_order_pending f"
    and "xf_execution_journal f' = fill_journal c d ap"
  using assms by (auto simp: persist_fill_def Let_def split: if_splits)

lemma persist_fill_returns: "\<exists>a f'. persist_fill c d ap f = (Inr a, f')"
  by (simp add: persist_fill_def Let_def)

lemma duplicate_blocks_fill: "gi_duplicate_attempt i \<Longrightarrow> \<exists>g. evaluate_fill_phase s i h = Some g"
  using fill_phase_clear [of s i h] by (cases "evaluate_fill_phase s i h") auto

text \<open>
  Running the simulator again on a session that already has an outcome does not leave the outcome
  alone: the duplicate is blocked, and recording the block removes the fill artifact of the first run
  and turns the summary to \<^verbatim>\<open>PAPER_FILL_ABORTED\<close>.
\<close>
theorem second_fill_run_erases_fill:
  assumes "load_fill_context fm d = Inr c" and "existing_fill_attempt d"
  shows "\<exists>a d' g. simulate_fill fm events created_at d = (Inr a, d') \<and> xf_paper_fill d' = None \<and> xf_paper_no_fill d' = None \<and>
    xf_paper_fill_abort_summary d' = Some g \<and> fl_status g = FILL_ABORTED \<and>
    map_option ex_status (xf_execution_summary d') = Some (Some ''PAPER_FILL_ABORTED'')"
proof -
  let ?now = "evaluation_timestamp created_at events (fx_handoff_boundary_timestamp c)"
  from assms(2) have "gi_duplicate_attempt (fill_phase_inputs fm c d ?now)" by (simp add: fill_phase_inputs_def Let_def)
  then obtain g where g: "evaluate_fill_phase (fm_guardrails fm) (fill_phase_inputs fm c d ?now)
      (shell_text c sh_handoff_shell_status ex_handoff_shell_status) = Some g"
    using duplicate_blocks_fill by blast
  obtain a d' where run: "persist_fill c (fill_abort_decision c ?now g (length events)) False d = (Inr a, d')"
    using persist_fill_returns by blast
  with g assms(1) have "simulate_fill fm events created_at d = (Inr a, d')"
    by (simp add: simulate_fill_def bindS_def liftS_def Let_def)
  moreover from persist_fill_files [OF run] have "xf_paper_fill d' = None" "xf_paper_no_fill d' = None"
    "xf_paper_fill_abort_summary d' = Some (fill_abort_decision c ?now g (length events))"
    "map_option ex_status (xf_execution_summary d') = Some (Some ''PAPER_FILL_ABORTED'')"
    by (simp_all add: fill_summary_def)
  ultimately show ?thesis by auto
qed

text \<open>
  A run that leaves a fill behind was the first one, passed every guardrail, and its fill is the price
  some event of the session's contract proved.
\<close>
theorem fill_was_cleared:
  assumes "simulate_fill fm events created_at d = (Inr a, d')" and "ar_paper_fill a"
  shows "\<exists>c f p e t. load_fill_context fm d = Inr c \<and> \<not> existing_fill_attempt d \<and>
    evaluate_fill_phase (fm_guardrails fm)
      (fill_phase_inputs fm c d (evaluation_timestamp created_at events (fx_handoff_boundary_timestamp c)))
      (shell_text c sh_handoff_shell_status ex_handoff_shell_status) = None \<and>
    xf_paper_fill d' = Some f \<and> fl_fill_price f = Some p \<and> fx_planned_entry_price c \<le> p \<and> e \<in> set events \<and>
    event_symbol e = fx_selected_contract_symbol c \<and> tradable fm c e \<and> proven_fill fm c e = Some (p, t)"
proof -
  from assms(1) obtain c where c: "load_fill_context fm d = Inr c"
    by (auto simp: simulate_fill_def bindS_def liftS_def split: sum.splits)
  let ?now = "evaluation_timestamp created_at events (fx_handoff_boundary_timestamp c)"
  let ?i = "fill_phase_inputs fm c d ?now"
  let ?h = "shell_text c sh_handoff_shell_status ex_handoff_shell_status"
  have clear: "evaluate_fill_phase (fm_guardrails fm) ?i ?h = None"
  proof (rule ccontr)
    assume "evaluate_fill_phase (fm_guardrails fm) ?i ?h \<noteq> None"
    then obtain g where "evaluate_fill_phase (fm_guardrails fm) ?i ?h = Some g" by auto
    with assms(1) c have "persist_fill c (fill_abort_decision c ?now g (length events)) False d = (Inr a, d')"
      by (simp add: simulate_fill_def bindS_def liftS_def Let_def)
    from persist_fill_files(4) [OF this] assms(2) show False by simp
  qed
  then have new: "\<not> existing_fill_attempt d"
    using duplicate_blocks_fill [of ?i "fm_guardrails fm" ?h] by (auto simp: fill_phase_inputs_def Let_def)
  let ?d = "evaluate_fill_events fm c events"
  from assms(1) c clear obtain f where "persist_fill c ?d True f = (Inr a, d')"
    by (auto simp: simulate_fill_def bindS_def liftS_def Let_def updateS_def)
  from persist_fill_files [OF this] assms(2) have filled: "fl_status ?d = FILLED_ORDER" "xf_paper_fill d' = Some ?d" by auto
  then have "events \<noteq> []" by (auto simp: evaluate_fill_events_def)
  then have "fill_outcome fm c (sort_key fill_event_order events) ?d"
    by (simp add: evaluate_fill_events_def fill_loop_outcome)
  with filled(1) obtain e p t where e: "find (\<lambda>e. foreign_event c e \<or> tradable fm c e) (sort_key fill_event_order events) = Some e"
    "\<not> foreign_event c e" "proven_fill fm c e = Some (p, t)" "fl_fill_price ?d = Some p"
    by (auto simp: fill_outcome_def split: option.splits if_splits)
  with find_SomeD [OF e(1)] c new clear filled(2) proven_fill_price [OF e(3)] show ?thesis
    by (auto simp: foreign_event_def)
qed

section \<open>A session that fills\<close>

definition demo_review :: review_summary where
  "demo_review = \<lparr>rv_session_id = ''s'', rv_session_date = 10, rv_strategy_code = ''S23'', rv_terminal_state = ORDER_PLANNED,
     rv_selected_symbol = Some ''X'', rv_selected_option_type = None, rv_selected_expiry = None, rv_has_order_plan = True,
     rv_order_intent = Some \<lparr>ro_handoff_shell_status = Some ''PAPER_EXECUTION_HANDOFF_READY'', ro_order_side = Some ''SELL'',
       ro_lots = Some 1, ro_quantity = Some 75, ro_planned_entry_price = Some 100, ro_target_price = Some 60,
       ro_stoploss_price = Some 150, ro_fsl_price = None, ro_order_reference_time = Some (at_time 10 1000),
       ro_order_reference_label = Some ''ORPT'', ro_source_branch = None, ro_source_workbook_rule = None,
       ro_workbook_row_number = None\<rparr>,
     rv_fill_phase = None, rv_shell = None, rv_intent = None, rv_fill = None, rv_bundle_validated = True,
     rv_bundle_valid = Some True, rv_bundle_errors = []\<rparr>"

definition demo_summary :: execution_summary where
  "demo_summary = \<lparr>ex_status = None, ex_selected_contract_symbol = Some ''X'',
     ex_handoff_shell_status = Some ''PAPER_EXECUTION_HANDOFF_READY'', ex_execution_shell_status = Some ''EXECUTION_ARMED'',
     ex_dispatch_shell_status = Some ''ORDER_INTENT_DISPATCHED'', ex_historical_comparison_status = Some ''MATCH'',
     ex_fill = None, ex_lifecycle = None, ex_fill_simulated = False, ex_order_placed = False, ex_position_opened = False,
     ex_position_closed = False, ex_lifecycle_simulated = False, ex_future_fill_simulation_eligible = True,
     ex_terminal_reason_code = None, ex_message = None, ex_guardrail_code = None, ex_guardrail_message = None,
     ex_blocking_source_id = None, ex_operator_action_required = None\<rparr>"

definition demo_files :: session_files where
  "demo_files = \<lparr>xf_exists = True, xf_manifest = Some \<lparr>mc_brokerage_per_lot = Some 20, mc_slippage_entry_points = Some 1,
       mc_slippage_exit_points = Some 1\<rparr>, xf_execution_summary = Some demo_summary, xf_execution_journal = [],
     xf_handoff_summary_symbol = None, xf_paper_order_pending = None, xf_paper_fill = None, xf_paper_no_fill = None,
     xf_paper_fill_abort_summary = None, xf_paper_position = None, xf_lifecycle_events = None, xf_paper_exit = None,
     xf_paper_pnl_summary = None\<rparr>"

definition demo_quote :: "price \<Rightarrow> int \<Rightarrow> selected_event" where
  "demo_quote bid moment = QuoteEvent \<lparr>sq_envelope = \<lparr>en_event_type = SELECTED_CONTRACT_QUOTE, en_session_date = 10,
       en_effective_timestamp = at_time 10 moment, en_captured_at = at_time 10 (moment + 5), en_timezone = ''Asia/Kolkata'',
       en_source_type = ''t'', en_source_id = ''i'', en_synthetic_fixture = True, en_normalized_by = ''n'',
       en_source_sequence = None, en_data_quality_flags = [], en_integrity_hash = None\<rparr>,
     sq_symbol = ''X'', sq_option_type = None, sq_strike = None, sq_expiry = None, sq_bid = Some bid,
     sq_ask = Some (bid + 1), sq_ltp = None, sq_oi = None, sq_volume = None\<rparr>"

definition demo_simulator :: fill_simulator where
  "demo_simulator = \<lparr>fm_reviewer = (\<lambda>_. Inr demo_review), fm_guardrails = default_settings,
     fm_max_selected_contract_age = 60000000\<rparr>"

definition demo_filled :: session_files where
  "demo_filled = snd (simulate_fill demo_simulator [demo_quote 104 9000, demo_quote 100 5000] None demo_files)"

text \<open>The run and everything the witnesses read of its result, evaluated once.\<close>

lemma demo_fill_facts:
  "case simulate_fill demo_simulator [demo_quote 104 9000, demo_quote 100 5000] None demo_files of (r, d) \<Rightarrow>
     r = Inr \<lparr>ar_paper_order_pending = True, ar_paper_fill = True, ar_paper_no_fill = False, ar_paper_fill_abort_summary = False\<rparr> \<and>
     map_option fl_fill_price (xf_paper_fill d) = Some (Some 103) \<and> existing_fill_attempt d \<and>
     isok (load_fill_context demo_simulator d)"
  by code_simp

lemma demo_fill_run:
  "simulate_fill demo_simulator [demo_quote 104 9000, demo_quote 100 5000] None demo_files =
   (Inr \<lparr>ar_paper_order_pending = True, ar_paper_fill = True, ar_paper_no_fill = False, ar_paper_fill_abort_summary = False\<rparr>,
    demo_filled)"
  using demo_fill_facts unfolding demo_filled_def by (auto simp: prod_eq_iff split: prod.splits)

lemma demo_filled_facts:
  "map_option fl_fill_price (xf_paper_fill demo_filled) = Some (Some 103)" "existing_fill_attempt demo_filled"
  "isok (load_fill_context demo_simulator demo_filled)"
  using demo_fill_facts unfolding demo_fill_run by auto

lemma fill_was_cleared_witness:
  "\<exists>c f. load_fill_context demo_simulator demo_files = Inr c \<and> \<not> existing_fill_attempt demo_files \<and>
     xf_paper_fill demo_filled = Some f \<and> fl_fill_price f = Some 103"
  using fill_was_cleared [OF demo_fill_run] demo_filled_facts(1) by auto

lemma second_fill_run_erases_fill_witness:
  "map_option fl_fill_price (xf_paper_fill demo_filled) = Some (Some 103) \<and>
   (\<exists>a d'. simulate_fill demo_simulator [demo_quote 104 9000] None demo_filled = (Inr a, d') \<and> xf_paper_fill d' = None)"
proof -
  obtain c where "load_fill_context demo_simulator demo_filled = Inr c" using demo_filled_facts(3) by (rule isokE)
  from second_fill_run_erases_fill [OF this demo_filled_facts(2)] demo_filled_facts(1) show ?thesis by blast
qed

end
