(* ===== verification/SessionLifecycle.thy ===== *)
theory SessionLifecycle
  imports FillSimulator
begin

text \<open>
  \<^verbatim>\<open>src/tfis/paper/lifecycle.py\<close>: the same-day life of a filled sell order, from the fill to a
  target, a stop or the square-off at the end of the session. The simulator with its collaborators is
  the record \<open>lifecycle_simulator\<close> (prefix \<open>lz_\<close>; the reviewer is a function of the session
  directory), the loaded context \<open>lc_\<close>, the returned set of artifacts \<open>la_\<close>. All timestamps share
  one zone, so that combining the session date with the cutoff time needs no zone of its own.
\<close>

section \<open>The context\<close>

record lifecycle_simulator =
  lz_reviewer :: "session_files \<Rightarrow> review_summary res"
  lz_guardrails :: guardrail_settings
  lz_max_selected_contract_age :: int
  lz_eod_cutoff :: time_of_day
  lz_eod_price_age_window :: int

record lifecycle_context =
  lc_session_id :: string
  lc_session_date :: date
  lc_strategy_code :: string
  lc_selected_contract_symbol :: "string option"
  lc_selected_contract_option_type :: "string option"
  lc_selected_contract_expiry :: "date option"
  lc_side :: string
  lc_lots :: int
  lc_quantity :: int
  lc_entry_price :: "price option"
  lc_target_price :: "price option"
  lc_stoploss_price :: "price option"
  lc_fsl_price :: "price option"
  lc_effective_stop_price :: "price option"
  lc_fill_timestamp :: "datetime option"
  lc_fill_source_kind :: "string option"
  lc_fill_source_type :: "string option"
  lc_fill_source_id :: "string option"
  lc_fill_selected_contract_symbol :: "string option"
  lc_source_branch :: "string option"
  lc_source_workbook_rule :: "string option"
  lc_workbook_row_number :: "int option"
  lc_brokerage_per_lot :: price
  lc_slippage_exit_points :: price
  lc_runtime_fill_status :: "string option"
  lc_execution_summary :: execution_summary
  lc_execution_journal :: "journal_row list"
  lc_replay_bundle_valid :: "bool option"
  lc_replay_bundle_validation_performed :: bool
  lc_replay_bundle_errors :: "string list"

definition lifecycle_error :: "string \<Rightarrow> exn" where
  "lifecycle_error m = PaperLifecycleError [Txt m]"

definition effective_stop :: "price option \<Rightarrow> price option \<Rightarrow> price option" where
  "effective_stop stoploss fsl = (case (stoploss, fsl) of (None, x) \<Rightarrow> x | (Some s, None) \<Rightarrow> Some s
     | (Some s, Some f) \<Rightarrow> Some (min s f))"

definition int_or_zero :: "int option \<Rightarrow> int" where
  "int_or_zero x = (case x of None \<Rightarrow> 0 | Some i \<Rightarrow> i)"

text \<open>A field of the fill contract, else of the review's fill phase, else a fallback.\<close>

definition fill_field ::
  "review_summary \<Rightarrow> (trade_fill \<Rightarrow> 'a option) \<Rightarrow> (review_fill_phase \<Rightarrow> 'a option) \<Rightarrow> 'a option \<Rightarrow> 'a option" where
  "fill_field rv of_fill of_phase fallback = (case rv_fill rv of Some ft \<Rightarrow> of_fill ft
     | None \<Rightarrow> (case rv_fill_phase rv of Some rp \<Rightarrow> of_phase rp | None \<Rightarrow> fallback))"

text \<open>A field of the intent contract, else of the review's order intent.\<close>

definition intent_field ::
  "review_summary \<Rightarrow> review_intent \<Rightarrow> (trade_intent \<Rightarrow> 'a) \<Rightarrow> (review_intent \<Rightarrow> 'a) \<Rightarrow> 'a" where
  "intent_field rv ro of_intent of_order = (case rv_intent rv of Some it \<Rightarrow> of_intent it | None \<Rightarrow> of_order ro)"

definition summary_fill_text :: "execution_summary \<Rightarrow> (fill_decision \<Rightarrow> string option) \<Rightarrow> string option" where
  "summary_fill_text ex field = (case ex_fill ex of None \<Rightarrow> None | Some f \<Rightarrow> optional_text (field f))"

definition build_context ::
  "review_summary \<Rightarrow> review_intent \<Rightarrow> manifest_costs \<Rightarrow> execution_summary \<Rightarrow> session_files \<Rightarrow> lifecycle_context" where
  "build_context rv ro manifest ex d =
     (let stoploss = intent_field rv ro (\<lambda>it. Some (it_stoploss_price it)) ro_stoploss_price;
          fsl = intent_field rv ro it_fsl_price ro_fsl_price in
      \<lparr>lc_session_id = rv_session_id rv, lc_session_date = rv_session_date rv, lc_strategy_code = rv_strategy_code rv,
       lc_selected_contract_symbol = rv_selected_symbol rv, lc_selected_contract_option_type = rv_selected_option_type rv,
       lc_selected_contract_expiry = rv_selected_expiry rv,
       lc_side = text_or (intent_field rv ro (\<lambda>it. Some (it_side it)) ro_order_side) ''SELL'',
       lc_lots = intent_field rv ro it_lots (\<lambda>ro. int_or_zero (ro_lots ro)),
       lc_quantity = intent_field rv ro it_quantity (\<lambda>ro. int_or_zero (ro_quantity ro)),
       lc_entry_price = fill_field rv ft_fill_price rp_fill_price None,
       lc_target_price = intent_field rv ro (\<lambda>it. Some (it_target_price it)) ro_target_price,
       lc_stoploss_price = stoploss, lc_fsl_price = fsl, lc_effective_stop_price = effective_stop stoploss fsl,
       lc_fill_timestamp = fill_field rv ft_fill_timestamp rp_fill_timestamp None,
       lc_fill_source_kind = fill_field rv ft_source_kind rp_source_kind None,
       lc_fill_source_type = fill_field rv ft_source_type rp_source_type (summary_fill_text ex fl_source_type),
       lc_fill_source_id = fill_field rv ft_source_id rp_source_id (summary_fill_text ex fl_source_id),
       lc_fill_selected_contract_symbol = (case rv_fill rv of Some ft \<Rightarrow> Some (ft_selected_contract_symbol ft)
         | None \<Rightarrow> (case xf_paper_fill d of None \<Rightarrow> None | Some f \<Rightarrow> optional_text (Some (fl_selected_contract_symbol f)))),
       lc_source_branch = intent_field rv ro it_source_branch ro_source_branch,
       lc_source_workbook_rule = intent_field rv ro it_source_workbook_rule ro_source_workbook_rule,
       lc_workbook_row_number = intent_field rv ro it_workbook_row_number ro_workbook_row_number,
       lc_brokerage_per_lot = number_or_zero (mc_brokerage_per_lot manifest),
       lc_slippage_exit_points = number_or_zero (mc_slippage_exit_points manifest),
       lc_runtime_fill_status = map_option ft_status (rv_fill rv), lc_execution_summary = ex,
       lc_execution_journal = xf_execution_journal d, lc_replay_bundle_valid = rv_bundle_valid rv,
       lc_replay_bundle_validation_performed = rv_bundle_validated rv, lc_replay_bundle_errors = rv_bundle_errors rv\<rparr>)"

definition load_lifecycle_context :: "lifecycle_simulator \<Rightarrow> session_files \<Rightarrow> lifecycle_context res" where
  "load_lifecycle_context lz d =
     bindE (guardE (xf_exists d) (lifecycle_error ''S23 paper session directory does not exist: '')) (\<lambda>_.
     bindE (wrap_review_error PaperLifecycleError (lz_reviewer lz d)) (\<lambda>rv.
     bindE (guardE (rv_strategy_code rv = ''S23'') (PaperLifecycleError
       [Txt ''Unsupported strategy for S23 Phase 2 lifecycle simulation: '',
        Txt (if rv_strategy_code rv = [] then ''unknown'' else rv_strategy_code rv)])) (\<lambda>_.
     bindE (guardE (rv_terminal_state rv = ORDER_PLANNED)
       (lifecycle_error ''S23 Phase 2 lifecycle simulation requires an ORDER_PLANNED paper session.'')) (\<lambda>_.
     case (rv_order_intent rv, rv_has_order_plan rv) of
       (Some ro, True) \<Rightarrow>
         (case xf_manifest d of
            None \<Rightarrow> Inl (lifecycle_error ''Required lifecycle artifact is missing: session_manifest.json'')
          | Some manifest \<Rightarrow>
            (case xf_execution_summary d of
               None \<Rightarrow> Inl (lifecycle_error ''Required lifecycle artifact is missing: execution_summary.json'')
             | Some ex \<Rightarrow> Inr (build_context rv ro manifest ex d)))
     | _ \<Rightarrow> Inl (lifecycle_error
         ''S23 Phase 2 lifecycle simulation requires persisted paper order plan and intent artifacts.'')))))"

section \<open>Decisions\<close>

text \<open>The cutoff needs the fill's timestamp for its zone; without one it raises.\<close>

definition eod_cutoff :: "lifecycle_simulator \<Rightarrow> lifecycle_context \<Rightarrow> datetime" where
  "eod_cutoff lz c = at_time (lc_session_date c) (lz_eod_cutoff lz)"

definition session_cutoff :: "lifecycle_simulator \<Rightarrow> lifecycle_context \<Rightarrow> datetime res" where
  "session_cutoff lz c = (case lc_fill_timestamp c of
     None \<Rightarrow> Inl (lifecycle_error ''Cannot derive a same-day lifecycle cutoff without a paper fill timestamp.'')
   | Some _ \<Rightarrow> Inr (eod_cutoff lz c))"

fun event_moment :: "selected_event \<Rightarrow> datetime" where
  "event_moment (QuoteEvent q) = en_effective_timestamp (sq_envelope q)"
| "event_moment (BarEvent b) = sb_bar_end b"

definition unique_sorted :: "string list \<Rightarrow> string list" where
  "unique_sorted flags = sort (remdups flags)"

text \<open>What every decision repeats from the context; the rest is filled in by the two kinds of decision.\<close>

definition decision_base :: "lifecycle_context \<Rightarrow> lifecycle_status \<Rightarrow> datetime \<Rightarrow> string \<Rightarrow> msg \<Rightarrow> string list \<Rightarrow> lifecycle_decision" where
  "decision_base c status entered code message flags =
     \<lparr>ld_session_id = lc_session_id c, ld_session_date = lc_session_date c, ld_strategy_code = lc_strategy_code c,
      ld_status = status, ld_selected_contract_symbol = text_or (lc_selected_contract_symbol c) [],
      ld_selected_contract_option_type = lc_selected_contract_option_type c,
      ld_selected_contract_expiry = lc_selected_contract_expiry c, ld_side = lc_side c, ld_lots = lc_lots c,
      ld_quantity = lc_quantity c, ld_entry_price = number_or_zero (lc_entry_price c),
      ld_target_price = number_or_zero (lc_target_price c), ld_stoploss_price = lc_stoploss_price c,
      ld_fsl_price = lc_fsl_price c, ld_effective_stop_price = number_or_zero (lc_effective_stop_price c),
      ld_entry_timestamp = entered, ld_exit_price = None, ld_exit_timestamp = None, ld_exit_reason_code = code,
      ld_message = message, ld_source_kind = None, ld_source_type = None, ld_source_id = None,
      ld_source_effective_timestamp = None, ld_quote_bid = None, ld_quote_ask = None, ld_quote_ltp = None,
      ld_bar_open = None, ld_bar_high = None, ld_bar_low = None, ld_bar_close = None, ld_gross_pnl_rupees = None,
      ld_brokerage_rupees = None, ld_net_pnl_rupees = None, ld_guardrail_code = None, ld_guardrail_message = None,
      ld_blocking_source_id = None, ld_operator_action_required = None, ld_warning_flags = unique_sorted flags\<rparr>"

definition datetime_or :: "datetime option \<Rightarrow> datetime \<Rightarrow> datetime" where
  "datetime_or x t = (case x of None \<Rightarrow> t | Some u \<Rightarrow> u)"

fun with_event_source :: "selected_event \<Rightarrow> lifecycle_decision \<Rightarrow> lifecycle_decision" where
  "with_event_source (QuoteEvent q) d = (let e = sq_envelope q in
     d\<lparr>ld_source_kind := Some ''selected_contract_quote'', ld_source_type := Some (en_source_type e),
       ld_source_id := Some (en_source_id e), ld_source_effective_timestamp := Some (en_effective_timestamp e),
       ld_quote_bid := sq_bid q, ld_quote_ask := sq_ask q, ld_quote_ltp := sq_ltp q\<rparr>)"
| "with_event_source (BarEvent b) d = (let e = sb_envelope b in
     d\<lparr>ld_source_kind := Some ''selected_contract_bar'', ld_source_type := Some (en_source_type e),
       ld_source_id := Some (en_source_id e), ld_source_effective_timestamp := Some (en_effective_timestamp e),
       ld_bar_open := sb_open b, ld_bar_high := sb_high b, ld_bar_low := sb_low b, ld_bar_close := sb_close b\<rparr>)"

text \<open>\<^verbatim>\<open>_build_exit_decision\<close>; every caller passes the event's own moment and source fields.\<close>

definition build_exit_decision ::
  "lifecycle_context \<Rightarrow> lifecycle_status \<Rightarrow> string \<Rightarrow> string \<Rightarrow> price \<Rightarrow> selected_event \<Rightarrow> string list \<Rightarrow> lifecycle_decision res" where
  "build_exit_decision c status code message price event flags =
     (case lc_entry_price c of
        None \<Rightarrow> Inl (lifecycle_error ''Lifecycle entry price is missing.'')
      | Some entry \<Rightarrow>
        let gross = py_round 6 ((entry - price) * of_int (lc_quantity c));
            brokerage = py_round 6 (lc_brokerage_per_lot c * of_int (lc_lots c)) in
        Inr (with_event_source event (decision_base c status (datetime_or (lc_fill_timestamp c) (event_moment event)) code
               [Txt message] flags)
             \<lparr>ld_exit_price := Some (py_round 6 price), ld_exit_timestamp := Some (event_moment event),
              ld_gross_pnl_rupees := Some gross, ld_brokerage_rupees := Some brokerage,
              ld_net_pnl_rupees := Some (py_round 6 (gross - brokerage))\<rparr>))"

definition build_abort_decision ::
  "lifecycle_simulator \<Rightarrow> lifecycle_context \<Rightarrow> datetime option \<Rightarrow> guardrail_decision \<Rightarrow> lifecycle_decision res" where
  "build_abort_decision lz c now g =
     bindE (case or_else (lc_fill_timestamp c) now of Some t \<Rightarrow> Inr t | None \<Rightarrow> session_cutoff lz c) (\<lambda>entered.
     Inr ((decision_base c LIFECYCLE_ABORTED entered (gr_code g) (gr_message g) [])
       \<lparr>ld_exit_timestamp := now, ld_guardrail_code := Some (gr_code g), ld_guardrail_message := Some (gr_message g),
        ld_blocking_source_id := gr_blocking_source_id g, ld_operator_action_required := gr_operator_action_required g\<rparr>))"

definition abort_from_reason ::
  "lifecycle_context \<Rightarrow> datetime \<Rightarrow> string \<Rightarrow> string \<Rightarrow> string list \<Rightarrow> string option \<Rightarrow> lifecycle_decision" where
  "abort_from_reason c now code message flags source_id =
     (decision_base c LIFECYCLE_ABORTED (datetime_or (lc_fill_timestamp c) now) code [Txt message] flags)
       \<lparr>ld_exit_timestamp := Some now, ld_guardrail_code := Some code, ld_guardrail_message := Some [Txt message],
        ld_blocking_source_id := source_id, ld_operator_action_required := Some
          ''Review the selected-contract lifecycle data before retrying the same-day paper lifecycle loop.''\<rparr>"

definition with_warning :: "lifecycle_decision \<Rightarrow> string \<Rightarrow> lifecycle_decision" where
  "with_warning d flag = d\<lparr>ld_warning_flags := unique_sorted (ld_warning_flags d @ [flag])\<rparr>"

section \<open>Market events\<close>

definition exit_reference :: "selected_quote \<Rightarrow> price option" where
  "exit_reference q = or_else (sq_ask q) (sq_ltp q)"

definition spread_too_wide :: "guardrail_settings \<Rightarrow> selected_quote \<Rightarrow> bool" where
  "spread_too_wide s q = (case (gs_max_selected_contract_spread_points s, sq_bid q, sq_ask q) of
     (Some m, Some b, Some a) \<Rightarrow> a - b > m | _ \<Rightarrow> False)"

definition evaluate_lifecycle_quote ::
  "lifecycle_simulator \<Rightarrow> lifecycle_context \<Rightarrow> selected_quote \<Rightarrow> lifecycle_decision option res" where
  "evaluate_lifecycle_quote lz c q =
     (case exit_reference q of
        None \<Rightarrow> Inr None
      | Some ref \<Rightarrow>
        if spread_too_wide (lz_guardrails lz) q then Inr None
        else (case (lc_target_price c, lc_effective_stop_price c) of
          (Some target, Some stop) \<Rightarrow>
            if ref \<ge> stop then
              bindE (build_exit_decision c LIFECYCLE_CLOSED ''stoploss_or_fsl_hit''
                ''A fresh selected-contract quote breached the stoploss/FSL threshold, so the same-day paper position was closed conservatively.''
                (max stop ref + lc_slippage_exit_points c) (QuoteEvent q) []) (\<lambda>d. Inr (Some d))
            else if ref \<le> target then
              bindE (build_exit_decision c LIFECYCLE_CLOSED ''target_hit''
                ''A fresh selected-contract quote proved the target was hit for the same-day paper position.''
                (max target ref + lc_slippage_exit_points c) (QuoteEvent q) []) (\<lambda>d. Inr (Some d))
            else Inr None
        | _ \<Rightarrow> Inr None))"

definition evaluate_lifecycle_bar :: "lifecycle_context \<Rightarrow> selected_bar \<Rightarrow> lifecycle_decision option res" where
  "evaluate_lifecycle_bar c b =
     (case (sb_high b, sb_low b, sb_close b) of
        (Some high, Some low, Some _) \<Rightarrow>
          (case (lc_target_price c, lc_effective_stop_price c) of
             (Some target, Some stop) \<Rightarrow>
               if high \<ge> stop \<and> low \<le> target then
                 bindE (build_exit_decision c LIFECYCLE_CLOSED ''same_bar_target_stop_conflict_stoploss_wins''
                   ''Target and stoploss/FSL were both possible in the same selected-contract bar, so the conservative stoploss outcome was chosen.''
                   (stop + lc_slippage_exit_points c) (BarEvent b) [''same_bar_target_stop_conflict_stoploss_wins''])
                   (\<lambda>d. Inr (Some d))
               else if high \<ge> stop then
                 bindE (build_exit_decision c LIFECYCLE_CLOSED ''stoploss_or_fsl_hit''
                   ''Selected-contract OHLC data breached the stoploss/FSL threshold, so the same-day paper position was closed conservatively.''
                   (stop + lc_slippage_exit_points c) (BarEvent b) []) (\<lambda>d. Inr (Some d))
               else if low \<le> target then
                 bindE (build_exit_decision c LIFECYCLE_CLOSED ''target_hit''
                   ''Selected-contract OHLC data proved the target was hit for the same-day paper position.''
                   (target + lc_slippage_exit_points c) (BarEvent b) []) (\<lambda>d. Inr (Some d))
               else Inr None
           | _ \<Rightarrow> Inr None)
      | _ \<Rightarrow> Inr None)"

fun evaluate_lifecycle_event ::
  "lifecycle_simulator \<Rightarrow> lifecycle_context \<Rightarrow> selected_event \<Rightarrow> lifecycle_decision option res" where
  "evaluate_lifecycle_event lz c (QuoteEvent q) = evaluate_lifecycle_quote lz c q"
| "evaluate_lifecycle_event lz c (BarEvent b) = evaluate_lifecycle_bar c b"

fun lifecycle_event_order :: "selected_event \<Rightarrow> datetime \<times> datetime \<times> nat" where
  "lifecycle_event_order (QuoteEvent q) = (event_moment (QuoteEvent q), en_captured_at (sq_envelope q), 0)"
| "lifecycle_event_order (BarEvent b) = (event_moment (BarEvent b), en_captured_at (sb_envelope b), 1)"

text \<open>Before the fill, on another day or after the cutoff: skipped without a trace.\<close>

definition outside_session :: "lifecycle_simulator \<Rightarrow> lifecycle_context \<Rightarrow> selected_event \<Rightarrow> bool" where
  "outside_session lz c e \<longleftrightarrow> (case lc_fill_timestamp c of None \<Rightarrow> False | Some t \<Rightarrow> event_moment e < t) \<or>
     date_of (event_moment e) \<noteq> lc_session_date c \<or> event_moment e > eod_cutoff lz c"

definition stale_lifecycle_event :: "lifecycle_simulator \<Rightarrow> selected_event \<Rightarrow> bool" where
  "stale_lifecycle_event lz e \<longleftrightarrow> en_captured_at (event_envelope_of e) - en_effective_timestamp (event_envelope_of e)
     > lz_max_selected_contract_age lz"

definition usable_for_eod :: "lifecycle_simulator \<Rightarrow> lifecycle_context \<Rightarrow> selected_event \<Rightarrow> bool" where
  "usable_for_eod lz c e \<longleftrightarrow> event_moment e \<ge> eod_cutoff lz c - lz_eod_price_age_window lz"

fun square_off_price :: "selected_event \<Rightarrow> price option" where
  "square_off_price (QuoteEvent q) = exit_reference q"
| "square_off_price (BarEvent b) = sb_close b"

definition eod_square_off :: "lifecycle_context \<Rightarrow> selected_event \<Rightarrow> string list \<Rightarrow> lifecycle_decision res" where
  "eod_square_off c event flags =
     (case square_off_price event of
        None \<Rightarrow> Inr (abort_from_reason c (event_moment event) ''missing_eod_selected_contract_price''
          (case event of
             QuoteEvent _ \<Rightarrow> ''No usable selected-contract quote was available to square off the same-day paper position at EOD.''
           | BarEvent _ \<Rightarrow> ''No usable selected-contract close was available to square off the same-day paper position at EOD.'')
          (if flags = [] then [''missing_eod_selected_contract_price''] else flags) None)
      | Some p \<Rightarrow> build_exit_decision c LIFECYCLE_EOD ''eod_square_off''
          (case event of
             QuoteEvent _ \<Rightarrow> ''No target or stoploss/FSL was hit before the same-day cutoff, so the paper position was squared off at the last available selected-contract price.''
           | BarEvent _ \<Rightarrow> ''No target or stoploss/FSL was hit before the same-day cutoff, so the paper position was squared off at the last available selected-contract close.'')
          (p + lc_slippage_exit_points c) event flags)"

abbreviation stale_reason :: string where "stale_reason \<equiv> ''selected_contract_lifecycle_data_stale''"

text \<open>What follows the loop: the last usable event and whether a stale one was seen.\<close>

definition close_of_session ::
  "lifecycle_simulator \<Rightarrow> lifecycle_context \<Rightarrow> selected_event option \<Rightarrow> bool \<Rightarrow> lifecycle_decision res" where
  "close_of_session lz c last_usable stale_seen =
     (case last_usable of
        Some e \<Rightarrow> if usable_for_eod lz c e then eod_square_off c e (if stale_seen then [stale_reason] else [])
          else if stale_seen then Inr (abort_from_reason c (eod_cutoff lz c) stale_reason
            ''Selected-contract lifecycle data became stale before a target, stoploss, or EOD square-off could be priced safely.''
            [stale_reason] None)
          else Inr (abort_from_reason c (eod_cutoff lz c) ''missing_eod_selected_contract_price''
            ''No target or stoploss was hit and no fresh selected-contract price was available near the same-day EOD cutoff.''
            [''missing_eod_selected_contract_price''] None)
      | None \<Rightarrow> if stale_seen then Inr (abort_from_reason c (eod_cutoff lz c) stale_reason
            ''Selected-contract lifecycle data became stale before a target, stoploss, or EOD square-off could be priced safely.''
            [stale_reason] None)
          else Inr (abort_from_reason c (eod_cutoff lz c) ''missing_eod_selected_contract_price''
            ''No target or stoploss was hit and no fresh selected-contract price was available near the same-day EOD cutoff.''
            [''missing_eod_selected_contract_price''] None))"

fun lifecycle_loop ::
  "lifecycle_simulator \<Rightarrow> lifecycle_context \<Rightarrow> selected_event option \<Rightarrow> bool \<Rightarrow> selected_event list \<Rightarrow> lifecycle_decision res" where
  "lifecycle_loop lz c last_usable stale_seen [] = close_of_session lz c last_usable stale_seen"
| "lifecycle_loop lz c last_usable stale_seen (e # events) =
     (if Some (event_symbol e) \<noteq> lc_selected_contract_symbol c then
        Inr (abort_from_reason c (event_moment e) ''selected_contract_mismatch_before_lifecycle''
          ''Selected-contract lifecycle market data does not match the persisted paper fill symbol.'' []
          (Some (en_source_id (event_envelope_of e))))
      else if outside_session lz c e then lifecycle_loop lz c last_usable stale_seen events
      else if stale_lifecycle_event lz e then lifecycle_loop lz c last_usable True events
      else bindE (evaluate_lifecycle_event lz c e) (\<lambda>r. case r of
          Some d \<Rightarrow> Inr (if stale_seen then with_warning d stale_reason else d)
        | None \<Rightarrow> lifecycle_loop lz c (Some e) stale_seen events))"

definition evaluate_market_events ::
  "lifecycle_simulator \<Rightarrow> lifecycle_context \<Rightarrow> selected_event list \<Rightarrow> lifecycle_decision res" where
  "evaluate_market_events lz c events =
     (case (lc_fill_timestamp c, lc_entry_price c) of
        (Some filled, Some _) \<Rightarrow>
          if events = [] then
            Inr (abort_from_reason c filled ''missing_selected_contract_lifecycle_market_data''
              ''No selected-contract market data was supplied after the paper fill, so the same-day lifecycle loop cannot determine an exit.''
              [''missing_selected_contract_lifecycle_market_data''] None)
          else lifecycle_loop lz c None False (sort_key lifecycle_event_order events)
      | _ \<Rightarrow> Inr (abort_from_reason c (eod_cutoff lz c) ''missing_fill_artifact_for_lifecycle''
          ''The persisted Phase 1 fill artifact is incomplete, so the paper lifecycle loop cannot start.'' [] None))"

text \<open>An operator's abort closes at the first usable event that has a price.\<close>

definition manual_close_candidate :: "lifecycle_simulator \<Rightarrow> lifecycle_context \<Rightarrow> selected_event \<Rightarrow> bool" where
  "manual_close_candidate lz c e \<longleftrightarrow> Some (event_symbol e) = lc_selected_contract_symbol c \<and> \<not> outside_session lz c e \<and>
     \<not> stale_lifecycle_event lz e \<and> square_off_price e \<noteq> None"

definition manual_abort_decision ::
  "lifecycle_simulator \<Rightarrow> lifecycle_context \<Rightarrow> selected_event list \<Rightarrow> lifecycle_decision res" where
  "manual_abort_decision lz c events =
     (let reason = gs_manual_abort_during_lifecycle_reason (lz_guardrails lz);
          sorted = sort_key lifecycle_event_order events in
      case find (manual_close_candidate lz c) sorted of
        Some e \<Rightarrow> build_exit_decision c LIFECYCLE_CLOSED ''manual_operator_abort_during_open_position''
          (text_or reason ''An operator aborted the S23 same-day lifecycle loop after the paper position opened, so the paper position was closed conservatively.'')
          (number_or_zero (square_off_price e) + lc_slippage_exit_points c) e []
      | None \<Rightarrow> bindE (case lc_fill_timestamp c of Some t \<Rightarrow> Inr t | None \<Rightarrow> session_cutoff lz c) (\<lambda>now.
          Inr (abort_from_reason c now ''manual_operator_abort_during_open_position''
            (text_or reason ''An operator aborted the S23 same-day lifecycle loop, but no fresh selected-contract price was available to close the paper position conservatively.'')
            [''manual_operator_abort_during_open_position''] None)))"

section \<open>Persisting\<close>

definition build_position :: "lifecycle_context \<Rightarrow> simulated_position res" where
  "build_position c =
     (case (lc_selected_contract_symbol c, lc_entry_price c, lc_target_price c, lc_effective_stop_price c, lc_fill_timestamp c) of
        (Some symbol, Some entry, Some target, Some stop, Some filled) \<Rightarrow> Inr
          \<lparr>lo_session_id = lc_session_id c, lo_session_date = lc_session_date c, lo_strategy_code = lc_strategy_code c,
           lo_status = LIFECYCLE_OPEN, lo_selected_contract_symbol = symbol,
           lo_selected_contract_option_type = lc_selected_contract_option_type c,
           lo_selected_contract_expiry = lc_selected_contract_expiry c, lo_side = lc_side c, lo_lots = lc_lots c,
           lo_quantity = lc_quantity c, lo_entry_price = entry, lo_target_price = target,
           lo_stoploss_price = lc_stoploss_price c, lo_fsl_price = lc_fsl_price c, lo_effective_stop_price = stop,
           lo_entry_timestamp = filled, lo_source_branch = lc_source_branch c,
           lo_source_workbook_rule = lc_source_workbook_rule c, lo_workbook_row_number = lc_workbook_row_number c,
           lo_provenance_source_kind = lc_fill_source_kind c, lo_provenance_source_type = lc_fill_source_type c,
           lo_provenance_source_id = lc_fill_source_id c\<rparr>
      | _ \<Rightarrow> Inl (lifecycle_error ''S23 Phase 2 lifecycle simulation context is missing required position fields.''))"

definition row_of_lifecycle ::
  "lifecycle_context \<Rightarrow> datetime \<Rightarrow> string \<Rightarrow> lifecycle_decision option \<Rightarrow> string option \<Rightarrow> msg option \<Rightarrow> lifecycle_row" where
  "row_of_lifecycle c timestamp event_type decision reason message =
     \<lparr>lv_timestamp = timestamp, lv_event_type = event_type, lv_session_id = lc_session_id c,
      lv_strategy_code = lc_strategy_code c, lv_selected_contract_symbol = lc_selected_contract_symbol c,
      lv_reason_code = (case decision of Some d \<Rightarrow> Some (ld_exit_reason_code d) | None \<Rightarrow> reason),
      lv_message = (case decision of Some d \<Rightarrow> Some (ld_message d) | None \<Rightarrow> message),
      lv_guardrail_code = Option.bind decision ld_guardrail_code,
      lv_guardrail_message = Option.bind decision ld_guardrail_message,
      lv_blocking_source_id = Option.bind decision ld_blocking_source_id,
      lv_operator_action_required = Option.bind decision ld_operator_action_required,
      lv_source_kind = Option.bind decision ld_source_kind, lv_source_type = Option.bind decision ld_source_type,
      lv_source_id = Option.bind decision ld_source_id\<rparr>"

text \<open>\<^verbatim>\<open>_text_or_none\<close> of a message; the messages of a lifecycle are single texts.\<close>

fun message_or_none :: "msg option \<Rightarrow> msg option" where
  "message_or_none (Some [Txt t]) = map_option (\<lambda>t. [Txt t]) (optional_text (Some t))"
| "message_or_none m = m"

definition journal_of_lifecycle_row :: "lifecycle_context \<Rightarrow> lifecycle_row \<Rightarrow> journal_row" where
  "journal_of_lifecycle_row c r =
     \<lparr>jr_timestamp = Some (lv_timestamp r), jr_event_type = lv_event_type r, jr_session_id = lc_session_id c,
      jr_strategy_code = lc_strategy_code c, jr_terminal_state = ORDER_PLANNED, jr_status = lv_event_type r,
      jr_reason_code = optional_text (lv_reason_code r), jr_message = (case lv_message r of None \<Rightarrow> [Txt []] | Some m \<Rightarrow> m),
      jr_selected_contract_symbol = lc_selected_contract_symbol c, jr_guardrail_code = optional_text (lv_guardrail_code r),
      jr_guardrail_message = message_or_none (lv_guardrail_message r),
      jr_blocking_source_id = optional_text (lv_blocking_source_id r),
      jr_operator_action_required = optional_text (lv_operator_action_required r)\<rparr>"

definition lifecycle_summary :: "lifecycle_context \<Rightarrow> simulated_position option \<Rightarrow> lifecycle_decision \<Rightarrow> execution_summary" where
  "lifecycle_summary c position d = (lc_execution_summary c)
     \<lparr>ex_status := Some (lifecycle_status_value (ld_status d)), ex_lifecycle := Some d, ex_position_opened := (position \<noteq> None),
      ex_position_closed := (ld_status d \<in> {LIFECYCLE_CLOSED, LIFECYCLE_EOD}), ex_order_placed := False,
      ex_fill_simulated := True, ex_lifecycle_simulated := True, ex_future_fill_simulation_eligible := False,
      ex_terminal_reason_code := Some (ld_exit_reason_code d), ex_message := Some (ld_message d),
      ex_guardrail_code := ld_guardrail_code d, ex_guardrail_message := ld_guardrail_message d,
      ex_blocking_source_id := ld_blocking_source_id d, ex_operator_action_required := ld_operator_action_required d\<rparr>"

definition pnl_of_decision :: "lifecycle_context \<Rightarrow> lifecycle_decision \<Rightarrow> pnl_summary" where
  "pnl_of_decision c d =
     \<lparr>pn_status = ld_status d, pn_selected_contract_symbol = lc_selected_contract_symbol c, pn_entry_price = lc_entry_price c,
      pn_exit_price = ld_exit_price d, pn_quantity = lc_quantity c, pn_lots = lc_lots c,
      pn_gross_pnl_rupees = ld_gross_pnl_rupees d, pn_brokerage_rupees = ld_brokerage_rupees d,
      pn_net_pnl_rupees = ld_net_pnl_rupees d\<rparr>"

record lifecycle_artifacts =
  la_paper_position :: bool
  la_paper_pnl_summary :: bool

definition persist_lifecycle ::
  "lifecycle_context \<Rightarrow> simulated_position option \<Rightarrow> lifecycle_decision \<Rightarrow> lifecycle_row list \<Rightarrow>
   (lifecycle_artifacts, session_files) op" where
  "persist_lifecycle c position d rows f =
     (let f1 = (case position of Some p \<Rightarrow> f\<lparr>xf_paper_position := Some p\<rparr> | None \<Rightarrow> f);
          f2 = f1\<lparr>xf_lifecycle_events := Some rows, xf_paper_exit := Some d,
            xf_paper_pnl_summary := (if ld_gross_pnl_rupees d \<noteq> None then Some (pnl_of_decision c d) else None),
            xf_execution_journal := lc_execution_journal c @ map (journal_of_lifecycle_row c) rows,
            xf_execution_summary := Some (lifecycle_summary c position d)\<rparr>
      in (Inr \<lparr>la_paper_position = (xf_paper_position f2 \<noteq> None), la_paper_pnl_summary = (ld_gross_pnl_rupees d \<noteq> None)\<rparr>, f2))"

section \<open>The simulation\<close>

definition existing_lifecycle_attempt :: "session_files \<Rightarrow> bool" where
  "existing_lifecycle_attempt d \<longleftrightarrow> xf_paper_position d \<noteq> None \<or> xf_paper_exit d \<noteq> None \<or>
     xf_paper_pnl_summary d \<noteq> None \<or> xf_lifecycle_events d \<noteq> None"

definition lifecycle_timestamp :: "datetime option \<Rightarrow> selected_event list \<Rightarrow> datetime option \<Rightarrow> datetime option" where
  "lifecycle_timestamp created_at events fallback = (case created_at of Some t \<Rightarrow> Some t
     | None \<Rightarrow> fold (\<lambda>e latest. let t = en_captured_at (event_envelope_of e) in
         case latest of None \<Rightarrow> Some t | Some u \<Rightarrow> if t > u then Some t else Some u) events fallback)"

definition lifecycle_phase_inputs :: "lifecycle_simulator \<Rightarrow> lifecycle_context \<Rightarrow> session_files \<Rightarrow> lifecycle_inputs" where
  "lifecycle_phase_inputs lz c d =
     \<lparr>li_replay_bundle_validation_performed = lc_replay_bundle_validation_performed c,
      li_replay_bundle_valid = lc_replay_bundle_valid c, li_replay_bundle_errors = lc_replay_bundle_errors c,
      li_fill_status = (if truthy_text (lc_runtime_fill_status c) then lc_runtime_fill_status c
        else summary_fill_text (lc_execution_summary c) (\<lambda>f. Some (fill_status_value (fl_status f)))),
      li_selected_contract_symbol = lc_selected_contract_symbol c,
      li_fill_selected_contract_symbol = lc_fill_selected_contract_symbol c,
      li_target_price_available = (lc_target_price c \<noteq> None),
      li_stoploss_or_fsl_available = (lc_effective_stop_price c \<noteq> None),
      li_duplicate_lifecycle_attempt = existing_lifecycle_attempt d,
      li_same_day_only_policy_confirmed = Some (gs_same_day_only_policy_confirmed (lz_guardrails lz))\<rparr>"

definition opening_rows :: "lifecycle_context \<Rightarrow> simulated_position \<Rightarrow> lifecycle_row list" where
  "opening_rows c p =
     [row_of_lifecycle c (lo_entry_timestamp p) ''PAPER_POSITION_OPEN'' None None None,
      row_of_lifecycle c (lo_entry_timestamp p) ''PAPER_EXIT_PENDING'' None (Some ''same_day_lifecycle_monitoring_started'')
        (Some [Txt ''Phase 2 same-day lifecycle monitoring started after the paper fill.''])]"

text \<open>The last row of the lifecycle tells its outcome; a missing timestamp fails on \<^verbatim>\<open>isoformat\<close>.\<close>

definition record_outcome ::
  "lifecycle_context \<Rightarrow> simulated_position option \<Rightarrow> lifecycle_decision \<Rightarrow> datetime option \<Rightarrow> lifecycle_row list \<Rightarrow>
   (lifecycle_artifacts, session_files) op" where
  "record_outcome c position d timestamp rows =
     (case timestamp of
        None \<Rightarrow> liftS (Inl (AttributeError [Txt ''NoneType object has no attribute isoformat'']))
      | Some t \<Rightarrow> persist_lifecycle c position d
          (rows @ [row_of_lifecycle c t (lifecycle_status_value (ld_status d)) (Some d) None None]))"

definition open_lifecycle ::
  "lifecycle_simulator \<Rightarrow> lifecycle_context \<Rightarrow> datetime option \<Rightarrow> selected_event list \<Rightarrow> (lifecycle_artifacts, session_files) op" where
  "open_lifecycle lz c now events =
     bindS (liftS (build_position c)) (\<lambda>p.
     bindS (liftS (if gs_manual_operator_abort_during_lifecycle (lz_guardrails lz)
         then manual_abort_decision lz c events else evaluate_market_events lz c events)) (\<lambda>d.
     record_outcome c (Some p) d (or_else (ld_exit_timestamp d) now) (opening_rows c p)))"

definition simulate_lifecycle ::
  "lifecycle_simulator \<Rightarrow> selected_event list \<Rightarrow> datetime option \<Rightarrow> (lifecycle_artifacts, session_files) op" where
  "simulate_lifecycle lz events created_at =
     (\<lambda>d. bindS (liftS (load_lifecycle_context lz d)) (\<lambda>c.
        let now = lifecycle_timestamp created_at events (lc_fill_timestamp c) in
        case evaluate_lifecycle_phase (lz_guardrails lz) (lifecycle_phase_inputs lz c d) of
          Some g \<Rightarrow> bindS (liftS (build_abort_decision lz c now g)) (\<lambda>d. record_outcome c None d now [])
        | None \<Rightarrow> open_lifecycle lz c now events) d)"

end
