(* ===== verification/SessionLifecycleSpec.thy ===== *)
theory SessionLifecycleSpec
  imports SessionLifecycle
begin

text \<open>
  What a run of the lifecycle simulator guarantees: the exit rule of a single event, the choice of
  the event that ends the position, the recorded profit or loss, and what a second run or a run
  without a fill leaves behind.
\<close>

section \<open>The exit rule\<close>

text \<open>The reason and the price at which an event ends a short position; a stop comes first.\<close>

fun exit_rule :: "lifecycle_simulator \<Rightarrow> lifecycle_context \<Rightarrow> selected_event \<Rightarrow> (string \<times> price) option" where
  "exit_rule lz c (QuoteEvent q) =
     (case (exit_reference q, lc_target_price c, lc_effective_stop_price c) of
        (Some r, Some target, Some stop) \<Rightarrow>
          if spread_too_wide (lz_guardrails lz) q then None
          else if stop \<le> r then Some (''stoploss_or_fsl_hit'', r + lc_slippage_exit_points c)
          else if r \<le> target then Some (''target_hit'', target + lc_slippage_exit_points c) else None
      | _ \<Rightarrow> None)"
| "exit_rule lz c (BarEvent b) =
     (case (sb_high b, sb_low b, sb_close b, lc_target_price c, lc_effective_stop_price c) of
        (Some high, Some low, Some _, Some target, Some stop) \<Rightarrow>
          if stop \<le> high then Some (if low \<le> target then ''same_bar_target_stop_conflict_stoploss_wins''
              else ''stoploss_or_fsl_hit'', stop + lc_slippage_exit_points c)
          else if low \<le> target then Some (''target_hit'', target + lc_slippage_exit_points c) else None
      | _ \<Rightarrow> None)"

definition foreign_to :: "lifecycle_context \<Rightarrow> selected_event \<Rightarrow> bool" where
  "foreign_to c e \<longleftrightarrow> Some (event_symbol e) \<noteq> lc_selected_contract_symbol c"

definition in_play :: "lifecycle_simulator \<Rightarrow> lifecycle_context \<Rightarrow> selected_event \<Rightarrow> bool" where
  "in_play lz c e \<longleftrightarrow> \<not> outside_session lz c e \<and> \<not> stale_lifecycle_event lz e"

definition decisive :: "lifecycle_simulator \<Rightarrow> lifecycle_context \<Rightarrow> selected_event \<Rightarrow> bool" where
  "decisive lz c e \<longleftrightarrow> foreign_to c e \<or> (in_play lz c e \<and> exit_rule lz c e \<noteq> None)"

definition last_in_play :: "lifecycle_simulator \<Rightarrow> lifecycle_context \<Rightarrow> selected_event list \<Rightarrow> selected_event option \<Rightarrow> selected_event option" where
  "last_in_play lz c es init = fold (\<lambda>e l. if in_play lz c e then Some e else l) es init"

text \<open>The price of the square-off: the last usable event's, if it is late enough and has one.\<close>

definition square_off_at :: "lifecycle_simulator \<Rightarrow> lifecycle_context \<Rightarrow> selected_event option \<Rightarrow> price option" where
  "square_off_at lz c l = (case l of None \<Rightarrow> None
     | Some e \<Rightarrow> if usable_for_eod lz c e then map_option (\<lambda>p. p + lc_slippage_exit_points c) (square_off_price e) else None)"

section \<open>Decisions\<close>

lemma with_event_source_simps [simp]:
  "ld_status (with_event_source e d) = ld_status d" "ld_exit_reason_code (with_event_source e d) = ld_exit_reason_code d"
  "ld_entry_price (with_event_source e d) = ld_entry_price d" "ld_quantity (with_event_source e d) = ld_quantity d"
  "ld_guardrail_code (with_event_source e d) = ld_guardrail_code d"
  by (cases e; simp add: Let_def)+

lemma decision_base_simps [simp]:
  "ld_status (decision_base c s t code m f) = s" "ld_exit_reason_code (decision_base c s t code m f) = code"
  "ld_exit_price (decision_base c s t code m f) = None" "ld_gross_pnl_rupees (decision_base c s t code m f) = None"
  "ld_net_pnl_rupees (decision_base c s t code m f) = None"
  by (simp_all add: decision_base_def)

lemma abort_from_reason_simps [simp]:
  "ld_status (abort_from_reason c t code m f i) = LIFECYCLE_ABORTED" "ld_exit_price (abort_from_reason c t code m f i) = None"
  "ld_gross_pnl_rupees (abort_from_reason c t code m f i) = None"
  "ld_exit_timestamp (abort_from_reason c t code m f i) = Some t"
  by (simp_all add: abort_from_reason_def)

lemma with_warning_simps [simp]:
  "ld_status (with_warning d w) = ld_status d" "ld_exit_reason_code (with_warning d w) = ld_exit_reason_code d"
  "ld_exit_price (with_warning d w) = ld_exit_price d" "ld_exit_timestamp (with_warning d w) = ld_exit_timestamp d"
  "ld_gross_pnl_rupees (with_warning d w) = ld_gross_pnl_rupees d" "ld_net_pnl_rupees (with_warning d w) = ld_net_pnl_rupees d"
  by (simp_all add: with_warning_def)

text \<open>A decision that ends the position at a price, with the profit or loss of that price.\<close>

definition priced_exit :: "lifecycle_context \<Rightarrow> price \<Rightarrow> price \<Rightarrow> lifecycle_decision \<Rightarrow> bool" where
  "priced_exit c entry p d \<longleftrightarrow> ld_exit_price d = Some (py_round 6 p) \<and>
     (let gross = py_round 6 ((entry - p) * of_int (lc_quantity c)) in
      ld_gross_pnl_rupees d = Some gross \<and>
      ld_net_pnl_rupees d = Some (py_round 6 (gross - py_round 6 (lc_brokerage_per_lot c * of_int (lc_lots c)))))"

lemma priced_exit_with_warning [simp]: "priced_exit c entry p (with_warning d w) = priced_exit c entry p d"
  by (simp add: priced_exit_def)

lemma build_exit_decision_outcome:
  assumes "lc_entry_price c = Some entry"
  shows "\<exists>d. build_exit_decision c status code message p e flags = Inr d \<and> ld_status d = status \<and>
    ld_exit_reason_code d = code \<and> ld_exit_timestamp d = Some (event_moment e) \<and> priced_exit c entry p d"
  using assms by (simp add: build_exit_decision_def priced_exit_def Let_def)

lemma evaluate_lifecycle_event_outcome:
  assumes "lc_entry_price c = Some entry"
  shows "case exit_rule lz c e of
      None \<Rightarrow> evaluate_lifecycle_event lz c e = Inr None
    | Some (code, p) \<Rightarrow> \<exists>d. evaluate_lifecycle_event lz c e = Inr (Some d) \<and> ld_status d = LIFECYCLE_CLOSED \<and>
        ld_exit_reason_code d = code \<and> ld_exit_timestamp d = Some (event_moment e) \<and> priced_exit c entry p d"
proof -
  have exit: "\<exists>d'. bindE (build_exit_decision c LIFECYCLE_CLOSED code message p ev flags) (\<lambda>d. Inr (Some d)) = Inr (Some d') \<and>
      ld_status d' = LIFECYCLE_CLOSED \<and> ld_exit_reason_code d' = code \<and> ld_exit_timestamp d' = Some (event_moment ev) \<and>
      priced_exit c entry p d'" for code message p ev flags
    using build_exit_decision_outcome [OF assms] by (metis bindE_simps(2))
  show ?thesis
  proof (cases e)
    case (QuoteEvent q)
    then show ?thesis
      by (cases "exit_reference q"; cases "lc_target_price c"; cases "lc_effective_stop_price c";
          cases "spread_too_wide (lz_guardrails lz) q")
        (simp_all add: evaluate_lifecycle_quote_def max_absorb1 max_absorb2 exit del: event_moment.simps)
  next
    case (BarEvent b)
    then show ?thesis
      by (cases "sb_high b"; cases "sb_low b"; cases "sb_close b"; cases "lc_target_price c"; cases "lc_effective_stop_price c")
        (simp_all add: evaluate_lifecycle_bar_def exit del: event_moment.simps)
  qed
qed

lemma close_of_session_outcome:
  assumes "lc_entry_price c = Some entry"
  shows "\<exists>d. close_of_session lz c l stale = Inr d \<and> ld_exit_timestamp d \<noteq> None \<and> (case square_off_at lz c l of
      Some p \<Rightarrow> ld_status d = LIFECYCLE_EOD \<and> priced_exit c entry p d
    | None \<Rightarrow> ld_status d = LIFECYCLE_ABORTED \<and> ld_gross_pnl_rupees d = None \<and> ld_exit_price d = None)"
proof (cases l)
  case None
  then show ?thesis by (simp add: close_of_session_def square_off_at_def)
next
  case (Some e)
  show ?thesis
  proof (cases "usable_for_eod lz c e \<and> square_off_price e \<noteq> None")
    case True
    then obtain p where p: "square_off_price e = Some p" by auto
    have "\<exists>d. build_exit_decision c LIFECYCLE_EOD code message (p + lc_slippage_exit_points c) e flags = Inr d \<and>
        ld_exit_timestamp d \<noteq> None \<and> ld_status d = LIFECYCLE_EOD \<and> priced_exit c entry (p + lc_slippage_exit_points c) d"
      for code message flags
      using build_exit_decision_outcome [OF assms, where e = e and status = LIFECYCLE_EOD and code = code
        and message = message and flags = flags] by fastforce
    with True p Some show ?thesis by (simp add: close_of_session_def square_off_at_def eod_square_off_def)
  next
    case False
    with Some show ?thesis by (auto simp: close_of_session_def square_off_at_def eod_square_off_def)
  qed
qed

section \<open>The loop\<close>

definition lifecycle_outcome ::
  "lifecycle_simulator \<Rightarrow> lifecycle_context \<Rightarrow> price \<Rightarrow> selected_event option \<Rightarrow> selected_event list \<Rightarrow> lifecycle_decision \<Rightarrow> bool" where
  "lifecycle_outcome lz c entry l es d =
     (case find (decisive lz c) es of
        Some e \<Rightarrow> if foreign_to c e then ld_status d = LIFECYCLE_ABORTED \<and> ld_gross_pnl_rupees d = None \<and> ld_exit_price d = None
          else (\<exists>code p. exit_rule lz c e = Some (code, p) \<and> ld_status d = LIFECYCLE_CLOSED \<and> ld_exit_reason_code d = code \<and>
            ld_exit_timestamp d = Some (event_moment e) \<and> priced_exit c entry p d)
      | None \<Rightarrow> (case square_off_at lz c (last_in_play lz c es l) of
            Some p \<Rightarrow> ld_status d = LIFECYCLE_EOD \<and> priced_exit c entry p d
          | None \<Rightarrow> ld_status d = LIFECYCLE_ABORTED \<and> ld_gross_pnl_rupees d = None \<and> ld_exit_price d = None))"

lemma lifecycle_loop_outcome:
  assumes entry: "lc_entry_price c = Some entry"
  shows "\<exists>d. lifecycle_loop lz c l stale es = Inr d \<and> ld_exit_timestamp d \<noteq> None \<and> lifecycle_outcome lz c entry l es d"
proof (induction es arbitrary: l stale)
  case Nil
  then show ?case
    using close_of_session_outcome [OF entry, where l = l and stale = stale and lz = lz]
    by (simp add: lifecycle_outcome_def last_in_play_def)
next
  case (Cons e es)
  show ?case
  proof (cases "foreign_to c e")
    case True
    then show ?thesis by (simp add: lifecycle_outcome_def decisive_def foreign_to_def del: event_moment.simps)
  next
    case own: False
    show ?thesis
    proof (cases "in_play lz c e \<and> exit_rule lz c e \<noteq> None")
      case True
      then obtain code p where rule: "exit_rule lz c e = Some (code, p)" by auto
      from evaluate_lifecycle_event_outcome [OF entry, where lz = lz and e = e] rule
      obtain d where d: "evaluate_lifecycle_event lz c e = Inr (Some d)" "ld_status d = LIFECYCLE_CLOSED"
        "ld_exit_reason_code d = code" "ld_exit_timestamp d = Some (event_moment e)" "priced_exit c entry p d" by auto
      with own True rule show ?thesis
        by (simp add: lifecycle_outcome_def decisive_def foreign_to_def in_play_def)
    next
      case False
      from own False have nd: "\<not> decisive lz c e" by (simp add: decisive_def)
      have skip: "lifecycle_outcome lz c entry l (e # es) d =
          lifecycle_outcome lz c entry (if in_play lz c e then Some e else l) es d" for d
      proof -
        have "find (decisive lz c) (e # es) = find (decisive lz c) es" using nd by simp
        moreover have "last_in_play lz c (e # es) l = last_in_play lz c es (if in_play lz c e then Some e else l)"
          by (simp add: last_in_play_def)
        ultimately show ?thesis by (simp only: lifecycle_outcome_def)
      qed
      have none: "evaluate_lifecycle_event lz c e = Inr None" if "in_play lz c e"
        using that False evaluate_lifecycle_event_outcome [OF entry, where lz = lz and e = e]
        by (cases "exit_rule lz c e") auto
      from own False none Cons.IH show ?thesis
        unfolding skip by (auto simp: foreign_to_def in_play_def)
    qed
  qed
qed

text \<open>
  C27: the events, in time order, are searched for the first that belongs to another contract or that is in
  play (after the fill, on the session's day, before the cutoff, not stale) and meets the exit rule of a
  short position, in which a stop is tested before the target and a target is never paid below its own
  price. A foreign event aborts; an exit closes at the rule's price plus slippage and the event's time.
  Without one the position is squared off at the last event in play if it is inside the window before
  the cutoff and has a price; otherwise the lifecycle aborts with no exit price. The run always returns.
\<close>
theorem exit_at_first_decisive_event:
  assumes "lc_fill_timestamp c = Some filled" and "lc_entry_price c = Some entry" and "events \<noteq> []"
  shows "\<exists>d. evaluate_market_events lz c events = Inr d \<and>
    (let es = sort_key lifecycle_event_order events in
     case find (decisive lz c) es of
       Some e \<Rightarrow> if foreign_to c e then ld_status d = LIFECYCLE_ABORTED \<and> ld_exit_price d = None
         else (\<exists>code p. exit_rule lz c e = Some (code, p) \<and> ld_status d = LIFECYCLE_CLOSED \<and> ld_exit_reason_code d = code \<and>
           ld_exit_timestamp d = Some (event_moment e) \<and> ld_exit_price d = Some (py_round 6 p))
     | None \<Rightarrow> (case square_off_at lz c (last_in_play lz c es None) of
           Some p \<Rightarrow> ld_status d = LIFECYCLE_EOD \<and> ld_exit_price d = Some (py_round 6 p)
         | None \<Rightarrow> ld_status d = LIFECYCLE_ABORTED \<and> ld_exit_price d = None))"
proof -
  let ?es = "sort_key lifecycle_event_order events"
  from lifecycle_loop_outcome [OF assms(2)] obtain d where
    d: "lifecycle_loop lz c None False ?es = Inr d" "lifecycle_outcome lz c entry None ?es d" by blast
  with assms have "evaluate_market_events lz c events = Inr d" by (simp add: evaluate_market_events_def)
  moreover from d(2) have "case find (decisive lz c) ?es of
       Some e \<Rightarrow> if foreign_to c e then ld_status d = LIFECYCLE_ABORTED \<and> ld_exit_price d = None
         else (\<exists>code p. exit_rule lz c e = Some (code, p) \<and> ld_status d = LIFECYCLE_CLOSED \<and> ld_exit_reason_code d = code \<and>
           ld_exit_timestamp d = Some (event_moment e) \<and> ld_exit_price d = Some (py_round 6 p))
     | None \<Rightarrow> (case square_off_at lz c (last_in_play lz c ?es None) of
           Some p \<Rightarrow> ld_status d = LIFECYCLE_EOD \<and> ld_exit_price d = Some (py_round 6 p)
         | None \<Rightarrow> ld_status d = LIFECYCLE_ABORTED \<and> ld_exit_price d = None)"
    by (cases "find (decisive lz c) ?es"; cases "square_off_at lz c (last_in_play lz c ?es None)")
      (auto simp: lifecycle_outcome_def priced_exit_def split: if_splits)
  ultimately show ?thesis by (auto simp: Let_def)
qed

section \<open>Profit and loss\<close>

lemma three_errors:
  fixes net g b b' x y z :: rat
  assumes "\<bar>g - x\<bar> \<le> 1 / 2000000" and "\<bar>b' - b\<bar> \<le> 1 / 2000000" and "\<bar>net - (g - b')\<bar> \<le> 1 / 2000000"
    and "\<bar>z\<bar> \<le> q / 2000000" and "x = y + z"
  shows "\<bar>net - (y - b)\<bar> \<le> (3 + q) / 2000000"
  using assms unfolding abs_le_iff add_divide_distrib by linarith

lemma pnl_error:
  fixes entry p b :: price
  assumes "net = py_round 6 (py_round 6 ((entry - p) * of_int q) - py_round 6 b)"
  shows "\<bar>net - ((entry - py_round 6 p) * of_int q - b)\<bar> \<le> (3 + of_int \<bar>q\<bar>) / 2000000"
proof -
  let ?g = "py_round 6 ((entry - p) * of_int q)"
  have p: "\<bar>py_round 6 p - p\<bar> \<le> 1 / 2000000" using py_round_error [of 6 p] by simp
  show ?thesis
  proof (rule three_errors)
    show "\<bar>?g - (entry - p) * of_int q\<bar> \<le> 1 / 2000000" using py_round_error [of 6 "(entry - p) * of_int q"] by simp
    show "\<bar>py_round 6 b - b\<bar> \<le> 1 / 2000000" using py_round_error [of 6 b] by simp
    show "\<bar>net - (?g - py_round 6 b)\<bar> \<le> 1 / 2000000" using py_round_error [of 6 "?g - py_round 6 b"] assms by simp
    show "\<bar>(py_round 6 p - p) * of_int q\<bar> \<le> of_int \<bar>q\<bar> / 2000000"
      using mult_right_mono [OF p, of "of_int \<bar>q\<bar>"] by (simp add: abs_mult)
    show "(entry - p) * of_int q = (entry - py_round 6 p) * of_int q + (py_round 6 p - p) * of_int q"
      by (simp add: algebra_simps)
  qed
qed

definition accounted :: "lifecycle_context \<Rightarrow> lifecycle_decision \<Rightarrow> bool" where
  "accounted c d \<longleftrightarrow> (ld_gross_pnl_rupees d \<noteq> None \<longrightarrow> (\<exists>entry p. lc_entry_price c = Some entry \<and> priced_exit c entry p d))"

lemma evaluate_market_events_accounted: "evaluate_market_events lz c events = Inr d \<Longrightarrow> accounted c d"
proof (cases "lc_fill_timestamp c"; cases "lc_entry_price c")
  fix filled entry
  assume run: "evaluate_market_events lz c events = Inr d" and c: "lc_fill_timestamp c = Some filled" "lc_entry_price c = Some entry"
  show ?thesis
  proof (cases "events = []")
    case True
    with run c show ?thesis by (auto simp: evaluate_market_events_def accounted_def)
  next
    case False
    with run c lifecycle_loop_outcome [OF c(2), where lz = lz and l = None and stale = False
        and es = "sort_key lifecycle_event_order events"]
    have "lifecycle_outcome lz c entry None (sort_key lifecycle_event_order events) d"
      by (auto simp: evaluate_market_events_def)
    with c show ?thesis by (auto simp: lifecycle_outcome_def accounted_def split: option.splits if_splits)
  qed
qed (auto simp: evaluate_market_events_def accounted_def)

lemma manual_abort_accounted: "manual_abort_decision lz c events = Inr d \<Longrightarrow> accounted c d"
  by (auto simp: manual_abort_decision_def accounted_def bindE_eq_Inr build_exit_decision_def priced_exit_def Let_def
      split: option.splits)

lemma persist_lifecycle_files:
  assumes "persist_lifecycle c position d rows f = (Inr a, f')"
  shows "xf_paper_exit f' = Some d" and "xf_lifecycle_events f' = Some rows"
    and "xf_paper_pnl_summary f' = (if ld_gross_pnl_rupees d \<noteq> None then Some (pnl_of_decision c d) else None)"
    and "la_paper_pnl_summary a \<longleftrightarrow> ld_gross_pnl_rupees d \<noteq> None"
    and "xf_execution_summary f' = Some (lifecycle_summary c position d)"
    and "xf_paper_position f' = (case position of Some p \<Rightarrow> Some p | None \<Rightarrow> xf_paper_position f)"
    and "xf_paper_fill f' = xf_paper_fill f"
  using assms by (auto simp: persist_lifecycle_def Let_def split: option.splits)

lemma persist_lifecycle_returns: "\<exists>a f'. persist_lifecycle c position d rows f = (Inr a, f')"
  by (simp add: persist_lifecycle_def Let_def)

lemma lifecycle_phase_clear:
  "evaluate_lifecycle_phase s i = None \<Longrightarrow> li_fill_status i = Some ''PAPER_ORDER_FILLED'' \<and> \<not> li_duplicate_lifecycle_attempt i \<and>
    li_selected_contract_symbol i = li_fill_selected_contract_symbol i"
  unfolding evaluate_lifecycle_phase_def by (simp split: if_splits)

lemma abort_decision_no_pnl: "build_abort_decision lz c now g = Inr d \<Longrightarrow> ld_gross_pnl_rupees d = None"
  by (auto simp: build_abort_decision_def bindE_eq_Inr)

lemma record_outcome_Inr:
  "record_outcome c position d t rows f = (Inr a, f') \<Longrightarrow> \<exists>rows'. persist_lifecycle c position d rows' f = (Inr a, f')"
  by (auto simp: record_outcome_def split: option.splits)

text \<open>
  A run that leaves a P&L summary behind was the first on its session, found a filled order of the
  planned contract, and the recorded net result is the recorded entry minus the recorded exit price, times
  the quantity, less the brokerage of the lots, up to the rounding to six decimals.
\<close>
theorem recorded_pnl:
  assumes "simulate_lifecycle lz events created_at d = (Inr a, d')" and "la_paper_pnl_summary a"
  shows "\<exists>c s entry exit net. load_lifecycle_context lz d = Inr c \<and> \<not> existing_lifecycle_attempt d \<and>
    li_fill_status (lifecycle_phase_inputs lz c d) = Some ''PAPER_ORDER_FILLED'' \<and>
    lc_selected_contract_symbol c = lc_fill_selected_contract_symbol c \<and>
    xf_paper_pnl_summary d' = Some s \<and> pn_entry_price s = Some entry \<and> pn_exit_price s = Some exit \<and>
    pn_net_pnl_rupees s = Some net \<and>
    \<bar>net - ((entry - exit) * of_int (pn_quantity s) - lc_brokerage_per_lot c * of_int (pn_lots s))\<bar> \<le>
      (3 + of_int \<bar>pn_quantity s\<bar>) / 2000000"
proof -
  from assms(1) obtain c where c: "load_lifecycle_context lz d = Inr c"
    by (auto simp: simulate_lifecycle_def bindS_def liftS_def split: sum.splits)
  let ?now = "lifecycle_timestamp created_at events (lc_fill_timestamp c)"
  let ?i = "lifecycle_phase_inputs lz c d"
  have clear: "evaluate_lifecycle_phase (lz_guardrails lz) ?i = None"
  proof (rule ccontr)
    assume "evaluate_lifecycle_phase (lz_guardrails lz) ?i \<noteq> None"
    then obtain g where "evaluate_lifecycle_phase (lz_guardrails lz) ?i = Some g" by auto
    with assms(1) c obtain ld where ld: "build_abort_decision lz c ?now g = Inr ld" "record_outcome c None ld ?now [] d = (Inr a, d')"
      by (auto simp: simulate_lifecycle_def Let_def bindS_Inr)
    with record_outcome_Inr obtain rows where "persist_lifecycle c None ld rows d = (Inr a, d')" by blast
    from persist_lifecycle_files(4) [OF this] abort_decision_no_pnl [OF ld(1)] assms(2) show False by simp
  qed
  with assms(1) c have "open_lifecycle lz c ?now events d = (Inr a, d')" by (simp add: simulate_lifecycle_def Let_def)
  then obtain p ld rows where run: "(if gs_manual_operator_abort_during_lifecycle (lz_guardrails lz)
      then manual_abort_decision lz c events else evaluate_market_events lz c events) = Inr ld"
      "record_outcome c (Some p) ld (or_else (ld_exit_timestamp ld) ?now) rows d = (Inr a, d')"
    by (auto simp: open_lifecycle_def bindS_Inr)
  then have "accounted c ld" by (auto split: if_splits dest: manual_abort_accounted evaluate_market_events_accounted)
  moreover from run(2) record_outcome_Inr obtain rows' where files: "persist_lifecycle c (Some p) ld rows' d = (Inr a, d')" by blast
  moreover have "ld_gross_pnl_rupees ld \<noteq> None" using persist_lifecycle_files(4) [OF files] assms(2) by blast
  ultimately obtain entry q where q: "lc_entry_price c = Some entry" "priced_exit c entry q ld"
    "xf_paper_pnl_summary d' = Some (pnl_of_decision c ld)"
    using persist_lifecycle_files(3) [OF files] by (auto simp: accounted_def)
  obtain net where net: "ld_net_pnl_rupees ld = Some net" and
      net_eq: "net = py_round 6 (py_round 6 ((entry - q) * of_int (lc_quantity c)) - py_round 6 (lc_brokerage_per_lot c * of_int (lc_lots c)))"
    using q(2) by (simp add: priced_exit_def Let_def)
  show ?thesis
    using c q lifecycle_phase_clear [OF clear] net pnl_error [OF net_eq]
    by (auto simp: lifecycle_phase_inputs_def pnl_of_decision_def priced_exit_def Let_def)
qed

section \<open>A second run\<close>

lemma duplicate_blocks_lifecycle: "li_duplicate_lifecycle_attempt i \<Longrightarrow> \<exists>g. evaluate_lifecycle_phase s i = Some g"
  using lifecycle_phase_clear [of s i] by (cases "evaluate_lifecycle_phase s i") auto

lemma blocked_lifecycle_run:
  assumes "load_lifecycle_context lz d = Inr c" and "evaluate_lifecycle_phase (lz_guardrails lz) (lifecycle_phase_inputs lz c d) = Some g"
    and "lifecycle_timestamp created_at events (lc_fill_timestamp c) = Some now"
  shows "\<exists>a d' e. simulate_lifecycle lz events created_at d = (Inr a, d') \<and> xf_paper_exit d' = Some e \<and>
    ld_status e = LIFECYCLE_ABORTED \<and> ld_exit_price e = None \<and> ld_exit_reason_code e = gr_code g \<and> xf_paper_pnl_summary d' = None \<and>
    xf_paper_position d' = xf_paper_position d \<and> xf_paper_fill d' = xf_paper_fill d \<and>
    xf_execution_summary d' = Some (lifecycle_summary c None e)"
proof -
  obtain e where e: "build_abort_decision lz c (Some now) g = Inr e" "ld_status e = LIFECYCLE_ABORTED" "ld_exit_price e = None"
    "ld_gross_pnl_rupees e = None" "ld_exit_reason_code e = gr_code g"
    by (cases "lc_fill_timestamp c") (simp_all add: build_abort_decision_def or_else_def)
  obtain a d' where run: "persist_lifecycle c None e [row_of_lifecycle c now ''PAPER_LIFECYCLE_ABORTED'' (Some e) None None] d = (Inr a, d')"
    using persist_lifecycle_returns by blast
  with assms e have "simulate_lifecycle lz events created_at d = (Inr a, d')"
    by (simp add: simulate_lifecycle_def record_outcome_def Let_def)
  with e persist_lifecycle_files [OF run] show ?thesis by auto
qed

text \<open>
  Running the lifecycle again on a session whose position has already been closed does not leave the
  result alone: the duplicate is blocked, and recording the block replaces the exit by an abort without a
  price and removes the P&L summary of the first run.
\<close>
theorem second_lifecycle_run_erases_pnl:
  assumes "load_lifecycle_context lz d = Inr c" and "existing_lifecycle_attempt d"
    and "lifecycle_timestamp created_at events (lc_fill_timestamp c) = Some now"
  shows "\<exists>a d' e. simulate_lifecycle lz events created_at d = (Inr a, d') \<and> xf_paper_pnl_summary d' = None \<and>
    xf_paper_exit d' = Some e \<and> ld_status e = LIFECYCLE_ABORTED \<and> ld_exit_price e = None \<and>
    xf_paper_position d' = xf_paper_position d"
proof -
  from assms(2) obtain g where g: "evaluate_lifecycle_phase (lz_guardrails lz) (lifecycle_phase_inputs lz c d) = Some g"
    using duplicate_blocks_lifecycle [of "lifecycle_phase_inputs lz c d" "lz_guardrails lz"]
    by (auto simp: lifecycle_phase_inputs_def)
  from blocked_lifecycle_run [OF assms(1) g assms(3)] show ?thesis by blast
qed

text \<open>
  A lifecycle run on a session that was never filled is blocked, and the execution summary it writes
  nevertheless says that a fill was simulated.
\<close>
theorem blocked_lifecycle_claims_fill:
  assumes "load_lifecycle_context lz d = Inr c" and "li_fill_status (lifecycle_phase_inputs lz c d) = None"
    and "lifecycle_timestamp created_at events (lc_fill_timestamp c) = Some now" and "xf_paper_fill d = None"
  shows "\<exists>a d' ex. simulate_lifecycle lz events created_at d = (Inr a, d') \<and> xf_paper_fill d' = None \<and>
    xf_execution_summary d' = Some ex \<and> ex_status ex = Some ''PAPER_LIFECYCLE_ABORTED'' \<and> ex_fill_simulated ex \<and>
    \<not> ex_position_opened ex"
proof -
  have "evaluate_lifecycle_phase (lz_guardrails lz) (lifecycle_phase_inputs lz c d) \<noteq> None"
    using lifecycle_phase_clear [of "lz_guardrails lz" "lifecycle_phase_inputs lz c d"] assms(2) by auto
  then obtain g where g: "evaluate_lifecycle_phase (lz_guardrails lz) (lifecycle_phase_inputs lz c d) = Some g" by blast
  from blocked_lifecycle_run [OF assms(1) g assms(3)] assms(4) show ?thesis by (auto simp: lifecycle_summary_def)
qed

lemma lifecycle_timestamp_Some: "events \<noteq> [] \<Longrightarrow> \<exists>now. lifecycle_timestamp created_at events fallback = Some now"
proof (cases created_at)
  case None
  let ?f = "\<lambda>e latest. let t = en_captured_at (event_envelope_of e) in
         case latest of None \<Rightarrow> Some t | Some u \<Rightarrow> if t > u then Some t else Some u"
  have step: "?f e l \<noteq> None" for e l by (simp add: Let_def split: option.split)
  have keep: "fold ?f es l \<noteq> None" if "l \<noteq> None" for es l
    using that
  proof (induction es arbitrary: l)
    case (Cons e es)
    show ?case unfolding fold_simps by (rule Cons.IH [OF step])
  qed simp
  assume "events \<noteq> []"
  then obtain e es where es: "events = e # es" by (cases events) auto
  have "fold ?f es (?f e fallback) \<noteq> None" by (rule keep [OF step])
  then have "lifecycle_timestamp created_at events fallback \<noteq> None"
    unfolding lifecycle_timestamp_def None es fold_simps option.case .
  then show ?thesis by blast
qed (simp add: lifecycle_timestamp_def)

section \<open>A session that is closed at its target\<close>

definition demo_fill_phase :: review_fill_phase where
  "demo_fill_phase = \<lparr>rp_fill_price = Some 103, rp_fill_timestamp = Some (at_time 10 9000),
     rp_source_kind = Some ''selected_contract_quote'', rp_source_type = Some ''t'', rp_source_id = Some ''i''\<rparr>"

definition demo_lifecycle_simulator :: lifecycle_simulator where
  "demo_lifecycle_simulator = \<lparr>lz_reviewer = (\<lambda>_. Inr (demo_review\<lparr>rv_fill_phase := Some demo_fill_phase\<rparr>)),
     lz_guardrails = default_settings, lz_max_selected_contract_age = 60000000, lz_eod_cutoff = 50000000,
     lz_eod_price_age_window = 300000\<rparr>"

definition demo_exits :: "selected_event list" where
  "demo_exits = [demo_quote 58 30000, demo_quote 90 20000]"

definition demo_closed :: session_files where
  "demo_closed = snd (simulate_lifecycle demo_lifecycle_simulator demo_exits None demo_filled)"

lemma demo_lifecycle_facts:
  "case simulate_lifecycle demo_lifecycle_simulator demo_exits None demo_filled of (r, d) \<Rightarrow>
     r = Inr \<lparr>la_paper_position = True, la_paper_pnl_summary = True\<rparr> \<and>
     map_option pn_net_pnl_rupees (xf_paper_pnl_summary d) = Some (Some 3130) \<and> existing_lifecycle_attempt d \<and>
     isok (load_lifecycle_context demo_lifecycle_simulator d)"
  by code_simp

lemma demo_lifecycle_run:
  "simulate_lifecycle demo_lifecycle_simulator demo_exits None demo_filled =
   (Inr \<lparr>la_paper_position = True, la_paper_pnl_summary = True\<rparr>, demo_closed)"
  using demo_lifecycle_facts unfolding demo_closed_def by (auto simp: prod_eq_iff split: prod.splits)

lemma demo_closed_facts:
  "map_option pn_net_pnl_rupees (xf_paper_pnl_summary demo_closed) = Some (Some 3130)" "existing_lifecycle_attempt demo_closed"
  "isok (load_lifecycle_context demo_lifecycle_simulator demo_closed)"
  using demo_lifecycle_facts unfolding demo_lifecycle_run by auto

lemma recorded_pnl_witness:
  "\<exists>s. xf_paper_pnl_summary demo_closed = Some s \<and> pn_net_pnl_rupees s = Some 3130 \<and> \<not> existing_lifecycle_attempt demo_filled"
  using recorded_pnl [OF demo_lifecycle_run] demo_closed_facts(1) by auto

lemma second_lifecycle_run_erases_pnl_witness:
  "map_option pn_net_pnl_rupees (xf_paper_pnl_summary demo_closed) = Some (Some 3130) \<and>
   (\<exists>a d'. simulate_lifecycle demo_lifecycle_simulator demo_exits None demo_closed = (Inr a, d') \<and> xf_paper_pnl_summary d' = None)"
proof -
  obtain c where c: "load_lifecycle_context demo_lifecycle_simulator demo_closed = Inr c"
    using demo_closed_facts(3) by (rule isokE)
  obtain now where now: "lifecycle_timestamp None demo_exits (lc_fill_timestamp c) = Some now"
    using lifecycle_timestamp_Some [of demo_exits] by (auto simp: demo_exits_def)
  from second_lifecycle_run_erases_pnl [OF c demo_closed_facts(2) now] demo_closed_facts(1) show ?thesis by blast
qed

definition demo_unfilled_simulator :: lifecycle_simulator where
  "demo_unfilled_simulator = demo_lifecycle_simulator\<lparr>lz_reviewer := (\<lambda>_. Inr demo_review)\<rparr>"

lemma blocked_lifecycle_claims_fill_witness:
  "\<exists>a d' ex. simulate_lifecycle demo_unfilled_simulator demo_exits None demo_files = (Inr a, d') \<and> xf_paper_fill d' = None \<and>
     xf_execution_summary d' = Some ex \<and> ex_fill_simulated ex"
proof -
  have "isok (load_lifecycle_context demo_unfilled_simulator demo_files)" by code_simp
  then obtain c where c: "load_lifecycle_context demo_unfilled_simulator demo_files = Inr c" by (rule isokE)
  have "case load_lifecycle_context demo_unfilled_simulator demo_files of Inl _ \<Rightarrow> False
      | Inr c \<Rightarrow> li_fill_status (lifecycle_phase_inputs demo_unfilled_simulator c demo_files) = None" by code_simp
  with c have unfilled: "li_fill_status (lifecycle_phase_inputs demo_unfilled_simulator c demo_files) = None" by simp
  obtain now where now: "lifecycle_timestamp None demo_exits (lc_fill_timestamp c) = Some now"
    using lifecycle_timestamp_Some [of demo_exits] by (auto simp: demo_exits_def)
  have "xf_paper_fill demo_files = None" by (simp add: demo_files_def)
  from blocked_lifecycle_claims_fill [OF c unfilled now this] show ?thesis by blast
qed

definition demo_context :: lifecycle_context where
  "demo_context = (case load_lifecycle_context demo_lifecycle_simulator demo_filled of Inr c \<Rightarrow> c)"

lemma exit_at_first_decisive_event_witness:
  "\<exists>d. evaluate_market_events demo_lifecycle_simulator demo_context demo_exits = Inr d \<and> ld_status d = LIFECYCLE_CLOSED \<and>
     ld_exit_reason_code d = ''target_hit'' \<and> ld_exit_price d = Some 61"
proof -
  have c: "lc_fill_timestamp demo_context = Some (at_time 10 9000)" "lc_entry_price demo_context = Some 103" "demo_exits \<noteq> []"
    by code_simp+
  have find: "find (decisive demo_lifecycle_simulator demo_context) (sort_key lifecycle_event_order demo_exits) = Some (demo_quote 58 30000)"
    and own: "\<not> foreign_to demo_context (demo_quote 58 30000)"
    and rule: "exit_rule demo_lifecycle_simulator demo_context (demo_quote 58 30000) = Some (''target_hit'', 61)"
    and round: "py_round 6 61 = 61" by code_simp+
  from exit_at_first_decisive_event [OF c, where lz = demo_lifecycle_simulator]
  obtain d where run: "evaluate_market_events demo_lifecycle_simulator demo_context demo_exits = Inr d"
    and closed: "\<exists>code p. exit_rule demo_lifecycle_simulator demo_context (demo_quote 58 30000) = Some (code, p) \<and>
      ld_status d = LIFECYCLE_CLOSED \<and> ld_exit_reason_code d = code \<and>
      ld_exit_timestamp d = Some (event_moment (demo_quote 58 30000)) \<and> ld_exit_price d = Some (py_round 6 p)"
    unfolding Let_def find option.case if_not_P [OF own] by blast
  from closed have "ld_status d = LIFECYCLE_CLOSED \<and> ld_exit_reason_code d = ''target_hit'' \<and> ld_exit_price d = Some 61"
    unfolding rule by (auto simp: round)
  with run show ?thesis by blast
qed

end
