(* ===== verification/RuleMatrices.thy ===== *)
theory RuleMatrices
  imports Domain FormulaSpec
begin

text \<open>
  \<^verbatim>\<open>src/tfis/rules/s21_rule_matrix.py\<close> and \<^verbatim>\<open>s23_rule_matrix.py\<close>: the rule sheets of the two
  strategies as tables of legs, and the check of a configured rule against its sheet. The two legs
  classes have the same fields, the record \<open>leg_rule\<close> (prefix \<open>lg_\<close>). A mismatch is the data of its
  message: the name, the expected and the actual value. Section three reads the formulas of
  the sheets as sentences of the formula grammar.
\<close>

section \<open>The sheets\<close>

datatype monthly_group = BULLISH | BEARISH

record leg_rule =
  lg_monthly_group :: monthly_group
  lg_option_type :: option_type
  lg_trade :: string
  lg_unique_code_suffix :: string
  lg_spot_reference_alias :: string
  lg_entry_reference_alias :: string
  lg_structure_sl_reference_alias :: string
  lg_structure_sl_buffer_pct :: price
  lg_allowed_monthly_statuses :: "monthly_status list"
  lg_start_strike_formula :: string
  lg_end_strike_formula :: string
  lg_ideal_premium_formula :: string
  lg_minimum_premium_formula :: string
  lg_entry_formula :: string
  lg_target_formula :: string
  lg_stoploss_formula :: string

definition S21_LEG_RULES :: "(string, leg_rule) dict" where
  "S21_LEG_RULES =
    [(''BANKNIFTY_OP_SELL_MONTHLY_BULL_CALL'',
      \<lparr>lg_monthly_group = BULLISH, lg_option_type = CALL, lg_trade = ''SELL_CALL'', lg_unique_code_suffix = ''BULL_CALL'',
       lg_spot_reference_alias = ''PRV_3DLL'', lg_entry_reference_alias = ''OPT_PRV_3DLL'',
       lg_structure_sl_reference_alias = ''OPT_PRV_2DHH'', lg_structure_sl_buffer_pct = 7,
       lg_allowed_monthly_statuses = [BULL, BULL_CF],
       lg_start_strike_formula = ''ROUND_DOWN(PRV_3DLL + PARAM(strike_buffer_pct)%)'',
       lg_end_strike_formula = ''ROUND_DOWN(PRV_3DLL) - PARAM(strike_step)'',
       lg_ideal_premium_formula = ''PRV_3DLL * PARAM(ideal_premium_pct)%'',
       lg_minimum_premium_formula = ''PRV_3DLL * PARAM(minimum_premium_pct)%'',
       lg_entry_formula = ''OPT_PRV_3DLL - PARAM(entry_discount_pct)%'', lg_target_formula = ''ENTRY - PARAM(target_pct)%'',
       lg_stoploss_formula = ''MIN(ENTRY + PARAM(sl_entry_pct)%, OPT_PRV_2DHH + PARAM(sl_reference_pct)%)''\<rparr>),
     (''BANKNIFTY_OP_SELL_MONTHLY_BULL_PUT'',
      \<lparr>lg_monthly_group = BULLISH, lg_option_type = PUT, lg_trade = ''SELL_PUT'', lg_unique_code_suffix = ''BULL_PUT'',
       lg_spot_reference_alias = ''PRV_2DHH'', lg_entry_reference_alias = ''OPT_PRV_2DLL'',
       lg_structure_sl_reference_alias = ''OPT_PRV_3DHH'', lg_structure_sl_buffer_pct = 10,
       lg_allowed_monthly_statuses = [BULL, BULL_CF],
       lg_start_strike_formula = ''ROUND_UP(PRV_2DHH - PARAM(strike_buffer_pct)%)'',
       lg_end_strike_formula = ''ROUND_UP(PRV_2DHH) + PARAM(strike_step)'',
       lg_ideal_premium_formula = ''PRV_2DHH * PARAM(ideal_premium_pct)%'',
       lg_minimum_premium_formula = ''PRV_2DHH * PARAM(minimum_premium_pct)%'',
       lg_entry_formula = ''OPT_PRV_2DLL - PARAM(entry_discount_pct)%'', lg_target_formula = ''ENTRY - PARAM(target_pct)%'',
       lg_stoploss_formula = ''MIN(ENTRY + PARAM(sl_entry_pct)%, OPT_PRV_3DHH + PARAM(sl_reference_pct)%)''\<rparr>),
     (''BANKNIFTY_OP_SELL_MONTHLY_BEAR_CALL'',
      \<lparr>lg_monthly_group = BEARISH, lg_option_type = CALL, lg_trade = ''SELL_CALL'', lg_unique_code_suffix = ''BEAR_CALL'',
       lg_spot_reference_alias = ''PRV_2DLL'', lg_entry_reference_alias = ''OPT_PRV_2DLL'',
       lg_structure_sl_reference_alias = ''OPT_PRV_3DHH'', lg_structure_sl_buffer_pct = 10,
       lg_allowed_monthly_statuses = [BEAR, BEAR_CF],
       lg_start_strike_formula = ''ROUND_DOWN(PRV_2DLL + PARAM(strike_buffer_pct)%)'',
       lg_end_strike_formula = ''ROUND_DOWN(PRV_2DLL) - PARAM(strike_step)'',
       lg_ideal_premium_formula = ''PRV_2DLL * PARAM(ideal_premium_pct)%'',
       lg_minimum_premium_formula = ''PRV_2DLL * PARAM(minimum_premium_pct)%'',
       lg_entry_formula = ''OPT_PRV_2DLL - PARAM(entry_discount_pct)%'', lg_target_formula = ''ENTRY - PARAM(target_pct)%'',
       lg_stoploss_formula = ''MIN(ENTRY + PARAM(sl_entry_pct)%, OPT_PRV_3DHH + PARAM(sl_reference_pct)%)''\<rparr>),
     (''BANKNIFTY_OP_SELL_MONTHLY_BEAR_PUT'',
      \<lparr>lg_monthly_group = BEARISH, lg_option_type = PUT, lg_trade = ''SELL_PUT'', lg_unique_code_suffix = ''BEAR_PUT'',
       lg_spot_reference_alias = ''PRV_3DHH'', lg_entry_reference_alias = ''OPT_PRV_3DLL'',
       lg_structure_sl_reference_alias = ''OPT_PRV_2DHH'', lg_structure_sl_buffer_pct = 7,
       lg_allowed_monthly_statuses = [BEAR, BEAR_CF],
       lg_start_strike_formula = ''ROUND_UP(PRV_3DHH - PARAM(strike_buffer_pct)%)'',
       lg_end_strike_formula = ''ROUND_UP(PRV_3DHH) + PARAM(strike_step)'',
       lg_ideal_premium_formula = ''PRV_3DHH * PARAM(ideal_premium_pct)%'',
       lg_minimum_premium_formula = ''PRV_3DHH * PARAM(minimum_premium_pct)%'',
       lg_entry_formula = ''OPT_PRV_3DLL - PARAM(entry_discount_pct)%'', lg_target_formula = ''ENTRY - PARAM(target_pct)%'',
       lg_stoploss_formula = ''MIN(ENTRY + PARAM(sl_entry_pct)%, OPT_PRV_2DHH + PARAM(sl_reference_pct)%)''\<rparr>)]"

definition S23_LEG_RULES :: "(string, leg_rule) dict" where
  "S23_LEG_RULES =
    [(''NIFTY_OP_SELL_WK_DIFF_2D_3D'',
      \<lparr>lg_monthly_group = BULLISH, lg_option_type = CALL, lg_trade = ''SELL_CALL'', lg_unique_code_suffix = ''BULL_CALL'',
       lg_spot_reference_alias = ''PRV_3DLL'', lg_entry_reference_alias = ''OPT_PRV_3DLL'',
       lg_structure_sl_reference_alias = ''OPT_PRV_2DHH'', lg_structure_sl_buffer_pct = 7,
       lg_allowed_monthly_statuses = [BULL, BULL_CF],
       lg_start_strike_formula = ''ROUND_DOWN(PRV_3DLL + PARAM(strike_buffer_pct)%)'',
       lg_end_strike_formula = ''ROUND_DOWN(PRV_3DLL) - PARAM(strike_step)'',
       lg_ideal_premium_formula = ''PRV_3DLL * PARAM(ideal_premium_pct)%'',
       lg_minimum_premium_formula = ''PRV_3DLL * PARAM(minimum_premium_pct)%'',
       lg_entry_formula = ''OPT_PRV_3DLL - PARAM(entry_discount_pct)%'', lg_target_formula = ''ENTRY - PARAM(target_pct)%'',
       lg_stoploss_formula = ''MIN(ENTRY + PARAM(sl_entry_pct)%, OPT_PRV_2DHH + PARAM(sl_reference_pct)%)''\<rparr>),
     (''NIFTY_OP_SELL_WK_DIFF_2D_3D_BULL_PUT'',
      \<lparr>lg_monthly_group = BULLISH, lg_option_type = PUT, lg_trade = ''SELL_PUT'', lg_unique_code_suffix = ''BULL_PUT'',
       lg_spot_reference_alias = ''PRV_2DHH'', lg_entry_reference_alias = ''OPT_PRV_2DLL'',
       lg_structure_sl_reference_alias = ''OPT_PRV_3DHH'', lg_structure_sl_buffer_pct = 10,
       lg_allowed_monthly_statuses = [BULL, BULL_CF],
       lg_start_strike_formula = ''ROUND_UP(PRV_2DHH - PARAM(strike_buffer_pct)%)'',
       lg_end_strike_formula = ''ROUND_UP(PRV_2DHH) + PARAM(strike_step)'',
       lg_ideal_premium_formula = ''PRV_2DHH * PARAM(ideal_premium_pct)%'',
       lg_minimum_premium_formula = ''PRV_2DHH * PARAM(minimum_premium_pct)%'',
       lg_entry_formula = ''OPT_PRV_2DLL - PARAM(entry_discount_pct)%'', lg_target_formula = ''ENTRY - PARAM(target_pct)%'',
       lg_stoploss_formula = ''MIN(ENTRY + PARAM(sl_entry_pct)%, OPT_PRV_3DHH + PARAM(sl_reference_pct)%)''\<rparr>),
     (''NIFTY_OP_SELL_WK_DIFF_2D_3D_BEAR_CALL'',
      \<lparr>lg_monthly_group = BEARISH, lg_option_type = CALL, lg_trade = ''SELL_CALL'', lg_unique_code_suffix = ''BEAR_CALL'',
       lg_spot_reference_alias = ''PRV_2DLL'', lg_entry_reference_alias = ''OPT_PRV_2DLL'',
       lg_structure_sl_reference_alias = ''OPT_PRV_3DHH'', lg_structure_sl_buffer_pct = 10,
       lg_allowed_monthly_statuses = [BEAR, BEAR_CF],
       lg_start_strike_formula = ''ROUND_DOWN(PRV_2DLL + PARAM(strike_buffer_pct)%)'',
       lg_end_strike_formula = ''ROUND_DOWN(PRV_2DLL) - PARAM(strike_step)'',
       lg_ideal_premium_formula = ''PRV_2DLL * PARAM(ideal_premium_pct)%'',
       lg_minimum_premium_formula = ''PRV_2DLL * PARAM(minimum_premium_pct)%'',
       lg_entry_formula = ''OPT_PRV_2DLL - PARAM(entry_discount_pct)%'', lg_target_formula = ''ENTRY - PARAM(target_pct)%'',
       lg_stoploss_formula = ''MIN(ENTRY + PARAM(sl_entry_pct)%, OPT_PRV_3DHH + PARAM(sl_reference_pct)%)''\<rparr>),
     (''NIFTY_OP_SELL_WK_DIFF_2D_3D_BEAR_PUT'',
      \<lparr>lg_monthly_group = BEARISH, lg_option_type = PUT, lg_trade = ''SELL_PUT'', lg_unique_code_suffix = ''BEAR_PUT'',
       lg_spot_reference_alias = ''PRV_3DHH'', lg_entry_reference_alias = ''OPT_PRV_3DLL'',
       lg_structure_sl_reference_alias = ''OPT_PRV_2DHH'', lg_structure_sl_buffer_pct = 7,
       lg_allowed_monthly_statuses = [BEAR, BEAR_CF],
       lg_start_strike_formula = ''ROUND_UP(PRV_3DHH - PARAM(strike_buffer_pct)%)'',
       lg_end_strike_formula = ''ROUND_UP(PRV_3DHH) + PARAM(strike_step)'',
       lg_ideal_premium_formula = ''PRV_3DHH * PARAM(ideal_premium_pct)%'',
       lg_minimum_premium_formula = ''PRV_3DHH * PARAM(minimum_premium_pct)%'',
       lg_entry_formula = ''OPT_PRV_3DLL - PARAM(entry_discount_pct)%'', lg_target_formula = ''ENTRY - PARAM(target_pct)%'',
       lg_stoploss_formula = ''MIN(ENTRY + PARAM(sl_entry_pct)%, OPT_PRV_2DHH + PARAM(sl_reference_pct)%)''\<rparr>)]"

definition get_s21_leg_rule :: "string \<Rightarrow> leg_rule res" where
  "get_s21_leg_rule unique_code = (case map_of S21_LEG_RULES unique_code of Some leg \<Rightarrow> Inr leg
     | None \<Rightarrow> Inl (ValueError [Txt ''Unsupported S21 unique_code: '', Txt unique_code]))"

definition get_s23_leg_rule :: "string \<Rightarrow> leg_rule res" where
  "get_s23_leg_rule unique_code = (case map_of S23_LEG_RULES unique_code of Some leg \<Rightarrow> Inr leg
     | None \<Rightarrow> Inl (ValueError [Txt ''Unsupported S23 unique_code: '', Txt unique_code]))"

section \<open>A configured rule against its sheet\<close>

datatype rule_value =
  RuleType "option_type option" | RuleStatuses "monthly_status list" | RuleText string | RuleNumber "price option"

type_synonym mismatch = "string \<times> rule_value \<times> rule_value"

definition compare_values :: "string \<times> rule_value \<times> rule_value \<Rightarrow> mismatch list" where
  "compare_values p = (case p of (name, actual, expected) \<Rightarrow> if actual \<noteq> expected then [(name, expected, actual)] else [])"

definition expected_pairs :: "strategy_rule \<Rightarrow> leg_rule \<Rightarrow> (string \<times> rule_value \<times> rule_value) list" where
  "expected_pairs rule leg =
     [(''option_type'', RuleType (sr_option_type rule), RuleType (Some (lg_option_type leg))),
      (''allowed_monthly_statuses'', RuleStatuses (sr_allowed_monthly_statuses rule), RuleStatuses (lg_allowed_monthly_statuses leg)),
      (''start_strike_formula'', RuleText (sr_start_strike_formula rule), RuleText (lg_start_strike_formula leg)),
      (''end_strike_formula'', RuleText (sr_end_strike_formula rule), RuleText (lg_end_strike_formula leg)),
      (''ideal_premium_formula'', RuleText (sr_ideal_premium_formula rule), RuleText (lg_ideal_premium_formula leg)),
      (''minimum_premium_formula'', RuleText (sr_minimum_premium_formula rule), RuleText (lg_minimum_premium_formula leg)),
      (''entry_formula'', RuleText (sr_entry_formula rule), RuleText (lg_entry_formula leg)),
      (''target_formula'', RuleText (sr_target_formula rule), RuleText (lg_target_formula leg)),
      (''stoploss_formula'', RuleText (sr_stoploss_formula rule), RuleText (lg_stoploss_formula leg))]"

definition leg_mismatches :: "strategy_rule \<Rightarrow> leg_rule \<Rightarrow> mismatch list" where
  "leg_mismatches rule leg =
     concat (map compare_values (expected_pairs rule leg)) @
     compare_values (''sl_reference_pct'', RuleNumber (map_of (sr_parameters rule) ''sl_reference_pct''),
       RuleNumber (Some (lg_structure_sl_buffer_pct leg)))"

definition validate_s21_rule :: "strategy_rule \<Rightarrow> mismatch list res" where
  "validate_s21_rule rule =
     (if sr_strategy_code rule \<noteq> ''S21''
      then Inr [(''strategy_code'', RuleText ''S21'', RuleText (sr_strategy_code rule))]
      else bindE (get_s21_leg_rule (sr_unique_code rule)) (\<lambda>leg. Inr (leg_mismatches rule leg)))"

definition validate_s23_rule :: "strategy_rule \<Rightarrow> mismatch list res" where
  "validate_s23_rule rule =
     (if sr_strategy_code rule \<noteq> ''S23''
      then Inr [(''strategy_code'', RuleText ''S23'', RuleText (sr_strategy_code rule))]
      else bindE (get_s23_leg_rule (sr_unique_code rule)) (\<lambda>leg. Inr (leg_mismatches rule leg)))"

section \<open>The formulas of the sheets\<close>

text \<open>The sentences of the formula grammar the sheets are made of, by leg.\<close>

definition adjusted :: "string \<Rightarrow> bool \<Rightarrow> string \<Rightarrow> expr" where
  "adjusted name up param = Expr (Term (Alias name) MNil) [Adjustment up (Amount_param ''PARAM'' param) True]"

definition scaled :: "string \<Rightarrow> string \<Rightarrow> expr" where
  "scaled name param = Expr (Term (Alias name) (MCons (ParamOf ''PARAM'' param) True MNil)) []"

definition rounding_of :: "leg_rule \<Rightarrow> string" where
  "rounding_of leg = (if lg_option_type leg = CALL then ''ROUND_DOWN'' else ''ROUND_UP'')"

definition start_expr :: "leg_rule \<Rightarrow> expr" where
  "start_expr leg = Expr (Term (Fn1 (rounding_of leg)
     (adjusted (lg_spot_reference_alias leg) (lg_option_type leg = CALL) ''strike_buffer_pct'')) MNil) []"

definition end_expr :: "leg_rule \<Rightarrow> expr" where
  "end_expr leg = Expr (Term (Fn1 (rounding_of leg) (Expr (Term (Alias (lg_spot_reference_alias leg)) MNil) [])) MNil)
     [Adjustment (lg_option_type leg \<noteq> CALL) (Amount_param ''PARAM'' ''strike_step'') False]"

definition stop_expr :: "leg_rule \<Rightarrow> expr" where
  "stop_expr leg = Expr (Term (Fn2 ''MIN'' (adjusted ''ENTRY'' True ''sl_entry_pct'')
     (adjusted (lg_structure_sl_reference_alias leg) True ''sl_reference_pct'')) MNil) []"

definition reads_as :: "string \<Rightarrow> expr \<Rightarrow> bool" where
  "reads_as f e \<longleftrightarrow> wf_expr e \<and> tokenize (strip f) = Inr (toks_expr e @ [Token EOF []])"

lemma evaluate_reading:
  assumes "reads_as f e" and "merge_parameters params rt = Inr merged"
  shows "evaluate_formula f levels rt params = eval_expr \<lparr>fe_levels = levels, fe_runtime = rt, fe_params = merged\<rparr> e"
proof -
  have t: "tokenize (strip f) = Inr (toks_expr e @ [Token EOF []])" and w: "wf_expr e" using assms(1) by (simp_all add: reads_as_def)
  have "strip f \<noteq> []" using t toks_expr_nonempty [of e] by (auto simp: tokenize_def tokenize_from.simps)
  from parse_formula_complete [OF this w] t assms(2) show ?thesis by (simp add: evaluate_formula_def)
qed

definition leg_reads :: "leg_rule \<Rightarrow> bool" where
  "leg_reads leg \<longleftrightarrow> reads_as (lg_start_strike_formula leg) (start_expr leg) \<and>
     reads_as (lg_end_strike_formula leg) (end_expr leg) \<and>
     reads_as (lg_ideal_premium_formula leg) (scaled (lg_spot_reference_alias leg) ''ideal_premium_pct'') \<and>
     reads_as (lg_minimum_premium_formula leg) (scaled (lg_spot_reference_alias leg) ''minimum_premium_pct'') \<and>
     reads_as (lg_entry_formula leg) (adjusted (lg_entry_reference_alias leg) False ''entry_discount_pct'') \<and>
     reads_as (lg_target_formula leg) (adjusted ''ENTRY'' False ''target_pct'') \<and>
     reads_as (lg_stoploss_formula leg) (stop_expr leg)"

lemma sheet_reads: "list_all (\<lambda>p. leg_reads (snd p)) S21_LEG_RULES"
  by code_simp

lemma sheets_agree: "map snd S21_LEG_RULES = map snd S23_LEG_RULES"
  by (simp add: S21_LEG_RULES_def S23_LEG_RULES_def)

definition sheet_legs :: "leg_rule list" where
  "sheet_legs = map snd S21_LEG_RULES"

lemma leg_of_sheet: "leg \<in> set sheet_legs \<Longrightarrow> leg_reads leg"
  using sheet_reads by (auto simp: sheet_legs_def list_all_iff)

lemma sheets_same_legs: "snd ` set S23_LEG_RULES = set sheet_legs" "snd ` set S21_LEG_RULES = set sheet_legs"
  using sheets_agree by (metis list.set_map sheet_legs_def)+

lemma get_leg_in_sheet: "get_s21_leg_rule code = Inr leg \<or> get_s23_leg_rule code = Inr leg \<Longrightarrow> leg \<in> set sheet_legs"
proof -
  assume "get_s21_leg_rule code = Inr leg \<or> get_s23_leg_rule code = Inr leg"
  then have "(code, leg) \<in> set S21_LEG_RULES \<or> (code, leg) \<in> set S23_LEG_RULES"
    by (auto simp: get_s21_leg_rule_def get_s23_leg_rule_def split: option.splits dest: map_of_SomeD)
  then show ?thesis using sheets_same_legs by force
qed

text \<open>The value of a sentence of each shape.\<close>

lemma eval_adjusted: "resolve_alias env name = Inr v \<Longrightarrow> map_of (fe_params env) p = Some x \<Longrightarrow>
    eval_expr env (adjusted name up p) = Inr (if up then v * (1 + x / 100) else v * (1 - x / 100))"
  by (simp add: adjusted_def resolve_parameter_def algebra_simps)

lemma eval_scaled: "resolve_alias env name = Inr v \<Longrightarrow> map_of (fe_params env) p = Some x \<Longrightarrow>
    eval_expr env (scaled name p) = Inr (v * x / 100)"
  by (simp add: scaled_def resolve_parameter_def)

section \<open>Properties\<close>

lemma compare_empty: "concat (map compare_values ps) = [] \<longleftrightarrow> list_all (\<lambda>(n, actual, expected). actual = expected) ps"
  by (induction ps) (auto simp: compare_values_def split: if_splits)

definition rule_matches :: "strategy_rule \<Rightarrow> leg_rule \<Rightarrow> bool" where
  "rule_matches rule leg \<longleftrightarrow>
     sr_option_type rule = Some (lg_option_type leg) \<and>
     sr_allowed_monthly_statuses rule = lg_allowed_monthly_statuses leg \<and>
     sr_start_strike_formula rule = lg_start_strike_formula leg \<and> sr_end_strike_formula rule = lg_end_strike_formula leg \<and>
     sr_ideal_premium_formula rule = lg_ideal_premium_formula leg \<and>
     sr_minimum_premium_formula rule = lg_minimum_premium_formula leg \<and>
     sr_entry_formula rule = lg_entry_formula leg \<and> sr_target_formula rule = lg_target_formula leg \<and>
     sr_stoploss_formula rule = lg_stoploss_formula leg \<and>
     map_of (sr_parameters rule) ''sl_reference_pct'' = Some (lg_structure_sl_buffer_pct leg)"

lemma leg_mismatches_empty: "leg_mismatches rule leg = [] \<longleftrightarrow> rule_matches rule leg"
  by (auto simp: leg_mismatches_def compare_empty expected_pairs_def rule_matches_def compare_values_def)

text \<open>
  A rule passes the validation of the S21 or the S23 sheet exactly when it is a rule of that
  strategy for a leg of the sheet and agrees with the leg in every compared field; a rule of
  another strategy is reported, an unknown leg raises.
\<close>
theorem rule_validation_passes_iff:
  "(validate_s21_rule rule = Inr [] \<longleftrightarrow> sr_strategy_code rule = ''S21'' \<and>
      (\<exists>leg. map_of S21_LEG_RULES (sr_unique_code rule) = Some leg \<and> rule_matches rule leg)) \<and>
   (validate_s23_rule rule = Inr [] \<longleftrightarrow> sr_strategy_code rule = ''S23'' \<and>
      (\<exists>leg. map_of S23_LEG_RULES (sr_unique_code rule) = Some leg \<and> rule_matches rule leg))"
  by (auto simp: validate_s21_rule_def validate_s23_rule_def get_s21_leg_rule_def get_s23_leg_rule_def bindE_eq_Inr
      leg_mismatches_empty split: option.splits)

end
