(* ===== verification/S21Engine.thy ===== *)
theory S21Engine
  imports RuleMatrices Calendar "HOL-Library.Char_ord" "HOL-Library.List_Lexorder" "HOL-Library.Product_Lexorder"
begin

text \<open>
  \<^verbatim>\<open>src/tfis/strategy_engine/s21.py\<close>: the S21 decision as a function of the evidence of a session.
  Prefixes: contract evidence \<open>xc_\<close>, historical references \<open>xh_\<close>, minute bar \<open>xb_\<close>, evidence \<open>xe_\<close>,
  candidate \<open>xd_\<close>, leg decision \<open>xl_\<close>, strategy decision \<open>xs_\<close>. Dates and bar starts are the texts of the
  evidence. \<^verbatim>\<open>spot_bars\<close> and \<^verbatim>\<open>metadata\<close> are fields no operation reads and are left out.
\<close>

section \<open>Evidence and decisions\<close>

definition S21_BRANCHES :: "string list" where
  "S21_BRANCHES = [''BANKNIFTY_OP_SELL_MONTHLY_BULL_CALL'', ''BANKNIFTY_OP_SELL_MONTHLY_BULL_PUT'',
     ''BANKNIFTY_OP_SELL_MONTHLY_BEAR_CALL'', ''BANKNIFTY_OP_SELL_MONTHLY_BEAR_PUT'']"

definition S21_NUMBER_OF_EXPIRIES_TO_CHECK :: nat where "S21_NUMBER_OF_EXPIRIES_TO_CHECK = 1"

definition s21_error :: "msg \<Rightarrow> exn" where "s21_error m = S21StrategyEngineError m"

record contract_evidence =
  xc_symbol :: string
  xc_option_type :: string
  xc_strike :: price
  xc_expiry :: string
  xc_oi :: "price option"
  xc_chain_ltp :: "price option"

record historical_references =
  xh_symbol :: string
  xh_references :: "(string, price) dict"
  xh_source :: string

record minute_bar =
  xb_symbol :: string
  xb_bar_start :: string
  xb_high :: "price option"
  xb_low :: "price option"
  xb_open :: "price option"
  xb_close :: "price option"

record s21_evidence =
  xe_session_date :: string
  xe_monthly_status :: string
  xe_monthly_status_source :: string
  xe_underlying_references :: "(string, price) dict"
  xe_option_chain :: "contract_evidence list"
  xe_option_historical_references :: "(string, historical_references) dict"
  xe_option_minute_bars :: "(string, minute_bar list) dict"
  xe_branch_parameters :: "(string, (string, price) dict) dict"

record candidate_decision =
  xd_symbol :: string
  xd_expiry :: string
  xd_strike :: price
  xd_option_type :: string
  xd_phase :: string
  xd_oi :: "price option"
  xd_required_oi :: price
  xd_candidate_premium :: "price option"
  xd_premium_source :: string
  xd_required_premium :: price
  xd_oi_pass :: bool
  xd_premium_pass :: bool
  xd_status :: string
  xd_reasons :: "string list"

record s21_leg_decision =
  xl_unique_code :: string
  xl_option_type :: string
  xl_spot_reference_alias :: string
  xl_spot_reference_value :: price
  xl_start_strike :: price
  xl_end_strike :: price
  xl_ideal_premium :: price
  xl_minimum_premium :: price
  xl_minimum_oi_units :: price
  xl_candidate_decisions :: "candidate_decision list"
  xl_selected_contract :: "string option"
  xl_selected_expiry :: "string option"
  xl_selected_strike :: "price option"
  xl_selection_phase :: "string option"
  xl_selected_option_references :: "(string, price) dict option"
  xl_entry :: "price option"
  xl_target :: "price option"
  xl_stoploss :: "price option"
  xl_orpt_status :: string
  xl_rc_status :: string
  xl_order_time :: "string option"
  xl_evidence_gaps :: "string list"
  xl_verdict :: string

record s21_decision =
  xs_session_date :: string
  xs_monthly_status :: string
  xs_monthly_status_source :: string
  xs_eligible_legs :: "string list"
  xs_ineligible_legs :: "string list"
  xs_legs :: "s21_leg_decision list"
  xs_evidence_complete :: bool
  xs_evidence_gaps :: "string list"

section \<open>Lookups and strikes\<close>

definition key_lookup :: "(string, 'a) dict \<Rightarrow> string \<Rightarrow> 'a res" where
  "key_lookup d k = (case map_of d k of Some x \<Rightarrow> Inr x | None \<Rightarrow> Inl (KeyError [PyRepr k]))"

definition underlying_reference :: "s21_evidence \<Rightarrow> string \<Rightarrow> price res" where
  "underlying_reference e name = (case map_of (xe_underlying_references e) name of Some x \<Rightarrow> Inr x
     | None \<Rightarrow> Inl (s21_error [Txt ''Missing required underlying reference: '', Txt name]))"

definition required_selected_ref :: "(string, price) dict \<Rightarrow> string \<Rightarrow> string \<Rightarrow> price res" where
  "required_selected_ref refs name symbol = (case map_of refs name of Some x \<Rightarrow> Inr x
     | None \<Rightarrow> Inl (s21_error [Txt ''Selected contract '', Txt symbol, Txt '' is missing '', Txt name]))"

definition monthly_status_of_text :: "string \<Rightarrow> monthly_status res" where
  "monthly_status_of_text t =
     (case find (\<lambda>s. monthly_status_value s = t) [BULL, BULL_CF, BEAR, BEAR_CF, UNKNOWN] of Some s \<Rightarrow> Inr s
      | None \<Rightarrow> Inl (ValueError [PyRepr t, Txt '' is not a valid MonthlyStatus'']))"

definition rounding_slack :: price where "rounding_slack = 1 / 10 ^ 12"

definition s21_round_down :: "price \<Rightarrow> price \<Rightarrow> price res" where
  "s21_round_down v step = (if step = 0 then Inl ZeroDivisionError else Inr (of_int \<lfloor>v / step + rounding_slack\<rfloor> * step))"

definition s21_round_up :: "price \<Rightarrow> price \<Rightarrow> price res" where
  "s21_round_up v step = (if step = 0 then Inl ZeroDivisionError else Inr (of_int \<lceil>v / step - rounding_slack\<rceil> * step))"

definition strike_range :: "option_type \<Rightarrow> price \<Rightarrow> price \<Rightarrow> price \<Rightarrow> (price \<times> price) res" where
  "strike_range option_type spot_ref buffer_pct step =
     (if option_type = CALL then
        bindE (s21_round_down (spot_ref * (1 + buffer_pct / 100)) step) (\<lambda>start.
        bindE (s21_round_down spot_ref step) (\<lambda>b. Inr (start, b - step)))
      else
        bindE (s21_round_up (spot_ref * (1 - buffer_pct / 100)) step) (\<lambda>start.
        bindE (s21_round_up spot_ref step) (\<lambda>b. Inr (start, b + step))))"

definition expiry_order :: "s21_evidence \<Rightarrow> string list res" where
  "expiry_order e =
     bindE (date_fromisoformat (xe_session_date e)) (\<lambda>session_date.
     bindE (mapE (\<lambda>row. bindE (date_fromisoformat (xc_expiry row)) (\<lambda>d. Inr (xc_expiry row, d))) (xe_option_chain e)) (\<lambda>rows.
     Inr (take S21_NUMBER_OF_EXPIRIES_TO_CHECK
       (sort (remdups (map fst (filter (\<lambda>(x, d). d \<ge> session_date) rows)))))))"

text \<open>\<^verbatim>\<open>sorted(..., reverse=True)\<close> keeps the order of equal rows: it sorts the reversed list and reverses.\<close>

definition chain_contracts :: "s21_evidence \<Rightarrow> string \<Rightarrow> option_type \<Rightarrow> price \<Rightarrow> price \<Rightarrow> contract_evidence list" where
  "chain_contracts e expiry option_type start stop =
     (let rows = filter (\<lambda>row. xc_expiry row = expiry \<and> upper (xc_option_type row) = option_type_value option_type \<and>
                   min start stop \<le> xc_strike row \<and> xc_strike row \<le> max start stop) (xe_option_chain e);
          key = (\<lambda>row. (xc_strike row, xc_symbol row))
      in if start \<le> stop then sort_key key rows else rev (sort_key key (rev rows)))"

definition eligible_legs :: "monthly_status \<Rightarrow> string list" where
  "eligible_legs status = filter (\<lambda>code. case get_s21_leg_rule code of
     Inr leg \<Rightarrow> status \<in> set (lg_allowed_monthly_statuses leg) | Inl _ \<Rightarrow> False) S21_BRANCHES"

definition required_candidate_symbols :: "s21_evidence \<Rightarrow> (string, string list) dict res" where
  "required_candidate_symbols e =
     bindE (monthly_status_of_text (xe_monthly_status e)) (\<lambda>status.
     mapE (\<lambda>code.
       bindE (get_s21_leg_rule code) (\<lambda>leg.
       bindE (key_lookup (xe_branch_parameters e) code) (\<lambda>params.
       bindE (underlying_reference e (lg_spot_reference_alias leg)) (\<lambda>spot_ref.
       bindE (key_lookup params ''strike_buffer_pct'') (\<lambda>buffer.
       bindE (key_lookup params ''strike_step'') (\<lambda>step.
       bindE (strike_range (lg_option_type leg) spot_ref buffer step) (\<lambda>strikes.
       bindE (expiry_order e) (\<lambda>expiries.
       Inr (code, concat (map (\<lambda>x. map xc_symbol (chain_contracts e x (lg_option_type leg) (fst strikes) (snd strikes))) expiries))))))))))
       (eligible_legs status))"

section \<open>The search for a contract\<close>

definition row_oi_pass :: "price \<Rightarrow> contract_evidence \<Rightarrow> bool" where
  "row_oi_pass min_oi row = (case xc_oi row of None \<Rightarrow> False | Some oi \<Rightarrow> oi \<ge> min_oi)"

definition row_premium_pass :: "price \<Rightarrow> contract_evidence \<Rightarrow> bool" where
  "row_premium_pass required row = (case xc_chain_ltp row of None \<Rightarrow> False | Some p \<Rightarrow> p \<ge> required)"

definition s21_candidate :: "price \<Rightarrow> string \<Rightarrow> price \<Rightarrow> contract_evidence \<Rightarrow> candidate_decision" where
  "s21_candidate min_oi phase required row =
     (let oi_pass = row_oi_pass min_oi row; premium_pass = row_premium_pass required row in
      \<lparr>xd_symbol = xc_symbol row, xd_expiry = xc_expiry row, xd_strike = xc_strike row, xd_option_type = xc_option_type row,
       xd_phase = phase, xd_oi = xc_oi row, xd_required_oi = min_oi, xd_candidate_premium = xc_chain_ltp row,
       xd_premium_source = ''OPTION_CHAIN_LTP'', xd_required_premium = required, xd_oi_pass = oi_pass,
       xd_premium_pass = premium_pass, xd_status = (if oi_pass \<and> premium_pass then ''QUALIFIED'' else ''REJECTED''),
       xd_reasons = issue_if (\<not> oi_pass) ''OI_BELOW_500_LOT_THRESHOLD'' @
         (if xc_chain_ltp row = None then [''MISSING_OPTION_CHAIN_PREMIUM'']
          else issue_if (\<not> premium_pass) ''PREMIUM_THRESHOLD_NOT_MET'')\<rparr>)"

text \<open>The rows of one phase: the candidates looked at, the symbols without a premium, the row taken.\<close>

record search_state =
  ss_candidates :: "candidate_decision list"
  ss_missing :: "string list"
  ss_selected :: "(contract_evidence \<times> string) option"

fun scan_rows :: "price \<Rightarrow> string \<Rightarrow> price \<Rightarrow> contract_evidence list \<Rightarrow> search_state \<Rightarrow> search_state" where
  "scan_rows min_oi phase required [] s = s"
| "scan_rows min_oi phase required (row # rows) s =
     (let oi_pass = row_oi_pass min_oi row;
          missing = (if oi_pass \<and> xc_chain_ltp row = None then List.insert (xc_symbol row) (ss_missing s) else ss_missing s);
          s' = s\<lparr>ss_candidates := ss_candidates s @ [s21_candidate min_oi phase required row], ss_missing := missing\<rparr>
      in if oi_pass \<and> row_premium_pass required row
         then (if missing \<noteq> [] then s' else s'\<lparr>ss_selected := Some (row, phase)\<rparr>)
         else scan_rows min_oi phase required rows s')"

definition search_over :: "search_state \<Rightarrow> bool" where
  "search_over s \<longleftrightarrow> ss_selected s \<noteq> None \<or> ss_missing s \<noteq> []"

definition scan_expiry :: "price \<Rightarrow> price \<Rightarrow> price \<Rightarrow> contract_evidence list \<Rightarrow> search_state \<Rightarrow> search_state" where
  "scan_expiry min_oi ideal minimum forward s =
     (let s1 = scan_rows min_oi ''IDEAL_START_TO_END'' ideal forward s in
      if search_over s1 then s1 else scan_rows min_oi ''MINIMUM_END_TO_START'' minimum (rev forward) s1)"

fun scan_expiries ::
  "s21_evidence \<Rightarrow> option_type \<Rightarrow> price \<Rightarrow> price \<Rightarrow> price \<Rightarrow> price \<Rightarrow> price \<Rightarrow> string list \<Rightarrow> search_state \<Rightarrow> search_state" where
  "scan_expiries e ot start stop min_oi ideal minimum [] s = s"
| "scan_expiries e ot start stop min_oi ideal minimum (x # xs) s =
     (let s' = scan_expiry min_oi ideal minimum (chain_contracts e x ot start stop) s in
      if search_over s' then s' else scan_expiries e ot start stop min_oi ideal minimum xs s')"

section \<open>A leg\<close>

definition bar_at :: "minute_bar list \<Rightarrow> string \<Rightarrow> minute_bar option" where
  "bar_at bars prefix = find (\<lambda>b. contains_text (''T'' @ prefix @ '':'') (xb_bar_start b)) bars"

definition base_entry_missed :: "price \<Rightarrow> minute_bar \<Rightarrow> bool" where
  "base_entry_missed entry bar = (case xb_low bar of None \<Rightarrow> False | Some low \<Rightarrow> low < entry)"

text \<open>What all outcomes of a leg share; the fields of a selection and of the prices follow.\<close>

definition unselected_leg ::
  "string \<Rightarrow> leg_rule \<Rightarrow> price \<Rightarrow> price \<Rightarrow> price \<Rightarrow> price \<Rightarrow> price \<Rightarrow> price \<Rightarrow> candidate_decision list \<Rightarrow> string list \<Rightarrow> string \<Rightarrow>
   s21_leg_decision" where
  "unselected_leg code leg spot start stop ideal minimum min_oi candidates gaps verdict =
     \<lparr>xl_unique_code = code, xl_option_type = option_type_value (lg_option_type leg),
      xl_spot_reference_alias = lg_spot_reference_alias leg, xl_spot_reference_value = spot, xl_start_strike = start,
      xl_end_strike = stop, xl_ideal_premium = ideal, xl_minimum_premium = minimum, xl_minimum_oi_units = min_oi,
      xl_candidate_decisions = candidates, xl_selected_contract = None, xl_selected_expiry = None, xl_selected_strike = None,
      xl_selection_phase = None, xl_selected_option_references = None, xl_entry = None, xl_target = None, xl_stoploss = None,
      xl_orpt_status = ''NOT_EVALUATED'', xl_rc_status = ''NOT_EVALUATED'', xl_order_time = None,
      xl_evidence_gaps = gaps, xl_verdict = verdict\<rparr>"

text \<open>The opening reference bar and the recalculation bar: status, order time, gaps, verdict.\<close>

definition with_order_status :: "minute_bar list \<Rightarrow> string \<Rightarrow> price \<Rightarrow> s21_leg_decision \<Rightarrow> s21_leg_decision" where
  "with_order_status bars symbol entry d =
     (case bar_at bars ''09:24'' of
        None \<Rightarrow> d\<lparr>xl_orpt_status := ''EVIDENCE_INCOMPLETE'', xl_evidence_gaps := [''MISSING_ORPT_BAR:'' @ symbol],
          xl_verdict := ''EVIDENCE_INCOMPLETE''\<rparr>
      | Some orpt \<Rightarrow>
        if \<not> base_entry_missed entry orpt then
          d\<lparr>xl_orpt_status := ''BASE_ENTRY_VALID'', xl_rc_status := ''NOT_REQUIRED'', xl_order_time := Some ''09:25'',
            xl_verdict := ''NORMAL_ORDER_READY_AT_09_25''\<rparr>
        else (case bar_at bars ''09:29'' of
            None \<Rightarrow> d\<lparr>xl_orpt_status := ''RECALCULATION_REQUIRED'', xl_rc_status := ''EVIDENCE_INCOMPLETE'',
              xl_evidence_gaps := [''MISSING_RC_BAR:'' @ symbol], xl_verdict := ''EVIDENCE_INCOMPLETE''\<rparr>
          | Some _ \<Rightarrow> d\<lparr>xl_orpt_status := ''RECALCULATION_REQUIRED'', xl_rc_status := ''S21_RC_RULE_NOT_YET_PORTED'',
              xl_verdict := ''RC_RULE_PENDING''\<rparr>))"

definition entry_price :: "price \<Rightarrow> price \<Rightarrow> price" where
  "entry_price ref discount_pct = ref * (1 - discount_pct / 100)"

definition target_price :: "price \<Rightarrow> price \<Rightarrow> price" where
  "target_price entry target_pct = entry * (1 - target_pct / 100)"

definition stoploss_price :: "price \<Rightarrow> price \<Rightarrow> price \<Rightarrow> price \<Rightarrow> price" where
  "stoploss_price entry sl_entry_pct sl_ref sl_reference_pct =
     min (entry * (1 + sl_entry_pct / 100)) (sl_ref * (1 + sl_reference_pct / 100))"

definition selected_leg ::
  "leg_rule \<Rightarrow> s21_evidence \<Rightarrow> (string, price) dict \<Rightarrow> contract_evidence \<Rightarrow> string \<Rightarrow> s21_leg_decision \<Rightarrow> s21_leg_decision res" where
  "selected_leg leg e params row phase d0 =
     (let d = d0\<lparr>xl_selected_contract := Some (xc_symbol row), xl_selected_expiry := Some (xc_expiry row),
           xl_selected_strike := Some (xc_strike row), xl_selection_phase := Some phase\<rparr> in
      case map_of (xe_option_historical_references e) (xc_symbol row) of
        None \<Rightarrow> Inr (d\<lparr>xl_evidence_gaps := [''MISSING_SELECTED_CONTRACT_HISTORY:'' @ xc_symbol row],
          xl_verdict := ''EVIDENCE_INCOMPLETE''\<rparr>)
      | Some history \<Rightarrow>
        let refs = xh_references history in
        bindE (required_selected_ref refs (lg_entry_reference_alias leg) (xc_symbol row)) (\<lambda>entry_ref.
        bindE (required_selected_ref refs (lg_structure_sl_reference_alias leg) (xc_symbol row)) (\<lambda>sl_ref.
        bindE (key_lookup params ''entry_discount_pct'') (\<lambda>discount.
        bindE (key_lookup params ''target_pct'') (\<lambda>target_pct.
        bindE (key_lookup params ''sl_entry_pct'') (\<lambda>sl_entry_pct.
        bindE (key_lookup params ''sl_reference_pct'') (\<lambda>sl_reference_pct.
        let entry = entry_price entry_ref discount;
            bars = (case map_of (xe_option_minute_bars e) (xc_symbol row) of Some bs \<Rightarrow> bs | None \<Rightarrow> []) in
        Inr (with_order_status bars (xc_symbol row) entry
          (d\<lparr>xl_selected_option_references := Some refs, xl_entry := Some entry,
             xl_target := Some (target_price entry target_pct),
             xl_stoploss := Some (stoploss_price entry sl_entry_pct sl_ref sl_reference_pct),
             xl_verdict := []\<rparr>)))))))))"

definition missing_premium_gaps :: "search_state \<Rightarrow> string list" where
  "missing_premium_gaps s = map (\<lambda>t. ''MISSING_OPTION_CHAIN_PREMIUM:'' @ t) (sort (ss_missing s))"

text \<open>The search and its three endings, once the thresholds of the leg are known.\<close>

definition decide_leg ::
  "s21_evidence \<Rightarrow> string \<Rightarrow> leg_rule \<Rightarrow> (string, price) dict \<Rightarrow> price \<Rightarrow> price \<times> price \<Rightarrow> price \<Rightarrow> price \<Rightarrow> price \<Rightarrow> string list \<Rightarrow>
   s21_leg_decision res" where
  "decide_leg e code leg params spot strikes ideal minimum min_oi expiries =
     (let found = scan_expiries e (lg_option_type leg) (fst strikes) (snd strikes) min_oi ideal minimum expiries
           \<lparr>ss_candidates = [], ss_missing = [], ss_selected = None\<rparr>;
         base = unselected_leg code leg spot (fst strikes) (snd strikes) ideal minimum min_oi (ss_candidates found) in
     if ss_missing found \<noteq> []
     then Inr (base (missing_premium_gaps found) ''EVIDENCE_INCOMPLETE'')
     else (case ss_selected found of
         None \<Rightarrow> Inr (base [] ''NO_QUALIFYING_CONTRACT'')
       | Some (row, phase) \<Rightarrow> selected_leg leg e params row phase (base [] [])))"

definition evaluate_leg :: "s21_evidence \<Rightarrow> string \<Rightarrow> s21_leg_decision res" where
  "evaluate_leg e code =
     bindE (get_s21_leg_rule code) (\<lambda>leg.
     bindE (key_lookup (xe_branch_parameters e) code) (\<lambda>params.
     bindE (underlying_reference e (lg_spot_reference_alias leg)) (\<lambda>spot.
     bindE (key_lookup params ''strike_step'') (\<lambda>step.
     bindE (key_lookup params ''strike_buffer_pct'') (\<lambda>buffer.
     bindE (strike_range (lg_option_type leg) spot buffer step) (\<lambda>strikes.
     bindE (key_lookup params ''ideal_premium_pct'') (\<lambda>ideal_pct.
     bindE (key_lookup params ''minimum_premium_pct'') (\<lambda>minimum_pct.
     bindE (key_lookup params ''minimum_lots'') (\<lambda>lots.
     bindE (key_lookup params ''lot_size'') (\<lambda>lot_size.
     bindE (expiry_order e) (\<lambda>expiries.
     decide_leg e code leg params spot strikes (spot * ideal_pct / 100) (spot * minimum_pct / 100) (lots * lot_size) expiries)))))))))))"

definition evaluate_s21 :: "s21_evidence \<Rightarrow> s21_decision res" where
  "evaluate_s21 e =
     bindE (monthly_status_of_text (xe_monthly_status e)) (\<lambda>status.
     let eligible = eligible_legs status in
     bindE (mapE (evaluate_leg e) eligible) (\<lambda>legs.
     let gaps = concat (map (\<lambda>l. map (\<lambda>g. xl_unique_code l @ '':'' @ g) (xl_evidence_gaps l)) legs) in
     Inr \<lparr>xs_session_date = xe_session_date e, xs_monthly_status = monthly_status_value status,
       xs_monthly_status_source = xe_monthly_status_source e, xs_eligible_legs = eligible,
       xs_ineligible_legs = filter (\<lambda>code. code \<notin> set eligible) S21_BRANCHES, xs_legs = legs,
       xs_evidence_complete = (gaps = []), xs_evidence_gaps = gaps\<rparr>))"

section \<open>The reference search\<close>

text \<open>
  A row stops a phase when it has the open interest and either no premium (the evidence is
  incomplete) or enough of it. The decisive row of a leg is the first such row at the ideal premium
  in the order of the strikes, else the first at the minimum premium in the reverse order.
\<close>

definition stops_search :: "price \<Rightarrow> price \<Rightarrow> contract_evidence \<Rightarrow> bool" where
  "stops_search min_oi required row \<longleftrightarrow> row_oi_pass min_oi row \<and> (xc_chain_ltp row = None \<or> row_premium_pass required row)"

definition decisive_row :: "price \<Rightarrow> price \<Rightarrow> price \<Rightarrow> contract_evidence list \<Rightarrow> (contract_evidence \<times> string) option" where
  "decisive_row min_oi ideal minimum forward =
     (case find (stops_search min_oi ideal) forward of
        Some row \<Rightarrow> Some (row, ''IDEAL_START_TO_END'')
      | None \<Rightarrow> (case find (stops_search min_oi minimum) (rev forward) of
            Some row \<Rightarrow> Some (row, ''MINIMUM_END_TO_START'') | None \<Rightarrow> None))"

definition search_result :: "(contract_evidence \<times> string) option \<Rightarrow> search_state \<Rightarrow> bool" where
  "search_result found s \<longleftrightarrow> (case found of
     None \<Rightarrow> ss_missing s = [] \<and> ss_selected s = None
   | Some (row, phase) \<Rightarrow> if xc_chain_ltp row = None then ss_missing s \<noteq> [] \<and> ss_selected s = None
       else ss_missing s = [] \<and> ss_selected s = Some (row, phase))"

definition after_row :: "price \<Rightarrow> string \<Rightarrow> price \<Rightarrow> contract_evidence \<Rightarrow> search_state \<Rightarrow> search_state" where
  "after_row min_oi phase required row s =
     s\<lparr>ss_candidates := ss_candidates s @ [s21_candidate min_oi phase required row],
       ss_missing := (if row_oi_pass min_oi row \<and> xc_chain_ltp row = None then List.insert (xc_symbol row) (ss_missing s) else ss_missing s)\<rparr>"

lemma scan_rows_step: "scan_rows min_oi phase required (row # rows) s =
    (let s' = after_row min_oi phase required row s in
     if row_oi_pass min_oi row \<and> row_premium_pass required row
     then (if ss_missing s' \<noteq> [] then s' else s'\<lparr>ss_selected := Some (row, phase)\<rparr>)
     else scan_rows min_oi phase required rows s')"
  by (simp add: after_row_def Let_def)

lemma after_row_fields [simp]:
  "ss_selected (after_row min_oi phase required row s) = ss_selected s"
  "ss_missing (after_row min_oi phase required row s) = [] \<longleftrightarrow>
     ss_missing s = [] \<and> \<not> (row_oi_pass min_oi row \<and> xc_chain_ltp row = None)"
  by (auto simp: after_row_def List.insert_def)

lemma scan_rows_missing:
  "ss_missing s \<noteq> [] \<Longrightarrow> ss_missing (scan_rows min_oi phase required rows s) \<noteq> [] \<and>
     ss_selected (scan_rows min_oi phase required rows s) = ss_selected s"
proof (induction rows arbitrary: s)
  case (Cons row rows)
  then show ?case using Cons.IH [of "after_row min_oi phase required row s"]
    by (simp add: scan_rows_step Let_def del: scan_rows.simps)
qed simp

lemma no_premium_fails: "xc_chain_ltp row = None \<Longrightarrow> \<not> row_premium_pass required row"
  by (simp add: row_premium_pass_def)

lemma scan_rows_result:
  assumes "ss_missing s = []" and "ss_selected s = None"
  shows "search_result (map_option (\<lambda>row. (row, phase)) (find (stops_search min_oi required) rows))
    (scan_rows min_oi phase required rows s)"
  using assms
proof (induction rows arbitrary: s)
  case Nil
  then show ?case by (simp add: search_result_def)
next
  case (Cons row rows)
  let ?s = "after_row min_oi phase required row s"
  show ?case
  proof (cases "row_oi_pass min_oi row \<and> xc_chain_ltp row = None")
    case True
    then have "\<not> row_premium_pass required row" by (simp add: no_premium_fails)
    with True scan_rows_missing [of ?s min_oi phase required rows] Cons.prems show ?thesis
      by (simp add: scan_rows_step search_result_def stops_search_def del: scan_rows.simps)
  next
    case False
    then have IH: "search_result (map_option (\<lambda>row. (row, phase)) (find (stops_search min_oi required) rows))
        (scan_rows min_oi phase required rows ?s)"
      using Cons.prems by (intro Cons.IH) simp_all
    show ?thesis
    proof (cases "row_oi_pass min_oi row \<and> row_premium_pass required row")
      case True
      then have "stops_search min_oi required row" by (simp add: stops_search_def)
      with True False Cons.prems show ?thesis
        by (simp add: scan_rows_step search_result_def Let_def del: scan_rows.simps)
    next
      case no: False
      with False have "\<not> stops_search min_oi required row" by (auto simp: stops_search_def)
      moreover have "scan_rows min_oi phase required (row # rows) s = scan_rows min_oi phase required rows ?s"
        unfolding scan_rows_step Let_def using no by (simp only: if_False)
      ultimately show ?thesis using IH by simp
    qed
  qed
qed

lemma search_over_result: "search_result found s \<Longrightarrow> search_over s \<longleftrightarrow> found \<noteq> None"
  by (auto simp: search_result_def search_over_def split: option.splits if_splits)

lemma scan_expiry_result:
  assumes "ss_missing s = []" and "ss_selected s = None"
  shows "search_result (decisive_row min_oi ideal minimum forward) (scan_expiry min_oi ideal minimum forward s)"
proof (cases "find (stops_search min_oi ideal) forward")
  case (Some row)
  with scan_rows_result [OF assms, of "''IDEAL_START_TO_END''" min_oi ideal forward] show ?thesis
    by (simp add: scan_expiry_def decisive_row_def search_over_result Let_def)
next
  case None
  let ?s = "scan_rows min_oi ''IDEAL_START_TO_END'' ideal forward s"
  have r: "search_result None ?s"
    using None scan_rows_result [OF assms, of "''IDEAL_START_TO_END''" min_oi ideal forward] by simp
  then have "ss_missing ?s = []" "ss_selected ?s = None" by (simp_all add: search_result_def)
  from scan_rows_result [OF this, of "''MINIMUM_END_TO_START''" min_oi minimum "rev forward"] None r show ?thesis
    by (cases "find (stops_search min_oi minimum) (rev forward)")
      (simp_all add: scan_expiry_def decisive_row_def search_over_result Let_def)
qed

text \<open>The contracts of the expiries a leg looks at; there is at most one.\<close>

definition searched_contracts :: "s21_evidence \<Rightarrow> option_type \<Rightarrow> price \<Rightarrow> price \<Rightarrow> string list \<Rightarrow> contract_evidence list" where
  "searched_contracts e ot start stop expiries = concat (map (\<lambda>x. chain_contracts e x ot start stop) expiries)"

lemma expiry_order_at_most_one: "expiry_order e = Inr xs \<Longrightarrow> xs = [] \<or> (\<exists>x. xs = [x])"
proof -
  assume "expiry_order e = Inr xs"
  then have "length xs \<le> 1" by (auto simp: expiry_order_def bindE_eq_Inr S21_NUMBER_OF_EXPIRIES_TO_CHECK_def)
  then show ?thesis by (cases xs) auto
qed

lemma scan_expiries_result:
  assumes "expiry_order e = Inr xs" and "ss_missing s = []" and "ss_selected s = None"
  shows "search_result (decisive_row min_oi ideal minimum (searched_contracts e ot start stop xs))
    (scan_expiries e ot start stop min_oi ideal minimum xs s)"
proof -
  from expiry_order_at_most_one [OF assms(1)] consider "xs = []" | x where "xs = [x]" by blast
  then show ?thesis
  proof cases
    case 1
    with assms show ?thesis by (simp add: searched_contracts_def decisive_row_def search_result_def)
  next
    case 2
    with scan_expiry_result [OF assms(2,3)] show ?thesis by (simp add: searched_contracts_def Let_def)
  qed
qed

text \<open>A leg that was evaluated: what was read, what was searched, and the three ways it ends.\<close>

definition leg_search :: "s21_evidence \<Rightarrow> leg_rule \<Rightarrow> s21_leg_decision \<Rightarrow> (contract_evidence \<times> string) option" where
  "leg_search e leg d = (case expiry_order e of Inl _ \<Rightarrow> None
     | Inr xs \<Rightarrow> decisive_row (xl_minimum_oi_units d) (xl_ideal_premium d) (xl_minimum_premium d)
         (searched_contracts e (lg_option_type leg) (xl_start_strike d) (xl_end_strike d) xs))"

lemma with_order_status_fields:
  "xl_selected_contract (with_order_status bars symbol entry d) = xl_selected_contract d"
  "xl_selected_strike (with_order_status bars symbol entry d) = xl_selected_strike d"
  "xl_selected_expiry (with_order_status bars symbol entry d) = xl_selected_expiry d"
  "xl_selection_phase (with_order_status bars symbol entry d) = xl_selection_phase d"
  "xl_minimum_oi_units (with_order_status bars symbol entry d) = xl_minimum_oi_units d"
  "xl_ideal_premium (with_order_status bars symbol entry d) = xl_ideal_premium d"
  "xl_minimum_premium (with_order_status bars symbol entry d) = xl_minimum_premium d"
  "xl_start_strike (with_order_status bars symbol entry d) = xl_start_strike d"
  "xl_end_strike (with_order_status bars symbol entry d) = xl_end_strike d"
  "xl_entry (with_order_status bars symbol entry d) = xl_entry d"
  "xl_target (with_order_status bars symbol entry d) = xl_target d"
  "xl_stoploss (with_order_status bars symbol entry d) = xl_stoploss d"
  "xl_unique_code (with_order_status bars symbol entry d) = xl_unique_code d"
  "xl_candidate_decisions (with_order_status bars symbol entry d) = xl_candidate_decisions d"
  "xl_spot_reference_value (with_order_status bars symbol entry d) = xl_spot_reference_value d"
  by (simp_all add: with_order_status_def split: option.split)

definition leg_found ::
  "s21_evidence \<Rightarrow> leg_rule \<Rightarrow> s21_leg_decision \<Rightarrow> string list \<Rightarrow> search_state" where
  "leg_found e leg d xs = scan_expiries e (lg_option_type leg) (xl_start_strike d) (xl_end_strike d) (xl_minimum_oi_units d)
     (xl_ideal_premium d) (xl_minimum_premium d) xs \<lparr>ss_candidates = [], ss_missing = [], ss_selected = None\<rparr>"

lemma selected_leg_fields:
  assumes "selected_leg leg e params row phase d0 = Inr d"
  shows "xl_selected_contract d = Some (xc_symbol row)" and "xl_selected_strike d = Some (xc_strike row)"
    and "xl_selected_expiry d = Some (xc_expiry row)" and "xl_selection_phase d = Some phase"
    and "xl_minimum_oi_units d = xl_minimum_oi_units d0" and "xl_ideal_premium d = xl_ideal_premium d0"
    and "xl_minimum_premium d = xl_minimum_premium d0" and "xl_start_strike d = xl_start_strike d0"
    and "xl_end_strike d = xl_end_strike d0" and "xl_unique_code d = xl_unique_code d0"
    and "xl_candidate_decisions d = xl_candidate_decisions d0" and "xl_spot_reference_value d = xl_spot_reference_value d0"
  using assms by (auto simp: selected_leg_def Let_def bindE_eq_Inr with_order_status_fields split: option.splits)

lemma unselected_leg_fields [simp]:
  "xl_selected_contract (unselected_leg code leg spot start stop ideal minimum oi cs gaps v) = None"
  "xl_start_strike (unselected_leg code leg spot start stop ideal minimum oi cs gaps v) = start"
  "xl_end_strike (unselected_leg code leg spot start stop ideal minimum oi cs gaps v) = stop"
  "xl_ideal_premium (unselected_leg code leg spot start stop ideal minimum oi cs gaps v) = ideal"
  "xl_minimum_premium (unselected_leg code leg spot start stop ideal minimum oi cs gaps v) = minimum"
  "xl_minimum_oi_units (unselected_leg code leg spot start stop ideal minimum oi cs gaps v) = oi"
  "xl_candidate_decisions (unselected_leg code leg spot start stop ideal minimum oi cs gaps v) = cs"
  "xl_evidence_gaps (unselected_leg code leg spot start stop ideal minimum oi cs gaps v) = gaps"
  "xl_verdict (unselected_leg code leg spot start stop ideal minimum oi cs gaps v) = v"
  "xl_order_time (unselected_leg code leg spot start stop ideal minimum oi cs gaps v) = None"
  "xl_unique_code (unselected_leg code leg spot start stop ideal minimum oi cs gaps v) = code"
  "xl_spot_reference_value (unselected_leg code leg spot start stop ideal minimum oi cs gaps v) = spot"
  by (simp_all add: unselected_leg_def)

definition leg_ends :: "s21_evidence \<Rightarrow> leg_rule \<Rightarrow> (string, price) dict \<Rightarrow> string list \<Rightarrow> s21_leg_decision \<Rightarrow> bool" where
  "leg_ends e leg params xs d \<longleftrightarrow> (let found = leg_found e leg d xs in
     xl_candidate_decisions d = ss_candidates found \<and>
     (if ss_missing found \<noteq> [] then xl_selected_contract d = None \<and> xl_order_time d = None \<and>
        xl_verdict d = ''EVIDENCE_INCOMPLETE'' \<and> xl_evidence_gaps d \<noteq> []
      else (case ss_selected found of
          None \<Rightarrow> xl_selected_contract d = None \<and> xl_order_time d = None \<and> xl_verdict d = ''NO_QUALIFYING_CONTRACT''
        | Some (row, phase) \<Rightarrow> \<exists>base. xl_order_time base = None \<and> selected_leg leg e params row phase base = Inr d)))"

lemma missing_gaps: "ss_missing s \<noteq> [] \<Longrightarrow> missing_premium_gaps s \<noteq> []"
proof
  assume "ss_missing s \<noteq> []" and "missing_premium_gaps s = []"
  then have "set (sort (ss_missing s)) = {}" by (simp add: missing_premium_gaps_def del: set_sort)
  with \<open>ss_missing s \<noteq> []\<close> show False by simp
qed

lemma decide_leg_ends:
  assumes "decide_leg e code leg params spot strikes ideal minimum min_oi xs = Inr d"
  shows "leg_ends e leg params xs d" and "xl_spot_reference_value d = spot" and "xl_start_strike d = fst strikes"
    and "xl_end_strike d = snd strikes" and "xl_ideal_premium d = ideal" and "xl_minimum_premium d = minimum"
    and "xl_minimum_oi_units d = min_oi" and "xl_unique_code d = code"
proof -
  let ?found = "scan_expiries e (lg_option_type leg) (fst strikes) (snd strikes) min_oi ideal minimum xs
           \<lparr>ss_candidates = [], ss_missing = [], ss_selected = None\<rparr>"
  let ?base = "unselected_leg code leg spot (fst strikes) (snd strikes) ideal minimum min_oi (ss_candidates ?found)"
  consider (missing) "ss_missing ?found \<noteq> []" "d = ?base (missing_premium_gaps ?found) ''EVIDENCE_INCOMPLETE''"
    | (none) "ss_missing ?found = []" "ss_selected ?found = None" "d = ?base [] ''NO_QUALIFYING_CONTRACT''"
    | (some) row phase where "ss_missing ?found = []" "ss_selected ?found = Some (row, phase)"
        "selected_leg leg e params row phase (?base [] []) = Inr d"
  proof (cases "ss_missing ?found = []")
    case False
    with assms show thesis unfolding decide_leg_def Let_def by (intro missing) simp_all
  next
    case empty: True
    show thesis
    proof (cases "ss_selected ?found")
      case None
      with empty assms show thesis unfolding decide_leg_def Let_def by (intro none) simp_all
    next
      case (Some p)
      then show thesis using empty assms unfolding decide_leg_def Let_def by (intro some [of "fst p" "snd p"]) (simp_all split: prod.splits)
    qed
  qed
  then have "leg_ends e leg params xs d \<and> xl_spot_reference_value d = spot \<and> xl_start_strike d = fst strikes \<and>
      xl_end_strike d = snd strikes \<and> xl_ideal_premium d = ideal \<and> xl_minimum_premium d = minimum \<and>
      xl_minimum_oi_units d = min_oi \<and> xl_unique_code d = code"
  proof cases
    case missing
    then show ?thesis using missing_gaps [OF missing(1)] by (simp add: leg_ends_def leg_found_def)
  next
    case none
    then show ?thesis by (simp add: leg_ends_def leg_found_def)
  next
    case some
    note f = selected_leg_fields [OF some(3)]
    then have "leg_found e leg d xs = ?found" by (simp add: leg_found_def)
    with some f show ?thesis by (auto simp: leg_ends_def Let_def intro!: exI [of _ "?base [] []"])
  qed
  then show "leg_ends e leg params xs d" and "xl_spot_reference_value d = spot" and "xl_start_strike d = fst strikes"
    and "xl_end_strike d = snd strikes" and "xl_ideal_premium d = ideal" and "xl_minimum_premium d = minimum"
    and "xl_minimum_oi_units d = min_oi" and "xl_unique_code d = code" by simp_all
qed

lemma evaluate_leg_cases:
  assumes "get_s21_leg_rule code = Inr leg" and "evaluate_leg e code = Inr d"
  shows "\<exists>params spot step buffer xs. key_lookup (xe_branch_parameters e) code = Inr params \<and>
    underlying_reference e (lg_spot_reference_alias leg) = Inr spot \<and> xl_spot_reference_value d = spot \<and>
    key_lookup params ''strike_step'' = Inr step \<and> key_lookup params ''strike_buffer_pct'' = Inr buffer \<and>
    strike_range (lg_option_type leg) spot buffer step = Inr (xl_start_strike d, xl_end_strike d) \<and>
    expiry_order e = Inr xs \<and> leg_ends e leg params xs d \<and> xl_unique_code d = code"
proof -
  from assms obtain params spot step buffer strikes ipct mpct lots size xs where
    "key_lookup (xe_branch_parameters e) code = Inr params \<and> underlying_reference e (lg_spot_reference_alias leg) = Inr spot \<and>
     key_lookup params ''strike_step'' = Inr step \<and> key_lookup params ''strike_buffer_pct'' = Inr buffer \<and>
     strike_range (lg_option_type leg) spot buffer step = Inr strikes \<and> expiry_order e = Inr xs"
    and d: "decide_leg e code leg params spot strikes (spot * ipct / 100) (spot * mpct / 100) (lots * size) xs = Inr d"
    by (auto simp: evaluate_leg_def bindE_eq_Inr)
  with decide_leg_ends [OF d] show ?thesis by (metis prod.collapse)
qed

lemma leg_found_result:
  assumes "expiry_order e = Inr xs"
  shows "search_result (leg_search e leg d) (leg_found e leg d xs)"
  using scan_expiries_result [OF assms] assms by (simp add: leg_search_def leg_found_def)

text \<open>
  C28: an evaluated leg selects the decisive row of the contracts in its strike range at the nearest
  expiry, the only one it searches: if there is none it has no qualifying contract; if the decisive row has no premium the
  evidence is incomplete and nothing is selected in its place; otherwise it is the contract of the leg.
\<close>
theorem leg_selects_decisive_row:
  assumes "get_s21_leg_rule code = Inr leg" and "evaluate_leg e code = Inr d"
  shows "case leg_search e leg d of
      None \<Rightarrow> xl_selected_contract d = None \<and> xl_verdict d = ''NO_QUALIFYING_CONTRACT''
    | Some (row, phase) \<Rightarrow> if xc_chain_ltp row = None
        then xl_selected_contract d = None \<and> xl_verdict d = ''EVIDENCE_INCOMPLETE'' \<and> xl_evidence_gaps d \<noteq> []
        else xl_selected_contract d = Some (xc_symbol row) \<and> xl_selected_strike d = Some (xc_strike row) \<and>
          xl_selection_phase d = Some phase"
proof -
  from evaluate_leg_cases [OF assms] obtain params xs where xs: "expiry_order e = Inr xs" and c: "leg_ends e leg params xs d" by blast
  show ?thesis
  proof (cases "leg_search e leg d")
    case None
    with leg_found_result [OF xs, of leg d] c show ?thesis by (simp add: search_result_def leg_ends_def Let_def)
  next
    case (Some p)
    obtain row phase where p: "p = (row, phase)" by (cases p)
    show ?thesis
    proof (cases "xc_chain_ltp row")
      case no: None
      with leg_found_result [OF xs, of leg d] c Some p show ?thesis by (simp add: search_result_def leg_ends_def Let_def)
    next
      case (Some x)
      with leg_found_result [OF xs, of leg d] c \<open>leg_search e leg d = Some p\<close> p obtain base where
        "selected_leg leg e params row phase base = Inr d" by (auto simp: search_result_def leg_ends_def Let_def)
      from selected_leg_fields [OF this] Some p \<open>leg_search e leg d = Some p\<close> show ?thesis by simp
    qed
  qed
qed

lemma order_time_of_status: "xl_order_time d = None \<Longrightarrow> xl_order_time (with_order_status bars symbol entry d) = Some ''09:25'' \<longleftrightarrow>
    (\<exists>bar. bar_at bars ''09:24'' = Some bar \<and> \<not> base_entry_missed entry bar)"
  by (auto simp: with_order_status_def split: option.split)

definition bars_of :: "s21_evidence \<Rightarrow> string \<Rightarrow> minute_bar list" where
  "bars_of e symbol = (case map_of (xe_option_minute_bars e) symbol of Some bs \<Rightarrow> bs | None \<Rightarrow> [])"

lemma selected_leg_order_time:
  assumes "selected_leg leg e params row phase d0 = Inr d" and "xl_order_time d0 = None"
  shows "xl_order_time d = Some ''09:25'' \<longleftrightarrow> (\<exists>entry bar. xl_entry d = Some entry \<and>
    map_of (xe_option_historical_references e) (xc_symbol row) \<noteq> None \<and>
    bar_at (bars_of e (xc_symbol row)) ''09:24'' = Some bar \<and> \<not> base_entry_missed entry bar)"
proof (cases "map_of (xe_option_historical_references e) (xc_symbol row)")
  case None
  with assms show ?thesis by (auto simp: selected_leg_def Let_def)
next
  case (Some h)
  from assms(1) Some obtain d1 entry where d: "d = with_order_status (bars_of e (xc_symbol row)) (xc_symbol row) entry d1"
    and "xl_order_time d1 = xl_order_time d0" "xl_entry d1 = Some entry"
    by (auto simp: selected_leg_def Let_def bindE_eq_Inr bars_of_def)
  with assms(2) Some show ?thesis unfolding d by (simp add: order_time_of_status with_order_status_fields)
qed

text \<open>
  A leg has an order for 09:25 exactly when a contract was selected with a premium and a history,
  the 09:24 bar of that contract is there, and its low has not yet gone below the entry.
\<close>
theorem leg_order_ready_iff:
  assumes "get_s21_leg_rule code = Inr leg" and "evaluate_leg e code = Inr d"
  shows "xl_order_time d = Some ''09:25'' \<longleftrightarrow> (\<exists>row phase entry bar. leg_search e leg d = Some (row, phase) \<and>
    xc_chain_ltp row \<noteq> None \<and> map_of (xe_option_historical_references e) (xc_symbol row) \<noteq> None \<and> xl_entry d = Some entry \<and>
    bar_at (bars_of e (xc_symbol row)) ''09:24'' = Some bar \<and> \<not> base_entry_missed entry bar)"
proof -
  from evaluate_leg_cases [OF assms] obtain params xs where xs: "expiry_order e = Inr xs" and c: "leg_ends e leg params xs d" by blast
  show ?thesis
  proof (cases "leg_search e leg d")
    case None
    with leg_found_result [OF xs, of leg d] c show ?thesis by (simp add: search_result_def leg_ends_def Let_def)
  next
    case (Some p)
    obtain row phase where p: "p = (row, phase)" by (cases p)
    show ?thesis
    proof (cases "xc_chain_ltp row = None")
      case True
      with leg_found_result [OF xs, of leg d] c Some p show ?thesis by (simp add: search_result_def leg_ends_def Let_def)
    next
      case False
      with leg_found_result [OF xs, of leg d] c Some p obtain base where
        "selected_leg leg e params row phase base = Inr d" "xl_order_time base = None"
        by (auto simp: search_result_def leg_ends_def Let_def)
      from selected_leg_order_time [OF this] Some p False show ?thesis by auto
    qed
  qed
qed

section \<open>The symbols that have to be fetched\<close>

lemma scan_rows_candidates:
  "\<exists>n. ss_candidates (scan_rows min_oi phase required rows s) = ss_candidates s @ map (s21_candidate min_oi phase required) (take n rows)"
proof (induction rows arbitrary: s)
  case (Cons row rows)
  let ?s = "after_row min_oi phase required row s"
  have c: "ss_candidates ?s = ss_candidates s @ [s21_candidate min_oi phase required row]" by (simp add: after_row_def)
  show ?case
  proof (cases "row_oi_pass min_oi row \<and> row_premium_pass required row")
    case True
    with c show ?thesis by (intro exI [of _ 1]) (simp add: scan_rows_step Let_def del: scan_rows.simps)
  next
    case False
    then have step: "scan_rows min_oi phase required (row # rows) s = scan_rows min_oi phase required rows ?s"
      unfolding scan_rows_step Let_def by (simp only: if_False)
    from Cons.IH [of ?s] obtain n where
      "ss_candidates (scan_rows min_oi phase required rows ?s) = ss_candidates ?s @ map (s21_candidate min_oi phase required) (take n rows)" by blast
    with c show ?thesis unfolding step by (intro exI [of _ "Suc n"]) simp
  qed
qed simp

lemma candidate_symbol [simp]: "xd_symbol (s21_candidate min_oi phase required row) = xc_symbol row"
  by (simp add: s21_candidate_def Let_def)

lemma scan_rows_symbols:
  "xd_symbol ` set (ss_candidates (scan_rows min_oi phase required rows s)) \<subseteq> xd_symbol ` set (ss_candidates s) \<union> xc_symbol ` set rows"
proof -
  obtain n where "ss_candidates (scan_rows min_oi phase required rows s) = ss_candidates s @ map (s21_candidate min_oi phase required) (take n rows)"
    using scan_rows_candidates [of min_oi phase required rows s] by blast
  then have "xd_symbol ` set (ss_candidates (scan_rows min_oi phase required rows s)) =
      xd_symbol ` set (ss_candidates s) \<union> xc_symbol ` set (take n rows)" by (simp add: image_Un image_image)
  then show ?thesis using image_mono [OF set_take_subset [of n rows], of xc_symbol] by auto
qed

lemma scan_expiry_symbols:
  "xd_symbol ` set (ss_candidates (scan_expiry min_oi ideal minimum forward s)) \<subseteq> xd_symbol ` set (ss_candidates s) \<union> xc_symbol ` set forward"
proof -
  let ?s = "scan_rows min_oi ''IDEAL_START_TO_END'' ideal forward s"
  have first_phase: "xd_symbol ` set (ss_candidates ?s) \<subseteq> xd_symbol ` set (ss_candidates s) \<union> xc_symbol ` set forward"
    by (rule scan_rows_symbols)
  have "xd_symbol ` set (ss_candidates (scan_rows min_oi ''MINIMUM_END_TO_START'' minimum (rev forward) ?s)) \<subseteq>
      xd_symbol ` set (ss_candidates ?s) \<union> xc_symbol ` set (rev forward)" by (rule scan_rows_symbols)
  also have "\<dots> \<subseteq> xd_symbol ` set (ss_candidates s) \<union> xc_symbol ` set forward" using first_phase by simp
  finally show ?thesis using first_phase by (simp add: scan_expiry_def Let_def)
qed

lemma mapE_member: "mapE f xs = Inr ys \<Longrightarrow> y \<in> set ys \<Longrightarrow> \<exists>x \<in> set xs. f x = Inr y"
  by (induction xs arbitrary: ys) (auto simp: bindE_eq_Inr)

text \<open>
  The symbols collected beforehand cover the search: every contract a leg looks at, the selected
  one included, is among the symbols required for its branch.
\<close>
theorem required_symbols_cover_search:
  assumes "required_candidate_symbols e = Inr req" and "(code, symbols) \<in> set req" and "evaluate_leg e code = Inr d"
  shows "set (map xd_symbol (xl_candidate_decisions d)) \<subseteq> set symbols"
proof -
  from assms(1,2) obtain leg params spot step buffer strikes xs where
    leg: "get_s21_leg_rule code = Inr leg" and r: "key_lookup (xe_branch_parameters e) code = Inr params"
      "underlying_reference e (lg_spot_reference_alias leg) = Inr spot"
      "key_lookup params ''strike_step'' = Inr step" "key_lookup params ''strike_buffer_pct'' = Inr buffer"
      "strike_range (lg_option_type leg) spot buffer step = Inr strikes" "expiry_order e = Inr xs"
    and symbols: "symbols = concat (map (\<lambda>x. map xc_symbol (chain_contracts e x (lg_option_type leg) (fst strikes) (snd strikes))) xs)"
    by (auto simp: required_candidate_symbols_def bindE_eq_Inr dest!: mapE_member)
  from evaluate_leg_cases [OF leg assms(3)] r obtain params' xs' where "leg_ends e leg params' xs' d" "xs' = xs"
      "strikes = (xl_start_strike d, xl_end_strike d)" by auto
  then have c: "xl_candidate_decisions d = ss_candidates (leg_found e leg d xs)"
    and s: "symbols = concat (map (\<lambda>x. map xc_symbol (chain_contracts e x (lg_option_type leg) (xl_start_strike d) (xl_end_strike d))) xs)"
    using symbols by (simp_all add: leg_ends_def Let_def)
  from expiry_order_at_most_one [OF r(6)] consider "xs = []" | x where "xs = [x]" by blast
  then show ?thesis
  proof cases
    case 2
    then show ?thesis
      using scan_expiry_symbols [of "xl_minimum_oi_units d" "xl_ideal_premium d" "xl_minimum_premium d"
        "chain_contracts e x (lg_option_type leg) (xl_start_strike d) (xl_end_strike d)"
        "\<lparr>ss_candidates = [], ss_missing = [], ss_selected = None\<rparr>"]
      by (simp add: c s leg_found_def Let_def)
  qed (simp add: c leg_found_def)
qed

section \<open>The engine and the sheet\<close>

text \<open>
  The values the sheet of a leg needs: the three references, the percentages \<open>pct\<close> and, for the
  target and the stop, the entry computed before.
\<close>

definition provides :: "formula_env \<Rightarrow> leg_rule \<Rightarrow> price \<Rightarrow> price \<Rightarrow> price \<Rightarrow> (string \<Rightarrow> price) \<Rightarrow> bool" where
  "provides env leg spot entry_ref sl_ref pct \<longleftrightarrow>
     resolve_alias env (lg_spot_reference_alias leg) = Inr spot \<and> resolve_alias env (lg_entry_reference_alias leg) = Inr entry_ref \<and>
     resolve_alias env (lg_structure_sl_reference_alias leg) = Inr sl_ref \<and>
     resolve_alias env ''ENTRY'' = Inr (entry_price entry_ref (pct ''entry_discount_pct'')) \<and>
     list_all (\<lambda>n. map_of (fe_params env) n = Some (pct n))
       [''strike_step'', ''strike_buffer_pct'', ''ideal_premium_pct'', ''minimum_premium_pct'', ''entry_discount_pct'', ''target_pct'',
        ''sl_entry_pct'', ''sl_reference_pct'']"

lemma slack_floor: "\<lfloor>x + rounding_slack\<rfloor> \<in> {\<lfloor>x\<rfloor>, \<lfloor>x\<rfloor> + 1}"
proof -
  have s: "0 < rounding_slack" "rounding_slack < 1" by (simp_all add: rounding_slack_def)
  have "\<lfloor>x\<rfloor> \<le> \<lfloor>x + rounding_slack\<rfloor>" using s by (intro floor_mono) simp
  moreover have "\<lfloor>x + rounding_slack\<rfloor> \<le> \<lfloor>x + 1\<rfloor>" using s by (intro floor_mono) simp
  ultimately show ?thesis by auto
qed

lemma slack_ceiling: "\<lceil>x - rounding_slack\<rceil> \<in> {\<lceil>x\<rceil>, \<lceil>x\<rceil> - 1}"
  using slack_floor [of "- x"] by (auto simp: ceiling_def)

definition near :: "bool \<Rightarrow> price \<Rightarrow> price \<Rightarrow> price \<Rightarrow> bool" where
  "near up step sheet engine \<longleftrightarrow> engine = sheet \<or> engine = (if up then sheet - step else sheet + step)"

lemma near_down: "s21_round_down v step = Inr x \<Longrightarrow> near False step (of_int \<lfloor>v / step\<rfloor> * step) x"
  using slack_floor [of "v / step"] by (auto simp: s21_round_down_def near_def algebra_simps split: if_splits)

lemma near_up: "s21_round_up v step = Inr x \<Longrightarrow> near True step (of_int \<lceil>v / step\<rceil> * step) x"
proof -
  assume "s21_round_up v step = Inr x"
  then have x: "x = of_int \<lceil>v / step - rounding_slack\<rceil> * step" by (simp add: s21_round_up_def split: if_splits)
  from slack_ceiling [of "v / step"] consider "\<lceil>v / step - rounding_slack\<rceil> = \<lceil>v / step\<rceil>"
    | "\<lceil>v / step - rounding_slack\<rceil> = \<lceil>v / step\<rceil> - 1" by auto
  then have "rat_of_int \<lceil>v / step - rounding_slack\<rceil> = rat_of_int \<lceil>v / step\<rceil> \<or>
      rat_of_int \<lceil>v / step - rounding_slack\<rceil> = rat_of_int \<lceil>v / step\<rceil> - 1" by cases simp_all
  then show ?thesis unfolding x near_def by (auto simp: left_diff_distrib)
qed

lemma rounding_upper: "upper ''ROUND_UP'' = ''ROUND_UP''" "upper ''ROUND_DOWN'' = ''ROUND_DOWN''" "upper ''MIN'' = ''MIN''"
  by code_simp+

lemma sheet_strikes:
  assumes "provides env leg spot entry_ref sl_ref pct" and "0 < pct ''strike_step''"
    and "strike_range (lg_option_type leg) spot (pct ''strike_buffer_pct'') (pct ''strike_step'') = Inr (start, stop)"
  shows "\<exists>a b. eval_expr env (start_expr leg) = Inr a \<and> eval_expr env (end_expr leg) = Inr b \<and>
    near (lg_option_type leg \<noteq> CALL) (pct ''strike_step'') a start \<and> near (lg_option_type leg \<noteq> CALL) (pct ''strike_step'') b stop"
proof -
  let ?step = "pct ''strike_step''" and ?buffer = "pct ''strike_buffer_pct''"
  have p: "resolve_alias env (lg_spot_reference_alias leg) = Inr spot" "map_of (fe_params env) ''strike_step'' = Some ?step"
    "map_of (fe_params env) ''strike_buffer_pct'' = Some ?buffer" using assms(1) by (simp_all add: provides_def)
  have near_diff: "near up s a x \<Longrightarrow> near up s (a + c) (x + c)" for up s a x c by (auto simp: near_def)
  show ?thesis
  proof (cases "lg_option_type leg = CALL")
    case True
    with assms(3) obtain b where b: "s21_round_down (spot * (1 + ?buffer / 100)) ?step = Inr start" "s21_round_down spot ?step = Inr b"
      "stop = b - ?step" by (auto simp: strike_range_def bindE_eq_Inr)
    have "eval_expr env (start_expr leg) = Inr (of_int \<lfloor>spot * (1 + ?buffer / 100) / ?step\<rfloor> * ?step)"
      using True p assms(2) by (simp add: start_expr_def rounding_of_def eval_adjusted [OF p(1,3)] round_value_def rounding_upper)
    moreover have "eval_expr env (end_expr leg) = Inr (of_int \<lfloor>spot / ?step\<rfloor> * ?step - ?step)"
      using True p assms(2) by (simp add: end_expr_def rounding_of_def round_value_def rounding_upper resolve_parameter_def)
    ultimately show ?thesis using True near_down [OF b(1)] near_diff [OF near_down [OF b(2)], of "- ?step"] b(3) by simp
  next
    case False
    with assms(3) obtain b where b: "s21_round_up (spot * (1 - ?buffer / 100)) ?step = Inr start" "s21_round_up spot ?step = Inr b"
      "stop = b + ?step" by (auto simp: strike_range_def bindE_eq_Inr)
    have "eval_expr env (start_expr leg) = Inr (of_int \<lceil>spot * (1 - ?buffer / 100) / ?step\<rceil> * ?step)"
      using False p assms(2) by (simp add: start_expr_def rounding_of_def eval_adjusted [OF p(1,3)] round_value_def rounding_upper)
    moreover have "eval_expr env (end_expr leg) = Inr (of_int \<lceil>spot / ?step\<rceil> * ?step + ?step)"
      using False p assms(2) by (simp add: end_expr_def rounding_of_def round_value_def rounding_upper resolve_parameter_def)
    ultimately show ?thesis using False near_up [OF b(1)] near_diff [OF near_up [OF b(2)], of ?step] b(3) by simp
  qed
qed

text \<open>
  C29: the prices the engine computes with its own arithmetic are the values of the formulas of the
  rule sheet, evaluated by the formula engine; its strikes are those of the sheet too, up to one
  step, which the slack of its rounding (1e-12 of a step) can add at a boundary.
\<close>
theorem engine_follows_sheet:
  assumes "leg \<in> set sheet_legs" and "merge_parameters params rt = Inr merged"
    and "provides \<lparr>fe_levels = levels, fe_runtime = rt, fe_params = merged\<rparr> leg spot entry_ref sl_ref pct"
    and "0 < pct ''strike_step''"
    and "strike_range (lg_option_type leg) spot (pct ''strike_buffer_pct'') (pct ''strike_step'') = Inr (start, stop)"
  shows "evaluate_formula (lg_ideal_premium_formula leg) levels rt params = Inr (spot * pct ''ideal_premium_pct'' / 100) \<and>
    evaluate_formula (lg_minimum_premium_formula leg) levels rt params = Inr (spot * pct ''minimum_premium_pct'' / 100) \<and>
    evaluate_formula (lg_entry_formula leg) levels rt params = Inr (entry_price entry_ref (pct ''entry_discount_pct'')) \<and>
    evaluate_formula (lg_target_formula leg) levels rt params =
      Inr (target_price (entry_price entry_ref (pct ''entry_discount_pct'')) (pct ''target_pct'')) \<and>
    evaluate_formula (lg_stoploss_formula leg) levels rt params =
      Inr (stoploss_price (entry_price entry_ref (pct ''entry_discount_pct'')) (pct ''sl_entry_pct'') sl_ref (pct ''sl_reference_pct'')) \<and>
    (\<exists>a b. evaluate_formula (lg_start_strike_formula leg) levels rt params = Inr a \<and>
      evaluate_formula (lg_end_strike_formula leg) levels rt params = Inr b \<and>
      near (lg_option_type leg \<noteq> CALL) (pct ''strike_step'') a start \<and> near (lg_option_type leg \<noteq> CALL) (pct ''strike_step'') b stop)"
proof -
  have "leg_reads leg" by (rule leg_of_sheet [OF assms(1)])
  let ?env = "\<lparr>fe_levels = levels, fe_runtime = rt, fe_params = merged\<rparr>"
  note ev = evaluate_reading [OF _ assms(2), where levels = levels]
  have eval: "evaluate_formula (lg_ideal_premium_formula leg) levels rt params = eval_expr ?env (scaled (lg_spot_reference_alias leg) ''ideal_premium_pct'')"
    "evaluate_formula (lg_minimum_premium_formula leg) levels rt params = eval_expr ?env (scaled (lg_spot_reference_alias leg) ''minimum_premium_pct'')"
    "evaluate_formula (lg_entry_formula leg) levels rt params = eval_expr ?env (adjusted (lg_entry_reference_alias leg) False ''entry_discount_pct'')"
    "evaluate_formula (lg_target_formula leg) levels rt params = eval_expr ?env (adjusted ''ENTRY'' False ''target_pct'')"
    "evaluate_formula (lg_stoploss_formula leg) levels rt params = eval_expr ?env (stop_expr leg)"
    "evaluate_formula (lg_start_strike_formula leg) levels rt params = eval_expr ?env (start_expr leg)"
    "evaluate_formula (lg_end_strike_formula leg) levels rt params = eval_expr ?env (end_expr leg)"
    using \<open>leg_reads leg\<close> unfolding leg_reads_def by (blast intro: ev)+
  show ?thesis using assms(3) sheet_strikes [OF assms(3-5)] unfolding eval
    by (simp add: provides_def eval_scaled eval_adjusted stop_expr_def rounding_upper entry_price_def target_price_def stoploss_price_def)
qed

section \<open>Witnesses\<close>

definition demo_contract :: "string \<Rightarrow> price \<Rightarrow> price \<Rightarrow> contract_evidence" where
  "demo_contract symbol strike ltp = \<lparr>xc_symbol = symbol, xc_option_type = ''call'', xc_strike = strike, xc_expiry = ''2024-01-31'',
     xc_oi = Some 10000, xc_chain_ltp = Some ltp\<rparr>"

definition demo_percentages :: "(string, price) dict" where
  "demo_percentages = [(''strike_step'', 100), (''strike_buffer_pct'', 2), (''ideal_premium_pct'', 1), (''minimum_premium_pct'', 1),
     (''entry_discount_pct'', 10), (''target_pct'', 50), (''sl_entry_pct'', 30), (''sl_reference_pct'', 10),
     (''minimum_lots'', 500), (''lot_size'', 15)]"

definition demo_s21_evidence :: s21_evidence where
  "demo_s21_evidence = \<lparr>xe_session_date = ''2024-01-15'', xe_monthly_status = ''BEAR'', xe_monthly_status_source = ''test'',
     xe_underlying_references = [(''PRV_2DLL'', 48000)],
     xe_option_chain = [demo_contract ''B48000'' 48000 700, demo_contract ''B48900'' 48900 300],
     xe_option_historical_references = [(''B48000'', \<lparr>xh_symbol = ''B48000'', xh_references = [(''OPT_PRV_2DLL'', 650), (''OPT_PRV_3DHH'', 900)],
       xh_source = ''test''\<rparr>)],
     xe_option_minute_bars = [(''B48000'', [\<lparr>xb_symbol = ''B48000'', xb_bar_start = ''2024-01-15T09:24:00'', xb_high = None, xb_low = Some 600,
       xb_open = None, xb_close = None\<rparr>])],
     xe_branch_parameters = [(''BANKNIFTY_OP_SELL_MONTHLY_BEAR_CALL'', demo_percentages)]\<rparr>"

lemma demo_leg: "case get_s21_leg_rule ''BANKNIFTY_OP_SELL_MONTHLY_BEAR_CALL'' of Inl _ \<Rightarrow> False | Inr leg \<Rightarrow>
    (case evaluate_leg demo_s21_evidence ''BANKNIFTY_OP_SELL_MONTHLY_BEAR_CALL'' of Inl _ \<Rightarrow> False | Inr d \<Rightarrow>
      xl_selected_contract d = Some ''B48000'' \<and> xl_entry d = Some 585 \<and> xl_order_time d = Some ''09:25'' \<and>
      map xd_symbol (xl_candidate_decisions d) = [''B48900'', ''B48000''] \<and>
      leg_search demo_s21_evidence leg d = Some (demo_contract ''B48000'' 48000 700, ''IDEAL_START_TO_END''))"
  by code_simp

lemma leg_selects_decisive_row_witness:
  "\<exists>d. evaluate_leg demo_s21_evidence ''BANKNIFTY_OP_SELL_MONTHLY_BEAR_CALL'' = Inr d \<and> xl_selected_contract d = Some ''B48000'' \<and>
     xl_selected_strike d = Some 48000 \<and> xl_selection_phase d = Some ''IDEAL_START_TO_END''"
proof -
  from demo_leg obtain leg d where l: "get_s21_leg_rule ''BANKNIFTY_OP_SELL_MONTHLY_BEAR_CALL'' = Inr leg"
    and d: "evaluate_leg demo_s21_evidence ''BANKNIFTY_OP_SELL_MONTHLY_BEAR_CALL'' = Inr d"
    and f: "leg_search demo_s21_evidence leg d = Some (demo_contract ''B48000'' 48000 700, ''IDEAL_START_TO_END'')"
    by (auto split: sum.splits)
  from leg_selects_decisive_row [OF l d] f d show ?thesis by (simp add: demo_contract_def)
qed

lemma leg_order_ready_iff_witness:
  "\<exists>d entry bar. evaluate_leg demo_s21_evidence ''BANKNIFTY_OP_SELL_MONTHLY_BEAR_CALL'' = Inr d \<and> xl_entry d = Some entry \<and>
     bar_at (bars_of demo_s21_evidence ''B48000'') ''09:24'' = Some bar \<and> \<not> base_entry_missed entry bar"
proof -
  from demo_leg obtain leg d where l: "get_s21_leg_rule ''BANKNIFTY_OP_SELL_MONTHLY_BEAR_CALL'' = Inr leg"
    and d: "evaluate_leg demo_s21_evidence ''BANKNIFTY_OP_SELL_MONTHLY_BEAR_CALL'' = Inr d"
    and f: "leg_search demo_s21_evidence leg d = Some (demo_contract ''B48000'' 48000 700, ''IDEAL_START_TO_END'')"
      "xl_order_time d = Some ''09:25''"
    by (auto split: sum.splits)
  from leg_order_ready_iff [OF l d] f d show ?thesis by (auto simp: demo_contract_def)
qed

lemma required_symbols_cover_search_witness:
  "\<exists>d. evaluate_leg demo_s21_evidence ''BANKNIFTY_OP_SELL_MONTHLY_BEAR_CALL'' = Inr d \<and>
     set (map xd_symbol (xl_candidate_decisions d)) \<subseteq> {''B48900'', ''B48000''}"
proof -
  let ?e = "demo_s21_evidence\<lparr>xe_branch_parameters := [(''BANKNIFTY_OP_SELL_MONTHLY_BEAR_CALL'', demo_percentages),
     (''BANKNIFTY_OP_SELL_MONTHLY_BEAR_PUT'', demo_percentages)], xe_underlying_references := [(''PRV_2DLL'', 48000), (''PRV_3DHH'', 49000)]\<rparr>"
  have "case required_candidate_symbols ?e of Inl _ \<Rightarrow> False | Inr req \<Rightarrow>
      (''BANKNIFTY_OP_SELL_MONTHLY_BEAR_CALL'', [''B48900'', ''B48000'']) \<in> set req" by code_simp
  then obtain req where req: "required_candidate_symbols ?e = Inr req"
    "(''BANKNIFTY_OP_SELL_MONTHLY_BEAR_CALL'', [''B48900'', ''B48000'']) \<in> set req" by (auto split: sum.splits)
  have "case evaluate_leg ?e ''BANKNIFTY_OP_SELL_MONTHLY_BEAR_CALL'' of Inl _ \<Rightarrow> False
    | Inr d \<Rightarrow> evaluate_leg demo_s21_evidence ''BANKNIFTY_OP_SELL_MONTHLY_BEAR_CALL'' = Inr d" by code_simp
  then obtain d where d: "evaluate_leg ?e ''BANKNIFTY_OP_SELL_MONTHLY_BEAR_CALL'' = Inr d"
    and same: "evaluate_leg demo_s21_evidence ''BANKNIFTY_OP_SELL_MONTHLY_BEAR_CALL'' = Inr d" by (auto split: sum.splits)
  from required_symbols_cover_search [OF req d] same show ?thesis by auto
qed

definition demo_sheet_runtime :: "(string, py_value) dict" where
  "demo_sheet_runtime = [(''OPT_PRV_2DLL'', PNum 650), (''OPT_PRV_3DHH'', PNum 900), (''ENTRY'', PNum 585)]"

definition demo_sheet_levels :: market_levels where
  "demo_sheet_levels = \<lparr>previous_month_high = None, previous_month_low = None, previous_week_high = None, previous_week_low = None,
     d2hh = None, d2ll = Some 48000, d3hh = None, d3ll = None, d4hh = None, d4ll = None, current_day_high = None, current_day_low = None\<rparr>"

definition demo_pct :: "string \<Rightarrow> price" where
  "demo_pct n = (case map_of demo_percentages n of Some x \<Rightarrow> x | None \<Rightarrow> 0)"

lemma engine_follows_sheet_witness:
  "case get_s21_leg_rule ''BANKNIFTY_OP_SELL_MONTHLY_BEAR_CALL'' of Inl _ \<Rightarrow> False | Inr leg \<Rightarrow>
     evaluate_formula (lg_entry_formula leg) demo_sheet_levels demo_sheet_runtime demo_percentages = Inr 585"
proof -
  have facts: "case get_s21_leg_rule ''BANKNIFTY_OP_SELL_MONTHLY_BEAR_CALL'' of Inl _ \<Rightarrow> False | Inr leg \<Rightarrow> leg \<in> set sheet_legs \<and>
      provides \<lparr>fe_levels = demo_sheet_levels, fe_runtime = demo_sheet_runtime, fe_params = demo_percentages\<rparr> leg 48000 650 900 demo_pct \<and>
      strike_range (lg_option_type leg) 48000 (demo_pct ''strike_buffer_pct'') (demo_pct ''strike_step'') = Inr (48900, 47900)"
    by code_simp
  then obtain leg where l: "get_s21_leg_rule ''BANKNIFTY_OP_SELL_MONTHLY_BEAR_CALL'' = Inr leg" "leg \<in> set sheet_legs"
    and p: "provides \<lparr>fe_levels = demo_sheet_levels, fe_runtime = demo_sheet_runtime, fe_params = demo_percentages\<rparr> leg 48000 650 900 demo_pct"
    and r: "strike_range (lg_option_type leg) 48000 (demo_pct ''strike_buffer_pct'') (demo_pct ''strike_step'') = Inr (48900, 47900)"
    by (auto split: sum.splits)
  have "merge_parameters demo_percentages demo_sheet_runtime = Inr demo_percentages" "0 < demo_pct ''strike_step''"
    and entry: "entry_price 650 (demo_pct ''entry_discount_pct'') = 585" by code_simp+
  from engine_follows_sheet [OF l(2) this(1) p this(2) r] l(1) entry show ?thesis by simp
qed

end
