(* ===== verification/LifecycleSupervisor.thy ===== *)
theory LifecycleSupervisor
  imports ManagerSpec
begin

text \<open>
  \<^verbatim>\<open>src/tfis/paper/lifecycle_supervisor.py\<close>: one supervision step of a paper trade, over the order
  store and the position manager. The session directory is the pair of the directories of the two
  stores (\<open>kd_\<close>); the supervisor is the slippage of its position manager. Fields of the context carry
  \<open>kx_\<close>, of a step \<open>kp_\<close>, of the result \<open>kr_\<close>, the keyword arguments \<open>ka_\<close>.
\<close>

section \<open>Data\<close>

record supervisor_directory =
  kd_orders :: paper_order_directory
  kd_manager :: manager_directory

record supervisor_context =
  kx_session_date :: date
  kx_trade_id :: string
  kx_selected_contract_symbol :: string
  kx_order_state :: "paper_order_state option"
  kx_position_state :: "position_state option"

record supervisor_step =
  kp_status :: string
  kp_reason_code :: string
  kp_fill_price :: "price option"
  kp_entry_price :: "price option"
  kp_exit_price :: "price option"

record supervisor_result =
  kr_context :: supervisor_context
  kr_steps :: "supervisor_step list"
  kr_terminal :: bool

record supervise_args =
  ka_now :: datetime
  ka_market_events :: "selected_event list"
  ka_evaluated_at :: datetime
  ka_watch_cutoff_time :: time_of_day
  ka_governance :: governance
  ka_allow_reverse :: bool
  ka_provenance :: "string list"

type_synonym 'a supervisor_op = "('a, supervisor_directory) op"

text \<open>Operations of the two stores, run in the supervisor's directory; an order operation that fails writes nothing.\<close>

definition ordersS ::
  "(paper_order_directory \<Rightarrow> (paper_order_state \<times> paper_order_event \<times> paper_order_directory) res) \<Rightarrow>
   (paper_order_state \<times> paper_order_event) supervisor_op" where
  "ordersS f d = (case f (kd_orders d) of Inl e \<Rightarrow> (Inl e, d)
     | Inr (s, e, od) \<Rightarrow> (Inr (s, e), d\<lparr>kd_orders := od\<rparr>))"

definition managerS :: "'a manager_op \<Rightarrow> 'a supervisor_op" where
  "managerS m d = (case m (kd_manager d) of (r, md) \<Rightarrow> (r, d\<lparr>kd_manager := md\<rparr>))"

definition terminal_position_statuses :: "manager_status list" where
  "terminal_position_statuses = filter (\<lambda>s. manager_status_is_lifecycle_terminal (Some (manager_status_value s)))
     [MS_OPENED, MS_HELD, MS_TARGET_HIT, MS_STOPLOSS_HIT, MS_FORCE_CLOSED, MS_ROLLOVER_REQUIRED,
      MS_REVERSE_ENTRY_REQUIRED, MS_FRESH_ENTRY_REQUIRED, MS_ALREADY_CLOSED, MS_NO_MARKET_DATA]"

definition step_from_order_event :: "paper_order_event \<Rightarrow> supervisor_step" where
  "step_from_order_event e = \<lparr>kp_status = paper_order_status_value (oe_status e), kp_reason_code = oe_reason_code e,
     kp_fill_price = oe_fill_price e, kp_entry_price = None, kp_exit_price = None\<rparr>"

definition step_from_manager_result :: "manager_result \<Rightarrow> price option \<Rightarrow> supervisor_step" where
  "step_from_manager_result r entry = \<lparr>kp_status = manager_status_value (mg_status r),
     kp_reason_code = me_reason_code (mg_event r), kp_fill_price = None, kp_entry_price = entry,
     kp_exit_price = me_exit_price (mg_event r)\<rparr>"

definition replace_order_context :: "supervisor_context \<Rightarrow> paper_order_state \<Rightarrow> supervisor_context" where
  "replace_order_context c s = \<lparr>kx_session_date = kx_session_date c, kx_trade_id = kx_trade_id c,
     kx_selected_contract_symbol = os_selected_contract_symbol s, kx_order_state = Some s, kx_position_state = None\<rparr>"

definition position_context :: "supervisor_context \<Rightarrow> string \<Rightarrow> position_state \<Rightarrow> supervisor_context" where
  "position_context c trade_id s = \<lparr>kx_session_date = kx_session_date c, kx_trade_id = trade_id,
     kx_selected_contract_symbol = pp_selected_contract_symbol s, kx_order_state = None, kx_position_state = Some s\<rparr>"

section \<open>Operations\<close>

definition expires_untriggered :: "supervisor_context \<Rightarrow> bool" where
  "expires_untriggered c \<longleftrightarrow> kx_position_state c = None \<and> (case kx_order_state c of None \<Rightarrow> False
     | Some s \<Rightarrow> paper_order_is_waiting_for_trigger (OStatus (os_status s)) \<and> os_entry_date s < kx_session_date c)"

definition expire_waiting_order :: "supervisor_context \<Rightarrow> datetime \<Rightarrow> supervisor_result option supervisor_op" where
  "expire_waiting_order c evaluated_at =
     (if \<not> expires_untriggered c then liftS (Inr None)
      else bindS (ordersS (mark_not_filled evaluated_at ''paper_order_expired_untriggered_previous_session''
          ''Pending paper entry orders are session-only. This order did not trigger on its entry date, so it was cancelled instead of being carried forward.''))
        (\<lambda>(s, e). liftS (Inr (Some \<lparr>kr_context = replace_order_context c s, kr_steps = [step_from_order_event e],
           kr_terminal = True\<rparr>))))"

definition session_args_of :: "supervisor_context \<Rightarrow> supervise_args \<Rightarrow> session_args" where
  "session_args_of c a = \<lparr>sa_now = ka_now a, sa_session_date = kx_session_date c, sa_market_events = ka_market_events a,
     sa_evaluated_at = ka_evaluated_at a, sa_governance = Some (ka_governance a), sa_allow_reverse = ka_allow_reverse a,
     sa_provenance = ka_provenance a\<rparr>"

definition supervise_open_position :: "price \<Rightarrow> supervisor_context \<Rightarrow> supervise_args \<Rightarrow> supervisor_result supervisor_op" where
  "supervise_open_position slip c a =
     (case kx_position_state c of
        None \<Rightarrow> liftS (Inl (RuntimeError [Txt ''Open-position supervision requires a position_state.'']))
      | Some _ \<Rightarrow> bindS (managerS (process_session slip (session_args_of c a))) (\<lambda>r.
          liftS (Inr \<lparr>kr_context = position_context c (kx_trade_id c) (mg_state r),
            kr_steps = [step_from_manager_result r None],
            kr_terminal = (mg_status r \<in> set terminal_position_statuses)\<rparr>)))"

definition open_and_supervise ::
  "price \<Rightarrow> supervisor_context \<Rightarrow> supervise_args \<Rightarrow> paper_order_state \<Rightarrow> supervisor_step \<Rightarrow> supervisor_result supervisor_op" where
  "open_and_supervise slip c a s first =
     bindS (managerS (open_from_filled_order None s [''paper_order_state.json'', ''s23_paper_position_watch''])) (\<lambda>opened.
     bindS (supervise_open_position slip (position_context c (trade_id_for_state (mg_state opened)) (mg_state opened)) a) (\<lambda>r.
     liftS (Inr (r\<lparr>kr_steps := [first, step_from_manager_result opened (Some (pp_entry_price (mg_state opened)))] @ kr_steps r\<rparr>))))"

definition supervise_waiting_order :: "price \<Rightarrow> supervisor_context \<Rightarrow> supervise_args \<Rightarrow> supervisor_result supervisor_op" where
  "supervise_waiting_order slip c a =
     (case kx_order_state c of
        None \<Rightarrow> liftS (Inl (RuntimeError [Txt ''Waiting-order supervision requires an order_state.'']))
      | Some _ \<Rightarrow>
        bindS (ordersS (evaluate_waiting_order (ka_market_events a) (ka_evaluated_at a))) (\<lambda>(s, e).
        if os_status s = ORDER_FILLED then open_and_supervise slip c a s (step_from_order_event e)
        else if time_of (ka_evaluated_at a) \<ge> ka_watch_cutoff_time a then
          bindS (ordersS (mark_not_filled (ka_evaluated_at a) ''paper_order_not_triggered_by_watch_cutoff''
              ''Selected option premium did not reach entry before the paper watch cutoff, so the pending paper order was not filled.''))
            (\<lambda>(s', e'). liftS (Inr \<lparr>kr_context = replace_order_context c s',
               kr_steps = [step_from_order_event e, step_from_order_event e'], kr_terminal = True\<rparr>))
        else liftS (Inr \<lparr>kr_context = replace_order_context c s, kr_steps = [step_from_order_event e], kr_terminal = False\<rparr>)))"

definition supervise :: "price \<Rightarrow> supervisor_context \<Rightarrow> supervise_args \<Rightarrow> supervisor_result supervisor_op" where
  "supervise slip c a =
     (if kx_position_state c = None then supervise_waiting_order slip c a else supervise_open_position slip c a)"

section \<open>Reading an order back\<close>

lemma normalized_order_keys:
  "normalize_order_parameters acc xs = Inr ys \<Longrightarrow> list_all (\<lambda>(k, _). strip k \<noteq> []) acc \<Longrightarrow> list_all (\<lambda>(k, _). strip k \<noteq> []) ys"
proof (induction acc xs arbitrary: ys rule: normalize_order_parameters.induct)
  case (2 acc k v rest)
  then have k: "strip k \<noteq> []" by (auto split: if_splits)
  with 2 have "list_all (\<lambda>(k, _). strip k \<noteq> []) (AList.update (strip k) v acc)" by (intro list_all_update) auto
  with 2 k show ?case by simp
qed simp

lemma normalize_order_parameters_ok:
  "list_all (\<lambda>(k, _). strip k \<noteq> []) xs \<Longrightarrow> \<exists>ys. normalize_order_parameters acc xs = Inr ys"
  by (induction acc xs rule: normalize_order_parameters.induct) auto

lemma parameters_read_back: "order_strategy_parameters ps = Inr qs \<Longrightarrow> \<exists>rs. order_strategy_parameters qs = Inr rs"
proof -
  assume q: "order_strategy_parameters ps = Inr qs"
  show ?thesis
  proof (cases qs)
    case (Some ys)
    with q obtain xs where "normalize_order_parameters [] xs = Inr ys"
      by (auto simp: order_strategy_parameters_def bindE_eq_Inr split: option.splits list.splits)
    then have "list_all (\<lambda>(k, _). strip k \<noteq> []) ys" by (rule normalized_order_keys) simp
    from normalize_order_parameters_ok [OF this, of "[]"] Some show ?thesis
      by (auto simp: order_strategy_parameters_def split: list.split)
  qed (simp add: order_strategy_parameters_def)
qed

lemma evaluate_event_parameters: "os_strategy_parameters (fst (PaperOrders.evaluate_event s e)) = os_strategy_parameters s"
  by (cases e) (simp_all add: evaluate_quote_def evaluate_bar_def Let_def)

lemma scan_parameters: "os_strategy_parameters (fst (scan_market_events s l es)) = os_strategy_parameters s"
proof (induction es arbitrary: s l)
  case (Cons e es)
  then show ?case using evaluate_event_parameters [of s e] by (cases "PaperOrders.evaluate_event s e") auto
qed simp

lemma evaluated_order_loads:
  assumes "evaluate_waiting_order es t d = Inr (o', e, d')" and "od_order d' = Some o'"
  shows "\<exists>u. load_paper_order d' = Inr u \<and> os_status u = os_status o'"
proof -
  from assms(1) obtain s where l: "load_paper_order d = Inr s" by (auto simp: evaluate_waiting_order_def bindE_eq_Inr)
  then obtain ps where ps: "order_strategy_parameters ps = Inr (os_strategy_parameters s)"
    by (auto simp: load_paper_order_def bindE_eq_Inr split: option.splits)
  have "os_strategy_parameters o' = os_strategy_parameters s"
    using assms(1) l scan_parameters [of s None "sort_key event_order es"]
    by (auto simp: evaluate_waiting_order_def Let_def split: if_splits prod.splits option.splits)
  with parameters_read_back [OF ps] assms(2) show ?thesis by (auto simp: load_paper_order_def)
qed

section \<open>Waiting orders\<close>

lemma mark_inside:
  assumes "load_paper_order (kd_orders d) = Inr s" and "os_status s \<noteq> ORDER_FILLED"
  shows "\<exists>s' e d'. ordersS (mark_not_filled t reason m) d = (Inr (s', e), d') \<and> os_status s' = ORDER_NOT_FILLED \<and>
    oe_status e = ORDER_NOT_FILLED \<and> od_order (kd_orders d') = Some s' \<and> kd_manager d' = kd_manager d"
  using assms by (simp add: ordersS_def mark_not_filled_def Let_def plain_order_event_def append_paper_order_event_def save_paper_order_def)

lemma waiting_step:
  assumes "load_paper_order (kd_orders d) = Inr s" and "os_status s = WAITING_FOR_TRIGGER"
    and "first_trigger s (sort_key event_order es) = None"
  shows "\<exists>s' e d'. ordersS (evaluate_waiting_order es t) d = (Inr (s', e), d') \<and>
    os_status s' = WAITING_FOR_TRIGGER \<and> oe_status e = WAITING_FOR_TRIGGER \<and>
    od_order (kd_orders d') = Some s' \<and> kd_manager d' = kd_manager d \<and>
    (\<exists>u. load_paper_order (kd_orders d') = Inr u \<and> os_status u \<noteq> ORDER_FILLED)"
proof -
  have "os_status s \<noteq> ORDER_FILLED" using assms(2) by simp
  from evaluate_waiting_outcome [OF assms(1) this, of es t] obtain s' e od where
    run: "evaluate_waiting_order es t (kd_orders d) = Inr (s', e, od)" and o: "od_order od = Some s'" by blast
  from untriggered_stays_waiting [OF assms run] have w: "os_status s' = WAITING_FOR_TRIGGER" "oe_status e = WAITING_FOR_TRIGGER" by simp_all
  from evaluated_order_loads [OF run o] o run w show ?thesis by (auto simp: ordersS_def)
qed

text \<open>
  C31: a waiting order whose trigger no event of its contract meets stays waiting before the cutoff
  time of the watch, with one step that reports it waiting, and is closed as not filled from then
  on, with a second step that says so; the step always returns and no position is opened or touched.
\<close>
theorem untriggered_order_is_closed_at_cutoff:
  assumes "kx_position_state c = None" and "kx_order_state c \<noteq> None"
    and "load_paper_order (kd_orders d) = Inr s" and "os_status s = WAITING_FOR_TRIGGER"
    and "first_trigger s (sort_key event_order (ka_market_events a)) = None"
  shows "\<exists>r d' s'. supervise slip c a d = (Inr r, d') \<and> kd_manager d' = kd_manager d \<and> od_order (kd_orders d') = Some s' \<and>
    kx_order_state (kr_context r) = Some s' \<and> kx_position_state (kr_context r) = None \<and>
    (if ka_watch_cutoff_time a \<le> time_of (ka_evaluated_at a) then os_status s' = ORDER_NOT_FILLED \<and> kr_terminal r \<and>
       map kp_status (kr_steps r) = map paper_order_status_value [WAITING_FOR_TRIGGER, ORDER_NOT_FILLED]
     else os_status s' = WAITING_FOR_TRIGGER \<and> \<not> kr_terminal r \<and>
       map kp_status (kr_steps r) = map paper_order_status_value [WAITING_FOR_TRIGGER])"
proof -
  from waiting_step [OF assms(3-5), of "ka_evaluated_at a"] obtain s' e d1 u where
    run: "ordersS (evaluate_waiting_order (ka_market_events a) (ka_evaluated_at a)) d = (Inr (s', e), d1)"
    and f: "os_status s' = WAITING_FOR_TRIGGER" "oe_status e = WAITING_FOR_TRIGGER" "od_order (kd_orders d1) = Some s'" "kd_manager d1 = kd_manager d"
    and u: "load_paper_order (kd_orders d1) = Inr u" "os_status u \<noteq> ORDER_FILLED" by blast
  obtain o0 where o0: "kx_order_state c = Some o0" using assms(2) by blast
  have sup: "supervise slip c a d =
      (if ka_watch_cutoff_time a \<le> time_of (ka_evaluated_at a) then
          bindS (ordersS (mark_not_filled (ka_evaluated_at a) ''paper_order_not_triggered_by_watch_cutoff''
              ''Selected option premium did not reach entry before the paper watch cutoff, so the pending paper order was not filled.''))
            (\<lambda>(s', e'). liftS (Inr \<lparr>kr_context = replace_order_context c s',
               kr_steps = [step_from_order_event e, step_from_order_event e'], kr_terminal = True\<rparr>)) d1
       else (Inr \<lparr>kr_context = replace_order_context c s', kr_steps = [step_from_order_event e], kr_terminal = False\<rparr>, d1))"
    using assms(1) o0 f(1) by (simp add: supervise_def supervise_waiting_order_def bindS_def run liftS_def)
  show ?thesis
  proof (cases "ka_watch_cutoff_time a \<le> time_of (ka_evaluated_at a)")
    case True
    from mark_inside [OF u, of "ka_evaluated_at a" "''paper_order_not_triggered_by_watch_cutoff''"
      "''Selected option premium did not reach entry before the paper watch cutoff, so the pending paper order was not filled.''"]
    obtain s2 e2 d2 where "ordersS (mark_not_filled (ka_evaluated_at a) ''paper_order_not_triggered_by_watch_cutoff''
        ''Selected option premium did not reach entry before the paper watch cutoff, so the pending paper order was not filled.'') d1
        = (Inr (s2, e2), d2)" "os_status s2 = ORDER_NOT_FILLED" "oe_status e2 = ORDER_NOT_FILLED" "od_order (kd_orders d2) = Some s2" "kd_manager d2 = kd_manager d1" by blast
    with True f show ?thesis unfolding sup
      by (simp add: bindS_def liftS_def replace_order_context_def step_from_order_event_def)
  next
    case False
    with f show ?thesis unfolding sup by (simp add: replace_order_context_def step_from_order_event_def)
  qed
qed

text \<open>
  An order of an earlier session that still waits is closed as not filled without looking at a
  single market event; the position manager is not called. Any other context is left as it is.
\<close>
theorem order_of_earlier_session_expires:
  assumes "expires_untriggered c \<longrightarrow> (\<exists>s. load_paper_order (kd_orders d) = Inr s \<and> os_status s \<noteq> ORDER_FILLED)"
  shows "if expires_untriggered c
    then \<exists>r d' s'. expire_waiting_order c t d = (Inr (Some r), d') \<and> kr_terminal r \<and> kx_order_state (kr_context r) = Some s' \<and>
      od_order (kd_orders d') = Some s' \<and> os_status s' = ORDER_NOT_FILLED \<and> kd_manager d' = kd_manager d
    else expire_waiting_order c t d = (Inr None, d)"
proof (cases "expires_untriggered c")
  case True
  with assms obtain s where "load_paper_order (kd_orders d) = Inr s" "os_status s \<noteq> ORDER_FILLED" by blast
  from mark_inside [OF this, of t "''paper_order_expired_untriggered_previous_session''"
    "''Pending paper entry orders are session-only. This order did not trigger on its entry date, so it was cancelled instead of being carried forward.''"]
  obtain s' e d' where "ordersS (mark_not_filled t ''paper_order_expired_untriggered_previous_session''
      ''Pending paper entry orders are session-only. This order did not trigger on its entry date, so it was cancelled instead of being carried forward.'') d
      = (Inr (s', e), d')" "os_status s' = ORDER_NOT_FILLED" "od_order (kd_orders d') = Some s'" "kd_manager d' = kd_manager d" by blast
  with True show ?thesis by (simp add: expire_waiting_order_def bindS_def liftS_def replace_order_context_def)
next
  case False
  then show ?thesis by (simp add: expire_waiting_order_def liftS_def)
qed

section \<open>The session after a fill\<close>

text \<open>The position a filled order becomes, as the manager reads it back.\<close>

definition opened_as :: "paper_order_state \<Rightarrow> position_state \<Rightarrow> bool" where
  "opened_as o' u \<longleftrightarrow> order_openable None o' [''paper_order_state.json'', ''s23_paper_position_watch''] \<and>
     (\<exists>s. create_open_position_state (order_position None o' [''paper_order_state.json'', ''s23_paper_position_watch'']) = Inr s \<and>
       position_from_payload s = Inr u)"

lemma read_back_fields: "position_from_payload s = Inr u \<Longrightarrow>
    pp_lifecycle_status u = pp_lifecycle_status s \<and> pp_stoploss_active u = pp_stoploss_active s"
  by (auto simp: position_from_payload_def bindE_eq_Inr mk_position_ok)

lemma open_inside:
  assumes "opened_as o' u"
  shows "\<exists>r d'. managerS (open_from_filled_order None o' [''paper_order_state.json'', ''s23_paper_position_watch'']) d = (Inr r, d') \<and>
    read_position (md_store (kd_manager d')) = Inr u \<and> pd_events (md_store (kd_manager d')) = pd_events (md_store (kd_manager d)) \<and>
    pp_lifecycle_status u = PAPER_POSITION_OPEN \<and> pp_stoploss_active u"
proof -
  let ?prov = "[''paper_order_state.json'', ''s23_paper_position_watch'']"
  from assms obtain s where s: "create_open_position_state (order_position None o' ?prov) = Inr s" "position_from_payload s = Inr u"
    and able: "order_openable None o' ?prov" by (auto simp: opened_as_def)
  from open_from_filled_order_cases [of None o' ?prov "kd_manager d"] able s(1)
  have run: "open_from_filled_order None o' ?prov (kd_manager d) = persist_result (os_entry_date o') s (opening_event o' s)
      ((kd_manager d)\<lparr>md_store := save_position s (md_store (kd_manager d))\<rparr>)" by auto
  have "pp_lifecycle_status u = PAPER_POSITION_OPEN" "pp_stoploss_active u"
    using read_back_fields [OF s(2)] create_open_fields [OF s(1)] by simp_all
  then show ?thesis using s(2)
    by (simp add: managerS_def run persist_result_def Let_def save_position_def read_position_def)
qed

lemma exit_status_terminal:
  "stop_status allow \<in> set terminal_position_statuses" "MS_FRESH_ENTRY_REQUIRED \<in> set terminal_position_statuses"
proof -
  have "list_all (\<lambda>x. x \<in> set terminal_position_statuses) [MS_REVERSE_ENTRY_REQUIRED, MS_STOPLOSS_HIT, MS_FRESH_ENTRY_REQUIRED]" by code_simp
  then show "stop_status allow \<in> set terminal_position_statuses" "MS_FRESH_ENTRY_REQUIRED \<in> set terminal_position_statuses"
    by (simp_all add: stop_status_def)
qed

text \<open>
  C30: when the governance does not ask for the next expiry, the step that fills an order checks all market events of the session against the new position
  at once, those before the fill included: the first event in time that meets its stop-loss or its
  target closes it in the same call, whatever the time of the fill.
\<close>
theorem fresh_position_meets_whole_session:
  assumes "kx_position_state c = None" and "kx_order_state c \<noteq> None"
    and "evaluate_waiting_order (ka_market_events a) (ka_evaluated_at a) (kd_orders d) = Inr (o', ev, od)"
    and "os_status o' = ORDER_FILLED" and "opened_as o' u"
    and "\<not> gv_should_select_next_expiry (gn_evaluate_position (ka_governance a) u (kx_session_date c) (time_of (ka_evaluated_at a)))"
    and "log_readable (md_store (kd_manager d))" and "list_all (\<lambda>x. strip x \<noteq> []) (ka_provenance a)"
    and "find (\<lambda>e. stops u e \<or> target_reached u e) (own_events u (ka_market_events a)) = Some e"
  shows "\<exists>r d'. supervise slip c a d = (Inr r, d') \<and> kr_terminal r \<and> file_closed (kd_manager d') \<and> length (kr_steps r) = 3 \<and>
    kp_exit_price (last (kr_steps r)) = Some (exit_price_of slip u e)"
proof -
  let ?prov = "[''paper_order_state.json'', ''s23_paper_position_watch'']"
  let ?d = "d\<lparr>kd_orders := od\<rparr>"
  from open_inside [OF assms(5), of ?d] obtain opened d1 where
    opn: "managerS (open_from_filled_order None o' ?prov) ?d = (Inr opened, d1)" and u: "read_position (md_store (kd_manager d1)) = Inr u"
    and events: "pd_events (md_store (kd_manager d1)) = pd_events (md_store (kd_manager d))"
    and st: "pp_lifecycle_status u = PAPER_POSITION_OPEN" "pp_stoploss_active u" by auto
  let ?c = "position_context c (trade_id_for_state (mg_state opened)) (mg_state opened)"
  let ?a = "session_args_of ?c a"
  have log: "log_readable (md_store (kd_manager d1))" using assms(7) events by (simp add: log_readable_iff)
  have "\<not> paper_position_is_no_longer_open (PStatus (pp_lifecycle_status u))" unfolding st(1) by code_simp
  from session_exits_on_event [OF u log this, of ?a e slip] assms(6,8,9) st(2) obtain r md where
    pr: "process_session slip ?a (kd_manager d1) = (Inr r, md)" "file_closed md" "me_exit_price (mg_event r) = Some (exit_price_of slip u e)"
    and "mg_status r = (if stops u e then stop_status (sa_allow_reverse ?a) else MS_FRESH_ENTRY_REQUIRED)"
    by (auto simp: session_args_of_def position_context_def pending_stoploss_reset_def)
  then have closed_status: "mg_status r \<in> set terminal_position_statuses" by (simp add: exit_status_terminal)
  have pos: "supervise_open_position slip ?c a d1 = (Inr \<lparr>kr_context = position_context ?c (kx_trade_id ?c) (mg_state r),
      kr_steps = [step_from_manager_result r None], kr_terminal = True\<rparr>, d1\<lparr>kd_manager := md\<rparr>)"
    using closed_status pr(1) by (simp add: supervise_open_position_def position_context_def session_args_of_def bindS_def managerS_def liftS_def)
  obtain o0 where "kx_order_state c = Some o0" using assms(2) by blast
  then have "supervise slip c a d = open_and_supervise slip c a o' (step_from_order_event ev) ?d"
    using assms(1,3,4) by (simp add: supervise_def supervise_waiting_order_def bindS_def ordersS_def)
  also have "\<dots> = (Inr \<lparr>kr_context = position_context ?c (kx_trade_id ?c) (mg_state r),
      kr_steps = [step_from_order_event ev, step_from_manager_result opened (Some (pp_entry_price (mg_state opened))),
        step_from_manager_result r None], kr_terminal = True\<rparr>, d1\<lparr>kd_manager := md\<rparr>)"
    unfolding open_and_supervise_def by (simp add: bindS_def opn pos liftS_def)
  finally show ?thesis using pr by (simp add: step_from_manager_result_def)
qed

section \<open>Witnesses\<close>

definition session_bar :: "int \<Rightarrow> int \<Rightarrow> price \<Rightarrow> price \<Rightarrow> selected_event" where
  "session_bar h m low high = BarEvent (demo_bar\<lparr>sb_envelope := demo_envelope\<lparr>en_effective_timestamp := at_time 738880 (clock_time h m 0),
     en_captured_at := at_time 738880 (clock_time h m 1)\<rparr>, sb_symbol := ''NIFTY-PE'', sb_low := Some low, sb_high := Some high,
     sb_close := Some low, sb_bar_start := at_time 738880 (clock_time h m 0), sb_bar_end := at_time 738880 (clock_time h m 59)\<rparr>)"

definition supervised_order :: paper_order_state where
  "supervised_order = demo_paper_order\<lparr>os_selected_contract_option_type := ''PUT'', os_rollover_policy := ''T_MINUS_1''\<rparr>"

definition demo_supervised :: supervisor_directory where
  "demo_supervised = \<lparr>kd_orders = demo_order_directory supervised_order, kd_manager = \<lparr>md_store = \<lparr>pd_path = ''s'', pd_state = None, pd_events = []\<rparr>,
     md_events = [], md_summary = None, md_ledgers = \<lparr>tr_session = [], tr_global = []\<rparr>\<rparr>\<rparr>"

definition demo_context :: supervisor_context where
  "demo_context = \<lparr>kx_session_date = 738880, kx_trade_id = ''T'', kx_selected_contract_symbol = ''NIFTY-PE'',
     kx_order_state = Some supervised_order, kx_position_state = None\<rparr>"

definition demo_supervise :: "selected_event list \<Rightarrow> supervise_args" where
  "demo_supervise es = \<lparr>ka_now = 0, ka_market_events = es, ka_evaluated_at = at_time 738880 (clock_time 10 0 0),
     ka_watch_cutoff_time = clock_time 15 15 0, ka_governance = expiry_governance (deterministic_calendar [] []),
     ka_allow_reverse = False, ka_provenance = []\<rparr>"

definition spike_day :: "selected_event list" where
  "spike_day = [session_bar 9 20 120 160, session_bar 9 40 95 125]"

lemma spike_day_facts:
  "case evaluate_waiting_order spike_day (at_time 738880 (clock_time 10 0 0)) (kd_orders demo_supervised) of Inl _ \<Rightarrow> False
   | Inr (o', ev, od) \<Rightarrow> os_status o' = ORDER_FILLED \<and> os_fill_timestamp o' = Some (at_time 738880 (clock_time 9 40 59)) \<and>
       order_openable None o' [''paper_order_state.json'', ''s23_paper_position_watch''] \<and>
       (case create_open_position_state (order_position None o' [''paper_order_state.json'', ''s23_paper_position_watch'']) of Inl _ \<Rightarrow> False
        | Inr s \<Rightarrow> (case position_from_payload s of Inl _ \<Rightarrow> False | Inr u \<Rightarrow>
            \<not> gv_should_select_next_expiry (gn_evaluate_position (ka_governance (demo_supervise spike_day)) u 738880 (clock_time 10 0 0)) \<and>
            find (\<lambda>e. stops u e \<or> target_reached u e) (own_events u spike_day) = Some (session_bar 9 20 120 160) \<and>
            exit_price_of 0 u (session_bar 9 20 120 160) = 130))"
  by code_simp

lemma triggers_code [code]: "triggers entry e = (case trigger_price e of None \<Rightarrow> False | Some p \<Rightarrow> p \<le> entry)"
  by (simp add: triggers_def split: option.split)

lemma ok_caseD: "(case x of Inl _ \<Rightarrow> False | Inr y \<Rightarrow> P y) \<Longrightarrow> \<exists>y. x = Inr y \<and> P y"
  by (cases x) simp_all

text \<open>The bar of 09:20 touched the stop of 130; the order fills at 09:40 and is closed at 130 in the same call.\<close>

lemma fresh_position_meets_whole_session_witness:
  "\<exists>r d' o' ev od. evaluate_waiting_order spike_day (at_time 738880 (clock_time 10 0 0)) (kd_orders demo_supervised) = Inr (o', ev, od) \<and>
     os_fill_timestamp o' = Some (at_time 738880 (clock_time 9 40 59)) \<and>
     supervise 0 demo_context (demo_supervise spike_day) demo_supervised = (Inr r, d') \<and> kr_terminal r \<and>
     file_closed (kd_manager d') \<and> kp_exit_price (last (kr_steps r)) = Some 130"
proof -
  from ok_caseD [OF spike_day_facts] obtain o' ev od where
    ev: "evaluate_waiting_order spike_day (at_time 738880 (clock_time 10 0 0)) (kd_orders demo_supervised) = Inr (o', ev, od)"
    and o: "os_status o' = ORDER_FILLED" "os_fill_timestamp o' = Some (at_time 738880 (clock_time 9 40 59))"
      "order_openable None o' [''paper_order_state.json'', ''s23_paper_position_watch'']"
    and created: "case create_open_position_state (order_position None o' [''paper_order_state.json'', ''s23_paper_position_watch'']) of Inl _ \<Rightarrow> False
        | Inr s \<Rightarrow> (case position_from_payload s of Inl _ \<Rightarrow> False | Inr u \<Rightarrow>
            \<not> gv_should_select_next_expiry (gn_evaluate_position (ka_governance (demo_supervise spike_day)) u 738880 (clock_time 10 0 0)) \<and>
            find (\<lambda>e. stops u e \<or> target_reached u e) (own_events u spike_day) = Some (session_bar 9 20 120 160) \<and>
            exit_price_of 0 u (session_bar 9 20 120 160) = 130)"
    by auto
  from ok_caseD [OF created] obtain s where
    s: "create_open_position_state (order_position None o' [''paper_order_state.json'', ''s23_paper_position_watch'']) = Inr s"
    and payload: "case position_from_payload s of Inl _ \<Rightarrow> False | Inr u \<Rightarrow>
            \<not> gv_should_select_next_expiry (gn_evaluate_position (ka_governance (demo_supervise spike_day)) u 738880 (clock_time 10 0 0)) \<and>
            find (\<lambda>e. stops u e \<or> target_reached u e) (own_events u spike_day) = Some (session_bar 9 20 120 160) \<and>
            exit_price_of 0 u (session_bar 9 20 120 160) = 130" by blast
  from ok_caseD [OF payload] obtain u where u: "position_from_payload s = Inr u"
    and g: "\<not> gv_should_select_next_expiry (gn_evaluate_position (ka_governance (demo_supervise spike_day)) u 738880 (clock_time 10 0 0))"
    and f: "find (\<lambda>e. stops u e \<or> target_reached u e) (own_events u spike_day) = Some (session_bar 9 20 120 160)"
    and x: "exit_price_of 0 u (session_bar 9 20 120 160) = 130" by blast
  have args: "ka_market_events (demo_supervise spike_day) = spike_day" "ka_evaluated_at (demo_supervise spike_day) = at_time 738880 (clock_time 10 0 0)"
    "kx_session_date demo_context = 738880" "ka_provenance (demo_supervise spike_day) = []" "kx_position_state demo_context = None"
    "kx_order_state demo_context \<noteq> None" by (simp_all add: demo_supervise_def demo_context_def)
  have t: "time_of (at_time 738880 (clock_time 10 0 0)) = clock_time 10 0 0" by code_simp
  have log: "log_readable (md_store (kd_manager demo_supervised))" by (simp add: log_readable_iff demo_supervised_def)
  have open': "opened_as o' u" using o(3) s u by (auto simp: opened_as_def)
  from fresh_position_meets_whole_session [of demo_context "demo_supervise spike_day" demo_supervised o' ev od u "session_bar 9 20 120 160" 0]
  show ?thesis using ev o g f x args t log open' by auto
qed

lemma untriggered_order_is_closed_at_cutoff_witness:
  "\<exists>r d' s'. supervise 0 demo_context ((demo_supervise [session_bar 9 20 120 160])\<lparr>ka_watch_cutoff_time := clock_time 9 45 0\<rparr>) demo_supervised = (Inr r, d') \<and>
     od_order (kd_orders d') = Some s' \<and> os_status s' = ORDER_NOT_FILLED \<and> kr_terminal r"
proof -
  let ?a = "(demo_supervise [session_bar 9 20 120 160])\<lparr>ka_watch_cutoff_time := clock_time 9 45 0\<rparr>"
  have facts: "case load_paper_order (kd_orders demo_supervised) of Inl _ \<Rightarrow> False | Inr s \<Rightarrow> os_status s = WAITING_FOR_TRIGGER \<and>
      first_trigger s (sort_key event_order (ka_market_events ?a)) = None" by code_simp
  then obtain s where "load_paper_order (kd_orders demo_supervised) = Inr s" "os_status s = WAITING_FOR_TRIGGER"
    "first_trigger s (sort_key event_order (ka_market_events ?a)) = None" by (auto split: sum.splits)
  moreover have "kx_position_state demo_context = None" "kx_order_state demo_context \<noteq> None" by (simp_all add: demo_context_def)
  moreover have "ka_watch_cutoff_time ?a \<le> time_of (ka_evaluated_at ?a)" by code_simp
  ultimately show ?thesis using untriggered_order_is_closed_at_cutoff [of demo_context demo_supervised s ?a 0] by auto
qed

lemma order_of_earlier_session_expires_witness:
  "\<exists>r d'. expire_waiting_order (demo_context\<lparr>kx_session_date := 738881\<rparr>) 0 demo_supervised = (Inr (Some r), d') \<and> kr_terminal r"
proof -
  have "expires_untriggered (demo_context\<lparr>kx_session_date := 738881\<rparr>)" by code_simp
  moreover have "case load_paper_order (kd_orders demo_supervised) of Inl _ \<Rightarrow> False | Inr s \<Rightarrow> os_status s \<noteq> ORDER_FILLED" by code_simp
  ultimately show ?thesis
    using order_of_earlier_session_expires [of "demo_context\<lparr>kx_session_date := 738881\<rparr>" demo_supervised 0]
    by (auto split: sum.splits)
qed

end
