(* ===== verification/CurrentDayFslTrp.thy ===== *)
theory CurrentDayFslTrp
  imports Recalculation Calendar
begin

text \<open>
  \<^verbatim>\<open>src/tfis/backtest/s23_current_day_fsl_trp.py\<close>: what the option high of 09:15 against the stop of
  the base plan does to the plan of the day, by the rows 183 to 188 of the sheet. Prefixes: snapshot
  \<open>yd_\<close>, trigger \<open>yt_\<close>, input \<open>yi_\<close>, result \<open>yr_\<close>. A note is the list of its fragments, so that the
  parameters it quotes stay numbers. The percentages are those of \<open>Recalculation\<close>, whose
  formulas \<^verbatim>\<open>_pct_of\<close>, \<^verbatim>\<open>_pct_above\<close> and \<^verbatim>\<open>_pct_below\<close> repeat.
\<close>

section \<open>Data\<close>

record current_day_snapshot =
  yd_timestamp :: datetime
  yd_spot_low :: price
  yd_spot_high :: price
  yd_option_low :: price
  yd_option_high :: price

record fsl_trigger =
  yt_fsl_trp_missed :: bool
  yt_rule_name :: string
  yt_compared_value :: price
  yt_threshold_stoploss_price :: price
  yt_notes :: "msg list"

record fsl_input =
  yi_branch_unique_code :: string
  yi_base_trade_plan :: trade_plan
  yi_market_levels :: market_levels
  yi_option_levels :: "(string, price) dict"
  yi_parameters :: "(string, price) dict"
  yi_trigger_snapshot_at_0915 :: current_day_snapshot
  yi_snapshot_at_orpt :: current_day_snapshot
  yi_snapshot_at_recalc :: current_day_snapshot

record fsl_result =
  yr_applied :: bool
  yr_reason :: string
  yr_row_number :: "nat option"
  yr_trigger_result :: fsl_trigger
  yr_effective_option_type :: "option_type option"
  yr_start_strike :: "int option"
  yr_end_strike :: "int option"
  yr_ideal_premium :: "price option"
  yr_minimum_premium :: "price option"
  yr_entry_price :: "price option"
  yr_stoploss_price :: "price option"
  yr_entry_override_source_cell :: "string option"
  yr_lifecycle_start_after :: "datetime option"
  yr_source_rule :: "string option"
  yr_unsupported_fields :: "string list"
  yr_audit_notes :: "msg list"

section \<open>The trigger and what a row needs\<close>

definition detect_fsl_trp_missed :: "fsl_input \<Rightarrow> fsl_trigger" where
  "detect_fsl_trp_missed i =
     (let compared = yd_option_high (yi_trigger_snapshot_at_0915 i);
          threshold = tp_stoploss_price (yi_base_trade_plan i);
          label = (case tp_option_type (yi_base_trade_plan i) of None \<Rightarrow> ''UNKNOWN'' | Some t \<Rightarrow> option_type_value t)
      in \<lparr>yt_fsl_trp_missed = (compared > threshold),
          yt_rule_name = ''S23_CURRENT_DAY_FSL_TRP_0915_OPTION_HIGH_CHECK_V1'',
          yt_compared_value = compared, yt_threshold_stoploss_price = threshold,
          yt_notes = [[Txt ''Applied workbook FSL/TRP trigger at 09:15:00 using current-day option high versus the base stoploss price.''],
            [Txt ''Checked '', Txt label, Txt '' side at '', Txt (isoformat (yd_timestamp (yi_trigger_snapshot_at_0915 i))),
             Txt '': current_day_option_high > stoploss_price.'']]\<rparr>)"

definition fsl_market_level :: "price option \<Rightarrow> string \<Rightarrow> price res" where
  "fsl_market_level v name = (case v of Some x \<Rightarrow> Inr x
     | None \<Rightarrow> Inl (ValueError [Txt ''Missing market level for S23 current-day FSL/TRP: '', Txt name]))"

definition fsl_option_level :: "(string, price) dict \<Rightarrow> string \<Rightarrow> price res" where
  "fsl_option_level levels name = (case map_of levels name of Some x \<Rightarrow> Inr x
     | None \<Rightarrow> Inl (ValueError [Txt ''Missing option reference for S23 current-day FSL/TRP: '', Txt name]))"

definition fsl_required :: "string list" where
  "fsl_required = [''strike_buffer_pct'', ''ideal_premium_pct'', ''minimum_premium_pct'', ''entry_discount_pct'', ''sl_reference_pct'']"

definition fsl_missing :: "fsl_input \<Rightarrow> string list" where
  "fsl_missing i = filter (\<lambda>n. map_of (yi_parameters i) n = None) fsl_required"

definition fsl_parameters :: "fsl_input \<Rightarrow> (string \<Rightarrow> price) res" where
  "fsl_parameters i =
     (if fsl_missing i \<noteq> []
      then Inl (ValueError [Txt ''Missing S23 current-day FSL/TRP parameter(s): '', Txt (join_names (fsl_missing i))])
      else Inr (\<lambda>n. the (map_of (yi_parameters i) n)))"

section \<open>The rows\<close>

definition entry_note :: "string \<Rightarrow> string \<Rightarrow> price \<Rightarrow> string \<Rightarrow> msg" where
  "entry_note option_name snap_name pct cell = [Txt (''Used MIN('' @ option_name @ '', OPT_CDLL_at_'' @ snap_name @ '') minus ''), PyFloat pct,
     Txt (''% for the current-day option entry override from '' @ cell @ ''.'')]"

definition stop_note :: "price \<Rightarrow> msg" where
  "stop_note pct = [Txt ''Used current-day option HH at recalculation time plus '', PyFloat pct, Txt ''% for the new FSL.'']"

definition row_183_bull_call_not_missed :: "fsl_input \<Rightarrow> fsl_trigger \<Rightarrow> fsl_result res" where
  "row_183_bull_call_not_missed i t =
     bindE (fsl_parameters i) (\<lambda>param.
     bindE (fsl_market_level (d3ll (yi_market_levels i)) ''PRV_3DLL'') (\<lambda>level.
     bindE (fsl_option_level (yi_option_levels i) ''OPT_PRV_3DLL'') (\<lambda>opt.
     let reference = min level (yd_spot_low (yi_snapshot_at_orpt i));
         entry = min opt (yd_option_low (yi_snapshot_at_orpt i)) in
     Inr \<lparr>yr_applied = True, yr_reason = ''s23_current_day_fsl_trp_row_183_applied'', yr_row_number = Some 183,
       yr_trigger_result = t, yr_effective_option_type = Some CALL,
       yr_start_strike = Some \<lfloor>percent_above reference (param ''strike_buffer_pct'')\<rfloor>,
       yr_end_strike = Some (\<lfloor>reference\<rfloor> - 1),
       yr_ideal_premium = Some (percent_of reference (param ''ideal_premium_pct'')),
       yr_minimum_premium = Some (percent_of reference (param ''minimum_premium_pct'')),
       yr_entry_price = Some (percent_below entry (param ''entry_discount_pct'')),
       yr_stoploss_price = None, yr_entry_override_source_cell = Some ''AB6_OS_Z183'',
       yr_lifecycle_start_after = Some (yd_timestamp (yi_snapshot_at_orpt i)), yr_source_rule = Some ''AB6_OS_ROW_183'',
       yr_unsupported_fields = [''target_price'', ''stoploss_price''],
       yr_audit_notes = [[Txt ''Row 183 applied exactly as workbook-backed current-day Bull/Bull CF Call not-missed handling.''],
         [Txt ''Used MIN(PRV_3DLL, CDLL_at_ORPT) for current-day strike and premium recalculation.''],
         entry_note ''OPT_PRV_3DLL'' ''ORPT'' (param ''entry_discount_pct'') ''AB6_OS_Z183'',
         [Txt ''Target and stoploss remain inherited from the base trade plan because row 183 does not confirm additional override cells for those fields.'']]\<rparr>)))"

definition row_184_bull_call_missed :: "fsl_input \<Rightarrow> fsl_trigger \<Rightarrow> fsl_result res" where
  "row_184_bull_call_missed i t =
     bindE (fsl_parameters i) (\<lambda>param.
     bindE (fsl_market_level (d2hh (yi_market_levels i)) ''PRV_2DHH'') (\<lambda>level.
     bindE (fsl_option_level (yi_option_levels i) ''OPT_PRV_2DLL'') (\<lambda>opt.
     let snap = yi_snapshot_at_recalc i; strike = max level (yd_spot_high snap); premium = min level (yd_spot_low snap);
         entry = min opt (yd_option_low snap) in
     Inr \<lparr>yr_applied = True, yr_reason = ''s23_current_day_fsl_trp_row_184_applied'', yr_row_number = Some 184,
       yr_trigger_result = t, yr_effective_option_type = Some PUT,
       yr_start_strike = Some \<lceil>percent_below strike (param ''strike_buffer_pct'')\<rceil>,
       yr_end_strike = Some (\<lceil>strike\<rceil> + 1),
       yr_ideal_premium = Some (percent_of premium (param ''ideal_premium_pct'')),
       yr_minimum_premium = Some (percent_of premium (param ''minimum_premium_pct'')),
       yr_entry_price = Some (percent_below entry (param ''entry_discount_pct'')),
       yr_stoploss_price = Some (percent_above (yd_option_high snap) (param ''sl_reference_pct'')),
       yr_entry_override_source_cell = Some ''AB6_OS_Z184'',
       yr_lifecycle_start_after = Some (yd_timestamp snap), yr_source_rule = Some ''AB6_OS_ROW_184'',
       yr_unsupported_fields = [''target_price''],
       yr_audit_notes = [[Txt ''Row 184 applied exactly as workbook-directed for Bull/Bull CF Call FSL/TRP missed handling.''],
         [Txt ''Workbook confirmation keeps the Put-side Q/R/S/U/W/Z family intentional for this missed Bull/Bull CF Call branch.''],
         [Txt ''Used MAX(PRV_2DHH, CDHH_at_recalc) for strike range and MIN(PRV_2DHH, CDLL_at_recalc) for premium thresholds.''],
         entry_note ''OPT_PRV_2DLL'' ''recalc'' (param ''entry_discount_pct'') ''AB6_OS_Z184'',
         stop_note (param ''sl_reference_pct''),
         [Txt ''Target remains inherited because row 184 does not confirm an additional target override cell.'']]\<rparr>)))"

definition row_185_bear_call_missed :: "fsl_input \<Rightarrow> fsl_trigger \<Rightarrow> fsl_result res" where
  "row_185_bear_call_missed i t =
     bindE (fsl_parameters i) (\<lambda>param.
     bindE (fsl_market_level (d2ll (yi_market_levels i)) ''PRV_2DLL'') (\<lambda>level.
     bindE (fsl_option_level (yi_option_levels i) ''OPT_PRV_2DLL'') (\<lambda>opt.
     let snap = yi_snapshot_at_recalc i; reference = min level (yd_spot_low snap); entry = min opt (yd_option_low snap) in
     Inr \<lparr>yr_applied = True, yr_reason = ''s23_current_day_fsl_trp_row_185_applied'', yr_row_number = Some 185,
       yr_trigger_result = t, yr_effective_option_type = Some CALL,
       yr_start_strike = Some \<lfloor>percent_above reference (param ''strike_buffer_pct'')\<rfloor>,
       yr_end_strike = Some (\<lfloor>reference\<rfloor> - 1),
       yr_ideal_premium = Some (percent_of reference (param ''ideal_premium_pct'')),
       yr_minimum_premium = Some (percent_of reference (param ''minimum_premium_pct'')),
       yr_entry_price = Some (percent_below entry (param ''entry_discount_pct'')),
       yr_stoploss_price = Some (percent_above (yd_option_high snap) (param ''sl_reference_pct'')),
       yr_entry_override_source_cell = Some ''AB6_OS_Z185'',
       yr_lifecycle_start_after = Some (yd_timestamp snap), yr_source_rule = Some ''AB6_OS_ROW_185'',
       yr_unsupported_fields = [''target_price''],
       yr_audit_notes = [[Txt ''Row 185 applied exactly as workbook-backed Bear/Bear CF Call FSL/TRP missed handling.''],
         [Txt ''Used MIN(PRV_2DLL, CDLL_at_recalc) for current-day strike and premium recalculation.''],
         entry_note ''OPT_PRV_2DLL'' ''recalc'' (param ''entry_discount_pct'') ''AB6_OS_Z185'',
         stop_note (param ''sl_reference_pct''),
         [Txt ''Target remains inherited because row 185 does not confirm an additional target override cell.'']]\<rparr>)))"

definition row_186_bear_put_not_missed :: "fsl_input \<Rightarrow> fsl_trigger \<Rightarrow> fsl_result res" where
  "row_186_bear_put_not_missed i t =
     bindE (fsl_parameters i) (\<lambda>param.
     bindE (fsl_market_level (d3hh (yi_market_levels i)) ''PRV_3DHH'') (\<lambda>level.
     bindE (fsl_option_level (yi_option_levels i) ''OPT_PRV_3DLL'') (\<lambda>opt.
     let snap = yi_snapshot_at_orpt i; strike = max level (yd_spot_high snap); premium = min level (yd_spot_low snap);
         entry = min opt (yd_option_low snap) in
     Inr \<lparr>yr_applied = True, yr_reason = ''s23_current_day_fsl_trp_row_186_applied'', yr_row_number = Some 186,
       yr_trigger_result = t, yr_effective_option_type = Some PUT,
       yr_start_strike = Some \<lceil>percent_below strike (param ''strike_buffer_pct'')\<rceil>,
       yr_end_strike = Some (\<lceil>strike\<rceil> + 1),
       yr_ideal_premium = Some (percent_of premium (param ''ideal_premium_pct'')),
       yr_minimum_premium = Some (percent_of premium (param ''minimum_premium_pct'')),
       yr_entry_price = Some (percent_below entry (param ''entry_discount_pct'')),
       yr_stoploss_price = None, yr_entry_override_source_cell = Some ''AB6_OS_Z186'',
       yr_lifecycle_start_after = Some (yd_timestamp snap), yr_source_rule = Some ''AB6_OS_ROW_186'',
       yr_unsupported_fields = [''target_price'', ''stoploss_price''],
       yr_audit_notes = [[Txt ''Row 186 applied exactly as workbook-backed Put Sell SL not-missed handling.''],
         [Txt ''Used MAX(PRV_3DHH, CDHH_at_ORPT) for strike range and MIN(PRV_3DHH, CDLL_at_ORPT) for premium thresholds.''],
         entry_note ''OPT_PRV_3DLL'' ''ORPT'' (param ''entry_discount_pct'') ''AB6_OS_Z186'',
         [Txt ''Target and stoploss remain inherited from the base trade plan because row 186 does not confirm additional override cells for those fields.'']]\<rparr>)))"

text \<open>The rows 187 and 188 set nothing but a new stop; they differ in their number and one note.\<close>

definition row_fsl_only :: "string \<Rightarrow> nat \<Rightarrow> string \<Rightarrow> fsl_input \<Rightarrow> fsl_trigger \<Rightarrow> fsl_result res" where
  "row_fsl_only number row note i t =
     bindE (fsl_parameters i) (\<lambda>param.
     let snap = yi_snapshot_at_recalc i in
     Inr \<lparr>yr_applied = True, yr_reason = ''s23_current_day_fsl_trp_row_'' @ number @ ''_fsl_only_applied'', yr_row_number = Some row,
       yr_trigger_result = t, yr_effective_option_type = Some PUT,
       yr_start_strike = None, yr_end_strike = None, yr_ideal_premium = None, yr_minimum_premium = None, yr_entry_price = None,
       yr_stoploss_price = Some (percent_above (yd_option_high snap) (param ''sl_reference_pct'')),
       yr_entry_override_source_cell = None,
       yr_lifecycle_start_after = Some (yd_timestamp snap), yr_source_rule = Some (''AB6_OS_ROW_'' @ number),
       yr_unsupported_fields = [''start_strike'', ''end_strike'', ''ideal_premium'', ''minimum_premium'', ''entry_price'', ''target_price''],
       yr_audit_notes = [[Txt (''Row '' @ number @ '' applied as FSL-only exactly as workbook-backed.'')],
         [Txt ''R/S/U/W/Z are blank in the workbook, so strike, premium, and entry recalculation must not be inferred.''],
         stop_note (param ''sl_reference_pct''), [Txt note]]\<rparr>)"

definition row_187_bull_put_missed_fsl_only :: "fsl_input \<Rightarrow> fsl_trigger \<Rightarrow> fsl_result res" where
  "row_187_bull_put_missed_fsl_only =
     row_fsl_only ''187'' 187 ''Workbook note: 'When You Call And Put Position is Exited'.''"

definition row_188_bear_put_missed_fsl_only :: "fsl_input \<Rightarrow> fsl_trigger \<Rightarrow> fsl_result res" where
  "row_188_bear_put_missed_fsl_only =
     row_fsl_only ''188'' 188 ''Workbook note: 'This is Only Applicable for Same Day'.''"

definition plan_kept :: "fsl_input \<Rightarrow> fsl_trigger \<Rightarrow> string \<Rightarrow> string \<Rightarrow> fsl_result" where
  "plan_kept i t reason note =
     \<lparr>yr_applied = False, yr_reason = reason, yr_row_number = None, yr_trigger_result = t,
       yr_effective_option_type = tp_option_type (yi_base_trade_plan i),
       yr_start_strike = None, yr_end_strike = None, yr_ideal_premium = None, yr_minimum_premium = None, yr_entry_price = None,
       yr_stoploss_price = None, yr_entry_override_source_cell = None, yr_lifecycle_start_after = None, yr_source_rule = None,
       yr_unsupported_fields = [], yr_audit_notes = [[Txt note]]\<rparr>"

definition apply_fsl_trp :: "fsl_input \<Rightarrow> fsl_result res" where
  "apply_fsl_trp i =
     (let t = detect_fsl_trp_missed i; missed = yt_fsl_trp_missed t; code = yi_branch_unique_code i in
      if code = BULL_CALL_CODE then
        (if missed then row_184_bull_call_missed i t else row_183_bull_call_not_missed i t)
      else if code = BEAR_CALL_CODE then
        (if missed then row_185_bear_call_missed i t
         else Inr (plan_kept i t ''bear_call_not_missed_not_confirmed''
           ''AB6 OS rows 183-188 do not confirm a dedicated current-day Bear/Bear CF Call not-missed row; base trade plan was kept.''))
      else if code = BULL_PUT_CODE then
        (if missed then row_187_bull_put_missed_fsl_only i t
         else Inr (plan_kept i t ''bull_put_not_missed_not_confirmed''
           ''AB6 OS rows 183-188 do not confirm a dedicated current-day Bull/Bull CF Put not-missed row; base trade plan was kept.''))
      else if code = BEAR_PUT_CODE then
        (if missed then row_188_bear_put_missed_fsl_only i t else row_186_bear_put_not_missed i t)
      else Inr (plan_kept i t ''unsupported_branch'' (''Unsupported S23 current-day FSL/TRP branch: '' @ code)))"

section \<open>The sheet as a table\<close>

text \<open>
  The row of a branch by the trigger, the levels it reads (the market level, the option level) and
  the snapshot it uses, against which the six functions above are checked.
\<close>

definition fsl_row :: "string \<Rightarrow> bool \<Rightarrow> nat option" where
  "fsl_row code missed =
     (if code = BULL_CALL_CODE then Some (if missed then 184 else 183)
      else if code = BEAR_CALL_CODE then (if missed then Some 185 else None)
      else if code = BULL_PUT_CODE then (if missed then Some 187 else None)
      else if code = BEAR_PUT_CODE then Some (if missed then 188 else 186)
      else None)"

definition fsl_levels :: "fsl_input \<Rightarrow> nat \<Rightarrow> (price option \<times> price option) option" where
  "fsl_levels i row = (let m = yi_market_levels i; opt = map_of (yi_option_levels i) in
     if row = 183 then Some (d3ll m, opt ''OPT_PRV_3DLL'')
     else if row = 184 then Some (d2hh m, opt ''OPT_PRV_2DLL'')
     else if row = 185 then Some (d2ll m, opt ''OPT_PRV_2DLL'')
     else if row = 186 then Some (d3hh m, opt ''OPT_PRV_3DLL'') else None)"

definition fsl_ready :: "fsl_input \<Rightarrow> nat \<Rightarrow> bool" where
  "fsl_ready i row \<longleftrightarrow> fsl_missing i = [] \<and>
     (case fsl_levels i row of None \<Rightarrow> True | Some (level, opt) \<Rightarrow> level \<noteq> None \<and> opt \<noteq> None)"

abbreviation stop_passed :: "fsl_input \<Rightarrow> bool" where
  "stop_passed i \<equiv> tp_stoploss_price (yi_base_trade_plan i) < yd_option_high (yi_trigger_snapshot_at_0915 i)"

definition row_snapshot :: "fsl_input \<Rightarrow> current_day_snapshot" where
  "row_snapshot i = (if stop_passed i then yi_snapshot_at_recalc i else yi_snapshot_at_orpt i)"

lemma trigger_is_stop_passed [simp]: "yt_fsl_trp_missed (detect_fsl_trp_missed i) = stop_passed i"
  by (simp add: detect_fsl_trp_missed_def Let_def)

lemma fsl_parameters_ok: "fsl_missing i = [] \<Longrightarrow> fsl_parameters i = Inr (\<lambda>n. the (map_of (yi_parameters i) n))"
  by (simp add: fsl_parameters_def)

lemma fsl_parameters_fail: "fsl_missing i \<noteq> [] \<Longrightarrow> \<exists>m. fsl_parameters i = Inl (ValueError m)"
  by (simp add: fsl_parameters_def)

lemmas fsl_rows = row_183_bull_call_not_missed_def row_184_bull_call_missed_def row_185_bear_call_missed_def
  row_186_bear_put_not_missed_def row_187_bull_put_missed_fsl_only_def row_188_bear_put_missed_fsl_only_def row_fsl_only_def

lemmas fsl_reads = fsl_market_level_def fsl_option_level_def fsl_parameters_ok Let_def

text \<open>What a row gives when it applies.\<close>

definition fsl_outcome :: "fsl_input \<Rightarrow> nat \<Rightarrow> fsl_result \<Rightarrow> bool" where
  "fsl_outcome i row r \<longleftrightarrow> yr_applied r \<and> yr_row_number r = Some row \<and>
     yr_effective_option_type r = Some (if row \<in> {183, 185} then CALL else PUT) \<and>
     yr_lifecycle_start_after r = Some (yd_timestamp (row_snapshot i)) \<and>
     yr_stoploss_price r = (if stop_passed i then Some (percent_above (yd_option_high (yi_snapshot_at_recalc i))
       (the (map_of (yi_parameters i) ''sl_reference_pct''))) else None) \<and>
     yr_entry_price r = (case fsl_levels i row of None \<Rightarrow> None | Some (level, opt) \<Rightarrow>
       Some (percent_below (min (the opt) (yd_option_low (row_snapshot i))) (the (map_of (yi_parameters i) ''entry_discount_pct'')))) \<and>
     (yr_start_strike r = None) = (fsl_levels i row = None) \<and> (yr_end_strike r = None) = (fsl_levels i row = None)"

definition row_function :: "nat \<Rightarrow> fsl_input \<Rightarrow> fsl_trigger \<Rightarrow> fsl_result res" where
  "row_function row = (if row = 183 then row_183_bull_call_not_missed else if row = 184 then row_184_bull_call_missed
     else if row = 185 then row_185_bear_call_missed else if row = 186 then row_186_bear_put_not_missed
     else if row = 187 then row_187_bull_put_missed_fsl_only else row_188_bear_put_missed_fsl_only)"

lemma apply_is_row:
  "case fsl_row (yi_branch_unique_code i) (stop_passed i) of
     None \<Rightarrow> \<exists>reason note. apply_fsl_trp i = Inr (plan_kept i (detect_fsl_trp_missed i) reason note)
   | Some row \<Rightarrow> row \<in> {183, 184, 185, 186, 187, 188} \<and> stop_passed i = (row \<in> {184, 185, 187, 188}) \<and>
       apply_fsl_trp i = row_function row i (detect_fsl_trp_missed i)"
  by (auto simp: apply_fsl_trp_def fsl_row_def row_function_def Let_def)

lemma row_without_parameters: "fsl_missing i \<noteq> [] \<Longrightarrow> \<exists>m. row_function row i t = Inl (ValueError m)"
  using fsl_parameters_fail [of i] by (auto simp: row_function_def fsl_rows)

lemma row_fails: "fsl_missing i = [] \<Longrightarrow> fsl_levels i row = Some (level, opt) \<Longrightarrow> level = None \<or> opt = None \<Longrightarrow>
    \<exists>m. row_function row i t = Inl (ValueError m)"
  by (auto simp: row_function_def fsl_rows fsl_reads fsl_levels_def split: if_splits option.split)

lemma row_succeeds: "fsl_missing i = [] \<Longrightarrow> fsl_levels i row = Some (Some level, Some opt) \<Longrightarrow>
    stop_passed i = (row \<in> {184, 185, 187, 188}) \<Longrightarrow> \<exists>r. row_function row i t = Inr r \<and> fsl_outcome i row r"
  by (auto simp: row_function_def fsl_rows fsl_reads fsl_levels_def fsl_outcome_def row_snapshot_def split: if_splits)

lemma stop_row_succeeds: "fsl_missing i = [] \<Longrightarrow> row \<in> {187, 188} \<Longrightarrow> stop_passed i \<Longrightarrow>
    \<exists>r. row_function row i t = Inr r \<and> fsl_outcome i row r"
  by (auto simp: row_function_def fsl_rows fsl_reads fsl_levels_def fsl_outcome_def row_snapshot_def)

lemma fsl_levels_none: "row \<in> {183, 184, 185, 186, 187, 188} \<Longrightarrow> fsl_levels i row = None \<longleftrightarrow> row \<in> {187, 188}"
  by (auto simp: fsl_levels_def Let_def)

lemma row_outcome:
  assumes "row \<in> {183, 184, 185, 186, 187, 188}" and "stop_passed i = (row \<in> {184, 185, 187, 188})"
  shows "if fsl_ready i row then \<exists>r. row_function row i t = Inr r \<and> fsl_outcome i row r
    else \<exists>m. row_function row i t = Inl (ValueError m)"
proof (cases "fsl_missing i = []")
  case False
  then show ?thesis using row_without_parameters by (simp add: fsl_ready_def)
next
  case params: True
  show ?thesis
  proof (cases "fsl_levels i row")
    case None
    with assms params show ?thesis
      using stop_row_succeeds [OF params, of row t] fsl_levels_none [of row i] by (simp add: fsl_ready_def)
  next
    case (Some p)
    obtain level opt where p: "p = (level, opt)" by (cases p)
    show ?thesis
    proof (cases "level = None \<or> opt = None")
      case True
      with Some p params show ?thesis using row_fails [OF params, of row level opt t] by (auto simp: fsl_ready_def)
    next
      case False
      then obtain l o' where "level = Some l" "opt = Some o'" by auto
      with Some p params assms(2) show ?thesis using row_succeeds [OF params, of row l o' t] by (simp add: fsl_ready_def)
    qed
  qed
qed

section \<open>Properties\<close>

text \<open>
  The engine applies exactly the row of the sheet for the branch and the 09:15 trigger: without a
  row it keeps the base plan; with one it needs all five parameters and the levels of the row and
  raises a ValueError otherwise. An applied row sets a new stop exactly when the stop was passed,
  starts at the snapshot of its case, and rows 187 and 188 set nothing else.
\<close>
theorem fsl_rows_of_the_sheet:
  "case fsl_row (yi_branch_unique_code i) (stop_passed i) of
     None \<Rightarrow> \<exists>reason note. apply_fsl_trp i = Inr (plan_kept i (detect_fsl_trp_missed i) reason note)
   | Some row \<Rightarrow> if fsl_ready i row then \<exists>r. apply_fsl_trp i = Inr r \<and> fsl_outcome i row r
       else \<exists>m. apply_fsl_trp i = Inl (ValueError m)"
proof (cases "fsl_row (yi_branch_unique_code i) (stop_passed i)")
  case None
  with apply_is_row [of i] show ?thesis by simp
next
  case (Some row)
  with apply_is_row [of i] have "row \<in> {183, 184, 185, 186, 187, 188}" "stop_passed i = (row \<in> {184, 185, 187, 188})"
    and run: "apply_fsl_trp i = row_function row i (detect_fsl_trp_missed i)" by simp_all
  then show ?thesis using row_outcome [of row i "detect_fsl_trp_missed i"] unfolding run Some option.case by blast
qed

lemma percent_above_ge: "0 \<le> x \<Longrightarrow> 0 \<le> p \<Longrightarrow> x \<le> percent_above x p"
  by (simp add: percent_above_def algebra_simps)

lemma row_of_result:
  assumes "apply_fsl_trp i = Inr r" and "yr_applied r"
  shows "\<exists>row. fsl_ready i row \<and> fsl_outcome i row r"
proof (cases "fsl_row (yi_branch_unique_code i) (stop_passed i)")
  case None
  with apply_is_row [of i] assms show ?thesis by (auto simp: plan_kept_def)
next
  case (Some row)
  with apply_is_row [of i] have a: "row \<in> {183, 184, 185, 186, 187, 188}" "stop_passed i = (row \<in> {184, 185, 187, 188})"
    and run: "apply_fsl_trp i = row_function row i (detect_fsl_trp_missed i)" by simp_all
  have "row_function row i (detect_fsl_trp_missed i) = Inr r" using run assms(1) by simp
  with row_outcome [OF a, of "detect_fsl_trp_missed i"] have "fsl_ready i row \<and> fsl_outcome i row r"
    by (cases "fsl_ready i row") simp_all
  then show ?thesis by blast
qed

definition values_not_negative :: "(string, price) dict \<Rightarrow> bool" where
  "values_not_negative d \<longleftrightarrow> list_all (\<lambda>p. 0 \<le> snd p) d"

lemma value_not_negative: "values_not_negative d \<Longrightarrow> map_of d n = Some x \<Longrightarrow> 0 \<le> x"
  by (drule map_of_SomeD) (auto simp: values_not_negative_def list_all_iff)

lemma parameter_present: "fsl_ready i row \<Longrightarrow> n \<in> set fsl_required \<Longrightarrow> \<exists>x. map_of (yi_parameters i) n = Some x"
  by (auto simp: fsl_ready_def fsl_missing_def filter_empty_conv)

text \<open>
  C32: with prices and percentages that are not negative, an applied row never places the new entry
  above the lowest premium its snapshot has seen, and a new stop is never below the highest premium
  seen up to the recalculation, so that the move that passed the old stop does not hit the new one.
\<close>
theorem fsl_levels_cover_the_day:
  assumes "apply_fsl_trp i = Inr r" and "yr_applied r"
    and "values_not_negative (yi_parameters i)" and "values_not_negative (yi_option_levels i)"
    and "0 \<le> yd_option_low (row_snapshot i)" and "0 \<le> yd_option_high (yi_snapshot_at_recalc i)"
  shows "(case yr_entry_price r of None \<Rightarrow> True | Some e \<Rightarrow> e \<le> yd_option_low (row_snapshot i)) \<and>
    (case yr_stoploss_price r of None \<Rightarrow> \<not> stop_passed i
       | Some stop \<Rightarrow> stop_passed i \<and> yd_option_high (yi_snapshot_at_recalc i) \<le> stop)"
proof -
  obtain row where ready: "fsl_ready i row" and o: "fsl_outcome i row r" using row_of_result [OF assms(1,2)] by blast
  have pct: "0 \<le> the (map_of (yi_parameters i) n)" if "n \<in> set fsl_required" for n
    using value_not_negative [OF assms(3)] parameter_present [OF ready that] by force
  have "e \<le> yd_option_low (row_snapshot i)" if "yr_entry_price r = Some e" for e
  proof -
    from that o obtain level opt where l: "fsl_levels i row = Some (level, opt)"
      and e: "e = percent_below (min (the opt) (yd_option_low (row_snapshot i))) (the (map_of (yi_parameters i) ''entry_discount_pct''))"
      by (auto simp: fsl_outcome_def split: option.splits)
    have "opt \<noteq> None" using l ready by (simp add: fsl_ready_def)
    then have "0 \<le> the opt" using l
      by (auto simp: fsl_levels_def Let_def intro: value_not_negative [OF assms(4)] split: if_splits)
    then have "e \<le> min (the opt) (yd_option_low (row_snapshot i))"
      unfolding e using assms(5) pct by (intro percent_below_le) (auto simp: fsl_required_def)
    then show ?thesis by simp
  qed
  moreover have "yd_option_high (yi_snapshot_at_recalc i) \<le> stop" if "yr_stoploss_price r = Some stop" for stop
    using that o assms(6) pct by (auto simp: fsl_outcome_def percent_above_ge fsl_required_def split: if_splits)
  ultimately show ?thesis using o by (auto simp: fsl_outcome_def split: option.split if_splits)
qed

definition demo_fsl_levels :: market_levels where
  "demo_fsl_levels = \<lparr>previous_month_high = None, previous_month_low = None, previous_week_high = None, previous_week_low = None,
     d2hh = Some 24300, d2ll = Some 23950, d3hh = Some 24400, d3ll = Some 23900, d4hh = None, d4ll = None,
     current_day_high = None, current_day_low = None\<rparr>"

definition demo_fsl_input :: fsl_input where
  "demo_fsl_input =
     (let snap = \<lparr>yd_timestamp = 0, yd_spot_low = 24000, yd_spot_high = 24200, yd_option_low = 90, yd_option_high = 150\<rparr> in
      \<lparr>yi_branch_unique_code = BEAR_CALL_CODE,
       yi_base_trade_plan = \<lparr>tp_strategy_code = ''S23'', tp_symbol = ''NIFTY'', tp_option_type = Some CALL, tp_start_strike = None,
         tp_end_strike = None, tp_ideal_premium = None, tp_minimum_premium = None, tp_entry_price = 100, tp_stoploss_price = 120,
         tp_target_price = 40\<rparr>,
       yi_market_levels = demo_fsl_levels, yi_option_levels = [(''OPT_PRV_2DLL'', 100)],
       yi_parameters = [(''strike_buffer_pct'', 2), (''ideal_premium_pct'', 1), (''minimum_premium_pct'', 1),
         (''entry_discount_pct'', 10), (''sl_reference_pct'', 10)],
       yi_trigger_snapshot_at_0915 = snap, yi_snapshot_at_orpt = snap, yi_snapshot_at_recalc = snap\<rparr>)"

theorem fsl_levels_cover_the_day_witness:
  "case apply_fsl_trp demo_fsl_input of Inl _ \<Rightarrow> False
   | Inr r \<Rightarrow> yr_row_number r = Some 185 \<and> yr_entry_price r = Some 81 \<and> yr_stoploss_price r = Some 165 \<and>
       (case yr_entry_price r of None \<Rightarrow> True | Some e \<Rightarrow> e \<le> yd_option_low (row_snapshot demo_fsl_input))"
proof -
  have run: "case apply_fsl_trp demo_fsl_input of Inl _ \<Rightarrow> False
    | Inr r \<Rightarrow> yr_row_number r = Some 185 \<and> yr_entry_price r = Some 81 \<and> yr_stoploss_price r = Some 165 \<and> yr_applied r"
    by code_simp
  then obtain r where r: "apply_fsl_trp demo_fsl_input = Inr r" and f: "yr_row_number r = Some 185" "yr_entry_price r = Some 81"
      "yr_stoploss_price r = Some 165" "yr_applied r"
    by (auto split: sum.splits)
  have "values_not_negative (yi_parameters demo_fsl_input)" "values_not_negative (yi_option_levels demo_fsl_input)"
    "0 \<le> yd_option_low (row_snapshot demo_fsl_input)" "0 \<le> yd_option_high (yi_snapshot_at_recalc demo_fsl_input)"
    by code_simp+
  from fsl_levels_cover_the_day [OF r f(4) this] show ?thesis using r f by simp
qed

end
