(* ===== verification/BacktestSelection.thy ===== *)
theory BacktestSelection
  imports Domain Calendar
begin

text \<open>
  \<^verbatim>\<open>src/tfis/backtest/option_chain.py\<close> (the contract selector of the historical runs),
  \<^verbatim>\<open>src/tfis/market_metadata/lot_size.py\<close>, and the candidate statistics that
  \<^verbatim>\<open>hsre_s23_base_decision.py\<close> reports beside a selection. Fields of a chain contract carry the prefix
  \<open>bc_\<close>, of the request \<open>bq_\<close>, of the result \<open>bs_\<close>, of the statistics \<open>bk_\<close>.
\<close>

section \<open>Contracts, request, result\<close>

record chain_contract =
  bc_timestamp :: datetime
  bc_symbol :: string
  bc_option_type :: option_type
  bc_strike :: int
  bc_expiry :: date
  bc_bid :: price
  bc_ask :: price
  bc_ltp :: price
  bc_oi :: int
  bc_volume :: int

definition mk_chain_contract :: "chain_contract \<Rightarrow> chain_contract res" where
  "mk_chain_contract c = bindE (check_all
     [guardE (\<not> strip (bc_symbol c) = []) (ValueError [Txt ''symbol must be a non-empty string'']),
      guardE (\<not> bc_strike c < 0) (ValueError [Txt ''strike must be non-negative'']),
      guardE (\<not> (bc_bid c < 0 \<or> bc_ask c < 0 \<or> bc_ltp c < 0)) (ValueError [Txt ''bid, ask, and ltp must be non-negative'']),
      guardE (\<not> bc_ask c < bc_bid c) (ValueError [Txt ''ask must be greater than or equal to bid'']),
      guardE (\<not> (bc_oi c < 0 \<or> bc_volume c < 0)) (ValueError [Txt ''oi and volume must be non-negative''])])
     (\<lambda>_. Inr c)"

definition bid_ask_spread :: "chain_contract \<Rightarrow> price" where
  "bid_ask_spread c = bc_ask c - bc_bid c"

record option_selection_request =
  bq_option_type :: option_type
  bq_start_strike :: int
  bq_end_strike :: int
  bq_ideal_premium :: price
  bq_minimum_premium :: price
  bq_minimum_oi :: int
  bq_timestamp :: datetime
  bq_expiry_dates :: "date list"

record option_selection_result =
  bs_selected :: bool
  bs_selected_contract :: "chain_contract option"
  bs_selection_reason :: msg
  bs_candidate_count :: nat
  bs_attempted_expiries :: "date list"

definition nothing_selected :: "msg \<Rightarrow> date list \<Rightarrow> option_selection_result" where
  "nothing_selected reason attempted = \<lparr>bs_selected = False, bs_selected_contract = None,
     bs_selection_reason = reason, bs_candidate_count = 0, bs_attempted_expiries = attempted\<rparr>"

definition contract_selected :: "chain_contract \<Rightarrow> msg \<Rightarrow> nat \<Rightarrow> option_selection_result" where
  "contract_selected c reason n = \<lparr>bs_selected = True, bs_selected_contract = Some c,
     bs_selection_reason = reason, bs_candidate_count = n, bs_attempted_expiries = []\<rparr>"

section \<open>One expiry\<close>

definition search_order :: "option_selection_request \<Rightarrow> chain_contract list \<Rightarrow> chain_contract list" where
  "search_order q cs = (if bq_start_strike q > bq_end_strike q then sort_descending bc_strike cs else sort_key bc_strike cs)"

definition within_strikes :: "option_selection_request \<Rightarrow> chain_contract \<Rightarrow> bool" where
  "within_strikes q c \<longleftrightarrow> min (bq_start_strike q) (bq_end_strike q) \<le> bc_strike c \<and>
     bc_strike c \<le> max (bq_start_strike q) (bq_end_strike q)"

definition select_within_expiry :: "option_selection_request \<Rightarrow> chain_contract list \<Rightarrow> option_selection_result" where
  "select_within_expiry q type_matches =
     (let strike_matches = filter (within_strikes q) type_matches;
          oi_matches = filter (\<lambda>c. bc_oi c \<ge> bq_minimum_oi q) strike_matches;
          premium_matches = filter (\<lambda>c. bc_ltp c \<ge> bq_minimum_premium q) oi_matches;
          ordered = search_order q premium_matches in
      if strike_matches = [] then nothing_selected [Txt ''No option-chain contracts found within strike range '',
        PyInt (min (bq_start_strike q) (bq_end_strike q)), Txt ''-'', PyInt (max (bq_start_strike q) (bq_end_strike q))] []
      else if oi_matches = [] then nothing_selected [Txt ''No option-chain contracts meet minimum_oi '', PyInt (bq_minimum_oi q)] []
      else if premium_matches = [] then nothing_selected
        [Txt ''No option-chain contracts meet minimum_premium '', PyFixed 2 (bq_minimum_premium q)] []
      else case find (\<lambda>c. bc_ltp c \<ge> bq_ideal_premium q) ordered of
          Some c \<Rightarrow> contract_selected c [Txt ''Selected first strike meeting ideal premium in rule-sheet search order.'']
            (length premium_matches)
        | None \<Rightarrow> contract_selected (hd (filter (\<lambda>c. bc_ltp c \<ge> bq_minimum_premium q) ordered))
            [Txt ''Selected first strike meeting minimum premium in rule-sheet search order.''] (length premium_matches))"

section \<open>The expiries in turn\<close>

definition chain_rows :: "option_selection_request \<Rightarrow> chain_contract list \<Rightarrow> chain_contract list" where
  "chain_rows q cs = filter (\<lambda>c. bc_option_type c = bq_option_type q) (filter (\<lambda>c. bc_timestamp c = bq_timestamp q) cs)"

definition expiries_to_try :: "option_selection_request \<Rightarrow> chain_contract list \<Rightarrow> date list" where
  "expiries_to_try q type_matches =
     (if bq_expiry_dates q \<noteq> [] then bq_expiry_dates q else take 2 (sort (remdups (map bc_expiry type_matches))))"

definition selected_on :: "date list \<Rightarrow> date \<Rightarrow> option_selection_result \<Rightarrow> option_selection_result" where
  "selected_on expiries d r = r\<lparr>bs_attempted_expiries := expiries,
     bs_selection_reason := bs_selection_reason r @ (if d \<noteq> hd expiries
       then [Txt '' Near expiry '', Txt (isoformat_date (hd expiries)), Txt '' failed; '',
         Txt ''selected fallback expiry '', Txt (isoformat_date d), Txt ''.''] else [])\<rparr>"

fun join_failures :: "(date \<times> option_selection_result) list \<Rightarrow> msg" where
  "join_failures [] = []"
| "join_failures [(d, r)] = [Txt ''Expiry '', Txt (isoformat_date d), Txt '': ''] @ bs_selection_reason r"
| "join_failures ((d, r) # x # xs) =
     [Txt ''Expiry '', Txt (isoformat_date d), Txt '': ''] @ bs_selection_reason r @ [Txt ''; ''] @ join_failures (x # xs)"

definition no_expiry_selected :: "date list \<Rightarrow> option_selection_result list \<Rightarrow> option_selection_result" where
  "no_expiry_selected expiries failed =
     (if length failed = 1 then hd failed
      else (nothing_selected (join_failures (zip expiries failed)) expiries)
        \<lparr>bs_candidate_count := sum_list (map bs_candidate_count failed)\<rparr>)"

fun try_expiry_dates :: "option_selection_request \<Rightarrow> chain_contract list \<Rightarrow> date list \<Rightarrow> date list \<Rightarrow>
    option_selection_result list \<Rightarrow> option_selection_result" where
  "try_expiry_dates q type_matches expiries [] failed = no_expiry_selected expiries failed"
| "try_expiry_dates q type_matches expiries (d # ds) failed =
     (let expiry_matches = filter (\<lambda>c. bc_expiry c = d) type_matches in
      if expiry_matches = [] then try_expiry_dates q type_matches expiries ds (failed @
        [nothing_selected [Txt ''No option-chain contracts found for expiry '', Txt (isoformat_date d)] [d]])
      else let r = select_within_expiry q expiry_matches in
        if bs_selected r then selected_on expiries d r
        else try_expiry_dates q type_matches expiries ds (failed @ [r]))"

definition select_option :: "option_selection_request \<Rightarrow> chain_contract list \<Rightarrow> option_selection_result" where
  "select_option q contracts =
     (if filter (\<lambda>c. bc_timestamp c = bq_timestamp q) contracts = []
      then nothing_selected [Txt ''No option-chain rows found for timestamp '', Txt (isoformat (bq_timestamp q))] []
      else let type_matches = chain_rows q contracts in
      if type_matches = []
      then nothing_selected [Txt ''No option-chain contracts found for option type '', Txt (option_type_value (bq_option_type q))] []
      else let expiries = expiries_to_try q type_matches in
      if expiries = [] then nothing_selected [Txt ''No option-chain expiries found for selection.''] []
      else try_expiry_dates q type_matches expiries expiries [])"

section \<open>Lot sizes and the candidate statistics\<close>

definition NIFTY_MINIMUM_OI_LOTS :: int where "NIFTY_MINIMUM_OI_LOTS = 500"

definition effective_lot_size :: "string \<Rightarrow> date \<Rightarrow> int res" where
  "effective_lot_size instrument d =
     (let s = norm_text instrument in
      if s = ''NIFTY'' then
        Inr (if d < ordinal 2021 7 1 then 75 else if d \<le> ordinal 2024 3 31 then 50
          else if d \<le> ordinal 2024 10 31 then 25 else if d \<le> ordinal 2025 12 31 then 75 else 65)
      else if s = ''BANKNIFTY'' then
        Inr (if d \<le> ordinal 2023 6 30 then 25 else if d \<le> ordinal 2024 10 31 then 15
          else if d \<le> ordinal 2025 6 30 then 30 else if d \<le> ordinal 2025 12 31 then 35 else 30)
      else Inl (ValueError [Txt ''No effective lot-size schedule configured for '', PyRepr instrument]))"

definition minimum_oi_units :: "string \<Rightarrow> date \<Rightarrow> int \<Rightarrow> int res" where
  "minimum_oi_units instrument d minimum_lots =
     bindE (effective_lot_size instrument d) (\<lambda>lot. Inr (minimum_lots * lot))"

record candidate_statistics =
  bk_candidate_count :: nat
  bk_expiry_rejection_count :: int
  bk_oi_rejection_count :: int
  bk_premium_rejection_count :: int
  bk_qualified_count :: nat

definition candidate_stats :: "option_selection_request \<Rightarrow> chain_contract list \<Rightarrow> candidate_statistics" where
  "candidate_stats q contracts =
     (let type_matches = chain_rows q contracts;
          expiries = expiries_to_try q type_matches;
          expiry_matches = filter (\<lambda>c. bc_expiry c \<in> set expiries) type_matches;
          strike_matches = filter (within_strikes q) expiry_matches;
          oi_matches = filter (\<lambda>c. bc_oi c \<ge> bq_minimum_oi q) strike_matches;
          premium_matches = filter (\<lambda>c. bc_ltp c \<ge> bq_minimum_premium q) oi_matches in
      \<lparr>bk_candidate_count = length type_matches,
       bk_expiry_rejection_count = int (length type_matches) - int (length expiry_matches),
       bk_oi_rejection_count = int (length strike_matches) - int (length oi_matches),
       bk_premium_rejection_count = int (length oi_matches) - int (length premium_matches),
       bk_qualified_count = length premium_matches\<rparr>)"

section \<open>What is selected\<close>

text \<open>
  A contract fits when strikes, open interest and minimum premium allow it. Among fitting contracts of one
  expiry the one that meets the ideal premium is preferred, then the one earlier in the direction
  from the start strike to the end strike.
\<close>

definition fits :: "option_selection_request \<Rightarrow> chain_contract \<Rightarrow> bool" where
  "fits q c \<longleftrightarrow> within_strikes q c \<and> bc_oi c \<ge> bq_minimum_oi q \<and> bc_ltp c \<ge> bq_minimum_premium q"

definition earlier_strike :: "option_selection_request \<Rightarrow> chain_contract \<Rightarrow> chain_contract \<Rightarrow> bool" where
  "earlier_strike q a b \<longleftrightarrow> (if bq_start_strike q > bq_end_strike q then bc_strike a > bc_strike b else bc_strike a < bc_strike b)"

definition preferred :: "option_selection_request \<Rightarrow> chain_contract \<Rightarrow> chain_contract \<Rightarrow> bool" where
  "preferred q a b \<longleftrightarrow> (let ideal = (\<lambda>c. bc_ltp c \<ge> bq_ideal_premium q) in
     (ideal a \<and> \<not> ideal b) \<or> (ideal a = ideal b \<and> earlier_strike q a b))"

definition chain_candidate :: "option_selection_request \<Rightarrow> chain_contract list \<Rightarrow> date \<Rightarrow> chain_contract \<Rightarrow> bool" where
  "chain_candidate q cs d c \<longleftrightarrow> c \<in> set cs \<and> bc_timestamp c = bq_timestamp q \<and> bc_option_type c = bq_option_type q \<and>
     bc_expiry c = d \<and> fits q c"

lemma set_chain_rows: "set (chain_rows q cs) = {c \<in> set cs. bc_timestamp c = bq_timestamp q \<and> bc_option_type c = bq_option_type q}"
  by (auto simp: chain_rows_def)

lemma set_in_search_order [simp]: "set (search_order q cs) = set cs"
  by (simp add: search_order_def)

lemma search_order_Nil [simp]: "search_order q cs = [] \<longleftrightarrow> cs = []"
  by (metis set_in_search_order set_empty)

lemma first_sorted: "sorted (map f xs) \<Longrightarrow> find P xs = Some c \<Longrightarrow> c' \<in> set xs \<Longrightarrow> P c' \<Longrightarrow> f c \<le> f c'"
  by (induction xs) (auto split: if_splits)

lemma first_descending: "sorted (rev (map f xs)) \<Longrightarrow> find P xs = Some c \<Longrightarrow> c' \<in> set xs \<Longrightarrow> P c' \<Longrightarrow> f c' \<le> f c"
  by (induction xs) (auto simp: sorted_append split: if_splits)

lemma first_in_order: "find P (search_order q cs) = Some c \<Longrightarrow> c' \<in> set cs \<Longrightarrow> P c' \<Longrightarrow> \<not> earlier_strike q c' c"
  using first_sorted [of bc_strike "search_order q cs" P c c']
    first_descending [of bc_strike "search_order q cs" P c c'] sorted_sort_descending [of bc_strike cs]
  by (auto simp: earlier_strike_def search_order_def not_less split: if_splits)

lemma hd_filter_find: "filter P xs \<noteq> [] \<Longrightarrow> find P xs = Some (hd (filter P xs))"
  by (induction xs) auto

lemma within_expiry_selects: "bs_selected (select_within_expiry q ms) \<longleftrightarrow> (\<exists>c \<in> set ms. fits q c)"
  by (auto simp: select_within_expiry_def nothing_selected_def contract_selected_def fits_def Let_def filter_empty_conv
      split: option.splits)

lemma within_expiry_best:
  assumes "bs_selected (select_within_expiry q ms)"
  obtains c where "bs_selected_contract (select_within_expiry q ms) = Some c" "c \<in> set ms" "fits q c"
    "\<And>c'. c' \<in> set ms \<Longrightarrow> fits q c' \<Longrightarrow> \<not> preferred q c' c"
proof -
  define pm where "pm = filter (\<lambda>c. bc_ltp c \<ge> bq_minimum_premium q)
    (filter (\<lambda>c. bc_oi c \<ge> bq_minimum_oi q) (filter (within_strikes q) ms))"
  have mem: "c \<in> set pm \<longleftrightarrow> c \<in> set ms \<and> fits q c" for c by (auto simp: pm_def fits_def)
  let ?ideal = "\<lambda>c. bc_ltp c \<ge> bq_ideal_premium q" and ?least = "\<lambda>c. bc_ltp c \<ge> bq_minimum_premium q"
  have least: "?least c" if "c \<in> set pm" for c using that mem by (simp add: fits_def)
  from assms have ne: "pm \<noteq> []"
    by (auto simp: pm_def select_within_expiry_def nothing_selected_def Let_def split: if_splits)
  have res: "bs_selected_contract (select_within_expiry q ms) = Some (case find ?ideal (search_order q pm) of
      Some c \<Rightarrow> c | None \<Rightarrow> hd (filter ?least (search_order q pm)))"
    using assms unfolding pm_def
    by (auto simp: select_within_expiry_def nothing_selected_def contract_selected_def Let_def split: option.splits if_splits)
  show ?thesis
  proof (cases "find ?ideal (search_order q pm)")
    case (Some c)
    then have c: "c \<in> set pm" "?ideal c" using find_SomeD [OF Some] by simp_all
    show ?thesis
    proof (rule that [of c])
      show "bs_selected_contract (select_within_expiry q ms) = Some c" using res Some by simp
      show "c \<in> set ms" "fits q c" using c mem by simp_all
      show "\<not> preferred q c' c" if "c' \<in> set ms" "fits q c'" for c'
        using first_in_order [OF Some, of c'] that mem c(2) by (auto simp: preferred_def Let_def)
    qed
  next
    case None
    then have none: "\<not> ?ideal c" if "c \<in> set pm" for c using that by (auto simp: find_None_iff)
    have "filter ?least (search_order q pm) \<noteq> []"
      using ne least by (auto simp: filter_empty_conv search_order_Nil)
    then have f: "find ?least (search_order q pm) = Some (hd (filter ?least (search_order q pm)))" (is "_ = Some ?c")
      by (rule hd_filter_find)
    have c: "?c \<in> set pm" using find_SomeD [OF f] by simp
    show ?thesis
    proof (rule that [of ?c])
      show "bs_selected_contract (select_within_expiry q ms) = Some ?c" using res None by simp
      show "?c \<in> set ms" "fits q ?c" using c mem by simp_all
      show "\<not> preferred q c' ?c" if "c' \<in> set ms" "fits q c'" for c'
        using first_in_order [OF f, of c'] that mem least none [of c'] by (auto simp: preferred_def Let_def)
    qed
  qed
qed

text \<open>The loop over the expiries stops at the first with a fitting contract.\<close>

definition offers :: "option_selection_request \<Rightarrow> chain_contract list \<Rightarrow> date \<Rightarrow> bool" where
  "offers q ms d \<longleftrightarrow> (\<exists>c \<in> set ms. bc_expiry c = d \<and> fits q c)"

lemma try_step:
  assumes "\<not> offers q ms d"
  shows "\<exists>r. \<not> bs_selected r \<and> try_expiry_dates q ms all (d # ds) failed = try_expiry_dates q ms all ds (failed @ [r])"
proof (cases "filter (\<lambda>c. bc_expiry c = d) ms = []")
  case True
  then show ?thesis by (intro exI [of _ "nothing_selected [Txt ''No option-chain contracts found for expiry '', Txt (isoformat_date d)] [d]"])
      (simp add: nothing_selected_def)
next
  case False
  with assms show ?thesis
    by (intro exI [of _ "select_within_expiry q (filter (\<lambda>c. bc_expiry c = d) ms)"])
      (auto simp: within_expiry_selects offers_def Let_def)
qed

lemma try_stops:
  assumes "offers q ms d"
  shows "try_expiry_dates q ms all (d # ds) failed = selected_on all d (select_within_expiry q (filter (\<lambda>c. bc_expiry c = d) ms))"
  using assms by (auto simp: within_expiry_selects offers_def Let_def filter_empty_conv)

lemma none_selected: "\<not> bs_selected (no_expiry_selected all failed)" if "\<And>r. r \<in> set failed \<Longrightarrow> \<not> bs_selected r" "failed \<noteq> []"
  using that by (cases failed) (auto simp: no_expiry_selected_def nothing_selected_def)

lemma try_expiry_result:
  assumes "\<And>r. r \<in> set failed \<Longrightarrow> \<not> bs_selected r" and "ds \<noteq> [] \<or> failed \<noteq> []"
  shows "case find (offers q ms) ds of
      None \<Rightarrow> \<not> bs_selected (try_expiry_dates q ms all ds failed)
    | Some d \<Rightarrow> try_expiry_dates q ms all ds failed = selected_on all d (select_within_expiry q (filter (\<lambda>c. bc_expiry c = d) ms))"
  using assms
proof (induction ds arbitrary: failed)
  case Nil
  then show ?case by (simp add: none_selected)
next
  case (Cons d ds)
  show ?case
  proof (cases "offers q ms d")
    case True
    with try_stops [OF True] show ?thesis by simp
  next
    case False
    from try_step [OF False] obtain r where r: "\<not> bs_selected r"
      "try_expiry_dates q ms all (d # ds) failed = try_expiry_dates q ms all ds (failed @ [r])" by blast
    have "\<And>x. x \<in> set (failed @ [r]) \<Longrightarrow> \<not> bs_selected x" using Cons.prems(1) r(1) by auto
    then have "case find (offers q ms) ds of None \<Rightarrow> \<not> bs_selected (try_expiry_dates q ms all ds (failed @ [r]))
      | Some d \<Rightarrow> try_expiry_dates q ms all ds (failed @ [r]) =
          selected_on all d (select_within_expiry q (filter (\<lambda>c. bc_expiry c = d) ms))"
      by (intro Cons.IH) auto
    then show ?thesis unfolding r(2) by (simp add: False del: try_expiry_dates.simps)
  qed
qed

lemma select_option_result:
  "case find (offers q (chain_rows q cs)) (expiries_to_try q (chain_rows q cs)) of
      None \<Rightarrow> \<not> bs_selected (select_option q cs)
    | Some d \<Rightarrow> select_option q cs = selected_on (expiries_to_try q (chain_rows q cs)) d
        (select_within_expiry q (filter (\<lambda>c. bc_expiry c = d) (chain_rows q cs)))"
proof (cases "chain_rows q cs = [] \<or> expiries_to_try q (chain_rows q cs) = []")
  case True
  have no: "\<not> bs_selected (select_option q cs)"
    using True by (auto simp: select_option_def Let_def nothing_selected_def)
  have "find (offers q (chain_rows q cs)) (expiries_to_try q (chain_rows q cs)) = None"
    using True by (auto simp: find_None_iff offers_def)
  with no show ?thesis by simp
next
  case False
  moreover from False have "filter (\<lambda>c. bc_timestamp c = bq_timestamp q) cs \<noteq> []"
    by (auto simp: chain_rows_def filter_empty_conv)
  ultimately have eq: "select_option q cs = try_expiry_dates q (chain_rows q cs) (expiries_to_try q (chain_rows q cs))
      (expiries_to_try q (chain_rows q cs)) []" by (simp add: select_option_def Let_def)
  show ?thesis unfolding eq
    using False try_expiry_result [of "[]" "expiries_to_try q (chain_rows q cs)" q "chain_rows q cs" "expiries_to_try q (chain_rows q cs)"]
    by simp
qed

lemma qualified_count: "0 < bk_qualified_count (candidate_stats q cs) \<longleftrightarrow>
    (\<exists>d \<in> set (expiries_to_try q (chain_rows q cs)). offers q (chain_rows q cs) d)"
  by (auto simp: candidate_stats_def Let_def offers_def fits_def filter_empty_conv)

text \<open>
  The selector finds a contract exactly when the audit counts a qualified candidate.
\<close>
theorem selection_agrees_with_audit:
  "bs_selected (select_option q cs) \<longleftrightarrow> 0 < bk_qualified_count (candidate_stats q cs)"
proof (cases "find (offers q (chain_rows q cs)) (expiries_to_try q (chain_rows q cs))")
  case None
  with select_option_result [of q cs] have "\<not> bs_selected (select_option q cs)" by simp
  with None show ?thesis by (auto simp: qualified_count find_None_iff)
next
  case (Some d)
  then have d: "offers q (chain_rows q cs) d" "d \<in> set (expiries_to_try q (chain_rows q cs))"
    using find_SomeD [OF Some] by simp_all
  then have "bs_selected (select_within_expiry q (filter (\<lambda>c. bc_expiry c = d) (chain_rows q cs)))"
    by (auto simp: within_expiry_selects offers_def)
  then show ?thesis using select_option_result [of q cs] d by (auto simp: Some qualified_count selected_on_def)
qed

lemma selected_is_best:
  assumes "bs_selected (select_option q cs)"
  obtains d c where "bs_selected_contract (select_option q cs) = Some c" "chain_candidate q cs d c"
    "find (\<lambda>d. \<exists>c. chain_candidate q cs d c) (expiries_to_try q (chain_rows q cs)) = Some d"
    "\<And>c'. chain_candidate q cs d c' \<Longrightarrow> \<not> preferred q c' c"
proof -
  have off: "offers q (chain_rows q cs) = (\<lambda>d. \<exists>c. chain_candidate q cs d c)"
    by (auto simp: fun_eq_iff offers_def chain_candidate_def set_chain_rows)
  from assms select_option_result [of q cs] obtain d where d: "find (offers q (chain_rows q cs)) (expiries_to_try q (chain_rows q cs)) = Some d"
    and r: "select_option q cs = selected_on (expiries_to_try q (chain_rows q cs)) d
        (select_within_expiry q (filter (\<lambda>c. bc_expiry c = d) (chain_rows q cs)))"
    by (cases "find (offers q (chain_rows q cs)) (expiries_to_try q (chain_rows q cs))") auto
  from assms r have "bs_selected (select_within_expiry q (filter (\<lambda>c. bc_expiry c = d) (chain_rows q cs)))"
    by (simp add: selected_on_def)
  then obtain c where c: "bs_selected_contract (select_within_expiry q (filter (\<lambda>c. bc_expiry c = d) (chain_rows q cs))) = Some c"
    "c \<in> set (filter (\<lambda>c. bc_expiry c = d) (chain_rows q cs))" "fits q c"
    "\<And>c'. c' \<in> set (filter (\<lambda>c. bc_expiry c = d) (chain_rows q cs)) \<Longrightarrow> fits q c' \<Longrightarrow> \<not> preferred q c' c"
    by (rule within_expiry_best) blast
  show ?thesis
  proof (rule that [of c d])
    show "bs_selected_contract (select_option q cs) = Some c" using r c(1) by (simp add: selected_on_def)
    show "chain_candidate q cs d c" using c(2,3) by (simp add: chain_candidate_def set_chain_rows)
    show "find (\<lambda>d. \<exists>c. chain_candidate q cs d c) (expiries_to_try q (chain_rows q cs)) = Some d" using d by (simp add: off)
    show "\<not> preferred q c' c" if "chain_candidate q cs d c'" for c'
      using that c(4) [of c'] by (simp add: chain_candidate_def set_chain_rows)
  qed
qed

text \<open>
  The selected contract is a candidate of the first expiry that offers one, and no other candidate of
  that expiry is preferred: none meets the ideal premium when it does not, and none of its class
  comes earlier in the direction from the start strike to the end strike.
\<close>
theorem backtest_selects_first_in_order:
  assumes "bs_selected (select_option q cs)"
  shows "\<exists>d c. bs_selected_contract (select_option q cs) = Some c \<and> chain_candidate q cs d c \<and>
    find (\<lambda>d. \<exists>c. chain_candidate q cs d c) (expiries_to_try q (chain_rows q cs)) = Some d \<and>
    (\<forall>c'. chain_candidate q cs d c' \<longrightarrow> \<not> preferred q c' c)"
  using selected_is_best [OF assms] by metis

definition demo_chain :: "chain_contract list" where
  "demo_chain = map (\<lambda>(k, p, d). \<lparr>bc_timestamp = 0, bc_symbol = ''X'', bc_option_type = CALL, bc_strike = k, bc_expiry = d,
     bc_bid = p, bc_ask = p, bc_ltp = p, bc_oi = 1000, bc_volume = 1\<rparr>) [(100, 9, 7), (110, 6, 7), (120, 4, 7), (130, 1, 7)]"

definition demo_selection :: "int \<Rightarrow> int \<Rightarrow> price \<Rightarrow> option_selection_request" where
  "demo_selection start_k end_k ideal = \<lparr>bq_option_type = CALL, bq_start_strike = start_k, bq_end_strike = end_k,
     bq_ideal_premium = ideal, bq_minimum_premium = 3, bq_minimum_oi = 500, bq_timestamp = 0, bq_expiry_dates = []\<rparr>"

lemma demo_selects: "map_option bc_strike (bs_selected_contract (select_option (demo_selection 130 100 20) demo_chain)) = Some 120 \<and>
    bs_selected (select_option (demo_selection 130 100 20) demo_chain)"
  by code_simp

lemma backtest_selects_first_in_order_witness:
  "\<exists>d c. bs_selected_contract (select_option (demo_selection 130 100 20) demo_chain) = Some c \<and> bc_strike c = 120 \<and>
     (\<forall>c'. chain_candidate (demo_selection 130 100 20) demo_chain d c' \<longrightarrow> \<not> preferred (demo_selection 130 100 20) c' c)"
proof -
  from backtest_selects_first_in_order [OF demo_selects [THEN conjunct2]] obtain d c where
    c: "bs_selected_contract (select_option (demo_selection 130 100 20) demo_chain) = Some c"
      "\<forall>c'. chain_candidate (demo_selection 130 100 20) demo_chain d c' \<longrightarrow> \<not> preferred (demo_selection 130 100 20) c' c" by blast
  with demo_selects have "bc_strike c = 120" by simp
  with c show ?thesis by blast
qed

end
