(* ===== verification/IsoText.thy ===== *)
theory IsoText
  imports Calendar
begin

text \<open>
  The text forms of times that the historical runs pass between their packets: \<^verbatim>\<open>time.isoformat\<close>,
  \<^verbatim>\<open>time.fromisoformat\<close> and \<^verbatim>\<open>datetime.fromisoformat\<close> (of the forms \<^verbatim>\<open>HH:MM\<close>, \<^verbatim>\<open>HH:MM:SS\<close> and
  \<^verbatim>\<open>HH:MM:SS.ffffff\<close>; other forms of later Python versions are not modelled), and that reading back what
  was written gives the same value.
\<close>

section \<open>Times of day\<close>

definition time_isoformat :: "time_of_day \<Rightarrow> string" where
  "time_isoformat us = (let s = us div 1000000; f = us mod 1000000 in
     padded 2 (nat (s div 3600)) @ '':'' @ padded 2 (nat (s div 60 mod 60)) @ '':'' @ padded 2 (nat (s mod 60)) @
     (if f = 0 then [] else ''.'' @ padded 6 (nat f)))"

definition time_of_parts :: "int \<Rightarrow> int \<Rightarrow> int \<Rightarrow> int \<Rightarrow> time_of_day res" where
  "time_of_parts h m s f = (if h \<le> 23 \<and> m \<le> 59 \<and> s \<le> 59
     then Inr (((h * 60 + m) * 60 + s) * 1000000 + f) else Inl (ValueError [Txt ''time out of range'']))"

definition time_fromisoformat :: "string \<Rightarrow> time_of_day res" where
  "time_fromisoformat t =
     (let bad = Inl (ValueError [Txt ''Invalid isoformat string: '', PyRepr t]);
          hm_ok = (length t \<ge> 5 \<and> t ! 2 = CHR '':'' \<and> list_all is_decimal_digit (take 2 t @ take 2 (drop 3 t)));
          s_ok = (length t \<ge> 8 \<and> t ! 5 = CHR '':'' \<and> list_all is_decimal_digit (take 2 (drop 6 t)));
          f_ok = (length t = 15 \<and> t ! 8 = CHR ''.'' \<and> list_all is_decimal_digit (drop 9 t));
          h = decimal_value (take 2 t); m = decimal_value (take 2 (drop 3 t)); s = decimal_value (take 2 (drop 6 t)) in
      if \<not> hm_ok then bad
      else if length t = 5 then time_of_parts h m 0 0
      else if \<not> s_ok then bad
      else if length t = 8 then time_of_parts h m s 0
      else if f_ok then time_of_parts h m s (decimal_value (drop 9 t))
      else bad)"

definition datetime_fromisoformat :: "string \<Rightarrow> datetime res" where
  "datetime_fromisoformat t =
     bindE (date_fromisoformat (take 10 t)) (\<lambda>d.
     if length t = 10 then Inr (at_time d 0)
     else bindE (time_fromisoformat (drop 11 t)) (\<lambda>us. Inr (at_time d us)))"

section \<open>Reading back\<close>

definition valid_time :: "time_of_day \<Rightarrow> bool" where
  "valid_time us \<longleftrightarrow> 0 \<le> us \<and> us < us_per_day"

definition valid_date :: "date \<Rightarrow> bool" where
  "valid_date d \<longleftrightarrow> 1 \<le> year_of d \<and> year_of d \<le> 9999"

lemma digit_char: "n < 10 \<Longrightarrow> (of_char (char_of (48 + n) :: char) :: int) = 48 + int n"
proof -
  assume "n < 10"
  then have "(of_char (char_of (48 + n) :: char) :: nat) = 48 + n" by simp
  then show ?thesis by (metis of_nat_add of_nat_numeral of_nat_of_char)
qed

lemma length_padded [simp]: "length (padded w n) = w"
  by (induction w arbitrary: n) simp_all

lemma digits_padded: "list_all is_decimal_digit (padded w n)"
  by (induction w arbitrary: n) (auto simp: is_decimal_digit_def)

lemma decimal_value_snoc: "decimal_value (ds @ [c]) = decimal_value ds * 10 + (of_char c - 48)"
  by (simp add: decimal_value_def)

lemma decimal_value_padded: "decimal_value (padded w n) = int (n mod 10 ^ w)"
proof (induction w arbitrary: n)
  case 0
  show ?case by (simp add: decimal_value_def)
next
  case (Suc w)
  have "n mod (10 * 10 ^ w) = 10 * (n div 10 mod 10 ^ w) + n mod 10" by (rule mod_mult2_eq)
  moreover have "(of_char (char_of (48 + n mod 10) :: char) :: int) = 48 + int (n mod 10)" by (rule digit_char) simp
  ultimately show ?case by (simp add: decimal_value_snoc Suc.IH)
qed

lemma padded_value: "0 \<le> i \<Longrightarrow> i < 10 ^ w \<Longrightarrow> decimal_value (padded w (nat i)) = i"
  by (simp add: decimal_value_padded nat_less_iff)

lemma padded_2: "0 \<le> i \<Longrightarrow> i \<le> 99 \<Longrightarrow> decimal_value (padded 2 (nat i)) = i"
  by (simp add: padded_value)

lemma date_roundtrip: "valid_date d \<Longrightarrow> date_fromisoformat (isoformat_date d) = Inr d"
proof -
  assume y: "valid_date d"
  have m: "1 \<le> month_of d" "month_of d \<le> 12" "1 \<le> day_of d" "day_of d \<le> month_length (is_leap (year_of d)) (month_of d)"
    using ymd_bounds [of d] by simp_all
  with month_length_bounds [of "month_of d" "is_leap (year_of d)"] have "day_of d \<le> 31" by simp
  with y m have "decimal_value (padded 4 (nat (year_of d))) = year_of d" "decimal_value (padded 2 (nat (month_of d))) = month_of d"
    "decimal_value (padded 2 (nat (day_of d))) = day_of d"
    by (simp_all add: padded_value valid_date_def)
  moreover have "(padded 4 a @ ''-'' @ padded 2 b @ ''-'' @ padded 2 c) ! 7 = CHR ''-''" for a b c
    by (simp add: nth_append)
  ultimately show ?thesis using y m
    by (simp add: date_fromisoformat_def isoformat_date_def nth_append digits_padded date_of_parts_def valid_date_def ordinal_ymd_of)
qed

lemma parse_whole:
  assumes "length a = 2" "length b = 2" "length c = 2" and "list_all is_decimal_digit (a @ b @ c)"
  shows "time_fromisoformat (a @ '':'' @ b @ '':'' @ c) = time_of_parts (decimal_value a) (decimal_value b) (decimal_value c) 0"
  using assms by (simp add: time_fromisoformat_def Let_def nth_append)

lemma parse_fraction:
  assumes "length a = 2" "length b = 2" "length c = 2" "length e = 6" and "list_all is_decimal_digit (a @ b @ c @ e)"
  shows "time_fromisoformat (a @ '':'' @ b @ '':'' @ c @ ''.'' @ e) =
    time_of_parts (decimal_value a) (decimal_value b) (decimal_value c) (decimal_value e)"
  using assms by (simp add: time_fromisoformat_def Let_def nth_append)

lemma time_roundtrip: "valid_time us \<Longrightarrow> time_fromisoformat (time_isoformat us) = Inr us"
proof -
  assume v: "valid_time us"
  define s f where "s = us div 1000000" and "f = us mod 1000000"
  have us: "us = s * 1000000 + f" "0 \<le> f" "f < 1000000" by (simp_all add: s_def f_def)
  have s: "0 \<le> s" "s < 86400" using v by (auto simp: s_def valid_time_def us_per_day_def)
  let ?h = "s div 3600" and ?m = "s div 60 mod 60" and ?s = "s mod 60"
  have h: "?h = s div 60 div 60" using zdiv_zmult2_eq [of 60 s 60] by simp
  have "s = s div 60 * 60 + ?s" "s div 60 = s div 60 div 60 * 60 + ?m" by simp_all
  then have p1: "s = (?h * 60 + ?m) * 60 + ?s" unfolding h by simp
  have p2: "?h \<le> 23" "0 \<le> ?h" using s by auto
  have p3: "?m \<le> 59" "?s \<le> 59" "0 \<le> ?m" "0 \<le> ?s"
    using pos_mod_bound [of 60 "s div 60"] pos_mod_bound [of 60 s] by auto
  have h2: "decimal_value (padded 2 (nat ?h)) = ?h" by (rule padded_2 [OF p2(2)]) (use p2(1) in linarith)
  have m2: "decimal_value (padded 2 (nat ?m)) = ?m" by (rule padded_2 [OF p3(3)]) (use p3(1) in linarith)
  have s2: "decimal_value (padded 2 (nat ?s)) = ?s" by (rule padded_2 [OF p3(4)]) (use p3(2) in linarith)
  have f2: "decimal_value (padded 6 (nat f)) = f" by (rule padded_value [OF us(2)]) (use us(3) in simp)
  note vals = h2 m2 s2 f2
  have form: "time_isoformat us = padded 2 (nat ?h) @ '':'' @ padded 2 (nat ?m) @ '':'' @ padded 2 (nat ?s) @
     (if f = 0 then [] else ''.'' @ padded 6 (nat f))"
    by (simp add: time_isoformat_def Let_def s_def f_def)
  have ok: "time_of_parts ?h ?m ?s g = Inr (s * 1000000 + g)" for g
    unfolding time_of_parts_def by (simp only: p2(1) p3(1,2) p1 [symmetric] simp_thms if_True)
  show ?thesis
  proof (cases "f = 0")
    case True
    then have "time_fromisoformat (time_isoformat us) = time_of_parts ?h ?m ?s 0"
      unfolding form using parse_whole [of "padded 2 (nat ?h)" "padded 2 (nat ?m)" "padded 2 (nat ?s)"] vals(1-3)
      by (simp only: if_True append_Nil2 length_padded digits_padded list_all_append simp_thms)
    then show ?thesis using True us(1) ok by simp
  next
    case False
    then have "time_fromisoformat (time_isoformat us) = time_of_parts ?h ?m ?s f"
      unfolding form using parse_fraction [of "padded 2 (nat ?h)" "padded 2 (nat ?m)" "padded 2 (nat ?s)" "padded 6 (nat f)"] vals
      by (simp only: if_False length_padded digits_padded list_all_append simp_thms)
    then show ?thesis using us(1) ok by simp
  qed
qed

lemma isoformat_parts: "isoformat t = isoformat_date (date_of t) @ ''T'' @ time_isoformat (time_of t)"
  by (simp add: isoformat_def time_isoformat_def Let_def)

lemma length_isoformat_date [simp]: "length (isoformat_date d) = 10"
  by (simp add: isoformat_date_def)

lemma time_of_valid [simp]: "valid_time (time_of t)"
  by (simp add: valid_time_def time_of_def us_per_day_def)

lemma at_time_parts: "valid_time us \<Longrightarrow> date_of (at_time d us) = d \<and> time_of (at_time d us) = us"
  by (simp add: valid_time_def at_time_def date_of_def time_of_def us_per_day_def)

lemma timestamp_roundtrip: "valid_date (date_of t) \<Longrightarrow> datetime_fromisoformat (isoformat t) = Inr t"
  by (simp add: datetime_fromisoformat_def isoformat_parts date_roundtrip time_roundtrip at_time_date_time)

end
