(* ===== verification/HistoricalData.thy ===== *)
theory HistoricalData
  imports IsoText Domain "HOL-Library.List_Lexorder"
begin

text \<open>
  \<^verbatim>\<open>src/tfis/backtest/nifty_hsre_data_adapter.py\<close>: the reader of historical minute data, from the rows of
  a day's file to bars, with its cache of recently read sessions. The files are a dictionary from
  the session date in a file's name to its header and rows as \<^verbatim>\<open>csv.DictReader\<close> gives them: the search of
  the code through folders for names of any case, its \<^verbatim>\<open>ValueError\<close> on an impossible date in a name, a listed
  file that is missing at the path built for its date, and a file whose name has another date are outside
  the model, whose listed sessions are exactly the dates that resolve. The paths recorded in bars are left out. Fields of an option identity carry the prefix \<open>hi_\<close>, of
  a spot bar \<open>hp_\<close>, of an option bar \<open>hb_\<close>, of a chain observation \<open>ho_\<close>, of a daily bar \<open>hd_\<close>, of the
  provider \<open>hv_\<close>, of the read functions offered to the builders \<open>hm_\<close>.
\<close>

section \<open>Option symbols\<close>

record option_identity =
  hi_underlying :: string
  hi_expiry :: date
  hi_strike :: int
  hi_option_type :: option_type
  hi_raw_symbol :: string

definition is_upper_letter :: "char \<Rightarrow> bool" where
  "is_upper_letter c = (let n = of_char c :: nat in 65 \<le> n \<and> n \<le> 90)"

definition symbol_months :: "(string \<times> int) list" where
  "symbol_months = [(''JAN'', 1), (''FEB'', 2), (''MAR'', 3), (''APR'', 4), (''MAY'', 5), (''JUN'', 6), (''JUL'', 7),
     (''AUG'', 8), (''SEP'', 9), (''OCT'', 10), (''NOV'', 11), (''DEC'', 12)]"

text \<open>
  The groups of the pattern letters, two digits, three letters, two digits, digits, \<^verbatim>\<open>CE\<close> or \<^verbatim>\<open>PE\<close>. The
  letters end where the day begins, so the match is unique.
\<close>

definition symbol_groups :: "string \<Rightarrow> (string \<times> string \<times> string \<times> string \<times> string \<times> string) option" where
  "symbol_groups raw =
     (let u = takeWhile is_upper_letter raw; r = dropWhile is_upper_letter raw;
          d = take 2 r; m = take 3 (drop 2 r); y = take 2 (drop 5 r); tail = drop 7 r;
          k = take (length tail - 2) tail; side = drop (length tail - 2) tail in
      if u \<noteq> [] \<and> length r \<ge> 10 \<and> list_all is_decimal_digit d \<and> list_all is_upper_letter m \<and>
         list_all is_decimal_digit y \<and> list_all is_decimal_digit k \<and> (side = ''CE'' \<or> side = ''PE'')
      then Some (u, d, m, y, k, side) else None)"

definition parse_nifty_option_symbol :: "string \<Rightarrow> option_identity res" where
  "parse_nifty_option_symbol symbol =
     (let raw = norm_text symbol in
      case symbol_groups raw of
        None \<Rightarrow> Inl (HsreDataError [Txt ''Malformed NIFTY option symbol: '', PyRepr symbol])
      | Some (u, d, m, y, k, side) \<Rightarrow>
          (case map_of symbol_months m of
             None \<Rightarrow> Inl (HsreDataError [Txt ''Unsupported option expiry month in symbol: '', PyRepr symbol])
           | Some month \<Rightarrow> bindE (date_of_parts (2000 + decimal_value y) month (decimal_value d)) (\<lambda>expiry.
               Inr \<lparr>hi_underlying = u, hi_expiry = expiry, hi_strike = decimal_value k,
                 hi_option_type = (if side = ''CE'' then CALL else PUT), hi_raw_symbol = raw\<rparr>)))"

definition same_contract :: "option_identity \<Rightarrow> option_identity \<Rightarrow> bool" where
  "same_contract a b \<longleftrightarrow> hi_underlying a = hi_underlying b \<and> hi_expiry a = hi_expiry b \<and>
     hi_strike a = hi_strike b \<and> hi_option_type a = hi_option_type b"

section \<open>Bars\<close>

record spot_minute_bar =
  hp_timestamp :: datetime
  hp_open :: price
  hp_high :: price
  hp_low :: price
  hp_close :: price
  hp_source_session :: date

record option_minute_bar =
  hb_timestamp :: datetime
  hb_identity :: option_identity
  hb_open :: price
  hb_high :: price
  hb_low :: price
  hb_close :: price
  hb_oi :: int
  hb_volume :: int
  hb_source_session :: date

record chain_observation =
  ho_timestamp :: datetime
  ho_identity :: option_identity
  ho_ltp :: price
  ho_open :: price
  ho_high :: price
  ho_low :: price
  ho_close :: price
  ho_oi :: int
  ho_volume :: int
  ho_source_session :: date

record daily_ohlc =
  hd_session_date :: date
  hd_open :: price
  hd_high :: price
  hd_low :: price
  hd_close :: price
  hd_observed_minutes :: nat
  hd_first_timestamp :: datetime
  hd_last_timestamp :: datetime
  hd_identity :: "option_identity option"

section \<open>Rows of a file\<close>

record csv_table =
  vf_fieldnames :: "string list"
  vf_rows :: "(string, string) dict list"

text \<open>\<^verbatim>\<open>float\<close> of a decimal literal; the words \<^verbatim>\<open>inf\<close> and \<^verbatim>\<open>nan\<close> and digit groups are not modelled.\<close>

definition split_sign :: "string \<Rightarrow> bool \<times> string" where
  "split_sign s = (case s of [] \<Rightarrow> (False, []) | c # t \<Rightarrow> if c = CHR ''-'' then (True, t) else if c = CHR ''+'' then (False, t) else (False, s))"

definition ten_to :: "int \<Rightarrow> price" where
  "ten_to e = (if 0 \<le> e then 10 ^ nat e else 1 / 10 ^ nat (- e))"

definition exponent_of :: "string \<Rightarrow> int option" where
  "exponent_of t = (case t of [] \<Rightarrow> Some 0 | c # u \<Rightarrow>
     if c = CHR ''e'' \<or> c = CHR ''E'' then
       (case split_sign u of (neg, ds) \<Rightarrow> if ds \<noteq> [] \<and> list_all is_decimal_digit ds
          then Some (if neg then - decimal_value ds else decimal_value ds) else None)
     else None)"

definition py_float :: "string \<Rightarrow> price option" where
  "py_float s =
     (case split_sign (strip s) of (neg, u) \<Rightarrow>
       let ip = takeWhile is_decimal_digit u; r = dropWhile is_decimal_digit u;
           fp = (case r of [] \<Rightarrow> [] | c # t \<Rightarrow> if c = CHR ''.'' then takeWhile is_decimal_digit t else []);
           rest = (case r of [] \<Rightarrow> [] | c # t \<Rightarrow> if c = CHR ''.'' then dropWhile is_decimal_digit t else r) in
       if ip @ fp = [] then None
       else map_option (\<lambda>e. (if neg then -1 else 1) * of_int (decimal_value (ip @ fp)) * ten_to (e - int (length fp)))
         (exponent_of rest))"

definition data_error :: "msg \<Rightarrow> 'a res" where
  "data_error m = Inl (HsreDataError m)"

definition parse_float_cell :: "nat \<Rightarrow> string \<Rightarrow> string \<Rightarrow> price res" where
  "parse_float_cell n column v =
     (if v = [] then data_error [Txt ''missing '', Txt column, Txt '' at row '', PyInt (int n)]
      else case py_float v of Some x \<Rightarrow> Inr x
        | None \<Rightarrow> data_error [Txt ''invalid numeric '', Txt column, Txt '' at row '', PyInt (int n), Txt '': '', PyRepr v])"

definition parse_intish :: "nat \<Rightarrow> string \<Rightarrow> string \<Rightarrow> int res" where
  "parse_intish n column v = bindE (parse_float_cell n column v) (\<lambda>x.
     if of_int \<lfloor>x\<rfloor> \<noteq> x then data_error [Txt ''invalid integer-like '', Txt column, Txt '' at row '', PyInt (int n), Txt '': '', PyRepr v]
     else Inr \<lfloor>x\<rfloor>)"

definition require_cell :: "nat \<Rightarrow> string \<Rightarrow> string \<Rightarrow> string res" where
  "require_cell n column v = (if v = [] then data_error [Txt ''missing '', Txt column, Txt '' at row '', PyInt (int n)] else Inr v)"

definition parse_row_timestamp :: "nat \<Rightarrow> string \<Rightarrow> string \<Rightarrow> datetime res" where
  "parse_row_timestamp n raw_date raw_time =
     (if raw_date = [] \<or> raw_time = [] then data_error [Txt ''missing date/time at row '', PyInt (int n)]
      else case datetime_fromisoformat (raw_date @ ''T'' @ raw_time) of Inr t \<Rightarrow> Inr t
        | Inl _ \<Rightarrow> data_error [Txt ''invalid date/time at row '', PyInt (int n), Txt '': '', PyRepr raw_date, Txt '' '', PyRepr raw_time])"

text \<open>
  \<^verbatim>\<open>_read_csv\<close>: a header whose stripped, lower-case names contain the required columns, and the rows
  with a non-empty cell, numbered as in the file. A later header of the same name wins.
\<close>

definition header_names :: "csv_table \<Rightarrow> (string, string) dict" where
  "header_names f = dict_of (\<lambda>n. lower (strip n)) id (filter (\<lambda>n. n \<noteq> []) (vf_fieldnames f))"

definition normalized_row :: "(string, string) dict \<Rightarrow> (string, string) dict \<Rightarrow> (string, string) dict" where
  "normalized_row header raw = map (\<lambda>(column, original).
     (column, strip (case map_of raw original of None \<Rightarrow> [] | Some v \<Rightarrow> v))) header"

definition read_csv :: "string list \<Rightarrow> csv_table \<Rightarrow> (nat \<times> (string, string) dict) list res" where
  "read_csv required f =
     (let header = header_names f; missing = filter (\<lambda>n. map_of header n = None) required;
          rows = filter (\<lambda>(n, row). list_ex (\<lambda>(_, v). v \<noteq> []) row)
            (enumerate 2 (map (normalized_row header) (vf_rows f))) in
      if missing \<noteq> [] then data_error [Txt ''missing columns '', Txt (drop 2 (concat (map (\<lambda>n. '', '' @ n) missing)))]
      else if rows = [] then data_error [Txt ''CSV contains no data rows'']
      else Inr rows)"

definition cell :: "(string, string) dict \<Rightarrow> string \<Rightarrow> string" where
  "cell row column = (case map_of row column of None \<Rightarrow> [] | Some v \<Rightarrow> v)"

definition spot_columns :: "string list" where
  "spot_columns = [''date'', ''time'', ''symbol'', ''open'', ''high'', ''low'', ''close'']"

definition option_columns :: "string list" where
  "option_columns = spot_columns @ [''oi'', ''volume'']"

definition spot_row :: "string \<Rightarrow> date \<Rightarrow> nat \<times> (string, string) dict \<Rightarrow> spot_minute_bar res" where
  "spot_row instrument d = (\<lambda>(n, row).
     bindE (require_cell n ''symbol'' (cell row ''symbol'')) (\<lambda>s.
     bindE (guardE (upper s = instrument) (HsreDataError [Txt ''expected symbol '', Txt instrument, Txt '', got '',
       PyRepr (upper s), Txt '' at row '', PyInt (int n)])) (\<lambda>_.
     bindE (parse_row_timestamp n (cell row ''date'') (cell row ''time'')) (\<lambda>t.
     bindE (parse_float_cell n ''open'' (cell row ''open'')) (\<lambda>opening.
     bindE (parse_float_cell n ''high'' (cell row ''high'')) (\<lambda>h.
     bindE (parse_float_cell n ''low'' (cell row ''low'')) (\<lambda>l.
     bindE (parse_float_cell n ''close'' (cell row ''close'')) (\<lambda>c.
     Inr \<lparr>hp_timestamp = t, hp_open = opening, hp_high = h, hp_low = l, hp_close = c, hp_source_session = d\<rparr>))))))))"

text \<open>The part of a row after its symbol, the same in both readers of option rows.\<close>

definition option_row_of :: "date \<Rightarrow> nat \<Rightarrow> (string, string) dict \<Rightarrow> option_identity \<Rightarrow> option_minute_bar res" where
  "option_row_of d n row ident =
     bindE (parse_row_timestamp n (cell row ''date'') (cell row ''time'')) (\<lambda>t.
     bindE (parse_intish n ''oi'' (cell row ''oi'')) (\<lambda>oi.
     bindE (guardE (\<not> oi < 0) (HsreDataError [Txt ''negative OI '', PyInt oi, Txt '' at row '', PyInt (int n)])) (\<lambda>_.
     bindE (parse_float_cell n ''open'' (cell row ''open'')) (\<lambda>opening.
     bindE (parse_float_cell n ''high'' (cell row ''high'')) (\<lambda>h.
     bindE (parse_float_cell n ''low'' (cell row ''low'')) (\<lambda>l.
     bindE (parse_float_cell n ''close'' (cell row ''close'')) (\<lambda>c.
     bindE (parse_intish n ''volume'' (cell row ''volume'')) (\<lambda>v.
     Inr \<lparr>hb_timestamp = t, hb_identity = ident, hb_open = opening, hb_high = h, hb_low = l, hb_close = c,
       hb_oi = oi, hb_volume = v, hb_source_session = d\<rparr>))))))))"

definition option_row :: "string \<Rightarrow> date \<Rightarrow> nat \<times> (string, string) dict \<Rightarrow> option_minute_bar res" where
  "option_row instrument d = (\<lambda>(n, row).
     bindE (parse_nifty_option_symbol (cell row ''symbol'')) (\<lambda>ident.
     bindE (guardE (hi_underlying ident = instrument) (HsreDataError [Txt ''expected underlying '', Txt instrument,
       Txt '', got '', PyRepr (hi_underlying ident), Txt '' at row '', PyInt (int n)])) (\<lambda>_.
     option_row_of d n row ident)))"

section \<open>Reading a session, with and without the cache\<close>

record provider =
  hv_instrument :: string
  hv_max_cached_sessions :: nat
  hv_spot_files :: "(date, csv_table) dict"
  hv_option_files :: "(date, csv_table) dict"
  hv_spot_cache :: "(date, spot_minute_bar list) dict"
  hv_option_cache :: "(date, option_minute_bar list) dict"

definition new_provider :: "string \<Rightarrow> int \<Rightarrow> (date, csv_table) dict \<Rightarrow> (date, csv_table) dict \<Rightarrow> provider res" where
  "new_provider instrument max_cached spot_files option_files =
     (if max_cached < 1 then Inl (ValueError [Txt ''max_cached_sessions must be positive''])
      else Inr \<lparr>hv_instrument = norm_text instrument, hv_max_cached_sessions = nat max_cached, hv_spot_files = spot_files,
        hv_option_files = option_files, hv_spot_cache = [], hv_option_cache = []\<rparr>)"

definition resolve_daily_file :: "string \<Rightarrow> (date, csv_table) dict \<Rightarrow> date \<Rightarrow> csv_table res" where
  "resolve_daily_file kind files d = (case map_of files d of Some f \<Rightarrow> Inr f
     | None \<Rightarrow> data_error [Txt ''Missing '', Txt kind, Txt '' file for '', Txt (isoformat_date d)])"

definition session_dates :: "(date, csv_table) dict \<Rightarrow> date list" where
  "session_dates files = sort (remdups (map fst files))"

definition available_spot_sessions :: "provider \<Rightarrow> date list" where
  "available_spot_sessions p = session_dates (hv_spot_files p)"

definition available_option_sessions :: "provider \<Rightarrow> date list" where
  "available_option_sessions p = session_dates (hv_option_files p)"

definition move_to_end :: "date \<Rightarrow> (date, 'a) dict \<Rightarrow> (date, 'a) dict" where
  "move_to_end d c = filter (\<lambda>e. fst e \<noteq> d) c @ filter (\<lambda>e. fst e = d) c"

definition remember :: "nat \<Rightarrow> date \<Rightarrow> 'a \<Rightarrow> (date, 'a) dict \<Rightarrow> (date, 'a) dict" where
  "remember limit d v c = (let c' = move_to_end d (AList.update d v c) in drop (length c' - limit) c')"

definition load_spot_session :: "string \<Rightarrow> (date, csv_table) dict \<Rightarrow> date \<Rightarrow> spot_minute_bar list res" where
  "load_spot_session instrument files d =
     bindE (resolve_daily_file ''spot'' files d) (\<lambda>f.
     bindE (read_csv spot_columns f) (\<lambda>rows.
     bindE (mapE (spot_row instrument d) rows) (\<lambda>bars. Inr (sort_key hp_timestamp bars))))"

text \<open>Sorting by a tuple is stable sorting by its components, the last one first.\<close>

definition text_key :: "string \<Rightarrow> nat list" where
  "text_key s = map of_char s"

definition option_order :: "option_minute_bar list \<Rightarrow> option_minute_bar list" where
  "option_order bars = sort_key hb_timestamp (sort_key (\<lambda>b. text_key (hi_raw_symbol (hb_identity b))) bars)"

definition load_option_session :: "string \<Rightarrow> (date, csv_table) dict \<Rightarrow> date \<Rightarrow> option_minute_bar list res" where
  "load_option_session instrument files d =
     bindE (resolve_daily_file ''options'' files d) (\<lambda>f.
     bindE (read_csv option_columns f) (\<lambda>rows.
     bindE (mapE (option_row instrument d) rows) (\<lambda>bars. Inr (option_order bars))))"

definition get_spot_session_bars :: "date \<Rightarrow> provider \<Rightarrow> spot_minute_bar list res \<times> provider" where
  "get_spot_session_bars d p = (case map_of (hv_spot_cache p) d of
     Some bars \<Rightarrow> (Inr bars, p\<lparr>hv_spot_cache := move_to_end d (hv_spot_cache p)\<rparr>)
   | None \<Rightarrow> (case load_spot_session (hv_instrument p) (hv_spot_files p) d of
       Inl e \<Rightarrow> (Inl e, p)
     | Inr bars \<Rightarrow> (Inr bars, p\<lparr>hv_spot_cache := remember (hv_max_cached_sessions p) d bars (hv_spot_cache p)\<rparr>)))"

definition get_option_session_bars :: "date \<Rightarrow> provider \<Rightarrow> option_minute_bar list res \<times> provider" where
  "get_option_session_bars d p = (case map_of (hv_option_cache p) d of
     Some bars \<Rightarrow> (Inr bars, p\<lparr>hv_option_cache := move_to_end d (hv_option_cache p)\<rparr>)
   | None \<Rightarrow> (case load_option_session (hv_instrument p) (hv_option_files p) d of
       Inl e \<Rightarrow> (Inl e, p)
     | Inr bars \<Rightarrow> (Inr bars, p\<lparr>hv_option_cache := remember (hv_max_cached_sessions p) d bars (hv_option_cache p)\<rparr>)))"

text \<open>Reading only the rows of one contract, without the cache.\<close>

definition contract_row :: "date \<Rightarrow> option_identity \<Rightarrow> nat \<times> (string, string) dict \<Rightarrow> option_minute_bar list res" where
  "contract_row d ident = (\<lambda>(n, row).
     bindE (require_cell n ''symbol'' (cell row ''symbol'')) (\<lambda>s.
     if upper s \<noteq> hi_raw_symbol ident then Inr []
     else bindE (parse_nifty_option_symbol (upper s)) (\<lambda>parsed.
     if \<not> same_contract parsed ident then Inr []
     else bindE (option_row_of d n row parsed) (\<lambda>b. Inr [b]))))"

definition read_contract_session_bars :: "provider \<Rightarrow> date \<Rightarrow> option_identity \<Rightarrow> option_minute_bar list res" where
  "read_contract_session_bars p d ident =
     bindE (resolve_daily_file ''options'' (hv_option_files p) d) (\<lambda>f.
     bindE (read_csv option_columns f) (\<lambda>rows.
     bindE (mapE (contract_row d ident) rows) (\<lambda>bars. Inr (sort_key hb_timestamp (concat bars)))))"

definition get_contract_session_bars :: "provider \<Rightarrow> date \<Rightarrow> option_identity \<Rightarrow> option_minute_bar list res" where
  "get_contract_session_bars p d ident = (case map_of (hv_option_cache p) d of
     None \<Rightarrow> read_contract_session_bars p d ident
   | Some cached \<Rightarrow> Inr (filter (\<lambda>b. same_contract (hb_identity b) ident) cached))"

section \<open>Queries\<close>

definition get_spot_bar :: "date \<Rightarrow> time_of_day \<Rightarrow> bool \<Rightarrow> provider \<Rightarrow> spot_minute_bar res \<times> provider" where
  "get_spot_bar d t exact p =
     (let cutoff = at_time d t; (r, p') = get_spot_session_bars d p in
      (bindE r (\<lambda>bars.
         if exact then
           (let matches = filter (\<lambda>b. hp_timestamp b = cutoff) bars in
            if length matches \<noteq> 1 then data_error [Txt ''Expected exactly one spot bar at '', Txt (isoformat cutoff),
              Txt '', got '', PyInt (int (length matches))]
            else Inr (hd matches))
         else
           (let prior = filter (\<lambda>b. hp_timestamp b \<le> cutoff) bars in
            if prior = [] then data_error [Txt ''No spot bars available at or before '', Txt (isoformat cutoff)]
            else Inr (last prior))), p'))"

definition get_spot_bars_through :: "date \<Rightarrow> time_of_day \<Rightarrow> provider \<Rightarrow> spot_minute_bar list res \<times> provider" where
  "get_spot_bars_through d t p = (let (r, p') = get_spot_session_bars d p in
     (bindE r (\<lambda>bars. Inr (filter (\<lambda>b. hp_timestamp b \<le> at_time d t) bars)), p'))"

definition get_available_expiries :: "date \<Rightarrow> provider \<Rightarrow> date list res \<times> provider" where
  "get_available_expiries d p = (let (r, p') = get_option_session_bars d p in
     (bindE r (\<lambda>bars. Inr (sort (remdups (map (\<lambda>b. hi_expiry (hb_identity b)) bars)))), p'))"

definition observation_of :: "option_minute_bar \<Rightarrow> chain_observation" where
  "observation_of b = \<lparr>ho_timestamp = hb_timestamp b, ho_identity = hb_identity b, ho_ltp = hb_close b, ho_open = hb_open b,
     ho_high = hb_high b, ho_low = hb_low b, ho_close = hb_close b, ho_oi = hb_oi b, ho_volume = hb_volume b,
     ho_source_session = hb_source_session b\<rparr>"

definition chain_order :: "chain_observation list \<Rightarrow> chain_observation list" where
  "chain_order os = sort_key (\<lambda>x. hi_expiry (ho_identity x)) (sort_key (\<lambda>x. hi_strike (ho_identity x))
     (sort_key (\<lambda>x. text_key (option_type_value (hi_option_type (ho_identity x))))
     (sort_key (\<lambda>x. text_key (hi_raw_symbol (ho_identity x))) os)))"

definition get_option_chain :: "date \<Rightarrow> time_of_day \<Rightarrow> date option \<Rightarrow> bool \<Rightarrow> provider \<Rightarrow> chain_observation list res \<times> provider" where
  "get_option_chain d t expiry exact p =
     (if \<not> exact then (data_error [Txt ''Non-exact option-chain reads are intentionally unsupported''], p)
      else let (r, p') = get_option_session_bars d p in
        (bindE r (\<lambda>bars. Inr (chain_order (map observation_of (filter (\<lambda>b. hb_timestamp b = at_time d t \<and>
           (case expiry of None \<Rightarrow> True | Some e \<Rightarrow> hi_expiry (hb_identity b) = e)) bars)))), p'))"

section \<open>Daily bars\<close>

definition aggregate_option_bars :: "date \<Rightarrow> option_identity \<Rightarrow> option_minute_bar list \<Rightarrow> daily_ohlc res" where
  "aggregate_option_bars d ident bars =
     (let ordered = sort_key hb_timestamp bars in
      if bars = [] then data_error [Txt ''No option bars for '', Txt (hi_raw_symbol ident), Txt '' on '', Txt (isoformat_date d)]
      else Inr \<lparr>hd_session_date = d, hd_open = hb_open (hd ordered), hd_high = py_max (map hb_high ordered),
        hd_low = py_min (map hb_low ordered), hd_close = hb_close (last ordered), hd_observed_minutes = length ordered,
        hd_first_timestamp = hb_timestamp (hd ordered), hd_last_timestamp = hb_timestamp (last ordered), hd_identity = Some ident\<rparr>)"

definition aggregate_spot_bars :: "date \<Rightarrow> spot_minute_bar list \<Rightarrow> daily_ohlc res" where
  "aggregate_spot_bars d bars =
     (let ordered = sort_key hp_timestamp bars in
      if bars = [] then data_error [Txt ''No spot bars for '', Txt (isoformat_date d)]
      else Inr \<lparr>hd_session_date = d, hd_open = hp_open (hd ordered), hd_high = py_max (map hp_high ordered),
        hd_low = py_min (map hp_low ordered), hd_close = hp_close (last ordered), hd_observed_minutes = length ordered,
        hd_first_timestamp = hp_timestamp (hd ordered), hd_last_timestamp = hp_timestamp (last ordered), hd_identity = None\<rparr>)"

definition aggregate_spot_session :: "date \<Rightarrow> provider \<Rightarrow> daily_ohlc res \<times> provider" where
  "aggregate_spot_session d p = (let (r, p') = get_spot_session_bars d p in (bindE r (aggregate_spot_bars d), p'))"

definition aggregate_option_contract_session :: "provider \<Rightarrow> date \<Rightarrow> option_identity \<Rightarrow> daily_ohlc res" where
  "aggregate_option_contract_session p d ident = bindE (get_contract_session_bars p d ident) (aggregate_option_bars d ident)"

text \<open>The loop over the earlier sessions, latest first, until enough of them traded the contract.\<close>

fun collect_prior :: "provider \<Rightarrow> option_identity \<Rightarrow> nat option \<Rightarrow> date list \<Rightarrow> daily_ohlc list \<Rightarrow> daily_ohlc list res" where
  "collect_prior p ident limit [] found = Inr found"
| "collect_prior p ident limit (d # ds) found =
     bindE (get_contract_session_bars p d ident) (\<lambda>bars.
     if bars = [] then collect_prior p ident limit ds found
     else bindE (aggregate_option_bars d ident bars) (\<lambda>bar.
       if (case limit of None \<Rightarrow> False | Some n \<Rightarrow> length (found @ [bar]) \<ge> n) then Inr (found @ [bar])
       else collect_prior p ident limit ds (found @ [bar])))"

definition get_prior_contract_daily_bars :: "provider \<Rightarrow> date \<Rightarrow> option_identity \<Rightarrow> int option \<Rightarrow> daily_ohlc list res" where
  "get_prior_contract_daily_bars p d ident limit =
     (if (case limit of None \<Rightarrow> False | Some n \<Rightarrow> n < 1) then Inl (ValueError [Txt ''limit must be positive when supplied''])
      else bindE (collect_prior p ident (map_option nat limit)
          (rev (filter (\<lambda>s. s < d) (available_option_sessions p))) []) (\<lambda>found. Inr (rev found)))"

section \<open>A contract's symbol reads back\<close>

definition option_symbol :: "string \<Rightarrow> date \<Rightarrow> int \<Rightarrow> option_type \<Rightarrow> string" where
  "option_symbol u expiry k ot = u @ padded 2 (nat (day_of expiry)) @
     fst (symbol_months ! nat (month_of expiry - 1)) @ padded 2 (nat (year_of expiry mod 100)) @
     decimal_nat (nat k) @ (case ot of CALL \<Rightarrow> ''CE'' | PUT \<Rightarrow> ''PE'')"

lemma decimal_nat_value: "decimal_value (decimal_nat n) = int n \<and> list_all is_decimal_digit (decimal_nat n) \<and> decimal_nat n \<noteq> []"
proof (induction n rule: decimal_nat.induct)
  case (1 n)
  show ?case
  proof (cases "n < 10")
    case True
    then show ?thesis by (simp add: decimal_nat.simps [of n] decimal_value_def digit_char is_decimal_digit_def)
  next
    case False
    have "(of_char (char_of (48 + n mod 10) :: char) :: int) = 48 + int (n mod 10)" by (rule digit_char) simp
    moreover have "int (n div 10) * 10 + int (n mod 10) = int n"
      by (metis div_mult_mod_eq of_nat_add of_nat_mult of_nat_numeral)
    moreover have "n mod 10 \<le> 9" using mod_less_divisor [of 10 n] by simp
    ultimately show ?thesis using 1 False
      by (simp add: decimal_nat.simps [of n] decimal_value_snoc is_decimal_digit_def)
  qed
qed

lemma digit_not_letter: "is_decimal_digit c \<Longrightarrow> \<not> is_upper_letter c"
  by (simp add: is_decimal_digit_def is_upper_letter_def Let_def)

lemma letter_upper: "is_upper_letter c \<Longrightarrow> upper_char c = c \<and> \<not> is_space c"
  by (simp add: is_upper_letter_def upper_char_def is_space_def Let_def)

lemma digit_upper: "is_decimal_digit c \<Longrightarrow> upper_char c = c \<and> \<not> is_space c"
  by (simp add: is_decimal_digit_def upper_char_def is_space_def Let_def)

definition plain :: "char \<Rightarrow> bool" where
  "plain c \<longleftrightarrow> is_upper_letter c \<or> is_decimal_digit c"

lemma norm_plain: "list_all plain s \<Longrightarrow> norm_text s = s"
proof -
  assume p: "list_all plain s"
  then have "\<forall>c \<in> set s. upper_char c = c \<and> \<not> is_space c"
    using letter_upper digit_upper by (auto simp: plain_def list_all_iff)
  then have "strip s = s" "map upper_char s = s"
    by (auto intro!: strip_fixed map_idI)
  then show ?thesis by (simp add: norm_text_def upper_def)
qed

lemma month_names: "1 \<le> m \<Longrightarrow> m \<le> 12 \<Longrightarrow> length (fst (symbol_months ! nat (m - 1))) = 3 \<and>
    list_all is_upper_letter (fst (symbol_months ! nat (m - 1))) \<and>
    map_of symbol_months (fst (symbol_months ! nat (m - 1))) = Some m"
proof -
  assume m: "1 \<le> m" "m \<le> 12"
  let ?P = "\<lambda>m. length (fst (symbol_months ! nat (m - 1))) = 3 \<and>
    list_all is_upper_letter (fst (symbol_months ! nat (m - 1))) \<and>
    map_of symbol_months (fst (symbol_months ! nat (m - 1))) = Some m"
  have "list_all ?P [1, 2, 3, 4, 5, 6, 7, 8, 9, 10, 11, 12]" by code_simp
  with month_cases [OF m] show ?thesis by (simp only: list_all_iff list.set) blast
qed

lemma groups_of_symbol:
  assumes "u \<noteq> []" "list_all is_upper_letter u" "length d = 2" "list_all is_decimal_digit d"
    and "length m = 3" "list_all is_upper_letter m" "length y = 2" "list_all is_decimal_digit y"
    and "k \<noteq> []" "list_all is_decimal_digit k" "side = ''CE'' \<or> side = ''PE''"
  shows "symbol_groups (u @ d @ m @ y @ k @ side) = Some (u, d, m, y, k, side)"
proof -
  obtain c ds where d: "d = c # ds" using assms(3) by (cases d) auto
  with assms(4) have "\<not> is_upper_letter c" by (simp add: digit_not_letter)
  with assms(2) d have cut: "takeWhile is_upper_letter (u @ d @ m @ y @ k @ side) = u"
    "dropWhile is_upper_letter (u @ d @ m @ y @ k @ side) = d @ m @ y @ k @ side"
    by (simp_all add: takeWhile_append dropWhile_append list_all_iff)
  have side: "length side = 2" using assms(11) by auto
  have "length k \<ge> 1" using assms(9) by (cases k) auto
  with assms side show ?thesis unfolding symbol_groups_def Let_def cut
    by (simp add: list_all_iff)
qed

text \<open>
  C33: the symbol of a contract of this century, spelled with day, month name, year and strike, parses to
  that contract.
\<close>
theorem option_symbol_reads_back:
  assumes "u \<noteq> []" and "list_all is_upper_letter u" and "2000 \<le> year_of expiry" and "year_of expiry \<le> 2099" and "0 \<le> k"
  shows "parse_nifty_option_symbol (option_symbol u expiry k ot) = Inr \<lparr>hi_underlying = u, hi_expiry = expiry,
    hi_strike = k, hi_option_type = ot, hi_raw_symbol = option_symbol u expiry k ot\<rparr>"
proof -
  let ?d = "padded 2 (nat (day_of expiry))" and ?m = "fst (symbol_months ! nat (month_of expiry - 1))"
    and ?y = "padded 2 (nat (year_of expiry mod 100))" and ?k = "decimal_nat (nat k)"
    and ?side = "case ot of CALL \<Rightarrow> ''CE'' | PUT \<Rightarrow> ''PE''"
  have b: "1 \<le> month_of expiry" "month_of expiry \<le> 12" "1 \<le> day_of expiry"
      "day_of expiry \<le> month_length (is_leap (year_of expiry)) (month_of expiry)"
    using ymd_bounds [of expiry] by simp_all
  note month = month_names [OF b(1,2)] and k = decimal_nat_value [of "nat k"]
  have side: "?side = ''CE'' \<or> ?side = ''PE''" by (cases ot) simp_all
  have groups: "symbol_groups (option_symbol u expiry k ot) = Some (u, ?d, ?m, ?y, ?k, ?side)"
    unfolding option_symbol_def using assms(1,2) month k side by (intro groups_of_symbol) (simp_all add: digits_padded)
  have "list_all plain (option_symbol u expiry k ot)"
    using assms(2) month k digits_padded [of 2 "nat (day_of expiry)"] digits_padded [of 2 "nat (year_of expiry mod 100)"]
    by (cases ot) (auto simp: option_symbol_def plain_def list_all_iff is_upper_letter_def)
  then have norm_eq: "norm_text (option_symbol u expiry k ot) = option_symbol u expiry k ot" by (rule norm_plain)
  have "day_of expiry \<le> 31" using b month_length_bounds [of "month_of expiry" "is_leap (year_of expiry)"] by simp
  then have vals: "decimal_value ?d = day_of expiry" "decimal_value ?y = year_of expiry mod 100" "decimal_value ?k = k"
    using b assms(5) k by (auto intro!: padded_value)
  have "year_of expiry mod 100 = (year_of expiry - 2000) mod 100" using mod_mult_self2 [of "year_of expiry - 2000" 100 20] by simp
  then have "2000 + year_of expiry mod 100 = year_of expiry" using assms(3,4) by simp
  then have date: "date_of_parts (2000 + decimal_value ?y) (month_of expiry) (decimal_value ?d) = Inr expiry"
    using b assms(3) by (simp add: vals date_of_parts_def ordinal_ymd_of)
  show ?thesis
    unfolding parse_nifty_option_symbol_def norm_eq Let_def groups using month date vals(3) by (cases ot) simp_all
qed

lemma option_symbol_reads_back_witness:
  "option_symbol ''NIFTY'' (ordinal 2024 1 4) 100 PUT = ''NIFTY04JAN24100PE'' \<and>
   parse_nifty_option_symbol (option_symbol ''NIFTY'' (ordinal 2024 1 4) 100 PUT) = Inr \<lparr>hi_underlying = ''NIFTY'',
     hi_expiry = ordinal 2024 1 4, hi_strike = 100, hi_option_type = PUT,
     hi_raw_symbol = option_symbol ''NIFTY'' (ordinal 2024 1 4) 100 PUT\<rparr>"
proof
  show "option_symbol ''NIFTY'' (ordinal 2024 1 4) 100 PUT = ''NIFTY04JAN24100PE''" by code_simp
  have "year_of (ordinal 2024 1 4) = 2024" "list_all is_upper_letter ''NIFTY''" by code_simp+
  then show "parse_nifty_option_symbol (option_symbol ''NIFTY'' (ordinal 2024 1 4) 100 PUT) = Inr \<lparr>hi_underlying = ''NIFTY'',
     hi_expiry = ordinal 2024 1 4, hi_strike = 100, hi_option_type = PUT,
     hi_raw_symbol = option_symbol ''NIFTY'' (ordinal 2024 1 4) 100 PUT\<rparr>"
    by (intro option_symbol_reads_back) simp_all
qed

section \<open>The cache shows nothing but the files\<close>

definition cached_loads :: "(date \<Rightarrow> 'a res) \<Rightarrow> (date, 'a) dict \<Rightarrow> bool" where
  "cached_loads load c \<longleftrightarrow> (\<forall>(d, v) \<in> set c. load d = Inr v)"

definition coherent :: "provider \<Rightarrow> bool" where
  "coherent p \<longleftrightarrow>
     cached_loads (load_spot_session (hv_instrument p) (hv_spot_files p)) (hv_spot_cache p) \<and>
     cached_loads (load_option_session (hv_instrument p) (hv_option_files p)) (hv_option_cache p) \<and>
     length (hv_spot_cache p) \<le> hv_max_cached_sessions p \<and> length (hv_option_cache p) \<le> hv_max_cached_sessions p"

lemma cached_loadsD: "cached_loads load c \<Longrightarrow> map_of c d = Some v \<Longrightarrow> load d = Inr v"
  by (auto simp: cached_loads_def dest: map_of_SomeD)

lemma set_move_to_end [simp]: "set (move_to_end d c) = set c"
  by (auto simp: move_to_end_def)

lemma length_move_to_end [simp]: "length (move_to_end d c) = length c"
  using sum_length_filter_compl [of "\<lambda>e. fst e \<noteq> d" c] by (simp add: move_to_end_def)

lemma cached_loads_move: "cached_loads load c \<Longrightarrow> cached_loads load (move_to_end d c)"
  by (simp add: cached_loads_def)

lemma cached_loads_remember:
  assumes "cached_loads load c" and "load d = Inr v"
  shows "cached_loads load (remember n d v c)" and "length (remember n d v c) \<le> n"
proof -
  have "set (remember n d v c) \<subseteq> set (AList.update d v c)"
    using set_drop_subset [of _ "move_to_end d (AList.update d v c)"] by (fastforce simp: remember_def Let_def)
  moreover have "set (AList.update d v c) \<subseteq> insert (d, v) (set c)" by (induction c) auto
  ultimately show "cached_loads load (remember n d v c)" using assms by (fastforce simp: cached_loads_def)
  show "length (remember n d v c) \<le> n" by (simp add: remember_def Let_def)
qed

lemma spot_read:
  assumes "coherent p"
  shows "fst (get_spot_session_bars d p) = load_spot_session (hv_instrument p) (hv_spot_files p) d"
    and "\<exists>c. snd (get_spot_session_bars d p) = p\<lparr>hv_spot_cache := c\<rparr> \<and> coherent (p\<lparr>hv_spot_cache := c\<rparr>)"
proof -
  show "fst (get_spot_session_bars d p) = load_spot_session (hv_instrument p) (hv_spot_files p) d"
    using assms by (cases "map_of (hv_spot_cache p) d")
      (auto simp: get_spot_session_bars_def coherent_def dest: cached_loadsD split: sum.splits)
  show "\<exists>c. snd (get_spot_session_bars d p) = p\<lparr>hv_spot_cache := c\<rparr> \<and> coherent (p\<lparr>hv_spot_cache := c\<rparr>)"
  proof (cases "map_of (hv_spot_cache p) d")
    case (Some bars)
    with assms show ?thesis
      by (intro exI [of _ "move_to_end d (hv_spot_cache p)"]) (simp add: get_spot_session_bars_def coherent_def cached_loads_move)
  next
    case None
    show ?thesis
    proof (cases "load_spot_session (hv_instrument p) (hv_spot_files p) d")
      case (Inl e)
      with None assms show ?thesis by (intro exI [of _ "hv_spot_cache p"]) (simp add: get_spot_session_bars_def)
    next
      case (Inr bars)
      with None assms Inr cached_loads_remember [of "load_spot_session (hv_instrument p) (hv_spot_files p)" "hv_spot_cache p" d bars] show ?thesis
        by (intro exI [of _ "remember (hv_max_cached_sessions p) d bars (hv_spot_cache p)"])
          (simp add: get_spot_session_bars_def coherent_def)
    qed
  qed
qed

lemma option_read:
  assumes "coherent p"
  shows "fst (get_option_session_bars d p) = load_option_session (hv_instrument p) (hv_option_files p) d"
    and "\<exists>c. snd (get_option_session_bars d p) = p\<lparr>hv_option_cache := c\<rparr> \<and> coherent (p\<lparr>hv_option_cache := c\<rparr>)"
proof -
  show "fst (get_option_session_bars d p) = load_option_session (hv_instrument p) (hv_option_files p) d"
    using assms by (cases "map_of (hv_option_cache p) d")
      (auto simp: get_option_session_bars_def coherent_def dest: cached_loadsD split: sum.splits)
  show "\<exists>c. snd (get_option_session_bars d p) = p\<lparr>hv_option_cache := c\<rparr> \<and> coherent (p\<lparr>hv_option_cache := c\<rparr>)"
  proof (cases "map_of (hv_option_cache p) d")
    case (Some bars)
    with assms show ?thesis
      by (intro exI [of _ "move_to_end d (hv_option_cache p)"]) (simp add: get_option_session_bars_def coherent_def cached_loads_move)
  next
    case None
    show ?thesis
    proof (cases "load_option_session (hv_instrument p) (hv_option_files p) d")
      case (Inl e)
      with None assms show ?thesis by (intro exI [of _ "hv_option_cache p"]) (simp add: get_option_session_bars_def)
    next
      case (Inr bars)
      with None assms Inr cached_loads_remember [of "load_option_session (hv_instrument p) (hv_option_files p)" "hv_option_cache p" d bars] show ?thesis
        by (intro exI [of _ "remember (hv_max_cached_sessions p) d bars (hv_option_cache p)"])
          (simp add: get_option_session_bars_def coherent_def)
    qed
  qed
qed

text \<open>Any sequence of reads, in any order and failing ones included.\<close>

datatype provider_read = ReadSpot date | ReadOptions date

fun run_reads :: "provider_read list \<Rightarrow> provider \<Rightarrow> provider" where
  "run_reads [] p = p"
| "run_reads (ReadSpot d # rs) p = run_reads rs (snd (get_spot_session_bars d p))"
| "run_reads (ReadOptions d # rs) p = run_reads rs (snd (get_option_session_bars d p))"

definition same_files :: "provider \<Rightarrow> provider \<Rightarrow> bool" where
  "same_files p p' \<longleftrightarrow> hv_instrument p = hv_instrument p' \<and> hv_spot_files p = hv_spot_files p' \<and>
     hv_option_files p = hv_option_files p' \<and> hv_max_cached_sessions p = hv_max_cached_sessions p'"

lemma run_reads_coherent: "coherent p \<Longrightarrow> coherent (run_reads rs p) \<and> same_files (run_reads rs p) p"
proof (induction rs p rule: run_reads.induct)
  case (1 p)
  then show ?case by (simp add: same_files_def)
next
  case (2 d rs p)
  from spot_read(2) [OF 2(2), of d] obtain c where
    "snd (get_spot_session_bars d p) = p\<lparr>hv_spot_cache := c\<rparr>" "coherent (p\<lparr>hv_spot_cache := c\<rparr>)" by blast
  with 2(1) show ?case by (simp add: same_files_def)
next
  case (3 d rs p)
  from option_read(2) [OF 3(2), of d] obtain c where
    "snd (get_option_session_bars d p) = p\<lparr>hv_option_cache := c\<rparr>" "coherent (p\<lparr>hv_option_cache := c\<rparr>)" by blast
  with 3(1) show ?case by (simp add: same_files_def)
qed

lemma new_provider_coherent: "new_provider i n sf optf = Inr p \<Longrightarrow> coherent p"
  by (auto simp: new_provider_def coherent_def cached_loads_def split: if_splits)

text \<open>
  C34: whatever was read before, a session's bars are what loading its file gives, and the caches stay
  within the configured size.
\<close>
theorem cache_is_transparent:
  assumes "new_provider instrument n spot_files option_files = Inr p"
  shows "fst (get_option_session_bars d (run_reads rs p)) = load_option_session (norm_text instrument) option_files d \<and>
    fst (get_spot_session_bars d (run_reads rs p)) = load_spot_session (norm_text instrument) spot_files d \<and>
    int (length (hv_option_cache (run_reads rs p))) \<le> n \<and> int (length (hv_spot_cache (run_reads rs p))) \<le> n"
proof -
  from run_reads_coherent [OF new_provider_coherent [OF assms], of rs]
  have c: "coherent (run_reads rs p)" and f: "same_files (run_reads rs p) p" by simp_all
  from assms have p: "hv_instrument p = norm_text instrument" "hv_spot_files p = spot_files" "hv_option_files p = option_files"
    "int (hv_max_cached_sessions p) = n" by (auto simp: new_provider_def split: if_splits)
  from c f p show ?thesis by (auto simp: spot_read(1) option_read(1) same_files_def coherent_def)
qed

section \<open>Contract reads with and without the cache\<close>

lemma is_space_upper [simp]: "is_space (upper_char c) = is_space c"
proof (cases "97 \<le> (of_char c :: nat) \<and> (of_char c :: nat) \<le> 122")
  case True
  then have "(of_char (upper_char c) :: nat) = of_char c - 32" by (auto simp: upper_char_def Let_def)
  with True show ?thesis unfolding is_space_def Let_def by arith
next
  case False
  then show ?thesis by (auto simp: upper_char_def Let_def)
qed

lemma strip_upper: "strip s = s \<Longrightarrow> strip (upper s) = upper s"
proof (rule strip_fixed)
  assume s: "strip s = s"
  show "upper s = [] \<or> \<not> is_space (hd (upper s)) \<and> \<not> is_space (last (upper s))"
  proof (cases "s = []")
    case False
    with s strip_hd [of s] strip_last [of s] show ?thesis by (simp add: upper_def hd_map last_map)
  qed (simp add: upper_def)
qed

lemma strip_cell: "strip (cell row c) = cell row c" if "(n, row) \<in> set rows" "read_csv required f = Inr rows"
proof -
  from that obtain raw where "row = normalized_row (header_names f) raw"
    by (auto simp: read_csv_def data_error_def Let_def in_set_enumerate_eq split: if_splits)
  then have "map_of row c = Some v \<Longrightarrow> \<exists>t. v = strip t" for v
    by (auto simp: normalized_row_def dest!: map_of_SomeD)
  then show ?thesis by (cases "map_of row c") (auto simp: cell_def)
qed

lemma parse_upper:
  assumes "strip s = s" and "parse_nifty_option_symbol s = Inr ident"
  shows "parse_nifty_option_symbol (upper s) = Inr ident" and "hi_raw_symbol ident = upper s" and "s \<noteq> []"
proof -
  have same: "norm_text (upper s) = norm_text s" "norm_text s = upper s"
    using assms(1) strip_upper [OF assms(1)] by (simp_all add: norm_text_def)
  show "hi_raw_symbol ident = upper s"
    using assms(2) by (auto simp: parse_nifty_option_symbol_def Let_def same bindE_eq_Inr split: option.splits prod.splits)
  show "parse_nifty_option_symbol (upper s) = Inr ident"
    using assms(2) by (auto simp: parse_nifty_option_symbol_def Let_def same bindE_eq_Inr split: option.splits prod.splits)
  show "s \<noteq> []"
    using assms(2) by (auto simp: parse_nifty_option_symbol_def norm_text_def upper_def symbol_groups_def)
qed

lemma contract_row_filter:
  assumes s: "strip (cell row ''symbol'') = cell row ''symbol''" and b: "option_row i d (n, row) = Inr b"
    and canonical: "same_contract (hb_identity b) ident \<longrightarrow> hi_raw_symbol (hb_identity b) = hi_raw_symbol ident"
  shows "contract_row d ident (n, row) = Inr (if same_contract (hb_identity b) ident then [b] else [])"
proof -
  from b obtain x where x: "parse_nifty_option_symbol (cell row ''symbol'') = Inr x" "option_row_of d n row x = Inr b"
    by (auto simp: option_row_def bindE_eq_Inr)
  then have "hb_identity b = x" by (auto simp: option_row_of_def bindE_eq_Inr)
  with parse_upper [OF s x(1)] x(2) canonical show ?thesis
    by (auto simp: contract_row_def require_cell_def)
qed

lemma contract_rows_filter:
  assumes "\<And>n row. (n, row) \<in> set rows \<Longrightarrow> strip (cell row ''symbol'') = cell row ''symbol''"
    and "mapE (option_row i d) rows = Inr bars"
    and "\<And>b. b \<in> set bars \<Longrightarrow> same_contract (hb_identity b) ident \<longrightarrow> hi_raw_symbol (hb_identity b) = hi_raw_symbol ident"
  shows "\<exists>parts. mapE (contract_row d ident) rows = Inr parts \<and> concat parts = filter (\<lambda>b. same_contract (hb_identity b) ident) bars"
  using assms
proof (induction rows arbitrary: bars)
  case (Cons r rows)
  obtain n row where r: "r = (n, row)" by (cases r)
  from Cons.prems(2) obtain b bs where b: "option_row i d (n, row) = Inr b" "mapE (option_row i d) rows = Inr bs" "bars = b # bs"
    by (auto simp: bindE_eq_Inr r)
  have "\<exists>parts. mapE (contract_row d ident) rows = Inr parts \<and> concat parts = filter (\<lambda>b. same_contract (hb_identity b) ident) bs"
    by (rule Cons.IH [OF _ b(2)]) (use Cons.prems b(3) in auto)
  moreover have "contract_row d ident (n, row) = Inr (if same_contract (hb_identity b) ident then [b] else [])"
    by (rule contract_row_filter [OF _ b(1)]) (use Cons.prems b(3) r in auto)
  ultimately show ?case using b(3) r by auto
qed simp

lemma filter_option_order:
  assumes "\<And>b. b \<in> set bars \<Longrightarrow> P b \<Longrightarrow> hi_raw_symbol (hb_identity b) = s"
  shows "filter P (option_order bars) = sort_key hb_timestamp (filter P bars)"
proof -
  let ?k = "\<lambda>b. text_key (hi_raw_symbol (hb_identity b))"
  have "map ?k (filter P bars) = map (\<lambda>_. text_key s) (filter P bars)" using assms by simp
  then have "sorted (map ?k (filter P bars))" by (simp add: map_replicate_const)
  then have "sort_key ?k (filter P bars) = filter P bars" by (rule sort_key_id_if_sorted)
  then show ?thesis by (simp add: option_order_def filter_sort)
qed

text \<open>
  C35: a contract's bars are the same whether its session is in the cache or is read for this contract only,
  when every row of the contract in the file is spelled as the raw symbol of the identity asked for.
\<close>
theorem contract_bars_independent_of_cache:
  assumes "coherent p" and "map_of (hv_option_cache p) d = Some cached"
    and "\<forall>b \<in> set cached. same_contract (hb_identity b) ident \<longrightarrow> hi_raw_symbol (hb_identity b) = hi_raw_symbol ident"
  shows "get_contract_session_bars p d ident = read_contract_session_bars p d ident"
proof -
  from assms(1,2) have "load_option_session (hv_instrument p) (hv_option_files p) d = Inr cached"
    by (auto simp: coherent_def dest: cached_loadsD)
  then obtain f rows bars where f: "resolve_daily_file ''options'' (hv_option_files p) d = Inr f" "read_csv option_columns f = Inr rows"
    "mapE (option_row (hv_instrument p) d) rows = Inr bars" "cached = option_order bars"
    by (auto simp: load_option_session_def bindE_eq_Inr)
  from f(4) have "set cached = set bars" by (simp add: option_order_def)
  with assms(3) have canonical: "b \<in> set bars \<Longrightarrow> same_contract (hb_identity b) ident \<longrightarrow>
    hi_raw_symbol (hb_identity b) = hi_raw_symbol ident" for b by simp
  have "\<exists>parts. mapE (contract_row d ident) rows = Inr parts \<and> concat parts = filter (\<lambda>b. same_contract (hb_identity b) ident) bars"
    by (rule contract_rows_filter [OF _ f(3)]) (use strip_cell [OF _ f(2)] canonical in blast)+
  then obtain parts where
    "mapE (contract_row d ident) rows = Inr parts" "concat parts = filter (\<lambda>b. same_contract (hb_identity b) ident) bars" by blast
  with f(1,2) have "read_contract_session_bars p d ident =
    Inr (sort_key hb_timestamp (filter (\<lambda>b. same_contract (hb_identity b) ident) bars))"
    by (simp add: read_contract_session_bars_def)
  also have "\<dots> = Inr (filter (\<lambda>b. same_contract (hb_identity b) ident) cached)"
    using canonical by (subst f(4), subst filter_option_order) auto
  finally show ?thesis using assms(2) by (simp add: get_contract_session_bars_def)
qed

section \<open>Witnesses\<close>

definition demo_row :: "string \<Rightarrow> string \<Rightarrow> string \<Rightarrow> (string, string) dict" where
  "demo_row t sym_text px = [(''date'', ''2024-01-03''), (''time'', t), (''symbol'', sym_text), (''open'', px), (''high'', px),
     (''low'', px), (''close'', px), (''oi'', ''900''), (''volume'', ''5'')]"

definition demo_option_file :: csv_table where
  "demo_option_file = \<lparr>vf_fieldnames = option_columns, vf_rows =
     [demo_row ''09:16:00'' ''NIFTY04JAN24100CE'' ''12.5'', demo_row ''09:15:00'' ''NIFTY04JAN240100CE'' ''11'']\<rparr>"

definition demo_provider :: provider where
  "demo_provider = \<lparr>hv_instrument = ''NIFTY'', hv_max_cached_sessions = 1, hv_spot_files = [],
     hv_option_files = [(ordinal 2024 1 3, demo_option_file)], hv_spot_cache = [], hv_option_cache = []\<rparr>"

definition demo_identity :: "int \<Rightarrow> string \<Rightarrow> option_identity" where
  "demo_identity k s = \<lparr>hi_underlying = ''NIFTY'', hi_expiry = ordinal 2024 1 4, hi_strike = k, hi_option_type = CALL, hi_raw_symbol = s\<rparr>"

definition demo_bar :: "int \<Rightarrow> string \<Rightarrow> price \<Rightarrow> option_minute_bar" where
  "demo_bar minute s px = \<lparr>hb_timestamp = at_time (ordinal 2024 1 3) (minute * 60000000), hb_identity = demo_identity 100 s,
     hb_open = px, hb_high = px, hb_low = px, hb_close = px, hb_oi = 900, hb_volume = 5, hb_source_session = ordinal 2024 1 3\<rparr>"

definition demo_loaded :: "option_minute_bar list" where
  "demo_loaded = [demo_bar 555 ''NIFTY04JAN240100CE'' 11, demo_bar 556 ''NIFTY04JAN24100CE'' (25 / 2)]"

lemma demo_file_loads: "load_option_session ''NIFTY'' [(ordinal 2024 1 3, demo_option_file)] (ordinal 2024 1 3) = Inr demo_loaded"
  by code_simp

lemma demo_name: "norm_text '' nifty'' = ''NIFTY''"
  by code_simp

lemma demo_provider_new: "new_provider '' nifty'' 1 [] [(ordinal 2024 1 3, demo_option_file)] = Inr demo_provider"
  by (simp add: new_provider_def demo_provider_def demo_name)

lemma cache_is_transparent_witness:
  "fst (get_option_session_bars (ordinal 2024 1 3) (run_reads [ReadSpot 7, ReadOptions (ordinal 2024 1 3), ReadOptions 8] demo_provider)) =
     Inr demo_loaded"
  using cache_is_transparent [OF demo_provider_new, of "ordinal 2024 1 3" "[ReadSpot 7, ReadOptions (ordinal 2024 1 3), ReadOptions 8]"]
  by (simp add: demo_file_loads demo_name)

definition demo_cached_provider :: provider where
  "demo_cached_provider = demo_provider\<lparr>hv_option_cache := [(ordinal 2024 1 3, demo_loaded)]\<rparr>"

text \<open>
  With two spellings of one contract the cached session gives both bars, the file read for the symbol
  one of them.
\<close>

lemma spelling_depends_on_cache:
  "get_contract_session_bars demo_cached_provider (ordinal 2024 1 3) (demo_identity 100 ''NIFTY04JAN24100CE'') = Inr demo_loaded"
  "get_contract_session_bars demo_provider (ordinal 2024 1 3) (demo_identity 100 ''NIFTY04JAN24100CE'') =
     Inr [demo_bar 556 ''NIFTY04JAN24100CE'' (25 / 2)]"
  by code_simp+

definition demo_plain_bars :: "option_minute_bar list" where
  "demo_plain_bars = [demo_bar 555 ''NIFTY04JAN24100CE'' 11]"

definition demo_plain_provider :: provider where
  "demo_plain_provider = demo_provider\<lparr>hv_option_files := [(ordinal 2024 1 3, \<lparr>vf_fieldnames = option_columns, vf_rows =
     [demo_row ''09:15:00'' ''nifty04jan24100ce'' ''11'']\<rparr>)],
     hv_option_cache := [(ordinal 2024 1 3, demo_plain_bars)]\<rparr>"

lemma demo_plain_load:
  "load_option_session (hv_instrument demo_plain_provider) (hv_option_files demo_plain_provider) (ordinal 2024 1 3) = Inr demo_plain_bars"
  by code_simp

lemma demo_coherent: "coherent demo_plain_provider"
proof -
  have "hv_option_cache demo_plain_provider = [(ordinal 2024 1 3, demo_plain_bars)]" "hv_spot_cache demo_plain_provider = []"
    "hv_max_cached_sessions demo_plain_provider = 1" by (simp_all add: demo_plain_provider_def demo_provider_def)
  with demo_plain_load show ?thesis by (simp add: coherent_def cached_loads_def)
qed

lemma contract_bars_independent_of_cache_witness:
  "read_contract_session_bars demo_plain_provider (ordinal 2024 1 3) (demo_identity 100 ''NIFTY04JAN24100CE'') = Inr demo_plain_bars"
proof -
  have "get_contract_session_bars demo_plain_provider (ordinal 2024 1 3) (demo_identity 100 ''NIFTY04JAN24100CE'') =
    read_contract_session_bars demo_plain_provider (ordinal 2024 1 3) (demo_identity 100 ''NIFTY04JAN24100CE'')"
  proof (rule contract_bars_independent_of_cache [OF demo_coherent])
    show "map_of (hv_option_cache demo_plain_provider) (ordinal 2024 1 3) = Some demo_plain_bars"
      by (simp add: demo_plain_provider_def)
    show "\<forall>b \<in> set demo_plain_bars. same_contract (hb_identity b) (demo_identity 100 ''NIFTY04JAN24100CE'') \<longrightarrow>
        hi_raw_symbol (hb_identity b) = hi_raw_symbol (demo_identity 100 ''NIFTY04JAN24100CE'')"
      by (simp add: demo_plain_bars_def demo_bar_def same_contract_def demo_identity_def)
  qed
  moreover have "get_contract_session_bars demo_plain_provider (ordinal 2024 1 3) (demo_identity 100 ''NIFTY04JAN24100CE'') = Inr demo_plain_bars"
    by (simp add: get_contract_session_bars_def demo_plain_provider_def demo_plain_bars_def demo_bar_def same_contract_def demo_identity_def)
  ultimately show ?thesis by simp
qed

end
