(* ===== verification/OptionReferences.thy ===== *)
theory OptionReferences
  imports HistoricalData
begin

text \<open>
  \<^verbatim>\<open>src/tfis/backtest/hsre_option_references.py\<close>: the high and low references of one contract from its last
  completed sessions. The builders of the historical decision chain are given a provider; what they
  read of it is the record \<open>market_reads\<close>. A lookback is a number of days without the bounds of \<^verbatim>\<open>timedelta\<close>. Fields of the packet carry the prefix \<open>hr_\<close>, of its contract
  \<open>hk_\<close>, of the provenance of a session \<open>hw_\<close>.
\<close>

section \<open>What the builders read\<close>

record market_reads =
  hm_spot_bars_through :: "date \<Rightarrow> time_of_day \<Rightarrow> spot_minute_bar list res"
  hm_contract_session_bars :: "date \<Rightarrow> option_identity \<Rightarrow> option_minute_bar list res"
  hm_option_chain :: "date \<Rightarrow> time_of_day \<Rightarrow> chain_observation list res"
  hm_option_sessions :: "date list"

definition provider_reads :: "provider \<Rightarrow> market_reads" where
  "provider_reads p = \<lparr>hm_spot_bars_through = (\<lambda>d t. fst (get_spot_bars_through d t p)),
     hm_contract_session_bars = get_contract_session_bars p,
     hm_option_chain = (\<lambda>d t. fst (get_option_chain d t None True p)),
     hm_option_sessions = available_option_sessions p\<rparr>"

section \<open>The packet\<close>

record contract_text =
  hk_underlying :: string
  hk_expiry :: string
  hk_strike :: int
  hk_option_type :: string
  hk_raw_symbol :: string

record session_provenance =
  hw_session_date :: string
  hw_open :: price
  hw_high :: price
  hw_low :: price
  hw_close :: price
  hw_first_timestamp :: string
  hw_last_timestamp :: string
  hw_observed_minutes :: nat
  hw_missing_minutes_synthesized :: bool

record reference_packet =
  hr_session_date :: string
  hr_contract :: contract_text
  hr_status :: string
  hr_status_reason :: string
  hr_prior_sessions_available :: "string list"
  hr_prior_sessions_used :: "string list"
  hr_opt_prv_2dhh :: "price option"
  hr_opt_prv_2dll :: "price option"
  hr_opt_prv_3dhh :: "price option"
  hr_opt_prv_3dll :: "price option"
  hr_two_day_ready :: bool
  hr_three_day_ready :: bool
  hr_prior_session_provenance :: "session_provenance list"
  hr_lookahead_assertions :: "string list"

definition contract_text_of :: "option_identity \<Rightarrow> contract_text" where
  "contract_text_of i = \<lparr>hk_underlying = hi_underlying i, hk_expiry = isoformat_date (hi_expiry i), hk_strike = hi_strike i,
     hk_option_type = option_type_value (hi_option_type i), hk_raw_symbol = hi_raw_symbol i\<rparr>"

definition daily_provenance :: "daily_ohlc \<Rightarrow> session_provenance" where
  "daily_provenance b = \<lparr>hw_session_date = isoformat_date (hd_session_date b), hw_open = hd_open b, hw_high = hd_high b,
     hw_low = hd_low b, hw_close = hd_close b, hw_first_timestamp = isoformat (hd_first_timestamp b),
     hw_last_timestamp = isoformat (hd_last_timestamp b), hw_observed_minutes = hd_observed_minutes b,
     hw_missing_minutes_synthesized = False\<rparr>"

section \<open>The builder\<close>

text \<open>The loop over the sessions in order, which stops at the session of the decision.\<close>

fun prior_daily_bars :: "market_reads \<Rightarrow> int option \<Rightarrow> date \<Rightarrow> option_identity \<Rightarrow> date list \<Rightarrow> daily_ohlc list res" where
  "prior_daily_bars m max_days d ident [] = Inr []"
| "prior_daily_bars m max_days d ident (s # ss) =
     (if (case max_days of None \<Rightarrow> False | Some n \<Rightarrow> s < d - n) then prior_daily_bars m max_days d ident ss
      else if s \<ge> d then Inr []
      else bindE (hm_contract_session_bars m s ident) (\<lambda>bars.
        if bars = [] then prior_daily_bars m max_days d ident ss
        else bindE (aggregate_option_bars s ident bars) (\<lambda>bar.
          bindE (prior_daily_bars m max_days d ident ss) (\<lambda>rest. Inr (bar # rest)))))"

definition check_max_prior_days :: "int option \<Rightarrow> int option res" where
  "check_max_prior_days max_days = (if (case max_days of None \<Rightarrow> False | Some n \<Rightarrow> n < 1)
     then Inl (ValueError [Txt ''max_prior_calendar_days must be positive when supplied'']) else Inr max_days)"

definition last_sessions :: "nat \<Rightarrow> 'a list \<Rightarrow> 'a list" where
  "last_sessions n xs = drop (length xs - n) xs"

definition references_of :: "date \<Rightarrow> option_identity \<Rightarrow> daily_ohlc list \<Rightarrow> reference_packet" where
  "references_of d ident prior =
     (let base = \<lparr>hr_session_date = isoformat_date d, hr_contract = contract_text_of ident,
            hr_status = ''INSUFFICIENT_OPTION_LOOKBACK'',
            hr_status_reason = ''At least 3 completed prior sessions for the exact option contract are required to compute OPT_PRV_3DHH/OPT_PRV_3DLL.'',
            hr_prior_sessions_available = map (\<lambda>b. isoformat_date (hd_session_date b)) prior, hr_prior_sessions_used = [],
            hr_opt_prv_2dhh = None, hr_opt_prv_2dll = None, hr_opt_prv_3dhh = None, hr_opt_prv_3dll = None,
            hr_two_day_ready = (length prior \<ge> 2), hr_three_day_ready = False,
            hr_prior_session_provenance = map daily_provenance prior,
            hr_lookahead_assertions = [''all_option_reference_sessions_strictly_before_'' @ isoformat_date d,
              ''identity_match_includes_underlying_expiry_strike_option_type'',
              ''current_session_and_future_sessions_excluded_from_opt_prv'', ''no_option_minutes_synthesized'']\<rparr>;
          three = last_sessions 3 prior; two = last_sessions 2 prior in
      if length prior < 3 then base
      else base\<lparr>hr_status := ''READY'',
        hr_status_reason := ''Exact selected-contract historical references are ready for conversion to TFIS option-level inputs.'',
        hr_prior_sessions_used := map (\<lambda>b. isoformat_date (hd_session_date b)) three,
        hr_opt_prv_2dhh := Some (py_max (map hd_high two)), hr_opt_prv_2dll := Some (py_min (map hd_low two)),
        hr_opt_prv_3dhh := Some (py_max (map hd_high three)), hr_opt_prv_3dll := Some (py_min (map hd_low three)),
        hr_two_day_ready := True, hr_three_day_ready := True,
        hr_prior_session_provenance := map daily_provenance three\<rparr>)"

definition build_references :: "market_reads \<Rightarrow> int option \<Rightarrow> date \<Rightarrow> option_identity \<Rightarrow> reference_packet res" where
  "build_references m max_days d ident =
     bindE (prior_daily_bars m max_days d ident (hm_option_sessions m)) (\<lambda>prior. Inr (references_of d ident prior))"

definition require_reference :: "price option \<Rightarrow> string \<Rightarrow> price res" where
  "require_reference v name = (case v of Some x \<Rightarrow> Inr x
     | None \<Rightarrow> Inl (ValueError [Txt ''Missing required option reference: '', Txt name]))"

text \<open>The snapshot of option levels: its timestamp and its four levels.\<close>

definition to_option_levels_snapshot :: "reference_packet \<Rightarrow> datetime option \<Rightarrow> (datetime \<times> (string, price) dict) res" where
  "to_option_levels_snapshot r timestamp =
     (if hr_status r \<noteq> ''READY''
      then Inl (ValueError [Txt ''Cannot convert selected-contract references to OptionLevelsSnapshot unless packet is READY: '', Txt (hr_status r)])
      else bindE (case timestamp of Some t \<Rightarrow> Inr t
          | None \<Rightarrow> bindE (date_fromisoformat (hr_session_date r)) (\<lambda>d. Inr (at_time d ((9 * 60 + 16) * 60000000)))) (\<lambda>t.
        bindE (require_reference (hr_opt_prv_2dhh r) ''OPT_PRV_2DHH'') (\<lambda>a.
        bindE (require_reference (hr_opt_prv_2dll r) ''OPT_PRV_2DLL'') (\<lambda>b.
        bindE (require_reference (hr_opt_prv_3dhh r) ''OPT_PRV_3DHH'') (\<lambda>c.
        bindE (require_reference (hr_opt_prv_3dll r) ''OPT_PRV_3DLL'') (\<lambda>e.
        Inr (t, [(''OPT_PRV_2DHH'', a), (''OPT_PRV_2DLL'', b), (''OPT_PRV_3DHH'', c), (''OPT_PRV_3DLL'', e)])))))))"

section \<open>No lookahead\<close>

text \<open>Two markets that agree on the sessions before a day.\<close>

definition agree_before :: "date \<Rightarrow> market_reads \<Rightarrow> market_reads \<Rightarrow> bool" where
  "agree_before d m m' \<longleftrightarrow>
     filter (\<lambda>s. s < d) (hm_option_sessions m) = filter (\<lambda>s. s < d) (hm_option_sessions m') \<and>
     sorted (hm_option_sessions m) \<and> sorted (hm_option_sessions m') \<and>
     (\<forall>s ident. s < d \<longrightarrow> hm_contract_session_bars m s ident = hm_contract_session_bars m' s ident)"

lemma prior_filter:
  "sorted ss \<Longrightarrow> max_days = None \<or> (\<exists>n. max_days = Some n \<and> 0 \<le> n) \<Longrightarrow>
   prior_daily_bars m max_days d ident ss = prior_daily_bars m max_days d ident (filter (\<lambda>s. s < d) ss)"
proof (induction ss)
  case (Cons s ss)
  show ?case
  proof (cases "s < d")
    case True
    have IH: "prior_daily_bars m max_days d ident ss = prior_daily_bars m max_days d ident (filter (\<lambda>s. s < d) ss)"
      using Cons by simp
    show ?thesis using True by (simp flip: IH cong: if_cong)
  next
    case False
    with Cons.prems have "filter (\<lambda>s. s < d) (s # ss) = []" by (auto simp: filter_empty_conv)
    with False Cons.prems show ?thesis by (auto split: option.splits)
  qed
qed simp

lemma prior_cong:
  assumes "\<And>s. s \<in> set ss \<Longrightarrow> s < d" and "\<And>s. s < d \<Longrightarrow> hm_contract_session_bars m s ident = hm_contract_session_bars m' s ident"
  shows "prior_daily_bars m max_days d ident ss = prior_daily_bars m' max_days d ident ss"
  using assms by (induction ss) (auto intro!: bindE_cong)

definition valid_lookback :: "int option \<Rightarrow> bool" where
  "valid_lookback max_days \<longleftrightarrow> (case max_days of None \<Rightarrow> True | Some n \<Rightarrow> 1 \<le> n)"

lemma references_agree:
  assumes "agree_before d m m'" and "valid_lookback max_days"
  shows "build_references m max_days d ident = build_references m' max_days d ident"
proof -
  have v: "max_days = None \<or> (\<exists>n. max_days = Some n \<and> 0 \<le> n)" using assms(2) by (auto simp: valid_lookback_def split: option.splits)
  have "prior_daily_bars m max_days d ident (hm_option_sessions m) = prior_daily_bars m' max_days d ident (hm_option_sessions m')"
    using assms(1) prior_filter [OF _ v, of "hm_option_sessions m" m d ident] prior_filter [OF _ v, of "hm_option_sessions m'" m' d ident]
      prior_cong [of "filter (\<lambda>s. s < d) (hm_option_sessions m)" d m ident m' max_days]
    by (simp add: agree_before_def)
  then show ?thesis by (simp add: build_references_def)
qed

section \<open>What the references are\<close>

definition traded_before :: "market_reads \<Rightarrow> int option \<Rightarrow> date \<Rightarrow> option_identity \<Rightarrow> date list" where
  "traded_before m max_days d ident = filter (\<lambda>s. s < d \<and> (case max_days of None \<Rightarrow> True | Some n \<Rightarrow> d - n \<le> s) \<and>
     hm_contract_session_bars m s ident \<noteq> Inr []) (hm_option_sessions m)"

definition session_bars :: "market_reads \<Rightarrow> option_identity \<Rightarrow> date \<Rightarrow> option_minute_bar list" where
  "session_bars m ident s = (case hm_contract_session_bars m s ident of Inl _ \<Rightarrow> [] | Inr bars \<Rightarrow> bars)"

definition day_bar :: "market_reads \<Rightarrow> option_identity \<Rightarrow> date \<Rightarrow> daily_ohlc \<Rightarrow> bool" where
  "day_bar m ident s b \<longleftrightarrow> hd_session_date b = s \<and> session_bars m ident s \<noteq> [] \<and>
     hd_high b = Max (hb_high ` set (session_bars m ident s)) \<and> hd_low b = Min (hb_low ` set (session_bars m ident s))"

lemma sort_key_Nil [simp]: "sort_key f xs = [] \<longleftrightarrow> xs = []"
  by (metis set_sort set_empty)

lemma aggregate_day_bar:
  "aggregate_option_bars s ident bars = Inr b \<Longrightarrow> hm_contract_session_bars m s ident = Inr bars \<Longrightarrow> day_bar m ident s b"
  by (auto simp: aggregate_option_bars_def data_error_def day_bar_def session_bars_def Let_def py_max_Max py_min_Min
      split: if_splits)

lemma prior_days:
  assumes "prior_daily_bars m max_days d ident ss = Inr prior" and "\<And>s. s \<in> set ss \<Longrightarrow> s < d"
  shows "list_all2 (day_bar m ident) (filter (\<lambda>s. (case max_days of None \<Rightarrow> True | Some n \<Rightarrow> d - n \<le> s) \<and>
    hm_contract_session_bars m s ident \<noteq> Inr []) ss) prior"
  using assms
proof (induction ss arbitrary: prior)
  case (Cons s ss)
  then have less: "s < d" "\<And>x. x \<in> set ss \<Longrightarrow> x < d" by simp_all
  show ?case
  proof (cases "case max_days of None \<Rightarrow> False | Some n \<Rightarrow> s < d - n")
    case True
    with Cons less show ?thesis by (auto split: option.splits)
  next
    case False
    with Cons.prems less obtain bars where bars: "hm_contract_session_bars m s ident = Inr bars"
      by (cases "hm_contract_session_bars m s ident") auto
    show ?thesis
    proof (cases "bars = []")
      case True
      with False bars Cons less show ?thesis by (auto split: option.splits)
    next
      case ne: False
      with False bars Cons.prems less obtain b rest where b: "aggregate_option_bars s ident bars = Inr b"
        "prior_daily_bars m max_days d ident ss = Inr rest" "prior = b # rest"
        by (auto simp: bindE_eq_Inr)
      from Cons.IH [OF b(2) less(2)] aggregate_day_bar [OF b(1) bars] False ne bars b(3) show ?thesis
        by (auto split: option.splits)
    qed
  qed
qed simp

lemma last_sessions_list_all2: "list_all2 P xs ys \<Longrightarrow> list_all2 P (last_sessions n xs) (last_sessions n ys)"
  unfolding last_sessions_def by (metis list_all2_dropI list_all2_lengthD)

definition highs :: "market_reads \<Rightarrow> option_identity \<Rightarrow> date list \<Rightarrow> price set" where
  "highs m ident ss = (\<Union>s \<in> set ss. hb_high ` set (session_bars m ident s))"

definition lows :: "market_reads \<Rightarrow> option_identity \<Rightarrow> date list \<Rightarrow> price set" where
  "lows m ident ss = (\<Union>s \<in> set ss. hb_low ` set (session_bars m ident s))"

lemma finite_ranges [simp]: "finite (highs m ident ss)" "finite (lows m ident ss)"
  by (simp_all add: highs_def lows_def)

lemma day_bars_range:
  assumes "list_all2 (day_bar m ident) ss bs" and "ss \<noteq> []"
  shows "py_max (map hd_high bs) = Max (highs m ident ss)" and "py_min (map hd_low bs) = Min (lows m ident ss)"
proof -
  have ne: "bs \<noteq> []" using assms by auto
  have day: "\<exists>s \<in> set ss. day_bar m ident s b" if "b \<in> set bs" for b
    using assms(1) that by (auto simp: list_all2_conv_all_nth in_set_conv_nth) (metis nth_mem)
  have bar: "\<exists>b \<in> set bs. day_bar m ident s b" if "s \<in> set ss" for s
    using assms(1) that by (auto simp: list_all2_conv_all_nth in_set_conv_nth) (metis nth_mem)
  have in_high: "x \<le> py_max (map hd_high bs)" if x: "x \<in> highs m ident ss" for x
  proof -
    from x obtain s where s: "s \<in> set ss" "x \<in> hb_high ` set (session_bars m ident s)" by (auto simp: highs_def)
    with bar obtain b where b: "b \<in> set bs" "day_bar m ident s b" by blast
    with s have "x \<le> hd_high b" by (auto simp: day_bar_def)
    also have "\<dots> \<le> py_max (map hd_high bs)" using b by (intro py_max_ge) simp
    finally show ?thesis .
  qed
  have in_low: "py_min (map hd_low bs) \<le> x" if x: "x \<in> lows m ident ss" for x
  proof -
    from x obtain s where s: "s \<in> set ss" "x \<in> hb_low ` set (session_bars m ident s)" by (auto simp: lows_def)
    with bar obtain b where b: "b \<in> set bs" "day_bar m ident s b" by blast
    then have "py_min (map hd_low bs) \<le> hd_low b" by (intro py_min_le) simp
    also from b s have "\<dots> \<le> x" by (auto simp: day_bar_def)
    finally show ?thesis .
  qed
  have "py_max (map hd_high bs) \<in> hd_high ` set bs" "py_min (map hd_low bs) \<in> hd_low ` set bs"
    using ne py_max_in [of "map hd_high bs"] py_min_in [of "map hd_low bs"] by auto
  then obtain b c where b: "b \<in> set bs" "py_max (map hd_high bs) = hd_high b" and c: "c \<in> set bs" "py_min (map hd_low bs) = hd_low c"
    by blast
  from day [OF b(1)] obtain s where s: "s \<in> set ss" "day_bar m ident s b" by blast
  then have "hd_high b \<in> hb_high ` set (session_bars m ident s)" by (simp add: day_bar_def)
  with s b(2) have "py_max (map hd_high bs) \<in> highs m ident ss" by (auto simp: highs_def)
  with in_high show "py_max (map hd_high bs) = Max (highs m ident ss)" by (intro Max_eqI [symmetric]) auto
  from day [OF c(1)] obtain t where t: "t \<in> set ss" "day_bar m ident t c" by blast
  then have "hd_low c \<in> hb_low ` set (session_bars m ident t)" by (simp add: day_bar_def)
  with t c(2) have "py_min (map hd_low bs) \<in> lows m ident ss" by (auto simp: lows_def)
  with in_low show "py_min (map hd_low bs) = Min (lows m ident ss)" by (intro Min_eqI [symmetric]) auto
qed

lemma references_days:
  assumes "build_references m max_days d ident = Inr r" and "sorted (hm_option_sessions m)" and "valid_lookback max_days"
  shows "\<exists>prior. r = references_of d ident prior \<and> list_all2 (day_bar m ident) (traded_before m max_days d ident) prior"
proof -
  from assms(1) obtain prior where p: "prior_daily_bars m max_days d ident (hm_option_sessions m) = Inr prior"
    and r: "r = references_of d ident prior" by (auto simp: build_references_def bindE_eq_Inr)
  have v: "max_days = None \<or> (\<exists>n. max_days = Some n \<and> 0 \<le> n)" using assms(3) by (auto simp: valid_lookback_def split: option.splits)
  from p prior_filter [OF assms(2) v, of m d ident] have
    "prior_daily_bars m max_days d ident (filter (\<lambda>s. s < d) (hm_option_sessions m)) = Inr prior" by simp
  from prior_days [OF this] have "list_all2 (day_bar m ident) (traded_before m max_days d ident) prior"
    by (simp add: traded_before_def conj_commute conj_left_commute)
  with r show ?thesis by blast
qed

text \<open>
  C36: the references of a contract are ready exactly when it traded on at least three sessions before the day
  and within the lookback; they are then the extremes of all its bars on the last two and the last
  three of these sessions, the two-day range inside the three-day range.
\<close>
theorem references_of_last_sessions:
  assumes "build_references m max_days d ident = Inr r" and "sorted (hm_option_sessions m)" and "valid_lookback max_days"
  shows "let days = traded_before m max_days d ident; three = last_sessions 3 days; two = last_sessions 2 days in
    if length days < 3 then hr_status r = ''INSUFFICIENT_OPTION_LOOKBACK'' \<and> hr_opt_prv_3dhh r = None \<and> hr_opt_prv_3dll r = None
    else hr_status r = ''READY'' \<and> hr_prior_sessions_used r = map isoformat_date three \<and>
      hr_opt_prv_3dhh r = Some (Max (highs m ident three)) \<and> hr_opt_prv_3dll r = Some (Min (lows m ident three)) \<and>
      hr_opt_prv_2dhh r = Some (Max (highs m ident two)) \<and> hr_opt_prv_2dll r = Some (Min (lows m ident two)) \<and>
      Max (highs m ident two) \<le> Max (highs m ident three) \<and> Min (lows m ident three) \<le> Min (lows m ident two)"
proof -
  let ?days = "traded_before m max_days d ident"
  from references_days [OF assms] obtain prior where r: "r = references_of d ident prior"
    and days: "list_all2 (day_bar m ident) ?days prior" by blast
  have len: "length prior = length ?days" using days by (simp add: list_all2_lengthD)
  show ?thesis
  proof (cases "length ?days < 3")
    case True
    then show ?thesis by (simp add: r references_of_def Let_def len)
  next
    case False
    have all: "list_all2 (day_bar m ident) (last_sessions n ?days) (last_sessions n prior)" for n using days by (rule last_sessions_list_all2)
    from False have ne: "last_sessions 3 ?days \<noteq> []" "last_sessions 2 ?days \<noteq> []" by (auto simp: last_sessions_def)
    have dates: "map (\<lambda>b. isoformat_date (hd_session_date b)) (last_sessions 3 prior) = map isoformat_date (last_sessions 3 ?days)"
      using all [of 3] by (auto simp: list_all2_conv_all_nth day_bar_def intro!: nth_equalityI)
    have sub: "set (last_sessions 2 ?days) \<subseteq> set (last_sessions 3 ?days)" unfolding last_sessions_def by (rule set_drop_subset_set_drop) simp
    then have subs: "highs m ident (last_sessions 2 ?days) \<subseteq> highs m ident (last_sessions 3 ?days)"
      "lows m ident (last_sessions 2 ?days) \<subseteq> lows m ident (last_sessions 3 ?days)" by (auto simp: highs_def lows_def)
    have "session_bars m ident s \<noteq> []" if "s \<in> set (last_sessions 2 ?days)" for s
      using that all [of 2] by (auto simp: list_all2_conv_all_nth in_set_conv_nth day_bar_def)
    with ne have some: "highs m ident (last_sessions 2 ?days) \<noteq> {}" "lows m ident (last_sessions 2 ?days) \<noteq> {}"
      by (auto simp: highs_def lows_def)
    from Max_mono [OF subs(1) some(1)] Min_antimono [OF subs(2) some(2)]
    show ?thesis using False dates by (simp add: r references_of_def Let_def len day_bars_range [OF all ne(1)] day_bars_range [OF all ne(2)])
  qed
qed

text \<open>
  C37: the references read nothing of the day itself or later: a market that agrees on the earlier sessions
  gives the same packet, errors included.
\<close>
theorem references_have_no_lookahead:
  assumes "agree_before d m m'" and "valid_lookback max_days"
  shows "build_references m max_days d ident = build_references m' max_days d ident"
  using assms by (rule references_agree)

text \<open>Providers over files that agree before a day, with nothing cached, agree before it.\<close>

lemma provider_agree_before:
  assumes "hv_instrument p = hv_instrument p'" and "hv_option_cache p = []" and "hv_option_cache p' = []"
    and "\<And>s. s < d \<Longrightarrow> map_of (hv_option_files p) s = map_of (hv_option_files p') s"
  shows "agree_before d (provider_reads p) (provider_reads p')"
proof -
  have dates: "set (map fst f) = {s. map_of f s \<noteq> None}" for f :: "(date, csv_table) dict"
    by (simp add: map_of_eq_None_iff) 
  have "filter (\<lambda>s. s < d) (session_dates (hv_option_files p)) = filter (\<lambda>s. s < d) (session_dates (hv_option_files p'))"
  proof (rule sorted_distinct_set_unique)
    show "set (filter (\<lambda>s. s < d) (session_dates (hv_option_files p))) = set (filter (\<lambda>s. s < d) (session_dates (hv_option_files p')))"
      using assms(4) dates by (auto simp: session_dates_def simp del: set_map) 
  qed (simp_all add: session_dates_def sorted_wrt_filter distinct_filter)
  then show ?thesis using assms
    by (auto simp: agree_before_def provider_reads_def available_option_sessions_def session_dates_def
        get_contract_session_bars_def read_contract_session_bars_def resolve_daily_file_def)
qed

section \<open>Witnesses\<close>

definition demo_day_bar :: "date \<Rightarrow> price \<Rightarrow> price \<Rightarrow> option_identity \<Rightarrow> option_minute_bar" where
  "demo_day_bar s low high i = \<lparr>hb_timestamp = at_time s 0, hb_identity = i, hb_open = low, hb_high = high, hb_low = low,
     hb_close = high, hb_oi = 900, hb_volume = 5, hb_source_session = s\<rparr>"

text \<open>Sessions 10, 11 and 13 traded at fixed prices, session 12 without this contract, session 14 at a price \<open>x\<close>.\<close>

definition demo_market :: "price \<Rightarrow> market_reads" where
  "demo_market x = \<lparr>hm_spot_bars_through = (\<lambda>_ _. Inr []),
     hm_contract_session_bars = (\<lambda>s i. Inr (if s = 12 then [] else [demo_day_bar s (if s < 14 then of_int s else x) (if s = 10 then 40 else 30) i])),
     hm_option_chain = (\<lambda>_ _. Inr []), hm_option_sessions = [10, 11, 12, 13, 14]\<rparr>"

definition demo_contract :: option_identity where
  "demo_contract = \<lparr>hi_underlying = ''NIFTY'', hi_expiry = 20, hi_strike = 100, hi_option_type = CALL, hi_raw_symbol = ''X''\<rparr>"

lemma demo_references: "case build_references (demo_market 1) (Some 45) 14 demo_contract of Inl _ \<Rightarrow> False
    | Inr r \<Rightarrow> hr_opt_prv_3dhh r = Some 40 \<and> hr_opt_prv_2dhh r = Some 30 \<and> hr_opt_prv_2dll r = Some 11"
  by (simp add: build_references_def demo_market_def aggregate_option_bars_def demo_day_bar_def references_of_def Let_def
      last_sessions_def py_max_def py_min_def)

lemma references_of_last_sessions_witness:
  "\<exists>r. build_references (demo_market 1) (Some 45) 14 demo_contract = Inr r \<and> hr_status r = ''READY'' \<and>
    hr_opt_prv_3dhh r = Some 40 \<and> hr_prior_sessions_used r = map isoformat_date [10, 11, 13]"
proof -
  from demo_references obtain r where r: "build_references (demo_market 1) (Some 45) 14 demo_contract = Inr r"
    "hr_opt_prv_3dhh r = Some 40" by (auto split: sum.splits)
  have "traded_before (demo_market 1) (Some 45) 14 demo_contract = [10, 11, 13]"
    by (simp add: traded_before_def demo_market_def)
  with references_of_last_sessions [OF r(1)] r show ?thesis
    by (simp add: demo_market_def valid_lookback_def last_sessions_def Let_def)
qed

lemma references_have_no_lookahead_witness:
  "build_references (demo_market 1) (Some 45) 14 demo_contract = build_references (demo_market 5) (Some 45) 14 demo_contract \<and>
   hm_contract_session_bars (demo_market 1) 14 demo_contract \<noteq> hm_contract_session_bars (demo_market 5) 14 demo_contract"
proof
  have "agree_before 14 (demo_market 1) (demo_market 5)" by (simp add: agree_before_def demo_market_def)
  then show "build_references (demo_market 1) (Some 45) 14 demo_contract = build_references (demo_market 5) (Some 45) 14 demo_contract"
    by (rule references_have_no_lookahead) (simp add: valid_lookback_def)
  show "hm_contract_session_bars (demo_market 1) 14 demo_contract \<noteq> hm_contract_session_bars (demo_market 5) 14 demo_contract"
    by (simp add: demo_market_def demo_day_bar_def)
qed

end
