(* ===== verification/FinalOrder.thy ===== *)
theory FinalOrder
  imports OptionReferences BacktestSelection Recalculation
begin

text \<open>
  \<^verbatim>\<open>src/tfis/backtest/hsre_s23_final_order_decision.py\<close> with \<^verbatim>\<open>entry_missed.py\<close>: from the base decision of
  a historical session to its final order. The base entry is missed when the option traded below it
  at ORPT; then strikes, premiums and entry are recalculated and a contract is selected again. The
  reader of a rule's folder of YAML files and the test whether a folder exists are arguments. Fields of the base packet carry the
  prefix \<open>bd_\<close>, of the packet \<open>fo_\<close>, of a snapshot's evidence \<open>fn_\<close>, of the timing authority \<open>fy_\<close>, of the
  entry-missed result \<open>fq_\<close>, of its evidence \<open>fj_\<close>, of the selection audit \<open>fu_\<close>, of the recalculation evidence \<open>fv_\<close>.
  Hashes, file paths and the provenance dictionary are left out; the audit records keep the values their texts
  and counters are made of.
\<close>

section \<open>The entry check\<close>

record entry_missed_result =
  fq_entry_missed :: bool
  fq_rule_name :: string
  fq_compared_value :: price
  fq_threshold_entry_price :: price
  fq_notes :: "string list"

definition detect_entry_missed :: "option_type \<Rightarrow> price \<Rightarrow> intraday_snapshot \<Rightarrow> entry_missed_result" where
  "detect_entry_missed ot entry snap = \<lparr>fq_entry_missed = (is_option_low snap < entry),
     fq_rule_name = ''S23_OPTIONS_SELL_ORPT_OPTION_LOW_CHECK_V1'', fq_compared_value = is_option_low snap,
     fq_threshold_entry_price = entry,
     fq_notes = [''Evaluated ORPT snapshot at '' @ isoformat (is_timestamp snap) @ ''.'',
       ''Applied Excel ORPT low check for '' @ option_type_value ot @ '' sell entry: option_low < entry_price.'']\<rparr>"

section \<open>The packets\<close>

text \<open>A configuration path is its folder and its file name.\<close>

type_synonym config_path = "string \<times> string"

record base_packet =
  bd_session_date :: string
  bd_status :: string
  bd_status_reason :: msg
  bd_monthly_status :: "string option"
  bd_resolved_unique_code :: "string option"
  bd_strategy_config_paths :: "config_path list"
  bd_market_levels :: market_levels
  bd_option_levels :: "(string, price) dict option"
  bd_selected_symbol :: "string option"
  bd_selected_strike :: "int option"
  bd_base_entry :: "price option"
  bd_base_target :: "price option"
  bd_base_stoploss :: "price option"
  bd_trade_plan :: "trade_plan option"

record minute_evidence =
  fm_timestamp :: string
  fm_open :: price
  fm_high :: price
  fm_low :: price
  fm_close :: price

record snapshot_evidence =
  fn_cutoff :: string
  fn_option_bar :: minute_evidence
  fn_spot_bar :: minute_evidence
  fn_spot_high :: price
  fn_spot_low :: price
  fn_option_high :: price
  fn_option_low :: price
  fn_spot_timestamps :: "string list"
  fn_option_timestamps :: "string list"
  fn_no_lookahead_assertions :: "string list"

record timing_authority =
  fy_planning_time :: string
  fy_orpt_cutoff :: string
  fy_rc_cutoff :: string
  fy_effective_order_time :: string
  fy_source_unique_code :: string

record entry_evidence =
  fj_rule_name :: string
  fj_option_type :: string
  fj_base_entry :: price
  fj_compared_orpt_option_low :: price
  fj_comparison :: msg
  fj_entry_missed :: bool
  fj_notes :: "string list"

record selection_audit =
  fu_search_direction :: string
  fu_search_range :: "int \<times> int"
  fu_premium_rule :: "price \<times> price"
  fu_minimum_oi :: int
  fu_statistics :: candidate_statistics
  fu_attempted_expiries :: "string list"
  fu_selected :: bool
  fu_selection_reason :: msg
  fu_selected_symbol :: "string option"

record recalculation_evidence =
  fv_original_contract :: string
  fv_original_strike :: int
  fv_original_entry :: price
  fv_result :: recalculation_result
  fv_selection_audit :: "selection_audit option"

record rc_evidence =
  fw_rc_snapshot :: snapshot_evidence
  fw_rule_used :: string
  fw_rc_passed :: bool
  fw_rc_result :: string

record final_order_packet =
  fo_session_date :: string
  fo_monthly_status :: "string option"
  fo_branch :: "string option"
  fo_status :: string
  fo_status_reason :: msg
  fo_timing :: "timing_authority option"
  fo_base_contract :: "string option"
  fo_base_entry :: "price option"
  fo_base_target :: "price option"
  fo_base_stoploss :: "price option"
  fo_orpt_evidence :: "snapshot_evidence option"
  fo_entry_missed :: "entry_evidence option"
  fo_recalculation_required :: bool
  fo_recalculation_inputs :: "(intraday_snapshot \<times> intraday_snapshot) option"
  fo_recalculation_result :: "recalculation_evidence option"
  fo_recalculated_contract :: "string option"
  fo_recalculated_references :: "reference_packet option"
  fo_rc_required :: bool
  fo_rc_evidence :: "rc_evidence option"
  fo_final_contract :: "string option"
  fo_final_entry :: "price option"
  fo_final_target :: "price option"
  fo_final_stoploss :: "price option"
  fo_verdict :: string
  fo_no_lookahead_evidence :: "string list"

definition minimal_packet :: "base_packet \<Rightarrow> string \<Rightarrow> msg \<Rightarrow> timing_authority option \<Rightarrow> final_order_packet" where
  "minimal_packet b status reason timing = \<lparr>fo_session_date = bd_session_date b, fo_monthly_status = bd_monthly_status b,
     fo_branch = bd_resolved_unique_code b, fo_status = status, fo_status_reason = reason, fo_timing = timing,
     fo_base_contract = bd_selected_symbol b, fo_base_entry = bd_base_entry b, fo_base_target = bd_base_target b,
     fo_base_stoploss = bd_base_stoploss b, fo_orpt_evidence = None, fo_entry_missed = None,
     fo_recalculation_required = False, fo_recalculation_inputs = None, fo_recalculation_result = None,
     fo_recalculated_contract = None, fo_recalculated_references = None, fo_rc_required = False, fo_rc_evidence = None,
     fo_final_contract = None, fo_final_entry = None, fo_final_target = None, fo_final_stoploss = None,
     fo_verdict = status, fo_no_lookahead_evidence = []\<rparr>"

text \<open>The packet after the ORPT evidence: every later branch changes some of these fields.\<close>

definition packet_with :: "base_packet \<Rightarrow> timing_authority \<Rightarrow> snapshot_evidence \<Rightarrow> entry_evidence \<Rightarrow> string \<Rightarrow> msg \<Rightarrow> final_order_packet" where
  "packet_with b timing orpt missed status reason = (minimal_packet b status reason (Some timing))
     \<lparr>fo_orpt_evidence := Some orpt, fo_entry_missed := Some missed,
      fo_no_lookahead_evidence := [''orpt_option_and_spot_inputs_limited_to_orpt_cutoff'',
        ''rc_option_and_spot_inputs_limited_to_rc_cutoff'',
        ''recalculated_option_chain_selection_uses_exact_rc_timestamp'',
        ''recalculated_opt_prv_rebuild_excludes_current_session_when_contract_changes'',
        ''no_fill_lifecycle_or_pnl_simulation_performed'']\<rparr>"

section \<open>The evidence at a cutoff\<close>

definition option_evidence :: "option_minute_bar \<Rightarrow> minute_evidence" where
  "option_evidence b = \<lparr>fm_timestamp = isoformat (hb_timestamp b), fm_open = hb_open b, fm_high = hb_high b, fm_low = hb_low b, fm_close = hb_close b\<rparr>"

definition spot_evidence :: "spot_minute_bar \<Rightarrow> minute_evidence" where
  "spot_evidence b = \<lparr>fm_timestamp = isoformat (hp_timestamp b), fm_open = hp_open b, fm_high = hp_high b, fm_low = hp_low b, fm_close = hp_close b\<rparr>"

definition bar_at_or_before :: "('b \<Rightarrow> datetime) \<Rightarrow> 'b list \<Rightarrow> datetime \<Rightarrow> 'b res" where
  "bar_at_or_before ts bars cutoff = (let eligible = filter (\<lambda>b. ts b \<le> cutoff) bars in
     if eligible = [] then data_error [Txt ''No bar at or before '', Txt (isoformat cutoff)]
     else Inr (last (sort_key ts eligible)))"

definition snapshot_of_bars ::
  "date \<Rightarrow> option_identity \<Rightarrow> time_of_day \<Rightarrow> spot_minute_bar list \<Rightarrow> option_minute_bar list \<Rightarrow> snapshot_evidence res" where
  "snapshot_of_bars d ident cutoff spot_bars option_bars =
     (let cutoff_ts = at_time d cutoff in
      if spot_bars = [] then data_error [Txt ''No spot bars available through '', Txt (time_isoformat cutoff), Txt '' for '', Txt (isoformat_date d)]
      else if option_bars = [] then data_error [Txt ''No option bars for '', Txt (hi_raw_symbol ident), Txt '' through '',
        Txt (time_isoformat cutoff), Txt '' on '', Txt (isoformat_date d)]
      else bindE (bar_at_or_before hp_timestamp spot_bars cutoff_ts) (\<lambda>spot_bar.
        bindE (bar_at_or_before hb_timestamp option_bars cutoff_ts) (\<lambda>option_bar.
        Inr \<lparr>fn_cutoff = isoformat cutoff_ts, fn_option_bar = option_evidence option_bar, fn_spot_bar = spot_evidence spot_bar,
          fn_spot_high = py_max (map hp_high spot_bars), fn_spot_low = py_min (map hp_low spot_bars),
          fn_option_high = py_max (map hb_high option_bars), fn_option_low = py_min (map hb_low option_bars),
          fn_spot_timestamps = map (\<lambda>b. isoformat (hp_timestamp b)) spot_bars,
          fn_option_timestamps = map (\<lambda>b. isoformat (hb_timestamp b)) option_bars,
          fn_no_lookahead_assertions = [''spot_rows_limited_to_timestamp_lte_'' @ isoformat cutoff_ts,
            ''option_rows_limited_to_timestamp_lte_'' @ isoformat cutoff_ts]\<rparr>)))"

definition snapshot_at :: "market_reads \<Rightarrow> date \<Rightarrow> option_identity \<Rightarrow> time_of_day \<Rightarrow> snapshot_evidence res" where
  "snapshot_at m d ident cutoff =
     bindE (hm_spot_bars_through m d cutoff) (\<lambda>spot_bars.
     bindE (hm_contract_session_bars m d ident) (\<lambda>contract_bars.
     snapshot_of_bars d ident cutoff spot_bars (filter (\<lambda>b. hb_timestamp b \<le> at_time d cutoff) contract_bars)))"

definition intraday_snapshot_of :: "snapshot_evidence \<Rightarrow> intraday_snapshot res" where
  "intraday_snapshot_of e = bindE (datetime_fromisoformat (fn_cutoff e)) (\<lambda>t.
     Inr \<lparr>is_timestamp = t, is_spot_low = fm_low (fn_spot_bar e), is_spot_high = fm_high (fn_spot_bar e),
       is_option_low = fm_low (fn_option_bar e), is_option_high = fm_high (fn_option_bar e)\<rparr>)"

definition timing_authority_of :: "strategy_rule \<Rightarrow> time_of_day \<Rightarrow> timing_authority" where
  "timing_authority_of r planning = \<lparr>fy_planning_time = time_isoformat planning, fy_orpt_cutoff = time_isoformat (sr_entry_time r),
     fy_rc_cutoff = time_isoformat (sr_recalculation_time r), fy_effective_order_time = time_isoformat (sr_entry_time r),
     fy_source_unique_code = sr_unique_code r\<rparr>"

definition entry_evidence_of :: "option_type \<Rightarrow> price \<Rightarrow> entry_missed_result \<Rightarrow> entry_evidence" where
  "entry_evidence_of ot entry r = \<lparr>fj_rule_name = fq_rule_name r, fj_option_type = option_type_value ot, fj_base_entry = entry,
     fj_compared_orpt_option_low = fq_compared_value r, fj_comparison = [PyFloat (fq_compared_value r), Txt '' < '', PyFloat entry],
     fj_entry_missed = fq_entry_missed r, fj_notes = fq_notes r\<rparr>"

section \<open>The recalculated order\<close>

definition observation_contract :: "chain_observation \<Rightarrow> chain_contract res" where
  "observation_contract x = mk_chain_contract \<lparr>bc_timestamp = ho_timestamp x, bc_symbol = hi_raw_symbol (ho_identity x),
     bc_option_type = hi_option_type (ho_identity x), bc_strike = hi_strike (ho_identity x), bc_expiry = hi_expiry (ho_identity x),
     bc_bid = ho_ltp x, bc_ask = ho_ltp x, bc_ltp = ho_ltp x, bc_oi = ho_oi x, bc_volume = ho_volume x\<rparr>"

definition required :: "string \<Rightarrow> 'a option \<Rightarrow> 'a res" where
  "required name v = (case v of Some x \<Rightarrow> Inr x | None \<Rightarrow> data_error [Txt ''Missing recalculated '', Txt name])"

definition parameter :: "strategy_rule \<Rightarrow> string \<Rightarrow> price res" where
  "parameter r name = (case map_of (sr_parameters r) name of Some x \<Rightarrow> Inr x | None \<Rightarrow> Inl (KeyError [PyRepr name]))"

definition target_from_entry :: "price \<Rightarrow> strategy_rule \<Rightarrow> price res" where
  "target_from_entry entry r = bindE (parameter r ''target_pct'') (\<lambda>pct. Inr (entry * (1 - pct / 100)))"

definition stoploss_from_entry_and_rc :: "price \<Rightarrow> price \<Rightarrow> strategy_rule \<Rightarrow> price res" where
  "stoploss_from_entry_and_rc entry rc_high r = bindE (parameter r ''sl_entry_pct'') (\<lambda>pct.
     Inr (min (entry * (1 + pct / 100))
       (rc_high * (1 + (case map_of (sr_parameters r) ''sl_reference_pct'' of Some x \<Rightarrow> x | None \<Rightarrow> 0) / 100))))"

definition selection_audit_of :: "option_selection_request \<Rightarrow> candidate_statistics \<Rightarrow> option_selection_result \<Rightarrow> selection_audit" where
  "selection_audit_of q stats s = \<lparr>fu_search_direction = (if bq_start_strike q > bq_end_strike q then ''descending'' else ''ascending''),
     fu_search_range = (bq_start_strike q, bq_end_strike q), fu_premium_rule = (bq_ideal_premium q, bq_minimum_premium q),
     fu_minimum_oi = bq_minimum_oi q, fu_statistics = stats, fu_attempted_expiries = map isoformat_date (bs_attempted_expiries s),
     fu_selected = bs_selected s, fu_selection_reason = bs_selection_reason s,
     fu_selected_symbol = map_option bc_symbol (bs_selected_contract s)\<rparr>"

definition recalculation_evidence_of :: "base_packet \<Rightarrow> recalculation_result \<Rightarrow> selection_audit option \<Rightarrow> recalculation_evidence" where
  "recalculation_evidence_of b r audit = \<lparr>fv_original_contract = (case bd_selected_symbol b of Some s \<Rightarrow> s | None \<Rightarrow> ''None''),
     fv_original_strike = (case bd_selected_strike b of Some k \<Rightarrow> k | None \<Rightarrow> 0),
     fv_original_entry = (case bd_base_entry b of Some x \<Rightarrow> x | None \<Rightarrow> 0), fv_result = r, fv_selection_audit = audit\<rparr>"

text \<open>The prices of the recalculated order.\<close>

definition recalculated_ready ::
  "strategy_rule \<Rightarrow> intraday_snapshot \<Rightarrow> recalculation_result \<Rightarrow> chain_contract \<Rightarrow> final_order_packet \<Rightarrow> final_order_packet res" where
  "recalculated_ready r rc_snap recalculation selected base =
     bindE (required ''entry'' (rr_entry_price recalculation)) (\<lambda>entry.
     bindE (target_from_entry entry r) (\<lambda>target.
     bindE (stoploss_from_entry_and_rc entry (is_option_high rc_snap) r) (\<lambda>stoploss.
     Inr (base\<lparr>fo_status := ''RECALCULATED_ORDER_READY'', fo_verdict := ''RECALCULATED_ORDER_READY'',
       fo_status_reason := [Txt ''Entry was missed at ORPT; RC recalculation selected a final order contract.''],
       fo_final_contract := Some (bc_symbol selected), fo_final_entry := Some entry, fo_final_target := Some target,
       fo_final_stoploss := Some stoploss\<rparr>))))"

text \<open>Once a contract is selected: new references when the contract changed, then the order.\<close>

definition finish_recalculated ::
  "market_reads \<Rightarrow> int option \<Rightarrow> strategy_rule \<Rightarrow> date \<Rightarrow> option_identity \<Rightarrow> intraday_snapshot \<Rightarrow> recalculation_result \<Rightarrow>
   chain_contract \<Rightarrow> final_order_packet \<Rightarrow> final_order_packet res" where
  "finish_recalculated m lookback r d ident rc_snap recalculation selected packet =
     bindE (parse_nifty_option_symbol (bc_symbol selected)) (\<lambda>selected_identity.
     bindE (if same_contract ident selected_identity then Inr None
       else bindE (build_references m lookback d selected_identity) (\<lambda>p. Inr (Some p))) (\<lambda>references.
     let base = packet\<lparr>fo_recalculated_contract := Some (bc_symbol selected), fo_recalculated_references := references\<rparr> in
     if (case references of None \<Rightarrow> False | Some p \<Rightarrow> hr_status p \<noteq> ''READY'')
     then Inr (base\<lparr>fo_status := ''INSUFFICIENT_RECALCULATED_OPTION_HISTORY'',
       fo_status_reason := [Txt (case references of None \<Rightarrow> [] | Some p \<Rightarrow> hr_status_reason p)],
       fo_verdict := ''INSUFFICIENT_RECALCULATED_OPTION_HISTORY''\<rparr>)
     else recalculated_ready r rc_snap recalculation selected base))"

text \<open>The request for the new contract, and the selection among the rows of the chain at the RC time.\<close>

definition recalculated_request :: "strategy_rule \<Rightarrow> option_type \<Rightarrow> date \<Rightarrow> recalculation_result \<Rightarrow> option_selection_request res" where
  "recalculated_request r ot d recalculation =
     bindE (required ''start_strike'' (rr_start_strike recalculation)) (\<lambda>start_strike.
     bindE (required ''end_strike'' (rr_end_strike recalculation)) (\<lambda>end_strike.
     bindE (required ''ideal_premium'' (rr_ideal_premium recalculation)) (\<lambda>ideal.
     bindE (required ''minimum_premium'' (rr_minimum_premium recalculation)) (\<lambda>minimum.
     bindE (minimum_oi_units (sr_symbol r) d NIFTY_MINIMUM_OI_LOTS) (\<lambda>min_oi.
     Inr \<lparr>bq_option_type = ot, bq_start_strike = start_strike, bq_end_strike = end_strike, bq_ideal_premium = ideal,
       bq_minimum_premium = minimum, bq_minimum_oi = min_oi, bq_timestamp = at_time d (sr_recalculation_time r),
       bq_expiry_dates = []\<rparr>)))))"

definition select_recalculated ::
  "market_reads \<Rightarrow> int option \<Rightarrow> strategy_rule \<Rightarrow> option_type \<Rightarrow> date \<Rightarrow> option_identity \<Rightarrow> base_packet \<Rightarrow> intraday_snapshot \<Rightarrow>
   recalculation_result \<Rightarrow> final_order_packet \<Rightarrow> final_order_packet res" where
  "select_recalculated m lookback r ot d ident b rc_snap recalculation packet =
     bindE (hm_option_chain m d (sr_recalculation_time r)) (\<lambda>rows.
     bindE (mapE observation_contract rows) (\<lambda>contracts.
     bindE (recalculated_request r ot d recalculation) (\<lambda>request.
     let selection = select_option request contracts;
         audit = selection_audit_of request (candidate_stats request contracts) selection;
         base = packet\<lparr>fo_recalculation_result := Some (recalculation_evidence_of b recalculation (Some audit))\<rparr> in
     case (if bs_selected selection then bs_selected_contract selection else None) of
       None \<Rightarrow> Inr (base\<lparr>fo_status := ''NO_QUALIFYING_RECALCULATED_CONTRACT'', fo_status_reason := bs_selection_reason selection,
         fo_verdict := ''NO_QUALIFYING_RECALCULATED_CONTRACT''\<rparr>)
     | Some selected \<Rightarrow> finish_recalculated m lookback r d ident rc_snap recalculation selected base)))"

text \<open>A missed entry: the evidence at the RC time, the recalculation, and the new selection.\<close>

definition monthly_status_named :: "string \<Rightarrow> monthly_status res" where
  "monthly_status_named t = (case find (\<lambda>x. monthly_status_value x = t) [BULL, BULL_CF, BEAR, BEAR_CF, UNKNOWN] of
     Some x \<Rightarrow> Inr x | None \<Rightarrow> Inl (ValueError [PyRepr t, Txt '' is not a valid MonthlyStatus'']))"

definition decide_missed ::
  "market_reads \<Rightarrow> int option \<Rightarrow> strategy_rule \<Rightarrow> option_type \<Rightarrow> date \<Rightarrow> option_identity \<Rightarrow> base_packet \<Rightarrow> trade_plan \<Rightarrow>
   market_levels \<Rightarrow> (string, price) dict \<Rightarrow> intraday_snapshot \<Rightarrow> (string \<Rightarrow> msg \<Rightarrow> final_order_packet) \<Rightarrow> final_order_packet res" where
  "decide_missed m lookback r ot d ident b plan levels option_levels orpt_snap packet =
     (case snapshot_at m d ident (sr_recalculation_time r) of
        Inl (HsreDataError e) \<Rightarrow> Inr ((packet ''EVIDENCE_INCOMPLETE'' e)\<lparr>fo_recalculation_required := True, fo_rc_required := True\<rparr>)
      | Inl e \<Rightarrow> Inl e
      | Inr rc_evidence_snapshot \<Rightarrow>
          bindE (intraday_snapshot_of rc_evidence_snapshot) (\<lambda>rc_snap.
          bindE (monthly_status_named (text_or (bd_monthly_status b) ''UNKNOWN'')) (\<lambda>status.
          bindE (recalculate \<lparr>ri_branch_unique_code = sr_unique_code r, ri_option_type = ot, ri_monthly_status = status,
            ri_base_trade_plan = plan, ri_market_levels = levels, ri_option_levels = option_levels, ri_parameters = sr_parameters r,
            ri_snapshot_at_orpt = orpt_snap, ri_snapshot_at_recalc = rc_snap, ri_entry_missed = True\<rparr>) (\<lambda>recalculation.
          let rc = \<lparr>fw_rc_snapshot = rc_evidence_snapshot,
                fw_rule_used = text_or (rr_source_rule recalculation) ''S23 recalculation engine returned no recalculated rule.'',
                fw_rc_passed = rr_recalculated recalculation, fw_rc_result = rr_reason recalculation\<rparr>;
              base = (packet ''RC_REJECTED'' [Txt (rr_reason recalculation)])
                \<lparr>fo_recalculation_required := True, fo_recalculation_inputs := Some (orpt_snap, rc_snap),
                 fo_recalculation_result := Some (recalculation_evidence_of b recalculation None),
                 fo_rc_required := True, fo_rc_evidence := Some rc\<rparr> in
          if \<not> rr_recalculated recalculation then Inr base
          else select_recalculated m lookback r ot d ident b rc_snap recalculation base))))"

definition normal_order :: "base_packet \<Rightarrow> trade_plan \<Rightarrow> final_order_packet \<Rightarrow> final_order_packet" where
  "normal_order b plan packet = packet\<lparr>fo_final_contract := bd_selected_symbol b, fo_final_entry := Some (tp_entry_price plan),
     fo_final_target := Some (tp_target_price plan), fo_final_stoploss := Some (tp_stoploss_price plan)\<rparr>"

text \<open>The evidence at ORPT, and the entry check.\<close>

definition decide_order ::
  "market_reads \<Rightarrow> int option \<Rightarrow> strategy_rule \<Rightarrow> timing_authority \<Rightarrow> date \<Rightarrow> option_identity \<Rightarrow> base_packet \<Rightarrow> trade_plan \<Rightarrow>
   market_levels \<Rightarrow> (string, price) dict \<Rightarrow> final_order_packet res" where
  "decide_order m lookback r timing d ident b plan levels option_levels =
     (case snapshot_at m d ident (sr_entry_time r) of
        Inl (HsreDataError e) \<Rightarrow> Inr (minimal_packet b ''EVIDENCE_INCOMPLETE'' e (Some timing))
      | Inl e \<Rightarrow> Inl e
      | Inr orpt \<Rightarrow>
          bindE (intraday_snapshot_of orpt) (\<lambda>orpt_snap.
          bindE (case sr_option_type r of Some ot \<Rightarrow> Inr ot
            | None \<Rightarrow> Inl (AttributeError [Txt ''NoneType has no attribute value''])) (\<lambda>ot.
          let missed = detect_entry_missed ot (tp_entry_price plan) orpt_snap;
              packet = packet_with b timing orpt (entry_evidence_of ot (tp_entry_price plan) missed) in
          if \<not> fq_entry_missed missed
          then Inr (normal_order b plan (packet ''NORMAL_ORDER_READY''
            [Txt ''Base entry was not missed at ORPT; final order remains the base order.'']))
          else decide_missed m lookback r ot d ident b plan levels option_levels orpt_snap packet)))"

text \<open>The rule of the resolved branch, from the folder of its \<^verbatim>\<open>strategy.yaml\<close>.\<close>

definition STRATEGY_ROOT :: string where "STRATEGY_ROOT = ''config/strategies/options_sell/nifty/''"

definition strategy_dir :: "(string \<Rightarrow> bool) \<Rightarrow> string \<Rightarrow> string" where
  "strategy_dir exists code =
     (if exists (STRATEGY_ROOT @ code) then STRATEGY_ROOT @ code
      else if exists (STRATEGY_ROOT @ ''S23_'' @ code) then STRATEGY_ROOT @ ''S23_'' @ code else STRATEGY_ROOT @ code)"

definition load_rule :: "(string \<Rightarrow> strategy_rule res) \<Rightarrow> (string \<Rightarrow> bool) \<Rightarrow> base_packet \<Rightarrow> strategy_rule res" where
  "load_rule folder exists b =
     (if text_or (bd_resolved_unique_code b) [] = [] then data_error [Txt ''Base packet has no resolved strategy branch.'']
      else case find (\<lambda>path. snd path = ''strategy.yaml'') (bd_strategy_config_paths b) of
          Some path \<Rightarrow> folder (fst path)
        | None \<Rightarrow> folder (strategy_dir exists (text_or (bd_resolved_unique_code b) [])))"

definition build_from_base_packet ::
  "market_reads \<Rightarrow> int option \<Rightarrow> (string \<Rightarrow> strategy_rule res) \<Rightarrow> (string \<Rightarrow> bool) \<Rightarrow> time_of_day \<Rightarrow> base_packet \<Rightarrow>
   final_order_packet res" where
  "build_from_base_packet m lookback folder exists planning b =
     (if bd_status b \<noteq> ''READY'' then Inr (minimal_packet b ''BASE_DECISION_NOT_READY'' (bd_status_reason b) None)
      else case (bd_selected_symbol b, bd_trade_plan b) of
        (Some selected, Some base_plan) \<Rightarrow>
          bindE (load_rule folder exists b) (\<lambda>r.
          bindE (date_fromisoformat (bd_session_date b)) (\<lambda>d.
          bindE (parse_nifty_option_symbol selected) (\<lambda>ident.
          bindE (mk_market_levels (bd_market_levels b)) (\<lambda>levels.
          bindE (case bd_option_levels b of Some l \<Rightarrow> Inr l
            | None \<Rightarrow> data_error [Txt ''Base packet lacks OPT_LEVELS runtime values.'']) (\<lambda>option_levels.
          bindE (mk_trade_plan (base_plan\<lparr>tp_option_type := sr_option_type r\<rparr>)) (\<lambda>plan.
          decide_order m lookback r (timing_authority_of r planning) d ident b plan levels option_levels))))))
      | _ \<Rightarrow> Inr (minimal_packet b ''BASE_DECISION_NOT_READY''
          [Txt ''Base packet is READY but lacks selected contract or trade plan.''] None))"

section \<open>No lookahead\<close>

text \<open>
  Two markets that agree on everything up to a time of the day: the earlier sessions, the spot bars and
  chains read at or before that time, and the bars of every contract up to it.
\<close>

definition seen_until :: "datetime \<Rightarrow> option_minute_bar list res \<Rightarrow> option_minute_bar list res" where
  "seen_until t r = bindE r (\<lambda>bars. Inr (filter (\<lambda>b. hb_timestamp b \<le> t) bars))"

definition agree_until :: "date \<Rightarrow> time_of_day \<Rightarrow> market_reads \<Rightarrow> market_reads \<Rightarrow> bool" where
  "agree_until d t m m' \<longleftrightarrow> agree_before d m m' \<and>
     (\<forall>u \<le> t. hm_spot_bars_through m d u = hm_spot_bars_through m' d u \<and> hm_option_chain m d u = hm_option_chain m' d u) \<and>
     (\<forall>i. seen_until (at_time d t) (hm_contract_session_bars m d i) = seen_until (at_time d t) (hm_contract_session_bars m' d i))"

lemma seen_bind:
  assumes "seen_until t r = seen_until t r'" and "u \<le> t"
  shows "bindE r (\<lambda>bars. f (filter (\<lambda>b. hb_timestamp b \<le> u) bars)) = bindE r' (\<lambda>bars. f (filter (\<lambda>b. hb_timestamp b \<le> u) bars))"
proof -
  have cut: "filter (\<lambda>b. hb_timestamp b \<le> u) bars = filter (\<lambda>b. hb_timestamp b \<le> u) (filter (\<lambda>b. hb_timestamp b \<le> t) bars)"
    for bars :: "option_minute_bar list" using assms(2) by (auto intro!: filter_cong)
  show ?thesis
  proof (cases r)
    case (Inl e)
    with assms(1) show ?thesis by (cases r') (simp_all add: seen_until_def)
  next
    case (Inr bars)
    with assms(1) obtain bars' where "r' = Inr bars'"
      "filter (\<lambda>b. hb_timestamp b \<le> t) bars = filter (\<lambda>b. hb_timestamp b \<le> t) bars'"
      by (cases r') (simp_all add: seen_until_def)
    with Inr cut [of bars] cut [of bars'] show ?thesis by simp
  qed
qed

lemma snapshot_agree: "agree_until d t m m' \<Longrightarrow> u \<le> t \<Longrightarrow> snapshot_at m d i u = snapshot_at m' d i u"
proof -
  assume a: "agree_until d t m m'" and u: "u \<le> t"
  then have spot: "hm_spot_bars_through m d u = hm_spot_bars_through m' d u"
    and seen: "seen_until (at_time d t) (hm_contract_session_bars m d i) = seen_until (at_time d t) (hm_contract_session_bars m' d i)"
    by (simp_all add: agree_until_def)
  have le: "at_time d u \<le> at_time d t" using u by (simp add: at_time_def)
  show ?thesis unfolding snapshot_at_def spot seen_bind [OF seen le] ..
qed

lemma finish_agree:
  assumes "agree_until d t m m'" and "valid_lookback lookback"
  shows "finish_recalculated m lookback r d i s x c q = finish_recalculated m' lookback r d i s x c q"
proof -
  have refs: "build_references m lookback d = build_references m' lookback d"
    using assms references_agree [of d m m' lookback] by (auto simp: agree_until_def)
  show ?thesis unfolding finish_recalculated_def refs ..
qed

lemma select_agree:
  assumes "agree_until d t m m'" and "valid_lookback lookback" and "sr_recalculation_time r \<le> t"
  shows "select_recalculated m lookback r ot d i b s x q = select_recalculated m' lookback r ot d i b s x q"
proof -
  have chain: "hm_option_chain m d (sr_recalculation_time r) = hm_option_chain m' d (sr_recalculation_time r)"
    using assms(1,3) by (simp add: agree_until_def)
  show ?thesis unfolding select_recalculated_def chain finish_agree [OF assms(1,2)] ..
qed

lemma missed_agree:
  assumes "agree_until d t m m'" and "valid_lookback lookback" and "sr_recalculation_time r \<le> t"
  shows "decide_missed m lookback r ot d i b plan l o1 s q = decide_missed m' lookback r ot d i b plan l o1 s q"
  unfolding decide_missed_def snapshot_agree [OF assms(1,3)] select_agree [OF assms] ..

lemma order_agree:
  assumes "agree_until d t m m'" and "valid_lookback lookback" and "sr_entry_time r \<le> t" and "sr_recalculation_time r \<le> t"
  shows "decide_order m lookback r tm d i b plan l o1 = decide_order m' lookback r tm d i b plan l o1"
  unfolding decide_order_def snapshot_agree [OF assms(1,3)] missed_agree [OF assms(1,2,4)] ..

lemma build_ready:
  assumes "load_rule folder exists b = Inr r" and "date_fromisoformat (bd_session_date b) = Inr d" and "bd_status b = ''READY''"
    and "bd_selected_symbol b = Some s" and "bd_trade_plan b = Some p"
  shows "build_from_base_packet m lookback folder exists planning b =
    bindE (parse_nifty_option_symbol s) (\<lambda>i. bindE (mk_market_levels (bd_market_levels b)) (\<lambda>l.
    bindE (case bd_option_levels b of Some x \<Rightarrow> Inr x | None \<Rightarrow> data_error [Txt ''Base packet lacks OPT_LEVELS runtime values.'']) (\<lambda>o1.
    bindE (mk_trade_plan (p\<lparr>tp_option_type := sr_option_type r\<rparr>)) (\<lambda>plan.
    decide_order m lookback r (timing_authority_of r planning) d i b plan l o1))))"
  using assms by (simp add: build_from_base_packet_def)

section \<open>The statuses\<close>

definition no_order :: "final_order_packet \<Rightarrow> bool" where
  "no_order p \<longleftrightarrow> fo_final_contract p = None \<and> fo_final_entry p = None \<and> fo_final_target p = None \<and> fo_final_stoploss p = None"

definition full_order :: "final_order_packet \<Rightarrow> bool" where
  "full_order p \<longleftrightarrow> (\<exists>c e t s. fo_final_contract p = Some c \<and> fo_final_entry p = Some e \<and> fo_final_target p = Some t \<and> fo_final_stoploss p = Some s)"

definition order_statuses :: "string list" where
  "order_statuses = [''NORMAL_ORDER_READY'', ''RECALCULATED_ORDER_READY'']"

definition consistent_order :: "final_order_packet \<Rightarrow> bool" where
  "consistent_order p \<longleftrightarrow> fo_verdict p = fo_status p \<and> (if fo_status p \<in> set order_statuses then full_order p else no_order p)"

text \<open>A packet without order of a session; a packet decided after the entry check.\<close>

definition open_packet :: "timing_authority option \<Rightarrow> string \<Rightarrow> final_order_packet \<Rightarrow> bool" where
  "open_packet tm sd p \<longleftrightarrow> no_order p \<and> fo_timing p = tm \<and> fo_session_date p = sd"

definition later_shape :: "timing_authority option \<Rightarrow> string \<Rightarrow> final_order_packet \<Rightarrow> bool" where
  "later_shape tm sd p \<longleftrightarrow> consistent_order p \<and> fo_status p \<noteq> ''NORMAL_ORDER_READY'' \<and> fo_timing p = tm \<and> fo_session_date p = sd"

lemma rejected_shape:
  "open_packet tm sd p \<Longrightarrow> fo_verdict p = fo_status p \<Longrightarrow> fo_status p \<notin> set order_statuses \<Longrightarrow> later_shape tm sd p"
  by (simp add: later_shape_def consistent_order_def order_statuses_def open_packet_def)

lemma open_packet_simps [simp]:
  "open_packet tm sd (p\<lparr>fo_status := st\<rparr>) = open_packet tm sd p"
  "open_packet tm sd (p\<lparr>fo_status_reason := why\<rparr>) = open_packet tm sd p"
  "open_packet tm sd (p\<lparr>fo_verdict := st\<rparr>) = open_packet tm sd p"
  "open_packet tm sd (p\<lparr>fo_recalculation_required := yes\<rparr>) = open_packet tm sd p"
  "open_packet tm sd (p\<lparr>fo_rc_required := yes\<rparr>) = open_packet tm sd p"
  "open_packet tm sd (p\<lparr>fo_rc_evidence := e\<rparr>) = open_packet tm sd p"
  "open_packet tm sd (p\<lparr>fo_recalculation_inputs := i\<rparr>) = open_packet tm sd p"
  "open_packet tm sd (p\<lparr>fo_recalculation_result := x\<rparr>) = open_packet tm sd p"
  "open_packet tm sd (p\<lparr>fo_recalculated_contract := c\<rparr>) = open_packet tm sd p"
  "open_packet tm sd (p\<lparr>fo_recalculated_references := f\<rparr>) = open_packet tm sd p"
  by (simp_all add: open_packet_def no_order_def)

lemma ready_shape:
  assumes "recalculated_ready r s x c q = Inr p" and "open_packet tm sd q"
  shows "later_shape tm sd p"
proof -
  from assms(1) have "fo_status p = ''RECALCULATED_ORDER_READY''" "fo_verdict p = ''RECALCULATED_ORDER_READY''" "full_order p"
      "fo_timing p = fo_timing q" "fo_session_date p = fo_session_date q"
    by (auto simp: recalculated_ready_def bindE_eq_Inr full_order_def)
  with assms(2) show ?thesis by (simp add: later_shape_def consistent_order_def order_statuses_def open_packet_def)
qed

lemma finish_shape:
  assumes "finish_recalculated m lookback r d i s x c q = Inr p" and "open_packet tm sd q"
  shows "later_shape tm sd p"
proof -
  from assms(1) obtain references where res:
    "(let base = q\<lparr>fo_recalculated_contract := Some (bc_symbol c), fo_recalculated_references := references\<rparr> in
     if (case references of None \<Rightarrow> False | Some p \<Rightarrow> hr_status p \<noteq> ''READY'')
     then Inr (base\<lparr>fo_status := ''INSUFFICIENT_RECALCULATED_OPTION_HISTORY'',
       fo_status_reason := [Txt (case references of None \<Rightarrow> [] | Some p \<Rightarrow> hr_status_reason p)],
       fo_verdict := ''INSUFFICIENT_RECALCULATED_OPTION_HISTORY''\<rparr>)
     else recalculated_ready r s x c base) = Inr p"
    unfolding finish_recalculated_def by (auto simp only: bindE_eq_Inr)
  show ?thesis
  proof (cases "case references of None \<Rightarrow> False | Some p \<Rightarrow> hr_status p \<noteq> ''READY''")
    case True
    with res assms(2) show ?thesis by (auto intro!: rejected_shape simp: order_statuses_def Let_def)
  next
    case False
    with res assms(2) show ?thesis by (auto simp: Let_def intro: ready_shape)
  qed
qed

text \<open>The selection, and what it gives with an empty chain.\<close>

lemma select_eq:
  assumes "select_recalculated m lookback r ot d i b s x q = Inr p"
  obtains rows contracts request base where "hm_option_chain m d (sr_recalculation_time r) = Inr rows"
    and "mapE observation_contract rows = Inr contracts"
    and "base = q\<lparr>fo_recalculation_result := Some (recalculation_evidence_of b x
      (Some (selection_audit_of request (candidate_stats request contracts) (select_option request contracts))))\<rparr>"
    and "(case (if bs_selected (select_option request contracts) then bs_selected_contract (select_option request contracts) else None) of
       None \<Rightarrow> Inr (base\<lparr>fo_status := ''NO_QUALIFYING_RECALCULATED_CONTRACT'',
         fo_status_reason := bs_selection_reason (select_option request contracts),
         fo_verdict := ''NO_QUALIFYING_RECALCULATED_CONTRACT''\<rparr>)
     | Some selected \<Rightarrow> finish_recalculated m lookback r d i s x selected base) = Inr p"
proof -
  from assms obtain rows contracts request where req: "hm_option_chain m d (sr_recalculation_time r) = Inr rows"
    "mapE observation_contract rows = Inr contracts" "recalculated_request r ot d x = Inr request"
    by (auto simp: select_recalculated_def bindE_eq_Inr)
  from that [OF req(1,2) refl, of request] assms req show thesis
    unfolding select_recalculated_def by (simp only: bindE_simps Let_def)
qed

lemma select_shape:
  assumes "select_recalculated m lookback r ot d i b s x q = Inr p" and "open_packet tm sd q"
  shows "later_shape tm sd p"
  using assms(1)
proof (rule select_eq)
  fix rows contracts request base
  let ?s = "select_option request contracts"
  assume base: "base = q\<lparr>fo_recalculation_result := Some (recalculation_evidence_of b x
      (Some (selection_audit_of request (candidate_stats request contracts) ?s)))\<rparr>"
    and res: "(case (if bs_selected ?s then bs_selected_contract ?s else None) of
       None \<Rightarrow> Inr (base\<lparr>fo_status := ''NO_QUALIFYING_RECALCULATED_CONTRACT'', fo_status_reason := bs_selection_reason ?s,
         fo_verdict := ''NO_QUALIFYING_RECALCULATED_CONTRACT''\<rparr>)
     | Some selected \<Rightarrow> finish_recalculated m lookback r d i s x selected base) = Inr p"
  have b: "open_packet tm sd base" using assms(2) by (simp add: base)
  show ?thesis
  proof (cases "if bs_selected ?s then bs_selected_contract ?s else None")
    case None
    with res have "Inr (base\<lparr>fo_status := ''NO_QUALIFYING_RECALCULATED_CONTRACT'', fo_status_reason := bs_selection_reason ?s,
         fo_verdict := ''NO_QUALIFYING_RECALCULATED_CONTRACT''\<rparr>) = (Inr p :: final_order_packet res)" by simp
    with b show ?thesis by (auto intro!: rejected_shape simp: order_statuses_def)
  next
    case (Some c)
    with res have "finish_recalculated m lookback r d i s x c base = Inr p" by simp
    then show ?thesis using b by (rule finish_shape)
  qed
qed

lemma select_empty_chain:
  assumes "select_recalculated m lookback r ot d i b s x q = Inr p" and "\<And>rows. hm_option_chain m d (sr_recalculation_time r) = Inr rows \<Longrightarrow> rows = []"
  shows "fo_status p = ''NO_QUALIFYING_RECALCULATED_CONTRACT''"
  using assms(1)
proof (rule select_eq)
  fix rows contracts request base
  let ?s = "select_option request contracts"
  assume rows: "hm_option_chain m d (sr_recalculation_time r) = Inr rows" "mapE observation_contract rows = Inr contracts"
    and res: "(case (if bs_selected ?s then bs_selected_contract ?s else None) of
       None \<Rightarrow> Inr (base\<lparr>fo_status := ''NO_QUALIFYING_RECALCULATED_CONTRACT'', fo_status_reason := bs_selection_reason ?s,
         fo_verdict := ''NO_QUALIFYING_RECALCULATED_CONTRACT''\<rparr>)
     | Some selected \<Rightarrow> finish_recalculated m lookback r d i s x selected base) = Inr p"
  from rows assms(2) have "contracts = []" by simp
  then have "\<not> bs_selected ?s" by (simp add: select_option_def nothing_selected_def)
  with res have "Inr (base\<lparr>fo_status := ''NO_QUALIFYING_RECALCULATED_CONTRACT'', fo_status_reason := bs_selection_reason ?s,
         fo_verdict := ''NO_QUALIFYING_RECALCULATED_CONTRACT''\<rparr>) = (Inr p :: final_order_packet res)" by simp
  then show ?thesis by auto
qed

text \<open>A missed entry: the RC evidence is incomplete, the recalculation is rejected, or a contract is selected again.\<close>

lemma missed_eq:
  assumes "decide_missed m lookback r ot d i b plan l o1 s q = Inr p"
  obtains why where "p = (q ''EVIDENCE_INCOMPLETE'' why)\<lparr>fo_recalculation_required := True, fo_rc_required := True\<rparr>"
  | rc x base reason orpt ev rce where
      "base = (q ''RC_REJECTED'' reason)\<lparr>fo_recalculation_required := True, fo_recalculation_inputs := orpt,
        fo_recalculation_result := ev, fo_rc_required := True, fo_rc_evidence := Some rce\<rparr>"
      "fw_rc_passed rce = rr_recalculated x"
      "if \<not> rr_recalculated x then p = base else select_recalculated m lookback r ot d i b rc x base = Inr p"
proof (cases "snapshot_at m d i (sr_recalculation_time r)")
  case (Inl e)
  with assms that(1) show thesis by (cases e) (auto simp: decide_missed_def)
next
  case (Inr e)
  with assms obtain rc status x where x: "intraday_snapshot_of e = Inr rc"
    "monthly_status_named (text_or (bd_monthly_status b) ''UNKNOWN'') = Inr status"
    "recalculate \<lparr>ri_branch_unique_code = sr_unique_code r, ri_option_type = ot, ri_monthly_status = status,
      ri_base_trade_plan = plan, ri_market_levels = l, ri_option_levels = o1, ri_parameters = sr_parameters r,
      ri_snapshot_at_orpt = s, ri_snapshot_at_recalc = rc, ri_entry_missed = True\<rparr> = Inr x"
    by (auto simp: decide_missed_def bindE_eq_Inr)
  define rce where "rce = \<lparr>fw_rc_snapshot = e,
     fw_rule_used = text_or (rr_source_rule x) ''S23 recalculation engine returned no recalculated rule.'',
     fw_rc_passed = rr_recalculated x, fw_rc_result = rr_reason x\<rparr>"
  define base where "base = (q ''RC_REJECTED'' [Txt (rr_reason x)])\<lparr>fo_recalculation_required := True,
     fo_recalculation_inputs := Some (s, rc), fo_recalculation_result := Some (recalculation_evidence_of b x None),
     fo_rc_required := True, fo_rc_evidence := Some rce\<rparr>"
  have "decide_missed m lookback r ot d i b plan l o1 s q = (if \<not> rr_recalculated x then Inr base
      else select_recalculated m lookback r ot d i b rc x base)"
    unfolding decide_missed_def Inr base_def rce_def sum.case bindE_simps x Let_def ..
  with assms have "if \<not> rr_recalculated x then p = base else select_recalculated m lookback r ot d i b rc x base = Inr p"
    by (simp split: if_splits)
  then show thesis by (rule that(2) [OF base_def, rotated]) (simp add: rce_def)
qed

lemma missed_shape:
  assumes "decide_missed m lookback r ot d i b plan l o1 s q = Inr p"
    and q: "\<And>st reason. open_packet tm sd (q st reason) \<and> fo_status (q st reason) = st \<and> fo_verdict (q st reason) = st"
  shows "later_shape tm sd p"
  using assms(1)
proof (rule missed_eq)
  fix why
  assume "p = (q ''EVIDENCE_INCOMPLETE'' why)\<lparr>fo_recalculation_required := True, fo_rc_required := True\<rparr>"
  with q show ?thesis by (auto intro!: rejected_shape simp: order_statuses_def)
next
  fix rc x base reason orpt ev rce
  assume base: "base = (q ''RC_REJECTED'' reason)\<lparr>fo_recalculation_required := True, fo_recalculation_inputs := orpt,
      fo_recalculation_result := ev, fo_rc_required := True, fo_rc_evidence := Some rce\<rparr>"
    and res: "if \<not> rr_recalculated x then p = base else select_recalculated m lookback r ot d i b rc x base = Inr p"
  have b: "open_packet tm sd base" "fo_status base = ''RC_REJECTED''" "fo_verdict base = ''RC_REJECTED''"
    using q by (simp_all add: base)
  show ?thesis
  proof (cases "rr_recalculated x")
    case True
    with res have "select_recalculated m lookback r ot d i b rc x base = Inr p" by simp
    then show ?thesis using b(1) by (rule select_shape)
  next
    case False
    with res have "p = base" by simp
    with b show ?thesis by (auto intro!: rejected_shape simp: order_statuses_def)
  qed
qed

lemma select_keeps_evidence:
  assumes "select_recalculated m lookback r ot d i b s x q = Inr p"
  shows "fo_rc_evidence p = fo_rc_evidence q"
  using assms
  by (rule select_eq) (auto simp: finish_recalculated_def recalculated_ready_def bindE_eq_Inr Let_def split: option.splits if_splits)

text \<open>Without a chain at the RC time a missed entry never gives an order.\<close>

definition no_recalculated_order :: "final_order_packet \<Rightarrow> bool" where
  "no_recalculated_order p \<longleftrightarrow> fo_status p \<noteq> ''RECALCULATED_ORDER_READY'' \<and>
     (\<forall>e. fo_rc_evidence p = Some e \<longrightarrow> fw_rc_passed e \<longrightarrow> fo_status p = ''NO_QUALIFYING_RECALCULATED_CONTRACT'')"

lemma missed_empty_chain:
  assumes "decide_missed m lookback r ot d i b plan l o1 s q = Inr p" and "\<And>rows. hm_option_chain m d (sr_recalculation_time r) = Inr rows \<Longrightarrow> rows = []"
    and q: "\<And>st reason. fo_status (q st reason) = st \<and> fo_rc_evidence (q st reason) = None"
  shows "no_recalculated_order p"
  using assms(1)
proof (rule missed_eq)
  fix why
  assume "p = (q ''EVIDENCE_INCOMPLETE'' why)\<lparr>fo_recalculation_required := True, fo_rc_required := True\<rparr>"
  with q show ?thesis by (simp add: no_recalculated_order_def)
next
  fix rc x base reason orpt ev rce
  assume base: "base = (q ''RC_REJECTED'' reason)\<lparr>fo_recalculation_required := True, fo_recalculation_inputs := orpt,
      fo_recalculation_result := ev, fo_rc_required := True, fo_rc_evidence := Some rce\<rparr>"
    and passed: "fw_rc_passed rce = rr_recalculated x"
    and res: "if \<not> rr_recalculated x then p = base else select_recalculated m lookback r ot d i b rc x base = Inr p"
  show ?thesis
  proof (cases "rr_recalculated x")
    case True
    with res have "select_recalculated m lookback r ot d i b rc x base = Inr p" by simp
    from select_empty_chain [OF this assms(2)] show ?thesis by (simp add: no_recalculated_order_def)
  next
    case False
    with res passed q show ?thesis by (simp add: no_recalculated_order_def base)
  qed
qed

lemma packet_shape: "open_packet (Some tm) (bd_session_date b) (packet_with b tm e x st reason) \<and>
    fo_status (packet_with b tm e x st reason) = st \<and> fo_verdict (packet_with b tm e x st reason) = st \<and>
    fo_rc_evidence (packet_with b tm e x st reason) = None"
  by (simp add: packet_with_def minimal_packet_def open_packet_def no_order_def)

lemma normal_shape:
  assumes "bd_selected_symbol b = Some s" and "p = normal_order b plan (packet_with b tm e x ''NORMAL_ORDER_READY'' why)"
  shows "consistent_order p \<and> fo_timing p = Some tm \<and> fo_session_date p = bd_session_date b \<and> no_recalculated_order p"
  using assms by (simp add: normal_order_def packet_with_def minimal_packet_def consistent_order_def order_statuses_def
      full_order_def no_recalculated_order_def)

text \<open>A decision lacks evidence, is normal, or follows a missed entry.\<close>

lemma order_eq:
  assumes "decide_order m lookback r tm d i b plan l o1 = Inr p"
  obtains why where "p = minimal_packet b ''EVIDENCE_INCOMPLETE'' why (Some tm)"
  | e x why where "p = normal_order b plan (packet_with b tm e x ''NORMAL_ORDER_READY'' why)"
      "\<And>m'. snapshot_at m' d i (sr_entry_time r) = snapshot_at m d i (sr_entry_time r) \<Longrightarrow>
        decide_order m' lookback r tm d i b plan l o1 = Inr p"
  | e x ot snap where "decide_missed m lookback r ot d i b plan l o1 snap (packet_with b tm e x) = Inr p"
proof (cases "snapshot_at m d i (sr_entry_time r)")
  case (Inl e)
  with assms that(1) show thesis by (cases e) (auto simp: decide_order_def)
next
  case (Inr orpt)
  with assms obtain snap ot where o: "intraday_snapshot_of orpt = Inr snap"
    "(case sr_option_type r of Some ot \<Rightarrow> Inr ot | None \<Rightarrow> Inl (AttributeError [Txt ''NoneType has no attribute value''])) = Inr ot"
    by (auto simp: decide_order_def bindE_eq_Inr)
  let ?x = "detect_entry_missed ot (tp_entry_price plan) snap"
  show thesis
  proof (cases "fq_entry_missed ?x")
    case True
    with assms Inr o that(3) show thesis by (auto simp: decide_order_def Let_def)
  next
    case False
    then have eq: "snapshot_at m' d i (sr_entry_time r) = snapshot_at m d i (sr_entry_time r) \<Longrightarrow>
      decide_order m' lookback r tm d i b plan l o1 = Inr (normal_order b plan (packet_with b tm orpt (entry_evidence_of ot (tp_entry_price plan) ?x) ''NORMAL_ORDER_READY''
        [Txt ''Base entry was not missed at ORPT; final order remains the base order.'']))" for m'
      using Inr o by (simp add: decide_order_def Let_def)
    with assms have p: "p = normal_order b plan (packet_with b tm orpt (entry_evidence_of ot (tp_entry_price plan) ?x) ''NORMAL_ORDER_READY''
      [Txt ''Base entry was not missed at ORPT; final order remains the base order.''])" by simp
    show thesis by (rule that(2) [OF p]) (simp add: eq p)
  qed
qed

lemma evidence_shape: "later_shape (Some tm) (bd_session_date b) (minimal_packet b ''EVIDENCE_INCOMPLETE'' why (Some tm))"
  by (rule rejected_shape) (simp_all add: minimal_packet_def open_packet_def no_order_def order_statuses_def)

lemma order_shape:
  assumes "decide_order m lookback r tm d i b plan l o1 = Inr p" and "bd_selected_symbol b = Some s"
  shows "consistent_order p \<and> fo_timing p = Some tm \<and> fo_session_date p = bd_session_date b"
  using assms(1)
proof (rule order_eq)
  fix why
  assume "p = minimal_packet b ''EVIDENCE_INCOMPLETE'' why (Some tm)"
  with evidence_shape [of tm b why] show ?thesis by (simp add: later_shape_def)
next
  fix e x why
  assume "p = normal_order b plan (packet_with b tm e x ''NORMAL_ORDER_READY'' why)"
  from normal_shape [OF assms(2) this] show ?thesis by simp
next
  fix e x ot snap
  assume "decide_missed m lookback r ot d i b plan l o1 snap (packet_with b tm e x) = Inr p"
  then have "later_shape (Some tm) (bd_session_date b) p" by (rule missed_shape) (simp add: packet_shape)
  then show ?thesis by (simp add: later_shape_def)
qed

lemma order_empty_chain:
  assumes "decide_order m lookback r tm d i b plan l o1 = Inr p" and "bd_selected_symbol b = Some s"
    and "\<And>rows. hm_option_chain m d (sr_recalculation_time r) = Inr rows \<Longrightarrow> rows = []"
  shows "no_recalculated_order p"
  using assms(1)
proof (rule order_eq)
  fix why
  assume "p = minimal_packet b ''EVIDENCE_INCOMPLETE'' why (Some tm)"
  then show ?thesis by (simp add: minimal_packet_def no_recalculated_order_def)
next
  fix e x why
  assume "p = normal_order b plan (packet_with b tm e x ''NORMAL_ORDER_READY'' why)"
  from normal_shape [OF assms(2) this] show ?thesis by simp
next
  fix e x ot snap
  assume "decide_missed m lookback r ot d i b plan l o1 snap (packet_with b tm e x) = Inr p"
  from this assms(3) show ?thesis by (rule missed_empty_chain) (simp_all add: packet_shape)
qed

lemma normal_from_orpt:
  assumes "decide_order m lookback r tm d i b plan l o1 = Inr p" and "fo_status p = ''NORMAL_ORDER_READY''"
    and "snapshot_at m' d i (sr_entry_time r) = snapshot_at m d i (sr_entry_time r)"
  shows "decide_order m' lookback r tm d i b plan l o1 = Inr p"
  using assms(1)
proof (rule order_eq)
  fix why
  assume "p = minimal_packet b ''EVIDENCE_INCOMPLETE'' why (Some tm)"
  with assms(2) show ?thesis by (simp add: minimal_packet_def)
next
  fix e x why
  assume "\<And>m'. snapshot_at m' d i (sr_entry_time r) = snapshot_at m d i (sr_entry_time r) \<Longrightarrow>
    decide_order m' lookback r tm d i b plan l o1 = Inr p"
  then show ?thesis using assms(3) .
next
  fix e x ot snap
  assume "decide_missed m lookback r ot d i b plan l o1 snap (packet_with b tm e x) = Inr p"
  then have "later_shape (Some tm) (bd_session_date b) p" by (rule missed_shape) (simp add: packet_shape)
  with assms(2) show ?thesis by (simp add: later_shape_def)
qed

lemma build_eq:
  assumes "build_from_base_packet m lookback folder exists planning b = Inr p"
  obtains why where "p = minimal_packet b ''BASE_DECISION_NOT_READY'' why None"
  | r d c i l o1 plan where "load_rule folder exists b = Inr r" and "date_fromisoformat (bd_session_date b) = Inr d"
    and "bd_selected_symbol b = Some c" and "decide_order m lookback r (timing_authority_of r planning) d i b plan l o1 = Inr p"
    and "\<And>m'. build_from_base_packet m' lookback folder exists planning b =
      decide_order m' lookback r (timing_authority_of r planning) d i b plan l o1"
proof (cases "bd_status b = ''READY'' \<and> bd_selected_symbol b \<noteq> None \<and> bd_trade_plan b \<noteq> None")
  case False
  with assms that(1) show thesis by (auto simp: build_from_base_packet_def split: option.splits if_splits)
next
  case True
  then obtain c plan0 where s: "bd_status b = ''READY''" "bd_selected_symbol b = Some c" "bd_trade_plan b = Some plan0" by blast
  from assms s obtain r d where rd: "load_rule folder exists b = Inr r" "date_fromisoformat (bd_session_date b) = Inr d"
    by (auto simp: build_from_base_packet_def bindE_eq_Inr)
  note build = build_ready [of folder exists b r d c plan0, OF rd s]
  from assms obtain i l o1 plan where parts: "parse_nifty_option_symbol c = Inr i" "mk_market_levels (bd_market_levels b) = Inr l"
    "(case bd_option_levels b of Some x \<Rightarrow> Inr x | None \<Rightarrow> data_error [Txt ''Base packet lacks OPT_LEVELS runtime values.'']) = Inr o1"
    "mk_trade_plan (plan0\<lparr>tp_option_type := sr_option_type r\<rparr>) = Inr plan"
    unfolding build by (auto simp only: bindE_eq_Inr)
  have all: "build_from_base_packet m' lookback folder exists planning b =
      decide_order m' lookback r (timing_authority_of r planning) d i b plan l o1" for m'
    unfolding build by (simp only: parts bindE_simps)
  from that(2) [OF rd s(2) _ all] assms show thesis by (simp add: all)
qed

lemma final_order_timing:
  assumes "build_from_base_packet m lookback folder exists planning b = Inr p" and "fo_status p \<noteq> ''BASE_DECISION_NOT_READY''"
    and "load_rule folder exists b = Inr r"
  shows "fo_timing p = Some (timing_authority_of r planning) \<and> fo_session_date p = bd_session_date b"
  using assms(1)
proof (rule build_eq)
  fix why
  assume "p = minimal_packet b ''BASE_DECISION_NOT_READY'' why None"
  with assms(2) show ?thesis by (simp add: minimal_packet_def)
next
  fix r' d c i l o1 plan
  assume "load_rule folder exists b = Inr r'" "bd_selected_symbol b = Some c"
    "decide_order m lookback r' (timing_authority_of r' planning) d i b plan l o1 = Inr p"
  with assms(3) order_shape show ?thesis by simp
qed

text \<open>
  The statuses that promise an order are exactly the ones whose packet carries contract, entry, target and
  stop-loss; every other packet carries none of them.
\<close>
theorem final_order_consistent:
  assumes "build_from_base_packet m lookback folder exists planning b = Inr p"
  shows "consistent_order p"
  using assms
proof (rule build_eq)
  fix why
  assume "p = minimal_packet b ''BASE_DECISION_NOT_READY'' why None"
  then show ?thesis by (simp add: minimal_packet_def consistent_order_def order_statuses_def no_order_def)
next
  fix r d c i l o1 plan
  assume "bd_selected_symbol b = Some c" "decide_order m lookback r (timing_authority_of r planning) d i b plan l o1 = Inr p"
  with order_shape show ?thesis by blast
qed

text \<open>The exact read of a chain finds nothing off the minutes of the bars.\<close>

definition whole_minutes :: "provider \<Rightarrow> date \<Rightarrow> bool" where
  "whole_minutes p d \<longleftrightarrow> (\<forall>bars. fst (get_option_session_bars d p) = Inr bars \<longrightarrow> (\<forall>b \<in> set bars. hb_timestamp b mod 60000000 = 0))"

lemma chain_off_minute:
  assumes "whole_minutes p d" and "t mod 60000000 \<noteq> 0" and "hm_option_chain (provider_reads p) d t = Inr rows"
  shows "rows = []"
proof -
  have off: "at_time d t mod 60000000 \<noteq> 0"
  proof -
    have "at_time d t = t + 60000000 * (d * 1440)" by (simp add: at_time_def us_per_day_def)
    then have "at_time d t mod 60000000 = t mod 60000000" by (simp only: mod_mult_self2)
    with assms(2) show ?thesis by simp
  qed
  obtain r p' where get: "get_option_session_bars d p = (r, p')" by fastforce
  with assms(3) obtain bars where bars: "r = Inr bars"
    and rows: "rows = chain_order (map observation_of (filter (\<lambda>b. hb_timestamp b = at_time d t) bars))"
    by (auto simp: provider_reads_def get_option_chain_def bindE_eq_Inr)
  have "filter (\<lambda>b. hb_timestamp b = at_time d t) bars = []"
    using assms(1) get bars off by (auto simp: whole_minutes_def filter_empty_conv)
  with rows show ?thesis by (simp add: chain_order_def)
qed


section \<open>Properties\<close>

text \<open>
  C38: the final order depends on nothing after the recalculation time: a market that agrees on the earlier
  sessions and on the day up to that time gives the same packet, errors included.
\<close>
theorem final_order_has_no_lookahead:
  assumes "agree_until d t m m'" and "valid_lookback lookback"
    and "date_fromisoformat (bd_session_date b) = Inr d" and "load_rule folder exists b = Inr r"
    and "sr_entry_time r \<le> t" and "sr_recalculation_time r \<le> t"
  shows "build_from_base_packet m lookback folder exists planning b = build_from_base_packet m' lookback folder exists planning b"
proof (cases "bd_status b = ''READY'' \<and> bd_selected_symbol b \<noteq> None \<and> bd_trade_plan b \<noteq> None")
  case False
  then show ?thesis by (auto simp: build_from_base_packet_def split: option.splits)
next
  case True
  then obtain s p where s: "bd_status b = ''READY''" "bd_selected_symbol b = Some s" "bd_trade_plan b = Some p" by blast
  note build = build_ready [of folder exists b r d s p, OF assms(4,3) s]
  show ?thesis unfolding build using order_agree [OF assms(1,2,5,6)] by simp
qed

text \<open>
  A normal order is decided at ORPT: its packet is the same in every market that agrees on the earlier sessions and
  on the day up to the entry time, whatever happens afterwards.
\<close>
theorem normal_order_decided_at_orpt:
  assumes "build_from_base_packet m lookback folder exists planning b = Inr p" and "fo_status p = ''NORMAL_ORDER_READY''"
    and "date_fromisoformat (bd_session_date b) = Inr d" and "load_rule folder exists b = Inr r"
    and "agree_until d (sr_entry_time r) m m'"
  shows "build_from_base_packet m' lookback folder exists planning b = Inr p"
  using assms(1)
proof (rule build_eq)
  fix why
  assume "p = minimal_packet b ''BASE_DECISION_NOT_READY'' why None"
  with assms(2) show ?thesis by (simp add: minimal_packet_def)
next
  fix r' d' c i l o1 plan
  assume rd: "load_rule folder exists b = Inr r'" "date_fromisoformat (bd_session_date b) = Inr d'"
    and run: "decide_order m lookback r' (timing_authority_of r' planning) d' i b plan l o1 = Inr p"
    and all: "\<And>m'. build_from_base_packet m' lookback folder exists planning b =
      decide_order m' lookback r' (timing_authority_of r' planning) d' i b plan l o1"
  from rd assms(3,4) have eq: "r' = r" "d' = d" by simp_all
  have "snapshot_at m' d' i (sr_entry_time r') = snapshot_at m d' i (sr_entry_time r')"
    unfolding eq by (rule snapshot_agree [OF assms(5), symmetric]) simp
  from normal_from_orpt [OF run assms(2) this] show ?thesis by (simp only: all)
qed

text \<open>
  C39: over minute bars stamped on whole minutes a rule whose recalculation time is not a whole minute, as all four
  configured rules, never gives a recalculated order: the chain is read at exactly that time, so a missed entry whose
  recalculation passes ends without a qualifying contract, whatever the chain offers.
\<close>
theorem whole_minute_data_never_recalculates:
  assumes "build_from_base_packet (provider_reads p) lookback folder exists planning b = Inr q"
    and "date_fromisoformat (bd_session_date b) = Inr d" and "load_rule folder exists b = Inr r"
    and "whole_minutes p d" and "sr_recalculation_time r mod 60000000 \<noteq> 0"
  shows "fo_status q \<noteq> ''RECALCULATED_ORDER_READY'' \<and> (\<forall>e. fo_rc_evidence q = Some e \<longrightarrow> fw_rc_passed e \<longrightarrow>
    fo_status q = ''NO_QUALIFYING_RECALCULATED_CONTRACT'' \<and> no_order q)"
proof -
  have "no_recalculated_order q"
    using assms(1)
  proof (rule build_eq)
    fix why
    assume "q = minimal_packet b ''BASE_DECISION_NOT_READY'' why None"
    then show ?thesis by (simp add: minimal_packet_def no_recalculated_order_def)
  next
    fix r' d' c i l o1 plan
    assume rd: "load_rule folder exists b = Inr r'" "date_fromisoformat (bd_session_date b) = Inr d'"
      and c: "bd_selected_symbol b = Some c"
      and run: "decide_order (provider_reads p) lookback r' (timing_authority_of r' planning) d' i b plan l o1 = Inr q"
    from rd assms(2,3) have eq: "r' = r" "d' = d" by simp_all
    show ?thesis using run c
      by (rule order_empty_chain) (use chain_off_minute [OF assms(4,5)] in \<open>simp add: eq\<close>)
  qed
  moreover have "consistent_order q" using assms(1) by (rule final_order_consistent)
  ultimately show ?thesis by (auto simp: no_recalculated_order_def consistent_order_def order_statuses_def)
qed

section \<open>Witnesses\<close>

text \<open>
  A session with a missed entry. The bars of the sold call are stamped \<open>s\<close> microseconds after 09:24, 09:26 and
  09:29, then come the bars \<open>late\<close>; the chain at the recalculation time is \<open>chain\<close>.
\<close>

definition missed_day :: date where "missed_day = ordinal 2024 1 3"

definition missed_contract :: option_identity where
  "missed_contract = \<lparr>hi_underlying = ''NIFTY'', hi_expiry = ordinal 2024 1 4, hi_strike = 23900, hi_option_type = CALL,
     hi_raw_symbol = ''NIFTY04JAN2423900CE''\<rparr>"

definition missed_bar :: "int \<Rightarrow> int \<Rightarrow> price \<Rightarrow> price \<Rightarrow> option_minute_bar" where
  "missed_bar s minute low high = \<lparr>hb_timestamp = at_time missed_day (minute * 60000000 + s), hb_identity = missed_contract,
     hb_open = high, hb_high = high, hb_low = low, hb_close = 485, hb_oi = 30000, hb_volume = 5, hb_source_session = missed_day\<rparr>"

definition missed_spot :: "int \<Rightarrow> int \<Rightarrow> spot_minute_bar" where
  "missed_spot s minute = \<lparr>hp_timestamp = at_time missed_day (minute * 60000000 + s), hp_open = 23600,
     hp_high = 23700, hp_low = 23600, hp_close = 23650, hp_source_session = missed_day\<rparr>"

definition missed_bars :: "int \<Rightarrow> option_minute_bar list" where
  "missed_bars s = [missed_bar s 564 490 505, missed_bar s 566 450 500, missed_bar s 569 480 495]"

definition missed_rule :: strategy_rule where
  "missed_rule = \<lparr>sr_strategy_code = ''S23'', sr_unique_code = BULL_CALL_CODE, sr_symbol = ''NIFTY'', sr_segment = OPTIONS_SELL,
     sr_expiry_policy = \<lparr>ep_expiry_type = WEEKLY, ep_rollover_policy = T_MINUS_1, ep_forced_close_time = None,
       ep_no_carry_past_expiry = True\<rparr>, sr_allowed_monthly_statuses = [BULL], sr_option_type = Some CALL, sr_entry_time = 33899000000, sr_recalculation_time = 34199000000,
     sr_start_strike_formula = [], sr_end_strike_formula = [], sr_ideal_premium_formula = [], sr_minimum_premium_formula = [],
     sr_minimum_oi = 500, sr_entry_formula = [], sr_target_formula = [], sr_stoploss_formula = [], sr_carry_forward_allowed = True,
     sr_parameters = [(''strike_buffer_pct'', 2), (''ideal_premium_pct'', 2), (''minimum_premium_pct'', 1),
       (''entry_discount_pct'', 5), (''target_pct'', 50), (''sl_entry_pct'', 40)], sr_allow_fresh_entry_with_open_position = False\<rparr>"

definition missed_plan :: trade_plan where
  "missed_plan = \<lparr>tp_strategy_code = ''S23'', tp_symbol = ''NIFTY'', tp_option_type = Some CALL, tp_start_strike = Some 24000,
     tp_end_strike = Some 23000, tp_ideal_premium = Some 470, tp_minimum_premium = Some 235, tp_entry_price = 500,
     tp_stoploss_price = 700, tp_target_price = 250\<rparr>"

definition missed_base :: base_packet where
  "missed_base = \<lparr>bd_session_date = isoformat_date missed_day, bd_status = ''READY'', bd_status_reason = [], bd_monthly_status = Some ''BULL'',
     bd_resolved_unique_code = Some BULL_CALL_CODE, bd_strategy_config_paths = [(''S23'', ''strategy.yaml'')],
     bd_market_levels = ri_market_levels demo_input, bd_option_levels = Some [(''OPT_PRV_3DLL'', 600)],
     bd_selected_symbol = Some ''NIFTY04JAN2423900CE'', bd_selected_strike = Some 23900, bd_base_entry = Some 500,
     bd_base_target = Some 250, bd_base_stoploss = Some 700, bd_trade_plan = Some missed_plan\<rparr>"

definition missed_reads :: "int \<Rightarrow> option_minute_bar list \<Rightarrow> chain_observation list \<Rightarrow> market_reads" where
  "missed_reads s late chain = \<lparr>hm_spot_bars_through = (\<lambda>d t. Inr (filter (\<lambda>b. hp_timestamp b \<le> at_time d t)
       (if d = missed_day then [missed_spot s 564, missed_spot s 569] else []))),
     hm_contract_session_bars = (\<lambda>d i. Inr (if d = missed_day then missed_bars s @ late else [])),
     hm_option_chain = (\<lambda>d t. Inr (if t = 34199000000 then chain else [])), hm_option_sessions = [missed_day]\<rparr>"

text \<open>A market with these bars of the day; the others are not read.\<close>

definition missed_market :: "int \<Rightarrow> option_minute_bar list \<Rightarrow> chain_observation list \<Rightarrow> market_reads \<Rightarrow> bool" where
  "missed_market s late chain m \<longleftrightarrow> 0 \<le> s \<and> s \<le> 59000000 \<and> (\<forall>b \<in> set late. at_time missed_day 34200000000 \<le> hb_timestamp b) \<and>
     hm_spot_bars_through m missed_day 33899000000 = Inr [missed_spot s 564] \<and>
     hm_spot_bars_through m missed_day 34199000000 = Inr [missed_spot s 564, missed_spot s 569] \<and>
     hm_contract_session_bars m missed_day missed_contract = Inr (missed_bars s @ late) \<and>
     hm_option_chain m missed_day 34199000000 = Inr chain"

definition missed_folder :: "string \<Rightarrow> strategy_rule res" where
  "missed_folder path = (if path = ''S23'' then Inr missed_rule else Inl (ValueError [Txt path]))"

lemma missed_loads: "load_rule missed_folder exists missed_base = Inr missed_rule"
    "load_rule missed_folder exists (missed_base\<lparr>bd_trade_plan := plan\<rparr>) = Inr missed_rule"
  by (simp_all add: load_rule_def missed_base_def missed_folder_def text_or_def BULL_CALL_CODE_def)

lemma missed_parses: "parse_nifty_option_symbol ''NIFTY04JAN2423900CE'' = Inr missed_contract"
  by code_simp

lemma missed_day_valid [simp]: "valid_date missed_day"
  by code_simp

lemma missed_time: "datetime_fromisoformat (isoformat (at_time missed_day t)) = Inr (at_time missed_day t)" if "0 \<le> t" "t < us_per_day"
  using that by (intro timestamp_roundtrip) (simp add: at_time_parts valid_time_def)

lemma at_time_order [simp]: "at_time d t \<le> at_time d u \<longleftrightarrow> t \<le> u" "at_time d t = at_time d u \<longleftrightarrow> t = u"
  by (simp_all add: at_time_def)

lemma late_cut:
  assumes "\<forall>b \<in> set late. at_time missed_day 34200000000 \<le> hb_timestamp b" and "t < 34200000000"
  shows "filter (\<lambda>b. hb_timestamp b \<le> at_time missed_day t) late = []"
  using assms by (auto simp: filter_empty_conv at_time_def)

lemma missed_orpt:
  assumes "missed_market s late chain m"
  shows "\<exists>e. snapshot_at m missed_day missed_contract 33899000000 = Inr e \<and>
    intraday_snapshot_of e = Inr \<lparr>is_timestamp = at_time missed_day 33899000000, is_spot_low = 23600, is_spot_high = 23700,
      is_option_low = 490, is_option_high = 505\<rparr>"
  using assms late_cut [of late 33899000000]
  by (simp add: snapshot_at_def missed_market_def missed_bars_def missed_bar_def missed_spot_def missed_time us_per_day_def
      snapshot_of_bars_def bar_at_or_before_def option_evidence_def spot_evidence_def intraday_snapshot_of_def Let_def)

lemma missed_rc:
  assumes "missed_market s late chain m"
  shows "\<exists>e. snapshot_at m missed_day missed_contract 34199000000 = Inr e \<and>
    intraday_snapshot_of e = Inr \<lparr>is_timestamp = at_time missed_day 34199000000, is_spot_low = 23600, is_spot_high = 23700,
      is_option_low = 480, is_option_high = 495\<rparr>"
  using assms late_cut [of late 34199000000]
  by (simp add: snapshot_at_def missed_market_def missed_bars_def missed_bar_def missed_spot_def missed_time us_per_day_def
      snapshot_of_bars_def bar_at_or_before_def option_evidence_def spot_evidence_def intraday_snapshot_of_def Let_def)

lemma missed_levels: "mk_market_levels (bd_market_levels missed_base) = Inr (ri_market_levels demo_input)"
  by (simp add: missed_base_def demo_input_def mk_market_levels_def validate_optional_price_def
      validate_order_def guardE_def)

lemma missed_trade_plan: "mk_trade_plan (missed_plan\<lparr>tp_option_type := sr_option_type missed_rule\<rparr>) = Inr missed_plan"
  by code_simp

lemma missed_recalculation:
  "\<exists>x. recalculate \<lparr>ri_branch_unique_code = sr_unique_code missed_rule, ri_option_type = CALL, ri_monthly_status = BULL,
      ri_base_trade_plan = missed_plan, ri_market_levels = ri_market_levels demo_input, ri_option_levels = [(''OPT_PRV_3DLL'', 600)],
      ri_parameters = sr_parameters missed_rule, ri_snapshot_at_orpt = snap, ri_snapshot_at_recalc =
        \<lparr>is_timestamp = t, is_spot_low = 23600, is_spot_high = 23700, is_option_low = 480, is_option_high = 495\<rparr>,
      ri_entry_missed = True\<rparr> = Inr x \<and> rr_recalculated x \<and> rr_start_strike x = Some 23970 \<and> rr_end_strike x = Some 23499 \<and>
    rr_ideal_premium x = Some 470 \<and> rr_minimum_premium x = Some 235 \<and> rr_entry_price x = Some 456"
  by (simp add: recalculate_def recalculate_bull_call_def recalculate_call_def missed_rule_def demo_input_def require_market_level_def
      require_option_level_def require_parameters_def required_parameters_def percent_of_def percent_above_def percent_below_def Let_def)

lemma missed_status: "monthly_status_named (text_or (bd_monthly_status missed_base) ''UNKNOWN'') = Inr BULL"
  by (simp add: missed_base_def text_or_def monthly_status_named_def)

lemma missed_decides:
  assumes "mk_trade_plan (plan\<lparr>tp_option_type := sr_option_type missed_rule\<rparr>) = Inr plan"
  shows "build_from_base_packet m None missed_folder exists planning (missed_base\<lparr>bd_trade_plan := Some plan\<rparr>) =
      decide_order m None missed_rule (timing_authority_of missed_rule planning) missed_day missed_contract
        (missed_base\<lparr>bd_trade_plan := Some plan\<rparr>) plan (ri_market_levels demo_input) [(''OPT_PRV_3DLL'', 600)]"
proof -
  let ?b = "missed_base\<lparr>bd_trade_plan := Some plan\<rparr>"
  have same: "bd_option_levels ?b = Some [(''OPT_PRV_3DLL'', 600)]" "bd_market_levels ?b = bd_market_levels missed_base"
    by (simp_all add: missed_base_def)
  have "load_rule missed_folder exists ?b = Inr missed_rule" by (rule missed_loads)
  moreover have "date_fromisoformat (bd_session_date ?b) = Inr missed_day" by (simp add: missed_base_def date_roundtrip)
  moreover have "bd_status ?b = ''READY''" "bd_selected_symbol ?b = Some ''NIFTY04JAN2423900CE''" "bd_trade_plan ?b = Some plan"
    by (simp_all add: missed_base_def)
  ultimately show ?thesis
    by (simp only: build_ready [of missed_folder exists ?b missed_rule missed_day "''NIFTY04JAN2423900CE''" plan]
        missed_parses missed_levels assms same bindE_simps option.case)
qed

lemma missed_build:
  assumes "missed_market s late chain m"
  shows "\<exists>x q e. build_from_base_packet m None missed_folder exists planning missed_base =
      select_recalculated m None missed_rule CALL missed_day missed_contract missed_base
        \<lparr>is_timestamp = at_time missed_day 34199000000, is_spot_low = 23600, is_spot_high = 23700, is_option_low = 480, is_option_high = 495\<rparr> x q \<and>
    fo_rc_evidence q = Some e \<and> fw_rc_passed e \<and>
    rr_start_strike x = Some 23970 \<and> rr_end_strike x = Some 23499 \<and>
    rr_ideal_premium x = Some 470 \<and> rr_minimum_premium x = Some 235 \<and> rr_entry_price x = Some 456"
proof -
  let ?snap = "\<lparr>is_timestamp = at_time missed_day 33899000000, is_spot_low = 23600, is_spot_high = 23700, is_option_low = 490, is_option_high = 505\<rparr>"
  let ?rc = "\<lparr>is_timestamp = at_time missed_day 34199000000, is_spot_low = 23600, is_spot_high = 23700, is_option_low = 480, is_option_high = 495\<rparr>"
  obtain e1 e2 where e1: "snapshot_at m missed_day missed_contract 33899000000 = Inr e1" "intraday_snapshot_of e1 = Inr ?snap"
    and e2: "snapshot_at m missed_day missed_contract 34199000000 = Inr e2" "intraday_snapshot_of e2 = Inr ?rc"
    using missed_orpt [OF assms] missed_rc [OF assms] by blast
  obtain x where x: "recalculate \<lparr>ri_branch_unique_code = sr_unique_code missed_rule, ri_option_type = CALL, ri_monthly_status = BULL,
      ri_base_trade_plan = missed_plan, ri_market_levels = ri_market_levels demo_input, ri_option_levels = [(''OPT_PRV_3DLL'', 600)],
      ri_parameters = sr_parameters missed_rule, ri_snapshot_at_orpt = ?snap, ri_snapshot_at_recalc = ?rc,
      ri_entry_missed = True\<rparr> = Inr x" "rr_recalculated x" "rr_start_strike x = Some 23970" "rr_end_strike x = Some 23499"
    "rr_ideal_premium x = Some 470" "rr_minimum_premium x = Some 235" "rr_entry_price x = Some 456"
    using missed_recalculation by blast
  have times: "sr_entry_time missed_rule = 33899000000" "sr_recalculation_time missed_rule = 34199000000" "sr_option_type missed_rule = Some CALL"
    by (simp_all add: missed_rule_def)
  have missed: "fq_entry_missed (detect_entry_missed CALL (tp_entry_price missed_plan) ?snap)"
    by (simp add: detect_entry_missed_def missed_plan_def)
  have plan: "missed_base\<lparr>bd_trade_plan := Some missed_plan\<rparr> = missed_base" by (simp add: missed_base_def)
  note build = missed_decides [OF missed_trade_plan, of m exists planning, unfolded plan]
  have decide: "\<exists>packet. build_from_base_packet m None missed_folder exists planning missed_base = decide_missed m None missed_rule CALL
      missed_day missed_contract missed_base missed_plan (ri_market_levels demo_input) [(''OPT_PRV_3DLL'', 600)] ?snap packet"
    unfolding build decide_order_def times e1(1) sum.case e1(2) bindE_simps option.case Let_def using missed by auto
  obtain packet where run: "build_from_base_packet m None missed_folder exists planning missed_base = decide_missed m None missed_rule CALL
      missed_day missed_contract missed_base missed_plan (ri_market_levels demo_input) [(''OPT_PRV_3DLL'', 600)] ?snap packet"
    using decide by blast
  define rce where "rce = \<lparr>fw_rc_snapshot = e2,
     fw_rule_used = text_or (rr_source_rule x) ''S23 recalculation engine returned no recalculated rule.'',
     fw_rc_passed = rr_recalculated x, fw_rc_result = rr_reason x\<rparr>"
  define base where "base = (packet ''RC_REJECTED'' [Txt (rr_reason x)])\<lparr>fo_recalculation_required := True,
     fo_recalculation_inputs := Some (?snap, ?rc), fo_recalculation_result := Some (recalculation_evidence_of missed_base x None),
     fo_rc_required := True, fo_rc_evidence := Some rce\<rparr>"
  have "build_from_base_packet m None missed_folder exists planning missed_base =
      (if \<not> rr_recalculated x then Inr base
       else select_recalculated m None missed_rule CALL missed_day missed_contract missed_base ?rc x base)"
    unfolding run decide_missed_def times e2(1) sum.case e2(2) bindE_simps missed_status x(1) Let_def base_def rce_def ..
  moreover have "fo_rc_evidence base = Some rce" "fw_rc_passed rce" using x(2) by (simp_all add: base_def rce_def)
  ultimately show ?thesis using x(2-7) by auto
qed

text \<open>With an empty chain at the recalculation time, or a row of the same contract.\<close>

definition missed_chain :: "chain_observation list" where
  "missed_chain = [observation_of ((missed_bar 0 569 480 495)\<lparr>hb_timestamp := at_time missed_day 34199000000\<rparr>)]"

lemma missed_oi: "minimum_oi_units (sr_symbol missed_rule) missed_day NIFTY_MINIMUM_OI_LOTS = Inr 25000"
  by code_simp

lemma missed_selects:
  assumes "rr_start_strike x = Some 23970" and "rr_end_strike x = Some 23499" and "rr_ideal_premium x = Some 470"
    and "rr_minimum_premium x = Some 235" and "rr_entry_price x = Some 456"
    and "hm_option_chain m missed_day 34199000000 = Inr missed_chain"
  shows "\<exists>q. select_recalculated m None missed_rule CALL missed_day missed_contract missed_base
        \<lparr>is_timestamp = t, is_spot_low = 23600, is_spot_high = 23700, is_option_low = 480, is_option_high = 495\<rparr> x p = Inr q \<and>
    fo_status q = ''RECALCULATED_ORDER_READY'' \<and> fo_final_contract q = Some ''NIFTY04JAN2423900CE'' \<and>
    fo_final_entry q = Some 456 \<and> fo_final_target q = Some 228 \<and> fo_final_stoploss q = Some 495"
proof -
  have times: "sr_recalculation_time missed_rule = 34199000000" by (simp add: missed_rule_def)
  define c where "c = \<lparr>bc_timestamp = at_time missed_day 34199000000, bc_symbol = ''NIFTY04JAN2423900CE'', bc_option_type = CALL,
      bc_strike = 23900, bc_expiry = ordinal 2024 1 4, bc_bid = 485, bc_ask = 485, bc_ltp = 485, bc_oi = 30000, bc_volume = (5::int)\<rparr>"
  have rows: "hm_option_chain m missed_day (sr_recalculation_time missed_rule) = Inr missed_chain"
    by (simp add: assms(6) times)
  have contracts: "mapE observation_contract missed_chain = Inr [c]"
    by (simp add: missed_chain_def observation_contract_def observation_of_def missed_bar_def missed_contract_def c_def
        mk_chain_contract_def guardE_def strip_def is_space_def)
  define request where "request = \<lparr>bq_option_type = CALL, bq_start_strike = 23970, bq_end_strike = 23499, bq_ideal_premium = 470,
      bq_minimum_premium = 235, bq_minimum_oi = 25000, bq_timestamp = at_time missed_day 34199000000, bq_expiry_dates = []\<rparr>"
  have request: "recalculated_request missed_rule CALL missed_day x = Inr request"
    by (simp add: recalculated_request_def required_def assms missed_oi times request_def)
  have selected: "bs_selected (select_option request [c])" "bs_selected_contract (select_option request [c]) = Some c"
    by (simp_all add: select_option_def chain_rows_def expiries_to_try_def select_within_expiry_def within_strikes_def search_order_def
        sort_descending_def contract_selected_def selected_on_def Let_def c_def request_def)
  have finish: "\<exists>q. finish_recalculated m None missed_rule missed_day missed_contract rc x c p = Inr q \<and>
      fo_status q = ''RECALCULATED_ORDER_READY'' \<and> fo_final_contract q = Some ''NIFTY04JAN2423900CE'' \<and>
      fo_final_entry q = Some 456 \<and> fo_final_target q = Some 228 \<and> fo_final_stoploss q = Some 495"
    if "is_option_high rc = 495" for m rc p
  proof -
    have "bc_symbol c = ''NIFTY04JAN2423900CE''" by (simp add: c_def)
    then show ?thesis using that assms(5)
      by (simp add: finish_recalculated_def missed_parses same_contract_def recalculated_ready_def required_def target_from_entry_def
          stoploss_from_entry_and_rc_def parameter_def missed_rule_def Let_def)
  qed
  show ?thesis
    unfolding select_recalculated_def rows contracts request bindE_simps Let_def
    by (simp only: selected if_True option.case) (rule finish, simp)
qed

lemma missed_reads_market:
  "0 \<le> s \<Longrightarrow> s \<le> 59000000 \<Longrightarrow> \<forall>b \<in> set late. at_time missed_day 34200000000 \<le> hb_timestamp b \<Longrightarrow>
   missed_market s late chain (missed_reads s late chain)"
  by (simp add: missed_market_def missed_reads_def missed_spot_def)

lemma missed_ready:
  assumes "missed_market s late missed_chain m"
  shows "\<exists>q. build_from_base_packet m None missed_folder exists planning missed_base = Inr q \<and>
    fo_status q = ''RECALCULATED_ORDER_READY'' \<and> fo_final_contract q = Some ''NIFTY04JAN2423900CE'' \<and>
    fo_final_entry q = Some 456 \<and> fo_final_target q = Some 228 \<and> fo_final_stoploss q = Some 495"
proof -
  from missed_build [OF assms, of exists planning] obtain x q e where run:
    "build_from_base_packet m None missed_folder exists planning missed_base =
      select_recalculated m None missed_rule CALL missed_day missed_contract missed_base
        \<lparr>is_timestamp = at_time missed_day 34199000000, is_spot_low = 23600, is_spot_high = 23700, is_option_low = 480, is_option_high = 495\<rparr> x q"
    and x: "rr_start_strike x = Some 23970" "rr_end_strike x = Some 23499"
      "rr_ideal_premium x = Some 470" "rr_minimum_premium x = Some 235" "rr_entry_price x = Some 456"
    by blast
  have "hm_option_chain m missed_day 34199000000 = Inr missed_chain" using assms by (simp add: missed_market_def)
  from missed_selects [OF x this] run show ?thesis by simp
qed

lemma missed_session: "date_fromisoformat (bd_session_date missed_base) = Inr missed_day"
  by (simp add: missed_base_def date_roundtrip)

lemma missed_times: "sr_entry_time missed_rule = 33899000000" "sr_recalculation_time missed_rule = 34199000000"
  by (simp_all add: missed_rule_def)

lemma final_order_has_no_lookahead_witness:
  "\<exists>q. build_from_base_packet (missed_reads 59000000 [] missed_chain) None missed_folder (\<lambda>_. True) 0 missed_base = Inr q \<and>
     build_from_base_packet (missed_reads 59000000 [missed_bar 0 570 1 1000] missed_chain) None missed_folder (\<lambda>_. True) 0 missed_base = Inr q \<and>
     fo_status q = ''RECALCULATED_ORDER_READY''"
proof -
  let ?m = "missed_reads 59000000 [] missed_chain" and ?m' = "missed_reads 59000000 [missed_bar 0 570 1 1000] missed_chain"
  have "agree_until missed_day 34199000000 ?m ?m'"
    by (simp add: agree_until_def agree_before_def seen_until_def missed_reads_def missed_bar_def)
  from final_order_has_no_lookahead [OF this _ missed_session missed_loads(1), of None "\<lambda>_. True" 0]
  have "build_from_base_packet ?m None missed_folder (\<lambda>_. True) 0 missed_base = build_from_base_packet ?m' None missed_folder (\<lambda>_. True) 0 missed_base"
    by (simp add: valid_lookback_def missed_times)
  with missed_ready [OF missed_reads_market [of 59000000 "[]" missed_chain], of "\<lambda>_. True" 0] show ?thesis by auto
qed

definition normal_plan :: trade_plan where
  "normal_plan = missed_plan\<lparr>tp_entry_price := 400\<rparr>"

lemma normal_trade_plan: "mk_trade_plan (normal_plan\<lparr>tp_option_type := sr_option_type missed_rule\<rparr>) = Inr normal_plan"
  by code_simp

lemma normal_ready:
  assumes "missed_market s late chain m"
  shows "\<exists>q. build_from_base_packet m None missed_folder exists planning (missed_base\<lparr>bd_trade_plan := Some normal_plan\<rparr>) = Inr q \<and>
    fo_status q = ''NORMAL_ORDER_READY'' \<and> fo_final_entry q = Some 400"
proof -
  from missed_orpt [OF assms] obtain e where e: "snapshot_at m missed_day missed_contract 33899000000 = Inr e"
    "intraday_snapshot_of e = Inr \<lparr>is_timestamp = at_time missed_day 33899000000, is_spot_low = 23600, is_spot_high = 23700,
      is_option_low = 490, is_option_high = 505\<rparr>" by blast
  have o: "sr_option_type missed_rule = Some CALL" by (simp add: missed_rule_def)
  show ?thesis
    unfolding missed_decides [OF normal_trade_plan] decide_order_def missed_times e(1) sum.case e(2) bindE_simps o option.case Let_def
    by (simp add: detect_entry_missed_def normal_plan_def normal_order_def packet_with_def minimal_packet_def)
qed

lemma normal_order_decided_at_orpt_witness:
  "\<exists>q. build_from_base_packet (missed_reads 59000000 [missed_bar 0 570 1 1000] missed_chain) None missed_folder (\<lambda>_. True) 0
     (missed_base\<lparr>bd_trade_plan := Some normal_plan\<rparr>) = Inr q \<and> fo_status q = ''NORMAL_ORDER_READY'' \<and> fo_final_entry q = Some 400"
proof -
  let ?b = "missed_base\<lparr>bd_trade_plan := Some normal_plan\<rparr>"
  let ?m = "missed_reads 59000000 [] []" and ?m' = "missed_reads 59000000 [missed_bar 0 570 1 1000] missed_chain"
  obtain q where q: "build_from_base_packet ?m None missed_folder (\<lambda>_. True) 0 ?b = Inr q" "fo_status q = ''NORMAL_ORDER_READY''"
      "fo_final_entry q = Some 400"
    using normal_ready [OF missed_reads_market [of 59000000 "[]" "[]"], of "\<lambda>_. True" 0] by auto
  have "agree_until missed_day (sr_entry_time missed_rule) ?m ?m'"
    by (simp add: agree_until_def agree_before_def seen_until_def missed_reads_def missed_bar_def missed_times)
  moreover have "date_fromisoformat (bd_session_date ?b) = Inr missed_day" using missed_session by simp
  moreover have "load_rule missed_folder (\<lambda>_. True) ?b = Inr missed_rule" by (rule missed_loads)
  ultimately show ?thesis using normal_order_decided_at_orpt [OF q(1,2)] q(2,3) by blast
qed

text \<open>A provider whose cache holds the session with bars on whole minutes.\<close>

definition minute_provider :: provider where
  "minute_provider = \<lparr>hv_instrument = ''NIFTY'', hv_max_cached_sessions = 1, hv_spot_files = [], hv_option_files = [],
     hv_spot_cache = [(missed_day, [missed_spot 0 564, missed_spot 0 569])], hv_option_cache = [(missed_day, missed_bars 0)]\<rparr>"

lemma minute_market: "missed_market 0 [] [] (provider_reads minute_provider)"
  by (simp add: missed_market_def provider_reads_def minute_provider_def get_spot_bars_through_def get_spot_session_bars_def
      get_option_chain_def get_option_session_bars_def get_contract_session_bars_def missed_bars_def missed_bar_def missed_spot_def
      same_contract_def chain_order_def)

lemma whole_minute_data_never_recalculates_witness:
  "\<exists>q e. build_from_base_packet (provider_reads minute_provider) None missed_folder (\<lambda>_. True) 0 missed_base = Inr q \<and>
     fo_rc_evidence q = Some e \<and> fw_rc_passed e \<and> fo_status q = ''NO_QUALIFYING_RECALCULATED_CONTRACT''"
proof -
  let ?m = "provider_reads minute_provider"
  from missed_build [OF minute_market, of "\<lambda>_. True" 0] obtain x q e where run:
    "build_from_base_packet ?m None missed_folder (\<lambda>_. True) 0 missed_base =
      select_recalculated ?m None missed_rule CALL missed_day missed_contract missed_base
        \<lparr>is_timestamp = at_time missed_day 34199000000, is_spot_low = 23600, is_spot_high = 23700, is_option_low = 480, is_option_high = 495\<rparr> x q"
    and e: "fo_rc_evidence q = Some e" "fw_rc_passed e"
    and x: "rr_start_strike x = Some 23970" "rr_end_strike x = Some 23499"
      "rr_ideal_premium x = Some 470" "rr_minimum_premium x = Some 235" "rr_entry_price x = Some 456"
    by blast
  have "hm_option_chain ?m missed_day 34199000000 = Inr []" using minute_market by (simp add: missed_market_def)
  then obtain p where p: "build_from_base_packet ?m None missed_folder (\<lambda>_. True) 0 missed_base = Inr p"
    using run by (simp add: select_recalculated_def missed_times recalculated_request_def required_def x missed_oi Let_def
        select_option_def nothing_selected_def)
  then have keeps: "fo_rc_evidence p = Some e" using run e(1) select_keeps_evidence by fastforce
  have "whole_minutes minute_provider missed_day"
    by (simp add: whole_minutes_def get_option_session_bars_def minute_provider_def missed_bars_def missed_bar_def at_time_def us_per_day_def)
  from whole_minute_data_never_recalculates [OF p missed_session missed_loads(1) this] keeps e(2) p show ?thesis
    by (simp add: missed_times)
qed

end
