(* ===== verification/HsreLifecycle.thy ===== *)
theory HsreLifecycle
  imports FinalOrder TradeLifecycle "HOL-Library.Product_Lexorder"
begin

text \<open>
  \<^verbatim>\<open>src/tfis/backtest/hsre_s23_trade_lifecycle.py\<close>: the final order of a historical session runs
  over the later bars of its contract, through the simulator and the cost model of \<open>TradeLifecycle\<close>. Fields of the
  packet carry the prefix \<open>zl_\<close>, of the series audit \<open>zs_\<close>, of an event \<open>ze_\<close>, of the points booked \<open>zp_\<close>.
  Hashes, file names and the provenance dictionary are left out.
\<close>

section \<open>The packet\<close>

record series_audit =
  zs_contract :: string
  zs_bar_count :: nat
  zs_first_usable_bar :: "minute_evidence option"
  zs_last_usable_bar :: "minute_evidence option"
  zs_session_high :: "price option"
  zs_session_high_timestamp :: "string option"
  zs_session_low :: "price option"
  zs_session_low_timestamp :: "string option"
  zs_order_start_boundary :: string
  zs_chronology_policy :: string

record lifecycle_event =
  ze_timestamp :: "string option"
  ze_event :: string
  ze_threshold :: "price option"
  ze_price :: "price option"
  ze_bar :: "minute_evidence option"
  ze_target_state :: msg
  ze_stoploss_state :: msg
  ze_notes :: string

record pnl_audit =
  zp_point_pnl_authoritative :: bool
  zp_gross_points :: price
  zp_total_cost_points :: price
  zp_net_points :: price
  zp_cost_model :: msg
  zp_rupee_pnl_status :: string
  zp_rupee_pnl :: "price option"
  zp_rupee_pnl_reason :: string

record lifecycle_packet =
  zl_session_date :: string
  zl_monthly_status :: "string option"
  zl_branch :: "string option"
  zl_contract :: "string option"
  zl_status :: string
  zl_status_reason :: msg
  zl_order_ready_time :: "string option"
  zl_entry_threshold :: "price option"
  zl_initial_target :: "price option"
  zl_initial_stoploss :: "price option"
  zl_entry_triggered :: bool
  zl_trigger_time :: "string option"
  zl_trigger_bar :: "minute_evidence option"
  zl_fill_price :: "price option"
  zl_exit_time :: "string option"
  zl_exit_price :: "price option"
  zl_exit_reason :: "string option"
  zl_series_audit :: "series_audit option"
  zl_lifecycle_events :: "lifecycle_event list"
  zl_lifecycle_result :: "trade_lifecycle_result option"
  zl_pnl :: pnl_audit
  zl_evidence_completeness :: string
  zl_no_lookahead_evidence :: "string list"

definition cost_model_label :: "cost_model \<Rightarrow> msg" where
  "cost_model_label m = (if total_cost_points m = 0 then [Txt ''ZERO/default historical model'']
     else [Txt ''slippage_per_side='', PyFloat (cm_slippage_points_per_side m), Txt ''; brokerage='',
       PyFloat (cm_brokerage_points_per_trade m), Txt ''; other='', PyFloat (cm_other_cost_points_per_trade m)])"

definition zero_pnl :: "cost_model \<Rightarrow> pnl_audit" where
  "zero_pnl m = \<lparr>zp_point_pnl_authoritative = True, zp_gross_points = 0, zp_total_cost_points = 0, zp_net_points = 0,
     zp_cost_model = cost_model_label m, zp_rupee_pnl_status = ''NOT_CERTIFIED'', zp_rupee_pnl = None,
     zp_rupee_pnl_reason = ''No entry triggered; no authoritative historical quantity applied.''\<rparr>"

definition number_or_zero :: "price option \<Rightarrow> price" where
  "number_or_zero x = (case x of Some v \<Rightarrow> v | None \<Rightarrow> 0)"

definition pnl_of :: "cost_model \<Rightarrow> trade_lifecycle_result \<Rightarrow> pnl_audit" where
  "pnl_of m r = (if \<not> tl_entered r then zero_pnl m
     else (zero_pnl m)\<lparr>zp_point_pnl_authoritative := (tl_pnl_points r \<noteq> None),
       zp_gross_points := number_or_zero (tl_gross_pnl_points r), zp_total_cost_points := number_or_zero (tl_total_cost_points r),
       zp_net_points := number_or_zero (tl_net_pnl_points r),
       zp_rupee_pnl_reason := ''Historical Jan-2024 quantity and lot-size effective-date treatment is not certified by this HSRE packet.''\<rparr>)"

definition lifecycle_minimal ::
  "cost_model \<Rightarrow> final_order_packet \<Rightarrow> string \<Rightarrow> msg \<Rightarrow> series_audit option \<Rightarrow> lifecycle_packet" where
  "lifecycle_minimal m f status reason audit = \<lparr>zl_session_date = fo_session_date f, zl_monthly_status = fo_monthly_status f,
     zl_branch = fo_branch f, zl_contract = fo_final_contract f, zl_status = status, zl_status_reason = reason,
     zl_order_ready_time = None, zl_entry_threshold = fo_final_entry f, zl_initial_target = fo_final_target f,
     zl_initial_stoploss = fo_final_stoploss f, zl_entry_triggered = False, zl_trigger_time = None, zl_trigger_bar = None,
     zl_fill_price = None, zl_exit_time = None, zl_exit_price = None, zl_exit_reason = None, zl_series_audit = audit,
     zl_lifecycle_events = [], zl_lifecycle_result = None, zl_pnl = zero_pnl m, zl_evidence_completeness = status,
     zl_no_lookahead_evidence = []\<rparr>"

section \<open>The series of the contract\<close>

text \<open>The highest bar, the latest of equal ones, and the lowest, the earliest of equal ones.\<close>

definition high_bar :: "option_minute_bar list \<Rightarrow> option_minute_bar option" where
  "high_bar bars = (case bars of [] \<Rightarrow> None | b # bs \<Rightarrow> Some (max_by (\<lambda>b. (hb_high b, hb_timestamp b)) b bs))"

definition low_bar :: "option_minute_bar list \<Rightarrow> option_minute_bar option" where
  "low_bar bars = (case bars of [] \<Rightarrow> None | b # bs \<Rightarrow> Some (max_by (\<lambda>b. (- hb_low b, - hb_timestamp b)) b bs))"

definition series_audit_of :: "string \<Rightarrow> option_minute_bar list \<Rightarrow> datetime \<Rightarrow> series_audit" where
  "series_audit_of contract bars order_ready = \<lparr>zs_contract = contract, zs_bar_count = length bars,
     zs_first_usable_bar = (if bars = [] then None else Some (option_evidence (hd bars))),
     zs_last_usable_bar = (if bars = [] then None else Some (option_evidence (last bars))),
     zs_session_high = map_option hb_high (high_bar bars),
     zs_session_high_timestamp = map_option (\<lambda>b. isoformat (hb_timestamp b)) (high_bar bars),
     zs_session_low = map_option hb_low (low_bar bars),
     zs_session_low_timestamp = map_option (\<lambda>b. isoformat (hb_timestamp b)) (low_bar bars),
     zs_order_start_boundary = isoformat order_ready,
     zs_chronology_policy = ''Bars must have timestamp strictly greater than the order-ready timestamp; the 09:24 minute is excluded for a 09:24:59 order.''\<rparr>"

definition find_bar :: "option_minute_bar list \<Rightarrow> datetime option \<Rightarrow> option_minute_bar option" where
  "find_bar bars t = (case t of None \<Rightarrow> None | Some t \<Rightarrow> find (\<lambda>b. hb_timestamp b = t) bars)"

definition ohlc_of :: "option_minute_bar \<Rightarrow> ohlc_bar" where
  "ohlc_of b = \<lparr>bar_timestamp = hb_timestamp b, bar_open = hb_open b, bar_high = hb_high b, bar_low = hb_low b,
     bar_close = hb_close b, bar_volume = Some (of_int (hb_volume b))\<rparr>"

section \<open>The events\<close>

definition ready_event :: "datetime \<Rightarrow> trade_plan \<Rightarrow> lifecycle_event" where
  "ready_event order_ready plan = \<lparr>ze_timestamp = Some (isoformat order_ready), ze_event = ''ORDER_READY'',
     ze_threshold = Some (tp_entry_price plan), ze_price = None, ze_bar = None,
     ze_target_state = [Txt ''target='', PyFloat (tp_target_price plan)], ze_stoploss_state = [Txt ''stoploss='', PyFloat (tp_stoploss_price plan)],
     ze_notes = ''Waiting sell order becomes eligible; exact selected-contract bars before this timestamp are excluded.''\<rparr>"

definition not_triggered_event :: "trade_plan \<Rightarrow> trade_lifecycle_result \<Rightarrow> lifecycle_event" where
  "not_triggered_event plan r = \<lparr>ze_timestamp = None, ze_event = ''ENTRY_NOT_TRIGGERED'', ze_threshold = Some (tp_entry_price plan),
     ze_price = None, ze_bar = None, ze_target_state = [Txt ''not_applicable''], ze_stoploss_state = [Txt ''not_applicable''],
     ze_notes = tl_notes r\<rparr>"

definition triggered_event :: "trade_plan \<Rightarrow> trade_lifecycle_result \<Rightarrow> option_minute_bar option \<Rightarrow> lifecycle_event" where
  "triggered_event plan r entry_bar = \<lparr>ze_timestamp = map_option isoformat (tl_entry_timestamp r), ze_event = ''ENTRY_TRIGGERED'',
     ze_threshold = Some (tp_entry_price plan), ze_price = tl_entry_price r, ze_bar = map_option option_evidence entry_bar,
     ze_target_state = [Txt ''active target='', PyFloat (tp_target_price plan)],
     ze_stoploss_state = [Txt ''active stoploss='', PyFloat (tp_stoploss_price plan)],
     ze_notes = ''Entry comparator: bar.low <= entry_price <= bar.high; fill policy: fill at planned entry_price when OHLC touches entry.''\<rparr>"

definition exit_event :: "trade_lifecycle_result \<Rightarrow> option_minute_bar option \<Rightarrow> lifecycle_event" where
  "exit_event r exit_bar = \<lparr>ze_timestamp = map_option isoformat (tl_exit_timestamp r), ze_event = tl_exit_reason r,
     ze_threshold = tl_exit_price r, ze_price = tl_exit_price r, ze_bar = map_option option_evidence exit_bar,
     ze_target_state = [Txt (if tl_exit_reason r = ''TARGET_HIT'' then ''hit'' else ''not_hit_or_conservative_order'')],
     ze_stoploss_state = [Txt (if tl_exit_reason r = ''STOPLOSS_HIT'' then ''hit'' else ''not_hit'')], ze_notes = tl_notes r\<rparr>"

definition events_of ::
  "datetime \<Rightarrow> trade_plan \<Rightarrow> trade_lifecycle_result \<Rightarrow> option_minute_bar option \<Rightarrow> option_minute_bar option \<Rightarrow> lifecycle_event list" where
  "events_of order_ready plan r entry_bar exit_bar = ready_event order_ready plan #
     (if \<not> tl_entered r then [not_triggered_event plan r]
      else triggered_event plan r entry_bar # (if tl_exit_price r = None then [] else [exit_event r exit_bar]))"

section \<open>The lifecycle of a final order\<close>

definition float_of_option :: "price option \<Rightarrow> price res" where
  "float_of_option x = (case x of Some v \<Rightarrow> Inr v
     | None \<Rightarrow> Inl (TypeError [Txt ''float() argument must be a string or a real number, not NoneType'']))"

definition order_plan :: "option_type \<Rightarrow> price \<Rightarrow> price \<Rightarrow> price \<Rightarrow> trade_plan" where
  "order_plan ot entry target stoploss = \<lparr>tp_strategy_code = ''S23'', tp_symbol = ''NIFTY'', tp_option_type = Some ot,
     tp_start_strike = None, tp_end_strike = None, tp_ideal_premium = None, tp_minimum_premium = None,
     tp_entry_price = entry, tp_stoploss_price = stoploss, tp_target_price = target\<rparr>"

definition lifecycle_status :: "trade_lifecycle_result \<Rightarrow> string \<times> msg" where
  "lifecycle_status r = (if \<not> tl_entered r
     then (''ENTRY_NOT_TRIGGERED'', [Txt ''Entry threshold was never touched by exact selected-contract bars after order activation.''])
     else if tl_exit_price r = None then (''TRADE_OPEN_NO_EXIT'', [Txt (tl_notes r)])
     else (''TRADE_CLOSED'', [Txt (tl_notes r)]))"

definition simulated_packet ::
  "cost_model \<Rightarrow> final_order_packet \<Rightarrow> datetime \<Rightarrow> trade_plan \<Rightarrow> option_minute_bar list \<Rightarrow> series_audit \<Rightarrow> trade_lifecycle_result \<Rightarrow>
   lifecycle_packet" where
  "simulated_packet costs f order_ready plan usable audit lifecycle =
     (let r = apply_with_quantity costs lifecycle None; entry_bar = find_bar usable (tl_entry_timestamp lifecycle);
          exit_bar = find_bar usable (tl_exit_timestamp lifecycle); (status, reason) = lifecycle_status r in
      (lifecycle_minimal costs f status reason (Some audit))\<lparr>zl_order_ready_time := Some (isoformat order_ready),
        zl_entry_threshold := Some (tp_entry_price plan), zl_initial_target := Some (tp_target_price plan),
        zl_initial_stoploss := Some (tp_stoploss_price plan), zl_entry_triggered := tl_entered r,
        zl_trigger_time := map_option isoformat (tl_entry_timestamp r), zl_trigger_bar := map_option option_evidence entry_bar,
        zl_fill_price := tl_entry_price r, zl_exit_time := map_option isoformat (tl_exit_timestamp r),
        zl_exit_price := tl_exit_price r, zl_exit_reason := Some (tl_exit_reason r),
        zl_lifecycle_events := events_of order_ready plan r entry_bar exit_bar, zl_lifecycle_result := Some r,
        zl_pnl := pnl_of costs r, zl_evidence_completeness := ''COMPLETE_FOR_SAME_SESSION_LIFECYCLE'',
        zl_no_lookahead_evidence := [''contract_bars_filtered_to_exact_symbol'', ''contract_bars_filtered_to_timestamp_gt_order_ready_time'',
          ''trade_lifecycle_simulator_processes_sorted_bars_chronologically'', ''target_stoploss_evaluation_starts_only_after_entry_touch'',
          ''same_bar_target_stoploss_ambiguity_uses_existing_conservative_stoploss_policy'']\<rparr>)"

definition run_order ::
  "eod_exit_policy \<Rightarrow> cost_model \<Rightarrow> final_order_packet \<Rightarrow> string \<Rightarrow> price \<Rightarrow> option_identity \<Rightarrow> datetime \<Rightarrow> option_minute_bar list \<Rightarrow>
   lifecycle_packet res" where
  "run_order policy costs f contract entry ident order_ready all_bars =
     (let usable = filter (\<lambda>b. order_ready < hb_timestamp b) all_bars; audit = series_audit_of contract usable order_ready in
      if usable = [] then Inr (lifecycle_minimal costs f ''LIFECYCLE_EVIDENCE_INCOMPLETE''
        [Txt ''No selected-contract bars exist after the final order ready time.''] (Some audit))
      else bindE (float_of_option (fo_final_target f)) (\<lambda>target.
        bindE (float_of_option (fo_final_stoploss f)) (\<lambda>stoploss.
        bindE (mk_trade_plan (order_plan (hi_option_type ident) entry target stoploss)) (\<lambda>plan.
        bindE (mapE (\<lambda>b. mk_ohlc_bar (ohlc_of b)) usable) (\<lambda>ohlc.
        Inr (simulated_packet costs f order_ready plan usable audit (simulate policy plan ohlc)))))))"

definition build_lifecycle :: "market_reads \<Rightarrow> eod_exit_policy \<Rightarrow> cost_model \<Rightarrow> final_order_packet \<Rightarrow> lifecycle_packet res" where
  "build_lifecycle m policy costs f =
     (case (fo_final_contract f, fo_final_entry f) of
        (Some contract, Some entry) \<Rightarrow>
          (case fo_timing f of
             None \<Rightarrow> Inr (lifecycle_minimal costs f ''FINAL_ORDER_NOT_READY'' [Txt ''Final order packet lacks timing authority.''] None)
           | Some timing \<Rightarrow>
               bindE (date_fromisoformat (fo_session_date f)) (\<lambda>d.
               bindE (time_fromisoformat (fy_effective_order_time timing)) (\<lambda>t.
               bindE (parse_nifty_option_symbol contract) (\<lambda>ident.
               bindE (hm_contract_session_bars m d ident) (\<lambda>bars.
               run_order policy costs f contract entry ident (at_time d t) bars)))))
      | _ \<Rightarrow> Inr (lifecycle_minimal costs f ''FINAL_ORDER_NOT_READY'' (fo_status_reason f) None))"

section \<open>The trade of a packet\<close>

lemma mapE_ohlc: "mapE (\<lambda>b. mk_ohlc_bar (ohlc_of b)) bars = Inr ys \<Longrightarrow> ys = map ohlc_of bars"
  by (induction bars arbitrary: ys) (auto simp: bindE_eq_Inr mk_ohlc_bar_ok)

definition later_bars :: "datetime \<Rightarrow> option_minute_bar list \<Rightarrow> ohlc_bar list" where
  "later_bars order_ready bars = sort_key bar_timestamp (map ohlc_of (filter (\<lambda>b. order_ready < hb_timestamp b) bars))"

lemma cost_fields [simp]:
  "tl_entered (apply_with_quantity costs r q) = tl_entered r" "tl_entry_price (apply_with_quantity costs r q) = tl_entry_price r"
  "tl_entry_timestamp (apply_with_quantity costs r q) = tl_entry_timestamp r" "tl_exit_price (apply_with_quantity costs r q) = tl_exit_price r"
  "tl_exit_timestamp (apply_with_quantity costs r q) = tl_exit_timestamp r" "tl_exit_reason (apply_with_quantity costs r q) = tl_exit_reason r"
  by (simp_all add: apply_with_quantity_def Let_def split: option.split)

lemma simulated_fields:
  "tl_entered (simulate policy plan bars) = tl_entered (reference_trade policy plan (sort_key bar_timestamp bars))"
  "tl_entry_price (simulate policy plan bars) = tl_entry_price (reference_trade policy plan (sort_key bar_timestamp bars))"
  "tl_entry_timestamp (simulate policy plan bars) = tl_entry_timestamp (reference_trade policy plan (sort_key bar_timestamp bars))"
  "tl_exit_price (simulate policy plan bars) = tl_exit_price (reference_trade policy plan (sort_key bar_timestamp bars))"
  "tl_exit_timestamp (simulate policy plan bars) = tl_exit_timestamp (reference_trade policy plan (sort_key bar_timestamp bars))"
  "tl_exit_reason (simulate policy plan bars) = tl_exit_reason (reference_trade policy plan (sort_key bar_timestamp bars))"
  "tl_pnl_points (simulate policy plan bars) = tl_pnl_points (reference_trade policy plan (sort_key bar_timestamp bars))"
  by (simp_all flip: simulate_reference [of policy plan bars])

text \<open>What a packet shows of the reference trade.\<close>

definition shows_trade :: "cost_model \<Rightarrow> trade_lifecycle_result \<Rightarrow> lifecycle_packet \<Rightarrow> bool" where
  "shows_trade costs r p \<longleftrightarrow> zl_entry_triggered p = tl_entered r \<and> zl_fill_price p = tl_entry_price r \<and>
     zl_trigger_time p = map_option isoformat (tl_entry_timestamp r) \<and> zl_exit_price p = tl_exit_price r \<and>
     zl_exit_time p = map_option isoformat (tl_exit_timestamp r) \<and> zl_exit_reason p = Some (tl_exit_reason r) \<and>
     zl_status p = fst (lifecycle_status r) \<and>
     map ze_event (zl_lifecycle_events p) = ''ORDER_READY'' # (if \<not> tl_entered r then [''ENTRY_NOT_TRIGGERED'']
       else ''ENTRY_TRIGGERED'' # (if tl_exit_price r = None then [] else [tl_exit_reason r])) \<and>
     zp_net_points (zl_pnl p) = (case tl_pnl_points r of None \<Rightarrow> 0 | Some g \<Rightarrow> g - total_cost_points costs)"

lemma simulated_shows_trade:
  fixes policy bars plan
  defines "r \<equiv> reference_trade policy plan (sort_key bar_timestamp bars)"
  shows "shows_trade costs r (simulated_packet costs f t plan usable audit (simulate policy plan bars))"
proof -
  let ?s = "simulate policy plan bars"
  have fields: "tl_entered ?s = tl_entered r" "tl_entry_price ?s = tl_entry_price r" "tl_entry_timestamp ?s = tl_entry_timestamp r"
    "tl_exit_price ?s = tl_exit_price r" "tl_exit_timestamp ?s = tl_exit_timestamp r" "tl_exit_reason ?s = tl_exit_reason r"
    "tl_pnl_points ?s = tl_pnl_points r"
    by (simp_all only: simulated_fields r_def)
  have status: "fst (lifecycle_status (apply_with_quantity costs ?s None)) = fst (lifecycle_status r)" by (simp add: lifecycle_status_def fields)
  have closed: "tl_pnl_points r = None" if "\<not> tl_entered r"
    using that by (simp add: r_def reference_trade_def Let_def no_entry_result_def split: if_splits prod.splits)
  have net: "zp_net_points (pnl_of costs (apply_with_quantity costs ?s None)) =
      (case tl_pnl_points r of None \<Rightarrow> 0 | Some g \<Rightarrow> g - total_cost_points costs)"
    using closed by (auto simp: pnl_of_def fields zero_pnl_def number_or_zero_def apply_with_quantity_def Let_def split: option.split)
  have events: "map ze_event (events_of t plan (apply_with_quantity costs ?s None) x y) = ''ORDER_READY'' #
      (if \<not> tl_entered r then [''ENTRY_NOT_TRIGGERED'']
       else ''ENTRY_TRIGGERED'' # (if tl_exit_price r = None then [] else [tl_exit_reason r]))" for x y
    by (simp add: events_of_def fields ready_event_def not_triggered_event_def triggered_event_def exit_event_def)
  show ?thesis
    by (simp add: shows_trade_def simulated_packet_def Let_def case_prod_beta fields status net events lifecycle_minimal_def)
qed

lemma lifecycle_runs:
  assumes "build_lifecycle m policy costs f = Inr p" and "fo_timing f = Some tm" and "fo_final_contract f = Some c" and "fo_final_entry f = Some e"
    and "date_fromisoformat (fo_session_date f) = Inr d" and "time_fromisoformat (fy_effective_order_time tm) = Inr t"
    and "parse_nifty_option_symbol c = Inr i" and "hm_contract_session_bars m d i = Inr bars"
  shows "run_order policy costs f c e i (at_time d t) bars = Inr p"
  using assms by (simp add: build_lifecycle_def)

lemma run_order_trade:
  assumes "run_order policy costs f c e i t bars = Inr p" and "filter (\<lambda>b. t < hb_timestamp b) bars \<noteq> []"
    and "fo_final_target f = Some target" and "fo_final_stoploss f = Some stop"
  shows "shows_trade costs (reference_trade policy (order_plan (hi_option_type i) e target stop) (later_bars t bars)) p"
proof -
  let ?usable = "filter (\<lambda>b. t < hb_timestamp b) bars" and ?plan = "order_plan (hi_option_type i) e target stop"
  from assms obtain plan ohlc where o: "mk_trade_plan ?plan = Inr plan" "mapE (\<lambda>b. mk_ohlc_bar (ohlc_of b)) ?usable = Inr ohlc"
    and p: "p = simulated_packet costs f t plan ?usable (series_audit_of c ?usable t) (simulate policy plan ohlc)"
    by (auto simp: run_order_def Let_def float_of_option_def bindE_eq_Inr)
  from o have "plan = ?plan" "ohlc = map ohlc_of ?usable" by (simp_all add: mk_trade_plan_ok mapE_ohlc)
  then show ?thesis unfolding p later_bars_def by (simp only: simulated_shows_trade)
qed




section \<open>Properties\<close>

text \<open>
  A lifecycle that is simulated shows the reference trade of the order over the bars of its contract strictly after
  the order time: entry, exit, status, events and net points are those of the reference.
\<close>
theorem lifecycle_is_reference_trade:
  assumes "build_lifecycle m policy costs f = Inr p" and "fo_timing f = Some tm"
    and "fo_final_contract f = Some c" and "fo_final_entry f = Some e" and "fo_final_target f = Some target" and "fo_final_stoploss f = Some stop"
    and "date_fromisoformat (fo_session_date f) = Inr d" and "time_fromisoformat (fy_effective_order_time tm) = Inr t"
    and "parse_nifty_option_symbol c = Inr i" and "hm_contract_session_bars m d i = Inr bars"
  shows "if filter (\<lambda>b. at_time d t < hb_timestamp b) bars = []
    then zl_status p = ''LIFECYCLE_EVIDENCE_INCOMPLETE'' \<and> \<not> zl_entry_triggered p
    else shows_trade costs (reference_trade policy (order_plan (hi_option_type i) e target stop) (later_bars (at_time d t) bars)) p"
proof -
  have run: "run_order policy costs f c e i (at_time d t) bars = Inr p"
    using lifecycle_runs [OF assms(1-4,7-10)] .
  show ?thesis
  proof (cases "filter (\<lambda>b. at_time d t < hb_timestamp b) bars = []")
    case True
    with run have "p = lifecycle_minimal costs f ''LIFECYCLE_EVIDENCE_INCOMPLETE''
        [Txt ''No selected-contract bars exist after the final order ready time.''] (Some (series_audit_of c [] (at_time d t)))"
      by (simp add: run_order_def Let_def)
    with True show ?thesis by (simp add: lifecycle_minimal_def)
  next
    case False
    with run_order_trade [OF run False assms(5,6)] show ?thesis by simp
  qed
qed


section \<open>Witnesses\<close>

definition free_costs :: cost_model where
  "free_costs = \<lparr>cm_slippage_points_per_side = 0, cm_brokerage_points_per_trade = 0, cm_other_cost_points_per_trade = 0\<rparr>"

text \<open>The recalculated order of the missed session, sold at 456 with its stop at 495, and its contract's bars.\<close>

lemma missed_order_runs:
  assumes "fo_final_target f = Some 228" and "fo_final_stoploss f = Some 495"
  shows "\<exists>p. run_order MARK_NO_EXIT free_costs f c 456 missed_contract (at_time missed_day 33899000000) (missed_bars 59000000) = Inr p"
  using assms
  by (simp add: run_order_def missed_bars_def missed_bar_def Let_def float_of_option_def mk_trade_plan_ok wf_trade_plan_def order_plan_def
      strip_def is_space_def ohlc_of_def mk_ohlc_bar_ok wf_bar_def bindE_eq_Inr at_time_def us_per_day_def)

lemma missed_lifecycle:
  fixes exists planning
  defines "m \<equiv> missed_reads 59000000 [] missed_chain"
  obtains f p where "build_from_base_packet m None missed_folder exists planning missed_base = Inr f"
    and "fo_status f = ''RECALCULATED_ORDER_READY''" and "fo_timing f = Some (timing_authority_of missed_rule planning)"
    and "fo_session_date f = bd_session_date missed_base"
    and "fo_final_contract f = Some ''NIFTY04JAN2423900CE''" and "fo_final_entry f = Some 456"
    and "fo_final_target f = Some 228" and "fo_final_stoploss f = Some 495"
    and "build_lifecycle m MARK_NO_EXIT free_costs f = Inr p"
proof -
  have market: "missed_market 59000000 [] missed_chain m" by (simp add: m_def missed_reads_market)
  obtain f where f: "build_from_base_packet m None missed_folder exists planning missed_base = Inr f"
    "fo_status f = ''RECALCULATED_ORDER_READY''" "fo_final_contract f = Some ''NIFTY04JAN2423900CE''" "fo_final_entry f = Some 456"
    "fo_final_target f = Some 228" "fo_final_stoploss f = Some 495"
    using missed_ready [OF market, of exists planning] by blast
  have tm: "fo_timing f = Some (timing_authority_of missed_rule planning)" "fo_session_date f = bd_session_date missed_base"
    using final_order_timing [OF f(1) _ missed_loads(1)] f(2) by simp_all
  have time: "time_fromisoformat (fy_effective_order_time (timing_authority_of missed_rule planning)) = Inr 33899000000"
    by (simp add: timing_authority_of_def missed_times time_roundtrip valid_time_def us_per_day_def)
  have bars: "hm_contract_session_bars m missed_day missed_contract = Inr (missed_bars 59000000)"
    using market by (simp add: missed_market_def)
  obtain p where "run_order MARK_NO_EXIT free_costs f ''NIFTY04JAN2423900CE'' 456 missed_contract
      (at_time missed_day 33899000000) (missed_bars 59000000) = Inr p"
    using missed_order_runs [OF f(5,6)] by blast
  then have "build_lifecycle m MARK_NO_EXIT free_costs f = Inr p"
    by (simp add: build_lifecycle_def f(3,4) tm missed_session time missed_parses bars)
  with that f tm show thesis by blast
qed

lemma missed_reads_bars: "hm_contract_session_bars (missed_reads s late chain) missed_day i = Inr (missed_bars s @ late)"
  by (simp add: missed_reads_def)


lemma lifecycle_is_reference_trade_witness:
  "\<exists>f p. build_lifecycle (missed_reads 59000000 [] missed_chain) MARK_NO_EXIT free_costs f = Inr p \<and>
     zl_status p = ''TRADE_CLOSED'' \<and> zl_exit_reason p = Some ''STOPLOSS_HIT'' \<and> zp_net_points (zl_pnl p) = - 39"
proof -
  let ?m = "missed_reads 59000000 [] missed_chain"
  obtain f p where f: "fo_timing f = Some (timing_authority_of missed_rule 0)" "fo_session_date f = bd_session_date missed_base"
      "fo_final_contract f = Some ''NIFTY04JAN2423900CE''" "fo_final_entry f = Some 456" "fo_final_target f = Some 228" "fo_final_stoploss f = Some 495"
    and p: "build_lifecycle ?m MARK_NO_EXIT free_costs f = Inr p"
    by (rule missed_lifecycle [of "\<lambda>_. True" 0]) blast
  have day: "date_fromisoformat (fo_session_date f) = Inr missed_day" using missed_session f(2) by simp
  have time: "time_fromisoformat (fy_effective_order_time (timing_authority_of missed_rule 0)) = Inr 33899000000"
    by (simp add: timing_authority_of_def missed_times time_roundtrip valid_time_def us_per_day_def)
  have later: "filter (\<lambda>b. at_time missed_day 33899000000 < hb_timestamp b) (missed_bars 59000000) =
      [missed_bar 59000000 566 450 500, missed_bar 59000000 569 480 495]"
    by (simp add: missed_bars_def missed_bar_def at_time_def)
  have trade: "later_bars (at_time missed_day 33899000000) (missed_bars 59000000) =
      [ohlc_of (missed_bar 59000000 566 450 500), ohlc_of (missed_bar 59000000 569 480 495)]"
    unfolding later_bars_def later by (simp add: ohlc_of_def missed_bar_def)
  have bars: "hm_contract_session_bars ?m missed_day missed_contract = Inr (missed_bars 59000000)"
    by (simp add: missed_reads_bars)
  from lifecycle_is_reference_trade [OF p f(1,3,4,5,6) day time missed_parses bars]
  have "shows_trade free_costs (reference_trade MARK_NO_EXIT (order_plan (hi_option_type missed_contract) 456 228 495)
      [ohlc_of (missed_bar 59000000 566 450 500), ohlc_of (missed_bar 59000000 569 480 495)]) p"
    by (simp add: later trade)
  then have "zl_status p = ''TRADE_CLOSED'' \<and> zl_exit_reason p = Some ''STOPLOSS_HIT'' \<and> zp_net_points (zl_pnl p) = - 39"
    by (simp add: shows_trade_def reference_trade_def held_bars_def from_entry_def price_touched_def hits_exit_def exit_of_def order_plan_def
        ohlc_of_def missed_bar_def lifecycle_status_def no_entry_result_def total_cost_points_def free_costs_def Let_def)
  with p show ?thesis by blast
qed

end
