(* ===== verification/Spec2Isabelle.thy ===== *)
theory Spec2Isabelle
  imports FormulaStack LiveGate PaperBroker TradeLifecycle StrategyPipeline ManagerSpec ContractSelection
    MonthlyLookback MarketStructure Recalculation ProcessLock OrchestratorSpec SessionLifecycleSpec S21Engine LifecycleSupervisor CurrentDayFslTrp
    BacktestSelection HsreLifecycle
begin

text \<open>
  Verification library of the TFIS trading engine (\<^verbatim>\<open>src/tfis\<close>).

  \<^bold>\<open>The program.\<close> TFIS sells index options on a rule sheet. From daily and intraday bars it computes
  market levels and a monthly status; the rule of the status is a set of formulas over the levels
  that give a trade plan; the plan selects a contract of the option chain and becomes an order
  intent, which the risk policy approves or rejects. An approved trade becomes a waiting paper order
  that fills when the contract trades at the planned entry; the filled order becomes a paper
  position that is managed over sessions until its stop-loss, its target or its expiry closes it;
  each outcome is a row of a trade ledger. The broker package adds what a live order needs: a
  durable order state, an idempotency registry, reconciliation with the broker's books, operator
  controls and a gate that is the conjunction of all of them. A backtest simulates the same trade
  on historical bars.

  \<^bold>\<open>The theories, in the order of the imports.\<close>
  \<^item> \<open>Prelude\<close>: Python values, exceptions as values (\<open>exn\<close>, \<open>'a res\<close>), text helpers, dictionaries as
    association lists, the shared lemmas. \<open>Calendar\<close>: dates as ordinals, ISO weeks, month keys.
  \<^item> \<open>Domain\<close>: \<^verbatim>\<open>domain/*.py\<close>, the enumerations and validated dataclasses. \<open>NormalizedEvents\<close>: the
    market events of \<^verbatim>\<open>normalized_events.py\<close> the other components read.
  \<^item> \<open>Formulas\<close>, \<open>FormulaSpec\<close>, \<open>FormulaStack\<close>: \<^verbatim>\<open>formulas/formula_engine.py\<close>, and its grammar with a
    compositional semantics; the parser terminates within its fuel and evaluates exactly that grammar, and under
    the interpreter's recursion limit it may be cut off by a \<^verbatim>\<open>RecursionError\<close> but does not change its result.
  \<^item> \<open>MarketStructure\<close> (\<^verbatim>\<open>market_structure/structure_calculator.py\<close>), \<open>MonthlyStatus\<close> and
    \<open>MonthlyLookback\<close> (\<^verbatim>\<open>monthly_status/\<close>): levels, the status of a month, what an undecided month
    borrows from earlier ones; none of them looks ahead in time.
  \<^item> \<open>StrategyPipeline\<close> (\<^verbatim>\<open>strategy/strategy_evaluator.py\<close>, \<^verbatim>\<open>execution/\<close>, \<^verbatim>\<open>risk/\<close>,
    \<^verbatim>\<open>strategy/offline_pipeline.py\<close>), \<open>Recalculation\<close> (\<^verbatim>\<open>strategy/s23_recalculation.py\<close>),
    \<open>ContractSelection\<close> (\<^verbatim>\<open>paper/contract_selection.py\<close>): from the rule to an order and a contract.
  \<^item> \<open>EvidenceStore\<close> (locale), \<open>BrokerOrders\<close> (\<^verbatim>\<open>broker/broker_order_state.py\<close>), \<open>Idempotency\<close>,
    \<open>Reconciliation\<close>, \<open>Validation\<close> (locale), \<open>LiveControls\<close>, \<open>LiveValidators\<close>, \<open>LiveGate\<close>: the live
    safety package of \<^verbatim>\<open>broker/\<close>. \<open>PaperBroker\<close>: the in-memory broker and the locale of the protocol
    its clients use.
  \<^item> \<open>PositionState\<close>, \<open>PositionLifecycle\<close>: \<^verbatim>\<open>paper/position_state.py\<close> and the abstract lifecycle every
    call of the store refines. \<open>ExpiryCalendar\<close>, \<open>ExpiryGovernance\<close>: \<^verbatim>\<open>paper/expiry_governance.py\<close>, the
    calendar as a locale and as the deterministic calendar. \<open>PaperOrders\<close>: \<^verbatim>\<open>paper/order_state.py\<close> and
    \<^verbatim>\<open>order_finalizer.py\<close>. \<open>TradeLedger\<close>: \<^verbatim>\<open>paper/trade_ledger.py\<close>. \<open>PositionManager\<close>,
    \<open>ManagerSpec\<close>: \<^verbatim>\<open>paper/position_manager.py\<close>, which composes the four stores.
  \<^item> \<open>SessionEvents\<close>, \<open>PaperValidation\<close>, \<open>Guardrails\<close>, \<open>SessionFiles\<close>: \<^verbatim>\<open>paper/session_events.py\<close>,
    \<^verbatim>\<open>paper/validation.py\<close>, \<^verbatim>\<open>paper/guardrails.py\<close> and the files a paper session reads and writes.
    \<open>FillSimulator\<close>: \<^verbatim>\<open>paper/fill_simulator.py\<close>. \<open>Orchestrator\<close>, \<open>OrchestratorSpec\<close>:
    \<^verbatim>\<open>paper/orchestrator.py\<close>, the state machine of one observe-only session and what its runs keep.
    \<open>SessionLifecycle\<close>, \<open>SessionLifecycleSpec\<close>: \<^verbatim>\<open>paper/session_lifecycle.py\<close>, the simulated trade of one
    session. \<open>LifecycleSupervisor\<close>: \<^verbatim>\<open>paper/lifecycle_supervisor.py\<close>, which drives the order store and the
    position manager over the sessions of a trade.
  \<^item> \<open>RuleMatrices\<close>: the S21 and S23 rule sheets of \<^verbatim>\<open>strategy_engine/\<close> and their validation; the sheets'
    formulas are read as sentences of the formula grammar. \<open>S21Engine\<close>: \<^verbatim>\<open>strategy_engine/s21.py\<close>, from
    levels to a ready order. \<open>CurrentDayFslTrp\<close>: the current-day stop-loss and re-entry rows.
  \<^item> \<open>BacktestSelection\<close>: \<^verbatim>\<open>backtest/option_chain.py\<close> and \<^verbatim>\<open>market_metadata/lot_size.py\<close>, the contract
    selector of the historical runs. \<open>HistoricalData\<close>: \<^verbatim>\<open>backtest/nifty_hsre_data_adapter.py\<close>, from the rows of a
    day's file to bars, with the session cache; \<open>IsoText\<close>: the text forms of times it reads.
    \<open>OptionReferences\<close>: \<^verbatim>\<open>backtest/hsre_option_references.py\<close>, the references of a contract from its last
    sessions. \<open>FinalOrder\<close>: \<^verbatim>\<open>backtest/hsre_s23_final_order_decision.py\<close> and \<^verbatim>\<open>entry_missed.py\<close>, from the base
    decision of a session to its final order, recalculated when the entry was missed. \<open>HsreLifecycle\<close>:
    \<^verbatim>\<open>backtest/hsre_s23_trade_lifecycle.py\<close>, the simulated trade of that order.
  \<^item> \<open>TradeLifecycle\<close>: \<^verbatim>\<open>backtest/trade_lifecycle.py\<close> and \<^verbatim>\<open>cost_model.py\<close>. \<open>ProcessLock\<close>:
    \<^verbatim>\<open>runtime/process_lock.py\<close>, sequentially and as interleaved operations of several processes that
    start, exit and crash.

  \<^bold>\<open>How the code's state appears.\<close> A dataclass is a record whose fields carry a prefix named in the
  introduction of its theory; \<open>mk_T r\<close> is the constructor call with the checks of \<^verbatim>\<open>__post_init__\<close>. A
  directory of files is a record of the file contents. Reading, computing and writing are explicit:
  a pure fallible function returns \<open>'a res\<close>, an operation that may raise after it wrote something is a
  function from the directory to the result and the directory, so that what was written stays.
  Each raise is a value of \<open>exn\<close> with the fragments of its message. Clients state what they need of a
  store, validator, calendar or broker as a locale; the model's own definitions interpret it.

  \<^bold>\<open>What the lemmas show.\<close> Validators and constructors: the predicate they accept. Stores: reading
  back, the outcome on every branch, invariants over arbitrary runs of calls (failing ones
  included), refinement of an abstract history or state machine. Loops (formula evaluation,
  contract scan, trade simulation, session processing, lookback): equality with a declarative
  reference that names the first event, bar, contract or window that decides. Step relations
  (\<open>lifecycle_path\<close>, \<open>status_step\<close>, \<open>lock_step\<close>): invariants by rule induction. Where the code does
  something its documentation does not say, the theorem states what the code does.

  \<^bold>\<open>Fuel and termination.\<close> Only the formula parser has fuel: \<open>formula_fuel\<close> is a function of the number
  of tokens and \<open>run_parser_total\<close> shows that it is never exhausted. It has no counterpart in the code: the
  bound of the code is the recursion limit, which \<open>FormulaStack\<close> adds. The tokenizer and the
  searches of the calendar are \<open>function\<close>s with termination proofs (the calendar's end because a
  finite list of holidays cannot cover the week forever); all other loops are structural.

  \<^bold>\<open>Abstractions.\<close> Prices are exact rationals: the binary rounding of floats, NaN and the infinities are
  not modelled. Dates and durations have no bounds, so the \<^verbatim>\<open>OverflowError\<close> of Python's calendar before year 1 and
  past year 9999 does not occur (\<open>ExpiryCalendar\<close>, \<open>OptionReferences\<close>). The recursion limit is modelled for the
  formula parser only. Timestamps are naive, as in the code. The JSON text of a file is its record; the
  field-wise effect of reading it back is modelled. SHA-256, the clock, the process table of the
  operating system and the YAML thresholds are arguments. A single append or file replacement is
  atomic, except in \<open>ProcessLock\<close>, whose steps are the single file operations. The logger and the
  mirror store that does nothing are left out. Text is ASCII. A timestamp that may be aware carries a
  flag, and all aware timestamps are in one time zone. \<^verbatim>\<open>date.fromisoformat\<close> accepts the form
  YYYY-MM-DD only. A reviewer is a function argument. Paths are omitted from messages. A CSV
  file is its header and rows as the reader of the standard library gives them, filed under the date in
  its name, so that the search for files through folders is a look at the dates; \<^verbatim>\<open>float\<close> of the words inf and nan and of digit groups is not modelled.

  \<^bold>\<open>Not modelled.\<close> HTML and Markdown reports, the operator dashboard, the HTTP client of the broker
  API, CSV, Excel and database readers and the scripts around them: input and output without a
  decision of their own. The live ingress and the broker adapters wrap a network protocol that is
  not in the repository. The executor modules of the paper and backtest runners and their
  comparison reports rearrange the results of the modelled parts into report dictionaries.
\<close>

end
